(* ===== verification/Prelude.thy ===== *)
theory Prelude
  imports Complex_Main "HOL-Library.AList"
begin

text \<open>
  Shared vocabulary of the development.

  \<^item> Python strings are \<open>string\<close>, read as sequences of code points below 256;
    \<open>py_strip\<close> is \<open>str.strip()\<close> on them.  Identifiers, keys, event types and error
    codes of the repository are ASCII.  Human-readable messages of errors are not
    modelled; error codes are.
  \<^item> Python dicts and \<open>OrderedDict\<close>s are association lists in insertion order:
    \<open>AList.update\<close> stores (in place, or at the end), \<open>AList.delete\<close> removes,
    \<open>od_move_to_end\<close> and \<open>od_trim\<close> are the \<open>OrderedDict\<close> operations.
  \<^item> A computation that may raise returns \<open>'e + 'a\<close>; \<open>and_then\<close> sequences two of
    them and \<open>traverse\<close> is the list comprehension that stops at the first exception.
  \<^item> JSON values (what \<open>json.loads\<close> produces, with finite floats) are \<open>json\<close>;
    \<open>py_eq\<close> is Python's \<open>==\<close> on them.
  \<^item> Clock readings and durations in seconds are rationals (\<open>seconds\<close>).
\<close>

named_theorems result_simps \<open>rewriting of computations that may raise\<close>
named_theorems dict_simps \<open>ordered dictionaries\<close>

type_synonym seconds = rat

subsection \<open>Computations that may raise\<close>

fun and_then :: "'e + 'a \<Rightarrow> ('a \<Rightarrow> 'e + 'b) \<Rightarrow> 'e + 'b" where
  "and_then (Inl e) f = Inl e"
| "and_then (Inr x) f = f x"

definition check :: "bool \<Rightarrow> 'e \<Rightarrow> 'e + unit" where
  "check b e = (if b then Inr () else Inl e)"

lemma and_then_Inr_iff [result_simps]:
  "and_then r f = Inr y \<longleftrightarrow> (\<exists>x. r = Inr x \<and> f x = Inr y)"
  by (cases r) auto

lemma and_then_Inl_iff [result_simps]:
  "and_then r f = Inl e \<longleftrightarrow> r = Inl e \<or> (\<exists>x. r = Inr x \<and> f x = Inl e)"
  by (cases r) auto

lemma check_Inr_iff [result_simps]: "check b e = Inr u \<longleftrightarrow> b"
  by (simp add: check_def)

lemma check_Inl_iff [result_simps]: "check b e = Inl e' \<longleftrightarrow> \<not> b \<and> e' = e"
  by (auto simp: check_def)

lemma check_True [simp]: "check True e = Inr ()"
  by (simp add: check_def)

lemma check_False [simp]: "check False e = Inl e"
  by (simp add: check_def)

fun need :: "'e \<Rightarrow> 'a option \<Rightarrow> 'e + 'a" where
  "need e None = Inl e"
| "need e (Some x) = Inr x"

lemma need_Inr_iff [result_simps]: "need e v = Inr x \<longleftrightarrow> v = Some x"
  by (cases v) auto

lemma need_Inl_iff [result_simps]: "need e v = Inl e' \<longleftrightarrow> v = None \<and> e' = e"
  by (cases v) auto

lemma and_then_cong [fundef_cong]:
  "r = r' \<Longrightarrow> (\<And>x. r' = Inr x \<Longrightarrow> f x = f' x) \<Longrightarrow> and_then r f = and_then r' f'"
  by (cases r') auto

fun traverse :: "('a \<Rightarrow> 'e + 'b) \<Rightarrow> 'a list \<Rightarrow> 'e + 'b list" where
  "traverse f [] = Inr []"
| "traverse f (x # xs) =
     and_then (f x) (\<lambda>y. and_then (traverse f xs) (\<lambda>ys. Inr (y # ys)))"

lemma traverse_cong [fundef_cong]:
  "xs = xs' \<Longrightarrow> (\<And>x. x \<in> set xs' \<Longrightarrow> f x = f' x) \<Longrightarrow> traverse f xs = traverse f' xs'"
  by (induction xs arbitrary: xs') (auto intro!: and_then_cong)

lemma traverse_Inr_iff:
  "traverse f xs = Inr ys \<longleftrightarrow> list_all2 (\<lambda>x y. f x = Inr y) xs ys"
proof (induction xs arbitrary: ys)
  case Nil
  show ?case by auto
next
  case (Cons x xs)
  show ?case by (cases ys) (auto simp: and_then_Inr_iff Cons.IH)
qed

lemma traverse_Inr_length: "traverse f xs = Inr ys \<Longrightarrow> length ys = length xs"
  by (auto simp: traverse_Inr_iff dest: list_all2_lengthD)

lemma traverse_Inr_set:
  assumes "traverse f xs = Inr ys" and "y \<in> set ys"
  shows "\<exists>x \<in> set xs. f x = Inr y"
  using assms by (induction xs arbitrary: ys) (auto simp: and_then_Inr_iff)

lemma traverse_Inr_map:
  assumes "traverse f xs = Inr ys" and "\<And>x y. x \<in> set xs \<Longrightarrow> f x = Inr y \<Longrightarrow> g y = h x"
  shows "map g ys = map h xs"
  using assms
  by (induction xs arbitrary: ys) (auto simp: and_then_Inr_iff)

lemma traverse_map:
  "(\<And>x. x \<in> set xs \<Longrightarrow> f x = Inr (g x)) \<Longrightarrow> traverse f xs = Inr (map g xs)"
  by (induction xs) auto

text \<open>A loop that runs a check on every element and stops at the first exception.\<close>

definition for_each :: "('a \<Rightarrow> 'e + unit) \<Rightarrow> 'a list \<Rightarrow> 'e + unit" where
  "for_each f xs = and_then (traverse f xs) (\<lambda>_. Inr ())"

lemma for_each_Nil [simp]: "for_each f [] = Inr ()"
  by (simp add: for_each_def)

lemma for_each_Cons [simp]: "for_each f (x # xs) = and_then (f x) (\<lambda>_. for_each f xs)"
  by (cases "f x"; cases "traverse f xs") (auto simp: for_each_def)

lemma for_each_cong [fundef_cong]:
  "xs = xs' \<Longrightarrow> (\<And>x. x \<in> set xs' \<Longrightarrow> f x = f' x) \<Longrightarrow> for_each f xs = for_each f' xs'"
  unfolding for_each_def by (metis traverse_cong)

lemma for_each_Inr_iff [result_simps]:
  "for_each f xs = Inr u \<longleftrightarrow> (\<forall>x \<in> set xs. f x = Inr ())"
  by (induction xs) (auto simp: and_then_Inr_iff)

lemma for_each_InlE:
  assumes "for_each f xs = Inl e" obtains x where "x \<in> set xs" "f x = Inl e"
  using assms by (induction xs) (auto simp: and_then_Inl_iff)

text \<open>A loop over a list that updates a state and may raise.\<close>

fun fold_steps :: "('a \<Rightarrow> 's \<Rightarrow> 'e + 's) \<Rightarrow> 'a list \<Rightarrow> 's \<Rightarrow> 'e + 's" where
  "fold_steps f [] s = Inr s"
| "fold_steps f (x # xs) s = and_then (f x s) (fold_steps f xs)"

lemma fold_steps_inv:
  assumes "fold_steps f xs s = Inr t" and "I s"
    and "\<And>x s s'. x \<in> set xs \<Longrightarrow> I s \<Longrightarrow> f x s = Inr s' \<Longrightarrow> I s'"
  shows "I t"
  using assms
proof (induction xs arbitrary: s)
  case (Cons x xs)
  then obtain s' where "f x s = Inr s'" "fold_steps f xs s' = Inr t"
    by (auto simp: and_then_Inr_iff)
  with Cons show ?case by (metis list.set_intros)
qed simp

lemma fold_steps_done:
  assumes "fold_steps f xs s = Inr t" and "x \<in> set xs"
  shows "\<exists>s s'. f x s = Inr s'"
  using assms by (induction xs arbitrary: s) (auto simp: and_then_Inr_iff)

subsection \<open>Strings\<close>

definition py_space :: "char \<Rightarrow> bool" where
  "py_space c = (c \<in> set [CHR '' '', CHR 0x09, CHR 0x0A, CHR 0x0B, CHR 0x0C, CHR 0x0D,
     CHR 0x1C, CHR 0x1D, CHR 0x1E, CHR 0x1F, CHR 0x85, CHR 0xA0])"

definition py_rstrip :: "string \<Rightarrow> string" where
  "py_rstrip s = rev (dropWhile py_space (rev s))"

definition py_strip :: "string \<Rightarrow> string" where
  "py_strip s = py_rstrip (dropWhile py_space s)"

lemma py_rstrip_Nil [simp]: "py_rstrip [] = []"
  by (simp add: py_rstrip_def)

lemma py_strip_Nil [simp]: "py_strip [] = []"
  by (simp add: py_strip_def)

lemma py_rstrip_eq_takeWhile:
  "\<exists>ws. s = py_rstrip s @ ws \<and> (\<forall>c \<in> set ws. py_space c)"
proof -
  have "rev s = takeWhile py_space (rev s) @ dropWhile py_space (rev s)" by simp
  then have "s = py_rstrip s @ rev (takeWhile py_space (rev s))"
    unfolding py_rstrip_def by (metis rev_append rev_rev_ident)
  then show ?thesis using set_takeWhileD by fastforce
qed

lemma py_rstrip_Nil_iff: "py_rstrip s = [] \<longleftrightarrow> (\<forall>c \<in> set s. py_space c)"
  by (simp add: py_rstrip_def dropWhile_eq_Nil_conv)

lemma py_strip_Nil_iff: "py_strip s = [] \<longleftrightarrow> (\<forall>c \<in> set s. py_space c)"
proof -
  have "(\<forall>c \<in> set (dropWhile py_space s). py_space c) \<longleftrightarrow> (\<forall>c \<in> set s. py_space c)"
  proof (cases "dropWhile py_space s")
    case Nil
    then show ?thesis by (auto simp: dropWhile_eq_Nil_conv dest: set_dropWhileD)
  next
    case (Cons c cs)
    then have "\<not> py_space c"
      using hd_dropWhile [of py_space s] by simp
    moreover have "set (dropWhile py_space s) \<subseteq> set s"
      by (auto dest: set_dropWhileD)
    ultimately show ?thesis using Cons by auto
  qed
  then show ?thesis by (simp add: py_strip_def py_rstrip_Nil_iff)
qed

lemma py_rstrip_last: "s \<noteq> [] \<Longrightarrow> \<not> py_space (last s) \<Longrightarrow> py_rstrip s = s"
  by (cases s rule: rev_cases) (auto simp: py_rstrip_def)

lemma py_rstrip_idem [simp]: "py_rstrip (py_rstrip s) = py_rstrip s"
proof -
  have "dropWhile py_space (dropWhile py_space xs) = dropWhile py_space xs" for xs
    by (induction xs) auto
  then show ?thesis by (simp add: py_rstrip_def)
qed

lemma hd_py_rstrip: "py_rstrip s \<noteq> [] \<Longrightarrow> hd (py_rstrip s) = hd s"
  using py_rstrip_eq_takeWhile [of s] by (metis hd_append2)

lemma py_strip_idem [simp]: "py_strip (py_strip s) = py_strip s"
proof (cases "py_strip s")
  case Nil
  then show ?thesis by simp
next
  case (Cons c cs)
  define t where "t = dropWhile py_space s"
  have ne: "py_rstrip t \<noteq> []" using Cons by (simp add: py_strip_def t_def)
  then have "t \<noteq> []" by auto
  then have "\<not> py_space (hd t)" unfolding t_def by (rule hd_dropWhile)
  with ne have "\<not> py_space (hd (py_rstrip t))" by (simp add: hd_py_rstrip)
  with ne have "dropWhile py_space (py_rstrip t) = py_rstrip t"
    by (cases "py_rstrip t") auto
  then show ?thesis by (simp add: py_strip_def t_def)
qed

text \<open>\<open>str.lower()\<close> on code points below 256.\<close>

definition py_lower_char :: "char \<Rightarrow> char" where
  "py_lower_char c =
     (let n = (of_char c :: nat)
      in if (65 \<le> n \<and> n \<le> 90) \<or> (192 \<le> n \<and> n \<le> 222 \<and> n \<noteq> 215)
         then char_of (n + 32) else c)"

definition py_lower :: "string \<Rightarrow> string" where
  "py_lower = map py_lower_char"

definition str_in :: "string \<Rightarrow> string \<Rightarrow> bool" where
  \<comment> \<open>\<open>needle in haystack\<close>\<close>
  "str_in needle s = list_ex (\<lambda>i. take (length needle) (drop i s) = needle) [0..<Suc (length s)]"

definition starts_with :: "string \<Rightarrow> string \<Rightarrow> bool" where
  "starts_with s p = (take (length p) s = p)"

lemma starts_with_append [simp]: "starts_with (p @ r) p"
  by (simp add: starts_with_def)

lemma starts_withE:
  assumes "starts_with s p" obtains r where "s = p @ r"
  using assms unfolding starts_with_def by (metis append_take_drop_id)

definition ends_with :: "string \<Rightarrow> string \<Rightarrow> bool" where
  "ends_with s p = (length p \<le> length s \<and> drop (length s - length p) s = p)"

text \<open>Truth value and \<open>or\<close>-default of an optional string.\<close>

fun opt_text :: "string option \<Rightarrow> string" where
  "opt_text None = []"
| "opt_text (Some s) = s"

definition nonempty :: "string option \<Rightarrow> bool" where
  \<comment> \<open>the truth value of an optional string\<close>
  "nonempty v \<longleftrightarrow> opt_text v \<noteq> []"

definition opt_str :: "string option \<Rightarrow> string option" where
  \<comment> \<open>strip, and \<open>None\<close> when nothing is left\<close>
  "opt_str v = (let t = py_strip (opt_text v) in if t = [] then None else Some t)"

lemma opt_str_idem [simp]: "opt_str (opt_str v) = opt_str v"
  by (simp add: opt_str_def Let_def)

lemma opt_str_None [simp]: "opt_str None = None"
  by (simp add: opt_str_def)

lemma opt_str_SomeD: "opt_str v = Some t \<Longrightarrow> t \<noteq> [] \<and> py_strip t = t"
  by (auto simp: opt_str_def Let_def split: if_splits)

subsection \<open>Slices\<close>

definition py_tail :: "int \<Rightarrow> 'a list \<Rightarrow> 'a list" where
  \<comment> \<open>\<open>xs[-n:]\<close>\<close>
  "py_tail n xs =
     (if n > 0 then drop (length xs - nat n) xs
      else drop (nat (- n)) xs)"

lemma length_py_tail: "0 < n \<Longrightarrow> int (length (py_tail n xs)) \<le> n"
  by (simp add: py_tail_def)

lemma set_py_tail: "set (py_tail n xs) \<subseteq> set xs"
  by (auto simp: py_tail_def dest: in_set_dropD)

subsection \<open>Ordered dictionaries\<close>

type_synonym ('k, 'v) odict = "('k \<times> 'v) list"

abbreviation keys :: "('k, 'v) odict \<Rightarrow> 'k list" where
  "keys d \<equiv> map fst d"

definition od_move_to_end :: "'k \<Rightarrow> ('k, 'v) odict \<Rightarrow> ('k, 'v) odict" where
  "od_move_to_end k d =
     (case map_of d k of None \<Rightarrow> d | Some v \<Rightarrow> AList.delete k d @ [(k, v)])"

fun od_trim :: "nat \<Rightarrow> ('k, 'v) odict \<Rightarrow> ('k, 'v) odict" where
  \<comment> \<open>\<open>while len(d) > n: d.popitem(last=False)\<close>\<close>
  "od_trim n [] = []"
| "od_trim n (kv # d) = (if length (kv # d) > n then od_trim n d else kv # d)"

lemma od_trim_drop: "od_trim n d = drop (length d - n) d"
  by (induction d) (auto simp: Suc_diff_le)

lemma length_od_trim [dict_simps]: "length (od_trim n d) = min n (length d)"
  by (simp add: od_trim_drop min_def)

lemma od_trim_id [dict_simps]: "length d \<le> n \<Longrightarrow> od_trim n d = d"
  by (simp add: od_trim_drop)

lemma set_od_trim: "set (od_trim n d) \<subseteq> set d"
  by (simp add: od_trim_drop set_drop_subset)

lemma distinct_od_trim: "distinct (keys d) \<Longrightarrow> distinct (keys (od_trim n d))"
  by (simp add: od_trim_drop drop_map [symmetric])

lemma last_od_trim: "n > 0 \<Longrightarrow> d \<noteq> [] \<Longrightarrow> od_trim n d \<noteq> [] \<and> last (od_trim n d) = last d"
  by (cases d) (auto simp: od_trim_drop last_drop)

lemma map_of_od_trim_SomeD:
  assumes "distinct (keys d)" and "map_of (od_trim n d) k = Some v"
  shows "map_of d k = Some v"
proof -
  have "(k, v) \<in> set d"
    using map_of_SomeD [OF assms(2)] set_od_trim [of n d] by blast
  then show ?thesis by (rule map_of_is_SomeI [OF assms(1)])
qed

lemma keys_delete [dict_simps]: "keys (AList.delete k d) = filter (\<lambda>x. x \<noteq> k) (keys d)"
  by (induction d) auto

lemma distinct_keys_move_to_end:
  "distinct (keys d) \<Longrightarrow> distinct (keys (od_move_to_end k d))"
  by (auto simp: od_move_to_end_def keys_delete split: option.split)

lemma set_keys_move_to_end: "set (keys (od_move_to_end k d)) = set (keys d)"
proof (cases "map_of d k")
  case None
  then show ?thesis by (simp add: od_move_to_end_def)
next
  case (Some v)
  then have "k \<in> set (keys d)" by (force dest: map_of_SomeD)
  with Some show ?thesis by (auto simp: od_move_to_end_def keys_delete)
qed

lemma map_of_move_to_end [dict_simps]: "map_of (od_move_to_end k d) = map_of d"
proof (cases "map_of d k")
  case None
  then show ?thesis by (simp add: od_move_to_end_def)
next
  case (Some v)
  then show ?thesis
    by (auto simp: od_move_to_end_def fun_eq_iff map_add_def delete_conv split: option.split)
qed

lemma length_move_to_end:
  assumes "distinct (keys d)" shows "length (od_move_to_end k d) = length d"
proof -
  have "length (keys (od_move_to_end k d)) = length (keys d)"
    using assms
    by (metis distinct_card distinct_keys_move_to_end set_keys_move_to_end)
  then show ?thesis by simp
qed

lemma last_move_to_end: "map_of d k = Some v \<Longrightarrow> last (od_move_to_end k d) = (k, v)"
  by (simp add: od_move_to_end_def)

lemma keys_update: "keys (AList.update k v d) = (if k \<in> set (keys d) then keys d else keys d @ [k])"
  by (simp add: update_keys)

lemma update_new: "k \<notin> set (keys d) \<Longrightarrow> AList.update k v d = d @ [(k, v)]"
  by (induction d) auto

lemma update_same: "map_of d k = Some v \<Longrightarrow> AList.update k v d = d"
  by (induction d) (auto split: if_splits)

lemma delete_absent: "k \<notin> set (keys d) \<Longrightarrow> AList.delete k d = d"
  by (induction d) auto

lemma length_update:
  "length (AList.update k v d) = (if k \<in> set (keys d) then length d else Suc (length d))"
  by (metis keys_update length_append_singleton length_map)

lemma map_of_update [dict_simps]: "map_of (AList.update k v d) = (map_of d)(k \<mapsto> v)"
  by (rule update_conv')

lemma map_of_delete [dict_simps]: "map_of (AList.delete k d) = (map_of d)(k := None)"
  by (rule delete_conv')

lemma map_of_filter_keys:
  assumes "distinct (keys d)"
  shows "map_of (filter P d) k =
    (case map_of d k of Some v \<Rightarrow> if P (k, v) then Some v else None | None \<Rightarrow> None)"
  using assms
proof (induction d)
  case (Cons kv d)
  obtain k' v where kv: "kv = (k', v)" by (cases kv)
  have "map_of (filter P d) k' = None"
    using Cons.prems by (auto simp: kv map_of_eq_None_iff image_iff)
  with Cons show ?case by (auto simp: kv)
qed simp

lemma distinct_keys_filter: "distinct (keys d) \<Longrightarrow> distinct (keys (filter P d))"
  by (rule distinct_map_filter)

end
