(* ===== verification/Transition.thy ===== *)
theory Transition
  imports Prelude
begin

text \<open>
  Components that react to events.  Such a component is a function
  \<open>step :: 's \<Rightarrow> 'e \<Rightarrow> 's \<times> 'r\<close> from a state and an event (a request, a callback, a clock
  tick) to the next state and the reply; \<open>run\<close> feeds it a list of events, so that a list
  is one interleaving of the requests in flight.

  The locales state what a component promises about such runs: \<open>transition_system\<close> an
  invariant that every admissible event keeps, \<open>monotone_system\<close> a preorder along which
  the state only moves forward, \<open>observed_system\<close> a log that the events and replies accumulate
  and an invariant of state and log together, \<open>simulation\<close> an abstract machine that the
  component implements.
\<close>

fun run :: "('s \<Rightarrow> 'e \<Rightarrow> 's \<times> 'r) \<Rightarrow> 's \<Rightarrow> 'e list \<Rightarrow> 's \<times> 'r list" where
  "run step s [] = (s, [])"
| "run step s (e # es) =
     (let (s1, r) = step s e; (s2, rs) = run step s1 es in (s2, r # rs))"

abbreviation run_state :: "('s \<Rightarrow> 'e \<Rightarrow> 's \<times> 'r) \<Rightarrow> 's \<Rightarrow> 'e list \<Rightarrow> 's" where
  "run_state step s es \<equiv> fst (run step s es)"

abbreviation run_replies :: "('s \<Rightarrow> 'e \<Rightarrow> 's \<times> 'r) \<Rightarrow> 's \<Rightarrow> 'e list \<Rightarrow> 'r list" where
  "run_replies step s es \<equiv> snd (run step s es)"

lemma run_Cons_state: "run_state step s (e # es) = run_state step (fst (step s e)) es"
  by (simp add: case_prod_beta Let_def)

lemma run_Cons_replies:
  "run_replies step s (e # es) = snd (step s e) # run_replies step (fst (step s e)) es"
  by (simp add: case_prod_beta Let_def)

lemma run_append_state: "run_state step s (es @ fs) = run_state step (run_state step s es) fs"
  by (induction es arbitrary: s) (simp_all add: run_Cons_state del: run.simps(2))

lemma run_append_replies:
  "run_replies step s (es @ fs) = run_replies step s es @ run_replies step (run_state step s es) fs"
  by (induction es arbitrary: s)
    (simp_all add: run_Cons_state run_Cons_replies del: run.simps(2))

lemma length_run_replies [simp]: "length (run_replies step s es) = length es"
  by (induction es arbitrary: s) (simp_all add: run_Cons_replies del: run.simps(2))

declare run.simps(2) [simp del]

lemmas run_simps = run_Cons_state run_Cons_replies run_append_state run_append_replies

locale transition_system =
  fixes step :: "'s \<Rightarrow> 'e \<Rightarrow> 's \<times> 'r"
    and inv :: "'s \<Rightarrow> bool"
    and admissible :: "'e \<Rightarrow> bool"
  assumes inv_step: "inv s \<Longrightarrow> admissible e \<Longrightarrow> inv (fst (step s e))"
begin

lemma inv_run: "inv s \<Longrightarrow> \<forall>e \<in> set es. admissible e \<Longrightarrow> inv (run_state step s es)"
  by (induction es arbitrary: s) (simp_all add: run_simps inv_step)

lemma reply_from_inv:
  assumes "inv s" and "\<forall>e \<in> set es. admissible e" and "r \<in> set (run_replies step s es)"
  obtains t e where "inv t" "e \<in> set es" "r = snd (step t e)"
  using assms
proof (induction es arbitrary: s thesis)
  case Nil
  then show ?case by simp
next
  case (Cons e es)
  show ?case
  proof (cases "r = snd (step s e)")
    case True
    then show ?thesis using Cons.prems by auto
  next
    case False
    then have "r \<in> set (run_replies step (fst (step s e)) es)"
      using Cons.prems(4) by (simp add: run_simps)
    moreover have "inv (fst (step s e))" using Cons.prems by (simp add: inv_step)
    ultimately show ?thesis using Cons.IH Cons.prems(1,3) by (metis list.set_intros(2))
  qed
qed

end

locale monotone_system = transition_system +
  fixes forward :: "'a \<Rightarrow> 'a \<Rightarrow> bool"
  assumes forward_refl: "forward s s"
    and forward_trans: "forward s t \<Longrightarrow> forward t u \<Longrightarrow> forward s u"
    and forward_step: "inv s \<Longrightarrow> admissible e \<Longrightarrow> forward s (fst (step s e))"
begin

lemma forward_run:
  "inv s \<Longrightarrow> \<forall>e \<in> set es. admissible e \<Longrightarrow> forward s (run_state step s es)"
proof (induction es arbitrary: s)
  case Nil
  show ?case by (simp add: forward_refl)
next
  case (Cons e es)
  then have "inv (fst (step s e))" by (simp add: inv_step)
  with Cons have "forward (fst (step s e)) (run_state step (fst (step s e)) es)" by simp
  with Cons.prems show ?case by (auto simp: run_simps intro: forward_trans forward_step)
qed

end

locale observed_system =
  fixes step :: "'s \<Rightarrow> 'e \<Rightarrow> 's \<times> 'r"
    and inv :: "'s \<Rightarrow> 'l \<Rightarrow> bool"
    and admissible :: "'e \<Rightarrow> bool"
    and observe :: "'l \<Rightarrow> 'e \<Rightarrow> 'r \<Rightarrow> 'l"
  assumes inv_observe:
    "inv s l \<Longrightarrow> admissible e \<Longrightarrow> inv (fst (step s e)) (observe l e (snd (step s e)))"
begin

lemma inv_run_log:
  "inv s l \<Longrightarrow> \<forall>e \<in> set es. admissible e \<Longrightarrow>
    inv (run_state step s es) (foldl (\<lambda>l (e, r). observe l e r) l (zip es (run_replies step s es)))"
  by (induction es arbitrary: s l) (simp_all add: run_simps inv_observe)

end

lemma foldl_snoc_replies:
  "length es = length rs \<Longrightarrow> foldl (\<lambda>l (e, r). l @ [r]) l (zip es rs) = l @ rs"
  by (induction es rs arbitrary: l rule: list_induct2) simp_all

lemma foldl_snoc_events:
  "length es = length rs \<Longrightarrow> foldl (\<lambda>l (e, r). l @ [e]) l (zip es rs) = l @ es"
  by (induction es rs arbitrary: l rule: list_induct2) simp_all

locale simulation =
  fixes step :: "'s \<Rightarrow> 'e \<Rightarrow> 's \<times> 'r"
    and astep :: "'a \<Rightarrow> 'e \<Rightarrow> 'a \<times> 'r"
    and abs :: "'s \<Rightarrow> 'a"
    and inv :: "'s \<Rightarrow> bool"
  assumes sim_inv: "inv s \<Longrightarrow> inv (fst (step s e))"
    and sim_step: "inv s \<Longrightarrow> astep (abs s) e = (abs (fst (step s e)), snd (step s e))"
begin

lemma sim_run:
  "inv s \<Longrightarrow> run astep (abs s) es = (abs (run_state step s es), run_replies step s es)"
proof (induction es arbitrary: s)
  case Nil
  show ?case by simp
next
  case (Cons e es)
  then have "run astep (abs (fst (step s e))) es =
      (abs (run_state step (fst (step s e)) es), run_replies step (fst (step s e)) es)"
    by (simp add: sim_inv)
  then show ?case by (simp add: run.simps(2) sim_step [OF Cons.prems] case_prod_beta)
qed

end

sublocale simulation \<subseteq> transition_system step inv "\<lambda>_. True"
  by unfold_locales (simp add: sim_inv)

end
