(* ===== verification/Json.thy ===== *)
theory Json
  imports Prelude
begin

text \<open>
  The values \<open>json.loads\<close> returns and the operations of the Python language the
  repository applies to them: \<open>==\<close>, \<open>in\<close>, iteration and dictionary lookup, each with
  the exception it raises on a value of the wrong kind.  Floats are finite (rationals);
  the tokens \<open>NaN\<close> and \<open>Infinity\<close> are outside the model.  A JSON object is the
  dictionary of its members in insertion order.
\<close>

datatype py_exn = TypeError | AttributeError | KeyError | ValueError | StopIteration

datatype json =
    JNull
  | JBool bool
  | JInt int
  | JFloat rat
  | JStr string
  | JArr "json list"
  | JObj "(string \<times> json) list"

type_synonym jobj = "(string, json) odict"

definition jget :: "jobj \<Rightarrow> string \<Rightarrow> json" where
  \<comment> \<open>\<open>d.get(k)\<close>\<close>
  "jget d k = (case map_of d k of None \<Rightarrow> JNull | Some v \<Rightarrow> v)"

definition jget_default :: "jobj \<Rightarrow> string \<Rightarrow> json \<Rightarrow> json" where
  \<comment> \<open>\<open>d.get(k, dflt)\<close>\<close>
  "jget_default d k dflt = (case map_of d k of None \<Rightarrow> dflt | Some v \<Rightarrow> v)"

lemma size_member [termination_simp]:
  "(k, v) \<in> set items \<Longrightarrow> size v < Suc (size_list (size_prod (\<lambda>_. 0) size) items)"
  by (induction items) auto

lemma size_elem [termination_simp]: "x \<in> set a \<Longrightarrow> size x < Suc (size_list size a)"
  by (induction a) auto

lemma size_zip_member [termination_simp]:
  "(x, y) \<in> set (zip a b) \<Longrightarrow> size x < Suc (size_list size a)"
  by (drule set_zip_leftD) (induction a; auto)

fun num_of :: "json \<Rightarrow> rat option" where
  "num_of (JBool b) = Some (if b then 1 else 0)"
| "num_of (JInt i) = Some (of_int i)"
| "num_of (JFloat r) = Some r"
| "num_of _ = None"

text \<open>Python's \<open>==\<close>: booleans, integers and floats compare as numbers.\<close>

fun py_eq :: "json \<Rightarrow> json \<Rightarrow> bool" where
  "py_eq JNull y = (y = JNull)"
| "py_eq (JStr s) y = (y = JStr s)"
| "py_eq (JArr a) y =
     (case y of
        JArr b \<Rightarrow> length a = length b \<and> list_all (\<lambda>(v, w). py_eq v w) (zip a b)
      | _ \<Rightarrow> False)"
| "py_eq (JObj a) y =
     (case y of
        JObj b \<Rightarrow> length a = length b \<and>
          list_all (\<lambda>(k, v). case map_of b k of None \<Rightarrow> False | Some w \<Rightarrow> py_eq v w) a
      | _ \<Rightarrow> False)"
| "py_eq x y = (num_of x = num_of y)"

lemma py_eq_str [simp]: "py_eq v (JStr s) \<longleftrightarrow> v = JStr s"
  by (cases v) auto

lemma py_eq_int: "py_eq v (JInt i) \<longleftrightarrow> num_of v = Some (of_int i)"
  by (cases v) auto

text \<open>Lookup of a value used as a dictionary or set key: lists and dicts do not hash.\<close>

fun hash_in :: "json \<Rightarrow> string list \<Rightarrow> py_exn + bool" where
  "hash_in (JArr _) ks = Inl TypeError"
| "hash_in (JObj _) ks = Inl TypeError"
| "hash_in (JStr s) ks = Inr (s \<in> set ks)"
| "hash_in _ ks = Inr False"

lemma hash_in_True: "hash_in v ks = Inr True \<longleftrightarrow> (\<exists>s. v = JStr s \<and> s \<in> set ks)"
  by (cases v) auto

text \<open>Python's \<open>value in container\<close>.\<close>

fun py_in :: "json \<Rightarrow> json \<Rightarrow> py_exn + bool" where
  "py_in v (JArr xs) = Inr (list_ex (py_eq v) xs)"
| "py_in v (JObj d) = hash_in v (keys d)"
| "py_in v (JStr h) = (case v of JStr n \<Rightarrow> Inr (str_in n h) | _ \<Rightarrow> Inl TypeError)"
| "py_in v _ = Inl TypeError"

text \<open>Python's \<open>for x in value\<close>.\<close>

fun py_iter :: "json \<Rightarrow> py_exn + json list" where
  "py_iter (JArr xs) = Inr xs"
| "py_iter (JObj d) = Inr (map (JStr \<circ> fst) d)"
| "py_iter (JStr s) = Inr (map (\<lambda>c. JStr [c]) s)"
| "py_iter _ = Inl TypeError"

fun is_jobj :: "json \<Rightarrow> bool" where
  "is_jobj (JObj _) = True"
| "is_jobj _ = False"

fun jstr_of :: "json \<Rightarrow> string option" where
  "jstr_of (JStr s) = Some s"
| "jstr_of _ = None"

text \<open>The truth value of a JSON value.\<close>

fun truthy :: "json \<Rightarrow> bool" where
  "truthy JNull = False"
| "truthy (JBool b) = b"
| "truthy (JInt i) = (i \<noteq> 0)"
| "truthy (JFloat r) = (r \<noteq> 0)"
| "truthy (JStr s) = (s \<noteq> [])"
| "truthy (JArr xs) = (xs \<noteq> [])"
| "truthy (JObj d) = (d \<noteq> [])"

text \<open>\<open>int(value)\<close>: of a text, decimal digits with an optional sign, single underscores
  between digits and surrounding whitespace (the interpreter's limit of 4300 digits is left out).\<close>

fun int_digits :: "int \<Rightarrow> bool \<Rightarrow> string \<Rightarrow> int option" where
  \<comment> \<open>the flag says that the last character was a digit\<close>
  "int_digits acc ok [] = (if ok then Some acc else None)"
| "int_digits acc ok (c # cs) =
     (let n = (of_char c :: nat) in
      if 48 \<le> n \<and> n \<le> 57 then int_digits (acc * 10 + int (n - 48)) True cs
      else if c = CHR ''_'' \<and> ok then int_digits acc False cs
      else None)"

definition int_of_text :: "string \<Rightarrow> int option" where
  "int_of_text t =
     (case py_strip t of
        [] \<Rightarrow> None
      | c # cs \<Rightarrow>
          if c = CHR ''-'' then map_option uminus (int_digits 0 False cs)
          else if c = CHR ''+'' then int_digits 0 False cs
          else int_digits 0 False (c # cs))"

fun py_int :: "json \<Rightarrow> py_exn + int" where
  "py_int (JBool b) = Inr (if b then 1 else 0)"
| "py_int (JInt i) = Inr i"
| "py_int (JFloat r) = Inr (if r \<ge> 0 then floor r else ceiling r)"
| "py_int (JStr s) = (case int_of_text s of None \<Rightarrow> Inl ValueError | Some i \<Rightarrow> Inr i)"
| "py_int _ = Inl TypeError"

text \<open>\<open>str(value)\<close>; the text of a float, a list or a dict is the argument \<open>repr\<close>.\<close>

fun nat_text :: "nat \<Rightarrow> string" where
  "nat_text n = (if n < 10 then [char_of (48 + n)] else nat_text (n div 10) @ [char_of (48 + n mod 10)])"

declare nat_text.simps [simp del]

definition int_text :: "int \<Rightarrow> string" where
  "int_text i = (if i < 0 then CHR ''-'' # nat_text (nat (- i)) else nat_text (nat i))"

fun py_str :: "(json \<Rightarrow> string) \<Rightarrow> json \<Rightarrow> string" where
  "py_str repr JNull = ''None''"
| "py_str repr (JBool b) = (if b then ''True'' else ''False'')"
| "py_str repr (JInt i) = int_text i"
| "py_str repr (JStr s) = s"
| "py_str repr v = repr v"

definition jopt :: "string option \<Rightarrow> json" where
  "jopt v = (case v of None \<Rightarrow> JNull | Some s \<Rightarrow> JStr s)"

definition text_or_empty :: "(json \<Rightarrow> string) \<Rightarrow> json \<Rightarrow> string" where
  \<comment> \<open>\<open>str(v or "").strip()\<close>\<close>
  "text_or_empty repr v = py_strip (if truthy v then py_str repr v else [])"

definition dict_or_empty :: "(json list \<Rightarrow> py_exn + jobj) \<Rightarrow> json \<Rightarrow> py_exn + jobj" where
  \<comment> \<open>\<open>dict(v or {})\<close>\<close>
  "dict_or_empty dict_of v =
     (if \<not> truthy v then Inr []
      else case v of
          JObj d \<Rightarrow> Inr d
        | JArr xs \<Rightarrow> dict_of xs
        | JStr _ \<Rightarrow> Inl ValueError
        | _ \<Rightarrow> Inl TypeError)"

definition jint_opt :: "int option \<Rightarrow> json" where
  "jint_opt v = (case v of None \<Rightarrow> JNull | Some i \<Rightarrow> JInt i)"

definition jfloat_opt :: "rat option \<Rightarrow> json" where
  "jfloat_opt v = (case v of None \<Rightarrow> JNull | Some r \<Rightarrow> JFloat r)"

end
