(* ===== verification/Playback_Barrier.thy ===== *)
theory Playback_Barrier
  imports Transition Json
begin

text \<open>
  \<open>src/gateway/workflow_playback_barrier.py\<close>: the registry that lets a terminal step wait
  until the client reports the end of a playback.

  Futures are shared objects: the registry, the waiters and the callbacks scheduled on
  event loops refer to them, so the model keeps them in an append-only list.  A future
  remembers the key of the waiter it was created for.  \<open>call_soon_threadsafe\<close> appends to
  \<open>scheduled\<close>, and the event \<open>Deliver\<close> is the loop running the oldest callback.
\<close>

subsection \<open>Data\<close>

definition PLAYBACK_COMPLETE :: string where "PLAYBACK_COMPLETE = ''playback_complete''"
definition PLAYBACK_INTERRUPTED :: string where "PLAYBACK_INTERRUPTED = ''playback_interrupted''"
definition PLAYBACK_CANCELLED :: string where "PLAYBACK_CANCELLED = ''cancelled''"
definition PLAYBACK_TIMEOUT :: string where "PLAYBACK_TIMEOUT = ''timeout''"

definition VALID_REPORT_TYPES :: "string list" where
  "VALID_REPORT_TYPES = [PLAYBACK_COMPLETE, PLAYBACK_INTERRUPTED]"

record barrier_key =
  bk_session_id :: string
  bk_round_id :: string
  bk_playback_id :: string

record barrier_result =
  br_status :: string
  br_key :: barrier_key
  br_reason :: "string option"

type_synonym loop = nat
type_synonym future = nat

record waiting =
  w_key :: barrier_key
  w_result :: "barrier_result option"    \<comment> \<open>the result of the future, once it is set\<close>

record registry =
  cache_ttl_sec :: seconds
  cache_max_entries :: nat
  waiters :: "(barrier_key, loop \<times> future) odict"
  recent :: "(barrier_key, seconds \<times> barrier_result) odict"
  futures :: "waiting list"
  scheduled :: "(future \<times> barrier_result) list"

datatype barrier_error = BlankKey | OtherLoop | BadTimeout | BadConfig

text \<open>What \<open>_complete_future\<close> finds: a loop that runs, one that does not, or one that is
  closed between the two calls (the \<open>RuntimeError\<close> that is ignored).\<close>

datatype loop_state = LoopRunning | LoopIdle | LoopClosed

definition create_key :: "string \<Rightarrow> string \<Rightarrow> string \<Rightarrow> barrier_error + barrier_key" where
  "create_key session_id round_id playback_id =
     (let vals = map py_strip [session_id, round_id, playback_id]
      in if list_all (\<lambda>v. v \<noteq> []) vals
         then Inr \<lparr>bk_session_id = vals ! 0, bk_round_id = vals ! 1, bk_playback_id = vals ! 2\<rparr>
         else Inl BlankKey)"

definition completed :: "barrier_result \<Rightarrow> bool" where
  "completed result = (br_status result = PLAYBACK_COMPLETE)"

definition empty_registry :: "seconds \<Rightarrow> nat \<Rightarrow> registry" where
  "empty_registry ttl max_n =
     \<lparr>cache_ttl_sec = ttl, cache_max_entries = max_n, waiters = [], recent = [], futures = [],
      scheduled = []\<rparr>"

definition new_registry :: "seconds \<Rightarrow> nat \<Rightarrow> barrier_error + registry" where
  "new_registry ttl max_n =
     (if ttl \<le> 0 \<or> max_n < 1 then Inl BadConfig else Inr (empty_registry ttl max_n))"

subsection \<open>Operations\<close>

definition purge_expired :: "seconds \<Rightarrow> registry \<Rightarrow> registry" where
  "purge_expired now reg =
     reg\<lparr>recent := dropWhile (\<lambda>(_, recorded_at, _). \<not> recorded_at > now - cache_ttl_sec reg) (recent reg)\<rparr>"

definition set_result :: "future \<Rightarrow> barrier_result \<Rightarrow> registry \<Rightarrow> registry" where
  \<comment> \<open>\<open>complete()\<close>: a future that is done stays as it is\<close>
  "set_result f result reg =
     (if f < length (futures reg) \<and> w_result (futures reg ! f) = None
      then reg\<lparr>futures := (futures reg)[f := (futures reg ! f)\<lparr>w_result := Some result\<rparr>]\<rparr>
      else reg)"

definition complete_future :: "loop_state \<Rightarrow> future \<Rightarrow> barrier_result \<Rightarrow> registry \<Rightarrow> registry" where
  "complete_future state f result reg =
     (case state of
        LoopRunning \<Rightarrow> reg\<lparr>scheduled := scheduled reg @ [(f, result)]\<rparr>
      | LoopIdle \<Rightarrow> set_result f result reg
      | LoopClosed \<Rightarrow> reg)"

definition deliver :: "registry \<Rightarrow> registry" where
  "deliver reg =
     (case scheduled reg of
        [] \<Rightarrow> reg
      | (f, result) # rest \<Rightarrow> set_result f result (reg\<lparr>scheduled := rest\<rparr>))"

definition prepare ::
  "seconds \<Rightarrow> loop \<Rightarrow> loop_state \<Rightarrow> string \<Rightarrow> string \<Rightarrow> string \<Rightarrow> registry \<Rightarrow>
    registry \<times> (barrier_error + future)" where
  "prepare now loop state session_id round_id playback_id reg =
     (case create_key session_id round_id playback_id of
        Inl e \<Rightarrow> (reg, Inl e)
      | Inr key \<Rightarrow>
          let reg1 = purge_expired now reg in
          (case map_of (waiters reg1) key of
             Some (existing_loop, existing_future) \<Rightarrow>
               if existing_loop \<noteq> loop then (reg1, Inl OtherLoop) else (reg1, Inr existing_future)
           | None \<Rightarrow>
               let f = length (futures reg1);
                   reg2 = reg1\<lparr>futures := futures reg1 @ [\<lparr>w_key = key, w_result = None\<rparr>]\<rparr>
               in case map_of (recent reg1) key of
                    None \<Rightarrow> (reg2\<lparr>waiters := AList.update key (loop, f) (waiters reg2)\<rparr>, Inr f)
                  | Some (_, result) \<Rightarrow> (complete_future state f result reg2, Inr f)))"

definition record_report ::
  "seconds \<Rightarrow> loop_state \<Rightarrow> string \<Rightarrow> string \<Rightarrow> string \<Rightarrow> string \<Rightarrow> string option \<Rightarrow> registry \<Rightarrow>
    registry \<times> (barrier_error + bool)" where
  "record_report now state session_id round_id playback_id report_type reason reg =
     (if report_type \<notin> set VALID_REPORT_TYPES then (reg, Inr False)
      else case create_key session_id round_id playback_id of
          Inl e \<Rightarrow> (reg, Inl e)
        | Inr key \<Rightarrow>
            let result = \<lparr>br_status = report_type, br_key = key, br_reason = reason\<rparr>;
                reg1 = purge_expired now reg
            in if key \<in> set (keys (recent reg1)) then (reg1, Inr False)
               else
                 let waiter = map_of (waiters reg1) key;
                     reg2 = reg1\<lparr>waiters := AList.delete key (waiters reg1),
                       recent := od_trim (cache_max_entries reg1)
                         (od_move_to_end key (AList.update key (now, result) (recent reg1)))\<rparr>
                 in case waiter of
                      None \<Rightarrow> (reg2, Inr False)
                    | Some (_, f) \<Rightarrow> (complete_future state f result reg2, Inr True))"

definition cancel_session :: "loop_state \<Rightarrow> string \<Rightarrow> string \<Rightarrow> registry \<Rightarrow> registry \<times> nat" where
  "cancel_session state session_id reason reg =
     (let safe = py_strip session_id in
      if safe = [] then (reg, 0)
      else
        let hit = filter (\<lambda>(k, _). bk_session_id k = safe) (waiters reg);
            reg1 = reg\<lparr>waiters := filter (\<lambda>(k, _). bk_session_id k \<noteq> safe) (waiters reg),
                       recent := filter (\<lambda>(k, _). bk_session_id k \<noteq> safe) (recent reg)\<rparr>
        in (foldl (\<lambda>r (k, _, f). complete_future state f
              \<lparr>br_status = PLAYBACK_CANCELLED, br_key = k, br_reason = Some reason\<rparr> r) reg1 hit,
            length hit))"

definition barrier_snapshot :: "seconds \<Rightarrow> registry \<Rightarrow> registry \<times> (nat \<times> nat)" where
  "barrier_snapshot now reg =
     (let reg1 = purge_expired now reg in (reg1, (length (waiters reg1), length (recent reg1))))"

definition remove_waiter :: "barrier_key \<Rightarrow> future \<Rightarrow> registry \<Rightarrow> registry" where
  "remove_waiter key f reg =
     (case map_of (waiters reg) key of
        Some (_, g) \<Rightarrow> if g = f then reg\<lparr>waiters := AList.delete key (waiters reg)\<rparr> else reg
      | None \<Rightarrow> reg)"

text \<open>\<open>PlaybackBarrierWaiter.wait\<close>: refused for a bad timeout; otherwise the future's result
  when it is set, and after the timeout the removal of the waiter.\<close>

definition wait_poll :: "seconds \<Rightarrow> future \<Rightarrow> registry \<Rightarrow> barrier_error + barrier_result option" where
  "wait_poll timeout f reg =
     (if timeout \<le> 0 then Inl BadTimeout
      else Inr (if f < length (futures reg) then w_result (futures reg ! f) else None))"

definition wait_timeout :: "future \<Rightarrow> registry \<Rightarrow> registry \<times> barrier_result" where
  "wait_timeout f reg =
     (let w = futures reg ! f
      in case w_result w of
           Some result \<Rightarrow> (reg, result)
         | None \<Rightarrow> (remove_waiter (w_key w) f reg,
             \<lparr>br_status = PLAYBACK_TIMEOUT, br_key = w_key w, br_reason = Some ''timeout''\<rparr>))"

subsection \<open>The registry as a reactive component\<close>

datatype barrier_event =
    Prepare seconds loop loop_state string string string
  | Report seconds loop_state string string string string "string option"
  | CancelSession loop_state string string
  | TimedOut future
  | Deliver
  | BarrierSnapshot seconds

datatype barrier_reply =
    Prepared "barrier_error + future"
  | Reported "barrier_error + bool"
  | SessionCancelled nat
  | Waited barrier_result
  | Delivered
  | Counts nat nat

fun barrier_step :: "registry \<Rightarrow> barrier_event \<Rightarrow> registry \<times> barrier_reply" where
  "barrier_step reg (Prepare now loop state sid rid pid) =
     (let (reg1, r) = prepare now loop state sid rid pid reg in (reg1, Prepared r))"
| "barrier_step reg (Report now state sid rid pid ty reason) =
     (let (reg1, r) = record_report now state sid rid pid ty reason reg in (reg1, Reported r))"
| "barrier_step reg (CancelSession state sid reason) =
     (let (reg1, n) = cancel_session state sid reason reg in (reg1, SessionCancelled n))"
| "barrier_step reg (TimedOut f) =
     (if f < length (futures reg) then let (reg1, r) = wait_timeout f reg in (reg1, Waited r)
      else (reg, Delivered))"
| "barrier_step reg Deliver = (deliver reg, Delivered)"
| "barrier_step reg (BarrierSnapshot now) =
     (let (reg1, w, r) = barrier_snapshot now reg in (reg1, Counts w r))"

end
