(* ===== verification/Playback_Barrier_Facts.thy ===== *)
theory Playback_Barrier_Facts
  imports Playback_Barrier
begin

text \<open>
  The promises of the playback barrier.  \<open>registry_inv Q\<close> is its invariant, for any
  predicate \<open>Q\<close> of the results it holds: a waiter's future is open and is the one created
  for its key, results are for the key they are delivered to, and a key is never both
  waited for and recently reported.
\<close>

definition registry_inv :: "(barrier_result \<Rightarrow> bool) \<Rightarrow> registry \<Rightarrow> bool" where
  "registry_inv Q reg \<longleftrightarrow>
     distinct (keys (recent reg)) \<and> length (recent reg) \<le> cache_max_entries reg \<and>
     distinct (keys (waiters reg)) \<and> set (keys (waiters reg)) \<inter> set (keys (recent reg)) = {} \<and>
     (\<forall>k t r. (k, t, r) \<in> set (recent reg) \<longrightarrow> br_key r = k \<and> Q r) \<and>
     (\<forall>k l f. (k, l, f) \<in> set (waiters reg) \<longrightarrow> f < length (futures reg) \<and>
        w_key (futures reg ! f) = k \<and> w_result (futures reg ! f) = None \<and> f \<notin> fst ` set (scheduled reg)) \<and>
     (\<forall>f r. (f, r) \<in> set (scheduled reg) \<longrightarrow>
        f < length (futures reg) \<and> br_key r = w_key (futures reg ! f) \<and> Q r) \<and>
     (\<forall>f r. f < length (futures reg) \<longrightarrow> w_result (futures reg ! f) = Some r \<longrightarrow>
        br_key r = w_key (futures reg ! f) \<and> Q r)"

lemma registry_invI:
  assumes "distinct (keys (recent reg))" "length (recent reg) \<le> cache_max_entries reg"
    "distinct (keys (waiters reg))" "set (keys (waiters reg)) \<inter> set (keys (recent reg)) = {}"
    "\<And>k t r. (k, t, r) \<in> set (recent reg) \<Longrightarrow> br_key r = k \<and> Q r"
    "\<And>k l f. (k, l, f) \<in> set (waiters reg) \<Longrightarrow> f < length (futures reg) \<and>
        w_key (futures reg ! f) = k \<and> w_result (futures reg ! f) = None \<and> f \<notin> fst ` set (scheduled reg)"
    "\<And>f r. (f, r) \<in> set (scheduled reg) \<Longrightarrow>
        f < length (futures reg) \<and> br_key r = w_key (futures reg ! f) \<and> Q r"
    "\<And>f r. f < length (futures reg) \<Longrightarrow> w_result (futures reg ! f) = Some r \<Longrightarrow>
        br_key r = w_key (futures reg ! f) \<and> Q r"
  shows "registry_inv Q reg"
  unfolding registry_inv_def using assms by blast

lemma registry_invD:
  assumes "registry_inv Q reg"
  shows "distinct (keys (recent reg))" "length (recent reg) \<le> cache_max_entries reg"
    "distinct (keys (waiters reg))" "set (keys (waiters reg)) \<inter> set (keys (recent reg)) = {}"
    "\<And>k t r. (k, t, r) \<in> set (recent reg) \<Longrightarrow> br_key r = k \<and> Q r"
    "\<And>k l f. (k, l, f) \<in> set (waiters reg) \<Longrightarrow> f < length (futures reg) \<and>
        w_key (futures reg ! f) = k \<and> w_result (futures reg ! f) = None \<and> f \<notin> fst ` set (scheduled reg)"
    "\<And>f r. (f, r) \<in> set (scheduled reg) \<Longrightarrow>
        f < length (futures reg) \<and> br_key r = w_key (futures reg ! f) \<and> Q r"
    "\<And>f r. f < length (futures reg) \<Longrightarrow> w_result (futures reg ! f) = Some r \<Longrightarrow>
        br_key r = w_key (futures reg ! f) \<and> Q r"
  using assms unfolding registry_inv_def by blast+

lemma registry_inv_mono:
  assumes "registry_inv Q reg" "\<And>r. Q r \<Longrightarrow> Q' r" shows "registry_inv Q' reg"
  using assms unfolding registry_inv_def by blast

lemma registry_inv_empty: "registry_inv Q (empty_registry ttl max_n)"
  by (simp add: registry_inv_def empty_registry_def)

definition fut_forward :: "registry \<Rightarrow> registry \<Rightarrow> bool" where
  "fut_forward a b \<longleftrightarrow> length (futures a) \<le> length (futures b) \<and>
     (\<forall>f < length (futures a). w_key (futures b ! f) = w_key (futures a ! f) \<and>
        (w_result (futures a ! f) \<noteq> None \<longrightarrow> w_result (futures b ! f) = w_result (futures a ! f)))"

lemma fut_forward_refl [simp]: "fut_forward a a"
  by (simp add: fut_forward_def)

lemma fut_forward_length: "fut_forward a b \<Longrightarrow> length (futures a) \<le> length (futures b)"
  by (simp add: fut_forward_def)

lemma fut_forwardD:
  assumes "fut_forward a b" "f < length (futures a)"
  shows "f < length (futures b)" "w_key (futures b ! f) = w_key (futures a ! f)"
    "w_result (futures a ! f) = Some r \<Longrightarrow> w_result (futures b ! f) = Some r"
  using assms by (auto simp: fut_forward_def)

lemma fut_forwardI:
  assumes "length (futures a) \<le> length (futures b)"
    "\<And>f. f < length (futures a) \<Longrightarrow> w_key (futures b ! f) = w_key (futures a ! f)"
    "\<And>f r. f < length (futures a) \<Longrightarrow> w_result (futures a ! f) = Some r \<Longrightarrow> w_result (futures b ! f) = Some r"
  shows "fut_forward a b"
  using assms by (auto simp: fut_forward_def)

lemma fut_forward_trans: "fut_forward a b \<Longrightarrow> fut_forward b c \<Longrightarrow> fut_forward a c"
  by (rule fut_forwardI) (auto simp: fut_forwardD intro: order_trans dest: fut_forward_length)

lemma fut_forward_same: "futures b = futures a \<Longrightarrow> fut_forward a b"
  by (simp add: fut_forward_def)

subsection \<open>Completing a future\<close>

definition free_future :: "future \<Rightarrow> registry \<Rightarrow> bool" where
  \<comment> \<open>no waiter of the registry has it\<close>
  "free_future f reg \<longleftrightarrow> f < length (futures reg) \<and> (\<forall>(k, l, g) \<in> set (waiters reg). g \<noteq> f)"

lemma set_result_frame [simp]:
  "waiters (set_result f r reg) = waiters reg" "recent (set_result f r reg) = recent reg"
  "scheduled (set_result f r reg) = scheduled reg" "cache_max_entries (set_result f r reg) = cache_max_entries reg"
  "length (futures (set_result f r reg)) = length (futures reg)"
  by (simp_all add: set_result_def)

lemma w_key_set_result [simp]: "w_key (futures (set_result f r reg) ! g) = w_key (futures reg ! g)"
  by (cases "g = f") (auto simp: set_result_def)

lemma set_result_other [simp]: "g \<noteq> f \<Longrightarrow> futures (set_result f r reg) ! g = futures reg ! g"
  by (simp add: set_result_def)

lemma set_result_forward: "fut_forward reg (set_result f r reg)"
proof (rule fut_forwardI)
  fix g r' assume "g < length (futures reg)" "w_result (futures reg ! g) = Some r'"
  then show "w_result (futures (set_result f r reg) ! g) = Some r'"
    by (cases "g = f") (simp_all add: set_result_def)
qed simp_all

lemma set_result_value:
  assumes "w_result (futures (set_result f r reg) ! g) = Some r'"
  shows "w_result (futures reg ! g) = Some r' \<or> (g = f \<and> r' = r)"
  using assms by (cases "g = f") (auto simp: set_result_def split: if_splits)

lemma set_result_inv:
  assumes inv: "registry_inv Q reg" and f: "free_future f reg" and r: "br_key r = w_key (futures reg ! f)" "Q r"
  shows "registry_inv Q (set_result f r reg)"
proof (rule registry_invI)
  note I = registry_invD [OF inv]
  fix k l g assume w: "(k, l, g) \<in> set (waiters (set_result f r reg))"
  then have "g \<noteq> f" using f by (auto simp: free_future_def)
  with w I(6) [of k l g] show "g < length (futures (set_result f r reg)) \<and>
      w_key (futures (set_result f r reg) ! g) = k \<and> w_result (futures (set_result f r reg) ! g) = None \<and>
      g \<notin> fst ` set (scheduled (set_result f r reg))" by simp
next
  note I = registry_invD [OF inv]
  fix g r' assume "g < length (futures (set_result f r reg))" "w_result (futures (set_result f r reg) ! g) = Some r'"
  then show "br_key r' = w_key (futures (set_result f r reg) ! g) \<and> Q r'"
    using I(8) [of g r'] set_result_value [of f r reg g r'] r by auto
qed (use registry_invD [OF inv] in simp_all)

lemma complete_future_frame [simp]:
  "waiters (complete_future st f r reg) = waiters reg" "recent (complete_future st f r reg) = recent reg"
  "cache_max_entries (complete_future st f r reg) = cache_max_entries reg"
  "length (futures (complete_future st f r reg)) = length (futures reg)"
  "w_key (futures (complete_future st f r reg) ! g) = w_key (futures reg ! g)"
  by (cases st; simp add: complete_future_def)+

lemma complete_future_forward: "fut_forward reg (complete_future st f r reg)"
  by (cases st) (auto simp: complete_future_def set_result_forward fut_forward_same)

lemma complete_future_inv:
  assumes inv: "registry_inv Q reg" and f: "free_future f reg" and r: "br_key r = w_key (futures reg ! f)" "Q r"
  shows "registry_inv Q (complete_future st f r reg)"
proof (cases st)
  case LoopRunning
  note I = registry_invD [OF inv]
  have "registry_inv Q (reg\<lparr>scheduled := scheduled reg @ [(f, r)]\<rparr>)"
  proof (rule registry_invI)
    fix k l g assume w: "(k, l, g) \<in> set (waiters (reg\<lparr>scheduled := scheduled reg @ [(f, r)]\<rparr>))"
    then have "g \<noteq> f" using f by (auto simp: free_future_def)
    with w I(6) [of k l g] show "g < length (futures (reg\<lparr>scheduled := scheduled reg @ [(f, r)]\<rparr>)) \<and>
        w_key (futures (reg\<lparr>scheduled := scheduled reg @ [(f, r)]\<rparr>) ! g) = k \<and>
        w_result (futures (reg\<lparr>scheduled := scheduled reg @ [(f, r)]\<rparr>) ! g) = None \<and>
        g \<notin> fst ` set (scheduled (reg\<lparr>scheduled := scheduled reg @ [(f, r)]\<rparr>))" by simp
  next
    fix g r' assume "(g, r') \<in> set (scheduled (reg\<lparr>scheduled := scheduled reg @ [(f, r)]\<rparr>))"
    then show "g < length (futures (reg\<lparr>scheduled := scheduled reg @ [(f, r)]\<rparr>)) \<and>
        br_key r' = w_key (futures (reg\<lparr>scheduled := scheduled reg @ [(f, r)]\<rparr>) ! g) \<and> Q r'"
      using I(7) [of g r'] r f by (auto simp: free_future_def)
  qed (use I in simp_all)
  with LoopRunning show ?thesis by (simp add: complete_future_def)
qed (use set_result_inv [OF assms] inv in \<open>simp_all add: complete_future_def\<close>)

subsection \<open>The operations keep the invariant\<close>

lemma purge_frame [simp]:
  "waiters (purge_expired now reg) = waiters reg" "futures (purge_expired now reg) = futures reg"
  "scheduled (purge_expired now reg) = scheduled reg" "cache_max_entries (purge_expired now reg) = cache_max_entries reg"
  by (simp_all add: purge_expired_def)

lemma distinct_keys_dropWhile: "distinct (keys d) \<Longrightarrow> distinct (keys (dropWhile P d))"
  by (induction d) auto

lemma purge_inv: assumes inv: "registry_inv Q reg" shows "registry_inv Q (purge_expired now reg)"
proof (rule registry_invI)
  note I = registry_invD [OF inv]
  have sub: "set (recent (purge_expired now reg)) \<subseteq> set (recent reg)"
    by (auto simp: purge_expired_def dest: set_dropWhileD)
  show "distinct (keys (recent (purge_expired now reg)))"
    using I(1) by (simp add: purge_expired_def distinct_keys_dropWhile)
  show "length (recent (purge_expired now reg)) \<le> cache_max_entries (purge_expired now reg)"
    using I(2) length_dropWhile_le [of _ "recent reg"] by (simp add: purge_expired_def) (rule le_trans)
  show "set (keys (waiters (purge_expired now reg))) \<inter> set (keys (recent (purge_expired now reg))) = {}"
    using I(4) sub by (simp add: disjoint_iff) blast
  show "br_key r = k \<and> Q r" if "(k, t, r) \<in> set (recent (purge_expired now reg))" for k t r
    using that sub I(5) by blast
qed (use registry_invD [OF inv] in simp_all)

lemma deliver_inv: assumes "registry_inv Q reg" shows "registry_inv Q (deliver reg) \<and> fut_forward reg (deliver reg)"
proof (cases "scheduled reg")
  case Nil
  with assms show ?thesis by (simp add: deliver_def)
next
  case (Cons s rest)
  obtain f r where s: "s = (f, r)" by fastforce
  let ?reg = "reg\<lparr>scheduled := rest\<rparr>"
  note I = registry_invD [OF assms]
  have sub: "set rest \<subseteq> set (scheduled reg)" and head: "(f, r) \<in> set (scheduled reg)"
    using Cons s by auto
  have inv: "registry_inv Q ?reg"
  proof (rule registry_invI)
    fix k l g assume "(k, l, g) \<in> set (waiters ?reg)"
    with I(6) [of k l g] sub show "g < length (futures ?reg) \<and> w_key (futures ?reg ! g) = k \<and>
        w_result (futures ?reg ! g) = None \<and> g \<notin> fst ` set (scheduled ?reg)" by auto
  next
    fix g r' assume "(g, r') \<in> set (scheduled ?reg)"
    with I(7) [of g r'] sub show "g < length (futures ?reg) \<and> br_key r' = w_key (futures ?reg ! g) \<and> Q r'" by auto
  qed (use I in simp_all)
  have "g \<noteq> f" if "(k, l, g) \<in> set (waiters reg)" for k l g
    using I(6) [OF that] head by force
  then have "free_future f ?reg" "br_key r = w_key (futures ?reg ! f)" "Q r"
    using I(7) [OF head] by (auto simp: free_future_def)
  note set_result_inv [OF inv this]
  moreover have "fut_forward reg (set_result f r ?reg)"
    by (rule fut_forward_trans [OF fut_forward_same set_result_forward]) simp
  ultimately show ?thesis using Cons s by (simp add: deliver_def)
qed

lemma waiter_future:
  assumes "registry_inv Q reg" "map_of (waiters reg) k = Some (l, f)"
  shows "f < length (futures reg)" "w_key (futures reg ! f) = k" "w_result (futures reg ! f) = None"
  using registry_invD(6) [OF assms(1) map_of_SomeD [OF assms(2)]] by simp_all

abbreviation add_future :: "barrier_key \<Rightarrow> registry \<Rightarrow> registry" where
  "add_future k reg \<equiv> reg\<lparr>futures := futures reg @ [\<lparr>w_key = k, w_result = None\<rparr>]\<rparr>"

lemma add_future_inv:
  assumes inv: "registry_inv Q reg" shows "registry_inv Q (add_future k reg)"
proof (rule registry_invI)
  note I = registry_invD [OF inv]
  show "g < length (futures (add_future k reg)) \<and> w_key (futures (add_future k reg) ! g) = k' \<and>
      w_result (futures (add_future k reg) ! g) = None \<and> g \<notin> fst ` set (scheduled (add_future k reg))"
    if "(k', l, g) \<in> set (waiters (add_future k reg))" for k' l g
    using I(6) [of k' l g] that by (simp add: nth_append)
  show "g < length (futures (add_future k reg)) \<and> br_key r = w_key (futures (add_future k reg) ! g) \<and> Q r"
    if "(g, r) \<in> set (scheduled (add_future k reg))" for g r
    using I(7) [of g r] that by (simp add: nth_append)
  show "br_key r = w_key (futures (add_future k reg) ! g) \<and> Q r"
    if "g < length (futures (add_future k reg))" "w_result (futures (add_future k reg) ! g) = Some r" for g r
    using I(8) [of g r] that by (auto simp: nth_append less_Suc_eq)
qed (use registry_invD [OF inv] in simp_all)

lemma add_future_forward: "fut_forward reg (add_future k reg)"
  by (rule fut_forwardI) (simp_all add: nth_append)

lemma prepare_cases:
  assumes inv: "registry_inv Q reg" and ex: "prepare now l st sid rid pid reg = (reg1, out)"
  obtains (Blank) "create_key sid rid pid = Inl BlankKey" "reg1 = reg" "out = Inl BlankKey"
  | (Shared) key l' f where "create_key sid rid pid = Inr key" "reg1 = purge_expired now reg"
      "map_of (waiters reg) key = Some (l', f)" "out = (if l' \<noteq> l then Inl OtherLoop else Inr f)"
  | (Cached) key t r where "create_key sid rid pid = Inr key" "map_of (waiters reg) key = None"
      "map_of (recent (purge_expired now reg)) key = Some (t, r)" "out = Inr (length (futures reg))"
      "reg1 = complete_future st (length (futures reg)) r (add_future key (purge_expired now reg))"
  | (Fresh) key where "create_key sid rid pid = Inr key" "map_of (waiters reg) key = None"
      "map_of (recent (purge_expired now reg)) key = None" "out = Inr (length (futures reg))"
      "reg1 = (add_future key (purge_expired now reg))
         \<lparr>waiters := AList.update key (l, length (futures reg)) (waiters reg)\<rparr>"
proof (cases "create_key sid rid pid")
  case (Inl e)
  then have "e = BlankKey" by (auto simp: create_key_def Let_def split: if_splits)
  with Inl ex show thesis by (intro Blank) (auto simp: prepare_def)
next
  case (Inr key)
  show thesis
  proof (cases "map_of (waiters reg) key")
    case (Some w)
    obtain l' f where "w = (l', f)" by fastforce
    with Some Inr ex show thesis by (intro Shared) (auto simp: prepare_def Let_def split: if_splits)
  next
    case None
    show thesis
    proof (cases "map_of (recent (purge_expired now reg)) key")
      case (Some tr)
      obtain t r where "tr = (t, r)" by fastforce
      with Some None Inr ex show thesis by (intro Cached) (auto simp: prepare_def Let_def)
    next
      case no_report: None
      with None Inr ex show thesis by (intro Fresh) (auto simp: prepare_def Let_def)
    qed
  qed
qed

lemma add_waiter_inv:
  assumes inv: "registry_inv Q reg" and k: "map_of (waiters reg) k = None" "map_of (recent reg) k = None"
  shows "registry_inv Q ((add_future k reg)\<lparr>waiters := AList.update k (l, length (futures reg)) (waiters reg)\<rparr>)"
    (is "registry_inv Q ?reg1")
proof (rule registry_invI)
  note I = registry_invD [OF inv]
  note A = registry_invD [OF add_future_inv [OF inv, of k]]
  have notin: "k \<notin> set (keys (waiters reg))" "k \<notin> set (keys (recent reg))"
    using k by (simp_all add: map_of_eq_None_iff)
  then have upd: "AList.update k (l, length (futures reg)) (waiters reg) =
      waiters reg @ [(k, l, length (futures reg))]"
    by (simp add: update_new)
  show "distinct (keys (waiters ?reg1))" using I(3) by (simp add: distinct_update)
  show "set (keys (waiters ?reg1)) \<inter> set (keys (recent ?reg1)) = {}"
    using I(4) notin by (auto simp: upd)
  have fresh: "length (futures reg) \<notin> fst ` set (scheduled reg)" using I(7) by fastforce
  show "f < length (futures ?reg1) \<and> w_key (futures ?reg1 ! f) = k' \<and> w_result (futures ?reg1 ! f) = None \<and>
      f \<notin> fst ` set (scheduled ?reg1)" if "(k', l', f) \<in> set (waiters ?reg1)" for k' l' f
  proof (cases "(k', l', f) \<in> set (waiters reg)")
    case True
    then show ?thesis using A(6) [of k' l' f] by simp
  next
    case False
    with that upd have "k' = k" "f = length (futures reg)" by auto
    with fresh show ?thesis by simp
  qed
qed (use registry_invD [OF add_future_inv [OF inv, of k]] in simp_all)

lemma purge_forward: "fut_forward reg (purge_expired now reg)"
  by (rule fut_forward_same) simp

lemma prepare_inv:
  assumes inv: "registry_inv Q reg" and ex: "prepare now l st sid rid pid reg = (reg1, out)"
  shows "registry_inv Q reg1 \<and> fut_forward reg reg1"
  using assms
proof (cases rule: prepare_cases)
  case Blank
  with inv show ?thesis by simp
next
  case (Shared key l' f)
  with purge_inv [OF inv] purge_forward show ?thesis by simp
next
  case (Cached key t r)
  let ?p = "purge_expired now reg" and ?f = "length (futures reg)"
  note P = purge_inv [OF inv, of now]
  note A = add_future_inv [OF P, of key]
  have "(key, t, r) \<in> set (recent ?p)" using Cached(3) by (rule map_of_SomeD)
  with registry_invD(5) [OF P] have r: "br_key r = key" "Q r" by blast+
  have "g \<noteq> ?f" if "(k, l, g) \<in> set (waiters reg)" for k l g
    using registry_invD(6) [OF inv that] by auto
  then have "free_future ?f (add_future key ?p)" by (auto simp: free_future_def)
  from complete_future_inv [OF A this] r have "registry_inv Q reg1" by (simp add: Cached(5))
  moreover have "fut_forward reg reg1"
    unfolding Cached(5)
    by (rule fut_forward_trans [OF purge_forward
          fut_forward_trans [OF add_future_forward complete_future_forward]])
  ultimately show ?thesis by simp
next
  case (Fresh key)
  let ?p = "purge_expired now reg"
  note P = purge_inv [OF inv, of now]
  have "registry_inv Q reg1" using add_waiter_inv [OF P, of key l] Fresh by simp
  have "fut_forward (add_future key ?p) reg1" unfolding Fresh(5) by (rule fut_forward_same) simp
  note fut_forward_trans [OF purge_forward fut_forward_trans [OF add_future_forward this]]
  with \<open>registry_inv Q reg1\<close> show ?thesis by simp
qed

lemma delete_waiter_inv:
  assumes inv: "registry_inv Q reg" shows "registry_inv Q (reg\<lparr>waiters := AList.delete k (waiters reg)\<rparr>)"
proof (rule registry_invI)
  note I = registry_invD [OF inv]
  have sub: "set (AList.delete k (waiters reg)) \<subseteq> set (waiters reg)" by (auto simp: AList.delete_eq)
  show "distinct (keys (waiters (reg\<lparr>waiters := AList.delete k (waiters reg)\<rparr>)))"
    using I(3) by (simp add: distinct_delete)
  show "set (keys (waiters (reg\<lparr>waiters := AList.delete k (waiters reg)\<rparr>))) \<inter>
      set (keys (recent (reg\<lparr>waiters := AList.delete k (waiters reg)\<rparr>))) = {}"
    using I(4) sub by (simp add: disjoint_iff) blast
  fix k' l f assume "(k', l, f) \<in> set (waiters (reg\<lparr>waiters := AList.delete k (waiters reg)\<rparr>))"
  then have "(k', l, f) \<in> set (waiters reg)" using sub by auto
  from I(6) [OF this] show "f < length (futures (reg\<lparr>waiters := AList.delete k (waiters reg)\<rparr>)) \<and>
      w_key (futures (reg\<lparr>waiters := AList.delete k (waiters reg)\<rparr>) ! f) = k' \<and>
      w_result (futures (reg\<lparr>waiters := AList.delete k (waiters reg)\<rparr>) ! f) = None \<and>
      f \<notin> fst ` set (scheduled (reg\<lparr>waiters := AList.delete k (waiters reg)\<rparr>))" by simp
qed (use registry_invD [OF inv] in simp_all)

abbreviation remember :: "seconds \<Rightarrow> barrier_result \<Rightarrow> registry \<Rightarrow> registry" where
  "remember now r reg \<equiv> reg\<lparr>waiters := AList.delete (br_key r) (waiters reg),
     recent := od_trim (cache_max_entries reg)
       (od_move_to_end (br_key r) (AList.update (br_key r) (now, r) (recent reg)))\<rparr>"

lemma set_move_to_end_sub: "set (od_move_to_end k d) \<subseteq> set d"
  by (auto simp: od_move_to_end_def AList.delete_eq dest: map_of_SomeD split: option.splits)

lemma remember_inv:
  assumes inv: "registry_inv Q reg" and k: "br_key r \<notin> set (keys (recent reg))" and r: "Q r"
  shows "registry_inv Q (remember now r reg)"
proof (rule registry_invI)
  note I = registry_invD [OF inv]
  note D = registry_invD [OF delete_waiter_inv [OF inv, of "br_key r"]]
  let ?d = "AList.update (br_key r) (now, r) (recent reg)"
  have dist: "distinct (keys ?d)" using I(1) by (rule distinct_update)
  have upd: "?d = recent reg @ [(br_key r, now, r)]"
    using k by (simp add: update_new)
  have sub: "set (recent (remember now r reg)) \<subseteq> set (recent reg @ [(br_key r, now, r)])"
    using set_od_trim [of "cache_max_entries reg" "od_move_to_end (br_key r) ?d"]
      set_move_to_end_sub [of "br_key r" ?d] by (simp add: upd)
  show "distinct (keys (recent (remember now r reg)))"
    using distinct_od_trim [OF distinct_keys_move_to_end [OF dist]] by simp
  show "length (recent (remember now r reg)) \<le> cache_max_entries (remember now r reg)"
    by (simp add: length_od_trim)
  have rest: "set (keys (waiters (remember now r reg))) = set (keys (waiters reg)) - {br_key r}"
    by (auto simp: keys_delete)
  have "set (keys (recent (remember now r reg))) \<subseteq> insert (br_key r) (set (keys (recent reg)))"
    using image_mono [OF sub, of fst] by (simp only: set_map) auto
  with I(4) show "set (keys (waiters (remember now r reg))) \<inter> set (keys (recent (remember now r reg))) = {}"
    unfolding rest by blast
  show "br_key r' = k \<and> Q r'" if "(k, t, r') \<in> set (recent (remember now r reg))" for k t r'
    using that sub I(5) r by auto
  show "distinct (keys (waiters (remember now r reg)))" using D(3) by simp
  show "f < length (futures (remember now r reg)) \<and> w_key (futures (remember now r reg) ! f) = k \<and>
      w_result (futures (remember now r reg) ! f) = None \<and> f \<notin> fst ` set (scheduled (remember now r reg))"
    if "(k, l, f) \<in> set (waiters (remember now r reg))" for k l f
    using D(6) [of k l f] that by simp
  show "f < length (futures (remember now r reg)) \<and> br_key r' = w_key (futures (remember now r reg) ! f) \<and> Q r'"
    if "(f, r') \<in> set (scheduled (remember now r reg))" for f r'
    using I(7) [of f r'] that by simp
  show "br_key r' = w_key (futures (remember now r reg) ! f) \<and> Q r'"
    if "f < length (futures (remember now r reg))" "w_result (futures (remember now r reg) ! f) = Some r'" for f r'
    using I(8) [of f r'] that by simp
qed

lemma record_report_cases:
  assumes ex: "record_report now st sid rid pid ty reason reg = (reg1, out)"
  obtains (Unknown) "ty \<notin> set VALID_REPORT_TYPES" "reg1 = reg" "out = Inr False"
  | (Blank) "create_key sid rid pid = Inl BlankKey" "reg1 = reg" "out = Inl BlankKey"
  | (Repeated) key where "ty \<in> set VALID_REPORT_TYPES" "create_key sid rid pid = Inr key"
      "key \<in> set (keys (recent (purge_expired now reg)))" "reg1 = purge_expired now reg" "out = Inr False"
  | (Early) key r where "ty \<in> set VALID_REPORT_TYPES" "create_key sid rid pid = Inr key"
      "key \<notin> set (keys (recent (purge_expired now reg)))" "map_of (waiters reg) key = None"
      "r = \<lparr>br_status = ty, br_key = key, br_reason = reason\<rparr>"
      "reg1 = remember now r (purge_expired now reg)" "out = Inr False"
  | (Matched) key r l f where "ty \<in> set VALID_REPORT_TYPES" "create_key sid rid pid = Inr key"
      "key \<notin> set (keys (recent (purge_expired now reg)))" "map_of (waiters reg) key = Some (l, f)"
      "r = \<lparr>br_status = ty, br_key = key, br_reason = reason\<rparr>"
      "reg1 = complete_future st f r (remember now r (purge_expired now reg))" "out = Inr True"
proof (cases "ty \<in> set VALID_REPORT_TYPES")
  case False
  with ex show thesis by (intro Unknown) (auto simp: record_report_def)
next
  case True
  show thesis
  proof (cases "create_key sid rid pid")
    case (Inl e)
    then have "e = BlankKey" by (auto simp: create_key_def Let_def split: if_splits)
    with True Inl ex show thesis by (intro Blank) (auto simp: record_report_def)
  next
    case (Inr key)
    note ex' = ex [unfolded record_report_def Let_def Inr sum.case]
    show thesis
    proof (cases "key \<in> set (keys (recent (purge_expired now reg)))")
      case seen: True
      with True Inr ex' show thesis by (intro Repeated) (auto split: if_splits)
    next
      case new: False
      show thesis
      proof (cases "map_of (waiters reg) key")
        case None
        with True Inr new ex' show thesis by (intro Early [OF _ _ _ _ refl]) auto
      next
        case (Some w)
        obtain l f where "w = (l, f)" by fastforce
        with Some True Inr new ex' show thesis by (intro Matched [OF _ _ _ _ refl]) auto
      qed
    qed
  qed
qed

lemma record_report_inv:
  assumes inv: "registry_inv Q reg" and ex: "record_report now st sid rid pid ty reason reg = (reg1, out)"
    and Q: "\<And>key. ty \<in> set VALID_REPORT_TYPES \<Longrightarrow> create_key sid rid pid = Inr key \<Longrightarrow>
      Q \<lparr>br_status = ty, br_key = key, br_reason = reason\<rparr>"
  shows "registry_inv Q reg1 \<and> fut_forward reg reg1"
  using ex
proof (cases rule: record_report_cases)
  case (Early key r)
  have "registry_inv Q reg1"
    unfolding Early(6) by (rule remember_inv [OF purge_inv [OF inv]]) (use Early Q in simp_all)
  moreover have "fut_forward reg reg1" unfolding Early(6) by (rule fut_forward_same) simp
  ultimately show ?thesis by simp
next
  case (Matched key r l f)
  let ?m = "remember now r (purge_expired now reg)"
  have m: "registry_inv Q ?m"
    by (rule remember_inv [OF purge_inv [OF inv]]) (use Matched Q in simp_all)
  note W = waiter_future [OF inv Matched(4)]
  have key: "br_key r = key" by (simp add: Matched(5))
  have "g \<noteq> f" if "(k, l', g) \<in> set (waiters ?m)" for k l' g
  proof
    assume "g = f"
    with registry_invD(6) [OF m that] W(2) have "k = key" by simp
    moreover have "k \<in> set (keys (waiters ?m))" using imageI [OF that, of fst] by simp
    ultimately show False by (simp add: key keys_delete del: set_map)
  qed
  then have "free_future f ?m" using W(1) by (auto simp: free_future_def)
  moreover have "br_key r = w_key (futures ?m ! f)" "Q r" using W(2) key Q Matched by simp_all
  ultimately have "registry_inv Q reg1" unfolding Matched(6) by (intro complete_future_inv [OF m])
  moreover have "fut_forward reg reg1"
    unfolding Matched(6) by (rule fut_forward_trans [OF fut_forward_same complete_future_forward]) simp
  ultimately show ?thesis by simp
qed (use inv purge_inv [OF inv] purge_forward in simp_all)

definition cancelled_result :: "barrier_key \<Rightarrow> string \<Rightarrow> barrier_result" where
  "cancelled_result k reason =
     \<lparr>br_status = PLAYBACK_CANCELLED, br_key = k, br_reason = Some reason\<rparr>"

abbreviation cancel_all :: "loop_state \<Rightarrow> string \<Rightarrow> (barrier_key \<times> loop \<times> future) list \<Rightarrow> registry \<Rightarrow> registry" where
  "cancel_all st reason hit reg \<equiv>
     foldl (\<lambda>r (k, l, f). complete_future st f (cancelled_result k reason) r) reg hit"

lemma cancel_all_frame [simp]:
  "waiters (cancel_all st reason hit reg) = waiters reg" "recent (cancel_all st reason hit reg) = recent reg"
  by (induction hit arbitrary: reg) (simp_all add: case_prod_beta)

lemma cancel_all_inv:
  assumes "registry_inv Q reg"
    and "\<And>k l f. (k, l, f) \<in> set hit \<Longrightarrow> free_future f reg \<and> w_key (futures reg ! f) = k \<and> Q (cancelled_result k reason)"
  shows "registry_inv Q (cancel_all st reason hit reg) \<and> fut_forward reg (cancel_all st reason hit reg)"
  using assms
proof (induction hit arbitrary: reg)
  case Nil
  then show ?case by simp
next
  case (Cons h hit)
  obtain k l f where h: "h = (k, l, f)" by (cases h)
  let ?reg = "complete_future st f (cancelled_result k reason) reg"
  have H: "free_future f reg" "w_key (futures reg ! f) = k" "Q (cancelled_result k reason)"
    using Cons.prems(2) [of k l f] h by simp_all
  have inv: "registry_inv Q ?reg"
    using H by (intro complete_future_inv [OF Cons.prems(1)]) (simp_all add: cancelled_result_def)
  have "free_future g ?reg \<and> w_key (futures ?reg ! g) = k' \<and> Q (cancelled_result k' reason)"
    if "(k', l', g) \<in> set hit" for k' l' g
    using Cons.prems(2) [of k' l' g] that by (simp add: free_future_def)
  note IH = Cons.IH [OF inv this]
  show ?case
    using conjunct1 [OF IH] fut_forward_trans [OF complete_future_forward conjunct2 [OF IH]]
    by (simp add: h)
qed

abbreviation forget_session :: "string \<Rightarrow> registry \<Rightarrow> registry" where
  "forget_session sid reg \<equiv>
     reg\<lparr>waiters := filter (\<lambda>(k, _). bk_session_id k \<noteq> sid) (waiters reg),
         recent := filter (\<lambda>(k, _). bk_session_id k \<noteq> sid) (recent reg)\<rparr>"

lemma forget_session_inv:
  assumes inv: "registry_inv Q reg" shows "registry_inv Q (forget_session sid reg)"
proof (rule registry_invI)
  note I = registry_invD [OF inv]
  let ?g = "forget_session sid reg"
  show "distinct (keys (recent ?g))" "distinct (keys (waiters ?g))"
    using I(1,3) by (simp_all add: distinct_keys_filter)
  show "length (recent ?g) \<le> cache_max_entries ?g"
    using I(2) le_trans [OF length_filter_le] by simp
  show "set (keys (waiters ?g)) \<inter> set (keys (recent ?g)) = {}"
    using I(4) by (auto simp: disjoint_iff)
  show "br_key r = k \<and> Q r" if "(k, t, r) \<in> set (recent ?g)" for k t r
    using I(5) [of k t r] that by simp
  show "f < length (futures ?g) \<and> w_key (futures ?g ! f) = k \<and>
      w_result (futures ?g ! f) = None \<and> f \<notin> fst ` set (scheduled ?g)"
    if "(k, l, f) \<in> set (waiters ?g)" for k l f
    using I(6) [of k l f] that by simp
  show "f < length (futures ?g) \<and> br_key r = w_key (futures ?g ! f) \<and> Q r" if "(f, r) \<in> set (scheduled ?g)" for f r
    using I(7) [of f r] that by simp
  show "br_key r = w_key (futures ?g ! f) \<and> Q r"
    if "f < length (futures ?g)" "w_result (futures ?g ! f) = Some r" for f r
    using I(8) [of f r] that by simp
qed

lemma cancel_session_eq:
  "cancel_session st sid reason reg =
     (if py_strip sid = [] then (reg, 0)
      else (let hit = filter (\<lambda>(k, _). bk_session_id k = py_strip sid) (waiters reg)
            in (cancel_all st reason hit (forget_session (py_strip sid) reg), length hit)))"
  by (simp add: cancel_session_def Let_def cancelled_result_def)

lemma session_waiter_free:
  assumes inv: "registry_inv Q reg" and w: "(k, l, f) \<in> set (waiters reg)" "bk_session_id k = sid"
  shows "free_future f (forget_session sid reg) \<and> w_key (futures (forget_session sid reg) ! f) = k"
proof -
  note W = registry_invD(6) [OF inv w(1)]
  have "g \<noteq> f" if "(k', l', g) \<in> set (waiters (forget_session sid reg))" for k' l' g
  proof
    assume "g = f"
    moreover have "(k', l', g) \<in> set (waiters reg)" "bk_session_id k' \<noteq> sid" using that by auto
    ultimately show False using registry_invD(6) [OF inv, of k' l' g] W w(2) by simp
  qed
  with W show ?thesis by (auto simp: free_future_def)
qed

lemma cancel_session_inv:
  assumes inv: "registry_inv Q reg"
    and Q: "\<And>k. py_strip sid \<noteq> [] \<Longrightarrow> bk_session_id k = py_strip sid \<Longrightarrow> Q (cancelled_result k reason)"
  shows "registry_inv Q (fst (cancel_session st sid reason reg)) \<and>
    fut_forward reg (fst (cancel_session st sid reason reg))"
proof (cases "py_strip sid = []")
  case True
  with inv show ?thesis by (simp add: cancel_session_eq)
next
  case False
  let ?hit = "filter (\<lambda>(k, _). bk_session_id k = py_strip sid) (waiters reg)"
  let ?reg = "forget_session (py_strip sid) reg"
  have hit: "free_future f ?reg \<and> w_key (futures ?reg ! f) = k \<and> Q (cancelled_result k reason)"
    if "(k, l, f) \<in> set ?hit" for k l f
    using session_waiter_free [OF inv, of k l f "py_strip sid"] that Q [OF False, of k] by simp
  have C: "registry_inv Q (cancel_all st reason ?hit ?reg) \<and> fut_forward ?reg (cancel_all st reason ?hit ?reg)"
    by (rule cancel_all_inv [OF forget_session_inv [OF inv]]) (rule hit)
  have "fut_forward reg ?reg" by (rule fut_forward_same) simp
  from fut_forward_trans [OF this conjunct2 [OF C]] conjunct1 [OF C] False show ?thesis
    by (simp add: cancel_session_eq Let_def)
qed

lemma wait_timeout_inv:
  assumes "registry_inv Q reg"
  shows "registry_inv Q (fst (wait_timeout f reg)) \<and> fut_forward reg (fst (wait_timeout f reg))"
proof -
  have "registry_inv Q (remove_waiter k f reg) \<and> fut_forward reg (remove_waiter k f reg)" for k
    using assms delete_waiter_inv [OF assms] fut_forward_same [of "reg\<lparr>waiters := AList.delete k (waiters reg)\<rparr>" reg]
    by (simp add: remove_waiter_def split: option.split)
  with assms show ?thesis by (simp add: wait_timeout_def Let_def split: option.split)
qed

subsection \<open>Runs of the registry\<close>

definition has_origin :: "barrier_event list \<Rightarrow> barrier_result \<Rightarrow> bool" where
  \<comment> \<open>the client reported this status for this key, or the session was cancelled\<close>
  "has_origin es r \<longleftrightarrow>
     (br_status r \<in> set VALID_REPORT_TYPES \<and>
       (\<exists>now st sid rid pid reason. Report now st sid rid pid (br_status r) reason \<in> set es \<and>
          create_key sid rid pid = Inr (br_key r))) \<or>
     (br_status r = PLAYBACK_CANCELLED \<and>
       (\<exists>st sid reason. CancelSession st sid reason \<in> set es \<and> py_strip sid = bk_session_id (br_key r)))"

lemma has_origin_subset: "has_origin es r \<Longrightarrow> set es \<subseteq> set fs \<Longrightarrow> has_origin fs r"
  unfolding has_origin_def by blast

lemma has_origin_mono: "has_origin es r \<Longrightarrow> has_origin (es @ [e]) r"
  by (erule has_origin_subset) auto

lemma barrier_step_inv:
  assumes "registry_inv Q reg"
    and "\<And>r. has_origin [e] r \<Longrightarrow> Q r"
  shows "registry_inv Q (fst (barrier_step reg e)) \<and> fut_forward reg (fst (barrier_step reg e))"
proof (cases e)
  case (Prepare now l st sid rid pid)
  obtain reg1 out where "prepare now l st sid rid pid reg = (reg1, out)" by fastforce
  from prepare_inv [OF assms(1) this] this Prepare show ?thesis by simp
next
  case (Report now st sid rid pid ty reason)
  obtain reg1 out where ex: "record_report now st sid rid pid ty reason reg = (reg1, out)" by fastforce
  have "Q \<lparr>br_status = ty, br_key = key, br_reason = reason\<rparr>"
    if "ty \<in> set VALID_REPORT_TYPES" "create_key sid rid pid = Inr key" for key
    using that Report by (intro assms(2)) (auto simp: has_origin_def)
  from record_report_inv [OF assms(1) ex this] ex Report show ?thesis by simp
next
  case (CancelSession st sid reason)
  have "Q (cancelled_result k reason)" if "bk_session_id k = py_strip sid" for k
    using that CancelSession by (intro assms(2)) (auto simp: has_origin_def cancelled_result_def)
  with cancel_session_inv [OF assms(1), of sid reason st] CancelSession show ?thesis
    by (simp add: case_prod_beta)
next
  case (BarrierSnapshot now)
  with purge_inv [OF assms(1)] purge_forward show ?thesis
    by (simp add: barrier_snapshot_def Let_def case_prod_beta)
qed (use assms(1) wait_timeout_inv [OF assms(1)] deliver_inv [OF assms(1)] in
    \<open>simp_all add: case_prod_beta\<close>)

interpretation barrier: monotone_system barrier_step "registry_inv (\<lambda>_. True)" "\<lambda>_. True" fut_forward
  by unfold_locales (auto intro: fut_forward_trans dest: barrier_step_inv)

interpretation barrier_log: observed_system barrier_step "\<lambda>reg es. registry_inv (has_origin es) reg"
  "\<lambda>_. True" "\<lambda>es e r. es @ [e]"
proof
  fix reg es e assume "registry_inv (has_origin es) reg"
  then have "registry_inv (has_origin (es @ [e])) reg"
    by (rule registry_inv_mono) (rule has_origin_mono)
  moreover have "has_origin (es @ [e]) r" if "has_origin [e] r" for r
    using that by (rule has_origin_subset) auto
  ultimately show "registry_inv (has_origin (es @ [e])) (fst (barrier_step reg e))"
    using barrier_step_inv [of "has_origin (es @ [e])" reg e] by blast
qed

abbreviation barrier_after :: "seconds \<Rightarrow> nat \<Rightarrow> barrier_event list \<Rightarrow> registry" where
  "barrier_after ttl max_n es \<equiv> run_state barrier_step (empty_registry ttl max_n) es"

lemma barrier_after_origin: "registry_inv (has_origin es) (barrier_after ttl max_n es)"
  using barrier_log.inv_run_log [OF registry_inv_empty, of es "[]" ttl max_n]
  by (simp add: foldl_snoc_events)

lemma barrier_after_inv: "registry_inv (\<lambda>_. True) (barrier_after ttl max_n es)"
  by (rule registry_inv_mono [OF barrier_after_origin]) simp

subsection \<open>A report and its waiter meet in either order\<close>

lemma purge_recent_sub: "set (recent (purge_expired now reg)) \<subseteq> set (recent reg)"
  by (auto simp: purge_expired_def dest: set_dropWhileD)

lemma keys_purge_sub: "k \<notin> set (keys (recent reg)) \<Longrightarrow> k \<notin> set (keys (recent (purge_expired now reg)))"
  using image_mono [OF purge_recent_sub [of now reg], of fst] by auto

lemma dropWhile_last: "xs \<noteq> [] \<Longrightarrow> \<not> P (last xs) \<Longrightarrow> last xs \<in> set (dropWhile P xs)"
  by (induction xs) auto

lemma deliver_single:
  assumes "scheduled reg = [(f, r)]" "f < length (futures reg)" "w_result (futures reg ! f) = None"
  shows "futures (deliver reg) ! f = (futures reg ! f)\<lparr>w_result := Some r\<rparr>"
  using assms by (simp add: deliver_def set_result_def)

lemma prepare_then_report:
  assumes k: "create_key sid rid pid = Inr k" and ty: "ty \<in> set VALID_REPORT_TYPES"
    and fresh: "k \<notin> set (keys (waiters reg))" "k \<notin> set (keys (recent reg))" "scheduled reg = []"
  shows "futures (run_state barrier_step reg
      [Prepare t1 l LoopRunning sid rid pid, Report t2 LoopRunning sid rid pid ty reason, Deliver]) ! length (futures reg) =
    \<lparr>w_key = k, w_result = Some \<lparr>br_status = ty, br_key = k, br_reason = reason\<rparr>\<rparr>"
proof -
  let ?f = "length (futures reg)" and ?r = "\<lparr>br_status = ty, br_key = k, br_reason = reason\<rparr>"
  define reg1 where "reg1 = (add_future k (purge_expired t1 reg))
      \<lparr>waiters := AList.update k (l, ?f) (waiters reg)\<rparr>"
  have none: "map_of (waiters reg) k = None" "map_of (recent (purge_expired t1 reg)) k = None"
    using fresh(1) keys_purge_sub [OF fresh(2)] by (simp_all add: map_of_eq_None_iff)
  have step1: "barrier_step reg (Prepare t1 l LoopRunning sid rid pid) = (reg1, Prepared (Inr ?f))"
    using k none by (simp add: prepare_def Let_def reg1_def)
  have w: "map_of (waiters reg1) k = Some (l, ?f)" by (simp add: reg1_def map_of_update)
  have "k \<notin> set (keys (recent reg1))" using keys_purge_sub [OF fresh(2)] by (simp add: reg1_def)
  from keys_purge_sub [OF this] have new: "k \<notin> set (keys (recent (purge_expired t2 reg1)))" .
  define reg2 where "reg2 = complete_future LoopRunning ?f ?r (remember t2 ?r (purge_expired t2 reg1))"
  have step2: "fst (barrier_step reg1 (Report t2 LoopRunning sid rid pid ty reason)) = reg2"
    using k ty new w by (simp add: record_report_def Let_def reg2_def)
  have "scheduled reg2 = [(?f, ?r)]" "futures reg2 = futures reg @ [\<lparr>w_key = k, w_result = None\<rparr>]"
    by (simp_all add: reg2_def complete_future_def reg1_def fresh(3))
  with deliver_single [of reg2 ?f ?r] show ?thesis
    by (simp add: run_simps step1 step2 del: barrier_step.simps(1,2))
qed

lemma report_then_prepare:
  assumes k: "create_key sid rid pid = Inr k" and ty: "ty \<in> set VALID_REPORT_TYPES"
    and fresh: "k \<notin> set (keys (waiters reg))" "k \<notin> set (keys (recent reg))" "scheduled reg = []"
    and inv: "registry_inv Q reg" and room: "0 < cache_max_entries reg" and alive: "t2 < t1 + cache_ttl_sec reg"
  shows "futures (run_state barrier_step reg
      [Report t1 LoopRunning sid rid pid ty reason, Prepare t2 l LoopRunning sid rid pid, Deliver]) ! length (futures reg) =
    \<lparr>w_key = k, w_result = Some \<lparr>br_status = ty, br_key = k, br_reason = reason\<rparr>\<rparr>"
proof -
  let ?f = "length (futures reg)" and ?r = "\<lparr>br_status = ty, br_key = k, br_reason = reason\<rparr>"
  let ?p = "purge_expired t1 reg"
  define reg1 where "reg1 = remember t1 ?r ?p"
  have new: "k \<notin> set (keys (recent ?p))" by (rule keys_purge_sub [OF fresh(2)])
  have none: "map_of (waiters reg) k = None" using fresh(1) by (simp add: map_of_eq_None_iff)
  have step1: "fst (barrier_step reg (Report t1 LoopRunning sid rid pid ty reason)) = reg1"
    using k ty new none by (simp add: record_report_def Let_def reg1_def)
  have w1: "waiters reg1 = waiters reg" using fresh(1) by (simp add: reg1_def delete_absent)
  have inv1: "registry_inv (\<lambda>_. True) reg1"
    unfolding reg1_def by (rule remember_inv [OF purge_inv]) (use registry_inv_mono [OF inv] new in auto)
  define d where "d = AList.update k (t1, ?r) (recent ?p)"
  have "map_of d k = Some (t1, ?r)" by (simp add: d_def map_of_update)
  then have last: "last (od_move_to_end k d) = (k, t1, ?r)" "od_move_to_end k d \<noteq> []"
    by (simp_all add: last_move_to_end) (simp add: od_move_to_end_def)
  have "recent reg1 = od_trim (cache_max_entries reg) (od_move_to_end k d)"
    by (simp add: reg1_def d_def)
  with last_od_trim [OF room last(2)] last(1) have rec: "recent reg1 \<noteq> []" "last (recent reg1) = (k, t1, ?r)"
    by simp_all
  have ttl: "cache_ttl_sec reg1 = cache_ttl_sec reg" by (simp add: reg1_def purge_expired_def)
  have "(k, t1, ?r) \<in> set (recent (purge_expired t2 reg1))"
    using dropWhile_last [OF rec(1), of "\<lambda>(_, recorded_at, _). \<not> recorded_at > t2 - cache_ttl_sec reg1"]
      rec(2) alive by (simp add: purge_expired_def ttl)
  then have hit: "map_of (recent (purge_expired t2 reg1)) k = Some (t1, ?r)"
    using registry_invD(1) [OF purge_inv [OF inv1]] by simp
  have f1: "futures reg1 = futures reg" "scheduled reg1 = []" by (simp_all add: reg1_def fresh(3))
  define reg2 where "reg2 = complete_future LoopRunning ?f ?r (add_future k (purge_expired t2 reg1))"
  have step2: "fst (barrier_step reg1 (Prepare t2 l LoopRunning sid rid pid)) = reg2"
    using k none hit by (simp add: prepare_def Let_def w1 f1 reg2_def)
  have "scheduled reg2 = [(?f, ?r)]" "futures reg2 = futures reg @ [\<lparr>w_key = k, w_result = None\<rparr>]"
    by (simp_all add: reg2_def complete_future_def f1)
  with deliver_single [of reg2 ?f ?r] show ?thesis
    by (simp add: run_simps step1 step2 del: barrier_step.simps(1,2))
qed

subsection \<open>Properties\<close>

text \<open>C23: In every history of the registry, a future carries a result only for the session,
  round and playback its waiter was created for, and only if the client reported that status
  for exactly this key or the session was cancelled.  So \<open>playback_complete\<close> is never
  invented, and never taken from another playback.\<close>

theorem barrier_results_are_reported:
  assumes "f < length (futures (barrier_after ttl max_n es))"
    and "w_result (futures (barrier_after ttl max_n es) ! f) = Some r"
  shows "br_key r = w_key (futures (barrier_after ttl max_n es) ! f) \<and> has_origin es r"
  using registry_invD(8) [OF barrier_after_origin assms] .

definition sample_reports :: "barrier_event list" where
  "sample_reports =
     [Prepare 0 0 LoopRunning '' s '' ''r'' ''p'',
      Report 1 LoopRunning ''s'' ''r'' ''q'' PLAYBACK_COMPLETE None,
      Report 1 LoopRunning ''s'' ''r'' ''p'' PLAYBACK_COMPLETE None, Deliver]"

theorem barrier_results_are_reported_witness:
  "has_origin sample_reports \<lparr>br_status = PLAYBACK_COMPLETE,
     br_key = \<lparr>bk_session_id = ''s'', bk_round_id = ''r'', bk_playback_id = ''p''\<rparr>, br_reason = None\<rparr>"
proof -
  have "(let reg = barrier_after 30 128 sample_reports
         in 0 < length (futures reg) \<and> w_result (futures reg ! 0) =
            Some \<lparr>br_status = PLAYBACK_COMPLETE,
              br_key = \<lparr>bk_session_id = ''s'', bk_round_id = ''r'', bk_playback_id = ''p''\<rparr>, br_reason = None\<rparr>)"
    by code_simp
  then have a: "0 < length (futures (barrier_after 30 128 sample_reports))"
    and b: "w_result (futures (barrier_after 30 128 sample_reports) ! 0) =
            Some \<lparr>br_status = PLAYBACK_COMPLETE,
              br_key = \<lparr>bk_session_id = ''s'', bk_round_id = ''r'', bk_playback_id = ''p''\<rparr>, br_reason = None\<rparr>"
    unfolding Let_def by blast+
  show ?thesis by (rule barrier_results_are_reported [OF a b, THEN conjunct2])
qed

text \<open>Once the result of a future is set it never changes, whatever reports, cancellations,
  timeouts and deliveries follow.\<close>

theorem barrier_result_is_set_once:
  assumes "f < length (futures (barrier_after ttl max_n es))"
    and "w_result (futures (barrier_after ttl max_n es) ! f) = Some r"
  shows "w_result (futures (barrier_after ttl max_n (es @ fs)) ! f) = Some r"
proof -
  have "fut_forward (barrier_after ttl max_n es) (run_state barrier_step (barrier_after ttl max_n es) fs)"
    by (rule barrier.forward_run [OF barrier_after_inv]) simp
  from fut_forwardD(3) [OF this assms] show ?thesis by (simp add: run_simps)
qed

theorem barrier_result_is_set_once_witness:
  "w_result (futures (barrier_after 30 128 (sample_reports @
     [CancelSession LoopRunning ''s'' ''x'', Deliver])) ! 0) \<noteq> None"
proof -
  have "(let reg = barrier_after 30 128 sample_reports
         in 0 < length (futures reg) \<and> w_result (futures reg ! 0) \<noteq> None)" by code_simp
  then obtain r where "0 < length (futures (barrier_after 30 128 sample_reports))"
      "w_result (futures (barrier_after 30 128 sample_reports) ! 0) = Some r" by (auto simp: Let_def)
  from barrier_result_is_set_once [OF this] show ?thesis by simp
qed

text \<open>C24: A playback report reaches its waiter whether it arrives after \<open>prepare\<close> or before it
  (within the cache's time to live): in both orders the future created by \<open>prepare\<close> is
  completed with the reported status.\<close>

theorem early_and_late_reports_agree:
  assumes "create_key sid rid pid = Inr k" and "ty \<in> set VALID_REPORT_TYPES"
    and "registry_inv (\<lambda>_. True) reg" and "k \<notin> set (keys (waiters reg))" and "k \<notin> set (keys (recent reg))"
    and "scheduled reg = []" and "0 < cache_max_entries reg" and "t2 < t1 + cache_ttl_sec reg"
  shows "w_result (futures (run_state barrier_step reg
      [Prepare t1 l LoopRunning sid rid pid, Report t2 LoopRunning sid rid pid ty reason, Deliver]) ! length (futures reg)) =
      Some \<lparr>br_status = ty, br_key = k, br_reason = reason\<rparr> \<and>
    w_result (futures (run_state barrier_step reg
      [Report t1 LoopRunning sid rid pid ty reason, Prepare t2 l LoopRunning sid rid pid, Deliver]) ! length (futures reg)) =
      Some \<lparr>br_status = ty, br_key = k, br_reason = reason\<rparr>"
  using prepare_then_report [OF assms(1,2,4,5,6)] report_then_prepare [OF assms(1,2,4,5,6,3,7,8)] by simp

theorem early_and_late_reports_agree_witness:
  "w_result (futures (run_state barrier_step (empty_registry 30 128)
      [Report 1 LoopRunning ''s'' ''r'' ''p'' PLAYBACK_INTERRUPTED (Some ''barge''),
       Prepare 2 0 LoopRunning ''s'' ''r'' ''p'', Deliver]) ! 0) =
    Some \<lparr>br_status = PLAYBACK_INTERRUPTED,
      br_key = \<lparr>bk_session_id = ''s'', bk_round_id = ''r'', bk_playback_id = ''p''\<rparr>, br_reason = Some ''barge''\<rparr>"
proof -
  have "create_key ''s'' ''r'' ''p'' = Inr \<lparr>bk_session_id = ''s'', bk_round_id = ''r'', bk_playback_id = ''p''\<rparr>"
    by code_simp
  from early_and_late_reports_agree [OF this, of PLAYBACK_INTERRUPTED "empty_registry 30 128" 2 1 0 "Some ''barge''"]
  show ?thesis by (simp add: VALID_REPORT_TYPES_def registry_inv_empty) (simp add: empty_registry_def)
qed

text \<open>Cancelling a session leaves no waiter and no cached report of it; the number returned
  is the number of waiters removed, and each of their futures is scheduled for completion
  with status \<open>cancelled\<close> under its own key.\<close>

theorem cancel_session_releases_waiters:
  assumes "cancel_session LoopRunning sid reason (barrier_after ttl max_n es) = (reg, n)" and "py_strip sid \<noteq> []"
  shows "(\<forall>k \<in> set (keys (waiters reg)) \<union> set (keys (recent reg)). bk_session_id k \<noteq> py_strip sid) \<and>
    n = length (filter (\<lambda>(k, _). bk_session_id k = py_strip sid) (waiters (barrier_after ttl max_n es))) \<and>
    (\<forall>k l f. (k, l, f) \<in> set (waiters (barrier_after ttl max_n es)) \<and> bk_session_id k = py_strip sid \<longrightarrow>
       (f, cancelled_result k reason) \<in> set (scheduled reg))"
proof -
  let ?reg0 = "barrier_after ttl max_n es"
  have sched: "scheduled (cancel_all LoopRunning reason hit r) =
      scheduled r @ map (\<lambda>(k, l, f). (f, cancelled_result k reason)) hit" for hit r
    by (induction hit arbitrary: r) (auto simp: complete_future_def)
  let ?hit = "filter (\<lambda>(k, _). bk_session_id k = py_strip sid) (waiters ?reg0)"
  from assms have reg: "reg = cancel_all LoopRunning reason ?hit (forget_session (py_strip sid) ?reg0)"
    and n: "n = length ?hit"
    by (simp_all add: cancel_session_eq Let_def)
  have "(f, cancelled_result k reason) \<in> set (scheduled reg)"
    if "(k, l, f) \<in> set (waiters ?reg0)" "bk_session_id k = py_strip sid" for k l f
  proof -
    have "(k, l, f) \<in> set ?hit" using that by simp
    then have "(f, cancelled_result k reason) \<in> (\<lambda>(k, l, f). (f, cancelled_result k reason)) ` set ?hit"
      by (rule rev_image_eqI) simp
    then show ?thesis by (simp add: reg sched)
  qed
  moreover have "\<forall>k \<in> set (keys (waiters reg)) \<union> set (keys (recent reg)). bk_session_id k \<noteq> py_strip sid"
    by (auto simp: reg)
  ultimately show ?thesis using n by blast
qed

theorem cancel_session_releases_waiters_witness:
  "\<exists>reg. cancel_session LoopRunning ''s'' ''bye'' (barrier_after 30 128 (take 1 sample_reports)) = (reg, 1) \<and>
     (\<forall>k \<in> set (keys (waiters reg)) \<union> set (keys (recent reg)). bk_session_id k \<noteq> ''s'')"
proof -
  have one: "snd (cancel_session LoopRunning ''s'' ''bye'' (barrier_after 30 128 (take 1 sample_reports))) = 1"
    and strip: "py_strip ''s'' = ''s''" by code_simp+
  then obtain reg where reg: "cancel_session LoopRunning ''s'' ''bye'' (barrier_after 30 128 (take 1 sample_reports)) = (reg, 1)"
    by (metis prod.collapse)
  from cancel_session_releases_waiters [OF this] strip have
    "\<forall>k \<in> set (keys (waiters reg)) \<union> set (keys (recent reg)). bk_session_id k \<noteq> ''s''" by simp
  with reg show ?thesis by blast
qed

end
