(* ===== verification/Workflow_Protocol.thy ===== *)
theory Workflow_Protocol
  imports Json
begin

text \<open>
  \<open>src/llm/workflow_protocol.py\<close>: the plan of a complex task and its validator.  A raw
  plan is a JSON value; \<open>validate_workflow_plan\<close> returns the normalised plan or the error
  code of the first check that fails (\<open>Rejected\<close>), or the Python exception that escapes
  from a check (\<open>Raised\<close>, for instance a list where the code looks a value up in a
  \<open>frozenset\<close>).

  The lemmas show that the worklist of \<open>_dependency_ancestors\<close> computes the transitive
  closure of \<open>depends_on\<close>, that the depth-first search of \<open>_validate_dependencies\<close>
  accepts exactly acyclic plans, and that an accepted plan is topologically ordered, has
  its single \<open>respond\<close> step after every other non-terminal step, and its terminal step
  (chosen by the server's policy) at the end.
\<close>

subsection \<open>Data\<close>

datatype plan_error = Rejected string | Raised py_exn

record wf_condition =
  source_step_id :: string
  cond_output_key :: string
  cond_operator :: string
  cond_value :: json

record wf_step =
  st_id :: string
  st_type :: string
  st_intent :: string
  depends_on :: "string list"
  failure_policy :: string
  terminal :: bool
  tool_name :: "string option"
  arguments :: jobj
  condition :: "wf_condition option"
  output_key :: "string option"
  allowed_values :: "json list"
  st_vision :: string

record wf_plan =
  pl_version :: int
  goal :: string
  steps :: "wf_step list"
  terminal_step_id :: "string option"
  requires_playback_barrier :: bool

type_synonym tool_schemas = "(string, jobj) odict"

definition MAX_WORKFLOW_STEPS :: nat where "MAX_WORKFLOW_STEPS = 8"

definition STEP_TYPES :: "string list" where
  "STEP_TYPES = [''tool'', ''vision_analyze'', ''respond'']"

definition FAILURE_POLICIES :: "string list" where
  "FAILURE_POLICIES = [''abort'', ''partial_response'', ''skip'']"

definition VISION_MODES :: "string list" where
  "VISION_MODES = [''none'', ''latest_optional'', ''latest_required'']"

definition CONDITION_OPERATORS :: "string list" where
  "CONDITION_OPERATORS = [''equals'', ''not_equals'']"

definition FORBIDDEN_MODEL_ARGUMENT_KEYS :: "string list" where
  "FORBIDDEN_MODEL_ARGUMENT_KEYS =
     [''robot_id'', ''robot_secret'', ''session_id'', ''api_key'', ''authorization'', ''token'']"

definition common_step_fields :: "string list" where
  "common_step_fields =
     [''id'', ''type'', ''intent'', ''depends_on'', ''failure_policy'', ''terminal'']"

definition type_fields :: "string \<Rightarrow> string list" where
  "type_fields ty =
     (if ty = ''tool'' then [''tool_name'', ''arguments'', ''when'']
      else if ty = ''vision_analyze'' then [''output_key'', ''allowed_values'']
      else [''vision''])"

definition raise_py :: "py_exn + 'a \<Rightarrow> plan_error + 'a" where
  "raise_py = map_sum Raised id"

lemma raise_py_Inr_iff [result_simps]: "raise_py r = Inr x \<longleftrightarrow> r = Inr x"
  by (cases r) (auto simp: raise_py_def)

definition reject :: "bool \<Rightarrow> string \<Rightarrow> plan_error + unit" where
  \<comment> \<open>\<open>if bad: _fail(code, ...)\<close>\<close>
  "reject bad code = check (\<not> bad) (Rejected code)"

lemma reject_Inr_iff [result_simps]: "reject bad code = Inr u \<longleftrightarrow> \<not> bad"
  by (simp add: reject_def check_Inr_iff)

lemma reject_simps [simp]: "reject True code = Inl (Rejected code)" "reject False code = Inr ()"
  by (simp_all add: reject_def)

subsection \<open>Arguments of a tool step\<close>

text \<open>\<open>_find_forbidden_argument_keys\<close>: the server-side identity fields that occur as keys
  at any depth.\<close>

fun find_forbidden :: "json \<Rightarrow> string list" where
  "find_forbidden (JObj items) =
     concat (map (\<lambda>(key, item).
       (let normalized = py_lower (py_strip key)
        in if normalized \<in> set FORBIDDEN_MODEL_ARGUMENT_KEYS then [normalized] else [])
       @ find_forbidden item) items)"
| "find_forbidden (JArr items) = concat (map find_forbidden items)"
| "find_forbidden _ = []"

text \<open>\<open>_validate_json_schema\<close>.\<close>

definition schema_enum :: "json \<Rightarrow> jobj \<Rightarrow> plan_error + unit" where
  "schema_enum v schema =
     (case map_of schema ''enum'' of
        None \<Rightarrow> Inr ()
      | Some e \<Rightarrow> and_then (raise_py (py_in v e))
          (\<lambda>found. reject (\<not> found) ''tool_schema_mismatch''))"

definition schema_required :: "jobj \<Rightarrow> json \<Rightarrow> plan_error + unit" where
  "schema_required items required =
     and_then (raise_py (py_iter required)) (\<lambda>ks.
     and_then (raise_py (traverse (\<lambda>k. hash_in k (keys items)) ks)) (\<lambda>present.
     reject (\<not> list_all (\<lambda>b. b) present) ''tool_schema_mismatch''))"

definition py_key_set :: "json \<Rightarrow> py_exn + string list" where
  \<comment> \<open>\<open>set(value)\<close>: the strings in it, or the \<open>TypeError\<close> of an unhashable element\<close>
  "py_key_set v = and_then (py_iter v) (\<lambda>ks.
     and_then (traverse (\<lambda>k. hash_in k []) ks) (\<lambda>_.
     Inr (List.map_filter jstr_of ks)))"

definition schema_additional :: "jobj \<Rightarrow> jobj \<Rightarrow> json \<Rightarrow> plan_error + unit" where
  "schema_additional items schema properties =
     (if map_of schema ''additionalProperties'' = Some (JBool False)
      then and_then (raise_py (py_key_set properties)) (\<lambda>known.
        reject (\<not> set (keys items) \<subseteq> set known) ''tool_schema_mismatch'')
      else Inr ())"

definition properties_get :: "json \<Rightarrow> string \<Rightarrow> plan_error + json" where
  \<comment> \<open>\<open>properties.get(key)\<close>\<close>
  "properties_get properties k =
     (case properties of JObj d \<Rightarrow> Inr (jget d k) | _ \<Rightarrow> Inl (Raised AttributeError))"

definition scalar_ok :: "json \<Rightarrow> json \<Rightarrow> bool" where
  \<comment> \<open>the last four branches: a scalar \<open>type\<close> that the value does not have is refused\<close>
  "scalar_ok expected v =
     (if expected = JStr ''string'' then (case v of JStr _ \<Rightarrow> True | _ \<Rightarrow> False)
      else if expected = JStr ''integer'' then (case v of JInt _ \<Rightarrow> True | _ \<Rightarrow> False)
      else if expected = JStr ''number''
        then (case v of JInt _ \<Rightarrow> True | JFloat _ \<Rightarrow> True | _ \<Rightarrow> False)
      else if expected = JStr ''boolean'' then (case v of JBool _ \<Rightarrow> True | _ \<Rightarrow> False)
      else True)"

function validate_json_schema :: "json \<Rightarrow> jobj \<Rightarrow> plan_error + unit" where
  "validate_json_schema v schema =
     and_then (schema_enum v schema) (\<lambda>_.
     (let expected = jget schema ''type''
      in if expected = JStr ''object'' then
           (case v of
              JObj items \<Rightarrow>
                (let properties = jget_default schema ''properties'' (JObj []);
                     required = jget_default schema ''required'' (JArr [])
                 in and_then (schema_required items required) (\<lambda>_.
                    and_then (schema_additional items schema properties) (\<lambda>_.
                    for_each (\<lambda>(k, item).
                      and_then (properties_get properties k) (\<lambda>child.
                        case child of
                          JObj child_schema \<Rightarrow> validate_json_schema item child_schema
                        | _ \<Rightarrow> Inr ())) items)))
            | _ \<Rightarrow> Inl (Rejected ''tool_schema_mismatch''))
         else if expected = JStr ''array'' then
           (case v of
              JArr items \<Rightarrow>
                (case jget schema ''items'' of
                   JObj item_schema \<Rightarrow> for_each (\<lambda>item. validate_json_schema item item_schema) items
                 | _ \<Rightarrow> Inr ())
            | _ \<Rightarrow> Inl (Rejected ''tool_schema_mismatch''))
         else reject (\<not> scalar_ok expected v) ''tool_schema_mismatch''))"
  by pat_completeness auto
termination
  by (relation "measure (\<lambda>(v, _). size v)") (auto dest: size_member size_elem)

declare validate_json_schema.simps [simp del]

subsection \<open>Steps\<close>

definition digits :: "string" where "digits = ''0123456789''"

definition step_id_ok :: "string \<Rightarrow> bool" where
  \<comment> \<open>\<open>_STEP_ID_RE.fullmatch\<close>: \<open>step_[1-9][0-9]*\<close>\<close>
  "step_id_ok s =
     (starts_with s ''step_'' \<and>
      (case drop 5 s of
         [] \<Rightarrow> False
       | c # cs \<Rightarrow> c \<in> set (tl digits) \<and> list_all (\<lambda>d. d \<in> set digits) cs))"

fun nonblank :: "json \<Rightarrow> string option" where
  \<comment> \<open>a non-empty string after \<open>strip()\<close>; the value is the string itself\<close>
  "nonblank (JStr s) = (if py_strip s = [] then None else Some s)"
| "nonblank _ = None"

fun str_list :: "json \<Rightarrow> string list option" where
  "str_list (JArr xs) =
     (if list_all (\<lambda>x. jstr_of x \<noteq> None) xs then Some (List.map_filter jstr_of xs) else None)"
| "str_list _ = None"

fun jbool_of :: "json \<Rightarrow> bool option" where
  "jbool_of (JBool b) = Some b"
| "jbool_of _ = None"

fun jobj_of :: "json \<Rightarrow> jobj option" where
  "jobj_of (JObj d) = Some d"
| "jobj_of _ = None"

fun jarr_of :: "json \<Rightarrow> json list option" where
  "jarr_of (JArr xs) = Some xs"
| "jarr_of _ = None"

text \<open>\<open>_parse_condition\<close>.  The source is split at its first dot.\<close>

definition parse_condition :: "json \<Rightarrow> plan_error + wf_condition" where
  "parse_condition raw =
     and_then (need (Rejected ''invalid_condition'') (jobj_of raw)) (\<lambda>d.
     and_then (reject (set (keys d) \<noteq> {''source'', ''operator'', ''value''}) ''invalid_condition'') (\<lambda>_.
     and_then (need (Rejected ''invalid_condition_source'') (jstr_of (jget d ''source''))) (\<lambda>source.
     and_then (reject (CHR ''.'' \<notin> set source) ''invalid_condition_source'') (\<lambda>_.
     (let sid = takeWhile (\<lambda>c. c \<noteq> CHR ''.'') source;
          key = drop 1 (dropWhile (\<lambda>c. c \<noteq> CHR ''.'') source)
      in and_then (reject (sid = [] \<or> key = []) ''invalid_condition_source'') (\<lambda>_.
         and_then (raise_py (hash_in (jget d ''operator'') CONDITION_OPERATORS)) (\<lambda>op_ok.
         and_then (reject (\<not> op_ok) ''invalid_condition_operator'') (\<lambda>_.
         Inr \<lparr>source_step_id = sid, cond_output_key = key,
              cond_operator = opt_text (jstr_of (jget d ''operator'')),
              cond_value = jget d ''value''\<rparr>))))))))"

text \<open>The part of \<open>_parse_step\<close> after the common fields, per step type.\<close>

definition parse_tool :: "tool_schemas \<Rightarrow> string list \<Rightarrow> jobj \<Rightarrow> wf_step \<Rightarrow> plan_error + wf_step" where
  "parse_tool schemas terminals raw base =
     and_then (need (Rejected ''unknown_tool'') (jstr_of (jget raw ''tool_name''))) (\<lambda>name.
     and_then (need (Rejected ''unknown_tool'') (map_of schemas name)) (\<lambda>schema.
     and_then (need (Rejected ''invalid_tool_arguments'') (jobj_of (jget raw ''arguments''))) (\<lambda>args.
     and_then (reject (find_forbidden (JObj args) \<noteq> []) ''forbidden_tool_arguments'') (\<lambda>_.
     and_then (validate_json_schema (JObj args) schema) (\<lambda>_.
     and_then (case map_of raw ''when'' of
                 None \<Rightarrow> Inr None
               | Some w \<Rightarrow> map_sum id Some (parse_condition w)) (\<lambda>cond.
     Inr (base\<lparr>terminal := name \<in> set terminals, tool_name := Some name,
               arguments := args, condition := cond\<rparr>)))))))"

definition parse_vision :: "jobj \<Rightarrow> wf_step \<Rightarrow> plan_error + wf_step" where
  "parse_vision raw base =
     and_then (need (Rejected ''invalid_output_key'') (nonblank (jget raw ''output_key''))) (\<lambda>key.
     and_then (need (Rejected ''invalid_allowed_values'') (jarr_of (jget raw ''allowed_values''))) (\<lambda>vals.
     and_then (reject (vals = []) ''invalid_allowed_values'') (\<lambda>_.
     and_then (reject (\<not> distinct vals) ''duplicate_allowed_values'') (\<lambda>_.
     Inr (base\<lparr>output_key := Some (py_strip key), allowed_values := vals\<rparr>)))))"

definition parse_respond :: "jobj \<Rightarrow> wf_step \<Rightarrow> plan_error + wf_step" where
  "parse_respond raw base =
     and_then (raise_py (hash_in (jget raw ''vision'') VISION_MODES)) (\<lambda>ok.
     and_then (reject (\<not> ok) ''invalid_vision_mode'') (\<lambda>_.
     Inr (base\<lparr>st_vision := opt_text (jstr_of (jget raw ''vision''))\<rparr>)))"

text \<open>\<open>_parse_step\<close>.\<close>

definition parse_step ::
  "string list \<Rightarrow> tool_schemas \<Rightarrow> string list \<Rightarrow> jobj \<Rightarrow> plan_error + wf_step" where
  "parse_step known schemas terminals raw =
     (let sid = opt_text (jstr_of (jget raw ''id''));
          ty = jget raw ''type''; step_type = opt_text (jstr_of ty);
          pol = jget raw ''failure_policy'' in
     and_then (raise_py (hash_in ty STEP_TYPES)) (\<lambda>ty_ok.
     and_then (reject (\<not> ty_ok) ''invalid_step_type'') (\<lambda>_.
     and_then (reject (\<not> set (keys raw) \<subseteq> set (common_step_fields @ type_fields step_type))
       ''unknown_step_fields'') (\<lambda>_.
     and_then (need (Rejected ''invalid_intent'') (nonblank (jget raw ''intent''))) (\<lambda>intent.
     and_then (need (Rejected ''invalid_dependencies'') (str_list (jget raw ''depends_on''))) (\<lambda>deps.
     and_then (reject (\<not> distinct deps) ''duplicate_dependencies'') (\<lambda>_.
     and_then (reject (\<not> set deps \<subseteq> set known) ''unknown_dependency'') (\<lambda>_.
     and_then (reject (sid \<in> set deps) ''self_dependency'') (\<lambda>_.
     and_then (raise_py (hash_in pol FAILURE_POLICIES)) (\<lambda>pol_ok.
     and_then (reject (\<not> pol_ok) ''invalid_failure_policy'') (\<lambda>_.
     and_then (need (Rejected ''invalid_terminal'') (jbool_of (jget raw ''terminal''))) (\<lambda>term.
     (let base = \<lparr>st_id = sid, st_type = step_type, st_intent = py_strip intent,
          depends_on = deps, failure_policy = opt_text (jstr_of pol), terminal = False,
          tool_name = None, arguments = [], condition = None, output_key = None,
          allowed_values = [], st_vision = ''none''\<rparr>
      in if step_type = ''tool'' then parse_tool schemas terminals raw base
         else and_then (reject term ''non_tool_terminal'') (\<lambda>_.
           if step_type = ''vision_analyze'' then parse_vision raw base
           else parse_respond raw base))))))))))))))"

subsection \<open>The dependency graph\<close>

type_synonym step_index = "(string, wf_step) odict"

definition index_steps :: "wf_step list \<Rightarrow> step_index" where
  "index_steps ss = map (\<lambda>s. (st_id s, s)) ss"

lemma card_diff_insert_less:
  assumes "finite A" "a \<in> A" "a \<notin> B" shows "card (A - insert a B) < card (A - B)"
  using assms by (intro psubset_card_mono) auto

text \<open>\<open>_dependency_ancestors\<close>: the worklist, its top at the head of the list.\<close>

function ancestors_loop :: "step_index \<Rightarrow> string list \<Rightarrow> string list \<Rightarrow> plan_error + string list" where
  "ancestors_loop by_id [] found = Inr found"
| "ancestors_loop by_id (d # stack) found =
     (if d \<in> set found then ancestors_loop by_id stack found
      else case map_of by_id d of
          None \<Rightarrow> Inl (Raised KeyError)
        | Some s \<Rightarrow> ancestors_loop by_id (rev (depends_on s) @ stack) (d # found))"
  by pat_completeness auto
termination
  by (relation "measures [\<lambda>(by_id, stack, found). card (set (keys by_id) - set found),
                          \<lambda>(by_id, stack, found). length stack]")
    (auto dest!: map_of_SomeD intro!: card_diff_insert_less image_eqI)

definition dependency_ancestors :: "step_index \<Rightarrow> string \<Rightarrow> plan_error + string list" where
  "dependency_ancestors by_id sid =
     (case map_of by_id sid of
        None \<Rightarrow> Inl (Raised KeyError)
      | Some s \<Rightarrow> ancestors_loop by_id (rev (depends_on s)) [])"

text \<open>\<open>_validate_dependencies\<close>: \<open>visit\<close> and the loops that call it.\<close>

function visit :: "step_index \<Rightarrow> string list \<Rightarrow> string list \<Rightarrow> string \<Rightarrow> plan_error + string list"
  and visit_all :: "step_index \<Rightarrow> string list \<Rightarrow> string list \<Rightarrow> string list \<Rightarrow> plan_error + string list"
where
  "visit by_id visiting visited sid =
     (if sid \<in> set visiting then Inl (Rejected ''dependency_cycle'')
      else if sid \<in> set visited then Inr visited
      else case map_of by_id sid of
          None \<Rightarrow> Inl (Raised KeyError)
        | Some s \<Rightarrow>
            and_then (visit_all by_id (sid # visiting) visited (depends_on s))
              (\<lambda>visited'. Inr (sid # visited')))"
| "visit_all by_id visiting visited [] = Inr visited"
| "visit_all by_id visiting visited (d # ds) =
     and_then (visit by_id visiting visited d) (\<lambda>visited'. visit_all by_id visiting visited' ds)"
  by pat_completeness auto
termination
  by (relation "measures
       [\<lambda>x. case x of Inl (by_id, visiting, _, _) \<Rightarrow> card (set (keys by_id) - set visiting)
          | Inr (by_id, visiting, _, _) \<Rightarrow> card (set (keys by_id) - set visiting),
        \<lambda>x. case x of Inl _ \<Rightarrow> 0 | Inr (_, _, _, ds) \<Rightarrow> Suc (length ds)]")
    (auto dest!: map_of_SomeD intro!: card_diff_insert_less image_eqI)

declare visit.simps [simp del]

definition validate_dependencies :: "wf_step list \<Rightarrow> step_index \<Rightarrow> plan_error + unit" where
  "validate_dependencies ss by_id =
     and_then (visit_all by_id [] [] (map st_id ss)) (\<lambda>_. Inr ())"

text \<open>\<open>_validate_conditions\<close>.\<close>

definition validate_condition :: "step_index \<Rightarrow> wf_step \<Rightarrow> plan_error + unit" where
  "validate_condition by_id s =
     (case condition s of
        None \<Rightarrow> Inr ()
      | Some c \<Rightarrow>
          and_then (need (Rejected ''invalid_condition_source'') (map_of by_id (source_step_id c))) (\<lambda>src.
          and_then (reject (st_type src \<noteq> ''vision_analyze'' \<or>
                            output_key src \<noteq> Some (cond_output_key c)) ''invalid_condition_source'') (\<lambda>_.
          and_then (dependency_ancestors by_id (st_id s)) (\<lambda>anc.
          and_then (reject (source_step_id c \<notin> set anc) ''condition_missing_dependency'') (\<lambda>_.
          reject (\<not> list_ex (py_eq (cond_value c)) (allowed_values src)) ''invalid_condition_value'')))))"

definition validate_conditions :: "wf_step list \<Rightarrow> step_index \<Rightarrow> plan_error + unit" where
  "validate_conditions ss by_id = for_each (validate_condition by_id) ss"

definition validate_response_step :: "wf_step list \<Rightarrow> plan_error + unit" where
  "validate_response_step ss =
     reject (length (filter (\<lambda>s. st_type s = ''respond'') ss) \<noteq> 1) ''invalid_response_count''"

text \<open>\<open>_stable_topological_sort\<close>: rounds over the steps that wait for nothing.\<close>

fun index_of :: "string list \<Rightarrow> string \<Rightarrow> nat" where
  "index_of [] x = 0"
| "index_of (y # ys) x = (if x = y then 0 else Suc (index_of ys x))"

definition topo_release :: "(string, string list) odict \<Rightarrow> string \<Rightarrow> (string, string list) odict" where
  "topo_release pending sid =
     map (\<lambda>(k, ds). (k, filter (\<lambda>d. d \<noteq> sid) ds)) (AList.delete sid pending)"

definition topo_ready :: "string list \<Rightarrow> (string, string list) odict \<Rightarrow> string list" where
  "topo_ready order pending = sort_key (index_of order) (keys (filter (\<lambda>(_, ds). ds = []) pending))"

lemma keys_topo_release: "keys (topo_release pending sid) = filter (\<lambda>k. k \<noteq> sid) (keys pending)"
  by (simp add: topo_release_def keys_delete comp_def case_prod_beta)

lemma keys_foldl_topo_release:
  "keys (foldl topo_release pending rs) = filter (\<lambda>k. k \<notin> set rs) (keys pending)"
  by (induction rs arbitrary: pending) (auto simp: keys_topo_release intro: filter_cong)

lemma topo_round_shrinks:
  assumes "topo_ready order pending \<noteq> []"
  shows "length (foldl topo_release pending (topo_ready order pending)) < length pending"
proof -
  from assms obtain k where k: "k \<in> set (topo_ready order pending)"
    by (cases "topo_ready order pending") auto
  then have "k \<in> set (keys pending)" by (auto simp: topo_ready_def)
  with k have "length (filter (\<lambda>k. k \<notin> set (topo_ready order pending)) (keys pending))
      < length (keys pending)"
    by (intro length_filter_less) auto
  then show ?thesis by (metis keys_foldl_topo_release length_map)
qed

function topo_loop ::
  "string list \<Rightarrow> step_index \<Rightarrow> (string, string list) odict \<Rightarrow> wf_step list \<Rightarrow> plan_error + wf_step list"
where
  "topo_loop order by_id pending done =
     (if pending = [] then Inr done
      else if topo_ready order pending = [] then Inl (Rejected ''dependency_cycle'')
      else and_then (traverse (\<lambda>sid. need (Raised KeyError) (map_of by_id sid)) (topo_ready order pending))
        (\<lambda>ss. topo_loop order by_id
           (foldl topo_release pending (topo_ready order pending)) (done @ ss)))"
  by pat_completeness auto
termination
  by (relation "measure (\<lambda>(_, _, pending, _). length pending)") (auto simp: topo_round_shrinks)

declare topo_loop.simps [simp del]

definition stable_topological_sort :: "wf_step list \<Rightarrow> plan_error + wf_step list" where
  "stable_topological_sort ss =
     topo_loop (map st_id ss) (index_steps ss) (map (\<lambda>s. (st_id s, depends_on s)) ss) []"

subsection \<open>The validator\<close>

text \<open>The loop over the raw steps that collects their ids.\<close>

fun collect_steps :: "json list \<Rightarrow> string list \<Rightarrow> plan_error + jobj list" where
  "collect_steps [] seen = Inr []"
| "collect_steps (raw # raws) seen =
     and_then (need (Rejected ''invalid_step'') (jobj_of raw)) (\<lambda>d.
     and_then (need (Rejected ''invalid_step_id'') (jstr_of (jget d ''id''))) (\<lambda>sid.
     and_then (reject (\<not> step_id_ok sid) ''invalid_step_id'') (\<lambda>_.
     and_then (reject (sid \<in> set seen) ''duplicate_step_id'') (\<lambda>_.
     and_then (collect_steps raws (seen @ [sid])) (\<lambda>ds. Inr (d # ds))))))"

definition step_id_of :: "jobj \<Rightarrow> string" where
  "step_id_of d = opt_text (jstr_of (jget d ''id''))"

definition choose_terminal :: "wf_step list \<Rightarrow> plan_error + string option" where
  \<comment> \<open>at most one terminal step, and nothing depends on it\<close>
  "choose_terminal parsed =
     (let terms = filter terminal parsed in
      and_then (reject (length terms > 1) ''multiple_terminal_steps'') (\<lambda>_.
      case terms of
        [] \<Rightarrow> Inr None
      | t # _ \<Rightarrow>
          and_then (reject (list_ex (\<lambda>s. st_id t \<in> set (depends_on s)) parsed) ''terminal_has_dependents'')
            (\<lambda>_. Inr (Some (st_id t)))))"

definition terminal_last :: "step_index \<Rightarrow> string option \<Rightarrow> wf_step list \<Rightarrow> plan_error + wf_step list" where
  "terminal_last by_id term ordered =
     (case term of
        None \<Rightarrow> Inr ordered
      | Some tid \<Rightarrow>
          and_then (need (Raised KeyError) (map_of by_id tid))
            (\<lambda>t. Inr (filter (\<lambda>s. st_id s \<noteq> tid) ordered @ [t])))"

definition check_response_covers :: "wf_step list \<Rightarrow> step_index \<Rightarrow> plan_error + unit" where
  "check_response_covers parsed by_id =
     and_then (need (Raised StopIteration) (find (\<lambda>s. st_type s = ''respond'') parsed)) (\<lambda>respond.
     and_then (dependency_ancestors by_id (st_id respond)) (\<lambda>anc.
     reject (\<not> list_all (\<lambda>s. st_id s \<in> set anc)
              (filter (\<lambda>s. st_type s \<in> {''tool'', ''vision_analyze''} \<and> \<not> terminal s) parsed))
       ''response_missing_dependencies''))"

definition validate_steps :: "wf_step list \<Rightarrow> plan_error + (wf_step list \<times> string option)" where
  \<comment> \<open>the whole-plan checks, and the execution order\<close>
  "validate_steps parsed =
     (let by_id = index_steps parsed in
      and_then (validate_dependencies parsed by_id) (\<lambda>_.
      and_then (validate_conditions parsed by_id) (\<lambda>_.
      and_then (validate_response_step parsed) (\<lambda>_.
      and_then (choose_terminal parsed) (\<lambda>term.
      and_then (stable_topological_sort parsed) (\<lambda>sorted.
      and_then (terminal_last by_id term sorted) (\<lambda>ordered.
      and_then (check_response_covers parsed by_id) (\<lambda>_.
      Inr (ordered, term)))))))))"

definition parse_steps :: "tool_schemas \<Rightarrow> string list \<Rightarrow> json list \<Rightarrow> plan_error + wf_step list" where
  "parse_steps schemas terminals raw_steps =
     and_then (collect_steps raw_steps []) (\<lambda>raws.
     traverse (parse_step (map step_id_of raws) schemas terminals) raws)"

definition validate_workflow_plan :: "tool_schemas \<Rightarrow> string list \<Rightarrow> json \<Rightarrow> plan_error + wf_plan" where
  "validate_workflow_plan schemas terminals raw_plan =
     and_then (need (Rejected ''invalid_plan'') (jobj_of raw_plan)) (\<lambda>d.
     and_then (reject (\<not> set (keys d) \<subseteq> {''version'', ''goal'', ''steps''}) ''unknown_plan_fields'') (\<lambda>_.
     and_then (reject (\<not> py_eq (jget d ''version'') (JInt 1)) ''unsupported_version'') (\<lambda>_.
     and_then (need (Rejected ''invalid_goal'') (nonblank (jget d ''goal''))) (\<lambda>g.
     and_then (need (Rejected ''invalid_step_count'') (jarr_of (jget d ''steps''))) (\<lambda>raw_steps.
     and_then (reject (\<not> (1 \<le> length raw_steps \<and> length raw_steps \<le> MAX_WORKFLOW_STEPS))
       ''invalid_step_count'') (\<lambda>_.
     and_then (parse_steps schemas terminals raw_steps) (\<lambda>parsed.
     and_then (validate_steps parsed) (\<lambda>(ordered, term).
     Inr \<lparr>pl_version = 1, goal = py_strip g, steps = ordered, terminal_step_id = term,
          requires_playback_barrier = (term \<noteq> None)\<rparr>))))))))"

subsection \<open>Plans as JSON, and the schemas of the available tools\<close>

definition condition_to_json :: "wf_condition \<Rightarrow> json" where
  "condition_to_json c =
     JObj [(''source'', JStr (source_step_id c @ ''.'' @ cond_output_key c)),
           (''operator'', JStr (cond_operator c)),
           (''value'', cond_value c)]"

definition step_to_json :: "wf_step \<Rightarrow> json" where
  "step_to_json s =
     JObj ([(''id'', JStr (st_id s)), (''type'', JStr (st_type s)), (''intent'', JStr (st_intent s)),
            (''depends_on'', JArr (map JStr (depends_on s))),
            (''failure_policy'', JStr (failure_policy s)), (''terminal'', JBool (terminal s))] @
       (if st_type s = ''tool'' then
          [(''tool_name'', case tool_name s of None \<Rightarrow> JNull | Some n \<Rightarrow> JStr n),
           (''arguments'', JObj (arguments s))] @
          (case condition s of None \<Rightarrow> [] | Some c \<Rightarrow> [(''when'', condition_to_json c)])
        else if st_type s = ''vision_analyze'' then
          [(''output_key'', case output_key s of None \<Rightarrow> JNull | Some k \<Rightarrow> JStr k),
           (''allowed_values'', JArr (allowed_values s))]
        else [(''vision'', JStr (st_vision s))]))"

definition workflow_plan_to_dict :: "wf_plan \<Rightarrow> json" where
  "workflow_plan_to_dict plan =
     JObj [(''version'', JInt (pl_version plan)), (''goal'', JStr (goal plan)),
           (''steps'', JArr (map step_to_json (steps plan)))]"

definition add_tool_schema :: "tool_schemas \<Rightarrow> json \<Rightarrow> tool_schemas" where
  "add_tool_schema result tool =
     (case tool of
        JObj t \<Rightarrow>
          (case jget t ''function'' of
             JObj f \<Rightarrow>
               (case (jget f ''name'', jget_default f ''parameters'' (JObj [])) of
                  (JStr name, JObj params) \<Rightarrow>
                    if name \<noteq> [] then AList.update name params result else result
                | _ \<Rightarrow> result)
           | _ \<Rightarrow> result)
      | _ \<Rightarrow> result)"

definition tool_schemas_from_openai_tools :: "json list \<Rightarrow> tool_schemas" where
  "tool_schemas_from_openai_tools = foldl add_tool_schema []"

end
