(* ===== verification/Workflow_Plan_Facts.thy ===== *)
theory Workflow_Plan_Facts
  imports Workflow_Protocol
begin

text \<open>
  Correctness of the plan validator: the dependency graph, the execution order and the
  shape of an accepted plan.
\<close>

subsection \<open>The dependency relation\<close>

definition dep_rel :: "step_index \<Rightarrow> (string \<times> string) set" where
  "dep_rel by_id = {(a, b). \<exists>s. map_of by_id a = Some s \<and> b \<in> set (depends_on s)}"

definition closed_index :: "step_index \<Rightarrow> bool" where
  "closed_index by_id = (\<forall>(a, s) \<in> set by_id. set (depends_on s) \<subseteq> set (keys by_id))"

lemma dep_relI [intro]: "map_of by_id a = Some s \<Longrightarrow> b \<in> set (depends_on s) \<Longrightarrow> (a, b) \<in> dep_rel by_id"
  by (auto simp: dep_rel_def)

lemma map_of_keys: "a \<in> set (keys by_id) \<longleftrightarrow> (\<exists>s. map_of by_id a = Some s)"
  by (metis domD domI dom_map_of_conv_image_fst image_set)

lemma closed_index_deps:
  "closed_index by_id \<Longrightarrow> map_of by_id a = Some s \<Longrightarrow> set (depends_on s) \<subseteq> set (keys by_id)"
  by (auto simp: closed_index_def dest!: map_of_SomeD)

lemma dep_rel_keys: "closed_index by_id \<Longrightarrow> dep_rel by_id \<subseteq> set (keys by_id) \<times> set (keys by_id)"
proof (clarsimp simp: dep_rel_def)
  fix a b s
  assume closed: "closed_index by_id" and a: "map_of by_id a = Some s" and b: "b \<in> set (depends_on s)"
  have "a \<in> set (keys by_id)" using a map_of_keys [of a by_id] by blast
  moreover have "b \<in> set (keys by_id)" using closed_index_deps [OF closed a] b by blast
  ultimately show "a \<in> fst ` set by_id \<and> b \<in> fst ` set by_id" by simp
qed

subsection \<open>The ancestors worklist\<close>

lemma ancestors_loop_sound:
  "ancestors_loop by_id stack found = Inr r \<Longrightarrow>
   set r \<subseteq> set found \<union> (dep_rel by_id)\<^sup>* `` set stack"
proof (induction by_id stack found rule: ancestors_loop.induct)
  case (1 by_id found)
  then show ?case by simp
next
  case (2 by_id d stack found)
  show ?case
  proof (cases "d \<in> set found")
    case True
    with 2 show ?thesis by auto
  next
    case False
    with 2(3) obtain s where s: "map_of by_id d = Some s"
      by (cases "map_of by_id d") auto
    have "set r \<subseteq> insert d (set found) \<union> (dep_rel by_id)\<^sup>* `` (set (depends_on s) \<union> set stack)"
      using "2.IH"(2) [OF False s] "2.prems" False s by auto
    moreover have "(dep_rel by_id)\<^sup>* `` set (depends_on s) \<subseteq> (dep_rel by_id)\<^sup>* `` {d}"
      using s by (auto intro: converse_rtrancl_into_rtrancl)
    ultimately show ?thesis by fastforce
  qed
qed

lemma ancestors_loop_complete:
  "ancestors_loop by_id stack found = Inr r \<Longrightarrow>
   (\<And>a b. a \<in> set found \<Longrightarrow> (a, b) \<in> dep_rel by_id \<Longrightarrow> b \<in> set found \<union> set stack) \<Longrightarrow>
   set found \<union> set stack \<subseteq> set r \<and> dep_rel by_id `` set r \<subseteq> set r"
proof (induction by_id stack found rule: ancestors_loop.induct)
  case (1 by_id found)
  then show ?case by auto
next
  case (2 by_id d stack found)
  show ?case
  proof (cases "d \<in> set found")
    case True
    have "set found \<union> set stack \<subseteq> set r \<and> dep_rel by_id `` set r \<subseteq> set r"
    proof (rule "2.IH"(1) [OF True])
      show "ancestors_loop by_id stack found = Inr r" using "2.prems"(1) True by simp
    next
      fix a b assume "a \<in> set found" "(a, b) \<in> dep_rel by_id"
      then show "b \<in> set found \<union> set stack" using "2.prems"(2) [of a b] True by auto
    qed
    with True show ?thesis by auto
  next
    case False
    with "2.prems"(1) obtain s where s: "map_of by_id d = Some s"
      by (cases "map_of by_id d") auto
    have "set (d # found) \<union> set (rev (depends_on s) @ stack) \<subseteq> set r \<and> dep_rel by_id `` set r \<subseteq> set r"
    proof (rule "2.IH"(2) [OF False s])
      show "ancestors_loop by_id (rev (depends_on s) @ stack) (d # found) = Inr r"
        using "2.prems"(1) False s by simp
    next
      fix a b assume "a \<in> set (d # found)" "(a, b) \<in> dep_rel by_id"
      then show "b \<in> set (d # found) \<union> set (rev (depends_on s) @ stack)"
        using "2.prems"(2) [of a b] s by (auto simp: dep_rel_def)
    qed
    then show ?thesis by auto
  qed
qed

lemma ancestors_loop_total:
  "closed_index by_id \<Longrightarrow> set stack \<subseteq> set (keys by_id) \<Longrightarrow> \<exists>r. ancestors_loop by_id stack found = Inr r"
proof (induction by_id stack found rule: ancestors_loop.induct)
  case (1 by_id found)
  show ?case by simp
next
  case (2 by_id d stack found)
  from "2.prems"(2) obtain s where s: "map_of by_id d = Some s"
    using map_of_keys [of d by_id] by auto
  with "2.prems" have "set (rev (depends_on s) @ stack) \<subseteq> set (keys by_id)"
    using closed_index_deps [of by_id d s] by auto
  with 2 s show ?case by (cases "d \<in> set found") auto
qed

lemma dependency_ancestors_set:
  assumes "dependency_ancestors by_id sid = Inr r"
  shows "set r = {b. (sid, b) \<in> (dep_rel by_id)\<^sup>+}"
proof -
  from assms obtain s where s: "map_of by_id sid = Some s"
      and loop: "ancestors_loop by_id (rev (depends_on s)) [] = Inr r"
    by (auto simp: dependency_ancestors_def split: option.splits)
  have step: "{b. (sid, b) \<in> (dep_rel by_id)\<^sup>+} = (dep_rel by_id)\<^sup>* `` set (depends_on s)"
    using s by (auto simp: trancl_unfold_left dep_rel_def)
  have "set r \<subseteq> (dep_rel by_id)\<^sup>* `` set (depends_on s)"
    using ancestors_loop_sound [OF loop] by simp
  moreover have "(dep_rel by_id)\<^sup>* `` set (depends_on s) \<subseteq> set r"
  proof -
    from ancestors_loop_complete [OF loop] have "set (depends_on s) \<subseteq> set r"
      and closed: "dep_rel by_id `` set r \<subseteq> set r" by auto
    then show ?thesis using Image_closed_trancl [OF closed] by blast
  qed
  ultimately show ?thesis using step by blast
qed

lemma dependency_ancestors_total:
  assumes "closed_index by_id" "sid \<in> set (keys by_id)"
  shows "\<exists>r. dependency_ancestors by_id sid = Inr r"
proof -
  from assms(2) obtain s where s: "map_of by_id sid = Some s"
    using map_of_keys [of sid by_id] by auto
  with assms(1) have "set (rev (depends_on s)) \<subseteq> set (keys by_id)"
    using closed_index_deps [of by_id sid s] by auto
  then show ?thesis
    using ancestors_loop_total [OF assms(1)] s by (auto simp: dependency_ancestors_def)
qed

subsection \<open>The depth-first search\<close>

definition explored :: "step_index \<Rightarrow> string list \<Rightarrow> bool" where
  \<comment> \<open>a visited set that is closed under dependencies and on no cycle\<close>
  "explored by_id V \<longleftrightarrow>
     dep_rel by_id `` set V \<subseteq> set V \<and> (\<forall>v \<in> set V. (v, v) \<notin> (dep_rel by_id)\<^sup>+)"

lemma explored_Nil [simp]: "explored by_id []"
  by (simp add: explored_def)

lemma trancl_into_closed:
  assumes "(a, b) \<in> R\<^sup>+" "R `` {a} \<subseteq> V" "R `` V \<subseteq> V" shows "b \<in> V"
proof -
  from assms(1) obtain c where c: "(a, c) \<in> R" "(c, b) \<in> R\<^sup>*"
    by (auto dest: tranclD)
  then have "c \<in> V" using assms(2) by auto
  with c(2) show ?thesis using Image_closed_trancl [OF assms(3)] by blast
qed

lemma explored_Cons:
  assumes "explored by_id V" "sid \<notin> set V" "dep_rel by_id `` {sid} \<subseteq> set V"
  shows "explored by_id (sid # V)"
proof -
  have "(sid, sid) \<notin> (dep_rel by_id)\<^sup>+"
    using trancl_into_closed [of sid sid "dep_rel by_id" "set V"] assms
    by (auto simp: explored_def)
  with assms show ?thesis by (auto simp: explored_def)
qed

lemma visit_sound:
  "visit by_id P V sid = Inr V' \<Longrightarrow> explored by_id V \<Longrightarrow> set V \<inter> set P = {} \<Longrightarrow>
     explored by_id V' \<and> set V \<subseteq> set V' \<and> sid \<in> set V' \<and> set V' \<inter> set P = {}"
  and visit_all_sound:
  "visit_all by_id P V ds = Inr V' \<Longrightarrow> explored by_id V \<Longrightarrow> set V \<inter> set P = {} \<Longrightarrow>
     explored by_id V' \<and> set V \<subseteq> set V' \<and> set ds \<subseteq> set V' \<and> set V' \<inter> set P = {}"
proof (induction by_id P V sid and by_id P V ds arbitrary: V' and V' rule: visit_visit_all.induct)
  case (1 by_id P V sid)
  have notP: "sid \<notin> set P"
    using "1.prems"(1) by (auto simp: visit.simps [of by_id P V sid] split: if_splits)
  show ?case
  proof (cases "sid \<in> set V")
    case True
    with 1 notP show ?thesis by (simp add: visit.simps [of by_id P V sid])
  next
    case False
    with "1.prems"(1) notP obtain s W where s: "map_of by_id sid = Some s"
        and W: "visit_all by_id (sid # P) V (depends_on s) = Inr W" and V': "V' = sid # W"
      by (auto simp: visit.simps [of by_id P V sid] and_then_Inr_iff split: option.splits)
    have IH: "explored by_id W \<and> set V \<subseteq> set W \<and> set (depends_on s) \<subseteq> set W \<and> set W \<inter> set (sid # P) = {}"
      using "1.IH" [OF notP False s W] "1.prems" False by auto
    have "dep_rel by_id `` {sid} \<subseteq> set W"
      using IH s by (auto simp: dep_rel_def)
    with IH have "explored by_id (sid # W)" by (intro explored_Cons) auto
    with IH V' notP show ?thesis by auto
  qed
next
  case (2 by_id P V)
  then show ?case by simp
next
  case (3 by_id P V d ds)
  from "3.prems"(1) obtain W where W: "visit by_id P V d = Inr W"
      and rest: "visit_all by_id P W ds = Inr V'"
    by (auto simp: and_then_Inr_iff)
  from "3.IH"(1) [OF W "3.prems"(2,3)] "3.IH"(2) [OF W rest] show ?case by auto
qed

lemma visit_cycle:
  "visit by_id P V sid = Inl e \<Longrightarrow> closed_index by_id \<Longrightarrow> sid \<in> set (keys by_id) \<Longrightarrow>
     (\<And>p. p \<in> set P \<Longrightarrow> (p, sid) \<in> (dep_rel by_id)\<^sup>+) \<Longrightarrow>
     e = Rejected ''dependency_cycle'' \<and> (\<exists>v. (v, v) \<in> (dep_rel by_id)\<^sup>+)"
  and visit_all_cycle:
  "visit_all by_id P V ds = Inl e \<Longrightarrow> closed_index by_id \<Longrightarrow> set ds \<subseteq> set (keys by_id) \<Longrightarrow>
     (\<And>p d. p \<in> set P \<Longrightarrow> d \<in> set ds \<Longrightarrow> (p, d) \<in> (dep_rel by_id)\<^sup>+) \<Longrightarrow>
     e = Rejected ''dependency_cycle'' \<and> (\<exists>v. (v, v) \<in> (dep_rel by_id)\<^sup>+)"
proof (induction by_id P V sid and by_id P V ds arbitrary: e and e rule: visit_visit_all.induct)
  case (1 by_id P V sid)
  show ?case
  proof (cases "sid \<in> set P")
    case True
    then have "(sid, sid) \<in> (dep_rel by_id)\<^sup>+" by (rule "1.prems"(4))
    with True "1.prems"(1) show ?thesis by (auto simp: visit.simps [of by_id P V sid])
  next
    case False
    have V: "sid \<notin> set V"
      using "1.prems"(1) False by (auto simp: visit.simps [of by_id P V sid])
    obtain s where s: "map_of by_id sid = Some s"
      using "1.prems"(3) map_of_keys [of sid by_id] by auto
    have all: "visit_all by_id (sid # P) V (depends_on s) = Inl e"
      using "1.prems"(1) False V s by (auto simp: visit.simps [of by_id P V sid] and_then_Inl_iff)
    show ?thesis
    proof (rule "1.IH" [OF False V s all "1.prems"(2)])
      show "set (depends_on s) \<subseteq> set (keys by_id)"
        using closed_index_deps [OF "1.prems"(2) s] .
    next
      fix p d assume p: "p \<in> set (sid # P)" and d: "d \<in> set (depends_on s)"
      from s d have step: "(sid, d) \<in> dep_rel by_id" by blast
      show "(p, d) \<in> (dep_rel by_id)\<^sup>+"
        using p step "1.prems"(4) [of p] by (cases "p = sid") auto
    qed
  qed
next
  case (2 by_id P V)
  then show ?case by simp
next
  case (3 by_id P V d ds)
  show ?case
  proof (cases "visit by_id P V d")
    case (Inl e')
    with "3.prems"(1) have "visit by_id P V d = Inl e" by simp
    then show ?thesis using "3.IH"(1) "3.prems" by auto
  next
    case (Inr W)
    with "3.prems"(1) have "visit_all by_id P W ds = Inl e" by simp
    then show ?thesis using "3.IH"(2) [OF Inr] "3.prems" by auto
  qed
qed

lemma validate_dependencies_acyclic:
  assumes ok: "validate_dependencies ss (index_steps ss) = Inr ()"
  shows "acyclic (dep_rel (index_steps ss))"
proof -
  from ok obtain V where V: "visit_all (index_steps ss) [] [] (map st_id ss) = Inr V"
    by (auto simp: validate_dependencies_def and_then_Inr_iff)
  have ex: "explored (index_steps ss) V" and all: "set (map st_id ss) \<subseteq> set V"
    using visit_all_sound [OF V] by auto
  show ?thesis
    unfolding acyclic_def
  proof (intro allI notI)
    fix v assume v: "(v, v) \<in> (dep_rel (index_steps ss))\<^sup>+"
    then obtain w where "(v, w) \<in> dep_rel (index_steps ss)" by (auto dest: tranclD)
    then have "v \<in> set (keys (index_steps ss))"
      using map_of_keys [of v "index_steps ss"] by (auto simp: dep_rel_def)
    then have "v \<in> set V" using all by (auto simp: index_steps_def)
    with ex v show False by (auto simp: explored_def)
  qed
qed

lemma validate_dependencies_complete:
  assumes "acyclic (dep_rel (index_steps ss))" and "closed_index (index_steps ss)"
  shows "validate_dependencies ss (index_steps ss) = Inr ()"
proof (cases "visit_all (index_steps ss) [] [] (map st_id ss)")
  case (Inr V)
  then show ?thesis by (simp add: validate_dependencies_def)
next
  case (Inl e)
  have "set (map st_id ss) \<subseteq> set (keys (index_steps ss))"
    by (auto simp: index_steps_def)
  with visit_all_cycle [OF Inl assms(2)] assms(1) show ?thesis by (auto simp: acyclic_def)
qed

subsection \<open>The topological sort\<close>

fun deps_ordered :: "string list \<Rightarrow> wf_step list \<Rightarrow> bool" where
  \<comment> \<open>every step comes after the steps it depends on\<close>
  "deps_ordered seen [] = True"
| "deps_ordered seen (s # ss) =
     (set (depends_on s) \<subseteq> set seen \<and> deps_ordered (st_id s # seen) ss)"

lemma deps_ordered_mono: "deps_ordered seen ss \<Longrightarrow> set seen \<subseteq> set seen' \<Longrightarrow> deps_ordered seen' ss"
proof (induction ss arbitrary: seen seen')
  case (Cons s ss)
  have "deps_ordered (st_id s # seen') ss"
    by (rule Cons.IH [of "st_id s # seen"]) (use Cons.prems in auto)
  with Cons.prems show ?case by auto
qed simp

lemma deps_ordered_append:
  "deps_ordered seen (xs @ ys) \<longleftrightarrow>
   deps_ordered seen xs \<and> deps_ordered (rev (map st_id xs) @ seen) ys"
  by (induction xs arbitrary: seen) auto

lemma deps_ordered_flat:
  "(\<And>s. s \<in> set ss \<Longrightarrow> set (depends_on s) \<subseteq> set seen) \<Longrightarrow> deps_ordered seen ss"
proof (induction ss arbitrary: seen)
  case (Cons s ss)
  have "deps_ordered (st_id s # seen) ss" by (rule Cons.IH) (use Cons.prems in auto)
  with Cons.prems show ?case by auto
qed simp

lemma map_of_index_steps: "map_of (index_steps ss) k = Some s \<Longrightarrow> st_id s = k \<and> s \<in> set ss"
  by (auto simp: index_steps_def dest!: map_of_SomeD)

lemma map_of_index_step:
  assumes "distinct (map st_id ss)" "s \<in> set ss" shows "map_of (index_steps ss) (st_id s) = Some s"
proof (rule map_of_is_SomeI)
  show "distinct (map fst (index_steps ss))"
    using assms(1) by (simp add: index_steps_def comp_def)
qed (use assms(2) in \<open>auto simp: index_steps_def\<close>)

lemma keys_index_steps [simp]: "keys (index_steps ss) = map st_id ss"
  by (simp add: index_steps_def)

lemma foldl_topo_release:
  "foldl topo_release pending rs =
   map (\<lambda>(k, ds). (k, filter (\<lambda>d. d \<notin> set rs) ds)) (filter (\<lambda>(k, _). k \<notin> set rs) pending)"
proof (induction rs arbitrary: pending)
  case Nil
  show ?case by (induction pending) auto
next
  case (Cons r rs)
  show ?case
    unfolding foldl.simps Cons.IH
    by (auto simp: topo_release_def AList.delete_eq filter_map comp_def case_prod_beta
        intro!: map_cong filter_cong)
qed

lemma set_topo_ready: "set (topo_ready order pending) = {k. (k, []) \<in> set pending}"
  by (force simp: topo_ready_def)

lemma distinct_topo_ready: "distinct (keys pending) \<Longrightarrow> distinct (topo_ready order pending)"
  unfolding topo_ready_def distinct_sort by (induction pending) auto

record topo_state =
  tp_index :: step_index
  tp_pending :: "(string, string list) odict"
  tp_done :: "wf_step list"

definition topo_inv :: "topo_state \<Rightarrow> bool" where
  "topo_inv t \<longleftrightarrow>
     distinct (keys (tp_pending t)) \<and> distinct (map st_id (tp_done t)) \<and>
     set (map st_id (tp_done t)) \<union> set (keys (tp_pending t)) = set (keys (tp_index t)) \<and>
     set (map st_id (tp_done t)) \<inter> set (keys (tp_pending t)) = {} \<and>
     (\<forall>s \<in> set (tp_done t). map_of (tp_index t) (st_id s) = Some s) \<and>
     (\<forall>(k, ds) \<in> set (tp_pending t). \<exists>s. map_of (tp_index t) k = Some s \<and>
        ds = filter (\<lambda>d. d \<notin> set (map st_id (tp_done t))) (depends_on s)) \<and>
     deps_ordered [] (tp_done t)"

lemma topo_round_steps:
  assumes inv: "topo_inv \<lparr>tp_index = index_steps ss, tp_pending = pending, tp_done = finished\<rparr>"
  obtains new where
    "traverse (\<lambda>sid. need (Raised KeyError) (map_of (index_steps ss) sid)) (topo_ready order pending) = Inr new"
    "map st_id new = topo_ready order pending"
    "\<And>s. s \<in> set new \<Longrightarrow> map_of (index_steps ss) (st_id s) = Some s \<and>
       set (depends_on s) \<subseteq> set (map st_id finished)"
proof -
  let ?f = "\<lambda>sid. need (Raised KeyError) (map_of (index_steps ss) sid)"
  let ?rd = "topo_ready order pending"
  have ready: "\<exists>s. map_of (index_steps ss) k = Some s \<and> st_id s = k \<and>
      set (depends_on s) \<subseteq> set (map st_id finished)" if "k \<in> set ?rd" for k
  proof -
    from that have "(k, []) \<in> set pending" by (simp add: set_topo_ready)
    with inv obtain s where "map_of (index_steps ss) k = Some s"
        "filter (\<lambda>d. d \<notin> set (map st_id finished)) (depends_on s) = []"
      unfolding topo_inv_def by fastforce
    then show ?thesis using map_of_index_steps [of ss k s] by (auto simp: filter_empty_conv)
  qed
  define new where "new = map (\<lambda>k. the (map_of (index_steps ss) k)) ?rd"
  have "traverse ?f ?rd = Inr new"
    unfolding new_def by (rule traverse_map) (use ready in fastforce)
  moreover have "map st_id new = ?rd"
    unfolding new_def map_map by (rule map_idI) (use ready in fastforce)
  moreover have "map_of (index_steps ss) (st_id s) = Some s \<and> set (depends_on s) \<subseteq> set (map st_id finished)"
    if "s \<in> set new" for s
    using that ready unfolding new_def by fastforce
  ultimately show ?thesis using that by blast
qed

lemma topo_inv_round:
  assumes inv: "topo_inv \<lparr>tp_index = index_steps ss, tp_pending = pending, tp_done = finished\<rparr>"
    and ids: "map st_id new = topo_ready order pending"
    and new: "\<And>s. s \<in> set new \<Longrightarrow> map_of (index_steps ss) (st_id s) = Some s \<and>
       set (depends_on s) \<subseteq> set (map st_id finished)"
  shows "topo_inv \<lparr>tp_index = index_steps ss,
           tp_pending = foldl topo_release pending (topo_ready order pending), tp_done = finished @ new\<rparr>"
proof -
  let ?rd = "topo_ready order pending"
  have sub: "set ?rd \<subseteq> set (keys pending)" by (force simp: set_topo_ready)
  have ids': "st_id ` set new = set ?rd" by (metis ids image_set)
  have keys': "keys (foldl topo_release pending ?rd) = filter (\<lambda>k. k \<notin> set ?rd) (keys pending)"
    by (rule keys_foldl_topo_release)
  have dist: "distinct ?rd" using inv by (intro distinct_topo_ready) (simp add: topo_inv_def)
  have "deps_ordered (rev (map st_id finished)) new"
    by (rule deps_ordered_flat) (use new in fastforce)
  with inv have "deps_ordered [] (finished @ new)"
    by (simp add: topo_inv_def deps_ordered_append)
  moreover have "\<exists>s. map_of (index_steps ss) k = Some s \<and>
      ds = filter (\<lambda>d. d \<notin> set (map st_id (finished @ new))) (depends_on s)"
    if kds: "(k, ds) \<in> set (foldl topo_release pending ?rd)" for k ds
  proof -
    from kds obtain ds0 where "(k, ds0) \<in> set pending" and ds: "ds = filter (\<lambda>d. d \<notin> set ?rd) ds0"
      by (auto simp: foldl_topo_release)
    with inv obtain s where "map_of (index_steps ss) k = Some s"
        "ds0 = filter (\<lambda>d. d \<notin> set (map st_id finished)) (depends_on s)"
      unfolding topo_inv_def by fastforce
    with ds ids' show ?thesis by (auto simp: conj_commute)
  qed
  moreover have "distinct (map st_id (finished @ new))"
    using inv ids dist sub ids' by (auto simp: topo_inv_def)
  moreover have "set (map st_id (finished @ new)) \<union> set (keys (foldl topo_release pending ?rd)) = set (keys (index_steps ss))"
    using inv sub ids' unfolding topo_inv_def keys' by auto
  moreover have "set (map st_id (finished @ new)) \<inter> set (keys (foldl topo_release pending ?rd)) = {}"
    using inv ids' unfolding topo_inv_def keys' by auto
  moreover have "\<forall>s \<in> set (finished @ new). map_of (index_steps ss) (st_id s) = Some s"
    using inv new by (auto simp: topo_inv_def)
  moreover have "distinct (keys (foldl topo_release pending ?rd))"
    using inv unfolding topo_inv_def keys' by simp
  ultimately show ?thesis unfolding topo_inv_def by auto
qed

lemma topo_loop_inv:
  "topo_loop order by_id pending finished = Inr r \<Longrightarrow> by_id = index_steps ss \<Longrightarrow>
   topo_inv \<lparr>tp_index = by_id, tp_pending = pending, tp_done = finished\<rparr> \<Longrightarrow>
   topo_inv \<lparr>tp_index = by_id, tp_pending = [], tp_done = r\<rparr>"
proof (induction order by_id pending finished rule: topo_loop.induct)
  case (1 order by_id pending finished)
  show ?case
  proof (cases "pending = []")
    case True
    with "1.prems"(1) have "finished = r" by (simp add: topo_loop.simps [of order by_id "[]" finished])
    with "1.prems"(3) True show ?thesis by simp
  next
    case False
    with "1.prems"(1) have rd: "topo_ready order pending \<noteq> []"
      by (auto simp: topo_loop.simps [of order by_id pending finished])
    from "1.prems"(3) obtain new where
      t: "traverse (\<lambda>sid. need (Raised KeyError) (map_of by_id sid)) (topo_ready order pending) = Inr new"
      and ids: "map st_id new = topo_ready order pending"
      and new: "\<And>s. s \<in> set new \<Longrightarrow> map_of by_id (st_id s) = Some s \<and>
         set (depends_on s) \<subseteq> set (map st_id finished)"
      unfolding "1.prems"(2) by (rule topo_round_steps [where order = order]) blast
    have rest: "topo_loop order by_id (foldl topo_release pending (topo_ready order pending)) (finished @ new) = Inr r"
      using "1.prems"(1) False rd t by (simp add: topo_loop.simps [of order by_id pending finished])
    show ?thesis
      by (rule "1.IH" [OF False rd t rest "1.prems"(2)])
        (use topo_inv_round [OF "1.prems"(3) [unfolded "1.prems"(2)] ids] new "1.prems"(2) in auto)
  qed
qed

lemma topo_loop_total:
  "by_id = index_steps ss \<Longrightarrow> acyclic (dep_rel by_id) \<Longrightarrow> closed_index by_id \<Longrightarrow>
   topo_inv \<lparr>tp_index = by_id, tp_pending = pending, tp_done = finished\<rparr> \<Longrightarrow>
   \<exists>r. topo_loop order by_id pending finished = Inr r"
proof (induction order by_id pending finished rule: topo_loop.induct)
  case (1 order by_id pending finished)
  show ?case
  proof (cases "pending = []")
    case True
    then show ?thesis by (simp add: topo_loop.simps [of order by_id "[]" finished])
  next
    case False
    have fin: "finite (dep_rel by_id)"
      by (rule finite_subset [OF dep_rel_keys [OF "1.prems"(3)]]) simp
    have wf: "wf ((dep_rel by_id)\<inverse>)"
      by (rule finite_acyclic_wf_converse [OF fin "1.prems"(2)])
    from False obtain k0 where "k0 \<in> set (keys pending)" by (cases pending) auto
    with wf obtain k where k: "k \<in> set (keys pending)"
        and min: "\<And>y. (y, k) \<in> (dep_rel by_id)\<inverse> \<Longrightarrow> y \<notin> set (keys pending)"
      by (rule wfE_min) blast
    from k obtain ds where kds: "(k, ds) \<in> set pending" by auto
    with "1.prems"(4) obtain s where s: "map_of by_id k = Some s"
        and ds: "ds = filter (\<lambda>d. d \<notin> set (map st_id finished)) (depends_on s)"
      unfolding topo_inv_def by fastforce
    have "set (depends_on s) \<subseteq> set (map st_id finished)"
    proof
      fix d assume d: "d \<in> set (depends_on s)"
      then have "d \<notin> set (keys pending)" using min s by auto
      moreover have "d \<in> set (keys by_id)" using closed_index_deps [OF "1.prems"(3) s] d by auto
      ultimately show "d \<in> set (map st_id finished)" using "1.prems"(4) by (auto simp: topo_inv_def)
    qed
    with ds have "ds = []" by (auto simp: filter_empty_conv)
    with kds have rd: "topo_ready order pending \<noteq> []"
      using set_topo_ready [of order pending] by (metis (mono_tags, lifting) empty_iff empty_set mem_Collect_eq)
    from "1.prems"(4) obtain new where
      t: "traverse (\<lambda>sid. need (Raised KeyError) (map_of by_id sid)) (topo_ready order pending) = Inr new"
      and ids: "map st_id new = topo_ready order pending"
      and new: "\<And>s. s \<in> set new \<Longrightarrow> map_of by_id (st_id s) = Some s \<and>
         set (depends_on s) \<subseteq> set (map st_id finished)"
      unfolding "1.prems"(1) by (rule topo_round_steps [where order = order]) blast
    have "\<exists>r. topo_loop order by_id (foldl topo_release pending (topo_ready order pending)) (finished @ new) = Inr r"
      by (rule "1.IH" [OF False rd t "1.prems"(1,2,3)])
        (use topo_inv_round [OF "1.prems"(4) [unfolded "1.prems"(1)] ids] new "1.prems"(1) in auto)
    with False rd t show ?thesis by (simp add: topo_loop.simps [of order by_id pending finished])
  qed
qed

lemma topo_inv_init:
  assumes "distinct (map st_id ss)"
  shows "topo_inv \<lparr>tp_index = index_steps ss, tp_pending = map (\<lambda>s. (st_id s, depends_on s)) ss, tp_done = []\<rparr>"
  using assms map_of_index_step [OF assms] by (auto simp: topo_inv_def comp_def)

lemma stable_topological_sort_spec:
  assumes "stable_topological_sort ss = Inr r" and dist: "distinct (map st_id ss)"
  shows "distinct (map st_id r)" "set r = set ss" "deps_ordered [] r"
proof -
  from assms(1) have inv: "topo_inv \<lparr>tp_index = index_steps ss, tp_pending = [], tp_done = r\<rparr>"
    unfolding stable_topological_sort_def by (rule topo_loop_inv [OF _ refl topo_inv_init [OF dist]])
  then show "distinct (map st_id r)" "deps_ordered [] r" by (auto simp: topo_inv_def)
  have "s \<in> set ss" if "s \<in> set r" for s
    using that inv map_of_index_steps [of ss "st_id s" s] by (auto simp: topo_inv_def)
  moreover have "s \<in> set r" if s: "s \<in> set ss" for s
  proof -
    from inv s have "st_id s \<in> st_id ` set r" by (auto simp: topo_inv_def)
    then obtain s' where s': "s' \<in> set r" "st_id s' = st_id s" by auto
    with inv have "map_of (index_steps ss) (st_id s) = Some s'" unfolding topo_inv_def by auto
    with s' map_of_index_step [OF dist s] show ?thesis by simp
  qed
  ultimately show "set r = set ss" by blast
qed

lemma stable_topological_sort_total:
  assumes "distinct (map st_id ss)" "acyclic (dep_rel (index_steps ss))" "closed_index (index_steps ss)"
  shows "\<exists>r. stable_topological_sort ss = Inr r"
  unfolding stable_topological_sort_def
  by (rule topo_loop_total [OF refl assms(2,3) topo_inv_init [OF assms(1)]])

subsection \<open>Accepted steps\<close>

definition tool_step_ok :: "tool_schemas \<Rightarrow> string list \<Rightarrow> wf_step \<Rightarrow> bool" where
  \<comment> \<open>an authorised tool, arguments that match its schema and hold no identity field, and the
      \<open>terminal\<close> mark of the server's policy\<close>
  "tool_step_ok schemas terminals s =
     (case tool_name s of
        None \<Rightarrow> False
      | Some n \<Rightarrow>
          (case map_of schemas n of
             None \<Rightarrow> False
           | Some schema \<Rightarrow>
               terminal s = (n \<in> set terminals) \<and>
               find_forbidden (JObj (arguments s)) = [] \<and>
               validate_json_schema (JObj (arguments s)) schema = Inr ()))"

definition step_ok :: "tool_schemas \<Rightarrow> string list \<Rightarrow> wf_step \<Rightarrow> bool" where
  "step_ok schemas terminals s \<longleftrightarrow>
     step_id_ok (st_id s) \<and> st_type s \<in> set STEP_TYPES \<and>
     failure_policy s \<in> set FAILURE_POLICIES \<and> distinct (depends_on s) \<and>
     st_id s \<notin> set (depends_on s) \<and>
     (if st_type s = ''tool'' then tool_step_ok schemas terminals s
      else \<not> terminal s \<and> condition s = None)"

lemma parse_toolD:
  "parse_tool schemas terminals raw base = Inr s \<Longrightarrow>
   tool_step_ok schemas terminals s \<and> st_id s = st_id base \<and> st_type s = st_type base \<and>
   depends_on s = depends_on base \<and> failure_policy s = failure_policy base"
  by (auto simp: parse_tool_def result_simps tool_step_ok_def)

lemma parse_visionD:
  "parse_vision raw base = Inr s \<Longrightarrow>
   st_id s = st_id base \<and> st_type s = st_type base \<and> depends_on s = depends_on base \<and>
   failure_policy s = failure_policy base \<and> terminal s = terminal base \<and> condition s = condition base"
  by (auto simp: parse_vision_def result_simps)

lemma parse_respondD:
  "parse_respond raw base = Inr s \<Longrightarrow>
   st_id s = st_id base \<and> st_type s = st_type base \<and> depends_on s = depends_on base \<and>
   failure_policy s = failure_policy base \<and> terminal s = terminal base \<and> condition s = condition base"
  by (auto simp: parse_respond_def result_simps)

lemma parse_stepE:
  assumes "parse_step known schemas terminals raw = Inr s"
  obtains ty pol base claimed where
    "ty \<in> set STEP_TYPES" "pol \<in> set FAILURE_POLICIES" "distinct (depends_on base)"
    "set (depends_on base) \<subseteq> set known" "st_id base \<notin> set (depends_on base)"
    "st_id base = step_id_of raw" "st_type base = ty" "failure_policy base = pol"
    "\<not> terminal base" "condition base = None"
    "(if ty = ''tool'' then parse_tool schemas terminals raw base
      else and_then (reject claimed ''non_tool_terminal'') (\<lambda>_.
        if ty = ''vision_analyze'' then parse_vision raw base else parse_respond raw base)) = Inr s"
proof -
  from assms obtain ty_ok pol_ok intent deps claimed where
    ty: "hash_in (jget raw ''type'') STEP_TYPES = Inr ty_ok" "ty_ok" and
    pol: "hash_in (jget raw ''failure_policy'') FAILURE_POLICIES = Inr pol_ok" "pol_ok" and
    deps: "distinct deps" "set deps \<subseteq> set known" "step_id_of raw \<notin> set deps" and
    body: "(let base = \<lparr>st_id = step_id_of raw, st_type = opt_text (jstr_of (jget raw ''type'')),
          st_intent = py_strip intent, depends_on = deps,
          failure_policy = opt_text (jstr_of (jget raw ''failure_policy'')), terminal = False,
          tool_name = None, arguments = [], condition = None, output_key = None,
          allowed_values = [], st_vision = ''none''\<rparr>
      in if opt_text (jstr_of (jget raw ''type'')) = ''tool'' then parse_tool schemas terminals raw base
         else and_then (reject claimed ''non_tool_terminal'') (\<lambda>_.
           if opt_text (jstr_of (jget raw ''type'')) = ''vision_analyze'' then parse_vision raw base
           else parse_respond raw base)) = Inr s"
    unfolding parse_step_def Let_def step_id_of_def result_simps not_not by blast
  show ?thesis
    by (rule that [OF _ _ _ _ _ _ _ _ _ _ body [unfolded Let_def]])
      (use ty pol deps in \<open>auto simp: hash_in_True\<close>)
qed

lemma parse_stepD:
  assumes "parse_step known schemas terminals raw = Inr s" and ok: "step_id_ok (step_id_of raw)"
  shows "step_ok schemas terminals s \<and> st_id s = step_id_of raw \<and> set (depends_on s) \<subseteq> set known"
  using assms(1)
proof (rule parse_stepE)
  fix ty pol base claimed
  assume base: "ty \<in> set STEP_TYPES" "pol \<in> set FAILURE_POLICIES" "distinct (depends_on base)"
    "set (depends_on base) \<subseteq> set known" "st_id base \<notin> set (depends_on base)"
    "st_id base = step_id_of raw" "st_type base = ty" "failure_policy base = pol"
    "\<not> terminal base" "condition base = None"
    and body: "(if ty = ''tool'' then parse_tool schemas terminals raw base
      else and_then (reject claimed ''non_tool_terminal'') (\<lambda>_.
        if ty = ''vision_analyze'' then parse_vision raw base else parse_respond raw base)) = Inr s"
  show ?thesis
  proof (cases "ty = ''tool''")
    case True
    with body have "parse_tool schemas terminals raw base = Inr s" by simp
    from parse_toolD [OF this] base True ok show ?thesis by (simp add: step_ok_def)
  next
    case False
    with body have "parse_vision raw base = Inr s \<or> parse_respond raw base = Inr s"
      by (auto simp: and_then_Inr_iff split: if_splits)
    with parse_visionD [of raw base s] parse_respondD [of raw base s] base False ok
    show ?thesis by (auto simp: step_ok_def)
  qed
qed

lemma collect_stepsD:
  "collect_steps raws seen = Inr ds \<Longrightarrow>
   length ds = length raws \<and> distinct (map step_id_of ds) \<and>
   set (map step_id_of ds) \<inter> set seen = {} \<and> (\<forall>d \<in> set ds. step_id_ok (step_id_of d))"
proof (induction raws seen arbitrary: ds rule: collect_steps.induct)
  case (1 seen)
  then show ?case by simp
next
  case (2 raw raws seen)
  from "2.prems" obtain d sid rest where d: "jobj_of raw = Some d"
      and sid: "jstr_of (jget d ''id'') = Some sid" and ok: "step_id_ok sid" "sid \<notin> set seen"
      and rest: "collect_steps raws (seen @ [sid]) = Inr rest" and ds: "ds = d # rest"
    by (auto simp: result_simps)
  have "length rest = length raws \<and> distinct (map step_id_of rest) \<and>
      set (map step_id_of rest) \<inter> set (seen @ [sid]) = {} \<and> (\<forall>d \<in> set rest. step_id_ok (step_id_of d))"
    by (rule "2.IH") (use d sid ok rest in auto)
  moreover have "step_id_of d = sid" using sid by (simp add: step_id_of_def)
  ultimately show ?case using ok ds by auto
qed

lemma parse_stepsD:
  assumes "parse_steps schemas terminals raw_steps = Inr parsed"
  shows "distinct (map st_id parsed)" "length parsed = length raw_steps"
    "\<And>s. s \<in> set parsed \<Longrightarrow> step_ok schemas terminals s" "closed_index (index_steps parsed)"
proof -
  from assms obtain raws where raws: "collect_steps raw_steps [] = Inr raws"
      and t: "traverse (parse_step (map step_id_of raws) schemas terminals) raws = Inr parsed"
    by (auto simp: parse_steps_def and_then_Inr_iff)
  note c = collect_stepsD [OF raws]
  have ids: "map st_id parsed = map step_id_of raws"
    using t by (rule traverse_Inr_map) (use c parse_stepD in blast)
  have each: "step_ok schemas terminals s \<and> set (depends_on s) \<subseteq> set (map step_id_of raws)"
    if "s \<in> set parsed" for s
    using traverse_Inr_set [OF t that] c parse_stepD by blast
  show "distinct (map st_id parsed)" using ids c by simp
  show "length parsed = length raw_steps" using traverse_Inr_length [OF t] c by simp
  show "step_ok schemas terminals s" if "s \<in> set parsed" for s using each [OF that] by simp
  show "closed_index (index_steps parsed)"
    using each ids by (auto simp: closed_index_def index_steps_def comp_def)
qed

subsection \<open>The execution order of an accepted plan\<close>

lemma deps_ordered_filter:
  "deps_ordered seen ss \<Longrightarrow> (\<And>s. s \<in> set ss \<Longrightarrow> x \<notin> set (depends_on s)) \<Longrightarrow>
   set seen - {x} \<subseteq> set seen' \<Longrightarrow> deps_ordered seen' (filter (\<lambda>s. st_id s \<noteq> x) ss)"
proof (induction ss arbitrary: seen seen')
  case (Cons s ss)
  show ?case
  proof (cases "st_id s = x")
    case True
    have "deps_ordered seen' (filter (\<lambda>s. st_id s \<noteq> x) ss)"
      by (rule Cons.IH [of "st_id s # seen"]) (use Cons.prems True in auto)
    with True show ?thesis by simp
  next
    case False
    have "deps_ordered (st_id s # seen') (filter (\<lambda>s. st_id s \<noteq> x) ss)"
      by (rule Cons.IH [of "st_id s # seen"]) (use Cons.prems in auto)
    with Cons.prems False show ?thesis by fastforce
  qed
qed simp

lemma deps_ordered_closed:
  "deps_ordered seen pre \<Longrightarrow> s \<in> set pre \<Longrightarrow> set (depends_on s) \<subseteq> set seen \<union> set (map st_id pre)"
  by (induction pre arbitrary: seen) force+

lemma ancestors_before:
  assumes ord: "deps_ordered [] (pre @ r # post)"
    and idx: "\<And>s. s \<in> set (pre @ [r]) \<Longrightarrow> map_of by_id (st_id s) = Some s"
    and anc: "(st_id r, b) \<in> (dep_rel by_id)\<^sup>+"
  shows "b \<in> set (map st_id pre)"
proof (rule trancl_into_closed [OF anc])
  show "dep_rel by_id `` {st_id r} \<subseteq> set (map st_id pre)"
    using ord idx [of r] by (auto simp: dep_rel_def deps_ordered_append)
  show "dep_rel by_id `` set (map st_id pre) \<subseteq> set (map st_id pre)"
  proof
    fix b assume "b \<in> dep_rel by_id `` set (map st_id pre)"
    then obtain s where "s \<in> set pre" "(st_id s, b) \<in> dep_rel by_id" by auto
    then have "b \<in> set (depends_on s)" using idx [of s] by (auto simp: dep_rel_def)
    then show "b \<in> set (map st_id pre)"
      using ord deps_ordered_closed [of "[]" pre s] \<open>s \<in> set pre\<close> by (auto simp: deps_ordered_append)
  qed
qed

definition is_result_step :: "wf_step \<Rightarrow> bool" where
  "is_result_step s \<longleftrightarrow> st_type s \<in> {''tool'', ''vision_analyze''} \<and> \<not> terminal s"

definition order_shape :: "wf_step list \<Rightarrow> string option \<Rightarrow> bool" where
  \<comment> \<open>result steps, then the single \<open>respond\<close> step, then the terminal step if there is one\<close>
  "order_shape ss tid =
     (case dropWhile is_result_step ss of
        [] \<Rightarrow> False
      | r # post \<Rightarrow>
          st_type r = ''respond'' \<and> \<not> terminal r \<and>
          map st_id post = (case tid of None \<Rightarrow> [] | Some t \<Rightarrow> [t]) \<and>
          list_all (\<lambda>s. st_type s = ''tool'' \<and> terminal s) post)"

lemma order_shapeI:
  assumes "\<And>s. s \<in> set pre \<Longrightarrow> is_result_step s" "st_type r = ''respond''" "\<not> terminal r"
    "map st_id post = (case tid of None \<Rightarrow> [] | Some t \<Rightarrow> [t])"
    "\<And>s. s \<in> set post \<Longrightarrow> st_type s = ''tool'' \<and> terminal s"
  shows "order_shape (pre @ r # post) tid"
proof -
  have "dropWhile is_result_step (pre @ r # post) = r # post"
    using assms(1,2) by (subst dropWhile_append2) (auto simp: is_result_step_def)
  with assms(2-) show ?thesis by (auto simp: order_shape_def list_all_iff)
qed

lemma order_shapeE:
  assumes "order_shape ss tid"
  obtains pre r post where "ss = pre @ r # post" "\<forall>s \<in> set pre. is_result_step s"
    "st_type r = ''respond''" "\<not> terminal r"
    "map st_id post = (case tid of None \<Rightarrow> [] | Some t \<Rightarrow> [t])"
    "\<forall>s \<in> set post. st_type s = ''tool'' \<and> terminal s"
proof -
  from assms obtain r post where d: "dropWhile is_result_step ss = r # post"
      and r: "st_type r = ''respond''" "\<not> terminal r"
      and post: "map st_id post = (case tid of None \<Rightarrow> [] | Some t \<Rightarrow> [t])"
        "\<forall>s \<in> set post. st_type s = ''tool'' \<and> terminal s"
    by (auto simp: order_shape_def list_all_iff split: list.splits)
  show ?thesis
  proof (rule that)
    show "ss = takeWhile is_result_step ss @ r # post" by (metis d takeWhile_dropWhile_id)
    show "\<forall>s \<in> set (takeWhile is_result_step ss). is_result_step s" by (auto dest: set_takeWhileD)
  qed (use r post in auto)
qed

lemma choose_terminalD:
  assumes "choose_terminal parsed = Inr tid"
  shows "case tid of
      None \<Rightarrow> \<forall>s \<in> set parsed. \<not> terminal s
    | Some t \<Rightarrow> \<exists>s. filter terminal parsed = [s] \<and> st_id s = t \<and> (\<forall>u \<in> set parsed. t \<notin> set (depends_on u))"
  using assms
  by (cases "filter terminal parsed"; cases "tl (filter terminal parsed)")
    (auto simp: choose_terminal_def Let_def result_simps list_ex_iff filter_empty_conv)

lemma terminal_lastD:
  assumes dist: "distinct (map st_id parsed)" and choose: "choose_terminal parsed = Inr tid"
    and ranked: "distinct (map st_id ranked)" "set ranked = set parsed" "deps_ordered [] ranked"
    and last: "terminal_last (index_steps parsed) tid ranked = Inr ordered"
    and self: "\<And>s. s \<in> set parsed \<Longrightarrow> set (depends_on s) \<subseteq> set (map st_id parsed)"
  shows "distinct (map st_id ordered)" "set ordered = set parsed" "deps_ordered [] ordered"
    "\<exists>pre post. ordered = pre @ post \<and> (\<forall>s \<in> set pre. \<not> terminal s) \<and> (\<forall>s \<in> set post. terminal s) \<and>
       map st_id post = (case tid of None \<Rightarrow> [] | Some t \<Rightarrow> [t])"
proof -
  have all: "distinct (map st_id ordered) \<and> set ordered = set parsed \<and> deps_ordered [] ordered \<and>
    (\<exists>pre post. ordered = pre @ post \<and> (\<forall>s \<in> set pre. \<not> terminal s) \<and> (\<forall>s \<in> set post. terminal s) \<and>
       map st_id post = (case tid of None \<Rightarrow> [] | Some t \<Rightarrow> [t]))"
  proof (cases tid)
    case None
    with last have "ordered = ranked" by (simp add: terminal_last_def)
    moreover have "\<forall>s \<in> set ranked. \<not> terminal s"
      using choose_terminalD [OF choose] None ranked(2) by simp
    ultimately show ?thesis using ranked None by auto
  next
    case (Some t)
    from choose_terminalD [OF choose] Some obtain s where s: "filter terminal parsed = [s]" "st_id s = t"
        and nodep: "\<And>u. u \<in> set parsed \<Longrightarrow> t \<notin> set (depends_on u)" by auto
    have fset: "{u \<in> set parsed. terminal u} = {s}"
      using arg_cong [OF s(1), of set] by simp
    then have mem: "s \<in> set parsed" "terminal s" by auto
    have only: "u = s" if "u \<in> set parsed" "terminal u" for u
      using fset that by auto
    have idx: "map_of (index_steps parsed) t = Some s"
      using map_of_index_step [OF dist mem(1)] s(2) by simp
    let ?pre = "filter (\<lambda>u. st_id u \<noteq> t) ranked"
    from last idx Some have ordered: "ordered = ?pre @ [s]"
      by (simp add: terminal_last_def)
    have set_pre: "set ?pre = set parsed - {s}"
    proof -
      have "u = s" if "u \<in> set parsed" "st_id u = t" for u
        using map_of_index_step [OF dist that(1)] that(2) idx by simp
      then show ?thesis using ranked(2) s(2) by auto
    qed
    have "deps_ordered [] ?pre"
      by (rule deps_ordered_filter [OF ranked(3)]) (use nodep ranked(2) in auto)
    moreover have "set (depends_on s) \<subseteq> set (map st_id ?pre)"
    proof
      fix d assume d: "d \<in> set (depends_on s)"
      with self [OF mem(1)] obtain u where u: "u \<in> set parsed" "st_id u = d" by auto
      moreover have "d \<noteq> t" using nodep [OF mem(1)] d by auto
      ultimately show "d \<in> set (map st_id ?pre)" using ranked(2) by auto
    qed
    ultimately have "deps_ordered [] ordered"
      by (simp add: ordered deps_ordered_append)
    moreover have "distinct (map st_id ordered)"
      using ranked(1) s(2) by (auto simp: ordered distinct_map inj_on_def)
    moreover have "set ordered = set parsed" using set_pre mem by (auto simp: ordered)
    moreover have "\<exists>pre post. ordered = pre @ post \<and> (\<forall>s \<in> set pre. \<not> terminal s) \<and>
        (\<forall>s \<in> set post. terminal s) \<and> map st_id post = (case tid of None \<Rightarrow> [] | Some t \<Rightarrow> [t])"
    proof (intro exI conjI)
      show "ordered = ?pre @ [s]" by (rule ordered)
      show "\<forall>u \<in> set ?pre. \<not> terminal u" using set_pre only by blast
    qed (use mem s(2) Some in auto)
    ultimately show ?thesis by blast
  qed
  then show "distinct (map st_id ordered)" "set ordered = set parsed" "deps_ordered [] ordered"
    "\<exists>pre post. ordered = pre @ post \<and> (\<forall>s \<in> set pre. \<not> terminal s) \<and> (\<forall>s \<in> set post. terminal s) \<and>
       map st_id post = (case tid of None \<Rightarrow> [] | Some t \<Rightarrow> [t])"
    by blast+
qed

lemma check_response_coversD:
  assumes "check_response_covers parsed by_id = Inr ()"
  obtains r anc where "r \<in> set parsed" "st_type r = ''respond''"
    "dependency_ancestors by_id (st_id r) = Inr anc"
    "\<And>s. s \<in> set parsed \<Longrightarrow> is_result_step s \<Longrightarrow> st_id s \<in> set anc"
  using assms
  by (auto simp: check_response_covers_def result_simps find_Some_iff list_all_iff is_result_step_def
      in_set_conv_nth) (metis (no_types, lifting) nth_mem)

lemma unique_filter:
  assumes "length (filter P xs) = 1" "x \<in> set xs" "P x" "y \<in> set xs" "P y" shows "x = y"
proof -
  from assms(1) obtain z where "filter P xs = [z]" by (cases "filter P xs") auto
  then have "set (filter P xs) = {z}" by simp
  moreover have "x \<in> set (filter P xs)" "y \<in> set (filter P xs)" using assms(2-5) by auto
  ultimately show ?thesis by (metis singletonD)
qed

lemma validate_stepsE:
  assumes "validate_steps parsed = Inr (ordered, tid)"
  obtains ranked where
    "validate_dependencies parsed (index_steps parsed) = Inr ()"
    "validate_conditions parsed (index_steps parsed) = Inr ()"
    "length (filter (\<lambda>s. st_type s = ''respond'') parsed) = 1"
    "choose_terminal parsed = Inr tid"
    "stable_topological_sort parsed = Inr ranked"
    "terminal_last (index_steps parsed) tid ranked = Inr ordered"
    "check_response_covers parsed (index_steps parsed) = Inr ()"
  using assms
  by (auto simp: validate_steps_def Let_def result_simps validate_response_step_def)

lemma validate_steps_order:
  assumes ok: "validate_steps parsed = Inr (ordered, tid)"
    and dist: "distinct (map st_id parsed)" and closed: "closed_index (index_steps parsed)"
    and each: "\<And>s. s \<in> set parsed \<Longrightarrow> step_ok schemas terminals s"
  shows "distinct (map st_id ordered)" "set ordered = set parsed" "deps_ordered [] ordered"
    "order_shape ordered tid"
proof -
  from ok obtain ranked where
    resp: "length (filter (\<lambda>s. st_type s = ''respond'') parsed) = 1"
    and choose: "choose_terminal parsed = Inr tid"
    and sort: "stable_topological_sort parsed = Inr ranked"
    and last: "terminal_last (index_steps parsed) tid ranked = Inr ordered"
    and covers: "check_response_covers parsed (index_steps parsed) = Inr ()"
    by (rule validate_stepsE)
  have self: "set (depends_on s) \<subseteq> set (map st_id parsed)" if "s \<in> set parsed" for s
    using closed_index_deps [OF closed map_of_index_step [OF dist that]] by simp
  note T = terminal_lastD [OF dist choose stable_topological_sort_spec [OF sort dist] last self]
  show d: "distinct (map st_id ordered)" and set_eq: "set ordered = set parsed"
    and ord: "deps_ordered [] ordered" using T by blast+
  from T(4) obtain pre0 post where split: "ordered = pre0 @ post"
      and nt: "\<forall>s \<in> set pre0. \<not> terminal s" and tt: "\<forall>s \<in> set post. terminal s"
      and post: "map st_id post = (case tid of None \<Rightarrow> [] | Some t \<Rightarrow> [t])"
    by blast
  from covers obtain r anc where r: "r \<in> set parsed" "st_type r = ''respond''"
      and anc: "dependency_ancestors (index_steps parsed) (st_id r) = Inr anc"
      and cov: "\<And>s. s \<in> set parsed \<Longrightarrow> is_result_step s \<Longrightarrow> st_id s \<in> set anc"
    by (rule check_response_coversD) blast
  have r_nt: "\<not> terminal r" using each [OF r(1)] r(2) by (auto simp: step_ok_def)
  have "r \<in> set pre0" using r(1) r_nt set_eq split tt by auto
  then obtain pre mid where pre0: "pre0 = pre @ r # mid" by (auto dest: split_list)
  have only_r: "s = r" if "s \<in> set parsed" "st_type s = ''respond''" for s
    by (rule unique_filter [OF resp]) (use that r in auto)
  have result: "is_result_step s" if "s \<in> set pre0" "s \<noteq> r" for s
  proof -
    have s: "s \<in> set parsed" using that split set_eq by auto
    with only_r that have "st_type s \<noteq> ''respond''" by blast
    with each [OF s] nt that show ?thesis
      by (auto simp: is_result_step_def step_ok_def STEP_TYPES_def)
  qed
  have "mid = []"
  proof (cases mid)
    case (Cons s ms)
    have s: "s \<in> set pre0" "s \<in> set parsed" using pre0 Cons split set_eq by auto
    have ne: "s \<noteq> r" using d split pre0 Cons by auto
    have "st_id s \<in> set anc" using cov s(2) result [OF s(1) ne] by blast
    then have tr: "(st_id r, st_id s) \<in> (dep_rel (index_steps parsed))\<^sup>+"
      using dependency_ancestors_set [OF anc] by auto
    have "st_id s \<in> set (map st_id pre)"
    proof (rule ancestors_before [OF _ _ tr])
      show "deps_ordered [] (pre @ r # mid @ post)" using ord split pre0 by simp
      show "map_of (index_steps parsed) (st_id u) = Some u" if "u \<in> set (pre @ [r])" for u
        by (rule map_of_index_step [OF dist]) (use that pre0 split set_eq in auto)
    qed
    with d split pre0 Cons show ?thesis by auto
  qed simp
  have "order_shape (pre @ r # post) tid"
  proof (rule order_shapeI)
    show "is_result_step s" if "s \<in> set pre" for s
      by (rule result) (use that pre0 d split in auto)
    show "st_type s = ''tool'' \<and> terminal s" if "s \<in> set post" for s
    proof -
      have "s \<in> set parsed" using that set_eq split by auto
      from each [OF this] tt that show ?thesis by (auto simp: step_ok_def split: if_splits)
    qed
  qed (use r r_nt post in auto)
  with split pre0 \<open>mid = []\<close> show "order_shape ordered tid" by simp
qed

lemma nonblank_Some_iff: "nonblank v = Some g \<longleftrightarrow> v = JStr g \<and> py_strip g \<noteq> []"
  by (cases v) auto

lemma validate_workflow_planE:
  assumes "validate_workflow_plan schemas terminals raw = Inr plan"
  obtains raw_steps parsed where
    "1 \<le> length raw_steps" "length raw_steps \<le> MAX_WORKFLOW_STEPS"
    "parse_steps schemas terminals raw_steps = Inr parsed"
    "validate_steps parsed = Inr (steps plan, terminal_step_id plan)"
    "requires_playback_barrier plan = (terminal_step_id plan \<noteq> None)" "pl_version plan = 1"
    "py_strip (goal plan) = goal plan" "goal plan \<noteq> []"
  using assms
  by (auto simp: validate_workflow_plan_def result_simps nonblank_Some_iff split: prod.splits)

lemma accepted_plan_order:
  assumes "validate_workflow_plan schemas terminals raw = Inr plan"
  shows "distinct (map st_id (steps plan))" "deps_ordered [] (steps plan)"
    "order_shape (steps plan) (terminal_step_id plan)"
    "length (steps plan) \<le> MAX_WORKFLOW_STEPS"
    "\<And>s. s \<in> set (steps plan) \<Longrightarrow> step_ok schemas terminals s"
proof -
  from assms obtain raw_steps parsed where
    len: "length raw_steps \<le> MAX_WORKFLOW_STEPS" and
    parsed: "parse_steps schemas terminals raw_steps = Inr parsed" and
    ok: "validate_steps parsed = Inr (steps plan, terminal_step_id plan)"
    by (rule validate_workflow_planE)
  note P = parse_stepsD [OF parsed]
  note V = validate_steps_order [OF ok P(1,4,3)]
  show dist: "distinct (map st_id (steps plan))" using V(1) by simp
  show "deps_ordered [] (steps plan)" using V(3) by simp
  show "order_shape (steps plan) (terminal_step_id plan)" using V(4) by simp
  have "length (steps plan) = card (set (steps plan))" "length parsed = card (set parsed)"
    using dist P(1) by (simp_all add: distinct_card distinct_map)
  then show "length (steps plan) \<le> MAX_WORKFLOW_STEPS" using V(2) P(2) len by simp
  show "step_ok schemas terminals s" if "s \<in> set (steps plan)" for s
    using P(3) V(2) that by auto
qed

lemma validate_conditionsD:
  assumes ok: "validate_conditions parsed by_id = Inr ()" and s: "s \<in> set parsed"
    and c: "condition s = Some c"
  obtains src where "map_of by_id (source_step_id c) = Some src" "st_type src = ''vision_analyze''"
    "output_key src = Some (cond_output_key c)"
    "(st_id s, source_step_id c) \<in> (dep_rel by_id)\<^sup>+"
    "list_ex (py_eq (cond_value c)) (allowed_values src)"
proof -
  have "validate_condition by_id s = Inr ()"
    using ok s by (simp add: validate_conditions_def for_each_Inr_iff)
  then obtain src anc where "map_of by_id (source_step_id c) = Some src"
      "st_type src = ''vision_analyze''" "output_key src = Some (cond_output_key c)"
      and anc: "dependency_ancestors by_id (st_id s) = Inr anc" "source_step_id c \<in> set anc"
      and "list_ex (py_eq (cond_value c)) (allowed_values src)"
    using c by (auto simp: validate_condition_def result_simps)
  with that dependency_ancestors_set [OF anc(1)] show ?thesis by auto
qed

definition condition_ready :: "wf_step list \<Rightarrow> wf_step \<Rightarrow> bool" where
  \<comment> \<open>the condition of \<open>s\<close> reads a vision output of one of the steps \<open>before\<close>, and compares
      it with one of its announced values\<close>
  "condition_ready before s =
     (case condition s of
        None \<Rightarrow> True
      | Some c \<Rightarrow> list_ex (\<lambda>src. st_id src = source_step_id c \<and> st_type src = ''vision_analyze'' \<and>
          output_key src = Some (cond_output_key c) \<and>
          list_ex (py_eq (cond_value c)) (allowed_values src)) before)"

lemma accepted_plan_conditions:
  assumes acc: "validate_workflow_plan schemas terminals raw = Inr plan"
    and split: "steps plan = before @ s # after"
  shows "condition_ready before s"
proof (cases "condition s")
  case None
  then show ?thesis by (simp add: condition_ready_def)
next
  case (Some c)
  from acc obtain raw_steps parsed where
    parsed: "parse_steps schemas terminals raw_steps = Inr parsed" and
    ok: "validate_steps parsed = Inr (steps plan, terminal_step_id plan)"
    by (rule validate_workflow_planE)
  note P = parse_stepsD [OF parsed]
  note V = validate_steps_order [OF ok P(1,4,3)]
  from ok have conds: "validate_conditions parsed (index_steps parsed) = Inr ()"
    by (rule validate_stepsE)
  have s: "s \<in> set parsed" using V(2) split by auto
  from conds s Some obtain src where
    src: "map_of (index_steps parsed) (source_step_id c) = Some src" "st_type src = ''vision_analyze''"
      "output_key src = Some (cond_output_key c)"
      "list_ex (py_eq (cond_value c)) (allowed_values src)"
    and tr: "(st_id s, source_step_id c) \<in> (dep_rel (index_steps parsed))\<^sup>+"
    by (rule validate_conditionsD)
  have "source_step_id c \<in> set (map st_id before)"
  proof (rule ancestors_before [OF _ _ tr])
    show "deps_ordered [] (before @ s # after)" using V(3) split by simp
    show "map_of (index_steps parsed) (st_id u) = Some u" if "u \<in> set (before @ [s])" for u
      by (rule map_of_index_step [OF P(1)]) (use that V(2) split in auto)
  qed
  then obtain u where u: "u \<in> set before" "st_id u = source_step_id c" by auto
  have "u \<in> set parsed" using u V(2) split by auto
  from map_of_index_step [OF P(1) this] u(2) src(1) have "u = src" by simp
  with u src Some show ?thesis by (auto simp: condition_ready_def list_ex_iff)
qed

lemma validate_steps_rejects:
  assumes dist: "distinct (map st_id parsed)" and closed: "closed_index (index_steps parsed)"
    and fails: "validate_steps parsed = Inl e"
  shows "\<exists>code. e = Rejected code"
proof (cases "validate_dependencies parsed (index_steps parsed)")
  case (Inl d)
  then have "visit_all (index_steps parsed) [] [] (map st_id parsed) = Inl d"
    by (auto simp: validate_dependencies_def and_then_Inl_iff)
  with closed have "d = Rejected ''dependency_cycle''" by (auto dest!: visit_all_cycle)
  with Inl fails show ?thesis by (auto simp: validate_steps_def)
next
  case (Inr u)
  have acyc: "acyclic (dep_rel (index_steps parsed))"
    using Inr by (intro validate_dependencies_acyclic) simp
  have anc: "\<exists>r. dependency_ancestors (index_steps parsed) (st_id s) = Inr r" if "s \<in> set parsed" for s
    by (rule dependency_ancestors_total [OF closed]) (use that in auto)
  have cond: "\<exists>code. e = Rejected code" if "validate_conditions parsed (index_steps parsed) = Inl e" for e
  proof -
    from that obtain s where s: "s \<in> set parsed" "validate_condition (index_steps parsed) s = Inl e"
      unfolding validate_conditions_def by (rule for_each_InlE)
    from anc [OF s(1)] s(2) show ?thesis
      by (auto simp: validate_condition_def result_simps reject_def split: option.splits)
  qed
  have choice: "\<exists>code. e = Rejected code" if "choose_terminal parsed = Inl e" for e
    using that by (auto simp: choose_terminal_def Let_def result_simps reject_def split: list.splits)
  obtain ranked where sort: "stable_topological_sort parsed = Inr ranked"
    using stable_topological_sort_total [OF dist acyc closed] by blast
  have last: "\<exists>ordered. terminal_last (index_steps parsed) tid ranked = Inr ordered"
    if "choose_terminal parsed = Inr tid" for tid
  proof (cases tid)
    case (Some t)
    with choose_terminalD [OF that] obtain s where "filter terminal parsed = [s]" "st_id s = t" by auto
    then have "s \<in> set parsed" by (metis filter_is_subset list.set_intros(1) subsetD)
    from map_of_index_step [OF dist this] Some \<open>st_id s = t\<close> show ?thesis by (simp add: terminal_last_def)
  qed (simp add: terminal_last_def)
  have cov: "\<exists>code. e = Rejected code"
    if "check_response_covers parsed (index_steps parsed) = Inl e" "validate_response_step parsed = Inr ()" for e
  proof (cases "find (\<lambda>s. st_type s = ''respond'') parsed")
    case None
    with that(2) show ?thesis
      by (auto simp: validate_response_step_def result_simps find_None_iff filter_empty_conv)
  next
    case (Some r)
    then have "r \<in> set parsed" by (auto simp: find_Some_iff)
    from anc [OF this] that(1) Some show ?thesis
      by (auto simp: check_response_covers_def result_simps reject_def)
  qed
  show ?thesis
    using fails Inr sort last cond choice cov
    by (fastforce simp: validate_steps_def Let_def result_simps validate_response_step_def reject_def)
qed

subsection \<open>A concrete plan\<close>

text \<open>Look at the picture, query the weather if it rains, answer, then hang up.\<close>

definition sample_step :: "string \<Rightarrow> string \<Rightarrow> string list \<Rightarrow> jobj \<Rightarrow> json" where
  "sample_step sid ty deps extra =
     JObj ([(''id'', JStr sid), (''type'', JStr ty), (''intent'', JStr ''do it''),
            (''depends_on'', JArr (map JStr deps)), (''failure_policy'', JStr ''abort''),
            (''terminal'', JBool False)] @ extra)"

definition sample_plan :: json where
  "sample_plan = JObj [(''version'', JInt 1), (''goal'', JStr '' weather ''), (''steps'', JArr
     [sample_step ''step_3'' ''tool'' [] [(''tool_name'', JStr ''hangup''), (''arguments'', JObj [])],
      sample_step ''step_1'' ''vision_analyze'' []
        [(''output_key'', JStr ''sky''), (''allowed_values'', JArr [JStr ''rain'', JStr ''sun''])],
      sample_step ''step_4'' ''respond'' [''step_1'', ''step_2''] [(''vision'', JStr ''none'')],
      sample_step ''step_2'' ''tool'' [''step_1'']
        [(''tool_name'', JStr ''weather''), (''arguments'', JObj [(''query'', JStr ''Qingdao'')]),
         (''when'', JObj [(''source'', JStr ''step_1.sky''), (''operator'', JStr ''equals''),
            (''value'', JStr ''rain'')])]])]"

definition sample_schemas :: tool_schemas where
  "sample_schemas =
     [(''weather'', [(''type'', JStr ''object''), (''required'', JArr [JStr ''query'']),
        (''properties'', JObj [(''query'', JObj [(''type'', JStr ''string'')])]),
        (''additionalProperties'', JBool False)]),
      (''hangup'', [(''type'', JStr ''object'')])]"

definition accepted_sample :: wf_plan where
  "accepted_sample =
     (case validate_workflow_plan sample_schemas [''hangup''] sample_plan of
        Inr p \<Rightarrow> p
      | Inl _ \<Rightarrow> \<lparr>pl_version = 0, goal = [], steps = [], terminal_step_id = None,
                    requires_playback_barrier = False\<rparr>)"

lemma sample_ids: "map st_id (steps accepted_sample) = [''step_1'', ''step_2'', ''step_4'', ''step_3'']"
  by code_simp

lemma sample_accepted:
  "validate_workflow_plan sample_schemas [''hangup''] sample_plan = Inr accepted_sample"
  using sample_ids by (auto simp: accepted_sample_def split: sum.splits)

subsection \<open>Properties\<close>

text \<open>A plan that \<open>validate_workflow_plan\<close> accepts has 1 to 8 steps with distinct ids, and
  lists every step after all the steps it depends on: the runtime, which executes steps by
  index, never reaches a step whose dependencies have not been reached.\<close>

theorem accepted_plan_is_executable_in_order:
  assumes "validate_workflow_plan schemas terminals raw = Inr plan"
  shows "steps plan \<noteq> [] \<and> length (steps plan) \<le> MAX_WORKFLOW_STEPS \<and>
    distinct (map st_id (steps plan)) \<and> deps_ordered [] (steps plan)"
  using accepted_plan_order [OF assms] by (auto simp: order_shape_def)

theorem accepted_plan_is_executable_in_order_witness:
  "deps_ordered [] (steps accepted_sample) \<and> distinct (map st_id (steps accepted_sample))"
  using accepted_plan_is_executable_in_order [OF sample_accepted] by simp

text \<open>C5: In an accepted plan the non-terminal tool and vision steps come first, then the single
  \<open>respond\<close> step, then the terminal step when there is one (and \<open>terminal_step_id\<close> names it,
  and \<open>requires_playback_barrier\<close> says so).  So the answer is always spoken after every
  result is known and before the terminal action.\<close>

theorem accepted_plan_shape:
  assumes "validate_workflow_plan schemas terminals raw = Inr plan"
  shows "order_shape (steps plan) (terminal_step_id plan) \<and>
    requires_playback_barrier plan = (terminal_step_id plan \<noteq> None)"
  using accepted_plan_order(3) [OF assms] assms by (auto elim: validate_workflow_planE)

theorem accepted_plan_shape_witness:
  "order_shape (steps accepted_sample) (Some ''step_3'') \<and> requires_playback_barrier accepted_sample"
proof -
  have "terminal_step_id accepted_sample = Some ''step_3''" by code_simp
  then show ?thesis using accepted_plan_shape [OF sample_accepted] by simp
qed



text \<open>In an accepted plan a conditional step reads the output of a vision step that is
  executed before it, under the key that step announces, and compares it with a value of
  that step's whitelist.\<close>

theorem accepted_plan_conditions_readable:
  assumes "validate_workflow_plan schemas terminals raw = Inr plan"
    and "steps plan = before @ s # after"
  shows "condition_ready before s"
  by (rule accepted_plan_conditions [OF assms])

theorem accepted_plan_conditions_readable_witness:
  "condition_ready (take 1 (steps accepted_sample)) (steps accepted_sample ! 1) \<and>
   condition (steps accepted_sample ! 1) \<noteq> None"
proof -
  have len: "1 < length (steps accepted_sample)"
    using arg_cong [OF sample_ids, of length] by simp
  have split: "steps accepted_sample =
      take 1 (steps accepted_sample) @ steps accepted_sample ! 1 # drop 2 (steps accepted_sample)"
    using id_take_nth_drop [OF len] by (simp add: numeral_2_eq_2)
  have "condition (steps accepted_sample ! 1) \<noteq> None" by code_simp
  with accepted_plan_conditions_readable [OF sample_accepted split] show ?thesis by simp
qed

text \<open>C13: \<open>_validate_dependencies\<close> refuses a plan with \<open>dependency_cycle\<close> exactly when the
  \<open>depends_on\<close> relation of its steps has a cycle (the dependencies being known step ids,
  which \<open>_parse_step\<close> has checked).\<close>

theorem dependency_cycle_iff_cyclic:
  assumes "closed_index (index_steps ss)"
  shows "validate_dependencies ss (index_steps ss) =
    (if acyclic (dep_rel (index_steps ss)) then Inr () else Inl (Rejected ''dependency_cycle''))"
proof (cases "visit_all (index_steps ss) [] [] (map st_id ss)")
  case (Inl e)
  then have "e = Rejected ''dependency_cycle'' \<and> \<not> acyclic (dep_rel (index_steps ss))"
    using visit_all_cycle [OF Inl assms] by (auto simp: acyclic_def)
  with Inl show ?thesis by (simp add: validate_dependencies_def)
next
  case (Inr V)
  then have "validate_dependencies ss (index_steps ss) = Inr ()"
    by (simp add: validate_dependencies_def)
  with validate_dependencies_acyclic [OF this] show ?thesis by simp
qed

definition cyclic_steps :: "wf_step list" where
  "cyclic_steps = map (\<lambda>(sid, dep). \<lparr>st_id = sid, st_type = ''respond'', st_intent = ''x'',
     depends_on = [dep], failure_policy = ''abort'', terminal = False, tool_name = None,
     arguments = [], condition = None, output_key = None, allowed_values = [],
     st_vision = ''none''\<rparr>) [(''step_1'', ''step_2''), (''step_2'', ''step_1'')]"

theorem dependency_cycle_iff_cyclic_witness:
  "\<not> acyclic (dep_rel (index_steps cyclic_steps)) \<and>
   validate_dependencies cyclic_steps (index_steps cyclic_steps) = Inl (Rejected ''dependency_cycle'')"
proof -
  have closed: "closed_index (index_steps cyclic_steps)"
    by (auto simp: closed_index_def cyclic_steps_def index_steps_def)
  have "validate_dependencies cyclic_steps (index_steps cyclic_steps) = Inl (Rejected ''dependency_cycle'')"
    by code_simp
  with dependency_cycle_iff_cyclic [OF closed] show ?thesis by (auto split: if_splits)
qed

text \<open>Once the steps of a plan are parsed, the whole-plan checks and the topological sort
  either succeed or refuse the plan with an error code; the dictionary lookups and the
  \<open>next(...)\<close> in them never raise a Python exception.\<close>

theorem whole_plan_checks_only_reject:
  assumes "parse_steps schemas terminals raw_steps = Inr parsed"
    and "validate_steps parsed = Inl e"
  shows "\<exists>code. e = Rejected code"
  using validate_steps_rejects [OF parse_stepsD(1,4) [OF assms(1)] assms(2)]
    assms(1) by blast

definition no_respond_steps :: "json list" where
  "no_respond_steps =
     [sample_step ''step_1'' ''tool'' [] [(''tool_name'', JStr ''hangup''), (''arguments'', JObj [])]]"

theorem whole_plan_checks_only_reject_witness:
  "\<exists>parsed e code. parse_steps sample_schemas [] no_respond_steps = Inr parsed \<and>
     validate_steps parsed = Inl e \<and> e = Rejected code"
proof -
  have "(case parse_steps sample_schemas [] no_respond_steps of
      Inl _ \<Rightarrow> False | Inr p \<Rightarrow> validate_steps p = Inl (Rejected ''invalid_response_count''))"
    by code_simp
  then obtain p where p: "parse_steps sample_schemas [] no_respond_steps = Inr p"
      "validate_steps p = Inl (Rejected ''invalid_response_count'')"
    by (auto split: sum.splits)
  from whole_plan_checks_only_reject [OF p] p show ?thesis by blast
qed

end
