(* ===== verification/Workflow_Coordinator.thy ===== *)
theory Workflow_Coordinator
  imports Playback_Barrier_Facts Workflow_Plan_Facts
begin

text \<open>
  \<open>src/gateway/workflow_coordinator.py\<close>: the gateway's side of a complex task.  \<open>run\<close> asks
  the workflow service for a plan and drives it step by step; every \<open>await\<close> of its body is
  a point where the model stops (\<open>phase\<close>) until the awaited answer arrives as an input.
  What the code does between two awaits is the list of \<open>effect\<close>s of the input: calls of the
  workflow client, of the playback barriers and of the text emitter.

  The optional observers of \<open>run\<close> are not modelled, except that \<open>Raised\<close> stands for an
  exception of any awaited call.  The plan text is the JSON value it encodes, \<open>None\<close> when
  it is not JSON.
\<close>

subsection \<open>Requests, plans and results\<close>

record run_request =
  rq_text :: string
  rq_session_id :: string
  rq_bot_id :: string
  rq_robot_id :: string
  rq_trace_id :: string
  rq_round_id :: string
  rq_playback_id :: string

record run_result =
  rr_success :: bool
  rr_plan_id :: string
  rr_exit :: bool
  rr_completed_steps :: "string list"
  rr_error_code :: string

record coord_step =
  cs_id :: string
  cs_type :: string
  cs_terminal :: bool

datatype coord_error = Coordination string | Unexpected

definition MAX_COORDINATED_STEPS :: nat where "MAX_COORDINATED_STEPS = 8"

definition DEFAULT_FAILURE_TEXT :: string where
  \<comment> \<open>stands for the Chinese sentence of \<open>DEFAULT_WORKFLOW_FAILURE_TEXT\<close>\<close>
  "DEFAULT_FAILURE_TEXT = ''DEFAULT_WORKFLOW_FAILURE_TEXT''"

definition invalid_run_field :: "run_request \<Rightarrow> string option" where
  \<comment> \<open>\<open>_validate_request\<close>: the first blank field\<close>
  "invalid_run_field req =
     map_option fst (find (\<lambda>(_, v). py_strip v = [])
       [(''text'', rq_text req), (''session_id'', rq_session_id req), (''bot_id'', rq_bot_id req),
        (''robot_id'', rq_robot_id req), (''trace_id'', rq_trace_id req),
        (''round_id'', rq_round_id req), (''playback_id'', rq_playback_id req)])"

definition bad_plan :: coord_error where
  "bad_plan = Coordination ''invalid_plan_response''"

definition parse_coord_step :: "bool \<Rightarrow> json \<Rightarrow> coord_error + coord_step" where
  "parse_coord_step is_last raw =
     and_then (need bad_plan (jobj_of raw)) (\<lambda>item.
     and_then (need bad_plan (jstr_of (jget item ''id''))) (\<lambda>sid.
     and_then (check (sid \<noteq> []) bad_plan) (\<lambda>_.
     and_then (map_sum (\<lambda>_. Unexpected) id
        (hash_in (jget item ''type'') [''tool'', ''vision_analyze'', ''respond''])) (\<lambda>known.
     and_then (check known bad_plan) (\<lambda>_.
     and_then (need bad_plan (jbool_of (jget item ''terminal''))) (\<lambda>term.
     and_then (check (\<not> (term \<and> \<not> is_last)) bad_plan) (\<lambda>_.
     Inr \<lparr>cs_id = sid, cs_type = opt_text (jstr_of (jget item ''type'')), cs_terminal = term\<rparr>)))))))"

fun parse_coord_steps :: "json list \<Rightarrow> coord_error + coord_step list" where
  "parse_coord_steps [] = Inr []"
| "parse_coord_steps (raw # raws) =
     and_then (parse_coord_step (raws = []) raw) (\<lambda>s.
     and_then (parse_coord_steps raws) (\<lambda>ss. Inr (s # ss)))"

definition parse_plan_json :: "json option \<Rightarrow> coord_error + coord_step list" where
  "parse_plan_json plan_json =
     and_then (need bad_plan plan_json) (\<lambda>payload.
     and_then (need bad_plan (jobj_of payload)) (\<lambda>d.
     and_then (need bad_plan (map_of d ''steps'')) (\<lambda>raw.
     and_then (need bad_plan (jarr_of raw)) (\<lambda>raw_steps.
     and_then (check (1 \<le> length raw_steps \<and> length raw_steps \<le> MAX_COORDINATED_STEPS) bad_plan) (\<lambda>_.
     and_then (parse_coord_steps raw_steps) (\<lambda>ss.
     and_then (check (length (filter (\<lambda>s. cs_type s = ''respond'') ss) = 1 \<and>
                      length (filter cs_terminal ss) \<le> 1) bad_plan) (\<lambda>_.
     Inr ss)))))))"

subsection \<open>One run\<close>

datatype phase =
    AwaitPlan
  | AwaitChunk nat       \<comment> \<open>in \<open>stream_synthesis\<close> of step \<open>i\<close>\<close>
  | AwaitPlayback nat    \<comment> \<open>in \<open>waiter.wait\<close> after step \<open>i\<close>\<close>
  | AwaitStep nat        \<comment> \<open>in \<open>execute_step\<close> of step \<open>i\<close>\<close>
  | Finished

record coord_run =
  ru_request :: run_request
  ru_plan_id :: string
  ru_cancel_reason :: string
  ru_cancelled :: bool
  ru_cancel_remote_sent :: bool
  ru_steps :: "coord_step list"
  ru_completed :: "string list"
  ru_synthesis_closed :: bool
  ru_phase :: phase

datatype effect =
    PlanCall
  | PrepareWaiter
  | SynthesisCall string
  | ExecuteCall string bool    \<comment> \<open>step id, \<open>playback_completed\<close>\<close>
  | EmitText string
  | SynthesisFinished
  | WaitPlayback
  | BarrierCancel string string    \<comment> \<open>session id, reason\<close>
  | RemoteCancel string string    \<comment> \<open>plan id, reason\<close>
  | Returned run_result
  | Reraised
  | Refused string    \<comment> \<open>a \<open>WorkflowCoordinationError\<close> raised by \<open>run\<close> itself\<close>

datatype run_input =
    PlanAnswer bool string string "json option"    \<comment> \<open>success, error code, plan id, plan\<close>
  | Chunk string string    \<comment> \<open>text, error code\<close>
  | StreamEnd
  | PlaybackAnswer string    \<comment> \<open>status of the barrier's result\<close>
  | StepAnswer bool string bool    \<comment> \<open>success, error code, exit\<close>
  | Raised
  | TaskCancelled

definition cancel_remote :: "string \<Rightarrow> coord_run \<Rightarrow> coord_run \<times> effect list" where
  "cancel_remote reason ru =
     (if ru_plan_id ru = [] \<or> ru_cancel_remote_sent ru then (ru, [])
      else (ru\<lparr>ru_cancel_remote_sent := True\<rparr>, [RemoteCancel (ru_plan_id ru) reason]))"

definition emit_failure_if_needed :: "coord_run \<Rightarrow> coord_run \<times> effect list" where
  "emit_failure_if_needed ru =
     (if ru_synthesis_closed ru then (ru, [])
      else (ru\<lparr>ru_synthesis_closed := True\<rparr>, [EmitText DEFAULT_FAILURE_TEXT, SynthesisFinished]))"

definition failed_run :: "coord_run \<Rightarrow> string \<Rightarrow> run_result" where
  "failed_run ru code =
     \<lparr>rr_success = False, rr_plan_id = ru_plan_id ru, rr_exit = False,
      rr_completed_steps = ru_completed ru, rr_error_code = code\<rparr>"

definition fail_run :: "string \<Rightarrow> coord_run \<Rightarrow> coord_run \<times> effect list" where
  \<comment> \<open>the \<open>except WorkflowCoordinationError\<close> and \<open>except Exception\<close> clauses\<close>
  "fail_run code ru =
     (let (ru1, emitted) = emit_failure_if_needed ru;
          (ru2, remote) = cancel_remote code ru1
      in (ru2\<lparr>ru_phase := Finished\<rparr>,
          emitted @ [BarrierCancel (rq_session_id (ru_request ru)) code] @ remote @
          [Returned (failed_run ru code)]))"

definition raise_error :: "coord_error \<Rightarrow> coord_run \<Rightarrow> coord_run \<times> effect list" where
  "raise_error e ru =
     fail_run (case e of Coordination code \<Rightarrow> code | Unexpected \<Rightarrow> ''coordinator_internal_error'') ru"

definition task_cancelled :: "coord_run \<Rightarrow> coord_run \<times> effect list" where
  "task_cancelled ru =
     (let (ru1, remote) = cancel_remote ''coordinator_cancelled'' ru
      in (ru1\<lparr>ru_phase := Finished\<rparr>,
          [BarrierCancel (rq_session_id (ru_request ru)) ''coordinator_cancelled''] @ remote @ [Reraised]))"

definition finish_run :: "bool \<Rightarrow> coord_run \<Rightarrow> coord_run \<times> effect list" where
  "finish_run exit_flag ru =
     (ru\<lparr>ru_phase := Finished\<rparr>,
      [Returned \<lparr>rr_success = True, rr_plan_id = ru_plan_id ru, rr_exit = exit_flag,
         rr_completed_steps = ru_completed ru, rr_error_code = []\<rparr>])"

definition enter_step :: "nat \<Rightarrow> coord_run \<Rightarrow> coord_run \<times> effect list" where
  \<comment> \<open>the head of the loop over the steps, up to the next await\<close>
  "enter_step i ru =
     (if i \<ge> length (ru_steps ru) then finish_run False ru
      else if ru_cancelled ru then raise_error (Coordination ''workflow_cancelled'') ru
      else
        let step = ru_steps ru ! i in
        if cs_type step = ''respond''
        then (ru\<lparr>ru_phase := AwaitChunk i\<rparr>, [SynthesisCall (cs_id step)])
        else (ru\<lparr>ru_phase := AwaitStep i\<rparr>, [ExecuteCall (cs_id step) (cs_terminal step)]))"

definition has_terminal :: "coord_run \<Rightarrow> bool" where
  "has_terminal ru = list_ex cs_terminal (ru_steps ru)"

definition on_plan :: "bool \<Rightarrow> string \<Rightarrow> string \<Rightarrow> json option \<Rightarrow> coord_run \<Rightarrow> coord_run \<times> effect list" where
  "on_plan success code plan_id plan_json ru =
     (if \<not> success then raise_error (Coordination (if code = [] then ''plan_failed'' else code)) ru
      else
        let ru1 = ru\<lparr>ru_plan_id := py_strip plan_id\<rparr> in
        case parse_plan_json plan_json of
          Inl e \<Rightarrow> raise_error e ru1
        | Inr ss \<Rightarrow>
            if ru_plan_id ru1 = [] then
              (ru1\<lparr>ru_phase := Finished\<rparr>,
               [Returned \<lparr>rr_success = False, rr_plan_id = [], rr_exit = False,
                  rr_completed_steps = [], rr_error_code = ''invalid_plan_response''\<rparr>])
            else
              let ru2 = ru1\<lparr>ru_steps := ss\<rparr>;
                  (ru3, effects) = enter_step 0 ru2
              in (ru3, (if has_terminal ru2 then [PrepareWaiter] else []) @ effects))"

definition on_chunk :: "string \<Rightarrow> string \<Rightarrow> coord_run \<Rightarrow> coord_run \<times> effect list" where
  "on_chunk text code ru =
     (if ru_cancelled ru then raise_error (Coordination ''workflow_cancelled'') ru
      else if code \<noteq> [] then raise_error (Coordination code) ru
      else (ru, if text = [] then [] else [EmitText text]))"

definition on_stream_end :: "nat \<Rightarrow> coord_run \<Rightarrow> coord_run \<times> effect list" where
  "on_stream_end i ru =
     (let ru1 = ru\<lparr>ru_synthesis_closed := True,
                   ru_completed := ru_completed ru @ [cs_id (ru_steps ru ! i)]\<rparr>;
          (ru2, effects) =
            (if has_terminal ru1 then (ru1\<lparr>ru_phase := AwaitPlayback i\<rparr>, [WaitPlayback])
             else enter_step (i + 1) ru1)
      in (ru2, SynthesisFinished # effects))"

definition on_playback :: "nat \<Rightarrow> string \<Rightarrow> coord_run \<Rightarrow> coord_run \<times> effect list" where
  "on_playback i report ru =
     (if report \<noteq> PLAYBACK_COMPLETE
      then raise_error (Coordination (if starts_with report ''playback_'' then report
                                      else ''playback_'' @ report)) ru
      else enter_step (i + 1) ru)"

definition on_step :: "nat \<Rightarrow> bool \<Rightarrow> string \<Rightarrow> bool \<Rightarrow> coord_run \<Rightarrow> coord_run \<times> effect list" where
  "on_step i success code exit_flag ru =
     (if \<not> success then raise_error (Coordination (if code = [] then ''step_failed'' else code)) ru
      else
        let ru1 = ru\<lparr>ru_completed := ru_completed ru @ [cs_id (ru_steps ru ! i)]\<rparr>
        in if cs_terminal (ru_steps ru ! i) then finish_run exit_flag ru1
           else enter_step (i + 1) ru1)"

fun run_step :: "coord_run \<Rightarrow> run_input \<Rightarrow> coord_run \<times> effect list" where
  "run_step ru inp =
     (case ru_phase ru of
        Finished \<Rightarrow> (ru, [])
      | ph \<Rightarrow>
          (case (inp, ph) of
             (Raised, _) \<Rightarrow> raise_error Unexpected ru
           | (TaskCancelled, _) \<Rightarrow> task_cancelled ru
           | (PlanAnswer success code plan_id plan_json, AwaitPlan) \<Rightarrow> on_plan success code plan_id plan_json ru
           | (Chunk text code, AwaitChunk i) \<Rightarrow> on_chunk text code ru
           | (StreamEnd, AwaitChunk i) \<Rightarrow> on_stream_end i ru
           | (PlaybackAnswer report, AwaitPlayback i) \<Rightarrow> on_playback i report ru
           | (StepAnswer success code exit_flag, AwaitStep i) \<Rightarrow> on_step i success code exit_flag ru
           | _ \<Rightarrow> (ru, [])))"

definition new_run :: "run_request \<Rightarrow> coord_run" where
  "new_run req =
     \<lparr>ru_request = req, ru_plan_id = [], ru_cancel_reason = [], ru_cancelled = False,
      ru_cancel_remote_sent = False, ru_steps = [], ru_completed = [],
      ru_synthesis_closed = False, ru_phase = AwaitPlan\<rparr>"

subsection \<open>The coordinator: active runs per session\<close>

record coordinator =
  co_active :: "(string, nat) odict"
  co_runs :: "coord_run list"

datatype coord_event =
    StartRun run_request
  | RunInput nat run_input
  | CancelActive string string    \<comment> \<open>\<open>cancel_session\<close>: session id, reason\<close>
  | CountActive

definition empty_coordinator :: coordinator where
  "empty_coordinator = \<lparr>co_active = [], co_runs = []\<rparr>"

definition start_run :: "run_request \<Rightarrow> coordinator \<Rightarrow> coordinator \<times> effect list" where
  "start_run req co =
     (if invalid_run_field req \<noteq> None then (co, [Refused ''invalid_request''])
      else if map_of (co_active co) (rq_session_id req) \<noteq> None then (co, [Refused ''workflow_already_active''])
      else (co\<lparr>co_active := AList.update (rq_session_id req) (length (co_runs co)) (co_active co),
               co_runs := co_runs co @ [new_run req]\<rparr>, [PlanCall]))"

definition feed_run :: "nat \<Rightarrow> run_input \<Rightarrow> coordinator \<Rightarrow> coordinator \<times> effect list" where
  "feed_run n inp co =
     (if n < length (co_runs co)
      then
        let (ru, effects) = run_step (co_runs co ! n) inp;
            sid = rq_session_id (ru_request ru)
        in (co\<lparr>co_runs := (co_runs co)[n := ru],
               co_active := (if ru_phase ru = Finished \<and> map_of (co_active co) sid = Some n
                             then AList.delete sid (co_active co) else co_active co)\<rparr>, effects)
      else (co, []))"

definition cancel_active :: "string \<Rightarrow> string \<Rightarrow> coordinator \<Rightarrow> coordinator \<times> effect list" where
  \<comment> \<open>\<open>cancel_session\<close>; the cancelled task then receives \<open>TaskCancelled\<close>\<close>
  "cancel_active session_id reason co =
     (let safe = py_strip session_id in
      case map_of (co_active co) safe of
        None \<Rightarrow> (co, [])
      | Some n \<Rightarrow>
          let why = (if reason = [] then ''cancelled'' else reason);
              ru = (co_runs co ! n)\<lparr>ru_cancel_reason := why, ru_cancelled := True\<rparr>;
              (ru1, remote) = cancel_remote why ru
          in (co\<lparr>co_runs := (co_runs co)[n := ru1]\<rparr>, BarrierCancel safe why # remote))"

fun coordinator_step :: "coordinator \<Rightarrow> coord_event \<Rightarrow> coordinator \<times> effect list" where
  "coordinator_step co (StartRun req) = start_run req co"
| "coordinator_step co (RunInput n inp) = feed_run n inp co"
| "coordinator_step co (CancelActive session_id reason) = cancel_active session_id reason co"
| "coordinator_step co CountActive = (co, [])"

end
