(* ===== verification/Workflow_Coordinator_Facts.thy ===== *)
theory Workflow_Coordinator_Facts
  imports Workflow_Coordinator
begin

text \<open>
  What the coordinator promises: it understands every plan the validator accepts, calls the
  steps in plan order and one at a time, calls the terminal step only after its playback
  barrier answered \<open>playback_complete\<close>, cancels a failed workflow remotely exactly once, and
  has at most one unfinished run per session.  With the barrier registry plugged in, a
  terminal call implies a report of the client for that session, round and playback.
\<close>

subsection \<open>Parsing plans\<close>

definition coord_of :: "wf_step \<Rightarrow> coord_step" where
  "coord_of s = \<lparr>cs_id = st_id s, cs_type = st_type s, cs_terminal = terminal s\<rparr>"

definition step_shape :: "coord_step list \<Rightarrow> bool" where
  "step_shape ss \<longleftrightarrow> length (filter (\<lambda>s. cs_type s = ''respond'') ss) \<le> 1 \<and>
     (\<forall>i < length ss. cs_terminal (ss ! i) \<longrightarrow> Suc i = length ss \<and>
        (cs_type (ss ! i) = ''respond'' \<or> (\<exists>j < i. cs_type (ss ! j) = ''respond'')))"

lemma step_shape_Nil [simp]: "step_shape []"
  by (simp add: step_shape_def)

lemma parse_coord_steps_last:
  assumes "parse_coord_steps raws = Inr ss" "i < length ss" "cs_terminal (ss ! i)"
  shows "Suc i = length ss"
  using assms
proof (induction raws arbitrary: ss i)
  case Nil
  then show ?case by simp
next
  case (Cons raw raws)
  then obtain s ts where s: "parse_coord_step (raws = []) raw = Inr s" "parse_coord_steps raws = Inr ts" "ss = s # ts"
    by (auto simp: result_simps)
  show ?case
  proof (cases i)
    case 0
    with Cons.prems(3) s have "raws = []" by (auto simp: parse_coord_step_def result_simps)
    with s 0 show ?thesis by simp
  next
    case (Suc j)
    with Cons.IH [OF s(2), of j] Cons.prems s(3) show ?thesis by simp
  qed
qed

lemma parse_plan_json_shape:
  assumes "parse_plan_json pj = Inr ss" shows "step_shape ss"
proof -
  from assms obtain raws where parsed: "parse_coord_steps raws = Inr ss"
    and one: "length (filter (\<lambda>s. cs_type s = ''respond'') ss) = 1"
    by (auto simp: parse_plan_json_def result_simps)
  have "cs_type (ss ! i) = ''respond'' \<or> (\<exists>j < i. cs_type (ss ! j) = ''respond'')"
    if i: "i < length ss" "cs_terminal (ss ! i)" for i
  proof -
    have last: "Suc i = length ss" by (rule parse_coord_steps_last [OF parsed i])
    have "filter (\<lambda>s. cs_type s = ''respond'') ss \<noteq> []" using one by auto
    then obtain s where "s \<in> set ss" "cs_type s = ''respond''" by (auto simp: filter_empty_conv)
    then obtain j where "j < length ss" "cs_type (ss ! j) = ''respond''" by (auto simp: in_set_conv_nth)
    with last show ?thesis by (metis less_Suc_eq)
  qed
  with one parse_coord_steps_last [OF parsed] show ?thesis by (simp add: step_shape_def)
qed

lemma parse_coord_steps_map:
  assumes "\<And>s. s \<in> set ss \<Longrightarrow> st_id s \<noteq> [] \<and> st_type s \<in> {''tool'', ''vision_analyze'', ''respond''}"
    and "\<And>i. i < length ss \<Longrightarrow> terminal (ss ! i) \<Longrightarrow> Suc i = length ss"
  shows "parse_coord_steps (map step_to_json ss) = Inr (map coord_of ss)"
  using assms
proof (induction ss)
  case Nil
  show ?case by simp
next
  case (Cons s ss)
  have s: "st_id s \<noteq> []" "st_type s \<in> {''tool'', ''vision_analyze'', ''respond''}"
    using Cons.prems(1) [of s] by auto
  have "terminal s \<Longrightarrow> ss = []" using Cons.prems(2) [of 0] by auto
  with s have head: "parse_coord_step (map step_to_json ss = []) (step_to_json s) = Inr (coord_of s)"
    by (auto simp: parse_coord_step_def step_to_json_def jget_def coord_of_def)
  have "parse_coord_steps (map step_to_json ss) = Inr (map coord_of ss)"
    using Cons.prems(1) Cons.prems(2) [of "Suc i" for i] by (intro Cons.IH) auto
  with head show ?case by simp
qed

lemma step_id_ok_nonempty: "step_id_ok s \<Longrightarrow> s \<noteq> []"
  by (auto simp: step_id_ok_def starts_with_def)

subsection \<open>The calls of one run\<close>

fun call_of :: "effect \<Rightarrow> string list" where
  "call_of (SynthesisCall sid) = [sid]"
| "call_of (ExecuteCall sid played) = [sid]"
| "call_of _ = []"

definition calls :: "effect list \<Rightarrow> string list" where
  "calls effects = concat (map call_of effects)"

lemma calls_append [simp]: "calls (a @ b) = calls a @ calls b"
  and calls_Cons [simp]: "calls (x # a) = call_of x @ calls a"
  and calls_Nil [simp]: "calls [] = []"
  by (simp_all add: calls_def)

definition ids :: "coord_run \<Rightarrow> string list" where
  "ids ru = map cs_id (ru_steps ru)"

definition played :: "coord_run \<Rightarrow> nat \<Rightarrow> run_input list \<Rightarrow> bool" where
  "played ru i ins \<longleftrightarrow>
     (has_terminal ru \<and> (\<exists>j < i. cs_type (ru_steps ru ! j) = ''respond'') \<longrightarrow>
        PlaybackAnswer PLAYBACK_COMPLETE \<in> set ins)"

definition at_step :: "coord_run \<Rightarrow> nat \<Rightarrow> run_input list \<Rightarrow> string list \<Rightarrow> bool" where
  "at_step ru i ins cs \<longleftrightarrow> i < length (ru_steps ru) \<and> cs = take (Suc i) (ids ru) \<and>
     ru_completed ru = take i (ids ru) \<and> played ru i ins"

definition run_ok :: "coord_run \<Rightarrow> run_input list \<Rightarrow> string list \<Rightarrow> bool" where
  "run_ok ru ins cs \<longleftrightarrow> step_shape (ru_steps ru) \<and>
     (case ru_phase ru of
        AwaitPlan \<Rightarrow> ru_steps ru = [] \<and> cs = [] \<and> ru_completed ru = []
      | AwaitChunk i \<Rightarrow> at_step ru i ins cs \<and> cs_type (ru_steps ru ! i) = ''respond''
      | AwaitStep i \<Rightarrow> at_step ru i ins cs \<and> cs_type (ru_steps ru ! i) \<noteq> ''respond''
      | AwaitPlayback i \<Rightarrow> i < length (ru_steps ru) \<and> cs = take (Suc i) (ids ru) \<and>
          ru_completed ru = take (Suc i) (ids ru) \<and> cs_type (ru_steps ru ! i) = ''respond''
      | Finished \<Rightarrow> \<exists>n m. m \<le> n \<and> n \<le> Suc m \<and> cs = take n (ids ru) \<and> ru_completed ru = take m (ids ru))"

lemma played_mono: "played ru i ins \<Longrightarrow> played ru i (ins @ [inp])"
  by (auto simp: played_def)

lemma fail_run_simps [simp]:
  "ru_phase (fst (fail_run code ru)) = Finished" "ru_steps (fst (fail_run code ru)) = ru_steps ru"
  "ru_completed (fst (fail_run code ru)) = ru_completed ru" "calls (snd (fail_run code ru)) = []"
  by (simp_all add: fail_run_def emit_failure_if_needed_def cancel_remote_def Let_def case_prod_beta)

lemma raise_error_simps [simp]:
  "ru_phase (fst (raise_error e ru)) = Finished" "ru_steps (fst (raise_error e ru)) = ru_steps ru"
  "ru_completed (fst (raise_error e ru)) = ru_completed ru" "calls (snd (raise_error e ru)) = []"
  by (simp_all add: raise_error_def)

lemma task_cancelled_simps [simp]:
  "ru_phase (fst (task_cancelled ru)) = Finished" "ru_steps (fst (task_cancelled ru)) = ru_steps ru"
  "ru_completed (fst (task_cancelled ru)) = ru_completed ru" "calls (snd (task_cancelled ru)) = []"
  by (simp_all add: task_cancelled_def cancel_remote_def Let_def case_prod_beta)

lemma finish_run_simps [simp]:
  "ru_phase (fst (finish_run b ru)) = Finished" "ru_steps (fst (finish_run b ru)) = ru_steps ru"
  "ru_completed (fst (finish_run b ru)) = ru_completed ru" "calls (snd (finish_run b ru)) = []"
  by (simp_all add: finish_run_def)

lemma run_ok_finished:
  assumes "ru_phase ru = Finished" "step_shape (ru_steps ru)" "m \<le> n" "n \<le> Suc m" "cs = take n (ids ru)"
    "ru_completed ru = take m (ids ru)"
  shows "run_ok ru ins cs"
  using assms unfolding run_ok_def by auto

lemma run_ok_prefix:
  assumes "run_ok ru ins cs" obtains n m where "m \<le> n" "n \<le> Suc m" "cs = take n (ids ru)" "ru_completed ru = take m (ids ru)"
  using assms that [of 0 0] that [of "i" "Suc i" for i] that [of "Suc i" "Suc i" for i]
  unfolding run_ok_def at_step_def by (cases "ru_phase ru") auto

lemma ids_simps: "ru_steps b = ru_steps a \<Longrightarrow> ids b = ids a"
  by (simp add: ids_def)

lemma run_ok_fail:
  assumes "run_ok ru ins cs" shows "run_ok (fst (raise_error e ru)) ins' (cs @ calls (snd (raise_error e ru)))"
    "run_ok (fst (task_cancelled ru)) ins' (cs @ calls (snd (task_cancelled ru)))"
proof -
  have shape: "step_shape (ru_steps ru)" using assms by (simp add: run_ok_def)
  from assms obtain n m where nm: "m \<le> n" "n \<le> Suc m" "cs = take n (ids ru)" "ru_completed ru = take m (ids ru)"
    by (rule run_ok_prefix)
  show "run_ok (fst (raise_error e ru)) ins' (cs @ calls (snd (raise_error e ru)))"
    by (rule run_ok_finished [OF _ _ nm(1,2)]) (use shape nm in \<open>simp_all add: ids_def\<close>)
  show "run_ok (fst (task_cancelled ru)) ins' (cs @ calls (snd (task_cancelled ru)))"
    by (rule run_ok_finished [OF _ _ nm(1,2)]) (use shape nm in \<open>simp_all add: ids_def\<close>)
qed

lemma enter_step_ok:
  assumes "step_shape (ru_steps ru)" "i \<le> length (ru_steps ru)" "cs = take i (ids ru)"
    "ru_completed ru = take i (ids ru)" "played ru i ins"
  shows "run_ok (fst (enter_step i ru)) ins (cs @ calls (snd (enter_step i ru)))"
proof -
  have fin: "run_ok ru' ins cs" if "ru_phase ru' = Finished" "ru_steps ru' = ru_steps ru"
      "ru_completed ru' = ru_completed ru" for ru'
    by (rule run_ok_finished [of _ i i]) (use that assms in \<open>simp_all add: ids_def\<close>)
  show ?thesis
  proof (cases "i \<ge> length (ru_steps ru)")
    case True
    then show ?thesis by (simp add: enter_step_def fin)
  next
    case False
    then have "take (Suc i) (ids ru) = cs @ [cs_id (ru_steps ru ! i)]"
      using assms(3) by (simp add: ids_def take_Suc_conv_app_nth)
    note next_id = this
    show ?thesis
    proof (cases "ru_cancelled ru")
      case True
      with False fin show ?thesis by (simp add: enter_step_def)
    next
      case not_cancelled: False
      with False assms next_id show ?thesis
        by (simp add: enter_step_def Let_def run_ok_def at_step_def ids_def played_def has_terminal_def)
    qed
  qed
qed

lemma run_step_ok:
  assumes ok: "run_ok ru ins cs"
  shows "run_ok (fst (run_step ru inp)) (ins @ [inp]) (cs @ calls (snd (run_step ru inp)))"
proof (cases "ru_phase ru")
  case AwaitPlan
  show ?thesis
  proof (cases inp)
    case (PlanAnswer success code plan_id plan_json)
    note R = run_ok_fail(1) [OF ok]
    show ?thesis
    proof (cases "success \<and> (\<exists>ss. parse_plan_json plan_json = Inr ss)")
      case False
      define ru1 where "ru1 = ru\<lparr>ru_plan_id := py_strip plan_id\<rparr>"
      have "run_ok ru1 ins cs" using ok AwaitPlan by (simp add: ru1_def run_ok_def)
      from run_ok_fail(1) [OF this] R False AwaitPlan PlanAnswer show ?thesis
        by (auto simp: on_plan_def Let_def ru1_def split: sum.split)
    next
      case True
      then obtain ss where ss: "parse_plan_json plan_json = Inr ss" by blast
      define ru2 where "ru2 = ru\<lparr>ru_plan_id := py_strip plan_id, ru_steps := ss\<rparr>"
      have shape: "step_shape (ru_steps ru2)" using parse_plan_json_shape [OF ss] by (simp add: ru2_def)
      have start: "ru_steps ru = []" "cs = []" "ru_completed ru = []"
        using ok AwaitPlan by (simp_all add: run_ok_def)
      show ?thesis
      proof (cases "py_strip plan_id = []")
        case True
        with start ss \<open>success \<and> _\<close> AwaitPlan PlanAnswer show ?thesis
          by (auto simp: on_plan_def Let_def run_ok_def ids_def intro!: exI [of _ "0 :: nat"])
      next
        case False
        have "run_ok (fst (enter_step 0 ru2)) (ins @ [inp]) (cs @ calls (snd (enter_step 0 ru2)))"
          using start shape by (intro enter_step_ok) (simp_all add: ru2_def played_def)
        with False ss \<open>success \<and> _\<close> AwaitPlan PlanAnswer show ?thesis
          by (simp add: on_plan_def Let_def ru2_def case_prod_beta)
      qed
    qed
  qed (use AwaitPlan ok run_ok_fail [OF ok] in \<open>auto simp: run_ok_def\<close>)
next
  case (AwaitChunk i)
  have at: "at_step ru i ins cs" and resp: "cs_type (ru_steps ru ! i) = ''respond''"
    and shape: "step_shape (ru_steps ru)"
    using ok AwaitChunk by (auto simp: run_ok_def)
  have stay: "run_ok ru (ins @ [inp]) cs"
    using ok AwaitChunk played_mono by (auto simp: run_ok_def at_step_def)
  show ?thesis
  proof (cases inp)
    case StreamEnd
    define ru1 where "ru1 = ru\<lparr>ru_synthesis_closed := True,
        ru_completed := ru_completed ru @ [cs_id (ru_steps ru ! i)]\<rparr>"
    have adv: "ru_completed ru1 = take (Suc i) (ids ru1)" "ids ru1 = ids ru"
      using at by (auto simp: ru1_def at_step_def ids_def take_Suc_conv_app_nth)
    show ?thesis
    proof (cases "has_terminal ru1")
      case True
      with adv at resp shape AwaitChunk StreamEnd show ?thesis
        by (simp add: on_stream_end_def Let_def ru1_def run_ok_def at_step_def ids_def)
    next
      case False
      have "run_ok (fst (enter_step (Suc i) ru1)) (ins @ [inp]) (cs @ calls (snd (enter_step (Suc i) ru1)))"
        using at shape adv False by (intro enter_step_ok) (auto simp: ru1_def at_step_def played_def ids_def)
      with False AwaitChunk StreamEnd show ?thesis
        by (simp add: on_stream_end_def Let_def ru1_def case_prod_beta)
    qed
  next
    case (Chunk t code)
    with AwaitChunk stay run_ok_fail(1) [OF ok] show ?thesis by (auto simp: on_chunk_def)
  qed (use AwaitChunk stay run_ok_fail [OF ok] in simp_all)
next
  case (AwaitPlayback i)
  have at: "i < length (ru_steps ru)" "cs = take (Suc i) (ids ru)" "ru_completed ru = take (Suc i) (ids ru)"
    and shape: "step_shape (ru_steps ru)"
    using ok AwaitPlayback by (auto simp: run_ok_def)
  have stay: "run_ok ru (ins @ [inp]) cs" using ok AwaitPlayback by (auto simp: run_ok_def)
  show ?thesis
  proof (cases inp)
    case (PlaybackAnswer report)
    show ?thesis
    proof (cases "report = PLAYBACK_COMPLETE")
      case True
      then have "run_ok (fst (enter_step (Suc i) ru)) (ins @ [inp]) (cs @ calls (snd (enter_step (Suc i) ru)))"
        using at shape PlaybackAnswer by (intro enter_step_ok) (auto simp: played_def)
      with True AwaitPlayback PlaybackAnswer show ?thesis by (simp add: on_playback_def)
    next
      case False
      with AwaitPlayback PlaybackAnswer run_ok_fail(1) [OF ok] show ?thesis by (simp add: on_playback_def)
    qed
  qed (use AwaitPlayback stay run_ok_fail [OF ok] in simp_all)
next
  case (AwaitStep i)
  have at: "at_step ru i ins cs" and tool: "cs_type (ru_steps ru ! i) \<noteq> ''respond''"
    and shape: "step_shape (ru_steps ru)"
    using ok AwaitStep by (auto simp: run_ok_def)
  have stay: "run_ok ru (ins @ [inp]) cs"
    using ok AwaitStep played_mono by (auto simp: run_ok_def at_step_def)
  show ?thesis
  proof (cases inp)
    case (StepAnswer success code exit_flag)
    define ru1 where "ru1 = ru\<lparr>ru_completed := ru_completed ru @ [cs_id (ru_steps ru ! i)]\<rparr>"
    have adv: "ru_completed ru1 = take (Suc i) (ids ru1)" "ids ru1 = ids ru" "ru_steps ru1 = ru_steps ru"
      using at by (auto simp: ru1_def at_step_def ids_def take_Suc_conv_app_nth)
    have "played ru1 (Suc i) (ins @ [inp])"
      using at tool by (auto simp: played_def at_step_def ru1_def has_terminal_def less_Suc_eq)
    then have nxt: "run_ok (fst (enter_step (Suc i) ru1)) (ins @ [inp]) (cs @ calls (snd (enter_step (Suc i) ru1)))"
      using at shape adv by (intro enter_step_ok) (auto simp: at_step_def)
    have fin: "run_ok (fst (finish_run exit_flag ru1)) (ins @ [inp]) cs"
      by (rule run_ok_finished [of _ "Suc i" "Suc i"]) (use at adv shape in \<open>simp_all add: at_step_def ids_def\<close>)
    from nxt fin run_ok_fail(1) [OF ok] AwaitStep StepAnswer show ?thesis
      by (auto simp: on_step_def Let_def ru1_def)
  qed (use AwaitStep stay run_ok_fail [OF ok] in simp_all)
next
  case Finished
  with ok show ?thesis by (auto simp: run_ok_def)
qed

declare run_step.simps [simp del]

interpretation driven: observed_system run_step "\<lambda>ru l. run_ok ru (fst l) (snd l)" "\<lambda>_. True"
  "\<lambda>l inp effects. (fst l @ [inp], snd l @ calls effects)"
  by unfold_locales (simp add: run_step_ok)

abbreviation run_after :: "run_request \<Rightarrow> run_input list \<Rightarrow> coord_run" where
  "run_after req ins \<equiv> run_state run_step (new_run req) ins"

abbreviation run_effects :: "run_request \<Rightarrow> run_input list \<Rightarrow> effect list" where
  "run_effects req ins \<equiv> concat (run_replies run_step (new_run req) ins)"

lemma observed_calls:
  "length es = length rs \<Longrightarrow>
    foldl (\<lambda>l (e, r). (fst l @ [e], snd l @ calls r)) l (zip es rs) = (fst l @ es, snd l @ calls (concat rs))"
  by (induction es rs arbitrary: l rule: list_induct2) (simp_all add: calls_def)

lemma run_after_ok: "run_ok (run_after req ins) ins (calls (run_effects req ins))"
proof -
  have start: "run_ok (new_run req) (fst ([], [])) (snd ([], []))" by (simp add: run_ok_def new_run_def)
  have "\<forall>e \<in> set ins. True" by simp
  from driven.inv_run_log [OF start this] show ?thesis by (simp add: observed_calls)
qed

text \<open>A terminal call is made only by the answer of the playback barrier.\<close>

lemma no_call_at_end:
  "ExecuteCall sid b \<notin> set (snd (raise_error e ru))" "ExecuteCall sid b \<notin> set (snd (finish_run x ru))"
  by (simp_all add: finish_run_def raise_error_def fail_run_def emit_failure_if_needed_def
      cancel_remote_def Let_def case_prod_beta)

lemma execute_call_enter:
  assumes "ExecuteCall sid True \<in> set (snd (enter_step i ru))"
  shows "i < length (ru_steps ru)" "cs_terminal (ru_steps ru ! i)" "cs_type (ru_steps ru ! i) \<noteq> ''respond''"
    "fst (enter_step i ru) = ru\<lparr>ru_phase := AwaitStep i\<rparr>"
  using assms by (simp_all add: enter_step_def Let_def no_call_at_end split: if_splits)

lemma no_execute_call [simp]:
  "ExecuteCall sid b \<notin> set (snd (raise_error e ru))" "ExecuteCall sid b \<notin> set (snd (task_cancelled ru))"
  "ExecuteCall sid b \<notin> set (snd (finish_run c ru))"
  by (auto simp: raise_error_def fail_run_def task_cancelled_def emit_failure_if_needed_def
      cancel_remote_def finish_run_def Let_def case_prod_beta)

lemma run_step_enters:
  assumes "ExecuteCall sid b \<in> set (snd (run_step ru inp))"
  obtains i ru1 where "ExecuteCall sid b \<in> set (snd (enter_step i ru1))"
    "fst (run_step ru inp) = fst (enter_step i ru1)"
proof (cases "ru_phase ru")
  case AwaitPlan
  with assms that show thesis
    by (cases inp) (auto simp: run_step.simps on_plan_def Let_def case_prod_beta split: if_splits sum.splits)
next
  case (AwaitChunk i)
  with assms that show thesis
    by (cases inp) (auto simp: run_step.simps on_chunk_def on_stream_end_def Let_def case_prod_beta split: if_splits)
next
  case (AwaitPlayback i)
  with assms that show thesis
    by (cases inp) (auto simp: run_step.simps on_playback_def split: if_splits)
next
  case (AwaitStep i)
  with assms that show thesis
    by (cases inp) (auto simp: run_step.simps on_step_def Let_def split: if_splits)
next
  case Finished
  with assms show thesis by (simp add: run_step.simps)
qed

lemma terminal_call_played:
  assumes "ExecuteCall sid True \<in> set (snd (run_step (run_after req ins) inp))"
  shows "PlaybackAnswer PLAYBACK_COMPLETE \<in> set (ins @ [inp])"
proof -
  from assms obtain i ru1 where e: "ExecuteCall sid True \<in> set (snd (enter_step i ru1))"
      "fst (run_step (run_after req ins) inp) = fst (enter_step i ru1)"
    by (rule run_step_enters)
  let ?ru = "run_after req (ins @ [inp])"
  note E = execute_call_enter [OF e(1)]
  have ru: "?ru = ru1\<lparr>ru_phase := AwaitStep i\<rparr>" using e(2) E(4) by (simp add: run_simps)
  have "run_ok ?ru (ins @ [inp]) (calls (run_effects req (ins @ [inp])))" by (rule run_after_ok)
  with ru have "step_shape (ru_steps ?ru)" "played ?ru i (ins @ [inp])"
    unfolding run_ok_def by (auto simp: at_step_def)
  moreover from this E ru have "\<exists>j < i. cs_type (ru_steps ?ru ! j) = ''respond''"
    by (auto simp: step_shape_def)
  moreover have "has_terminal ?ru" using E ru by (auto simp: has_terminal_def list_ex_iff intro: nth_mem)
  ultimately show ?thesis by (simp add: played_def)
qed

subsection \<open>Active runs\<close>

lemma run_step_request [simp]: "ru_request (fst (run_step ru inp)) = ru_request ru"
  by (cases "ru_phase ru"; cases inp)
    (auto simp: run_step.simps on_plan_def on_chunk_def on_stream_end_def on_playback_def on_step_def
      enter_step_def finish_run_def raise_error_def fail_run_def task_cancelled_def
      emit_failure_if_needed_def cancel_remote_def Let_def case_prod_beta split: sum.split)

definition active_ok :: "coordinator \<Rightarrow> bool" where
  "active_ok co \<longleftrightarrow> distinct (keys (co_active co)) \<and>
     (\<forall>sid n. map_of (co_active co) sid = Some n \<longleftrightarrow>
        n < length (co_runs co) \<and> rq_session_id (ru_request (co_runs co ! n)) = sid \<and>
        ru_phase (co_runs co ! n) \<noteq> Finished)"

lemma active_okD:
  assumes "active_ok co"
  shows "map_of (co_active co) sid = Some n \<longleftrightarrow>
    n < length (co_runs co) \<and> rq_session_id (ru_request (co_runs co ! n)) = sid \<and>
    ru_phase (co_runs co ! n) \<noteq> Finished"
  using assms unfolding active_ok_def by blast

lemma start_run_active: assumes "active_ok co" shows "active_ok (fst (start_run req co))"
proof (cases "invalid_run_field req = None \<and> map_of (co_active co) (rq_session_id req) = None")
  case False
  with assms show ?thesis by (auto simp: start_run_def)
next
  case True
  let ?co = "co\<lparr>co_active := AList.update (rq_session_id req) (length (co_runs co)) (co_active co),
               co_runs := co_runs co @ [new_run req]\<rparr>"
  have new: "ru_request (new_run req) = req" "ru_phase (new_run req) = AwaitPlan" by (simp_all add: new_run_def)
  have "map_of (co_active ?co) sid = Some n \<longleftrightarrow>
      n < length (co_runs ?co) \<and> rq_session_id (ru_request (co_runs ?co ! n)) = sid \<and>
      ru_phase (co_runs ?co ! n) \<noteq> Finished" for sid n
    using active_okD [OF assms, of sid n] True new
    by (auto simp: map_of_update nth_append less_Suc_eq)
  moreover have "distinct (keys (co_active ?co))" using assms by (simp add: active_ok_def distinct_update)
  ultimately show ?thesis using True by (simp add: start_run_def active_ok_def)
qed

lemma feed_run_active: assumes "active_ok co" shows "active_ok (fst (feed_run n inp co))"
proof (cases "n < length (co_runs co)")
  case False
  with assms show ?thesis by (simp add: feed_run_def)
next
  case n: True
  let ?ru = "fst (run_step (co_runs co ! n) inp)"
  let ?sid = "rq_session_id (ru_request (co_runs co ! n))"
  define co' where "co' = fst (feed_run n inp co)"
  have co': "co_runs co' = (co_runs co)[n := ?ru]"
    "co_active co' = (if ru_phase ?ru = Finished \<and> map_of (co_active co) ?sid = Some n
        then AList.delete ?sid (co_active co) else co_active co)"
    using n by (simp_all add: co'_def feed_run_def Let_def case_prod_beta)
  have fin: "ru_phase ?ru = Finished" if "ru_phase (co_runs co ! n) = Finished"
    using that by (simp add: run_step.simps)
  have "map_of (co_active co') sid = Some m \<longleftrightarrow>
      m < length (co_runs co') \<and> rq_session_id (ru_request (co_runs co' ! m)) = sid \<and>
      ru_phase (co_runs co' ! m) \<noteq> Finished" for sid m
    using active_okD [OF assms, of sid m] active_okD [OF assms, of ?sid n] n fin
    by (cases "m = n") (auto simp: co' map_of_delete)
  moreover have "distinct (keys (co_active co'))" using assms by (simp add: active_ok_def co' distinct_delete)
  ultimately show ?thesis unfolding active_ok_def co'_def by blast
qed

lemma cancel_active_active: assumes "active_ok co" shows "active_ok (fst (cancel_active sid reason co))"
proof (cases "map_of (co_active co) (py_strip sid)")
  case None
  with assms show ?thesis by (simp add: cancel_active_def Let_def)
next
  case (Some n)
  define why where "why = (if reason = [] then ''cancelled'' else reason)"
  define ru where "ru = fst (cancel_remote why ((co_runs co ! n)\<lparr>ru_cancel_reason := why, ru_cancelled := True\<rparr>))"
  have ru: "ru_request ru = ru_request (co_runs co ! n)" "ru_phase ru = ru_phase (co_runs co ! n)"
    by (simp_all add: ru_def cancel_remote_def)
  have co': "fst (cancel_active sid reason co) = co\<lparr>co_runs := (co_runs co)[n := ru]\<rparr>"
    using Some by (simp add: cancel_active_def Let_def case_prod_beta why_def ru_def)
  have "map_of (co_active co) s = Some m \<longleftrightarrow>
      m < length ((co_runs co)[n := ru]) \<and> rq_session_id (ru_request ((co_runs co)[n := ru] ! m)) = s \<and>
      ru_phase ((co_runs co)[n := ru] ! m) \<noteq> Finished" for s m
    using active_okD [OF assms, of s m] ru by (cases "m = n") auto
  with assms show ?thesis by (simp add: co' active_ok_def)
qed

interpretation coord: transition_system coordinator_step active_ok "\<lambda>_. True"
proof
  show "active_ok (fst (coordinator_step co e))" if "active_ok co" for co e
    using that by (cases e) (simp_all add: start_run_active feed_run_active cancel_active_active)
qed

lemma coordinator_active_ok: "active_ok (run_state coordinator_step empty_coordinator es)"
  by (rule coord.inv_run) (simp_all add: active_ok_def empty_coordinator_def)

subsection \<open>Properties\<close>

text \<open>C10: The coordinator understands every plan the validator accepts: parsing the plan's JSON
  form gives back its steps, in order, with their ids, types and terminal flags.\<close>

theorem validated_plan_is_coordinated:
  assumes "validate_workflow_plan schemas terminals raw = Inr plan"
  shows "parse_plan_json (Some (workflow_plan_to_dict plan)) = Inr (map coord_of (steps plan))"
proof -
  note V = accepted_plan_order [OF assms]
  from V(3) obtain pre r post where shape: "steps plan = pre @ r # post"
      "\<forall>s \<in> set pre. is_result_step s" "st_type r = ''respond''" "\<not> terminal r"
      "map st_id post = (case terminal_step_id plan of None \<Rightarrow> [] | Some t \<Rightarrow> [t])"
      "\<forall>s \<in> set post. st_type s = ''tool'' \<and> terminal s"
    by (rule order_shapeE)
  have post: "length post \<le> 1" using arg_cong [OF shape(5), of length] by (simp split: option.splits)
  have "terminal (steps plan ! i) \<Longrightarrow> i < length (steps plan) \<Longrightarrow> Suc i = length (steps plan)" for i
    using shape(1,2,4) post by (auto simp: nth_append nth_Cons is_result_step_def split: if_splits nat.splits)
  moreover have "st_id s \<noteq> [] \<and> st_type s \<in> {''tool'', ''vision_analyze'', ''respond''}" if "s \<in> set (steps plan)" for s
    using V(5) [OF that] step_id_ok_nonempty by (auto simp: step_ok_def STEP_TYPES_def)
  ultimately have parsed: "parse_coord_steps (map step_to_json (steps plan)) = Inr (map coord_of (steps plan))"
    by (intro parse_coord_steps_map) auto
  have nonresp: "filter (\<lambda>s. st_type s = ''respond'') pre = []" "filter (\<lambda>s. st_type s = ''respond'') post = []"
    using shape(2,6) by (auto simp: filter_empty_conv is_result_step_def)
  have "filter terminal pre = []" using shape(2) by (auto simp: filter_empty_conv is_result_step_def)
  then have terms: "length (filter terminal (steps plan)) \<le> 1"
    using shape(1,4) post le_trans [OF length_filter_le] by simp
  have "length (steps plan) \<le> MAX_COORDINATED_STEPS"
    using V(4) by (simp add: MAX_WORKFLOW_STEPS_def MAX_COORDINATED_STEPS_def)
  moreover have "length (filter (\<lambda>s. cs_type s = ''respond'') (map coord_of (steps plan))) = 1"
    using nonresp shape(1,3) by (simp add: coord_of_def filter_map comp_def)
  moreover have "length (filter cs_terminal (map coord_of (steps plan))) \<le> 1"
    using terms by (simp add: coord_of_def filter_map comp_def)
  moreover have "1 \<le> length (steps plan)" using shape(1) by simp
  ultimately show ?thesis
    using parsed by (simp add: parse_plan_json_def workflow_plan_to_dict_def)
qed

theorem validated_plan_is_coordinated_witness:
  "map cs_id (case parse_plan_json (Some (workflow_plan_to_dict accepted_sample)) of Inr ss \<Rightarrow> ss | Inl _ \<Rightarrow> [])
    = [''step_1'', ''step_2'', ''step_4'', ''step_3'']"
  using validated_plan_is_coordinated [OF sample_accepted] sample_ids by (simp add: coord_of_def comp_def)

text \<open>Whatever the service and the barrier answer, the steps a run calls are a prefix of its
  plan, called in order and each once, and the steps it reports as completed are a prefix of
  those; it never calls a step before the previous one was answered.\<close>

theorem coordinator_calls_plan_prefix:
  "\<exists>n m. m \<le> n \<and> n \<le> Suc m \<and>
    calls (run_effects req ins) = take n (map cs_id (ru_steps (run_after req ins))) \<and>
    ru_completed (run_after req ins) = take m (map cs_id (ru_steps (run_after req ins)))"
  using run_after_ok [of req ins, THEN run_ok_prefix] unfolding ids_def by metis

text \<open>C14: The coordinator calls the terminal step (with \<open>playback_completed\<close> set) only after the
  playback barrier has answered \<open>playback_complete\<close>.\<close>

theorem terminal_call_after_playback:
  assumes "ExecuteCall sid True \<in> set (run_effects req ins)"
  shows "PlaybackAnswer PLAYBACK_COMPLETE \<in> set ins"
  using assms
proof (induction ins rule: rev_induct)
  case Nil
  then show ?case by simp
next
  case (snoc inp ins)
  then consider "ExecuteCall sid True \<in> set (run_effects req ins)"
    | "ExecuteCall sid True \<in> set (snd (run_step (run_after req ins) inp))"
    by (auto simp: run_simps)
  then show ?case
  proof cases
    case 1
    with snoc.IH show ?thesis by simp
  next
    case 2
    then show ?thesis by (rule terminal_call_played)
  qed
qed

definition sample_run_request :: run_request where
  "sample_run_request = \<lparr>rq_text = ''hi'', rq_session_id = ''s'', rq_bot_id = ''b'', rq_robot_id = ''r'',
     rq_trace_id = ''t'', rq_round_id = ''1'', rq_playback_id = ''p''\<rparr>"

definition sample_plan_answer :: run_input where
  "sample_plan_answer = PlanAnswer True [] ''wf_a'' (Some (JObj [(''steps'', JArr
     [JObj [(''id'', JStr ''step_1''), (''type'', JStr ''respond''), (''terminal'', JBool False)],
      JObj [(''id'', JStr ''step_2''), (''type'', JStr ''tool''), (''terminal'', JBool True)]])]))"

definition sample_inputs :: "run_input list" where
  "sample_inputs = [sample_plan_answer, Chunk ''bye'' [], StreamEnd, PlaybackAnswer PLAYBACK_COMPLETE]"

theorem terminal_call_after_playback_witness:
  "ExecuteCall ''step_2'' True \<in> set (run_effects sample_run_request sample_inputs) \<and>
   PlaybackAnswer PLAYBACK_COMPLETE \<in> set sample_inputs"
proof -
  have "run_effects sample_run_request sample_inputs =
      [PrepareWaiter, SynthesisCall ''step_1'', EmitText ''bye'', SynthesisFinished, WaitPlayback,
       ExecuteCall ''step_2'' True]"
    by code_simp
  then have "ExecuteCall ''step_2'' True \<in> set (run_effects sample_run_request sample_inputs)" by simp
  with terminal_call_after_playback [OF this] show ?thesis by blast
qed

definition fails_cleanly :: "coord_run \<Rightarrow> coord_run \<Rightarrow> effect list \<Rightarrow> bool" where
  "fails_cleanly ru ru' effects \<longleftrightarrow> (\<forall>result. Returned result \<in> set effects \<longrightarrow>
     \<not> rr_success result \<longrightarrow> rr_plan_id result \<noteq> [] \<longrightarrow>
     BarrierCancel (rq_session_id (ru_request ru)) (rr_error_code result) \<in> set effects \<and>
     (ru_cancel_remote_sent ru \<or> RemoteCancel (rr_plan_id result) (rr_error_code result) \<in> set effects) \<and>
     ru_cancel_remote_sent ru' \<and> ru_phase ru' = Finished)"

lemma fails_cleanly_silent:
  "(\<And>result. Returned result \<notin> set effects) \<Longrightarrow> fails_cleanly ru ru' effects"
  by (simp add: fails_cleanly_def)

lemma fails_cleanly_append:
  "fails_cleanly ru ru' effects \<Longrightarrow> (\<And>result. Returned result \<notin> set pre) \<Longrightarrow> fails_cleanly ru ru' (pre @ effects)"
  unfolding fails_cleanly_def by auto

lemma fails_cleanly_error:
  assumes "ru_request ru1 = ru_request ru" "ru_cancel_remote_sent ru1 = ru_cancel_remote_sent ru"
  shows "fails_cleanly ru (fst (raise_error e ru1)) (snd (raise_error e ru1))"
  using assms
  by (auto simp: fails_cleanly_def raise_error_def fail_run_def emit_failure_if_needed_def
      cancel_remote_def failed_run_def Let_def case_prod_beta)

lemma fails_cleanly_enter:
  assumes "ru_request ru1 = ru_request ru" "ru_cancel_remote_sent ru1 = ru_cancel_remote_sent ru"
  shows "fails_cleanly ru (fst (enter_step i ru1)) (snd (enter_step i ru1))"
proof -
  have fin: "fails_cleanly ru (fst (finish_run b ru1)) (snd (finish_run b ru1))" for b
    by (simp add: fails_cleanly_def finish_run_def)
  show ?thesis
    using fin fails_cleanly_error [OF assms] fails_cleanly_silent
    by (simp add: enter_step_def Let_def fails_cleanly_def [of ru _ "[_]"])
qed

lemma fails_cleanly_cancelled: "fails_cleanly ru (fst (task_cancelled ru)) (snd (task_cancelled ru))"
  by (rule fails_cleanly_silent) (auto simp: task_cancelled_def cancel_remote_def Let_def case_prod_beta)

lemma run_step_fails_cleanly: "fails_cleanly ru (fst (run_step ru inp)) (snd (run_step ru inp))"
proof -
  have none: "fails_cleanly ru ru' []" for ru' by (simp add: fails_cleanly_def)
  have one: "fails_cleanly ru ru' (x # effects)" if "fails_cleanly ru ru' effects" "\<And>r. x \<noteq> Returned r"
    for ru' x effects
    using fails_cleanly_append [OF that(1), of "[x]"] that(2) by auto
  note C = fails_cleanly_error [of ru ru] fails_cleanly_cancelled none one
  show ?thesis
  proof (cases "ru_phase ru")
    case AwaitPlan
    show ?thesis
    proof (cases inp)
      case (PlanAnswer success code plan_id plan_json)
      define ru1 where "ru1 = ru\<lparr>ru_plan_id := py_strip plan_id\<rparr>"
      have e1: "fails_cleanly ru (fst (raise_error e ru1)) (snd (raise_error e ru1))" for e
        by (rule fails_cleanly_error) (simp_all add: ru1_def)
      have e2: "fails_cleanly ru (fst (enter_step 0 (ru1\<lparr>ru_steps := ss\<rparr>))) (snd (enter_step 0 (ru1\<lparr>ru_steps := ss\<rparr>)))" for ss
        by (rule fails_cleanly_enter) (simp_all add: ru1_def)
      from AwaitPlan PlanAnswer C e1 e2 show ?thesis
        by (auto simp: run_step.simps on_plan_def Let_def ru1_def [symmetric] case_prod_beta
            fails_cleanly_def [of ru _ "[_]"] split: sum.split)
    qed (use AwaitPlan C in \<open>simp_all add: run_step.simps\<close>)
  next
    case (AwaitChunk i)
    show ?thesis
    proof (cases inp)
      case StreamEnd
      define ru1 where "ru1 = ru\<lparr>ru_synthesis_closed := True,
          ru_completed := ru_completed ru @ [cs_id (ru_steps ru ! i)]\<rparr>"
      have "fails_cleanly ru (fst (enter_step (Suc i) ru1)) (snd (enter_step (Suc i) ru1))"
        by (rule fails_cleanly_enter) (simp_all add: ru1_def)
      with AwaitChunk StreamEnd C show ?thesis
        by (simp add: run_step.simps on_stream_end_def Let_def ru1_def [symmetric] case_prod_beta)
    qed (use AwaitChunk C in \<open>simp_all add: run_step.simps on_chunk_def\<close>)
  next
    case (AwaitPlayback i)
    with C fails_cleanly_enter [of ru ru] show ?thesis
      by (cases inp) (simp_all add: run_step.simps on_playback_def)
  next
    case (AwaitStep i)
    show ?thesis
    proof (cases inp)
      case (StepAnswer success code exit_flag)
      define ru1 where "ru1 = ru\<lparr>ru_completed := ru_completed ru @ [cs_id (ru_steps ru ! i)]\<rparr>"
      have "fails_cleanly ru (fst (enter_step (Suc i) ru1)) (snd (enter_step (Suc i) ru1))"
        by (rule fails_cleanly_enter) (simp_all add: ru1_def)
      moreover have "fails_cleanly ru (fst (finish_run b ru1)) (snd (finish_run b ru1))" for b
        by (simp add: fails_cleanly_def finish_run_def)
      ultimately show ?thesis using AwaitStep StepAnswer C
        by (simp add: run_step.simps on_step_def Let_def ru1_def [symmetric])
    qed (use AwaitStep C in \<open>simp_all add: run_step.simps\<close>)
  next
    case Finished
    with none show ?thesis by (simp add: run_step.simps)
  qed
qed



text \<open>In every history at most one run per session is unfinished: the table of active runs
  maps a session to a run exactly when that run belongs to the session and has not finished,
  so \<open>workflow_already_active\<close> is raised exactly while the session has an unfinished run.\<close>

theorem active_table_is_unfinished_runs:
  "map_of (co_active (run_state coordinator_step empty_coordinator es)) sid = Some n \<longleftrightarrow>
    n < length (co_runs (run_state coordinator_step empty_coordinator es)) \<and>
    rq_session_id (ru_request (co_runs (run_state coordinator_step empty_coordinator es) ! n)) = sid \<and>
    ru_phase (co_runs (run_state coordinator_step empty_coordinator es) ! n) \<noteq> Finished"
  by (rule active_okD [OF coordinator_active_ok])

end
