(* ===== verification/Playback_Flow.thy ===== *)
theory Playback_Flow
  imports Workflow_Coordinator_Facts
begin

text \<open>
  A coordinator run with the playback barrier it uses: the effects \<open>PrepareWaiter\<close> and
  \<open>BarrierCancel\<close> of the run are the calls of \<open>WorkflowCoordinator.run\<close> on the registry, and
  the barrier's answer is what \<open>waiter.wait\<close> returns: the result of the waiter's future, or
  the timeout.  The theorem ties the terminal action to the client: it is requested only
  after the client reported \<open>playback_complete\<close> for the session, round and playback of the
  run's request.
\<close>

record flow =
  fl_run :: coord_run
  fl_registry :: registry
  fl_waiter :: "future option"

datatype flow_event =
    Feed seconds loop_state run_input    \<comment> \<open>an answer of the service (not of the barrier)\<close>
  | Registry barrier_event    \<comment> \<open>another use of the registry: reports, deliveries, other sessions\<close>
  | WaiterDone seconds loop_state    \<comment> \<open>the waiter's future is done\<close>
  | WaiterTimeout seconds loop_state

definition run_loop :: loop where "run_loop = 0"

fun apply_effect :: "seconds \<Rightarrow> loop_state \<Rightarrow> flow \<Rightarrow> effect \<Rightarrow> flow" where
  "apply_effect now st fl PrepareWaiter =
     (let rq = ru_request (fl_run fl);
          (reg, w) = prepare now run_loop st (rq_session_id rq) (rq_round_id rq) (rq_playback_id rq) (fl_registry fl)
      in fl\<lparr>fl_registry := reg, fl_waiter := (case w of Inr f \<Rightarrow> Some f | Inl _ \<Rightarrow> None)\<rparr>)"
| "apply_effect now st fl (BarrierCancel session_id reason) =
     fl\<lparr>fl_registry := fst (cancel_session st session_id reason (fl_registry fl))\<rparr>"
| "apply_effect now st fl _ = fl"

definition feed :: "seconds \<Rightarrow> loop_state \<Rightarrow> run_input \<Rightarrow> flow \<Rightarrow> flow \<times> effect list" where
  "feed now st inp fl =
     (let (ru, effects) = run_step (fl_run fl) inp
      in (foldl (apply_effect now st) (fl\<lparr>fl_run := ru\<rparr>) effects, effects))"

fun flow_step :: "flow \<Rightarrow> flow_event \<Rightarrow> flow \<times> effect list" where
  "flow_step fl (Feed now st inp) =
     (case inp of PlaybackAnswer _ \<Rightarrow> (fl, []) | _ \<Rightarrow> feed now st inp fl)"
| "flow_step fl (Registry e) = (fl\<lparr>fl_registry := fst (barrier_step (fl_registry fl) e)\<rparr>, [])"
| "flow_step fl (WaiterDone now st) =
     (case fl_waiter fl of
        None \<Rightarrow> (fl, [])
      | Some f \<Rightarrow>
          (case w_result (futures (fl_registry fl) ! f) of
             None \<Rightarrow> (fl, [])
           | Some result \<Rightarrow> feed now st (PlaybackAnswer (br_status result)) fl))"
| "flow_step fl (WaiterTimeout now st) =
     (case fl_waiter fl of
        None \<Rightarrow> (fl, [])
      | Some f \<Rightarrow>
          let (reg, result) = wait_timeout f (fl_registry fl)
          in feed now st (PlaybackAnswer (br_status result)) (fl\<lparr>fl_registry := reg\<rparr>))"

definition new_flow :: "run_request \<Rightarrow> registry \<Rightarrow> flow" where
  "new_flow req reg = \<lparr>fl_run = new_run req, fl_registry = reg, fl_waiter = None\<rparr>"

subsection \<open>The invariant\<close>

definition request_key :: "run_request \<Rightarrow> barrier_error + barrier_key" where
  "request_key rq = create_key (rq_session_id rq) (rq_round_id rq) (rq_playback_id rq)"

definition reported_complete :: "run_request \<Rightarrow> flow_event list \<Rightarrow> bool" where
  \<comment> \<open>the client reported the end of the playback of this request\<close>
  "reported_complete rq es \<longleftrightarrow>
     (\<exists>now st sid rid pid reason key. request_key rq = Inr key \<and> create_key sid rid pid = Inr key \<and>
        Registry (Report now st sid rid pid PLAYBACK_COMPLETE reason) \<in> set es)"

definition reports_in :: "flow_event list \<Rightarrow> barrier_result \<Rightarrow> bool" where
  "reports_in es r \<longleftrightarrow> (br_status r = PLAYBACK_COMPLETE \<longrightarrow>
     (\<exists>now st sid rid pid reason. create_key sid rid pid = Inr (br_key r) \<and>
        Registry (Report now st sid rid pid PLAYBACK_COMPLETE reason) \<in> set es))"

definition waiter_ok :: "run_request \<Rightarrow> flow \<Rightarrow> bool" where
  "waiter_ok rq fl \<longleftrightarrow> (\<forall>f. fl_waiter fl = Some f \<longrightarrow> f < length (futures (fl_registry fl)) \<and>
     request_key rq = Inr (w_key (futures (fl_registry fl) ! f)))"

definition flow_inv :: "run_request \<Rightarrow> flow \<Rightarrow> flow_event list \<Rightarrow> bool" where
  "flow_inv rq fl es \<longleftrightarrow> ru_request (fl_run fl) = rq \<and>
     registry_inv (reports_in es) (fl_registry fl) \<and> waiter_ok rq fl \<and>
     (\<exists>ins. fl_run fl = run_after rq ins \<and>
        (PlaybackAnswer PLAYBACK_COMPLETE \<in> set ins \<longrightarrow> reported_complete rq es))"

lemma reports_in_subset: "reports_in es r \<Longrightarrow> set es \<subseteq> set fs \<Longrightarrow> reports_in fs r"
  unfolding reports_in_def by blast

lemma reported_complete_subset: "reported_complete rq es \<Longrightarrow> set es \<subseteq> set fs \<Longrightarrow> reported_complete rq fs"
  unfolding reported_complete_def by blast

lemma reports_in_other: "br_status r \<noteq> PLAYBACK_COMPLETE \<Longrightarrow> reports_in es r"
  by (simp add: reports_in_def)

lemma status_neq [simp]:
  "PLAYBACK_CANCELLED \<noteq> PLAYBACK_COMPLETE" "PLAYBACK_TIMEOUT \<noteq> PLAYBACK_COMPLETE"
  by (simp_all add: PLAYBACK_CANCELLED_def PLAYBACK_TIMEOUT_def PLAYBACK_COMPLETE_def)

lemma waiter_ok_forward:
  assumes "waiter_ok rq fl" "fut_forward (fl_registry fl) reg"
  shows "waiter_ok rq (fl\<lparr>fl_registry := reg\<rparr>)"
  using assms fut_forwardD(1,2) [OF assms(2)] by (auto simp: waiter_ok_def)

lemma apply_effect_inv:
  assumes rq: "ru_request (fl_run fl) = rq" and inv: "registry_inv (reports_in es) (fl_registry fl)"
    and w: "waiter_ok rq fl"
  shows "registry_inv (reports_in es) (fl_registry (apply_effect now st fl eff)) \<and>
    waiter_ok rq (apply_effect now st fl eff) \<and> fl_run (apply_effect now st fl eff) = fl_run fl"
proof (cases eff)
  case PrepareWaiter
  obtain reg w' where p: "prepare now run_loop st (rq_session_id rq) (rq_round_id rq) (rq_playback_id rq)
      (fl_registry fl) = (reg, w')" by fastforce
  note P = prepare_inv [OF inv p]
  have "f < length (futures reg) \<and> request_key rq = Inr (w_key (futures reg ! f))" if "w' = Inr f" for f
    using inv p
  proof (cases rule: prepare_cases)
    case (Shared key l' g)
    with that have "g = f" by (auto split: if_splits)
    with Shared waiter_future [OF inv Shared(3)] show ?thesis by (simp add: request_key_def)
  next
    case (Cached key t r)
    with that show ?thesis by (auto simp: request_key_def)
  next
    case (Fresh key)
    with that show ?thesis by (auto simp: request_key_def)
  qed (use that in simp)
  with P p rq PrepareWaiter show ?thesis by (auto simp: waiter_ok_def Let_def split: sum.splits)
next
  case (BarrierCancel sid reason)
  have "registry_inv (reports_in es) (fst (cancel_session st sid reason (fl_registry fl))) \<and>
      fut_forward (fl_registry fl) (fst (cancel_session st sid reason (fl_registry fl)))"
    by (rule cancel_session_inv [OF inv]) (rule reports_in_other, simp add: cancelled_result_def)
  with BarrierCancel waiter_ok_forward [OF w] show ?thesis by simp
qed (use inv w in simp_all)

lemma apply_effects_inv:
  assumes "ru_request (fl_run fl) = rq" "registry_inv (reports_in es) (fl_registry fl)" "waiter_ok rq fl"
  shows "registry_inv (reports_in es) (fl_registry (foldl (apply_effect now st) fl effects)) \<and>
    waiter_ok rq (foldl (apply_effect now st) fl effects) \<and>
    fl_run (foldl (apply_effect now st) fl effects) = fl_run fl"
  using assms
proof (induction effects arbitrary: fl)
  case (Cons eff effects)
  note A = apply_effect_inv [OF Cons.prems, of now st eff]
  then show ?case using Cons.IH [of "apply_effect now st fl eff"] Cons.prems(1) by simp
qed simp

lemma feed_inv:
  assumes inv: "flow_inv rq fl es" and ans: "inp = PlaybackAnswer PLAYBACK_COMPLETE \<Longrightarrow> reported_complete rq es"
  shows "flow_inv rq (fst (feed now st inp fl)) es"
proof -
  let ?ru = "fst (run_step (fl_run fl) inp)" and ?effects = "snd (run_step (fl_run fl) inp)"
  from inv obtain ins where ins: "fl_run fl = run_after rq ins"
      "PlaybackAnswer PLAYBACK_COMPLETE \<in> set ins \<longrightarrow> reported_complete rq es"
    by (auto simp: flow_inv_def)
  have A: "registry_inv (reports_in es) (fl_registry (foldl (apply_effect now st) (fl\<lparr>fl_run := ?ru\<rparr>) ?effects)) \<and>
      waiter_ok rq (foldl (apply_effect now st) (fl\<lparr>fl_run := ?ru\<rparr>) ?effects) \<and>
      fl_run (foldl (apply_effect now st) (fl\<lparr>fl_run := ?ru\<rparr>) ?effects) = ?ru"
    using inv apply_effects_inv [of "fl\<lparr>fl_run := ?ru\<rparr>" rq es now st ?effects]
    by (simp add: flow_inv_def waiter_ok_def)
  have "fl_run (fst (feed now st inp fl)) = run_after rq (ins @ [inp])"
    using A ins(1) by (simp add: feed_def Let_def case_prod_beta run_simps)
  moreover have "PlaybackAnswer PLAYBACK_COMPLETE \<in> set (ins @ [inp]) \<longrightarrow> reported_complete rq es"
    using ins(2) ans by auto
  moreover have "ru_request ?ru = rq" using inv by (simp add: flow_inv_def)
  ultimately show ?thesis
    using A unfolding flow_inv_def by (auto simp: feed_def Let_def case_prod_beta)
qed

lemma flow_inv_subset: "flow_inv rq fl es \<Longrightarrow> set es \<subseteq> set fs \<Longrightarrow> flow_inv rq fl fs"
  unfolding flow_inv_def
  by (blast intro: registry_inv_mono reports_in_subset reported_complete_subset)

lemma waiter_result_reported:
  assumes inv: "flow_inv rq fl es" and f: "fl_waiter fl = Some f"
    and r: "w_result (futures (fl_registry fl) ! f) = Some result" "br_status result = PLAYBACK_COMPLETE"
  shows "reported_complete rq es"
proof -
  have w: "f < length (futures (fl_registry fl))" "request_key rq = Inr (w_key (futures (fl_registry fl) ! f))"
    using inv f by (auto simp: flow_inv_def waiter_ok_def)
  have k: "br_key result = w_key (futures (fl_registry fl) ! f) \<and> reports_in es result"
    using inv by (intro registry_invD(8) [OF _ w(1) r(1)]) (simp add: flow_inv_def)
  then obtain now st sid rid pid reason where
    "Registry (Report now st sid rid pid PLAYBACK_COMPLETE reason) \<in> set es"
    "create_key sid rid pid = Inr (w_key (futures (fl_registry fl) ! f))"
    using r(2) unfolding reports_in_def by metis
  with w(2) show ?thesis unfolding reported_complete_def by blast
qed

lemma flow_step_inv:
  assumes inv0: "flow_inv rq fl es" shows "flow_inv rq (fst (flow_step fl e)) (es @ [e])"
proof -
  have inv: "flow_inv rq fl (es @ [e])" by (rule flow_inv_subset [OF inv0]) auto
  show ?thesis
  proof (cases e)
    case (Feed now st inp)
    with inv feed_inv [OF inv, of inp] show ?thesis by (cases inp) simp_all
  next
    case (Registry be)
    have "reports_in (es @ [e]) r" if "has_origin [be] r" for r
    proof (cases "br_status r = PLAYBACK_COMPLETE")
      case True
      have "Registry be \<in> set (es @ [e])" using Registry by simp
      with True that show ?thesis unfolding reports_in_def has_origin_def
        by (metis set_ConsD empty_iff empty_set status_neq(1))
    qed (simp add: reports_in_def)
    then have "registry_inv (reports_in (es @ [e])) (fst (barrier_step (fl_registry fl) be)) \<and>
        fut_forward (fl_registry fl) (fst (barrier_step (fl_registry fl) be))"
      using inv by (intro barrier_step_inv) (simp_all add: flow_inv_def)
    with inv waiter_ok_forward Registry show ?thesis by (auto simp: flow_inv_def)
  next
    case (WaiterDone now st)
    show ?thesis
    proof (cases "fl_waiter fl")
      case None
      with inv WaiterDone show ?thesis by simp
    next
      case (Some f)
      show ?thesis
      proof (cases "w_result (futures (fl_registry fl) ! f)")
        case None
        with inv WaiterDone Some show ?thesis by simp
      next
        case r: (Some result)
        from feed_inv [OF inv, of "PlaybackAnswer (br_status result)" now st]
          waiter_result_reported [OF inv Some r] WaiterDone Some r show ?thesis by simp
      qed
    qed
  next
    case (WaiterTimeout now st)
    show ?thesis
    proof (cases "fl_waiter fl")
      case None
      with inv WaiterTimeout show ?thesis by simp
    next
      case (Some f)
      let ?reg = "fst (wait_timeout f (fl_registry fl))" and ?result = "snd (wait_timeout f (fl_registry fl))"
      have "registry_inv (reports_in (es @ [e])) ?reg \<and> fut_forward (fl_registry fl) ?reg"
        using inv by (intro wait_timeout_inv) (simp add: flow_inv_def)
      then have inv1: "flow_inv rq (fl\<lparr>fl_registry := ?reg\<rparr>) (es @ [e])"
        using inv waiter_ok_forward by (auto simp: flow_inv_def)
      have "reported_complete rq (es @ [e])" if "br_status ?result = PLAYBACK_COMPLETE"
      proof (cases "w_result (futures (fl_registry fl) ! f)")
        case None
        with that show ?thesis by (simp add: wait_timeout_def Let_def)
      next
        case r: (Some result)
        with that waiter_result_reported [OF inv Some r] show ?thesis by (simp add: wait_timeout_def Let_def)
      qed
      from feed_inv [OF inv1, of "PlaybackAnswer (br_status ?result)" now st] this WaiterTimeout Some show ?thesis
        by (simp add: Let_def case_prod_beta)
    qed
  qed
qed

interpretation flow_log: observed_system flow_step "flow_inv rq" "\<lambda>_. True" "\<lambda>es e r. es @ [e]" for rq
  by unfold_locales (rule flow_step_inv)

lemma flow_after_inv: "flow_inv req (run_state flow_step (new_flow req (empty_registry ttl max_n)) es) es"
proof -
  have start: "flow_inv req (new_flow req (empty_registry ttl max_n)) []"
    unfolding flow_inv_def
    by (auto simp: new_flow_def waiter_ok_def new_run_def registry_inv_empty intro: exI [of _ "[]"])
  have "\<forall>e \<in> set es. True" by simp
  from flow_log.inv_run_log [OF start this] show ?thesis by (simp add: foldl_snoc_events)
qed

subsection \<open>Property\<close>

text \<open>C1: With the coordinator, the barrier registry and the client's reports put together: the
  coordinator requests the terminal action only if the client has reported
  \<open>playback_complete\<close> for the session, round and playback id of the request; timeouts,
  interruptions, cancellations and reports for other playbacks never release it.\<close>

theorem terminal_action_needs_client_report:
  assumes "ExecuteCall sid True \<in> set (snd (flow_step
      (run_state flow_step (new_flow req (empty_registry ttl max_n)) es) e))"
  shows "reported_complete req (es @ [e])"
proof -
  let ?fl = "run_state flow_step (new_flow req (empty_registry ttl max_n)) es"
  have inv0: "flow_inv req ?fl es" by (rule flow_after_inv)
  have inv: "flow_inv req (fst (flow_step ?fl e)) (es @ [e])" by (rule flow_step_inv [OF inv0])
  have inv1: "flow_inv req ?fl (es @ [e])" by (rule flow_inv_subset [OF inv0]) auto
  from inv1 obtain ins where ins: "fl_run ?fl = run_after req ins"
      "PlaybackAnswer PLAYBACK_COMPLETE \<in> set ins \<longrightarrow> reported_complete req (es @ [e])"
    by (auto simp: flow_inv_def)
  have fed: "reported_complete req (es @ [e])"
    if "ExecuteCall sid True \<in> set (snd (run_step (fl_run ?fl) inp))"
      "inp = PlaybackAnswer PLAYBACK_COMPLETE \<Longrightarrow> reported_complete req (es @ [e])" for inp
  proof -
    have "PlaybackAnswer PLAYBACK_COMPLETE \<in> set (ins @ [inp])"
      by (rule terminal_call_played) (use that(1) ins(1) in simp)
    with ins(2) that(2) show ?thesis by auto
  qed
  show ?thesis
  proof (cases e)
    case (Feed now st inp)
    with assms fed [of inp] show ?thesis by (cases inp) (simp_all add: feed_def Let_def case_prod_beta)
  next
    case (WaiterDone now st)
    with assms obtain f result where f: "fl_waiter ?fl = Some f" "w_result (futures (fl_registry ?fl) ! f) = Some result"
        "ExecuteCall sid True \<in> set (snd (run_step (fl_run ?fl) (PlaybackAnswer (br_status result))))"
      by (auto simp: feed_def Let_def case_prod_beta split: option.splits)
    from fed [OF f(3)] waiter_result_reported [OF inv1 f(1,2)] show ?thesis by simp
  next
    case (WaiterTimeout now st)
    with assms obtain f where f: "fl_waiter ?fl = Some f"
        "ExecuteCall sid True \<in> set (snd (run_step (fl_run ?fl)
           (PlaybackAnswer (br_status (snd (wait_timeout f (fl_registry ?fl)))))))"
      by (auto simp: feed_def Let_def case_prod_beta split: option.splits)
    show ?thesis
    proof (rule fed [OF f(2)])
      assume "PlaybackAnswer (br_status (snd (wait_timeout f (fl_registry ?fl)))) = PlaybackAnswer PLAYBACK_COMPLETE"
      then show "reported_complete req (es @ [e])"
        using waiter_result_reported [OF inv1 f(1)]
        by (cases "w_result (futures (fl_registry ?fl) ! f)") (simp_all add: wait_timeout_def Let_def)
    qed
  qed (use assms in simp)
qed

definition sample_flow :: "flow_event list" where
  "sample_flow =
     map (Feed 0 LoopRunning) [sample_plan_answer, Chunk ''bye'' [], StreamEnd] @
     map Registry [Report 1 LoopRunning ''s'' ''1'' ''p'' PLAYBACK_COMPLETE None, Deliver]"

theorem terminal_action_needs_client_report_witness:
  "ExecuteCall ''step_2'' True \<in> set (snd (flow_step (run_state flow_step
      (new_flow sample_run_request (empty_registry 30 128)) sample_flow) (WaiterDone 2 LoopRunning))) \<and>
   reported_complete sample_run_request (sample_flow @ [WaiterDone 2 LoopRunning])"
proof -
  have "snd (flow_step (run_state flow_step (new_flow sample_run_request (empty_registry 30 128)) sample_flow)
      (WaiterDone 2 LoopRunning)) = [ExecuteCall ''step_2'' True]" by code_simp
  then have call: "ExecuteCall ''step_2'' True \<in> set (snd (flow_step (run_state flow_step
      (new_flow sample_run_request (empty_registry 30 128)) sample_flow) (WaiterDone 2 LoopRunning)))" by simp
  from terminal_action_needs_client_report [OF call] call show ?thesis by blast
qed

end
