(* ===== verification/Workflow_Runtime.thy ===== *)
theory Workflow_Runtime
  imports Workflow_Plan_Facts Transition
begin

text \<open>
  \<open>src/llm/workflow_runtime_service.py\<close>: the store of running workflows and the gRPC
  service that plans them and executes their steps.

  A \<open>WorkflowRuntime\<close> is a mutable Python object that the store and the requests in flight
  share, so the model keeps the objects in an append-only \<open>heap\<close>; the store's
  \<open>OrderedDict\<close> holds references into it, and so do the \<open>pending\<close> operations.  An
  operation that awaits a callback (\<open>ExecuteStep\<close>, \<open>StreamSynthesis\<close>) is several events:
  the first ends when the callback is awaited, the later ones are what the callback
  delivers.  A list of events is one interleaving of the requests; the lookup of a request
  and its first section under \<open>runtime.lock\<close> are one event (that section does not wait).
  A JSON text in a reply is represented by the value it encodes.
\<close>

subsection \<open>Data\<close>

datatype runtime_status =
  READY | RUNNING | WAITING_PLAYBACK | COMPLETED | EXITED | FAILED | CANCELLED

record step_outcome =
  oc_success :: bool
  oc_status :: string
  oc_result :: json
  oc_error_code :: string

record classification =
  cl_route_kind :: string
  cl_category :: string
  cl_source :: string

record step_result =
  rs_status :: string
  rs_result :: json

record runtime =
  rt_plan_id :: string
  rt_session_id :: string
  rt_bot_id :: string
  rt_robot_id :: string
  rt_trace_id :: string
  rt_round_id :: string
  rt_user_text :: string
  rt_plan :: wf_plan
  created_at :: seconds
  next_index :: nat
  status :: runtime_status
  cancelled :: bool
  cancel_reason :: string
  operation_in_progress :: bool
  expected_playback_id :: string
  results :: "(string, step_result) odict"

type_synonym ref = nat

datatype pending =
    PendingStep ref wf_step
  | PendingSynthesis ref wf_step bool    \<comment> \<open>whether a text was emitted\<close>

record service =
  max_entries :: nat
  ttl_sec :: seconds
  heap :: "runtime list"
  items :: "(string, ref) odict"
  pending :: "pending option list"

subsection \<open>The store\<close>

definition service_start :: "nat \<Rightarrow> seconds \<Rightarrow> service" where
  "service_start max_n ttl =
     \<lparr>max_entries = max_n, ttl_sec = ttl, heap = [], items = [], pending = []\<rparr>"

definition new_store :: "nat \<Rightarrow> seconds \<Rightarrow> py_exn + service" where
  "new_store max_n ttl =
     (if max_n < 1 \<or> ttl \<le> 0 then Inl ValueError
      else Inr (service_start max_n ttl))"

definition purge_store :: "seconds \<Rightarrow> service \<Rightarrow> service" where
  "purge_store now sv =
     sv\<lparr>items := filter (\<lambda>(_, r). \<not> created_at (heap sv ! r) < now - ttl_sec sv) (items sv)\<rparr>"

definition store_put :: "seconds \<Rightarrow> runtime \<Rightarrow> service \<Rightarrow> service" where
  "store_put now rt sv =
     (let sv1 = purge_store now sv;
          r = length (heap sv1);
          put = od_move_to_end (rt_plan_id rt) (AList.update (rt_plan_id rt) r (items sv1))
      in sv1\<lparr>heap := heap sv1 @ [rt], items := od_trim (max_entries sv1) put\<rparr>)"

definition store_get :: "seconds \<Rightarrow> string \<Rightarrow> service \<Rightarrow> service \<times> ref option" where
  "store_get now plan_id sv =
     (let sv1 = purge_store now sv
      in (sv1\<lparr>items := od_move_to_end plan_id (items sv1)\<rparr>, map_of (items sv1) plan_id))"

definition set_runtime :: "ref \<Rightarrow> runtime \<Rightarrow> service \<Rightarrow> service" where
  "set_runtime r rt sv = sv\<lparr>heap := (heap sv)[r := rt]\<rparr>"

definition cancel_runtime :: "string \<Rightarrow> runtime \<Rightarrow> runtime \<times> bool" where
  "cancel_runtime reason rt =
     (if status rt \<in> {COMPLETED, EXITED, FAILED, CANCELLED} then (rt, status rt = CANCELLED)
      else (rt\<lparr>cancelled := True, cancel_reason := reason, status := CANCELLED\<rparr>, True))"

definition store_cancel :: "seconds \<Rightarrow> string \<Rightarrow> string \<Rightarrow> string \<Rightarrow> service \<Rightarrow> service \<times> bool" where
  "store_cancel now plan_id session_id reason sv =
     (let (sv1, found) = store_get now plan_id sv
      in case found of
           None \<Rightarrow> (sv1, False)
         | Some r \<Rightarrow>
             if rt_session_id (heap sv1 ! r) \<noteq> session_id then (sv1, False)
             else let (rt, done) = cancel_runtime reason (heap sv1 ! r)
                  in (set_runtime r rt sv1, done))"

definition store_snapshot :: "seconds \<Rightarrow> service \<Rightarrow> service \<times> nat" where
  "store_snapshot now sv = (let sv1 = purge_store now sv in (sv1, length (items sv1)))"

subsection \<open>Requests and replies\<close>

record plan_request =
  pr_text :: string
  pr_session_id :: string
  pr_bot_id :: string
  pr_robot_id :: string
  pr_trace_id :: string
  pr_round_id :: string

record step_request =
  sr_plan_id :: string
  sr_session_id :: string
  sr_robot_id :: string
  sr_trace_id :: string
  sr_round_id :: string
  sr_step_id :: string
  sr_playback_completed :: bool
  sr_playback_id :: string

record synthesis_request =
  sy_plan_id :: string
  sy_session_id :: string
  sy_bot_id :: string
  sy_robot_id :: string
  sy_trace_id :: string
  sy_round_id :: string
  sy_playback_id :: string

record cancel_request =
  cr_plan_id :: string
  cr_session_id :: string
  cr_reason :: string

record step_response =
  resp_success :: bool
  resp_status :: string
  resp_result :: "json option"    \<comment> \<open>\<open>result_json\<close>: \<open>None\<close> for the empty text\<close>
  resp_error_code :: string
  resp_terminal :: bool
  resp_exit :: bool

record plan_response =
  pp_success :: bool
  pp_plan_id :: string
  pp_plan :: "json option"
  pp_attempts :: nat
  pp_error_code :: string

record classify_response =
  cc_success :: bool
  cc_complex :: bool
  cc_route_kind :: string
  cc_category :: string
  cc_source :: string
  cc_error_code :: string

datatype planning = Planned wf_plan nat | PlanningFailed nat string | PlannerCrashed

datatype callback = Returned step_outcome | CallbackRaised | CallbackCancelled

datatype stream_end = Exhausted | StreamRaised | StreamAborted

datatype reply =
    ClassifyReply classify_response
  | PlanReply plan_response
  | StepReply step_response
  | StepStarted ref nat wf_step    \<comment> \<open>\<open>_execute_step(runtime, step)\<close> is called, at this \<open>next_index\<close>\<close>
  | SynthesisStarted ref nat wf_step    \<comment> \<open>\<open>_synthesize(runtime, step)\<close> is called\<close>
  | TextChunk string
  | FinalChunk string
  | SkippedText
  | CancelReply bool bool    \<comment> \<open>success, cancelled\<close>
  | SnapshotReply nat
  | Reraised
  | NoSuchOperation

subsection \<open>Guards\<close>

definition validate_plan_request :: "plan_request \<Rightarrow> string option" where
  \<comment> \<open>the first field that is blank\<close>
  "validate_plan_request req =
     map_option fst (find (\<lambda>(_, v). py_strip v = [])
       [(''text'', pr_text req), (''session_id'', pr_session_id req), (''bot_id'', pr_bot_id req),
        (''robot_id'', pr_robot_id req), (''trace_id'', pr_trace_id req),
        (''round_id'', pr_round_id req)])"

definition step_error :: "string \<Rightarrow> step_response" where
  "step_error code =
     \<lparr>resp_success = False, resp_status = ''failed'', resp_result = None,
      resp_error_code = code, resp_terminal = False, resp_exit = False\<rparr>"

definition check_runtime_before_operation :: "runtime \<Rightarrow> string \<Rightarrow> string option" where
  "check_runtime_before_operation rt round_id =
     (if rt_round_id rt \<noteq> py_strip round_id then Some ''workflow_round_mismatch''
      else if cancelled rt \<or> status rt = CANCELLED then Some ''workflow_cancelled''
      else if operation_in_progress rt then Some ''workflow_busy''
      else if status rt \<in> {COMPLETED, EXITED, FAILED} then Some ''workflow_finished''
      else None)"

definition check_runtime_before_synthesis :: "runtime \<Rightarrow> string \<Rightarrow> string option" where
  "check_runtime_before_synthesis rt round_id = check_runtime_before_operation rt round_id"

definition next_step :: "runtime \<Rightarrow> wf_step option" where
  "next_step rt =
     (if next_index rt \<ge> length (steps (rt_plan rt)) then None
      else Some (steps (rt_plan rt) ! next_index rt))"

definition condition_result :: "runtime \<Rightarrow> wf_step \<Rightarrow> bool option" where
  "condition_result rt step =
     (case condition step of
        None \<Rightarrow> Some True
      | Some c \<Rightarrow>
          (case map_of (results rt) (source_step_id c) of
             None \<Rightarrow> None
           | Some source \<Rightarrow>
               if rs_status source \<noteq> ''success'' then None
               else
                 let val = (case rs_result source of
                              JObj d \<Rightarrow> jget d (cond_output_key c)
                            | v \<Rightarrow> v);
                     equals = py_eq val (cond_value c)
                 in Some (if cond_operator c = ''equals'' then equals else \<not> equals)))"

definition resolve_runtime ::
  "seconds \<Rightarrow> string \<Rightarrow> string \<Rightarrow> string \<Rightarrow> string \<Rightarrow> string option \<Rightarrow> service \<Rightarrow> service \<times> (string + ref)"
where
  "resolve_runtime now plan_id session_id robot_id trace_id bot_id sv =
     (let safe_plan_id = py_strip plan_id;
          (sv1, found) = (if safe_plan_id \<noteq> [] then store_get now safe_plan_id sv else (sv, None))
      in (sv1,
          case found of
            None \<Rightarrow> Inl ''workflow_not_found''
          | Some r \<Rightarrow>
              let rt = heap sv1 ! r in
              if rt_session_id rt \<noteq> py_strip session_id then Inl ''workflow_session_mismatch''
              else if rt_robot_id rt \<noteq> py_strip robot_id then Inl ''workflow_robot_mismatch''
              else if rt_trace_id rt \<noteq> py_strip trace_id then Inl ''workflow_trace_mismatch''
              else if (case bot_id of None \<Rightarrow> False | Some b \<Rightarrow> rt_bot_id rt \<noteq> py_strip b)
                then Inl ''workflow_bot_mismatch''
              else Inr r))"

subsection \<open>Classification and planning\<close>

definition classify_error :: "string \<Rightarrow> classify_response" where
  "classify_error code =
     \<lparr>cc_success = False, cc_complex = False, cc_route_kind = [], cc_category = [],
      cc_source = [], cc_error_code = code\<rparr>"

definition classify_complex :: "plan_request \<Rightarrow> classification option \<Rightarrow> classify_response" where
  \<comment> \<open>the second argument is what \<open>_classify\<close> returns, \<open>None\<close> when it raises\<close>
  "classify_complex req answer =
     (if validate_plan_request req \<noteq> None then classify_error ''invalid_request''
      else case answer of
          None \<Rightarrow> classify_error ''classifier_internal_error''
        | Some c \<Rightarrow>
            \<lparr>cc_success = True,
             cc_complex = (cl_route_kind c = ''tool'' \<and> cl_category c = ''complex''),
             cc_route_kind = cl_route_kind c, cc_category = cl_category c,
             cc_source = cl_source c, cc_error_code = []\<rparr>)"

definition plan_failure :: "nat \<Rightarrow> string \<Rightarrow> plan_response" where
  "plan_failure attempts code =
     \<lparr>pp_success = False, pp_plan_id = [], pp_plan = None, pp_attempts = attempts,
      pp_error_code = code\<rparr>"

definition new_runtime :: "seconds \<Rightarrow> string \<Rightarrow> plan_request \<Rightarrow> wf_plan \<Rightarrow> runtime" where
  "new_runtime now plan_id req plan =
     \<lparr>rt_plan_id = plan_id, rt_session_id = py_strip (pr_session_id req),
      rt_bot_id = py_strip (pr_bot_id req), rt_robot_id = py_strip (pr_robot_id req),
      rt_trace_id = py_strip (pr_trace_id req), rt_round_id = py_strip (pr_round_id req),
      rt_user_text = py_strip (pr_text req), rt_plan = plan, created_at = now,
      next_index = 0, status = READY, cancelled = False, cancel_reason = [],
      operation_in_progress = False, expected_playback_id = [], results = []\<rparr>"

definition plan_complex ::
  "seconds \<Rightarrow> string \<Rightarrow> plan_request \<Rightarrow> planning \<Rightarrow> service \<Rightarrow> service \<times> plan_response" where
  \<comment> \<open>\<open>uuid_hex\<close> is the fresh \<open>uuid.uuid4().hex\<close>, \<open>planning\<close> what the planner did\<close>
  "plan_complex now uuid_hex req planning sv =
     (if validate_plan_request req \<noteq> None then (sv, plan_failure 0 ''invalid_request'')
      else case planning of
          PlanningFailed attempts code \<Rightarrow> (sv, plan_failure attempts code)
        | PlannerCrashed \<Rightarrow> (sv, plan_failure 0 ''planner_internal_error'')
        | Planned plan attempts \<Rightarrow>
            let plan_id = ''wf_'' @ uuid_hex
            in (store_put now (new_runtime now plan_id req plan) sv,
                \<lparr>pp_success = True, pp_plan_id = plan_id,
                 pp_plan = Some (workflow_plan_to_dict plan), pp_attempts = attempts,
                 pp_error_code = []\<rparr>))"

subsection \<open>ExecuteStep\<close>

text \<open>The section of \<open>ExecuteStep\<close> under the lock before the callback: a final answer,
  or the step to execute.\<close>

definition execute_begin :: "step_request \<Rightarrow> runtime \<Rightarrow> runtime \<times> (step_response + wf_step)" where
  "execute_begin req rt =
     (case check_runtime_before_operation rt (sr_round_id req) of
        Some code \<Rightarrow> (rt, Inl (step_error code))
      | None \<Rightarrow>
          (case next_step rt of
             None \<Rightarrow> (rt, Inl (step_error ''workflow_finished''))
           | Some step \<Rightarrow>
               if st_id step \<noteq> sr_step_id req then (rt, Inl (step_error ''out_of_order_step''))
               else if st_type step = ''respond'' then (rt, Inl (step_error ''synthesis_required''))
               else if terminal step \<and> status rt = WAITING_PLAYBACK \<and> \<not> sr_playback_completed req
                 then (rt, Inl (step_error ''playback_not_completed''))
               else if terminal step \<and> status rt = WAITING_PLAYBACK \<and>
                   (expected_playback_id rt = [] \<or> sr_playback_id req \<noteq> expected_playback_id rt)
                 then (rt, Inl (step_error ''playback_id_mismatch''))
               else if condition_result rt step = Some False then
                 (rt\<lparr>results := AList.update (st_id step)
                       \<lparr>rs_status = ''skipped'', rs_result = JNull\<rparr> (results rt),
                     next_index := next_index rt + 1\<rparr>,
                  Inl \<lparr>resp_success = True, resp_status = ''skipped'', resp_result = Some JNull,
                       resp_error_code = [], resp_terminal = terminal step, resp_exit = False\<rparr>)
               else if condition_result rt step = None \<and> condition step \<noteq> None
                 then (rt, Inl (step_error ''condition_unavailable''))
               else (rt\<lparr>operation_in_progress := True, status := RUNNING\<rparr>, Inr step)))"

definition step_internal_error :: step_outcome where
  "step_internal_error =
     \<lparr>oc_success = False, oc_status = ''failed'', oc_result = JNull,
      oc_error_code = ''step_internal_error''\<rparr>"

text \<open>The section after the callback.\<close>

definition execute_finish :: "wf_step \<Rightarrow> step_outcome \<Rightarrow> runtime \<Rightarrow> runtime \<times> step_response" where
  "execute_finish step outcome rt =
     (let rt1 = rt\<lparr>operation_in_progress := False\<rparr> in
      if cancelled rt1 then (rt1, step_error ''workflow_cancelled'')
      else
        let stored_status = (if oc_status outcome \<noteq> [] then oc_status outcome
                             else if oc_success outcome then ''success'' else ''failed'');
            rt2 = rt1\<lparr>results := AList.update (st_id step)
                      \<lparr>rs_status = stored_status, rs_result = oc_result outcome\<rparr> (results rt1)\<rparr>;
            rt3 = (if oc_success outcome then
                     rt2\<lparr>next_index := next_index rt2 + 1,
                         status := (if terminal step then EXITED else READY)\<rparr>
                   else if failure_policy step = ''abort'' then rt2\<lparr>status := FAILED\<rparr>
                   else rt2\<lparr>next_index := next_index rt2 + 1, status := READY\<rparr>)
        in (rt3,
            \<lparr>resp_success = oc_success outcome, resp_status = stored_status,
             resp_result = Some (oc_result outcome), resp_error_code = oc_error_code outcome,
             resp_terminal = terminal step,
             resp_exit = (oc_success outcome \<and> terminal step)\<rparr>))"

definition mark_runtime_cancelled :: "string \<Rightarrow> runtime \<Rightarrow> runtime" where
  "mark_runtime_cancelled reason rt =
     rt\<lparr>operation_in_progress := False, cancelled := True, cancel_reason := reason,
        status := CANCELLED\<rparr>"

subsection \<open>StreamSynthesis\<close>

definition synthesis_begin :: "synthesis_request \<Rightarrow> runtime \<Rightarrow> runtime \<times> (string + wf_step)" where
  "synthesis_begin req rt =
     (case check_runtime_before_synthesis rt (sy_round_id req) of
        Some code \<Rightarrow> (rt, Inl code)
      | None \<Rightarrow>
          (case next_step rt of
             None \<Rightarrow> (rt, Inl ''synthesis_not_expected'')
           | Some step \<Rightarrow>
               if st_type step \<noteq> ''respond'' then (rt, Inl ''synthesis_not_expected'')
               else if requires_playback_barrier (rt_plan rt) \<and> py_strip (sy_playback_id req) = []
                 then (rt, Inl ''playback_id_required'')
               else (rt\<lparr>operation_in_progress := True, status := RUNNING,
                        expected_playback_id := py_strip (sy_playback_id req)\<rparr>, Inr step)))"

text \<open>The \<open>finally\<close> section; \<open>failed\<close> is \<open>failed_code\<close> when it is entered.\<close>

definition synthesis_finish ::
  "wf_step \<Rightarrow> bool \<Rightarrow> bool \<Rightarrow> string \<Rightarrow> runtime \<Rightarrow> runtime \<times> string" where
  "synthesis_finish step emitted stream_aborted failed rt =
     (let rt1 = rt\<lparr>operation_in_progress := False\<rparr> in
      if stream_aborted then
        (rt1\<lparr>cancelled := True, cancel_reason := ''synthesis_stream_closed'',
             status := CANCELLED\<rparr>, failed)
      else if cancelled rt1 then (rt1\<lparr>status := CANCELLED\<rparr>, ''workflow_cancelled'')
      else if failed \<noteq> [] \<or> \<not> emitted then
        (rt1\<lparr>status := FAILED\<rparr>, if failed \<noteq> [] then failed else ''empty_synthesis'')
      else
        (rt1\<lparr>results := AList.update (st_id step)
               \<lparr>rs_status = ''success'', rs_result = JNull\<rparr> (results rt1),
             next_index := next_index rt1 + 1,
             status := (if terminal_step_id (rt_plan rt1) \<noteq> None then WAITING_PLAYBACK
                        else COMPLETED)\<rparr>, failed))"

subsection \<open>The service\<close>

datatype event =
    Classify plan_request "classification option"
  | Plan seconds string plan_request planning
  | Execute seconds step_request
  | StepDone nat callback
  | Synthesize seconds synthesis_request
  | TextItem nat "string option"    \<comment> \<open>an item of the stream, \<open>None\<close> when it is not a \<open>str\<close>\<close>
  | StreamDone nat stream_end
  | Cancel seconds cancel_request
  | Snapshot seconds

definition start_pending :: "pending \<Rightarrow> service \<Rightarrow> service" where
  "start_pending p sv = sv\<lparr>pending := pending sv @ [Some p]\<rparr>"

definition pending_op :: "nat \<Rightarrow> service \<Rightarrow> pending option" where
  "pending_op n sv = (if n < length (pending sv) then pending sv ! n else None)"

definition set_pending :: "nat \<Rightarrow> pending option \<Rightarrow> service \<Rightarrow> service" where
  "set_pending n p sv = sv\<lparr>pending := (pending sv)[n := p]\<rparr>"

definition execute_step :: "seconds \<Rightarrow> step_request \<Rightarrow> service \<Rightarrow> service \<times> reply" where
  "execute_step now req sv =
     (let (sv1, found) = resolve_runtime now (sr_plan_id req) (sr_session_id req)
            (sr_robot_id req) (sr_trace_id req) None sv
      in case found of
           Inl code \<Rightarrow> (sv1, StepReply (step_error code))
         | Inr r \<Rightarrow>
             let rt = heap sv1 ! r; (rt1, outcome) = execute_begin req rt
             in case outcome of
                  Inl resp \<Rightarrow> (set_runtime r rt1 sv1, StepReply resp)
                | Inr step \<Rightarrow> (start_pending (PendingStep r step) (set_runtime r rt1 sv1),
                    StepStarted r (next_index rt1) step))"

definition step_done :: "nat \<Rightarrow> callback \<Rightarrow> service \<Rightarrow> service \<times> reply" where
  "step_done n cb sv =
     (case pending_op n sv of
        Some (PendingStep r step) \<Rightarrow>
          let sv1 = set_pending n None sv; rt = heap sv ! r in
          (case cb of
             CallbackCancelled \<Rightarrow>
               (set_runtime r (mark_runtime_cancelled ''step_execution_cancelled'' rt) sv1, Reraised)
           | CallbackRaised \<Rightarrow>
               let (rt1, resp) = execute_finish step step_internal_error rt
               in (set_runtime r rt1 sv1, StepReply resp)
           | Returned outcome \<Rightarrow>
               let (rt1, resp) = execute_finish step outcome rt
               in (set_runtime r rt1 sv1, StepReply resp))
      | _ \<Rightarrow> (sv, NoSuchOperation))"

definition stream_synthesis :: "seconds \<Rightarrow> synthesis_request \<Rightarrow> service \<Rightarrow> service \<times> reply" where
  "stream_synthesis now req sv =
     (let (sv1, found) = resolve_runtime now (sy_plan_id req) (sy_session_id req)
            (sy_robot_id req) (sy_trace_id req) (Some (sy_bot_id req)) sv
      in case found of
           Inl code \<Rightarrow> (sv1, FinalChunk code)
         | Inr r \<Rightarrow>
             let rt = heap sv1 ! r; (rt1, outcome) = synthesis_begin req rt
             in case outcome of
                  Inl code \<Rightarrow> (set_runtime r rt1 sv1, FinalChunk code)
                | Inr step \<Rightarrow> (start_pending (PendingSynthesis r step False) (set_runtime r rt1 sv1),
                    SynthesisStarted r (next_index rt1) step))"

definition end_stream :: "nat \<Rightarrow> ref \<Rightarrow> wf_step \<Rightarrow> bool \<Rightarrow> bool \<Rightarrow> string \<Rightarrow> service \<Rightarrow> service \<times> reply" where
  "end_stream n r step emitted aborted failed sv =
     (let (rt1, code) = synthesis_finish step emitted aborted failed (heap sv ! r)
      in (set_runtime r rt1 (set_pending n None sv), if aborted then Reraised else FinalChunk code))"

definition text_item :: "nat \<Rightarrow> string option \<Rightarrow> service \<Rightarrow> service \<times> reply" where
  "text_item n text sv =
     (case pending_op n sv of
        Some (PendingSynthesis r step emitted) \<Rightarrow>
          if cancelled (heap sv ! r) then end_stream n r step emitted False ''workflow_cancelled'' sv
          else (case text of
              None \<Rightarrow> (sv, SkippedText)
            | Some t \<Rightarrow>
                if t = [] then (sv, SkippedText)
                else (set_pending n (Some (PendingSynthesis r step True)) sv, TextChunk t))
      | _ \<Rightarrow> (sv, NoSuchOperation))"

definition stream_done :: "nat \<Rightarrow> stream_end \<Rightarrow> service \<Rightarrow> service \<times> reply" where
  "stream_done n how sv =
     (case pending_op n sv of
        Some (PendingSynthesis r step emitted) \<Rightarrow>
          end_stream n r step emitted (how = StreamAborted)
            (if how = StreamRaised then ''synthesis_internal_error'' else []) sv
      | _ \<Rightarrow> (sv, NoSuchOperation))"

definition cancel_workflow :: "seconds \<Rightarrow> cancel_request \<Rightarrow> service \<Rightarrow> service \<times> reply" where
  "cancel_workflow now req sv =
     (if py_strip (cr_plan_id req) = [] \<or> py_strip (cr_session_id req) = []
      then (sv, CancelReply False False)
      else
        let reason = (if py_strip (cr_reason req) \<noteq> [] then py_strip (cr_reason req) else ''cancelled'');
            (sv1, done) = store_cancel now (py_strip (cr_plan_id req)) (py_strip (cr_session_id req)) reason sv
        in (sv1, CancelReply True done))"

fun service_step :: "service \<Rightarrow> event \<Rightarrow> service \<times> reply" where
  "service_step sv (Classify req answer) = (sv, ClassifyReply (classify_complex req answer))"
| "service_step sv (Plan now hex req planning) =
     (let (sv1, resp) = plan_complex now hex req planning sv in (sv1, PlanReply resp))"
| "service_step sv (Execute now req) = execute_step now req sv"
| "service_step sv (StepDone n cb) = step_done n cb sv"
| "service_step sv (Synthesize now req) = stream_synthesis now req sv"
| "service_step sv (TextItem n text) = text_item n text sv"
| "service_step sv (StreamDone n how) = stream_done n how sv"
| "service_step sv (Cancel now req) = cancel_workflow now req sv"
| "service_step sv (Snapshot now) =
     (let (sv1, n) = store_snapshot now sv in (sv1, SnapshotReply n))"

end
