(* ===== verification/Workflow_Runtime_Facts.thy ===== *)
theory Workflow_Runtime_Facts
  imports Workflow_Runtime
begin

text \<open>
  What the workflow runtime promises, for every interleaving of requests, callbacks and
  cancellations (lists of events).  \<open>rt_inv\<close> is the invariant of one runtime, \<open>rt_forward\<close>
  the order along which it moves, \<open>gate\<close> what an accepted plan adds about the playback
  barrier; \<open>svc_inv\<close> lifts them to the heap, the store and the pending operations.
\<close>

subsection \<open>One runtime\<close>

definition final :: "runtime_status \<Rightarrow> bool" where
  "final st \<longleftrightarrow> st \<in> {COMPLETED, EXITED, FAILED, CANCELLED}"

lemma final_simps [simp]:
  "final COMPLETED" "final EXITED" "final FAILED" "final CANCELLED"
  "\<not> final READY" "\<not> final RUNNING" "\<not> final WAITING_PLAYBACK"
  by (simp_all add: final_def)

definition plan_steps :: "runtime \<Rightarrow> wf_step list" where
  "plan_steps rt = steps (rt_plan rt)"

definition rt_inv :: "runtime \<Rightarrow> bool" where
  "rt_inv rt \<longleftrightarrow>
     next_index rt \<le> length (plan_steps rt) \<and>
     (cancelled rt \<longleftrightarrow> status rt = CANCELLED) \<and>
     (status rt = RUNNING \<longrightarrow> operation_in_progress rt) \<and>
     (operation_in_progress rt \<longrightarrow>
        status rt \<in> {RUNNING, CANCELLED} \<and> next_index rt < length (plan_steps rt)) \<and>
     st_id ` set (take (next_index rt) (plan_steps rt)) \<subseteq> set (keys (results rt))"

definition passed :: "runtime \<Rightarrow> nat \<Rightarrow> bool" where
  \<comment> \<open>step \<open>i\<close> is behind the runtime: passed, or begun and not to be begun again\<close>
  "passed rt i \<longleftrightarrow> i < next_index rt \<or>
     (i = next_index rt \<and> (operation_in_progress rt \<or> status rt \<in> {FAILED, CANCELLED}))"

definition rt_forward :: "runtime \<Rightarrow> runtime \<Rightarrow> bool" where
  "rt_forward a b \<longleftrightarrow>
     rt_plan_id b = rt_plan_id a \<and> rt_session_id b = rt_session_id a \<and> rt_bot_id b = rt_bot_id a \<and>
     rt_robot_id b = rt_robot_id a \<and> rt_trace_id b = rt_trace_id a \<and> rt_round_id b = rt_round_id a \<and>
     rt_plan b = rt_plan a \<and> created_at b = created_at a \<and>
     next_index a \<le> next_index b \<and> set (keys (results a)) \<subseteq> set (keys (results b)) \<and>
     (final (status a) \<longrightarrow> status b = status a) \<and> (\<forall>i. passed a i \<longrightarrow> passed b i)"

lemma rt_forward_refl [simp]: "rt_forward a a"
  by (simp add: rt_forward_def)

lemma rt_forward_trans: "rt_forward a b \<Longrightarrow> rt_forward b c \<Longrightarrow> rt_forward a c"
  unfolding rt_forward_def by (auto intro: order_trans)

definition plan_ok :: "wf_plan \<Rightarrow> bool" where
  "plan_ok p \<longleftrightarrow> order_shape (steps p) (terminal_step_id p) \<and>
     requires_playback_barrier p = (terminal_step_id p \<noteq> None) \<and>
     (\<forall>i < length (steps p). condition_ready (take i (steps p)) (steps p ! i))"

definition gate :: "runtime \<Rightarrow> bool" where
  \<comment> \<open>the runtime is not \<open>READY\<close> in front of its terminal step, and a playback id is expected\<close>
  "gate rt \<longleftrightarrow>
     (next_index rt < length (plan_steps rt) \<and> terminal (plan_steps rt ! next_index rt) \<longrightarrow>
        status rt \<noteq> READY \<and> expected_playback_id rt \<noteq> []) \<and>
     (operation_in_progress rt \<and> next_index rt < length (plan_steps rt) \<and>
        st_type (plan_steps rt ! next_index rt) = ''respond'' \<and>
        requires_playback_barrier (rt_plan rt) \<longrightarrow> expected_playback_id rt \<noteq> [])"

definition available :: "runtime \<Rightarrow> wf_step \<Rightarrow> bool" where
  "available rt step \<longleftrightarrow> next_index rt < length (plan_steps rt) \<and>
     step = plan_steps rt ! next_index rt \<and> \<not> cancelled rt \<and>
     \<not> operation_in_progress rt \<and> \<not> final (status rt)"

definition begun :: "runtime \<Rightarrow> runtime" where
  "begun rt = rt\<lparr>operation_in_progress := True, status := RUNNING\<rparr>"

definition skipped :: "wf_step \<Rightarrow> runtime \<Rightarrow> runtime" where
  "skipped step rt =
     rt\<lparr>results := AList.update (st_id step) \<lparr>rs_status = ''skipped'', rs_result = JNull\<rparr> (results rt),
        next_index := next_index rt + 1\<rparr>"

lemma check_runtime_None:
  "check_runtime_before_operation rt round_id = None \<longleftrightarrow>
    rt_round_id rt = py_strip round_id \<and> \<not> cancelled rt \<and> \<not> operation_in_progress rt \<and>
    \<not> final (status rt)"
  by (auto simp: check_runtime_before_operation_def final_def)

lemma next_step_Some:
  "next_step rt = Some step \<longleftrightarrow>
    next_index rt < length (plan_steps rt) \<and> step = plan_steps rt ! next_index rt"
  by (auto simp: next_step_def plan_steps_def)

definition playback_ok :: "step_request \<Rightarrow> runtime \<Rightarrow> wf_step \<Rightarrow> bool" where
  "playback_ok req rt step \<longleftrightarrow>
     (terminal step \<and> status rt = WAITING_PLAYBACK \<longrightarrow>
       sr_playback_completed req \<and> expected_playback_id rt \<noteq> [] \<and>
       sr_playback_id req = expected_playback_id rt)"

lemma execute_beginE:
  assumes "execute_begin req rt = (rt1, out)"
  obtains (Refused) code where "rt1 = rt" "out = Inl (step_error code)"
  | (Skipped) step resp where "available rt step" "st_id step = sr_step_id req"
      "st_type step \<noteq> ''respond''" "playback_ok req rt step" "condition_result rt step = Some False"
      "rt1 = skipped step rt" "out = Inl resp" "resp_status resp = ''skipped''"
  | (Started) step where "available rt step" "st_id step = sr_step_id req"
      "st_type step \<noteq> ''respond''" "playback_ok req rt step" "condition_result rt step = Some True"
      "rt1 = begun rt" "out = Inr step"
proof (cases "check_runtime_before_operation rt (sr_round_id req)")
  case (Some code)
  with assms show thesis by (auto simp: execute_begin_def intro: Refused)
next
  case check: None
  show thesis
  proof (cases "next_step rt")
    case None
    with check assms show thesis by (auto simp: execute_begin_def intro: Refused)
  next
    case (Some step)
    from check Some have avail: "available rt step"
      by (auto simp: check_runtime_None next_step_Some available_def)
    note ex = assms [unfolded execute_begin_def check Some option.case]
    consider "condition_result rt step = Some False" | "condition_result rt step = Some True"
      | "condition_result rt step = None" by (cases "condition_result rt step") auto
    then show thesis
    proof cases
      case 1
      with ex avail show thesis
        by (auto simp: playback_ok_def skipped_def split: if_splits intro: Refused Skipped)
    next
      case 2
      with ex avail show thesis
        by (auto simp: playback_ok_def begun_def split: if_splits intro: Refused Started)
    next
      case 3
      then have "condition step \<noteq> None" by (cases "condition step") (auto simp: condition_result_def)
      with ex 3 show thesis by (auto split: if_splits intro: Refused)
    qed
  qed
qed

lemma synthesis_beginE:
  assumes "synthesis_begin req rt = (rt1, out)"
  obtains (Refused) code where "rt1 = rt" "out = Inl code"
  | (Started) step where "available rt step" "st_type step = ''respond''"
      "requires_playback_barrier (rt_plan rt) \<Longrightarrow> py_strip (sy_playback_id req) \<noteq> []"
      "rt1 = (begun rt)\<lparr>expected_playback_id := py_strip (sy_playback_id req)\<rparr>" "out = Inr step"
proof (cases "check_runtime_before_operation rt (sy_round_id req)")
  case (Some code)
  with assms show thesis
    by (auto simp: synthesis_begin_def check_runtime_before_synthesis_def intro: Refused)
next
  case check: None
  show thesis
  proof (cases "next_step rt")
    case None
    with check assms show thesis
      by (auto simp: synthesis_begin_def check_runtime_before_synthesis_def intro: Refused)
  next
    case (Some step)
    from check Some have avail: "available rt step"
      by (auto simp: check_runtime_None next_step_Some available_def)
    from assms check Some avail show thesis
      by (auto simp: synthesis_begin_def check_runtime_before_synthesis_def begun_def
          split: if_splits intro: Refused Started)
  qed
qed

text \<open>The moves of a runtime keep the invariant and go forward.\<close>

definition moves :: "runtime \<Rightarrow> runtime \<Rightarrow> bool" where
  "moves a b \<longleftrightarrow> rt_inv a \<longrightarrow> rt_inv b \<and> rt_forward a b"

lemma movesD: "moves a b \<Longrightarrow> rt_inv a \<Longrightarrow> rt_inv b \<and> rt_forward a b"
  by (simp add: moves_def)

lemma moves_refl [simp]: "moves a a"
  by (simp add: moves_def)

lemma take_Suc_ids:
  "i < length ss \<Longrightarrow> st_id ` set (take (Suc i) ss) = insert (st_id (ss ! i)) (st_id ` set (take i ss))"
  by (simp add: take_Suc_conv_app_nth)

lemma moves_begun: "available rt step \<Longrightarrow> moves rt (begun rt)"
  by (auto simp: moves_def available_def begun_def rt_inv_def rt_forward_def passed_def plan_steps_def)

lemma moves_begun_synthesis:
  "available rt step \<Longrightarrow> moves rt ((begun rt)\<lparr>expected_playback_id := p\<rparr>)"
  by (auto simp: moves_def available_def begun_def rt_inv_def rt_forward_def passed_def plan_steps_def)

lemma moves_skipped:
  assumes "available rt step" shows "moves rt (skipped step rt)"
proof -
  have "rt_inv (skipped step rt)" if "rt_inv rt"
    using that assms by (auto simp: rt_inv_def available_def skipped_def plan_steps_def keys_update take_Suc_ids)
  moreover have "rt_forward rt (skipped step rt)" if "rt_inv rt"
    using that assms by (auto simp: rt_forward_def available_def skipped_def keys_update passed_def rt_inv_def)
  ultimately show ?thesis by (simp add: moves_def)
qed

lemma moves_cancel_runtime: "moves rt (fst (cancel_runtime reason rt))"
  by (auto simp: moves_def cancel_runtime_def rt_inv_def rt_forward_def passed_def plan_steps_def final_def)

lemma moves_mark_cancelled:
  "operation_in_progress rt \<Longrightarrow> moves rt (mark_runtime_cancelled reason rt)"
  by (auto simp: moves_def mark_runtime_cancelled_def rt_inv_def rt_forward_def passed_def plan_steps_def)

definition current :: "runtime \<Rightarrow> wf_step \<Rightarrow> bool" where
  \<comment> \<open>the runtime is busy with this step\<close>
  "current rt step \<longleftrightarrow> operation_in_progress rt \<and> next_index rt < length (plan_steps rt) \<and>
     step = plan_steps rt ! next_index rt"

lemma execute_finishE:
  obtains (Cancelled) "cancelled rt"
      "execute_finish step oc rt = (rt\<lparr>operation_in_progress := False\<rparr>, step_error ''workflow_cancelled'')"
  | (Advanced) st rs resp where "\<not> cancelled rt"
      "execute_finish step oc rt =
        (rt\<lparr>operation_in_progress := False, results := AList.update (st_id step) rs (results rt),
            next_index := next_index rt + 1, status := st\<rparr>, resp)"
      "st = (if oc_success oc \<and> terminal step then EXITED else READY)"
      "oc_success oc \<or> failure_policy step \<noteq> ''abort''"
  | (Aborted) rs resp where "\<not> cancelled rt" "\<not> oc_success oc" "failure_policy step = ''abort''"
      "execute_finish step oc rt =
        (rt\<lparr>operation_in_progress := False, results := AList.update (st_id step) rs (results rt),
            status := FAILED\<rparr>, resp)"
proof (cases "cancelled rt")
  case True
  then show thesis by (intro Cancelled) (simp_all add: execute_finish_def)
next
  case False
  define stored where "stored = (if oc_status oc \<noteq> [] then oc_status oc
      else if oc_success oc then ''success'' else ''failed'')"
  define rs where "rs = \<lparr>rs_status = stored, rs_result = oc_result oc\<rparr>"
  define resp where "resp = \<lparr>resp_success = oc_success oc, resp_status = stored,
      resp_result = Some (oc_result oc), resp_error_code = oc_error_code oc,
      resp_terminal = terminal step, resp_exit = (oc_success oc \<and> terminal step)\<rparr>"
  note defs = execute_finish_def Let_def rs_def resp_def stored_def [symmetric]
  consider "oc_success oc" | "\<not> oc_success oc" "failure_policy step = ''abort''"
    | "\<not> oc_success oc" "failure_policy step \<noteq> ''abort''" by blast
  then show thesis
  proof cases
    case 1
    with False show thesis by (intro Advanced [OF _ _ refl, of rs resp]) (simp_all add: defs)
  next
    case 2
    with False show thesis by (intro Aborted [of rs resp]) (simp_all add: defs)
  next
    case 3
    with False show thesis by (intro Advanced [OF _ _ refl, of rs resp]) (simp_all add: defs)
  qed
qed

lemma moves_execute_finish:
  assumes "current rt step" shows "moves rt (fst (execute_finish step oc rt))"
proof (cases rule: execute_finishE [of rt step oc])
  case Cancelled
  then show ?thesis using assms
    by (auto simp: moves_def rt_inv_def rt_forward_def passed_def plan_steps_def)
next
  case (Advanced st rs resp)
  have "rt_inv (fst (execute_finish step oc rt))" if "rt_inv rt"
    using that assms Advanced
    by (auto simp: rt_inv_def current_def plan_steps_def keys_update take_Suc_ids)
  moreover have "rt_forward rt (fst (execute_finish step oc rt))" if "rt_inv rt"
    using that assms Advanced
    by (auto simp: rt_forward_def keys_update passed_def rt_inv_def current_def)
  ultimately show ?thesis by (simp add: moves_def)
next
  case (Aborted rs resp)
  then show ?thesis using assms
    by (auto simp: moves_def rt_inv_def rt_forward_def passed_def plan_steps_def keys_update current_def)
qed

lemma synthesis_finishE:
  obtains (Cancelled) reason where "fst (synthesis_finish step emitted aborted failed rt) =
        rt\<lparr>operation_in_progress := False, cancelled := True, cancel_reason := reason, status := CANCELLED\<rparr>"
      "aborted \<or> cancelled rt"
  | (Failed) "fst (synthesis_finish step emitted aborted failed rt) =
        rt\<lparr>operation_in_progress := False, status := FAILED\<rparr>" "\<not> cancelled rt" "\<not> aborted"
      "failed \<noteq> [] \<or> \<not> emitted"
  | (Spoken) "synthesis_finish step emitted aborted failed rt =
        (rt\<lparr>operation_in_progress := False,
           results := AList.update (st_id step) \<lparr>rs_status = ''success'', rs_result = JNull\<rparr> (results rt),
           next_index := next_index rt + 1,
           status := (if terminal_step_id (rt_plan rt) \<noteq> None then WAITING_PLAYBACK else COMPLETED)\<rparr>, [])"
      "\<not> cancelled rt" "\<not> aborted" "failed = []" "emitted"
proof (cases aborted)
  case True
  with Cancelled [of "''synthesis_stream_closed''"] show thesis by (simp add: synthesis_finish_def)
next
  case False
  show thesis
  proof (cases "cancelled rt")
    case True
    then have "fst (synthesis_finish step emitted aborted failed rt) =
        rt\<lparr>operation_in_progress := False, cancelled := True, cancel_reason := cancel_reason rt,
           status := CANCELLED\<rparr>"
      using \<open>\<not> aborted\<close> by (simp add: synthesis_finish_def)
    with True Cancelled show thesis by blast
  next
    case not_cancelled: False
    show thesis
    proof (cases "failed \<noteq> [] \<or> \<not> emitted")
      case True
      with False not_cancelled show thesis by (intro Failed) (auto simp: synthesis_finish_def)
    next
      case no_failure: False
      with False not_cancelled show thesis by (intro Spoken) (auto simp: synthesis_finish_def)
    qed
  qed
qed

lemma moves_synthesis_finish:
  assumes "current rt step" shows "moves rt (fst (synthesis_finish step emitted aborted failed rt))"
proof (cases rule: synthesis_finishE [of step emitted aborted failed rt])
  case (Cancelled reason)
  then show ?thesis using assms
    by (auto simp: moves_def rt_inv_def rt_forward_def passed_def plan_steps_def current_def)
next
  case Failed
  then show ?thesis using assms
    by (auto simp: moves_def rt_inv_def rt_forward_def passed_def plan_steps_def current_def)
next
  case Spoken
  have "rt_inv (fst (synthesis_finish step emitted aborted failed rt))" if "rt_inv rt"
    using that assms Spoken
    by (auto simp: rt_inv_def current_def plan_steps_def keys_update take_Suc_ids)
  moreover have "rt_forward rt (fst (synthesis_finish step emitted aborted failed rt))" if "rt_inv rt"
    using that assms Spoken
    by (auto simp: rt_forward_def keys_update passed_def rt_inv_def current_def)
  ultimately show ?thesis by (simp add: moves_def)
qed

subsection \<open>The playback gate of one runtime\<close>

lemma plan_ok_terminal:
  assumes "plan_ok p" "i < length (steps p)" "terminal (steps p ! i)"
  shows "i > 0" "st_type (steps p ! (i - 1)) = ''respond''" "st_type (steps p ! i) \<noteq> ''respond''"
    "terminal_step_id p \<noteq> None" "requires_playback_barrier p" "Suc i = length (steps p)"
proof -
  from assms(1) obtain pre r post where ss: "steps p = pre @ r # post"
    and pre: "\<forall>s \<in> set pre. is_result_step s" and r: "st_type r = ''respond''" "\<not> terminal r"
    and post: "map st_id post = (case terminal_step_id p of None \<Rightarrow> [] | Some t \<Rightarrow> [t])"
      "\<forall>s \<in> set post. st_type s = ''tool'' \<and> terminal s"
    by (auto simp: plan_ok_def elim: order_shapeE)
  have i: "i = Suc (length pre) \<and> length post = 1"
  proof -
    have "i \<noteq> length pre" using assms(3) ss r by auto
    moreover have "\<not> i < length pre"
      using assms(3) ss pre by (auto simp: nth_append is_result_step_def)
    moreover have "length post \<le> 1"
      using arg_cong [OF post(1), of length] by (auto split: option.splits)
    ultimately show ?thesis using assms(2) ss by auto
  qed
  then show "i > 0" "st_type (steps p ! (i - 1)) = ''respond''" "Suc i = length (steps p)"
    using ss r by (auto simp: nth_append)
  show "st_type (steps p ! i) \<noteq> ''respond''" using i ss post(2) by (auto simp: nth_append)
  show barrier: "terminal_step_id p \<noteq> None" using i post(1) by (cases post) (auto split: option.splits)
  then show "requires_playback_barrier p" using assms(1) by (simp add: plan_ok_def)
qed

lemma plan_ok_not_terminal_next:
  assumes "plan_ok (rt_plan rt)" "next_index rt < length (plan_steps rt)"
    and "st_type (plan_steps rt ! next_index rt) \<noteq> ''respond''"
    and "Suc (next_index rt) < length (plan_steps rt)"
  shows "\<not> terminal (plan_steps rt ! Suc (next_index rt))"
  using plan_ok_terminal(2) [OF assms(1), of "Suc (next_index rt)"] assms
  by (auto simp: plan_steps_def)

lemma gate_begun:
  assumes "gate rt" "available rt step" "st_type step \<noteq> ''respond''"
  shows "gate (begun rt)"
  using assms by (auto simp: gate_def available_def begun_def plan_steps_def)

lemma gate_begun_synthesis:
  assumes "available rt step" "st_type step = ''respond''" "plan_ok (rt_plan rt)"
    and "requires_playback_barrier (rt_plan rt) \<Longrightarrow> p \<noteq> []"
  shows "gate ((begun rt)\<lparr>expected_playback_id := p\<rparr>)"
proof -
  have "\<not> terminal step"
    using plan_ok_terminal(3) [OF assms(3), of "next_index rt"] assms(1,2)
    by (auto simp: available_def plan_steps_def)
  with assms show ?thesis by (auto simp: gate_def available_def begun_def plan_steps_def)
qed

lemma gate_skipped:
  assumes "gate rt" "available rt step" "st_type step \<noteq> ''respond''" "plan_ok (rt_plan rt)"
  shows "gate (skipped step rt)"
proof -
  have "plan_steps (skipped step rt) = plan_steps rt" by (simp add: plan_steps_def skipped_def)
  with assms plan_ok_not_terminal_next [OF assms(4)] show ?thesis
    by (auto simp: gate_def available_def skipped_def)
qed

lemma skipped_plan: "rt_plan (skipped step rt) = rt_plan rt"
  by (simp add: skipped_def)

lemma begun_plan: "rt_plan (begun rt) = rt_plan rt"
  by (simp add: begun_def)

lemma gate_cancel_runtime: "gate rt \<Longrightarrow> gate (fst (cancel_runtime reason rt))"
  by (auto simp: gate_def cancel_runtime_def plan_steps_def)

lemma cancel_runtime_plan: "rt_plan (fst (cancel_runtime reason rt)) = rt_plan rt"
  by (simp add: cancel_runtime_def)

lemma gate_mark_cancelled: "gate rt \<Longrightarrow> gate (mark_runtime_cancelled reason rt)"
  by (auto simp: gate_def mark_runtime_cancelled_def plan_steps_def)

lemma gate_execute_finish:
  assumes "gate rt" "current rt step" "st_type step \<noteq> ''respond''" "plan_ok (rt_plan rt)"
  shows "gate (fst (execute_finish step oc rt))"
proof (cases rule: execute_finishE [of rt step oc])
  case Cancelled
  then show ?thesis using assms by (auto simp: gate_def plan_steps_def)
next
  case (Advanced st rs resp)
  with assms plan_ok_not_terminal_next [OF assms(4)] show ?thesis
    by (auto simp: gate_def current_def plan_steps_def)
next
  case (Aborted rs resp)
  then show ?thesis using assms by (auto simp: gate_def plan_steps_def)
qed

lemma gate_synthesis_finish:
  assumes "gate rt" "current rt step" "st_type step = ''respond''" "plan_ok (rt_plan rt)"
  shows "gate (fst (synthesis_finish step emitted aborted failed rt))"
proof (cases rule: synthesis_finishE [of step emitted aborted failed rt])
  case (Cancelled reason)
  then show ?thesis using assms by (auto simp: gate_def plan_steps_def)
next
  case Failed
  then show ?thesis using assms by (auto simp: gate_def plan_steps_def)
next
  case Spoken
  have "status (fst (synthesis_finish step emitted aborted failed rt)) \<noteq> READY \<and>
      expected_playback_id rt \<noteq> []"
    if "Suc (next_index rt) < length (plan_steps rt)" "terminal (plan_steps rt ! Suc (next_index rt))"
  proof -
    note T = plan_ok_terminal [OF assms(4) that [unfolded plan_steps_def]]
    then show ?thesis using assms Spoken by (auto simp: gate_def current_def plan_steps_def)
  qed
  with Spoken show ?thesis by (auto simp: gate_def plan_steps_def)
qed

text \<open>A step that \<open>ExecuteStep\<close> starts is not the terminal one unless the expected playback is
  reported complete.\<close>

lemma gate_started:
  assumes "gate rt" "rt_inv rt" "available rt step" "terminal step" "playback_ok req rt step"
  shows "status rt = WAITING_PLAYBACK \<and> sr_playback_completed req \<and>
    sr_playback_id req = expected_playback_id rt \<and> expected_playback_id rt \<noteq> []"
proof -
  have "status rt = WAITING_PLAYBACK"
    using assms by (cases "status rt") (auto simp: gate_def available_def rt_inv_def)
  with assms show ?thesis by (simp add: playback_ok_def)
qed

subsection \<open>The service\<close>

fun ref_of :: "pending \<Rightarrow> ref" where
  "ref_of (PendingStep r step) = r"
| "ref_of (PendingSynthesis r step emitted) = r"

fun step_of :: "pending \<Rightarrow> wf_step" where
  "step_of (PendingStep r step) = step"
| "step_of (PendingSynthesis r step emitted) = step"

fun is_synthesis :: "pending \<Rightarrow> bool" where
  "is_synthesis (PendingStep r step) = False"
| "is_synthesis (PendingSynthesis r step emitted) = True"

definition store_inv :: "service \<Rightarrow> bool" where
  "store_inv sv \<longleftrightarrow>
     distinct (keys (items sv)) \<and> length (items sv) \<le> max_entries sv \<and>
     (\<forall>(k, r) \<in> set (items sv). r < length (heap sv) \<and> rt_plan_id (heap sv ! r) = k)"

definition pending_inv :: "service \<Rightarrow> bool" where
  "pending_inv sv \<longleftrightarrow>
     (\<forall>n p. pending_op n sv = Some p \<longrightarrow>
        ref_of p < length (heap sv) \<and> current (heap sv ! ref_of p) (step_of p) \<and>
        (st_type (step_of p) = ''respond'') = is_synthesis p) \<and>
     (\<forall>n m p q. pending_op n sv = Some p \<longrightarrow> pending_op m sv = Some q \<longrightarrow>
        ref_of p = ref_of q \<longrightarrow> n = m) \<and>
     (\<forall>r < length (heap sv). operation_in_progress (heap sv ! r) \<longrightarrow>
        (\<exists>n p. pending_op n sv = Some p \<and> ref_of p = r))"

definition svc_inv :: "service \<Rightarrow> bool" where
  "svc_inv sv \<longleftrightarrow> store_inv sv \<and> pending_inv sv \<and> (\<forall>r < length (heap sv). rt_inv (heap sv ! r))"

definition svc_forward :: "service \<Rightarrow> service \<Rightarrow> bool" where
  "svc_forward a b \<longleftrightarrow> length (heap a) \<le> length (heap b) \<and>
     (\<forall>r < length (heap a). rt_forward (heap a ! r) (heap b ! r))"

lemma svc_forward_refl: "svc_forward a a"
  by (simp add: svc_forward_def)

lemma svc_forward_trans: "svc_forward a b \<Longrightarrow> svc_forward b c \<Longrightarrow> svc_forward a c"
  unfolding svc_forward_def by (meson less_le_trans order_trans rt_forward_trans)

lemma heap_set_runtime [simp]: "heap (set_runtime r rt sv) = (heap sv)[r := rt]"
  and items_set_runtime [simp]: "items (set_runtime r rt sv) = items sv"
  and max_set_runtime [simp]: "max_entries (set_runtime r rt sv) = max_entries sv"
  and pending_set_runtime [simp]: "pending (set_runtime r rt sv) = pending sv"
  and pending_op_set_runtime [simp]: "pending_op n (set_runtime r rt sv) = pending_op n sv"
  by (simp_all add: set_runtime_def pending_op_def)

lemma start_pending_simps [simp]:
  "heap (start_pending p sv) = heap sv" "items (start_pending p sv) = items sv"
  "max_entries (start_pending p sv) = max_entries sv"
  by (simp_all add: start_pending_def)

lemma pending_op_start:
  "pending_op n (start_pending p sv) = (if n = length (pending sv) then Some p else pending_op n sv)"
  by (auto simp: pending_op_def start_pending_def nth_append)

lemma pending_op_length [simp]: "pending_op (length (pending sv)) sv = None"
  by (simp add: pending_op_def)

lemma set_pending_simps [simp]:
  "heap (set_pending n p sv) = heap sv" "items (set_pending n p sv) = items sv"
  "max_entries (set_pending n p sv) = max_entries sv"
  by (simp_all add: set_pending_def)

lemma pending_op_set:
  "pending_op m sv = Some q \<Longrightarrow> pending_op n (set_pending m p sv) = (if n = m then p else pending_op n sv)"
  by (auto simp: pending_op_def set_pending_def split: if_splits)

lemma set_od_move_to_end:
  assumes "distinct (keys d)" shows "set (od_move_to_end k d) = set d"
proof (cases "map_of d k")
  case None
  then show ?thesis by (simp add: od_move_to_end_def)
next
  case (Some v)
  have rest: "set (AList.delete k d) = {kv \<in> set d. fst kv \<noteq> k}"
    by (auto simp: AList.delete_eq case_prod_beta)
  have same: "kv = (k, v)" if "kv \<in> set d" "fst kv = k" for kv
  proof -
    have "map_of d k = Some (snd kv)"
      by (rule map_of_is_SomeI [OF assms]) (use that in \<open>metis prod.collapse\<close>)
    with Some that(2) show ?thesis by (metis option.inject prod.collapse)
  qed
  have there: "(k, v) \<in> set d" using Some by (rule map_of_SomeD)
  have "set (od_move_to_end k d) = insert (k, v) {kv \<in> set d. fst kv \<noteq> k}"
    using Some rest by (simp add: od_move_to_end_def)
  also have "\<dots> = set d"
  proof (intro equalityI subsetI)
    fix kv assume "kv \<in> set d"
    then show "kv \<in> insert (k, v) {kv \<in> set d. fst kv \<noteq> k}"
      using same [of kv] by (cases "fst kv = k") simp_all
  qed (use there in auto)
  finally show ?thesis .
qed

text \<open>Looking a workflow up, or purging the store, changes the \<open>OrderedDict\<close> only.\<close>

definition same_objects :: "service \<Rightarrow> service \<Rightarrow> bool" where
  "same_objects a b \<longleftrightarrow> heap b = heap a \<and> pending b = pending a \<and> max_entries b = max_entries a \<and>
     ttl_sec b = ttl_sec a"

lemma same_objects_heap: "same_objects a b \<Longrightarrow> heap b = heap a"
  by (simp add: same_objects_def)

lemma svc_inv_same_objects:
  assumes "svc_inv a" "same_objects a b" "store_inv b" shows "svc_inv b"
proof -
  have "pending_op n b = pending_op n a" for n using assms(2) by (simp add: pending_op_def same_objects_def)
  with assms show ?thesis by (simp add: svc_inv_def pending_inv_def same_objects_def)
qed

lemma purge_store_inv:
  assumes "store_inv sv" shows "store_inv (purge_store now sv)" "same_objects sv (purge_store now sv)"
proof -
  show "same_objects sv (purge_store now sv)" by (simp add: same_objects_def purge_store_def)
  have "distinct (keys (filter P d))" if "distinct (keys d)" for P and d :: "(string \<times> ref) list"
    using that by (induction d) auto
  then show "store_inv (purge_store now sv)"
    using assms by (auto simp: store_inv_def purge_store_def intro: le_trans [OF length_filter_le])
qed

lemma store_getE:
  assumes "store_inv sv" "store_get now k sv = (sv1, found)"
  obtains "store_inv sv1" "same_objects sv sv1" "found = map_of (items sv1) k"
proof
  note P = purge_store_inv [OF assms(1), of now]
  have d: "distinct (keys (items (purge_store now sv)))" using P(1) by (simp add: store_inv_def)
  from assms(2) have sv1: "sv1 = (purge_store now sv)\<lparr>items := od_move_to_end k (items (purge_store now sv))\<rparr>"
    and found: "found = map_of (items (purge_store now sv)) k"
    by (auto simp: store_get_def Let_def)
  show "same_objects sv sv1" using P(2) sv1 by (simp add: same_objects_def)
  show "store_inv sv1"
    using P(1) by (simp add: sv1 store_inv_def distinct_keys_move_to_end set_od_move_to_end [OF d]
        length_move_to_end [OF d])
  show "found = map_of (items sv1) k" by (simp add: found sv1 map_of_move_to_end)
qed

lemma store_found:
  assumes "store_inv sv" "map_of (items sv) k = Some r"
  shows "r < length (heap sv)" "rt_plan_id (heap sv ! r) = k"
  using assms map_of_SomeD [OF assms(2)] by (auto simp: store_inv_def)

lemma resolve_runtimeE:
  assumes "store_inv sv" "resolve_runtime now pid sid rid tid bid sv = (sv1, found)"
  obtains "store_inv sv1" "same_objects sv sv1"
    "\<forall>r. found = Inr r \<longrightarrow> r < length (heap sv1)"
proof (cases "py_strip pid = []")
  case True
  with assms have "sv1 = sv" "found = Inl ''workflow_not_found''"
    by (auto simp: resolve_runtime_def)
  with assms(1) that show thesis by (simp add: same_objects_def)
next
  case False
  obtain sv2 hit where get: "store_get now (py_strip pid) sv = (sv2, hit)" by fastforce
  from assms(1) get obtain S: "store_inv sv2" "same_objects sv sv2" "hit = map_of (items sv2) (py_strip pid)"
    by (rule store_getE)
  from assms(2) False get have sv1: "sv1 = sv2" by (auto simp: resolve_runtime_def)
  have "found = Inr r \<Longrightarrow> hit = Some r" for r
    using assms(2) False get
    by (auto simp: resolve_runtime_def Let_def split: option.splits if_splits)
  with S sv1 that show thesis using store_found(1) by metis
qed

lemma store_put_inv:
  assumes "store_inv sv"
  shows "store_inv (store_put now rt sv)"
    and "heap (store_put now rt sv) = heap sv @ [rt]" and "pending (store_put now rt sv) = pending sv"
proof -
  define d where "d = items (purge_store now sv)"
  define put where "put = od_move_to_end (rt_plan_id rt) (AList.update (rt_plan_id rt) (length (heap sv)) d)"
  note P = purge_store_inv [OF assms, of now]
  have heap: "heap (purge_store now sv) = heap sv" and max: "max_entries (purge_store now sv) = max_entries sv"
    by (simp_all add: purge_store_def)
  have sv1: "store_put now rt sv = (purge_store now sv)\<lparr>heap := heap sv @ [rt],
      items := od_trim (max_entries sv) put\<rparr>"
    by (simp add: store_put_def Let_def put_def d_def heap max)
  show "heap (store_put now rt sv) = heap sv @ [rt]" "pending (store_put now rt sv) = pending sv"
    by (simp_all add: sv1 purge_store_def)
  have dist: "distinct (keys d)" using P(1) by (simp add: store_inv_def d_def)
  then have dist': "distinct (keys (AList.update (rt_plan_id rt) (length (heap sv)) d))"
    by (rule distinct_update)
  have "r < length (heap sv @ [rt]) \<and> rt_plan_id ((heap sv @ [rt]) ! r) = k" if "(k, r) \<in> set put" for k r
  proof -
    have "(k, r) \<in> set (AList.update (rt_plan_id rt) (length (heap sv)) d)"
      using that by (simp add: put_def set_od_move_to_end [OF dist'])
    then have found: "map_of (AList.update (rt_plan_id rt) (length (heap sv)) d) k = Some r"
      by (rule map_of_is_SomeI [OF dist'])
    show ?thesis
    proof (cases "k = rt_plan_id rt")
      case True
      with found have "r = length (heap sv)" by (simp add: map_of_update)
      with True show ?thesis by simp
    next
      case False
      with found have "map_of (items (purge_store now sv)) k = Some r"
        by (simp add: map_of_update d_def)
      from store_found [OF P(1) this] heap show ?thesis by (simp add: nth_append)
    qed
  qed
  note put_refs = this
  have refs: "\<forall>(k, r) \<in> set (od_trim (max_entries sv) put).
      r < length (heap sv @ [rt]) \<and> rt_plan_id ((heap sv @ [rt]) ! r) = k"
  proof clarify
    fix k r assume "(k, r) \<in> set (od_trim (max_entries sv) put)"
    with set_od_trim have "(k, r) \<in> set put" by fast
    then show "r < length (heap sv @ [rt]) \<and> rt_plan_id ((heap sv @ [rt]) ! r) = k"
      by (rule put_refs)
  qed
  have "distinct (keys put)" by (simp add: put_def distinct_keys_move_to_end [OF dist'])
  then have "distinct (keys (od_trim (max_entries sv) put))" by (rule distinct_od_trim)
  moreover have "length (od_trim (max_entries sv) put) \<le> max_entries sv" by (simp add: length_od_trim)
  ultimately show "store_inv (store_put now rt sv)"
    using refs by (simp add: store_inv_def sv1 max)
qed

text \<open>One object of the heap moves: while no operation starts or ends, when one starts, and
  when one ends.\<close>

lemma moves_heap:
  assumes "svc_inv sv" "r < length (heap sv)" "moves (heap sv ! r) rt"
  shows "\<forall>q < length ((heap sv)[r := rt]). rt_inv ((heap sv)[r := rt] ! q)"
    "\<forall>q < length (heap sv). rt_forward (heap sv ! q) ((heap sv)[r := rt] ! q)"
    "rt_plan_id rt = rt_plan_id (heap sv ! r)" "rt_plan rt = rt_plan (heap sv ! r)"
proof -
  have "rt_inv rt \<and> rt_forward (heap sv ! r) rt"
    using assms by (intro movesD) (auto simp: svc_inv_def)
  with assms show "\<forall>q < length ((heap sv)[r := rt]). rt_inv ((heap sv)[r := rt] ! q)"
    "\<forall>q < length (heap sv). rt_forward (heap sv ! q) ((heap sv)[r := rt] ! q)"
    "rt_plan_id rt = rt_plan_id (heap sv ! r)" "rt_plan rt = rt_plan (heap sv ! r)"
    by (auto simp: svc_inv_def nth_list_update rt_forward_def)
qed

lemma store_inv_set_runtime:
  assumes "store_inv sv" "rt_plan_id rt = rt_plan_id (heap sv ! r)"
  shows "store_inv (set_runtime r rt sv)"
proof -
  have "q < length (heap sv) \<Longrightarrow> rt_plan_id ((heap sv)[r := rt] ! q) = rt_plan_id (heap sv ! q)" for q
    using assms(2) by (cases "q = r") auto
  with assms(1) show ?thesis by (auto simp: store_inv_def)
qed

lemma current_moves:
  assumes "current (heap sv ! q) step" "rt_plan rt = rt_plan (heap sv ! r)"
    and "q = r \<Longrightarrow> operation_in_progress rt \<and> next_index rt = next_index (heap sv ! r)"
    and "r < length (heap sv)"
  shows "current ((heap sv)[r := rt] ! q) step"
  using assms by (cases "q = r") (auto simp: current_def plan_steps_def)

lemma pending_invD:
  assumes "svc_inv sv" "pending_op n sv = Some p"
  shows "ref_of p < length (heap sv)" "current (heap sv ! ref_of p) (step_of p)"
    "(st_type (step_of p) = ''respond'') = is_synthesis p"
    "\<And>m q. pending_op m sv = Some q \<Longrightarrow> ref_of q = ref_of p \<Longrightarrow> m = n"
proof -
  have "pending_inv sv" using assms(1) by (simp add: svc_inv_def)
  note P = this [unfolded pending_inv_def]
  show "ref_of p < length (heap sv)" "current (heap sv ! ref_of p) (step_of p)"
    "(st_type (step_of p) = ''respond'') = is_synthesis p"
    using P assms(2) by blast+
  show "pending_op m sv = Some q \<Longrightarrow> ref_of q = ref_of p \<Longrightarrow> m = n" for m q
    using P assms(2) by blast
qed

lemma pending_invE:
  assumes "svc_inv sv" "r < length (heap sv)" "operation_in_progress (heap sv ! r)"
  obtains n p where "pending_op n sv = Some p" "ref_of p = r"
  using assms unfolding svc_inv_def pending_inv_def by blast

lemma pending_invI:
  assumes "\<And>n p. pending_op n sv = Some p \<Longrightarrow> ref_of p < length (heap sv) \<and>
      current (heap sv ! ref_of p) (step_of p) \<and> (st_type (step_of p) = ''respond'') = is_synthesis p"
    and "\<And>n m p q. pending_op n sv = Some p \<Longrightarrow> pending_op m sv = Some q \<Longrightarrow> ref_of p = ref_of q \<Longrightarrow> n = m"
    and "\<And>r. r < length (heap sv) \<Longrightarrow> operation_in_progress (heap sv ! r) \<Longrightarrow>
      \<exists>n p. pending_op n sv = Some p \<and> ref_of p = r"
  shows "pending_inv sv"
  unfolding pending_inv_def using assms by blast

lemma svc_keep:
  assumes inv: "svc_inv sv" and r: "r < length (heap sv)" and mv: "moves (heap sv ! r) rt"
    and op: "operation_in_progress rt = operation_in_progress (heap sv ! r)"
    and idx: "operation_in_progress rt \<Longrightarrow> next_index rt = next_index (heap sv ! r)"
  shows "svc_inv (set_runtime r rt sv) \<and> svc_forward sv (set_runtime r rt sv)"
proof -
  note H = moves_heap [OF inv r mv]
  have "pending_inv (set_runtime r rt sv)"
  proof (rule pending_invI)
    fix n p assume "pending_op n (set_runtime r rt sv) = Some p"
    then have p: "pending_op n sv = Some p" by simp
    note P = pending_invD [OF inv p]
    have "operation_in_progress (heap sv ! ref_of p)" using P(2) by (simp add: current_def)
    then have "current ((heap sv)[r := rt] ! ref_of p) (step_of p)"
      by (intro current_moves [OF P(2) H(4) _ r]) (simp add: op idx)
    with P show "ref_of p < length (heap (set_runtime r rt sv)) \<and>
        current (heap (set_runtime r rt sv) ! ref_of p) (step_of p) \<and>
        (st_type (step_of p) = ''respond'') = is_synthesis p" by simp
  next
    fix n m p q assume "pending_op n (set_runtime r rt sv) = Some p"
      "pending_op m (set_runtime r rt sv) = Some q" "ref_of p = ref_of q"
    then show "n = m" using pending_invD(4) [OF inv, of m q] by simp
  next
    fix q assume q: "q < length (heap (set_runtime r rt sv))"
      "operation_in_progress (heap (set_runtime r rt sv) ! q)"
    then have "operation_in_progress (heap sv ! q)" using op by (cases "q = r") auto
    with q(1) obtain n p where "pending_op n sv = Some p" "ref_of p = q"
      by (auto elim: pending_invE [OF inv, of q])
    then show "\<exists>n p. pending_op n (set_runtime r rt sv) = Some p \<and> ref_of p = q" by auto
  qed
  with H inv show ?thesis
    by (simp add: svc_inv_def svc_forward_def store_inv_set_runtime)
qed

lemma svc_begin:
  assumes inv: "svc_inv sv" and r: "r < length (heap sv)" and mv: "moves (heap sv ! r) rt"
    and idle: "\<not> operation_in_progress (heap sv ! r)" and cur: "current rt (step_of p)"
    and p: "ref_of p = r" "(st_type (step_of p) = ''respond'') = is_synthesis p"
  shows "svc_inv (start_pending p (set_runtime r rt sv)) \<and>
    svc_forward sv (start_pending p (set_runtime r rt sv))"
proof -
  note H = moves_heap [OF inv r mv]
  define sv1 where "sv1 = start_pending p (set_runtime r rt sv)"
  have heap1: "heap sv1 = (heap sv)[r := rt]" by (simp add: sv1_def)
  have op1: "pending_op n sv1 = (if n = length (pending sv) then Some p else pending_op n sv)" for n
    by (simp add: sv1_def pending_op_start pending_set_runtime)
  have other: "ref_of q \<noteq> r" if "pending_op n sv = Some q" for n q
    using pending_invD(2) [OF inv that] idle by (auto simp: current_def)
  have "pending_inv sv1"
  proof (rule pending_invI)
    fix n q assume n: "pending_op n sv1 = Some q"
    show "ref_of q < length (heap sv1) \<and> current (heap sv1 ! ref_of q) (step_of q) \<and>
        (st_type (step_of q) = ''respond'') = is_synthesis q"
    proof (cases "n = length (pending sv)")
      case True
      with n op1 have "q = p" by simp
      with r cur p show ?thesis by (simp add: heap1)
    next
      case False
      with n op1 have "pending_op n sv = Some q" by simp
      with other [OF this] pending_invD(1-3) [OF inv this] show ?thesis by (auto simp: heap1)
    qed
  next
    fix n m q q' assume nm: "pending_op n sv1 = Some q" "pending_op m sv1 = Some q'" "ref_of q = ref_of q'"
    show "n = m"
    proof (cases "n = length (pending sv)"; cases "m = length (pending sv)")
      assume "n \<noteq> length (pending sv)" "m \<noteq> length (pending sv)"
      with nm op1 show ?thesis using pending_invD(4) [OF inv, of m q'] by simp
    qed (use nm op1 other p(1) in auto)
  next
    fix q assume q: "q < length (heap sv1)" "operation_in_progress (heap sv1 ! q)"
    show "\<exists>n p. pending_op n sv1 = Some p \<and> ref_of p = q"
    proof (cases "q = r")
      case True
      then show ?thesis using op1 p(1) by metis
    next
      case False
      with q heap1 obtain n p' where "pending_op n sv = Some p'" "ref_of p' = q"
        using pending_invE [OF inv, of q] by auto
      then show ?thesis using op1 by (metis option.distinct(1) pending_op_length)
    qed
  qed
  moreover have "store_inv sv1"
    using inv H(3) store_inv_set_runtime [of sv rt r] by (simp add: sv1_def svc_inv_def store_inv_def)
  ultimately show ?thesis using H by (simp add: svc_inv_def svc_forward_def sv1_def)
qed

lemma svc_end:
  assumes inv: "svc_inv sv" and n: "pending_op n sv = Some p" and mv: "moves (heap sv ! ref_of p) rt"
    and idle: "\<not> operation_in_progress rt"
  shows "svc_inv (set_runtime (ref_of p) rt (set_pending n None sv)) \<and>
    svc_forward sv (set_runtime (ref_of p) rt (set_pending n None sv))"
proof -
  let ?r = "ref_of p"
  note P = pending_invD [OF inv n]
  note H = moves_heap [OF inv P(1) mv]
  define sv1 where "sv1 = set_runtime ?r rt (set_pending n None sv)"
  have heap1: "heap sv1 = (heap sv)[?r := rt]" by (simp add: sv1_def)
  have op1: "pending_op m sv1 = (if m = n then None else pending_op m sv)" for m
    by (simp add: sv1_def pending_op_set [OF n])
  have "pending_inv sv1"
  proof (rule pending_invI)
    fix m q assume m: "pending_op m sv1 = Some q"
    with op1 have q: "m \<noteq> n" "pending_op m sv = Some q" by (auto split: if_splits)
    then have "ref_of q \<noteq> ?r" using P(4) by blast
    with pending_invD(1-3) [OF inv q(2)] show "ref_of q < length (heap sv1) \<and>
        current (heap sv1 ! ref_of q) (step_of q) \<and> (st_type (step_of q) = ''respond'') = is_synthesis q"
      by (auto simp: heap1)
  next
    fix m k q q' assume "pending_op m sv1 = Some q" "pending_op k sv1 = Some q'" "ref_of q = ref_of q'"
    then show "m = k" using pending_invD(4) [OF inv, of k q'] op1 by (auto split: if_splits)
  next
    fix q assume q: "q < length (heap sv1)" "operation_in_progress (heap sv1 ! q)"
    then have "q \<noteq> ?r" using idle P(1) by (auto simp: heap1)
    with q heap1 obtain m p' where m: "pending_op m sv = Some p'" "ref_of p' = q"
      using pending_invE [OF inv, of q] by auto
    then have "m \<noteq> n" using n \<open>q \<noteq> ?r\<close> by auto
    with m op1 show "\<exists>n p. pending_op n sv1 = Some p \<and> ref_of p = q" by auto
  qed
  moreover have "store_inv sv1"
    using inv H(3) store_inv_set_runtime [of sv rt ?r] by (simp add: sv1_def svc_inv_def store_inv_def)
  ultimately show ?thesis using H by (simp add: svc_inv_def svc_forward_def sv1_def)
qed

text \<open>Every event keeps the invariant, moves forward, and keeps the playback gates when the
  plans it stores are valid.\<close>

definition gates :: "service \<Rightarrow> bool" where
  "gates sv \<longleftrightarrow> (\<forall>r < length (heap sv). plan_ok (rt_plan (heap sv ! r)) \<and> gate (heap sv ! r))"

definition svc_moves :: "service \<Rightarrow> service \<Rightarrow> bool" where
  "svc_moves a b \<longleftrightarrow> svc_inv b \<and> svc_forward a b \<and> (gates a \<longrightarrow> gates b)"

lemma svc_movesI [intro?]:
  "svc_inv b \<and> svc_forward a b \<Longrightarrow> (gates a \<Longrightarrow> gates b) \<Longrightarrow> svc_moves a b"
  by (simp add: svc_moves_def)

lemma svc_moves_refl: "svc_inv a \<Longrightarrow> svc_moves a a"
  by (simp add: svc_moves_def svc_forward_refl)

lemma svc_moves_trans: "svc_moves a b \<Longrightarrow> svc_moves b c \<Longrightarrow> svc_moves a c"
  by (auto simp: svc_moves_def intro: svc_forward_trans)

lemma svc_moves_same_objects:
  assumes "svc_inv a" "same_objects a b" "store_inv b" shows "svc_moves a b"
  using assms svc_inv_same_objects [OF assms]
  by (auto simp: svc_moves_def svc_forward_def gates_def same_objects_def)

lemma gates_set_runtime:
  assumes "gates sv" "r < length (heap sv)" "heap sv1 = (heap sv)[r := rt]"
    and "rt_plan rt = rt_plan (heap sv ! r)" "gate rt"
  shows "gates sv1"
  using assms by (auto simp: gates_def nth_list_update)

lemma gatesD: "gates sv \<Longrightarrow> r < length (heap sv) \<Longrightarrow> plan_ok (rt_plan (heap sv ! r)) \<and> gate (heap sv ! r)"
  by (simp add: gates_def)

lemma execute_step_cases:
  assumes inv: "svc_inv sv" and ex: "execute_step now req sv = (sv', reply)"
  obtains (Answered) resp where "reply = StepReply resp" "svc_moves sv sv'"
  | (Started) r step sv1 where "svc_moves sv sv1" "r < length (heap sv1)" "heap sv1 = heap sv"
      "available (heap sv1 ! r) step" "st_id step = sr_step_id req" "st_type step \<noteq> ''respond''"
      "playback_ok req (heap sv1 ! r) step" "condition_result (heap sv1 ! r) step = Some True"
      "reply = StepStarted r (next_index (heap sv1 ! r)) step"
      "sv' = start_pending (PendingStep r step) (set_runtime r (begun (heap sv1 ! r)) sv1)"
proof -
  obtain sv1 found where res: "resolve_runtime now (sr_plan_id req) (sr_session_id req)
      (sr_robot_id req) (sr_trace_id req) None sv = (sv1, found)" by fastforce
  have "store_inv sv" using inv by (simp add: svc_inv_def)
  from this res obtain S: "store_inv sv1" "same_objects sv sv1" "\<forall>r. found = Inr r \<longrightarrow> r < length (heap sv1)"
    by (rule resolve_runtimeE)
  have mv1: "svc_moves sv sv1" by (rule svc_moves_same_objects [OF inv S(2,1)])
  then have inv1: "svc_inv sv1" by (simp add: svc_moves_def)
  show thesis
  proof (cases found)
    case (Inl code)
    with ex res mv1 show thesis by (intro Answered) (auto simp: execute_step_def)
  next
    case (Inr r)
    with S(3) have r: "r < length (heap sv1)" by blast
    let ?rt = "heap sv1 ! r"
    obtain rt1 out where entered: "execute_begin req ?rt = (rt1, out)" by fastforce
    note ex' = ex [unfolded execute_step_def res Let_def prod.case Inr sum.case entered]
    from entered show thesis
    proof (cases rule: execute_beginE)
      case (Refused code)
      have "svc_moves sv1 (set_runtime r ?rt sv1)"
        by (rule svc_movesI [OF svc_keep [OF inv1 r]]) (auto simp: gates_def set_runtime_def)
      with ex' Refused mv1 show thesis by (intro Answered) (auto intro: svc_moves_trans)
    next
      case (Skipped step resp)
      have "svc_moves sv1 (set_runtime r (skipped step ?rt) sv1)"
      proof (rule svc_movesI [OF svc_keep [OF inv1 r moves_skipped [OF Skipped(1)]]])
        assume g: "gates sv1"
        show "gates (set_runtime r (skipped step ?rt) sv1)"
          using gatesD [OF g r] Skipped
          by (intro gates_set_runtime [OF g r heap_set_runtime skipped_plan] gate_skipped) simp_all
      qed (use Skipped in \<open>auto simp: skipped_def available_def\<close>)
      with ex' Skipped mv1 show thesis by (intro Answered) (auto intro: svc_moves_trans)
    next
      case (Started step)
      with ex' r mv1 show thesis
        by (intro that(2) [of sv1 r step] same_objects_heap [OF S(2)]) (auto simp: begun_def)
    qed
  qed
qed

lemma execute_step_moves: assumes "svc_inv sv" shows "svc_moves sv (fst (execute_step now req sv))"
proof -
  obtain sv' reply where ex: "execute_step now req sv = (sv', reply)" by fastforce
  from assms ex show ?thesis
  proof (cases rule: execute_step_cases)
    case (Answered resp)
    with ex show ?thesis by simp
  next
    case (Started r step sv1)
    let ?rt = "heap sv1 ! r"
    have inv1: "svc_inv sv1" using Started(1) by (simp add: svc_moves_def)
    have "svc_moves sv1 sv'"
    proof
      show "svc_inv sv' \<and> svc_forward sv1 sv'"
        unfolding Started(10)
        by (rule svc_begin [OF inv1 Started(2) moves_begun [OF Started(4)]])
          (use Started in \<open>auto simp: available_def current_def begun_def plan_steps_def\<close>)
      assume g: "gates sv1"
      show "gates sv'"
        using gatesD [OF g Started(2)] Started
        by (intro gates_set_runtime [OF g Started(2) _ begun_plan] gate_begun) simp_all
    qed
    with Started(1) ex show ?thesis by (auto intro: svc_moves_trans)
  qed
qed

lemma stream_synthesis_cases:
  assumes inv: "svc_inv sv" and ex: "stream_synthesis now req sv = (sv', reply)"
  obtains (Answered) code where "reply = FinalChunk code" "svc_moves sv sv'"
  | (Started) r step sv1 where "svc_moves sv sv1" "r < length (heap sv1)" "heap sv1 = heap sv"
      "available (heap sv1 ! r) step" "st_type step = ''respond''"
      "requires_playback_barrier (rt_plan (heap sv1 ! r)) \<longrightarrow> py_strip (sy_playback_id req) \<noteq> []"
      "reply = SynthesisStarted r (next_index (heap sv1 ! r)) step"
      "sv' = start_pending (PendingSynthesis r step False)
         (set_runtime r ((begun (heap sv1 ! r))\<lparr>expected_playback_id := py_strip (sy_playback_id req)\<rparr>) sv1)"
proof -
  obtain sv1 found where res: "resolve_runtime now (sy_plan_id req) (sy_session_id req)
      (sy_robot_id req) (sy_trace_id req) (Some (sy_bot_id req)) sv = (sv1, found)" by fastforce
  have "store_inv sv" using inv by (simp add: svc_inv_def)
  from this res obtain S: "store_inv sv1" "same_objects sv sv1" "\<forall>r. found = Inr r \<longrightarrow> r < length (heap sv1)"
    by (rule resolve_runtimeE)
  have mv1: "svc_moves sv sv1" by (rule svc_moves_same_objects [OF inv S(2,1)])
  then have inv1: "svc_inv sv1" by (simp add: svc_moves_def)
  show thesis
  proof (cases found)
    case (Inl code)
    with ex res mv1 show thesis by (intro Answered) (auto simp: stream_synthesis_def)
  next
    case (Inr r)
    with S(3) have r: "r < length (heap sv1)" by blast
    let ?rt = "heap sv1 ! r"
    obtain rt1 out where entered: "synthesis_begin req ?rt = (rt1, out)" by fastforce
    note ex' = ex [unfolded stream_synthesis_def res Let_def prod.case Inr sum.case entered]
    from entered show thesis
    proof (cases rule: synthesis_beginE)
      case (Refused code)
      have "svc_moves sv1 (set_runtime r ?rt sv1)"
        by (rule svc_movesI [OF svc_keep [OF inv1 r]]) (auto simp: gates_def set_runtime_def)
      with ex' Refused mv1 show thesis by (intro Answered) (auto intro: svc_moves_trans)
    next
      case (Started step)
      with ex' r mv1 show thesis
        by (intro that(2) [of sv1 r step] same_objects_heap [OF S(2)]) (auto simp: begun_def)
    qed
  qed
qed

lemma stream_synthesis_moves: assumes "svc_inv sv" shows "svc_moves sv (fst (stream_synthesis now req sv))"
proof -
  obtain sv' reply where ex: "stream_synthesis now req sv = (sv', reply)" by fastforce
  from assms ex show ?thesis
  proof (cases rule: stream_synthesis_cases)
    case (Answered resp)
    with ex show ?thesis by simp
  next
    case (Started r step sv1)
    let ?rt = "heap sv1 ! r"
    let ?rt1 = "(begun ?rt)\<lparr>expected_playback_id := py_strip (sy_playback_id req)\<rparr>"
    have inv1: "svc_inv sv1" using Started(1) by (simp add: svc_moves_def)
    have "svc_moves sv1 sv'"
    proof
      show "svc_inv sv' \<and> svc_forward sv1 sv'"
        unfolding Started(8)
        by (rule svc_begin [OF inv1 Started(2) moves_begun_synthesis [OF Started(4)]])
          (use Started in \<open>auto simp: available_def current_def begun_def plan_steps_def\<close>)
      assume g: "gates sv1"
      have "gate ?rt1" using Started(4-6) gatesD [OF g Started(2)] by (intro gate_begun_synthesis) auto
      then show "gates sv'"
        by (intro gates_set_runtime [OF g Started(2), of _ ?rt1]) (simp_all add: Started(8) begun_def)
    qed
    with Started(1) ex show ?thesis by (auto intro: svc_moves_trans)
  qed
qed

lemma svc_end_moves:
  assumes inv: "svc_inv sv" and n: "pending_op n sv = Some p" and mv: "moves (heap sv ! ref_of p) rt"
    and idle: "\<not> operation_in_progress rt"
    and gate: "gate (heap sv ! ref_of p) \<Longrightarrow> plan_ok (rt_plan (heap sv ! ref_of p)) \<Longrightarrow> gate rt"
  shows "svc_moves sv (set_runtime (ref_of p) rt (set_pending n None sv))"
proof (rule svc_movesI [OF svc_end [OF inv n mv idle]])
  note P = pending_invD [OF inv n]
  assume g: "gates sv"
  show "gates (set_runtime (ref_of p) rt (set_pending n None sv))"
    by (rule gates_set_runtime [OF g P(1)])
      (use moves_heap(4) [OF inv P(1) mv] gatesD [OF g P(1)] gate in auto)
qed

lemma execute_finish_idle: "\<not> operation_in_progress (fst (execute_finish step oc rt))"
  by (cases rule: execute_finishE [of rt step oc]) simp_all

lemma synthesis_finish_idle:
  "\<not> operation_in_progress (fst (synthesis_finish step emitted aborted failed rt))"
  by (cases rule: synthesis_finishE [of step emitted aborted failed rt]) simp_all

lemma step_done_moves: assumes inv: "svc_inv sv" shows "svc_moves sv (fst (step_done n cb sv))"
proof (cases "pending_op n sv")
  case (Some p)
  note P = pending_invD [OF inv Some]
  show ?thesis
  proof (cases p)
    case (PendingStep r step)
    have finish: "svc_moves sv (set_runtime r (fst (execute_finish step oc (heap sv ! r))) (set_pending n None sv))"
      for oc
      using svc_end_moves [OF inv Some, of "fst (execute_finish step oc (heap sv ! r))"]
        moves_execute_finish execute_finish_idle gate_execute_finish P PendingStep by auto
    have cancel: "svc_moves sv (set_runtime r (mark_runtime_cancelled reason (heap sv ! r)) (set_pending n None sv))"
      for reason
      using svc_end_moves [OF inv Some, of "mark_runtime_cancelled reason (heap sv ! r)"]
        moves_mark_cancelled gate_mark_cancelled P PendingStep
      by (auto simp: current_def mark_runtime_cancelled_def)
    from finish cancel Some PendingStep show ?thesis
      by (cases cb) (auto simp: step_done_def Let_def case_prod_beta)
  qed (use Some inv in \<open>simp add: step_done_def svc_moves_refl\<close>)
qed (use inv in \<open>simp add: step_done_def svc_moves_refl\<close>)

lemma end_stream_moves:
  assumes inv: "svc_inv sv" and n: "pending_op n sv = Some (PendingSynthesis r step emitted)"
  shows "svc_moves sv (fst (end_stream n r step emitted aborted failed sv))"
  using svc_end_moves [OF inv n, of "fst (synthesis_finish step emitted aborted failed (heap sv ! r))"]
    moves_synthesis_finish synthesis_finish_idle gate_synthesis_finish pending_invD [OF inv n]
  by (auto simp: end_stream_def Let_def case_prod_beta)

lemma svc_emit:
  assumes inv: "svc_inv sv" and n: "pending_op n sv = Some (PendingSynthesis r step emitted)"
  shows "svc_moves sv (set_pending n (Some (PendingSynthesis r step True)) sv)"
proof -
  define p' where "p' = PendingSynthesis r step True"
  have like: "ref_of p' = r" "step_of p' = step" "is_synthesis p'" by (simp_all add: p'_def)
  have op1: "pending_op m (set_pending n (Some p') sv) = (if m = n then Some p' else pending_op m sv)" for m
    by (rule pending_op_set [OF n])
  have old: "\<exists>q. pending_op m sv = Some q \<and> ref_of q = ref_of p \<and> step_of q = step_of p \<and>
      is_synthesis q = is_synthesis p" if "pending_op m (set_pending n (Some p') sv) = Some p" for m p
    using that n op1 [of m] by (cases "m = n") (auto simp: like)
  have "pending_inv (set_pending n (Some p') sv)"
  proof (rule pending_invI)
    fix m p assume "pending_op m (set_pending n (Some p') sv) = Some p"
    then obtain q where "pending_op m sv = Some q" "ref_of q = ref_of p" "step_of q = step_of p"
      "is_synthesis q = is_synthesis p" using old by blast
    with pending_invD(1-3) [OF inv this(1)] show "ref_of p < length (heap (set_pending n (Some p') sv)) \<and>
        current (heap (set_pending n (Some p') sv) ! ref_of p) (step_of p) \<and>
        (st_type (step_of p) = ''respond'') = is_synthesis p" by simp
  next
    fix m k p q assume "pending_op m (set_pending n (Some p') sv) = Some p"
      "pending_op k (set_pending n (Some p') sv) = Some q" "ref_of p = ref_of q"
    then obtain p1 q1 where "pending_op m sv = Some p1" "pending_op k sv = Some q1" "ref_of p1 = ref_of q1"
      using old by metis
    then show "m = k" using pending_invD(4) [OF inv, of k q1] by simp
  next
    fix q assume "q < length (heap (set_pending n (Some p') sv))"
      "operation_in_progress (heap (set_pending n (Some p') sv) ! q)"
    then obtain m p where "pending_op m sv = Some p" "ref_of p = q"
      by (auto elim: pending_invE [OF inv, of q])
    then show "\<exists>m p. pending_op m (set_pending n (Some p') sv) = Some p \<and> ref_of p = q"
      using n op1 like(1) by (cases "m = n") auto
  qed
  with inv show ?thesis
    by (simp add: svc_moves_def svc_inv_def svc_forward_def gates_def store_inv_def p'_def)
qed

lemma text_item_moves: assumes inv: "svc_inv sv" shows "svc_moves sv (fst (text_item n text sv))"
  using end_stream_moves [OF inv] svc_emit [OF inv] svc_moves_refl [OF inv]
  by (auto simp: text_item_def split: option.splits pending.splits)

lemma stream_done_moves: assumes inv: "svc_inv sv" shows "svc_moves sv (fst (stream_done n how sv))"
  using end_stream_moves [OF inv] svc_moves_refl [OF inv]
  by (auto simp: stream_done_def split: option.splits pending.splits)

lemma store_cancel_moves:
  assumes inv: "svc_inv sv" shows "svc_moves sv (fst (store_cancel now k sid reason sv))"
proof -
  obtain sv1 found where get: "store_get now k sv = (sv1, found)" by fastforce
  have "store_inv sv" using inv by (simp add: svc_inv_def)
  from this get obtain S: "store_inv sv1" "same_objects sv sv1" "found = map_of (items sv1) k"
    by (rule store_getE)
  have mv1: "svc_moves sv sv1" by (rule svc_moves_same_objects [OF inv S(2,1)])
  then have inv1: "svc_inv sv1" by (simp add: svc_moves_def)
  have "svc_moves sv1 (set_runtime r (fst (cancel_runtime reason (heap sv1 ! r))) sv1)" if "found = Some r" for r
  proof -
    have r: "r < length (heap sv1)" using that S(1,3) store_found(1) by metis
    show ?thesis
    proof (rule svc_movesI [OF svc_keep [OF inv1 r moves_cancel_runtime]])
      assume g: "gates sv1"
      show "gates (set_runtime r (fst (cancel_runtime reason (heap sv1 ! r))) sv1)"
        using gatesD [OF g r]
        by (intro gates_set_runtime [OF g r heap_set_runtime cancel_runtime_plan] gate_cancel_runtime) simp
    qed (auto simp: cancel_runtime_def)
  qed
  with get mv1 show ?thesis
    by (auto simp: store_cancel_def case_prod_beta split: option.split intro: svc_moves_trans)
qed

lemma rt_inv_new: "rt_inv (new_runtime now pid req plan)"
  by (simp add: rt_inv_def new_runtime_def)

lemma gate_new: assumes "plan_ok plan" shows "gate (new_runtime now pid req plan)"
proof -
  have "\<not> terminal (steps plan ! 0)" if "0 < length (steps plan)"
    using plan_ok_terminal(1) [OF assms that] by auto
  then show ?thesis by (auto simp: gate_def new_runtime_def plan_steps_def)
qed

lemma store_put_moves:
  assumes inv: "svc_inv sv" and rt: "rt_inv rt" "\<not> operation_in_progress rt"
  shows "svc_inv (store_put now rt sv) \<and> svc_forward sv (store_put now rt sv)"
    and "gates sv \<Longrightarrow> plan_ok (rt_plan rt) \<Longrightarrow> gate rt \<Longrightarrow> gates (store_put now rt sv)"
proof -
  define sv1 where "sv1 = store_put now rt sv"
  have "store_inv sv" using inv by (simp add: svc_inv_def)
  note P = store_put_inv [OF this, of now rt, folded sv1_def]
  have op1: "pending_op n sv1 = pending_op n sv" for n by (simp add: pending_op_def P(3))
  have old: "heap sv1 ! r = heap sv ! r" if "r < length (heap sv)" for r
    using that by (simp add: P(2) nth_append)
  have "pending_inv sv1"
  proof (rule pending_invI)
    fix n p assume "pending_op n sv1 = Some p"
    with op1 have "pending_op n sv = Some p" by simp
    from pending_invD(1-3) [OF inv this] show "ref_of p < length (heap sv1) \<and>
        current (heap sv1 ! ref_of p) (step_of p) \<and> (st_type (step_of p) = ''respond'') = is_synthesis p"
      by (simp add: old P(2) nth_append)
  next
    fix n m p q assume "pending_op n sv1 = Some p" "pending_op m sv1 = Some q" "ref_of p = ref_of q"
    then show "n = m" using pending_invD(4) [OF inv, of m q] op1 by simp
  next
    fix r assume r: "r < length (heap sv1)" "operation_in_progress (heap sv1 ! r)"
    have "r \<noteq> length (heap sv)" using r(2) rt(2) by (auto simp: P(2))
    with r have "r < length (heap sv)" "operation_in_progress (heap sv ! r)"
      using old by (simp_all add: P(2))
    from pending_invE [OF inv this] show "\<exists>n p. pending_op n sv1 = Some p \<and> ref_of p = r"
      using op1 by metis
  qed
  moreover have "rt_inv (heap sv1 ! r)" if "r < length (heap sv1)" for r
    using that inv rt(1) by (auto simp: P(2) nth_append svc_inv_def)
  ultimately show "svc_inv (store_put now rt sv) \<and> svc_forward sv (store_put now rt sv)"
    using P(1,2) old by (simp add: svc_inv_def svc_forward_def sv1_def)
  show "gates (store_put now rt sv)" if "gates sv" "plan_ok (rt_plan rt)" "gate rt"
    using that by (auto simp: gates_def P(2) [unfolded sv1_def] nth_append intro: less_SucE)
qed

lemma plan_complex_cases:
  obtains "fst (plan_complex now hex req planning sv) = sv"
  | plan n where "planning = Planned plan n"
    "fst (plan_complex now hex req planning sv) = store_put now (new_runtime now (''wf_'' @ hex) req plan) sv"
  by (cases planning; cases "validate_plan_request req = None") (simp_all add: plan_complex_def Let_def)

lemma plan_complex_moves:
  assumes inv: "svc_inv sv"
  shows "svc_inv (fst (plan_complex now hex req planning sv)) \<and>
      svc_forward sv (fst (plan_complex now hex req planning sv))"
    and "(\<And>plan n. planning = Planned plan n \<Longrightarrow> plan_ok plan) \<Longrightarrow> gates sv \<Longrightarrow>
      gates (fst (plan_complex now hex req planning sv))"
proof -
  have new: "\<not> operation_in_progress (new_runtime now pid req plan)"
    "rt_plan (new_runtime now pid req plan) = plan" for pid plan
    by (simp_all add: new_runtime_def)
  note put = store_put_moves [OF inv rt_inv_new new(1)]
  show "svc_inv (fst (plan_complex now hex req planning sv)) \<and>
      svc_forward sv (fst (plan_complex now hex req planning sv))"
    by (cases rule: plan_complex_cases [of now hex req planning sv])
      (use put inv svc_forward_refl in auto)
  show "gates (fst (plan_complex now hex req planning sv))"
    if "\<And>plan n. planning = Planned plan n \<Longrightarrow> plan_ok plan" "gates sv"
    by (cases rule: plan_complex_cases [of now hex req planning sv])
      (use put(2) that gate_new new(2) in auto)
qed

fun plans_valid :: "event \<Rightarrow> bool" where
  "plans_valid (Plan now hex req (Planned plan n)) = plan_ok plan"
| "plans_valid _ = True"

lemma service_step_moves:
  assumes inv: "svc_inv sv"
  shows "svc_inv (fst (service_step sv e)) \<and> svc_forward sv (fst (service_step sv e))"
    and "plans_valid e \<Longrightarrow> gates sv \<Longrightarrow> gates (fst (service_step sv e))"
proof -
  have other: "svc_moves sv (fst (service_step sv e))" if "\<And>now hex req p. e \<noteq> Plan now hex req p"
  proof (cases e)
    case (Cancel now req)
    then show ?thesis
      using store_cancel_moves [OF inv] svc_moves_refl [OF inv]
      by (simp add: cancel_workflow_def Let_def case_prod_beta)
  next
    case (Snapshot now)
    have "store_inv sv" using inv by (simp add: svc_inv_def)
    from svc_moves_same_objects [OF inv purge_store_inv(2,1) [OF this]] Snapshot show ?thesis
      by (simp add: store_snapshot_def Let_def)
  qed (use that execute_step_moves [OF inv] stream_synthesis_moves [OF inv] step_done_moves [OF inv]
      text_item_moves [OF inv] stream_done_moves [OF inv] svc_moves_refl [OF inv] in simp_all)
  show "svc_inv (fst (service_step sv e)) \<and> svc_forward sv (fst (service_step sv e))"
  proof (cases "\<exists>now hex req p. e = Plan now hex req p")
    case True
    then show ?thesis using plan_complex_moves(1) [OF inv] by (auto simp: case_prod_beta)
  next
    case False
    with other show ?thesis by (auto simp: svc_moves_def)
  qed
  show "gates (fst (service_step sv e))" if ok: "plans_valid e" and g: "gates sv"
  proof (cases "\<exists>now hex req p. e = Plan now hex req p")
    case True
    then obtain now hex req p where e: "e = Plan now hex req p" by blast
    have "gates (fst (plan_complex now hex req p sv))"
      by (rule plan_complex_moves(2) [OF inv _ g]) (use ok e in auto)
    with e show ?thesis by (simp add: case_prod_beta)
  next
    case False
    with other g show ?thesis by (auto simp: svc_moves_def)
  qed
qed

interpretation svc: monotone_system service_step svc_inv "\<lambda>_. True" svc_forward
  by unfold_locales
    (auto intro: svc_forward_refl svc_forward_trans dest: service_step_moves(1))

interpretation gated: transition_system service_step "\<lambda>sv. svc_inv sv \<and> gates sv" plans_valid
  by unfold_locales (auto dest: service_step_moves)

lemma svc_start [simp]: "svc_inv (service_start max_n ttl)" "gates (service_start max_n ttl)"
  by (auto simp: service_start_def svc_inv_def store_inv_def gates_def pending_op_def intro!: pending_invI)

end
