(* ===== verification/Workflow_Runtime_Theorems.thy ===== *)
theory Workflow_Runtime_Theorems
  imports Workflow_Runtime_Facts
begin

text \<open>
  The properties of the workflow runtime over all interleavings: steps start in plan order
  and at most once, the terminal step waits for the playback report, cancelled and finished
  workflows start nothing, a busy workflow always has the one operation that will release
  it, and the store stays within its capacity.
\<close>

subsection \<open>The steps a run starts\<close>

fun started_by :: "reply \<Rightarrow> (ref \<times> nat) list" where
  "started_by (StepStarted r i step) = [(r, i)]"
| "started_by (SynthesisStarted r i step) = [(r, i)]"
| "started_by _ = []"

definition started :: "ref \<Rightarrow> reply list \<Rightarrow> nat list" where
  \<comment> \<open>the plan positions at which callbacks for workflow \<open>r\<close> were called, in order\<close>
  "started r replies = map snd (filter (\<lambda>(q, i). q = r) (concat (map started_by replies)))"

definition log_inv :: "service \<Rightarrow> reply list \<Rightarrow> bool" where
  "log_inv sv replies \<longleftrightarrow> svc_inv sv \<and>
     (\<forall>r. sorted_wrt (<) (started r replies) \<and>
       (\<forall>i \<in> set (started r replies). r < length (heap sv) \<and> passed (heap sv ! r) i))"

lemma started_snoc:
  "started r (replies @ [reply]) =
    started r replies @ map snd (filter (\<lambda>(q, i). q = r) (started_by reply))"
  by (simp add: started_def)

lemma available_passed: "available rt step \<Longrightarrow> passed rt i \<Longrightarrow> i < next_index rt"
  by (auto simp: passed_def available_def)

lemma service_step_started:
  assumes inv: "svc_inv sv" and st: "started_by (snd (service_step sv e)) = [(r, i)]"
  shows "r < length (heap sv)" "\<And>j. passed (heap sv ! r) j \<Longrightarrow> j < i" "\<not> final (status (heap sv ! r))"
    "passed (heap (fst (service_step sv e)) ! r) i"
proof -
  have "r < length (heap sv) \<and> (\<forall>j. passed (heap sv ! r) j \<longrightarrow> j < i) \<and> \<not> final (status (heap sv ! r)) \<and>
      passed (heap (fst (service_step sv e)) ! r) i"
  proof (cases e)
    case (Execute now req)
    obtain sv' reply where ex: "execute_step now req sv = (sv', reply)" by fastforce
    from inv ex show ?thesis
    proof (cases rule: execute_step_cases)
      case (Answered resp)
      with st Execute ex show ?thesis by simp
    next
      case (Started q step sv1)
      with st Execute ex have "q = r" "i = next_index (heap sv ! r)" by auto
      with Started ex Execute available_passed [OF Started(4)] show ?thesis
        by (auto simp: passed_def begun_def available_def)
    qed
  next
    case (Synthesize now req)
    obtain sv' reply where ex: "stream_synthesis now req sv = (sv', reply)" by fastforce
    from inv ex show ?thesis
    proof (cases rule: stream_synthesis_cases)
      case (Answered resp)
      with st Synthesize ex show ?thesis by simp
    next
      case (Started q step sv1)
      with st Synthesize ex have "q = r" "i = next_index (heap sv ! r)" by auto
      with Started ex Synthesize available_passed [OF Started(4)] show ?thesis
        by (auto simp: passed_def begun_def available_def)
    qed
  qed (use st in \<open>auto simp: step_done_def text_item_def stream_done_def end_stream_def
      cancel_workflow_def Let_def case_prod_beta split: option.splits pending.splits callback.splits if_splits\<close>)
  then show "r < length (heap sv)" "\<And>j. passed (heap sv ! r) j \<Longrightarrow> j < i" "\<not> final (status (heap sv ! r))"
    "passed (heap (fst (service_step sv e)) ! r) i" by blast+
qed

lemma started_by_cases:
  obtains "started_by reply = []" | r i where "started_by reply = [(r, i)]"
  by (cases reply) auto

lemma log_inv_step:
  assumes "log_inv sv replies"
  shows "log_inv (fst (service_step sv e)) (replies @ [snd (service_step sv e)])"
proof -
  define sv1 reply where "sv1 = fst (service_step sv e)" and "reply = snd (service_step sv e)"
  have inv: "svc_inv sv" using assms by (simp add: log_inv_def)
  have nxt: "svc_inv sv1" "svc_forward sv sv1" using service_step_moves(1) [OF inv] by (simp_all add: sv1_def)
  have old: "r < length (heap sv1) \<and> passed (heap sv1 ! r) i" if "i \<in> set (started r replies)" for r i
  proof -
    have "r < length (heap sv)" "passed (heap sv ! r) i" using that assms by (auto simp: log_inv_def)
    with nxt(2) show ?thesis by (auto simp: svc_forward_def rt_forward_def)
  qed
  show ?thesis
  proof (cases reply rule: started_by_cases)
    case 1
    then have "started r (replies @ [reply]) = started r replies" for r by (simp add: started_snoc)
    with assms old nxt show ?thesis by (simp add: log_inv_def sv1_def [symmetric] reply_def [symmetric])
  next
    case (2 q k)
    note S = service_step_started [OF inv, of e q k, folded sv1_def reply_def, OF 2]
    have q: "q < length (heap sv1)" using S(1) nxt(2) by (simp add: svc_forward_def)
    have before: "i < k" if "i \<in> set (started q replies)" for i
      using that assms S(2) by (auto simp: log_inv_def)
    have "started r (replies @ [reply]) = started r replies @ (if r = q then [k] else [])" for r
      using 2 by (simp add: started_snoc)
    with assms old nxt before q S(4) show ?thesis
      by (simp add: log_inv_def sv1_def [symmetric] reply_def [symmetric] sorted_wrt_append)
  qed
qed

interpretation logged: observed_system service_step log_inv "\<lambda>_. True" "\<lambda>l e r. l @ [r]"
  by unfold_locales (rule log_inv_step)

lemma started_sorted: "sorted_wrt (<) (started r (run_replies service_step (service_start m ttl) es))"
proof -
  have "log_inv (service_start m ttl) []" by (simp add: log_inv_def started_def)
  from logged.inv_run_log [OF this] show ?thesis by (simp add: foldl_snoc_replies log_inv_def)
qed

abbreviation after :: "nat \<Rightarrow> seconds \<Rightarrow> event list \<Rightarrow> service" where
  "after max_n ttl es \<equiv> run_state service_step (service_start max_n ttl) es"

lemma after_inv: "svc_inv (after m ttl es)"
  by (rule svc.inv_run) simp_all

lemma after_gates: "\<forall>e \<in> set es. plans_valid e \<Longrightarrow> gates (after m ttl es)"
  using gated.inv_run [of "service_start m ttl" es] by simp

lemma final_starts_nothing:
  assumes "svc_inv sv" "r < length (heap sv)" "final (status (heap sv ! r))"
  shows "started r (run_replies service_step sv es) = []"
  using assms
proof (induction es arbitrary: sv)
  case Nil
  then show ?case by (simp add: started_def)
next
  case (Cons e es)
  note M = service_step_moves(1) [OF Cons.prems(1), of e]
  then have "r < length (heap (fst (service_step sv e)))" "final (status (heap (fst (service_step sv e)) ! r))"
    using Cons.prems by (auto simp: svc_forward_def rt_forward_def)
  with Cons.IH M have rest: "started r (run_replies service_step (fst (service_step sv e)) es) = []" by blast
  have "filter (\<lambda>(q, i). q = r) (started_by (snd (service_step sv e))) = []"
  proof (cases "snd (service_step sv e)" rule: started_by_cases)
    case (2 q k)
    with service_step_started(3) [OF Cons.prems(1) 2] Cons.prems(3) show ?thesis by auto
  qed simp
  with rest show ?case by (simp add: run_simps started_def)
qed

subsection \<open>A run\<close>

text \<open>Plan, look, query the weather, answer, hang up after the playback is reported; with a
  step request out of order and a hang-up request before the report in between.\<close>

definition sample_plan_request :: plan_request where
  "sample_plan_request = \<lparr>pr_text = ''hi'', pr_session_id = ''s'', pr_bot_id = ''b'',
     pr_robot_id = ''r'', pr_trace_id = ''t'', pr_round_id = ''1''\<rparr>"

definition sample_step_request :: "string \<Rightarrow> bool \<Rightarrow> step_request" where
  "sample_step_request sid played = \<lparr>sr_plan_id = ''wf_a'', sr_session_id = ''s'', sr_robot_id = ''r'',
     sr_trace_id = ''t'', sr_round_id = ''1'', sr_step_id = sid, sr_playback_completed = played,
     sr_playback_id = ''p''\<rparr>"

definition sample_outcome :: "json \<Rightarrow> callback" where
  "sample_outcome v = Returned \<lparr>oc_success = True, oc_status = ''success'', oc_result = v, oc_error_code = []\<rparr>"

definition sample_synthesis :: event where
  "sample_synthesis = Synthesize 3 \<lparr>sy_plan_id = ''wf_a'', sy_session_id = ''s'', sy_bot_id = ''b'',
     sy_robot_id = ''r'', sy_trace_id = ''t'', sy_round_id = ''1'', sy_playback_id = ''p''\<rparr>"

definition sample_events :: "event list" where
  "sample_events =
     [Plan 0 ''a'' sample_plan_request (Planned accepted_sample 1),
      Execute 1 (sample_step_request ''step_2'' False),
      Execute 1 (sample_step_request ''step_1'' False),
      StepDone 0 (sample_outcome (JObj [(''sky'', JStr ''rain'')])),
      Execute 2 (sample_step_request ''step_2'' False),
      StepDone 1 (sample_outcome (JStr ''21 C'')),
      sample_synthesis, TextItem 2 (Some ''It rains''), StreamDone 2 Exhausted,
      Execute 4 (sample_step_request ''step_3'' False)]"

definition sample_hangup :: event where
  "sample_hangup = Execute 5 (sample_step_request ''step_3'' True)"

lemma sample_run:
  "(let sv = after 4 900 sample_events; (sv1, r) = service_step sv sample_hangup
    in started 0 (run_replies service_step (service_start 4 900) sample_events) = [0, 1, 2] \<and>
       status (heap sv ! 0) = WAITING_PLAYBACK \<and>
       (case r of StepStarted r i step \<Rightarrow> r = 0 \<and> i = 3 \<and> st_id step = ''step_3'' \<and> terminal step | _ \<Rightarrow> False))"
  by code_simp

fun planned_by_validator :: "event \<Rightarrow> bool" where
  \<comment> \<open>the planner only returns what \<open>validate_workflow_plan\<close> accepted\<close>
  "planned_by_validator (Plan now hex req (Planned plan n)) =
     (\<exists>schemas terminals raw. validate_workflow_plan schemas terminals raw = Inr plan)"
| "planned_by_validator _ = True"

lemma plan_ok_validated:
  assumes "validate_workflow_plan schemas terminals raw = Inr plan" shows "plan_ok plan"
proof -
  have "condition_ready (take i (steps plan)) (steps plan ! i)" if "i < length (steps plan)" for i
    by (rule accepted_plan_conditions [OF assms id_take_nth_drop [OF that]])
  then show ?thesis
    using accepted_plan_order(3) [OF assms] assms by (auto simp: plan_ok_def elim: validate_workflow_planE)
qed

lemma plans_valid_validated: "planned_by_validator e \<Longrightarrow> plans_valid e"
  by (cases e rule: plans_valid.cases) (auto intro: plan_ok_validated)

lemma sample_events_validated: "\<forall>e \<in> set sample_events. planned_by_validator e"
  using sample_accepted by (auto simp: sample_events_def sample_synthesis_def)

lemma sample_hangup_starts:
  obtains step where
    "snd (service_step (after 4 900 sample_events) sample_hangup) = StepStarted 0 3 step" "terminal step"
proof (cases "snd (service_step (after 4 900 sample_events) sample_hangup)")
  case (StepStarted r i step)
  with sample_run that show thesis by (auto simp: Let_def case_prod_beta)
qed (use sample_run in \<open>auto simp: Let_def case_prod_beta\<close>)

subsection \<open>Properties\<close>

text \<open>C6: In every interleaving of requests, callbacks, cancellations and expiries, the callbacks
  for the steps of one workflow are called at strictly increasing positions of its plan: a
  step is started at most once, and never after a later one.\<close>

theorem steps_start_once_and_in_plan_order:
  "sorted_wrt (<) (started r (run_replies service_step (service_start max_n ttl) es))"
  by (rule started_sorted)

text \<open>C2: If the planner returns only validated plans, then whenever \<open>ExecuteStep\<close> starts a
  terminal step, the workflow is waiting for its playback, the request reports the playback
  as completed under the (non-empty) playback id that \<open>StreamSynthesis\<close> was given, the step
  is the last of the plan, and every other step has a recorded result.\<close>

theorem terminal_step_waits_for_playback:
  assumes "\<forall>e \<in> set es. planned_by_validator e"
    and "snd (service_step (after max_n ttl es) (Execute now req)) = StepStarted r i step"
    and "terminal step"
  shows "let rt = heap (after max_n ttl es) ! r in
    status rt = WAITING_PLAYBACK \<and> sr_playback_completed req \<and>
    sr_playback_id req = expected_playback_id rt \<and> expected_playback_id rt \<noteq> [] \<and>
    Suc i = length (plan_steps rt) \<and> st_id ` set (take i (plan_steps rt)) \<subseteq> set (keys (results rt))"
proof -
  let ?sv = "after max_n ttl es"
  have inv: "svc_inv ?sv" and g: "gates ?sv"
    using after_inv after_gates assms(1) plans_valid_validated by blast+
  obtain sv' reply where ex: "execute_step now req ?sv = (sv', reply)" by fastforce
  from inv ex show ?thesis
  proof (cases rule: execute_step_cases)
    case (Answered resp)
    with assms(2) ex show ?thesis by simp
  next
    case (Started q s sv1)
    with assms(2) ex have eq: "q = r" "s = step" "i = next_index (heap ?sv ! r)" by auto
    have r: "r < length (heap ?sv)" using Started eq by simp
    then have rt: "rt_inv (heap ?sv ! r)" using inv by (simp add: svc_inv_def)
    have avail: "available (heap ?sv ! r) step" and ok: "playback_ok req (heap ?sv ! r) step"
      using Started eq by simp_all
    have "Suc i = length (plan_steps (heap ?sv ! r))"
      using plan_ok_terminal(6) [of "rt_plan (heap ?sv ! r)" i] gatesD [OF g r] avail assms(3) eq(3)
      by (auto simp: available_def plan_steps_def)
    with gate_started [OF _ rt avail assms(3) ok] gatesD [OF g r] rt eq(3) show ?thesis
      by (simp add: rt_inv_def)
  qed
qed

theorem terminal_step_waits_for_playback_witness:
  "status (heap (after 4 900 sample_events) ! 0) = WAITING_PLAYBACK \<and>
   ''p'' = expected_playback_id (heap (after 4 900 sample_events) ! 0)"
proof -
  obtain step where st: "snd (service_step (after 4 900 sample_events) sample_hangup) = StepStarted 0 3 step"
      "terminal step" by (rule sample_hangup_starts)
  from terminal_step_waits_for_playback [OF sample_events_validated st(1) [unfolded sample_hangup_def] st(2)]
  show ?thesis by (simp add: Let_def sample_step_request_def)
qed

text \<open>Once a workflow has completed, exited, failed or been cancelled, its status never
  changes again and no further step of it is started, whatever requests and callbacks follow.\<close>

theorem finished_workflow_starts_nothing:
  assumes "r < length (heap (after max_n ttl es))"
    and "status (heap (after max_n ttl es) ! r) \<in> {COMPLETED, EXITED, FAILED, CANCELLED}"
  shows "started r (run_replies service_step (after max_n ttl es) fs) = [] \<and>
    status (heap (run_state service_step (after max_n ttl es) fs) ! r) = status (heap (after max_n ttl es) ! r)"
proof
  have fin: "final (status (heap (after max_n ttl es) ! r))" using assms(2) by (simp add: final_def)
  then show "started r (run_replies service_step (after max_n ttl es) fs) = []"
    using final_starts_nothing after_inv assms(1) by blast
  show "status (heap (run_state service_step (after max_n ttl es) fs) ! r) =
      status (heap (after max_n ttl es) ! r)"
    using svc.forward_run [OF after_inv, of fs max_n ttl es] fin assms(1)
    by (simp add: svc_forward_def rt_forward_def)
qed

definition sample_cancel :: event where
  "sample_cancel = Cancel 5 \<lparr>cr_plan_id = ''wf_a'', cr_session_id = ''s'', cr_reason = []\<rparr>"

theorem finished_workflow_starts_nothing_witness:
  "started 0 (run_replies service_step (after 4 900 (sample_events @ [sample_cancel])) [sample_hangup]) = []"
proof -
  have "(let sv = after 4 900 (sample_events @ [sample_cancel])
         in 0 < length (heap sv) \<and> status (heap sv ! 0) = CANCELLED)" by code_simp
  then show ?thesis
    by (intro finished_workflow_starts_nothing [THEN conjunct1]) (simp_all add: Let_def)
qed

text \<open>C15: \<open>CancelWorkflow\<close> answers \<open>cancelled\<close> only when it found a workflow of that plan id and
  session and that workflow is now cancelled; from then on nothing of it is started.\<close>

theorem acknowledged_cancel_stops_workflow:
  assumes "service_step (after max_n ttl es) (Cancel now req) = (sv', CancelReply True True)"
  shows "\<exists>r < length (heap sv').
    rt_plan_id (heap sv' ! r) = py_strip (cr_plan_id req) \<and>
    rt_session_id (heap sv' ! r) = py_strip (cr_session_id req) \<and>
    status (heap sv' ! r) = CANCELLED \<and> started r (run_replies service_step sv' fs) = []"
proof -
  let ?sv = "after max_n ttl es"
  obtain reason sv1 where sc: "store_cancel now (py_strip (cr_plan_id req)) (py_strip (cr_session_id req)) reason ?sv
      = (sv1, True)" "sv' = sv1"
    using assms by (auto simp: cancel_workflow_def Let_def case_prod_beta prod_eq_iff split: if_splits)
  obtain sv2 found where get: "store_get now (py_strip (cr_plan_id req)) ?sv = (sv2, found)" by fastforce
  have "store_inv ?sv" using after_inv by (simp add: svc_inv_def)
  from this get obtain S: "store_inv sv2" "same_objects ?sv sv2" "found = map_of (items sv2) (py_strip (cr_plan_id req))"
    by (rule store_getE)
  from sc(1) get obtain r where r: "found = Some r" "rt_session_id (heap sv2 ! r) = py_strip (cr_session_id req)"
      "cancel_runtime reason (heap sv2 ! r) = (fst (cancel_runtime reason (heap sv2 ! r)), True)"
      "sv' = set_runtime r (fst (cancel_runtime reason (heap sv2 ! r))) sv2"
    using sc(2) by (auto simp: store_cancel_def case_prod_beta prod_eq_iff split: option.splits if_splits)
  note R = store_found [OF S(1), of "py_strip (cr_plan_id req)" r]
  have len: "r < length (heap sv')" using R r(1,4) S(3) by simp
  have "rt_plan_id (heap sv' ! r) = py_strip (cr_plan_id req)"
    "rt_session_id (heap sv' ! r) = py_strip (cr_session_id req)" "status (heap sv' ! r) = CANCELLED"
    using R r S(3) by (auto simp: cancel_runtime_def split: if_splits)
  moreover have "svc_inv sv'"
    using service_step_moves(1) [OF after_inv [of max_n ttl es], of "Cancel now req"]
    unfolding assms by simp
  ultimately show ?thesis using final_starts_nothing [of sv' r fs] len by auto
qed

theorem acknowledged_cancel_stops_workflow_witness:
  "\<exists>sv'. fst (service_step (after 4 900 sample_events) sample_cancel) = sv' \<and>
     (\<exists>r < length (heap sv'). status (heap sv' ! r) = CANCELLED \<and>
        started r (run_replies service_step sv' [sample_hangup]) = [])"
proof -
  have "snd (service_step (after 4 900 sample_events) sample_cancel) = CancelReply True True" by code_simp
  then have c: "service_step (after 4 900 sample_events) sample_cancel =
      (fst (service_step (after 4 900 sample_events) sample_cancel), CancelReply True True)"
    by (metis prod.collapse)
  from acknowledged_cancel_stops_workflow [OF c [unfolded sample_cancel_def], folded sample_cancel_def]
  show ?thesis by blast
qed

text \<open>\<open>operation_in_progress\<close> is never left set: in every reachable state a workflow is
  marked busy exactly when one operation in flight holds it, and that operation is unique, so
  the answer \<open>workflow_busy\<close> always has an operation that will end it.\<close>

theorem busy_iff_one_operation_in_flight:
  assumes "r < length (heap (after max_n ttl es))"
  shows "operation_in_progress (heap (after max_n ttl es) ! r) \<longleftrightarrow>
    (\<exists>!n. \<exists>p. pending_op n (after max_n ttl es) = Some p \<and> ref_of p = r)"
proof
  assume "operation_in_progress (heap (after max_n ttl es) ! r)"
  then obtain n p where np: "pending_op n (after max_n ttl es) = Some p" "ref_of p = r"
    using pending_invE [OF after_inv assms] by blast
  then show "\<exists>!n. \<exists>p. pending_op n (after max_n ttl es) = Some p \<and> ref_of p = r"
  proof (intro ex1I [of _ n])
    fix m assume "\<exists>p. pending_op m (after max_n ttl es) = Some p \<and> ref_of p = r"
    then obtain q where "pending_op m (after max_n ttl es) = Some q" "ref_of q = ref_of p"
      using np(2) by auto
    then show "m = n" by (rule pending_invD(4) [OF after_inv np(1)])
  qed (use np in blast)
next
  assume "\<exists>!n. \<exists>p. pending_op n (after max_n ttl es) = Some p \<and> ref_of p = r"
  then obtain n p where "pending_op n (after max_n ttl es) = Some p" "ref_of p = r" by blast
  with pending_invD(2) [OF after_inv this(1)] show "operation_in_progress (heap (after max_n ttl es) ! r)"
    by (simp add: current_def)
qed

theorem busy_iff_one_operation_in_flight_witness:
  "\<exists>!n. \<exists>p. pending_op n (after 4 900 (take 3 sample_events)) = Some p \<and> ref_of p = 0"
proof -
  have "(let sv = after 4 900 (take 3 sample_events)
         in 0 < length (heap sv) \<and> operation_in_progress (heap sv ! 0))" by code_simp
  then show ?thesis
    using busy_iff_one_operation_in_flight [of 0 4 900 "take 3 sample_events"] by (simp add: Let_def)
qed

text \<open>If the planner returns only validated plans, then whenever a workflow stands idle before
  a conditional step, the vision step the condition reads has a recorded result; so
  \<open>condition_unavailable\<close> is answered exactly when that step did not succeed.\<close>

theorem condition_source_is_recorded:
  assumes "\<forall>e \<in> set es. planned_by_validator e" and "r < length (heap (after max_n ttl es))"
    and "available (heap (after max_n ttl es) ! r) step" and "condition step = Some c"
  shows "\<exists>result. map_of (results (heap (after max_n ttl es) ! r)) (source_step_id c) = Some result \<and>
    (condition_result (heap (after max_n ttl es) ! r) step = None \<longleftrightarrow> rs_status result \<noteq> ''success'')"
proof -
  let ?rt = "heap (after max_n ttl es) ! r"
  have g: "plan_ok (rt_plan ?rt)"
    using gatesD [OF after_gates assms(2)] assms(1) plans_valid_validated by blast
  have "rt_inv ?rt" using after_inv assms(2) by (auto simp: svc_inv_def)
  then have recorded: "st_id ` set (take (next_index ?rt) (plan_steps ?rt)) \<subseteq> set (keys (results ?rt))"
    by (simp add: rt_inv_def)
  have "condition_ready (take (next_index ?rt) (plan_steps ?rt)) step"
    using g assms(3) by (auto simp: plan_ok_def available_def plan_steps_def)
  then obtain src where "src \<in> set (take (next_index ?rt) (plan_steps ?rt))" "st_id src = source_step_id c"
    using assms(4) by (auto simp: condition_ready_def list_ex_iff)
  then have "source_step_id c \<in> set (keys (results ?rt))"
    using recorded by (metis image_eqI subsetD)
  then obtain result where "map_of (results ?rt) (source_step_id c) = Some result"
    unfolding map_of_keys by blast
  with assms(4) show ?thesis by (auto simp: condition_result_def Let_def)
qed

theorem condition_source_is_recorded_witness:
  "\<exists>result. map_of (results (heap (after 4 900 (take 4 sample_events)) ! 0)) ''step_1'' = Some result \<and>
     (condition_result (heap (after 4 900 (take 4 sample_events)) ! 0) (steps accepted_sample ! 1) = None
      \<longleftrightarrow> rs_status result \<noteq> ''success'')"
proof -
  have ok: "\<forall>e \<in> set (take 4 sample_events). planned_by_validator e"
    using sample_events_validated by (auto dest: in_set_takeD)
  have "(let sv = after 4 900 (take 4 sample_events); rt = heap sv ! 0
      in 0 < length (heap sv) \<and> available rt (steps accepted_sample ! 1) \<and>
         (case condition (steps accepted_sample ! 1) of None \<Rightarrow> False | Some c \<Rightarrow> source_step_id c = ''step_1''))"
    by code_simp
  then obtain c where
    c: "0 < length (heap (after 4 900 (take 4 sample_events)))"
      "available (heap (after 4 900 (take 4 sample_events)) ! 0) (steps accepted_sample ! 1)"
      "condition (steps accepted_sample ! 1) = Some c" "source_step_id c = ''step_1''"
    by (auto simp: Let_def split: option.splits)
  from condition_source_is_recorded [OF ok c(1-3)] c(4) show ?thesis by simp
qed

text \<open>The store never holds more than \<open>max_entries\<close> workflows, and a plan that \<open>PlanComplex\<close>
  accepts can be resolved under the plan id of the answer, with the identity of its request.\<close>

theorem planned_workflow_is_stored:
  assumes "service_step (after max_n ttl es) (Plan now hex req planning) = (sv', PlanReply resp)"
    and "pp_success resp" and "0 < max_n"
  shows "length (items sv') \<le> max_n \<and> pp_plan_id resp = ''wf_'' @ hex \<and>
    (\<exists>r plan n. planning = Planned plan n \<and> map_of (items sv') (pp_plan_id resp) = Some r \<and>
       heap sv' ! r = new_runtime now (pp_plan_id resp) req plan)"
proof -
  let ?sv = "after max_n ttl es"
  have max_run: "max_entries (run_state service_step sv es) = max_entries sv" for sv es
  proof (induction es arbitrary: sv)
    case (Cons e es)
    have "max_entries (fst (service_step sv e)) = max_entries sv"
      by (cases e) (auto simp: plan_complex_def execute_step_def step_done_def stream_synthesis_def
          text_item_def stream_done_def end_stream_def cancel_workflow_def store_cancel_def
          store_get_def store_put_def store_snapshot_def purge_store_def resolve_runtime_def
          start_pending_def set_pending_def set_runtime_def Let_def case_prod_beta
          split: planning.split option.split sum.split pending.split callback.split)
    with Cons show ?case by (simp add: run_simps)
  qed simp
  have max: "max_entries ?sv = max_n" by (simp add: max_run service_start_def)
  from assms(1,2) obtain plan n where p: "planning = Planned plan n" "pp_plan_id resp = ''wf_'' @ hex"
      "sv' = store_put now (new_runtime now (''wf_'' @ hex) req plan) ?sv"
    by (auto simp: plan_complex_def plan_failure_def Let_def case_prod_beta prod_eq_iff
        split: planning.splits if_splits)
  define rt where "rt = new_runtime now (''wf_'' @ hex) req plan"
  have stored: "sv' = store_put now rt ?sv" using p(3) by (simp add: rt_def)
  have id: "rt_plan_id rt = ''wf_'' @ hex" by (simp add: rt_def new_runtime_def)
  have sinv: "store_inv ?sv" using after_inv by (simp add: svc_inv_def)
  note P = store_put_inv [OF sinv, of now rt]
  define d where "d = AList.update (rt_plan_id rt) (length (heap ?sv)) (items (purge_store now ?sv))"
  have sv': "items sv' = od_trim max_n (od_move_to_end (rt_plan_id rt) d)"
    by (simp add: stored store_put_def Let_def d_def max purge_store_def)
  have found: "map_of d (rt_plan_id rt) = Some (length (heap ?sv))" by (simp add: d_def map_of_update)
  then have ne: "od_move_to_end (rt_plan_id rt) d \<noteq> []" by (simp add: od_move_to_end_def)
  from last_od_trim [OF assms(3) ne] last_move_to_end [OF found]
  have "(rt_plan_id rt, length (heap ?sv)) \<in> set (items sv')" unfolding sv' by (metis last_in_set)
  moreover have "distinct (keys (items sv'))" "length (items sv') \<le> max_n"
    using P(1) unfolding sv' by (simp_all add: stored [symmetric] store_inv_def sv' length_od_trim)
  ultimately have "map_of (items sv') (rt_plan_id rt) = Some (length (heap ?sv))" by simp
  moreover have "heap sv' ! length (heap ?sv) = rt" using P(2) by (simp add: stored)
  ultimately show ?thesis using p(1,2) id \<open>length (items sv') \<le> max_n\<close> by (auto simp: rt_def)
qed

definition sample_planning :: event where
  "sample_planning = Plan 0 ''a'' sample_plan_request (Planned accepted_sample 1)"

theorem planned_workflow_is_stored_witness:
  "length (items (fst (service_step (after 1 900 []) sample_planning))) \<le> 1 \<and>
   map_of (items (fst (service_step (after 1 900 []) sample_planning))) ''wf_a'' \<noteq> None"
proof -
  have "validate_plan_request sample_plan_request = None" by code_simp
  then obtain resp where "service_step (after 1 900 []) sample_planning
      = (fst (service_step (after 1 900 []) sample_planning), PlanReply resp)" "pp_success resp"
    by (auto simp: sample_planning_def plan_complex_def Let_def)
  from planned_workflow_is_stored [OF this [unfolded sample_planning_def], folded sample_planning_def]
  show ?thesis by auto
qed

end
