(* ===== verification/Turn_Gate.thy ===== *)
theory Turn_Gate
  imports Transition Json
begin

text \<open>
  \<open>src/gateway/turn_gate_policy.py\<close>: the decision when a user's turn ends, and the tracker
  of provisional candidates.  A decision about a candidate is computed asynchronously, so
  it may be stale when it arrives; the lemmas show that a stale candidate is never
  committed and that an utterance is committed at most once.
\<close>

datatype gate_action = CONTINUE | EARLY_COMMIT | FALLBACK_COMMIT

record gate_config =
  candidate_silence_ms :: int
  legacy_fallback_silence_ms :: int

definition gate_config_create :: "int \<Rightarrow> int \<Rightarrow> py_exn + gate_config" where
  "gate_config_create candidate_ms fallback_ms =
     (if candidate_ms < 200 then Inl ValueError
      else if fallback_ms \<le> candidate_ms then Inl ValueError
      else Inr \<lparr>candidate_silence_ms = candidate_ms, legacy_fallback_silence_ms = fallback_ms\<rparr>)"

definition decide_turn_gate :: "bool \<Rightarrow> bool \<Rightarrow> bool \<Rightarrow> gate_action" where
  "decide_turn_gate smart_end eou_end fallback_timeout =
     (if fallback_timeout then FALLBACK_COMMIT
      else if \<not> (smart_end \<and> eou_end) then CONTINUE
      else EARLY_COMMIT)"

record turn_candidate =
  tc_utterance_id :: string
  tc_candidate_seq :: int
  tc_speech_epoch :: int
  tc_audio_watermark :: int
  tc_silence_ms :: int

definition turn_candidate_create :: "string \<Rightarrow> int \<Rightarrow> int \<Rightarrow> int \<Rightarrow> int \<Rightarrow> py_exn + turn_candidate" where
  "turn_candidate_create uid seqn epoch watermark silence =
     (if py_strip uid = [] then Inl ValueError
      else if seqn \<le> 0 then Inl ValueError
      else if epoch < 0 then Inl ValueError
      else if watermark \<le> 0 then Inl ValueError
      else if silence < 0 then Inl ValueError
      else Inr \<lparr>tc_utterance_id = uid, tc_candidate_seq = seqn, tc_speech_epoch = epoch,
                tc_audio_watermark = watermark, tc_silence_ms = silence\<rparr>)"

record tracker =
  tr_utterance_id :: string
  tr_speech_epoch :: int
  last_candidate_seq :: int
  last_audio_watermark :: int
  active_candidate :: "turn_candidate option"
  committed :: bool

definition tracker_create :: "string \<Rightarrow> py_exn + tracker" where
  "tracker_create uid =
     (if py_strip uid = [] then Inl ValueError
      else Inr \<lparr>tr_utterance_id = uid, tr_speech_epoch = 0, last_candidate_seq = 0,
                last_audio_watermark = 0, active_candidate = None, committed = False\<rparr>)"

definition start_candidate :: "int \<Rightarrow> int \<Rightarrow> int \<Rightarrow> tracker \<Rightarrow> tracker \<times> (py_exn + turn_candidate)" where
  "start_candidate seqn watermark silence tr =
     (if committed tr then (tr, Inl ValueError)
      else if seqn \<le> last_candidate_seq tr then (tr, Inl ValueError)
      else if watermark < last_audio_watermark tr then (tr, Inl ValueError)
      else case turn_candidate_create (tr_utterance_id tr) seqn (tr_speech_epoch tr) watermark silence of
          Inl e \<Rightarrow> (tr, Inl e)
        | Inr candidate \<Rightarrow>
            (tr\<lparr>last_candidate_seq := seqn, last_audio_watermark := watermark,
                active_candidate := Some candidate\<rparr>, Inr candidate))"

definition speech_resumed :: "tracker \<Rightarrow> tracker" where
  "speech_resumed tr =
     (if committed tr then tr
      else tr\<lparr>tr_speech_epoch := tr_speech_epoch tr + 1, active_candidate := None\<rparr>)"

definition is_current :: "turn_candidate \<Rightarrow> tracker \<Rightarrow> bool" where
  "is_current c tr \<longleftrightarrow> \<not> committed tr \<and> tc_utterance_id c = tr_utterance_id tr \<and>
     tc_speech_epoch c = tr_speech_epoch tr \<and> Some c = active_candidate tr"

definition commit :: "turn_candidate \<Rightarrow> tracker \<Rightarrow> tracker \<times> bool" where
  "commit c tr =
     (if \<not> is_current c tr then (tr, False)
      else (tr\<lparr>committed := True, active_candidate := None\<rparr>, True))"

definition fallback_commit :: "tracker \<Rightarrow> tracker \<times> bool" where
  "fallback_commit tr =
     (if committed tr then (tr, False)
      else (tr\<lparr>committed := True, active_candidate := None\<rparr>, True))"

datatype gate_event = StartCandidate int int int | SpeechResumed | Commit turn_candidate | FallbackCommit

datatype gate_reply = Candidate "py_exn + turn_candidate" | Resumed | CommitReply bool

fun tracker_step :: "tracker \<Rightarrow> gate_event \<Rightarrow> tracker \<times> gate_reply" where
  "tracker_step tr (StartCandidate seqn watermark silence) =
     (let (tr1, r) = start_candidate seqn watermark silence tr in (tr1, Candidate r))"
| "tracker_step tr SpeechResumed = (speech_resumed tr, Resumed)"
| "tracker_step tr (Commit c) = (let (tr1, b) = commit c tr in (tr1, CommitReply b))"
| "tracker_step tr FallbackCommit = (let (tr1, b) = fallback_commit tr in (tr1, CommitReply b))"

subsection \<open>Invariants\<close>

definition tracker_inv :: "tracker \<Rightarrow> bool" where
  "tracker_inv tr \<longleftrightarrow> 0 \<le> last_candidate_seq tr \<and> 0 \<le> tr_speech_epoch tr \<and>
     (committed tr \<longrightarrow> active_candidate tr = None) \<and>
     (\<forall>c. active_candidate tr = Some c \<longrightarrow> tc_candidate_seq c = last_candidate_seq tr \<and>
        tc_audio_watermark c = last_audio_watermark tr \<and>
        tc_speech_epoch c = tr_speech_epoch tr \<and> tc_utterance_id c = tr_utterance_id tr)"

definition tracker_forward :: "tracker \<Rightarrow> tracker \<Rightarrow> bool" where
  "tracker_forward a b \<longleftrightarrow> tr_utterance_id b = tr_utterance_id a \<and>
     last_candidate_seq a \<le> last_candidate_seq b \<and> last_audio_watermark a \<le> last_audio_watermark b \<and>
     tr_speech_epoch a \<le> tr_speech_epoch b \<and> (committed a \<longrightarrow> b = a)"

lemma candidate_createD:
  assumes "turn_candidate_create uid seqn epoch watermark silence = Inr c"
  shows "c = \<lparr>tc_utterance_id = uid, tc_candidate_seq = seqn, tc_speech_epoch = epoch,
      tc_audio_watermark = watermark, tc_silence_ms = silence\<rparr>" "0 < seqn"
  using assms by (auto simp: turn_candidate_create_def split: if_splits)

lemma start_candidate_cases:
  assumes "start_candidate seqn watermark silence tr = (tr1, r)"
  obtains (Refused) "tr1 = tr" "r = Inl ValueError"
  | (Started) c where "\<not> committed tr" "last_candidate_seq tr < seqn" "last_audio_watermark tr \<le> watermark"
      "0 < seqn" "r = Inr c"
      "c = \<lparr>tc_utterance_id = tr_utterance_id tr, tc_candidate_seq = seqn, tc_speech_epoch = tr_speech_epoch tr,
        tc_audio_watermark = watermark, tc_silence_ms = silence\<rparr>"
      "tr1 = tr\<lparr>last_candidate_seq := seqn, last_audio_watermark := watermark, active_candidate := Some c\<rparr>"
proof (cases "committed tr \<or> seqn \<le> last_candidate_seq tr \<or> watermark < last_audio_watermark tr")
  case True
  with assms show thesis by (intro Refused) (auto simp: start_candidate_def split: if_splits)
next
  case False
  note ok = this
  show thesis
  proof (cases "turn_candidate_create (tr_utterance_id tr) seqn (tr_speech_epoch tr) watermark silence")
    case (Inl e)
    then have "e = ValueError" by (auto simp: turn_candidate_create_def split: if_splits)
    with Inl ok assms show thesis by (intro Refused) (auto simp: start_candidate_def)
  next
    case (Inr c)
    note C = candidate_createD [OF Inr]
    from Inr ok assms have "r = Inr c"
      "tr1 = tr\<lparr>last_candidate_seq := seqn, last_audio_watermark := watermark, active_candidate := Some c\<rparr>"
      by (auto simp: start_candidate_def)
    with C ok show thesis by (intro Started) simp_all
  qed
qed

lemma tracker_step_inv:
  assumes "tracker_inv tr"
  shows "tracker_inv (fst (tracker_step tr e)) \<and> tracker_forward tr (fst (tracker_step tr e))"
proof (cases e)
  case (StartCandidate seqn watermark silence)
  obtain tr1 r where s: "start_candidate seqn watermark silence tr = (tr1, r)" by fastforce
  show ?thesis using s assms StartCandidate
    by (cases rule: start_candidate_cases [OF s]) (auto simp: tracker_inv_def tracker_forward_def)
qed (use assms in \<open>auto simp: tracker_inv_def tracker_forward_def speech_resumed_def commit_def
      fallback_commit_def is_current_def\<close>)

lemma tracker_forward_trans: "tracker_forward a b \<Longrightarrow> tracker_forward b c \<Longrightarrow> tracker_forward a c"
  unfolding tracker_forward_def by (intro conjI impI) (elim conjE; linarith | simp)+

interpretation gate: monotone_system tracker_step tracker_inv "\<lambda>_. True" tracker_forward
proof
  show "tracker_inv (fst (tracker_step tr e))" "tracker_forward tr (fst (tracker_step tr e))"
    if "tracker_inv tr" for tr e
    using tracker_step_inv [OF that] by simp_all
  show "tracker_forward tr tr" for tr by (simp add: tracker_forward_def)
  show "tracker_forward a c" if "tracker_forward a b" "tracker_forward b c" for a b c
    using that by (rule tracker_forward_trans)
qed

lemma tracker_create_inv: "tracker_create uid = Inr tr \<Longrightarrow> tracker_inv tr \<and> \<not> committed tr"
  by (auto simp: tracker_create_def tracker_inv_def split: if_splits)

text \<open>The candidate that the history makes current: the latest one started, unless speech
  resumed or the utterance was committed since.\<close>

fun current_after :: "turn_candidate option \<Rightarrow> gate_event \<Rightarrow> gate_reply \<Rightarrow> turn_candidate option" where
  "current_after cur e (Candidate (Inr c)) = Some c"
| "current_after cur e Resumed = None"
| "current_after cur e (CommitReply True) = None"
| "current_after cur e _ = cur"

interpretation gate_log: observed_system tracker_step
  "\<lambda>tr l. tracker_inv tr \<and> active_candidate tr = l" "\<lambda>_. True" current_after
proof
  fix tr l e assume A: "tracker_inv tr \<and> active_candidate tr = l"
  show "tracker_inv (fst (tracker_step tr e)) \<and>
      active_candidate (fst (tracker_step tr e)) = current_after l e (snd (tracker_step tr e))"
  proof (cases e)
    case (StartCandidate seqn watermark silence)
    obtain tr1 r where s: "start_candidate seqn watermark silence tr = (tr1, r)" by fastforce
    show ?thesis using s A StartCandidate tracker_step_inv [of tr e]
      by (cases rule: start_candidate_cases [OF s]) auto
  qed (use A tracker_step_inv [of tr e] in \<open>auto simp: tracker_inv_def speech_resumed_def commit_def
        fallback_commit_def\<close>)
qed

definition current_candidate :: "gate_event list \<Rightarrow> gate_reply list \<Rightarrow> turn_candidate option" where
  "current_candidate es rs = foldl (\<lambda>l (e, r). current_after l e r) None (zip es rs)"

lemma committed_replies:
  assumes "tracker_inv tr"
  shows "length (filter (\<lambda>r. r = CommitReply True) (run_replies tracker_step tr es)) \<le> (if committed tr then 0 else 1)"
  using assms
proof (induction es arbitrary: tr)
  case (Cons e es)
  let ?tr = "fst (tracker_step tr e)" and ?r = "snd (tracker_step tr e)"
  have "length (filter (\<lambda>r. r = CommitReply True) (run_replies tracker_step ?tr es)) \<le> (if committed ?tr then 0 else 1)"
    by (rule Cons.IH) (use tracker_step_inv [OF Cons.prems] in simp)
  moreover have "?r = CommitReply True \<Longrightarrow> \<not> committed tr \<and> committed ?tr"
    by (cases e) (auto simp: commit_def fallback_commit_def is_current_def case_prod_beta split: if_splits)
  moreover have "committed tr \<Longrightarrow> committed ?tr"
    using tracker_step_inv [OF Cons.prems, of e] by (auto simp: tracker_forward_def)
  ultimately show ?case by (auto simp: run_simps split: if_splits)
qed simp

subsection \<open>Properties\<close>

text \<open>An utterance is committed at most once, whether by candidates or by the fallback
  timeout, in whatever order decisions and timeouts arrive.\<close>

theorem utterance_commits_at_most_once:
  assumes "tracker_create uid = Inr tr"
  shows "length (filter (\<lambda>r. r = CommitReply True) (run_replies tracker_step tr es)) \<le> 1"
  using committed_replies [of tr es] tracker_create_inv [OF assms] by simp

definition sample_tracker :: tracker where
  "sample_tracker = \<lparr>tr_utterance_id = ''u'', tr_speech_epoch = 0, last_candidate_seq = 0,
     last_audio_watermark = 0, active_candidate = None, committed = False\<rparr>"

definition sample_candidate :: "int \<Rightarrow> int \<Rightarrow> turn_candidate" where
  "sample_candidate seqn epoch = \<lparr>tc_utterance_id = ''u'', tc_candidate_seq = seqn, tc_speech_epoch = epoch,
     tc_audio_watermark = 10, tc_silence_ms = 300\<rparr>"

lemma sample_tracker_created: "tracker_create ''u'' = Inr sample_tracker"
  by code_simp

theorem utterance_commits_at_most_once_witness:
  "length (filter (\<lambda>r. r = CommitReply True) (run_replies tracker_step sample_tracker
     [StartCandidate 1 10 300, Commit (sample_candidate 1 0), FallbackCommit])) \<le> 1"
  by (rule utterance_commits_at_most_once [OF sample_tracker_created])

text \<open>\<open>commit\<close> accepts exactly the current candidate: the latest one started, provided that
  since then speech has not resumed and the utterance was not committed.  A decision about
  any other candidate, however late it arrives, is rejected.\<close>

theorem only_current_candidate_commits:
  assumes "tracker_create uid = Inr tr"
  shows "snd (tracker_step (run_state tracker_step tr es) (Commit c)) = CommitReply True \<longleftrightarrow>
    current_candidate es (run_replies tracker_step tr es) = Some c"
proof -
  let ?tr = "run_state tracker_step tr es"
  have none: "active_candidate tr = None" using assms by (auto simp: tracker_create_def split: if_splits)
  have "tracker_inv tr \<and> active_candidate tr = None" using tracker_create_inv [OF assms] none by simp
  from gate_log.inv_run_log [OF this, of es]
  have L: "tracker_inv ?tr" "active_candidate ?tr = current_candidate es (run_replies tracker_step tr es)"
    by (simp_all add: current_candidate_def)
  have "is_current c ?tr \<longleftrightarrow> active_candidate ?tr = Some c"
    using L(1) by (auto simp: is_current_def tracker_inv_def)
  with L(2) show ?thesis by (simp add: commit_def)
qed

theorem only_current_candidate_commits_witness:
  "snd (tracker_step (run_state tracker_step sample_tracker
     [StartCandidate 1 10 300, SpeechResumed, StartCandidate 2 10 300]) (Commit (sample_candidate 1 0))) \<noteq>
     CommitReply True"
proof -
  let ?es = "[StartCandidate 1 10 300, SpeechResumed, StartCandidate 2 10 300]"
  have "current_candidate ?es (run_replies tracker_step sample_tracker ?es) = Some (sample_candidate 2 1)"
    by code_simp
  then have "current_candidate ?es (run_replies tracker_step sample_tracker ?es) \<noteq> Some (sample_candidate 1 0)"
    by (simp add: sample_candidate_def)
  with only_current_candidate_commits [OF sample_tracker_created, of ?es "sample_candidate 1 0"] show ?thesis by simp
qed

end
