(* ===== verification/Request_Queue.thy ===== *)
theory Request_Queue
  imports Transition Json
begin

text \<open>
  \<open>src/gateway/request_queue.py\<close>: the queue between the gateway's receive loop and its
  worker, and the metrics that travel with a request.  The functions work on an
  \<open>asyncio.Queue\<close>, modelled as the list of its items and its \<open>maxsize\<close> (no limit when it is
  0 or negative).  The lemmas show that the queue behaves as a mailbox for the latest
  request, and that the metrics attached to a request are taken off again without a trace.
\<close>

record request_queue =
  q_maxsize :: int
  q_items :: "jobj list"

definition REQUEST_QUEUE_METRICS_KEY :: string where
  "REQUEST_QUEUE_METRICS_KEY = ''_gateway_queue_metrics''"

definition qsize :: "request_queue \<Rightarrow> nat" where
  "qsize q = length (q_items q)"

definition get_nowait :: "request_queue \<Rightarrow> (jobj \<times> request_queue) option" where
  \<comment> \<open>\<open>None\<close> is \<open>QueueEmpty\<close>\<close>
  "get_nowait q = (case q_items q of [] \<Rightarrow> None | x # xs \<Rightarrow> Some (x, q\<lparr>q_items := xs\<rparr>))"

definition put_nowait :: "jobj \<Rightarrow> request_queue \<Rightarrow> request_queue option" where
  \<comment> \<open>\<open>None\<close> is \<open>QueueFull\<close>\<close>
  "put_nowait x q =
     (if q_maxsize q > 0 \<and> int (length (q_items q)) \<ge> q_maxsize q then None
      else Some (q\<lparr>q_items := q_items q @ [x]\<rparr>))"

function drain_request_queue :: "request_queue \<Rightarrow> nat \<Rightarrow> request_queue \<times> nat" where
  \<comment> \<open>the second argument is \<open>dropped\<close>\<close>
  "drain_request_queue q dropped =
     (case get_nowait q of
        None \<Rightarrow> (q, dropped)
      | Some (_, q1) \<Rightarrow> drain_request_queue q1 (dropped + 1))"
  by pat_completeness auto
termination
  by (relation "measure (\<lambda>(q, _). length (q_items q))") (auto simp: get_nowait_def split: list.splits)

declare drain_request_queue.simps [simp del]

definition enqueue_latest_request :: "jobj \<Rightarrow> request_queue \<Rightarrow> request_queue \<times> nat option" where
  \<comment> \<open>\<open>None\<close> is a \<open>QueueFull\<close> that escapes from the second \<open>put_nowait\<close>\<close>
  "enqueue_latest_request x q =
     (let (q1, dropped) = drain_request_queue q 0
      in case put_nowait x q1 of
           Some q2 \<Rightarrow> (q2, Some dropped)
         | None \<Rightarrow>
             let (q2, more_dropped) = drain_request_queue q1 0
             in case put_nowait x q2 of
                  Some q3 \<Rightarrow> (q3, Some (dropped + more_dropped))
                | None \<Rightarrow> (q2, None))"

definition attach_request_queue_metrics :: "seconds \<Rightarrow> nat \<Rightarrow> request_queue \<Rightarrow> jobj \<Rightarrow> jobj" where
  "attach_request_queue_metrics now dropped q d =
     AList.update REQUEST_QUEUE_METRICS_KEY
       (JObj [(''queue_size'', JInt (int (qsize q))), (''queue_maxsize'', JInt (q_maxsize q)),
              (''dropped_pending'', JInt (int dropped)), (''enqueued_at'', JFloat now)]) d"

definition pop_request_queue_metrics :: "seconds \<Rightarrow> request_queue \<Rightarrow> jobj \<Rightarrow> jobj \<times> jobj" where
  \<comment> \<open>the data without the metrics, and the metrics\<close>
  "pop_request_queue_metrics now q d =
     (let metrics = (case map_of d REQUEST_QUEUE_METRICS_KEY of Some (JObj m) \<Rightarrow> m | _ \<Rightarrow> []);
          enqueued_at = jget metrics ''enqueued_at'';
          rest = AList.delete ''enqueued_at'' metrics;
          waited = (case num_of enqueued_at of
                      Some t \<Rightarrow> AList.update ''queue_wait_ms'' (JFloat ((now - t) * 1000)) rest
                    | None \<Rightarrow> rest)
      in (AList.delete REQUEST_QUEUE_METRICS_KEY d,
          AList.update ''queue_size_after_dequeue'' (JInt (int (qsize q))) waited))"

definition build_request_dequeued_summary :: "jobj \<Rightarrow> string \<Rightarrow> string \<Rightarrow> jobj \<Rightarrow> jobj" where
  "build_request_dequeued_summary d round_id playback_id queue_metrics =
     foldl (\<lambda>acc (k, v). AList.update k v acc)
       [(''message_type'', jget d ''type''), (''round_id'', JStr round_id), (''playback_id'', JStr playback_id)]
       queue_metrics"

subsection \<open>The queue is a mailbox for the latest request\<close>

lemma drain_spec: "drain_request_queue q n = (q\<lparr>q_items := []\<rparr>, n + length (q_items q))"
proof (induction "length (q_items q)" arbitrary: q n)
  case 0
  then show ?case by (simp add: drain_request_queue.simps [of q] get_nowait_def)
next
  case (Suc k)
  then obtain x xs where q: "q_items q = x # xs" "length xs = k" by (cases "q_items q") auto
  with Suc.hyps(1) [of "q\<lparr>q_items := xs\<rparr>" "n + 1"] show ?case
    by (simp add: drain_request_queue.simps [of q] get_nowait_def)
qed

lemma enqueue_spec: "enqueue_latest_request x q = (q\<lparr>q_items := [x]\<rparr>, Some (length (q_items q)))"
  by (simp add: enqueue_latest_request_def drain_spec put_nowait_def)

datatype queue_event = Enqueue jobj | Dequeue | Drain

datatype queue_reply = Dropped "nat option" | Got "jobj option"

fun queue_step :: "request_queue \<Rightarrow> queue_event \<Rightarrow> request_queue \<times> queue_reply" where
  "queue_step q (Enqueue x) = (let (q1, n) = enqueue_latest_request x q in (q1, Dropped n))"
| "queue_step q Dequeue =
     (case get_nowait q of None \<Rightarrow> (q, Got None) | Some (x, q1) \<Rightarrow> (q1, Got (Some x)))"
| "queue_step q Drain = (let (q1, n) = drain_request_queue q 0 in (q1, Dropped (Some n)))"

text \<open>The specification: a place for at most one request.\<close>

fun mailbox_step :: "jobj option \<Rightarrow> queue_event \<Rightarrow> jobj option \<times> queue_reply" where
  "mailbox_step box (Enqueue x) = (Some x, Dropped (Some (if box = None then 0 else 1)))"
| "mailbox_step box Dequeue = (None, Got box)"
| "mailbox_step box Drain = (None, Dropped (Some (if box = None then 0 else 1)))"

definition latest :: "request_queue \<Rightarrow> jobj option" where
  "latest q = (case q_items q of [] \<Rightarrow> None | x # _ \<Rightarrow> Some x)"

interpretation mailbox: simulation queue_step mailbox_step latest "\<lambda>q. length (q_items q) \<le> 1"
proof
  fix q :: request_queue and e assume q: "length (q_items q) \<le> 1"
  then consider "q_items q = []" | x where "q_items q = [x]" by (cases "q_items q") auto
  then show "length (q_items (fst (queue_step q e))) \<le> 1"
    by cases (cases e; simp add: enqueue_spec drain_spec get_nowait_def)+
  from q consider "q_items q = []" | x where "q_items q = [x]" by (cases "q_items q") auto
  then show "mailbox_step (latest q) e = (latest (fst (queue_step q e)), snd (queue_step q e))"
    by cases (cases e; simp add: enqueue_spec drain_spec get_nowait_def latest_def)+
qed

subsection \<open>Properties\<close>

text \<open>Whatever the limit of the queue, a run of enqueues, dequeues and drains on it answers
  exactly as a mailbox with room for one request: the worker always gets the latest request,
  \<open>QueueFull\<close> never escapes, and at most one request is reported as dropped.\<close>

theorem queue_is_latest_mailbox:
  "run mailbox_step None es =
     (latest (run_state queue_step \<lparr>q_maxsize = m, q_items = []\<rparr> es),
      run_replies queue_step \<lparr>q_maxsize = m, q_items = []\<rparr> es)"
  using mailbox.sim_run [of "\<lparr>q_maxsize = m, q_items = []\<rparr>" es] by (simp add: latest_def)

text \<open>Metrics attached to a request when it is queued are taken off when it is dequeued: the
  request is unchanged, and the worker sees the sizes, the number of dropped requests and
  the time the request waited.\<close>

theorem queue_metrics_roundtrip:
  assumes "REQUEST_QUEUE_METRICS_KEY \<notin> set (keys d)"
  shows "pop_request_queue_metrics later q' (attach_request_queue_metrics now n q d) =
    (d, [(''queue_size'', JInt (int (qsize q))), (''queue_maxsize'', JInt (q_maxsize q)),
         (''dropped_pending'', JInt (int n)), (''queue_wait_ms'', JFloat ((later - now) * 1000)),
         (''queue_size_after_dequeue'', JInt (int (qsize q')))])"
proof -
  have "AList.delete k (AList.update k v d) = d" if "k \<notin> set (keys d)" for k and v :: json and d
    using that by (induction d) (auto simp: delete_absent)
  with assms show ?thesis
    by (simp add: pop_request_queue_metrics_def attach_request_queue_metrics_def Let_def
        map_of_update jget_def)
qed

theorem queue_metrics_roundtrip_witness:
  "snd (pop_request_queue_metrics 3 \<lparr>q_maxsize = 1, q_items = []\<rparr>
     (attach_request_queue_metrics 1 0 \<lparr>q_maxsize = 1, q_items = []\<rparr> [(''type'', JStr ''text'')])) =
   [(''queue_size'', JInt 0), (''queue_maxsize'', JInt 1), (''dropped_pending'', JInt 0),
    (''queue_wait_ms'', JFloat 2000), (''queue_size_after_dequeue'', JInt 0)]"
  by (subst queue_metrics_roundtrip) (simp_all add: REQUEST_QUEUE_METRICS_KEY_def qsize_def)

end
