(* ===== verification/Session_Manager_Facts.thy ===== *)
theory Session_Manager_Facts
  imports Session_Manager
begin

text \<open>
  The promises of the gateway's session manager: isolation of sessions, protection of the
  current round from late reports, bounded histories, and exact expiry.
\<close>

subsection \<open>Lookup after each operation\<close>

lemma find_put_session [simp]:
  "find_session sid (put_session sid' s sm) = (if sid = sid' then Some s else find_session sid sm)"
  by (simp add: find_session_def put_session_def map_of_update)

lemma max_put_session [simp]: "max_history (put_session sid s sm) = max_history sm"
  by (simp add: put_session_def)

lemma with_session_None: "find_session sid sm = None \<Longrightarrow> with_session sid d f sm = (sm, d)"
  by (simp add: with_session_def)

lemma with_session_Some:
  "find_session sid sm = Some s \<Longrightarrow> with_session sid d f sm = (put_session sid (fst (f s)) sm, snd (f s))"
  by (simp add: with_session_def case_prod_beta)

lemma find_with_session:
  "find_session k (fst (with_session sid d f sm)) =
    (if k = sid then map_option (\<lambda>s. fst (f s)) (find_session sid sm) else find_session k sm)"
  by (cases "find_session sid sm") (simp_all add: with_session_None with_session_Some)

lemma max_with_session [simp]: "max_history (fst (with_session sid d f sm)) = max_history sm"
  by (cases "find_session sid sm") (simp_all add: with_session_None with_session_Some)

lemmas with_session_simps = find_with_session with_session_None with_session_Some

lemmas session_ops =
  create_session_def ensure_session_def add_message_def delete_session_def touch_session_def
  set_interrupted_def start_round_def cancel_current_round_def cancel_round_if_matches_def
  complete_round_def record_slow_ws_send_def reset_slow_ws_send_strikes_def register_robot_def
  update_registered_bot_def set_max_history_def

lemma find_delete_session:
  "find_session k (sm\<lparr>sessions := AList.delete sid (sessions sm)\<rparr>) = (if k = sid then None else find_session k sm)"
  by (simp add: find_session_def map_of_delete)

lemma find_set_max: "find_session k (sm\<lparr>max_history := v\<rparr>) = find_session k sm"
  by (simp add: find_session_def)

lemma foldl_delete: "foldl (\<lambda>d k. AList.delete k d) d ks = filter (\<lambda>(k, _). k \<notin> set ks) d"
  by (induction ks arbitrary: d) (auto simp: AList.delete_eq case_prod_beta intro!: filter_cong)

lemma key_of_filter:
  assumes "distinct (keys d)" and "(k, v) \<in> set d"
  shows "k \<in> set (keys (filter P d)) \<longleftrightarrow> P (k, v)"
proof
  assume "k \<in> set (keys (filter P d))"
  then obtain w where w: "(k, w) \<in> set d" "P (k, w)" by auto
  have "map_of d k = Some v" "map_of d k = Some w"
    using map_of_is_SomeI [OF assms] map_of_is_SomeI [OF assms(1) w(1)] by simp_all
  with w(2) show "P (k, v)" by simp
next
  assume "P (k, v)"
  with assms(2) show "k \<in> set (keys (filter P d))" by force
qed

lemma cleanup_sessions:
  assumes d: "distinct (keys (sessions sm))"
  shows "sessions (fst (cleanup_expired now idle sm)) =
    filter (\<lambda>(_, s). now - last_active_at s \<le> idle) (sessions sm)"
proof -
  let ?P = "\<lambda>(_ :: string, s). now - last_active_at s > idle"
  have "filter (\<lambda>(k, _). k \<notin> set (keys (filter ?P (sessions sm)))) (sessions sm) =
      filter (\<lambda>(_, s). now - last_active_at s \<le> idle) (sessions sm)"
  proof (rule filter_cong [OF refl])
    fix kv assume kv: "kv \<in> set (sessions sm)"
    obtain k s where ks: "kv = (k, s)" by (cases kv)
    have "k \<in> set (keys (filter ?P (sessions sm))) \<longleftrightarrow> ?P (k, s)"
      using kv by (intro key_of_filter [OF d]) (simp add: ks)
    then show "(case kv of (k, _) \<Rightarrow> k \<notin> set (keys (filter ?P (sessions sm)))) =
        (case kv of (_, s) \<Rightarrow> now - last_active_at s \<le> idle)"
      by (simp add: ks not_less del: list.set_map set_filter)
  qed
  then show ?thesis by (simp only: cleanup_expired_def Let_def foldl_delete fst_conv) simp
qed

subsection \<open>The invariant\<close>

definition sessions_ok :: "session_manager \<Rightarrow> bool" where
  "sessions_ok sm \<longleftrightarrow> distinct (keys (sessions sm)) \<and>
     (\<forall>sid s. find_session sid sm = Some s \<longrightarrow> s_session_id s = sid)"

lemma distinct_put_session: "distinct (keys (sessions sm)) \<Longrightarrow> distinct (keys (sessions (put_session sid s sm)))"
  by (simp add: put_session_def distinct_update)

lemma sessions_ok_put:
  "sessions_ok sm \<Longrightarrow> s_session_id s = sid \<Longrightarrow> sessions_ok (put_session sid s sm)"
  by (auto simp: sessions_ok_def distinct_put_session)

lemma sessions_ok_with:
  assumes "sessions_ok sm" "\<And>s. s_session_id (fst (f s)) = s_session_id s"
  shows "sessions_ok (fst (with_session sid d f sm))"
proof (cases "find_session sid sm")
  case None
  with assms show ?thesis by (simp add: with_session_None)
next
  case (Some s)
  with assms have "s_session_id (fst (f s)) = sid" by (simp add: sessions_ok_def)
  with assms(1) Some show ?thesis by (simp add: with_session_Some sessions_ok_put)
qed

lemma find_filter:
  assumes "distinct (keys (sessions sm))"
  shows "find_session k (sm\<lparr>sessions := filter P (sessions sm)\<rparr>) =
    (case find_session k sm of Some s \<Rightarrow> if P (k, s) then Some s else None | None \<Rightarrow> None)"
  using assms by (simp add: find_session_def map_of_filter_keys)

lemma manager_step_ok: assumes ok: "sessions_ok sm" shows "sessions_ok (fst (manager_step sm e))"
proof (cases e)
  case (Cleanup now idle)
  have d: "distinct (keys (sessions sm))" using ok by (simp add: sessions_ok_def)
  have eq: "fst (cleanup_expired now idle sm) = sm\<lparr>sessions := filter (\<lambda>(_, s). now - last_active_at s \<le> idle) (sessions sm)\<rparr>"
    using cleanup_sessions [OF d, of now idle] by (simp add: cleanup_expired_def Let_def)
  have "distinct (keys (filter P (sessions sm)))" for P
    using d by (rule distinct_keys_filter)
  with ok d Cleanup eq show ?thesis
    by (auto simp: sessions_ok_def find_filter split: option.splits if_splits)
next
  case (DeleteSession sid)
  with ok show ?thesis
    by (auto simp: sessions_ok_def delete_session_def distinct_delete find_session_def map_of_delete split: if_splits)
next
  case (SetMaxHistory v)
  with ok show ?thesis by (simp add: sessions_ok_def set_max_history_def find_session_def)
next
  case (EnsureSession now sid)
  with ok show ?thesis
    by (auto simp: ensure_session_def Let_def new_session_def sessions_ok_def distinct_put_session split: option.splits)
next
  case (CancelRoundIfMatches now sid rid pid)
  with ok show ?thesis
    by (auto simp: cancel_round_if_matches_def Let_def sessions_ok_def distinct_put_session split: option.splits)
next
  case (CompleteRound now sid rid)
  with ok show ?thesis
    by (auto simp: complete_round_def sessions_ok_def distinct_put_session split: option.splits)
next
  case (CreateSession now uuid)
  with ok show ?thesis by (simp add: create_session_def sessions_ok_put new_session_def)
qed (use ok in \<open>auto simp: session_ops Let_def intro!: sessions_ok_with\<close>)

interpretation manager: transition_system manager_step sessions_ok "\<lambda>_. True"
  by unfold_locales (rule manager_step_ok)

fun affects :: "session_event \<Rightarrow> string \<Rightarrow> bool" where
  \<comment> \<open>whether the event may change this session\<close>
  "affects (CreateSession now uuid) sid = (uuid = sid)"
| "affects (EnsureSession now s) sid = (py_strip s = sid)"
| "affects (AddMessage now stamp s role content) sid = (s = sid)"
| "affects (DeleteSession s) sid = (s = sid)"
| "affects (TouchSession now s) sid = (s = sid)"
| "affects (SetInterrupted now s v) sid = (s = sid)"
| "affects (StartRound now s rid pid) sid = (s = sid)"
| "affects (CancelCurrentRound now s) sid = (s = sid)"
| "affects (CancelRoundIfMatches now s rid pid) sid = (s = sid)"
| "affects (CompleteRound now s rid) sid = (s = sid)"
| "affects (RecordSlowSend now s) sid = (s = sid)"
| "affects (ResetSlowSends s) sid = (s = sid)"
| "affects (RegisterRobot now s robot_id bot_id bot_name client_type is_new) sid = (s = sid)"
| "affects (UpdateBot now s bot_id bot_name) sid = (s = sid)"
| "affects (SetMaxHistory v) sid = False"
| "affects (Cleanup now idle) sid = True"

lemma manager_step_frame:
  "\<not> affects e sid \<Longrightarrow> find_session sid (fst (manager_step sm e)) = find_session sid sm"
  by (cases e)
    (auto simp: session_ops Let_def find_with_session find_delete_session find_set_max split: option.splits)

definition short_histories :: "session_manager \<Rightarrow> bool" where
  "short_histories sm \<longleftrightarrow> 1 \<le> max_history sm \<and>
     (\<forall>sid s. find_session sid sm = Some s \<longrightarrow> int (length (history s)) \<le> max_history sm)"

fun keeps_limit :: "session_event \<Rightarrow> bool" where
  "keeps_limit (SetMaxHistory v) = False"
| "keeps_limit _ = True"

lemma short_put:
  "short_histories sm \<Longrightarrow> int (length (history s)) \<le> max_history sm \<Longrightarrow> short_histories (put_session sid s sm)"
  by (auto simp: short_histories_def)

lemma short_with:
  assumes "short_histories sm"
    "\<And>s. int (length (history s)) \<le> max_history sm \<Longrightarrow> int (length (history (fst (f s)))) \<le> max_history sm"
  shows "short_histories (fst (with_session sid d f sm))"
  using assms by (auto simp: short_histories_def find_with_session split: if_splits)

interpretation limited: transition_system manager_step "\<lambda>sm. sessions_ok sm \<and> short_histories sm" keeps_limit
proof
  fix sm e assume A: "sessions_ok sm \<and> short_histories sm" and e: "keeps_limit e"
  then have ok: "sessions_ok sm" and sh: "short_histories sm" by simp_all
  have "short_histories (fst (manager_step sm e))"
  proof (cases e)
    case (Cleanup now idle)
    have d: "distinct (keys (sessions sm))" using ok by (simp add: sessions_ok_def)
    have eq: "fst (cleanup_expired now idle sm) = sm\<lparr>sessions := filter (\<lambda>(_, s). now - last_active_at s \<le> idle) (sessions sm)\<rparr>"
      using cleanup_sessions [OF d, of now idle] by (simp add: cleanup_expired_def Let_def)
    show ?thesis using sh Cleanup d by (auto simp: eq short_histories_def find_filter split: option.splits if_splits)
  next
    case (DeleteSession sid)
    with sh show ?thesis
      by (auto simp: short_histories_def delete_session_def find_session_def map_of_delete split: if_splits)
  next
    case (EnsureSession now sid)
    with sh show ?thesis
      by (auto simp: ensure_session_def Let_def new_session_def short_histories_def split: option.splits)
  next
    case (CancelRoundIfMatches now sid rid pid)
    with sh show ?thesis
      by (auto simp: cancel_round_if_matches_def Let_def short_histories_def split: option.splits)
  next
    case (CompleteRound now sid rid)
    with sh show ?thesis by (auto simp: complete_round_def short_histories_def split: option.splits)
  next
    case (CreateSession now uuid)
    with sh show ?thesis by (auto simp: create_session_def new_session_def short_histories_def)
  next
    case (AddMessage now stamp sid role content)
    have "0 < max_history sm" using sh by (simp add: short_histories_def)
    with sh AddMessage length_py_tail [of "max_history sm"] show ?thesis
      by (auto simp: add_message_def Let_def intro!: short_with)
  qed (use sh e in \<open>auto simp: session_ops intro!: short_with\<close>)
  with ok show "sessions_ok (fst (manager_step sm e)) \<and> short_histories (fst (manager_step sm e))"
    by (simp add: manager_step_ok)
qed

subsection \<open>Properties\<close>

text \<open>Sessions are isolated: no sequence of operations on other sessions, however long,
  changes anything of a session.\<close>

theorem sessions_are_isolated:
  assumes "\<forall>e \<in> set es. \<not> affects e sid"
  shows "find_session sid (run_state manager_step sm es) = find_session sid sm"
  using assms by (induction es arbitrary: sm) (simp_all add: run_simps manager_step_frame)

definition sample_manager :: session_manager where
  "sample_manager = run_state manager_step (new_manager 2)
     [CreateSession 0 ''a'', CreateSession 0 ''b'', RegisterRobot 1 ''a'' ''r'' ''bot'' ''name'' None True]"

theorem sessions_are_isolated_witness:
  "find_session ''a'' (run_state manager_step sample_manager
     [AddMessage 2 ''t'' ''b'' ''user'' ''hi'', DeleteSession ''b'']) = find_session ''a'' sample_manager"
  by (rule sessions_are_isolated) simp

text \<open>A late playback report, cancellation or completion of an earlier round does not touch
  the round that has since started: the report for another round or playback is refused and
  changes nothing, the new round stays current and uninterrupted.\<close>

theorem late_reports_spare_current_round:
  assumes "find_session sid sm = Some s" and "(py_strip r1, py_strip p1) \<noteq> (r2, p2)"
  shows "let sm' = fst (start_round now sid r2 p2 sm) in
    cancel_round_if_matches t sid r1 p1 sm' = (sm', False) \<and>
    (r1 \<noteq> r2 \<longrightarrow> complete_round t sid r1 sm' = (sm', False)) \<and>
    is_current_round sid r2 sm' \<and> \<not> is_interrupted sid sm'"
  using assms
  by (auto simp: start_round_def with_session_Some cancel_round_if_matches_def complete_round_def
      is_current_round_def is_interrupted_def Let_def)

theorem late_reports_spare_current_round_witness:
  "snd (cancel_round_if_matches 5 ''a'' ''r1'' ''p1''
     (fst (start_round 4 ''a'' ''r2'' ''p2'' (fst (start_round 3 ''a'' ''r1'' ''p1'' sample_manager))))) = False"
proof -
  let ?sm = "fst (start_round 3 ''a'' ''r1'' ''p1'' sample_manager)"
  have "find_session ''a'' ?sm \<noteq> None" and s: "py_strip ''r1'' = ''r1''" by code_simp+
  then obtain x where "find_session ''a'' ?sm = Some x" by auto
  from late_reports_spare_current_round [OF this, of "''r1''" "''p1''" "''r2''" "''p2''" 4 5] s show ?thesis
    by (simp add: Let_def)
qed

text \<open>\<open>cancel_round_if_matches\<close> succeeds exactly when the session's current round and
  playback are the reported ones; then the session is interrupted and every other session is
  unchanged.\<close>

theorem exact_report_interrupts_round:
  "snd (cancel_round_if_matches now sid rid pid sm) \<longleftrightarrow>
    (\<exists>s. find_session sid sm = Some s \<and> py_strip rid \<noteq> [] \<and> py_strip pid \<noteq> [] \<and>
       current_round_id s = Some (py_strip rid) \<and> current_playback_id s = Some (py_strip pid) \<and>
       fst (cancel_round_if_matches now sid rid pid sm) =
         put_session sid (s\<lparr>last_active_at := now, interrupted := True\<rparr>) sm)"
  by (auto simp: cancel_round_if_matches_def Let_def split: option.splits)

text \<open>With a limit of at least one, and as long as the limit is not changed, no session ever
  has more messages than the limit; a message just added is the last one.\<close>

theorem history_stays_bounded:
  assumes "1 \<le> n" and "\<forall>e \<in> set es. keeps_limit e"
    and "find_session sid (run_state manager_step (new_manager n) es) = Some s"
  shows "int (length (history s)) \<le> n"
proof -
  have start: "sessions_ok (new_manager n) \<and> short_histories (new_manager n)"
    using assms(1) by (simp add: sessions_ok_def short_histories_def new_manager_def find_session_def)
  have "max_history (run_state manager_step sm es) = max_history sm" for sm
    using assms(2)
  proof (induction es arbitrary: sm)
    case (Cons e es)
    have "max_history (fst (manager_step sm e)) = max_history sm"
      using Cons.prems by (cases e) (auto simp: session_ops Let_def cleanup_expired_def split: option.splits)
    with Cons show ?case by (simp add: run_simps)
  qed simp
  with limited.inv_run [OF start assms(2)] assms(3) show ?thesis
    by (auto simp: short_histories_def new_manager_def)
qed

theorem history_stays_bounded_witness:
  "(case find_session ''a'' (run_state manager_step (new_manager 2)
      [CreateSession 0 ''a'', AddMessage 1 ''t'' ''a'' ''user'' ''x'', AddMessage 1 ''t'' ''a'' ''bot'' ''y'',
       AddMessage 1 ''t'' ''a'' ''user'' ''z'']) of
      None \<Rightarrow> False | Some s \<Rightarrow> int (length (history s)) \<le> 2)"
proof -
  let ?es = "[CreateSession 0 ''a'', AddMessage 1 ''t'' ''a'' ''user'' ''x'', AddMessage 1 ''t'' ''a'' ''bot'' ''y'',
       AddMessage 1 ''t'' ''a'' ''user'' ''z'']"
  have "find_session ''a'' (run_state manager_step (new_manager 2) ?es) \<noteq> None" by code_simp
  then obtain s where s: "find_session ''a'' (run_state manager_step (new_manager 2) ?es) = Some s" by auto
  from history_stays_bounded [OF _ _ s] s show ?thesis by simp
qed

text \<open>Expiry removes exactly the sessions that have been idle for longer than the timeout,
  keeps all others as they are, and returns the number removed.\<close>

theorem cleanup_removes_exactly_idle_sessions:
  assumes "sessions_ok sm"
  shows "find_session sid (fst (cleanup_expired now idle sm)) =
      (case find_session sid sm of
         Some s \<Rightarrow> if now - last_active_at s > idle then None else Some s
       | None \<Rightarrow> None) \<and>
    snd (cleanup_expired now idle sm) + length (sessions (fst (cleanup_expired now idle sm))) = length (sessions sm)"
proof
  have d: "distinct (keys (sessions sm))" using assms by (simp add: sessions_ok_def)
  have eq: "fst (cleanup_expired now idle sm) = sm\<lparr>sessions := filter (\<lambda>(_, s). now - last_active_at s \<le> idle) (sessions sm)\<rparr>"
    using cleanup_sessions [OF d, of now idle] by (simp add: cleanup_expired_def Let_def)
  show "find_session sid (fst (cleanup_expired now idle sm)) =
      (case find_session sid sm of
         Some s \<Rightarrow> if now - last_active_at s > idle then None else Some s
       | None \<Rightarrow> None)"
    unfolding eq find_filter [OF d] by (auto split: option.split)
  show "snd (cleanup_expired now idle sm) + length (sessions (fst (cleanup_expired now idle sm))) = length (sessions sm)"
    using sum_length_filter_compl [of "\<lambda>(_, s). now - last_active_at s > idle" "sessions sm"]
    by (simp add: eq) (simp add: cleanup_expired_def Let_def case_prod_unfold not_less)
qed

theorem cleanup_removes_exactly_idle_sessions_witness:
  "find_session ''b'' (fst (cleanup_expired 100 99 sample_manager)) = None \<and>
   find_session ''a'' (fst (cleanup_expired 100 99 sample_manager)) \<noteq> None"
proof -
  have "sessions_ok sample_manager"
    unfolding sample_manager_def
    by (rule manager.inv_run) (simp_all add: sessions_ok_def new_manager_def find_session_def)
  note C = cleanup_removes_exactly_idle_sessions [OF this, of _ 100 99, THEN conjunct1]
  have "(case find_session ''b'' sample_manager of Some s \<Rightarrow> last_active_at s = 0 | None \<Rightarrow> False) \<and>
      (case find_session ''a'' sample_manager of Some s \<Rightarrow> last_active_at s = 1 | None \<Rightarrow> False)" by code_simp
  then show ?thesis by (auto simp: C split: option.splits)
qed

end
