(* ===== verification/Llm_Session.thy ===== *)
theory Llm_Session
  imports Transition Json
begin

text \<open>
  \<open>src/llm/session_manager.py\<close>: the conversation histories and agent states of the language
  model service.  Every operation runs under one lock and is one step.  The timestamp of a
  message is an argument.  The two literals around a tool's name, which are not ASCII, are
  written as their UTF-8 bytes.
\<close>

record llm_message =
  lm_role :: string
  lm_content :: string
  lm_timestamp :: string

record llm_sessions =
  lm_sessions :: "(string, llm_message list) odict"
  agent_states :: "(string, jobj) odict"
  lm_max_history :: int

definition new_llm_sessions :: "int \<Rightarrow> llm_sessions" where
  "new_llm_sessions n = \<lparr>lm_sessions = [], agent_states = [], lm_max_history = n\<rparr>"

definition lm_get_history :: "string \<Rightarrow> llm_sessions \<Rightarrow> llm_message list" where
  "lm_get_history sid st = (case map_of (lm_sessions st) sid of None \<Rightarrow> [] | Some h \<Rightarrow> h)"

definition lm_add_message :: "string \<Rightarrow> string \<Rightarrow> string \<Rightarrow> string \<Rightarrow> llm_sessions \<Rightarrow> llm_sessions" where
  "lm_add_message stamp sid role content st =
     (let h = lm_get_history sid st @ [\<lparr>lm_role = role, lm_content = content, lm_timestamp = stamp\<rparr>];
          kept = (if int (length h) > lm_max_history st then py_tail (lm_max_history st) h else h)
      in st\<lparr>lm_sessions := AList.update sid kept (lm_sessions st)\<rparr>)"

definition TOOL_TEXT_OPEN :: string where
  "TOOL_TEXT_OPEN =
     [CHR ''['', CHR 0xE7, CHR 0xB3, CHR 0xBB, CHR 0xE7, CHR 0xBB, CHR 0x9F, CHR 0xEF, CHR 0xBC, CHR 0x9A,
      CHR 0xE5, CHR 0xB7, CHR 0xA5, CHR 0xE5, CHR 0x85, CHR 0xB7, CHR '' '']"

definition TOOL_TEXT_CLOSE :: string where
  "TOOL_TEXT_CLOSE =
     [CHR '' '', CHR 0xE8, CHR 0xBF, CHR 0x94, CHR 0xE5, CHR 0x9B, CHR 0x9E, CHR 0xE7, CHR 0xBB, CHR 0x93,
      CHR 0xE6, CHR 0x9E, CHR 0x9C, CHR '']'', CHR 0x0A]"

definition add_tool_call :: "string \<Rightarrow> string \<Rightarrow> string \<Rightarrow> string \<Rightarrow> llm_sessions \<Rightarrow> llm_sessions" where
  "add_tool_call stamp sid tool result =
     lm_add_message stamp sid ''tool'' (TOOL_TEXT_OPEN @ tool @ TOOL_TEXT_CLOSE @ result)"

definition llm_view :: "llm_message \<Rightarrow> string \<times> string" where
  "llm_view m = (if lm_role m = ''tool'' then ''user'' else lm_role m, lm_content m)"

definition get_messages_for_llm :: "string \<Rightarrow> llm_sessions \<Rightarrow> (string \<times> string) list" where
  \<comment> \<open>role and content\<close>
  "get_messages_for_llm sid st = map llm_view (lm_get_history sid st)"

definition clear_session :: "string \<Rightarrow> llm_sessions \<Rightarrow> llm_sessions \<times> bool" where
  "clear_session sid st =
     (let had_session = sid \<in> set (keys (lm_sessions st));
          had_agent_state = sid \<in> set (keys (agent_states st));
          st1 = (if had_session then st\<lparr>lm_sessions := AList.delete sid (lm_sessions st)\<rparr> else st);
          st2 = (if had_agent_state then st1\<lparr>agent_states := AList.delete sid (agent_states st1)\<rparr> else st1)
      in (st2, had_session \<or> had_agent_state))"

definition get_agent_state :: "string \<Rightarrow> llm_sessions \<Rightarrow> jobj option" where
  \<comment> \<open>an empty state reads as none\<close>
  "get_agent_state sid st =
     (case map_of (agent_states st) sid of None \<Rightarrow> None | Some a \<Rightarrow> if a = [] then None else Some a)"

definition set_agent_state :: "string \<Rightarrow> jobj \<Rightarrow> llm_sessions \<Rightarrow> llm_sessions" where
  "set_agent_state sid a st = st\<lparr>agent_states := AList.update sid a (agent_states st)\<rparr>"

definition clear_agent_state :: "string \<Rightarrow> llm_sessions \<Rightarrow> llm_sessions" where
  "clear_agent_state sid st =
     (if sid \<in> set (keys (agent_states st)) then st\<lparr>agent_states := AList.delete sid (agent_states st)\<rparr> else st)"

definition get_session_count :: "llm_sessions \<Rightarrow> nat" where
  "get_session_count st = length (lm_sessions st)"

datatype llm_event =
    AddText string string string string
  | AddToolCall string string string string
  | ClearSession string
  | SetAgentState string jobj
  | ClearAgentState string

fun llm_step :: "llm_sessions \<Rightarrow> llm_event \<Rightarrow> llm_sessions \<times> bool" where
  "llm_step st (AddText stamp sid role content) = (lm_add_message stamp sid role content st, True)"
| "llm_step st (AddToolCall stamp sid tool result) = (add_tool_call stamp sid tool result st, True)"
| "llm_step st (ClearSession sid) = clear_session sid st"
| "llm_step st (SetAgentState sid a) = (set_agent_state sid a st, True)"
| "llm_step st (ClearAgentState sid) = (clear_agent_state sid st, True)"

end
