(* ===== verification/Workflow_Planner.thy ===== *)
theory Workflow_Planner
  imports Workflow_Plan_Facts Workflow_Runtime "HOL-Library.List_Lexorder" "HOL-Library.Char_ord"
begin

text \<open>
  \<open>src/llm/workflow_planner.py\<close>: the planner asks the main model for a plan, has it
  validated, and on a refusal asks again with the refusal's code as feedback.

  The model call is the argument \<open>generate\<close> (it depends on the attempt, since two calls with
  the same messages may differ), \<open>loads\<close> is \<open>json.loads\<close> (\<open>None\<close> is \<open>JSONDecodeError\<close>).  The
  prose of the prompts is not modelled: a prompt is the data it is rendered from.  The
  literal of the tool-result prefix, which is not ASCII, is written as its UTF-8 bytes.

  The lemmas show that a plan the planner returns was accepted by the validator, so that the
  runtime service can rely on it, that planning stops after \<open>max_attempts\<close> model calls, and
  that the history in the prompt consists of complete turns without tool results.
\<close>

definition PLANNER_MAX_ATTEMPTS :: nat where "PLANNER_MAX_ATTEMPTS = 2"
definition PLANNER_HISTORY_TURNS :: nat where "PLANNER_HISTORY_TURNS = 5"

definition TOOL_RESULT_PREFIX :: string where
  \<comment> \<open>UTF-8 of the prefix that marks a tool result in the history\<close>
  "TOOL_RESULT_PREFIX =
     [CHR ''['', CHR 0xE7, CHR 0xB3, CHR 0xBB, CHR 0xE7, CHR 0xBB, CHR 0x9F, CHR 0xEF, CHR 0xBC, CHR 0x9A,
      CHR 0xE5, CHR 0xB7, CHR 0xA5, CHR 0xE5, CHR 0x85, CHR 0xB7, CHR '' '']"

subsection \<open>The conversation in the prompt\<close>

type_synonym chat_turn = "(string \<times> string) \<times> (string \<times> string)"
  \<comment> \<open>role and content of a user message and of the assistant's answer\<close>

definition message_field :: "json \<Rightarrow> string \<Rightarrow> json" where
  \<comment> \<open>\<open>message.get(k) if isinstance(message, Mapping) else None\<close>\<close>
  "message_field m k = (case m of JObj d \<Rightarrow> jget d k | _ \<Rightarrow> JNull)"

fun turns_loop :: "json list \<Rightarrow> string option \<Rightarrow> chat_turn list \<Rightarrow> py_exn + chat_turn list" where
  \<comment> \<open>the second argument is the content of \<open>pending_user\<close>\<close>
  "turns_loop [] last_user turns = Inr turns"
| "turns_loop (m # ms) last_user turns =
     and_then (hash_in (message_field m ''role'') [''user'', ''assistant'']) (\<lambda>known.
       case message_field m ''content'' of
         JStr content \<Rightarrow>
           let clean = py_strip content in
           if \<not> known \<or> clean = [] \<or> starts_with clean TOOL_RESULT_PREFIX then turns_loop ms last_user turns
           else if message_field m ''role'' = JStr ''user'' then turns_loop ms (Some clean) turns
           else (case last_user of
                   None \<Rightarrow> turns_loop ms None turns
                 | Some u \<Rightarrow> turns_loop ms None (turns @ [((''user'', u), (''assistant'', clean))]))
       | _ \<Rightarrow> turns_loop ms last_user turns)"

definition recent_complete_turns :: "json list \<Rightarrow> int \<Rightarrow> py_exn + (string \<times> string) list" where
  "recent_complete_turns messages max_turns =
     (if max_turns < 1 then Inr []
      else and_then (turns_loop messages None []) (\<lambda>turns.
        Inr (concat (map (\<lambda>(u, a). [u, a]) (drop (length turns - nat max_turns) turns)))))"

subsection \<open>The prompt\<close>

fun first_argument :: "string list \<Rightarrow> jobj \<Rightarrow> string option" where
  "first_argument [] d = None"
| "first_argument (n # ns) d = (if n \<in> set (keys d) then Some n else first_argument ns d)"

fun weather_example :: "tool_schemas \<Rightarrow> (string \<times> string) option" where
  \<comment> \<open>the tool and argument of the example\<close>
  "weather_example [] = None"
| "weather_example ((name, schema) # rest) =
     (if \<not> str_in ''websearch'' (py_lower name) \<and> \<not> str_in ''weather'' (py_lower name) then weather_example rest
      else case jget schema ''properties'' of
          JObj properties \<Rightarrow>
            (case first_argument [''query'', ''search_query'', ''q'', ''keyword'', ''city''] properties of
               None \<Rightarrow> weather_example rest
             | Some arg \<Rightarrow> Some (name, arg))
        | _ \<Rightarrow> weather_example rest)"

definition build_weather_vision_example :: "tool_schemas \<Rightarrow> (string \<times> string) option" where
  "build_weather_vision_example schemas = weather_example (sort_key fst schemas)"

datatype prompt =
    SystemPrompt tool_schemas "string list" "(string \<times> string) option"
      \<comment> \<open>capabilities, terminal tools, example\<close>
  | UserPrompt "(string \<times> string) list" string
  | FeedbackPrompt string    \<comment> \<open>the code of the error in the last plan\<close>

definition build_planner_messages ::
  "tool_schemas \<Rightarrow> string list \<Rightarrow> string \<Rightarrow> json list \<Rightarrow> py_exn + prompt list" where
  "build_planner_messages schemas terminals user_text conversation =
     and_then (recent_complete_turns conversation (int PLANNER_HISTORY_TURNS)) (\<lambda>history.
     Inr [SystemPrompt (sort_key fst schemas) (sort terminals) (build_weather_vision_example schemas),
          UserPrompt history user_text])"

subsection \<open>Planning\<close>

definition normalize_step :: "json \<Rightarrow> json" where
  "normalize_step raw_step =
     (case raw_step of
        JObj d \<Rightarrow>
          (case jget d ''terminal'' of
             JBool b \<Rightarrow> if jget d ''type'' \<noteq> JStr ''tool'' then JObj (AList.update ''terminal'' (JBool False) d)
                       else raw_step
           | _ \<Rightarrow> raw_step)
      | _ \<Rightarrow> raw_step)"

definition normalize_model_plan :: "json \<Rightarrow> json" where
  "normalize_model_plan raw_plan =
     (case raw_plan of
        JObj d \<Rightarrow>
          (case jget d ''steps'' of
             JArr raw_steps \<Rightarrow> JObj (AList.update ''steps'' (JArr (map normalize_step raw_steps)) d)
           | _ \<Rightarrow> raw_plan)
      | _ \<Rightarrow> raw_plan)"

datatype model_answer = ModelText string | ModelTimeout | ModelFailed

record planner =
  generate :: "nat \<Rightarrow> prompt list \<Rightarrow> model_answer"
  loads :: "string \<Rightarrow> json option"
  pn_schemas :: tool_schemas
  pn_terminals :: "string list"
  max_attempts :: nat

definition new_planner ::
  "(nat \<Rightarrow> prompt list \<Rightarrow> model_answer) \<Rightarrow> (string \<Rightarrow> json option) \<Rightarrow> tool_schemas \<Rightarrow> string list \<Rightarrow> int \<Rightarrow>
    py_exn + planner" where
  "new_planner gen ld schemas terminals n =
     (if n < 1 then Inl ValueError
      else Inr \<lparr>generate = gen, loads = ld, pn_schemas = schemas, pn_terminals = terminals,
                max_attempts = nat n\<rparr>)"

record planning_result =
  pn_plan :: wf_plan
  pn_attempts :: nat
  pn_raw_text :: string

datatype planning_error = GaveUp nat string | Escaped py_exn

text \<open>One attempt: the plan, or the code of the refusal that becomes the feedback of the next.\<close>

definition attempt_plan :: "planner \<Rightarrow> nat \<Rightarrow> prompt list \<Rightarrow> py_exn + (string + planning_result)" where
  "attempt_plan p attempt messages =
     (case generate p attempt messages of
        ModelTimeout \<Rightarrow> Inr (Inl ''planner_timeout'')
      | ModelFailed \<Rightarrow> Inr (Inl ''planner_model_error'')
      | ModelText raw \<Rightarrow>
          let text_in = py_strip raw in
          (case loads p text_in of
             None \<Rightarrow> Inr (Inl ''invalid_json'')
           | Some raw_plan \<Rightarrow>
               (case validate_workflow_plan (pn_schemas p) (pn_terminals p) (normalize_model_plan raw_plan) of
                  Inl (Rejected code) \<Rightarrow> Inr (Inl code)
                | Inl (Raised e) \<Rightarrow> Inl e
                | Inr validated \<Rightarrow>
                    Inr (Inr \<lparr>pn_plan = validated, pn_attempts = attempt, pn_raw_text = text_in\<rparr>))))"

definition with_feedback :: "prompt list \<Rightarrow> string option \<Rightarrow> prompt list" where
  "with_feedback base feedback = base @ (case feedback of None \<Rightarrow> [] | Some c \<Rightarrow> [FeedbackPrompt c])"

fun plan_loop ::
  "planner \<Rightarrow> prompt list \<Rightarrow> nat \<Rightarrow> nat \<Rightarrow> string option \<Rightarrow> planning_error + planning_result" where
  \<comment> \<open>\<open>for attempt in range(1, max_attempts + 1)\<close>: how many attempts are left, and the next one;
      \<open>feedback\<close> is also \<open>last_error_code\<close>, \<open>''unknown''\<close> before the first attempt\<close>
  "plan_loop p base 0 attempt feedback =
     Inl (GaveUp (max_attempts p) (case feedback of None \<Rightarrow> ''unknown'' | Some c \<Rightarrow> c))"
| "plan_loop p base (Suc n) attempt feedback =
     (case attempt_plan p attempt (with_feedback base feedback) of
        Inl e \<Rightarrow> Inl (Escaped e)
      | Inr (Inr r) \<Rightarrow> Inr r
      | Inr (Inl code) \<Rightarrow> plan_loop p base n (Suc attempt) (Some code))"

definition plan_task :: "planner \<Rightarrow> json \<Rightarrow> json list \<Rightarrow> planning_error + planning_result" where
  "plan_task p user_text conversation =
     (case user_text of
        JStr t \<Rightarrow>
          if py_strip t = [] then Inl (Escaped ValueError)
          else (case build_planner_messages (pn_schemas p) (pn_terminals p) (py_strip t) conversation of
              Inl e \<Rightarrow> Inl (Escaped e)
            | Inr base \<Rightarrow> plan_loop p base (max_attempts p) 1 None)
      | _ \<Rightarrow> Inl (Escaped ValueError))"

text \<open>What \<open>PlanComplex\<close> of the runtime service makes of it.\<close>

definition service_planning :: "planning_error + planning_result \<Rightarrow> planning" where
  "service_planning r =
     (case r of
        Inr res \<Rightarrow> Planned (pn_plan res) (pn_attempts res)
      | Inl (GaveUp n code) \<Rightarrow> PlanningFailed n code
      | Inl (Escaped e) \<Rightarrow> PlannerCrashed)"

end
