(* ===== verification/Workflow_Planner_Facts.thy ===== *)
theory Workflow_Planner_Facts
  imports Workflow_Planner
begin

text \<open>
  The planner only returns plans the validator accepted, retries exactly as long as the
  answers are refused, and puts complete turns without tool results into its prompt.
\<close>

subsection \<open>Normalisation\<close>

lemma jget_eq_iff: "v \<noteq> JNull \<Longrightarrow> jget d k = v \<longleftrightarrow> map_of d k = Some v"
  by (auto simp: jget_def split: option.splits)

lemma parse_step_normal:
  assumes "parse_step known schemas terminals d = Inr s"
  shows "normalize_step (JObj d) = JObj d"
proof -
  from assms obtain ok flag where ty: "hash_in (jget d ''type'') STEP_TYPES = Inr ok" "ok"
    and flag: "jbool_of (jget d ''terminal'') = Some flag"
    and body: "opt_text (jstr_of (jget d ''type'')) = ''tool'' \<or> \<not> flag"
    unfolding parse_step_def Let_def result_simps
    by (auto simp: result_simps split: if_splits)
  from flag have t: "jget d ''terminal'' = JBool flag" by (cases "jget d ''terminal''") simp_all
  from ty obtain name where name: "jget d ''type'' = JStr name" by (auto simp: hash_in_True)
  show ?thesis
  proof (cases "name = ''tool''")
    case True
    then show ?thesis by (simp add: normalize_step_def t name)
  next
    case False
    with body name have "\<not> flag" by simp
    with t have "map_of d ''terminal'' = Some (JBool False)" by (simp add: jget_eq_iff)
    with False show ?thesis by (simp add: normalize_step_def t name update_same)
  qed
qed

lemma collect_steps_objects: "collect_steps raws seen = Inr ds \<Longrightarrow> raws = map JObj ds"
proof (induction raws seen arbitrary: ds rule: collect_steps.induct)
  case (2 raw raws seen)
  then show ?case by (cases raw) (auto simp: result_simps)
qed simp

lemma parse_steps_normal:
  assumes "parse_steps schemas terminals raw_steps = Inr parsed"
  shows "map normalize_step raw_steps = raw_steps"
proof -
  from assms obtain ds where ds: "collect_steps raw_steps [] = Inr ds"
    and t: "traverse (parse_step (map step_id_of ds) schemas terminals) ds = Inr parsed"
    by (auto simp: parse_steps_def and_then_Inr_iff)
  have "normalize_step (JObj d) = JObj d" if "d \<in> set ds" for d
  proof -
    from t that obtain s where "parse_step (map step_id_of ds) schemas terminals d = Inr s"
      unfolding traverse_Inr_iff by (auto simp: in_set_conv_nth list_all2_conv_all_nth)
    then show ?thesis by (rule parse_step_normal)
  qed
  then show ?thesis by (simp add: collect_steps_objects [OF ds])
qed

lemma accepted_plan_is_normal:
  assumes "validate_workflow_plan schemas terminals raw = Inr plan"
  shows "normalize_model_plan raw = raw"
proof -
  from assms obtain d raw_steps parsed where d: "jobj_of raw = Some d"
    and steps: "jarr_of (jget d ''steps'') = Some raw_steps"
    and parsed: "parse_steps schemas terminals raw_steps = Inr parsed"
    by (auto simp: validate_workflow_plan_def result_simps)
  from d have raw: "raw = JObj d" by (cases raw) simp_all
  from steps have s: "jget d ''steps'' = JArr raw_steps" by (cases "jget d ''steps''") simp_all
  then have "map_of d ''steps'' = Some (JArr raw_steps)" by (simp add: jget_eq_iff)
  then show ?thesis
    by (simp add: normalize_model_plan_def raw s parse_steps_normal [OF parsed] update_same)
qed

subsection \<open>The retry loop\<close>

inductive refused :: "planner \<Rightarrow> prompt list \<Rightarrow> nat \<Rightarrow> string option \<Rightarrow> bool" for p base where
  \<comment> \<open>the first \<open>k\<close> attempts were refused, the last with this code\<close>
  start: "refused p base 0 None"
| again: "refused p base k feedback \<Longrightarrow>
    attempt_plan p (Suc k) (with_feedback base feedback) = Inr (Inl code) \<Longrightarrow>
    refused p base (Suc k) (Some code)"

inductive_cases refused_SucE: "refused p base (Suc k) feedback"
inductive_cases refused_0E: "refused p base 0 feedback"

lemma refused_unique: "refused p base k f \<Longrightarrow> refused p base k g \<Longrightarrow> f = g"
proof (induction k arbitrary: f g)
  case 0
  then show ?case by (metis refused_0E)
next
  case (Suc k)
  from Suc.prems(1) obtain f' c where f: "refused p base k f'"
      "attempt_plan p (Suc k) (with_feedback base f') = Inr (Inl c)" "f = Some c"
    by (rule refused_SucE)
  from Suc.prems(2) obtain g' d where g: "refused p base k g'"
      "attempt_plan p (Suc k) (with_feedback base g') = Inr (Inl d)" "g = Some d"
    by (rule refused_SucE)
  from Suc.IH [OF f(1) g(1)] f g show ?case by simp
qed

lemma refused_back: "refused p base n f \<Longrightarrow> k \<le> n \<Longrightarrow> \<exists>g. refused p base k g"
proof (induction n arbitrary: f)
  case 0
  then show ?case by blast
next
  case (Suc n)
  show ?case
  proof (cases "k = Suc n")
    case False
    from Suc.prems(1) obtain f' where "refused p base n f'" by (rule refused_SucE)
    with Suc False show ?thesis by auto
  qed (use Suc in blast)
qed

lemma refused_before:
  assumes "refused p base n f" and "refused p base k g" and "k < n"
  shows "\<exists>c. attempt_plan p (Suc k) (with_feedback base g) = Inr (Inl c)"
proof -
  from assms(3) have "Suc k \<le> n" by simp
  with refused_back [OF assms(1)] obtain h where "refused p base (Suc k) h" by blast
  then obtain g' c where "refused p base k g'" "attempt_plan p (Suc k) (with_feedback base g') = Inr (Inl c)"
    by (rule refused_SucE)
  with refused_unique [OF assms(2)] show ?thesis by auto
qed

text \<open>An attempt that is not a refusal is the last one.\<close>

lemma last_attempt_unique:
  assumes "refused p base k f" "attempt_plan p (Suc k) (with_feedback base f) = a" "\<nexists>c. a = Inr (Inl c)"
    and "refused p base j g" "attempt_plan p (Suc j) (with_feedback base g) = b" "\<nexists>c. b = Inr (Inl c)"
  shows "a = b"
proof -
  have "\<not> k < j" using refused_before [OF assms(4) assms(1)] assms(2,3) by auto
  moreover have "\<not> j < k" using refused_before [OF assms(1) assms(4)] assms(5,6) by auto
  ultimately have jk: "j = k" by simp
  then have "f = g" using refused_unique [OF assms(1)] assms(4) by simp
  with jk assms(2,5) show ?thesis by simp
qed

lemma plan_loop_refused:
  "refused p base k feedback \<Longrightarrow>
    (\<exists>r j g. plan_loop p base n (Suc k) feedback = Inr r \<and> j < k + n \<and> refused p base j g \<and>
         attempt_plan p (Suc j) (with_feedback base g) = Inr (Inr r)) \<or>
    (\<exists>g. plan_loop p base n (Suc k) feedback =
         Inl (GaveUp (max_attempts p) (case g of None \<Rightarrow> ''unknown'' | Some c \<Rightarrow> c)) \<and> refused p base (k + n) g) \<or>
    (\<exists>e j g. plan_loop p base n (Suc k) feedback = Inl (Escaped e) \<and> j < k + n \<and> refused p base j g \<and>
         attempt_plan p (Suc j) (with_feedback base g) = Inl e)"
proof (induction n arbitrary: k feedback)
  case 0
  then show ?case by auto
next
  case (Suc n)
  show ?case
  proof (cases "attempt_plan p (Suc k) (with_feedback base feedback)")
    case (Inl e)
    then have "plan_loop p base (Suc n) (Suc k) feedback = Inl (Escaped e)" by simp
    moreover have "k < k + Suc n" by simp
    ultimately show ?thesis using Inl Suc.prems by blast
  next
    case answer: (Inr answer)
    show ?thesis
    proof (cases answer)
      case (Inl code)
      with answer have again: "refused p base (Suc k) (Some code)"
        using Suc.prems by (auto intro: refused.intros)
      have step: "plan_loop p base (Suc n) (Suc k) feedback = plan_loop p base n (Suc (Suc k)) (Some code)"
        using answer Inl by simp
      have sum: "k + Suc n = Suc k + n" by simp
      show ?thesis unfolding step sum by (rule Suc.IH [OF again])
    next
      case (Inr r)
      then have "plan_loop p base (Suc n) (Suc k) feedback = Inr r" using answer by simp
      moreover have "k < k + Suc n" by simp
      ultimately show ?thesis using answer Inr Suc.prems by blast
    qed
  qed
qed

lemma attempt_planD:
  assumes "attempt_plan p k messages = Inr (Inr r)"
  shows "\<exists>answer raw_plan. generate p k messages = ModelText answer \<and> pn_raw_text r = py_strip answer \<and>
    loads p (pn_raw_text r) = Some raw_plan \<and> pn_attempts r = k \<and>
    validate_workflow_plan (pn_schemas p) (pn_terminals p) (normalize_model_plan raw_plan) = Inr (pn_plan r)"
  using assms
  by (auto simp: attempt_plan_def Let_def split: model_answer.splits option.splits sum.splits plan_error.splits)

lemma plan_taskE:
  assumes "plan_task p user conversation = r" and "r \<noteq> Inl (Escaped e)"
  obtains t base where "user = JStr t" "py_strip t \<noteq> []"
    "build_planner_messages (pn_schemas p) (pn_terminals p) (py_strip t) conversation = Inr base"
    "plan_loop p base (max_attempts p) 1 None = r"
  | e' where "r = Inl (Escaped e')"
  using assms
  by (auto simp: plan_task_def split: json.splits if_splits sum.splits)

subsection \<open>The history\<close>

definition spoken :: "string \<Rightarrow> bool" where
  \<comment> \<open>what may appear in the prompt\<close>
  "spoken c \<longleftrightarrow> c \<noteq> [] \<and> py_strip c = c \<and> \<not> starts_with c TOOL_RESULT_PREFIX"

definition turn_ok :: "chat_turn \<Rightarrow> bool" where
  "turn_ok t \<longleftrightarrow> (\<exists>u a. t = ((''user'', u), (''assistant'', a)) \<and> spoken u \<and> spoken a)"

lemma turns_loop_ok:
  "turns_loop ms waiting turns = Inr out \<Longrightarrow> \<forall>t \<in> set turns. turn_ok t \<Longrightarrow>
    (\<forall>u. waiting = Some u \<longrightarrow> spoken u) \<Longrightarrow> \<forall>t \<in> set out. turn_ok t"
proof (induction ms waiting turns rule: turns_loop.induct)
  case (1 waiting turns)
  then show ?case by simp
next
  case (2 m ms waiting turns)
  from "2.prems"(1) obtain known where known: "hash_in (message_field m ''role'') [''user'', ''assistant''] = Inr known"
    by (auto simp: and_then_Inr_iff)
  note IH = "2.IH" [OF known]
  show ?case
  proof (cases "message_field m ''content''")
    case (JStr content)
    define clean where "clean = py_strip content"
    have spoken: "spoken clean" if "clean \<noteq> []" "\<not> starts_with clean TOOL_RESULT_PREFIX"
      using that by (simp add: spoken_def clean_def)
    consider (skip) "\<not> known \<or> clean = [] \<or> starts_with clean TOOL_RESULT_PREFIX"
      | (user) "known" "clean \<noteq> []" "\<not> starts_with clean TOOL_RESULT_PREFIX" "message_field m ''role'' = JStr ''user''"
      | (assistant) "known" "clean \<noteq> []" "\<not> starts_with clean TOOL_RESULT_PREFIX" "message_field m ''role'' \<noteq> JStr ''user''"
      by blast
    then show ?thesis
    proof cases
      case skip
      with "2.prems" known JStr have "turns_loop ms waiting turns = Inr out" by (simp add: clean_def)
      with IH(5) [OF JStr clean_def skip] "2.prems"(2,3) show ?thesis by blast
    next
      case user
      with "2.prems" known JStr have "turns_loop ms (Some clean) turns = Inr out" by (simp add: clean_def)
      moreover have "\<forall>u. Some clean = Some u \<longrightarrow> spoken u" using user spoken by simp
      moreover have "\<not> (\<not> known \<or> clean = [] \<or> starts_with clean TOOL_RESULT_PREFIX)" using user by simp
      ultimately show ?thesis using IH(6) [OF JStr clean_def _ user(4)] "2.prems"(2) by simp
    next
      case assistant
      show ?thesis
      proof (cases waiting)
        case None
        with assistant "2.prems" known JStr have "turns_loop ms None turns = Inr out" by (simp add: clean_def)
        moreover have "\<not> (\<not> known \<or> clean = [] \<or> starts_with clean TOOL_RESULT_PREFIX)" using assistant by simp
        ultimately show ?thesis using IH(7) [OF JStr clean_def _ assistant(4) None] "2.prems"(2) by simp
      next
        case (Some u)
        let ?t = "((''user'', u), (''assistant'', clean))"
        from Some assistant "2.prems" known JStr have "turns_loop ms None (turns @ [?t]) = Inr out"
          by (simp add: clean_def)
        moreover have "turn_ok ?t" using "2.prems"(3) Some spoken assistant by (auto simp: turn_ok_def)
        moreover have "\<not> (\<not> known \<or> clean = [] \<or> starts_with clean TOOL_RESULT_PREFIX)" using assistant by simp
        ultimately show ?thesis using IH(8) [OF JStr clean_def _ assistant(4) Some] "2.prems"(2) by simp
      qed
    qed
  qed (use "2.prems" known IH(1-4,9,10) in \<open>simp_all\<close>)
qed

subsection \<open>Properties\<close>

definition sample_planner :: planner where
  "sample_planner =
     \<lparr>generate = (\<lambda>k _. if k = 1 then ModelText ''no plan'' else ModelText '' plan ''),
      loads = (\<lambda>t. if t = ''plan'' then Some sample_plan else None),
      pn_schemas = sample_schemas, pn_terminals = [''hangup''], max_attempts = PLANNER_MAX_ATTEMPTS\<rparr>"

definition sample_task :: "planning_error + planning_result" where
  "sample_task = plan_task sample_planner (JStr ''weather?'') []"

lemma sample_task_plan:
  "sample_task = Inr \<lparr>pn_plan = accepted_sample, pn_attempts = 2, pn_raw_text = ''plan''\<rparr>"
proof -
  have "case sample_task of Inr r \<Rightarrow> pn_attempts r = 2 \<and> pn_raw_text r = ''plan'' \<and>
      validate_workflow_plan sample_schemas [''hangup''] (normalize_model_plan sample_plan) = Inr (pn_plan r)
    | Inl _ \<Rightarrow> False"
    by code_simp
  then obtain r where "sample_task = Inr r" "pn_attempts r = 2" "pn_raw_text r = ''plan''"
      "pn_plan r = accepted_sample"
    by (auto simp: accepted_plan_is_normal [OF sample_accepted] sample_accepted split: sum.splits)
  then show ?thesis by (cases r) simp
qed

text \<open>C8: A plan the planner returns is what \<open>validate_workflow_plan\<close> accepted, under the
  planner's tool schemas and terminal tools, for the JSON the model answered in that attempt;
  normalisation never changes a plan that the validator accepts as it is.\<close>

theorem planner_returns_accepted_plan:
  assumes "plan_task p user conversation = Inr r"
  shows "1 \<le> pn_attempts r \<and> pn_attempts r \<le> max_attempts p \<and>
    (\<exists>messages answer raw_plan. generate p (pn_attempts r) messages = ModelText answer \<and>
       pn_raw_text r = py_strip answer \<and> loads p (pn_raw_text r) = Some raw_plan \<and>
       validate_workflow_plan (pn_schemas p) (pn_terminals p) (normalize_model_plan raw_plan) = Inr (pn_plan r) \<and>
       (\<forall>plan. validate_workflow_plan (pn_schemas p) (pn_terminals p) raw_plan = Inr plan \<longrightarrow> plan = pn_plan r))"
proof -
  from assms obtain base where "plan_loop p base (max_attempts p) 1 None = Inr r"
    by (rule plan_taskE) auto
  with plan_loop_refused [OF refused.start, of p base "max_attempts p"] obtain j g
    where j: "j < max_attempts p" and a: "attempt_plan p (Suc j) (with_feedback base g) = Inr (Inr r)"
    by fastforce
  from attempt_planD [OF a] obtain answer raw_plan where
    A: "generate p (Suc j) (with_feedback base g) = ModelText answer" "pn_raw_text r = py_strip answer"
      "loads p (pn_raw_text r) = Some raw_plan" "pn_attempts r = Suc j"
    and v: "validate_workflow_plan (pn_schemas p) (pn_terminals p) (normalize_model_plan raw_plan) = Inr (pn_plan r)"
    by blast
  have "plan = pn_plan r" if "validate_workflow_plan (pn_schemas p) (pn_terminals p) raw_plan = Inr plan" for plan
    using v that accepted_plan_is_normal [OF that] by simp
  with A v j show ?thesis by (intro conjI exI) auto
qed

theorem planner_returns_accepted_plan_witness:
  "\<exists>raw_plan. loads sample_planner ''plan'' = Some raw_plan \<and>
     validate_workflow_plan sample_schemas [''hangup''] (normalize_model_plan raw_plan) = Inr accepted_sample"
  using planner_returns_accepted_plan [of sample_planner "JStr ''weather?''" "[]"]
    sample_task_plan
  by (simp add: sample_task_def) (auto simp: sample_planner_def)

text \<open>Planning always ends, after at most \<open>max_attempts\<close> model calls.  It returns the plan of
  the first attempt that is not refused, each attempt after the first carrying the code of
  the previous refusal as feedback; it gives up exactly when all \<open>max_attempts\<close> attempts were
  refused, with the code of the last refusal.\<close>

theorem planner_retries_until_accepted:
  assumes "py_strip t \<noteq> []"
    and "build_planner_messages (pn_schemas p) (pn_terminals p) (py_strip t) conversation = Inr base"
  shows "(plan_task p (JStr t) conversation = Inr r \<longleftrightarrow>
      (\<exists>k < max_attempts p. \<exists>f. refused p base k f \<and>
         attempt_plan p (Suc k) (with_feedback base f) = Inr (Inr r))) \<and>
    (plan_task p (JStr t) conversation = Inl (GaveUp n code) \<longleftrightarrow>
      n = max_attempts p \<and> (\<exists>f. refused p base n f \<and> code = (case f of None \<Rightarrow> ''unknown'' | Some c \<Rightarrow> c)))"
proof -
  have task: "plan_task p (JStr t) conversation = plan_loop p base (max_attempts p) (Suc 0) None"
    using assms by (simp add: plan_task_def)
  from plan_loop_refused [OF refused.start, of p base "max_attempts p", folded task]
  show ?thesis unfolding add_0
  proof (elim disjE exE conjE)
    fix r' k f assume planned: "plan_task p (JStr t) conversation = Inr r'" "k < max_attempts p"
      "refused p base k f" "attempt_plan p (Suc k) (with_feedback base f) = Inr (Inr r')"
    have "r' = r"
      if "refused p base j g" "attempt_plan p (Suc j) (with_feedback base g) = Inr (Inr r)" for j g
      using last_attempt_unique [OF planned(3,4) _ that] by simp
    then have "r' = r \<longleftrightarrow> (\<exists>k < max_attempts p. \<exists>f. refused p base k f \<and>
         attempt_plan p (Suc k) (with_feedback base f) = Inr (Inr r))"
      using planned(2-4) by blast
    moreover have "\<not> refused p base (max_attempts p) g" for g
      using refused_before [OF _ planned(3,2)] planned(4) by fastforce
    ultimately show ?thesis by (auto simp add: planned(1))
  next
    fix f assume gave_up: "plan_task p (JStr t) conversation =
        Inl (GaveUp (max_attempts p) (case f of None \<Rightarrow> ''unknown'' | Some c \<Rightarrow> c))"
      "refused p base (max_attempts p) f"
    have False if "k < max_attempts p" "refused p base k g"
      "attempt_plan p (Suc k) (with_feedback base g) = Inr (Inr r)" for k g
      using refused_before [OF gave_up(2) that(2,1)] that(3) by simp
    with gave_up show ?thesis by (auto dest: refused_unique [OF gave_up(2)])
  next
    fix e k f assume escaped: "plan_task p (JStr t) conversation = Inl (Escaped e)" "k < max_attempts p"
      "refused p base k f" "attempt_plan p (Suc k) (with_feedback base f) = Inl e"
    have False if "refused p base j g" "attempt_plan p (Suc j) (with_feedback base g) = Inr (Inr r)" for j g
      using last_attempt_unique [OF escaped(3,4) _ that] by simp
    moreover have False if "refused p base (max_attempts p) g" for g
      using refused_before [OF that escaped(3,2)] escaped(4) by simp
    ultimately show ?thesis using escaped by auto
  qed
qed

definition refusing_planner :: planner where
  "refusing_planner = sample_planner\<lparr>loads := (\<lambda>_. Some JNull)\<rparr>"

theorem planner_retries_until_accepted_witness:
  "plan_task refusing_planner (JStr ''weather?'') [] = Inl (GaveUp 2 ''invalid_plan'') \<and>
   (\<exists>base. refused refusing_planner base 2 (Some ''invalid_plan''))"
proof -
  have s: "py_strip ''weather?'' \<noteq> []" by code_simp
  have "build_planner_messages (pn_schemas refusing_planner) (pn_terminals refusing_planner)
      (py_strip ''weather?'') [] \<noteq> Inl e" for e
    by (simp add: build_planner_messages_def recent_complete_turns_def)
  then obtain base where b: "build_planner_messages (pn_schemas refusing_planner) (pn_terminals refusing_planner)
      (py_strip ''weather?'') [] = Inr base" by (metis sumE)
  have g: "plan_task refusing_planner (JStr ''weather?'') [] = Inl (GaveUp 2 ''invalid_plan'')" by code_simp
  with planner_retries_until_accepted [OF s b, THEN conjunct2, of 2 "''invalid_plan''"] show ?thesis
    by (auto split: option.splits)
qed

text \<open>The history in the prompt is at most \<open>max_turns\<close> complete turns, a user message
  followed by an assistant message each, stripped and not empty, and never contains a tool
  result.\<close>

theorem planner_history_is_complete_turns:
  assumes "recent_complete_turns messages max_turns = Inr history"
  shows "length history \<le> 2 * nat max_turns \<and> even (length history) \<and>
    (\<forall>i < length history. fst (history ! i) = (if even i then ''user'' else ''assistant'') \<and>
       spoken (snd (history ! i)))"
proof (cases "max_turns < 1")
  case True
  with assms show ?thesis by (simp add: recent_complete_turns_def)
next
  case False
  with assms obtain turns where turns: "turns_loop messages None [] = Inr turns"
    and h: "history = concat (map (\<lambda>(u, a). [u, a]) (drop (length turns - nat max_turns) turns))"
    by (auto simp: recent_complete_turns_def and_then_Inr_iff)
  define ts where "ts = drop (length turns - nat max_turns) turns"
  have ok: "\<forall>t \<in> set ts. turn_ok t"
    using turns_loop_ok [OF turns] by (auto simp: ts_def dest: in_set_dropD)
  have len: "length (concat (map (\<lambda>(u, a). [u, a]) ts)) = 2 * length ts" for ts :: "chat_turn list"
    by (induction ts) auto
  have "fst (concat (map (\<lambda>(u, a). [u, a]) ts) ! i) = (if even i then ''user'' else ''assistant'') \<and>
      spoken (snd (concat (map (\<lambda>(u, a). [u, a]) ts) ! i))" if "i < 2 * length ts" for i
    using ok that
  proof (induction ts arbitrary: i)
    case (Cons t ts)
    then obtain u a where t: "t = ((''user'', u), (''assistant'', a))" "spoken u" "spoken a"
      by (auto simp: turn_ok_def)
    consider "i = 0" | "i = 1" | j where "i = Suc (Suc j)" by (metis One_nat_def not0_implies_Suc)
    then show ?case
    proof cases
      case 3
      with Cons.prems have "j < 2 * length ts" by simp
      with Cons.IH [of j] Cons.prems 3 t show ?thesis by simp
    qed (use t in simp_all)
  qed simp
  moreover have "length ts \<le> nat max_turns" by (simp add: ts_def)
  ultimately show ?thesis by (auto simp: h len simp flip: ts_def)
qed

definition sample_message :: "string \<Rightarrow> string \<Rightarrow> json" where
  "sample_message role content = JObj [(''role'', JStr role), (''content'', JStr content)]"

theorem planner_history_is_complete_turns_witness:
  "recent_complete_turns [sample_message ''user'' ''a'', sample_message ''user'' '' b '',
     sample_message ''assistant'' ''c'', sample_message ''tool'' ''d'', sample_message ''user'' ''e''] 5 =
     Inr [(''user'', ''b''), (''assistant'', ''c'')] \<and>
   spoken ''b'' \<and> spoken ''c''"
proof -
  have r: "recent_complete_turns [sample_message ''user'' ''a'', sample_message ''user'' '' b '',
     sample_message ''assistant'' ''c'', sample_message ''tool'' ''d'', sample_message ''user'' ''e''] 5 =
     Inr [(''user'', ''b''), (''assistant'', ''c'')]" by code_simp
  from planner_history_is_complete_turns [OF r]
  have "\<forall>i < 2. spoken (snd ([(''user'', ''b''), (''assistant'', ''c'')] ! i))" by simp
  from this [rule_format, of 0] this [rule_format, of 1] r show ?thesis by simp
qed

end
