(* ===== verification/Llm_Session_Facts.thy ===== *)
theory Llm_Session_Facts
  imports Llm_Session Workflow_Planner_Facts
begin

text \<open>
  What the planner sees of a conversation: tool results are part of the history the language
  model gets, and none of them reaches the planner.
\<close>

definition chat_json :: "string \<times> string \<Rightarrow> json" where
  \<comment> \<open>a message of \<open>get_messages_for_llm\<close> as the dict it is\<close>
  "chat_json m = JObj [(''role'', JStr (fst m)), (''content'', JStr (snd m))]"

definition tool_text :: "string \<Rightarrow> bool" where
  "tool_text c \<longleftrightarrow> (\<exists>tool result. c = TOOL_TEXT_OPEN @ tool @ TOOL_TEXT_CLOSE @ result)"

definition tools_marked :: "llm_sessions \<Rightarrow> bool" where
  "tools_marked st \<longleftrightarrow>
     (\<forall>sid. \<forall>m \<in> set (lm_get_history sid st). lm_role m = ''tool'' \<longrightarrow> tool_text (lm_content m))"

fun plain_roles :: "llm_event \<Rightarrow> bool" where
  \<comment> \<open>only \<open>add_tool_call\<close> uses the role \<open>tool\<close>\<close>
  "plain_roles (AddText stamp sid role content) = (role \<noteq> ''tool'')"
| "plain_roles _ = True"

lemma lm_history_update:
  "lm_get_history k (st\<lparr>lm_sessions := AList.update sid h (lm_sessions st)\<rparr>) =
    (if k = sid then h else lm_get_history k st)"
  by (simp add: lm_get_history_def map_of_update)

lemma lm_history_delete:
  "lm_get_history k (st\<lparr>lm_sessions := AList.delete sid (lm_sessions st)\<rparr>) =
    (if k = sid then [] else lm_get_history k st)"
  by (simp add: lm_get_history_def map_of_delete)

lemma lm_history_agent [simp]: "lm_get_history k (st\<lparr>agent_states := a\<rparr>) = lm_get_history k st"
  by (simp add: lm_get_history_def)

lemma lm_add_message_history:
  "set (lm_get_history k (lm_add_message stamp sid role content st)) \<subseteq>
    insert \<lparr>lm_role = role, lm_content = content, lm_timestamp = stamp\<rparr> (set (lm_get_history k st))"
  by (auto simp: lm_add_message_def Let_def lm_history_update split: if_splits dest!: set_py_tail [THEN subsetD])

lemma tools_marked_add:
  assumes "tools_marked st" "role = ''tool'' \<Longrightarrow> tool_text content"
  shows "tools_marked (lm_add_message stamp sid role content st)"
  using assms lm_add_message_history [of _ stamp sid role content st]
  unfolding tools_marked_def by fastforce

lemma tools_marked_step:
  assumes "tools_marked st" "plain_roles e" shows "tools_marked (fst (llm_step st e))"
proof (cases e)
  case (AddToolCall stamp sid tool result)
  have "tool_text (TOOL_TEXT_OPEN @ tool @ TOOL_TEXT_CLOSE @ result)" unfolding tool_text_def by blast
  with assms AddToolCall show ?thesis by (simp add: add_tool_call_def tools_marked_add)
next
  case (ClearSession sid)
  with assms show ?thesis by (auto simp: clear_session_def Let_def tools_marked_def lm_history_delete split: if_splits)
next
  case (ClearAgentState sid)
  with assms show ?thesis by (auto simp: clear_agent_state_def tools_marked_def)
next
  case (SetAgentState sid a)
  with assms show ?thesis by (simp add: set_agent_state_def tools_marked_def)
qed (use assms in \<open>auto intro: tools_marked_add\<close>)

interpretation llm: transition_system llm_step tools_marked plain_roles
  by unfold_locales (rule tools_marked_step)

text \<open>A tool result is recognised by the planner whatever the tool's name and its result.\<close>

lemma py_rstrip_keeps:
  assumes "\<not> py_space c" shows "\<exists>zs. py_rstrip (xs @ c # ys) = xs @ c # zs"
proof -
  have "\<exists>zs. dropWhile py_space (rev ys @ [c] @ rev xs) = zs @ c # rev xs"
  proof (cases "\<forall>y \<in> set ys. py_space y")
    case True
    then have "dropWhile py_space (rev ys @ [c] @ rev xs) = dropWhile py_space ([c] @ rev xs)"
      by (intro dropWhile_append2) simp
    with assms show ?thesis by simp
  next
    case False
    then obtain y where "y \<in> set (rev ys)" "\<not> py_space y" by auto
    then have "dropWhile py_space (rev ys @ [c] @ rev xs) = dropWhile py_space (rev ys) @ [c] @ rev xs"
      by (rule dropWhile_append1)
    then show ?thesis by simp
  qed
  then obtain zs where "dropWhile py_space (rev ys @ [c] @ rev xs) = zs @ c # rev xs" by blast
  then show ?thesis by (simp add: py_rstrip_def)
qed

lemma tool_text_prefix:
  assumes "tool_text content" shows "starts_with (py_strip content) TOOL_RESULT_PREFIX"
proof -
  from assms obtain tool result where c: "content = TOOL_TEXT_OPEN @ tool @ TOOL_TEXT_CLOSE @ result"
    unfolding tool_text_def by blast
  have "\<not> py_space (CHR ''['')" "\<not> py_space (CHR '']'')" by (simp_all add: py_space_def)
  have "dropWhile py_space content = content"
    using \<open>\<not> py_space (CHR ''['')\<close> by (simp add: c TOOL_TEXT_OPEN_def)
  moreover have "\<exists>zs. py_rstrip content = TOOL_TEXT_OPEN @ zs"
    using py_rstrip_keeps [OF \<open>\<not> py_space (CHR '']'')\<close>,
        of "TOOL_TEXT_OPEN @ tool @ butlast (butlast TOOL_TEXT_CLOSE)" "CHR 0x0A # result"]
    by (auto simp: c TOOL_TEXT_CLOSE_def)
  ultimately show ?thesis
    by (auto simp: py_strip_def starts_with_def TOOL_TEXT_OPEN_def TOOL_RESULT_PREFIX_def)
qed

lemma turns_loop_tool:
  assumes "tool_text content"
  shows "turns_loop (chat_json (role, content) # ms) waiting turns =
    and_then (hash_in (JStr role) [''user'', ''assistant'']) (\<lambda>_. turns_loop ms waiting turns)"
  using tool_text_prefix [OF assms] by (simp add: chat_json_def message_field_def jget_def)

declare turns_loop.simps(2) [simp del]

lemma turns_loop_cong:
  assumes "\<And>waiting turns. turns_loop ms waiting turns = turns_loop ms' waiting turns"
  shows "turns_loop (m # ms) waiting turns = turns_loop (m # ms') waiting turns"
  by (simp only: turns_loop.simps(2) assms)

lemma turns_loop_without_tools:
  assumes "\<forall>m \<in> set h. lm_role m = ''tool'' \<longrightarrow> tool_text (lm_content m)"
  shows "turns_loop (map (chat_json \<circ> llm_view) h) waiting turns =
    turns_loop (map (chat_json \<circ> llm_view) (filter (\<lambda>m. lm_role m \<noteq> ''tool'') h)) waiting turns"
  using assms
proof (induction h arbitrary: waiting turns)
  case (Cons m h)
  have "\<forall>m \<in> set h. lm_role m = ''tool'' \<longrightarrow> tool_text (lm_content m)" using Cons.prems by simp
  note IH = Cons.IH [OF this]
  show ?case
  proof (cases "lm_role m = ''tool''")
    case True
    with Cons.prems have "tool_text (lm_content m)" by simp
    then show ?thesis using True IH by (simp add: turns_loop_tool llm_view_def)
  next
    case False
    then show ?thesis using turns_loop_cong [OF IH] by (simp add: comp_def)
  qed
qed simp

text \<open>Whatever was said and whatever tools were called in a session, the planner's view of
  the conversation is the same as without the tool results; the language model's view
  contains them.\<close>

theorem tool_results_stay_out_of_planning:
  assumes "\<forall>e \<in> set es. plain_roles e"
  shows "let st = run_state llm_step (new_llm_sessions n) es in
    recent_complete_turns (map chat_json (get_messages_for_llm sid st)) k =
    recent_complete_turns (map (chat_json \<circ> llm_view)
      (filter (\<lambda>m. lm_role m \<noteq> ''tool'') (lm_get_history sid st))) k"
proof -
  have "tools_marked (run_state llm_step (new_llm_sessions n) es)"
    by (rule llm.inv_run [OF _ assms]) (simp add: tools_marked_def new_llm_sessions_def lm_get_history_def)
  then have "\<forall>m \<in> set (lm_get_history sid (run_state llm_step (new_llm_sessions n) es)).
      lm_role m = ''tool'' \<longrightarrow> tool_text (lm_content m)"
    by (simp add: tools_marked_def)
  from turns_loop_without_tools [OF this] show ?thesis
    by (simp add: Let_def recent_complete_turns_def get_messages_for_llm_def)
qed

theorem tool_results_stay_out_of_planning_witness:
  "recent_complete_turns (map chat_json (get_messages_for_llm ''s'' (run_state llm_step (new_llm_sessions 10)
     [AddText ''t'' ''s'' ''user'' ''hi'', AddToolCall ''t'' ''s'' ''weather'' ''sunny'',
      AddText ''t'' ''s'' ''assistant'' ''hello'']))) 5 = Inr [(''user'', ''hi''), (''assistant'', ''hello'')]"
proof -
  let ?es = "[AddText ''t'' ''s'' ''user'' ''hi'', AddToolCall ''t'' ''s'' ''weather'' ''sunny'',
      AddText ''t'' ''s'' ''assistant'' ''hello'']"
  have "\<forall>e \<in> set ?es. plain_roles e" by simp
  from tool_results_stay_out_of_planning [OF this, of 10 "''s''" 5]
  have "recent_complete_turns (map chat_json (get_messages_for_llm ''s'' (run_state llm_step (new_llm_sessions 10) ?es))) 5 =
    recent_complete_turns (map (chat_json \<circ> llm_view)
      (filter (\<lambda>m. lm_role m \<noteq> ''tool'') (lm_get_history ''s'' (run_state llm_step (new_llm_sessions 10) ?es)))) 5"
    by (simp only: Let_def)
  also have "\<dots> = Inr [(''user'', ''hi''), (''assistant'', ''hello'')]" by code_simp
  finally show ?thesis .
qed

end
