(* ===== verification/Voice_Protocol.thy ===== *)
theory Voice_Protocol
  imports Json
begin

text \<open>
  \<open>src/gateway/internal_voice_protocol.py\<close>: the envelope of the messages between the Go edge
  and the Python orchestrator, its validation, and its dict form; the payloads of the
  message types.

  A field whose value is not a string is converted by \<open>str()\<close>, whose text for floats, lists
  and dicts is the argument \<open>repr\<close>; \<open>dict_of\<close> is \<open>dict()\<close> of a non-empty list.
\<close>

definition PROTOCOL_VERSION :: int where "PROTOCOL_VERSION = 1"

definition TYPE_SESSION_OPEN :: string where "TYPE_SESSION_OPEN = ''session.open''"
definition TYPE_SESSION_CLOSE :: string where "TYPE_SESSION_CLOSE = ''session.close''"
definition TYPE_INPUT_AUDIO_START :: string where "TYPE_INPUT_AUDIO_START = ''input_audio.start''"
definition TYPE_INPUT_AUDIO_END :: string where "TYPE_INPUT_AUDIO_END = ''input_audio.end''"
definition TYPE_INPUT_AUDIO_CANCEL :: string where "TYPE_INPUT_AUDIO_CANCEL = ''input_audio.cancel''"
definition TYPE_INPUT_TEXT_COMMIT :: string where "TYPE_INPUT_TEXT_COMMIT = ''input_text.commit''"
definition TYPE_CLIENT_EVENT :: string where "TYPE_CLIENT_EVENT = ''client_event''"
definition TYPE_INTERRUPT :: string where "TYPE_INTERRUPT = ''interrupt''"
definition TYPE_PLAYBACK_REPORT :: string where "TYPE_PLAYBACK_REPORT = ''playback.report''"
definition TYPE_RESPONSE_ASR :: string where "TYPE_RESPONSE_ASR = ''response.asr''"
definition TYPE_RESPONSE_AUDIO :: string where "TYPE_RESPONSE_AUDIO = ''response.audio''"
definition TYPE_RESPONSE_DONE :: string where "TYPE_RESPONSE_DONE = ''response.done''"
definition TYPE_RESPONSE_CANCELLED :: string where "TYPE_RESPONSE_CANCELLED = ''response.cancelled''"
definition TYPE_RESPONSE_ERROR :: string where "TYPE_RESPONSE_ERROR = ''response.error''"

lemmas voice_types =
  TYPE_SESSION_OPEN_def TYPE_SESSION_CLOSE_def TYPE_INPUT_AUDIO_START_def TYPE_INPUT_AUDIO_END_def
  TYPE_INPUT_AUDIO_CANCEL_def TYPE_INPUT_TEXT_COMMIT_def TYPE_CLIENT_EVENT_def TYPE_INTERRUPT_def
  TYPE_PLAYBACK_REPORT_def TYPE_RESPONSE_ASR_def TYPE_RESPONSE_AUDIO_def TYPE_RESPONSE_DONE_def
  TYPE_RESPONSE_CANCELLED_def TYPE_RESPONSE_ERROR_def

subsection \<open>The envelope\<close>

record envelope =
  ev_version :: int
  ev_type :: string
  ev_session_id :: string
  ev_timestamp_ms :: int
  ev_payload :: jobj
  ev_trace_id :: "string option"
  ev_utterance_id :: "string option"
  ev_round_id :: "string option"
  ev_playback_id :: "string option"

definition validate_envelope :: "envelope \<Rightarrow> py_exn + unit" where
  "validate_envelope e =
     and_then (check (ev_version e = PROTOCOL_VERSION) ValueError) (\<lambda>_.
     and_then (check (ev_type e \<noteq> []) ValueError) (\<lambda>_.
     and_then (check (CHR ''.'' \<in> set (ev_type e) \<or> ev_type e \<in> {TYPE_CLIENT_EVENT, TYPE_INTERRUPT}) ValueError) (\<lambda>_.
     and_then (check (ev_session_id e \<noteq> []) ValueError) (\<lambda>_.
     and_then (check (\<not> ((starts_with (ev_type e) ''input_audio.'' \<or> ev_type e = TYPE_INPUT_TEXT_COMMIT) \<and>
       \<not> nonempty (ev_utterance_id e))) ValueError) (\<lambda>_.
     check (\<not> (ev_type e \<in> {TYPE_RESPONSE_ASR, TYPE_RESPONSE_AUDIO, TYPE_RESPONSE_DONE} \<and>
       (\<not> nonempty (ev_round_id e) \<or> \<not> nonempty (ev_playback_id e)))) ValueError)))))"

definition envelope_create ::
  "int \<Rightarrow> string \<Rightarrow> string \<Rightarrow> jobj option \<Rightarrow> string option \<Rightarrow> string option \<Rightarrow> string option \<Rightarrow>
    string option \<Rightarrow> int option \<Rightarrow> py_exn + envelope" where
  \<comment> \<open>\<open>now\<close> is \<open>now_millis()\<close>\<close>
  "envelope_create now event_type session_id payload trace_id utterance_id round_id playback_id timestamp_ms =
     (let e = \<lparr>ev_version = PROTOCOL_VERSION, ev_type = py_strip event_type, ev_session_id = py_strip session_id,
        ev_timestamp_ms = (case timestamp_ms of None \<Rightarrow> now | Some t \<Rightarrow> t),
        ev_payload = (case payload of None \<Rightarrow> [] | Some p \<Rightarrow> p), ev_trace_id = opt_str trace_id,
        ev_utterance_id = opt_str utterance_id, ev_round_id = opt_str round_id,
        ev_playback_id = opt_str playback_id\<rparr>
      in and_then (validate_envelope e) (\<lambda>_. Inr e))"

definition optional_str :: "(json \<Rightarrow> string) \<Rightarrow> json \<Rightarrow> string option" where
  "optional_str repr v =
     (let t = (if v = JNull then [] else py_strip (py_str repr v)) in if t = [] then None else Some t)"

definition int_or_zero :: "json \<Rightarrow> py_exn + int" where
  \<comment> \<open>\<open>int(v or 0)\<close>\<close>
  "int_or_zero v = (if truthy v then py_int v else Inr 0)"

definition envelope_from_dict ::
  "(json \<Rightarrow> string) \<Rightarrow> (json list \<Rightarrow> py_exn + jobj) \<Rightarrow> jobj \<Rightarrow> py_exn + envelope" where
  "envelope_from_dict repr dict_of d =
     and_then (int_or_zero (jget d ''version'')) (\<lambda>version.
     and_then (int_or_zero (jget d ''timestamp_ms'')) (\<lambda>timestamp_ms.
     and_then (dict_or_empty dict_of (jget d ''payload'')) (\<lambda>payload.
     (let e = \<lparr>ev_version = version, ev_type = text_or_empty repr (jget d ''type''),
        ev_session_id = text_or_empty repr (jget d ''session_id''), ev_timestamp_ms = timestamp_ms,
        ev_payload = payload, ev_trace_id = optional_str repr (jget d ''trace_id''),
        ev_utterance_id = optional_str repr (jget d ''utterance_id''),
        ev_round_id = optional_str repr (jget d ''round_id''),
        ev_playback_id = optional_str repr (jget d ''playback_id'')\<rparr>
      in and_then (validate_envelope e) (\<lambda>_. Inr e)))))"

definition id_member :: "string \<Rightarrow> string option \<Rightarrow> jobj" where
  "id_member k v = (if nonempty v then [(k, JStr (opt_text v))] else [])"

definition envelope_to_dict :: "envelope \<Rightarrow> py_exn + jobj" where
  "envelope_to_dict e =
     and_then (validate_envelope e) (\<lambda>_.
     Inr ([(''version'', JInt (ev_version e)), (''type'', JStr (ev_type e)),
           (''session_id'', JStr (ev_session_id e)), (''timestamp_ms'', JInt (ev_timestamp_ms e)),
           (''payload'', JObj (ev_payload e))] @
          id_member ''trace_id'' (ev_trace_id e) @ id_member ''utterance_id'' (ev_utterance_id e) @
          id_member ''round_id'' (ev_round_id e) @ id_member ''playback_id'' (ev_playback_id e)))"

subsection \<open>Payloads\<close>

definition compact :: "jobj \<Rightarrow> jobj" where
  "compact d = filter (\<lambda>(_, v). v \<noteq> JNull) d"

record session_open_payload =
  so_robot_id :: "string option"
  so_client_type :: "string option"
  so_bot_id :: "string option"

definition session_open_to_dict :: "session_open_payload \<Rightarrow> jobj" where
  "session_open_to_dict p = compact
     [(''robot_id'', jopt (so_robot_id p)), (''client_type'', jopt (so_client_type p)),
      (''bot_id'', jopt (so_bot_id p))]"

record input_audio_start_payload =
  as_codec :: string
  as_packet_format :: string
  as_sample_rate :: int
  as_channels :: int
  as_frame_ms :: "int option"
  as_ice_route :: "string option"

definition input_audio_start_to_dict :: "input_audio_start_payload \<Rightarrow> jobj" where
  "input_audio_start_to_dict p = compact
     [(''codec'', JStr (as_codec p)), (''packet_format'', JStr (as_packet_format p)),
      (''sample_rate'', JInt (as_sample_rate p)), (''channels'', JInt (as_channels p)),
      (''frame_ms'', jint_opt (as_frame_ms p)), (''ice_route'', jopt (as_ice_route p))]"

record input_audio_end_payload =
  ae_packet_count :: int
  ae_payload_bytes :: int
  ae_duration_ms :: int
  ae_lossy :: bool
  ae_dropped_packets :: int
  ae_duplicate_packets :: int
  ae_sequence_gaps :: int
  ae_timestamp_regressions :: int

definition input_audio_end_to_dict :: "input_audio_end_payload \<Rightarrow> jobj" where
  "input_audio_end_to_dict p = compact
     [(''packet_count'', JInt (ae_packet_count p)), (''payload_bytes'', JInt (ae_payload_bytes p)),
      (''duration_ms'', JInt (ae_duration_ms p)), (''lossy'', JBool (ae_lossy p)),
      (''dropped_packets'', JInt (ae_dropped_packets p)),
      (''duplicate_packets'', JInt (ae_duplicate_packets p)),
      (''sequence_gaps'', JInt (ae_sequence_gaps p)),
      (''timestamp_regressions'', JInt (ae_timestamp_regressions p))]"

record input_text_commit_payload =
  tx_content :: string
  tx_source :: "string option"
  tx_bot_id :: "string option"
  tx_asr_time_ms :: "rat option"
  tx_candidate_seq :: "int option"
  tx_speech_epoch :: "int option"
  tx_audio_watermark :: "int option"

definition input_text_commit_to_dict :: "input_text_commit_payload \<Rightarrow> jobj" where
  "input_text_commit_to_dict p = compact
     [(''content'', JStr (tx_content p)), (''source'', jopt (tx_source p)), (''bot_id'', jopt (tx_bot_id p)),
      (''asr_time_ms'', jfloat_opt (tx_asr_time_ms p)), (''candidate_seq'', jint_opt (tx_candidate_seq p)),
      (''speech_epoch'', jint_opt (tx_speech_epoch p)), (''audio_watermark'', jint_opt (tx_audio_watermark p))]"

record client_event_payload =
  ce_event :: string
  ce_event_id :: "string option"
  ce_source :: "string option"
  ce_bot_id :: "string option"

definition client_event_to_dict :: "client_event_payload \<Rightarrow> jobj" where
  "client_event_to_dict p = compact
     [(''event'', JStr (ce_event p)), (''event_id'', jopt (ce_event_id p)), (''source'', jopt (ce_source p)),
      (''bot_id'', jopt (ce_bot_id p))]"

record playback_report_payload =
  pb_report_type :: string
  pb_reason :: "string option"
  pb_first_audio_to_playback_start_ms :: "rat option"
  pb_playback_start_to_complete_ms :: "rat option"
  pb_pushed_chunks :: "int option"
  pb_pushed_samples :: "int option"
  pb_underrun_callbacks :: "int option"
  pb_zero_filled_samples :: "int option"
  pb_max_buffered_samples :: "int option"

definition playback_report_to_dict :: "playback_report_payload \<Rightarrow> jobj" where
  "playback_report_to_dict p = compact
     [(''report_type'', JStr (pb_report_type p)), (''reason'', jopt (pb_reason p)),
      (''first_audio_to_playback_start_ms'', jfloat_opt (pb_first_audio_to_playback_start_ms p)),
      (''playback_start_to_complete_ms'', jfloat_opt (pb_playback_start_to_complete_ms p)),
      (''pushed_chunks'', jint_opt (pb_pushed_chunks p)), (''pushed_samples'', jint_opt (pb_pushed_samples p)),
      (''underrun_callbacks'', jint_opt (pb_underrun_callbacks p)),
      (''zero_filled_samples'', jint_opt (pb_zero_filled_samples p)),
      (''max_buffered_samples'', jint_opt (pb_max_buffered_samples p))]"

record response_audio_payload =
  ra_chunk_seq :: int
  ra_codec :: string
  ra_sample_rate :: int
  ra_channels :: int
  ra_duration_ms :: "int option"
  ra_is_final :: bool
  ra_payload_bytes :: "int option"

definition response_audio_to_dict :: "response_audio_payload \<Rightarrow> jobj" where
  "response_audio_to_dict p = compact
     [(''chunk_seq'', JInt (ra_chunk_seq p)), (''codec'', JStr (ra_codec p)),
      (''sample_rate'', JInt (ra_sample_rate p)), (''channels'', JInt (ra_channels p)),
      (''duration_ms'', jint_opt (ra_duration_ms p)), (''is_final'', JBool (ra_is_final p)),
      (''payload_bytes'', jint_opt (ra_payload_bytes p))]"

record heartbeat_payload =
  hb_nonce :: string

definition heartbeat_to_dict :: "heartbeat_payload \<Rightarrow> jobj" where
  "heartbeat_to_dict p = compact [(''nonce'', JStr (hb_nonce p))]"

record response_done_payload =
  rd_exit :: bool
  rd_reason :: "string option"
  rd_audio_chunks :: "int option"
  rd_audio_bytes :: "int option"

definition response_done_to_dict :: "response_done_payload \<Rightarrow> jobj" where
  "response_done_to_dict p = compact
     [(''exit'', JBool (rd_exit p)), (''reason'', jopt (rd_reason p)),
      (''audio_chunks'', jint_opt (rd_audio_chunks p)), (''audio_bytes'', jint_opt (rd_audio_bytes p))]"

record response_cancelled_payload =
  rc_reason :: string
  rc_cancelled_stage :: "string option"
  rc_expected :: bool

definition response_cancelled_to_dict :: "response_cancelled_payload \<Rightarrow> jobj" where
  "response_cancelled_to_dict p = compact
     [(''reason'', JStr (rc_reason p)), (''cancelled_stage'', jopt (rc_cancelled_stage p)),
      (''expected'', JBool (rc_expected p))]"

record response_error_payload =
  re_origin :: string
  re_stage :: string
  re_code :: string
  re_message :: string
  re_cause_code :: "string option"
  re_retryable :: bool
  re_fatal :: bool

definition response_error_to_dict :: "response_error_payload \<Rightarrow> jobj" where
  "response_error_to_dict p = compact
     [(''origin'', JStr (re_origin p)), (''stage'', JStr (re_stage p)), (''code'', JStr (re_code p)),
      (''message'', JStr (re_message p)), (''cause_code'', jopt (re_cause_code p)),
      (''retryable'', JBool (re_retryable p)), (''fatal'', JBool (re_fatal p))]"

end
