(* ===== verification/Voice_Session.thy ===== *)
theory Voice_Session
  imports Voice_Protocol Transition
begin

text \<open>
  \<open>src/gateway/internal_voice_session_state.py\<close>: the tracker that follows a voice session by
  the envelopes exchanged in it; and the facts about envelopes and tracker.  The lemmas show
  that the dict form of an envelope reads back as that envelope, and that the state of the
  tracker agrees with the ids it reports as active.
\<close>

datatype voice_state = OPENING | IDLE | RECEIVING_AUDIO | ORCHESTRATING | SPEAKING | CLOSED

fun voice_state_text :: "voice_state \<Rightarrow> string" where
  "voice_state_text OPENING = ''opening''"
| "voice_state_text IDLE = ''idle''"
| "voice_state_text RECEIVING_AUDIO = ''receiving_audio''"
| "voice_state_text ORCHESTRATING = ''orchestrating''"
| "voice_state_text SPEAKING = ''speaking''"
| "voice_state_text CLOSED = ''closed''"

record voice_tracker =
  vt_session_id :: string
  vt_state :: voice_state
  vt_sequence :: nat
  active_utterance_id :: "string option"
  active_round_id :: "string option"
  active_playback_id :: "string option"

definition new_voice_tracker :: "string \<Rightarrow> voice_tracker" where
  "new_voice_tracker sid =
     \<lparr>vt_session_id = sid, vt_state = OPENING, vt_sequence = 0, active_utterance_id = None,
      active_round_id = None, active_playback_id = None\<rparr>"

definition idle_voice :: "voice_state \<Rightarrow> voice_tracker \<Rightarrow> voice_tracker" where
  \<comment> \<open>the state with no active id\<close>
  "idle_voice st vt = vt\<lparr>vt_state := st, active_utterance_id := None, active_round_id := None,
     active_playback_id := None\<rparr>"

definition voice_transition :: "envelope \<Rightarrow> voice_tracker \<Rightarrow> voice_tracker" where
  "voice_transition e vt =
     (let t = ev_type e in
      if t = TYPE_SESSION_OPEN then vt\<lparr>vt_state := IDLE\<rparr>
      else if t = TYPE_INPUT_AUDIO_START then
        vt\<lparr>vt_state := RECEIVING_AUDIO, active_utterance_id := ev_utterance_id e\<rparr>
      else if t = TYPE_INPUT_AUDIO_END then
        vt\<lparr>vt_state := ORCHESTRATING, active_utterance_id := ev_utterance_id e\<rparr>
      else if t = TYPE_INPUT_AUDIO_CANCEL then vt\<lparr>vt_state := IDLE, active_utterance_id := None\<rparr>
      else if t = TYPE_CLIENT_EVENT then
        vt\<lparr>vt_state := SPEAKING, active_round_id := ev_round_id e, active_playback_id := ev_playback_id e\<rparr>
      else if t = TYPE_INPUT_TEXT_COMMIT then
        vt\<lparr>vt_state := ORCHESTRATING, active_utterance_id := ev_utterance_id e,
           active_round_id := ev_round_id e, active_playback_id := ev_playback_id e\<rparr>
      else if t = TYPE_INTERRUPT then idle_voice IDLE vt
      else if t = TYPE_PLAYBACK_REPORT then
        vt\<lparr>vt_state := IDLE, active_round_id := None, active_playback_id := None\<rparr>
      else if t = TYPE_RESPONSE_AUDIO then
        vt\<lparr>vt_state := SPEAKING, active_round_id := ev_round_id e, active_playback_id := ev_playback_id e\<rparr>
      else if t \<in> {TYPE_RESPONSE_DONE, TYPE_RESPONSE_CANCELLED, TYPE_RESPONSE_ERROR} then idle_voice IDLE vt
      else if t = TYPE_SESSION_CLOSE then idle_voice CLOSED vt
      else vt)"

definition voice_apply :: "voice_tracker \<Rightarrow> envelope \<Rightarrow> voice_tracker \<times> (py_exn + jobj)" where
  "voice_apply vt e =
     (if ev_session_id e \<noteq> vt_session_id vt then (vt, Inl ValueError)
      else
        let vt1 = voice_transition e vt; vt2 = vt1\<lparr>vt_sequence := vt_sequence vt1 + 1\<rparr>
        in (vt2, Inr (compact
             [(''previous_state'', JStr (voice_state_text (vt_state vt))),
              (''state'', JStr (voice_state_text (vt_state vt2))), (''transition'', JStr (ev_type e)),
              (''sequence'', JInt (int (vt_sequence vt2))),
              (''active_utterance_id'', jopt (active_utterance_id vt2)),
              (''active_round_id'', jopt (active_round_id vt2)),
              (''active_playback_id'', jopt (active_playback_id vt2))])))"

subsection \<open>Envelopes\<close>

definition clean_id :: "string option \<Rightarrow> bool" where
  "clean_id v \<longleftrightarrow> opt_str v = v"

definition envelope_ok :: "envelope \<Rightarrow> bool" where
  "envelope_ok e \<longleftrightarrow> validate_envelope e = Inr () \<and> py_strip (ev_type e) = ev_type e \<and>
     py_strip (ev_session_id e) = ev_session_id e \<and> clean_id (ev_trace_id e) \<and>
     clean_id (ev_utterance_id e) \<and> clean_id (ev_round_id e) \<and> clean_id (ev_playback_id e)"

lemma clean_id_nonempty: "clean_id v \<Longrightarrow> nonempty v \<longleftrightarrow> v \<noteq> None"
  by (cases v) (auto simp: clean_id_def nonempty_def opt_str_def Let_def split: if_splits)

lemma clean_opt_str [simp]: "clean_id (opt_str v)"
  by (simp add: clean_id_def)

lemma clean_optional_str [simp]: "clean_id (optional_str repr v)"
  by (auto simp: clean_id_def optional_str_def opt_str_def Let_def)

lemma envelope_create_ok:
  "envelope_create now t sid payload a b c d ts = Inr e \<Longrightarrow> envelope_ok e"
  by (auto simp: envelope_create_def Let_def envelope_ok_def and_then_Inr_iff)

lemma envelope_from_dict_ok: "envelope_from_dict repr dict_of d = Inr e \<Longrightarrow> envelope_ok e"
  by (auto simp: envelope_from_dict_def Let_def envelope_ok_def and_then_Inr_iff text_or_empty_def)

text \<open>Reading a member of the dict form.\<close>

lemma jget_Cons: "jget ((k, v) # d) x = (if x = k then v else jget d x)"
  by (simp add: jget_def)

lemma jget_Nil [simp]: "jget [] x = JNull"
  by (simp add: jget_def)

lemma jget_id_member:
  "jget (id_member k v @ d) x = (if x = k \<and> nonempty v then JStr (opt_text v) else jget d x)"
  by (simp add: id_member_def jget_def)

lemma jget_id_member_last:
  "jget (id_member k v) x = (if x = k \<and> nonempty v then JStr (opt_text v) else JNull)"
  by (simp add: id_member_def jget_def)

lemma optional_str_text [simp]: "clean_id v \<Longrightarrow> nonempty v \<Longrightarrow> optional_str repr (JStr (opt_text v)) = v"
  by (cases v) (auto simp: clean_id_def optional_str_def opt_str_def Let_def split: if_splits)

lemma clean_id_empty: "clean_id v \<Longrightarrow> \<not> nonempty v \<Longrightarrow> v = None"
  by (auto simp: clean_id_nonempty)

lemma text_or_empty_text [simp]: "py_strip s = s \<Longrightarrow> text_or_empty repr (JStr s) = s"
  by (auto simp: text_or_empty_def)

lemma int_or_zero_int [simp]: "int_or_zero (JInt i) = Inr i"
  by (simp add: int_or_zero_def)

lemma dict_or_empty_obj [simp]: "dict_or_empty dict_of (JObj d) = Inr d"
  by (simp add: dict_or_empty_def)

lemma optional_str_null [simp]: "optional_str repr JNull = None"
  by (simp add: optional_str_def)

lemma envelope_dict_back:
  assumes "envelope_ok e" and "envelope_to_dict e = Inr d"
  shows "envelope_from_dict repr dict_of d = Inr e"
proof -
  from assms have v: "validate_envelope e = Inr ()" by (simp add: envelope_ok_def)
  note ok = assms(1) [unfolded envelope_ok_def]
  have d: "d = [(''version'', JInt (ev_version e)), (''type'', JStr (ev_type e)),
      (''session_id'', JStr (ev_session_id e)), (''timestamp_ms'', JInt (ev_timestamp_ms e)),
      (''payload'', JObj (ev_payload e))] @
      id_member ''trace_id'' (ev_trace_id e) @ id_member ''utterance_id'' (ev_utterance_id e) @
      id_member ''round_id'' (ev_round_id e) @ id_member ''playback_id'' (ev_playback_id e) @ []"
    using assms(2) v by (simp add: envelope_to_dict_def)
  have members: "jget d ''version'' = JInt (ev_version e)" "jget d ''type'' = JStr (ev_type e)"
    "jget d ''session_id'' = JStr (ev_session_id e)" "jget d ''timestamp_ms'' = JInt (ev_timestamp_ms e)"
    "jget d ''payload'' = JObj (ev_payload e)"
    by (simp_all add: d jget_Cons)
  have ids: "optional_str repr (jget d ''trace_id'') = ev_trace_id e"
    "optional_str repr (jget d ''utterance_id'') = ev_utterance_id e"
    "optional_str repr (jget d ''round_id'') = ev_round_id e"
    "optional_str repr (jget d ''playback_id'') = ev_playback_id e"
    using ok by (auto simp: d jget_Cons jget_id_member jget_id_member_last dest: clean_id_empty)
  show ?thesis
    using ok by (cases e) (simp add: envelope_from_dict_def members ids v [simplified] Let_def)
qed

subsection \<open>The tracker\<close>

definition voice_inv :: "voice_tracker \<Rightarrow> bool" where
  "voice_inv vt \<longleftrightarrow>
     (vt_state vt \<in> {RECEIVING_AUDIO, ORCHESTRATING} \<longrightarrow> nonempty (active_utterance_id vt)) \<and>
     (vt_state vt \<in> {OPENING, CLOSED} \<longrightarrow>
        active_utterance_id vt = None \<and> active_round_id vt = None \<and> active_playback_id vt = None)"

lemma utterance_required:
  "validate_envelope e = Inr () \<Longrightarrow>
    ev_type e \<in> {TYPE_INPUT_AUDIO_START, TYPE_INPUT_AUDIO_END, TYPE_INPUT_TEXT_COMMIT} \<Longrightarrow>
    nonempty (ev_utterance_id e)"
  by (auto simp: validate_envelope_def result_simps voice_types starts_with_def)

lemma voice_apply_inv:
  assumes "voice_inv vt" "validate_envelope e = Inr ()"
  shows "voice_inv (fst (voice_apply vt e))"
proof -
  have "voice_inv (voice_transition e vt)"
    using assms utterance_required [OF assms(2)]
    by (simp add: voice_transition_def voice_inv_def idle_voice_def Let_def)
  then show ?thesis using assms(1) by (simp add: voice_apply_def Let_def voice_inv_def)
qed

interpretation voice: transition_system voice_apply voice_inv "\<lambda>e. validate_envelope e = Inr ()"
  by unfold_locales (rule voice_apply_inv)

lemma voice_apply_sequence:
  "vt_session_id (fst (voice_apply vt e)) = vt_session_id vt \<and>
   vt_sequence (fst (voice_apply vt e)) = vt_sequence vt + (if ev_session_id e = vt_session_id vt then 1 else 0)"
  by (simp add: voice_apply_def voice_transition_def idle_voice_def Let_def)

subsection \<open>Properties\<close>

text \<open>Every envelope that can be received or created is well-formed, its dict form exists and
  reads back as the same envelope: nothing is lost or invented on the way between the Go
  edge and the orchestrator.\<close>

theorem envelope_roundtrip:
  assumes "envelope_from_dict repr dict_of received = Inr e \<or>
    envelope_create now t sid payload a b c d ts = Inr e"
  shows "envelope_ok e \<and> (\<exists>sent. envelope_to_dict e = Inr sent \<and> envelope_from_dict repr' dict_of' sent = Inr e)"
proof -
  have ok: "envelope_ok e" using assms envelope_from_dict_ok envelope_create_ok by blast
  then obtain sent where "envelope_to_dict e = Inr sent"
    by (auto simp: envelope_ok_def envelope_to_dict_def)
  with ok envelope_dict_back show ?thesis by blast
qed

definition sample_envelope :: "py_exn + envelope" where
  "sample_envelope = envelope_from_dict (\<lambda>_. []) (\<lambda>_. Inl TypeError)
     [(''version'', JStr '' 1 ''), (''type'', JStr '' input_audio.start ''), (''session_id'', JInt 7),
      (''utterance_id'', JStr ''u1 ''), (''round_id'', JStr '' ''), (''timestamp_ms'', JFloat 3)]"

lemma sample_envelope_ok:
  "sample_envelope = Inr \<lparr>ev_version = 1, ev_type = ''input_audio.start'', ev_session_id = ''7'',
     ev_timestamp_ms = 3, ev_payload = [], ev_trace_id = None, ev_utterance_id = Some ''u1'',
     ev_round_id = None, ev_playback_id = None\<rparr>"
  by code_simp

theorem envelope_roundtrip_witness:
  "envelope_ok \<lparr>ev_version = 1, ev_type = ''input_audio.start'', ev_session_id = ''7'',
     ev_timestamp_ms = 3, ev_payload = [], ev_trace_id = None, ev_utterance_id = Some ''u1'',
     ev_round_id = None, ev_playback_id = None\<rparr>"
  using envelope_roundtrip [OF disjI1 [OF sample_envelope_ok [unfolded sample_envelope_def]]] by blast

text \<open>Along every sequence of valid envelopes the tracker's state agrees with its ids: while it
  receives audio or orchestrates there is an active utterance, and a session that is opening
  or closed has no active id; the sequence number counts the envelopes of its session, and
  those of other sessions change nothing.\<close>

theorem voice_state_agrees_with_ids:
  assumes "\<forall>e \<in> set es. validate_envelope e = Inr ()"
  shows "let vt = run_state voice_apply (new_voice_tracker sid) es in
    voice_inv vt \<and> vt_sequence vt = length (filter (\<lambda>e. ev_session_id e = sid) es) \<and>
    (\<forall>e. ev_session_id e \<noteq> sid \<longrightarrow> voice_apply vt e = (vt, Inl ValueError))"
proof -
  have "voice_inv (run_state voice_apply (new_voice_tracker sid) es)"
    by (rule voice.inv_run [OF _ assms]) (simp add: voice_inv_def new_voice_tracker_def)
  moreover have "vt_session_id (run_state voice_apply vt es) = vt_session_id vt \<and>
      vt_sequence (run_state voice_apply vt es) =
        vt_sequence vt + length (filter (\<lambda>e. ev_session_id e = vt_session_id vt) es)" for vt
    by (induction es arbitrary: vt) (simp_all add: run_simps voice_apply_sequence)
  ultimately show ?thesis
    by (simp add: Let_def new_voice_tracker_def voice_apply_def)
qed

theorem voice_state_agrees_with_ids_witness:
  "(case sample_envelope of Inl _ \<Rightarrow> False | Inr e \<Rightarrow>
      vt_sequence (run_state voice_apply (new_voice_tracker ''7'') [e]) = 1)"
proof -
  let ?e = "\<lparr>ev_version = 1, ev_type = ''input_audio.start'', ev_session_id = ''7'',
     ev_timestamp_ms = 3, ev_payload = [], ev_trace_id = None, ev_utterance_id = Some ''u1'',
     ev_round_id = None, ev_playback_id = None\<rparr>"
  have "\<forall>e \<in> set [?e]. validate_envelope e = Inr ()"
    using envelope_from_dict_ok [OF sample_envelope_ok [unfolded sample_envelope_def]]
    by (simp add: envelope_ok_def)
  from voice_state_agrees_with_ids [OF this, of "''7''"] show ?thesis
    by (simp add: Let_def sample_envelope_ok)
qed

end
