(* ===== verification/Trace_Recorder.thy ===== *)
theory Trace_Recorder
  imports Transition Json
begin

text \<open>
  \<open>src/gateway/trace_recorder.py\<close>: the bounded in-memory record of the events of each round, the
  metrics collected from them, and the diagnosis of a round.  Each operation runs under one
  lock.  The clock reading and the formatted time are arguments; \<open>repr\<close> is the text of a list
  or dict and \<open>flt\<close> is \<open>float()\<close> of a text.  \<open>round(x, 1)\<close> is decimal rounding, ties to even.
\<close>

definition METRIC_KEYS :: "string list" where
  "METRIC_KEYS =
     [''queue_size'', ''audio_chunks'', ''audio_bytes'', ''audio_duration_ms'', ''tts_empty_audio_chunks'',
      ''asr_queue_wait_ms'', ''asr_inference_ms'', ''llm_first_token_ms'', ''llm_first_text_ms'',
      ''llm_total_ms'', ''llm_service_total_ms'', ''llm_request_text_chars'', ''llm_messages_count'',
      ''llm_tools_count'', ''llm_mcp_enabled'', ''llm_mcp_servers_count'', ''llm_mcp_prepare_ms'',
      ''llm_mcp_connect_ms'', ''llm_mcp_tool_build_ms'', ''llm_router_ms'', ''llm_router_kind'',
      ''llm_router_source'', ''llm_router_category'', ''llm_router_classifier_used'', ''llm_stream_mode'',
      ''llm_first_round_tools_count'', ''llm_selected_tool_name'', ''llm_tool_choice_mode'',
      ''llm_tool_call_count'', ''llm_tool_total_ms'', ''llm_tool_max_ms'', ''llm_response_chars'',
      ''tts_connect_ms'', ''tts_first_commit_ms'', ''tts_first_audio_ms'', ''tts_internal_first_pcm_ms'',
      ''tts_first_text_to_first_pcm_ms'', ''tts_gateway_after_server_pcm_ms'',
      ''tts_request_to_grpc_yield_ms'', ''ws_send_ms'', ''ws_backpressure'', ''ws_slow_send_ms'',
      ''ws_send_timeout_ms'', ''ws_slow_send_strikes'', ''cancelled'', ''timeout'',
      ''client_playback_completed'', ''client_playback_interrupted'', ''client_playback_chunks'',
      ''client_playback_samples'', ''client_playback_underruns'', ''client_playback_zero_fill_samples'',
      ''client_playback_max_buffered_samples'', ''client_first_audio_to_playback_start_ms'',
      ''client_playback_start_to_complete_ms'']"

definition DURATION_METRIC_BY_STAGE :: "(string \<times> string) list" where
  "DURATION_METRIC_BY_STAGE =
     [(''llm_first_token'', ''llm_first_token_ms''), (''llm_done'', ''llm_total_ms''),
      (''tts_connected'', ''tts_connect_ms''), (''tts_first_commit'', ''tts_first_commit_ms''),
      (''tts_first_audio'', ''tts_first_audio_ms'')]"

definition DIAGNOSIS_METRICS :: "(string \<times> string \<times> rat) list" where
  \<comment> \<open>metric, label, slow threshold\<close>
  "DIAGNOSIS_METRICS =
     [(''asr_queue_wait_ms'', ''ASR queue wait'', 500), (''asr_inference_ms'', ''ASR inference'', 1500),
      (''llm_router_ms'', ''LLM router'', 800), (''llm_mcp_prepare_ms'', ''MCP prepare'', 1000),
      (''llm_mcp_connect_ms'', ''MCP connect'', 1500), (''llm_mcp_tool_build_ms'', ''MCP tool build'', 1000),
      (''llm_first_token_ms'', ''LLM first token'', 3000), (''llm_tool_total_ms'', ''LLM tool calls'', 5000),
      (''llm_total_ms'', ''LLM n_events'', 10000), (''tts_connect_ms'', ''TTS connect'', 1000),
      (''tts_first_commit_ms'', ''TTS first commit'', 1000), (''tts_first_audio_ms'', ''TTS first audio'', 3000),
      (''ws_slow_send_ms'', ''Gateway WS send'', 150),
      (''client_first_audio_to_playback_start_ms'', ''Client first audio to playback'', 500),
      (''client_playback_start_to_complete_ms'', ''Client playback'', 15000)]"

record trace_event =
  te_trace_id :: string
  te_session_id :: string
  te_round_seq :: "int option"
  te_robot_id :: "string option"
  te_bot_id :: "string option"
  te_bot_name :: "string option"
  te_stage :: string
  te_status :: string
  te_ts :: string
  te_ts_epoch :: seconds
  te_duration_ms :: "rat option"
  te_summary :: jobj
  te_error :: "string option"
  te_since_round_start_ms :: rat
  te_since_previous_event_ms :: "rat option"

record trace_round =
  tr_trace_id :: string
  tr_session_id :: string
  tr_round_seq :: "int option"
  tr_robot_id :: "string option"
  tr_bot_id :: "string option"
  tr_bot_name :: "string option"
  tr_started_at :: string
  tr_started_epoch :: seconds
  tr_last_event_at :: string
  tr_last_event_epoch :: seconds
  tr_last_stage :: string
  tr_status :: string
  tr_duration_ms :: rat
  tr_event_count :: nat
  tr_metrics :: jobj
  tr_events :: "trace_event list"

record recorder =
  rec_enabled :: bool
  rec_max_events :: int
  rec_max_rounds :: int
  text_max_chars :: int
  error_max_chars :: int
  rounds :: "(string, trace_round) odict"
  event_total :: int

definition new_recorder :: "bool \<Rightarrow> int \<Rightarrow> int \<Rightarrow> int \<Rightarrow> int \<Rightarrow> recorder" where
  "new_recorder enabled max_events max_rounds text_chars error_chars =
     \<lparr>rec_enabled = enabled, rec_max_events = max 1 max_events, rec_max_rounds = max 1 max_rounds,
      text_max_chars = max 20 text_chars, error_max_chars = max 50 error_chars, rounds = [], event_total = 0\<rparr>"

subsection \<open>Values\<close>

definition round1 :: "rat \<Rightarrow> rat" where
  \<comment> \<open>\<open>round(x, 1)\<close>\<close>
  "round1 x =
     (let y = x * 10; f = floor y; d = y - of_int f in
      of_int (if d < 1 / 2 then f else if d > 1 / 2 then f + 1 else if even f then f else f + 1) / 10)"

definition truncate_text :: "string \<Rightarrow> int \<Rightarrow> string" where
  "truncate_text t max_chars =
     (if int (length t) \<le> max_chars then t else py_rstrip (take (nat max_chars) t) @ ''...'')"

definition sanitize_summary :: "(json \<Rightarrow> string) \<Rightarrow> int \<Rightarrow> jobj \<Rightarrow> jobj" where
  "sanitize_summary repr max_chars d =
     map (\<lambda>(k, v). (k, case v of
        JStr s \<Rightarrow> JStr (truncate_text s max_chars)
      | JArr _ \<Rightarrow> JStr (truncate_text (repr v) max_chars)
      | JObj _ \<Rightarrow> JStr (truncate_text (repr v) max_chars)
      | _ \<Rightarrow> v)) d"

function metric_values :: "jobj \<Rightarrow> jobj" where
  \<comment> \<open>\<open>_iter_metric_values\<close>\<close>
  "metric_values [] = []"
| "metric_values ((k, v) # d) =
     (if k \<in> set METRIC_KEYS \<and> v \<noteq> JNull then [(k, v)] else []) @
     (case v of JObj inner \<Rightarrow> metric_values inner | _ \<Rightarrow> []) @ metric_values d"
  by pat_completeness auto
termination
  by (relation "measure (\<lambda>d. size_list (\<lambda>kv. size (snd kv) + 1) d)") (auto simp: size_prod_simp comp_def)

fun normalize_metric_value :: "json \<Rightarrow> json" where
  "normalize_metric_value (JInt i) = JFloat (round1 (of_int i))"
| "normalize_metric_value (JFloat r) = JFloat (round1 r)"
| "normalize_metric_value v = v"

definition set_metric :: "jobj \<Rightarrow> string \<Rightarrow> json \<Rightarrow> jobj" where
  "set_metric metrics key v =
     (let normalized = normalize_metric_value v in
      if key \<in> {''cancelled'', ''timeout''} then
        AList.update key (JBool (truthy (jget metrics key) \<or> truthy normalized)) metrics
      else if key \<in> {''audio_bytes'', ''audio_duration_ms''} \<and> key \<in> set (keys metrics) then metrics
      else AList.update key normalized metrics)"

definition update_metrics :: "string \<Rightarrow> string \<Rightarrow> rat option \<Rightarrow> jobj \<Rightarrow> jobj \<Rightarrow> jobj" where
  "update_metrics stage st duration_ms summary metrics =
     (let m1 = (case (map_of DURATION_METRIC_BY_STAGE stage, duration_ms) of
                  (Some k, Some d) \<Rightarrow> set_metric metrics k (JFloat d)
                | _ \<Rightarrow> metrics);
          m2 = (if st = ''timeout'' \<or> ends_with stage ''_timeout'' then set_metric m1 ''timeout'' (JBool True) else m1);
          m3 = (if ends_with stage ''_interrupted'' then set_metric m2 ''cancelled'' (JBool True) else m2)
      in foldl (\<lambda>m (k, v). set_metric m k v) m3 (metric_values summary))"

definition number_metric :: "(string \<Rightarrow> rat option) \<Rightarrow> json \<Rightarrow> rat option" where
  "number_metric flt v =
     (case v of
        JInt i \<Rightarrow> Some (of_int i)
      | JFloat r \<Rightarrow> Some r
      | JStr s \<Rightarrow> flt s
      | _ \<Rightarrow> None)"

subsection \<open>Recording\<close>

record emission =
  em_trace_id :: "string option"
  em_session_id :: string
  em_round_seq :: "int option"
  em_stage :: string
  em_status :: string
  em_robot_id :: "string option"
  em_bot_id :: "string option"
  em_bot_name :: "string option"
  em_duration_ms :: "rat option"
  em_summary :: jobj
  em_error :: "string option"

definition new_round :: "seconds \<Rightarrow> string \<Rightarrow> string \<Rightarrow> emission \<Rightarrow> trace_round" where
  "new_round now ts tid em =
     \<lparr>tr_trace_id = tid, tr_session_id = em_session_id em, tr_round_seq = em_round_seq em,
      tr_robot_id = em_robot_id em, tr_bot_id = em_bot_id em, tr_bot_name = em_bot_name em,
      tr_started_at = ts, tr_started_epoch = now, tr_last_event_at = ts, tr_last_event_epoch = now,
      tr_last_stage = em_stage em, tr_status = em_status em, tr_duration_ms = 0, tr_event_count = 0,
      tr_metrics = [], tr_events = []\<rparr>"

definition or_now :: "seconds \<Rightarrow> seconds \<Rightarrow> seconds" where
  \<comment> \<open>\<open>float(t or now)\<close>\<close>
  "or_now now t = (if t = 0 then now else t)"

definition either_id :: "string option \<Rightarrow> string option \<Rightarrow> string option" where
  \<comment> \<open>\<open>if new: item[...] = new\<close>\<close>
  "either_id new old = (if nonempty new then new else old)"

definition FAILURE_STATUSES :: "string list" where
  "FAILURE_STATUSES = [''error'', ''timeout'']"

definition record_event ::
  "(json \<Rightarrow> string) \<Rightarrow> seconds \<Rightarrow> string \<Rightarrow> recorder \<Rightarrow> string \<Rightarrow> emission \<Rightarrow> seconds option \<Rightarrow>
    trace_round \<Rightarrow> trace_round" where
  "record_event repr now ts rc tid em previous_epoch it =
     (let started = or_now now (tr_started_epoch it);
          event = \<lparr>te_trace_id = tid, te_session_id = em_session_id em, te_round_seq = em_round_seq em,
            te_robot_id = em_robot_id em, te_bot_id = em_bot_id em, te_bot_name = em_bot_name em,
            te_stage = em_stage em, te_status = em_status em, te_ts = ts, te_ts_epoch = now,
            te_duration_ms = map_option round1 (em_duration_ms em),
            te_summary = sanitize_summary repr (text_max_chars rc) (em_summary em),
            te_error = (if nonempty (em_error em)
                        then Some (truncate_text (opt_text (em_error em)) (error_max_chars rc)) else None),
            te_since_round_start_ms = round1 ((now - started) * 1000),
            te_since_previous_event_ms = map_option (\<lambda>p. round1 ((now - p) * 1000)) previous_epoch\<rparr>
      in it\<lparr>tr_robot_id := either_id (em_robot_id em) (tr_robot_id it),
            tr_bot_id := either_id (em_bot_id em) (tr_bot_id it),
            tr_bot_name := either_id (em_bot_name em) (tr_bot_name it),
            tr_last_event_at := ts, tr_last_event_epoch := now, tr_last_stage := em_stage em,
            tr_event_count := tr_event_count it + 1,
            tr_duration_ms := round1 ((now - started) * 1000),
            tr_status := (if em_status em \<in> set FAILURE_STATUSES \<or> tr_status it \<notin> set FAILURE_STATUSES
                          then em_status em else tr_status it),
            tr_metrics := update_metrics (em_stage em) (em_status em) (em_duration_ms em) (em_summary em)
              (tr_metrics it),
            tr_events := tr_events it @ [event]\<rparr>)"

fun trim_loop :: "int \<Rightarrow> int \<Rightarrow> (string, trace_round) odict \<Rightarrow> int \<Rightarrow> (string, trace_round) odict \<times> int \<times> bool" where
  \<comment> \<open>the loop of \<open>_trim_locked\<close>; the flag is the \<open>KeyError\<close> of \<open>popitem\<close> on an empty dict\<close>
  "trim_loop max_events max_rounds [] n_events = ([], n_events, n_events > max_events \<or> 0 > max_rounds)"
| "trim_loop max_events max_rounds ((k, it) # rs) n_events =
     (if n_events > max_events \<or> int (length ((k, it) # rs)) > max_rounds
      then trim_loop max_events max_rounds rs (n_events - int (length (tr_events it)))
      else ((k, it) # rs, n_events, False))"

definition trim :: "recorder \<Rightarrow> recorder" where
  \<comment> \<open>\<open>emit\<close> swallows the exception\<close>
  "trim rc =
     (case trim_loop (rec_max_events rc) (rec_max_rounds rc) (rounds rc) (event_total rc) of
        (rs, n_events, raised) \<Rightarrow> rc\<lparr>rounds := rs, event_total := (if raised then n_events else max 0 n_events)\<rparr>)"

definition emit :: "(json \<Rightarrow> string) \<Rightarrow> seconds \<Rightarrow> string \<Rightarrow> emission \<Rightarrow> recorder \<Rightarrow> recorder" where
  "emit repr now ts em rc =
     (if \<not> rec_enabled rc \<or> \<not> nonempty (em_trace_id em) then rc
      else
        let tid = opt_text (em_trace_id em) in
        (case map_of (rounds rc) tid of
           None \<Rightarrow>
             trim (rc\<lparr>rounds := AList.update tid (record_event repr now ts rc tid em None (new_round now ts tid em)) (rounds rc),
                      event_total := event_total rc + 1\<rparr>)
         | Some it \<Rightarrow>
             trim (rc\<lparr>rounds := AList.update tid
                        (record_event repr now ts rc tid em (Some (tr_last_event_epoch it)) it)
                        (od_move_to_end tid (rounds rc)),
                      event_total := event_total rc + 1\<rparr>)))"

subsection \<open>Diagnosis\<close>

record breakdown_item =
  bd_metric :: string
  bd_label :: string
  bd_duration_ms :: rat
  bd_slow_threshold_ms :: rat
  bd_slow :: bool

datatype signal = Signal string | CountSignal string rat    \<comment> \<open>\<open>name=value\<close>\<close>

record diagnosis =
  dg_severity :: string
  dg_bottleneck :: "breakdown_item option"
  dg_signals :: "signal list"
  dg_breakdown :: "breakdown_item list"

definition breakdown_items :: "(string \<Rightarrow> rat option) \<Rightarrow> jobj \<Rightarrow> breakdown_item list" where
  "breakdown_items flt metrics =
     List.map_filter (\<lambda>(metric, label, threshold).
       map_option (\<lambda>d. \<lparr>bd_metric = metric, bd_label = label, bd_duration_ms = round1 d,
           bd_slow_threshold_ms = threshold, bd_slow = (d \<ge> threshold)\<rparr>)
         (number_metric flt (jget metrics metric)))
       DIAGNOSIS_METRICS"

definition count_signal :: "(string \<Rightarrow> rat option) \<Rightarrow> jobj \<Rightarrow> string \<Rightarrow> string \<Rightarrow> signal list" where
  "count_signal flt metrics key name =
     (case number_metric flt (jget metrics key) of
        None \<Rightarrow> []
      | Some n \<Rightarrow> if n > 0 then [CountSignal name (round1 n)] else [])"

definition diagnosis_signals :: "(string \<Rightarrow> rat option) \<Rightarrow> jobj \<Rightarrow> signal list" where
  "diagnosis_signals flt metrics =
     (if truthy (jget metrics ''timeout'') then [Signal ''timeout''] else []) @
     (if truthy (jget metrics ''cancelled'') then [Signal ''cancelled''] else []) @
     (if truthy (jget metrics ''ws_backpressure'') then [Signal ''gateway_ws_backpressure''] else []) @
     (case number_metric flt (jget metrics ''ws_send_timeout_ms'') of
        None \<Rightarrow> [] | Some n \<Rightarrow> if n \<noteq> 0 then [Signal ''gateway_ws_send_timeout''] else []) @
     count_signal flt metrics ''client_playback_underruns'' ''client_playback_underruns'' @
     count_signal flt metrics ''client_playback_zero_fill_samples'' ''client_zero_fill_samples'' @
     count_signal flt metrics ''tts_empty_audio_chunks'' ''tts_empty_audio_chunks'' @
     count_signal flt metrics ''llm_tool_call_count'' ''tool_calls''"

definition diagnose_round :: "(string \<Rightarrow> rat option) \<Rightarrow> trace_round \<Rightarrow> diagnosis" where
  "diagnose_round flt it =
     (let metrics = tr_metrics it;
          breakdown = rev (sort_key bd_duration_ms (rev (breakdown_items flt metrics)));
          bottleneck = (case breakdown of [] \<Rightarrow> None | b # _ \<Rightarrow> Some b);
          st = (if tr_status it = [] then ''unknown'' else tr_status it);
          severity =
            (if truthy (jget metrics ''timeout'') \<or> st = ''timeout'' then ''timeout''
             else if truthy (jget metrics ''cancelled'') then ''cancelled''
             else if (case bottleneck of None \<Rightarrow> False | Some b \<Rightarrow> bd_slow b) then ''slow''
             else if st = ''error'' then ''error''
             else if breakdown \<noteq> [] then ''ok'' else ''unknown'')
      in \<lparr>dg_severity = severity, dg_bottleneck = bottleneck, dg_signals = diagnosis_signals flt metrics,
          dg_breakdown = take 8 breakdown\<rparr>)"

subsection \<open>Queries\<close>

record round_summary =
  rs_round :: trace_round     \<comment> \<open>without its events\<close>
  rs_diagnosis :: diagnosis

definition summarize_round :: "(string \<Rightarrow> rat option) \<Rightarrow> trace_round \<Rightarrow> round_summary" where
  "summarize_round flt it = \<lparr>rs_round = it\<lparr>tr_events := []\<rparr>, rs_diagnosis = diagnose_round flt it\<rparr>"

record round_page =
  pg_items :: "round_summary list"
  pg_limit :: int
  pg_offset :: int
  pg_total :: int
  pg_has_more :: bool

definition list_rounds :: "(string \<Rightarrow> rat option) \<Rightarrow> int \<Rightarrow> int \<Rightarrow> recorder \<Rightarrow> round_page" where
  "list_rounds flt limit offset rc =
     (let page_limit = max 1 (min (if limit = 0 then 100 else limit) (rec_max_rounds rc));
          page_offset = max 0 offset in
      if \<not> rec_enabled rc then
        \<lparr>pg_items = [], pg_limit = page_limit, pg_offset = page_offset, pg_total = 0, pg_has_more = False\<rparr>
      else
        let ordered = rev (map snd (rounds rc)); n_rounds = int (length ordered) in
        \<lparr>pg_items = map (summarize_round flt) (take (nat page_limit) (drop (nat page_offset) ordered)),
         pg_limit = page_limit, pg_offset = page_offset, pg_total = n_rounds,
         pg_has_more = (page_offset + page_limit < n_rounds)\<rparr>)"

definition get_round :: "(string \<Rightarrow> rat option) \<Rightarrow> string \<Rightarrow> recorder \<Rightarrow> (round_summary \<times> trace_event list) option" where
  "get_round flt tid rc = map_option (\<lambda>it. (summarize_round flt it, tr_events it)) (map_of (rounds rc) tid)"

definition recorder_stats :: "recorder \<Rightarrow> jobj" where
  "recorder_stats rc =
     [(''enabled'', JBool (rec_enabled rc)), (''round_count'', JInt (int (length (rounds rc)))),
      (''event_count'', JInt (event_total rc)), (''max_rounds'', JInt (rec_max_rounds rc)),
      (''max_events'', JInt (rec_max_events rc)), (''text_max_chars'', JInt (text_max_chars rc)),
      (''error_max_chars'', JInt (error_max_chars rc))]"

end
