(* ===== verification/Trace_Recorder_Facts.thy ===== *)
theory Trace_Recorder_Facts
  imports Trace_Recorder
begin

text \<open>
  The trace recorder never exceeds its limits, counts its events correctly, and keeps the event
  it has just been given.
\<close>

definition count_events :: "(string, trace_round) odict \<Rightarrow> int" where
  "count_events d = (\<Sum>(_, it) \<leftarrow> d. int (length (tr_events it)))"

lemma count_events_simps [simp]:
  "count_events [] = 0"
  "count_events ((k, it) # d) = int (length (tr_events it)) + count_events d"
  "count_events (d @ d') = count_events d + count_events d'"
  by (simp_all add: count_events_def)

lemma count_events_nonneg [simp]: "0 \<le> count_events d"
  by (induction d) auto

lemma count_events_update:
  assumes "distinct (keys d)" "map_of d k = Some it"
  shows "count_events (AList.update k it' d) =
    count_events d - int (length (tr_events it)) + int (length (tr_events it'))"
  using assms by (induction d) (auto split: if_splits)

lemma count_events_delete:
  assumes "distinct (keys d)" "map_of d k = Some it"
  shows "count_events (AList.delete k d) = count_events d - int (length (tr_events it))"
  using assms
proof (induction d)
  case (Cons kv d)
  then show ?case
    by (cases kv) (auto simp: delete_absent split: if_splits)
qed simp

lemma count_events_move_to_end:
  "distinct (keys d) \<Longrightarrow> count_events (od_move_to_end k d) = count_events d"
  by (auto simp: od_move_to_end_def count_events_delete split: option.split)

definition round_ok :: "string \<Rightarrow> trace_round \<Rightarrow> bool" where
  "round_ok k it \<longleftrightarrow> tr_event_count it = length (tr_events it) \<and> tr_trace_id it = k"

definition recorder_inv :: "recorder \<Rightarrow> bool" where
  "recorder_inv rc \<longleftrightarrow> 1 \<le> rec_max_events rc \<and> 1 \<le> rec_max_rounds rc \<and> distinct (keys (rounds rc)) \<and>
     event_total rc = count_events (rounds rc) \<and> event_total rc \<le> rec_max_events rc \<and>
     int (length (rounds rc)) \<le> rec_max_rounds rc \<and>
     (\<forall>k it. (k, it) \<in> set (rounds rc) \<longrightarrow> round_ok k it)"

lemma trim_loop_spec:
  assumes "0 \<le> max_events" "0 \<le> max_rounds" "n = count_events d"
  shows "\<exists>k. trim_loop max_events max_rounds d n = (drop k d, count_events (drop k d), False) \<and>
    count_events (drop k d) \<le> max_events \<and> int (length (drop k d)) \<le> max_rounds"
  using assms
proof (induction max_events max_rounds d n rule: trim_loop.induct)
  case (1 max_events max_rounds n)
  then show ?case by simp
next
  case (2 max_events max_rounds k it rs n)
  show ?case
  proof (cases "n > max_events \<or> int (length ((k, it) # rs)) > max_rounds")
    case True
    from "2.IH" [OF True] "2.prems" obtain j where
      "trim_loop max_events max_rounds rs (n - int (length (tr_events it))) =
         (drop j rs, count_events (drop j rs), False)"
      "count_events (drop j rs) \<le> max_events" "int (length (drop j rs)) \<le> max_rounds"
      by auto
    with True show ?thesis by (intro exI [of _ "Suc j"]) simp
  next
    case False
    with "2.prems" show ?thesis by (intro exI [of _ 0]) auto
  qed
qed

lemma trim_loop_keep:
  "n \<le> max_events \<Longrightarrow> int (length d) \<le> max_rounds \<Longrightarrow> trim_loop max_events max_rounds d n = (d, n, False)"
  by (cases d) auto

lemma trim_inv:
  assumes "1 \<le> rec_max_events rc" "1 \<le> rec_max_rounds rc" "distinct (keys (rounds rc))"
    and "event_total rc = count_events (rounds rc)"
    and "\<forall>k it. (k, it) \<in> set (rounds rc) \<longrightarrow> round_ok k it"
  shows "recorder_inv (trim rc) \<and> (\<exists>k. rounds (trim rc) = drop k (rounds rc))"
proof -
  from assms have "0 \<le> rec_max_events rc" "0 \<le> rec_max_rounds rc" by auto
  from trim_loop_spec [OF this assms(4)] obtain k where
    k: "trim_loop (rec_max_events rc) (rec_max_rounds rc) (rounds rc) (event_total rc) =
      (drop k (rounds rc), count_events (drop k (rounds rc)), False)"
      "count_events (drop k (rounds rc)) \<le> rec_max_events rc"
      "int (length (drop k (rounds rc))) \<le> rec_max_rounds rc" by blast
  have t: "trim rc = rc\<lparr>rounds := drop k (rounds rc), event_total := count_events (drop k (rounds rc))\<rparr>"
    by (simp add: trim_def k(1))
  have "distinct (keys (drop k (rounds rc)))" using assms(3) by (simp add: drop_map [symmetric])
  moreover have "\<forall>j it. (j, it) \<in> set (drop k (rounds rc)) \<longrightarrow> round_ok j it"
    using assms(5) by (auto dest: in_set_dropD)
  ultimately have "recorder_inv (trim rc)"
    using k(2,3) assms(1,2) by (simp add: t recorder_inv_def)
  moreover have "rounds (trim rc) = drop k (rounds rc)" by (simp add: t)
  ultimately show ?thesis by blast
qed

lemma record_event_round:
  "round_ok k it \<Longrightarrow> round_ok k (record_event repr now ts rc tid em p it)"
  "length (tr_events (record_event repr now ts rc tid em p it)) = Suc (length (tr_events it))"
  by (simp_all add: record_event_def Let_def round_ok_def)

lemma new_round_ok: "round_ok tid (new_round now ts tid em)" "tr_events (new_round now ts tid em) = []"
  by (simp_all add: new_round_def round_ok_def)

text \<open>What \<open>emit\<close> stores before it trims.\<close>

definition emitted ::
  "(json \<Rightarrow> string) \<Rightarrow> seconds \<Rightarrow> string \<Rightarrow> emission \<Rightarrow> recorder \<Rightarrow> (string, trace_round) odict" where
  "emitted repr now ts em rc =
     (let tid = opt_text (em_trace_id em) in
      case map_of (rounds rc) tid of
        None \<Rightarrow> AList.update tid (record_event repr now ts rc tid em None (new_round now ts tid em)) (rounds rc)
      | Some it \<Rightarrow> AList.update tid (record_event repr now ts rc tid em (Some (tr_last_event_epoch it)) it)
          (od_move_to_end tid (rounds rc)))"

lemma emit_emitted:
  assumes "rec_enabled rc" "nonempty (em_trace_id em)"
  shows "emit repr now ts em rc =
    trim (rc\<lparr>rounds := emitted repr now ts em rc, event_total := event_total rc + 1\<rparr>)"
  using assms by (simp add: emit_def emitted_def Let_def split: option.split)

lemma set_move_to_end_subset:
  assumes "distinct (keys d)" shows "set (od_move_to_end k d) \<subseteq> set d"
proof -
  have "set (AList.delete k d) \<subseteq> set d" by (auto simp: AList.delete_eq)
  then show ?thesis by (auto simp: od_move_to_end_def dest: map_of_SomeD split: option.split)
qed

lemma update_members:
  "(j, w) \<in> set (AList.update k v d) \<Longrightarrow> distinct (keys d) \<Longrightarrow> (j, w) = (k, v) \<or> (j, w) \<in> set d"
  by (induction d) (auto split: if_splits)

lemma emitted_ok:
  assumes "recorder_inv rc"
  shows "distinct (keys (emitted repr now ts em rc))"
    "count_events (emitted repr now ts em rc) = count_events (rounds rc) + 1"
    "\<forall>k it. (k, it) \<in> set (emitted repr now ts em rc) \<longrightarrow> round_ok k it"
proof -
  let ?tid = "opt_text (em_trace_id em)"
  from assms have d: "distinct (keys (rounds rc))" and ok: "\<forall>k it. (k, it) \<in> set (rounds rc) \<longrightarrow> round_ok k it"
    by (simp_all add: recorder_inv_def)
  have "distinct (keys (emitted repr now ts em rc)) \<and>
    count_events (emitted repr now ts em rc) = count_events (rounds rc) + 1 \<and>
    (\<forall>k it. (k, it) \<in> set (emitted repr now ts em rc) \<longrightarrow> round_ok k it)"
  proof (cases "map_of (rounds rc) ?tid")
    case None
    then have new: "?tid \<notin> set (keys (rounds rc))" by (simp add: map_of_eq_None_iff)
    show ?thesis
      using d ok None new
      by (auto simp: emitted_def Let_def update_new record_event_round new_round_ok)
  next
    case (Some it)
    let ?d = "od_move_to_end ?tid (rounds rc)"
    have dd: "distinct (keys ?d)" using d by (rule distinct_keys_move_to_end)
    have m: "map_of ?d ?tid = Some it" using Some by (simp add: map_of_move_to_end)
    have "round_ok ?tid it" using ok Some map_of_SomeD by fast
    then show ?thesis
      using dd ok Some set_move_to_end_subset [OF d, of ?tid]
      by (auto simp: emitted_def Let_def distinct_update count_events_update [OF dd m] count_events_move_to_end [OF d]
          record_event_round dest!: update_members)
  qed
  then show "distinct (keys (emitted repr now ts em rc))"
    "count_events (emitted repr now ts em rc) = count_events (rounds rc) + 1"
    "\<forall>k it. (k, it) \<in> set (emitted repr now ts em rc) \<longrightarrow> round_ok k it" by blast+
qed

lemma emit_inv: assumes "recorder_inv rc" shows "recorder_inv (emit repr now ts em rc)"
proof (cases "rec_enabled rc \<and> nonempty (em_trace_id em)")
  case True
  let ?rc = "rc\<lparr>rounds := emitted repr now ts em rc, event_total := event_total rc + 1\<rparr>"
  have "recorder_inv (trim ?rc)"
    by (rule trim_inv [THEN conjunct1]) (use assms emitted_ok [OF assms] in \<open>simp_all add: recorder_inv_def\<close>)
  with True show ?thesis by (simp add: emit_emitted)
next
  case False
  with assms show ?thesis by (auto simp: emit_def)
qed

fun recorder_step ::
  "(json \<Rightarrow> string) \<Rightarrow> recorder \<Rightarrow> seconds \<times> string \<times> emission \<Rightarrow> recorder \<times> unit" where
  "recorder_step repr rc (now, ts, em) = (emit repr now ts em rc, ())"

interpretation recorder: transition_system "recorder_step repr" recorder_inv "\<lambda>_. True"
  by unfold_locales (auto simp: emit_inv)

lemma new_recorder_inv: "recorder_inv (new_recorder enabled max_events max_rounds tc ec)"
  by (auto simp: recorder_inv_def new_recorder_def)

lemma trim_limits [simp]:
  "rec_max_events (trim rc) = rec_max_events rc" "rec_max_rounds (trim rc) = rec_max_rounds rc"
  by (simp_all add: trim_def split: prod.split)

lemma emit_limits:
  "rec_max_events (emit repr now ts em rc) = rec_max_events rc"
  "rec_max_rounds (emit repr now ts em rc) = rec_max_rounds rc"
  by (simp_all add: emit_def Let_def split: option.split)

lemma trim_loop_last:
  assumes "d \<noteq> []" "n = count_events d" "int (length (tr_events (snd (last d)))) \<le> max_events" "1 \<le> max_rounds"
  shows "fst (trim_loop max_events max_rounds d n) \<noteq> []"
  using assms
proof (induction max_events max_rounds d n rule: trim_loop.induct)
  case (2 max_events max_rounds k it rs n)
  show ?case
  proof (cases "n > max_events \<or> int (length ((k, it) # rs)) > max_rounds")
    case True
    with "2.prems" have "rs \<noteq> []" by (cases rs) auto
    with True "2.IH" [OF True] "2.prems" show ?thesis by simp
  qed simp
qed simp

lemma trim_keeps_last:
  assumes "rounds rc \<noteq> []" "event_total rc = count_events (rounds rc)" "1 \<le> rec_max_rounds rc"
    and "int (length (tr_events (snd (last (rounds rc))))) \<le> rec_max_events rc"
  shows "rounds (trim rc) \<noteq> [] \<and> last (rounds (trim rc)) = last (rounds rc)"
proof -
  from assms(3,4) have "0 \<le> rec_max_events rc" "0 \<le> rec_max_rounds rc" by linarith+
  from trim_loop_spec [OF this assms(2)] obtain k where
    k: "trim_loop (rec_max_events rc) (rec_max_rounds rc) (rounds rc) (event_total rc) =
      (drop k (rounds rc), count_events (drop k (rounds rc)), False)" by blast
  then have "drop k (rounds rc) \<noteq> []"
    using trim_loop_last [OF assms(1,2,4,3)] by simp
  with k show ?thesis by (simp add: trim_def last_drop)
qed

lemma update_last: "k \<notin> set (keys d) \<Longrightarrow> AList.update k v (d @ [(k, w)]) = d @ [(k, v)]"
  by (induction d) auto

lemma record_event_appends:
  obtains e where "tr_events (record_event repr now ts rc tid em p it) = tr_events it @ [e]"
    "te_stage e = em_stage em" "te_status e = em_status em"
    "tr_status it \<in> set FAILURE_STATUSES \<longrightarrow>
      tr_status (record_event repr now ts rc tid em p it) \<in> set FAILURE_STATUSES"
  by (rule that) (auto simp: record_event_def Let_def)

lemma emitted_last:
  assumes "recorder_inv rc" and "em_trace_id em = Some tid"
    and old: "old = (case map_of (rounds rc) tid of None \<Rightarrow> [] | Some it \<Rightarrow> tr_events it)"
  shows "\<exists>it e. emitted repr now ts em rc \<noteq> [] \<and> last (emitted repr now ts em rc) = (tid, it) \<and>
    tr_events it = old @ [e] \<and> te_stage e = em_stage em \<and> te_status e = em_status em \<and>
    ((\<exists>before. map_of (rounds rc) tid = Some before \<and> tr_status before \<in> set FAILURE_STATUSES) \<longrightarrow>
      tr_status it \<in> set FAILURE_STATUSES)"
proof (cases "map_of (rounds rc) tid")
  case None
  let ?it = "record_event repr now ts rc tid em None (new_round now ts tid em)"
  from None have new: "tid \<notin> set (keys (rounds rc))" by (simp add: map_of_eq_None_iff)
  have "emitted repr now ts em rc = rounds rc @ [(tid, ?it)]"
    by (simp add: emitted_def Let_def assms(2) None update_new [OF new])
  moreover obtain e where "tr_events ?it = tr_events (new_round now ts tid em) @ [e]"
    "te_stage e = em_stage em" "te_status e = em_status em"
    by (rule record_event_appends)
  ultimately show ?thesis using None by (simp add: old new_round_ok)
next
  case (Some before)
  let ?it = "record_event repr now ts rc tid em (Some (tr_last_event_epoch before)) before"
  have "emitted repr now ts em rc = AList.delete tid (rounds rc) @ [(tid, ?it)]"
    using Some by (simp add: emitted_def Let_def assms(2) od_move_to_end_def update_last keys_delete)
  moreover obtain e where "tr_events ?it = tr_events before @ [e]"
    "te_stage e = em_stage em" "te_status e = em_status em"
    "tr_status before \<in> set FAILURE_STATUSES \<longrightarrow> tr_status ?it \<in> set FAILURE_STATUSES"
    by (rule record_event_appends)
  ultimately show ?thesis using Some by (simp add: old)
qed

subsection \<open>Properties\<close>

text \<open>Whatever is emitted, the recorder holds at most \<open>max_rounds\<close> rounds and \<open>max_events\<close>
  events, its event counter is the number of events it holds, each round's counter the number
  of its events, and each round is filed once, under its own trace id.\<close>

theorem trace_recorder_stays_bounded:
  "let rc = run_state (recorder_step repr) (new_recorder enabled max_events max_rounds tc ec) es in
    int (length (rounds rc)) \<le> max 1 max_rounds \<and> event_total rc \<le> max 1 max_events \<and>
    event_total rc = count_events (rounds rc) \<and> distinct (keys (rounds rc)) \<and>
    list_all (\<lambda>(k, it). tr_event_count it = length (tr_events it) \<and> tr_trace_id it = k) (rounds rc)"
proof -
  let ?rc = "run_state (recorder_step repr) (new_recorder enabled max_events max_rounds tc ec) es"
  have "recorder_inv ?rc" by (rule recorder.inv_run) (simp_all add: new_recorder_inv)
  moreover have "rec_max_events (run_state (recorder_step repr) rc es) = rec_max_events rc \<and>
      rec_max_rounds (run_state (recorder_step repr) rc es) = rec_max_rounds rc" for rc
    by (induction es arbitrary: rc) (auto simp: run_simps emit_limits)
  then have "rec_max_events ?rc = max 1 max_events" "rec_max_rounds ?rc = max 1 max_rounds"
    by (simp_all add: new_recorder_def)
  ultimately show ?thesis
    by (auto simp: Let_def recorder_inv_def round_ok_def list_all_iff)
qed

text \<open>The event just emitted is kept: its round is the newest one and ends with the event, after
  the events the round already had, as long as the events of that round alone fit.  A failed
  round stays failed.\<close>

theorem emitted_event_is_kept:
  assumes "recorder_inv rc" and "rec_enabled rc" and "em_trace_id em = Some tid" and "tid \<noteq> []"
    and "int (length old) < rec_max_events rc"
    and "old = (case map_of (rounds rc) tid of None \<Rightarrow> [] | Some it \<Rightarrow> tr_events it)"
  shows "\<exists>it e. rounds (emit repr now ts em rc) \<noteq> [] \<and> last (rounds (emit repr now ts em rc)) = (tid, it) \<and>
    tr_events it = old @ [e] \<and> te_stage e = em_stage em \<and> te_status e = em_status em \<and>
    ((\<exists>before. map_of (rounds rc) tid = Some before \<and> tr_status before \<in> set FAILURE_STATUSES) \<longrightarrow>
      tr_status it \<in> set FAILURE_STATUSES)"
proof -
  have ne: "nonempty (em_trace_id em)" using assms(3,4) by (simp add: nonempty_def)
  let ?rc = "rc\<lparr>rounds := emitted repr now ts em rc, event_total := event_total rc + 1\<rparr>"
  from emitted_last [OF assms(1,3,6)] obtain it e where
    it: "emitted repr now ts em rc \<noteq> []" "last (emitted repr now ts em rc) = (tid, it)" "tr_events it = old @ [e]"
    and rest: "te_stage e = em_stage em \<and> te_status e = em_status em \<and>
      ((\<exists>before. map_of (rounds rc) tid = Some before \<and> tr_status before \<in> set FAILURE_STATUSES) \<longrightarrow>
        tr_status it \<in> set FAILURE_STATUSES)"
    by blast
  have "rounds (trim ?rc) \<noteq> [] \<and> last (rounds (trim ?rc)) = last (rounds ?rc)"
    by (rule trim_keeps_last)
      (use it assms(1,5) emitted_ok [OF assms(1)] in \<open>simp_all add: recorder_inv_def\<close>)
  with it rest show ?thesis by (auto simp: emit_emitted [OF assms(2) ne])
qed

definition sample_emission :: "string \<Rightarrow> emission" where
  "sample_emission st =
     \<lparr>em_trace_id = Some ''t'', em_session_id = ''s'', em_round_seq = None, em_stage = ''llm_done'',
      em_status = st, em_robot_id = None, em_bot_id = None, em_bot_name = None,
      em_duration_ms = Some 5, em_summary = [], em_error = None\<rparr>"

theorem emitted_event_is_kept_witness:
  "\<exists>it e. last (rounds (emit (\<lambda>_. []) 7 ''now'' (sample_emission ''ok'')
     (emit (\<lambda>_. []) 5 ''then'' (sample_emission ''error'') (new_recorder True 10 1 20 50)))) = (''t'', it) \<and>
     length (tr_events it) = 2 \<and> tr_status it \<in> set FAILURE_STATUSES"
proof -
  let ?rc = "emit (\<lambda>_. []) 5 ''then'' (sample_emission ''error'') (new_recorder True 10 1 20 50)"
  have inv: "recorder_inv ?rc" by (intro emit_inv new_recorder_inv)
  have "(case map_of (rounds ?rc) ''t'' of Some it \<Rightarrow> length (tr_events it) = 1 \<and> tr_status it = ''error'' | None \<Rightarrow> False) \<and>
      rec_enabled ?rc \<and> rec_max_events ?rc = 10" by code_simp
  then obtain it where it: "map_of (rounds ?rc) ''t'' = Some it" "length (tr_events it) = 1" "tr_status it = ''error''"
      "rec_enabled ?rc" "rec_max_events ?rc = 10" by (auto split: option.splits)
  from emitted_event_is_kept [OF inv it(4), of "sample_emission ''ok''" "''t''" "tr_events it"] it show ?thesis
    by (fastforce simp: sample_emission_def FAILURE_STATUSES_def)
qed

end
