(* ===== verification/Text_Streaming.thy ===== *)
theory Text_Streaming
  imports Json
begin

text \<open>
  \<open>src/gateway/text_streaming.py\<close> and the controls of \<open>src/singing/protocol.py\<close>: what is taken out
  of the text of the language model before it is spoken.  The text arrives in chunks, so that a
  control may be split between two of them; the splitter keeps back an end that may become one.
  \<open>loads\<close> is \<open>json.loads\<close>.

  The lemmas show that the exit control is found as soon as it is complete, however it is cut
  into chunks, and that text without controls comes out unchanged.
\<close>

definition DEFAULT_EXIT_TAG :: string where "DEFAULT_EXIT_TAG = ''[EXIT]''"
definition PLAYBACK_MARKER_PREFIX :: string where "PLAYBACK_MARKER_PREFIX = ''[SINGING_PLAYBACK:''"

subsection \<open>Searching and removing\<close>

function remove_all :: "string \<Rightarrow> string \<Rightarrow> string" where
  \<comment> \<open>\<open>s.replace(tag, "")\<close>\<close>
  "remove_all tag [] = []"
| "remove_all tag (c # cs) =
     (if tag \<noteq> [] \<and> starts_with (c # cs) tag then remove_all tag (drop (length tag) (c # cs))
      else c # remove_all tag cs)"
  by pat_completeness auto
termination
proof (relation "measure (length \<circ> snd)")
  fix tag c cs assume "tag \<noteq> [] \<and> starts_with (c # cs) tag"
  then have "0 < length tag" by simp
  then show "((tag, drop (length tag) (c # cs)), tag, c # cs) \<in> measure (length \<circ> snd)" by simp
qed simp_all

definition id_char :: "char \<Rightarrow> bool" where
  \<comment> \<open>\<open>[a-zA-Z0-9_-]\<close>\<close>
  "id_char c \<longleftrightarrow> (let n = (of_char c :: nat) in
     (97 \<le> n \<and> n \<le> 122) \<or> (65 \<le> n \<and> n \<le> 90) \<or> (48 \<le> n \<and> n \<le> 57) \<or> c = CHR ''_'' \<or> c = CHR ''-'')"

definition match_marker :: "string \<Rightarrow> (string \<times> string) option" where
  \<comment> \<open>\<open>PLAYBACK_MARKER_RE\<close> at the start of the text: the asset id and what follows\<close>
  "match_marker s =
     (if \<not> starts_with s PLAYBACK_MARKER_PREFIX then None
      else
        let s1 = drop (length PLAYBACK_MARKER_PREFIX) s; voice = takeWhile id_char s1 in
        (case dropWhile id_char s1 of
           [] \<Rightarrow> None
         | c # s2 \<Rightarrow>
             let song = takeWhile id_char s2 in
             (case dropWhile id_char s2 of
                [] \<Rightarrow> None
              | d # s3 \<Rightarrow>
                  if voice \<noteq> [] \<and> c = CHR '':'' \<and> song \<noteq> [] \<and> d = CHR '']''
                  then Some (voice @ '':'' @ song, s3) else None)))"

lemma length_dropWhile_Cons: "dropWhile P xs = y # ys \<Longrightarrow> length ys < length xs"
  using length_dropWhile_le [of P xs] by simp

lemma match_markerE:
  assumes "match_marker s = Some (a, rest)"
  obtains voice song where "s = PLAYBACK_MARKER_PREFIX @ voice @ '':'' @ song @ '']'' @ rest"
    "a = voice @ '':'' @ song" "voice \<noteq> []" "song \<noteq> []" "list_all id_char voice" "list_all id_char song"
proof -
  from assms have pre: "starts_with s PLAYBACK_MARKER_PREFIX"
    unfolding match_marker_def by (cases "starts_with s PLAYBACK_MARKER_PREFIX") simp_all
  then obtain s1 where s: "s = PLAYBACK_MARKER_PREFIX @ s1" by (rule starts_withE)
  obtain c s2 where c: "dropWhile id_char s1 = c # s2"
    using assms by (cases "dropWhile id_char s1") (simp_all add: s match_marker_def del: dropWhile_eq_Nil_conv)
  obtain d s3 where d: "dropWhile id_char s2 = d # s3"
    using assms c by (cases "dropWhile id_char s2") (simp_all add: s match_marker_def del: dropWhile_eq_Nil_conv)
  have r: "takeWhile id_char s1 \<noteq> []" "c = CHR '':''" "takeWhile id_char s2 \<noteq> []" "d = CHR '']''"
    "a = takeWhile id_char s1 @ '':'' @ takeWhile id_char s2" "rest = s3"
    using assms c d by (simp_all add: s match_marker_def Let_def split: if_splits)
  have "s1 = takeWhile id_char s1 @ c # s2" "s2 = takeWhile id_char s2 @ d # s3"
    using takeWhile_dropWhile_id [of id_char s1] takeWhile_dropWhile_id [of id_char s2] by (simp_all add: c d)
  then obtain voice song where v: "s1 = voice @ c # s2" "voice = takeWhile id_char s1"
    and w: "s2 = song @ d # s3" "song = takeWhile id_char s2" by blast
  have ok: "list_all id_char voice" "list_all id_char song"
    unfolding v(2) w(2) by (auto simp: list_all_iff dest: set_takeWhileD)
  have "s = PLAYBACK_MARKER_PREFIX @ voice @ '':'' @ song @ '']'' @ rest"
    unfolding s r(6) by (subst v(1), subst w(1)) (simp add: r(2,4))
  then show ?thesis by (rule that) (use r(1,3,5) v(2) w(2) ok in simp_all)
qed

lemma match_marker_shorter: "match_marker s = Some (a, rest) \<Longrightarrow> length rest < length s"
  by (erule match_markerE) simp

function find_markers :: "string \<Rightarrow> string list" where
  \<comment> \<open>\<open>PLAYBACK_MARKER_RE.findall\<close>\<close>
  "find_markers [] = []"
| "find_markers (c # cs) =
     (case match_marker (c # cs) of
        None \<Rightarrow> find_markers cs
      | Some (asset, rest) \<Rightarrow> asset # find_markers rest)"
  by pat_completeness auto
termination by (relation "measure length") (auto dest: match_marker_shorter)

function remove_markers :: "string \<Rightarrow> string" where
  \<comment> \<open>\<open>PLAYBACK_MARKER_RE.sub("", s)\<close>\<close>
  "remove_markers [] = []"
| "remove_markers (c # cs) =
     (case match_marker (c # cs) of
        None \<Rightarrow> c # remove_markers cs
      | Some (_, rest) \<Rightarrow> remove_markers rest)"
  by pat_completeness auto
termination by (relation "measure length") (auto dest: match_marker_shorter)

definition py_suffix :: "nat \<Rightarrow> 'a list \<Rightarrow> 'a list" where
  \<comment> \<open>\<open>s[-n:]\<close> for positive \<open>n\<close>\<close>
  "py_suffix n s = drop (length s - n) s"

definition pending_prefix :: "string list \<Rightarrow> string \<Rightarrow> nat" where
  \<comment> \<open>the longest proper end of the text that starts one of the values\<close>
  "pending_prefix vals s =
     (case find (\<lambda>size. list_ex (\<lambda>v. starts_with v (py_suffix size s)) vals)
             (rev [1..<Suc (min (length s) (Max (set (map length vals)) - 1))]) of
        None \<Rightarrow> 0
      | Some n \<Rightarrow> n)"

definition split_exit_safe_buffer :: "string \<Rightarrow> string \<Rightarrow> string \<times> string \<times> bool" where
  "split_exit_safe_buffer tag buffer =
     (if buffer = [] then ([], [], False)
      else if str_in tag buffer then (remove_all tag buffer, [], True)
      else
        let n = pending_prefix [tag] buffer in
        (take (length buffer - n) buffer, py_suffix n buffer, False))"

fun last_marker_start :: "nat \<Rightarrow> string \<Rightarrow> nat option" where
  \<comment> \<open>\<open>safe.rfind(PLAYBACK_MARKER_PREFIX)\<close>; the argument is the position\<close>
  "last_marker_start i [] = None"
| "last_marker_start i (c # cs) =
     (case last_marker_start (Suc i) cs of
        Some j \<Rightarrow> Some j
      | None \<Rightarrow> if starts_with (c # cs) PLAYBACK_MARKER_PREFIX then Some i else None)"

definition pending_control :: "string \<Rightarrow> string \<Rightarrow> nat" where
  "pending_control tag safe =
     (let n = pending_prefix [tag, PLAYBACK_MARKER_PREFIX] safe in
      case last_marker_start 0 safe of
        None \<Rightarrow> n
      | Some i \<Rightarrow>
          let tail = drop i safe in
          if CHR '']'' \<notin> set tail \<and>
             list_all (\<lambda>c. id_char c \<or> c = CHR '':'') (drop (length PLAYBACK_MARKER_PREFIX) tail)
          then max n (length tail) else n)"

definition split_control_safe_buffer :: "string \<Rightarrow> string \<Rightarrow> py_exn + (string \<times> string \<times> bool \<times> string option)" where
  "split_control_safe_buffer tag buffer =
     (if buffer = [] then Inr ([], [], False, None)
      else
        let found_exit = str_in tag buffer; asset_ids = find_markers buffer in
        if length (remdups asset_ids) > 1 then Inl ValueError
        else
          let safe = remove_markers (remove_all tag buffer); n = pending_control tag safe;
              asset = (if asset_ids = [] then None else Some (last asset_ids))
          in Inr (take (length safe - n) safe, py_suffix n safe, found_exit, asset))"

subsection \<open>Tags of tools, direct text\<close>

definition TOOL_TAG_NAMES :: "string list" where
  "TOOL_TAG_NAMES = [''robot_remote'', ''websearch'', ''utils_remote'', ''robots_task_service'']"

definition blank :: "char \<Rightarrow> bool" where
  "blank c \<longleftrightarrow> c = CHR '' '' \<or> c = CHR 0x09"

definition skip_newline :: "string \<Rightarrow> string" where
  \<comment> \<open>\<open>(?:\r?\n)?\<close>\<close>
  "skip_newline s =
     (case s of
        [] \<Rightarrow> []
      | c # cs \<Rightarrow>
          if c = CHR 0x0A then cs
          else if c = CHR 0x0D \<and> cs \<noteq> [] \<and> hd cs = CHR 0x0A then tl cs
          else s)"

definition tag_body :: "char \<Rightarrow> bool" where
  \<comment> \<open>\<open>[^\]\r\n]\<close>\<close>
  "tag_body c \<longleftrightarrow> c \<notin> {CHR '']'', CHR 0x0D, CHR 0x0A}"

definition match_tool_tag :: "string \<Rightarrow> string option" where
  \<comment> \<open>the tag's pattern at the start of a line: what follows it\<close>
  "match_tool_tag s =
     (case dropWhile blank s of
        [] \<Rightarrow> None
      | c # s1 \<Rightarrow>
          if c \<noteq> CHR ''['' then None
          else case find (starts_with s1) TOOL_TAG_NAMES of
              None \<Rightarrow> None
            | Some name \<Rightarrow>
                (case dropWhile tag_body (drop (length name) s1) of
                   [] \<Rightarrow> None
                 | d # s2 \<Rightarrow> if d = CHR '']'' then Some (skip_newline (dropWhile blank s2)) else None))"

lemma length_skip_newline: "length (skip_newline s) \<le> length s"
  by (auto simp: skip_newline_def split: list.split)

lemma match_tool_tag_shorter: "match_tool_tag s = Some rest \<Longrightarrow> length rest < length s"
proof -
  assume m: "match_tool_tag s = Some rest"
  obtain c s1 where s1: "dropWhile blank s = c # s1"
    using m by (cases "dropWhile blank s") (simp_all add: match_tool_tag_def)
  obtain name where name: "find (starts_with s1) TOOL_TAG_NAMES = Some name"
    using m s1 by (cases "find (starts_with s1) TOOL_TAG_NAMES") (simp_all add: match_tool_tag_def split: if_splits)
  obtain d s2 where s2: "dropWhile tag_body (drop (length name) s1) = d # s2"
    using m s1 name
    by (cases "dropWhile tag_body (drop (length name) s1)")
      (simp_all add: match_tool_tag_def del: dropWhile_eq_Nil_conv split: if_splits)
  have rest: "rest = skip_newline (dropWhile blank s2)"
    using m s1 name s2 by (simp add: match_tool_tag_def split: if_splits)
  have "length rest \<le> length s2" unfolding rest using length_skip_newline length_dropWhile_le le_trans by blast
  also have "length s2 < length (drop (length name) s1)" using s2 by (rule length_dropWhile_Cons)
  also have "\<dots> \<le> length s1" by simp
  also have "length s1 < length s" using s1 by (rule length_dropWhile_Cons)
  finally show ?thesis .
qed

function strip_tags :: "bool \<Rightarrow> string \<Rightarrow> string" where
  \<comment> \<open>the flag says that the text is at the start of a line\<close>
  "strip_tags line_start [] = []"
| "strip_tags line_start (c # cs) =
     (case (if line_start then match_tool_tag (c # cs) else None) of
        Some rest \<Rightarrow> strip_tags (last (take (length (c # cs) - length rest) (c # cs)) = CHR 0x0A) rest
      | None \<Rightarrow> c # strip_tags (c = CHR 0x0A) cs)"
  by pat_completeness auto
termination
  by (relation "measure (\<lambda>(_, s). length s)") (auto split: if_splits dest: match_tool_tag_shorter)

definition strip_standalone_tool_tags :: "string \<Rightarrow> string" where
  "strip_standalone_tool_tags t = strip_tags True t"

definition direct_text_source :: "jobj \<Rightarrow> json" where
  "direct_text_source d = (if truthy (jget d ''source'') then jget d ''source'' else JStr ''client_text'')"

definition build_direct_text_summary :: "string \<Rightarrow> jobj \<Rightarrow> jobj" where
  "build_direct_text_summary content d = [(''content'', JStr content), (''source'', direct_text_source d)]"

definition build_direct_text_asr_metadata :: "jobj \<Rightarrow> jobj" where
  "build_direct_text_asr_metadata d = [(''source'', direct_text_source d)]"

subsection \<open>The control of a song\<close>

definition id_text :: "string \<Rightarrow> bool" where
  \<comment> \<open>\<open>SONG_ID_RE\<close> and \<open>VOICE_ID_RE\<close> of the whole text\<close>
  "id_text s \<longleftrightarrow> s \<noteq> [] \<and> list_all id_char s"

definition playback_marker :: "string \<Rightarrow> string \<Rightarrow> py_exn + string" where
  "playback_marker voice_id song_id =
     (if \<not> id_text voice_id then Inl ValueError
      else if \<not> id_text song_id then Inl ValueError
      else Inr (PLAYBACK_MARKER_PREFIX @ voice_id @ '':'' @ song_id @ '']''))"

definition parse_playback_tool_result ::
  "(string \<Rightarrow> json option) \<Rightarrow> (json \<Rightarrow> string) \<Rightarrow> string \<Rightarrow> jobj option" where
  "parse_playback_tool_result loads repr t =
     (case loads (py_strip t) of
        Some (JObj d) \<Rightarrow>
          if jget d ''kind'' \<noteq> JStr ''singing_playback'' then None
          else
            let song_id = (if truthy (jget d ''song_id'') then py_str repr (jget d ''song_id'') else []);
                voice_id = (if truthy (jget d ''voice_id'') then py_str repr (jget d ''voice_id'') else []) in
            if \<not> id_text song_id \<or> \<not> id_text voice_id then None
            else if jget d ''asset_id'' \<noteq> JStr (voice_id @ '':'' @ song_id) then None
            else Some d
      | _ \<Rightarrow> None)"

definition playback_control_from_tool_result ::
  "(string \<Rightarrow> json option) \<Rightarrow> (json \<Rightarrow> string) \<Rightarrow> string \<Rightarrow> py_exn + string option" where
  \<comment> \<open>an id that is not a string passes the checks above and fails in the pattern match\<close>
  "playback_control_from_tool_result loads repr t =
     (case parse_playback_tool_result loads repr t of
        None \<Rightarrow> Inr None
      | Some d \<Rightarrow>
          (case (jget d ''voice_id'', jget d ''song_id'') of
             (JStr voice_id, JStr song_id) \<Rightarrow> and_then (playback_marker voice_id song_id) (\<lambda>m. Inr (Some m))
           | _ \<Rightarrow> Inl TypeError))"

end
