(* ===== verification/Text_Streaming_Facts.thy ===== *)
theory Text_Streaming_Facts
  imports Text_Streaming
begin

text \<open>
  The splitter over a stream of chunks: the gateway appends each chunk to what was kept back,
  splits, speaks the safe part and keeps the rest.
\<close>

fun feed_chunks :: "string \<Rightarrow> string list \<Rightarrow> string \<Rightarrow> py_exn + (string \<times> string \<times> bool)" where
  \<comment> \<open>the loop over the chunks of \<open>text_generator\<close> in \<open>gateway_server.py\<close>: what is spoken, what is
      kept back, and whether the exit control was found\<close>
  "feed_chunks tag [] kept = Inr ([], kept, False)"
| "feed_chunks tag (c # cs) kept =
     and_then (split_control_safe_buffer tag (kept @ c)) (\<lambda>(safe, kept', found, _).
     and_then (feed_chunks tag cs kept') (\<lambda>(spoken_text, kept'', found').
     Inr (safe @ spoken_text, kept'', found \<or> found')))"

lemma str_in_iff: "str_in needle s \<longleftrightarrow> (\<exists>a b. s = a @ needle @ b)"
proof
  assume "str_in needle s"
  then obtain i where "take (length needle) (drop i s) = needle" by (auto simp: str_in_def list_ex_iff)
  then have "s = take i s @ needle @ drop (length needle) (drop i s)"
    by (metis append_take_drop_id)
  then show "\<exists>a b. s = a @ needle @ b" by blast
next
  assume "\<exists>a b. s = a @ needle @ b"
  then obtain a b where s: "s = a @ needle @ b" by blast
  then have "take (length needle) (drop (length a) s) = needle" "length a \<in> set [0..<Suc (length s)]" by simp_all
  then show "str_in needle s" unfolding str_in_def list_ex_iff by blast
qed

lemma remove_all_absent: "\<not> str_in tag s \<Longrightarrow> remove_all tag s = s"
proof (induction tag s rule: remove_all.induct)
  case (2 tag c cs)
  have "\<not> starts_with (c # cs) tag"
  proof
    assume "starts_with (c # cs) tag"
    then obtain r where "c # cs = tag @ r" by (rule starts_withE)
    then have "c # cs = [] @ tag @ r" by simp
    with 2(3) show False unfolding str_in_iff by blast
  qed
  moreover have "\<not> str_in tag cs"
  proof
    assume "str_in tag cs"
    then obtain a b where "cs = a @ tag @ b" unfolding str_in_iff by blast
    then have "c # cs = (c # a) @ tag @ b" by simp
    with 2(3) show False unfolding str_in_iff by blast
  qed
  ultimately show ?case using 2 by simp
qed simp

lemma find_markers_suffix: "find_markers (a @ s) = [] \<Longrightarrow> find_markers s = []"
  by (induction a) (auto split: option.splits)

lemma remove_markers_absent: "find_markers s = [] \<Longrightarrow> remove_markers s = s"
  by (induction s rule: remove_markers.induct) (auto split: option.splits)

text \<open>The end that is kept back contains every unfinished tag.\<close>

lemma find_rev_greatest:
  assumes "P k" "1 \<le> k" "k \<le> m"
  shows "\<exists>n. find P (rev [1..<Suc m]) = Some n \<and> k \<le> n"
  using assms(3)
proof (induction m)
  case 0
  with assms show ?case by simp
next
  case (Suc m)
  show ?case
  proof (cases "P (Suc m)")
    case True
    with Suc.prems show ?thesis by simp
  next
    case False
    with assms(1) have "k \<noteq> Suc m" by blast
    with Suc obtain n where "find P (rev [1..<Suc m]) = Some n" "k \<le> n" by auto
    with False show ?thesis by simp
  qed
qed

lemma find_rev_le: "find P (rev [1..<Suc m]) = Some n \<Longrightarrow> n \<le> m"
  by (induction m) (auto split: if_splits)

lemma pending_prefix_le: "pending_prefix vals s \<le> length s"
proof (cases "find (\<lambda>size. list_ex (\<lambda>v. starts_with v (py_suffix size s)) vals)
    (rev [1..<Suc (min (length s) (Max (set (map length vals)) - 1))])")
  case (Some n)
  from find_rev_le [OF this] Some show ?thesis by (simp add: pending_prefix_def del: upt_Suc)
qed (simp add: pending_prefix_def del: upt_Suc)

lemma pending_prefix_greatest:
  assumes "finite (set vals)" "v \<in> set vals" "starts_with v (py_suffix k s)" "1 \<le> k" "k \<le> length s" "k < length v"
  shows "k \<le> pending_prefix vals s"
proof -
  have "length v \<le> Max (set (map length vals))" using assms(2) by (intro Max_ge) auto
  with assms(6) have "k \<le> Max (set (map length vals)) - 1" by linarith
  with assms(5) have k: "k \<le> min (length s) (Max (set (map length vals)) - 1)" by simp
  have "list_ex (\<lambda>v. starts_with v (py_suffix k s)) vals" using assms(2,3) by (auto simp: list_ex_iff)
  from find_rev_greatest [of "\<lambda>size. list_ex (\<lambda>v. starts_with v (py_suffix size s)) vals", OF this assms(4) k]
  show ?thesis by (auto simp: pending_prefix_def simp del: upt_Suc)
qed

lemma last_marker_bound: "last_marker_start i s = Some j \<Longrightarrow> i \<le> j \<and> j < i + length s"
  by (induction i s rule: last_marker_start.induct) (auto split: option.splits if_splits)

lemma pending_control_le: "pending_control tag s \<le> length s"
  using pending_prefix_le [of "[tag, PLAYBACK_MARKER_PREFIX]" s]
  by (auto simp: pending_control_def Let_def split: option.split)

lemma pending_control_greatest:
  assumes "starts_with tag (py_suffix k s)" "1 \<le> k" "k \<le> length s" "k < length tag"
  shows "k \<le> pending_control tag s"
  using pending_prefix_greatest [of "[tag, PLAYBACK_MARKER_PREFIX]" tag k s] assms
  by (auto simp: pending_control_def Let_def split: option.split)

lemma split_no_control:
  assumes "\<not> str_in tag buffer" "find_markers buffer = []"
  shows "split_control_safe_buffer tag buffer =
    Inr (take (length buffer - pending_control tag buffer) buffer, py_suffix (pending_control tag buffer) buffer,
      False, None)"
  using assms
  by (cases "buffer = []")
    (simp_all add: split_control_safe_buffer_def Let_def remove_all_absent remove_markers_absent py_suffix_def)

lemma split_control_found:
  assumes "find_markers buffer = []" "buffer \<noteq> []"
  shows "\<exists>safe kept. split_control_safe_buffer tag buffer = Inr (safe, kept, str_in tag buffer, None)"
  using assms by (simp add: split_control_safe_buffer_def Let_def)

lemma suffix_within: "a @ p = b @ q \<Longrightarrow> length p \<le> length q \<Longrightarrow> \<exists>us. q = us @ p"
  by (auto simp: append_eq_append_conv2)

lemma starts_with_prefix: "starts_with s (p @ q) \<Longrightarrow> starts_with s p"
  by (auto elim: starts_withE)

definition holds_back :: "string \<Rightarrow> string \<Rightarrow> string \<Rightarrow> bool" where
  \<comment> \<open>every unfinished tag at the end of what was read is in what is kept\<close>
  "holds_back tag read_text kept \<longleftrightarrow>
     (\<forall>a p. read_text = a @ p \<and> starts_with tag p \<and> length p < length tag \<longrightarrow> length p \<le> length kept)"

lemma holds_back_step:
  assumes "holds_back tag r kept" and r: "r = said @ kept"
  shows "holds_back tag (r @ c) (py_suffix (pending_control tag (kept @ c)) (kept @ c))"
  unfolding holds_back_def
proof (intro allI impI)
  fix a p assume p: "r @ c = a @ p \<and> starts_with tag p \<and> length p < length tag"
  have "length p \<le> length (kept @ c)"
  proof (cases "length c \<le> length p")
    case True
    with p suffix_within [of r c a p] obtain q where q: "p = q @ c" by blast
    with p have "r = a @ q" "starts_with tag q" "length q < length tag" by (auto intro: starts_with_prefix)
    with assms(1) q show ?thesis by (auto simp: holds_back_def)
  qed simp
  moreover from p have "a @ p = said @ (kept @ c)" by (simp add: r)
  ultimately obtain us where us: "kept @ c = us @ p" using suffix_within by blast
  then have "py_suffix (length p) (kept @ c) = p" by (simp add: py_suffix_def)
  then have "length p \<le> pending_control tag (kept @ c)"
    using pending_control_greatest [of tag "length p" "kept @ c"] p us by (cases p) simp_all
  then show "length p \<le> length (py_suffix (pending_control tag (kept @ c)) (kept @ c))"
    using pending_control_le [of tag "kept @ c"] by (simp add: py_suffix_def)
qed

text \<open>A tag that is complete now and was not before lies in what was kept and the new chunk.\<close>

lemma tag_in_kept:
  assumes "holds_back tag r kept" and r: "r = said @ kept" and "\<not> str_in tag r"
  shows "str_in tag (kept @ c) \<longleftrightarrow> str_in tag (r @ c)"
proof
  assume "str_in tag (kept @ c)"
  then obtain a b where "kept @ c = a @ tag @ b" unfolding str_in_iff by blast
  then have "r @ c = (said @ a) @ tag @ b" by (simp add: r)
  then show "str_in tag (r @ c)" unfolding str_in_iff by blast
next
  assume "str_in tag (r @ c)"
  then obtain a b where ab: "r @ c = a @ tag @ b" unfolding str_in_iff by blast
  have "length b < length c"
  proof (rule ccontr)
    assume "\<not> length b < length c"
    with suffix_within [of r c "a @ tag" b] ab obtain us where "b = us @ c" by auto
    with ab have "r = a @ tag @ us" by simp
    with assms(3) show False unfolding str_in_iff by blast
  qed
  then obtain q2 where c: "c = q2 @ b" using suffix_within [of "a @ tag" b r c] ab by auto
  with ab have rq: "r @ q2 = a @ tag" by simp
  have "length (tag @ b) \<le> length (kept @ c)"
  proof (cases "length q2 \<le> length tag")
    case True
    with suffix_within [of r q2 a tag] rq obtain q where q: "tag = q @ q2" by auto
    show ?thesis
    proof (cases "q2 = []")
      case True
      with rq have "r = a @ tag @ []" by simp
      with assms(3) show ?thesis unfolding str_in_iff by blast
    next
      case False
      from rq q have "r = a @ q" by simp
      moreover have "starts_with tag q" "length q < length tag" using q False by simp_all
      ultimately have "length q \<le> length kept" using assms(1) unfolding holds_back_def by blast
      then show ?thesis by (simp add: q c)
    qed
  qed (simp add: c)
  moreover have "a @ (tag @ b) = said @ (kept @ c)" using ab by (simp add: r)
  ultimately obtain us where "kept @ c = us @ (tag @ b)" using suffix_within by blast
  then show "str_in tag (kept @ c)" unfolding str_in_iff by blast
qed

lemma not_in_prefix: "\<not> str_in tag (a @ s) \<Longrightarrow> \<not> str_in tag a" "\<not> str_in tag (a @ s) \<Longrightarrow> \<not> str_in tag s"
  unfolding str_in_iff by (metis append.assoc)+

lemma id_char_separators [simp]: "\<not> id_char (CHR '':'')" "\<not> id_char (CHR '']'')" "\<not> id_char (CHR ''['')"
  by (simp_all add: id_char_def)

lemma match_markerI:
  assumes "voice \<noteq> []" "song \<noteq> []" "list_all id_char voice" "list_all id_char song"
  shows "match_marker (PLAYBACK_MARKER_PREFIX @ voice @ '':'' @ song @ '']'' @ rest) = Some (voice @ '':'' @ song, rest)"
  using assms
  by (simp add: match_marker_def list_all_iff takeWhile_append2 dropWhile_append2)

lemma match_marker_append: "match_marker s = Some (asset, rest) \<Longrightarrow> match_marker (s @ t) = Some (asset, rest @ t)"
  by (erule match_markerE) (simp add: match_markerI [of _ _ "rest @ t", simplified])

lemma find_markers_prefix: "find_markers (s @ t) = [] \<Longrightarrow> find_markers s = []"
proof (induction s)
  case (Cons c cs)
  then show ?case
    by (cases "match_marker (c # cs)") (auto split: option.splits dest: match_marker_append [where t = t])
qed simp

lemma feed_without_controls:
  assumes "\<not> str_in tag (r @ concat cs)" "find_markers (r @ concat cs) = []" "r = said @ kept" "holds_back tag r kept"
  shows "\<exists>out kept'. feed_chunks tag cs kept = Inr (out, kept', False) \<and>
    r @ concat cs = (said @ out) @ kept' \<and> holds_back tag (r @ concat cs) kept'"
  using assms
proof (induction cs arbitrary: r said kept)
  case Nil
  then show ?case by simp
next
  case (Cons c cs)
  let ?b = "kept @ c" let ?n = "pending_control tag (kept @ c)"
  have whole: "r @ concat (c # cs) = said @ (?b @ concat cs)" by (simp add: Cons.prems(3))
  have nt: "\<not> str_in tag ?b" using Cons.prems(1) unfolding whole by (blast dest: not_in_prefix)
  have b: "(said @ take (length ?b - ?n) ?b) @ py_suffix ?n ?b = r @ c"
    unfolding py_suffix_def append_assoc append_take_drop_id Cons.prems(3) ..
  have nm: "find_markers ?b = []"
    by (rule find_markers_prefix [of _ "concat cs"], rule find_markers_suffix [of said])
      (use Cons.prems(2) in \<open>simp only: whole\<close>)
  from Cons.IH [of "r @ c" "said @ take (length ?b - ?n) ?b" "py_suffix ?n ?b"] Cons.prems b
    holds_back_step [OF Cons.prems(4,3)]
  show ?case by (auto simp: split_no_control [OF nt nm])
qed

subsection \<open>Properties\<close>

text \<open>C16: The exit control is found however the text is cut into chunks.  As long as the text read
  has no control, all of it has been spoken or is kept back, in order; the next chunk reports
  the exit control exactly when the text read so far and that chunk together contain it.\<close>

theorem exit_control_found_across_chunks:
  assumes "\<not> str_in tag (concat cs)" and "find_markers (concat cs @ c) = []" and "tag \<noteq> []"
  shows "\<exists>out kept safe kept'. feed_chunks tag cs [] = Inr (out, kept, False) \<and> out @ kept = concat cs \<and>
    split_control_safe_buffer tag (kept @ c) = Inr (safe, kept', str_in tag (concat cs @ c), None)"
proof -
  have nm: "find_markers (concat cs) = []" using assms(2) by (rule find_markers_prefix)
  have "holds_back tag [] []" by (simp add: holds_back_def)
  from feed_without_controls [of tag "[]" cs "[]" "[]"] this assms(1) nm obtain out kept where
    f: "feed_chunks tag cs [] = Inr (out, kept, False)" and r: "concat cs = out @ kept"
    and h: "holds_back tag (concat cs) kept" by auto
  have "find_markers (kept @ c) = []"
    by (rule find_markers_suffix [of out]) (use assms(2) r in simp)
  moreover have "str_in tag (kept @ c) = str_in tag (concat cs @ c)"
    by (rule tag_in_kept [OF h r assms(1)])
  ultimately have "\<exists>safe kept'. split_control_safe_buffer tag (kept @ c) =
      Inr (safe, kept', str_in tag (concat cs @ c), None)"
    using split_control_found [of "kept @ c" tag] assms(3)
    by (cases "kept @ c = []") (auto simp: split_control_safe_buffer_def str_in_iff)
  with f r show ?thesis by auto
qed

theorem exit_control_found_across_chunks_witness:
  "\<exists>kept safe kept'. feed_chunks DEFAULT_EXIT_TAG [''bye'', ''[EX''] [] = Inr (''bye'', kept, False) \<and>
     split_control_safe_buffer DEFAULT_EXIT_TAG (kept @ ''IT]'') = Inr (safe, kept', True, None)"
proof -
  have t: "\<not> str_in DEFAULT_EXIT_TAG (concat [''bye'', ''[EX''])"
    "find_markers (concat [''bye'', ''[EX''] @ ''IT]'') = []" "DEFAULT_EXIT_TAG \<noteq> []"
    "str_in DEFAULT_EXIT_TAG (concat [''bye'', ''[EX''] @ ''IT]'')"
    "feed_chunks DEFAULT_EXIT_TAG [''bye'', ''[EX''] [] = Inr (''bye'', ''[EX'', False)"
    by code_simp+
  from exit_control_found_across_chunks [OF t(1,2,3)] t(4,5) show ?thesis by auto
qed

text \<open>A song chosen by a tool reaches the player as chosen: when a tool result yields a playback
  control, the splitter takes that control out of the text, speaks nothing of it, and reports
  the asset id the tool result carries.\<close>

theorem song_control_roundtrip:
  assumes "playback_control_from_tool_result loads repr t = Inr (Some marker)"
  shows "\<exists>d asset. loads (py_strip t) = Some (JObj d) \<and> jget d ''asset_id'' = JStr asset \<and>
    split_control_safe_buffer DEFAULT_EXIT_TAG marker = Inr ([], [], False, Some asset)"
proof -
  from assms obtain d where d: "parse_playback_tool_result loads repr t = Some d"
    by (auto simp: playback_control_from_tool_result_def split: option.splits)
  with assms obtain voice song where v: "jget d ''voice_id'' = JStr voice" "jget d ''song_id'' = JStr song"
    and m: "playback_marker voice song = Inr marker"
    by (auto simp: playback_control_from_tool_result_def and_then_Inr_iff split: json.splits)
  from m have ids: "id_text voice" "id_text song"
    and marker: "marker = PLAYBACK_MARKER_PREFIX @ voice @ '':'' @ song @ '']'' @ []"
    by (auto simp: playback_marker_def split: if_splits)
  from ids have ok: "voice \<noteq> []" "song \<noteq> []" "list_all id_char voice" "list_all id_char song"
    by (simp_all add: id_text_def)
  from d v ids have asset: "loads (py_strip t) = Some (JObj d)" "jget d ''asset_id'' = JStr (voice @ '':'' @ song)"
    by (auto simp: parse_playback_tool_result_def Let_def split: option.splits json.splits if_splits)
  have ne: "marker \<noteq> []" by (simp add: marker PLAYBACK_MARKER_PREFIX_def)
  have tl: "CHR ''['' \<notin> set (tl marker)"
    using ok by (auto simp: marker PLAYBACK_MARKER_PREFIX_def list_all_iff)
  have no_exit: "\<not> str_in DEFAULT_EXIT_TAG marker"
  proof
    assume "str_in DEFAULT_EXIT_TAG marker"
    then obtain a b where ab: "marker = a @ ''[EXIT]'' @ b" by (auto simp: str_in_iff DEFAULT_EXIT_TAG_def)
    show False
    proof (cases a)
      case Nil
      with ab show False by (simp add: marker PLAYBACK_MARKER_PREFIX_def)
    next
      case (Cons x xs)
      with ab have "CHR ''['' \<in> set (tl marker)" by simp
      with tl show False ..
    qed
  qed
  have mm: "match_marker marker = Some (voice @ '':'' @ song, [])"
    unfolding marker by (rule match_markerI [OF ok])
  then have f: "find_markers marker = [voice @ '':'' @ song]" "remove_markers marker = []"
    using ne by (cases marker; simp)+
  have "split_control_safe_buffer DEFAULT_EXIT_TAG marker = Inr ([], [], False, Some (voice @ '':'' @ song))"
    using ne no_exit f pending_control_le [of DEFAULT_EXIT_TAG "[]"]
    by (simp add: split_control_safe_buffer_def Let_def remove_all_absent py_suffix_def)
  with asset show ?thesis by blast
qed

theorem song_control_roundtrip_witness:
  "split_control_safe_buffer DEFAULT_EXIT_TAG ''[SINGING_PLAYBACK:v1:s-2]'' = Inr ([], [], False, Some ''v1:s-2'')"
proof -
  let ?d = "[(''kind'', JStr ''singing_playback''), (''song_id'', JStr ''s-2''), (''voice_id'', JStr ''v1''),
     (''asset_id'', JStr ''v1:s-2'')]"
  let ?loads = "\<lambda>t. if t = ''r'' then Some (JObj ?d) else None"
  have p: "playback_control_from_tool_result ?loads (\<lambda>_. []) ''r '' = Inr (Some ''[SINGING_PLAYBACK:v1:s-2]'')"
    by code_simp
  have "py_strip ''r '' = ''r''" by code_simp
  with song_control_roundtrip [OF p] show ?thesis by (auto simp: jget_def)
qed

end
