(* ===== verification/Config_Models.thy ===== *)
theory Config_Models
  imports Json
begin

text \<open>
  \<open>src/server_config/models.py\<close>: the configuration records of the services, and the
  conversions of their texts: upstream addresses and \<open>${NAME}\<close> placeholders.

  The environment is the argument \<open>env\<close>; \<open>repr\<close> is \<open>str()\<close> of a float, a list or a dict.  The
  texts of the errors are not modelled.
\<close>

subsection \<open>Models\<close>

datatype config_error = ConfigValidationError | ConfigRaised py_exn

definition config_raise :: "py_exn + 'a \<Rightarrow> config_error + 'a" where
  "config_raise r = (case r of Inl e \<Rightarrow> Inl (ConfigRaised e) | Inr x \<Rightarrow> Inr x)"

definition demand :: "bool \<Rightarrow> config_error + unit" where
  \<comment> \<open>\<open>if not ...: raise ConfigValidationError\<close>\<close>
  "demand ok = (if ok then Inr () else Inl ConfigValidationError)"

record bot_template =
  bt_bot_id :: string
  bt_name :: string
  bt_system_prompt :: string
  bt_model :: string
  bt_temperature :: rat
  bt_max_tokens :: int
  bt_tts_profile_id :: string
  bt_max_response_chars :: int
  bt_mcp_servers :: "string list"
  bt_agents :: "string list"
  bt_enabled :: bool
  bt_is_default :: bool

record tts_profile =
  tp_id :: string
  tp_name :: string
  tp_provider_type :: string
  tp_speed :: rat
  tp_provider_config :: jobj
  tp_enabled :: bool

definition provider_text :: "(json \<Rightarrow> string) \<Rightarrow> jobj \<Rightarrow> string \<Rightarrow> string" where
  "provider_text repr cfg k = text_or_empty repr (jget cfg k)"

definition tts_profile_to_dict :: "tts_profile \<Rightarrow> jobj" where
  "tts_profile_to_dict p =
     [(''tts_id'', JStr (tp_id p)), (''tts_name'', JStr (tp_name p)),
      (''provider_type'', JStr (tp_provider_type p)), (''speed'', JFloat (tp_speed p)),
      (''provider_config'', JObj (tp_provider_config p)), (''enabled'', JBool (tp_enabled p))]"

record agent_config =
  ag_agent_id :: string
  ag_name :: string
  ag_description :: string
  ag_module :: "string option"
  ag_class_name :: "string option"
  ag_enabled :: bool
  ag_enabled_by_default :: bool
  ag_trigger_examples :: "string list"
  ag_allowed_tools :: "string list"
  ag_tool_groups :: "string list"

record robot_config =
  rb_robot_id :: string
  rb_name :: string
  rb_assigned_bot_id :: string
  rb_client_type :: "string option"
  rb_enabled :: bool
  rb_is_new :: bool
  rb_last_connected_at :: "seconds option"
  rb_notes :: "string option"

record mcp_server =
  ms_server_key :: string
  ms_display_name :: string
  ms_type :: string
  ms_url :: "string option"
  ms_command :: "string option"
  ms_args :: "string list"
  ms_headers :: "(string, string) odict"
  ms_enabled :: bool

definition to_mcp_manager_config :: "mcp_server \<Rightarrow> jobj" where
  "to_mcp_manager_config s =
     [(''type'', JStr (ms_type s))] @
     (if nonempty (ms_url s) then [(''url'', jopt (ms_url s))] else []) @
     (if nonempty (ms_command s) then [(''command'', jopt (ms_command s))] else []) @
     (if ms_args s \<noteq> [] then [(''args'', JArr (map JStr (ms_args s)))] else []) @
     (if ms_headers s \<noteq> [] then [(''headers'', JObj (map (\<lambda>(k, v). (k, JStr v)) (ms_headers s)))] else [])"

record gateway_settings =
  gs_max_connections :: int
  gs_max_history_length :: int
  gs_interrupt_enabled :: bool
  gs_stt_service_url :: string
  gs_llm_service_url :: string
  gs_tts_service_url :: string

definition gateway_settings_to_dict :: "gateway_settings \<Rightarrow> jobj" where
  "gateway_settings_to_dict g =
     [(''max_connections'', JInt (gs_max_connections g)),
      (''max_history_length'', JInt (gs_max_history_length g)),
      (''interrupt_enabled'', JBool (gs_interrupt_enabled g)),
      (''stt_service_url'', JStr (gs_stt_service_url g)),
      (''llm_service_url'', JStr (gs_llm_service_url g)),
      (''tts_service_url'', JStr (gs_tts_service_url g))]"

record tts_settings =
  ts_realtime_model :: string
  ts_default_voice :: string
  ts_default_speed :: rat

definition tts_settings_to_dict :: "tts_settings \<Rightarrow> jobj" where
  "tts_settings_to_dict t =
     [(''realtime_model'', JStr (ts_realtime_model t)), (''default_voice'', JStr (ts_default_voice t)),
      (''default_speed'', JFloat (ts_default_speed t))]"

text \<open>\<open>normalize_grpc_service_url\<close>\<close>

fun split_once :: "string \<Rightarrow> string \<Rightarrow> (string \<times> string) option" where
  \<comment> \<open>\<open>s.split(sep, 1)\<close>: the parts around the first \<open>sep\<close>, if there is one\<close>
  "split_once sep s =
     (if starts_with s sep then Some ([], drop (length sep) s)
      else case s of
          [] \<Rightarrow> None
        | c # cs \<Rightarrow> map_option (\<lambda>(a, b). (c # a, b)) (split_once sep cs))"

declare split_once.simps [simp del]

definition strip_slashes :: "string \<Rightarrow> string" where
  \<comment> \<open>\<open>s.rstrip("/")\<close>\<close>
  "strip_slashes s = rev (dropWhile (\<lambda>c. c = CHR ''/'') (rev s))"

definition split_url :: "string \<Rightarrow> string \<times> string" where
  "split_url raw =
     (case split_once ''://'' raw of
        None \<Rightarrow> (''grpc'', raw)
      | Some (scheme, target) \<Rightarrow> (py_strip (py_lower scheme), target))"

definition normalize_grpc_service_url ::
  "(json \<Rightarrow> string) \<Rightarrow> json \<Rightarrow> string \<Rightarrow> config_error + string" where
  "normalize_grpc_service_url repr v dflt =
     (let raw = py_strip (if truthy v then py_str repr v else dflt);
          (scheme, target0) = split_url raw;
          target = strip_slashes (py_strip target0)
      in and_then (demand (raw \<noteq> [] \<and> scheme \<in> set [''grpc'', ''grpcs''] \<and> target \<noteq> [])) (\<lambda>_.
         Inr (scheme @ ''://'' @ target)))"

text \<open>\<open>${NAME}\<close> placeholders\<close>

type_synonym env = "string \<Rightarrow> string option"

definition env_name_char :: "char \<Rightarrow> bool" where
  "env_name_char c \<longleftrightarrow>
     (let n = (of_char c :: nat) in (65 \<le> n \<and> n \<le> 90) \<or> (48 \<le> n \<and> n \<le> 57) \<or> c = CHR ''_'')"

definition match_placeholder :: "string \<Rightarrow> (string \<times> string) option" where
  \<comment> \<open>the regular expression of \<open>_ENV_PATTERN\<close> at the start of a text: the name, and what follows\<close>
  "match_placeholder s =
     (let name = takeWhile env_name_char (drop 2 s); rest = dropWhile env_name_char (drop 2 s) in
      if starts_with s ''${'' \<and> name \<noteq> [] \<and> starts_with rest ''}'' then Some (name, tl rest) else None)"

lemma match_placeholder_shorter:
  "match_placeholder s = Some (n, r) \<Longrightarrow> length r < length s"
proof -
  assume m: "match_placeholder s = Some (n, r)"
  have "length (dropWhile env_name_char (drop 2 s)) \<le> length s"
    using length_dropWhile_le [of env_name_char "drop 2 s"] by simp
  with m show ?thesis
    by (cases "dropWhile env_name_char (drop 2 s)"; cases s)
      (auto simp: match_placeholder_def Let_def starts_with_def split: if_splits)
qed

function resolve_env_placeholders :: "env \<Rightarrow> string \<Rightarrow> config_error + string" where
  "resolve_env_placeholders env s =
     (case s of
        [] \<Rightarrow> Inr []
      | c # cs \<Rightarrow>
          (case match_placeholder s of
             Some (name, rest) \<Rightarrow>
               if \<not> nonempty (env name) then Inl ConfigValidationError
               else and_then (resolve_env_placeholders env rest) (\<lambda>t. Inr (opt_text (env name) @ t))
           | None \<Rightarrow> and_then (resolve_env_placeholders env cs) (\<lambda>t. Inr (c # t))))"
  by pat_completeness auto
termination
  by (relation "measure (length \<circ> snd)") (auto dest: match_placeholder_shorter)

declare resolve_env_placeholders.simps [simp del]

definition resolve_headers ::
  "(json \<Rightarrow> string) \<Rightarrow> env \<Rightarrow> json \<Rightarrow> config_error + (string, string) odict" where
  "resolve_headers repr env raw =
     (case raw of
        JNull \<Rightarrow> Inr []
      | JObj d \<Rightarrow> fold_steps (\<lambda>(k, v) resolved.
            and_then (resolve_env_placeholders env (py_str repr v)) (\<lambda>t. Inr (AList.update k t resolved))) d []
      | _ \<Rightarrow> Inl ConfigValidationError)"

definition resolve_text_list :: "(json \<Rightarrow> string) \<Rightarrow> env \<Rightarrow> json \<Rightarrow> config_error + string list" where
  "resolve_text_list repr env raw =
     (case raw of
        JNull \<Rightarrow> Inr []
      | JArr xs \<Rightarrow> traverse (\<lambda>v. resolve_env_placeholders env (py_str repr v)) xs
      | _ \<Rightarrow> Inl ConfigValidationError)"

end
