(* ===== verification/Config_Snapshot.thy ===== *)
theory Config_Snapshot
  imports Config_Models "HOL-Library.List_Lexorder" "HOL-Library.Char_ord" "HOL-Library.Product_Lexorder"
begin

text \<open>
  \<open>src/server_config/snapshot.py\<close>: the rows of the configuration database become the validated
  snapshots that the gateway, the language model service and the speech service run with.

  A row is a record of the columns the code reads, a nullable column an option; a JSON column is
  the decoded value.  \<open>utcnow()\<close> is the argument \<open>now\<close>, \<open>dict_of\<close> is \<open>dict()\<close> of a list.
\<close>

record bot_row =
  br_id :: int
  br_bot_id :: string
  br_name :: string
  br_system_prompt :: "string option"
  br_model :: string
  br_temperature :: rat
  br_max_tokens :: int
  br_max_response_chars :: "int option"
  br_tts_profile_id :: "string option"
  br_enabled :: bool
  br_is_default :: bool

record robot_row =
  rr_robot_id :: string
  rr_name :: string
  rr_assigned_bot_id :: string
  rr_client_type :: "string option"
  rr_enabled :: bool
  rr_is_new :: bool
  rr_last_connected_at :: "seconds option"
  rr_notes :: "string option"

record mcp_row =
  mr_id :: int
  mr_server_key :: string
  mr_display_name :: string
  mr_type :: string
  mr_url :: "string option"
  mr_command :: "string option"
  mr_args_json :: json
  mr_headers_json :: json
  mr_enabled :: bool

record agent_row =
  ar_id :: int
  ar_agent_id :: string
  ar_name :: string
  ar_description :: "string option"
  ar_module :: "string option"
  ar_class_name :: "string option"
  ar_enabled_by_default :: bool
  ar_trigger_examples :: json
  ar_allowed_tools :: json
  ar_tool_groups :: json
  ar_enabled :: bool

record binding_row =
  \<comment> \<open>of \<open>bot_mcp_bindings\<close>, the target is \<open>mcp_server_id\<close>; of \<open>bot_agent_bindings\<close>, \<open>agent_id\<close>\<close>
  bn_bot_id :: int
  bn_target_id :: int
  bn_sort_order :: int

record tts_profile_row =
  tr_tts_id :: "string option"
  tr_tts_name :: "string option"
  tr_provider_type :: "string option"
  tr_speed :: "rat option"
  tr_enabled :: bool
  tr_provider_config_json :: json

subsection \<open>MCP servers, agents and bots\<close>

definition MCP_TYPES :: "string list" where
  "MCP_TYPES = [''sse'', ''streamable_http'']"

definition resolved_text :: "env \<Rightarrow> string \<Rightarrow> config_error + string option" where
  \<comment> \<open>\<open>resolve_env_placeholders(raw) if raw else None\<close>\<close>
  "resolved_text env raw =
     (if raw = [] then Inr None else and_then (resolve_env_placeholders env raw) (\<lambda>t. Inr (Some t)))"

definition build_mcp_server :: "(json \<Rightarrow> string) \<Rightarrow> env \<Rightarrow> mcp_row \<Rightarrow> config_error + mcp_server" where
  "build_mcp_server repr env row =
     and_then (demand (mr_type row \<in> set MCP_TYPES)) (\<lambda>_.
     and_then (resolve_text_list repr env (mr_args_json row)) (\<lambda>args.
     and_then (demand (py_strip (opt_text (mr_url row)) \<noteq> [])) (\<lambda>_.
     and_then (resolved_text env (py_strip (opt_text (mr_url row)))) (\<lambda>url.
     and_then (resolved_text env (py_strip (opt_text (mr_command row)))) (\<lambda>command.
     and_then (resolve_headers repr env (mr_headers_json row)) (\<lambda>headers.
     Inr \<lparr>ms_server_key = mr_server_key row, ms_display_name = mr_display_name row,
          ms_type = mr_type row, ms_url = url, ms_command = command, ms_args = args,
          ms_headers = headers, ms_enabled = True\<rparr>))))))"

type_synonym mcp_tables = "(int, mcp_server) odict \<times> (string, mcp_server) odict"

definition build_enabled_mcp_servers ::
  "(json \<Rightarrow> string) \<Rightarrow> env \<Rightarrow> mcp_row list \<Rightarrow> config_error + mcp_tables" where
  "build_enabled_mcp_servers repr env rows =
     fold_steps (\<lambda>row (by_id, by_key).
       if \<not> mr_enabled row then Inr (by_id, by_key)
       else and_then (build_mcp_server repr env row) (\<lambda>server.
         Inr (AList.update (mr_id row) server by_id, AList.update (ms_server_key server) server by_key)))
       rows ([], [])"

definition build_agent :: "(json \<Rightarrow> string) \<Rightarrow> env \<Rightarrow> agent_row \<Rightarrow> config_error + agent_config" where
  "build_agent repr env row =
     and_then (resolve_text_list repr env (ar_trigger_examples row)) (\<lambda>examples.
     and_then (resolve_text_list repr env (ar_allowed_tools row)) (\<lambda>tools.
     and_then (resolve_text_list repr env (ar_tool_groups row)) (\<lambda>groups.
     Inr \<lparr>ag_agent_id = ar_agent_id row, ag_name = ar_name row,
          ag_description = opt_text (ar_description row), ag_module = ar_module row,
          ag_class_name = ar_class_name row, ag_enabled = True,
          ag_enabled_by_default = ar_enabled_by_default row, ag_trigger_examples = examples,
          ag_allowed_tools = tools, ag_tool_groups = groups\<rparr>)))"

type_synonym agent_tables = "(int, agent_config) odict \<times> (string, agent_config) odict"

definition build_enabled_agents ::
  "(json \<Rightarrow> string) \<Rightarrow> env \<Rightarrow> agent_row list \<Rightarrow> config_error + agent_tables" where
  "build_enabled_agents repr env rows =
     fold_steps (\<lambda>row (by_id, by_key).
       if \<not> ar_enabled row then Inr (by_id, by_key)
       else and_then (build_agent repr env row) (\<lambda>agent.
         Inr (AList.update (ar_id row) agent by_id, AList.update (ag_agent_id agent) agent by_key)))
       rows ([], [])"

definition add_binding :: "'b \<Rightarrow> 'c \<Rightarrow> ('b, 'c list) odict \<Rightarrow> ('b, 'c list) odict" where
  \<comment> \<open>\<open>bound.setdefault(k, []).append(x)\<close>\<close>
  "add_binding k x bound =
     AList.update k ((case map_of bound k of None \<Rightarrow> [] | Some xs \<Rightarrow> xs) @ [x]) bound"

definition collect_bindings ::
  "(int \<Rightarrow> string option) \<Rightarrow> binding_row list \<Rightarrow> config_error + (int, (int \<times> string) list) odict" where
  \<comment> \<open>\<open>name_of\<close> is the key of the enabled server or agent with an id\<close>
  "collect_bindings name_of rows =
     fold_steps (\<lambda>row bound.
       case name_of (bn_target_id row) of
         None \<Rightarrow> Inl ConfigValidationError
       | Some n \<Rightarrow> Inr (add_binding (bn_bot_id row) (bn_sort_order row, n) bound))
       rows []"

definition bound_names :: "(int, (int \<times> string) list) odict \<Rightarrow> int \<Rightarrow> string list" where
  "bound_names bound i =
     map snd (sort (case map_of bound i of None \<Rightarrow> [] | Some xs \<Rightarrow> xs))"

definition DEFAULT_TTS_PROFILE :: string where
  "DEFAULT_TTS_PROFILE = ''default_tts_profile''"

definition build_bot :: "string list \<Rightarrow> string list \<Rightarrow> bot_row \<Rightarrow> config_error + bot_template" where
  "build_bot servers agents row =
     (let prompt_text = py_strip (opt_text (br_system_prompt row));
          chars = (case br_max_response_chars row of None \<Rightarrow> 0 | Some n \<Rightarrow> n);
          profile = py_strip (if nonempty (br_tts_profile_id row) then opt_text (br_tts_profile_id row)
                              else DEFAULT_TTS_PROFILE)
      in and_then (demand (prompt_text \<noteq> [])) (\<lambda>_.
         and_then (demand (0 \<le> br_temperature row \<and> br_temperature row \<le> 2)) (\<lambda>_.
         and_then (demand (0 < br_max_tokens row)) (\<lambda>_.
         and_then (demand (0 \<le> chars)) (\<lambda>_.
         and_then (demand (profile \<noteq> [])) (\<lambda>_.
         Inr \<lparr>bt_bot_id = br_bot_id row, bt_name = br_name row, bt_system_prompt = prompt_text,
              bt_model = br_model row, bt_temperature = br_temperature row,
              bt_max_tokens = br_max_tokens row, bt_tts_profile_id = profile,
              bt_max_response_chars = chars, bt_mcp_servers = servers, bt_agents = agents,
              bt_enabled = True, bt_is_default = br_is_default row\<rparr>))))))"

type_synonym bot_table = "(string, bot_template) odict"

definition add_bot ::
  "(int \<Rightarrow> string list) \<Rightarrow> (int \<Rightarrow> string list) \<Rightarrow> bot_row \<Rightarrow> bot_table \<times> string list \<Rightarrow>
    config_error + bot_table \<times> string list" where
  "add_bot servers_of agents_of row = (\<lambda>(bots, defaults).
     if \<not> br_enabled row then Inr (bots, defaults)
     else and_then (build_bot (servers_of (br_id row)) (agents_of (br_id row)) row) (\<lambda>bot.
       Inr (AList.update (br_bot_id row) bot bots,
            if bt_is_default bot then defaults @ [br_bot_id row] else defaults)))"

definition build_enabled_bots ::
  "bot_row list \<Rightarrow> binding_row list \<Rightarrow> (int, mcp_server) odict option \<Rightarrow> binding_row list \<Rightarrow>
    (int, agent_config) odict option \<Rightarrow> config_error + bot_table \<times> string" where
  "build_enabled_bots bot_rows binding_rows servers agent_binding_rows agents =
     and_then (case servers of None \<Rightarrow> Inr []
       | Some d \<Rightarrow> collect_bindings (\<lambda>i. map_option ms_server_key (map_of d i)) binding_rows) (\<lambda>bound_servers.
     and_then (case agents of None \<Rightarrow> Inr []
       | Some d \<Rightarrow> collect_bindings (\<lambda>i. map_option ag_agent_id (map_of d i)) agent_binding_rows) (\<lambda>bound_agents.
     and_then (fold_steps (add_bot (bound_names bound_servers) (bound_names bound_agents)) bot_rows ([], []))
       (\<lambda>(bots, defaults).
     and_then (demand (bots \<noteq> [] \<and> length defaults = 1)) (\<lambda>_.
     Inr (bots, hd defaults)))))"

type_synonym robot_table = "(string, robot_config) odict"

definition add_robot :: "bot_table \<Rightarrow> robot_row \<Rightarrow> robot_table \<Rightarrow> config_error + robot_table" where
  "add_robot bots row robots =
     (if \<not> rr_enabled row then Inr robots
      else and_then (demand (rr_assigned_bot_id row \<in> set (keys bots))) (\<lambda>_.
        Inr (AList.update (rr_robot_id row)
          \<lparr>rb_robot_id = rr_robot_id row, rb_name = rr_name row,
           rb_assigned_bot_id = rr_assigned_bot_id row, rb_client_type = rr_client_type row,
           rb_enabled = True, rb_is_new = rr_is_new row,
           rb_last_connected_at = rr_last_connected_at row, rb_notes = rr_notes row\<rparr> robots)))"

definition build_enabled_robots :: "robot_row list \<Rightarrow> bot_table \<Rightarrow> config_error + robot_table" where
  "build_enabled_robots rows bots = fold_steps (add_robot bots) rows []"

subsection \<open>Settings from the environment\<close>

definition env_text :: "env \<Rightarrow> string \<Rightarrow> string \<Rightarrow> string" where
  "env_text env name dflt = (case opt_str (env name) of None \<Rightarrow> dflt | Some t \<Rightarrow> t)"

definition env_int :: "env \<Rightarrow> string \<Rightarrow> int \<Rightarrow> config_error + int" where
  "env_int env name dflt =
     (case opt_str (env name) of
        None \<Rightarrow> Inr dflt
      | Some t \<Rightarrow> (case int_of_text t of None \<Rightarrow> Inl ConfigValidationError | Some i \<Rightarrow> Inr i))"

definition env_bool :: "env \<Rightarrow> string \<Rightarrow> bool \<Rightarrow> bool" where
  "env_bool env name dflt =
     (case opt_str (env name) of
        None \<Rightarrow> dflt
      | Some t \<Rightarrow> py_lower t \<in> set [''1'', ''true'', ''yes'', ''y'', ''on''])"

definition build_gateway_settings :: "(json \<Rightarrow> string) \<Rightarrow> env \<Rightarrow> config_error + gateway_settings" where
  "build_gateway_settings repr env =
     (let service_url = (\<lambda>name dflt.
            normalize_grpc_service_url repr (JStr (env_text env name dflt)) dflt)
      in and_then (env_int env ''GATEWAY_MAX_CONNECTIONS'' 20) (\<lambda>max_connections.
         and_then (env_int env ''GATEWAY_MAX_HISTORY_LENGTH'' 10) (\<lambda>max_history_length.
         and_then (service_url ''STT_SERVICE_URL'' ''grpc://127.0.0.1:50054'') (\<lambda>stt.
         and_then (service_url ''LLM_SERVICE_URL'' ''grpc://127.0.0.1:50053'') (\<lambda>llm.
         and_then (service_url ''TTS_SERVICE_URL'' ''grpc://127.0.0.1:50052'') (\<lambda>tts.
         and_then (demand (0 < max_connections)) (\<lambda>_.
         and_then (demand (0 < max_history_length)) (\<lambda>_.
         Inr \<lparr>gs_max_connections = max_connections, gs_max_history_length = max_history_length,
              gs_interrupt_enabled = env_bool env ''GATEWAY_INTERRUPT_ENABLED'' True,
              gs_stt_service_url = stt, gs_llm_service_url = llm, gs_tts_service_url = tts\<rparr>))))))))"

definition build_tts_settings :: tts_settings where
  "build_tts_settings =
     \<lparr>ts_realtime_model = ''qwen3-tts'', ts_default_voice = ''serena'', ts_default_speed = 1\<rparr>"

subsection \<open>Speech profiles\<close>

definition required_provider_texts :: "string \<Rightarrow> string list" where
  "required_provider_texts provider_type =
     (if provider_type = ''qwen3_custom_voice'' then [''voice'', ''instruct'']
      else if provider_type = ''qwen3_base'' then [''path'', ''content''] else [])"

definition build_tts_profile ::
  "(json \<Rightarrow> string) \<Rightarrow> (json list \<Rightarrow> py_exn + jobj) \<Rightarrow> tts_profile_row \<Rightarrow> config_error + tts_profile" where
  "build_tts_profile repr dict_of row =
     (let tts_id = py_strip (opt_text (tr_tts_id row));
          tts_name = py_strip (opt_text (tr_tts_name row));
          provider_type = py_strip (opt_text (tr_provider_type row));
          speed = (case tr_speed row of None \<Rightarrow> 1 | Some r \<Rightarrow> if r = 0 then 1 else r)
      in and_then (demand (tts_id \<noteq> [])) (\<lambda>_.
         and_then (demand (tts_name \<noteq> [])) (\<lambda>_.
         and_then (demand (provider_type \<in> set [''qwen3_custom_voice'', ''qwen3_base''])) (\<lambda>_.
         and_then (demand (1 / 2 \<le> speed \<and> speed \<le> 2)) (\<lambda>_.
         and_then (config_raise (dict_or_empty dict_of (tr_provider_config_json row))) (\<lambda>cfg.
         and_then (for_each (\<lambda>k. demand (provider_text repr cfg k \<noteq> []))
             (required_provider_texts provider_type)) (\<lambda>_.
         Inr \<lparr>tp_id = tts_id, tp_name = tts_name, tp_provider_type = provider_type, tp_speed = speed,
              tp_provider_config = cfg, tp_enabled = tr_enabled row\<rparr>)))))))"

definition build_tts_profiles ::
  "(json \<Rightarrow> string) \<Rightarrow> (json list \<Rightarrow> py_exn + jobj) \<Rightarrow> tts_profile_row list \<Rightarrow>
    config_error + (string, tts_profile) odict" where
  "build_tts_profiles repr dict_of rows =
     fold_steps (\<lambda>row profiles.
       and_then (build_tts_profile repr dict_of row) (\<lambda>p. Inr (AList.update (tp_id p) p profiles))) rows []"

subsection \<open>Snapshots\<close>

record gateway_snapshot =
  gw_config_version :: int
  gw_bots :: bot_table
  gw_robots :: robot_table
  gw_settings :: gateway_settings
  gw_default_bot_id :: string
  gw_loaded_at :: seconds
  gw_source :: string

record llm_snapshot =
  ls_config_version :: int
  ls_bots :: bot_table
  ls_mcp_servers :: "(string, mcp_server) odict"
  ls_agents :: "(string, agent_config) odict"
  ls_default_bot_id :: string
  ls_loaded_at :: seconds
  ls_source :: string

record tts_snapshot =
  tt_config_version :: int
  tt_settings :: tts_settings
  tt_profiles :: "(string, tts_profile) odict"
  tt_loaded_at :: seconds
  tt_source :: string

record config_rows =
  cr_version :: int
  cr_bots :: "bot_row list"
  cr_robots :: "robot_row list"
  cr_mcp :: "mcp_row list"
  cr_mcp_bindings :: "binding_row list"
  cr_agents :: "agent_row list"
  cr_agent_bindings :: "binding_row list"
  cr_tts_profiles :: "tts_profile_row list"
  cr_source :: string

definition build_gateway_runtime_snapshot ::
  "(json \<Rightarrow> string) \<Rightarrow> env \<Rightarrow> seconds \<Rightarrow> config_rows \<Rightarrow> config_error + gateway_snapshot" where
  "build_gateway_runtime_snapshot repr env now rows =
     and_then (build_enabled_bots (cr_bots rows) [] None [] None) (\<lambda>(bots, default_bot).
     and_then (build_enabled_robots (cr_robots rows) bots) (\<lambda>robots.
     and_then (build_gateway_settings repr env) (\<lambda>settings.
     Inr \<lparr>gw_config_version = cr_version rows, gw_bots = bots, gw_robots = robots,
          gw_settings = settings, gw_default_bot_id = default_bot, gw_loaded_at = now,
          gw_source = cr_source rows\<rparr>)))"

definition build_llm_runtime_snapshot ::
  "(json \<Rightarrow> string) \<Rightarrow> env \<Rightarrow> seconds \<Rightarrow> config_rows \<Rightarrow> config_error + llm_snapshot" where
  "build_llm_runtime_snapshot repr env now rows =
     and_then (build_enabled_mcp_servers repr env (cr_mcp rows)) (\<lambda>(servers_by_id, servers).
     and_then (build_enabled_agents repr env (cr_agents rows)) (\<lambda>(agents_by_id, agents).
     and_then (build_enabled_bots (cr_bots rows) (cr_mcp_bindings rows) (Some servers_by_id)
         (cr_agent_bindings rows) (Some agents_by_id)) (\<lambda>(bots, default_bot).
     Inr \<lparr>ls_config_version = cr_version rows, ls_bots = bots, ls_mcp_servers = servers,
          ls_agents = agents, ls_default_bot_id = default_bot, ls_loaded_at = now,
          ls_source = cr_source rows\<rparr>)))"

definition build_tts_runtime_snapshot ::
  "(json \<Rightarrow> string) \<Rightarrow> (json list \<Rightarrow> py_exn + jobj) \<Rightarrow> seconds \<Rightarrow> config_rows \<Rightarrow>
    config_error + tts_snapshot" where
  "build_tts_runtime_snapshot repr dict_of now rows =
     and_then (build_tts_profiles repr dict_of (cr_tts_profiles rows)) (\<lambda>profiles.
     Inr \<lparr>tt_config_version = cr_version rows, tt_settings = build_tts_settings,
          tt_profiles = profiles, tt_loaded_at = now, tt_source = cr_source rows\<rparr>)"

record runtime_snapshot =
  sn_config_version :: int
  sn_bots :: bot_table
  sn_tts_profiles :: "(string, tts_profile) odict"
  sn_robots :: robot_table
  sn_mcp_servers :: "(string, mcp_server) odict"
  sn_agents :: "(string, agent_config) odict"
  sn_gateway_settings :: gateway_settings
  sn_tts_settings :: tts_settings
  sn_default_bot_id :: string
  sn_loaded_at :: seconds
  sn_source :: string

definition build_runtime_snapshot ::
  "(json \<Rightarrow> string) \<Rightarrow> (json list \<Rightarrow> py_exn + jobj) \<Rightarrow> env \<Rightarrow> seconds \<Rightarrow> config_rows \<Rightarrow>
    config_error + runtime_snapshot" where
  "build_runtime_snapshot repr dict_of env now rows =
     and_then (build_llm_runtime_snapshot repr env now rows) (\<lambda>llm.
     and_then (build_gateway_runtime_snapshot repr env now rows) (\<lambda>gateway.
     and_then (build_tts_runtime_snapshot repr dict_of now rows) (\<lambda>tts.
     Inr \<lparr>sn_config_version = cr_version rows, sn_bots = ls_bots llm,
          sn_tts_profiles = tt_profiles tts, sn_robots = gw_robots gateway,
          sn_mcp_servers = ls_mcp_servers llm, sn_agents = ls_agents llm,
          sn_gateway_settings = gw_settings gateway, sn_tts_settings = tt_settings tts,
          sn_default_bot_id = ls_default_bot_id llm, sn_loaded_at = now,
          sn_source = cr_source rows\<rparr>)))"

end
