(* ===== verification/Gateway_Runtime.thy ===== *)
theory Gateway_Runtime
  imports Config_Snapshot Session_Manager
begin

text \<open>
  \<open>src/gateway/runtime_state.py\<close>, \<open>src/gateway/robot_session.py\<close> and
  \<open>src/server_config/secrets.py\<close>: the configuration the gateway runs with, its replacement by a
  reload, and the registration of robots on it.

  What the repository reads from the database is an input: the rows of a snapshot, the row
  \<open>register_robot\<close> answers with (or the exception it raises), the stored hash of a secret.
  Every \<open>with self._lock\<close> block is one step; the default bot a registration read before its
  repository call is an argument of the block after it, so that a reload in between is covered.
  \<open>sha256_hex\<close> is the hash function, \<open>fmt\<close> the text of a time.
\<close>

subsection \<open>Robot secrets\<close>

definition hash_robot_secret :: "(string \<Rightarrow> string) \<Rightarrow> string \<Rightarrow> string \<Rightarrow> string" where
  \<comment> \<open>\<open>salt\<close> is the given or generated salt\<close>
  "hash_robot_secret sha256_hex salt secret =
     ''sha256$'' @ salt @ ''$'' @ sha256_hex (salt @ '':'' @ secret)"

definition ascii_text :: "string \<Rightarrow> bool" where
  "ascii_text s = list_all (\<lambda>c. of_char c < (128 :: nat)) s"

definition compare_digest :: "string \<Rightarrow> string \<Rightarrow> py_exn + bool" where
  \<comment> \<open>\<open>hmac.compare_digest\<close> refuses texts that are not ASCII\<close>
  "compare_digest a b = (if ascii_text a \<and> ascii_text b then Inr (a = b) else Inl TypeError)"

definition verify_robot_secret ::
  "(string \<Rightarrow> string) \<Rightarrow> string \<Rightarrow> string option \<Rightarrow> py_exn + bool" where
  "verify_robot_secret sha256_hex secret secret_hash =
     (if secret = [] \<or> \<not> nonempty secret_hash then Inr False
      else case split_once ''$'' (opt_text secret_hash) of
          None \<Rightarrow> Inr False
        | Some (algorithm, rest) \<Rightarrow>
            (case split_once ''$'' rest of
               None \<Rightarrow> Inr False
             | Some (salt, expected) \<Rightarrow>
                 if algorithm \<noteq> ''sha256'' then Inr False
                 else compare_digest (sha256_hex (salt @ '':'' @ secret)) expected))"

subsection \<open>The runtime state\<close>

record gateway_runtime =
  rs_bots :: bot_table
  rs_robots :: robot_table
  rs_source :: string
  rs_config_version :: "int option"
  rs_loaded_at :: seconds
  rs_default_bot_id :: "string option"
  rs_settings :: gateway_settings
  rs_last_reload_error :: "string option"

definition load_snapshot :: "gateway_snapshot \<Rightarrow> gateway_runtime \<Rightarrow> gateway_runtime" where
  "load_snapshot snap rt = rt\<lparr>rs_bots := gw_bots snap, rs_robots := gw_robots snap,
     rs_settings := gw_settings snap, rs_source := gw_source snap,
     rs_config_version := Some (gw_config_version snap), rs_loaded_at := gw_loaded_at snap,
     rs_default_bot_id := Some (gw_default_bot_id snap)\<rparr>"

definition initial_runtime :: "seconds \<Rightarrow> gateway_runtime" where
  "initial_runtime now =
     \<lparr>rs_bots = [], rs_robots = [], rs_source = ''db'', rs_config_version = None, rs_loaded_at = now,
      rs_default_bot_id = None,
      rs_settings = \<lparr>gs_max_connections = 20, gs_max_history_length = 10, gs_interrupt_enabled = True,
        gs_stt_service_url = ''grpc://127.0.0.1:50054'', gs_llm_service_url = ''grpc://127.0.0.1:50053'',
        gs_tts_service_url = ''grpc://127.0.0.1:50052''\<rparr>,
      rs_last_reload_error = None\<rparr>"

definition new_gateway_runtime ::
  "seconds \<Rightarrow> string \<Rightarrow> config_error + gateway_snapshot \<Rightarrow> config_error + gateway_runtime" where
  \<comment> \<open>the constructor: a snapshot that cannot be built is raised\<close>
  "new_gateway_runtime now database_url snapshot =
     (if py_strip database_url = [] then Inl (ConfigRaised ValueError)
      else and_then snapshot (\<lambda>snap. Inr (load_snapshot snap (initial_runtime now))))"

definition runtime_status_dict :: "(seconds \<Rightarrow> string) \<Rightarrow> gateway_runtime \<Rightarrow> jobj" where
  "runtime_status_dict fmt rt =
     [(''success'', JBool True), (''source'', JStr (rs_source rt)),
      (''config_version'', jint_opt (rs_config_version rt)), (''loaded_at'', JStr (fmt (rs_loaded_at rt))),
      (''bot_count'', JInt (int (length (rs_bots rt)))),
      (''robot_count'', JInt (int (length (rs_robots rt)))),
      (''default_bot_id'', jopt (rs_default_bot_id rt)),
      (''gateway_settings'', JObj (gateway_settings_to_dict (rs_settings rt))),
      (''last_reload_error'', jopt (rs_last_reload_error rt))]"

definition validate_runtime ::
  "(seconds \<Rightarrow> string) \<Rightarrow> seconds \<Rightarrow> config_error + gateway_snapshot \<Rightarrow> config_error + jobj" where
  "validate_runtime fmt now snapshot =
     and_then snapshot (\<lambda>snap. Inr
       [(''success'', JBool True), (''source'', JStr (gw_source snap)),
        (''config_version'', JInt (gw_config_version snap)), (''validated_at'', JStr (fmt now)),
        (''bot_count'', JInt (int (length (gw_bots snap)))),
        (''robot_count'', JInt (int (length (gw_robots snap)))),
        (''default_bot_id'', JStr (gw_default_bot_id snap)),
        (''gateway_settings'', JObj (gateway_settings_to_dict (gw_settings snap)))])"

definition reload_runtime ::
  "(seconds \<Rightarrow> string) \<Rightarrow> (config_error \<Rightarrow> string) \<Rightarrow> config_error + gateway_snapshot \<Rightarrow>
    gateway_runtime \<Rightarrow> gateway_runtime \<times> (config_error + jobj)" where
  \<comment> \<open>\<open>msg\<close> is the text of the exception\<close>
  "reload_runtime fmt msg snapshot rt =
     (case snapshot of
        Inl e \<Rightarrow> (rt\<lparr>rs_last_reload_error := Some (msg e)\<rparr>, Inl e)
      | Inr snap \<Rightarrow>
          let rt1 = (load_snapshot snap rt)\<lparr>rs_last_reload_error := None\<rparr>
          in (rt1, Inr (runtime_status_dict fmt rt1)))"

subsection \<open>Robots\<close>

record repository_row =
  \<comment> \<open>the answer of \<open>ConfigRepository.register_robot\<close>\<close>
  rw_robot_id :: string
  rw_name :: "string option"
  rw_assigned_bot_id :: string
  rw_client_type :: "string option"
  rw_enabled :: bool
  rw_is_new :: bool
  rw_secret_hash :: "string option"
  rw_last_connected_at :: "seconds option"
  rw_created :: bool
  rw_bot_name :: "string option"    \<comment> \<open>set by \<open>register_robot\<close> of the runtime\<close>

definition or_text :: "string option \<Rightarrow> string option \<Rightarrow> string option" where
  \<comment> \<open>\<open>a or b\<close>\<close>
  "or_text a b = (if nonempty a then a else b)"

definition runtime_register_robot ::
  "string \<Rightarrow> string option \<Rightarrow> repository_row \<Rightarrow> gateway_runtime \<Rightarrow>
    gateway_runtime \<times> (py_exn + repository_row)" where
  \<comment> \<open>\<open>current_default\<close> was read before the repository answered \<open>row\<close>\<close>
  "runtime_register_robot robot_id current_default row rt =
     (if \<not> rw_enabled row then (rt, Inr row)
      else case map_of (rs_robots rt) robot_id of
          Some r \<Rightarrow>
            (case map_of (rs_bots rt) (rb_assigned_bot_id r) of
               None \<Rightarrow> (rt, Inl ValueError)
             | Some b \<Rightarrow>
                 (rt\<lparr>rs_robots := AList.update robot_id
                    (r\<lparr>rb_client_type := or_text (rw_client_type row) (rb_client_type r),
                       rb_enabled := True, rb_last_connected_at := rw_last_connected_at row\<rparr>)
                    (rs_robots rt)\<rparr>,
                  Inr (row\<lparr>rw_assigned_bot_id := rb_assigned_bot_id r, rw_is_new := rb_is_new r,
                           rw_bot_name := Some (bt_name b)\<rparr>)))
        | None \<Rightarrow>
            if \<not> rw_created row \<or> \<not> nonempty current_default then (rt, Inl ValueError)
            else (case map_of (rs_bots rt) (opt_text current_default) of
                None \<Rightarrow> (rt, Inl ValueError)
              | Some b \<Rightarrow>
                  (rt\<lparr>rs_robots := AList.update robot_id
                     \<lparr>rb_robot_id = rw_robot_id row,
                      rb_name = opt_text (or_text (rw_name row) (Some (rw_robot_id row))),
                      rb_assigned_bot_id = opt_text current_default,
                      rb_client_type = rw_client_type row, rb_enabled = True, rb_is_new = rw_is_new row,
                      rb_last_connected_at = rw_last_connected_at row, rb_notes = None\<rparr>
                     (rs_robots rt)\<rparr>,
                   Inr (row\<lparr>rw_assigned_bot_id := opt_text current_default,
                            rw_bot_name := Some (bt_name b)\<rparr>))))"

record bot_binding =
  bb_robot_id :: string
  bb_assigned_bot_id :: string
  bb_robot_enabled :: bool
  bb_bot_name :: string

definition resolve_robot_bot_binding ::
  "string \<Rightarrow> gateway_runtime \<Rightarrow> py_exn + bot_binding option" where
  "resolve_robot_bot_binding robot_id rt =
     (case map_of (rs_robots rt) robot_id of
        None \<Rightarrow> Inr None
      | Some r \<Rightarrow>
          (case map_of (rs_bots rt) (rb_assigned_bot_id r) of
             None \<Rightarrow> Inl ValueError
           | Some b \<Rightarrow>
               Inr (Some \<lparr>bb_robot_id = rb_robot_id r, bb_assigned_bot_id = rb_assigned_bot_id r,
                          bb_robot_enabled = rb_enabled r, bb_bot_name = bt_name b\<rparr>)))"

definition resolve_legacy_bot ::
  "string option \<Rightarrow> gateway_runtime \<Rightarrow> py_exn + string option \<times> string option" where
  "resolve_legacy_bot bot_id rt =
     (if \<not> nonempty bot_id then Inr (None, None)
      else case map_of (rs_bots rt) (opt_text bot_id) of
          None \<Rightarrow> Inl ValueError
        | Some b \<Rightarrow> Inr (Some (bt_bot_id b), Some (bt_name b)))"

definition get_bot_tts_settings :: "string option \<Rightarrow> gateway_runtime \<Rightarrow> py_exn + string option" where
  \<comment> \<open>the \<open>tts_profile_id\<close>\<close>
  "get_bot_tts_settings bot_id rt =
     (if \<not> nonempty bot_id then Inr None
      else case map_of (rs_bots rt) (opt_text bot_id) of
          None \<Rightarrow> Inl ValueError
        | Some b \<Rightarrow> Inr (Some (bt_tts_profile_id b)))"

definition runtime_robot_item :: "(seconds \<Rightarrow> string) \<Rightarrow> bot_table \<Rightarrow> robot_config \<Rightarrow> jobj" where
  "runtime_robot_item fmt bots r =
     [(''robot_id'', JStr (rb_robot_id r)), (''name'', JStr (rb_name r)),
      (''assigned_bot_id'', JStr (rb_assigned_bot_id r)),
      (''bot_name'', jopt (map_option bt_name (map_of bots (rb_assigned_bot_id r)))),
      (''client_type'', jopt (rb_client_type r)), (''enabled'', JBool (rb_enabled r)),
      (''is_new'', JBool (rb_is_new r)),
      (''last_connected_at'', jopt (map_option fmt (rb_last_connected_at r))),
      (''notes'', jopt (rb_notes r))]"

definition list_runtime_robots :: "(seconds \<Rightarrow> string) \<Rightarrow> gateway_runtime \<Rightarrow> jobj list" where
  "list_runtime_robots fmt rt =
     map (runtime_robot_item fmt (rs_bots rt)) (sort_key rb_robot_id (map snd (rs_robots rt)))"

subsection \<open>The sessions of robots\<close>

definition payload_text :: "(json \<Rightarrow> string) \<Rightarrow> jobj \<Rightarrow> string \<Rightarrow> string" where
  \<comment> \<open>\<open>str(payload.get(k, "")).strip()\<close>\<close>
  "payload_text repr payload k = py_strip (py_str repr (jget_default payload k (JStr [])))"

record registration =
  rg_robot_id :: string
  rg_bot_id :: string
  rg_bot_name :: "string option"
  rg_client_type :: "string option"
  rg_is_new_robot :: bool

text \<open>The answers a registration gets from outside: the repository's row, and the stored hash at
  the time of the verification.\<close>

record registration_answers =
  an_default :: "string option"                      \<comment> \<open>the default bot read before the call\<close>
  an_row :: "py_exn + repository_row"
  an_stored_hash :: "string option"

definition check_robot_secret ::
  "(string \<Rightarrow> string) \<Rightarrow> bool \<Rightarrow> repository_row \<Rightarrow> string option \<Rightarrow> string \<Rightarrow> py_exn + unit" where
  "check_robot_secret sha256_hex required row stored secret =
     (if required \<and> \<not> nonempty (rw_secret_hash row) then Inl ValueError
      else if required \<or> (nonempty (rw_secret_hash row) \<and> secret \<noteq> []) then
        and_then (verify_robot_secret sha256_hex secret stored) (\<lambda>verified.
          if verified then Inr () else Inl ValueError)
      else Inr ())"

datatype register_error = Refused py_exn | RuntimeError

definition refuse :: "py_exn + 'a \<Rightarrow> register_error + 'a" where
  "refuse r = (case r of Inl e \<Rightarrow> Inl (Refused e) | Inr x \<Rightarrow> Inr x)"

definition register_robot_session ::
  "(json \<Rightarrow> string) \<Rightarrow> (string \<Rightarrow> string) \<Rightarrow> seconds \<Rightarrow> string \<Rightarrow> jobj \<Rightarrow> bool \<Rightarrow>
    registration_answers \<Rightarrow> gateway_runtime option \<Rightarrow> session_manager \<Rightarrow>
    gateway_runtime option \<times> session_manager \<times> (register_error + registration)" where
  "register_robot_session repr sha256_hex now session_id payload required answers runtime sm =
     (let robot_id = payload_text repr payload ''robot_id'';
          secret = payload_text repr payload ''robot_secret'' in
      if robot_id = [] then (runtime, sm, Inl (Refused ValueError))
      else case (runtime, an_row answers) of
          (None, _) \<Rightarrow> (runtime, sm, Inl RuntimeError)
        | (Some rt, Inl e) \<Rightarrow> (runtime, sm, Inl (Refused e))
        | (Some rt, Inr row) \<Rightarrow>
            (case runtime_register_robot robot_id (an_default answers) row rt of
               (rt1, Inl e) \<Rightarrow> (Some rt1, sm, Inl (Refused e))
             | (rt1, Inr row1) \<Rightarrow>
                 if \<not> rw_enabled row1 then (Some rt1, sm, Inl (Refused ValueError))
                 else (case check_robot_secret sha256_hex required row1 (an_stored_hash answers) secret of
                     Inl e \<Rightarrow> (Some rt1, sm, Inl (Refused e))
                   | Inr _ \<Rightarrow>
                       (case register_robot now session_id (rw_robot_id row1) (rw_assigned_bot_id row1)
                           (opt_text (rw_bot_name row1)) (rw_client_type row1) (rw_is_new row1) sm of
                          (sm1, False) \<Rightarrow> (Some rt1, sm1, Inl RuntimeError)
                        | (sm1, True) \<Rightarrow>
                            (Some rt1, sm1,
                             Inr \<lparr>rg_robot_id = rw_robot_id row1, rg_bot_id = rw_assigned_bot_id row1,
                                  rg_bot_name = rw_bot_name row1, rg_client_type = rw_client_type row1,
                                  rg_is_new_robot = rw_created row1\<rparr>)))))"

definition build_registered_message_payload :: "string \<Rightarrow> registration \<Rightarrow> jobj" where
  "build_registered_message_payload session_id r =
     [(''session_id'', JStr session_id), (''robot_id'', JStr (rg_robot_id r)),
      (''bot_id'', JStr (rg_bot_id r)), (''bot_name'', jopt (rg_bot_name r)),
      (''client_type'', jopt (rg_client_type r)), (''is_new_robot'', JBool (rg_is_new_robot r))]"

definition resolve_request_bot ::
  "(json \<Rightarrow> string) \<Rightarrow> seconds \<Rightarrow> string \<Rightarrow> jobj \<Rightarrow> gateway_runtime option \<Rightarrow> session_manager \<Rightarrow>
    session_manager \<times> (register_error + string option \<times> string option)" where
  "resolve_request_bot repr now session_id payload runtime sm =
     (if is_registered session_id sm then
        (case (get_robot_id session_id sm, runtime) of
           (Some robot_id, Some rt) \<Rightarrow>
             if robot_id = [] then (sm, Inl (Refused ValueError))
             else (case resolve_robot_bot_binding robot_id rt of
                 Inl e \<Rightarrow> (sm, Inl (Refused e))
               | Inr None \<Rightarrow> (sm, Inl (Refused ValueError))
               | Inr (Some row) \<Rightarrow>
                   if \<not> bb_robot_enabled row \<or> bb_assigned_bot_id row = []
                   then (sm, Inl (Refused ValueError))
                   else (fst (update_registered_bot now session_id (bb_assigned_bot_id row)
                                (Some (bb_bot_name row)) sm),
                         Inr (Some (bb_assigned_bot_id row), Some (bb_bot_name row))))
         | (None, _) \<Rightarrow> (sm, Inl (Refused ValueError))
         | (Some robot_id, None) \<Rightarrow>
             (sm, Inl (if robot_id = [] then Refused ValueError else RuntimeError)))
      else
        let legacy = opt_str (Some (payload_text repr payload ''bot_id'')) in
        case runtime of
          Some rt \<Rightarrow>
            if nonempty legacy then (sm, refuse (resolve_legacy_bot legacy rt))
            else (sm, Inr (legacy, None))
        | None \<Rightarrow> (sm, Inr (legacy, None)))"

text \<open>The runtime as a reactive component.  A reload reads the rows of the database or fails to;
  a registration comes with the default bot it read before and the repository's row.\<close>

datatype runtime_event =
    Reload env seconds "py_exn + config_rows"
  | RegisterRow string "string option" repository_row

definition load_gateway_snapshot ::
  "(json \<Rightarrow> string) \<Rightarrow> env \<Rightarrow> seconds \<Rightarrow> py_exn + config_rows \<Rightarrow> config_error + gateway_snapshot" where
  "load_gateway_snapshot repr env now rows =
     and_then (config_raise rows) (build_gateway_runtime_snapshot repr env now)"

fun runtime_step ::
  "(json \<Rightarrow> string) \<Rightarrow> (seconds \<Rightarrow> string) \<Rightarrow> (config_error \<Rightarrow> string) \<Rightarrow> gateway_runtime \<Rightarrow>
    runtime_event \<Rightarrow> gateway_runtime \<times> bool" where
  \<comment> \<open>the flag says that nothing was raised\<close>
  "runtime_step repr fmt msg rt (Reload env now rows) =
     map_prod id (\<lambda>r. \<not> isl r) (reload_runtime fmt msg (load_gateway_snapshot repr env now rows) rt)"
| "runtime_step repr fmt msg rt (RegisterRow robot_id dflt row) =
     map_prod id (\<lambda>r. \<not> isl r) (runtime_register_robot robot_id dflt row rt)"

end
