(* ===== verification/Gateway_Runtime_Facts.thy ===== *)
theory Gateway_Runtime_Facts
  imports Gateway_Runtime
begin

text \<open>
  The snapshot builder accepts only consistent configurations, so that in every state the
  gateway's runtime reaches by reloads and registrations each robot's bot is loaded; a robot
  is bound to a session only after the checks of its registration.
\<close>

lemma demand_Inr [simp]: "demand ok = Inr u \<longleftrightarrow> ok"
  by (simp add: demand_def)

lemma demand_Inl [simp]: "demand ok = Inl e \<longleftrightarrow> \<not> ok \<and> e = ConfigValidationError"
  by (auto simp: demand_def)

subsection \<open>Snapshots\<close>

definition bot_ok :: "bot_template \<Rightarrow> bool" where
  "bot_ok b \<longleftrightarrow> bt_system_prompt b \<noteq> [] \<and> 0 \<le> bt_temperature b \<and> bt_temperature b \<le> 2 \<and>
     0 < bt_max_tokens b \<and> 0 \<le> bt_max_response_chars b \<and> bt_tts_profile_id b \<noteq> [] \<and> bt_enabled b"

lemma build_bot_ok: "build_bot servers agents row = Inr b \<Longrightarrow> bot_ok b \<and> bt_bot_id b = br_bot_id row"
  by (auto simp: build_bot_def bot_ok_def Let_def and_then_Inr_iff)

definition bots_ok :: "bot_table \<times> string list \<Rightarrow> bool" where
  "bots_ok s \<longleftrightarrow>
     (\<forall>k b. map_of (fst s) k = Some b \<longrightarrow> bot_ok b \<and> bt_bot_id b = k) \<and>
     set (snd s) \<subseteq> set (keys (fst s))"

lemma add_bot_ok: "bots_ok s \<Longrightarrow> add_bot f g row s = Inr s' \<Longrightarrow> bots_ok s'"
  by (cases s)
    (auto simp: add_bot_def bots_ok_def and_then_Inr_iff map_of_update keys_update
      simp del: set_map dest!: build_bot_ok split: if_splits)

lemma enabled_bots_ok:
  assumes "build_enabled_bots rows b1 s b2 a = Inr (bots, dflt)"
  shows "(\<forall>k b. map_of bots k = Some b \<longrightarrow> bot_ok b \<and> bt_bot_id b = k) \<and> dflt \<in> set (keys bots)"
proof -
  from assms obtain f g defaults where
    fold: "fold_steps (add_bot f g) rows ([], []) = Inr (bots, defaults)" and
    len: "length defaults = 1" and dflt: "dflt = hd defaults"
    by (auto simp: build_enabled_bots_def and_then_Inr_iff)
  have "bots_ok (bots, defaults)"
    by (rule fold_steps_inv [OF fold]) (simp add: bots_ok_def, erule (1) add_bot_ok)
  moreover have "dflt \<in> set defaults" using len dflt by (cases defaults) auto
  ultimately show ?thesis by (auto simp: bots_ok_def)
qed

definition robots_ok :: "bot_table \<Rightarrow> robot_table \<Rightarrow> bool" where
  "robots_ok bots robots \<longleftrightarrow>
     (\<forall>k r. map_of robots k = Some r \<longrightarrow> rb_enabled r \<and> rb_assigned_bot_id r \<in> set (keys bots))"

lemma robots_ok_update:
  "robots_ok bots robots \<Longrightarrow> rb_enabled r \<Longrightarrow> rb_assigned_bot_id r \<in> set (keys bots) \<Longrightarrow>
    robots_ok bots (AList.update k r robots)"
  by (auto simp: robots_ok_def map_of_update split: if_splits)

lemma enabled_robots_ok:
  assumes "build_enabled_robots rows bots = Inr robots"
  shows "robots_ok bots robots"
  using assms unfolding build_enabled_robots_def
proof (rule fold_steps_inv)
  show "robots_ok bots []" by (simp add: robots_ok_def)
next
  fix row s s' assume "robots_ok bots s" "add_robot bots row s = Inr s'"
  then show "robots_ok bots s'"
    by (auto simp: add_robot_def and_then_Inr_iff simp del: set_map intro!: robots_ok_update
        split: if_splits)
qed

lemma normalized_url:
  assumes "normalize_grpc_service_url repr v dflt = Inr u"
  shows "\<exists>scheme target. u = scheme @ ''://'' @ target \<and> scheme \<in> {''grpc'', ''grpcs''} \<and> target \<noteq> []"
  using assms by (auto simp: normalize_grpc_service_url_def Let_def and_then_Inr_iff case_prod_beta)

definition settings_ok :: "gateway_settings \<Rightarrow> bool" where
  "settings_ok g \<longleftrightarrow> 0 < gs_max_connections g \<and> 0 < gs_max_history_length g \<and>
     (\<forall>u \<in> {gs_stt_service_url g, gs_llm_service_url g, gs_tts_service_url g}.
        starts_with u ''grpc://'' \<or> starts_with u ''grpcs://'')"

lemma normalized_url_scheme:
  "normalize_grpc_service_url repr v dflt = Inr u \<Longrightarrow> starts_with u ''grpc://'' \<or> starts_with u ''grpcs://''"
  by (drule normalized_url) (auto simp: starts_with_def)

lemma gateway_settings_ok: "build_gateway_settings repr env = Inr g \<Longrightarrow> settings_ok g"
  by (auto simp: build_gateway_settings_def Let_def and_then_Inr_iff settings_ok_def
      dest: normalized_url_scheme)

definition snapshot_ok :: "gateway_snapshot \<Rightarrow> bool" where
  "snapshot_ok s \<longleftrightarrow>
     (\<forall>k b. map_of (gw_bots s) k = Some b \<longrightarrow> bot_ok b \<and> bt_bot_id b = k) \<and>
     gw_default_bot_id s \<in> set (keys (gw_bots s)) \<and> robots_ok (gw_bots s) (gw_robots s) \<and>
     settings_ok (gw_settings s)"

lemma built_snapshot_ok:
  "build_gateway_runtime_snapshot repr env now rows = Inr s \<Longrightarrow> snapshot_ok s"
  by (auto simp: build_gateway_runtime_snapshot_def and_then_Inr_iff snapshot_ok_def
      dest: enabled_bots_ok enabled_robots_ok gateway_settings_ok)

subsection \<open>The runtime\<close>

definition runtime_ok :: "gateway_runtime \<Rightarrow> bool" where
  "runtime_ok rt \<longleftrightarrow>
     (\<forall>k b. map_of (rs_bots rt) k = Some b \<longrightarrow> bot_ok b \<and> bt_bot_id b = k) \<and>
     (\<exists>d. rs_default_bot_id rt = Some d \<and> d \<in> set (keys (rs_bots rt))) \<and>
     robots_ok (rs_bots rt) (rs_robots rt) \<and> settings_ok (rs_settings rt)"

lemma load_snapshot_ok: "snapshot_ok snap \<Longrightarrow> runtime_ok (load_snapshot snap rt)"
  by (simp add: runtime_ok_def load_snapshot_def snapshot_ok_def)

lemma reload_error_ok [simp]:
  "runtime_ok (rt\<lparr>rs_last_reload_error := e\<rparr>) = runtime_ok rt"
  by (simp add: runtime_ok_def)

lemma runtime_robots_update:
  "runtime_ok rt \<Longrightarrow> rb_enabled r \<Longrightarrow> rb_assigned_bot_id r \<in> set (keys (rs_bots rt)) \<Longrightarrow>
    runtime_ok (rt\<lparr>rs_robots := AList.update k r (rs_robots rt)\<rparr>)"
  by (simp add: runtime_ok_def robots_ok_update)

lemma map_of_keyD: "map_of d k = Some v \<Longrightarrow> k \<in> set (keys d)"
  by (force dest: map_of_SomeD)

lemma register_keeps_ok:
  assumes "runtime_ok rt" shows "runtime_ok (fst (runtime_register_robot robot_id dflt row rt))"
  using assms
  by (auto simp: runtime_register_robot_def intro!: runtime_robots_update dest: map_of_keyD
      split: option.splits)

lemma loaded_snapshot_ok: "load_gateway_snapshot repr env now rows = Inr s \<Longrightarrow> snapshot_ok s"
  by (auto simp: load_gateway_snapshot_def and_then_Inr_iff dest: built_snapshot_ok)

lemma runtime_step_ok:
  assumes "runtime_ok rt"
  shows "runtime_ok (fst (runtime_step repr fmt msg rt ev))"
proof (cases ev)
  case (Reload env now rows)
  with assms show ?thesis
    by (cases "load_gateway_snapshot repr env now rows")
      (auto simp: reload_runtime_def Let_def intro!: load_snapshot_ok loaded_snapshot_ok)
qed (use assms in \<open>simp add: register_keeps_ok\<close>)

interpretation gateway_runtime: transition_system
    "runtime_step repr fmt msg" runtime_ok "\<lambda>_. True" for repr fmt msg
  by unfold_locales (rule runtime_step_ok)

lemma loaded_bot: "runtime_ok rt \<Longrightarrow> map_of (rs_robots rt) k = Some r \<Longrightarrow>
    rb_enabled r \<and> (\<exists>b. map_of (rs_bots rt) (rb_assigned_bot_id r) = Some b \<and>
      bt_bot_id b = rb_assigned_bot_id r)"
proof -
  assume ok: "runtime_ok rt" and k: "map_of (rs_robots rt) k = Some r"
  then have "rb_enabled r" "rb_assigned_bot_id r \<in> set (keys (rs_bots rt))"
    by (auto simp: runtime_ok_def robots_ok_def)
  moreover from this(2) obtain b where "map_of (rs_bots rt) (rb_assigned_bot_id r) = Some b"
    by (metis map_of_eq_None_iff not_Some_eq set_map)
  ultimately show ?thesis using ok by (auto simp: runtime_ok_def)
qed

lemma new_runtime_ok:
  "new_gateway_runtime now url (load_gateway_snapshot repr env now rows) = Inr rt \<Longrightarrow> runtime_ok rt"
  by (auto simp: new_gateway_runtime_def and_then_Inr_iff intro: load_snapshot_ok loaded_snapshot_ok
      split: if_splits)

subsection \<open>Secrets\<close>

lemma split_once_parts: "split_once sep s = Some (a, b) \<Longrightarrow> s = a @ sep @ b"
proof (induction s arbitrary: a)
  case Nil
  then show ?case
    by (subst (asm) split_once.simps) (auto simp: starts_with_def split: if_splits)
next
  case (Cons c cs)
  show ?case
  proof (cases "starts_with (c # cs) sep")
    case True
    then obtain r where "c # cs = sep @ r" by (rule starts_withE)
    with True Cons.prems show ?thesis by (subst (asm) split_once.simps) auto
  next
    case False
    with Cons.prems obtain a' where "a = c # a'" "split_once sep cs = Some (a', b)"
      by (subst (asm) split_once.simps) auto
    with Cons.IH show ?thesis by simp
  qed
qed

lemma split_once_char: "c \<notin> set a \<Longrightarrow> split_once [c] (a @ c # b) = Some (a, b)"
proof (induction a)
  case Nil
  show ?case by (subst split_once.simps) (simp add: starts_with_def)
next
  case (Cons x a)
  then show ?case by (subst split_once.simps) (auto simp: starts_with_def)
qed

lemma verified_secret:
  assumes "verify_robot_secret sha256_hex secret stored = Inr True"
  shows "secret \<noteq> [] \<and> (\<exists>salt. stored = Some (hash_robot_secret sha256_hex salt secret))"
proof -
  obtain h where h: "stored = Some h" and ne: "secret \<noteq> []"
    using assms by (cases stored) (auto simp: verify_robot_secret_def nonempty_def split: if_splits)
  from assms ne h obtain rest salt expected where
    "split_once ''$'' h = Some (''sha256'', rest)" "split_once ''$'' rest = Some (salt, expected)"
    "compare_digest (sha256_hex (salt @ '':'' @ secret)) expected = Inr True"
    by (auto simp: verify_robot_secret_def split: if_splits option.splits)
  then have "h = ''sha256'' @ ''$'' @ salt @ ''$'' @ sha256_hex (salt @ '':'' @ secret)"
    by (auto simp: compare_digest_def dest!: split_once_parts split: if_splits)
  with ne h show ?thesis by (auto simp: hash_robot_secret_def)
qed

lemma own_secret_verifies:
  assumes "secret \<noteq> []" "CHR ''$'' \<notin> set salt" "ascii_text (sha256_hex (salt @ '':'' @ secret))"
  shows "verify_robot_secret sha256_hex secret (Some (hash_robot_secret sha256_hex salt secret)) = Inr True"
proof -
  have "split_once ''$'' (hash_robot_secret sha256_hex salt secret) =
      Some (''sha256'', salt @ ''$'' @ sha256_hex (salt @ '':'' @ secret))"
    using split_once_char [of "CHR ''$''" "''sha256''"] by (simp add: hash_robot_secret_def)
  with assms show ?thesis
    by (simp add: verify_robot_secret_def split_once_char compare_digest_def hash_robot_secret_def
        nonempty_def)
qed

subsection \<open>Registration\<close>

lemma checked_secret:
  assumes "check_robot_secret sha256_hex required row stored secret = Inr u"
  shows "(required \<longrightarrow> nonempty (rw_secret_hash row)) \<and>
    (required \<or> (nonempty (rw_secret_hash row) \<and> secret \<noteq> []) \<longrightarrow>
      verify_robot_secret sha256_hex secret stored = Inr True)"
  using assms by (auto simp: check_robot_secret_def and_then_Inr_iff split: if_splits)

lemma registered_row:
  assumes "runtime_register_robot robot_id dflt row rt = (rt1, Inr row1)" and "rw_enabled row1"
  shows "rw_enabled row \<and> rw_robot_id row1 = rw_robot_id row \<and> rw_secret_hash row1 = rw_secret_hash row \<and>
    rs_bots rt1 = rs_bots rt \<and>
    (\<exists>b. map_of (rs_bots rt) (rw_assigned_bot_id row1) = Some b \<and> rw_bot_name row1 = Some (bt_name b)) \<and>
    (\<exists>r. map_of (rs_robots rt1) robot_id = Some r \<and> rb_assigned_bot_id r = rw_assigned_bot_id row1)"
  using assms
  by (auto simp: runtime_register_robot_def map_of_update split: if_splits option.splits)

lemma session_after_register:
  assumes "register_robot now sid rid bid bname ct new sm = (sm1, ok)"
  shows "if ok then get_robot_id sid sm1 = Some rid \<and> get_registered_bot sid sm1 = (Some bid, Some bname) \<and>
      (\<forall>other. other \<noteq> sid \<longrightarrow> find_session other sm1 = find_session other sm)
    else sm1 = sm"
  using assms
  by (auto simp: register_robot_def with_session_def Let_def get_robot_id_def get_registered_bot_def
      find_session_def put_session_def map_of_update split: option.splits)

text \<open>C7: A robot is bound to a session only if the repository's row for it is enabled and, when
  secrets are required, or when the robot has a secret and presents one, the presented secret is
  the one whose salted hash is stored.  The session then carries the robot and a bot that the
  runtime has loaded, and no other session changes.  A registration that is refused leaves every
  session as it was.\<close>

theorem robot_session_is_authorised:
  assumes "register_robot_session repr sha256_hex now sid payload required answers (Some rt) sm =
      (rt', sm', outcome)"
  shows "case outcome of
      Inl _ \<Rightarrow> sm' = sm
    | Inr reg \<Rightarrow> \<exists>row b secret.
        an_row answers = Inr row \<and> rw_enabled row \<and> rg_robot_id reg = rw_robot_id row \<and>
        secret = payload_text repr payload ''robot_secret'' \<and>
        (required \<longrightarrow> nonempty (rw_secret_hash row)) \<and>
        (required \<or> (nonempty (rw_secret_hash row) \<and> secret \<noteq> []) \<longrightarrow>
          (\<exists>salt. an_stored_hash answers = Some (hash_robot_secret sha256_hex salt secret))) \<and>
        map_of (rs_bots rt) (rg_bot_id reg) = Some b \<and> rg_bot_name reg = Some (bt_name b) \<and>
        get_robot_id sid sm' = Some (rw_robot_id row) \<and>
        get_registered_bot sid sm' = (Some (rg_bot_id reg), Some (bt_name b)) \<and>
        (\<forall>other. other \<noteq> sid \<longrightarrow> find_session other sm' = find_session other sm)"
proof (cases outcome)
  case (Inl e)
  with assms show ?thesis
    by (auto simp: register_robot_session_def Let_def dest: session_after_register
        split: if_splits sum.splits prod.splits bool.splits)
next
  case (Inr reg)
  with assms obtain row rt1 row1 u where
    row: "an_row answers = Inr row" and
    run: "runtime_register_robot (payload_text repr payload ''robot_id'') (an_default answers) row rt = (rt1, Inr row1)" and
    en: "rw_enabled row1" and
    chk: "check_robot_secret sha256_hex required row1 (an_stored_hash answers)
      (payload_text repr payload ''robot_secret'') = Inr u" and
    bound: "register_robot now sid (rw_robot_id row1) (rw_assigned_bot_id row1)
      (opt_text (rw_bot_name row1)) (rw_client_type row1) (rw_is_new row1) sm = (sm', True)" and
    reg: "rg_robot_id reg = rw_robot_id row1" "rg_bot_id reg = rw_assigned_bot_id row1"
      "rg_bot_name reg = rw_bot_name row1"
    by (auto simp: register_robot_session_def Let_def split: if_splits sum.splits prod.splits bool.splits)
  from registered_row [OF run en] obtain b where
    r: "rw_enabled row" "rw_robot_id row1 = rw_robot_id row" "rw_secret_hash row1 = rw_secret_hash row" and
    b: "map_of (rs_bots rt) (rw_assigned_bot_id row1) = Some b" "rw_bot_name row1 = Some (bt_name b)"
    by auto
  show ?thesis
    using checked_secret [OF chk] session_after_register [OF bound]
    by (auto simp: Inr row r b reg dest: verified_secret)
qed

definition sample_rows :: config_rows where
  "sample_rows = \<lparr>cr_version = 1,
     cr_bots = [\<lparr>br_id = 1, br_bot_id = ''b1'', br_name = ''bot one'', br_system_prompt = Some '' be kind '',
       br_model = ''m'', br_temperature = 1 / 2, br_max_tokens = 100, br_max_response_chars = None,
       br_tts_profile_id = None, br_enabled = True, br_is_default = True\<rparr>],
     cr_robots = [\<lparr>rr_robot_id = ''r1'', rr_name = ''one'', rr_assigned_bot_id = ''b1'',
       rr_client_type = None, rr_enabled = True, rr_is_new = False, rr_last_connected_at = None,
       rr_notes = None\<rparr>],
     cr_mcp = [], cr_mcp_bindings = [], cr_agents = [], cr_agent_bindings = [], cr_tts_profiles = [],
     cr_source = ''db''\<rparr>"

definition sample_runtime :: "config_error + gateway_runtime" where
  "sample_runtime = new_gateway_runtime 0 ''mysql://db'' (load_gateway_snapshot (\<lambda>_. []) (\<lambda>_. None) 0 (Inr sample_rows))"

definition sample_row :: repository_row where
  "sample_row = \<lparr>rw_robot_id = ''r1'', rw_name = None, rw_assigned_bot_id = ''b1'',
     rw_client_type = Some ''rust'', rw_enabled = True, rw_is_new = False,
     rw_secret_hash = Some (hash_robot_secret id ''s'' ''pw''), rw_last_connected_at = Some 5,
     rw_created = False, rw_bot_name = None\<rparr>"

definition sample_registration ::
  "gateway_runtime option \<times> session_manager \<times> (register_error + registration)" where
  "sample_registration =
     (case sample_runtime of
        Inr rt \<Rightarrow> register_robot_session (\<lambda>_. []) id 6 ''a''
          [(''robot_id'', JStr '' r1 ''), (''robot_secret'', JStr ''pw'')] True
          \<lparr>an_default = Some ''b1'', an_row = Inr sample_row,
           an_stored_hash = Some (hash_robot_secret id ''s'' ''pw'')\<rparr>
          (Some rt) (fst (create_session 0 ''a'' (new_manager 5)))
      | Inl e \<Rightarrow> (None, new_manager 5, Inl RuntimeError))"

lemma sample_registers:
  "\<not> isl sample_runtime \<and> rg_bot_id (projr (snd (snd sample_registration))) = ''b1'' \<and>
    \<not> isl (snd (snd sample_registration))"
  by code_simp

lemma sample_runtime_loaded: "\<exists>rt. sample_runtime = Inr rt"
  using sample_registers by (metis isl_def sum.exhaust_sel)

theorem robot_session_is_authorised_witness:
  "get_robot_id ''a'' (fst (snd sample_registration)) = Some ''r1'' \<and>
    (\<exists>salt. hash_robot_secret id ''s'' ''pw'' = hash_robot_secret id salt ''pw'')"
proof -
  obtain rt where rt: "sample_runtime = Inr rt" using sample_runtime_loaded ..
  obtain rt' sm' reg where out: "sample_registration = (rt', sm', Inr reg)"
    using sample_registers by (metis isl_def prod.exhaust_sel sum.exhaust_sel)
  have secret: "payload_text (\<lambda>_. []) [(''robot_id'', JStr '' r1 ''), (''robot_secret'', JStr ''pw'')]
      ''robot_secret'' = ''pw''"
    by code_simp
  show ?thesis
    using robot_session_is_authorised [OF out [unfolded sample_registration_def rt sum.case]] secret
    by (auto simp: out sample_row_def)
qed

subsection \<open>Every robot of the runtime can be served\<close>

text \<open>In every state that reloads and registrations lead to, looking up the bot of a robot
  raises nothing: a robot of the runtime is enabled and its bot is loaded, with a prompt, a
  speech profile and limits in range; the default bot is loaded, and the gateway's limits and
  upstream addresses are valid.\<close>

theorem runtime_serves_its_robots:
  assumes "new_gateway_runtime now url (load_gateway_snapshot repr env now rows) = Inr rt0"
    and "rt = run_state (runtime_step repr fmt msg) rt0 evs"
  shows "(case resolve_robot_bot_binding robot_id rt of
        Inl e \<Rightarrow> False
      | Inr None \<Rightarrow> robot_id \<notin> set (keys (rs_robots rt))
      | Inr (Some row) \<Rightarrow> bb_robot_enabled row \<and>
          (\<exists>b. map_of (rs_bots rt) (bb_assigned_bot_id row) = Some b \<and>
            bb_bot_name row = bt_name b \<and> bot_ok b)) \<and>
    (\<exists>d. rs_default_bot_id rt = Some d \<and> d \<in> set (keys (rs_bots rt))) \<and> settings_ok (rs_settings rt)"
proof -
  have ok: "runtime_ok rt"
    unfolding assms(2) by (rule gateway_runtime.inv_run [OF new_runtime_ok [OF assms(1)]]) simp
  have "case resolve_robot_bot_binding robot_id rt of
      Inl e \<Rightarrow> False
    | Inr None \<Rightarrow> robot_id \<notin> set (keys (rs_robots rt))
    | Inr (Some row) \<Rightarrow> bb_robot_enabled row \<and>
        (\<exists>b. map_of (rs_bots rt) (bb_assigned_bot_id row) = Some b \<and>
          bb_bot_name row = bt_name b \<and> bot_ok b)"
  proof (cases "map_of (rs_robots rt) robot_id")
    case None
    then have "robot_id \<notin> set (keys (rs_robots rt))" by (simp add: map_of_eq_None_iff)
    with None show ?thesis by (simp add: resolve_robot_bot_binding_def del: set_map)
  next
    case (Some r)
    from loaded_bot [OF ok Some] ok show ?thesis
      by (auto simp: resolve_robot_bot_binding_def Some runtime_ok_def)
  qed
  with ok show ?thesis by (simp add: runtime_ok_def)
qed

theorem runtime_serves_its_robots_witness:
  "\<exists>rt. sample_runtime = Inr rt \<and>
    (\<exists>d. rs_default_bot_id (run_state (runtime_step (\<lambda>_. []) (\<lambda>_. []) (\<lambda>_. [])) rt
      [RegisterRow ''r1'' (Some ''b1'') sample_row, Reload (\<lambda>_. None) 3 (Inl ValueError)]) = Some d)"
proof -
  obtain rt where rt: "sample_runtime = Inr rt" using sample_runtime_loaded ..
  show ?thesis
    using runtime_serves_its_robots [OF rt [unfolded sample_runtime_def] refl] rt by blast
qed

end
