(* ===== verification/Service_Runtime.thy ===== *)
theory Service_Runtime
  imports Gateway_Runtime_Facts
begin

text \<open>
  \<open>src/llm/bot_manager.py\<close>, the configuration part of \<open>src/llm/runtime_state.py\<close> and
  \<open>src/tts/runtime_state.py\<close>: what the language model service and the speech service run with.
  A reload first builds everything from a snapshot and then swaps it in under the lock, as one
  step.  The connections of the MCP manager and their warm-up tasks are not modelled; of the
  manager only the configured servers are kept.

  The lemmas show that the language model service finds a bot for every request in every state,
  that it agrees with the gateway on the bots when both loaded the same rows, and that the speech
  service hands out only profiles that are enabled and in range.
\<close>

subsection \<open>The bots of the language model service\<close>

type_synonym bot_config = bot_template    \<comment> \<open>\<open>BotConfig\<close> has the fields of \<open>BotTemplateConfig\<close>\<close>

record bot_manager =
  bm_bots :: "(string, bot_config) odict"
  bm_default :: string

definition BUILTIN_DEFAULT_BOT_ID :: string where "BUILTIN_DEFAULT_BOT_ID = ''default''"

definition replace_all :: "(string, bot_config) odict \<Rightarrow> bot_manager \<Rightarrow> bot_manager" where
  "replace_all bots m = m\<lparr>bm_bots := bots\<rparr>"

definition new_bot_manager :: "(string, bot_config) odict option \<Rightarrow> bot_manager" where
  "new_bot_manager initial =
     (let m = \<lparr>bm_bots = [], bm_default = BUILTIN_DEFAULT_BOT_ID\<rparr> in
      case initial of
        None \<Rightarrow> m
      | Some bots \<Rightarrow>
          let m1 = replace_all bots m;
              default_bot = map_option bt_bot_id (List.find bt_is_default (map snd bots))
          in if nonempty default_bot then m1\<lparr>bm_default := opt_text default_bot\<rparr> else m1)"

definition get_bot :: "string option \<Rightarrow> bot_manager \<Rightarrow> py_exn + bot_config" where
  "get_bot bot_id m =
     (let k = (if nonempty bot_id then opt_text bot_id else bm_default m) in
      case map_of (bm_bots m) k of None \<Rightarrow> Inl KeyError | Some b \<Rightarrow> Inr b)"

definition get_bot_or_default :: "string option \<Rightarrow> bot_manager \<Rightarrow> py_exn + bot_config" where
  "get_bot_or_default bot_id m =
     (case get_bot bot_id m of Inr b \<Rightarrow> Inr b | Inl _ \<Rightarrow> get_bot (Some (bm_default m)) m)"

definition list_bots :: "bot_manager \<Rightarrow> bot_config list" where
  "list_bots m = map snd (bm_bots m)"

record llm_runtime =
  lr_bot_manager :: bot_manager
  lr_mcp_servers :: "(string, jobj) odict option"    \<comment> \<open>\<open>servers\<close> of the MCP manager, if there is one\<close>
  lr_agents :: "(string, agent_config) odict"
  lr_source :: string
  lr_config_version :: "int option"
  lr_loaded_at :: seconds
  lr_default_bot_id :: string
  lr_last_reload_error :: "string option"

definition build_mcp_manager :: "(string, mcp_server) odict \<Rightarrow> (string, jobj) odict" where
  "build_mcp_manager servers =
     foldl (\<lambda>d (name, config). AList.update name (to_mcp_manager_config config) d) [] servers"

definition build_runtime_components ::
  "bool \<Rightarrow> llm_snapshot \<Rightarrow> bot_manager \<times> (string, jobj) odict option" where
  "build_runtime_components mcp_enabled snap =
     ((new_bot_manager (Some (ls_bots snap)))\<lparr>bm_default := ls_default_bot_id snap\<rparr>,
      if mcp_enabled then Some (build_mcp_manager (ls_mcp_servers snap)) else None)"

definition load_llm_snapshot :: "bool \<Rightarrow> llm_snapshot \<Rightarrow> llm_runtime \<Rightarrow> llm_runtime" where
  "load_llm_snapshot mcp_enabled snap rt =
     (let (bots, mcp) = build_runtime_components mcp_enabled snap in
      rt\<lparr>lr_bot_manager := bots, lr_mcp_servers := mcp, lr_agents := ls_agents snap,
         lr_source := ls_source snap, lr_config_version := Some (ls_config_version snap),
         lr_loaded_at := ls_loaded_at snap, lr_default_bot_id := ls_default_bot_id snap\<rparr>)"

definition initial_llm_runtime :: "seconds \<Rightarrow> llm_runtime" where
  "initial_llm_runtime now =
     \<lparr>lr_bot_manager = new_bot_manager None, lr_mcp_servers = None, lr_agents = [], lr_source = ''db'',
      lr_config_version = None, lr_loaded_at = now, lr_default_bot_id = BUILTIN_DEFAULT_BOT_ID,
      lr_last_reload_error = None\<rparr>"

definition new_llm_runtime ::
  "seconds \<Rightarrow> string \<Rightarrow> bool \<Rightarrow> config_error + llm_snapshot \<Rightarrow> config_error + llm_runtime" where
  "new_llm_runtime now database_url mcp_enabled snapshot =
     (if py_strip database_url = [] then Inl (ConfigRaised ValueError)
      else and_then snapshot (\<lambda>snap. Inr (load_llm_snapshot mcp_enabled snap (initial_llm_runtime now))))"

definition reload_llm ::
  "(config_error \<Rightarrow> string) \<Rightarrow> bool \<Rightarrow> config_error + llm_snapshot \<Rightarrow> llm_runtime \<Rightarrow>
    llm_runtime \<times> (config_error + unit)" where
  "reload_llm msg mcp_enabled snapshot rt =
     (case snapshot of
        Inl e \<Rightarrow> (rt\<lparr>lr_last_reload_error := Some (msg e)\<rparr>, Inl e)
      | Inr snap \<Rightarrow> ((load_llm_snapshot mcp_enabled snap rt)\<lparr>lr_last_reload_error := None\<rparr>, Inr ()))"

definition enabled_agent_ids :: "llm_runtime \<Rightarrow> string list" where
  "enabled_agent_ids rt = keys (lr_agents rt)"

definition collect_warmup_server_names :: "bot_manager \<Rightarrow> (string, jobj) odict \<Rightarrow> string list" where
  \<comment> \<open>the set of the bots' servers, sorted\<close>
  "collect_warmup_server_names m servers =
     sort (filter (\<lambda>n. n \<in> set (keys servers)) (remdups (concat (map bt_mcp_servers (list_bots m)))))"

fun llm_runtime_step ::
  "(json \<Rightarrow> string) \<Rightarrow> (config_error \<Rightarrow> string) \<Rightarrow> bool \<Rightarrow> llm_runtime \<Rightarrow>
    env \<times> seconds \<times> (py_exn + config_rows) \<Rightarrow> llm_runtime \<times> bool" where
  "llm_runtime_step repr msg mcp_enabled rt (env, now, rows) =
     map_prod id (\<lambda>r. \<not> isl r)
       (reload_llm msg mcp_enabled (and_then (config_raise rows) (build_llm_runtime_snapshot repr env now)) rt)"

subsection \<open>The profiles of the speech service\<close>

record tts_runtime =
  tn_source :: string
  tn_config_version :: "int option"
  tn_loaded_at :: seconds
  tn_settings :: tts_settings
  tn_profiles :: "(string, tts_profile) odict"
  tn_request_count :: nat
  tn_last_request_at :: "seconds option"
  tn_last_error :: "string option"
  tn_last_error_at :: "seconds option"
  tn_last_reload_error :: "string option"

definition initial_tts_runtime :: "seconds \<Rightarrow> tts_runtime" where
  "initial_tts_runtime now =
     \<lparr>tn_source = ''db'', tn_config_version = None, tn_loaded_at = now,
      tn_settings = \<lparr>ts_realtime_model = ''qwen3-tts'', ts_default_voice = ''serena'', ts_default_speed = 1\<rparr>,
      tn_profiles = [], tn_request_count = 0, tn_last_request_at = None, tn_last_error = None,
      tn_last_error_at = None, tn_last_reload_error = None\<rparr>"

definition load_tts_snapshot :: "tts_snapshot \<Rightarrow> tts_runtime \<Rightarrow> tts_runtime" where
  "load_tts_snapshot snap rt =
     rt\<lparr>tn_source := tt_source snap, tn_config_version := Some (tt_config_version snap),
        tn_loaded_at := tt_loaded_at snap, tn_settings := tt_settings snap,
        tn_profiles := tt_profiles snap\<rparr>"

definition new_tts_runtime ::
  "seconds \<Rightarrow> string \<Rightarrow> config_error + tts_snapshot \<Rightarrow> config_error + tts_runtime" where
  "new_tts_runtime now database_url snapshot =
     (if py_strip database_url = [] then Inl (ConfigRaised ValueError)
      else and_then snapshot (\<lambda>snap. Inr (load_tts_snapshot snap (initial_tts_runtime now))))"

definition reload_tts ::
  "(config_error \<Rightarrow> string) \<Rightarrow> config_error + tts_snapshot \<Rightarrow> tts_runtime \<Rightarrow>
    tts_runtime \<times> (config_error + unit)" where
  "reload_tts msg snapshot rt =
     (case snapshot of
        Inl e \<Rightarrow> (rt\<lparr>tn_last_reload_error := Some (msg e)\<rparr>, Inl e)
      | Inr snap \<Rightarrow> ((load_tts_snapshot snap rt)\<lparr>tn_last_reload_error := None\<rparr>, Inr ()))"

definition get_tts_profile :: "string \<Rightarrow> tts_runtime \<Rightarrow> py_exn + tts_profile" where
  "get_tts_profile tts_profile_id rt =
     (let profile_id = py_strip tts_profile_id in
      if profile_id = [] then Inl ValueError
      else case map_of (tn_profiles rt) profile_id of
          None \<Rightarrow> Inl ValueError
        | Some p \<Rightarrow> if \<not> tp_enabled p then Inl ValueError else Inr p)"

definition mark_request_started :: "seconds \<Rightarrow> tts_runtime \<Rightarrow> tts_runtime" where
  "mark_request_started now rt =
     rt\<lparr>tn_request_count := tn_request_count rt + 1, tn_last_request_at := Some now\<rparr>"

definition mark_error :: "seconds \<Rightarrow> string \<Rightarrow> tts_runtime \<Rightarrow> tts_runtime" where
  "mark_error now message_text rt = rt\<lparr>tn_last_error := Some message_text, tn_last_error_at := Some now\<rparr>"

definition clear_error :: "tts_runtime \<Rightarrow> tts_runtime" where
  "clear_error rt = rt\<lparr>tn_last_error := None, tn_last_error_at := None\<rparr>"

definition tts_profile_item :: "tts_profile \<Rightarrow> jobj" where
  "tts_profile_item p =
     [(''tts_id'', JStr (tp_id p)), (''tts_name'', JStr (tp_name p)),
      (''provider_type'', JStr (tp_provider_type p)), (''speed'', JFloat (tp_speed p)),
      (''enabled'', JBool (tp_enabled p))]"

definition tts_status_dict :: "(seconds \<Rightarrow> string) \<Rightarrow> tts_runtime \<Rightarrow> jobj" where
  "tts_status_dict fmt rt =
     [(''success'', JBool True), (''source'', JStr (tn_source rt)),
      (''config_version'', jint_opt (tn_config_version rt)), (''loaded_at'', JStr (fmt (tn_loaded_at rt))),
      (''tts_settings'', JObj (tts_settings_to_dict (tn_settings rt))),
      (''tts_profile_count'', JInt (int (length (tn_profiles rt)))),
      (''tts_profiles'', JArr (map (JObj \<circ> tts_profile_item) (sort_key tp_id (map snd (tn_profiles rt))))),
      (''request_count'', JInt (int (tn_request_count rt))),
      (''last_request_at'', jopt (map_option fmt (tn_last_request_at rt))),
      (''last_error'', jopt (tn_last_error rt)),
      (''last_error_at'', jopt (map_option fmt (tn_last_error_at rt))),
      (''last_reload_error'', jopt (tn_last_reload_error rt))]"

datatype tts_event =
    ReloadTts seconds "py_exn + config_rows"
  | RequestStarted seconds
  | MarkError seconds string
  | ClearError

fun tts_runtime_step ::
  "(json \<Rightarrow> string) \<Rightarrow> (json list \<Rightarrow> py_exn + jobj) \<Rightarrow> (config_error \<Rightarrow> string) \<Rightarrow> tts_runtime \<Rightarrow>
    tts_event \<Rightarrow> tts_runtime \<times> bool" where
  "tts_runtime_step repr dict_of msg rt (ReloadTts now rows) =
     map_prod id (\<lambda>r. \<not> isl r)
       (reload_tts msg (and_then (config_raise rows) (build_tts_runtime_snapshot repr dict_of now)) rt)"
| "tts_runtime_step repr dict_of msg rt (RequestStarted now) = (mark_request_started now rt, True)"
| "tts_runtime_step repr dict_of msg rt (MarkError now m) = (mark_error now m rt, True)"
| "tts_runtime_step repr dict_of msg rt ClearError = (clear_error rt, True)"

subsection \<open>Every request finds a bot\<close>

definition bot_manager_ok :: "bot_manager \<Rightarrow> bool" where
  "bot_manager_ok m \<longleftrightarrow>
     (\<forall>k b. map_of (bm_bots m) k = Some b \<longrightarrow> bot_ok b \<and> bt_bot_id b = k) \<and>
     bm_default m \<in> set (keys (bm_bots m))"

lemma replaced_bots [simp]: "bm_bots (new_bot_manager (Some bots)) = bots"
  by (simp add: new_bot_manager_def Let_def replace_all_def)

lemma llm_snapshot_bots:
  assumes "build_llm_runtime_snapshot repr env now rows = Inr s"
  shows "(\<forall>k b. map_of (ls_bots s) k = Some b \<longrightarrow> bot_ok b \<and> bt_bot_id b = k) \<and>
    ls_default_bot_id s \<in> set (keys (ls_bots s))"
  using assms by (auto simp: build_llm_runtime_snapshot_def and_then_Inr_iff simp del: set_map
      dest: enabled_bots_ok)

lemma loaded_llm_ok:
  "build_llm_runtime_snapshot repr env now rows = Inr s \<Longrightarrow>
    bot_manager_ok (lr_bot_manager (load_llm_snapshot mcp s rt))"
  by (drule llm_snapshot_bots)
    (simp add: load_llm_snapshot_def build_runtime_components_def bot_manager_ok_def)

lemma llm_runtime_step_ok:
  assumes "bot_manager_ok (lr_bot_manager rt)"
  shows "bot_manager_ok (lr_bot_manager (fst (llm_runtime_step repr msg mcp rt ev)))"
proof -
  obtain env now rows where ev: "ev = (env, now, rows)" by (cases ev)
  show ?thesis
    by (cases "and_then (config_raise rows) (build_llm_runtime_snapshot repr env now)")
      (auto simp: ev reload_llm_def assms and_then_Inr_iff intro: loaded_llm_ok)
qed

interpretation llm_runtime: transition_system
    "llm_runtime_step repr msg mcp" "\<lambda>rt. bot_manager_ok (lr_bot_manager rt)" "\<lambda>_. True"
    for repr msg mcp
  by unfold_locales (rule llm_runtime_step_ok)

lemma new_llm_runtime_ok:
  "new_llm_runtime t url mcp (build_llm_runtime_snapshot repr env now rows) = Inr rt \<Longrightarrow>
    bot_manager_ok (lr_bot_manager rt)"
  by (auto simp: new_llm_runtime_def and_then_Inr_iff intro: loaded_llm_ok split: if_splits)

lemma bot_manager_serves:
  assumes "bot_manager_ok m"
  shows "\<exists>b. get_bot_or_default bot_id m = Inr b \<and> bot_ok b \<and>
    (nonempty bot_id \<and> opt_text bot_id \<in> set (keys (bm_bots m)) \<longrightarrow> bt_bot_id b = opt_text bot_id)"
proof -
  have found: "\<exists>b. map_of (bm_bots m) k = Some b \<and> bot_ok b \<and> bt_bot_id b = k"
    if "k \<in> set (keys (bm_bots m))" for k
    using that assms unfolding bot_manager_ok_def by (metis map_of_eq_None_iff not_Some_eq set_map)
  have dflt: "bm_default m \<in> set (keys (bm_bots m))"
    using assms by (simp add: bot_manager_ok_def)
  obtain d where d: "map_of (bm_bots m) (bm_default m) = Some d" "bot_ok d"
    using found [OF dflt] by blast
  have default_found: "get_bot (Some (bm_default m)) m = Inr d"
    using d by (cases "bm_default m") (simp_all add: get_bot_def nonempty_def Let_def)
  show ?thesis
  proof (cases "nonempty bot_id \<and> opt_text bot_id \<in> set (keys (bm_bots m))")
    case True
    then show ?thesis
      using found [of "opt_text bot_id"] by (auto simp: get_bot_or_default_def get_bot_def Let_def)
  next
    case False
    then have "get_bot_or_default bot_id m = Inr d"
      using d default_found
      by (auto simp: get_bot_or_default_def get_bot_def Let_def
          simp del: set_map dest: map_of_keyD split: option.splits)
    with d False show ?thesis by auto
  qed
qed

subsection \<open>Every served profile is valid\<close>

definition profile_ok :: "tts_profile \<Rightarrow> bool" where
  "profile_ok p \<longleftrightarrow> tp_name p \<noteq> [] \<and> 1 / 2 \<le> tp_speed p \<and> tp_speed p \<le> 2 \<and>
     tp_provider_type p \<in> {''qwen3_custom_voice'', ''qwen3_base''}"

definition profiles_ok :: "(string, tts_profile) odict \<Rightarrow> bool" where
  "profiles_ok d \<longleftrightarrow> (\<forall>k p. map_of d k = Some p \<longrightarrow> profile_ok p \<and> tp_id p = k)"

lemma build_tts_profile_ok: "build_tts_profile repr dict_of row = Inr p \<Longrightarrow> profile_ok p"
  by (auto simp: build_tts_profile_def profile_ok_def Let_def and_then_Inr_iff)

lemma build_tts_profiles_ok:
  assumes "build_tts_profiles repr dict_of rows = Inr d" shows "profiles_ok d"
  using assms unfolding build_tts_profiles_def
proof (rule fold_steps_inv)
  show "profiles_ok []" by (simp add: profiles_ok_def)
next
  fix row s s'
  assume "profiles_ok s"
    "and_then (build_tts_profile repr dict_of row) (\<lambda>p. Inr (AList.update (tp_id p) p s)) = Inr s'"
  then show "profiles_ok s'"
    by (auto simp: profiles_ok_def and_then_Inr_iff map_of_update dest: build_tts_profile_ok split: if_splits)
qed

lemma tts_runtime_step_ok:
  "profiles_ok (tn_profiles rt) \<Longrightarrow> profiles_ok (tn_profiles (fst (tts_runtime_step repr dict_of msg rt ev)))"
  by (cases ev)
    (auto simp: reload_tts_def load_tts_snapshot_def build_tts_runtime_snapshot_def and_then_Inr_iff
      mark_request_started_def mark_error_def clear_error_def dest: build_tts_profiles_ok split: sum.split)

interpretation tts_runtime: transition_system
    "tts_runtime_step repr dict_of msg" "\<lambda>rt. profiles_ok (tn_profiles rt)" "\<lambda>_. True"
    for repr dict_of msg
  by unfold_locales (rule tts_runtime_step_ok)

lemma served_profile_ok:
  assumes "profiles_ok (tn_profiles rt)"
    and "get_tts_profile k (run_state (tts_runtime_step repr dict_of msg) rt evs) = Inr p"
  shows "profile_ok p \<and> tp_enabled p \<and> tp_id p = py_strip k"
  using tts_runtime.inv_run [OF assms(1), of evs repr dict_of msg] assms(2)
  by (auto simp: get_tts_profile_def profiles_ok_def Let_def split: if_splits option.splits)

subsection \<open>Gateway and language model service agree\<close>

definition plain :: "bot_template \<Rightarrow> bot_template" where
  \<comment> \<open>without the bindings, which the gateway does not load\<close>
  "plain b = b\<lparr>bt_mcp_servers := [], bt_agents := []\<rparr>"

definition plain_bots :: "bot_table \<Rightarrow> bot_table" where
  "plain_bots bots = map (\<lambda>(k, b). (k, plain b)) bots"

lemma plain_bots_update: "plain_bots (AList.update k b bots) = AList.update k (plain b) (plain_bots bots)"
  by (induction bots) (auto simp: plain_bots_def)

lemma build_bot_plain:
  "build_bot servers agents row = Inr b \<Longrightarrow> build_bot servers' agents' row = Inr b' \<Longrightarrow> plain b = plain b'"
  by (auto simp: build_bot_def plain_def Let_def and_then_Inr_iff)

lemma add_bot_plain:
  assumes "add_bot f g row (bots, ds) = Inr (bots1, ds1)" and "add_bot f' g' row (bots', ds) = Inr (bots2, ds2)"
    and "plain_bots bots = plain_bots bots'"
  shows "plain_bots bots1 = plain_bots bots2 \<and> ds1 = ds2"
proof (cases "br_enabled row")
  case True
  with assms obtain b b' where
    b: "build_bot (f (br_id row)) (g (br_id row)) row = Inr b" "bots1 = AList.update (br_bot_id row) b bots"
      "ds1 = (if bt_is_default b then ds @ [br_bot_id row] else ds)" and
    b': "build_bot (f' (br_id row)) (g' (br_id row)) row = Inr b'" "bots2 = AList.update (br_bot_id row) b' bots'"
      "ds2 = (if bt_is_default b' then ds @ [br_bot_id row] else ds)"
    by (auto simp: add_bot_def and_then_Inr_iff)
  have "plain b = plain b'" using b(1) b'(1) by (rule build_bot_plain)
  moreover from this have "bt_is_default b = bt_is_default b'"
    by (metis bot_template.select_convs(12) bot_template.surjective bot_template.update_convs(9,10) plain_def)
  ultimately show ?thesis using b b' assms(3) by (simp add: plain_bots_update)
next
  case False
  with assms show ?thesis by (simp add: add_bot_def)
qed

lemma fold_bots_plain:
  assumes "fold_steps (add_bot f g) rows (bots, ds) = Inr (bots1, ds1)"
    and "fold_steps (add_bot f' g') rows (bots', ds) = Inr (bots2, ds2)"
    and "plain_bots bots = plain_bots bots'"
  shows "plain_bots bots1 = plain_bots bots2 \<and> ds1 = ds2"
  using assms
proof (induction rows arbitrary: bots bots' ds)
  case (Cons row rows)
  then obtain b d b' d' where
    step: "add_bot f g row (bots, ds) = Inr (b, d)" "add_bot f' g' row (bots', ds) = Inr (b', d')" and
    more: "fold_steps (add_bot f g) rows (b, d) = Inr (bots1, ds1)"
      "fold_steps (add_bot f' g') rows (b', d') = Inr (bots2, ds2)"
    by (auto simp: and_then_Inr_iff)
  have "plain_bots b = plain_bots b'" and "d = d'"
    using add_bot_plain [OF step Cons.prems(3)] by simp_all
  with Cons.IH more show ?case by blast
qed simp

lemma enabled_bots_plain:
  assumes "build_enabled_bots rows b1 s1 b2 a1 = Inr (bots, dflt)"
    and "build_enabled_bots rows b3 s2 b4 a2 = Inr (bots', dflt')"
  shows "plain_bots bots = plain_bots bots' \<and> dflt = dflt'"
proof -
  from assms(1) obtain f g ds where
    1: "fold_steps (add_bot f g) rows ([], []) = Inr (bots, ds)" "dflt = hd ds"
    by (auto simp: build_enabled_bots_def and_then_Inr_iff)
  from assms(2) obtain f' g' ds' where
    2: "fold_steps (add_bot f' g') rows ([], []) = Inr (bots', ds')" "dflt' = hd ds'"
    by (auto simp: build_enabled_bots_def and_then_Inr_iff)
  from fold_bots_plain [OF 1(1) 2(1) refl] 1(2) 2(2) show ?thesis by simp
qed

lemma map_of_plain: "map_of (plain_bots bots) k = map_option plain (map_of bots k)"
  by (induction bots) (auto simp: plain_bots_def)

lemma same_plain:
  assumes "plain_bots bots = plain_bots bots'" and "map_of bots k = Some b"
  shows "\<exists>b'. map_of bots' k = Some b' \<and> plain b' = plain b"
proof -
  have "map_option plain (map_of bots' k) = Some (plain b)"
    using assms by (metis map_of_plain option.simps(9))
  then show ?thesis by auto
qed

lemma plain_name [simp]: "bt_name (plain b) = bt_name b" "bt_bot_id (plain b) = bt_bot_id b"
  by (simp_all add: plain_def)

lemma register_keeps_bots: "rs_bots (fst (runtime_register_robot robot_id dflt row rt)) = rs_bots rt"
  by (simp add: runtime_register_robot_def split: option.split)

fun is_registration :: "runtime_event \<Rightarrow> bool" where
  "is_registration (RegisterRow robot_id dflt row) = True"
| "is_registration (Reload env now rows) = False"

lemma registrations_keep_bots:
  "\<forall>ev \<in> set evs. is_registration ev \<Longrightarrow> rs_bots (run_state (runtime_step repr fmt msg) rt evs) = rs_bots rt"
proof (induction evs arbitrary: rt)
  case (Cons ev evs)
  then show ?case by (cases ev) (simp_all add: run_simps register_keeps_bots)
qed simp

text \<open>When gateway and language model service loaded the same configuration rows, then whatever
  robots register, the bot the gateway resolves for a robot is the bot of that id and name that
  the language model service answers with; and for any requested id at all the service answers
  with some bot whose prompt and limits are valid.\<close>

theorem services_agree_on_bots:
  assumes "new_gateway_runtime t1 url1 (build_gateway_runtime_snapshot repr1 env1 t2 rows) = Inr gt"
    and "new_llm_runtime t3 url2 mcp (build_llm_runtime_snapshot repr2 env2 t4 rows) = Inr lt"
    and "\<forall>ev \<in> set evs. is_registration ev"
    and "resolve_robot_bot_binding robot_id (run_state (runtime_step repr1 fmt msg) gt evs) = Inr (Some row)"
    and "bb_assigned_bot_id row \<noteq> []"
  shows "(\<exists>b. get_bot_or_default (Some (bb_assigned_bot_id row)) (lr_bot_manager lt) = Inr b \<and>
      bt_bot_id b = bb_assigned_bot_id row \<and> bt_name b = bb_bot_name row) \<and>
    (\<forall>any. \<exists>b. get_bot_or_default any (lr_bot_manager lt) = Inr b \<and> bot_ok b)"
proof -
  let ?m = "lr_bot_manager lt"
  from assms(1) obtain gbots d robots where
    g: "build_enabled_bots (cr_bots rows) [] None [] None = Inr (gbots, d)" "rs_bots gt = gbots"
    by (auto simp: new_gateway_runtime_def build_gateway_runtime_snapshot_def load_snapshot_def
        and_then_Inr_iff split: if_splits)
  from assms(2) obtain servers agents lbots d' where
    l: "build_enabled_bots (cr_bots rows) (cr_mcp_bindings rows) (Some servers) (cr_agent_bindings rows)
        (Some agents) = Inr (lbots, d')" "bm_bots ?m = lbots"
    by (auto simp: new_llm_runtime_def build_llm_runtime_snapshot_def load_llm_snapshot_def
        build_runtime_components_def and_then_Inr_iff split: if_splits)
  note ok = new_llm_runtime_ok [OF assms(2)]
  from assms(4) obtain b where
    b: "map_of gbots (bb_assigned_bot_id row) = Some b" "bb_bot_name row = bt_name b"
    by (auto simp: resolve_robot_bot_binding_def registrations_keep_bots [OF assms(3)] g(2)
        split: option.splits)
  from same_plain [OF conjunct1 [OF enabled_bots_plain [OF g(1) l(1)]] b(1)] obtain b' where
    b': "map_of lbots (bb_assigned_bot_id row) = Some b'" "plain b' = plain b" by blast
  have "get_bot_or_default (Some (bb_assigned_bot_id row)) ?m = Inr b'"
    using b'(1) l(2) assms(5) by (simp add: get_bot_or_default_def get_bot_def nonempty_def)
  moreover have "bt_bot_id b' = bb_assigned_bot_id row"
    using ok b'(1) l(2) by (simp add: bot_manager_ok_def)
  moreover have "bt_name b' = bb_bot_name row"
    using b'(2) b(2) by (metis plain_name(1))
  ultimately show ?thesis using bot_manager_serves [OF ok] by blast
qed

definition sample_llm :: "config_error + llm_runtime" where
  "sample_llm = new_llm_runtime 0 ''mysql://db'' True
     (build_llm_runtime_snapshot (\<lambda>_. []) (\<lambda>_. None) 0 sample_rows)"

definition sample_gateway :: "config_error + gateway_runtime" where
  "sample_gateway = new_gateway_runtime 0 ''mysql://db''
     (build_gateway_runtime_snapshot (\<lambda>_. []) (\<lambda>_. None) 0 sample_rows)"

definition sample_binding :: "py_exn + bot_binding option" where
  "sample_binding =
     (case sample_gateway of
        Inr gt \<Rightarrow> resolve_robot_bot_binding ''r1''
          (run_state (runtime_step (\<lambda>_. []) (\<lambda>_. []) (\<lambda>_. [])) gt [RegisterRow ''r1'' None sample_row])
      | Inl e \<Rightarrow> Inl ValueError)"

lemma sample_services_load:
  "\<not> isl sample_llm \<and> \<not> isl sample_gateway \<and>
    sample_binding = Inr (Some \<lparr>bb_robot_id = ''r1'', bb_assigned_bot_id = ''b1'', bb_robot_enabled = True,
      bb_bot_name = ''bot one''\<rparr>)"
  by code_simp

theorem services_agree_on_bots_witness:
  "\<exists>lt b. sample_llm = Inr lt \<and> get_bot_or_default (Some ''b1'') (lr_bot_manager lt) = Inr b \<and>
    bt_name b = ''bot one''"
proof -
  obtain lt where lt: "sample_llm = Inr lt"
    using sample_services_load by (metis isl_def sum.exhaust_sel)
  obtain gt where gt: "sample_gateway = Inr gt"
    using sample_services_load by (metis isl_def sum.exhaust_sel)
  have binding: "resolve_robot_bot_binding ''r1''
      (run_state (runtime_step (\<lambda>_. []) (\<lambda>_. []) (\<lambda>_. [])) gt [RegisterRow ''r1'' None sample_row]) =
      Inr (Some \<lparr>bb_robot_id = ''r1'', bb_assigned_bot_id = ''b1'', bb_robot_enabled = True,
        bb_bot_name = ''bot one''\<rparr>)"
    using sample_services_load by (simp add: sample_binding_def gt)
  show ?thesis
    using services_agree_on_bots [OF gt [unfolded sample_gateway_def] lt [unfolded sample_llm_def] _ binding] lt
    by auto
qed

end
