(* ===== verification/Playback_Report.thy ===== *)
theory Playback_Report
  imports Json
begin

text \<open>
  \<open>src/gateway/playback_report.py\<close>: the ids of a round and its playback, and the numbers of a
  client's playback report as they enter the trace.  \<open>flt\<close> is \<open>float()\<close> of a text, \<open>None\<close>
  where it raises.

  The lemmas show that a generated round id gives back its sequence number, so that a report
  lands in the round it is about, and that the numbers of a report are never negative.
\<close>

definition round_seq_from_trace_id :: "string \<Rightarrow> string option \<Rightarrow> int option" where
  "round_seq_from_trace_id session_id trace_id =
     (if \<not> nonempty trace_id \<or> \<not> starts_with (opt_text trace_id) (session_id @ '':'') then None
      else int_of_text (rev (takeWhile (\<lambda>c. c \<noteq> CHR '':'') (rev (opt_text trace_id)))))"

definition non_empty_str :: "json \<Rightarrow> string" where
  "non_empty_str v = (case v of JStr s \<Rightarrow> py_strip s | _ \<Rightarrow> [])"

definition request_round_id :: "jobj \<Rightarrow> string \<Rightarrow> int \<Rightarrow> string" where
  "request_round_id data session_id round_seq =
     (let round_id = non_empty_str (jget data ''round_id'') in
      if round_id \<noteq> [] then round_id else session_id @ '':'' @ int_text round_seq)"

definition request_trace_id :: "jobj \<Rightarrow> string \<Rightarrow> string" where
  "request_trace_id data round_id =
     (let t = non_empty_str (jget data ''trace_id'') in if t \<noteq> [] then t else round_id)"

definition request_playback_id :: "jobj \<Rightarrow> string \<Rightarrow> string" where
  "request_playback_id data round_id =
     (let t = non_empty_str (jget data ''playback_id'') in if t \<noteq> [] then t else round_id @ '':playback'')"

definition build_playback_cancel_payload ::
  "(string \<times> string option) option \<Rightarrow> string \<Rightarrow> jobj option" where
  \<comment> \<open>the round and playback id of the cancelled round\<close>
  "build_playback_cancel_payload cancelled reason =
     (case cancelled of
        None \<Rightarrow> None
      | Some (round_id, playback_id) \<Rightarrow>
          if round_id = [] then None
          else Some [(''round_id'', JStr round_id), (''playback_id'', JStr (opt_text playback_id)),
                     (''reason'', JStr reason)])"

definition int_from_client_report :: "jobj \<Rightarrow> string \<Rightarrow> int" where
  "int_from_client_report data k =
     (case jget_default data k (JInt 0) of
        JBool _ \<Rightarrow> 0
      | v \<Rightarrow> (case py_int v of Inl _ \<Rightarrow> 0 | Inr i \<Rightarrow> max 0 i))"

fun py_float :: "(string \<Rightarrow> rat option) \<Rightarrow> json \<Rightarrow> rat option" where
  \<comment> \<open>\<open>float(v)\<close>\<close>
  "py_float flt (JBool b) = Some (if b then 1 else 0)"
| "py_float flt (JInt i) = Some (of_int i)"
| "py_float flt (JFloat r) = Some r"
| "py_float flt (JStr s) = flt s"
| "py_float flt _ = None"

definition float_from_client_report :: "(string \<Rightarrow> rat option) \<Rightarrow> jobj \<Rightarrow> string \<Rightarrow> rat option" where
  "float_from_client_report flt data k =
     (case jget data k of
        JBool _ \<Rightarrow> None
      | v \<Rightarrow> map_option (max 0) (py_float flt v))"

definition float_member :: "(string \<Rightarrow> rat option) \<Rightarrow> jobj \<Rightarrow> string \<Rightarrow> string \<Rightarrow> jobj" where
  "float_member flt data k out =
     (case float_from_client_report flt data k of None \<Rightarrow> [] | Some r \<Rightarrow> [(out, JFloat r)])"

definition count_members :: "jobj \<Rightarrow> jobj" where
  "count_members data =
     map (\<lambda>(out, k). (out, JInt (int_from_client_report data k)))
       [(''client_playback_chunks'', ''pushed_chunks''),
        (''client_playback_samples'', ''pushed_samples''),
        (''client_playback_underruns'', ''underrun_callbacks''),
        (''client_playback_zero_fill_samples'', ''zero_filled_samples''),
        (''client_playback_max_buffered_samples'', ''max_buffered_samples'')]"

definition reason_member :: "jobj \<Rightarrow> jobj" where
  "reason_member data =
     (case jget data ''reason'' of JStr r \<Rightarrow> if r = [] then [] else [(''reason'', JStr r)] | _ \<Rightarrow> [])"

definition build_client_playback_summary ::
  "(string \<Rightarrow> rat option) \<Rightarrow> jobj \<Rightarrow> bool \<Rightarrow> jobj option" where
  "build_client_playback_summary flt data interrupted =
     (case jget data ''round_id'' of
        JStr round_id \<Rightarrow>
          if round_id = [] then None
          else
            let playback_id = (case jget data ''playback_id'' of JStr s \<Rightarrow> s | _ \<Rightarrow> [])
            in Some
              ([(''trace_id'', JStr (request_trace_id data round_id)), (''round_id'', JStr round_id),
                (''playback_id'', JStr playback_id),
                (''client_playback_completed'', JBool (\<not> interrupted)),
                (''client_playback_interrupted'', JBool interrupted)] @ count_members data @
               float_member flt data ''first_audio_to_playback_start_ms'' ''client_first_audio_to_playback_start_ms'' @
               float_member flt data ''playback_start_to_complete_ms'' ''client_playback_start_to_complete_ms'' @
               reason_member data)
      | _ \<Rightarrow> None)"

record playback_event =
  pe_trace_id :: string
  pe_round_seq :: "int option"
  pe_robot_id :: json
  pe_bot_id :: json
  pe_bot_name :: json
  pe_stage :: string
  pe_summary :: jobj

definition or_seq :: "int option \<Rightarrow> int option \<Rightarrow> int option" where
  \<comment> \<open>\<open>a or b\<close>; zero is false\<close>
  "or_seq a b = (case a of None \<Rightarrow> b | Some i \<Rightarrow> if i = 0 then b else a)"

definition build_client_playback_trace_event ::
  "(string \<Rightarrow> rat option) \<Rightarrow> string \<Rightarrow> jobj \<Rightarrow> bool \<Rightarrow> jobj \<Rightarrow> playback_event option" where
  \<comment> \<open>\<open>ctx\<close> is \<open>trace_context or {}\<close>\<close>
  "build_client_playback_trace_event flt session_id data interrupted ctx =
     map_option (\<lambda>summary.
       let trace_id = opt_text (jstr_of (jget summary ''trace_id''));
           round_id = opt_text (jstr_of (jget summary ''round_id''))
       in \<lparr>pe_trace_id = trace_id,
           pe_round_seq = or_seq (round_seq_from_trace_id session_id (Some round_id))
             (round_seq_from_trace_id session_id (Some trace_id)),
           pe_robot_id = jget ctx ''robot_id'', pe_bot_id = jget ctx ''bot_id'',
           pe_bot_name = jget ctx ''bot_name'',
           pe_stage = (if interrupted then ''client_playback_interrupted'' else ''client_playback_completed''),
           pe_summary = summary\<rparr>)
       (build_client_playback_summary flt data interrupted)"

subsection \<open>Sequence numbers in ids\<close>

definition digit_char :: "char \<Rightarrow> bool" where
  "digit_char c \<longleftrightarrow> 48 \<le> (of_char c :: nat) \<and> (of_char c :: nat) \<le> 57"

lemma of_char_digit: "n < 10 \<Longrightarrow> (of_char (char_of (48 + n) :: char) :: nat) = 48 + n"
  by (simp add: take_bit_nat_eq_self)

lemma digit_char_digit: "n < (10 :: nat) \<Longrightarrow> digit_char (char_of (48 + n))"
  by (simp only: digit_char_def of_char_digit) simp

lemma nat_text_digits: "nat_text n \<noteq> [] \<and> list_all digit_char (nat_text n)"
proof (induction n rule: nat_text.induct)
  case (1 n)
  then show ?case
    by (subst (1 2) nat_text.simps) (simp add: digit_char_digit)
qed

lemma int_digits_append:
  "int_digits acc ok s = Some i \<Longrightarrow> list_all digit_char s \<Longrightarrow> n < 10 \<Longrightarrow>
    int_digits acc ok (s @ [char_of (48 + n)]) = Some (i * 10 + int n)"
proof (induction acc ok s rule: int_digits.induct)
  case (1 acc ok)
  then show ?case by (simp add: of_char_digit Let_def split: if_splits)
next
  case (2 acc ok c cs)
  then show ?case by (auto simp: Let_def digit_char_def)
qed

lemma int_digits_nat_text: "int_digits 0 False (nat_text n) = Some (int n)"
proof (induction n rule: nat_text.induct)
  case (1 n)
  show ?case
  proof (cases "n < 10")
    case True
    then show ?thesis by (subst nat_text.simps) (simp add: of_char_digit Let_def)
  next
    case False
    then have "int_digits 0 False (nat_text (n div 10) @ [char_of (48 + n mod 10)]) =
        Some (int (n div 10) * 10 + int (n mod 10))"
      using 1 nat_text_digits by (intro int_digits_append) auto
    also have "int (n div 10) * 10 + int (n mod 10) = int n" by presburger
    finally show ?thesis using False by (subst nat_text.simps) simp
  qed
qed

lemma digit_not_space: "digit_char c \<Longrightarrow> \<not> py_space c \<and> c \<noteq> CHR ''-'' \<and> c \<noteq> CHR ''+'' \<and> c \<noteq> CHR '':''"
  by (auto simp: digit_char_def py_space_def)

lemma py_strip_no_space: "\<forall>c \<in> set s. \<not> py_space c \<Longrightarrow> py_strip s = s"
proof -
  assume "\<forall>c \<in> set s. \<not> py_space c"
  then have "takeWhile py_space s = []" "takeWhile py_space (rev s) = []"
    by (auto simp: takeWhile_eq_Nil_iff hd_rev)
  then have "dropWhile py_space s = s" "dropWhile py_space (rev s) = rev s"
    by (metis append_Nil takeWhile_dropWhile_id)+
  then show ?thesis by (simp add: py_strip_def py_rstrip_def)
qed

lemma int_of_nat_text: "int_of_text (nat_text n) = Some (int n)"
proof -
  have digits: "\<forall>c \<in> set (nat_text n). digit_char c"
    using nat_text_digits by (simp add: list_all_iff)
  then have "py_strip (nat_text n) = nat_text n"
    by (intro py_strip_no_space) (simp add: digit_not_space)
  moreover obtain c cs where "nat_text n = c # cs" using nat_text_digits by (cases "nat_text n") auto
  ultimately show ?thesis
    using digits int_digits_nat_text [of n] digit_not_space [of c] by (auto simp: int_of_text_def)
qed

lemma int_text_read [simp]: "int_of_text (int_text i) = Some i"
proof (cases "i < 0")
  case True
  have "\<forall>c \<in> set (nat_text (nat (- i))). \<not> py_space c"
    using nat_text_digits digit_not_space by (simp add: list_all_iff)
  moreover have "\<not> py_space CHR ''-''" by (simp add: py_space_def)
  ultimately have "\<forall>c \<in> set (int_text i). \<not> py_space c"
    using True by (simp add: int_text_def)
  then have "py_strip (int_text i) = int_text i" by (rule py_strip_no_space)
  with True show ?thesis by (simp add: int_of_text_def int_text_def int_digits_nat_text)
next
  case False
  then show ?thesis by (simp add: int_text_def int_of_nat_text)
qed

lemma int_text_no_colon: "CHR '':'' \<notin> set (int_text i)"
proof -
  have "\<forall>c \<in> set (nat_text n). c \<noteq> CHR '':''" for n
    using nat_text_digits [of n] digit_not_space by (auto simp: list_all_iff)
  then show ?thesis by (auto simp: int_text_def)
qed

text \<open>A round id the gateway generated gives back the sequence number, whatever colons the
  session id contains.\<close>

lemma generated_round_id_read:
  assumes "non_empty_str (jget data ''round_id'') = []"
  shows "round_seq_from_trace_id sid (Some (request_round_id data sid n)) = Some n"
proof -
  have "takeWhile (\<lambda>c. c \<noteq> CHR '':'') (rev (int_text n) @ CHR '':'' # rev sid) = rev (int_text n)"
    using int_text_no_colon [of n] by (subst takeWhile_append2) auto
  then show ?thesis
    using assms starts_with_append [of "sid @ '':''" "int_text n"]
    by (simp add: round_seq_from_trace_id_def request_round_id_def nonempty_def)
qed

subsection \<open>Reports\<close>

lemma int_from_client_report_nonneg: "0 \<le> int_from_client_report data k"
  by (simp add: int_from_client_report_def split: json.split sum.split)

lemma float_from_client_report_nonneg:
  "float_from_client_report flt data k = Some r \<Longrightarrow> 0 \<le> r"
  by (auto simp: float_from_client_report_def split: json.splits)

definition no_negative :: "json \<Rightarrow> bool" where
  "no_negative v = (case v of JInt i \<Rightarrow> 0 \<le> i | JFloat r \<Rightarrow> 0 \<le> r | _ \<Rightarrow> True)"

lemma no_negative_simps [simp]:
  "no_negative (JStr s)" "no_negative (JBool b)" "no_negative (JInt i) \<longleftrightarrow> 0 \<le> i"
  "no_negative (JFloat r) \<longleftrightarrow> 0 \<le> r"
  by (simp_all add: no_negative_def)

lemma optional_members:
  "(k, v) \<in> set (float_member flt data key out) \<Longrightarrow> no_negative v"
  "(k, v) \<in> set (reason_member data) \<Longrightarrow> no_negative v"
  "(k, v) \<in> set (count_members data) \<Longrightarrow> no_negative v"
  subgoal by (cases "float_from_client_report flt data key")
      (auto simp: float_member_def dest: float_from_client_report_nonneg)
  subgoal by (cases "jget data ''reason''") (auto simp: reason_member_def split: if_splits)
  subgoal by (auto simp: count_members_def int_from_client_report_nonneg)
  done

lemma summary_parts:
  assumes "build_client_playback_summary flt data interrupted = Some summary"
    and "jget data ''round_id'' = JStr rid"
  shows "jget summary ''round_id'' = JStr rid"
    and "jget summary ''client_playback_completed'' = JBool (\<not> interrupted)"
    and "jget summary ''client_playback_interrupted'' = JBool interrupted"
    and "\<forall>(k, v) \<in> set summary. no_negative v"
proof -
  have "rid \<noteq> []" using assms by (auto simp: build_client_playback_summary_def)
  with assms obtain tid pid where
    parts: "summary = [(''trace_id'', JStr tid), (''round_id'', JStr rid), (''playback_id'', JStr pid),
      (''client_playback_completed'', JBool (\<not> interrupted)),
      (''client_playback_interrupted'', JBool interrupted)] @ count_members data @
      float_member flt data ''first_audio_to_playback_start_ms'' ''client_first_audio_to_playback_start_ms'' @
      float_member flt data ''playback_start_to_complete_ms'' ''client_playback_start_to_complete_ms'' @
      reason_member data"
    by (auto simp: build_client_playback_summary_def)
  show "jget summary ''round_id'' = JStr rid"
    "jget summary ''client_playback_completed'' = JBool (\<not> interrupted)"
    "jget summary ''client_playback_interrupted'' = JBool interrupted"
    by (simp_all add: parts jget_def)
  show "\<forall>(k, v) \<in> set summary. no_negative v"
    by (auto simp: parts dest: optional_members)
qed

text \<open>A client's playback report is traced under the sequence number of the round the gateway
  started, whatever the session id looks like; it is marked as exactly one of completed and
  interrupted, and none of its counts and durations is negative, whatever the client sent.\<close>

theorem client_report_joins_its_round:
  assumes "build_client_playback_trace_event flt sid data interrupted ctx = Some ev"
    and "jget data ''round_id'' = JStr (request_round_id req sid n)"
    and "non_empty_str (jget req ''round_id'') = []" and "n \<noteq> 0"
  shows "pe_round_seq ev = Some n \<and>
    jget (pe_summary ev) ''client_playback_completed'' = JBool (\<not> interrupted) \<and>
    jget (pe_summary ev) ''client_playback_interrupted'' = JBool interrupted \<and>
    (\<forall>(k, v) \<in> set (pe_summary ev). no_negative v)"
proof -
  define rid where "rid = request_round_id req sid n"
  have seq: "round_seq_from_trace_id sid (Some rid) = Some n"
    unfolding rid_def by (rule generated_round_id_read [OF assms(3)])
  from assms(1) obtain summary where
    sum: "build_client_playback_summary flt data interrupted = Some summary" and
    ev: "pe_summary ev = summary"
      "pe_round_seq ev = or_seq (round_seq_from_trace_id sid (Some (opt_text (jstr_of (jget summary ''round_id'')))))
        (round_seq_from_trace_id sid (Some (opt_text (jstr_of (jget summary ''trace_id'')))))"
    by (auto simp: build_client_playback_trace_event_def Let_def)
  from summary_parts [OF sum assms(2)] ev seq assms(4) show ?thesis
    by (simp add: or_seq_def rid_def)
qed

definition sample_report :: jobj where
  "sample_report = [(''round_id'', JStr (request_round_id [] ''a:b'' 12)), (''pushed_chunks'', JInt (- 3)),
     (''playback_start_to_complete_ms'', JStr ''x'')]"

theorem client_report_joins_its_round_witness:
  "\<exists>ev. build_client_playback_trace_event (\<lambda>_. None) ''a:b'' sample_report True [] = Some ev \<and>
    pe_round_seq ev = Some 12"
proof -
  have "build_client_playback_trace_event (\<lambda>_. None) ''a:b'' sample_report True [] \<noteq> None"
    by code_simp
  then obtain ev where ev: "build_client_playback_trace_event (\<lambda>_. None) ''a:b'' sample_report True [] = Some ev"
    by blast
  then have "pe_round_seq ev = Some 12"
    using client_report_joins_its_round [OF ev, of "[]" 12]
    by (simp add: sample_report_def jget_def non_empty_str_def)
  with ev show ?thesis by blast
qed

end
