(* ===== verification/Audio_Frame.thy ===== *)
theory Audio_Frame
  imports Json "HOL-Library.Word"
begin

text \<open>
  \<open>src/gateway/audio_protocol.py\<close>: the binary audio frames between clients and gateway: the
  magic, the length of the header as four bytes, the header as UTF-8 JSON, the audio.

  A byte is an \<open>8 word\<close>.  \<open>dumps\<close> is \<open>json.dumps(...).encode()\<close>, \<open>loads\<close> is
  \<open>json.loads(....decode())\<close> with \<open>None\<close> where it raises; the limits read from the environment
  are the arguments \<open>header_max\<close> and \<open>audio_max\<close>.  The texts and details of errors are not modelled.
\<close>

type_synonym bytes = "8 word list"

definition AUDIO_FRAME_MAGIC :: bytes where
  "AUDIO_FRAME_MAGIC = map (\<lambda>c. of_nat (of_char c)) ''VAF1''"

definition AUDIO_FRAME_VERSION :: int where "AUDIO_FRAME_VERSION = 1"

datatype frame_error =
    AudioValidationError string
  | FrameRaised py_exn
  | FrameOverflow    \<comment> \<open>\<open>OverflowError\<close> of \<open>to_bytes\<close>\<close>

definition header_int :: "json \<Rightarrow> int \<Rightarrow> int" where
  "header_int v dflt = (case py_int v of Inl _ \<Rightarrow> dflt | Inr i \<Rightarrow> i)"

subsection \<open>Bytes of an integer\<close>

definition to_bytes4 :: "nat \<Rightarrow> bytes" where
  \<comment> \<open>\<open>n.to_bytes(4, "big")\<close> for \<open>n < 2 ^ 32\<close>\<close>
  "to_bytes4 n = map (\<lambda>i. of_nat (n div 2 ^ (8 * i))) [3, 2, 1, 0]"

definition from_bytes :: "bytes \<Rightarrow> nat" where
  \<comment> \<open>\<open>int.from_bytes(b, "big")\<close>\<close>
  "from_bytes b = foldl (\<lambda>acc x. acc * 256 + unat x) 0 b"

lemma from_to_bytes4:
  assumes "n < 2 ^ 32" shows "from_bytes (to_bytes4 n) = n"
proof -
  define m where "m = n div 256"
  define l where "l = m div 256"
  have parts: "n div 65536 = l" "n div 16777216 = l div 256"
    by (simp_all add: m_def l_def flip: div_mult2_eq)
  have "l div 256 < 256" using assms by (simp add: m_def l_def flip: div_mult2_eq)
  then have "from_bytes (to_bytes4 n) = (((l div 256) * 256 + l mod 256) * 256 + m mod 256) * 256 + n mod 256"
    by (simp add: from_bytes_def to_bytes4_def unat_of_nat parts flip: m_def)
  also have "\<dots> = n" by (simp add: l_def m_def)
  finally show ?thesis .
qed

lemma length_to_bytes4 [simp]: "length (to_bytes4 n) = 4"
  by (simp add: to_bytes4_def)

lemma from_bytes_bound: "from_bytes b < 256 ^ length b"
proof (induction b rule: rev_induct)
  case Nil
  show ?case by (simp add: from_bytes_def)
next
  case (snoc x b)
  have "unat x < 256" using unsigned_less [of x] by simp
  with snoc show ?case by (simp add: from_bytes_def)
qed

lemma byte_steps:
  "u < 256 \<Longrightarrow> (a * 256 + u) div 256 = (a :: nat)" "u < 256 \<Longrightarrow> (a * 256 + u) mod 256 = (u :: nat)"
  by simp_all

lemma of_nat_byte: "(of_nat (a * 256 + unat x) :: 8 word) = x" for x :: "8 word"
proof -
  have "(of_nat (a * 256 + unat x) :: 8 word) = of_nat a * 256 + x" by simp
  also have "(256 :: 8 word) = 0" by simp
  finally show ?thesis by simp
qed

lemma to_from_bytes4:
  assumes "length b = 4" shows "to_bytes4 (from_bytes b) = b"
proof -
  obtain w x y z where b: "b = [w, x, y, z]"
    using assms by (auto simp: length_Suc_conv eval_nat_numeral)
  have bytes: "unat w < 256" "unat x < 256" "unat y < 256" "unat z < 256"
    using unsigned_less [of w] unsigned_less [of x] unsigned_less [of y] unsigned_less [of z] by simp_all
  define n where "n = from_bytes b"
  have n: "n = ((unat w * 256 + unat x) * 256 + unat y) * 256 + unat z"
    by (simp add: n_def b from_bytes_def)
  have d1: "n div 256 = (unat w * 256 + unat x) * 256 + unat y"
    unfolding n using bytes(4) by (rule byte_steps)
  have d2: "n div 65536 = unat w * 256 + unat x"
    using div_mult2_eq [of n 256 256] d1 byte_steps(1) [OF bytes(3)] by simp
  have d3: "n div 16777216 = unat w"
    using div_mult2_eq [of n 65536 256] d2 byte_steps(1) [OF bytes(2)] by simp
  have "to_bytes4 n = [of_nat (n div 16777216), of_nat (n div 65536), of_nat (n div 256), of_nat n]"
    by (simp add: to_bytes4_def)
  also have "\<dots> = b"
    unfolding d1 d2 d3 b by (simp only: n of_nat_byte) simp
  finally show ?thesis by (simp add: n_def)
qed

subsection \<open>Encoding\<close>

definition frame_header :: "jobj \<Rightarrow> jobj" where
  \<comment> \<open>\<open>{"type": ..., "version": ..., **header}\<close>\<close>
  "frame_header header =
     foldl (\<lambda>d (k, v). AList.update k v d)
       [(''type'', JStr ''audio_frame''), (''version'', JInt AUDIO_FRAME_VERSION)] header"

definition encode_audio_frame ::
  "(jobj \<Rightarrow> bytes) \<Rightarrow> nat \<Rightarrow> bytes \<Rightarrow> jobj \<Rightarrow> frame_error + bytes" where
  "encode_audio_frame dumps header_max payload header =
     (let header_json = dumps (frame_header header) in
      if length header_json > header_max then Inl (FrameRaised ValueError)
      else if length header_json \<ge> 2 ^ 32 then Inl FrameOverflow
      else Inr (AUDIO_FRAME_MAGIC @ to_bytes4 (length header_json) @ header_json @ payload))"

subsection \<open>Decoding\<close>

definition refuse_frame :: "bool \<Rightarrow> string \<Rightarrow> frame_error + unit" where
  \<comment> \<open>\<open>if cond: raise AudioValidationError(code, ...)\<close>\<close>
  "refuse_frame cond code = (if cond then Inl (AudioValidationError code) else Inr ())"

definition decode_audio_frame ::
  "(bytes \<Rightarrow> json option) \<Rightarrow> nat \<Rightarrow> nat \<Rightarrow> bytes \<Rightarrow> frame_error + jobj \<times> bytes" where
  "decode_audio_frame loads header_max audio_max raw =
     and_then (refuse_frame (length raw < 8) ''INVALID_AUDIO_FRAME'') (\<lambda>_.
     and_then (refuse_frame (take 4 raw \<noteq> AUDIO_FRAME_MAGIC) ''INVALID_AUDIO_FRAME'') (\<lambda>_.
     (let header_len = from_bytes (take 4 (drop 4 raw)); header_end = 8 + header_len in
      and_then (refuse_frame (header_len = 0 \<or> header_len > header_max) ''INVALID_AUDIO_FRAME'') (\<lambda>_.
      and_then (refuse_frame (length raw < header_end) ''INVALID_AUDIO_FRAME'') (\<lambda>_.
      case loads (take header_len (drop 8 raw)) of
        Some (JObj header) \<Rightarrow>
          and_then (refuse_frame (jget header ''type'' \<noteq> JStr ''audio_frame'') ''INVALID_AUDIO_FRAME'') (\<lambda>_.
          and_then (refuse_frame (\<not> py_eq (jget header ''version'') (JInt AUDIO_FRAME_VERSION))
              ''UNSUPPORTED_AUDIO_FRAME'') (\<lambda>_.
          (let payload = drop header_end raw in
           and_then (refuse_frame (payload = []) ''INVALID_DATA'') (\<lambda>_.
           and_then (refuse_frame (length payload > audio_max) ''AUDIO_TOO_LARGE'') (\<lambda>_.
           Inr (header, payload))))))
      | _ \<Rightarrow> Inl (AudioValidationError ''INVALID_AUDIO_FRAME''))))))"

definition CLIENT_AUDIO_KEYS :: "string list" where
  "CLIENT_AUDIO_KEYS =
     [''bot_id'', ''trace_id'', ''round_id'', ''playback_id'', ''utterance_id'', ''seq'',
      ''timestamp_ms'', ''duration_ms'', ''sample_rate'', ''channels'', ''opus_frame_ms'',
      ''packet_count'', ''chunk_seq'', ''stream_event'', ''event_type'', ''context_session_id'',
      ''candidate_seq'', ''speech_epoch'', ''audio_watermark'', ''silence_ms'', ''shadow'']"

record client_audio =
  ca_type :: json
  ca_audio_bytes :: bytes
  ca_encoding :: string
  ca_transport :: string
  ca_fields :: jobj

definition copied_fields :: "jobj \<Rightarrow> jobj" where
  "copied_fields header =
     List.map_filter (\<lambda>k. map_option (\<lambda>v. (k, v)) (map_of header k)) CLIENT_AUDIO_KEYS"

definition decode_client_audio_frame ::
  "(bytes \<Rightarrow> json option) \<Rightarrow> nat \<Rightarrow> nat \<Rightarrow> bytes \<Rightarrow> frame_error + client_audio" where
  "decode_client_audio_frame loads header_max audio_max frame =
     and_then (decode_audio_frame loads header_max audio_max frame) (\<lambda>(header, payload).
     (let direction = jget header ''direction''; encoding = jget header ''encoding'';
          chunk = (jget header ''stream_event'' = JStr ''chunk''); event_type = jget header ''event_type''
      in and_then (refuse_frame (direction \<notin> set [JNull, JStr ''client_input'']) ''INVALID_AUDIO_FRAME'') (\<lambda>_.
         and_then (refuse_frame (encoding \<noteq> JStr ''opus'') ''UNSUPPORTED_AUDIO_FORMAT'') (\<lambda>_.
         and_then (refuse_frame (event_type \<notin>
             set [JNull, JStr [], JStr ''turn_candidate'', JStr ''barge_in_probe'']) ''UNSUPPORTED_AUDIO_FRAME'') (\<lambda>_.
         Inr \<lparr>ca_type = (if event_type \<in> set [JStr ''turn_candidate'', JStr ''barge_in_probe''] then event_type
                         else JStr (if chunk then ''audio_chunk'' else ''audio'')),
              ca_audio_bytes = payload, ca_encoding = ''opus'',
              ca_transport = (if chunk then ''binary_stream_chunk'' else ''binary_frame''),
              ca_fields = copied_fields header\<rparr>)))))"

definition decode_ws_text_message :: "(string \<Rightarrow> json option) \<Rightarrow> string \<Rightarrow> frame_error + jobj" where
  "decode_ws_text_message loads_text message_text =
     (case loads_text message_text of
        Some (JObj d) \<Rightarrow> Inr d
      | _ \<Rightarrow> Inl (AudioValidationError ''INVALID_JSON''))"

subsection \<open>Frames\<close>

lemma length_magic [simp]: "length AUDIO_FRAME_MAGIC = 4"
  by (simp add: AUDIO_FRAME_MAGIC_def)

lemma refuse_frame_Inr [simp]: "refuse_frame c code = Inr u \<longleftrightarrow> \<not> c"
  by (simp add: refuse_frame_def)

lemma encoded_frame:
  assumes "encode_audio_frame dumps header_max payload header = Inr frame"
  shows "frame = AUDIO_FRAME_MAGIC @ to_bytes4 (length (dumps (frame_header header))) @
      dumps (frame_header header) @ payload"
    and "length (dumps (frame_header header)) \<le> header_max"
    and "length (dumps (frame_header header)) < 2 ^ 32"
  using assms by (auto simp: encode_audio_frame_def Let_def split: if_splits)

lemma decoded_frame:
  assumes "decode_audio_frame loads header_max audio_max raw = Inr (header, payload)"
  obtains h where "raw = AUDIO_FRAME_MAGIC @ to_bytes4 (length h) @ h @ payload"
    and "0 < length h" and "length h \<le> header_max" and "loads h = Some (JObj header)"
    and "payload \<noteq> []" and "length payload \<le> audio_max"
proof -
  define n where "n = from_bytes (take 4 (drop 4 raw))"
  define h where "h = take n (drop 8 raw)"
  from assms have len: "8 + n \<le> length raw" and magic: "take 4 raw = AUDIO_FRAME_MAGIC" and
    n: "0 < n" "n \<le> header_max" and h: "loads h = Some (JObj header)" and
    payload: "payload = drop (8 + n) raw" "payload \<noteq> []" "length payload \<le> audio_max"
    by (auto simp: decode_audio_frame_def Let_def and_then_Inr_iff n_def h_def
        split: option.splits json.splits)
  have hn: "length h = n" using len by (simp add: h_def)
  have "to_bytes4 n = take 4 (drop 4 raw)"
    unfolding n_def using len by (intro to_from_bytes4) simp
  moreover have "raw = take 4 raw @ take 4 (drop 4 raw) @ take n (drop 8 raw) @ drop (8 + n) raw"
  proof -
    have "drop 8 raw = take n (drop 8 raw) @ drop (8 + n) raw"
      using append_take_drop_id [of n "drop 8 raw"] by (simp add: add.commute)
    moreover have "drop 4 raw = take 4 (drop 4 raw) @ drop 8 raw"
      using append_take_drop_id [of 4 "drop 4 raw"] by simp
    ultimately show ?thesis using append_take_drop_id [of 4 raw] by metis
  qed
  ultimately have "raw = AUDIO_FRAME_MAGIC @ to_bytes4 (length h) @ h @ payload"
    unfolding hn by (metis h_def magic payload(1))
  with hn n h payload show ?thesis by (intro that) auto
qed

lemma frame_header_get:
  "k \<notin> set (keys header) \<Longrightarrow>
    jget (foldl (\<lambda>d (k, v). AList.update k v d) d header) k = jget d k"
  by (induction header arbitrary: d) (auto simp: jget_def map_of_update)

lemma frame_header_marks:
  assumes "''type'' \<notin> set (keys header)" and "''version'' \<notin> set (keys header)"
  shows "jget (frame_header header) ''type'' = JStr ''audio_frame''"
    and "jget (frame_header header) ''version'' = JInt AUDIO_FRAME_VERSION"
  unfolding frame_header_def
  by (subst frame_header_get [OF assms(1)], simp add: jget_def)
    (subst frame_header_get [OF assms(2)], simp add: jget_def)


definition sample_loads :: "bytes \<Rightarrow> json option" where
  "sample_loads b = (if b = [7] then Some (JObj (frame_header [(''seq'', JInt 3)])) else None)"


end
