(* ===== verification/Unicode_Text.thy ===== *)
theory Unicode_Text
  imports Json
begin

text \<open>
  Texts over all of Unicode, for the components that work on Chinese: a text is the list of its
  code points.  ASCII literals are written with \<open>u\<close>, other literals as lists of code points with
  a gloss.  \<open>uvalue\<close> is what \<open>json.loads\<close> returns when its texts are read this way.

  What the code takes from the standard library beyond definitions written out here is one
  argument, a record \<open>pylib\<close>: the case folding and the lower case of a code point (ideographs have
  neither; the final sigma, whose lower case depends on its neighbours, is left out), which code
  points beyond ASCII are decimal digits or belong to words, the text
  \<open>str\<close> gives for a float, a list or a dict, the number \<open>float\<close> reads from a text, and the rounding
  of one floating point operation.
\<close>

type_synonym utext = "int list"

datatype uvalue =
    UNull
  | UBool bool
  | UInt int
  | UFloat rat
  | UText utext
  | UArr "uvalue list"
  | UObj "(utext \<times> uvalue) list"

type_synonym udict = "(utext, uvalue) odict"

record pylib =
  fold_table :: "int \<Rightarrow> utext"
  lower_table :: "int \<Rightarrow> utext"
  digit_table :: "int \<Rightarrow> bool"
  word_table :: "int \<Rightarrow> bool"
  text_of_value :: "uvalue \<Rightarrow> utext"
  float_of_text :: "utext \<Rightarrow> rat option"
  fl :: "rat \<Rightarrow> rat"

definition u :: "string \<Rightarrow> utext" where
  "u s = map of_char s"

lemma length_u [simp]: "length (u s) = length s"
  by (simp add: u_def)

lemma u_Nil [simp]: "u [] = []"
  by (simp add: u_def)

lemma u_eq_iff [simp]: "u a = u b \<longleftrightarrow> a = b"
  unfolding u_def by (intro inj_map_eq_map injI) simp

subsection \<open>Texts\<close>

definition ideograph :: "int \<Rightarrow> bool" where
  \<comment> \<open>the CJK unified ideographs\<close>
  "ideograph c = (0x4E00 \<le> c \<and> c \<le> 0x9FFF)"

definition casefold :: "pylib \<Rightarrow> utext \<Rightarrow> utext" where
  \<comment> \<open>\<open>str.casefold()\<close>, which works code point by code point\<close>
  "casefold L t = concat (map (\<lambda>c. if ideograph c then [c] else fold_table L c) t)"

lemma casefold_ideographs: "\<forall>c \<in> set t. ideograph c \<Longrightarrow> casefold L t = t"
  by (induction t) (auto simp: casefold_def)

lemma casefold_Nil [simp]: "casefold L [] = []"
  by (simp add: casefold_def)

definition u_lower :: "pylib \<Rightarrow> utext \<Rightarrow> utext" where
  \<comment> \<open>\<open>str.lower()\<close>\<close>
  "u_lower L t = concat (map (\<lambda>c. if ideograph c then [c] else lower_table L c) t)"

lemma u_lower_ideographs: "\<forall>c \<in> set t. ideograph c \<Longrightarrow> u_lower L t = t"
  by (induction t) (auto simp: u_lower_def)

definition u_digit :: "pylib \<Rightarrow> int \<Rightarrow> bool" where
  \<comment> \<open>the class \<open>\d\<close> of a regular expression on texts\<close>
  "u_digit L c = (if c < 128 then 48 \<le> c \<and> c \<le> 57 else digit_table L c)"

definition u_word :: "pylib \<Rightarrow> int \<Rightarrow> bool" where
  \<comment> \<open>the class \<open>\w\<close>\<close>
  "u_word L c =
     (if c < 128 then (97 \<le> c \<and> c \<le> 122) \<or> (65 \<le> c \<and> c \<le> 90) \<or> (48 \<le> c \<and> c \<le> 57) \<or> c = 95
      else ideograph c \<or> word_table L c)"

definition u_space :: "int \<Rightarrow> bool" where
  \<comment> \<open>\<open>str.isspace()\<close>, also the class \<open>\s\<close> of a regular expression on texts\<close>
  "u_space c =
     ((9 \<le> c \<and> c \<le> 13) \<or> (28 \<le> c \<and> c \<le> 32) \<or> c = 0x85 \<or> c = 0xA0 \<or> c = 0x1680
      \<or> (0x2000 \<le> c \<and> c \<le> 0x200A) \<or> c = 0x2028 \<or> c = 0x2029 \<or> c = 0x202F \<or> c = 0x205F
      \<or> c = 0x3000)"

definition u_strip :: "utext \<Rightarrow> utext" where
  "u_strip t = rev (dropWhile u_space (rev (dropWhile u_space t)))"

lemma u_strip_no_space:
  assumes "\<forall>c \<in> set t. \<not> u_space c" shows "u_strip t = t"
proof -
  have "dropWhile u_space t = t" "dropWhile u_space (rev t) = rev t"
    using assms by (auto simp: dropWhile_eq_self_iff hd_rev)
  then show ?thesis by (simp add: u_strip_def)
qed

lemma ideograph_no_space: "ideograph c \<Longrightarrow> \<not> u_space c"
  by (auto simp: ideograph_def u_space_def)

definition u_starts :: "'a list \<Rightarrow> 'a list \<Rightarrow> bool" where
  \<comment> \<open>\<open>s.startswith(p)\<close>\<close>
  "u_starts s p = (take (length p) s = p)"

definition u_ends :: "'a list \<Rightarrow> 'a list \<Rightarrow> bool" where
  \<comment> \<open>\<open>s.endswith(p)\<close>\<close>
  "u_ends s p = (length p \<le> length s \<and> drop (length s - length p) s = p)"

fun u_in :: "'a list \<Rightarrow> 'a list \<Rightarrow> bool" where
  \<comment> \<open>\<open>needle in s\<close>\<close>
  "u_in n [] = (n = [])"
| "u_in n (c # cs) = (u_starts (c # cs) n \<or> u_in n cs)"

lemma u_starts_iff: "u_starts s p \<longleftrightarrow> (\<exists>r. s = p @ r)"
  unfolding u_starts_def by (metis append_eq_conv_conj append_take_drop_id)

lemma u_ends_iff: "u_ends s p \<longleftrightarrow> (\<exists>r. s = r @ p)"
proof
  assume "u_ends s p"
  then have "s = take (length s - length p) s @ p"
    unfolding u_ends_def by (metis append_take_drop_id)
  then show "\<exists>r. s = r @ p" ..
qed (auto simp: u_ends_def)

lemma u_in_iff: "u_in n s \<longleftrightarrow> (\<exists>a b. s = a @ n @ b)"
proof (induction s)
  case (Cons c cs)
  have "(\<exists>a b. c # cs = a @ n @ b) \<longleftrightarrow> (\<exists>b. c # cs = n @ b) \<or> (\<exists>a b. cs = a @ n @ b)"
    by (metis append_Cons append_Nil list.exhaust list.inject)
  then show ?case using Cons by (auto simp: u_starts_iff)
qed auto

lemma u_in_refl [simp]: "u_in s s"
  unfolding u_in_iff by (metis append_Nil append_Nil2)

lemma u_starts_drop: "u_starts s p \<Longrightarrow> p \<noteq> [] \<Longrightarrow> length (drop (length p) s) < length s"
  by (auto simp: u_starts_iff)

lemma u_ends_take: "u_ends s p \<Longrightarrow> p \<noteq> [] \<Longrightarrow> length (take (length s - length p) s) < length s"
  by (auto simp: u_ends_iff)

subsection \<open>Values\<close>

definition uget :: "udict \<Rightarrow> string \<Rightarrow> uvalue" where
  \<comment> \<open>\<open>d.get(k)\<close>\<close>
  "uget d k = (case map_of d (u k) of None \<Rightarrow> UNull | Some v \<Rightarrow> v)"

definition uget_default :: "udict \<Rightarrow> string \<Rightarrow> uvalue \<Rightarrow> uvalue" where
  \<comment> \<open>\<open>d.get(k, dflt)\<close>\<close>
  "uget_default d k dflt = (case map_of d (u k) of None \<Rightarrow> dflt | Some v \<Rightarrow> v)"

lemma uget_Cons [simp]: "uget ((k', v) # d) k = (if u k = k' then v else uget d k)"
  by (simp add: uget_def)

lemma uget_Nil [simp]: "uget [] k = UNull"
  by (simp add: uget_def)

definition uitem :: "udict \<Rightarrow> string \<Rightarrow> py_exn + uvalue" where
  \<comment> \<open>\<open>d[k]\<close>\<close>
  "uitem d k = need KeyError (map_of d (u k))"

fun as_dict :: "uvalue \<Rightarrow> py_exn + udict" where
  \<comment> \<open>a value on which the code calls \<open>.get\<close>\<close>
  "as_dict (UObj d) = Inr d"
| "as_dict _ = Inl AttributeError"

fun utruthy :: "uvalue \<Rightarrow> bool" where
  "utruthy UNull = False"
| "utruthy (UBool b) = b"
| "utruthy (UInt i) = (i \<noteq> 0)"
| "utruthy (UFloat r) = (r \<noteq> 0)"
| "utruthy (UText t) = (t \<noteq> [])"
| "utruthy (UArr xs) = (xs \<noteq> [])"
| "utruthy (UObj d) = (d \<noteq> [])"

fun u_str :: "pylib \<Rightarrow> uvalue \<Rightarrow> utext" where
  \<comment> \<open>\<open>str(value)\<close>\<close>
  "u_str L UNull = u ''None''"
| "u_str L (UBool b) = (if b then u ''True'' else u ''False'')"
| "u_str L (UInt i) = u (int_text i)"
| "u_str L (UText t) = t"
| "u_str L v = text_of_value L v"

definition str_or_empty :: "pylib \<Rightarrow> uvalue \<Rightarrow> utext" where
  \<comment> \<open>\<open>str(v or "")\<close>\<close>
  "str_or_empty L v = (if utruthy v then u_str L v else [])"

fun u_iter :: "uvalue \<Rightarrow> py_exn + uvalue list" where
  \<comment> \<open>the elements of \<open>for x in value\<close>\<close>
  "u_iter (UArr xs) = Inr xs"
| "u_iter (UObj d) = Inr (map (UText \<circ> fst) d)"
| "u_iter (UText t) = Inr (map (\<lambda>c. UText [c]) t)"
| "u_iter _ = Inl TypeError"

definition iter_or_empty :: "uvalue \<Rightarrow> py_exn + uvalue list" where
  \<comment> \<open>the elements of \<open>value or []\<close>\<close>
  "iter_or_empty v = (if utruthy v then u_iter v else Inr [])"

fun u_float :: "pylib \<Rightarrow> uvalue \<Rightarrow> py_exn + rat" where
  \<comment> \<open>\<open>float(value)\<close>\<close>
  "u_float L (UBool b) = Inr (if b then 1 else 0)"
| "u_float L (UInt i) = Inr (fl L (of_int i))"
| "u_float L (UFloat r) = Inr r"
| "u_float L (UText t) = need ValueError (float_of_text L t)"
| "u_float L _ = Inl TypeError"

fun u_int :: "uvalue \<Rightarrow> py_exn + int" where
  \<comment> \<open>\<open>int(value)\<close>; of a text, ASCII digits (other decimal digits of Unicode are left out)\<close>
  "u_int (UBool b) = Inr (if b then 1 else 0)"
| "u_int (UInt i) = Inr i"
| "u_int (UFloat r) = Inr (if r \<ge> 0 then floor r else ceiling r)"
| "u_int (UText t) =
     (let s = u_strip t in
      need ValueError
        (if list_all (\<lambda>c. 0 \<le> c \<and> c < 128) s then int_of_text (map char_of s) else None))"
| "u_int _ = Inl TypeError"

fun subscript :: "uvalue \<Rightarrow> string \<Rightarrow> py_exn + uvalue" where
  \<comment> \<open>\<open>value[key]\<close> with a text as key\<close>
  "subscript (UObj d) k = uitem d k"
| "subscript _ k = Inl TypeError"

fun u_contains :: "uvalue \<Rightarrow> utext \<Rightarrow> py_exn + bool" where
  \<comment> \<open>\<open>text in value\<close>\<close>
  "u_contains (UObj d) t = Inr (t \<in> set (keys d))"
| "u_contains (UArr xs) t = Inr (UText t \<in> set xs)"
| "u_contains (UText s) t = Inr (u_in t s)"
| "u_contains _ t = Inl TypeError"

definition word_char :: "int \<Rightarrow> bool" where
  \<comment> \<open>the class \<open>[a-zA-Z0-9_-]\<close>\<close>
  "word_char c =
     ((97 \<le> c \<and> c \<le> 122) \<or> (65 \<le> c \<and> c \<le> 90) \<or> (48 \<le> c \<and> c \<le> 57) \<or> c = 95 \<or> c = 45)"

definition dash_id :: "utext \<Rightarrow> bool" where
  \<comment> \<open>\<open>fullmatch\<close> of \<open>[a-zA-Z0-9_-]+\<close>\<close>
  "dash_id t = (t \<noteq> [] \<and> list_all word_char t)"

lemma nat_text_ascii:
  "c \<in> set (nat_text n) \<Longrightarrow> 48 \<le> (of_char c :: int) \<and> (of_char c :: int) \<le> 57"
proof (induction n rule: nat_text.induct)
  case (1 n)
  have digit: "48 \<le> (of_char (char_of (48 + m :: nat)) :: int)
      \<and> (of_char (char_of (48 + m :: nat)) :: int) \<le> 57" if "m < 10" for m
  proof -
    have "(of_char (char_of (48 + m :: nat)) :: int) = int (48 + m)"
      using that of_nat_of_char [of "char_of (48 + m :: nat)", where ?'a = int]
      by (simp add: of_char_of take_bit_eq_mod)
    then show ?thesis using that by simp
  qed
  show ?case
  proof (cases "n < 10")
    case True
    with 1 digit [of n] show ?thesis by (simp add: nat_text.simps [of n])
  next
    case False
    with 1 digit [of "n mod 10"] show ?thesis by (auto simp: nat_text.simps [of n])
  qed
qed

end
