(* ===== verification/Song_Matcher.thy ===== *)
theory Song_Matcher
  imports Unicode_Text "HOL-Library.Product_Lexorder" "HOL-Library.List_Lexorder"
begin

text \<open>
  \<open>src/singing/matcher.py\<close>: which song of a catalog a request names.  A song is a dictionary of the
  catalog; iterating over its aliases may raise, as in the code.  A score is a rational, every
  floating point operation of the code an application of the rounding \<open>fl\<close>.
\<close>

subsection \<open>Normalised texts\<close>

definition punctuation :: "int list" where
  \<comment> \<open>the characters \<open>_PUNCTUATION_RE\<close> lists beside white space\<close>
  "punctuation =
     [0x3002, 0xFF01, 0xFF1F, 0x21, 0x3F, 0x2E, 0x2C, 0xFF0C, 0xFF1B, 0x3B, 0xFF1A, 0x3A, 0x27,
      0x22, 0x201C, 0x201D, 0x2018, 0x2019, 0x300A, 0x300B, 0x3008, 0x3009, 0x7E, 0xFF5E, 0xB7,
      0x5F, 0x2D]"

definition normalize_text :: "pylib \<Rightarrow> utext \<Rightarrow> utext" where
  "normalize_text L t = filter (\<lambda>c. \<not> (u_space c \<or> c \<in> set punctuation)) (casefold L t)"

definition GENERIC_REQUESTS :: "utext list" where
  \<comment> \<open>sing; sing a song; any song will do; and so on\<close>
  "GENERIC_REQUESTS =
    [[0x5531, 0x6B4C], [0x5531, 0x9996, 0x6B4C],
     [0x5531, 0x4E00, 0x9996, 0x6B4C], [0x5531, 0x4E2A, 0x6B4C],
     [0x6765, 0x9996, 0x6B4C], [0x6765, 0x4E00, 0x9996, 0x6B4C],
     [0x6765, 0x4E2A, 0x6B4C], [0x968F, 0x4FBF, 0x5531, 0x9996, 0x6B4C],
     [0x968F, 0x4FBF, 0x5531, 0x4E00, 0x9996, 0x6B4C], [0x968F, 0x4FBF, 0x6765, 0x9996, 0x6B4C],
     [0x968F, 0x4FBF, 0x6765, 0x4E00, 0x9996, 0x6B4C]]"

definition GENERIC_EXTRACTED_QUERIES :: "utext list" where
  \<comment> \<open>nothing, and two words for "song"\<close>
  "GENERIC_EXTRACTED_QUERIES = [[], [0x6B4C], [0x6B4C, 0x66F2]]"

definition longest_first :: "utext list \<Rightarrow> utext list" where
  \<comment> \<open>\<open>sorted(items, key=len, reverse=True)\<close>, which is stable\<close>
  "longest_first xs = sort_key (\<lambda>x. - int (length x)) xs"

definition REQUEST_PREFIXES :: "utext list" where
  \<comment> \<open>please sing one for me; sing me one; play; and so on\<close>
  "REQUEST_PREFIXES = longest_first
    [[0x9EBB, 0x70E6, 0x4F60, 0x7ED9, 0x6211, 0x5531, 0x4E00, 0x9996], [0x9EBB, 0x70E6, 0x4F60, 0x7ED9, 0x6211, 0x5531, 0x9996],
     [0x9EBB, 0x70E6, 0x4F60, 0x5531, 0x4E00, 0x9996], [0x9EBB, 0x70E6, 0x4F60, 0x5531, 0x9996],
     [0x8BF7, 0x4F60, 0x7ED9, 0x6211, 0x5531, 0x4E00, 0x9996], [0x8BF7, 0x4F60, 0x7ED9, 0x6211, 0x5531, 0x9996],
     [0x7ED9, 0x6211, 0x5531, 0x4E00, 0x9996], [0x7ED9, 0x6211, 0x5531, 0x9996],
     [0x7ED9, 0x6211, 0x5531, 0x4E00, 0x4E0B], [0x4F60, 0x7ED9, 0x6211, 0x5531, 0x4E00, 0x9996],
     [0x4F60, 0x7ED9, 0x6211, 0x5531, 0x9996], [0x8BF7, 0x4F60, 0x5531, 0x4E00, 0x9996],
     [0x8BF7, 0x4F60, 0x5531, 0x9996], [0x8BF7, 0x5531, 0x4E00, 0x9996],
     [0x8BF7, 0x5531, 0x9996], [0x5531, 0x4E00, 0x9996],
     [0x5531, 0x9996], [0x5531, 0x4E00, 0x4E0B],
     [0x5531, 0x4E2A], [0x6765, 0x4E00, 0x9996],
     [0x6765, 0x9996], [0x6765, 0x4E2A],
     [0x64AD, 0x653E], [0x653E, 0x4E00, 0x4E0B]]"

definition REQUEST_SUFFIXES :: "utext list" where
  \<comment> \<open>for me to listen to; may you; all right; and final particles\<close>
  "REQUEST_SUFFIXES = longest_first
    [[0x7ED9, 0x6211, 0x542C, 0x542C], [0x5531, 0x7ED9, 0x6211, 0x542C], [0x6211, 0x542C, 0x542C],
     [0x7ED9, 0x6211, 0x542C], [0x53EF, 0x4EE5, 0x5417], [0x597D, 0x4E0D, 0x597D],
     [0x597D, 0x5417], [0x5427], [0x5440],
     [0x554A]]"

lemma set_longest_first [simp]: "set (longest_first xs) = set xs"
  by (simp add: longest_first_def)

lemma request_affixes_ideographs:
  "p \<in> set REQUEST_PREFIXES \<union> set REQUEST_SUFFIXES \<Longrightarrow> p \<noteq> [] \<and> (\<forall>c \<in> set p. ideograph c)"
  unfolding REQUEST_PREFIXES_def REQUEST_SUFFIXES_def set_longest_first
  by (simp add: ideograph_def) (elim disjE; simp)

lemma normalize_ideographs: "\<forall>c \<in> set t. ideograph c \<Longrightarrow> normalize_text L t = t"
  by (auto simp: normalize_text_def casefold_ideographs ideograph_def u_space_def punctuation_def
      intro!: filter_True)

lemma normalize_affix:
  "p \<in> set REQUEST_PREFIXES \<union> set REQUEST_SUFFIXES \<Longrightarrow> normalize_text L p = p \<and> p \<noteq> []"
  using request_affixes_ideographs normalize_ideographs by blast

subsection \<open>The song a request names\<close>

text \<open>The two loops of \<open>extract_song_query\<close>.  They end because no affix is empty after
  normalisation.\<close>

function (sequential) strip_prefixes :: "pylib \<Rightarrow> utext \<Rightarrow> utext" where
  "strip_prefixes L [] = []"
| "strip_prefixes L (c # cs) =
     (case find (\<lambda>p. u_starts (c # cs) (normalize_text L p)) REQUEST_PREFIXES of
        None \<Rightarrow> c # cs
      | Some p \<Rightarrow> strip_prefixes L (drop (length (normalize_text L p)) (c # cs)))"
  by pat_completeness auto

lemma find_affix:
  assumes "find (\<lambda>p. Q (normalize_text L p)) xs = Some p"
    and "set xs \<subseteq> set REQUEST_PREFIXES \<union> set REQUEST_SUFFIXES"
  shows "Q p \<and> normalize_text L p = p \<and> p \<noteq> [] \<and> p \<in> set xs"
proof -
  from assms(1) have "p \<in> set xs" "Q (normalize_text L p)" by (auto simp: find_Some_iff)
  then show ?thesis using normalize_affix [of p L] assms(2) by auto
qed

termination strip_prefixes
proof (relation "measure (\<lambda>(L, t). length t)", simp)
  fix L c cs p
  assume "find (\<lambda>p. u_starts (c # cs) (normalize_text L p)) REQUEST_PREFIXES = Some p"
  from find_affix [OF this] show
    "((L, drop (length (normalize_text L p)) (c # cs)), L, c # cs) \<in> measure (\<lambda>(L, t). length t)"
    using u_starts_drop [of "c # cs" p] by simp
qed

function (sequential) strip_suffixes :: "pylib \<Rightarrow> utext \<Rightarrow> utext" where
  "strip_suffixes L [] = []"
| "strip_suffixes L (c # cs) =
     (case find (\<lambda>p. u_ends (c # cs) (normalize_text L p)) REQUEST_SUFFIXES of
        None \<Rightarrow> c # cs
      | Some p \<Rightarrow>
          strip_suffixes L (take (length (c # cs) - length (normalize_text L p)) (c # cs)))"
  by pat_completeness auto

termination strip_suffixes
proof (relation "measure (\<lambda>(L, t). length t)", simp)
  fix L c cs p
  assume "find (\<lambda>p. u_ends (c # cs) (normalize_text L p)) REQUEST_SUFFIXES = Some p"
  from find_affix [OF this] show
    "((L, take (length (c # cs) - length (normalize_text L p)) (c # cs)), L, c # cs)
      \<in> measure (\<lambda>(L, t). length t)"
    using u_ends_take [of "c # cs" p] by simp
qed

declare strip_prefixes.simps [simp del] strip_suffixes.simps [simp del]

definition extract_song_query :: "pylib \<Rightarrow> utext \<Rightarrow> utext" where
  "extract_song_query L t = strip_suffixes L (strip_prefixes L (normalize_text L t))"

definition is_generic_song_request :: "pylib \<Rightarrow> utext \<Rightarrow> bool" where
  "is_generic_song_request L t =
     (let n = normalize_text L t in
      if n = [] \<or> n \<in> set (map (normalize_text L) GENERIC_REQUESTS) then True
      else extract_song_query L t \<in> set GENERIC_EXTRACTED_QUERIES)"

subsection \<open>Similarity\<close>

text \<open>One row of the table of \<open>_edit_distance\<close>: \<open>d\<close> is the previous row from the current column
  minus one on, \<open>cur\<close> is \<open>current[-1]\<close>.\<close>

fun edit_cells :: "nat \<Rightarrow> 'a list \<Rightarrow> nat \<Rightarrow> nat list \<Rightarrow> 'a \<Rightarrow> nat list" where
  "edit_cells cur (r # rs) diag (up # prev) l =
     (let v = min (min (cur + 1) (up + 1)) (diag + (if l \<noteq> r then 1 else 0))
      in v # edit_cells v rs up prev l)"
| "edit_cells cur _ diag _ l = []"

definition edit_row :: "'a list \<Rightarrow> nat \<Rightarrow> 'a \<Rightarrow> nat list \<Rightarrow> nat list" where
  "edit_row right row l previous = row # edit_cells row right (hd previous) (tl previous) l"

fun edit_rows :: "'a list \<Rightarrow> nat \<Rightarrow> 'a list \<Rightarrow> nat list \<Rightarrow> nat list" where
  "edit_rows right row [] previous = previous"
| "edit_rows right row (l # left) previous =
     edit_rows right (row + 1) left (edit_row right row l previous)"

definition edit_distance :: "'a list \<Rightarrow> 'a list \<Rightarrow> nat" where
  "edit_distance left right =
     (if left = right then 0
      else if left = [] then length right
      else if right = [] then length left
      else last (edit_rows right 1 left [0..<length right + 1]))"

definition similarity :: "pylib \<Rightarrow> utext \<Rightarrow> utext \<Rightarrow> rat" where
  "similarity L left right =
     (let a = normalize_text L left; b = normalize_text L right;
          longest = max (length a) (length b)
      in if longest = 0 then 1
         else fl L (1 - fl L (of_nat (edit_distance a b) / of_nat longest)))"

definition song_terms :: "pylib \<Rightarrow> udict \<Rightarrow> py_exn + utext list" where
  "song_terms L song =
     and_then (iter_or_empty (uget song ''aliases'')) (\<lambda>aliases.
     let artist = str_or_empty L (uget song ''artist'');
         title = str_or_empty L (uget song ''title'');
         names = [uget_default song ''title'' (UText []), uget_default song ''slug'' (UText [])]
           @ aliases
           @ (if artist \<noteq> [] \<and> title \<noteq> []
              then [UText (artist @ title), UText (artist @ [0x7684] @ title)] else [])
     in Inr (filter (\<lambda>t. t \<noteq> []) (map (\<lambda>v. normalize_text L (u_str L v)) names)))"

definition minimum_score :: "pylib \<Rightarrow> utext \<Rightarrow> rat" where
  "minimum_score L query =
     (if length query \<le> 2 then fl L (86 / 100)
      else if length query \<le> 4 then fl L (72 / 100)
      else fl L (68 / 100))"

subsection \<open>Matching\<close>

record match_candidate =
  mc_song :: udict
  mc_score :: rat

datatype match_status = Generic | Not_Found | Ambiguous | Matched

record song_match =
  sm_status :: match_status
  sm_query :: utext
  sm_best :: "match_candidate option"
  sm_candidates :: "match_candidate list"

definition part_score :: "pylib \<Rightarrow> utext \<Rightarrow> utext \<Rightarrow> rat" where
  \<comment> \<open>\<open>0.84 + 0.12 * shorter / longer\<close>\<close>
  "part_score L a b =
     (let shorter = of_nat (min (length a) (length b)); longer = of_nat (max (length a) (length b))
      in fl L (fl L (84 / 100) + fl L (fl L (fl L (12 / 100) * shorter) / longer)))"

definition score_term :: "pylib \<Rightarrow> utext \<Rightarrow> utext \<Rightarrow> utext \<Rightarrow> rat \<Rightarrow> rat" where
  \<comment> \<open>the body of the loop over the terms of a song\<close>
  "score_term L original extracted t best =
     (let b1 = (if t \<noteq> [] \<and> u_in t original
                then max best (if t = extracted then 1 else fl L (98 / 100)) else best);
          b2 = (if extracted = t then 1
                else if u_in extracted t \<or> u_in t extracted then max b1 (part_score L extracted t)
                else b1)
      in max b2 (similarity L extracted t))"

definition song_score :: "pylib \<Rightarrow> utext \<Rightarrow> utext \<Rightarrow> udict \<Rightarrow> py_exn + rat" where
  "song_score L original extracted song =
     and_then (song_terms L song) (\<lambda>ts. Inr (fold (score_term L original extracted) ts 0))"

definition rank_key :: "pylib \<Rightarrow> match_candidate \<Rightarrow> rat \<times> utext" where
  "rank_key L c = (- mc_score c, str_or_empty L (uget (mc_song c) ''id''))"

definition judge_ranked :: "pylib \<Rightarrow> rat \<Rightarrow> utext \<Rightarrow> match_candidate list \<Rightarrow> song_match" where
  \<comment> \<open>the part of \<open>match_song\<close> after the ranking\<close>
  "judge_ranked L gap extracted ranked =
     (let accepted = filter (\<lambda>c. minimum_score L extracted \<le> mc_score c) ranked in
      case accepted of
        [] \<Rightarrow> \<lparr>sm_status = Not_Found, sm_query = extracted, sm_best = None, sm_candidates = []\<rparr>
      | [c] \<Rightarrow> \<lparr>sm_status = Matched, sm_query = extracted, sm_best = Some c, sm_candidates = []\<rparr>
      | c # d # _ \<Rightarrow>
          if fl L (mc_score c - mc_score d) < gap
          then \<lparr>sm_status = Ambiguous, sm_query = extracted, sm_best = Some c,
                sm_candidates = take 3 accepted\<rparr>
          else \<lparr>sm_status = Matched, sm_query = extracted, sm_best = Some c, sm_candidates = []\<rparr>)"

definition rank_songs ::
  "pylib \<Rightarrow> utext \<Rightarrow> utext \<Rightarrow> udict list \<Rightarrow> py_exn + match_candidate list" where
  "rank_songs L original extracted songs =
     and_then (traverse (\<lambda>song.
         and_then (song_score L original extracted song) (\<lambda>s.
         Inr \<lparr>mc_song = song, mc_score = s\<rparr>)) songs) (\<lambda>ranked.
     Inr (sort_key (rank_key L) ranked))"

definition match_song :: "pylib \<Rightarrow> rat \<Rightarrow> utext \<Rightarrow> udict list \<Rightarrow> py_exn + song_match" where
  "match_song L gap query songs =
     (let extracted = extract_song_query L query in
      if is_generic_song_request L query \<or> extracted = []
      then Inr \<lparr>sm_status = Generic, sm_query = extracted, sm_best = None, sm_candidates = []\<rparr>
      else and_then (rank_songs L (normalize_text L query) extracted songs) (\<lambda>ranked.
           Inr (judge_ranked L gap extracted ranked)))"

definition AMBIGUITY_GAP :: "pylib \<Rightarrow> rat" where
  "AMBIGUITY_GAP L = fl L (8 / 100)"

end
