(* ===== verification/Singing_Library.thy ===== *)
theory Singing_Library
  imports Song_Matcher
begin

text \<open>
  \<open>src/singing/library.py\<close>: loading and checking the catalog of songs and the registry of singing
  voices, and the lookups on them.  A file is given by what reading and parsing it produced
  (\<open>None\<close> when either fails); an environment variable by its text; a path by its parts.
\<close>

datatype sing_exn = Catalog_Error | Py_Error py_exn

definition py :: "py_exn + 'a \<Rightarrow> sing_exn + 'a" where
  \<comment> \<open>an exception of the language, not caught\<close>
  "py r = map_sum Py_Error id r"

lemma py_simps [simp]: "py (Inr x) = Inr x" "py (Inl e) = Inl (Py_Error e)"
  by (simp_all add: py_def)

lemma py_Inr_iff [result_simps]: "py r = Inr x \<longleftrightarrow> r = Inr x"
  by (cases r) auto

subsection \<open>Loading\<close>

definition sha256_text :: "utext \<Rightarrow> bool" where
  \<comment> \<open>\<open>SHA256_RE\<close>: 64 characters of \<open>[a-f0-9]\<close>\<close>
  "sha256_text t =
     (length t = 64 \<and> list_all (\<lambda>c. (97 \<le> c \<and> c \<le> 102) \<or> (48 \<le> c \<and> c \<le> 57)) t)"

fun path_split :: "utext \<Rightarrow> utext \<Rightarrow> utext list" where
  "path_split acc [] = [rev acc]"
| "path_split acc (c # cs) = (if c = 47 then rev acc # path_split [] cs else path_split (c # acc) cs)"

definition path_parts :: "utext \<Rightarrow> utext list" where
  \<comment> \<open>\<open>Path(text).parts\<close> without the top_dir: empty segments and \<open>.\<close> are dropped\<close>
  "path_parts t = filter (\<lambda>p. p \<noteq> [] \<and> p \<noteq> u ''.'') (path_split [] t)"

definition path_absolute :: "utext \<Rightarrow> bool" where
  "path_absolute t = u_starts t (u ''/'')"

fun read_json :: "uvalue option \<Rightarrow> sing_exn + udict" where
  "read_json (Some (UObj d)) = Inr d"
| "read_json _ = Inl Catalog_Error"

definition check_voice :: "pylib \<Rightarrow> uvalue \<Rightarrow> utext list \<Rightarrow> sing_exn + utext list" where
  "check_voice L voice seen =
     and_then (py (as_dict voice)) (\<lambda>d.
     let voice_id = str_or_empty L (uget d ''id'') in
     if \<not> dash_id voice_id \<or> voice_id \<in> set seen then Inl Catalog_Error
     else if u_strip (str_or_empty L (uget d ''display_name'')) = [] then Inl Catalog_Error
     else Inr (seen @ [voice_id]))"

definition load_voice_registry :: "pylib \<Rightarrow> uvalue option \<Rightarrow> sing_exn + udict" where
  "load_voice_registry L parsed =
     and_then (read_json parsed) (\<lambda>data.
     and_then (check (uget data ''schema_version'' = UText (u ''singing-voices/v1'')) Catalog_Error)
       (\<lambda>_.
     case uget data ''voices'' of
       UArr voices \<Rightarrow>
         if voices = [] then Inl Catalog_Error
         else and_then (fold_steps (check_voice L) voices []) (\<lambda>seen.
              if str_or_empty L (uget data ''default_voice_id'') \<in> set seen then Inr data
              else Inl Catalog_Error)
     | _ \<Rightarrow> Inl Catalog_Error))"

definition default_voice_id :: "pylib \<Rightarrow> utext \<Rightarrow> udict \<Rightarrow> sing_exn + utext" where
  \<comment> \<open>\<open>env\<close> is the variable \<open>SINGING_DEFAULT_VOICE_ID\<close>\<close>
  "default_voice_id L env registry =
     (let configured = u_strip env in
      if configured \<noteq> [] then
        if dash_id configured then Inr configured else Inl Catalog_Error
      else and_then (py (uitem registry ''default_voice_id'')) (\<lambda>v. Inr (u_str L v)))"

definition check_variant ::
  "pylib \<Rightarrow> utext \<times> uvalue \<Rightarrow> utext list \<Rightarrow> sing_exn + utext list" where
  "check_variant L item seen_assets =
     (case item of (voice_id, variant) \<Rightarrow>
      if \<not> dash_id voice_id then Inl Catalog_Error
      else case variant of
        UObj d \<Rightarrow>
          let asset = str_or_empty L (uget d ''asset'') in
          if asset = [] \<or> path_absolute asset \<or> u ''..'' \<in> set (path_parts asset)
             \<or> asset \<in> set seen_assets
          then Inl Catalog_Error
          else if \<not> sha256_text (str_or_empty L (uget d ''sha256'')) then Inl Catalog_Error
          else (case u_float L (uget d ''duration_seconds'') of
                  Inl _ \<Rightarrow> Inl Catalog_Error
                | Inr duration \<Rightarrow>
                    if duration \<le> 0 then Inl Catalog_Error else Inr (seen_assets @ [asset]))
      | _ \<Rightarrow> Inl Catalog_Error)"

definition check_song ::
  "pylib \<Rightarrow> uvalue \<Rightarrow> utext list \<times> utext list \<Rightarrow> sing_exn + utext list \<times> utext list" where
  "check_song L song seen =
     (case seen of (seen_ids, seen_assets) \<Rightarrow>
      and_then (py (as_dict song)) (\<lambda>d.
      let song_id = str_or_empty L (uget d ''id'') in
      if \<not> dash_id song_id \<or> song_id \<in> set seen_ids then Inl Catalog_Error
      else if u_strip (str_or_empty L (uget d ''title'')) = [] then Inl Catalog_Error
      else case uget d ''variants'' of
          UObj variants \<Rightarrow>
            if variants = [] then Inl Catalog_Error
            else and_then (fold_steps (check_variant L) variants seen_assets) (\<lambda>assets.
                 Inr (seen_ids @ [song_id], assets))
        | _ \<Rightarrow> Inl Catalog_Error))"

definition load_catalog :: "pylib \<Rightarrow> uvalue option \<Rightarrow> sing_exn + udict" where
  "load_catalog L parsed =
     and_then (read_json parsed) (\<lambda>data.
     and_then (check (uget data ''schema_version'' = UText (u ''singing-catalog/v2'')) Catalog_Error)
       (\<lambda>_.
     case uget data ''songs'' of
       UArr songs \<Rightarrow>
         if songs = [] then Inl Catalog_Error
         else and_then (fold_steps (check_song L) songs ([], [])) (\<lambda>_. Inr data)
     | _ \<Rightarrow> Inl Catalog_Error))"

definition registry_voice_ids :: "pylib \<Rightarrow> udict \<Rightarrow> py_exn + utext list" where
  \<comment> \<open>\<open>{str(voice["id"]) for voice in registry["voices"]}\<close>\<close>
  "registry_voice_ids L registry =
     and_then (uitem registry ''voices'') (\<lambda>v.
     and_then (u_iter v) (traverse (\<lambda>voice.
       and_then (subscript voice ''id'') (\<lambda>i. Inr (u_str L i)))))"

definition used_voice_ids :: "pylib \<Rightarrow> udict \<Rightarrow> py_exn + utext list" where
  "used_voice_ids L catalog =
     and_then (uitem catalog ''songs'') (\<lambda>v.
     and_then (u_iter v) (\<lambda>songs.
     and_then (traverse (\<lambda>song.
       and_then (subscript song ''variants'') (\<lambda>variants.
       and_then (u_iter variants) (\<lambda>ks. Inr (map (u_str L) ks)))) songs) (\<lambda>used.
     Inr (concat used))))"

definition validate_catalog_voice_ids :: "pylib \<Rightarrow> udict \<Rightarrow> udict \<Rightarrow> sing_exn + unit" where
  "validate_catalog_voice_ids L catalog registry =
     and_then (py (registry_voice_ids L registry)) (\<lambda>known.
     and_then (py (used_voice_ids L catalog)) (\<lambda>used.
     check (set used \<subseteq> set known) Catalog_Error))"

subsection \<open>Lookups\<close>

fun first_song :: "utext \<Rightarrow> uvalue list \<Rightarrow> sing_exn + uvalue" where
  "first_song song_id [] = Inl Catalog_Error"
| "first_song song_id (song # songs) =
     and_then (py (subscript song ''id'')) (\<lambda>i.
     if i = UText song_id then Inr song else first_song song_id songs)"

definition catalog_songs :: "udict \<Rightarrow> py_exn + uvalue list" where
  \<comment> \<open>iterating over \<open>catalog["songs"]\<close>\<close>
  "catalog_songs catalog = and_then (uitem catalog ''songs'') u_iter"

definition find_song :: "utext \<Rightarrow> udict \<Rightarrow> sing_exn + uvalue" where
  "find_song song_id catalog =
     (if \<not> dash_id song_id then Inl Catalog_Error
      else and_then (py (catalog_songs catalog)) (first_song song_id))"

fun filter_songs :: "utext \<Rightarrow> uvalue list \<Rightarrow> py_exn + uvalue list" where
  \<comment> \<open>\<open>[song for song in songs if voice_id in song["variants"]]\<close>\<close>
  "filter_songs voice_id [] = Inr []"
| "filter_songs voice_id (song # songs) =
     and_then (subscript song ''variants'') (\<lambda>variants.
     and_then (u_contains variants voice_id) (\<lambda>b.
     and_then (filter_songs voice_id songs) (\<lambda>rest.
     Inr (if b then song # rest else rest))))"

definition available_songs :: "utext \<Rightarrow> udict \<Rightarrow> sing_exn + uvalue list" where
  "available_songs voice_id catalog =
     (if \<not> dash_id voice_id then Inl Catalog_Error
      else and_then (py (catalog_songs catalog)) (\<lambda>songs. py (filter_songs voice_id songs)))"

definition song_variant :: "udict \<Rightarrow> utext \<Rightarrow> py_exn + udict option" where
  "song_variant song voice_id =
     (let variants = uget song ''variants'' in
      and_then (as_dict (if utruthy variants then variants else UObj [])) (\<lambda>d.
      Inr (case map_of d voice_id of Some (UObj variant) \<Rightarrow> Some variant | _ \<Rightarrow> None)))"

definition asset_id :: "utext \<Rightarrow> utext \<Rightarrow> sing_exn + utext" where
  "asset_id song_id voice_id =
     (if \<not> dash_id song_id \<or> \<not> dash_id voice_id then Inl Catalog_Error
      else Inr (voice_id @ u '':'' @ song_id))"

definition select_song ::
  "pylib \<Rightarrow> (uvalue list \<Rightarrow> uvalue) \<Rightarrow> utext \<Rightarrow> udict \<Rightarrow> utext \<Rightarrow> sing_exn + uvalue" where
  \<comment> \<open>\<open>pick\<close> is the random choice; the voice has been selected\<close>
  "select_song L pick query catalog voice_id =
     and_then (available_songs voice_id catalog) (\<lambda>songs.
     if songs = [] then Inl Catalog_Error
     else and_then (py (and_then (catalog_songs catalog) (traverse as_dict))) (\<lambda>all_songs.
     and_then (py (match_song L (AMBIGUITY_GAP L) query all_songs)) (\<lambda>m.
     case (sm_status m, sm_best m) of
       (Generic, _) \<Rightarrow> Inr (pick songs)
     | (Matched, Some best) \<Rightarrow> Inr (UObj (mc_song best))
     | _ \<Rightarrow> Inl Catalog_Error)))"

definition song_identity :: "pylib \<Rightarrow> udict \<Rightarrow> utext \<Rightarrow> sing_exn + udict" where
  \<comment> \<open>the members common to the results that play a song\<close>
  "song_identity L song voice_id =
     and_then (py (uitem song ''id'')) (\<lambda>i.
     and_then (py (uitem song ''title'')) (\<lambda>title.
     and_then (asset_id (u_str L i) voice_id) (\<lambda>asset.
     Inr [(u ''kind'', UText (u ''singing_playback'')), (u ''song_id'', i), (u ''title'', title),
          (u ''artist'', UText (str_or_empty L (uget song ''artist''))),
          (u ''voice_id'', UText voice_id), (u ''asset_id'', UText asset)])))"

definition playback_tool_result :: "pylib \<Rightarrow> udict \<Rightarrow> utext \<Rightarrow> sing_exn + udict" where
  \<comment> \<open>the object whose JSON text is returned\<close>
  "playback_tool_result L song voice_id =
     and_then (py (song_variant song voice_id)) (\<lambda>variant.
     if variant = None then Inl Catalog_Error else song_identity L song voice_id)"

definition resolve_audio_path ::
  "pylib \<Rightarrow> (utext list \<Rightarrow> utext list) \<Rightarrow> utext \<Rightarrow> utext \<Rightarrow> utext list option \<Rightarrow> udict
    \<Rightarrow> sing_exn + udict \<times> utext list" where
  \<comment> \<open>\<open>resolve\<close> is \<open>Path.resolve\<close> on absolute paths, \<open>top_dir\<close> the configured root\<close>
  "resolve_audio_path L resolve song_id voice_id top_dir catalog =
     and_then (find_song song_id catalog) (\<lambda>song_value.
     and_then (py (as_dict song_value)) (\<lambda>song.
     and_then (py (song_variant song voice_id)) (\<lambda>found.
     and_then (need Catalog_Error found) (\<lambda>variant.
     and_then (need Catalog_Error top_dir) (\<lambda>base0.
     let base = resolve base0 in
     and_then (py (uitem variant ''asset'')) (\<lambda>asset_value.
     let asset = u_str L asset_value;
         path = resolve (if path_absolute asset then path_parts asset else base @ path_parts asset) in
     if take (length base) path \<noteq> base then Inl Catalog_Error
     else and_then (asset_id song_id voice_id) (\<lambda>asset_name.
     Inr (AList.update (u ''asset_id'') (UText asset_name)
           (AList.update (u ''voice_id'') (UText voice_id)
             (fold (\<lambda>(k, v). AList.update k v) variant song)), path))))))))"

end
