(* ===== verification/Singing_Service.thy ===== *)
theory Singing_Service
  imports Singing_Library
begin

text \<open>
  \<open>src/singing/service.py\<close>: the requests to sing a song and to list songs, for one singing voice.
  The service holds a catalog and a registry that it has checked against each other.
\<close>

record singing_service =
  sv_catalog :: udict
  sv_registry :: udict
  sv_known :: "utext list"

definition NOT_LEARNED_TEXT :: utext where
  \<comment> \<open>I have not learned this song yet, another one?\<close>
  "NOT_LEARNED_TEXT = 
    [0x8FD9, 0x9996, 0x6B4C, 0x6211, 0x8FD8, 0x6CA1, 0x5B66, 0x4F1A, 0xFF0C, 0x6362,
     0x4E00, 0x9996, 0x597D, 0x5417, 0xFF1F]"

definition NO_SONGS_TEXT :: utext where
  \<comment> \<open>I have not learned to sing yet\<close>
  "NO_SONGS_TEXT = 
    [0x6211, 0x73B0, 0x5728, 0x8FD8, 0x6CA1, 0x6709, 0x5B66, 0x4F1A, 0x5531, 0x6B4C,
     0xFF0C, 0x7B49, 0x6211, 0x51C6, 0x5907, 0x4E00, 0x4E0B, 0x5427, 0x3002]"

definition new_service :: "pylib \<Rightarrow> udict \<Rightarrow> udict \<Rightarrow> sing_exn + singing_service" where
  "new_service L catalog registry =
     and_then (validate_catalog_voice_ids L catalog registry) (\<lambda>_.
     and_then (py (registry_voice_ids L registry)) (\<lambda>known.
     Inr \<lparr>sv_catalog = catalog, sv_registry = registry, sv_known = known\<rparr>))"

fun voice_for_profile :: "pylib \<Rightarrow> utext \<Rightarrow> uvalue list \<Rightarrow> py_exn + utext" where
  \<comment> \<open>the id of the first voice that lists the speech profile, or the empty text\<close>
  "voice_for_profile L profile [] = Inr []"
| "voice_for_profile L profile (voice # voices) =
     and_then (as_dict voice) (\<lambda>d.
     and_then (iter_or_empty (uget d ''tts_profile_ids'')) (\<lambda>ids.
     if profile \<in> set (map (u_str L) ids)
     then and_then (uitem d ''id'') (\<lambda>i. Inr (u_str L i))
     else voice_for_profile L profile voices))"

definition resolve_voice_id ::
  "pylib \<Rightarrow> utext \<Rightarrow> singing_service \<Rightarrow> udict \<Rightarrow> sing_exn + utext" where
  \<comment> \<open>\<open>env\<close> is the variable \<open>SINGING_DEFAULT_VOICE_ID\<close>\<close>
  "resolve_voice_id L env s meta =
     (let requested = u_strip (str_or_empty L (uget meta ''singing_voice_id''));
          profile = u_strip (str_or_empty L (uget meta ''tts_profile_id'')) in
      and_then
        (if requested = [] \<and> profile \<noteq> []
         then py (and_then (uitem (sv_registry s) ''voices'') (\<lambda>v.
                  and_then (u_iter v) (voice_for_profile L profile)))
         else Inr requested) (\<lambda>mapped.
      and_then
        (if mapped = [] \<and> meta = [] then default_voice_id L env (sv_registry s) else Inr mapped)
        (\<lambda>voice_id.
      if voice_id = [] then Inr []
      else if voice_id \<notin> set (sv_known s) then Inl Catalog_Error
      else Inr voice_id)))"

definition unmapped_voice_result :: "bool \<Rightarrow> udict" where
  "unmapped_voice_result list_request =
     (if list_request
      then [(u ''kind'', UText (u ''singing_catalog'')), (u ''voice_id'', UText []),
            (u ''query'', UText []), (u ''total_available'', UInt 0), (u ''songs'', UArr []),
            (u ''has_more'', UBool False), (u ''next_cursor'', UText []),
            (u ''message'', UText NO_SONGS_TEXT)]
      else [(u ''kind'', UText (u ''singing_unavailable'')),
            (u ''reason'', UText (u ''voice_not_mapped'')), (u ''voice_id'', UText []),
            (u ''message'', UText NO_SONGS_TEXT)])"

definition song_summary :: "pylib \<Rightarrow> udict \<Rightarrow> py_exn + uvalue" where
  "song_summary L song =
     and_then (uitem song ''id'') (\<lambda>i.
     and_then (uitem song ''title'') (\<lambda>title.
     Inr (UObj [(u ''song_id'', i), (u ''title'', title),
       (u ''artist'', UText (str_or_empty L (uget song ''artist'')))])))"

definition round4 :: "pylib \<Rightarrow> rat \<Rightarrow> rat" where
  \<comment> \<open>\<open>round(x, 4)\<close>: half to even on the exact value\<close>
  "round4 L x =
     (let y = x * 10000; f = floor y; r = y - of_int f;
          n = (if r < 1 / 2 \<or> (r = 1 / 2 \<and> even f) then f else f + 1)
      in fl L (of_int n / 10000))"

definition unavailable :: "string \<Rightarrow> utext \<Rightarrow> utext \<Rightarrow> udict \<Rightarrow> udict" where
  "unavailable reason voice_id message middle =
     [(u ''kind'', UText (u ''singing_unavailable'')), (u ''reason'', UText (u reason))] @ middle
     @ [(u ''voice_id'', UText voice_id), (u ''message'', UText message)]"

definition sing :: "pylib \<Rightarrow> uvalue \<Rightarrow> (utext \<times> rat) option \<Rightarrow> utext \<Rightarrow> sing_exn + udict" where
  \<comment> \<open>the end of \<open>play_song\<close>, once a song is chosen\<close>
  "sing L song_value matched voice_id =
     and_then (py (as_dict song_value)) (\<lambda>song.
     and_then (py (song_variant song voice_id)) (\<lambda>found.
     case found of
       None \<Rightarrow>
         and_then (py (uitem song ''id'')) (\<lambda>i.
         and_then (py (uitem song ''title'')) (\<lambda>title.
         Inr (unavailable ''voice_variant_missing'' voice_id NOT_LEARNED_TEXT
               [(u ''song_id'', i), (u ''title'', title)])))
     | Some variant \<Rightarrow>
         and_then (song_identity L song voice_id) (\<lambda>result.
         and_then (py (and_then (uitem variant ''duration_seconds'') (u_float L))) (\<lambda>seconds.
         Inr (result @ [(u ''duration_seconds'', UFloat seconds)]
           @ (case matched of None \<Rightarrow> []
              | Some (query, score) \<Rightarrow>
                  [(u ''match'', UObj [(u ''query'', UText query),
                                       (u ''confidence'', UFloat (round4 L score))])]))))))"

definition play_song ::
  "pylib \<Rightarrow> (uvalue list \<Rightarrow> uvalue) \<Rightarrow> singing_service \<Rightarrow> utext \<Rightarrow> utext \<Rightarrow> sing_exn + udict" where
  "play_song L pick s query voice_id =
     and_then (available_songs voice_id (sv_catalog s)) (\<lambda>available.
     if available = [] then Inr (unavailable ''voice_has_no_songs'' voice_id NO_SONGS_TEXT [])
     else and_then (py (and_then (catalog_songs (sv_catalog s)) (traverse as_dict))) (\<lambda>all_songs.
     and_then (py (match_song L (AMBIGUITY_GAP L) query all_songs)) (\<lambda>m.
     case (sm_status m, sm_best m) of
       (Generic, _) \<Rightarrow> sing L (pick available) None voice_id
     | (Ambiguous, _) \<Rightarrow>
         and_then (py (traverse (\<lambda>c. song_summary L (mc_song c)) (sm_candidates m))) (\<lambda>cs.
         Inr [(u ''kind'', UText (u ''singing_clarification'')),
              (u ''reason'', UText (u ''ambiguous_song'')),
              (u ''query'', UText (sm_query m)), (u ''candidates'', UArr cs)])
     | (Matched, Some best) \<Rightarrow>
         sing L (UObj (mc_song best)) (Some (sm_query m, mc_score best)) voice_id
     | _ \<Rightarrow> Inr (unavailable ''song_not_found'' voice_id NOT_LEARNED_TEXT
              [(u ''query'', UText (sm_query m))]))))"

definition mentions :: "pylib \<Rightarrow> utext \<Rightarrow> udict \<Rightarrow> py_exn + bool" where
  \<comment> \<open>the query occurs in the title, the artist or an alias\<close>
  "mentions L n song =
     (if u_in n (normalize_text L (str_or_empty L (uget song ''title'')))
         \<or> u_in n (normalize_text L (str_or_empty L (uget song ''artist'')))
      then Inr True
      else and_then (iter_or_empty (uget song ''aliases'')) (\<lambda>aliases.
           Inr (list_ex (\<lambda>a. u_in n (normalize_text L (u_str L a))) aliases)))"

fun mentioning :: "pylib \<Rightarrow> utext \<Rightarrow> udict list \<Rightarrow> py_exn + udict list" where
  "mentioning L n [] = Inr []"
| "mentioning L n (song # songs) =
     and_then (mentions L n song) (\<lambda>b.
     and_then (mentioning L n songs) (\<lambda>rest.
     Inr (if b then song # rest else rest)))"

definition search_songs :: "pylib \<Rightarrow> utext \<Rightarrow> udict list \<Rightarrow> py_exn + udict list" where
  \<comment> \<open>the songs \<open>list_songs\<close> offers for a query\<close>
  "search_songs L query available =
     (let n = normalize_text L query in
      if n = [] then Inr available
      else and_then (mentioning L n available) (\<lambda>direct.
           if direct \<noteq> [] then Inr direct
           else and_then (match_song L (AMBIGUITY_GAP L) query available) (\<lambda>m.
                Inr (map mc_song
                  (case sm_status m of
                     Ambiguous \<Rightarrow> sm_candidates m
                   | Matched \<Rightarrow> (case sm_best m of None \<Rightarrow> [] | Some best \<Rightarrow> [best])
                   | _ \<Rightarrow> [])))))"

definition read_cursor :: "utext \<Rightarrow> sing_exn + nat" where
  "read_cursor cursor =
     (case u_int (UText (if cursor = [] then u ''0'' else cursor)) of
        Inl ValueError \<Rightarrow> Inl Catalog_Error
      | Inl e \<Rightarrow> Inl (Py_Error e)
      | Inr offset \<Rightarrow> if offset < 0 then Inl Catalog_Error else Inr (nat offset))"

definition safe_limit :: "int \<Rightarrow> nat" where
  "safe_limit limit = nat (max 1 (min limit 10))"

record song_page =
  pg_songs :: "uvalue list"
  pg_total :: nat
  pg_next :: "nat option"

definition page_of :: "pylib \<Rightarrow> udict list \<Rightarrow> nat \<Rightarrow> nat \<Rightarrow> py_exn + song_page" where
  "page_of L songs offset n =
     (let page = take n (drop offset songs); next_offset = offset + length page in
      and_then (traverse (song_summary L) page) (\<lambda>listed.
      Inr \<lparr>pg_songs = listed, pg_total = length songs,
           pg_next = (if next_offset < length songs then Some next_offset else None)\<rparr>))"

definition page_result :: "utext \<Rightarrow> utext \<Rightarrow> song_page \<Rightarrow> udict" where
  "page_result query voice_id p =
     [(u ''kind'', UText (u ''singing_catalog'')), (u ''voice_id'', UText voice_id),
      (u ''query'', UText query), (u ''total_available'', UInt (int (pg_total p))),
      (u ''songs'', UArr (pg_songs p)), (u ''has_more'', UBool (pg_next p \<noteq> None)),
      (u ''next_cursor'', UText (case pg_next p of None \<Rightarrow> [] | Some n \<Rightarrow> u (int_text (int n)))),
      (u ''message'', UText (if pg_total p = 0 then NOT_LEARNED_TEXT else []))]"

definition list_songs ::
  "pylib \<Rightarrow> singing_service \<Rightarrow> utext \<Rightarrow> utext \<Rightarrow> int \<Rightarrow> utext \<Rightarrow> sing_exn + udict" where
  "list_songs L s query voice_id limit cursor =
     and_then (read_cursor cursor) (\<lambda>offset.
     and_then (available_songs voice_id (sv_catalog s)) (\<lambda>available.
     and_then (py (traverse as_dict available)) (\<lambda>songs.
     and_then (py (search_songs L query songs)) (\<lambda>offered.
     and_then (py (page_of L offered offset (safe_limit limit))) (\<lambda>p.
     Inr (page_result query voice_id p))))))"

end
