(* ===== verification/Edit_Distance.thy ===== *)
theory Edit_Distance
  imports Song_Matcher
begin

text \<open>
  The two-row loop of \<open>_edit_distance\<close> against its reference: the least number of insertions,
  deletions and replacements of one character that turn one text into the other.  In between
  stands the textbook recursion \<open>lev\<close>.
\<close>

inductive one_edit :: "'a list \<Rightarrow> 'a list \<Rightarrow> bool" where
  insert_char: "one_edit (a @ b) (a @ c # b)"
| delete_char: "one_edit (a @ c # b) (a @ b)"
| replace_char: "one_edit (a @ c # b) (a @ d # b)"

lemma one_edit_Cons: "one_edit xs ys \<Longrightarrow> one_edit (z # xs) (z # ys)"
  by (induction rule: one_edit.induct) (metis append_Cons one_edit.intros)+

lemma one_edit_rev: "one_edit xs ys \<Longrightarrow> one_edit (rev xs) (rev ys)"
  by (induction rule: one_edit.induct) (simp_all add: one_edit.intros)

lemma edits_Cons: "(one_edit ^^ n) xs ys \<Longrightarrow> (one_edit ^^ n) (z # xs) (z # ys)"
proof (induction n arbitrary: ys)
  case (Suc n)
  then obtain zs where "(one_edit ^^ n) xs zs" "one_edit zs ys" by auto
  with Suc.IH one_edit_Cons show ?case by (metis relpowp_Suc_I)
qed simp

lemma edits_rev: "(one_edit ^^ n) xs ys \<Longrightarrow> (one_edit ^^ n) (rev xs) (rev ys)"
proof (induction n arbitrary: ys)
  case (Suc n)
  then obtain zs where "(one_edit ^^ n) xs zs" "one_edit zs ys" by auto
  with Suc.IH one_edit_rev show ?case by (metis relpowp_Suc_I)
qed simp

lemma edit_head:
  "one_edit xs (c # xs)" "one_edit (c # xs) xs" "one_edit (c # xs) (d # xs)"
  using insert_char [of "[]"] delete_char [of "[]"] replace_char [of "[]"] by simp_all

fun lev :: "'a list \<Rightarrow> 'a list \<Rightarrow> nat" where
  "lev [] ys = length ys"
| "lev (x # xs) [] = length (x # xs)"
| "lev (x # xs) (y # ys) =
     min (min (lev (x # xs) ys + 1) (lev xs (y # ys) + 1)) (lev xs ys + (if x \<noteq> y then 1 else 0))"

lemma lev_Nil2 [simp]: "lev xs [] = length xs"
  by (cases xs) auto

lemma lev_same [simp]: "lev xs xs = 0"
  by (induction xs) auto

subsection \<open>The recursion is the least number of edits\<close>

lemma edits_lev: "(one_edit ^^ lev xs ys) xs ys"
proof (induction xs ys rule: lev.induct)
  case (1 ys)
  show ?case
    by (induction ys) (auto intro: relpowp_Suc_I edit_head)
next
  case (2 x xs)
  have "(one_edit ^^ length zs) zs []" for zs :: "'a list"
  proof (induction zs)
    case (Cons z zs)
    then show ?case using relpowp_Suc_I2 [of one_edit "z # zs" zs] edit_head(2) by fastforce
  qed simp
  from this [of "x # xs"] show ?case by (simp only: lev.simps)
next
  case (3 x xs y ys)
  have "(one_edit ^^ Suc (lev (x # xs) ys)) (x # xs) (y # ys)"
    using relpowp_Suc_I [OF 3(1) edit_head(1)] .
  moreover have "(one_edit ^^ Suc (lev xs (y # ys))) (x # xs) (y # ys)"
    using relpowp_Suc_I2 [where P = one_edit, OF edit_head(2) 3(2)] .
  moreover have "(one_edit ^^ (lev xs ys + (if x \<noteq> y then 1 else 0))) (x # xs) (y # ys)"
    using edits_Cons [OF 3(3), of y] relpowp_Suc_I2 [where P = one_edit, OF edit_head(3)] by auto
  ultimately show ?case by (simp only: lev.simps min_def Suc_eq_plus1) (simp split: if_splits)
qed

lemma lev_drop_head: "lev (c # xs) ys \<le> Suc (lev xs ys)"
  by (cases ys) auto

lemma lev_drop_head2: "lev xs (c # ys) \<le> Suc (lev xs ys)"
  by (cases xs) auto

lemma lev_add_head: "lev xs ys \<le> Suc (lev (c # xs) ys)"
proof (induction ys)
  case (Cons y ys)
  then show ?case using lev_drop_head2 [of xs y ys] by (simp only: lev.simps)
qed simp

lemma lev_replace_head: "lev (c # xs) ys \<le> Suc (lev (d # xs) ys)"
  by (induction ys) auto

lemma lev_keep_head:
  assumes "\<And>ys. lev xs ys \<le> Suc (lev xs' ys)" shows "lev (z # xs) ys \<le> Suc (lev (z # xs') ys)"
proof (induction ys)
  case Nil
  then show ?case using assms [of "[]"] by simp
next
  case (Cons y ys)
  then show ?case using assms [of ys] assms [of "y # ys"] by (simp only: lev.simps)
qed

lemma lev_one_edit: "one_edit xs xs' \<Longrightarrow> lev xs ys \<le> Suc (lev xs' ys)"
proof (induction arbitrary: ys rule: one_edit.induct)
  case (insert_char a b c)
  then show ?case by (induction a arbitrary: ys) (auto intro: lev_add_head lev_keep_head)
next
  case (delete_char a c b)
  then show ?case by (induction a arbitrary: ys) (auto intro: lev_drop_head lev_keep_head)
next
  case (replace_char a c b d)
  then show ?case by (induction a arbitrary: ys) (auto intro: lev_replace_head lev_keep_head)
qed

lemma lev_least: "(one_edit ^^ n) xs ys \<Longrightarrow> lev xs ys \<le> n"
proof (induction n arbitrary: xs)
  case (Suc n)
  then obtain zs where "one_edit xs zs" "(one_edit ^^ n) zs ys" by (metis relpowp_Suc_D2)
  then show ?case using lev_one_edit [of xs zs ys] Suc.IH [of zs] by linarith
qed simp

lemma lev_rev: "lev (rev xs) (rev ys) = lev xs ys"
proof (rule antisym)
  show "lev (rev xs) (rev ys) \<le> lev xs ys" by (rule lev_least [OF edits_rev [OF edits_lev]])
  have "(one_edit ^^ lev (rev xs) (rev ys)) xs ys"
    using edits_rev [OF edits_lev, of "rev xs" "rev ys"] by simp
  then show "lev xs ys \<le> lev (rev xs) (rev ys)" by (rule lev_least)
qed

subsection \<open>The loop computes the recursion\<close>

text \<open>The cells of a row right of the columns \<open>p\<close> already passed (reversed): the distances of the
  reversed left prefix \<open>a\<close> to the longer and longer reversed right prefixes.\<close>

fun row_from :: "'a list \<Rightarrow> 'a list \<Rightarrow> 'a list \<Rightarrow> nat list" where
  "row_from a p [] = []"
| "row_from a p (r # rs) = lev a (r # p) # row_from a (r # p) rs"

lemma edit_cells_row_from:
  "edit_cells (lev (l # a) p) rs (lev a p) (row_from a p rs) l = row_from (l # a) p rs"
proof (induction rs arbitrary: p)
  case (Cons r rs)
  have "min (min (lev (l # a) p + 1) (lev a (r # p) + 1)) (lev a p + (if l \<noteq> r then 1 else 0))
      = lev (l # a) (r # p)"
    by simp
  then show ?case by (simp only: edit_cells.simps row_from.simps Let_def Cons.IH)
qed simp

lemma row_from_Nil: "row_from [] p rs = [length p + 1 ..< length p + 1 + length rs]"
  by (induction rs arbitrary: p) (simp_all add: upt_rec)

lemma last_row_from: "rs \<noteq> [] \<Longrightarrow> last (row_from a p rs) = lev a (rev rs @ p)"
proof (induction rs arbitrary: p)
  case (Cons r rs)
  then show ?case by (cases rs) auto
qed simp

lemma edit_rows_row_from:
  "edit_rows right (length a + 1) left (lev a [] # row_from a [] right)
    = lev (rev left @ a) [] # row_from (rev left @ a) [] right"
proof (induction left arbitrary: a)
  case (Cons l left)
  have "edit_row right (length a + 1) l (lev a [] # row_from a [] right)
      = lev (l # a) [] # row_from (l # a) [] right"
    using edit_cells_row_from [of l a "[]" right] by (simp add: edit_row_def)
  with Cons.IH [of "l # a"] show ?case by simp
qed simp

lemma edit_distance_lev: "edit_distance left right = lev left right"
proof (cases "left = right \<or> left = [] \<or> right = []")
  case True
  then show ?thesis by (auto simp: edit_distance_def)
next
  case False
  have "[0..<length right + 1] = lev [] [] # row_from [] [] right"
    by (simp add: row_from_Nil upt_conv_Cons del: upt_Suc)
  then have "edit_rows right 1 left [0..<length right + 1]
      = lev (rev left) [] # row_from (rev left) [] right"
    using edit_rows_row_from [of right "[]" left] by simp
  moreover have "last (lev (rev left) [] # row_from (rev left) [] right) = lev left right"
    using False last_row_from [of right "rev left" "[]"] lev_rev [of left right]
    by (cases right) (auto simp del: lev.simps)
  ultimately show ?thesis using False by (simp only: edit_distance_def de_Morgan_disj if_False simp_thms)
qed

text \<open>\<open>_edit_distance\<close>, a table computed with two rows, returns the least number of single
  character insertions, deletions and replacements that turn the left text into the right one.\<close>

theorem edit_distance_is_least:
  "(one_edit ^^ edit_distance left right) left right \<and>
   edit_distance left right = (LEAST n. (one_edit ^^ n) left right)"
  by (auto simp: edit_distance_lev edits_lev intro!: Least_equality [symmetric] lev_least)

lemma edit_distance_bound: "edit_distance left right \<le> max (length left) (length right)"
proof -
  have "lev left right \<le> max (length left) (length right)"
    by (induction left right rule: lev.induct) auto
  then show ?thesis by (simp add: edit_distance_lev)
qed

lemma edit_distance_0_iff: "edit_distance left right = 0 \<longleftrightarrow> left = right"
  using edits_lev [of left right] by (auto simp: edit_distance_lev)

end
