(* ===== verification/Song_Matcher_Facts.thy ===== *)
theory Song_Matcher_Facts
  imports Edit_Distance
begin

text \<open>
  What the matcher guarantees: the query it extracts, the range of the similarity, and the
  verdict on the ranked songs.  The rounding of floating point is only assumed to be monotone
  and exact on 0 and 1.
\<close>

definition rounding_ok :: "pylib \<Rightarrow> bool" where
  "rounding_ok L \<longleftrightarrow> mono (fl L) \<and> fl L 0 = 0 \<and> fl L 1 = 1"

definition exact_lib :: pylib where
  \<comment> \<open>a library for the examples: no folding, exact arithmetic\<close>
  "exact_lib = \<lparr>fold_table = (\<lambda>c. [c]), lower_table = (\<lambda>c. [c]), digit_table = (\<lambda>_. False), word_table = (\<lambda>_. False),
     text_of_value = (\<lambda>_. []), float_of_text = (\<lambda>_. None), fl = (\<lambda>r. r)\<rparr>"

lemma rounding_exact_lib [simp]: "rounding_ok exact_lib"
  by (simp add: rounding_ok_def exact_lib_def mono_def)

lemma fl_le: "rounding_ok L \<Longrightarrow> a \<le> b \<Longrightarrow> fl L a \<le> fl L b"
  by (auto simp: rounding_ok_def dest: monoD)

lemma fl_unit: "rounding_ok L \<Longrightarrow> 0 \<le> a \<Longrightarrow> a \<le> 1 \<Longrightarrow> 0 \<le> fl L a \<and> fl L a \<le> 1"
  by (metis fl_le rounding_ok_def)

subsection \<open>The extracted query\<close>

lemma strip_prefixes_spec:
  "(\<exists>r. t = r @ strip_prefixes L t) \<and>
   (strip_prefixes L t \<noteq> [] \<longrightarrow> (\<forall>p \<in> set REQUEST_PREFIXES. \<not> u_starts (strip_prefixes L t) p))"
proof (induction L t rule: strip_prefixes.induct)
  case (2 L c cs)
  show ?case
  proof (cases "find (\<lambda>p. u_starts (c # cs) (normalize_text L p)) REQUEST_PREFIXES")
    case None
    then have "\<forall>p \<in> set REQUEST_PREFIXES. \<not> u_starts (c # cs) p"
      using normalize_affix by (auto simp: find_None_iff)
    with None show ?thesis by (simp add: strip_prefixes.simps)
  next
    case (Some p)
    from find_affix [OF this] have p: "u_starts (c # cs) p" "normalize_text L p = p" by auto
    let ?t = "drop (length p) (c # cs)"
    have step: "strip_prefixes L (c # cs) = strip_prefixes L ?t"
      using Some p by (simp add: strip_prefixes.simps)
    from p have "c # cs = p @ ?t" by (auto simp: u_starts_iff)
    then show ?thesis using 2 [OF Some] unfolding step p(2) by (metis append.assoc)
  qed
qed (simp add: strip_prefixes.simps)

lemma strip_suffixes_spec:
  "(\<exists>r. t = strip_suffixes L t @ r) \<and>
   (strip_suffixes L t \<noteq> [] \<longrightarrow> (\<forall>p \<in> set REQUEST_SUFFIXES. \<not> u_ends (strip_suffixes L t) p))"
proof (induction L t rule: strip_suffixes.induct)
  case (2 L c cs)
  show ?case
  proof (cases "find (\<lambda>p. u_ends (c # cs) (normalize_text L p)) REQUEST_SUFFIXES")
    case None
    then have "\<forall>p \<in> set REQUEST_SUFFIXES. \<not> u_ends (c # cs) p"
      using normalize_affix by (auto simp: find_None_iff)
    with None show ?thesis by (simp add: strip_suffixes.simps)
  next
    case (Some p)
    from find_affix [OF this] have p: "u_ends (c # cs) p" "normalize_text L p = p" by auto
    let ?t = "take (length (c # cs) - length p) (c # cs)"
    have step: "strip_suffixes L (c # cs) = strip_suffixes L ?t"
      using Some p by (simp add: strip_suffixes.simps)
    from p have "c # cs = ?t @ p" by (metis append_take_drop_id u_ends_def)
    then show ?thesis using 2 [OF Some] unfolding step p(2) by (metis append.assoc)
  qed
qed (simp add: strip_suffixes.simps)

text \<open>The stripping loops of \<open>extract_song_query\<close> end for every request (they are total functions,
  by the length of what is left); the query is a contiguous part of the normalised request, and
  unless it is empty no phrase of request starts it and none ends it.\<close>

theorem extracted_query_is_stripped:
  "(\<exists>a b. normalize_text L t = a @ extract_song_query L t @ b) \<and>
   (extract_song_query L t = [] \<or>
    list_all (\<lambda>p. \<not> u_starts (extract_song_query L t) p) REQUEST_PREFIXES \<and>
    list_all (\<lambda>p. \<not> u_ends (extract_song_query L t) p) REQUEST_SUFFIXES)"
proof -
  define n where "n = strip_prefixes L (normalize_text L t)"
  define e where "e = strip_suffixes L n"
  have e: "extract_song_query L t = e" by (simp add: extract_song_query_def e_def n_def)
  obtain a where a: "normalize_text L t = a @ n"
    using strip_prefixes_spec [of "normalize_text L t" L] unfolding n_def by blast
  obtain b where b: "n = e @ b"
    using strip_suffixes_spec [of n L] unfolding e_def by blast
  have "\<not> u_starts e p" if "e \<noteq> []" "p \<in> set REQUEST_PREFIXES" for p
    using strip_prefixes_spec [of "normalize_text L t" L] that b
    unfolding n_def [symmetric] by (auto simp: u_starts_iff)
  moreover have "\<not> u_ends e p" if "e \<noteq> []" "p \<in> set REQUEST_SUFFIXES" for p
    using strip_suffixes_spec [of n L] that unfolding e_def by blast
  ultimately show ?thesis using a b unfolding e by (auto simp: list_all_iff)
qed

subsection \<open>Scores\<close>

lemma similarity_unit:
  assumes "rounding_ok L" shows "0 \<le> similarity L a b \<and> similarity L a b \<le> 1"
proof -
  let ?a = "normalize_text L a" and ?b = "normalize_text L b"
  define n where "n = max (length ?a) (length ?b)"
  define d where "d = edit_distance ?a ?b"
  have "d \<le> n" unfolding d_def n_def by (rule edit_distance_bound)
  then have "0 \<le> fl L (of_nat d / of_nat n) \<and> fl L (of_nat d / of_nat n) \<le> 1" if "n > 0"
    using that by (intro fl_unit [OF assms]) (auto simp: divide_le_eq_1)
  then have "0 \<le> fl L (1 - fl L (of_nat d / of_nat n)) \<and> fl L (1 - fl L (of_nat d / of_nat n)) \<le> 1"
    if "n > 0"
    using that by (intro fl_unit [OF assms]) auto
  then show ?thesis
    unfolding similarity_def Let_def n_def [symmetric] d_def [symmetric] by simp
qed

text \<open>The similarity of two texts lies between 0 and 1, is the same when they are exchanged, and
  is 1 for texts that agree up to case, spaces and punctuation.\<close>

theorem similarity_range:
  assumes "rounding_ok L"
  shows "0 \<le> similarity L a b \<and> similarity L a b \<le> 1
    \<and> similarity L a b = similarity L b a
    \<and> (normalize_text L a \<noteq> normalize_text L b \<or> similarity L a b = 1)"
proof -
  have sym: "edit_distance x y = edit_distance y x" for x y :: utext
  proof -
    have "lev x y = lev y x"
      by (induction x y rule: lev.induct) (auto simp: min_def)
    then show ?thesis by (simp add: edit_distance_lev)
  qed
  have "similarity L a b = 1" if "normalize_text L a = normalize_text L b"
    using assms that by (simp add: similarity_def edit_distance_def rounding_ok_def Let_def)
  then show ?thesis
    using similarity_unit [OF assms] by (auto simp: similarity_def Let_def sym max.commute)
qed

lemma similarity_range_witness:
  "0 \<le> similarity exact_lib (u ''Ai Ni'') (u ''aini'')
    \<and> similarity exact_lib (u ''Ai Ni'') (u ''aini'') \<le> 1"
  using similarity_range [OF rounding_exact_lib] by simp

lemma score_term_keeps: "min 1 best \<le> score_term L original extracted t best"
  by (auto simp: score_term_def Let_def)

lemma score_term_exact: "1 \<le> score_term L original t t best"
  by (auto simp: score_term_def Let_def)

lemma fold_score_keeps: "1 \<le> best \<Longrightarrow> 1 \<le> fold (score_term L original extracted) ts best"
proof (induction ts arbitrary: best)
  case (Cons t ts)
  then show ?case using score_term_keeps [of best L original extracted t] by simp
qed simp

lemma fold_score_exact: "extracted \<in> set ts \<Longrightarrow> 1 \<le> fold (score_term L original extracted) ts best"
proof (induction ts arbitrary: best)
  case (Cons t ts)
  then show ?case by (auto intro: fold_score_keeps score_term_exact)
qed simp

lemma minimum_score_le_1: "rounding_ok L \<Longrightarrow> minimum_score L q \<le> 1"
  using fl_unit [of L] by (auto simp: minimum_score_def)

subsection \<open>The verdict\<close>

lemma rank_songs_Inr:
  assumes "rank_songs L original extracted songs = Inr ranked"
  shows "sorted (map (rank_key L) ranked)"
    and "c \<in> set ranked \<Longrightarrow>
      mc_song c \<in> set songs \<and> song_score L original extracted (mc_song c) = Inr (mc_score c)"
    and "song \<in> set songs \<Longrightarrow> song_score L original extracted song = Inr s
      \<Longrightarrow> \<lparr>mc_song = song, mc_score = s\<rparr> \<in> set ranked"
    and "song \<in> set songs \<Longrightarrow> \<exists>s. song_score L original extracted song = Inr s"
proof -
  let ?f = "\<lambda>song. and_then (song_score L original extracted song) (\<lambda>s.
      Inr \<lparr>mc_song = song, mc_score = s\<rparr>)"
  obtain cs where cs: "traverse ?f songs = Inr cs" and r: "ranked = sort_key (rank_key L) cs"
    using assms by (auto simp: rank_songs_def and_then_Inr_iff)
  show "sorted (map (rank_key L) ranked)" by (simp add: r)
  show "mc_song c \<in> set songs \<and> song_score L original extracted (mc_song c) = Inr (mc_score c)"
    if "c \<in> set ranked"
    using traverse_Inr_set [OF cs, of c] that by (auto simp: r and_then_Inr_iff)
  have all: "list_all2 (\<lambda>x y. ?f x = Inr y) songs cs" using cs by (simp add: traverse_Inr_iff)
  show "\<lparr>mc_song = song, mc_score = s\<rparr> \<in> set ranked"
    if "song \<in> set songs" "song_score L original extracted song = Inr s"
  proof -
    from that(1) obtain i where "i < length songs" "songs ! i = song" by (auto simp: in_set_conv_nth)
    with all that(2) have "cs ! i = \<lparr>mc_song = song, mc_score = s\<rparr>" "i < length cs"
      by (auto simp: list_all2_conv_all_nth)
    then show ?thesis by (auto simp: r in_set_conv_nth)
  qed
  show "\<exists>s. song_score L original extracted song = Inr s" if "song \<in> set songs"
    using all that by (auto simp: list_all2_conv_all_nth in_set_conv_nth and_then_Inr_iff)
qed

lemma rank_key_le: "rank_key L c \<le> rank_key L d \<Longrightarrow> mc_score d \<le> mc_score c"
  by (auto simp: rank_key_def less_eq_prod_def)

lemma ranked_scores: "sorted (map (rank_key L) cs) \<Longrightarrow> sorted_wrt (\<lambda>c d. mc_score d \<le> mc_score c) cs"
  by (auto simp: sorted_map elim: sorted_wrt_mono_rel [rotated] intro: rank_key_le)

lemmas ranked_order = ranked_scores [OF rank_songs_Inr(1)]

lemma match_song_ranked:
  assumes "match_song L gap q songs = Inr m" and "sm_status m \<noteq> Generic"
  obtains ranked where
    "rank_songs L (normalize_text L q) (extract_song_query L q) songs = Inr ranked"
    "m = judge_ranked L gap (extract_song_query L q) ranked"
  using assms by (auto simp: match_song_def Let_def and_then_Inr_iff split: if_splits)

text \<open>The accepted candidates, best first.\<close>

abbreviation accepted :: "pylib \<Rightarrow> utext \<Rightarrow> match_candidate list \<Rightarrow> match_candidate list" where
  "accepted L e ranked \<equiv> filter (\<lambda>c. minimum_score L e \<le> mc_score c) ranked"

lemma judge_cases:
  obtains (none) "accepted L e ranked = []" "sm_status (judge_ranked L gap e ranked) = Not_Found"
  | (one) c where "accepted L e ranked = [c]" "sm_status (judge_ranked L gap e ranked) = Matched"
      "sm_best (judge_ranked L gap e ranked) = Some c"
  | (close) c d cs where "accepted L e ranked = c # d # cs"
      "fl L (mc_score c - mc_score d) < gap"
      "sm_status (judge_ranked L gap e ranked) = Ambiguous"
      "sm_candidates (judge_ranked L gap e ranked) = take 3 (c # d # cs)"
  | (clear) c d cs where "accepted L e ranked = c # d # cs"
      "\<not> fl L (mc_score c - mc_score d) < gap"
      "sm_status (judge_ranked L gap e ranked) = Matched"
      "sm_best (judge_ranked L gap e ranked) = Some c"
proof (cases "accepted L e ranked")
  case Nil
  then show ?thesis using none by (simp add: judge_ranked_def)
next
  case (Cons c cs)
  show ?thesis
  proof (cases cs)
    case Nil
    with Cons show ?thesis using one by (simp add: judge_ranked_def)
  next
    case (Cons d ds)
    with \<open>accepted L e ranked = c # cs\<close> show ?thesis
      using close clear by (cases "fl L (mc_score c - mc_score d) < gap") (auto simp: judge_ranked_def)
  qed
qed

lemma accepted_order:
  assumes "rank_songs L original e songs = Inr ranked"
  shows "sorted_wrt (\<lambda>c d. mc_score d \<le> mc_score c) (accepted L e ranked)"
  by (rule sorted_wrt_filter [OF ranked_order [OF assms]])

definition sample_songs :: "udict list" where
  "sample_songs =
     [[(u ''id'', UText (u ''001'')), (u ''title'', UText (u ''aini''))],
      [(u ''id'', UText (u ''002'')), (u ''title'', UText (u ''hongdou'')),
       (u ''artist'', UText (u ''wang''))]]"

definition sample_request :: utext where
  \<comment> \<open>please sing: Wang, hongdou\<close>
  "sample_request = [0x8BF7, 0x5531, 0x9996] @ u ''wang, hongdou''"

lemma sample_match:
  "map_sum id sm_status (match_song exact_lib (8 / 100) sample_request sample_songs) = Inr Matched"
  by code_simp

lemma sample_terms:
  "song_terms exact_lib (sample_songs ! 1)
    = Inr [u ''hongdou'', u ''wanghongdou'', u ''wang'' @ [0x7684] @ u ''hongdou'']"
  by code_simp

lemma sample_query: "extract_song_query exact_lib sample_request = u ''wanghongdou''"
  by code_simp

lemma sample_answer:
  obtains m where "match_song exact_lib (8 / 100) sample_request sample_songs = Inr m"
    "sm_status m = Matched"
  using sample_match by (cases "match_song exact_lib (8 / 100) sample_request sample_songs") auto

text \<open>The song \<open>match_song\<close> settles on is one of the songs given, reaches the least score for a
  query of that length, scores no less than any other song, and every other song that reaches
  the least score is behind it by at least the ambiguity gap.\<close>

theorem matched_song_is_clear_best:
  assumes "match_song L gap q songs = Inr m" and "sm_status m = Matched" and "rounding_ok L"
  shows "\<exists>c. sm_best m = Some c \<and> mc_song c \<in> set songs
    \<and> song_score L (normalize_text L q) (extract_song_query L q) (mc_song c) = Inr (mc_score c)
    \<and> minimum_score L (extract_song_query L q) \<le> mc_score c
    \<and> (\<forall>song \<in> set songs. \<exists>s. song_score L (normalize_text L q) (extract_song_query L q) song = Inr s
        \<and> s \<le> mc_score c
        \<and> (song = mc_song c \<or> s < minimum_score L (extract_song_query L q)
           \<or> gap \<le> fl L (mc_score c - s)))"
proof -
  define e where "e = extract_song_query L q"
  define score where "score = song_score L (normalize_text L q) e"
  obtain ranked where r: "rank_songs L (normalize_text L q) e songs = Inr ranked"
    and m: "m = judge_ranked L gap e ranked"
    using match_song_ranked [OF assms(1)] assms(2) unfolding e_def by auto
  note R = rank_songs_Inr [OF r, folded score_def]
  obtain c cs where acc: "accepted L e ranked = c # cs" and best: "sm_best m = Some c"
    and gap: "\<And>d ds. cs = d # ds \<Longrightarrow> \<not> fl L (mc_score c - mc_score d) < gap"
    using assms(2) unfolding m by (cases rule: judge_cases [of L e ranked gap]) auto
  have "set (accepted L e ranked) = insert c (set cs)" by (simp only: acc list.set)
  then have "c \<in> set (accepted L e ranked)" by blast
  then have c: "c \<in> set ranked" "minimum_score L e \<le> mc_score c" by auto
  have order: "sorted_wrt (\<lambda>c d. mc_score d \<le> mc_score c) (c # cs)"
    using accepted_order [OF r] unfolding acc .
  have others: "\<exists>s. score song = Inr s \<and> s \<le> mc_score c
      \<and> (song = mc_song c \<or> s < minimum_score L e \<or> gap \<le> fl L (mc_score c - s))"
    if song: "song \<in> set songs" for song
  proof -
    obtain s where s: "score song = Inr s" using R(4) [OF song] by auto
    define d where "d = \<lparr>mc_song = song, mc_score = s\<rparr>"
    have "d \<in> set ranked" using R(3) [OF song s] unfolding d_def .
    show ?thesis
    proof (cases "minimum_score L e \<le> s")
      case False
      with s c(2) show ?thesis by force
    next
      case True
      with \<open>d \<in> set ranked\<close> have "d \<in> set (accepted L e ranked)" by (simp add: d_def)
      then have d: "d = c \<or> d \<in> set cs" unfolding acc by auto
      then have "s \<le> mc_score c" using order by (auto simp: d_def)
      moreover have "gap \<le> fl L (mc_score c - s)" if "d \<in> set cs"
      proof -
        obtain x xs where cs: "cs = x # xs" using \<open>d \<in> set cs\<close> by (cases cs) auto
        have "mc_score d \<le> mc_score x" using order that unfolding cs by auto
        then have "fl L (mc_score c - mc_score x) \<le> fl L (mc_score c - s)"
          by (intro fl_le [OF assms(3)]) (simp add: d_def)
        with gap [OF cs] show ?thesis by simp
      qed
      ultimately show ?thesis using d s by (auto simp: d_def)
    qed
  qed
  with R(2) [OF c(1)] c(2) best show ?thesis unfolding e_def score_def by blast
qed

lemma matched_song_is_clear_best_witness:
  "\<exists>m c. match_song exact_lib (8 / 100) sample_request sample_songs = Inr m
    \<and> sm_best m = Some c \<and> mc_song c \<in> set sample_songs \<and> 68 / 100 \<le> mc_score c"
proof (rule sample_answer)
  fix m
  assume m: "match_song exact_lib (8 / 100) sample_request sample_songs = Inr m"
    "sm_status m = Matched"
  have "minimum_score exact_lib (u ''wanghongdou'') = 68 / 100"
    by (simp add: minimum_score_def exact_lib_def)
  with matched_song_is_clear_best [OF m rounding_exact_lib] m show ?thesis
    by (auto simp: sample_query)
qed

text \<open>A request from which exactly a title, alias, artist-and-title or slug of a song remains
  (all compared up to case, spaces and punctuation) is never answered ``not found''.\<close>

theorem exact_name_is_found:
  assumes "match_song L gap q songs = Inr m" and "rounding_ok L"
    and "song \<in> set songs" and "song_terms L song = Inr ts"
    and "extract_song_query L q \<in> set ts"
  shows "sm_status m \<noteq> Not_Found"
proof
  assume nf: "sm_status m = Not_Found"
  define e where "e = extract_song_query L q"
  obtain ranked where r: "rank_songs L (normalize_text L q) e songs = Inr ranked"
    and m: "m = judge_ranked L gap e ranked"
    using match_song_ranked [OF assms(1)] nf unfolding e_def by auto
  note R = rank_songs_Inr [OF r]
  obtain s where s: "song_score L (normalize_text L q) e song = Inr s"
    using R(4) [OF assms(3)] by auto
  have "1 \<le> s"
    using s assms(4,5) fold_score_exact [of e ts] by (auto simp: song_score_def e_def)
  then have "minimum_score L e \<le> s" using minimum_score_le_1 [OF assms(2), of e] by linarith
  with R(3) [OF assms(3) s] have "\<lparr>mc_song = song, mc_score = s\<rparr> \<in> set (accepted L e ranked)"
    by simp
  then have "accepted L e ranked \<noteq> []" by (metis empty_iff list.set(1))
  with nf show False unfolding m by (cases rule: judge_cases [of L e ranked gap]) auto
qed

lemma exact_name_is_found_witness:
  "\<exists>m. match_song exact_lib (8 / 100) sample_request sample_songs = Inr m
    \<and> sm_status m \<noteq> Not_Found"
proof (rule sample_answer)
  fix m
  assume m: "match_song exact_lib (8 / 100) sample_request sample_songs = Inr m"
    "sm_status m = Matched"
  have "sample_songs ! 1 \<in> set sample_songs" by (simp add: sample_songs_def)
  from exact_name_is_found [OF m(1) rounding_exact_lib this sample_terms] m show ?thesis
    by (auto simp: sample_query)
qed

end
