(* ===== verification/Singing_Facts.thy ===== *)
theory Singing_Facts
  imports Singing_Service Song_Matcher_Facts
begin

text \<open>
  A catalog that was loaded has a type that every later lookup relies on; with it the requests to
  sing and to list songs raise no exception of the language, sing only what the voice has, and
  the pages of a list together are the whole list.
\<close>

subsection \<open>The type of a loaded catalog\<close>

definition asset_of :: "pylib \<Rightarrow> utext \<times> uvalue \<Rightarrow> utext" where
  "asset_of L item = (case snd item of UObj d \<Rightarrow> str_or_empty L (uget d ''asset'') | _ \<Rightarrow> [])"

definition typed_variant :: "pylib \<Rightarrow> utext \<times> uvalue \<Rightarrow> bool" where
  "typed_variant L item \<longleftrightarrow> dash_id (fst item) \<and> asset_of L item \<noteq> []
     \<and> \<not> path_absolute (asset_of L item) \<and> u ''..'' \<notin> set (path_parts (asset_of L item))
     \<and> (\<exists>d r. snd item = UObj d \<and> sha256_text (str_or_empty L (uget d ''sha256''))
          \<and> u_float L (uget d ''duration_seconds'') = Inr r \<and> 0 < r)"

definition song_id_of :: "pylib \<Rightarrow> udict \<Rightarrow> utext" where
  "song_id_of L song = str_or_empty L (uget song ''id'')"

definition variants_of :: "udict \<Rightarrow> udict" where
  "variants_of song = (case uget song ''variants'' of UObj d \<Rightarrow> d | _ \<Rightarrow> [])"

definition typed_song :: "pylib \<Rightarrow> udict \<Rightarrow> bool" where
  "typed_song L song \<longleftrightarrow> dash_id (song_id_of L song)
     \<and> u_strip (str_or_empty L (uget song ''title'')) \<noteq> []
     \<and> uget song ''variants'' = UObj (variants_of song) \<and> variants_of song \<noteq> []
     \<and> (\<forall>x \<in> set (variants_of song). typed_variant L x)"

definition typed_songs :: "pylib \<Rightarrow> udict list \<Rightarrow> bool" where
  "typed_songs L songs \<longleftrightarrow> (\<forall>song \<in> set songs. typed_song L song)
     \<and> distinct (map (song_id_of L) songs)
     \<and> distinct (concat (map (\<lambda>song. map (asset_of L) (variants_of song)) songs))"

definition typed_catalog :: "pylib \<Rightarrow> udict \<Rightarrow> udict list \<Rightarrow> bool" where
  "typed_catalog L catalog songs \<longleftrightarrow>
     map_of catalog (u ''songs'') = Some (UArr (map UObj songs)) \<and> typed_songs L songs"

lemma check_variant_typed:
  assumes "check_variant L item seen = Inr out"
  shows "typed_variant L item \<and> asset_of L item \<notin> set seen \<and> out = seen @ [asset_of L item]"
  using assms
  by (auto simp: check_variant_def typed_variant_def asset_of_def Let_def
      split: prod.splits uvalue.splits if_splits sum.splits)

lemma check_variants_typed:
  assumes "fold_steps (check_variant L) items seen = Inr out" and "distinct seen"
  shows "(\<forall>x \<in> set items. typed_variant L x) \<and> out = seen @ map (asset_of L) items \<and> distinct out"
  using assms
proof (induction items arbitrary: seen)
  case (Cons x items)
  then obtain mid where mid: "check_variant L x seen = Inr mid"
    and rest: "fold_steps (check_variant L) items mid = Inr out"
    by (auto simp: and_then_Inr_iff)
  from check_variant_typed [OF mid] Cons.prems(2)
  have "typed_variant L x" "mid = seen @ [asset_of L x]" "distinct mid" by auto
  with Cons.IH [OF rest] show ?case
    by (metis (no_types, lifting) append.assoc append_Cons append_Nil list.simps(9) set_ConsD)
qed simp

lemma check_song_typed:
  assumes "check_song L song (ids, assets) = Inr out" and "distinct assets"
  obtains d where "song = UObj d" "typed_song L d" "song_id_of L d \<notin> set ids"
    "out = (ids @ [song_id_of L d], assets @ map (asset_of L) (variants_of d))"
    "distinct (assets @ map (asset_of L) (variants_of d))"
proof -
  obtain d where d: "song = UObj d"
    using assms(1) by (cases song) (auto simp: check_song_def)
  obtain vs where vs: "uget d ''variants'' = UObj vs" "vs \<noteq> []"
    and id: "dash_id (song_id_of L d)" "song_id_of L d \<notin> set ids"
    and title: "u_strip (str_or_empty L (uget d ''title'')) \<noteq> []"
    and rest: "and_then (fold_steps (check_variant L) vs assets)
      (\<lambda>assets. Inr (ids @ [song_id_of L d], assets)) = Inr out"
    using assms(1)
    by (auto simp: d check_song_def song_id_of_def Let_def split: if_splits uvalue.splits)
  from rest obtain as where as: "fold_steps (check_variant L) vs assets = Inr as"
    and out: "out = (ids @ [song_id_of L d], as)"
    by (auto simp: and_then_Inr_iff)
  have "variants_of d = vs" using vs by (simp add: variants_of_def)
  moreover have "(\<forall>x \<in> set vs. typed_variant L x)" "as = assets @ map (asset_of L) vs"
    "distinct (assets @ map (asset_of L) vs)"
    using check_variants_typed [OF as assms(2)] by metis+
  ultimately show thesis
    using vs id title out by (intro that [of d]) (simp_all only: d typed_song_def simp_thms)
qed

lemma check_songs_typed:
  assumes "fold_steps (check_song L) items (ids, assets) = Inr out"
    and "distinct ids" and "distinct assets"
  shows "\<exists>songs. items = map UObj songs \<and> (\<forall>song \<in> set songs. typed_song L song)
    \<and> distinct (ids @ map (song_id_of L) songs)
    \<and> distinct (assets @ concat (map (\<lambda>song. map (asset_of L) (variants_of song)) songs))"
  using assms
proof (induction items arbitrary: ids assets)
  case (Cons x items)
  from Cons.prems(1) obtain mid where mid: "check_song L x (ids, assets) = Inr mid"
    and rest: "fold_steps (check_song L) items mid = Inr out"
    by (auto simp: and_then_Inr_iff)
  obtain d where d: "x = UObj d" "typed_song L d" "song_id_of L d \<notin> set ids"
    "mid = (ids @ [song_id_of L d], assets @ map (asset_of L) (variants_of d))"
    "distinct (assets @ map (asset_of L) (variants_of d))"
    using check_song_typed [OF mid Cons.prems(3)] by metis
  from Cons.IH [OF rest [unfolded d(4)]] d(3,5) Cons.prems(2)
  obtain songs where songs: "items = map UObj songs" "\<forall>song \<in> set songs. typed_song L song"
    "distinct ((ids @ [song_id_of L d]) @ map (song_id_of L) songs)"
    "distinct ((assets @ map (asset_of L) (variants_of d))
      @ concat (map (\<lambda>song. map (asset_of L) (variants_of song)) songs))"
    by auto
  show ?case
    by (rule exI [of _ "d # songs"]) (use songs d in simp)
qed auto

lemma uget_Some: "uget d k \<noteq> UNull \<Longrightarrow> map_of d (u k) = Some (uget d k)"
  by (auto simp: uget_def split: option.splits)

lemma load_catalog_typed:
  assumes "load_catalog L parsed = Inr catalog"
  shows "\<exists>songs. songs \<noteq> [] \<and> typed_catalog L catalog songs"
proof -
  let ?body = "\<lambda>data. case uget data ''songs'' of
      UArr songs \<Rightarrow> if songs = [] then Inl Catalog_Error
        else and_then (fold_steps (check_song L) songs ([], [])) (\<lambda>_. Inr data)
    | _ \<Rightarrow> Inl Catalog_Error"
  obtain data where data: "?body data = Inr catalog"
    using assms unfolding load_catalog_def and_then_Inr_iff by blast
  obtain items out where items: "uget catalog ''songs'' = UArr items" "items \<noteq> []"
    and f: "fold_steps (check_song L) items ([], []) = Inr out"
    using data by (cases "uget data ''songs''") (auto simp: and_then_Inr_iff split: if_splits)
  from check_songs_typed [OF f] obtain songs where "items = map UObj songs" "typed_songs L songs"
    by (auto simp: typed_songs_def)
  with items uget_Some [of catalog "''songs''"] show ?thesis
    by (auto simp: typed_catalog_def)
qed

text \<open>C12: What \<open>load_catalog\<close> returns has the type the rest of the code relies on: a list of songs,
  each a dictionary with a well-formed id, a title that is not blank and at least one variant, every
  variant with a well-formed voice id, an asset below the audio root, a hash and a positive
  duration; ids and assets are unique.\<close>

theorem loaded_catalog_is_typed:
  assumes "load_catalog L parsed = Inr catalog"
  shows "\<exists>songs. songs \<noteq> [] \<and> typed_catalog L catalog songs"
  by (rule load_catalog_typed [OF assms])

subsection \<open>An example catalog\<close>

definition sample_catalog :: udict where
  "sample_catalog =
     [(u ''schema_version'', UText (u ''singing-catalog/v2'')),
      (u ''songs'', UArr
        [UObj [(u ''id'', UText (u ''001'')), (u ''title'', UText (u ''aini'')),
           (u ''variants'', UObj [(u ''serena-v1'', UObj
             [(u ''asset'', UText (u ''serena/001.wav'')), (u ''duration_seconds'', UInt 30),
              (u ''sha256'', UText (replicate 64 97))])])],
         UObj [(u ''id'', UText (u ''002'')), (u ''title'', UText (u ''hongdou'')),
           (u ''variants'', UObj [(u ''serena-v1'', UObj
             [(u ''asset'', UText (u ''serena/002.wav'')), (u ''duration_seconds'', UInt 25),
              (u ''sha256'', UText (replicate 64 97))])])]])]"

definition sample_list :: "udict list" where
  "sample_list = [d. UObj d \<leftarrow> (case uget sample_catalog ''songs'' of UArr xs \<Rightarrow> xs | _ \<Rightarrow> [])]"

lemma sample_loads: "load_catalog exact_lib (Some (UObj sample_catalog)) = Inr sample_catalog"
  by code_simp

lemma sample_typed: "typed_catalog exact_lib sample_catalog sample_list"
proof -
  obtain songs where s: "typed_catalog exact_lib sample_catalog songs"
    using load_catalog_typed [OF sample_loads] by blast
  have "map_of sample_catalog (u ''songs'') = Some (UArr (map UObj sample_list))" by code_simp
  with s have "map UObj songs = map UObj sample_list" by (simp add: typed_catalog_def)
  then have "songs = sample_list" by (simp add: inj_map_eq_map inj_def)
  with s show ?thesis by simp
qed

lemma loaded_catalog_is_typed_witness:
  "\<exists>songs. songs \<noteq> [] \<and> typed_catalog exact_lib sample_catalog songs"
  by (rule loaded_catalog_is_typed [OF sample_loads])

subsection \<open>Lookups on a typed catalog\<close>

definition sung_by :: "utext \<Rightarrow> udict list \<Rightarrow> udict list" where
  "sung_by voice_id songs = filter (\<lambda>song. voice_id \<in> set (keys (variants_of song))) songs"

lemma typed_catalogD:
  assumes "typed_catalog L catalog songs"
  shows "catalog_songs catalog = Inr (map UObj songs)"
    and "\<And>song. song \<in> set songs \<Longrightarrow> typed_song L song"
  using assms
  by (auto simp: typed_catalog_def typed_songs_def catalog_songs_def uitem_def)

lemma traverse_as_dict: "traverse as_dict (map UObj songs) = Inr songs"
  by (induction songs) auto

lemma typed_song_variants:
  assumes "typed_song L song"
  shows "subscript (UObj song) ''variants'' = Inr (UObj (variants_of song))"
    and "map_of (variants_of song) v = Some x \<Longrightarrow> \<exists>d. x = UObj d \<and> typed_variant L (v, x)"
proof -
  have v: "uget song ''variants'' = UObj (variants_of song)"
    using assms by (simp add: typed_song_def)
  with uget_Some [of song "''variants''"] show
    "subscript (UObj song) ''variants'' = Inr (UObj (variants_of song))"
    by (simp add: uitem_def)
  show "\<exists>d. x = UObj d \<and> typed_variant L (v, x)" if "map_of (variants_of song) v = Some x"
    using assms map_of_SomeD [OF that] by (force simp: typed_song_def typed_variant_def)
qed

lemma filter_typed_songs:
  "(\<And>song. song \<in> set songs \<Longrightarrow> typed_song L song)
    \<Longrightarrow> filter_songs voice_id (map UObj songs) = Inr (map UObj (sung_by voice_id songs))"
proof (induction songs)
  case (Cons song songs)
  have "subscript (UObj song) ''variants'' = Inr (UObj (variants_of song))"
    by (rule typed_song_variants(1) [of L]) (use Cons.prems in simp)
  with Cons show ?case by (simp add: sung_by_def del: subscript.simps)
qed (simp add: sung_by_def)

lemma available_typed:
  assumes "typed_catalog L catalog songs"
  shows "available_songs voice_id catalog
    = (if dash_id voice_id then Inr (map UObj (sung_by voice_id songs)) else Inl Catalog_Error)"
  using typed_catalogD [OF assms]
  by (simp add: available_songs_def filter_typed_songs [of songs L])

lemma uitem_str_or_empty:
  assumes "str_or_empty L (uget d k) \<noteq> []"
  shows "\<exists>v. uitem d k = Inr v \<and> v = uget d k \<and> u_str L v = str_or_empty L (uget d k)"
proof -
  from assms have t: "utruthy (uget d k)" by (simp add: str_or_empty_def split: if_splits)
  then have "uget d k \<noteq> UNull" by auto
  from uget_Some [OF this] t show ?thesis by (simp add: uitem_def str_or_empty_def)
qed

lemma typed_song_items:
  assumes "typed_song L song"
  shows "uitem song ''id'' = Inr (uget song ''id'')"
    and "u_str L (uget song ''id'') = song_id_of L song"
    and "uitem song ''title'' = Inr (uget song ''title'')"
proof -
  have "str_or_empty L (uget song ''id'') \<noteq> []" "str_or_empty L (uget song ''title'') \<noteq> []"
    using assms by (auto simp: typed_song_def song_id_of_def dash_id_def u_strip_def)
  from this [THEN uitem_str_or_empty] show
    "uitem song ''id'' = Inr (uget song ''id'')"
    "u_str L (uget song ''id'') = song_id_of L song"
    "uitem song ''title'' = Inr (uget song ''title'')"
    by (auto simp: song_id_of_def)
qed

lemma song_summary_typed: "typed_song L song \<Longrightarrow> \<exists>v. song_summary L song = Inr v"
  by (simp add: song_summary_def typed_song_items)

lemma song_variant_typed:
  assumes "typed_song L song"
  shows "song_variant song voice_id = Inr
    (case map_of (variants_of song) voice_id of Some (UObj d) \<Rightarrow> Some d | _ \<Rightarrow> None)"
proof -
  have "uget song ''variants'' = UObj (variants_of song)" "variants_of song \<noteq> []"
    using assms by (auto simp: typed_song_def)
  then show ?thesis by (simp add: song_variant_def)
qed

lemma song_identity_typed:
  assumes "typed_song L song" and "dash_id voice_id"
  shows "song_identity L song voice_id = Inr
    [(u ''kind'', UText (u ''singing_playback'')), (u ''song_id'', uget song ''id''),
     (u ''title'', uget song ''title''),
     (u ''artist'', UText (str_or_empty L (uget song ''artist''))),
     (u ''voice_id'', UText voice_id),
     (u ''asset_id'', UText (voice_id @ u '':'' @ song_id_of L song))]"
proof -
  have "dash_id (song_id_of L song)" using assms(1) by (simp add: typed_song_def)
  then show ?thesis
    by (simp add: song_identity_def typed_song_items [OF assms(1)] asset_id_def assms(2))
qed

text \<open>The duration of a variant is readable, and is a number by the lookup of its dictionary.\<close>

lemma typed_variant_duration:
  assumes "typed_variant L (v, UObj d)"
  shows "\<exists>r. and_then (uitem d ''duration_seconds'') (u_float L) = Inr r \<and> 0 < r"
proof -
  obtain r where r: "u_float L (uget d ''duration_seconds'') = Inr r" "0 < r"
    using assms by (auto simp: typed_variant_def)
  then have "uget d ''duration_seconds'' \<noteq> UNull" by auto
  from uget_Some [OF this] r show ?thesis by (simp add: uitem_def)
qed

lemma sing_typed:
  assumes "typed_song L song" and "dash_id voice_id"
  shows "\<exists>r. sing L (UObj song) m voice_id = Inr r"
proof (cases "song_variant song voice_id")
  case (Inl e)
  then show ?thesis by (simp add: song_variant_typed [OF assms(1)])
next
  case (Inr found)
  show ?thesis
  proof (cases found)
    case None
    with Inr show ?thesis by (simp add: sing_def typed_song_items [OF assms(1)])
  next
    case (Some d)
    with Inr have "map_of (variants_of song) voice_id = Some (UObj d)"
      by (auto simp: song_variant_typed [OF assms(1)] split: option.splits uvalue.splits)
    then have "typed_variant L (voice_id, UObj d)" using typed_song_variants(2) [OF assms(1)] by blast
    from typed_variant_duration [OF this] Inr Some show ?thesis
      by (auto simp: sing_def song_identity_typed [OF assms])
  qed
qed

subsection \<open>Matching on a typed catalog\<close>

definition aliases_readable :: "udict list \<Rightarrow> bool" where
  "aliases_readable songs \<longleftrightarrow> (\<forall>song \<in> set songs. isl (iter_or_empty (uget song ''aliases'')) = False)"

lemma aliases_readableD:
  "aliases_readable songs \<Longrightarrow> song \<in> set songs \<Longrightarrow> \<exists>as. iter_or_empty (uget song ''aliases'') = Inr as"
  unfolding aliases_readable_def by (metis isl_def sum.exhaust_sel)

lemma match_readable:
  assumes "aliases_readable songs" shows "\<exists>m. match_song L gap q songs = Inr m"
proof -
  have score: "\<exists>s. song_score L original e song = Inr s" if song: "song \<in> set songs" for original e song
    using aliases_readableD [OF assms song] by (auto simp: song_score_def song_terms_def Let_def)
  have "traverse (\<lambda>song. and_then (song_score L original e song) (\<lambda>s.
      Inr \<lparr>mc_song = song, mc_score = s\<rparr>)) songs = Inr
      (map (\<lambda>song. \<lparr>mc_song = song, mc_score = projr (song_score L original e song)\<rparr>) songs)"
    for original e
  proof (rule traverse_map)
    fix song assume "song \<in> set songs"
    with score obtain s where "song_score L original e song = Inr s" by blast
    then show "and_then (song_score L original e song) (\<lambda>s. Inr \<lparr>mc_song = song, mc_score = s\<rparr>)
        = Inr \<lparr>mc_song = song, mc_score = projr (song_score L original e song)\<rparr>"
      by simp
  qed
  then show ?thesis by (auto simp: match_song_def rank_songs_def Let_def)
qed

lemma matched_songs_given:
  assumes "match_song L gap q songs = Inr m"
  shows "sm_best m = Some c \<Longrightarrow> mc_song c \<in> set songs"
    and "c \<in> set (sm_candidates m) \<Longrightarrow> mc_song c \<in> set songs"
proof -
  have given: "c \<in> set ranked \<Longrightarrow> mc_song c \<in> set songs"
    if "rank_songs L original e songs = Inr ranked" for ranked original e
    using rank_songs_Inr(2) [OF that] by blast
  have part: "(sm_best (judge_ranked L gap e ranked) = Some c
      \<or> c \<in> set (sm_candidates (judge_ranked L gap e ranked))) \<longrightarrow> c \<in> set ranked" for e ranked
  proof -
    have "c \<in> set ranked" if "c \<in> set (accepted L e ranked)" using that by simp
    then show ?thesis
      by (auto simp: judge_ranked_def Let_def simp del: filter_set set_filter
          split: list.splits if_splits dest!: in_set_takeD)
  qed
  show "sm_best m = Some c \<Longrightarrow> mc_song c \<in> set songs"
    and "c \<in> set (sm_candidates m) \<Longrightarrow> mc_song c \<in> set songs"
    using assms part given
    by (auto simp: match_song_def Let_def and_then_Inr_iff split: if_splits)
qed

subsection \<open>Singing\<close>

definition picks :: "(uvalue list \<Rightarrow> uvalue) \<Rightarrow> bool" where
  \<comment> \<open>what \<open>random.choice\<close> promises\<close>
  "picks pick \<longleftrightarrow> (\<forall>xs. xs = [] \<or> pick xs \<in> set xs)"

lemma song_summaries_typed:
  assumes "\<And>song. song \<in> set songs \<Longrightarrow> typed_song L song"
  shows "traverse (song_summary L) songs = Inr (map (\<lambda>song. projr (song_summary L song)) songs)"
  by (rule traverse_map) (use assms song_summary_typed in fastforce)

text \<open>How \<open>play_song\<close> answers: it refuses, asks back, or sings a song of the catalog.\<close>

lemma play_song_cases:
  assumes "typed_catalog L (sv_catalog s) songs" and "aliases_readable songs" and "picks pick"
    and "dash_id voice_id"
  obtains (refuse) reason message middle where
      "play_song L pick s query voice_id = Inr (unavailable reason voice_id message middle)"
  | (ask) r where "play_song L pick s query voice_id = Inr r"
      "uget r ''kind'' = UText (u ''singing_clarification'')"
  | (sing) song m where "song \<in> set songs"
      "play_song L pick s query voice_id = sing L (UObj song) m voice_id"
proof -
  note T = typed_catalogD [OF assms(1)]
  note A = available_typed [OF assms(1), of voice_id] assms(4)
  let ?some = "sung_by voice_id songs"
  obtain m where m: "match_song L (AMBIGUITY_GAP L) query songs = Inr m"
    using match_readable [OF assms(2)] by blast
  note given = matched_songs_given [OF m]
  have play: "play_song L pick s query voice_id =
     (if ?some = [] then Inr (unavailable ''voice_has_no_songs'' voice_id NO_SONGS_TEXT [])
      else case (sm_status m, sm_best m) of
       (Generic, _) \<Rightarrow> sing L (pick (map UObj ?some)) None voice_id
     | (Ambiguous, _) \<Rightarrow>
         and_then (py (traverse (\<lambda>c. song_summary L (mc_song c)) (sm_candidates m))) (\<lambda>cs.
         Inr [(u ''kind'', UText (u ''singing_clarification'')),
              (u ''reason'', UText (u ''ambiguous_song'')),
              (u ''query'', UText (sm_query m)), (u ''candidates'', UArr cs)])
     | (Matched, Some best) \<Rightarrow>
         sing L (UObj (mc_song best)) (Some (sm_query m, mc_score best)) voice_id
     | _ \<Rightarrow> Inr (unavailable ''song_not_found'' voice_id NOT_LEARNED_TEXT
              [(u ''query'', UText (sm_query m))]))"
    by (simp add: play_song_def A T(1) traverse_as_dict m)
  show thesis
  proof (cases "?some = []")
    case True
    with play refuse show thesis by simp
  next
    case False
    show thesis
    proof (cases "sm_status m")
      case Generic
      have "pick (map UObj ?some) \<in> set (map UObj ?some)"
        using assms(3) False unfolding picks_def by (metis map_is_Nil_conv)
      then obtain song where "song \<in> set songs" "pick (map UObj ?some) = UObj song"
        by (auto simp: sung_by_def)
      with play False Generic show thesis by (intro sing) simp_all
    next
      case Not_Found
      with play False refuse show thesis by simp
    next
      case Ambiguous
      have "typed_song L (mc_song c)" if "c \<in> set (sm_candidates m)" for c
        using given(2) T(2) that by blast
      then have "traverse (\<lambda>c. song_summary L (mc_song c)) (sm_candidates m)
          = Inr (map (\<lambda>c. projr (song_summary L (mc_song c))) (sm_candidates m))"
        by (intro traverse_map) (use song_summary_typed in fastforce)
      with play False Ambiguous have "\<exists>rest. play_song L pick s query voice_id
          = Inr ((u ''kind'', UText (u ''singing_clarification'')) # rest)"
        by simp
      then show thesis using ask by auto
    next
      case Matched
      show thesis
      proof (cases "sm_best m")
        case None
        with play False Matched refuse show thesis by simp
      next
        case (Some best)
        with play False Matched given(1) show thesis by (intro sing) simp_all
      qed
    qed
  qed
qed

text \<open>C25: On a loaded catalog whose aliases can be iterated over, \<open>play_song\<close> answers every query for a
  well-formed voice id: it raises no exception, be it the catalog's or one of the language.\<close>

theorem play_song_type_safe:
  assumes "typed_catalog L (sv_catalog s) songs" and "aliases_readable songs" and "picks pick"
    and "dash_id voice_id"
  shows "\<exists>r. play_song L pick s query voice_id = Inr r"
proof (cases rule: play_song_cases [OF assms, of query, case_names refuse ask sing])
  case (sing song m)
  with sing_typed typed_catalogD(2) [OF assms(1)] assms(4) show ?thesis by metis
qed auto

definition sample_service :: singing_service where
  "sample_service = \<lparr>sv_catalog = sample_catalog, sv_registry = [], sv_known = [u ''serena-v1'']\<rparr>"

lemma sample_service_ok:
  "typed_catalog exact_lib (sv_catalog sample_service) sample_list" "aliases_readable sample_list"
  "picks hd" "dash_id (u ''serena-v1'')"
proof -
  show "typed_catalog exact_lib (sv_catalog sample_service) sample_list"
    using sample_typed by (simp add: sample_service_def)
  have "list_all (\<lambda>song. uget song ''aliases'' = UNull) sample_list" by code_simp
  then show "aliases_readable sample_list"
    by (auto simp: aliases_readable_def list_all_iff iter_or_empty_def)
  show "picks hd" by (simp add: picks_def) (metis hd_in_set)
  show "dash_id (u ''serena-v1'')" by code_simp
qed

lemma play_song_type_safe_witness:
  "\<exists>r. play_song exact_lib hd sample_service (u ''hongdou'') (u ''serena-v1'') = Inr r"
  by (rule play_song_type_safe [OF sample_service_ok])

lemma sing_plays:
  assumes "typed_song L song" and "dash_id voice_id"
    and "sing L (UObj song) m voice_id = Inr r" and "uget r ''kind'' = UText (u ''singing_playback'')"
  shows "voice_id \<in> set (keys (variants_of song)) \<and> uget r ''song_id'' = uget song ''id''
    \<and> uget r ''voice_id'' = UText voice_id
    \<and> uget r ''asset_id'' = UText (voice_id @ u '':'' @ song_id_of L song)
    \<and> (\<exists>x. uget r ''duration_seconds'' = UFloat x \<and> 0 < x)"
proof (cases "map_of (variants_of song) voice_id")
  case None
  then have "r = unavailable ''voice_variant_missing'' voice_id NOT_LEARNED_TEXT
      [(u ''song_id'', uget song ''id''), (u ''title'', uget song ''title'')]"
    using assms(3)
    by (simp add: sing_def song_variant_typed [OF assms(1)] typed_song_items [OF assms(1)])
  with assms(4) show ?thesis by (simp add: unavailable_def)
next
  case (Some x)
  obtain d where d: "x = UObj d" "typed_variant L (voice_id, x)"
    using typed_song_variants(2) [OF assms(1) Some] by blast
  obtain z where z: "and_then (uitem d ''duration_seconds'') (u_float L) = Inr z" "0 < z"
    using typed_variant_duration d by metis
  have "voice_id \<in> set (keys (variants_of song))"
    using map_of_SomeD [OF Some] by force
  then show ?thesis
    using assms(3) Some d z
    by (auto simp: sing_def song_variant_typed [OF assms(1)] song_identity_typed [OF assms(1,2)])
qed

text \<open>When \<open>play_song\<close> tells the client to play, the song is one of the catalog that the requested
  voice has recorded, the asset is that of this voice and this song, and its duration is positive.\<close>

theorem played_song_has_the_voice:
  assumes "typed_catalog L (sv_catalog s) songs" and "aliases_readable songs" and "picks pick"
    and "dash_id voice_id"
    and "play_song L pick s query voice_id = Inr r"
    and "uget r ''kind'' = UText (u ''singing_playback'')"
  shows "\<exists>song \<in> set songs. voice_id \<in> set (keys (variants_of song))
    \<and> uget r ''song_id'' = uget song ''id'' \<and> uget r ''voice_id'' = UText voice_id
    \<and> uget r ''asset_id'' = UText (voice_id @ u '':'' @ song_id_of L song)
    \<and> (\<exists>x. uget r ''duration_seconds'' = UFloat x \<and> 0 < x)"
proof (cases rule: play_song_cases [OF assms(1-4), of query, case_names refuse ask sing])
  case (refuse reason message middle)
  with assms(5,6) show ?thesis by (auto simp: unavailable_def)
next
  case (ask r')
  with assms(5,6) show ?thesis by simp
next
  case (sing song m)
  with sing_plays [OF typed_catalogD(2) [OF assms(1)] assms(4), of song m r] assms(5,6)
  show ?thesis by auto
qed

lemma sample_play:
  "map_sum id (\<lambda>r. (uget r ''kind'', uget r ''song_id''))
     (play_song exact_lib hd sample_service (u ''hongdou'') (u ''serena-v1''))
    = Inr (UText (u ''singing_playback''), UText (u ''002''))"
  by code_simp

lemma played_song_has_the_voice_witness:
  "\<exists>r x. play_song exact_lib hd sample_service (u ''hongdou'') (u ''serena-v1'') = Inr r
    \<and> uget r ''duration_seconds'' = UFloat x \<and> 0 < x"
proof -
  obtain r where r: "play_song exact_lib hd sample_service (u ''hongdou'') (u ''serena-v1'') = Inr r"
    "uget r ''kind'' = UText (u ''singing_playback'')"
    using sample_play
    by (cases "play_song exact_lib hd sample_service (u ''hongdou'') (u ''serena-v1'')") auto
  from played_song_has_the_voice [OF sample_service_ok r] r show ?thesis by auto
qed

lemma colon_free: "dash_id t \<Longrightarrow> 58 \<notin> set t"
  by (auto simp: dash_id_def list_all_iff word_char_def)

lemma split_at_colon:
  assumes "58 \<notin> set a" "58 \<notin> set b" "a @ 58 # x = b @ 58 # y" shows "a = b \<and> x = (y :: utext)"
  using assms
proof (induction a arbitrary: b)
  case Nil
  then show ?case by (cases b) auto
next
  case (Cons z a)
  then show ?case by (cases b) auto
qed

text \<open>An asset id names one voice and one song: equal asset ids come from equal voices and songs.\<close>

theorem asset_id_injective:
  assumes "asset_id song voice = Inr a" and "asset_id song' voice' = Inr a"
  shows "song = song' \<and> voice = voice'"
  using assms split_at_colon [of voice voice' song song']
  by (auto simp: asset_id_def colon_free u_def split: if_splits)

lemma asset_id_injective_witness:
  "asset_id (u ''001'') (u ''serena-v1'') = Inr (u ''serena-v1:001'')
    \<and> (\<forall>song voice. asset_id song voice \<noteq> Inr (u ''serena-v1:001'')
        \<or> song = u ''001'' \<and> voice = u ''serena-v1'')"
proof -
  have "asset_id (u ''001'') (u ''serena-v1'') = Inr (u ''serena-v1:001'')" by code_simp
  with asset_id_injective show ?thesis by blast
qed

end
