(* ===== verification/Singing_Pages.thy ===== *)
theory Singing_Pages
  imports Singing_Facts Playback_Report
begin

text \<open>
  Paging through the songs, and where the audio of a song lies: following the cursors of
  \<open>list_songs\<close> yields the whole list, and the path of a song of a loaded catalog lies below the
  audio root.
\<close>

subsection \<open>Cursors\<close>

lemma safe_limit_pos: "0 < safe_limit limit \<and> safe_limit limit \<le> 10"
  by (auto simp: safe_limit_def)

lemma u_nat_text:
  "\<forall>c \<in> set (u (nat_text n)). \<not> u_space c" "list_all (\<lambda>c. 0 \<le> c \<and> c < 128) (u (nat_text n))"
  using nat_text_ascii [of _ n] by (force simp: u_def u_space_def list_all_iff)+

lemma read_cursor_int: "read_cursor (u (int_text (int n))) = Inr n"
proof -
  have bytes: "map char_of (u (nat_text n)) = nat_text n"
    by (simp add: u_def comp_def)
  have "nat_text n \<noteq> []" using nat_text_digits by blast
  then have "u (nat_text n) \<noteq> []" by (simp add: u_def)
  moreover have "u_int (UText (u (nat_text n))) = Inr (int n)"
    using u_strip_no_space [OF u_nat_text(1)] u_nat_text(2) [of n]
    by (simp add: bytes int_of_nat_text)
  ultimately show ?thesis by (simp add: read_cursor_def int_text_def)
qed

lemma u_int_text: "u (int_text (int n)) \<noteq> []"
  using nat_text_digits [of n] by (simp add: int_text_def u_def)

lemma read_cursor_start: "read_cursor [] = Inr 0"
  by code_simp

text \<open>A client that follows the cursors, for at most so many pages.\<close>

fun fetch_songs ::
  "nat \<Rightarrow> pylib \<Rightarrow> singing_service \<Rightarrow> utext \<Rightarrow> utext \<Rightarrow> int \<Rightarrow> utext
    \<Rightarrow> sing_exn + uvalue list option" where
  "fetch_songs 0 L s query voice_id limit cursor = Inr None"
| "fetch_songs (Suc k) L s query voice_id limit cursor =
     and_then (list_songs L s query voice_id limit cursor) (\<lambda>r.
     case (uget r ''songs'', uget r ''next_cursor'') of
       (UArr page, UText more_cursor) \<Rightarrow>
         if more_cursor = [] then Inr (Some page)
         else and_then (fetch_songs k L s query voice_id limit more_cursor) (\<lambda>rest.
              Inr (map_option (\<lambda>songs. page @ songs) rest))
     | _ \<Rightarrow> Inr None)"

lemma list_songs_page:
  assumes "typed_catalog L (sv_catalog s) songs" and "dash_id voice_id"
    and "search_songs L query (sung_by voice_id songs) = Inr offered"
    and "traverse (song_summary L) offered = Inr listed"
    and "read_cursor cursor = Inr offset"
  shows "list_songs L s query voice_id limit cursor = Inr (page_result query voice_id
    \<lparr>pg_songs = take (safe_limit limit) (drop offset listed), pg_total = length listed,
     pg_next = (let n = offset + length (take (safe_limit limit) (drop offset listed))
                in if n < length listed then Some n else None)\<rparr>)"
proof -
  have len: "length listed = length offered" using traverse_Inr_length [OF assms(4)] .
  have all: "list_all2 (\<lambda>x y. song_summary L x = Inr y) offered listed"
    using assms(4) by (simp add: traverse_Inr_iff)
  then have "list_all2 (\<lambda>x y. song_summary L x = Inr y)
      (take n (drop offset offered)) (take n (drop offset listed))" for n
    by (intro list_all2_takeI list_all2_dropI)
  then have "traverse (song_summary L) (take n (drop offset offered))
      = Inr (take n (drop offset listed))" for n
    by (simp add: traverse_Inr_iff)
  then have "page_of L offered offset n = Inr
    \<lparr>pg_songs = take n (drop offset listed), pg_total = length listed,
     pg_next = (let n = offset + length (take n (drop offset listed))
                in if n < length listed then Some n else None)\<rparr>" for n
    by (auto simp: page_of_def Let_def len)
  then show ?thesis
    by (simp add: list_songs_def assms available_typed [OF assms(1)] traverse_as_dict
        del: length_take length_drop)
qed

lemma fetch_from:
  assumes "typed_catalog L (sv_catalog s) songs" and "dash_id voice_id"
    and "search_songs L query (sung_by voice_id songs) = Inr offered"
    and "traverse (song_summary L) offered = Inr listed"
    and "read_cursor cursor = Inr offset" and "offset \<le> length listed"
    and "length listed - offset < k"
  shows "fetch_songs k L s query voice_id limit cursor = Inr (Some (drop offset listed))"
  using assms(5-7)
proof (induction k arbitrary: cursor offset)
  case (Suc k)
  note page = list_songs_page [OF assms(1-4) Suc.prems(1), of limit]
  let ?n = "safe_limit limit"
  have n: "0 < ?n" using safe_limit_pos by blast
  show ?case
  proof (cases "offset + ?n < length listed")
    case True
    let ?next = "offset + ?n"
    have "read_cursor (u (int_text (int ?next))) = Inr ?next" by (rule read_cursor_int)
    then have "fetch_songs k L s query voice_id limit (u (int_text (int ?next)))
        = Inr (Some (drop ?next listed))"
      using True Suc.prems n by (intro Suc.IH) auto
    moreover have "u (int_text (int ?next)) \<noteq> []"
      by (rule u_int_text)
    moreover have "take ?n (drop offset listed) @ drop ?next listed = drop offset listed"
      by (metis append_take_drop_id drop_drop add.commute)
    ultimately show ?thesis
      using True by (simp add: page page_result_def Let_def min_absorb2)
  next
    case False
    then show ?thesis using Suc.prems by (simp add: page page_result_def Let_def)
  qed
qed simp


lemma sample_search:
  "search_songs exact_lib [] (sung_by (u ''serena-v1'') sample_list) = Inr sample_list"
  by code_simp


subsection \<open>Audio files\<close>

lemma first_song_unique:
  assumes "\<And>song. song \<in> set songs \<Longrightarrow> typed_song L song"
    and "distinct (map (song_id_of L) songs)"
    and "song \<in> set songs" and "uget song ''id'' = UText song_id"
  shows "first_song song_id (map UObj songs) = Inr (UObj song)"
  using assms
proof (induction songs)
  case (Cons x songs)
  have x: "uitem x ''id'' = Inr (uget x ''id'')" 
    by (rule typed_song_items(1) [of L]) (use Cons.prems(1) in simp)
  show ?case
  proof (cases "uget x ''id'' = UText song_id")
    case True
    then have "song_id_of L x = song_id_of L song" using Cons.prems(4) by (simp add: song_id_of_def)
    then have "x = song" using Cons.prems(2,3) by (metis image_eqI list.set_map list.simps(9)
        distinct.simps(2) set_ConsD)
    then show ?thesis using True x by simp
  next
    case False
    then have "song \<in> set songs" using Cons.prems(3,4) by auto
    with Cons False x show ?thesis by simp
  qed
qed simp

definition plain_below :: "(utext list \<Rightarrow> utext list) \<Rightarrow> utext list \<Rightarrow> bool" where
  \<comment> \<open>no symbolic links below the directory\<close>
  "plain_below resolve base \<longleftrightarrow> (\<forall>p. u ''..'' \<in> set p \<or> resolve (base @ p) = base @ p)"

text \<open>For a song of a loaded catalog and a voice that has it, \<open>resolve_audio_path\<close> fails only by
  refusing a path that symbolic links lead out of the audio root; the path it returns lies below
  the root, and without such links it is the root followed by the parts of the asset.\<close>

theorem audio_path_stays_below_root:
  assumes "typed_catalog L catalog songs" and "song \<in> set songs"
    and "uget song ''id'' = UText song_id"
    and "map_of (variants_of song) voice_id = Some variant"
  shows "(case resolve_audio_path L resolve song_id voice_id (Some top_dir) catalog of
      Inr (_, path) \<Rightarrow> path = resolve (resolve top_dir @ path_parts (asset_of L (voice_id, variant)))
        \<and> take (length (resolve top_dir)) path = resolve top_dir
        \<and> (path = resolve top_dir @ path_parts (asset_of L (voice_id, variant))
           \<or> \<not> plain_below resolve (resolve top_dir))
    | Inl e \<Rightarrow> e = Catalog_Error \<and> \<not> plain_below resolve (resolve top_dir))"
proof -
  note T = typed_catalogD [OF assms(1)]
  have song: "typed_song L song" using T(2) assms(2) .
  obtain d where d: "variant = UObj d" and typed: "typed_variant L (voice_id, variant)"
    using typed_song_variants(2) [OF song assms(4)] by blast
  let ?asset = "asset_of L (voice_id, variant)" and ?base = "resolve top_dir"
  have asset: "?asset = str_or_empty L (uget d ''asset'')" by (simp add: asset_of_def d)
  have ok: "str_or_empty L (uget d ''asset'') \<noteq> []" "\<not> path_absolute ?asset"
    "u ''..'' \<notin> set (path_parts ?asset)" "dash_id voice_id"
    using typed by (auto simp: typed_variant_def asset)
  from uitem_str_or_empty [OF ok(1)] obtain v where v: "uitem d ''asset'' = Inr v" "u_str L v = ?asset"
    by (auto simp: asset)
  have id: "song_id = song_id_of L song"
    using assms(3) typed_song_items(2) [OF song] by simp
  then have dash: "dash_id song_id" using song by (simp add: typed_song_def)
  have "distinct (map (song_id_of L) songs)"
    using assms(1) by (simp add: typed_catalog_def typed_songs_def)
  from first_song_unique [OF T(2) this assms(2,3)]
  have find: "find_song song_id catalog = Inr (UObj song)"
    by (simp add: find_song_def T(1) dash)
  have found: "song_variant song voice_id = Inr (Some d)"
    using assms(4) d by (simp add: song_variant_typed [OF song])
  let ?path = "resolve (?base @ path_parts ?asset)"
  have "\<exists>r. resolve_audio_path L resolve song_id voice_id (Some top_dir) catalog =
      (if take (length ?base) ?path \<noteq> ?base then Inl Catalog_Error else Inr (r, ?path))"
    by (simp add: resolve_audio_path_def find found v ok(2,4) Let_def asset_id_def dash)
  then obtain r where r: "resolve_audio_path L resolve song_id voice_id (Some top_dir) catalog =
      (if take (length ?base) ?path \<noteq> ?base then Inl Catalog_Error else Inr (r, ?path))" ..
  have "?path = ?base @ path_parts ?asset \<or> \<not> plain_below resolve ?base"
    using ok(3) unfolding plain_below_def by blast
  moreover from this have "take (length ?base) ?path = ?base \<or> \<not> plain_below resolve ?base"
    by auto
  ultimately show ?thesis unfolding r by auto
qed

lemma audio_path_stays_below_root_witness:
  "\<exists>r. resolve_audio_path exact_lib (\<lambda>p. p) (u ''001'') (u ''serena-v1'') (Some [u ''srv''])
      sample_catalog = Inr (r, [u ''srv'', u ''serena'', u ''001.wav''])"
proof -
  let ?song = "sample_list ! 0"
  let ?variant = "snd (variants_of ?song ! 0)"
  have v: "?song \<in> set sample_list" "uget ?song ''id'' = UText (u ''001'')"
    "map_of (variants_of ?song) (u ''serena-v1'') = Some ?variant"
    "path_parts (asset_of exact_lib (u ''serena-v1'', ?variant)) = [u ''serena'', u ''001.wav'']"
    by code_simp+
  from audio_path_stays_below_root [OF sample_typed v(1-3), of "\<lambda>p. p" "[u ''srv'']"] v(4)
  show ?thesis by (auto simp: plain_below_def split: sum.splits prod.splits)
qed

end
