(* ===== verification/Agent_Texts.thy ===== *)
theory Agent_Texts
  imports Unicode_Text
begin

text \<open>
  Texts as the dialogue agents of \<open>src/llm/agents/\<close> treat them: their normalisation, the test
  for key words, and the fragment of regular expressions their patterns use: words, gaps
  \<open>.{0,n}\<close> and optional words, searched for anywhere in a text.
\<close>

definition has_word :: "utext list \<Rightarrow> utext \<Rightarrow> bool" where
  \<comment> \<open>\<open>any(word in text for word in words)\<close>\<close>
  "has_word ws t = list_ex (\<lambda>w. u_in w t) ws"

definition squash :: "utext \<Rightarrow> utext" where
  \<comment> \<open>\<open>re.sub(r"\s+", "", text)\<close>\<close>
  "squash t = filter (\<lambda>c. \<not> u_space c) t"

definition agent_normalize :: "pylib \<Rightarrow> utext \<Rightarrow> utext" where
  \<comment> \<open>\<open>_normalize_text\<close>, the same function in every agent\<close>
  "agent_normalize L t = squash (u_lower L (u_strip t))"

lemma squash_ideographs: "\<forall>c \<in> set t. ideograph c \<Longrightarrow> squash t = t"
  by (auto simp: squash_def ideograph_def u_space_def intro!: filter_True)

lemma agent_normalize_ideographs:
  "\<forall>c \<in> set t. ideograph c \<Longrightarrow> agent_normalize L t = t"
  by (simp add: agent_normalize_def u_strip_no_space ideograph_no_space u_lower_ideographs
      squash_ideographs)

subsection \<open>Patterns\<close>

datatype pat = Alt "utext list" | Gap nat | Maybe "utext list"

function (sequential) match_at :: "pat list \<Rightarrow> utext \<Rightarrow> bool" where
  \<comment> \<open>the pattern matches a prefix of the text\<close>
  "match_at [] t = True"
| "match_at (Alt ws # ps) t = list_ex (\<lambda>w. u_starts t w \<and> match_at ps (drop (length w) t)) ws"
| "match_at (Maybe ws # ps) t =
     (match_at ps t \<or> list_ex (\<lambda>w. u_starts t w \<and> match_at ps (drop (length w) t)) ws)"
| "match_at (Gap 0 # ps) t = match_at ps t"
| "match_at (Gap (Suc n) # ps) [] = match_at ps []"
| "match_at (Gap (Suc n) # ps) (c # t) =
     (match_at ps (c # t) \<or> (c \<noteq> 10 \<and> match_at (Gap n # ps) t))"
  by pat_completeness auto

fun pat_gap :: "pat list \<Rightarrow> nat" where
  "pat_gap (Gap n # ps) = n"
| "pat_gap ps = 0"

termination match_at
  by (relation "measures [\<lambda>(ps, t). length ps, \<lambda>(ps, t). pat_gap ps]") auto

fun pat_search :: "pat list \<Rightarrow> utext \<Rightarrow> bool" where
  \<comment> \<open>\<open>re.search(pattern, text)\<close> is not \<open>None\<close>\<close>
  "pat_search ps [] = match_at ps []"
| "pat_search ps (c # t) = (match_at ps (c # t) \<or> pat_search ps t)"

definition any_pattern :: "pat list list \<Rightarrow> utext \<Rightarrow> bool" where
  "any_pattern pss t = list_ex (\<lambda>ps. pat_search ps t) pss"

text \<open>What the matcher accepts, as the language of the pattern.\<close>

inductive pat_lang :: "pat list \<Rightarrow> utext \<Rightarrow> bool" where
  pat_empty: "pat_lang [] []"
| pat_alt: "w \<in> set ws \<Longrightarrow> pat_lang ps t \<Longrightarrow> pat_lang (Alt ws # ps) (w @ t)"
| pat_skip: "pat_lang ps t \<Longrightarrow> pat_lang (Maybe ws # ps) t"
| pat_maybe: "w \<in> set ws \<Longrightarrow> pat_lang ps t \<Longrightarrow> pat_lang (Maybe ws # ps) (w @ t)"
| pat_gap: "length g \<le> n \<Longrightarrow> 10 \<notin> set g \<Longrightarrow> pat_lang ps t \<Longrightarrow> pat_lang (Gap n # ps) (g @ t)"

inductive_cases pat_langE:
  "pat_lang [] t" "pat_lang (Alt ws # ps) t" "pat_lang (Maybe ws # ps) t" "pat_lang (Gap n # ps) t"

lemma match_at_skip: "match_at ps t \<Longrightarrow> match_at (Gap n # ps) t"
  by (cases n; cases t) auto

lemma pat_lang_skip: "pat_lang ps t \<Longrightarrow> pat_lang (Gap n # ps) t"
  using pat_gap [of "[]" n ps t] by simp

lemma match_at_complete: "pat_lang ps t \<Longrightarrow> match_at ps (t @ r)"
proof (induction arbitrary: r rule: pat_lang.induct)
  case (pat_alt w ws ps t)
  then show ?case by (auto simp: list_ex_iff u_starts_iff)
next
  case (pat_maybe w ws ps t)
  then show ?case by (auto simp: list_ex_iff u_starts_iff)
next
  case (pat_gap g n ps t)
  then show ?case
  proof (induction g arbitrary: n)
    case Nil
    then show ?case by (auto intro: match_at_skip)
  next
    case (Cons c g)
    then obtain m where "n = Suc m" by (cases n) auto
    with Cons show ?case by auto
  qed
qed auto

lemma match_at_sound: "match_at ps t \<Longrightarrow> \<exists>a b. t = a @ b \<and> pat_lang ps a"
proof (induction ps t rule: match_at.induct)
  case (1 t)
  then show ?case by (auto intro: pat_lang.intros)
next
  case (2 ws ps t)
  from 2(2) obtain w where w: "w \<in> set ws" "u_starts t w" "match_at ps (drop (length w) t)"
    by (auto simp: list_ex_iff)
  from 2(1) [OF w(1,3)] obtain a b where ab: "drop (length w) t = a @ b" "pat_lang ps a" by blast
  have "t = (w @ a) @ b" using w(2) ab(1) by (auto simp: u_starts_iff)
  with pat_alt [OF w(1) ab(2)] show ?case by blast
next
  case (3 ws ps t)
  from 3(3) consider "match_at ps t"
    | w where "w \<in> set ws" "u_starts t w" "match_at ps (drop (length w) t)"
    by (auto simp: list_ex_iff)
  then show ?case
  proof cases
    case 1
    with 3(1) show ?thesis using pat_skip by blast
  next
    case (2 w)
    from 3(2) [OF 2(1,3)] obtain a b where ab: "drop (length w) t = a @ b" "pat_lang ps a" by blast
    have "t = (w @ a) @ b" using 2(2) ab(1) by (auto simp: u_starts_iff)
    with pat_maybe [OF 2(1) ab(2)] show ?thesis by blast
  qed
next
  case (4 ps t)
  then have "match_at ps t" by simp
  with 4(1) show ?case using pat_lang_skip by blast
next
  case (5 n ps)
  then have "match_at ps []" by simp
  with 5(1) show ?case using pat_lang_skip by blast
next
  case (6 n ps c t)
  show ?case
  proof (cases "match_at ps (c # t)")
    case True
    with 6(1) show ?thesis using pat_lang_skip by blast
  next
    case False
    then have "c \<noteq> 10" "match_at (Gap n # ps) t" using 6 by auto
    with 6(2) False obtain a b where ab: "t = a @ b" "pat_lang (Gap n # ps) a" by auto
    from ab(2) obtain g s where g: "a = g @ s" "length g \<le> n" "10 \<notin> set g" "pat_lang ps s"
      by (auto elim: pat_langE)
    have "pat_lang (Gap (Suc n) # ps) ((c # g) @ s)"
      using g \<open>c \<noteq> 10\<close> by (intro pat_lang.pat_gap) auto
    then show ?thesis using ab(1) g(1) by (metis append.assoc append_Cons)
  qed
qed

lemma match_at_iff: "match_at ps t \<longleftrightarrow> (\<exists>a b. t = a @ b \<and> pat_lang ps a)"
  using match_at_sound match_at_complete by blast

text \<open>The search for a pattern succeeds exactly when some part of the text belongs to the
  language of the pattern, whatever the way the text is cut.\<close>

theorem pat_search_iff: "pat_search ps t = (\<exists>a m b. t = a @ m @ b \<and> pat_lang ps m)"
proof (induction t)
  case Nil
  show ?case by (auto simp: match_at_iff)
next
  case (Cons c t)
  have "(\<exists>a m b. c # t = a @ m @ b \<and> pat_lang ps m)
      \<longleftrightarrow> (\<exists>m b. c # t = m @ b \<and> pat_lang ps m) \<or> (\<exists>a m b. t = a @ m @ b \<and> pat_lang ps m)"
    (is "?l \<longleftrightarrow> ?r1 \<or> ?r2")
  proof
    assume ?l
    then obtain a m b where "c # t = a @ m @ b" "pat_lang ps m" by blast
    then show "?r1 \<or> ?r2" by (cases a) auto
  next
    assume "?r1 \<or> ?r2"
    then show ?l by (metis append_Cons append_Nil)
  qed
  then show ?case unfolding Cons.IH [symmetric] by (simp add: match_at_iff)
qed

end
