(* ===== verification/Agent_Runtime.thy ===== *)
theory Agent_Runtime
  imports Agent_Texts
begin

text \<open>
  \<open>src/llm/agent_runtime.py\<close>: what an agent returns, the registry that finds the agent for a text,
  and the tool calls of an agent's context.  An agent is a record of its id and its test
  for entry; what it does with its own state is in the theories of the agents.
\<close>

record 's agent_result =
  ar_text :: utext
  ar_state :: "'s option"
  ar_finished :: bool
  ar_persist_history :: bool
    \<comment> \<open>\<open>metadata.get("persist_history")\<close>, absent metadata meaning true\<close>

record tool_result =
  tr_ok :: bool
  tr_message :: utext
  tr_data :: udict

record agent =
  ag_id :: utext
  ag_can_enter :: "utext \<Rightarrow> bool"

subsection \<open>The registry\<close>

type_synonym agent_registry = "(utext, agent) odict"

definition register_agent :: "agent_registry \<Rightarrow> agent \<Rightarrow> py_exn + agent_registry" where
  "register_agent reg a =
     (if ag_id a \<in> set (keys reg) then Inl ValueError else Inr (reg @ [(ag_id a, a)]))"

definition new_agent_registry :: "agent list \<Rightarrow> py_exn + agent_registry" where
  "new_agent_registry agents = fold_steps (\<lambda>a reg. register_agent reg a) agents []"

definition get_agent :: "agent_registry \<Rightarrow> utext \<Rightarrow> agent option" where
  "get_agent reg agent_id = map_of reg agent_id"

definition find_entry_agent ::
  "agent_registry \<Rightarrow> utext \<Rightarrow> utext set option \<Rightarrow> agent option" where
  "find_entry_agent reg t allowed =
     find (\<lambda>a. (case allowed of None \<Rightarrow> True | Some ids \<Rightarrow> ag_id a \<in> ids) \<and> ag_can_enter a t)
       (map snd reg)"

definition list_agents :: "agent_registry \<Rightarrow> agent list" where
  "list_agents reg = map snd reg"

subsection \<open>Tools\<close>

definition call_tool ::
  "(utext \<Rightarrow> udict \<Rightarrow> tool_result) option \<Rightarrow> utext \<Rightarrow> udict \<Rightarrow> tool_result" where
  \<comment> \<open>\<open>AgentContext.call_tool\<close> with the answer of the configured invoker, if there is one\<close>
  "call_tool invoker name args =
     (case invoker of
        None \<Rightarrow> \<lparr>tr_ok = False, tr_message = u ''tool invoker unavailable'',
                 tr_data = [(u ''tool_name'', UText name)]\<rparr>
      | Some f \<Rightarrow> f name args)"

definition stream_of :: "utext list option \<Rightarrow> utext option \<Rightarrow> utext list" where
  \<comment> \<open>the chunks of \<open>ask_llm_stream\<close>: of the streamer, else the whole answer of the responder\<close>
  "stream_of streamer answer =
     (case streamer of
        Some chunks \<Rightarrow> chunks
      | None \<Rightarrow> (case answer of None \<Rightarrow> [] | Some t \<Rightarrow> if t = [] then [] else [t]))"

subsection \<open>Facts\<close>

definition registry_ok :: "agent_registry \<Rightarrow> bool" where
  "registry_ok reg \<longleftrightarrow> distinct (keys reg) \<and> (\<forall>(k, a) \<in> set reg. k = ag_id a)"

lemma register_ok: "register_agent reg a = Inr reg' \<Longrightarrow> registry_ok reg \<Longrightarrow> registry_ok reg'"
  by (auto simp: register_agent_def registry_ok_def split: if_splits)

lemma new_registry_ok:
  assumes "new_agent_registry agents = Inr reg" shows "registry_ok reg"
proof (rule fold_steps_inv [where I = registry_ok, OF assms [unfolded new_agent_registry_def]])
  show "registry_ok []" by (simp add: registry_ok_def)
qed (rule register_ok)

lemma new_registry_agents:
  assumes "fold_steps (\<lambda>a reg. register_agent reg a) agents reg0 = Inr reg"
  shows "map snd reg = map snd reg0 @ agents"
  using assms
  by (induction agents arbitrary: reg0)
    (auto simp: and_then_Inr_iff register_agent_def split: if_splits)

text \<open>A registry holds its agents in the order given, under pairwise different ids; the agent it
  finds for a text is the first of the allowed agents that wants to enter, and it finds none
  only when none of them does.\<close>

theorem registry_finds_first_agent:
  assumes "new_agent_registry agents = Inr reg"
  shows "list_agents reg = agents \<and> distinct (map ag_id agents)
    \<and> find_entry_agent reg t allowed
        = find (\<lambda>a. (allowed = None \<or> ag_id a \<in> the allowed) \<and> ag_can_enter a t) agents
    \<and> (\<forall>a \<in> set agents. get_agent reg (ag_id a) = Some a)"
proof -
  have agents: "map snd reg = agents"
    using new_registry_agents [OF assms [unfolded new_agent_registry_def]] by simp
  have ok: "registry_ok reg" by (rule new_registry_ok [OF assms])
  then have ids: "keys reg = map ag_id agents"
    by (auto simp: registry_ok_def simp flip: agents intro!: map_cong)
  moreover have "get_agent reg (ag_id a) = Some a" if "a \<in> set agents" for a
  proof -
    from that obtain k where "(k, a) \<in> set reg" by (auto simp flip: agents)
    with ok show ?thesis by (auto simp: registry_ok_def get_agent_def)
  qed
  ultimately show ?thesis
    using ok agents
    by (cases allowed) (auto simp: list_agents_def registry_ok_def find_entry_agent_def)
qed

lemma registry_finds_first_agent_witness:
  "\<exists>reg a. new_agent_registry [\<lparr>ag_id = u ''a'', ag_can_enter = (\<lambda>t. False)\<rparr>,
      \<lparr>ag_id = u ''b'', ag_can_enter = (\<lambda>t. True)\<rparr>] = Inr reg
    \<and> find_entry_agent reg [] None = Some a \<and> ag_id a = u ''b''"
proof -
  obtain reg where reg: "new_agent_registry [\<lparr>ag_id = u ''a'', ag_can_enter = (\<lambda>t. False)\<rparr>,
      \<lparr>ag_id = u ''b'', ag_can_enter = (\<lambda>t. True)\<rparr>] = Inr reg"
    by (simp add: new_agent_registry_def register_agent_def)
  from registry_finds_first_agent [OF reg, of "[]" None] reg show ?thesis by auto
qed

end
