(* ===== verification/Quiz_Agents.thy ===== *)
theory Quiz_Agents
  imports Agent_Runtime
begin

text \<open>
  The two guessing games,
    \<open>src/llm/agents/riddle.py\<close> and \<open>src/llm/agents/truth_quiz.py\<close>,
    with their
  tables of questions.  The dictionary in which an agent keeps its state between two texts
  is a record; \<open>pick\<close> is the random choice of one call.
\<close>

subsection \<open>Riddles\<close>

datatype riddle = Riddle (rd_id: utext) (rd_question: utext) (rd_answer: utext)
  (rd_aliases: "utext list") (rd_hint: utext)

definition RIDDLES_1 :: "riddle list" where
  "RIDDLES_1 = [
    Riddle (u ''umbrella'')
      [0x4EC0, 0x4E48, 0x4E1C, 0x897F, 0x4E0B, 0x96E8, 0x5929, 0x6700, 0x5FD9, 0xFF0C, 0x6674,
        0x5929, 0x5374, 0x5E38, 0x88AB, 0x9057, 0x5FD8, 0xFF1F]
      [0x96E8, 0x4F1E] [[0x4F1E], [0x96E8, 0x4F1E]]
      [0x5B83, 0x901A, 0x5E38, 0x88AB, 0x4F60, 0x62FF, 0x5728, 0x624B, 0x91CC, 0x3002],
    Riddle (u ''mirror'')
      [0x4F60, 0x7B11, 0x5B83, 0x4E5F, 0x7B11, 0xFF0C, 0x4F60, 0x54ED, 0x5B83, 0x4E5F, 0x54ED,
        0xFF0C, 0x5B83, 0x662F, 0x8C01, 0xFF1F]
      [0x955C, 0x5B50] [[0x955C, 0x5B50], [0x955C]]
      [0x6BCF, 0x5929, 0x6D17, 0x6F31, 0x65F6, 0x5F88, 0x5BB9, 0x6613, 0x89C1, 0x5230, 0x5B83,
        0x3002],
    Riddle (u ''clock'')
      [0x6709, 0x811A, 0x4E0D, 0x4F1A, 0x8D70, 0xFF0C, 0x6709, 0x5634, 0x4E0D, 0x4F1A, 0x8BF4,
        0xFF0C, 0x5374, 0x5929, 0x5929, 0x63D0, 0x9192, 0x4F60, 0x65F6, 0x95F4, 0x3002]
      [0x949F, 0x8868] [[0x949F], [0x8868], [0x949F, 0x8868], [0x95F9, 0x949F]]
      [0x5899, 0x4E0A, 0x3001, 0x624B, 0x8155, 0x4E0A, 0x90FD, 0x53EF, 0x80FD, 0x6709, 0x3002],
    Riddle (u ''book'')
      [0x809A, 0x5B50, 0x91CC, 0x5168, 0x662F, 0x5B57, 0xFF0C, 0x8D8A, 0x7FFB, 0x8D8A, 0x6709,
        0x610F, 0x601D, 0x3002, 0x662F, 0x4EC0, 0x4E48, 0xFF1F]
      [0x4E66] [[0x4E66], [0x4E66, 0x672C], [0x672C, 0x5B50]]
      [0x5B83, 0x5E38, 0x5F85, 0x5728, 0x4E66, 0x67B6, 0x4E0A, 0x3002],
    Riddle (u ''snow'')
      [0x4ECE, 0x5929, 0x4E0A, 0x6765, 0xFF0C, 0x843D, 0x5730, 0x5C31, 0x767D, 0xFF0C, 0x592A,
        0x9633, 0x4E00, 0x51FA, 0x6765, 0x5C31, 0x4E0D, 0x89C1, 0x3002]
      [0x96EA] [[0x96EA], [0x96EA, 0x82B1]]
      [0x51AC, 0x5929, 0x66F4, 0x5E38, 0x89C1, 0x3002],
    Riddle (u ''candle'')
      [0x8D8A, 0x70E7, 0x8D8A, 0x77ED, 0xFF0C, 0x8D8A, 0x77ED, 0x8D8A, 0x4EAE, 0x3002, 0x662F,
        0x4EC0, 0x4E48, 0xFF1F]
      [0x8721, 0x70DB] [[0x8721, 0x70DB], [0x70DB]]
      [0x505C, 0x7535, 0x65F6, 0x5B83, 0x5F88, 0x6709, 0x7528, 0x3002],
    Riddle (u ''shadow'')
      [0x4F60, 0x8D70, 0x5B83, 0x4E5F, 0x8D70, 0xFF0C, 0x4F60, 0x505C, 0x5B83, 0x4E5F, 0x505C,
        0xFF0C, 0x9ED1, 0x591C, 0x91CC, 0x5374, 0x5E38, 0x4E0D, 0x89C1, 0x3002]
      [0x5F71, 0x5B50] [[0x5F71, 0x5B50], [0x4EBA, 0x5F71]]
      [0x6709, 0x5149, 0x7684, 0x65F6, 0x5019, 0x66F4, 0x5BB9, 0x6613, 0x770B, 0x5230, 0x5B83,
        0x3002],
    Riddle (u ''toothbrush'')
      [0x5929, 0x5929, 0x8FDB, 0x5634, 0x4E0D, 0x5403, 0x996D, 0xFF0C, 0x53EA, 0x5E2E, 0x522B,
        0x4EBA, 0x6D17, 0x4E2A, 0x6FA1, 0x3002]
      [0x7259, 0x5237] [[0x7259, 0x5237]]
      [0x65E9, 0x665A, 0x90FD, 0x53EF, 0x80FD, 0x7528, 0x5230, 0x3002],
    Riddle (u ''key'')
      [0x4E2A, 0x5934, 0x4E0D, 0x5927, 0x672C, 0x9886, 0x5F3A, 0xFF0C, 0x4E13, 0x95E8, 0x6253,
        0x5F00, 0x5C0F, 0x623F, 0x95E8, 0x3002]
      [0x94A5, 0x5319] [[0x94A5, 0x5319], [0x9501, 0x5319]]
      [0x5E38, 0x548C, 0x9501, 0x5728, 0x4E00, 0x8D77, 0x3002],
    Riddle (u ''soap'')
      [0x8D8A, 0x6D17, 0x81EA, 0x5DF1, 0x8D8A, 0x5C0F, 0xFF0C, 0x522B, 0x4EBA, 0x5374, 0x8D8A,
        0x6765, 0x8D8A, 0x5E72, 0x51C0, 0x3002]
      [0x80A5, 0x7682] [[0x80A5, 0x7682], [0x9999, 0x7682], [0x7682]]
      [0x6D17, 0x624B, 0x6D17, 0x6FA1, 0x4F1A, 0x7528, 0x5B83, 0x3002],
    Riddle (u ''glasses'')
      [0x4E24, 0x4E2A, 0x5708, 0x5708, 0x67B6, 0x9F3B, 0x6881, 0xFF0C, 0x5E2E, 0x4EBA, 0x770B,
        0x6E05, 0x8FDC, 0x548C, 0x8FD1, 0x3002]
      [0x773C, 0x955C] [[0x773C, 0x955C], [0x955C, 0x7247]]
      [0x8FD1, 0x89C6, 0x7684, 0x4EBA, 0x5E38, 0x6234, 0x3002],
    Riddle (u ''pencil'')
      [0x8EAB, 0x4F53, 0x7EC6, 0x957F, 0x9ED1, 0x5FC3, 0x80A0, 0xFF0C, 0x8D8A, 0x5199, 0x8D8A,
        0x77ED, 0x5E2E, 0x4EBA, 0x5FD9, 0x3002]
      [0x94C5, 0x7B14] [[0x94C5, 0x7B14], [0x7B14]]
      [0x5199, 0x9519, 0x4E86, 0x8FD8, 0x80FD, 0x64E6, 0x3002],
    Riddle (u ''eraser'')
      [0x522B, 0x4EBA, 0x5199, 0x9519, 0x5B83, 0x6765, 0x5FD9, 0xFF0C, 0x8D8A, 0x5E2E, 0x8D8A,
        0x77EE, 0x8EAB, 0x4E0A, 0x810F, 0x3002]
      [0x6A61, 0x76AE] [[0x6A61, 0x76AE], [0x6A61, 0x76AE, 0x64E6]]
      [0x5B83, 0x5E38, 0x548C, 0x94C5, 0x7B14, 0x505A, 0x670B, 0x53CB, 0x3002],
    Riddle (u ''refrigerator'')
      [0x809A, 0x5B50, 0x51B0, 0x51B0, 0x80FD, 0x88C5, 0x83DC, 0xFF0C, 0x590F, 0x5929, 0x6700,
        0x7231, 0x5B83, 0x5E2E, 0x5FD9, 0x3002]
      [0x51B0, 0x7BB1] [[0x51B0, 0x7BB1]]
      [0x53A8, 0x623F, 0x91CC, 0x5E38, 0x89C1, 0x7684, 0x5927, 0x7535, 0x5668, 0x3002],
    Riddle (u ''stairs'')
      [0x4E00, 0x683C, 0x4E00, 0x683C, 0x5F80, 0x4E0A, 0x6392, 0xFF0C, 0x8D70, 0x5B83, 0x80FD,
        0x4E0A, 0x4E5F, 0x80FD, 0x4E0B, 0x3002]
      [0x697C, 0x68AF] [[0x697C, 0x68AF], [0x53F0, 0x9636], [0x9636, 0x68AF]]
      [0x6CA1, 0x6709, 0x7535, 0x4E5F, 0x80FD, 0x4E0A, 0x4E0B, 0x697C, 0x3002],
    Riddle (u ''river'')
      [0x5F2F, 0x5F2F, 0x66F2, 0x66F2, 0x5411, 0x524D, 0x8D70, 0xFF0C, 0x6CA1, 0x6709, 0x811A,
        0x5374, 0x4E0D, 0x505C, 0x7559, 0x3002]
      [0x6CB3, 0x6D41] [[0x6CB3], [0x6CB3, 0x6D41], [0x5C0F, 0x6CB3]]
      [0x5B83, 0x5E38, 0x5F80, 0x4F4E, 0x5904, 0x6D41, 0x3002],
    Riddle (u ''cloud'')
      [0x767D, 0x767D, 0x4E00, 0x56E2, 0x5929, 0x4E0A, 0x98D8, 0xFF0C, 0x53D8, 0x9ED1, 0x53EF,
        0x80FD, 0x96E8, 0x6765, 0x5230, 0x3002]
      [0x4E91] [[0x4E91], [0x4E91, 0x6735], [0x4E4C, 0x4E91]]
      [0x62AC, 0x5934, 0x770B, 0x5929, 0x5BB9, 0x6613, 0x89C1, 0x5230, 0x3002],
    Riddle (u ''moon'')
      [0x665A, 0x4E0A, 0x51FA, 0x6765, 0x767D, 0x53C8, 0x5706, 0xFF0C, 0x6709, 0x65F6, 0x5F2F,
        0x5F2F, 0x50CF, 0x5C0F, 0x8239, 0x3002]
      [0x6708, 0x4EAE] [[0x6708, 0x4EAE], [0x6708], [0x6708, 0x7259]]
      [0x4E2D, 0x79CB, 0x8282, 0x5927, 0x5BB6, 0x5E38, 0x770B, 0x5B83, 0x3002],
    Riddle (u ''sun'')
      [0x65E9, 0x4E0A, 0x4E1C, 0x8FB9, 0x5347, 0xFF0C, 0x665A, 0x4E0A, 0x897F, 0x8FB9, 0x843D,
        0xFF0C, 0x7167, 0x5F97, 0x5927, 0x5730, 0x6696, 0x6D0B, 0x6D0B, 0x3002]
      [0x592A, 0x9633] [[0x592A, 0x9633], [0x65E5, 0x5934]]
      [0x767D, 0x5929, 0x6700, 0x4EAE, 0x7684, 0x90A3, 0x4E2A, 0x3002],
    Riddle (u ''fan'')
      [0x4E09, 0x7247, 0x53F6, 0x5B50, 0x4E0D, 0x957F, 0x6811, 0xFF0C, 0x4E00, 0x8F6C, 0x8D77,
        0x6765, 0x9001, 0x51C9, 0x98CE, 0x3002]
      [0x7535, 0x98CE, 0x6247] [[0x98CE, 0x6247], [0x7535, 0x98CE, 0x6247], [0x6247, 0x5B50]]
      [0x590F, 0x5929, 0x5E38, 0x7528, 0x3002]]"

definition RIDDLES_2 :: "riddle list" where
  "RIDDLES_2 = [
    Riddle (u ''telephone'')
      [0x79BB, 0x5F97, 0x5F88, 0x8FDC, 0x4E5F, 0x80FD, 0x804A, 0xFF0C, 0x53EE, 0x94C3, 0x4E00,
        0x54CD, 0x628A, 0x4EBA, 0x627E, 0x3002]
      [0x7535, 0x8BDD] [[0x7535, 0x8BDD], [0x624B, 0x673A], [0x5EA7, 0x673A]]
      [0x5B83, 0x80FD, 0x5E2E, 0x4EBA, 0x901A, 0x8BDD, 0x3002],
    Riddle (u ''map'')
      [0x4E0D, 0x8D70, 0x4E00, 0x6B65, 0x77E5, 0x5929, 0x4E0B, 0xFF0C, 0x5C71, 0x5DDD, 0x9053,
        0x8DEF, 0x90FD, 0x753B, 0x4E0B, 0x3002]
      [0x5730, 0x56FE] [[0x5730, 0x56FE]]
      [0x51FA, 0x95E8, 0x627E, 0x8DEF, 0x4F1A, 0x7528, 0x5B83, 0x3002],
    Riddle (u ''shoe'')
      [0x4E24, 0x5144, 0x5F1F, 0xFF0C, 0x811A, 0x4E0B, 0x4F4F, 0xFF0C, 0x8D70, 0x5357, 0x95EF,
        0x5317, 0x4E0D, 0x6015, 0x8DEF, 0x3002]
      [0x978B] [[0x978B], [0x978B, 0x5B50]]
      [0x6BCF, 0x5929, 0x51FA, 0x95E8, 0x5E38, 0x7A7F, 0x3002],
    Riddle (u ''hat'')
      [0x5934, 0x4E0A, 0x4E00, 0x5EA7, 0x5C0F, 0x623F, 0x5B50, 0xFF0C, 0x906E, 0x98CE, 0x6321,
        0x96E8, 0x53C8, 0x906E, 0x9633, 0x3002]
      [0x5E3D, 0x5B50] [[0x5E3D, 0x5B50], [0x5E3D]]
      [0x5B83, 0x6234, 0x5728, 0x5934, 0x4E0A, 0x3002],
    Riddle (u ''teapot'')
      [0x5927, 0x809A, 0x5C0F, 0x5634, 0x4E00, 0x53EA, 0x8033, 0xFF0C, 0x5012, 0x51FA, 0x70ED,
        0x6C34, 0x9999, 0x6C14, 0x98DE, 0x3002]
      [0x8336, 0x58F6] [[0x8336, 0x58F6], [0x58F6]]
      [0x559D, 0x8336, 0x65F6, 0x53EF, 0x80FD, 0x7528, 0x5230, 0x3002],
    Riddle (u ''chopsticks'')
      [0x4E24, 0x6839, 0x5C0F, 0x68CD, 0x624B, 0x4E2D, 0x62FF, 0xFF0C, 0x5939, 0x83DC, 0x5403,
        0x996D, 0x5168, 0x9760, 0x5B83, 0x3002]
      [0x7B77, 0x5B50] [[0x7B77, 0x5B50], [0x7B77]]
      [0x4E2D, 0x9910, 0x91CC, 0x7279, 0x522B, 0x5E38, 0x89C1, 0x3002],
    Riddle (u ''needle'')
      [0x8EAB, 0x4F53, 0x7EC6, 0x53C8, 0x5C16, 0xFF0C, 0x5C3E, 0x5DF4, 0x5E26, 0x53EA, 0x773C,
        0xFF0C, 0x8863, 0x670D, 0x7834, 0x4E86, 0x5B83, 0x6765, 0x8FDE, 0x3002]
      [0x9488] [[0x9488], [0x7F1D, 0x8863, 0x9488]]
      [0x7F1D, 0x8863, 0x670D, 0x4F1A, 0x7528, 0x3002],
    Riddle (u ''envelope'')
      [0x8584, 0x8584, 0x5C0F, 0x623F, 0x5B50, 0xFF0C, 0x4E13, 0x95E8, 0x88C5, 0x8BDD, 0x8BED,
        0xFF0C, 0x5BC4, 0x51FA, 0x8D70, 0x8FDC, 0x8DEF, 0x3002]
      [0x4FE1, 0x5C01] [[0x4FE1, 0x5C01], [0x4FE1]]
      [0x5199, 0x4FE1, 0x65F6, 0x4F1A, 0x7528, 0x5230, 0x3002],
    Riddle (u ''traffic_light'')
      [0x7EA2, 0x9EC4, 0x7EFF, 0x4E09, 0x5144, 0x5F1F, 0xFF0C, 0x7AD9, 0x5728, 0x8DEF, 0x53E3,
        0x7BA1, 0x79E9, 0x5E8F, 0x3002]
      [0x7EA2, 0x7EFF, 0x706F] [[0x7EA2, 0x7EFF, 0x706F], [0x4EA4, 0x901A, 0x706F], [0x4FE1,
        0x53F7, 0x706F]]
      [0x8FC7, 0x9A6C, 0x8DEF, 0x8981, 0x770B, 0x5B83, 0x3002],
    Riddle (u ''doorbell'')
      [0x5C0F, 0x624B, 0x4E00, 0x6309, 0x5B83, 0x5C31, 0x53EB, 0xFF0C, 0x4E3B, 0x4EBA, 0x542C,
        0x89C1, 0x628A, 0x95E8, 0x77A7, 0x3002]
      [0x95E8, 0x94C3] [[0x95E8, 0x94C3]]
      [0x5B83, 0x5E38, 0x5728, 0x95E8, 0x53E3, 0x3002],
    Riddle (u ''comb'')
      [0x4E00, 0x6392, 0x7259, 0x9F7F, 0x4E0D, 0x4F1A, 0x54AC, 0xFF0C, 0x5929, 0x5929, 0x5E2E,
        0x4EBA, 0x7406, 0x5934, 0x53D1, 0x3002]
      [0x68B3, 0x5B50] [[0x68B3, 0x5B50], [0x68B3]]
      [0x65E9, 0x4E0A, 0x6574, 0x7406, 0x5934, 0x53D1, 0x5E38, 0x7528, 0x5B83, 0x3002],
    Riddle (u ''scissors'')
      [0x4E24, 0x628A, 0x5C0F, 0x5200, 0x5634, 0x5BF9, 0x5634, 0xFF0C, 0x5494, 0x5693, 0x5494,
        0x5693, 0x4F1A, 0x88C1, 0x7EB8, 0x3002]
      [0x526A, 0x5200] [[0x526A, 0x5200], [0x526A, 0x5B50]]
      [0x624B, 0x5DE5, 0x8BFE, 0x4E0A, 0x5F88, 0x5E38, 0x89C1, 0x3002],
    Riddle (u ''broom'')
      [0x957F, 0x957F, 0x4E00, 0x6761, 0x5C3E, 0x5DF4, 0x591A, 0xFF0C, 0x5730, 0x4E0A, 0x7070,
        0x5C18, 0x5B83, 0x6765, 0x62D6, 0x3002]
      [0x626B, 0x5E1A] [[0x626B, 0x5E1A], [0x7B24, 0x5E1A], [0x626B, 0x628A]]
      [0x6253, 0x626B, 0x623F, 0x95F4, 0x4F1A, 0x7528, 0x5230, 0x3002],
    Riddle (u ''cup'')
      [0x809A, 0x5B50, 0x4E0D, 0x5927, 0x80FD, 0x88C5, 0x6C34, 0xFF0C, 0x5929, 0x5929, 0x966A,
        0x4EBA, 0x559D, 0x51E0, 0x56DE, 0x3002]
      [0x676F, 0x5B50] [[0x676F, 0x5B50], [0x6C34, 0x676F], [0x676F]]
      [0x559D, 0x6C34, 0x7684, 0x65F6, 0x5019, 0x4F1A, 0x62FF, 0x8D77, 0x5B83, 0x3002],
    Riddle (u ''spoon'')
      [0x5C0F, 0x5C0F, 0x8111, 0x888B, 0x957F, 0x5C3E, 0x5DF4, 0xFF0C, 0x8200, 0x6C64, 0x5403,
        0x996D, 0x90FD, 0x9760, 0x5B83, 0x3002]
      [0x52FA, 0x5B50] [[0x52FA, 0x5B50], [0x6C64, 0x52FA], [0x52FA]]
      [0x559D, 0x6C64, 0x65F6, 0x5E38, 0x7528, 0x3002],
    Riddle (u ''pillow'')
      [0x8F6F, 0x8F6F, 0x4E00, 0x65B9, 0x4E0D, 0x8BF4, 0x8BDD, 0xFF0C, 0x665A, 0x4E0A, 0x966A,
        0x4F60, 0x628A, 0x5934, 0x653E, 0x3002]
      [0x6795, 0x5934] [[0x6795, 0x5934], [0x6795]]
      [0x7761, 0x89C9, 0x65F6, 0x79BB, 0x5934, 0x6700, 0x8FD1, 0x3002],
    Riddle (u ''blanket'')
      [0x51AC, 0x5929, 0x62B1, 0x4F4F, 0x4F60, 0xFF0C, 0x591C, 0x91CC, 0x76D6, 0x4F4F, 0x4F60,
        0xFF0C, 0x6696, 0x6696, 0x548C, 0x548C, 0x4E0D, 0x8A00, 0x8BED, 0x3002]
      [0x88AB, 0x5B50] [[0x88AB, 0x5B50], [0x68C9, 0x88AB], [0x88AB]]
      [0x7761, 0x89C9, 0x65F6, 0x4F1A, 0x76D6, 0x5728, 0x8EAB, 0x4E0A, 0x3002],
    Riddle (u ''chair'')
      [0x56DB, 0x6761, 0x817F, 0xFF0C, 0x4E0D, 0x4F1A, 0x8D70, 0xFF0C, 0x7D2F, 0x4E86, 0x5750,
        0x4E0A, 0x6B47, 0x4E00, 0x6B47, 0x3002]
      [0x6905, 0x5B50] [[0x6905, 0x5B50], [0x6905]]
      [0x5B83, 0x5E38, 0x5728, 0x684C, 0x5B50, 0x65C1, 0x8FB9, 0x3002],
    Riddle (u ''table'')
      [0x56DB, 0x811A, 0x7AD9, 0x5F97, 0x7A33, 0xFF0C, 0x809A, 0x76AE, 0x5E73, 0x53C8, 0x5BBD,
        0xFF0C, 0x5403, 0x996D, 0x5199, 0x5B57, 0x90FD, 0x7528, 0x5B83, 0x3002]
      [0x684C, 0x5B50] [[0x684C, 0x5B50], [0x684C]]
      [0x996D, 0x83DC, 0x548C, 0x4E66, 0x672C, 0x90FD, 0x80FD, 0x653E, 0x4E0A, 0x9762, 0x3002],
    Riddle (u ''window'')
      [0x4E00, 0x9762, 0x900F, 0x660E, 0x5899, 0xFF0C, 0x80FD, 0x770B, 0x5916, 0x9762, 0x5149,
        0xFF0C, 0x6253, 0x5F00, 0x8FD8, 0x6709, 0x98CE, 0x8FDB, 0x623F, 0x3002]
      [0x7A97, 0x6237] [[0x7A97, 0x6237], [0x7A97]]
      [0x5B83, 0x901A, 0x5E38, 0x5728, 0x5899, 0x4E0A, 0x3002]]"

definition RIDDLES_3 :: "riddle list" where
  "RIDDLES_3 = [
    Riddle (u ''door'')
      [0x7AD9, 0x5728, 0x5899, 0x91CC, 0x628A, 0x8DEF, 0x6321, 0xFF0C, 0x63A8, 0x5F00, 0x4EE5,
        0x540E, 0x80FD, 0x8FDB, 0x623F, 0x3002]
      [0x95E8] [[0x95E8], [0x623F, 0x95E8]]
      [0x8FDB, 0x51FA, 0x623F, 0x95F4, 0x8981, 0x7ECF, 0x8FC7, 0x5B83, 0x3002],
    Riddle (u ''wallet'')
      [0x5C0F, 0x5C0F, 0x53E3, 0x888B, 0x968F, 0x8EAB, 0x5E26, 0xFF0C, 0x94B1, 0x548C, 0x5361,
        0x7247, 0x4F4F, 0x91CC, 0x8FB9, 0x3002]
      [0x94B1, 0x5305] [[0x94B1, 0x5305], [0x94B1, 0x5939]]
      [0x4E70, 0x4E1C, 0x897F, 0x65F6, 0x53EF, 0x80FD, 0x4F1A, 0x6253, 0x5F00, 0x5B83, 0x3002],
    Riddle (u ''bag'')
      [0x809A, 0x5B50, 0x80FD, 0x88C5, 0x597D, 0x591A, 0x6837, 0xFF0C, 0x80CC, 0x5728, 0x8EAB,
        0x4E0A, 0x53BB, 0x8FDC, 0x65B9, 0x3002]
      [0x4E66, 0x5305] [[0x4E66, 0x5305], [0x80CC, 0x5305], [0x5305]]
      [0x4E0A, 0x5B66, 0x6216, 0x51FA, 0x95E8, 0x5E38, 0x80CC, 0x3002],
    Riddle (u ''camera'')
      [0x5494, 0x5693, 0x4E00, 0x58F0, 0x7559, 0x4F4F, 0x666F, 0xFF0C, 0x7B11, 0x8138, 0x98CE,
        0x5149, 0x90FD, 0x80FD, 0x85CF, 0x3002]
      [0x76F8, 0x673A] [[0x76F8, 0x673A], [0x7167, 0x76F8, 0x673A], [0x6444, 0x50CF, 0x673A]]
      [0x62CD, 0x7167, 0x7247, 0x4F1A, 0x7528, 0x5B83, 0x3002],
    Riddle (u ''television'')
      [0x65B9, 0x65B9, 0x4E00, 0x6247, 0x7A97, 0xFF0C, 0x4E0D, 0x5F00, 0x4E5F, 0x4F1A, 0x4EAE,
        0xFF0C, 0x6545, 0x4E8B, 0x65B0, 0x95FB, 0x91CC, 0x9762, 0x653E, 0x3002]
      [0x7535, 0x89C6] [[0x7535, 0x89C6], [0x7535, 0x89C6, 0x673A]]
      [0x5BA2, 0x5385, 0x91CC, 0x5E38, 0x89C1, 0x3002],
    Riddle (u ''light_bulb'')
      [0x73BB, 0x7483, 0x8111, 0x888B, 0x4E00, 0x901A, 0x7535, 0xFF0C, 0x9ED1, 0x591C, 0x9A6C,
        0x4E0A, 0x4EAE, 0x8D77, 0x6765, 0x3002]
      [0x706F, 0x6CE1] [[0x706F, 0x6CE1], [0x7535, 0x706F], [0x706F]]
      [0x5B83, 0x80FD, 0x7167, 0x660E, 0x3002],
    Riddle (u ''battery'')
      [0x4E2A, 0x5934, 0x4E0D, 0x5927, 0x85CF, 0x7535, 0x91CF, 0xFF0C, 0x73A9, 0x5177, 0x9065,
        0x63A7, 0x9760, 0x5B83, 0x5FD9, 0x3002]
      [0x7535, 0x6C60] [[0x7535, 0x6C60]]
      [0x9065, 0x63A7, 0x5668, 0x91CC, 0x5E38, 0x6709, 0x5B83, 0x3002],
    Riddle (u ''remote_control'')
      [0x5C0F, 0x677F, 0x8EAB, 0x4E0A, 0x6309, 0x94AE, 0x591A, 0xFF0C, 0x5750, 0x7740, 0x4E5F,
        0x80FD, 0x6362, 0x8282, 0x76EE, 0x3002]
      [0x9065, 0x63A7, 0x5668] [[0x9065, 0x63A7, 0x5668], [0x9065, 0x63A7]]
      [0x770B, 0x7535, 0x89C6, 0x65F6, 0x5E38, 0x62FF, 0x7740, 0x3002],
    Riddle (u ''calendar'')
      [0x4E00, 0x9875, 0x4E00, 0x9875, 0x8BB0, 0x65E5, 0x5B50, 0xFF0C, 0x4ECA, 0x5929, 0x660E,
        0x5929, 0x5B83, 0x90FD, 0x77E5, 0x3002]
      [0x65E5, 0x5386] [[0x65E5, 0x5386], [0x6302, 0x5386], [0x53F0, 0x5386]]
      [0x5B83, 0x80FD, 0x5E2E, 0x4F60, 0x770B, 0x65E5, 0x671F, 0x3002],
    Riddle (u ''newspaper'')
      [0x8584, 0x8584, 0x51E0, 0x5F20, 0x6EE1, 0x662F, 0x5B57, 0xFF0C, 0x65B0, 0x95FB, 0x6D88,
        0x606F, 0x90FD, 0x5728, 0x91CC, 0x3002]
      [0x62A5, 0x7EB8] [[0x62A5, 0x7EB8], [0x62A5]]
      [0x4EE5, 0x524D, 0x5F88, 0x591A, 0x4EBA, 0x65E9, 0x4E0A, 0x8BFB, 0x5B83, 0x3002],
    Riddle (u ''basket'')
      [0x809A, 0x5B50, 0x7A7A, 0x7A7A, 0x5B54, 0x53C8, 0x591A, 0xFF0C, 0x4E70, 0x83DC, 0x88C5,
        0x679C, 0x90FD, 0x4E0D, 0x9519, 0x3002]
      [0x7BEE, 0x5B50] [[0x7BEE, 0x5B50], [0x83DC, 0x7BEE]]
      [0x53BB, 0x5E02, 0x573A, 0x53EF, 0x80FD, 0x7528, 0x5230, 0x3002],
    Riddle (u ''ball'')
      [0x5706, 0x5706, 0x8EAB, 0x4F53, 0x6EE1, 0x5730, 0x8DD1, 0xFF0C, 0x8E22, 0x5B83, 0x62CD,
        0x5B83, 0x90FD, 0x80FD, 0x8DF3, 0x3002]
      [0x7403] [[0x7403], [0x76AE, 0x7403]]
      [0x8FD0, 0x52A8, 0x573A, 0x4E0A, 0x5E38, 0x89C1, 0x3002],
    Riddle (u ''kite'')
      [0x8EAB, 0x8F7B, 0x7EBF, 0x957F, 0x5929, 0x4E0A, 0x98DE, 0xFF0C, 0x98CE, 0x4E00, 0x5439,
        0x6765, 0x5B83, 0x5C31, 0x8FFD, 0x3002]
      [0x98CE, 0x7B5D] [[0x98CE, 0x7B5D]]
      [0x6625, 0x5929, 0x653E, 0x5B83, 0x5F88, 0x5F00, 0x5FC3, 0x3002],
    Riddle (u ''bridge'')
      [0x7AD9, 0x5728, 0x6C34, 0x4E0A, 0x4E0D, 0x6015, 0x6E7F, 0xFF0C, 0x5E2E, 0x4EBA, 0x8FC7,
        0x6CB3, 0x53BB, 0x5BF9, 0x5CB8, 0x3002]
      [0x6865] [[0x6865], [0x6865, 0x6881]]
      [0x6CB3, 0x4E24, 0x8FB9, 0x9760, 0x5B83, 0x76F8, 0x8FDE, 0x3002],
    Riddle (u ''train'')
      [0x4E00, 0x8282, 0x4E00, 0x8282, 0x8FDE, 0x6210, 0x961F, 0xFF0C, 0x94C1, 0x8F68, 0x4E0A,
        0x9762, 0x8DD1, 0x5F97, 0x98DE, 0x3002]
      [0x706B, 0x8F66] [[0x706B, 0x8F66], [0x5217, 0x8F66]]
      [0x5B83, 0x5728, 0x94C1, 0x8F68, 0x4E0A, 0x884C, 0x9A76, 0x3002],
    Riddle (u ''airplane'')
      [0x5927, 0x9E1F, 0x6CA1, 0x6709, 0x7FBD, 0x6BDB, 0x8863, 0xFF0C, 0x8F7D, 0x4EBA, 0x7A7F,
        0x4E91, 0x4E07, 0x91CC, 0x98DE, 0x3002]
      [0x98DE, 0x673A] [[0x98DE, 0x673A]]
      [0x673A, 0x573A, 0x91CC, 0x80FD, 0x770B, 0x5230, 0x5B83, 0x3002],
    Riddle (u ''boat'')
      [0x6C34, 0x4E0A, 0x5C0F, 0x5C4B, 0x4F1A, 0x524D, 0x884C, 0xFF0C, 0x8FC7, 0x6CB3, 0x51FA,
        0x6D77, 0x5B83, 0x6709, 0x540D, 0x3002]
      [0x8239] [[0x8239], [0x5C0F, 0x8239], [0x8F6E, 0x8239]]
      [0x5B83, 0x5728, 0x6C34, 0x4E0A, 0x884C, 0x9A76, 0x3002],
    Riddle (u ''rainbow'')
      [0x96E8, 0x540E, 0x5929, 0x8FB9, 0x4E00, 0x5EA7, 0x6865, 0xFF0C, 0x4E03, 0x5F69, 0x8863,
        0x88F3, 0x5F2F, 0x5F2F, 0x8170, 0x3002]
      [0x5F69, 0x8679] [[0x5F69, 0x8679], [0x8679]]
      [0x592A, 0x9633, 0x548C, 0x96E8, 0x540E, 0x66F4, 0x5BB9, 0x6613, 0x89C1, 0x5230, 0x3002],
    Riddle (u ''star'')
      [0x591C, 0x91CC, 0x7728, 0x773C, 0x5C0F, 0x4EAE, 0x70B9, 0xFF0C, 0x5929, 0x4E0A, 0x4E00,
        0x9897, 0x53C8, 0x4E00, 0x9897, 0x3002]
      [0x661F, 0x661F] [[0x661F, 0x661F], [0x661F]]
      [0x665A, 0x4E0A, 0x62AC, 0x5934, 0x770B, 0x5929, 0x80FD, 0x89C1, 0x5230, 0x3002],
    Riddle (u ''ice'')
      [0x6C34, 0x53D8, 0x786C, 0x6765, 0x51B7, 0x51B0, 0x51B0, 0xFF0C, 0x624B, 0x91CC, 0x4E00,
        0x63E1, 0x6162, 0x6162, 0x8F7B, 0x3002]
      [0x51B0] [[0x51B0], [0x51B0, 0x5757]]
      [0x653E, 0x8FDB, 0x996E, 0x6599, 0x4F1A, 0x53D8, 0x51C9, 0x3002]]"

definition RIDDLES :: "riddle list" where
  "RIDDLES = RIDDLES_1 @ RIDDLES_2 @ RIDDLES_3"

definition RIDDLE_ENTRY_PATTERNS :: "pat list list" where
  \<comment> \<open>guess, play or do a riddle; riddle game, another riddle\<close>
  "RIDDLE_ENTRY_PATTERNS =
    [[Alt [[0x731C], [0x73A9], [0x6765]], Gap 4, Alt [[0x8C1C, 0x8BED], [0x706F, 0x8C1C]]],
     [Alt [[0x8C1C, 0x8BED], [0x706F, 0x8C1C]], Gap 4, Alt [[0x6E38, 0x620F], [0x6765, 0x4E00,
       0x4E2A], [0x73A9, 0x4E00, 0x4E0B]]]]"

definition RIDDLE_EXIT_WORDS :: "utext list" where
  "RIDDLE_EXIT_WORDS =
    [[0x4E0D, 0x731C, 0x4E86], [0x9000, 0x51FA, 0x8C1C, 0x8BED], [0x7ED3, 0x675F, 0x8C1C,
      0x8BED], [0x4E0D, 0x73A9, 0x4E86], [0x9000, 0x51FA, 0x6E38, 0x620F], [0x56DE, 0x5230,
      0x804A, 0x5929], [0x9000, 0x51FA]]"

definition RIDDLE_NEXT_WORDS :: "utext list" where
  \<comment> \<open>go on, again, another one, next, one more, can do, good\<close>
  "RIDDLE_NEXT_WORDS =
    [[0x7EE7, 0x7EED], [0x518D, 0x6765], [0x518D, 0x6765, 0x4E00, 0x4E2A], [0x4E0B, 0x4E00,
      0x9898], [0x6765, 0x4E00, 0x4E2A], [0x53EF, 0x4EE5], [0x597D]]"

record riddle_state =
  rs_current :: utext
  rs_used :: "utext list"
  rs_score :: int
  rs_rounds :: int
  rs_attempts :: int
  rs_awaiting_next :: bool

definition riddle_can_enter :: "pylib \<Rightarrow> utext \<Rightarrow> bool" where
  "riddle_can_enter L t = any_pattern RIDDLE_ENTRY_PATTERNS (agent_normalize L t)"

definition next_riddle ::
  "(riddle list \<Rightarrow> riddle) \<Rightarrow> utext list \<Rightarrow> int \<Rightarrow>
    int \<Rightarrow> riddle_state \<times> utext" where
  "next_riddle pick used score rounds =
     (let candidates = filter (\<lambda>r. rd_id r \<notin> set used) RIDDLES;
          (used1, candidates1) = (if candidates = [] then ([], RIDDLES) else (used, candidates));
          riddle = pick candidates1
      in (\<lparr>rs_current = rd_id riddle, rs_used = used1 @ [rd_id riddle], rs_score = score,
           rs_rounds = rounds + 1, rs_attempts = 0, rs_awaiting_next = False\<rparr>,
          [0x6765, 0xFF0C, 0x731C, 0x4E00, 0x4E2A, 0xFF1A] @ rd_question riddle))"

definition riddle_result :: "utext \<Rightarrow> 's option \<Rightarrow> bool \<Rightarrow> 's
  agent_result" where
  "riddle_result t s finished =
     \<lparr>ar_text = t, ar_state = s, ar_finished = finished,
       ar_persist_history = False\<rparr>"

definition riddle_start :: "(riddle list \<Rightarrow> riddle) \<Rightarrow> riddle_state
  agent_result" where
  "riddle_start pick =
     (let (s, t) = next_riddle pick [] 0 0 in riddle_result t (Some s) False)"

definition find_riddle :: "utext \<Rightarrow> riddle option" where
  "find_riddle riddle_id = find (\<lambda>r. rd_id r = riddle_id) RIDDLES"

definition matches_answer :: "pylib \<Rightarrow> utext \<Rightarrow> riddle \<Rightarrow> bool"
  where
  "matches_answer L t r =
     list_ex (\<lambda>alias. u_in (agent_normalize L alias) (agent_normalize L t)) (rd_aliases
       r)"

definition riddle_is_exit :: "pylib \<Rightarrow> utext \<Rightarrow> bool" where
  "riddle_is_exit L t = has_word RIDDLE_EXIT_WORDS (agent_normalize L t)"

definition riddle_is_next :: "pylib \<Rightarrow> utext \<Rightarrow> bool" where
  "riddle_is_next L t = has_word RIDDLE_NEXT_WORDS (agent_normalize L t)"

definition riddle_handle ::
  "pylib \<Rightarrow> (riddle list \<Rightarrow> riddle) \<Rightarrow> utext \<Rightarrow>
    riddle_state \<Rightarrow> riddle_state agent_result" where
  "riddle_handle L pick t s =
     (if riddle_is_exit L t then
        riddle_result
          ([0x597D, 0x7684, 0xFF0C, 0x4E0D, 0x731C, 0x8C1C, 0x8BED, 0x4E86, 0x3002, 0x4F60,
            0x8FD9, 0x6B21, 0x7B54, 0x5BF9, 0x20] @ u (int_text (rs_score s)) @ [0x20, 0x9898,
            0xFF0C, 0x5171, 0x73A9, 0x4E86, 0x20]
            @ u (int_text (rs_rounds s)) @ [0x20, 0x9898, 0x3002])
          None True
      else if rs_awaiting_next s then
        if riddle_is_next L t then
          let (s1, reply) = next_riddle pick (rs_used s) (rs_score s) (rs_rounds s)
          in riddle_result reply (Some s1) False
        else riddle_result [0x5982, 0x679C, 0x8FD8, 0x60F3, 0x731C, 0xFF0C, 0x5C31, 0x8BF4,
          0x518D, 0x6765, 0x4E00, 0x4E2A, 0xFF1B, 0x4E0D, 0x60F3, 0x73A9, 0x4E86, 0xFF0C,
          0x53EF, 0x4EE5, 0x8BF4, 0x9000, 0x51FA, 0x8C1C, 0x8BED, 0x3002] (Some s) False
      else case find_riddle (rs_current s) of
          None \<Rightarrow>
            let (s1, reply) = next_riddle pick (rs_used s) (rs_score s) (rs_rounds s)
            in riddle_result reply (Some s1) False
        | Some current \<Rightarrow>
            if matches_answer L t current then
              riddle_result ([0x7B54, 0x5BF9, 0x5566, 0xFF0C, 0x7B54, 0x6848, 0x5C31,
                0x662F] @ rd_answer current @ [0x3002, 0x8FD8, 0x8981, 0x518D, 0x6765, 0x4E00,
                0x4E2A, 0x5417, 0xFF1F])
                (Some (s\<lparr>rs_score := rs_score s + 1,
                  rs_awaiting_next := True\<rparr>)) False
            else
              let attempts = rs_attempts s + 1 in
              if attempts = 1 then
                riddle_result ([0x8FD8, 0x4E0D, 0x5BF9, 0xFF0C, 0x7ED9, 0x4F60, 0x4E2A, 0x63D0,
                  0x793A, 0xFF1A] @ rd_hint current)
                  (Some (s\<lparr>rs_attempts := attempts\<rparr>)) False
              else
                riddle_result ([0x516C, 0x5E03, 0x7B54, 0x6848, 0xFF0C,
                  0x662F] @ rd_answer current @ [0x3002, 0x8FD8, 0x8981, 0x518D, 0x731C, 0x4E00,
                  0x4E2A, 0x5417, 0xFF1F])
                  (Some (s\<lparr>rs_awaiting_next := True,
                    rs_attempts := attempts\<rparr>)) False)"

subsection \<open>True or false\<close>

datatype truth_statement = Statement (ts_id: utext) (ts_statement: utext) (ts_answer: bool)
  (ts_explanation: utext)

definition STATEMENTS_1 :: "truth_statement list" where
  "STATEMENTS_1 = [
    Statement (u ''octopus'')
      [0x7AE0, 0x9C7C, 0x6709, 0x4E09, 0x9897, 0x5FC3, 0x810F, 0x3002] True
      [0x662F, 0x771F, 0x7684, 0xFF0C, 0x7AE0, 0x9C7C, 0x6709, 0x4E09, 0x9897, 0x5FC3, 0x810F,
        0x3002],
    Statement (u ''banana_tree'')
      [0x9999, 0x8549, 0x957F, 0x5728, 0x771F, 0x6B63, 0x7684, 0x6728, 0x8D28, 0x6811, 0x4E0A,
        0x3002] False
      [0x662F, 0x5047, 0x7684, 0xFF0C, 0x9999, 0x8549, 0x690D, 0x682A, 0x66F4, 0x63A5, 0x8FD1,
        0x5927, 0x578B, 0x8349, 0x672C, 0x690D, 0x7269, 0x3002],
    Statement (u ''honey'')
      [0x8702, 0x871C, 0x5728, 0x5408, 0x9002, 0x4FDD, 0x5B58, 0x6761, 0x4EF6, 0x4E0B, 0x5F88,
        0x96BE, 0x53D8, 0x8D28, 0x3002] True
      [0x662F, 0x771F, 0x7684, 0xFF0C, 0x4F4E, 0x6C34, 0x5206, 0x548C, 0x9AD8, 0x7CD6, 0x73AF,
        0x5883, 0x8BA9, 0x5B83, 0x5F88, 0x8010, 0x4FDD, 0x5B58, 0x3002],
    Statement (u ''sunflower'')
      [0x6240, 0x6709, 0x5411, 0x65E5, 0x8475, 0x90FD, 0x4F1A, 0x4E00, 0x76F4, 0x8DDF, 0x7740,
        0x592A, 0x9633, 0x8F6C, 0x3002] False
      [0x662F, 0x5047, 0x7684, 0xFF0C, 0x6210, 0x719F, 0x5411, 0x65E5, 0x8475, 0x901A, 0x5E38,
        0x56FA, 0x5B9A, 0x671D, 0x5411, 0x4E1C, 0x65B9, 0x3002],
    Statement (u ''sound_space'')
      [0x58F0, 0x97F3, 0x53EF, 0x4EE5, 0x5728, 0x771F, 0x7A7A, 0x4E2D, 0x4F20, 0x64AD,
        0x3002] False
      [0x662F, 0x5047, 0x7684, 0xFF0C, 0x58F0, 0x97F3, 0x9700, 0x8981, 0x4ECB, 0x8D28, 0x4F20,
        0x64AD, 0x3002],
    Statement (u ''bat_mammal'')
      [0x8759, 0x8760, 0x662F, 0x54FA, 0x4E73, 0x52A8, 0x7269, 0x3002] True
      [0x662F, 0x771F, 0x7684, 0xFF0C, 0x8759, 0x8760, 0x4F1A, 0x54FA, 0x4E73, 0x5E7C, 0x5D3D,
        0x3002],
    Statement (u ''penguin_fly'')
      [0x4F01, 0x9E45, 0x4F1A, 0x98DE, 0x3002] False
      [0x662F, 0x5047, 0x7684, 0xFF0C, 0x4F01, 0x9E45, 0x4E0D, 0x4F1A, 0x98DE, 0xFF0C, 0x4F46,
        0x5F88, 0x4F1A, 0x6E38, 0x6CF3, 0x3002],
    Statement (u ''water_boils'')
      [0x6807, 0x51C6, 0x5927, 0x6C14, 0x538B, 0x4E0B, 0xFF0C, 0x6C34, 0x901A, 0x5E38, 0x5728,
        0x4E00, 0x767E, 0x5EA6, 0x6CB8, 0x817E, 0x3002] True
      [0x662F, 0x771F, 0x7684, 0xFF0C, 0x8FD9, 0x662F, 0x5E38, 0x89C1, 0x7269, 0x7406, 0x5E38,
        0x8BC6, 0x3002],
    Statement (u ''human_bones'')
      [0x6210, 0x5E74, 0x4EBA, 0x8EAB, 0x4F53, 0x91CC, 0x901A, 0x5E38, 0x6709, 0x4E8C, 0x767E,
        0x96F6, 0x516D, 0x5757, 0x9AA8, 0x5934, 0x3002] True
      [0x662F, 0x771F, 0x7684, 0xFF0C, 0x6210, 0x5E74, 0x4EBA, 0x901A, 0x5E38, 0x7EA6, 0x6709,
        0x4E8C, 0x767E, 0x96F6, 0x516D, 0x5757, 0x9AA8, 0x5934, 0x3002],
    Statement (u ''shark_bone'')
      [0x9CA8, 0x9C7C, 0x7684, 0x9AA8, 0x9ABC, 0x4E3B, 0x8981, 0x7531, 0x8F6F, 0x9AA8, 0x6784,
        0x6210, 0x3002] True
      [0x662F, 0x771F, 0x7684, 0xFF0C, 0x9CA8, 0x9C7C, 0x5C5E, 0x4E8E, 0x8F6F, 0x9AA8, 0x9C7C,
        0x7C7B, 0x3002],
    Statement (u ''earth_flat'')
      [0x5730, 0x7403, 0x662F, 0x5B8C, 0x5168, 0x5E73, 0x7684, 0x3002] False
      [0x662F, 0x5047, 0x7684, 0xFF0C, 0x5730, 0x7403, 0x6574, 0x4F53, 0x63A5, 0x8FD1, 0x7403,
        0x4F53, 0x3002],
    Statement (u ''venus_hot'')
      [0x91D1, 0x661F, 0x8868, 0x9762, 0x975E, 0x5E38, 0x708E, 0x70ED, 0x3002] True
      [0x662F, 0x771F, 0x7684, 0xFF0C, 0x91D1, 0x661F, 0x6709, 0x5F3A, 0x70C8, 0x6E29, 0x5BA4,
        0x6548, 0x5E94, 0x3002],
    Statement (u ''camel_hump_water'')
      [0x9A86, 0x9A7C, 0x7684, 0x9A7C, 0x5CF0, 0x4E3B, 0x8981, 0x50A8, 0x5B58, 0x6C34,
        0x3002] False
      [0x662F, 0x5047, 0x7684, 0xFF0C, 0x9A7C, 0x5CF0, 0x4E3B, 0x8981, 0x50A8, 0x5B58, 0x8102,
        0x80AA, 0x3002],
    Statement (u ''whale_fish'')
      [0x9CB8, 0x9C7C, 0x662F, 0x9C7C, 0x7C7B, 0x3002] False
      [0x662F, 0x5047, 0x7684, 0xFF0C, 0x9CB8, 0x9C7C, 0x662F, 0x54FA, 0x4E73, 0x52A8, 0x7269,
        0x3002],
    Statement (u ''lightning_hot'')
      [0x95EA, 0x7535, 0x7684, 0x6E29, 0x5EA6, 0x53EF, 0x4EE5, 0x975E, 0x5E38, 0x9AD8,
        0x3002] True
      [0x662F, 0x771F, 0x7684, 0xFF0C, 0x95EA, 0x7535, 0x901A, 0x9053, 0x6E29, 0x5EA6, 0x53EF,
        0x8FDC, 0x9AD8, 0x4E8E, 0x592A, 0x9633, 0x8868, 0x9762, 0x3002],
    Statement (u ''spider_insect'')
      [0x8718, 0x86DB, 0x662F, 0x6606, 0x866B, 0x3002] False
      [0x662F, 0x5047, 0x7684, 0xFF0C, 0x8718, 0x86DB, 0x6709, 0x516B, 0x6761, 0x817F, 0xFF0C,
        0x5C5E, 0x4E8E, 0x86DB, 0x5F62, 0x7EB2, 0x3002],
    Statement (u ''gold_symbol'')
      [0x9EC4, 0x91D1, 0x7684, 0x5316, 0x5B66, 0x7B26, 0x53F7, 0x662F, 0x20, 0x41, 0x75,
        0x3002] True
      [0x662F, 0x771F, 0x7684, 0xFF0C, 0x41, 0x75, 0x20, 0x6765, 0x81EA, 0x9EC4, 0x91D1, 0x7684,
        0x62C9, 0x4E01, 0x540D, 0x3002],
    Statement (u ''oxygen_symbol'')
      [0x6C27, 0x6C14, 0x7684, 0x5316, 0x5B66, 0x7B26, 0x53F7, 0x662F, 0x20, 0x4F, 0x3002] True
      [0x57FA, 0x672C, 0x6B63, 0x786E, 0xFF0C, 0x5143, 0x7D20, 0x6C27, 0x7684, 0x7B26, 0x53F7,
        0x662F, 0x20, 0x4F, 0x3002],
    Statement (u ''plants_photosynthesis'')
      [0x7EFF, 0x8272, 0x690D, 0x7269, 0x80FD, 0x8FDB, 0x884C, 0x5149, 0x5408, 0x4F5C, 0x7528,
        0x3002] True
      [0x662F, 0x771F, 0x7684, 0xFF0C, 0x5149, 0x5408, 0x4F5C, 0x7528, 0x80FD, 0x5236, 0x9020,
        0x6709, 0x673A, 0x7269, 0x5E76, 0x91CA, 0x653E, 0x6C27, 0x6C14, 0x3002],
    Statement (u ''tomato_vegetable'')
      [0x4ECE, 0x690D, 0x7269, 0x5B66, 0x89D2, 0x5EA6, 0x770B, 0xFF0C, 0x756A, 0x8304, 0x662F,
        0x679C, 0x5B9E, 0x3002] True
      [0x662F, 0x771F, 0x7684, 0xFF0C, 0x756A, 0x8304, 0x5728, 0x690D, 0x7269, 0x5B66, 0x4E0A,
        0x5C5E, 0x4E8E, 0x679C, 0x5B9E, 0x3002]]"

definition STATEMENTS_2 :: "truth_statement list" where
  "STATEMENTS_2 = [
    Statement (u ''ostrich_fast'')
      [0x9E35, 0x9E1F, 0x8DD1, 0x5F97, 0x5F88, 0x5FEB, 0x3002] True
      [0x662F, 0x771F, 0x7684, 0xFF0C, 0x9E35, 0x9E1F, 0x662F, 0x5954, 0x8DD1, 0x901F, 0x5EA6,
        0x5F88, 0x5FEB, 0x7684, 0x9E1F, 0x7C7B, 0x3002],
    Statement (u ''polar_bear_south'')
      [0x91CE, 0x751F, 0x5317, 0x6781, 0x718A, 0x4E3B, 0x8981, 0x751F, 0x6D3B, 0x5728, 0x5357,
        0x6781, 0x3002] False
      [0x662F, 0x5047, 0x7684, 0xFF0C, 0x5317, 0x6781, 0x718A, 0x4E3B, 0x8981, 0x751F, 0x6D3B,
        0x5728, 0x5317, 0x6781, 0x5730, 0x533A, 0x3002],
    Statement (u ''moon_light'')
      [0x6708, 0x4EAE, 0x81EA, 0x5DF1, 0x4F1A, 0x53D1, 0x51FA, 0x5F3A, 0x5149, 0x3002] False
      [0x662F, 0x5047, 0x7684, 0xFF0C, 0x6211, 0x4EEC, 0x770B, 0x5230, 0x7684, 0x6708, 0x5149,
        0x4E3B, 0x8981, 0x6765, 0x81EA, 0x592A, 0x9633, 0x53CD, 0x5C04, 0x3002],
    Statement (u ''sound_faster_than_light'')
      [0x58F0, 0x97F3, 0x6BD4, 0x5149, 0x4F20, 0x64AD, 0x5F97, 0x66F4, 0x5FEB, 0x3002] False
      [0x662F, 0x5047, 0x7684, 0xFF0C, 0x5149, 0x901F, 0x8FDC, 0x8FDC, 0x5FEB, 0x4E8E, 0x58F0,
        0x901F, 0x3002],
    Statement (u ''blood_red'')
      [0x4EBA, 0x7684, 0x8840, 0x6DB2, 0x901A, 0x5E38, 0x662F, 0x7EA2, 0x8272, 0x7684,
        0x3002] True
      [0x662F, 0x771F, 0x7684, 0xFF0C, 0x8840, 0x7EA2, 0x86CB, 0x767D, 0x8BA9, 0x8840, 0x6DB2,
        0x5448, 0x7EA2, 0x8272, 0x3002],
    Statement (u ''koala_fingerprint'')
      [0x8003, 0x62C9, 0x7684, 0x6307, 0x7EB9, 0x548C, 0x4EBA, 0x7C7B, 0x6307, 0x7EB9, 0x5F88,
        0x76F8, 0x4F3C, 0x3002] True
      [0x662F, 0x771F, 0x7684, 0xFF0C, 0x8003, 0x62C9, 0x6307, 0x7EB9, 0x7EB9, 0x8DEF, 0x5F88,
        0x50CF, 0x4EBA, 0x7C7B, 0x3002],
    Statement (u ''coffee_bean'')
      [0x5496, 0x5561, 0x8C46, 0x5176, 0x5B9E, 0x662F, 0x5496, 0x5561, 0x679C, 0x91CC, 0x7684,
        0x79CD, 0x5B50, 0x3002] True
      [0x662F, 0x771F, 0x7684, 0xFF0C, 0x5496, 0x5561, 0x8C46, 0x662F, 0x5496, 0x5561, 0x679C,
        0x5B9E, 0x91CC, 0x7684, 0x79CD, 0x5B50, 0x3002],
    Statement (u ''glass_liquid'')
      [0x666E, 0x901A, 0x73BB, 0x7483, 0x5728, 0x5BA4, 0x6E29, 0x4E0B, 0x4F1A, 0x50CF, 0x6C34,
        0x4E00, 0x6837, 0x5FEB, 0x901F, 0x6D41, 0x52A8, 0x3002] False
      [0x662F, 0x5047, 0x7684, 0xFF0C, 0x73BB, 0x7483, 0x4E0D, 0x4F1A, 0x5728, 0x65E5, 0x5E38,
        0x5C3A, 0x5EA6, 0x4E0B, 0x5FEB, 0x901F, 0x6D41, 0x52A8, 0x3002],
    Statement (u ''rainbow_colors'')
      [0x5F69, 0x8679, 0x5E38, 0x88AB, 0x8BF4, 0x6210, 0x6709, 0x4E03, 0x79CD, 0x989C, 0x8272,
        0x3002] True
      [0x662F, 0x771F, 0x7684, 0xFF0C, 0x5E38, 0x89C1, 0x8BF4, 0x6CD5, 0x662F, 0x7EA2, 0x6A59,
        0x9EC4, 0x7EFF, 0x9752, 0x84DD, 0x7D2B, 0x3002],
    Statement (u ''mushroom_plant'')
      [0x8611, 0x83C7, 0x5C5E, 0x4E8E, 0x690D, 0x7269, 0x3002] False
      [0x662F, 0x5047, 0x7684, 0xFF0C, 0x8611, 0x83C7, 0x5C5E, 0x4E8E, 0x771F, 0x83CC, 0x3002],
    Statement (u ''bee_dance'')
      [0x871C, 0x8702, 0x4F1A, 0x7528, 0x7279, 0x6B8A, 0x821E, 0x8E48, 0x4F20, 0x9012, 0x98DF,
        0x7269, 0x4F4D, 0x7F6E, 0x3002] True
      [0x662F, 0x771F, 0x7684, 0xFF0C, 0x871C, 0x8702, 0x53EF, 0x4EE5, 0x901A, 0x8FC7, 0x821E,
        0x8E48, 0x4F20, 0x9012, 0x65B9, 0x5411, 0x548C, 0x8DDD, 0x79BB, 0x4FE1, 0x606F, 0x3002],
    Statement (u ''snail_teeth'')
      [0x8717, 0x725B, 0x5634, 0x91CC, 0x53EF, 0x80FD, 0x6709, 0x5F88, 0x591A, 0x7EC6, 0x5C0F,
        0x7684, 0x9F7F, 0x72B6, 0x7ED3, 0x6784, 0x3002] True
      [0x662F, 0x771F, 0x7684, 0xFF0C, 0x8717, 0x725B, 0x6709, 0x9F7F, 0x820C, 0xFF0C, 0x4E0A,
        0x9762, 0x6709, 0x8BB8, 0x591A, 0x7EC6, 0x5C0F, 0x7ED3, 0x6784, 0x3002],
    Statement (u ''dolphin_mammal'')
      [0x6D77, 0x8C5A, 0x662F, 0x54FA, 0x4E73, 0x52A8, 0x7269, 0x3002] True
      [0x662F, 0x771F, 0x7684, 0xFF0C, 0x6D77, 0x8C5A, 0x7528, 0x80BA, 0x547C, 0x5438, 0xFF0C,
        0x4E5F, 0x4F1A, 0x54FA, 0x4E73, 0x5E7C, 0x5D3D, 0x3002],
    Statement (u ''cactus_water'')
      [0x4ED9, 0x4EBA, 0x638C, 0x80FD, 0x5728, 0x830E, 0x91CC, 0x50A8, 0x5B58, 0x6C34, 0x5206,
        0x3002] True
      [0x662F, 0x771F, 0x7684, 0xFF0C, 0x8FD9, 0x6709, 0x52A9, 0x4E8E, 0x5B83, 0x9002, 0x5E94,
        0x5E72, 0x65F1, 0x73AF, 0x5883, 0x3002],
    Statement (u ''metal_expands'')
      [0x5F88, 0x591A, 0x91D1, 0x5C5E, 0x53D7, 0x70ED, 0x4F1A, 0x81A8, 0x80C0, 0x3002] True
      [0x662F, 0x771F, 0x7684, 0xFF0C, 0x70ED, 0x80C0, 0x51B7, 0x7F29, 0x662F, 0x5E38, 0x89C1,
        0x7269, 0x7406, 0x73B0, 0x8C61, 0x3002],
    Statement (u ''ice_floats'')
      [0x51B0, 0x901A, 0x5E38, 0x4F1A, 0x6D6E, 0x5728, 0x6C34, 0x9762, 0x4E0A, 0x3002] True
      [0x662F, 0x771F, 0x7684, 0xFF0C, 0x51B0, 0x7684, 0x5BC6, 0x5EA6, 0x901A, 0x5E38, 0x6BD4,
        0x6DB2, 0x6001, 0x6C34, 0x5C0F, 0x3002],
    Statement (u ''salt_water_freeze'')
      [0x76D0, 0x6C34, 0x901A, 0x5E38, 0x6BD4, 0x7EAF, 0x6C34, 0x66F4, 0x4E0D, 0x5BB9, 0x6613,
        0x7ED3, 0x51B0, 0x3002] True
      [0x662F, 0x771F, 0x7684, 0xFF0C, 0x52A0, 0x5165, 0x76D0, 0x4F1A, 0x964D, 0x4F4E, 0x6C34,
        0x7684, 0x51DD, 0x56FA, 0x70B9, 0x3002],
    Statement (u ''earth_revolves_sun'')
      [0x5730, 0x7403, 0x7ED5, 0x592A, 0x9633, 0x516C, 0x8F6C, 0x3002] True
      [0x662F, 0x771F, 0x7684, 0xFF0C, 0x5730, 0x7403, 0x7EA6, 0x4E00, 0x5E74, 0x7ED5, 0x592A,
        0x9633, 0x4E00, 0x5468, 0x3002],
    Statement (u ''mars_red'')
      [0x706B, 0x661F, 0x5E38, 0x88AB, 0x79F0, 0x4E3A, 0x7EA2, 0x8272, 0x661F, 0x7403,
        0x3002] True
      [0x662F, 0x771F, 0x7684, 0xFF0C, 0x706B, 0x661F, 0x8868, 0x9762, 0x6C27, 0x5316, 0x94C1,
        0x8BA9, 0x5B83, 0x770B, 0x8D77, 0x6765, 0x504F, 0x7EA2, 0x3002],
    Statement (u ''jupiter_largest'')
      [0x6728, 0x661F, 0x662F, 0x592A, 0x9633, 0x7CFB, 0x4E2D, 0x6700, 0x5927, 0x7684, 0x884C,
        0x661F, 0x3002] True
      [0x662F, 0x771F, 0x7684, 0xFF0C, 0x6728, 0x661F, 0x4F53, 0x79EF, 0x548C, 0x8D28, 0x91CF,
        0x90FD, 0x5F88, 0x5927, 0x3002]]"

definition STATEMENTS_3 :: "truth_statement list" where
  "STATEMENTS_3 = [
    Statement (u ''human_lungs'')
      [0x4EBA, 0x7C7B, 0x901A, 0x5E38, 0x7528, 0x80BA, 0x547C, 0x5438, 0x3002] True
      [0x662F, 0x771F, 0x7684, 0xFF0C, 0x80BA, 0x662F, 0x4EBA, 0x4F53, 0x91CD, 0x8981, 0x7684,
        0x547C, 0x5438, 0x5668, 0x5B98, 0x3002],
    Statement (u ''heart_pumps_blood'')
      [0x5FC3, 0x810F, 0x7684, 0x4E3B, 0x8981, 0x529F, 0x80FD, 0x4E4B, 0x4E00, 0x662F, 0x63A8,
        0x52A8, 0x8840, 0x6DB2, 0x5FAA, 0x73AF, 0x3002] True
      [0x662F, 0x771F, 0x7684, 0xFF0C, 0x5FC3, 0x810F, 0x50CF, 0x6CF5, 0x4E00, 0x6837, 0x63A8,
        0x52A8, 0x8840, 0x6DB2, 0x6D41, 0x52A8, 0x3002],
    Statement (u ''taste_buds'')
      [0x820C, 0x5934, 0x4E0A, 0x6709, 0x5E2E, 0x52A9, 0x611F, 0x53D7, 0x5473, 0x9053, 0x7684,
        0x5473, 0x857E, 0x3002] True
      [0x662F, 0x771F, 0x7684, 0xFF0C, 0x5473, 0x857E, 0x80FD, 0x5E2E, 0x52A9, 0x6211, 0x4EEC,
        0x611F, 0x77E5, 0x5473, 0x9053, 0x3002],
    Statement (u ''owls_night'')
      [0x5F88, 0x591A, 0x732B, 0x5934, 0x9E70, 0x5728, 0x591C, 0x95F4, 0x6D3B, 0x52A8, 0x8F83,
        0x591A, 0x3002] True
      [0x662F, 0x771F, 0x7684, 0xFF0C, 0x8BB8, 0x591A, 0x732B, 0x5934, 0x9E70, 0x5C5E, 0x4E8E,
        0x591C, 0x884C, 0x6027, 0x52A8, 0x7269, 0x3002],
    Statement (u ''kangaroo_pouch'')
      [0x888B, 0x9F20, 0x5988, 0x5988, 0x6709, 0x80B2, 0x513F, 0x888B, 0x3002] True
      [0x662F, 0x771F, 0x7684, 0xFF0C, 0x5E7C, 0x5D3D, 0x4F1A, 0x5728, 0x80B2, 0x513F, 0x888B,
        0x91CC, 0x7EE7, 0x7EED, 0x53D1, 0x80B2, 0x3002],
    Statement (u ''tree_rings'')
      [0x6811, 0x6728, 0x5E74, 0x8F6E, 0x5E38, 0x80FD, 0x53CD, 0x6620, 0x6811, 0x7684, 0x751F,
        0x957F, 0x60C5, 0x51B5, 0x3002] True
      [0x662F, 0x771F, 0x7684, 0xFF0C, 0x5E74, 0x8F6E, 0x53EF, 0x4EE5, 0x5E2E, 0x52A9, 0x4E86,
        0x89E3, 0x6811, 0x6728, 0x5E74, 0x9F84, 0x548C, 0x751F, 0x957F, 0x73AF, 0x5883, 0x3002],
    Statement (u ''silk_worm'')
      [0x8695, 0x53EF, 0x4EE5, 0x5410, 0x4E1D, 0x7ED3, 0x8327, 0x3002] True
      [0x662F, 0x771F, 0x7684, 0xFF0C, 0x8695, 0x4E1D, 0x5C31, 0x662F, 0x7531, 0x8695, 0x5410,
        0x51FA, 0x7684, 0x4E1D, 0x5F62, 0x6210, 0x7684, 0x3002],
    Statement (u ''magnet_attracts_plastic'')
      [0x666E, 0x901A, 0x78C1, 0x94C1, 0x80FD, 0x5438, 0x4F4F, 0x5927, 0x591A, 0x6570, 0x5851,
        0x6599, 0x3002] False
      [0x662F, 0x5047, 0x7684, 0xFF0C, 0x666E, 0x901A, 0x5851, 0x6599, 0x901A, 0x5E38, 0x4E0D,
        0x4F1A, 0x88AB, 0x78C1, 0x94C1, 0x5438, 0x4F4F, 0x3002],
    Statement (u ''fish_breathe_lungs'')
      [0x5927, 0x591A, 0x6570, 0x9C7C, 0x4E3B, 0x8981, 0x9760, 0x80BA, 0x5728, 0x6C34, 0x91CC,
        0x547C, 0x5438, 0x3002] False
      [0x662F, 0x5047, 0x7684, 0xFF0C, 0x5927, 0x591A, 0x6570, 0x9C7C, 0x4E3B, 0x8981, 0x9760,
        0x9CC3, 0x547C, 0x5438, 0x3002],
    Statement (u ''plants_need_no_light'')
      [0x7EFF, 0x8272, 0x690D, 0x7269, 0x5B8C, 0x5168, 0x4E0D, 0x9700, 0x8981, 0x5149, 0x4E5F,
        0x80FD, 0x4E00, 0x76F4, 0x6B63, 0x5E38, 0x751F, 0x957F, 0x3002] False
      [0x662F, 0x5047, 0x7684, 0xFF0C, 0x5F88, 0x591A, 0x7EFF, 0x8272, 0x690D, 0x7269, 0x9700,
        0x8981, 0x5149, 0x8FDB, 0x884C, 0x5149, 0x5408, 0x4F5C, 0x7528, 0x3002],
    Statement (u ''human_three_eyes'')
      [0x4EBA, 0x7C7B, 0x901A, 0x5E38, 0x6709, 0x4E09, 0x53EA, 0x773C, 0x775B, 0x3002] False
      [0x662F, 0x5047, 0x7684, 0xFF0C, 0x4EBA, 0x7C7B, 0x901A, 0x5E38, 0x6709, 0x4E24, 0x53EA,
        0x773C, 0x775B, 0x3002],
    Statement (u ''winter_hotter'')
      [0x5728, 0x4E2D, 0x56FD, 0x5317, 0x65B9, 0xFF0C, 0x51AC, 0x5929, 0x901A, 0x5E38, 0x6BD4,
        0x590F, 0x5929, 0x66F4, 0x708E, 0x70ED, 0x3002] False
      [0x662F, 0x5047, 0x7684, 0xFF0C, 0x5317, 0x65B9, 0x51AC, 0x5929, 0x901A, 0x5E38, 0x6BD4,
        0x590F, 0x5929, 0x51B7, 0x3002],
    Statement (u ''square_three_sides'')
      [0x6B63, 0x65B9, 0x5F62, 0x6709, 0x4E09, 0x6761, 0x8FB9, 0x3002] False
      [0x662F, 0x5047, 0x7684, 0xFF0C, 0x6B63, 0x65B9, 0x5F62, 0x6709, 0x56DB, 0x6761, 0x8FB9,
        0x3002],
    Statement (u ''one_hour_100_minutes'')
      [0x4E00, 0x5C0F, 0x65F6, 0x7B49, 0x4E8E, 0x4E00, 0x767E, 0x5206, 0x949F, 0x3002] False
      [0x662F, 0x5047, 0x7684, 0xFF0C, 0x4E00, 0x5C0F, 0x65F6, 0x7B49, 0x4E8E, 0x516D, 0x5341,
        0x5206, 0x949F, 0x3002],
    Statement (u ''week_eight_days'')
      [0x4E00, 0x5468, 0x901A, 0x5E38, 0x6709, 0x516B, 0x5929, 0x3002] False
      [0x662F, 0x5047, 0x7684, 0xFF0C, 0x4E00, 0x5468, 0x901A, 0x5E38, 0x6709, 0x4E03, 0x5929,
        0x3002],
    Statement (u ''sun_rises_west'')
      [0x592A, 0x9633, 0x901A, 0x5E38, 0x4ECE, 0x897F, 0x8FB9, 0x5347, 0x8D77, 0x3002] False
      [0x662F, 0x5047, 0x7684, 0xFF0C, 0x592A, 0x9633, 0x901A, 0x5E38, 0x4ECE, 0x4E1C, 0x65B9,
        0x5347, 0x8D77, 0x3002],
    Statement (u ''boiled_water_ice'')
      [0x6C34, 0x70E7, 0x5F00, 0x540E, 0x4F1A, 0x7ACB, 0x523B, 0x53D8, 0x6210, 0x51B0,
        0x3002] False
      [0x662F, 0x5047, 0x7684, 0xFF0C, 0x6C34, 0x70E7, 0x5F00, 0x4F1A, 0x53D8, 0x6210, 0x70ED,
        0x6C34, 0x548C, 0x6C34, 0x84B8, 0x6C14, 0xFF0C, 0x4E0D, 0x4F1A, 0x7ACB, 0x523B, 0x7ED3,
        0x51B0, 0x3002],
    Statement (u ''all_birds_fly'')
      [0x6240, 0x6709, 0x9E1F, 0x90FD, 0x4F1A, 0x98DE, 0x3002] False
      [0x662F, 0x5047, 0x7684, 0xFF0C, 0x4F01, 0x9E45, 0x3001, 0x9E35, 0x9E1F, 0x7B49, 0x9E1F,
        0x7C7B, 0x4E0D, 0x4F1A, 0x98DE, 0x3002],
    Statement (u ''elephant_tiny'')
      [0x6210, 0x5E74, 0x5927, 0x8C61, 0x901A, 0x5E38, 0x6BD4, 0x5BB6, 0x732B, 0x5C0F,
        0x3002] False
      [0x662F, 0x5047, 0x7684, 0xFF0C, 0x6210, 0x5E74, 0x5927, 0x8C61, 0x901A, 0x5E38, 0x8FDC,
        0x6BD4, 0x5BB6, 0x732B, 0x5927, 0x3002],
    Statement (u ''rain_upwards'')
      [0x96E8, 0x901A, 0x5E38, 0x4ECE, 0x5730, 0x9762, 0x5F80, 0x5929, 0x7A7A, 0x843D,
        0x3002] False
      [0x662F, 0x5047, 0x7684, 0xFF0C, 0x96E8, 0x901A, 0x5E38, 0x4ECE, 0x4E91, 0x5C42, 0x843D,
        0x5411, 0x5730, 0x9762, 0x3002]]"

definition STATEMENTS :: "truth_statement list" where
  "STATEMENTS = STATEMENTS_1 @ STATEMENTS_2 @ STATEMENTS_3"

definition TRUTH_ENTRY_PATTERNS :: "pat list list" where
  \<comment> \<open>true-or-false game; play true or false; judge true or false\<close>
  "TRUTH_ENTRY_PATTERNS =
    [[Alt [[0x771F, 0x5047], [0x5BF9, 0x9519]], Gap 4, Alt [[0x5224, 0x65AD], [0x6E38, 0x620F],
      [0x95EE, 0x7B54]]],
     [Alt [[0x73A9], [0x6765]], Gap 4, Alt [[0x771F, 0x5047], [0x5BF9, 0x9519]]],
     [Alt [[0x5224, 0x65AD]], Gap 4, Alt [[0x771F, 0x5047], [0x5BF9, 0x9519]]]]"

definition TRUTH_EXIT_WORDS :: "utext list" where
  "TRUTH_EXIT_WORDS =
    [[0x4E0D, 0x73A9, 0x4E86], [0x9000, 0x51FA, 0x771F, 0x5047], [0x7ED3, 0x675F, 0x771F,
      0x5047], [0x9000, 0x51FA, 0x6E38, 0x620F], [0x56DE, 0x5230, 0x804A, 0x5929], [0x9000,
      0x51FA]]"

definition TRUTH_NEXT_WORDS :: "utext list" where
  "TRUTH_NEXT_WORDS =
    [[0x7EE7, 0x7EED], [0x518D, 0x6765], [0x518D, 0x6765, 0x4E00, 0x4E2A], [0x4E0B, 0x4E00,
      0x9898], [0x6765, 0x4E00, 0x4E2A], [0x53EF, 0x4EE5], [0x597D]]"

definition TRUE_WORDS :: "utext list" where
  \<comment> \<open>true, right, yes, correct, not wrong\<close>
  "TRUE_WORDS = [[0x771F, 0x7684], [0x771F], [0x5BF9], [0x662F], [0x6B63, 0x786E], [0x6CA1,
    0x9519]]"

definition FALSE_WORDS :: "utext list" where
  \<comment> \<open>false, wrong, not right, no, error\<close>
  "FALSE_WORDS = [[0x5047, 0x7684], [0x5047], [0x9519], [0x4E0D, 0x5BF9], [0x4E0D, 0x662F],
    [0x9519, 0x8BEF]]"

record truth_state =
  th_current :: utext
  th_used :: "utext list"
  th_score :: int
  th_rounds :: int
  th_awaiting_next :: bool

definition truth_can_enter :: "pylib \<Rightarrow> utext \<Rightarrow> bool" where
  "truth_can_enter L t = any_pattern TRUTH_ENTRY_PATTERNS (agent_normalize L t)"

definition next_statement ::
  "(truth_statement list \<Rightarrow> truth_statement) \<Rightarrow> utext list \<Rightarrow>
    int \<Rightarrow> int \<Rightarrow> truth_state \<times> utext"
  where
  "next_statement pick used score rounds =
     (let candidates = filter (\<lambda>x. ts_id x \<notin> set used) STATEMENTS;
          (used1, candidates1) = (if candidates = [] then ([], STATEMENTS) else (used,
            candidates));
          x = pick candidates1
      in (\<lparr>th_current = ts_id x, th_used = used1 @ [ts_id x], th_score = score,
           th_rounds = rounds + 1, th_awaiting_next = False\<rparr>,
          [0x771F, 0x5047, 0x5224, 0x65AD, 0xFF1A] @ ts_statement x @ [0x8BF7, 0x56DE, 0x7B54,
            0x771F, 0x7684, 0x6216, 0x5047, 0x7684, 0x3002]))"

definition truth_result :: "utext \<Rightarrow> 's option \<Rightarrow> bool \<Rightarrow> 's
  agent_result" where
  "truth_result t s finished =
     \<lparr>ar_text = t, ar_state = s, ar_finished = finished,
       ar_persist_history = False\<rparr>"

definition truth_start :: "(truth_statement list \<Rightarrow> truth_statement) \<Rightarrow>
  truth_state agent_result" where
  "truth_start pick = (let (s, t) = next_statement pick [] 0 0 in truth_result t (Some s) False)"

definition find_statement :: "utext \<Rightarrow> truth_statement option" where
  "find_statement statement_id = find (\<lambda>x. ts_id x = statement_id) STATEMENTS"

definition normalize_answer :: "pylib \<Rightarrow> utext \<Rightarrow> bool option" where
  "normalize_answer L t =
     (let n = agent_normalize L t in
      if n = [] then None
      else if has_word FALSE_WORDS n then Some False
      else if has_word TRUE_WORDS n then Some True
      else None)"

definition truth_is_exit :: "pylib \<Rightarrow> utext \<Rightarrow> bool" where
  "truth_is_exit L t = has_word TRUTH_EXIT_WORDS (agent_normalize L t)"

definition truth_is_next :: "pylib \<Rightarrow> utext \<Rightarrow> bool" where
  "truth_is_next L t = has_word TRUTH_NEXT_WORDS (agent_normalize L t)"

definition truth_handle ::
  "pylib \<Rightarrow> (truth_statement list \<Rightarrow> truth_statement) \<Rightarrow> utext
    \<Rightarrow> truth_state
    \<Rightarrow> truth_state agent_result" where
  "truth_handle L pick t s =
     (if truth_is_exit L t then
        truth_result
          ([0x597D, 0x7684, 0xFF0C, 0x9000, 0x51FA, 0x771F, 0x5047, 0x5224, 0x65AD, 0x3002,
            0x4F60, 0x7B54, 0x5BF9, 0x20] @ u (int_text (th_score s)) @ [0x20, 0x9898, 0xFF0C,
            0x5171, 0x73A9, 0x4E86, 0x20]
            @ u (int_text (th_rounds s)) @ [0x20, 0x9898, 0x3002])
          None True
      else if th_awaiting_next s then
        if truth_is_next L t then
          let (s1, reply) = next_statement pick (th_used s) (th_score s) (th_rounds s)
          in truth_result reply (Some s1) False
        else truth_result [0x60F3, 0x7EE7, 0x7EED, 0x5C31, 0x8BF4, 0x518D, 0x6765, 0x4E00,
          0x9898, 0xFF1B, 0x4E0D, 0x73A9, 0x4E86, 0x53EF, 0x4EE5, 0x8BF4, 0x9000, 0x51FA,
          0x771F, 0x5047, 0x3002] (Some s) False
      else case normalize_answer L t of
          None \<Rightarrow> truth_result [0x8BF7, 0x56DE, 0x7B54, 0x771F, 0x7684, 0x6216,
            0x5047, 0x7684, 0x3002] (Some s) False
        | Some answer \<Rightarrow>
            (case find_statement (th_current s) of
               None \<Rightarrow>
                 let (s1, reply) = next_statement pick (th_used s) (th_score s) (th_rounds s)
                 in truth_result reply (Some s1) False
             | Some current \<Rightarrow>
                 let correct = (answer = ts_answer current) in
                 truth_result
                   ((if correct then [0x7B54, 0x5BF9, 0x5566, 0x3002] else [0x8FD9, 0x9898,
                     0x7B54, 0x9519, 0x5566, 0x3002]) @ ts_explanation current
                     @ [0x8FD8, 0x8981, 0x518D, 0x6765, 0x4E00, 0x9898, 0x5417, 0xFF1F])
                   (Some (s\<lparr>th_score := th_score s + (if correct then 1 else 0),
                            th_awaiting_next := True\<rparr>)) False))"

end
