(* ===== verification/Quiz_Facts.thy ===== *)
theory Quiz_Facts
  imports Quiz_Agents Song_Matcher_Facts
begin

text \<open>
  Both guessing games follow one protocol: a question stays open until it is answered or given
  away, the score counts answered questions, and no question comes back before all have been
  asked.  The protocol is an abstract machine; a locale states how a game implements it, and both
  games are interpretations.
\<close>

subsection \<open>The protocol\<close>

record quiz =
  qz_used :: "utext list"
    \<comment> \<open>asked since all questions were last used up, the current one at the end\<close>
  qz_score :: int
  qz_rounds :: int
  qz_answered :: bool

inductive quiz_step :: "utext list \<Rightarrow> quiz \<Rightarrow> quiz \<Rightarrow> bool" where
  quiz_stay: "quiz_step items s s"
| quiz_right: "\<not> qz_answered s
    \<Longrightarrow> quiz_step items s (s\<lparr>qz_score := qz_score s + 1, qz_answered := True\<rparr>)"
| quiz_reveal: "\<not> qz_answered s \<Longrightarrow> quiz_step items s (s\<lparr>qz_answered := True\<rparr>)"
| quiz_ask: "qz_answered s \<Longrightarrow> c \<in> set items \<Longrightarrow> c \<notin> set (qz_used s)
    \<Longrightarrow> quiz_step items s
          (s\<lparr>qz_used := qz_used s @ [c], qz_rounds := qz_rounds s + 1, qz_answered := False\<rparr>)"
| quiz_restart: "qz_answered s \<Longrightarrow> set items \<subseteq> set (qz_used s) \<Longrightarrow> c \<in> set items
    \<Longrightarrow> quiz_step items s
          (s\<lparr>qz_used := [c], qz_rounds := qz_rounds s + 1, qz_answered := False\<rparr>)"

inductive_cases quiz_stepE: "quiz_step items s t"

definition quiz_inv :: "utext list \<Rightarrow> quiz \<Rightarrow> bool" where
  "quiz_inv items s \<longleftrightarrow> qz_used s \<noteq> [] \<and> distinct (qz_used s) \<and> set (qz_used s) \<subseteq> set items
     \<and> 0 \<le> qz_score s \<and> qz_score s \<le> qz_rounds s \<and> (qz_answered s \<or> qz_score s < qz_rounds s)
     \<and> int (length (qz_used s)) = (qz_rounds s - 1) mod int (length items) + 1"

lemma next_mod:
  fixes r n :: int
  assumes "0 < n" and "(r - 1) mod n + 1 < n" shows "r mod n = (r - 1) mod n + 1"
proof -
  have "r mod n = ((r - 1) mod n + 1) mod n"
    by (metis add.commute diff_add_cancel mod_add_left_eq)
  then show ?thesis using assms by simp
qed

lemma quiz_inv_step:
  assumes "quiz_step items s t" and "quiz_inv items s" and "distinct items"
  shows "quiz_inv items t"
  using assms(1)
proof (cases rule: quiz_step.cases)
  case (quiz_ask c)
  have sub: "set (qz_used s @ [c]) \<subseteq> set items" "distinct (qz_used s @ [c])"
    using quiz_ask assms(2) by (auto simp: quiz_inv_def)
  then have "length (qz_used s @ [c]) \<le> length items"
    using card_mono [of "set items" "set (qz_used s @ [c])"]
    by (simp only: distinct_card assms(3) finite_set)
  moreover have "int (length (qz_used s)) = (qz_rounds s - 1) mod int (length items) + 1"
    using assms(2) by (simp add: quiz_inv_def)
  ultimately have "qz_rounds s mod int (length items) = int (length (qz_used s))"
    using next_mod [of "int (length items)" "qz_rounds s"] by (cases "items = []") auto
  then show ?thesis using quiz_ask sub assms(2) by (auto simp: quiz_inv_def)
next
  case (quiz_restart c)
  have "set (qz_used s) = set items" "distinct (qz_used s)"
    using quiz_restart assms(2) by (auto simp: quiz_inv_def)
  then have len: "length (qz_used s) = length items" using assms(3) by (metis distinct_card)
  have "int (length (qz_used s)) = (qz_rounds s - 1) mod int (length items) + 1"
    using assms(2) by (simp add: quiz_inv_def)
  then have "(qz_rounds s - 1) mod int (length items) = int (length items) - 1" using len by simp
  then have "qz_rounds s mod int (length items) = 0"
    by (metis diff_add_cancel mod_add_left_eq mod_self)
  then show ?thesis using quiz_restart assms(2) by (auto simp: quiz_inv_def)
qed (use assms(2) in \<open>auto simp: quiz_inv_def\<close>)

subsection \<open>Games\<close>

text \<open>A dialogue with an agent: the texts it is given one after the other, each with the random
  choice made for it; \<open>None\<close> once the agent has finished.\<close>

fun dialogue :: "('e \<Rightarrow> 's \<Rightarrow> 's agent_result) \<Rightarrow> 's option \<Rightarrow> 'e list \<Rightarrow> 's option" where
  "dialogue handle None es = None"
| "dialogue handle (Some s) [] = Some s"
| "dialogue handle (Some s) (e # es) = dialogue handle (ar_state (handle e s)) es"

locale quiz_game =
  fixes items :: "utext list"
    and begin_game :: "'p \<Rightarrow> 's agent_result"
    and answer :: "utext \<times> 'p \<Rightarrow> 's \<Rightarrow> 's agent_result"
    and view :: "'s \<Rightarrow> quiz"
    and fair :: "'p \<Rightarrow> bool"
    and sound :: "'s \<Rightarrow> bool"
  assumes items_distinct: "distinct items"
    and begin_view: "fair p \<Longrightarrow> \<exists>s c. ar_state (begin_game p) = Some s \<and> sound s \<and> c \<in> set items
      \<and> view s = \<lparr>qz_used = [c], qz_score = 0, qz_rounds = 1, qz_answered = False\<rparr>"
    and answer_view: "sound s \<Longrightarrow> fair (snd e) \<Longrightarrow> ar_state (answer e s) = Some t
      \<Longrightarrow> sound t \<and> quiz_step items (view s) (view t)"
begin

lemma dialogue_steps:
  "sound s \<Longrightarrow> \<forall>e \<in> set es. fair (snd e) \<Longrightarrow> dialogue answer (Some s) es = Some t
    \<Longrightarrow> (quiz_step items)\<^sup>*\<^sup>* (view s) (view t)"
proof (induction es arbitrary: s)
  case (Cons e es)
  then obtain m where m: "ar_state (answer e s) = Some m"
    by (cases "ar_state (answer e s)") auto
  with answer_view [of s e m] Cons.prems have "sound m" "quiz_step items (view s) (view m)" by auto
  with Cons m show ?case by (auto intro: converse_rtranclp_into_rtranclp)
qed simp

lemma game_inv:
  assumes "fair p" and "\<forall>e \<in> set es. fair (snd e)"
    and "dialogue answer (ar_state (begin_game p)) es = Some t"
  shows "quiz_inv items (view t)"
proof -
  obtain s c where s: "ar_state (begin_game p) = Some s" "sound s" "c \<in> set items"
    "view s = \<lparr>qz_used = [c], qz_score = 0, qz_rounds = 1, qz_answered = False\<rparr>"
    using begin_view [OF assms(1)] by blast
  have "(quiz_step items)\<^sup>*\<^sup>* (view s) (view t)"
    using dialogue_steps [OF s(2) assms(2)] assms(3) s(1) by simp
  then show ?thesis
  proof (induction rule: rtranclp_induct)
    case base
    show ?case using s(3,4) by (simp add: quiz_inv_def)
  next
    case (step y z)
    then show ?case using quiz_inv_step items_distinct by blast
  qed
qed

end

definition fair_pick :: "('a list \<Rightarrow> 'a) \<Rightarrow> bool" where
  \<comment> \<open>what \<open>random.choice\<close> promises\<close>
  "fair_pick pick \<longleftrightarrow> (\<forall>xs. xs = [] \<or> pick xs \<in> set xs)"

definition fresh_question :: "utext list \<Rightarrow> utext list \<Rightarrow> utext list \<Rightarrow> bool" where
  \<comment> \<open>the questions used after one more was drawn\<close>
  "fresh_question items used used' \<longleftrightarrow> (\<exists>c \<in> set items.
     used' = used @ [c] \<and> c \<notin> set used \<or> used' = [c] \<and> set items \<subseteq> set used)"

lemma fresh_candidate:
  fixes f :: "'a \<Rightarrow> utext"
  assumes "fair_pick pick" and "xs \<noteq> []"
  shows "(filter (\<lambda>x. f x \<notin> set used) xs = [] \<longrightarrow>
      pick xs \<in> set xs \<and> fresh_question (map f xs) used [f (pick xs)])
    \<and> (filter (\<lambda>x. f x \<notin> set used) xs \<noteq> [] \<longrightarrow>
      pick (filter (\<lambda>x. f x \<notin> set used) xs) \<in> set xs
      \<and> fresh_question (map f xs) used (used @ [f (pick (filter (\<lambda>x. f x \<notin> set used) xs))]))"
proof -
  let ?free = "filter (\<lambda>x. f x \<notin> set used) xs"
  have "pick xs \<in> set xs" using assms unfolding fair_pick_def by blast
  moreover have "?free = [] \<or> pick ?free \<in> set ?free" using assms(1) unfolding fair_pick_def by blast
  ultimately show ?thesis by (auto simp: fresh_question_def filter_empty_conv)
qed

lemma quiz_next:
  assumes "qz_answered v" and "\<not> qz_answered w"
    and "qz_score w = qz_score v" and "qz_rounds w = qz_rounds v + 1"
    and "fresh_question items (qz_used v) (qz_used w)"
  shows "quiz_step items v (w :: quiz)"
proof -
  from assms(5) obtain c where c: "c \<in> set items"
    and "qz_used w = qz_used v @ [c] \<and> c \<notin> set (qz_used v)
      \<or> qz_used w = [c] \<and> set items \<subseteq> set (qz_used v)"
    by (auto simp: fresh_question_def)
  then show ?thesis
  proof (elim disjE conjE)
    assume used: "qz_used w = qz_used v @ [c]" "c \<notin> set (qz_used v)"
    then have "w = v\<lparr>qz_used := qz_used v @ [c], qz_rounds := qz_rounds v + 1, qz_answered := False\<rparr>"
      using assms by (intro quiz.equality) auto
    then show ?thesis using quiz_ask [OF assms(1) c used(2)] by simp
  next
    assume used: "qz_used w = [c]" "set items \<subseteq> set (qz_used v)"
    then have "w = v\<lparr>qz_used := [c], qz_rounds := qz_rounds v + 1, qz_answered := False\<rparr>"
      using assms by (intro quiz.equality) auto
    then show ?thesis using quiz_restart [OF assms(1) used(2) c] by simp
  qed
qed

lemma fresh_first: "fresh_question items [] used \<Longrightarrow> \<exists>c \<in> set items. used = [c]"
  by (auto simp: fresh_question_def)

lemma fair_hd: "fair_pick hd" and fair_last: "fair_pick last"
  unfolding fair_pick_def by (metis hd_in_set, metis last_in_set)

subsection \<open>Riddles\<close>

definition riddle_ids :: "utext list" where
  "riddle_ids = map rd_id RIDDLES"

definition riddle_view :: "riddle_state \<Rightarrow> quiz" where
  "riddle_view s = \<lparr>qz_used = rs_used s, qz_score = rs_score s, qz_rounds = rs_rounds s,
     qz_answered = rs_awaiting_next s\<rparr>"

definition riddle_sound :: "riddle_state \<Rightarrow> bool" where
  "riddle_sound s \<longleftrightarrow> rs_current s \<in> set riddle_ids"

lemma riddle_ids_distinct: "distinct riddle_ids" "RIDDLES \<noteq> []"
  unfolding riddle_ids_def by code_simp+

lemma find_riddle_sound: "riddle_sound s \<Longrightarrow> \<exists>r. find_riddle (rs_current s) = Some r"
  by (cases "find_riddle (rs_current s)")
    (auto simp: riddle_sound_def riddle_ids_def find_riddle_def find_None_iff)

lemma next_riddle_step:
  assumes "fair_pick pick" and "next_riddle pick used score rounds = (s, reply)"
  shows "riddle_sound s \<and> rs_score s = score \<and> rs_rounds s = rounds + 1 \<and> \<not> rs_awaiting_next s
    \<and> fresh_question riddle_ids used (rs_used s)"
  using assms fresh_candidate [OF assms(1) riddle_ids_distinct(2), of rd_id used]
  by (auto simp: next_riddle_def riddle_sound_def riddle_ids_def Let_def split: if_splits)

lemma riddle_start_view:
  assumes "fair_pick pick"
  shows "\<exists>s c. ar_state (riddle_start pick) = Some s \<and> riddle_sound s \<and> c \<in> set riddle_ids
    \<and> riddle_view s = \<lparr>qz_used = [c], qz_score = 0, qz_rounds = 1, qz_answered = False\<rparr>"
proof -
  obtain s reply where s: "next_riddle pick [] 0 0 = (s, reply)" by fastforce
  from next_riddle_step [OF assms s] s show ?thesis
    by (auto simp: riddle_start_def riddle_result_def riddle_view_def dest!: fresh_first)
qed

lemma riddle_handle_view:
  assumes sound: "riddle_sound s" and fair: "fair_pick pick"
    and res: "ar_state (riddle_handle L pick t s) = Some s'"
  shows "riddle_sound s' \<and> quiz_step riddle_ids (riddle_view s) (riddle_view s')"
proof -
  obtain n reply where n: "next_riddle pick (rs_used s) (rs_score s) (rs_rounds s) = (n, reply)"
    by fastforce
  note step = next_riddle_step [OF fair n]
  obtain r where r: "find_riddle (rs_current s) = Some r" using find_riddle_sound [OF sound] ..
  have no_exit: "\<not> riddle_is_exit L t"
    using res by (auto simp: riddle_handle_def riddle_result_def)
  show ?thesis
  proof (cases "rs_awaiting_next s")
    case True
    show ?thesis
    proof (cases "riddle_is_next L t")
      case going_on: True
      have s': "s' = n"
        using res True no_exit going_on n by (simp add: riddle_handle_def riddle_result_def)
      show ?thesis
        using step True unfolding s' by (intro conjI quiz_next) (auto simp: riddle_view_def)
    next
      case False
      then have "s' = s"
        using res True no_exit by (simp add: riddle_handle_def riddle_result_def)
      then show ?thesis using sound quiz_stay by simp
    qed
  next
    case False
    have "s' = s\<lparr>rs_score := rs_score s + 1, rs_awaiting_next := True\<rparr>
      \<or> s' = s\<lparr>rs_attempts := rs_attempts s + 1\<rparr>
      \<or> s' = s\<lparr>rs_awaiting_next := True, rs_attempts := rs_attempts s + 1\<rparr>"
      using res False no_exit r
      by (auto simp: riddle_handle_def riddle_result_def Let_def split: if_splits)
    then show ?thesis
      using sound False quiz_right [of "riddle_view s"] quiz_reveal [of "riddle_view s"] quiz_stay
      by (auto simp: riddle_sound_def riddle_view_def)
  qed
qed

interpretation riddle_game: quiz_game riddle_ids riddle_start
  "\<lambda>(t, pick) s. riddle_handle L pick t s" riddle_view fair_pick riddle_sound for L
  by unfold_locales
    (use riddle_ids_distinct riddle_start_view riddle_handle_view in \<open>auto split: prod.splits\<close>)

text \<open>Whatever is said in a riddle game, and whichever riddles are drawn: the score never exceeds
  the riddles asked, an open riddle is not counted yet, and every 60 riddles in a row are
  all the riddles, each once.\<close>

theorem riddle_game_invariant:
  assumes "fair_pick p" and "\<forall>(t, pick) \<in> set es. fair_pick pick"
    and "dialogue (\<lambda>(t, pick) s. riddle_handle L pick t s) (ar_state (riddle_start p)) es = Some s"
  shows "0 \<le> rs_score s \<and> rs_score s \<le> rs_rounds s
    \<and> (rs_awaiting_next s \<or> rs_score s < rs_rounds s)
    \<and> distinct (rs_used s) \<and> set (rs_used s) \<subseteq> set (map rd_id RIDDLES)
    \<and> int (length (rs_used s)) = (rs_rounds s - 1) mod 60 + 1"
proof -
  have "\<forall>e \<in> set es. fair_pick (snd e)" using assms(2) by auto
  from riddle_game.game_inv [OF assms(1) this assms(3)]
  have "quiz_inv riddle_ids (riddle_view s)" .
  moreover have "length riddle_ids = 60" by code_simp
  ultimately show ?thesis by (auto simp: quiz_inv_def riddle_view_def riddle_ids_def)
qed

lemma riddle_game_invariant_witness:
  "\<exists>s. dialogue (\<lambda>(t, pick) s. riddle_handle exact_lib pick t s) (ar_state (riddle_start hd))
      [([0x4E0D, 0x77E5, 0x9053], hd), ([0x96E8, 0x4F1E], hd), ([0x7EE7, 0x7EED], last)] = Some s
    \<and> rs_score s = 1 \<and> rs_rounds s = 2 \<and> int (length (rs_used s)) = (2 - 1) mod 60 + 1"
proof -
  let ?play = "dialogue (\<lambda>(t, pick) s. riddle_handle exact_lib pick t s) (ar_state (riddle_start hd))
      [([0x4E0D, 0x77E5, 0x9053], hd), ([0x96E8, 0x4F1E], hd), ([0x7EE7, 0x7EED], last)]"
  have played: "map_option (\<lambda>s. (rs_score s, rs_rounds s)) ?play = Some (1, 2)" by code_simp
  then obtain s where s: "?play = Some s" by (cases ?play) auto
  from riddle_game_invariant [OF fair_hd _ s] fair_hd fair_last played s show ?thesis by auto
qed

subsection \<open>True or false\<close>

definition statement_ids :: "utext list" where
  "statement_ids = map ts_id STATEMENTS"

definition truth_view :: "truth_state \<Rightarrow> quiz" where
  "truth_view s = \<lparr>qz_used = th_used s, qz_score = th_score s, qz_rounds = th_rounds s,
     qz_answered = th_awaiting_next s\<rparr>"

definition truth_sound :: "truth_state \<Rightarrow> bool" where
  "truth_sound s \<longleftrightarrow> th_current s \<in> set statement_ids"

lemma statement_ids_distinct: "distinct statement_ids" "STATEMENTS \<noteq> []"
  unfolding statement_ids_def by code_simp+

lemma find_statement_sound: "truth_sound s \<Longrightarrow> \<exists>x. find_statement (th_current s) = Some x"
  by (cases "find_statement (th_current s)")
    (auto simp: truth_sound_def statement_ids_def find_statement_def find_None_iff)

lemma next_statement_step:
  assumes "fair_pick pick" and "next_statement pick used score rounds = (s, reply)"
  shows "truth_sound s \<and> th_score s = score \<and> th_rounds s = rounds + 1 \<and> \<not> th_awaiting_next s
    \<and> fresh_question statement_ids used (th_used s)"
  using assms fresh_candidate [OF assms(1) statement_ids_distinct(2), of ts_id used]
  by (auto simp: next_statement_def truth_sound_def statement_ids_def Let_def split: if_splits)

lemma truth_start_view:
  assumes "fair_pick pick"
  shows "\<exists>s c. ar_state (truth_start pick) = Some s \<and> truth_sound s \<and> c \<in> set statement_ids
    \<and> truth_view s = \<lparr>qz_used = [c], qz_score = 0, qz_rounds = 1, qz_answered = False\<rparr>"
proof -
  obtain s reply where s: "next_statement pick [] 0 0 = (s, reply)" by fastforce
  from next_statement_step [OF assms s] s show ?thesis
    by (auto simp: truth_start_def truth_result_def truth_view_def dest!: fresh_first)
qed

lemma truth_handle_view:
  assumes sound: "truth_sound s" and fair: "fair_pick pick"
    and res: "ar_state (truth_handle L pick t s) = Some s'"
  shows "truth_sound s' \<and> quiz_step statement_ids (truth_view s) (truth_view s')"
proof -
  obtain n reply where n: "next_statement pick (th_used s) (th_score s) (th_rounds s) = (n, reply)"
    by fastforce
  obtain x where x: "find_statement (th_current s) = Some x" using find_statement_sound [OF sound] ..
  have no_exit: "\<not> truth_is_exit L t"
    using res by (auto simp: truth_handle_def truth_result_def)
  consider (go) "th_awaiting_next s" "s' = n" | (stay) "s' = s"
    | (right) "\<not> th_awaiting_next s" "s' = s\<lparr>th_score := th_score s + 1, th_awaiting_next := True\<rparr>"
    | (wrong) "\<not> th_awaiting_next s" "s' = s\<lparr>th_awaiting_next := True\<rparr>"
    using res no_exit n x
    by (auto simp: truth_handle_def truth_result_def Let_def split: if_splits option.splits)
  then show ?thesis
  proof cases
    case go
    then show ?thesis
      using next_statement_step [OF fair n] by (auto intro!: quiz_next simp: truth_view_def)
  next
    case stay
    then show ?thesis using sound quiz_stay by simp
  next
    case right
    then show ?thesis
      using sound quiz_right [of "truth_view s"] by (auto simp: truth_sound_def truth_view_def)
  next
    case wrong
    then show ?thesis
      using sound quiz_reveal [of "truth_view s"] by (auto simp: truth_sound_def truth_view_def)
  qed
qed

interpretation truth_game: quiz_game statement_ids truth_start
  "\<lambda>(t, pick) s. truth_handle L pick t s" truth_view fair_pick truth_sound for L
  by unfold_locales
    (use statement_ids_distinct truth_start_view truth_handle_view in \<open>auto split: prod.splits\<close>)



subsection \<open>The questions\<close>

lemma riddle_answers_plain:
  "list_all (\<lambda>r. list_all (list_all ideograph) (rd_answer r # rd_aliases r)
      \<and> list_ex (\<lambda>a. u_in a (rd_answer r)) (rd_aliases r)
      \<and> \<not> has_word RIDDLE_EXIT_WORDS (rd_answer r)) RIDDLES"
  by code_simp

text \<open>The answer the agent itself gives away for a riddle is accepted as an answer to it: it ends no
  game and counts.\<close>

theorem riddle_accepts_its_answer:
  assumes "find_riddle (rs_current s) = Some r" and "\<not> rs_awaiting_next s"
  shows "ar_state (riddle_handle L pick (rd_answer r) s)
    = Some (s\<lparr>rs_score := rs_score s + 1, rs_awaiting_next := True\<rparr>)"
proof -
  have "r \<in> set RIDDLES" using assms(1) by (auto simp: find_riddle_def find_Some_iff)
  with riddle_answers_plain have r: "list_all ideograph (rd_answer r)"
    "\<forall>a \<in> set (rd_aliases r). list_all ideograph a"
    "list_ex (\<lambda>a. u_in a (rd_answer r)) (rd_aliases r)"
    "\<not> has_word RIDDLE_EXIT_WORDS (rd_answer r)"
    by (auto simp: list_all_iff)
  then have n: "agent_normalize L (rd_answer r) = rd_answer r"
    "\<forall>a \<in> set (rd_aliases r). agent_normalize L a = a"
    by (auto simp: list_all_iff intro!: agent_normalize_ideographs)
  then have "matches_answer L (rd_answer r) r"
    using r(3) by (auto simp: matches_answer_def list_ex_iff)
  moreover have "\<not> riddle_is_exit L (rd_answer r)" using n(1) r(4) by (simp add: riddle_is_exit_def)
  ultimately show ?thesis using assms by (simp add: riddle_handle_def riddle_result_def)
qed

lemma riddle_accepts_its_answer_witness:
  "\<exists>s s'. ar_state (riddle_start hd) = Some s
    \<and> ar_state (riddle_handle exact_lib hd [0x96E8,
      0x4F1E] s) = Some s' \<and> rs_score s' = rs_score s + 1"
proof -
  have start: "map_option (\<lambda>s. (map_option rd_answer (find_riddle (rs_current s)), rs_awaiting_next s))
      (ar_state (riddle_start hd)) = Some (Some [0x96E8, 0x4F1E], False)"
    by code_simp
  then obtain s r where s: "ar_state (riddle_start hd) = Some s" "find_riddle (rs_current s) = Some r"
    "rd_answer r = [0x96E8, 0x4F1E]" "\<not> rs_awaiting_next s"
    by (cases "ar_state (riddle_start hd)") auto
  from riddle_accepts_its_answer [OF s(2,4), of exact_lib hd] s show ?thesis by auto
qed

text \<open>A refusal that contains a word for going on is taken as going on: \<^verbatim>\<open>bu keyi\<close> (that will not do)
  contains \<^verbatim>\<open>keyi\<close>, \<^verbatim>\<open>bu hao\<close> (not good) contains \<^verbatim>\<open>hao\<close>.\<close>

lemma refusal_goes_on:
  "riddle_is_next L [0x4E0D, 0x53EF, 0x4EE5] \<and> riddle_is_next L [0x4E0D,
    0x597D] \<and> truth_is_next L [0x4E0D, 0x53EF, 0x4EE5]
    \<and> \<not> riddle_is_exit L [0x4E0D, 0x53EF,
      0x4EE5] \<and> \<not> truth_is_exit L [0x4E0D, 0x53EF, 0x4EE5]"
proof -
  have "agent_normalize L [0x4E0D, 0x53EF, 0x4EE5] = [0x4E0D, 0x53EF,
    0x4EE5]" "agent_normalize L [0x4E0D, 0x597D] = [0x4E0D, 0x597D]"
    by (rule agent_normalize_ideographs, simp add: ideograph_def)+
  moreover have "has_word RIDDLE_NEXT_WORDS [0x4E0D, 0x53EF,
    0x4EE5]" "has_word RIDDLE_NEXT_WORDS [0x4E0D, 0x597D]"
    "has_word TRUTH_NEXT_WORDS [0x4E0D, 0x53EF,
      0x4EE5]" "\<not> has_word RIDDLE_EXIT_WORDS [0x4E0D, 0x53EF, 0x4EE5]"
    "\<not> has_word TRUTH_EXIT_WORDS [0x4E0D, 0x53EF, 0x4EE5]"
    by code_simp+
  ultimately show ?thesis
    by (simp add: riddle_is_next_def truth_is_next_def riddle_is_exit_def truth_is_exit_def)
qed

end
