(* ===== verification/Visitor_Agent.thy ===== *)
theory Visitor_Agent
  imports Agent_Runtime Song_Matcher_Facts
begin

text \<open>
  \<open>src/llm/agents/visitor.py\<close>: the agent that takes down a visitor's name, telephone and host by
  voice and then submits them with a tool call.  A reply carries the tool calls it made.
\<close>

definition VISITOR_AGENT_ID :: utext where
  "VISITOR_AGENT_ID = u ''visitor_registration_agent''"

definition VISITOR_ENTRY_PATTERNS :: "pat list list" where
  \<comment> \<open>register a visitor or a visit, in either order; somebody is visiting; and so on\<close>
  "VISITOR_ENTRY_PATTERNS =
    (let register = Alt [[0x767B, 0x8BB0], [0x6CE8, 0x518C], [0x8BB0, 0x5F55]] in
     [[Alt [[0x8BBF, 0x5BA2]], Gap 4, register], [register, Gap 4, Alt [[0x8BBF, 0x5BA2]]],
      [Alt [[0x8BBF, 0x95EE]], Gap 4, register], [register, Gap 4, Alt [[0x8BBF, 0x95EE]]],
      [Alt [[0x6709, 0x4EBA], [0x5BA2, 0x4EBA], [0x8BBF, 0x5BA2]], Gap 4, Alt [[0x6765, 0x8BBF],
        [0x6765, 0x4E86], [0x8981, 0x6765]]],
      [Alt [[0x6765, 0x5BA2]], Gap 4, register], [Alt [[0x6765, 0x8BBF]], Gap 4, register]])"

definition EXIT_WORDS :: "utext list" where
  \<comment> \<open>leave, no more tests, not any more, end, cancel, stop, not now\<close>
  "EXIT_WORDS = [[0x9000, 0x51FA], [0x4E0D, 0x6D4B, 0x4E86], [0x4E0D, 0x505A, 0x4E86], [0x7ED3,
    0x675F], [0x53D6, 0x6D88], [0x505C, 0x4E00, 0x4E0B], [0x5148, 0x4E0D, 0x6D4B]]"

record visitor_field =
  vf_key :: utext
  vf_question :: utext

definition VISITOR_FIELDS :: "visitor_field list" where
  "VISITOR_FIELDS =
    [\<lparr>vf_key = u ''visitor_name'', vf_question = [0x8BBF, 0x5BA2, 0x53EB, 0x4EC0, 0x4E48,
      0x540D, 0x5B57, 0xFF1F]\<rparr>,
     \<lparr>vf_key = u ''phone'', vf_question = [0x8054, 0x7CFB, 0x7535, 0x8BDD, 0x662F,
       0x591A, 0x5C11, 0xFF1F]\<rparr>,
     \<lparr>vf_key = u ''host_name'', vf_question = [0x8BBF, 0x5BA2, 0x8981, 0x627E, 0x8C01,
       0xFF1F]\<rparr>]"

type_synonym visitor_values = "(utext, utext) odict"

record visitor_state =
  vs_index :: int
  vs_fields :: visitor_values

definition is_visitor_entry :: "pylib \<Rightarrow> utext \<Rightarrow> bool" where
  "is_visitor_entry L t = any_pattern VISITOR_ENTRY_PATTERNS (agent_normalize L t)"

definition is_explicit_exit :: "pylib \<Rightarrow> utext \<Rightarrow> bool" where
  "is_explicit_exit L t = has_word EXIT_WORDS (agent_normalize L t)"

definition start_visitor_registration :: "visitor_state \<times> utext" where
  "start_visitor_registration =
     (\<lparr>vs_index = 0, vs_fields = []\<rparr>,
      [0x597D, 0x7684, 0xFF0C, 0x5F00, 0x59CB, 0x8BBF, 0x5BA2, 0x767B, 0x8BB0,
        0x3002] @ vf_question (VISITOR_FIELDS ! 0))"

definition field_or_blank :: "visitor_values \<Rightarrow> string \<Rightarrow> utext" where
  "field_or_blank entries k = (case map_of entries (u k) of None \<Rightarrow> [0x672A, 0x586B,
    0x5199] | Some v \<Rightarrow> v)"

definition build_visitor_summary :: "visitor_values \<Rightarrow> bool \<Rightarrow> utext" where
  "build_visitor_summary entries submitted =
     (if submitted then [0x8BBF, 0x5BA2, 0x767B, 0x8BB0, 0x5B8C, 0x6210, 0xFF0C, 0x5DF2, 0x63D0,
       0x4EA4, 0x3002] else [0x8BBF, 0x5BA2, 0x767B, 0x8BB0, 0x5B8C, 0x6210, 0x3002])
     @ [0x8BBF, 0x5BA2, 0xFF1A] @ field_or_blank entries ''visitor_name'' @ [0x3002]
     @ [0x7535, 0x8BDD, 0xFF1A] @ field_or_blank entries ''phone'' @ [0x3002]
     @ [0x88AB, 0x8BBF, 0x4EBA, 0xFF1A] @ field_or_blank entries ''host_name'' @ [0x3002]"

definition digits_of :: "pylib \<Rightarrow> utext \<Rightarrow> utext" where
  \<comment> \<open>\<open>re.sub(r"\D+", "", value)\<close>\<close>
  "digits_of L t = filter (u_digit L) t"

definition continue_visitor_registration ::
  "pylib \<Rightarrow> visitor_state \<Rightarrow> utext \<Rightarrow> visitor_state option \<times> utext" where
  "continue_visitor_registration L s t =
     (if is_explicit_exit L t then (None, [0x597D, 0x7684, 0xFF0C, 0x5DF2, 0x9000, 0x51FA,
       0x8BBF, 0x5BA2, 0x767B, 0x8BB0, 0xFF0C, 0x6211, 0x4EEC, 0x56DE, 0x5230, 0x6B63, 0x5E38,
       0x804A, 0x5929, 0x3002])
      else if vs_index s \<ge> int (length VISITOR_FIELDS)
      then (None, build_visitor_summary (vs_fields s) False)
      else
        let raw = u_strip t; field = VISITOR_FIELDS ! nat (vs_index s) in
        if raw = [] then (Some s, vf_question field)
        else if vf_key field = u ''phone'' \<and> length (digits_of L raw) < 7
        then (Some s, [0x8054, 0x7CFB, 0x7535, 0x8BDD, 0x597D, 0x50CF, 0x4E0D, 0x5B8C, 0x6574,
          0xFF0C, 0x8BF7, 0x518D, 0x8BF4, 0x4E00, 0x904D, 0x3002])
        else
          let entered = (if vf_key field = u ''phone'' then digits_of L raw else raw);
              entries = AList.update (vf_key field) entered (vs_fields s);
              next_index = vs_index s + 1 in
          if next_index \<ge> int (length VISITOR_FIELDS)
          then (None, build_visitor_summary entries False)
          else (Some \<lparr>vs_index = next_index, vs_fields = entries\<rparr>,
                vf_question (VISITOR_FIELDS ! nat next_index)))"

definition visitor_fields_from_finished_state ::
  "pylib \<Rightarrow> visitor_state \<Rightarrow> utext \<Rightarrow> visitor_values" where
  "visitor_fields_from_finished_state L s t =
     (if vs_index s \<ge> int (length VISITOR_FIELDS) then vs_fields s
      else
        let field = VISITOR_FIELDS ! nat (vs_index s);
            entered = (if vf_key field = u ''phone'' then digits_of L (u_strip t) else u_strip t);
            entries = (if entered \<noteq> [] then AList.update (vf_key field) entered (vs_fields s)
                      else vs_fields s) in
        if list_all (\<lambda>f. vf_key f \<in> set (keys entries)) VISITOR_FIELDS then entries else [])"

definition submit_visitor_registration ::
  "(utext \<Rightarrow> udict \<Rightarrow> tool_result) option \<Rightarrow> visitor_values \<Rightarrow> utext" where
  "submit_visitor_registration invoker entries =
     (let result = call_tool invoker (u ''visitor.submit_registration'')
            (map (\<lambda>(k, v). (k, UText v)) entries) in
      if tr_ok result then build_visitor_summary entries True
      else [0x8BBF, 0x5BA2, 0x4FE1, 0x606F, 0x5DF2, 0x8BB0, 0x5F55, 0xFF0C, 0x4F46, 0x63D0,
        0x4EA4, 0x6682, 0x65F6, 0x5931, 0x8D25, 0x3002] @ build_visitor_summary entries False)"

definition visitor_start :: "visitor_state agent_result" where
  "visitor_start =
     (let (s, t) = start_visitor_registration in
      \<lparr>ar_text = t, ar_state = Some s, ar_finished = False, ar_persist_history = True\<rparr>)"

definition visitor_handle ::
  "pylib \<Rightarrow> (utext \<Rightarrow> udict \<Rightarrow> tool_result) option \<Rightarrow> utext \<Rightarrow> visitor_state
    \<Rightarrow> visitor_state agent_result \<times> visitor_values option" where
  \<comment> \<open>the second component: the fields that were submitted, if any were\<close>
  "visitor_handle L invoker t s =
     (let (next_state, response) = continue_visitor_registration L s t;
          entries = visitor_fields_from_finished_state L s t;
          submits = (next_state = None \<and> \<not> is_explicit_exit L t \<and> entries \<noteq> []);
          reply = (if submits then submit_visitor_registration invoker entries else response)
      in (\<lparr>ar_text = reply, ar_state = next_state, ar_finished = (next_state = None),
           ar_persist_history = True\<rparr>,
          if submits then Some entries else None))"

subsection \<open>A dialogue\<close>

definition key_prefix :: "nat \<Rightarrow> utext list" where
  "key_prefix n = take n (map vf_key VISITOR_FIELDS)"

definition entry_ok :: "pylib \<Rightarrow> utext \<times> utext \<Rightarrow> bool" where
  "entry_ok L e \<longleftrightarrow> snd e \<noteq> []
     \<and> (fst e = u ''phone'' \<longrightarrow> 7 \<le> length (snd e) \<and> list_all (u_digit L) (snd e))"

definition visitor_inv :: "pylib \<Rightarrow> visitor_state \<Rightarrow> bool" where
  "visitor_inv L s \<longleftrightarrow> 0 \<le> vs_index s \<and> vs_index s < 3
     \<and> keys (vs_fields s) = key_prefix (nat (vs_index s)) \<and> (\<forall>e \<in> set (vs_fields s). entry_ok L e)"

lemma visitor_keys: "map vf_key VISITOR_FIELDS = [u ''visitor_name'', u ''phone'', u ''host_name'']"
  by (simp add: VISITOR_FIELDS_def)

lemma index_cases: "0 \<le> i \<Longrightarrow> i < 3 \<Longrightarrow> i = 0 \<or> i = 1 \<or> i = (2 :: int)"
  by auto

lemma key_prefix_simps:
  "key_prefix 0 = []" "key_prefix 1 = [u ''visitor_name'']"
  "key_prefix 2 = [u ''visitor_name'', u ''phone'']"
  "key_prefix 3 = [u ''visitor_name'', u ''phone'', u ''host_name'']"
  by (simp_all add: key_prefix_def visitor_keys numeral_2_eq_2 numeral_3_eq_3)

lemma update_entries:
  "\<forall>e \<in> set d. entry_ok L e \<Longrightarrow> entry_ok L (k, v) \<Longrightarrow> \<forall>e \<in> set (AList.update k v d). entry_ok L e"
  by (induction d) auto

text \<open>What one accepted value does to the fields.\<close>

definition entered_value :: "pylib \<Rightarrow> visitor_state \<Rightarrow> utext \<Rightarrow> utext" where
  "entered_value L s t =
     (if vf_key (VISITOR_FIELDS ! nat (vs_index s)) = u ''phone'' then digits_of L (u_strip t)
      else u_strip t)"

definition with_entry :: "pylib \<Rightarrow> visitor_state \<Rightarrow> utext \<Rightarrow> visitor_values" where
  "with_entry L s t =
     AList.update (vf_key (VISITOR_FIELDS ! nat (vs_index s))) (entered_value L s t) (vs_fields s)"

definition accepts :: "pylib \<Rightarrow> visitor_state \<Rightarrow> utext \<Rightarrow> bool" where
  "accepts L s t \<longleftrightarrow> u_strip t \<noteq> []
     \<and> (vf_key (VISITOR_FIELDS ! nat (vs_index s)) \<noteq> u ''phone'' \<or> 7 \<le> length (digits_of L (u_strip t)))"

lemma continue_cases:
  assumes "visitor_inv L s" and "\<not> is_explicit_exit L t"
  shows "fst (continue_visitor_registration L s t) =
    (if \<not> accepts L s t then Some s
     else if vs_index s = 2 then None
     else Some \<lparr>vs_index = vs_index s + 1, vs_fields = with_entry L s t\<rparr>)"
  using assms
  by (auto simp: continue_visitor_registration_def visitor_inv_def accepts_def with_entry_def
      entered_value_def Let_def VISITOR_FIELDS_def dest: index_cases)

lemma with_entry_inv:
  assumes "visitor_inv L s" and "accepts L s t"
  shows "keys (with_entry L s t) = key_prefix (nat (vs_index s) + 1)
    \<and> (\<forall>e \<in> set (with_entry L s t). entry_ok L e) \<and> entered_value L s t \<noteq> []"
proof -
  let ?k = "vf_key (VISITOR_FIELDS ! nat (vs_index s))"
  have i: "nat (vs_index s) < 3" using assms(1) by (auto simp: visitor_inv_def)
  have k: "?k = map vf_key VISITOR_FIELDS ! nat (vs_index s)"
    by (rule nth_map [symmetric]) (use i in \<open>simp add: VISITOR_FIELDS_def\<close>)
  have "keys (vs_fields s) = key_prefix (nat (vs_index s))"
    using assms(1) by (simp add: visitor_inv_def)
  moreover have "?k \<notin> set (key_prefix (nat (vs_index s)))"
    using i unfolding k by (auto simp: less_Suc_eq numeral_3_eq_3 key_prefix_def visitor_keys)
  ultimately have "keys (with_entry L s t) = key_prefix (nat (vs_index s)) @ [?k]"
    by (simp add: with_entry_def keys_update del: set_map)
  also have "\<dots> = key_prefix (nat (vs_index s) + 1)"
    using i unfolding key_prefix_def k by (subst take_Suc_conv_app_nth [symmetric]) (simp_all add: visitor_keys)
  finally have keys: "keys (with_entry L s t) = key_prefix (nat (vs_index s) + 1)" .
  have ok: "entry_ok L (?k, entered_value L s t)"
    using assms(2) by (auto simp: entry_ok_def accepts_def entered_value_def digits_of_def list_all_iff)
  then have "entered_value L s t \<noteq> []" by (simp add: entry_ok_def)
  moreover have "\<forall>e \<in> set (with_entry L s t). entry_ok L e"
    unfolding with_entry_def using assms(1) ok by (intro update_entries) (auto simp: visitor_inv_def)
  ultimately show ?thesis using keys by blast
qed

lemma visitor_handle_inv:
  assumes "visitor_inv L s" and "ar_state (fst (visitor_handle L invoker t s)) = Some s'"
  shows "visitor_inv L s'"
proof -
  have "\<not> is_explicit_exit L t"
    using assms(2) by (auto simp: visitor_handle_def continue_visitor_registration_def Let_def)
  moreover have "fst (continue_visitor_registration L s t) = Some s'"
    using assms(2) by (auto simp: visitor_handle_def Let_def split: prod.splits)
  ultimately show ?thesis
    using continue_cases [OF assms(1)] with_entry_inv [OF assms(1), of t] assms(1)
    by (auto simp: visitor_inv_def nat_add_distrib split: if_splits)
qed


lemma visitor_start_inv: "visitor_inv L (the (ar_state visitor_start))"
  by (simp add: visitor_start_def start_visitor_registration_def visitor_inv_def key_prefix_simps)


end
