(* ===== verification/Cognitive_Agent.thy ===== *)
theory Cognitive_Agent
  imports Agent_Runtime Song_Matcher_Facts
begin

text \<open>
  \<open>src/llm/agents/cognitive.py\<close>: the agent that asks three screening questions in a random order,
  scores the answers and publishes a report.  The answer of a language model that reads what
  the rules cannot, the shuffled order, the clock and the report's id are arguments.
\<close>

definition COGNITIVE_AGENT_ID :: utext where
  "COGNITIVE_AGENT_ID = u ''cognitive_screening_agent''"

record screening_question =
  sq_id :: utext
  sq_dimension :: utext
  sq_title :: utext
  sq_question :: utext

definition QUESTIONS :: "screening_question list" where
  "QUESTIONS =
    [\<lparr>sq_id = u ''recent_memory'',
        sq_dimension = [0x8FD1, 0x671F, 0x8BB0, 0x5FC6], sq_title = [0x8FD1, 0x671F, 0x4E8B,
          0x4EF6, 0x9057, 0x5FD8],
        sq_question = [0x662F, 0x5426, 0x7ECF, 0x5E38, 0x5FD8, 0x8BB0, 0x521A, 0x53D1, 0x751F,
          0x7684, 0x4E8B, 0xFF0C, 0x6BD4, 0x5982, 0x534A, 0x5C0F, 0x65F6, 0x524D, 0x653E,
          0x4E0B, 0x7684, 0x7269, 0x54C1, 0x4F4D, 0x7F6E, 0xFF0C, 0x6216, 0x8005, 0x521A,
          0x5403, 0x8FC7, 0x7684, 0x98DF, 0x7269, 0xFF1F]\<rparr>,
     \<lparr>sq_id = u ''repeat_question'',
        sq_dimension = [0x8BB0, 0x5FC6, 0x529B], sq_title = [0x91CD, 0x590D, 0x63D0, 0x95EE],
        sq_question = [0x5BF9, 0x540C, 0x4E00, 0x4E2A, 0x95EE, 0x9898, 0xFF0C, 0x662F, 0x5426,
          0x4F1A, 0x53CD, 0x590D, 0x8BE2, 0x95EE, 0xFF0C, 0x6BD4, 0x5982, 0x5BB6, 0x4EBA,
          0x5DF2, 0x7ECF, 0x89E3, 0x91CA, 0x8FC7, 0x4E86, 0x4F46, 0x4ECD, 0x7136, 0x4E0D,
          0x8BB0, 0x5F97, 0xFF1F]\<rparr>,
     \<lparr>sq_id = u ''word_finding'',
        sq_dimension = [0x8BED, 0x8A00, 0x8868, 0x8FBE], sq_title = [0x8BCD, 0x6C47, 0x5BFB,
          0x627E, 0x56F0, 0x96BE],
        sq_question = [0x8BF4, 0x8BDD, 0x65F6, 0x662F, 0x5426, 0x9891, 0x7E41, 0x5361, 0x58F3,
          0xFF0C, 0x627E, 0x4E0D, 0x5230, 0x5408, 0x9002, 0x7684, 0x8BCD, 0x8BED,
          0xFF1F]\<rparr>]"

definition OFTEN :: utext where "OFTEN = [0x7ECF, 0x5E38]"
definition SOMETIMES :: utext where "SOMETIMES = [0x5076, 0x5C14]"
definition NEVER :: utext where "NEVER = [0x4ECE, 0x4E0D]"

definition SCORES :: "(utext \<times> int) list" where
  "SCORES = [(OFTEN, 0), (SOMETIMES, 1), (NEVER, 2)]"

definition ENTRY_PATTERNS :: "pat list list" where
  \<comment> \<open>cognition or memory test, screening, assessment; Alzheimer, dementia screening\<close>
  "ENTRY_PATTERNS =
    [[Alt [[0x8BA4, 0x77E5]], Gap 4, Alt [[0x68C0, 0x6D4B], [0x7B5B, 0x67E5], [0x65E9, 0x7B5B],
      [0x521D, 0x7B5B], [0x8BC4, 0x4F30], [0x6D4B, 0x8BD5]]],
     [Alt [[0x8BB0, 0x5FC6, 0x529B], [0x8BB0, 0x5FC6]], Gap 4, Alt [[0x68C0, 0x6D4B], [0x7B5B,
       0x67E5], [0x65E9, 0x7B5B], [0x521D, 0x7B5B], [0x8BC4, 0x4F30], [0x6D4B, 0x8BD5]]],
     [Alt [[0x6D4B]], Gap 4, Alt [[0x8BA4, 0x77E5], [0x8BB0, 0x5FC6]]],
     [Alt [[0x505A], [0x6765], [0x8FDB, 0x884C]], Gap 4, Alt [[0x8BA4, 0x77E5], [0x8BB0,
       0x5FC6]], Gap 4, Alt [[0x7B5B], [0x6D4B], [0x8BC4, 0x4F30]]],
     [Alt [[0x7B5B], [0x6D4B], [0x8BC4, 0x4F30]], Gap 4, Alt [[0x8BA4, 0x77E5], [0x8BB0,
       0x5FC6]]],
     [Alt [[0x963F, 0x5C14, 0x8328, 0x6D77, 0x9ED8]], Gap 4, Alt [[0x7B5B, 0x67E5], [0x65E9,
       0x7B5B], [0x521D, 0x7B5B], [0x68C0, 0x6D4B], [0x6D4B, 0x8BD5], [0x8BC4, 0x4F30]]],
     [Alt [[0x8001, 0x5E74, 0x75F4, 0x5446]], Gap 4, Alt [[0x7B5B, 0x67E5], [0x65E9, 0x7B5B],
       [0x521D, 0x7B5B], [0x68C0, 0x6D4B], [0x6D4B, 0x8BD5], [0x8BC4, 0x4F30]]]]"

definition CONCERN_PATTERNS :: "pat list list" where
  \<comment> \<open>lately my memory is not so good; I often forget things; and so on\<close>
  "CONCERN_PATTERNS =
    [[Maybe [[0x6700, 0x8FD1], [0x8FD9, 0x9635, 0x5B50], [0x8FD9, 0x6BB5, 0x65F6, 0x95F4],
      [0x8FD1, 0x6765]], Maybe [[0x6211]], Gap 6, Maybe [[0x611F, 0x89C9], [0x89C9, 0x5F97],
      [0x53D1, 0x73B0]], Gap 6, Alt [[0x8BB0, 0x5FC6], [0x8BB0, 0x6027], [0x8111, 0x5B50]],
      Gap 8, Alt [[0x8DDF, 0x4E0D, 0x4E0A], [0x4E0D, 0x597D], [0x4E0D, 0x592A, 0x597D], [0x53D8,
      0x5DEE], [0x4E0B, 0x964D], [0x4E0D, 0x884C], [0x9000, 0x6B65], [0x8001, 0x5FD8], [0x603B,
      0x5FD8], [0x5BB9, 0x6613, 0x5FD8]]],
     [Alt [[0x6700, 0x8FD1], [0x8FD9, 0x9635, 0x5B50], [0x8FD9, 0x6BB5, 0x65F6, 0x95F4],
       [0x8FD1, 0x6765]], Gap 8, Alt [[0x8001, 0x662F], [0x603B, 0x662F], [0x7ECF, 0x5E38],
       [0x5E38, 0x5E38], [0x5BB9, 0x6613]], Gap 6, Alt [[0x5FD8, 0x4E8B], [0x5FD8, 0x4E1C,
       0x897F], [0x8BB0, 0x4E0D, 0x4F4F]]],
     [Alt [[0x8BB0, 0x5FC6], [0x8BB0, 0x6027]], Gap 6, Maybe [[0x6709, 0x70B9], [0x6709,
       0x4E9B], [0x8D8A, 0x6765, 0x8D8A], [0x660E, 0x663E]], Gap 6, Alt [[0x5DEE], [0x5DEE,
       0x4E86], [0x4E0D, 0x884C], [0x4E0D, 0x597D], [0x4E0B, 0x964D], [0x9000, 0x6B65]]]]"

definition INFO_QUERY_PATTERNS :: "pat list list" where
  \<comment> \<open>look up, what is, how does one do a cognition test\<close>
  "INFO_QUERY_PATTERNS =
    [[Alt [[0x67E5], [0x641C, 0x7D22], [0x4E86, 0x89E3], [0x4ECB, 0x7ECD], [0x8BB2, 0x8BB2],
      [0x8BF4, 0x8BF4]], Gap 8, Alt [[0x8BA4, 0x77E5], [0x8BB0, 0x5FC6], [0x91CF, 0x8868],
      [0x7B5B, 0x67E5], [0x65E9, 0x7B5B], [0x521D, 0x7B5B]]],
     [Alt [[0x8BA4, 0x77E5], [0x8BB0, 0x5FC6], [0x7B5B, 0x67E5], [0x65E9, 0x7B5B], [0x521D,
       0x7B5B], [0x91CF, 0x8868]], Gap 8, Alt [[0x662F, 0x4EC0, 0x4E48], [0x6709, 0x54EA,
       0x4E9B], [0x8D44, 0x6599], [0x65B9, 0x6CD5], [0x600E, 0x4E48, 0x505A]]]]"

definition COG_EXIT_WORDS :: "utext list" where
  "COG_EXIT_WORDS =
    [[0x9000, 0x51FA], [0x4E0D, 0x6D4B, 0x4E86], [0x4E0D, 0x505A, 0x4E86], [0x7ED3, 0x675F],
      [0x53D6, 0x6D88], [0x505C, 0x4E00, 0x4E0B], [0x5148, 0x4E0D, 0x6D4B]]"

definition FREQUENT_WORDS :: "utext list" where
  \<comment> \<open>often, always, keeps doing, all the time, very frequent, frequent, usually\<close>
  "FREQUENT_WORDS =
    [[0x7ECF, 0x5E38], [0x603B, 0x662F], [0x8001, 0x662F], [0x4E00, 0x76F4], [0x5F88, 0x9891,
      0x7E41], [0x9891, 0x7E41], [0x5E38, 0x5E38]]"

definition OCCASIONAL_WORDS :: "utext list" where
  \<comment> \<open>now and then, sometimes, by chance, not too much, not often, a little, a few\<close>
  "OCCASIONAL_WORDS =
    [[0x5076, 0x5C14], [0x6709, 0x65F6, 0x5019], [0x6709, 0x65F6], [0x5076, 0x7136], [0x4E0D,
      0x592A, 0x591A], [0x4E0D, 0x7ECF, 0x5E38], [0x6709, 0x4E00, 0x70B9], [0x6709, 0x70B9],
      [0x5C11, 0x6570]]"

definition NEVER_WORDS :: "utext list" where
  \<comment> \<open>never, have not, not, will not, hardly, seldom, almost never, does not exist\<close>
  "NEVER_WORDS =
    [[0x4ECE, 0x4E0D], [0x6CA1, 0x6709], [0x6CA1], [0x4E0D, 0x4F1A], [0x57FA, 0x672C, 0x6CA1,
      0x6709], [0x5F88, 0x5C11], [0x51E0, 0x4E4E, 0x6CA1, 0x6709], [0x4E0D, 0x5B58, 0x5728]]"

definition CONFIRM_WORDS :: "utext list" where
  \<comment> \<open>start, good, can do, do it, test it, come on, now, yes\<close>
  "CONFIRM_WORDS =
    [[0x5F00, 0x59CB], [0x597D], [0x597D, 0x7684], [0x53EF, 0x4EE5], [0x505A, 0x4E00, 0x4E0B],
      [0x6D4B, 0x4E00, 0x4E0B], [0x6765, 0x5427], [0x73B0, 0x5728], [0x55EF]]"

definition DECLINE_WORDS :: "utext list" where
  \<comment> \<open>no need, not now, do not want, not good, not for the time being, forget it, next time, wait\<close>
  "DECLINE_WORDS =
    [[0x4E0D, 0x7528], [0x5148, 0x4E0D, 0x7528], [0x4E0D, 0x7528, 0x4E86], [0x4E0D, 0x8981],
      [0x4E0D, 0x597D], [0x6682, 0x65F6, 0x4E0D], [0x4E0D, 0x505A], [0x4E0D, 0x6D4B], [0x7B97,
      0x4E86], [0x4E0B, 0x6B21], [0x7B49, 0x4F1A], [0x7B49, 0x7B49]]"

definition is_direct_screening_request :: "utext \<Rightarrow> bool" where
  "is_direct_screening_request n = any_pattern ENTRY_PATTERNS n"

definition is_memory_concern :: "utext \<Rightarrow> bool" where
  "is_memory_concern n = any_pattern CONCERN_PATTERNS n"

definition is_cognitive_entry :: "pylib \<Rightarrow> utext \<Rightarrow> bool" where
  "is_cognitive_entry L t =
     (let n = agent_normalize L t in
      if any_pattern INFO_QUERY_PATTERNS n then False
      else is_direct_screening_request n \<or> is_memory_concern n)"

definition is_confirmation_yes :: "pylib \<Rightarrow> utext \<Rightarrow> bool" where
  "is_confirmation_yes L t = has_word CONFIRM_WORDS (agent_normalize L t)"

definition is_confirmation_no :: "pylib \<Rightarrow> utext \<Rightarrow> bool" where
  "is_confirmation_no L t = has_word DECLINE_WORDS (agent_normalize L t)"

definition cognitive_exit :: "pylib \<Rightarrow> utext \<Rightarrow> bool" where
  "cognitive_exit L t = has_word COG_EXIT_WORDS (agent_normalize L t)"

definition normalize_answer_by_rule :: "pylib \<Rightarrow> utext \<Rightarrow> utext option" where
  "normalize_answer_by_rule L t =
     (let n = agent_normalize L t in
      if n = [] then None
      else if has_word [[0x6CA1, 0x90A3, 0x4E48], [0x6CA1, 0x6709, 0x90A3, 0x4E48], [0x4E0D,
        0x600E, 0x4E48]] n then Some SOMETIMES
      else if has_word NEVER_WORDS n then Some NEVER
      else if has_word OCCASIONAL_WORDS n then Some SOMETIMES
      else if has_word FREQUENT_WORDS n then Some OFTEN
      else None)"

definition normalize_with_llm :: "pylib \<Rightarrow> utext option \<Rightarrow> utext option" where
  \<comment> \<open>\<open>_normalize_cognitive_answer_with_llm\<close> of the server, given the model's answer (\<open>None\<close> when the
    call failed)\<close>
  "normalize_with_llm L answer =
     (case answer of
        None \<Rightarrow> None
      | Some raw \<Rightarrow>
          let response = u_strip raw in
          (case normalize_answer_by_rule L response of
             Some a \<Rightarrow> if a \<noteq> [] then Some a else None
           | None \<Rightarrow> if response \<in> {OFTEN, SOMETIMES, NEVER} then Some response else None))"

subsection \<open>The form\<close>

record cog_answer =
  ca_question :: screening_question
  ca_answer :: utext
  ca_score :: int

record cog_form =
  cf_index :: int
  cf_order :: "int list"
  cf_answers :: "cog_answer list"

datatype cog_state = Awaiting_Confirmation | Screening cog_form

definition total_score :: "cog_answer list \<Rightarrow> int" where
  "total_score answers = sum_list (map ca_score answers)"

definition risk_level_text :: "int \<Rightarrow> utext" where
  "risk_level_text n =
     (if n \<ge> 5 then [0x76EE, 0x524D, 0x6CA1, 0x6709, 0x660E, 0x663E, 0x9700, 0x8981, 0x62C5,
       0x5FC3, 0x7684, 0x4FE1, 0x53F7, 0x3002]
      else if n \<ge> 3 then [0x6709, 0x4E00, 0x4E9B, 0x60C5, 0x51B5, 0x53EF, 0x4EE5, 0x7EE7,
        0x7EED, 0x89C2, 0x5BDF, 0x3002]
      else [0x5EFA, 0x8BAE, 0x548C, 0x5BB6, 0x4EBA, 0x4E00, 0x8D77, 0x7559, 0x610F, 0xFF0C,
        0x5FC5, 0x8981, 0x65F6, 0x54A8, 0x8BE2, 0x4E13, 0x4E1A, 0x4EBA, 0x58EB, 0x3002])"

definition risk_level :: "int \<Rightarrow> string" where
  "risk_level n = (if n \<ge> 5 then ''normal'' else if n \<ge> 3 then ''observe'' else ''attention'')"

fun u_join :: "utext \<Rightarrow> utext list \<Rightarrow> utext" where
  "u_join sep [] = []"
| "u_join sep [t] = t"
| "u_join sep (t # ts) = t @ sep @ u_join sep ts"

definition build_summary :: "cog_answer list \<Rightarrow> utext" where
  "build_summary answers =
     [0x5C0F, 0x6E38, 0x620F, 0x5B8C, 0x6210, 0x5566, 0xFF0C, 0x672C, 0x6B21, 0x603B, 0x5206,
       0x20] @ u (int_text (total_score answers)) @ [0x20, 0x5206, 0x3002]
     @ risk_level_text (total_score answers) @ [0x6211, 0x8BB0, 0x5F55, 0x5230, 0xFF1A]
     @ u_join [0xFF1B] (map (\<lambda>a. sq_title (ca_question a) @ [0xFF1A] @ ca_answer a)
       answers)
     @ [0x3002, 0x8FD9, 0x53EA, 0x662F, 0x4E00, 0x6B21, 0x65E5, 0x5E38, 0x4E92, 0x52A8, 0x53C2,
       0x8003, 0xFF0C, 0x4E0D, 0x4EE3, 0x8868, 0x533B, 0x5B66, 0x8BCA, 0x65AD, 0x3002]"

definition question_order_from_state :: "int list \<Rightarrow> int list" where
  "question_order_from_state raw =
     (let order = filter (\<lambda>i. 0 \<le> i \<and> i < int (length QUESTIONS)) raw in
      if length order = length QUESTIONS \<and> distinct order then order
      else map int [0..<length QUESTIONS])"

definition format_question :: "utext \<Rightarrow> int \<Rightarrow> int list \<Rightarrow> utext" where
  "format_question prefix index order =
     prefix @ [0x7B2C, 0x20] @ u (int_text (index + 1)) @ [0x20, 0x9898, 0xFF1A]
     @ sq_question (QUESTIONS ! nat (order ! nat index)) @ [0x8BF7, 0x56DE, 0x7B54, 0x7ECF,
       0x5E38, 0x3001, 0x5076, 0x5C14, 0x6216, 0x4ECE, 0x4E0D, 0x3002]"

definition start_cognitive_screening :: "int list \<Rightarrow> cog_state \<times> utext" where
  \<comment> \<open>\<open>order\<close> is the shuffled list of question numbers\<close>
  "start_cognitive_screening order =
     (Screening \<lparr>cf_index = 0, cf_order = order, cf_answers = []\<rparr>,
      format_question [0x597D, 0x7684, 0xFF0C, 0x90A3, 0x6211, 0x4EEC, 0x6765, 0x505A, 0x4E2A,
        0x5C0F, 0x6E38, 0x620F, 0x5427, 0xFF0C, 0x4E00, 0x5171, 0x4E09, 0x9898, 0x3002] 0 order)"

definition start_cognitive_confirmation :: "cog_state \<times> utext" where
  "start_cognitive_confirmation =
     (Awaiting_Confirmation, [0x542C, 0x8D77, 0x6765, 0x4F60, 0x6700, 0x8FD1, 0x6709, 0x4E9B,
       0x62C5, 0x5FC3, 0x8BB0, 0x5FC6, 0x72B6, 0x6001, 0x3002, 0x8981, 0x4E0D, 0x8981, 0x4E00,
       0x8D77, 0x505A, 0x4E2A, 0x4E09, 0x9898, 0x5C0F, 0x6E38, 0x620F, 0xFF1F])"

record cog_context =
  cx_robot_id :: "utext option"
  cx_session_id :: utext
  cx_now_ms :: int
  cx_report_hex :: utext
  cx_normalizer :: "(utext \<Rightarrow> utext option) option"

definition answer_dict :: "cog_answer \<Rightarrow> uvalue" where
  "answer_dict a = UObj
     [(u ''question_id'', UText (sq_id (ca_question a))),
      (u ''dimension'', UText (sq_dimension (ca_question a))),
      (u ''title'', UText (sq_title (ca_question a))),
      (u ''question'', UText (sq_question (ca_question a))),
      (u ''answer'', UText (ca_answer a)), (u ''score'', UInt (ca_score a))]"

definition build_cognitive_report :: "cog_answer list \<Rightarrow> cog_context \<Rightarrow> utext \<Rightarrow> udict" where
  "build_cognitive_report answers cx summary =
     [(u ''report_id'', UText (u ''cog-'' @ cx_report_hex cx)),
      (u ''robot_id'', UText (case cx_robot_id cx of None \<Rightarrow> [] | Some r \<Rightarrow> r)),
      (u ''session_id'', UText (cx_session_id cx)), (u ''agent_id'', UText COGNITIVE_AGENT_ID),
      (u ''version'', UText (u ''1.0'')), (u ''completed_at'', UInt (cx_now_ms cx)),
      (u ''total_score'', UInt (total_score answers)),
      (u ''max_score'', UInt (int (length QUESTIONS) * Max (set (map snd SCORES)))),
      (u ''risk_level'', UText (u (risk_level (total_score answers)))),
      (u ''risk_text'', UText (risk_level_text (total_score answers))),
      (u ''summary'', UText summary), (u ''answers'', UArr (map answer_dict answers))]"

definition read_answer :: "pylib \<Rightarrow> cog_context \<Rightarrow> utext \<Rightarrow> utext option" where
  \<comment> \<open>by the rules, else by the language model\<close>
  "read_answer L cx t =
     (case normalize_answer_by_rule L t of
        Some a \<Rightarrow> Some a
      | None \<Rightarrow> (case cx_normalizer cx of None \<Rightarrow> None | Some f \<Rightarrow> f t))"

definition continue_cognitive_screening ::
  "pylib \<Rightarrow> cog_context \<Rightarrow> cog_form \<Rightarrow> utext
    \<Rightarrow> py_exn + cog_state option \<times> utext \<times> udict option" where
  \<comment> \<open>the last component: the report handed to the tool \<open>cognitive_report.publish\<close>\<close>
  "continue_cognitive_screening L cx s t =
     (if cognitive_exit L t then Inr (None, [0x597D, 0x7684, 0xFF0C, 0x5DF2, 0x9000, 0x51FA,
       0x5C0F, 0x6E38, 0x620F, 0xFF0C, 0x6211, 0x4EEC, 0x56DE, 0x5230, 0x6B63, 0x5E38, 0x804A,
       0x5929, 0x3002], None)
      else case read_answer L cx t of
          None \<Rightarrow> Inr (Some (Screening s), [0x8FD9, 0x9898, 0x8BF7, 0x56DE, 0x7B54,
            0x7ECF, 0x5E38, 0x3001, 0x5076, 0x5C14, 0x6216, 0x4ECE, 0x4E0D, 0x3002, 0x60F3,
            0x7ED3, 0x675F, 0x53EF, 0x4EE5, 0x8BF4, 0x9000, 0x51FA, 0x3002], None)
        | Some answer \<Rightarrow>
            let order = question_order_from_state (cf_order s) in
            if cf_index s \<ge> int (length order) then Inr (None, build_summary (cf_answers s), None)
            else
              and_then (need KeyError (map_of SCORES answer)) (\<lambda>score.
              let answers = cf_answers s @
                    [\<lparr>ca_question = QUESTIONS ! nat (order ! nat (cf_index s)), ca_answer = answer,
                      ca_score = score\<rparr>];
                  next_index = cf_index s + 1 in
              if next_index \<ge> int (length order)
              then
                let summary = build_summary answers
                in Inr (None, summary, Some (build_cognitive_report answers cx summary))
              else Inr (Some (Screening \<lparr>cf_index = next_index, cf_order = order,
                                         cf_answers = answers\<rparr>),
                        format_question [] next_index order, None)))"

definition cognitive_result :: "cog_state option \<Rightarrow> utext \<Rightarrow> cog_state agent_result" where
  "cognitive_result s t =
     \<lparr>ar_text = t, ar_state = s, ar_finished = (s = None), ar_persist_history = True\<rparr>"

definition cognitive_start :: "pylib \<Rightarrow> int list \<Rightarrow> utext \<Rightarrow> cog_state agent_result" where
  "cognitive_start L order t =
     (let (s, reply) = (if is_direct_screening_request (agent_normalize L t)
                        then start_cognitive_screening order else start_cognitive_confirmation)
      in cognitive_result (Some s) reply)"

definition cognitive_handle ::
  "pylib \<Rightarrow> cog_context \<Rightarrow> int list \<Rightarrow> utext \<Rightarrow> cog_state
    \<Rightarrow> py_exn + cog_state agent_result \<times> udict option" where
  "cognitive_handle L cx order t s =
     (case s of
        Awaiting_Confirmation \<Rightarrow>
          if is_confirmation_no L t
          then Inr (cognitive_result None [0x597D, 0x7684, 0xFF0C, 0x90A3, 0x6211, 0x4EEC,
            0x5148, 0x4E0D, 0x505A, 0x5C0F, 0x6E38, 0x620F, 0xFF0C, 0x7EE7, 0x7EED, 0x6B63,
            0x5E38, 0x804A, 0x5929, 0x3002], None)
          else if is_confirmation_yes L t
          then let (s1, reply) = start_cognitive_screening order
               in Inr (cognitive_result (Some s1) reply, None)
          else Inr (cognitive_result (Some s)
                 [0x5982, 0x679C, 0x60F3, 0x5F00, 0x59CB, 0xFF0C, 0x8BF7, 0x8BF4, 0x5F00,
                   0x59CB, 0xFF1B, 0x5982, 0x679C, 0x6682, 0x65F6, 0x4E0D, 0x505A, 0xFF0C,
                   0x53EF, 0x4EE5, 0x8BF4, 0x5148, 0x4E0D, 0x7528, 0x3002], None)
      | Screening form \<Rightarrow>
          and_then (continue_cognitive_screening L cx form t) (\<lambda>(next_state, reply, report).
          Inr (cognitive_result next_state reply, report)))"

end
