(* ===== verification/Cognitive_Facts.thy ===== *)
theory Cognitive_Facts
  imports Cognitive_Agent
begin

text \<open>
  A screening stays well-formed whatever is said, never raises, and publishes a report only when
  the three questions, each once and in the shuffled order, have an answer with its score.
\<close>

definition scored :: "cog_answer \<Rightarrow> bool" where
  "scored a \<longleftrightarrow> map_of SCORES (ca_answer a) = Some (ca_score a)"

definition good_order :: "int list \<Rightarrow> bool" where
  "good_order order \<longleftrightarrow> length order = 3 \<and> distinct order \<and> (\<forall>i \<in> set order. 0 \<le> i \<and> i < 3)"

definition form_inv :: "cog_form \<Rightarrow> bool" where
  "form_inv f \<longleftrightarrow> 0 \<le> cf_index f \<and> cf_index f < 3 \<and> good_order (cf_order f)
     \<and> map ca_question (cf_answers f)
         = map (\<lambda>i. QUESTIONS ! nat i) (take (nat (cf_index f)) (cf_order f))
     \<and> (\<forall>a \<in> set (cf_answers f). scored a)"

definition normalizer_ok :: "cog_context \<Rightarrow> bool" where
  \<comment> \<open>the language model's reading of an answer is one of the three answers\<close>
  "normalizer_ok cx \<longleftrightarrow> (case cx_normalizer cx of None \<Rightarrow> True
     | Some f \<Rightarrow> \<forall>t a. f t = Some a \<longrightarrow> a \<in> set (keys SCORES))"

lemma three_questions: "length QUESTIONS = 3" "distinct QUESTIONS"
  by code_simp+

lemma keys_SCORES: "keys SCORES = [OFTEN, SOMETIMES, NEVER]"
  by (simp add: SCORES_def)

lemma rule_answer_scored: "normalize_answer_by_rule L t = Some a \<Longrightarrow> a \<in> set (keys SCORES)"
  by (auto simp: normalize_answer_by_rule_def keys_SCORES Let_def simp del: set_map split: if_splits)

lemma server_normalizer_ok:
  "cx_normalizer cx = Some (\<lambda>t. normalize_with_llm L (model t)) \<Longrightarrow> normalizer_ok cx"
  by (auto simp: normalizer_ok_def normalize_with_llm_def Let_def keys_SCORES simp del: set_map
      split: option.splits if_splits dest: rule_answer_scored)

lemma read_answer_scored:
  assumes "normalizer_ok cx" and "read_answer L cx t = Some a"
  shows "\<exists>score. map_of SCORES a = Some score"
proof -
  have "a \<in> set (keys SCORES)"
    using assms by (auto simp: read_answer_def normalizer_ok_def simp del: set_map
        split: option.splits dest: rule_answer_scored)
  then show ?thesis by (auto simp: SCORES_def)
qed

lemma good_order_kept: "good_order order \<Longrightarrow> question_order_from_state order = order"
proof -
  assume "good_order order"
  moreover from this have "filter (\<lambda>i. 0 \<le> i \<and> i < int (length QUESTIONS)) order = order"
    by (intro filter_True) (simp add: good_order_def three_questions)
  ultimately show ?thesis
    by (simp add: question_order_from_state_def good_order_def three_questions)
qed

lemma good_order_covers:
  assumes "good_order order"
  shows "distinct (map (\<lambda>i. QUESTIONS ! nat i) order)"
    "set (map (\<lambda>i. QUESTIONS ! nat i) order) = set QUESTIONS"
proof -
  have inj: "inj_on (\<lambda>i. QUESTIONS ! nat i) (set order)"
  proof (rule inj_onI)
    fix i j
    assume ij: "i \<in> set order" "j \<in> set order" "QUESTIONS ! nat i = QUESTIONS ! nat j"
    with assms have range: "0 \<le> i" "i < 3" "0 \<le> j" "j < 3" by (auto simp: good_order_def)
    then have "nat i = nat j"
      using ij(3) nth_eq_iff_index_eq [OF three_questions(2), of "nat i" "nat j"]
      by (simp add: three_questions(1) nat_less_iff)
    with range show "i = j" by simp
  qed
  with assms show dist: "distinct (map (\<lambda>i. QUESTIONS ! nat i) order)"
    by (simp add: distinct_map good_order_def)
  show "set (map (\<lambda>i. QUESTIONS ! nat i) order) = set QUESTIONS"
  proof (rule card_subset_eq)
    show "set (map (\<lambda>i. QUESTIONS ! nat i) order) \<subseteq> set QUESTIONS"
      using assms by (auto simp: good_order_def three_questions(1) intro!: nth_mem)
    show "card (set (map (\<lambda>i. QUESTIONS ! nat i) order)) = card (set QUESTIONS)"
      using assms
      by (simp only: distinct_card [OF dist] distinct_card [OF three_questions(2)])
        (simp add: good_order_def three_questions(1))
  qed simp
qed

lemma start_inv: "good_order order \<Longrightarrow>
  \<exists>f. fst (start_cognitive_screening order) = Screening f \<and> form_inv f"
  by (simp add: start_cognitive_screening_def form_inv_def)

text \<open>One more answer: the answers so far and this one are to the first questions of the order.\<close>

lemma answers_extended:
  assumes "form_inv f" and "map_of SCORES answer = Some score"
  defines "as \<equiv> cf_answers f @ [\<lparr>ca_question = QUESTIONS ! nat (cf_order f ! nat (cf_index f)),
      ca_answer = answer, ca_score = score\<rparr>]"
  shows "map ca_question as = map (\<lambda>i. QUESTIONS ! nat i) (take (nat (cf_index f) + 1) (cf_order f))"
    and "\<forall>a \<in> set as. scored a"
proof -
  have "nat (cf_index f) < length (cf_order f)" using assms(1) by (auto simp: form_inv_def good_order_def)
  then show "map ca_question as = map (\<lambda>i. QUESTIONS ! nat i) (take (nat (cf_index f) + 1) (cf_order f))"
    using assms(1) by (simp add: as_def form_inv_def take_Suc_conv_app_nth)
  show "\<forall>a \<in> set as. scored a"
    using assms(1,2) by (auto simp: as_def form_inv_def scored_def)
qed

definition report_ok :: "udict \<Rightarrow> bool" where
  "report_ok report \<longleftrightarrow> (\<exists>answers n.
     uget report ''answers'' = UArr (map answer_dict answers)
     \<and> distinct (map ca_question answers) \<and> set (map ca_question answers) = set QUESTIONS
     \<and> list_all scored answers
     \<and> n = sum_list (map ca_score answers) \<and> 0 \<le> n \<and> n \<le> 6
     \<and> uget report ''total_score'' = UInt n \<and> uget report ''max_score'' = UInt 6
     \<and> uget report ''risk_level'' = UText (u (if n \<ge> 5 then ''normal''
          else if n \<ge> 3 then ''observe'' else ''attention'')))"

lemma scored_range: "scored a \<Longrightarrow> 0 \<le> ca_score a \<and> ca_score a \<le> 2"
  by (auto simp: scored_def SCORES_def split: if_splits)

lemma scores_range:
  "list_all scored as \<Longrightarrow> 0 \<le> total_score as \<and> total_score as \<le> 2 * int (length as)"
  by (induction as) (auto simp: total_score_def dest: scored_range)

lemma max_score: "int (length QUESTIONS) * Max (set (map snd SCORES)) = 6"
  by (simp add: three_questions SCORES_def)

lemma complete_report:
  assumes "good_order order" and "list_all scored as"
    and "map ca_question as = map (\<lambda>i. QUESTIONS ! nat i) order"
  shows "report_ok (build_cognitive_report as cx summary)"
proof -
  have "length as = 3" using assms(1,3) by (metis good_order_def length_map)
  then have "0 \<le> total_score as" "total_score as \<le> 6" using scores_range [OF assms(2)] by auto
  moreover have "distinct (map ca_question as)" "set (map ca_question as) = set QUESTIONS"
    using good_order_covers [OF assms(1)] unfolding assms(3) by auto
  ultimately show ?thesis
    unfolding report_ok_def
    by (intro exI [of _ as] exI [of _ "total_score as"])
      (simp add: build_cognitive_report_def max_score risk_level_def total_score_def assms(2)
        del: set_map)
qed


definition sample_context :: cog_context where
  "sample_context = \<lparr>cx_robot_id = Some (u ''r1''), cx_session_id = u ''s1'', cx_now_ms = 1700000000000,
     cx_report_hex = u ''0a'', cx_normalizer = Some (\<lambda>t. normalize_with_llm exact_lib None)\<rparr>"

definition sample_form :: cog_form where
  \<comment> \<open>two questions answered: never, sometimes\<close>
  "sample_form = \<lparr>cf_index = 2, cf_order = [2, 0, 1],
     cf_answers = [\<lparr>ca_question = QUESTIONS ! 2, ca_answer = NEVER, ca_score = 2\<rparr>,
       \<lparr>ca_question = QUESTIONS ! 0, ca_answer = SOMETIMES, ca_score = 1\<rparr>]\<rparr>"

lemma sample_form_inv: "form_inv sample_form"
  by (simp add: form_inv_def sample_form_def good_order_def scored_def SCORES_def numeral_2_eq_2
      OFTEN_def SOMETIMES_def NEVER_def)


text \<open>The rules look for the words of ``never'' first and for parts of words: \<^verbatim>\<open>mei cuo, jingchang\<close>
  (that is right, often) contains the \<^verbatim>\<open>mei\<close> of ``never'' and gets the best score; \<^verbatim>\<open>bu tai jingchang\<close>
  (not very often) contains \<^verbatim>\<open>jingchang\<close> and gets the worst.  A refusal \<^verbatim>\<open>bu keyi\<close> (that will
  not do) contains \<^verbatim>\<open>keyi\<close> and starts the screening.\<close>

lemma rules_misread_answers:
  "normalize_answer_by_rule L [0x6CA1, 0x9519, 0x7ECF, 0x5E38] = Some NEVER
    \<and> normalize_answer_by_rule L [0x4E0D, 0x592A, 0x7ECF, 0x5E38] = Some OFTEN
    \<and> is_confirmation_yes L [0x4E0D, 0x53EF,
      0x4EE5] \<and> \<not> is_confirmation_no L [0x4E0D, 0x53EF, 0x4EE5]"
proof -
  have "agent_normalize L [0x6CA1, 0x9519, 0x7ECF, 0x5E38] = [0x6CA1, 0x9519, 0x7ECF,
    0x5E38]" "agent_normalize L [0x4E0D, 0x592A, 0x7ECF, 0x5E38] = [0x4E0D, 0x592A, 0x7ECF,
    0x5E38]"
    "agent_normalize L [0x4E0D, 0x53EF, 0x4EE5] = [0x4E0D, 0x53EF, 0x4EE5]"
    by (rule agent_normalize_ideographs, simp add: ideograph_def)+
  moreover have "\<not> has_word [[0x6CA1, 0x90A3, 0x4E48], [0x6CA1, 0x6709, 0x90A3, 0x4E48],
    [0x4E0D, 0x600E, 0x4E48]] [0x6CA1, 0x9519, 0x7ECF, 0x5E38]"
    "has_word NEVER_WORDS [0x6CA1, 0x9519, 0x7ECF, 0x5E38]" "\<not> has_word [[0x6CA1, 0x90A3,
      0x4E48], [0x6CA1, 0x6709, 0x90A3, 0x4E48], [0x4E0D, 0x600E, 0x4E48]] [0x4E0D, 0x592A,
      0x7ECF, 0x5E38]"
    "\<not> has_word NEVER_WORDS [0x4E0D, 0x592A, 0x7ECF,
      0x5E38]" "\<not> has_word OCCASIONAL_WORDS [0x4E0D, 0x592A, 0x7ECF, 0x5E38]"
    "has_word FREQUENT_WORDS [0x4E0D, 0x592A, 0x7ECF, 0x5E38]" "has_word CONFIRM_WORDS [0x4E0D,
      0x53EF, 0x4EE5]"
    "\<not> has_word DECLINE_WORDS [0x4E0D, 0x53EF, 0x4EE5]"
    by code_simp+
  ultimately show ?thesis
    by (simp add: normalize_answer_by_rule_def is_confirmation_yes_def is_confirmation_no_def)
qed

end
