(* ===== verification/Story_Agent.thy ===== *)
theory Story_Agent
  imports Agent_Runtime Song_Matcher_Facts
begin

text \<open>
  \<open>src/llm/agents/story.py\<close>: the agent that tells a story together with the user.  A language model
  writes the story; what it answers, whole or as a stream of chunks, is an argument (a failed call
  answers nothing, a stream that fails just ends), and so are the random choices.
\<close>

definition STORY_ENTRY_PATTERNS :: "pat list list" where
  \<comment> \<open>want, come, play, start ... one of six names of the story game\<close>
  "STORY_ENTRY_PATTERNS =
    (let games = [[0x6545, 0x4E8B, 0x63A5, 0x9F99], [0x6545, 0x4E8B, 0x7EED, 0x5199], [0x4E92,
      0x52A8, 0x6545, 0x4E8B], [0x6545, 0x4E8B, 0x6E38, 0x620F], [0x5267, 0x60C5, 0x63A5,
      0x9F99], [0x5267, 0x60C5, 0x7EED, 0x5199]] in
    [[Alt [[0x60F3], [0x8981], [0x6765], [0x73A9], [0x5F00, 0x59CB], [0x8FDB, 0x5165]], Gap 6,
      Alt games],
     [Alt games, Gap 6, Maybe [[0x73A9], [0x5F00, 0x59CB], [0x6765], [0x4E00, 0x4E0B], [0x6A21,
       0x5F0F]]],
     [Alt [[0x60F3, 0x73A9], [0x8981, 0x73A9], [0x6765, 0x73A9]], Gap 4,
      Alt [[0x4FEE, 0x4ED9], [0x4FA6, 0x63A2], [0x79D1, 0x5E7B], [0x7AE5, 0x8BDD], [0x6B66,
        0x4FA0], [0x5192, 0x9669]], Gap 4,
      Alt [[0x6545, 0x4E8B, 0x63A5, 0x9F99], [0x6545, 0x4E8B, 0x7EED, 0x5199], [0x4E92, 0x52A8,
        0x6545, 0x4E8B], [0x6545, 0x4E8B, 0x6E38, 0x620F]]]])"

definition STORY_EXIT_WORDS :: "utext list" where
  "STORY_EXIT_WORDS =
    [[0x4E0D, 0x73A9, 0x4E86], [0x9000, 0x51FA, 0x6545, 0x4E8B], [0x7ED3, 0x675F, 0x6545,
      0x4E8B], [0x4E0D, 0x8BB2, 0x4E86], [0x522B, 0x8BB2, 0x4E86], [0x56DE, 0x5230, 0x6B63,
      0x5E38, 0x804A, 0x5929], [0x9000, 0x51FA, 0x8FD9, 0x4E2A, 0x6545, 0x4E8B]]"

definition SHORT_EXIT_COMMANDS :: "utext list" where
  "SHORT_EXIT_COMMANDS =
    [[0x9000, 0x51FA], [0x9000, 0x51FA, 0x5427], [0x5148, 0x9000, 0x51FA], [0x9000, 0x51FA,
      0x4E86], [0x7ED3, 0x675F], [0x53D6, 0x6D88]]"

definition HELP_WORDS :: "utext list" where
  "HELP_WORDS =
    [[0x600E, 0x4E48, 0x73A9], [0x600E, 0x4E48, 0x9000, 0x51FA], [0x600E, 0x4E48, 0x7ED3,
      0x675F], [0x6211, 0x8BE5, 0x8BF4, 0x4EC0, 0x4E48], [0x4E0D, 0x77E5, 0x9053, 0x600E,
      0x4E48], [0x4E0D, 0x77E5, 0x9053, 0x8BF4, 0x4EC0, 0x4E48], [0x89C4, 0x5219], [0x5E2E,
      0x52A9], [0x63D0, 0x793A]]"

definition STYLE_HINTS :: "utext list" where
  \<comment> \<open>immortals, detective, science fiction, fairy tale, martial arts, adventure; each hint is its style\<close>
  "STYLE_HINTS = [[0x4FEE, 0x4ED9], [0x4FA6, 0x63A2], [0x79D1, 0x5E7B], [0x7AE5, 0x8BDD],
    [0x6B66, 0x4FA0], [0x5192, 0x9669]]"

definition DEFAULT_STYLES :: "utext list" where
  "DEFAULT_STYLES = [[0x4FEE, 0x4ED9], [0x4FA6, 0x63A2], [0x79D1, 0x5E7B], [0x7AE5, 0x8BDD],
    [0x5192, 0x9669]]"

definition FALLBACK_OPENINGS :: "(utext \<times> utext) list" where
  "FALLBACK_OPENINGS =
    [([0x4FEE, 0x4ED9],
      [0x4F60, 0x662F, 0x521A, 0x4E0B, 0x5C71, 0x7684, 0x5C0F, 0x4FEE, 0x58EB, 0xFF0C, 0x5C71,
        0x811A, 0x6709, 0x96C6, 0x5E02, 0x548C, 0x9ED1, 0x96FE, 0x68EE, 0x6797, 0x3002, 0x4F60,
        0x53BB, 0x54EA, 0x8FB9, 0xFF1F]),
     ([0x4FA6, 0x63A2],
      [0x96E8, 0x591C, 0x91CC, 0xFF0C, 0x4F60, 0x6536, 0x5230, 0x4E00, 0x5C01, 0x65E0, 0x7F72,
        0x540D, 0x4FE1, 0xFF0C, 0x7EA6, 0x4F60, 0x53BB, 0x65E7, 0x5267, 0x9662, 0x3002, 0x4F60,
        0x53BB, 0x5417, 0xFF1F]),
     ([0x79D1, 0x5E7B],
      [0x98DE, 0x8239, 0x5FFD, 0x7136, 0x505C, 0x7535, 0xFF0C, 0x7A97, 0x5916, 0x6709, 0x4E00,
        0x9897, 0x84DD, 0x8272, 0x661F, 0x7403, 0x5728, 0x95EA, 0x3002, 0x4F60, 0x5148, 0x67E5,
        0x54EA, 0x91CC, 0xFF1F]),
     ([0x7AE5, 0x8BDD],
      [0x4E00, 0x53EA, 0x4F1A, 0x8BF4, 0x8BDD, 0x7684, 0x732B, 0x62E6, 0x4F4F, 0x4F60, 0xFF0C,
        0x8BF4, 0x57CE, 0x5821, 0x4E22, 0x4E86, 0x6708, 0x4EAE, 0x3002, 0x4F60, 0x8DDF, 0x5B83,
        0x8D70, 0x5417, 0xFF1F]),
     ([0x5192, 0x9669],
      [0x4F60, 0x5728, 0x6D77, 0x8FB9, 0x6361, 0x5230, 0x4E00, 0x5F20, 0x6E7F, 0x5730, 0x56FE,
        0xFF0C, 0x4E0A, 0x9762, 0x6807, 0x7740, 0x7EA2, 0x53C9, 0x3002, 0x4F60, 0x8981, 0x51FA,
        0x53D1, 0x5417, 0xFF1F])]"

record story_turn =
  st_user :: "utext option"
  st_assistant :: utext

record story_state =
  sy_style :: utext
  sy_setting :: utext
  sy_summary :: utext
  sy_turn_count :: int
  sy_recent :: "story_turn list"

record stream_event =
  se_text :: utext
  se_result :: "story_state agent_result option"

type_synonym llm_messages = "(utext \<times> utext) list"

definition command_normalize :: "pylib \<Rightarrow> utext \<Rightarrow> utext" where
  \<comment> \<open>\<open>_normalize_command_text\<close>\<close>
  "command_normalize L t =
     filter (\<lambda>c. \<not> (u_space c \<or> c \<in> set [0xFF0C, 0x3002, 0xFF01, 0xFF1F,
       0x2C, 0x2E, 0x21, 0x3F, 0x3001, 0x7E, 0xFF5E])) (u_lower L (u_strip t))"

definition story_exit :: "pylib \<Rightarrow> utext \<Rightarrow> bool" where
  "story_exit L t =
     (has_word STORY_EXIT_WORDS (agent_normalize L t)
      \<or> command_normalize L t \<in> set SHORT_EXIT_COMMANDS)"

definition is_help_request :: "pylib \<Rightarrow> utext \<Rightarrow> bool" where
  "is_help_request L t = has_word HELP_WORDS (agent_normalize L t)"

definition story_can_enter :: "pylib \<Rightarrow> utext \<Rightarrow> bool" where
  "story_can_enter L t = any_pattern STORY_ENTRY_PATTERNS (agent_normalize L t)"

subsection \<open>Cleaning the model's text\<close>

fun collapse :: "utext \<Rightarrow> utext" where
  \<comment> \<open>\<open>re.sub(r"\s+", " ", text)\<close>\<close>
  "collapse [] = []"
| "collapse (c # cs) =
     (if u_space c then (if cs \<noteq> [] \<and> u_space (hd cs) then collapse cs else 32 # collapse cs)
      else c # collapse cs)"

definition drop_punctuation :: "utext \<Rightarrow> utext" where
  \<comment> \<open>\<open>text.rstrip(...)\<close> of the final punctuation\<close>
  "drop_punctuation t = rev (dropWhile (\<lambda>c. c \<in> set [0xFF0C, 0x3002, 0xFF01, 0xFF1F,
    0x2C, 0x2E, 0x21, 0x3F]) (rev t))"

definition STORY_LIMIT :: nat where
  "STORY_LIMIT = 75"

definition cut_short :: "utext \<Rightarrow> utext" where
  \<comment> \<open>end a text that was cut with a full stop\<close>
  "cut_short t = drop_punctuation t @ [0x3002]"

definition clean_response :: "utext option \<Rightarrow> utext option" where
  "clean_response answer =
     (let cleaned = collapse (u_strip (case answer of None \<Rightarrow> [] | Some t \<Rightarrow> t)) in
      if cleaned = [] then None
      else if length cleaned > STORY_LIMIT then Some (cut_short (take STORY_LIMIT cleaned))
      else Some cleaned)"

fun story_stream :: "nat \<Rightarrow> utext list \<Rightarrow> utext list" where
  \<comment> \<open>\<open>_ask_story_llm_stream\<close>: what is emitted of the chunks; the first argument counts the
    characters emitted so far\<close>
  "story_stream emitted [] = []"
| "story_stream emitted (raw # chunks) =
     (let chunk = collapse raw in
      if chunk = [] then story_stream emitted chunks
      else if STORY_LIMIT \<le> emitted then []
      else
        let part = take (STORY_LIMIT - emitted) chunk;
            emitted1 = emitted + length part;
            out = (if length part < length chunk \<or> STORY_LIMIT \<le> emitted1
                   then cut_short part else part) in
        (if out \<noteq> [] then [out] else [])
        @ (if STORY_LIMIT \<le> emitted1 then [] else story_stream emitted1 chunks))"

subsection \<open>Prompts and states\<close>

definition detect_style :: "pylib \<Rightarrow> (utext list \<Rightarrow> utext) \<Rightarrow> utext \<Rightarrow> utext" where
  "detect_style L pick t =
     (case find (\<lambda>k. u_in k (agent_normalize L t)) STYLE_HINTS of
        Some style \<Rightarrow> style
      | None \<Rightarrow> pick DEFAULT_STYLES)"

definition STORY_SEEDS :: "(utext \<times> utext list) list" where
  "STORY_SEEDS =
    [([0x4FEE, 0x4ED9],
      [[0x4E3B, 0x89D2, 0x521A, 0x4E0B, 0x5C71, 0xFF0C, 0x5E08, 0x7236, 0x7559, 0x4E0B, 0x4E00,
        0x5C01, 0x5947, 0x602A, 0x7684, 0x4FE1, 0x3002],
       [0x4E3B, 0x89D2, 0x60F3, 0x56DE, 0x5C71, 0x517B, 0x8001, 0xFF0C, 0x4F46, 0x5C71, 0x95E8,
         0x7A81, 0x7136, 0x5173, 0x4E0A, 0x4E86, 0x3002]]),
     ([0x4FA6, 0x63A2],
      [[0x96E8, 0x591C, 0x65E7, 0x5267, 0x9662, 0x51FA, 0x73B0, 0x4E00, 0x5C01, 0x65E0, 0x7F72,
        0x540D, 0x4FE1, 0x3002],
       [0x5496, 0x5561, 0x9986, 0x91CC, 0x6709, 0x4EBA, 0x628A, 0x4E00, 0x679A, 0x94A5, 0x5319,
         0x63A8, 0x5230, 0x4E3B, 0x89D2, 0x9762, 0x524D, 0x3002]]),
     ([0x79D1, 0x5E7B],
      [[0x98DE, 0x8239, 0x505C, 0x7535, 0xFF0C, 0x7A97, 0x5916, 0x51FA, 0x73B0, 0x672A, 0x77E5,
        0x84DD, 0x8272, 0x661F, 0x7403, 0x3002],
       [0x5BB6, 0x7528, 0x673A, 0x5668, 0x4EBA, 0x7A81, 0x7136, 0x8BF4, 0x5B83, 0x8BB0, 0x8D77,
         0x4E86, 0x672A, 0x6765, 0x3002]]),
     ([0x7AE5, 0x8BDD],
      [[0x4F1A, 0x8BF4, 0x8BDD, 0x7684, 0x732B, 0x8BF4, 0x57CE, 0x5821, 0x4E22, 0x4E86, 0x6708,
        0x4EAE, 0x3002],
       [0x53E3, 0x888B, 0x91CC, 0x7684, 0x7EBD, 0x6263, 0x53D8, 0x6210, 0x4E86, 0x4E00, 0x6247,
         0x5C0F, 0x95E8, 0x3002]]),
     ([0x5192, 0x9669],
      [[0x6D77, 0x8FB9, 0x6361, 0x5230, 0x4E00, 0x5F20, 0x6E7F, 0x5730, 0x56FE, 0xFF0C, 0x4E0A,
        0x9762, 0x6709, 0x7EA2, 0x53C9, 0x3002],
       [0x5C71, 0x6D1E, 0x91CC, 0x4F20, 0x6765, 0x949F, 0x58F0, 0xFF0C, 0x5165, 0x53E3, 0x5374,
         0x5199, 0x7740, 0x522B, 0x56DE, 0x5934, 0x3002]])]"

definition style_opening_seeds :: "utext \<Rightarrow> utext list" where
  "style_opening_seeds style =
     (case map_of STORY_SEEDS style of Some seeds \<Rightarrow> seeds | None \<Rightarrow> the
       (map_of STORY_SEEDS [0x5192, 0x9669]))"

definition story_system_prompt :: utext where
  "story_system_prompt =
     [0x4F60, 0x662F, 0x4E00, 0x4E2A, 0x8BED, 0x97F3, 0x6545, 0x4E8B, 0x63A5, 0x9F99, 0x20,
       0x41, 0x67, 0x65, 0x6E, 0x74, 0x3002] @ [0x53EA, 0x8F93, 0x51FA, 0x6545, 0x4E8B, 0x5185,
       0x5BB9, 0xFF0C, 0x4E0D, 0x89E3, 0x91CA, 0x7CFB, 0x7EDF, 0x89C4, 0x5219, 0x3002]
     @ [0x6BCF, 0x6B21, 0x56DE, 0x590D, 0x20, 0x33, 0x35, 0x20, 0x5230, 0x20, 0x36, 0x35, 0x20,
       0x4E2A, 0x4E2D, 0x6587, 0x5B57, 0xFF0C, 0x6700, 0x591A, 0x4E24, 0x53E5, 0x8BDD, 0x3002]
     @ [0x63A5, 0x4F4F, 0x7528, 0x6237, 0x7684, 0x884C, 0x52A8, 0xFF0C, 0x63A8, 0x8FDB, 0x4E00,
       0x4E2A, 0x5C0F, 0x60C5, 0x8282, 0xFF0C, 0x7ED3, 0x5C3E, 0x7ED9, 0x7528, 0x6237, 0x4E00,
       0x4E2A, 0x81EA, 0x7136, 0x7684, 0x9009, 0x62E9, 0x6216, 0x5F00, 0x653E, 0x95EE, 0x9898,
       0x3002]
     @ [0x8BED, 0x6C14, 0x81EA, 0x7136, 0x3001, 0x6709, 0x753B, 0x9762, 0x611F, 0xFF0C, 0x4F46,
       0x4E0D, 0x8981, 0x957F, 0x7BC7, 0x63CF, 0x5199, 0x3002]
     @ [0x5982, 0x679C, 0x7528, 0x6237, 0x60F3, 0x8EBA, 0x5E73, 0x3001, 0x56DE, 0x5BB6, 0x3001,
       0x53CD, 0x5E38, 0x9009, 0x62E9, 0xFF0C, 0x4E5F, 0x8981, 0x987A, 0x7740, 0x7F16, 0x3002]"

definition story_entry_intro :: "utext \<Rightarrow> utext" where
  "story_entry_intro style =
     [0x90A3, 0x6211, 0x4EEC, 0x6765, 0x73A9] @ style @ [0x6545, 0x4E8B, 0x63A5, 0x9F99, 0x5427,
       0x3002] @ [0x4F60, 0x53EF, 0x4EE5, 0x81EA, 0x7531, 0x5730, 0x8BF4, 0x60F3, 0x505A,
       0x4EC0, 0x4E48, 0xFF0C, 0x60F3, 0x9000, 0x51FA, 0x5C31, 0x8BF4, 0x9000, 0x51FA, 0x6545,
       0x4E8B, 0x3002]"

definition story_help_text :: utext where
  "story_help_text =
     [0x4F60, 0x53EF, 0x4EE5, 0x76F4, 0x63A5, 0x8BF4, 0x4F60, 0x60F3, 0x505A, 0x4EC0, 0x4E48,
       0xFF0C, 0x6BD4, 0x5982, 0x5F80, 0x524D, 0x8D70, 0x3001, 0x6253, 0x5F00, 0x95E8, 0x3001,
       0x95EE, 0x95EE, 0x65C1, 0x8FB9, 0x7684, 0x4EBA, 0x3002]
     @ [0x6211, 0x4F1A, 0x63A5, 0x7740, 0x4F60, 0x7684, 0x9009, 0x62E9, 0x7EED, 0x5199, 0x3002,
       0x60F3, 0x7ED3, 0x675F, 0x5C31, 0x8BF4, 0x9000, 0x51FA, 0x6545, 0x4E8B, 0x3002]"

definition build_start_prompt :: "(utext list \<Rightarrow> utext) \<Rightarrow> utext \<Rightarrow> utext \<Rightarrow> llm_messages" where
  "build_start_prompt pick t style =
     [(u ''system'', story_system_prompt),
      (u ''user'', [0x7528, 0x6237, 0x60F3, 0x5F00, 0x59CB, 0x4E00, 0x4E2A] @ style @ [0x4E92,
        0x52A8, 0x6545, 0x4E8B, 0x3002] @ [0x7528, 0x6237, 0x539F, 0x8BDD, 0xFF1A] @ t
        @ [0x53C2, 0x8003, 0x79CD, 0x5B50, 0xFF1A] @ pick (style_opening_seeds style)
        @ [0x8BF7, 0x76F4, 0x63A5, 0x7ED9, 0x51FA, 0x6545, 0x4E8B, 0x5F00, 0x573A, 0xFF0C,
          0x4E0D, 0x8981, 0x5BD2, 0x6684, 0xFF0C, 0x4E0D, 0x8981, 0x89E3, 0x91CA, 0x73A9,
          0x6CD5, 0x3002])]"

fun join_semicolon :: "utext list \<Rightarrow> utext" where
  "join_semicolon [] = []"
| "join_semicolon [t] = t"
| "join_semicolon (t # ts) = t @ [0xFF1B] @ join_semicolon ts"

definition format_recent :: "story_turn list \<Rightarrow> utext" where
  "format_recent recent =
     (let parts = concat (map (\<lambda>x.
            (case st_user x of Some v \<Rightarrow> if v \<noteq> [] then [[0x7528, 0x6237,
              0xFF1A] @ v] else [] | None \<Rightarrow> [])
            @ (if st_assistant x \<noteq> [] then [[0x6545, 0x4E8B,
              0xFF1A] @ st_assistant x] else [])) (py_tail 3 recent))
      in if recent = [] \<or> parts = [] then [0x65E0] else join_semicolon parts)"

definition build_continue_prompt :: "utext \<Rightarrow> utext \<Rightarrow> story_turn list \<Rightarrow> utext \<Rightarrow> llm_messages" where
  "build_continue_prompt style summary recent t =
     [(u ''system'', story_system_prompt),
      (u ''user'', [0x6545, 0x4E8B, 0x7C7B, 0x578B, 0xFF1A] @ style @ [10] @ [0x5F53, 0x524D,
        0x7B80, 0x77ED, 0x6458, 0x8981, 0xFF1A] @ summary @ [10]
        @ [0x6700, 0x8FD1, 0x7247, 0x6BB5, 0xFF1A] @ format_recent recent @ [10] @ [0x7528,
          0x6237, 0x884C, 0x52A8, 0xFF1A] @ t @ [10]
        @ [0x8BF7, 0x7EE7, 0x7EED, 0x6545, 0x4E8B, 0x3002])]"

definition start_state :: "utext \<Rightarrow> utext \<Rightarrow> story_state" where
  "start_state style response =
     \<lparr>sy_style = style, sy_setting = response, sy_summary = response, sy_turn_count = 0,
      sy_recent = [\<lparr>st_user = None, st_assistant = response\<rparr>]\<rparr>"

definition trim_recent :: "story_turn list \<Rightarrow> story_turn list" where
  "trim_recent recent = py_tail 4 recent"

definition compact_summary :: "utext \<Rightarrow> utext \<Rightarrow> utext \<Rightarrow> utext" where
  "compact_summary summary t response =
     py_tail 220 (summary @ [0x20, 0x7528, 0x6237, 0x9009, 0x62E9, 0xFF1A] @ t @ [0x3002,
       0x5267, 0x60C5, 0xFF1A] @ response)"

definition continue_state :: "story_state \<Rightarrow> utext \<Rightarrow> utext \<Rightarrow> int \<Rightarrow> utext \<Rightarrow> story_state" where
  \<comment> \<open>\<open>recent\<close> and \<open>summary\<close> are those of the state\<close>
  "continue_state s t response turn_count style =
     \<lparr>sy_style = style, sy_setting = sy_setting s,
      sy_summary = compact_summary (sy_summary s) t response, sy_turn_count = turn_count,
      sy_recent = trim_recent (sy_recent s @ [\<lparr>st_user = Some t, st_assistant = response\<rparr>])\<rparr>"

definition fallback_continue :: "utext \<Rightarrow> utext \<Rightarrow> utext" where
  "fallback_continue style t =
     (let action = u_strip (if t = [] then [0x7EE7, 0x7EED] else t) in
      if style = [0x4FEE, 0x4ED9]
      then [0x4F60, 0x51B3, 0x5B9A] @ action @ [0xFF0C, 0x5E08, 0x7236, 0x7684, 0x7EB8, 0x9E64,
        0x5374, 0x8FFD, 0x4E86, 0x4E0A, 0x6765, 0x3002, 0x5B83, 0x8BF4, 0x5C71, 0x4E0B, 0x6709,
        0x7F18, 0x5206, 0xFF0C, 0x4F60, 0x8981, 0x542C, 0x5417, 0xFF1F]
      else if style = [0x4FA6, 0x63A2]
      then [0x4F60, 0x9009, 0x62E9] @ action @ [0xFF0C, 0x7EBF, 0x7D22, 0x5374, 0x6307, 0x5411,
        0x4E00, 0x4E2A, 0x9501, 0x4F4F, 0x7684, 0x623F, 0x95F4, 0x3002, 0x4F60, 0x5148, 0x627E,
        0x94A5, 0x5319, 0x5417, 0xFF1F]
      else if style = [0x79D1, 0x5E7B]
      then [0x4F60, 0x51C6, 0x5907] @ action @ [0xFF0C, 0x5C4F, 0x5E55, 0x4EAE, 0x8D77, 0x4E00,
        0x884C, 0x5012, 0x8BA1, 0x65F6, 0x3002, 0x4F60, 0x8981, 0x91CD, 0x542F, 0x7CFB, 0x7EDF,
        0x5417, 0xFF1F]
      else [0x4F60, 0x51B3, 0x5B9A] @ action @ [0xFF0C, 0x524D, 0x65B9, 0x5FFD, 0x7136, 0x51FA,
        0x73B0, 0x65B0, 0x7684, 0x5C94, 0x8DEF, 0x3002, 0x4F60, 0x5F80, 0x5DE6, 0x8FD8, 0x662F,
        0x5F80, 0x53F3, 0xFF1F])"

definition opening_fallback :: "(utext list \<Rightarrow> utext) \<Rightarrow> utext \<Rightarrow> utext" where
  "opening_fallback pick style =
     (case map_of FALLBACK_OPENINGS style of
        Some t \<Rightarrow> t | None \<Rightarrow> pick (map snd FALLBACK_OPENINGS))"

definition story_result :: "utext \<Rightarrow> story_state option \<Rightarrow> bool \<Rightarrow> story_state agent_result" where
  "story_result t s finished =
     \<lparr>ar_text = t, ar_state = s, ar_finished = finished, ar_persist_history = False\<rparr>"

definition style_or_default :: "story_state \<Rightarrow> utext" where
  "style_or_default s = (if sy_style s = [] then [0x5192, 0x9669] else sy_style s)"

subsection \<open>The dialogue\<close>

definition story_start ::
  "pylib \<Rightarrow> (utext list \<Rightarrow> utext) \<Rightarrow> (llm_messages \<Rightarrow> utext option) \<Rightarrow> utext
    \<Rightarrow> story_state agent_result" where
  "story_start L pick ask t =
     (let style = detect_style L pick t;
          response = (case clean_response (ask (build_start_prompt pick t style)) of
                        Some r \<Rightarrow> r | None \<Rightarrow> opening_fallback pick style)
      in story_result (story_entry_intro style @ response) (Some (start_state style response)) False)"

definition text_event :: "utext \<Rightarrow> stream_event" where
  "text_event t = \<lparr>se_text = t, se_result = None\<rparr>"

definition story_start_stream ::
  "pylib \<Rightarrow> (utext list \<Rightarrow> utext) \<Rightarrow> (llm_messages \<Rightarrow> utext list) \<Rightarrow> utext \<Rightarrow> stream_event list" where
  "story_start_stream L pick ask_stream t =
     (let style = detect_style L pick t;
          chunks = story_stream 0 (ask_stream (build_start_prompt pick t style));
          cleaned = clean_response (Some (concat chunks));
          response = (case cleaned of Some r \<Rightarrow> r | None \<Rightarrow> opening_fallback pick style)
      in [text_event (story_entry_intro style)] @ map text_event chunks
         @ (if cleaned = None then [text_event response] else [])
         @ [\<lparr>se_text = [], se_result = Some (story_result response (Some (start_state style response)) False)\<rparr>])"

definition story_leave :: utext where
  "story_leave = [0x597D, 0x7684, 0xFF0C, 0x4E0D, 0x8BB2, 0x6545, 0x4E8B, 0x4E86, 0xFF0C,
    0x6211, 0x4EEC, 0x56DE, 0x5230, 0x6B63, 0x5E38, 0x804A, 0x5929, 0x3002]"

definition story_handle ::
  "pylib \<Rightarrow> (llm_messages \<Rightarrow> utext option) \<Rightarrow> utext \<Rightarrow> story_state \<Rightarrow> story_state agent_result" where
  "story_handle L ask t s =
     (if story_exit L t then story_result story_leave None True
      else if is_help_request L t then story_result story_help_text (Some s) False
      else
        let style = style_or_default s;
            prompt = build_continue_prompt style (sy_summary s) (sy_recent s) t;
            response = (case clean_response (ask prompt) of
                          Some r \<Rightarrow> r | None \<Rightarrow> fallback_continue style t)
        in story_result response
             (Some (continue_state s t response (sy_turn_count s + 1) style)) False)"

definition story_handle_stream ::
  "pylib \<Rightarrow> (llm_messages \<Rightarrow> utext list) \<Rightarrow> utext \<Rightarrow> story_state \<Rightarrow> stream_event list" where
  "story_handle_stream L ask_stream t s =
     (if story_exit L t
      then [\<lparr>se_text = story_leave, se_result = Some (story_result story_leave None True)\<rparr>]
      else if is_help_request L t
      then [\<lparr>se_text = story_help_text, se_result = Some (story_result story_help_text (Some s) False)\<rparr>]
      else
        let style = style_or_default s;
            prompt = build_continue_prompt style (sy_summary s) (sy_recent s) t;
            chunks = story_stream 0 (ask_stream prompt);
            cleaned = clean_response (Some (concat chunks));
            response = (case cleaned of Some r \<Rightarrow> r | None \<Rightarrow> fallback_continue style t)
        in map text_event chunks
           @ (if cleaned = None then [text_event response] else [])
           @ [\<lparr>se_text = [], se_result = Some (story_result response
                (Some (continue_state s t response (sy_turn_count s + 1) style)) False)\<rparr>])"

end
