(* ===== verification/Story_Facts.thy ===== *)
theory Story_Facts
  imports Story_Agent Quiz_Facts
begin

text \<open>
  What a story says and remembers is bounded, whatever the model answers and however its answer
  is cut into chunks.
\<close>

lemma length_drop_punctuation: "length (drop_punctuation t) \<le> length t"
  using length_dropWhile_le [of _ "rev t"] by (simp add: drop_punctuation_def)

lemma length_cut_short: "length (cut_short t) \<le> length t + 1"
  using length_drop_punctuation [of t] by (simp add: cut_short_def)

lemma clean_response_length:
  "clean_response answer = Some r \<Longrightarrow> r \<noteq> [] \<and> length r \<le> STORY_LIMIT + 1"
  using length_cut_short [of "take STORY_LIMIT (collapse (u_strip (case answer of None \<Rightarrow> [] | Some t \<Rightarrow> t)))"]
  by (auto simp: clean_response_def Let_def cut_short_def split: if_splits)

lemma story_stream_length:
  "emitted \<le> STORY_LIMIT
    \<Longrightarrow> emitted + length (concat (story_stream emitted chunks)) \<le> STORY_LIMIT + 1"
proof (induction chunks arbitrary: emitted)
  case (Cons raw chunks)
  let ?chunk = "collapse raw"
  let ?part = "take (STORY_LIMIT - emitted) ?chunk"
  consider (blank) "?chunk = []" | (full) "?chunk \<noteq> []" "emitted = STORY_LIMIT"
    | (last) "?chunk \<noteq> []" "emitted < STORY_LIMIT" "STORY_LIMIT \<le> emitted + length ?part"
    | (more) "?chunk \<noteq> []" "emitted < STORY_LIMIT" "emitted + length ?part < STORY_LIMIT"
    using Cons.prems by fastforce
  then show ?case
  proof cases
    case blank
    then show ?thesis using Cons by simp
  next
    case full
    then show ?thesis by simp
  next
    case last
    then have "emitted + length ?part = STORY_LIMIT" by auto
    with length_cut_short [of ?part] have "emitted + length (cut_short ?part) \<le> STORY_LIMIT + 1"
      by linarith
    with last show ?thesis by (auto simp: Let_def)
  next
    case more
    then have "length ?chunk \<le> STORY_LIMIT - emitted" by (auto simp: min_def split: if_splits)
    then have part: "?part = ?chunk" by (rule take_all)
    have "emitted + length ?part
        + length (concat (story_stream (emitted + length ?part) chunks)) \<le> STORY_LIMIT + 1"
      using more by (intro Cons.IH) simp
    with more part show ?thesis by (simp add: Let_def)
  qed
qed simp

definition story_inv :: "story_state \<Rightarrow> bool" where
  "story_inv s \<longleftrightarrow> 0 \<le> sy_turn_count s \<and> sy_recent s \<noteq> [] \<and> length (sy_recent s) \<le> 4
     \<and> length (sy_summary s) \<le> 220"

lemma fallback_openings_short: "list_all (\<lambda>t. length t \<le> 220) (map snd FALLBACK_OPENINGS)"
  by code_simp

lemma opening_fallback_short:
  assumes "fair_pick pick" shows "length (opening_fallback pick style) \<le> 220"
proof -
  have "map snd FALLBACK_OPENINGS \<noteq> []" by code_simp
  then have "pick (map snd FALLBACK_OPENINGS) \<in> set (map snd FALLBACK_OPENINGS)"
    using assms unfolding fair_pick_def by blast
  moreover have "t \<in> set (map snd FALLBACK_OPENINGS)" if "map_of FALLBACK_OPENINGS style = Some t" for t
    using map_of_SomeD [OF that] by force
  ultimately have "opening_fallback pick style \<in> set (map snd FALLBACK_OPENINGS)"
    unfolding opening_fallback_def by (cases "map_of FALLBACK_OPENINGS style") (auto simp del: set_map)
  then show ?thesis using fallback_openings_short by (auto simp: list_all_iff simp del: set_map)
qed

lemma start_state_inv: "length response \<le> 220 \<Longrightarrow> story_inv (start_state style response)"
  by (simp add: story_inv_def start_state_def)

lemma length_py_tail_min: "0 < n \<Longrightarrow> length (py_tail n xs) = min (nat n) (length xs)"
  by (simp add: py_tail_def)

lemma continue_state_inv:
  "story_inv s \<Longrightarrow> story_inv (continue_state s t response (sy_turn_count s + 1) style)
    \<and> sy_turn_count (continue_state s t response (sy_turn_count s + 1) style) = sy_turn_count s + 1"
  using length_py_tail_min [of 4 "sy_recent s @ [\<lparr>st_user = Some t, st_assistant = response\<rparr>]"]
  by (auto simp: story_inv_def continue_state_def trim_recent_def compact_summary_def
      length_py_tail_min simp flip: length_greater_0_conv)

lemma limit_220: "STORY_LIMIT + 1 \<le> 220"
  by (simp add: STORY_LIMIT_def)

text \<open>Whatever the language model answers, whole or in chunks of any size: it is told in at most 76
  characters, a story starts with a state and keeps one until the user leaves, and the
  state stays bounded: a summary of at most 220 characters and one to four recent turns.\<close>

theorem story_stays_bounded:
  assumes "fair_pick pick" and "story_inv s"
  shows "length (concat (story_stream 0 chunks)) \<le> 76
    \<and> (\<exists>s'. ar_state (story_start L pick ask t) = Some s' \<and> story_inv s')
    \<and> (case ar_state (story_handle L ask t s) of
         None \<Rightarrow> story_exit L t
       | Some s' \<Rightarrow> story_inv s' \<and> \<not> story_exit L t)
    \<and> (\<exists>r. se_result (last (story_handle_stream L ask_stream t s)) = Some r
        \<and> (case ar_state r of None \<Rightarrow> story_exit L t | Some s' \<Rightarrow> story_inv s' \<and> \<not> story_exit L t))
    \<and> (\<exists>r s'. se_result (last (story_start_stream L pick ask_stream t)) = Some r
        \<and> ar_state r = Some s' \<and> story_inv s')"
proof (intro conjI)
  show "length (concat (story_stream 0 chunks)) \<le> 76"
    using story_stream_length [of 0 chunks] by (simp add: STORY_LIMIT_def)
  have opens: "length (case clean_response answer of Some r \<Rightarrow> r | None \<Rightarrow> opening_fallback pick style) \<le> 220"
    for answer style
    using clean_response_length [of answer] opening_fallback_short [OF assms(1)] limit_220
    by (auto split: option.splits intro: order_trans)
  then show "\<exists>s'. ar_state (story_start L pick ask t) = Some s' \<and> story_inv s'"
    by (simp add: story_start_def story_result_def start_state_inv Let_def)
  show "case ar_state (story_handle L ask t s) of None \<Rightarrow> story_exit L t
      | Some s' \<Rightarrow> story_inv s' \<and> \<not> story_exit L t"
    using assms(2) continue_state_inv [OF assms(2)]
    by (simp add: story_handle_def story_result_def Let_def)
  show "\<exists>r. se_result (last (story_handle_stream L ask_stream t s)) = Some r
      \<and> (case ar_state r of None \<Rightarrow> story_exit L t | Some s' \<Rightarrow> story_inv s' \<and> \<not> story_exit L t)"
    using assms(2) continue_state_inv [OF assms(2)]
    by (simp add: story_handle_stream_def story_result_def Let_def)
  show "\<exists>r s'. se_result (last (story_start_stream L pick ask_stream t)) = Some r
      \<and> ar_state r = Some s' \<and> story_inv s'"
    using opens by (simp add: story_start_stream_def story_result_def start_state_inv Let_def)
qed

lemma story_stays_bounded_witness:
  "length (concat (story_stream 0 [replicate 50 97, replicate 50 98])) \<le> 76
    \<and> (\<exists>s'. ar_state (story_handle exact_lib (\<lambda>_. None) [0x5F80, 0x524D,
      0x8D70]
          (start_state [0x79D1, 0x5E7B] [0x98DE, 0x8239])) = Some s' \<and> story_inv s')"
proof -
  have inv: "story_inv (start_state [0x79D1, 0x5E7B] [0x98DE,
    0x8239])" by (rule start_state_inv) simp
  have "\<not> story_exit exact_lib [0x5F80, 0x524D, 0x8D70]" by code_simp
  with story_stays_bounded [OF fair_hd inv, of "[replicate 50 97, replicate 50 98]" exact_lib
      "\<lambda>_. None" "[0x5F80, 0x524D, 0x8D70]" "\<lambda>_. []"]
  show ?thesis by (auto split: option.splits)
qed

text \<open>A streamed answer of exactly 75 characters is not cut, yet its final punctuation is replaced:
  a question at the end becomes a statement.  The same answer in one piece is left as it is.\<close>

lemma exact_answer_differs:
  "clean_response (Some (replicate 74 97 @ [0xFF1F])) = Some (replicate 74 97 @ [0xFF1F])
    \<and> story_stream 0 [replicate 74 97 @ [0xFF1F]] = [replicate 74 97 @ [0x3002]]"
  by code_simp

end
