(* ===== verification/Agent_Turn.thy ===== *)
theory Agent_Turn
  imports Agent_Runtime Song_Matcher_Facts
begin

text \<open>
  The part of \<open>ChatStream\<close> in \<open>src/llm/llm_grpc_server.py\<close> that hands a user's text to an agent: the
  agent that holds the session, or one that wants to enter; and the budget of characters every
  reply of a request is cut to.  An agent is given by what its \<open>start\<close> and \<open>handle\<close> say (for an
  agent without streaming, one text) and the result they end with, if any.  The state a session
  keeps is paired with the \<open>agent_id\<close> every agent writes into it.
\<close>

subsection \<open>The budget of a reply\<close>

definition EXIT_MARK :: utext where
  "EXIT_MARK = u ''[EXIT]''"

definition apply_response_char_budget :: "int \<Rightarrow> int \<Rightarrow> utext \<Rightarrow> utext \<times> int" where
  \<comment> \<open>the limit and the characters sent so far; the text to send and the new count\<close>
  "apply_response_char_budget limit sent t =
     (if t = [] then ([], sent)
      else if u_in EXIT_MARK t then (t, sent + int (length t))
      else if limit \<le> 0 then (t, sent + int (length t))
      else
        let remaining = limit - sent in
        if remaining \<le> 0 then ([], sent)
        else if int (length t) \<le> remaining then (t, sent + int (length t))
        else (take (nat remaining) t, sent + remaining))"

fun send_texts :: "int \<Rightarrow> int \<Rightarrow> utext list \<Rightarrow> utext list" where
  \<comment> \<open>the replies yielded for the texts of an agent: empty ones are not sent\<close>
  "send_texts limit sent [] = []"
| "send_texts limit sent (t # ts) =
     (let (out, sent1) = apply_response_char_budget limit sent t
      in (if out \<noteq> [] then [out] else []) @ send_texts limit sent1 ts)"

lemma send_texts_prefix:
  assumes "0 < limit" and "0 \<le> sent" and "\<forall>t \<in> set ts. \<not> u_in EXIT_MARK t"
  shows "concat (send_texts limit sent ts) = take (nat (limit - sent)) (concat ts)"
  using assms(2,3)
proof (induction ts arbitrary: sent)
  case (Cons t ts)
  let ?next = "snd (apply_response_char_budget limit sent t)"
  have sent1: "concat (send_texts limit sent (t # ts)) =
      fst (apply_response_char_budget limit sent t) @ concat (send_texts limit ?next ts)"
    by (simp add: case_prod_beta Let_def)
  have mark: "\<not> u_in EXIT_MARK t" using Cons.prems by simp
  consider (blank) "t = []" | (full) "t \<noteq> []" "limit \<le> sent"
    | (fits) "t \<noteq> []" "sent < limit" "int (length t) \<le> limit - sent"
    | (cut) "t \<noteq> []" "sent < limit" "limit - sent < int (length t)"
    by fastforce
  then show ?case
  proof cases
    case blank
    then show ?thesis using Cons by (simp add: apply_response_char_budget_def)
  next
    case full
    then have "apply_response_char_budget limit sent t = ([], sent)"
      using mark assms(1) by (simp add: apply_response_char_budget_def)
    then show ?thesis using Cons full unfolding sent1 by simp
  next
    case fits
    then have "apply_response_char_budget limit sent t = (t, sent + int (length t))"
      using mark assms(1) by (simp add: apply_response_char_budget_def)
    moreover have "concat (send_texts limit (sent + int (length t)) ts)
        = take (nat (limit - sent) - length t) (concat ts)"
    proof -
      have "nat (limit - (sent + int (length t))) = nat (limit - sent) - length t" by simp
      then show ?thesis using Cons.IH [of "sent + int (length t)"] Cons.prems fits by simp
    qed
    ultimately show ?thesis using fits unfolding sent1 by simp
  next
    case cut
    then have "apply_response_char_budget limit sent t = (take (nat (limit - sent)) t, limit)"
      using mark assms(1) by (simp add: apply_response_char_budget_def)
    moreover have "concat (send_texts limit limit ts) = []"
      using Cons.IH [of limit] Cons.prems assms(1) by simp
    moreover have "take (nat (limit - sent)) (concat (t # ts)) = take (nat (limit - sent)) t"
      using cut by simp
    ultimately show ?thesis unfolding sent1 by (simp only: fst_conv snd_conv append_Nil2)
  qed
qed simp



subsection \<open>The turn\<close>

record 's served_agent =
  sg_id :: utext
  sg_can_enter :: "utext \<Rightarrow> bool"
  sg_start :: "utext \<Rightarrow> utext list \<times> 's agent_result option"
  sg_handle :: "utext \<Rightarrow> 's \<Rightarrow> utext list \<times> 's agent_result option"

record 's turn_session =
  tn_state :: "(utext \<times> 's) option"
  tn_history :: "(utext \<times> utext) list"

definition plain_reply :: "'s agent_result \<Rightarrow> utext list \<times> 's agent_result option" where
  \<comment> \<open>of an agent without \<open>start_stream\<close> and \<open>handle_stream\<close>\<close>
  "plain_reply r = ([ar_text r], Some r)"

definition settle_turn ::
  "int \<Rightarrow> utext \<Rightarrow> utext \<Rightarrow> utext list \<times> 's agent_result option \<Rightarrow> 's turn_session
    \<Rightarrow> 's turn_session \<times> utext list" where
  \<comment> \<open>what the server does with an agent's texts and result\<close>
  "settle_turn limit agent_id t outcome s =
     (case outcome of (texts, final) \<Rightarrow>
      let replies = send_texts limit 0 texts;
          said = concat replies;
          r = (case final of
                 Some r \<Rightarrow> r
               | None \<Rightarrow> \<lparr>ar_text = said, ar_state = None, ar_finished = True,
                          ar_persist_history = False\<rparr>);
          state1 = (if ar_finished r then None
                    else map_option (\<lambda>a. (agent_id, a)) (ar_state r));
          added = (if ar_persist_history r
                   then (u ''user'', t) # (if said \<noteq> [] then [(u ''assistant'', said)] else [])
                   else [])
      in (s\<lparr>tn_state := state1, tn_history := tn_history s @ added\<rparr>, replies))"

definition entry_turn ::
  "'s served_agent list \<Rightarrow> utext set \<Rightarrow> int \<Rightarrow> utext \<Rightarrow> 's turn_session
    \<Rightarrow> 's turn_session \<times> (utext \<times> utext list) option" where
  \<comment> \<open>\<open>None\<close>: no agent takes the text, the request goes on to the language model\<close>
  "entry_turn agents allowed limit t s =
     (case find (\<lambda>a. sg_id a \<in> allowed \<and> sg_can_enter a t) agents of
        None \<Rightarrow> (s, None)
      | Some a \<Rightarrow>
          let (s1, replies) = settle_turn limit (sg_id a) t (sg_start a t) s
          in (s1, Some (sg_id a, replies)))"

definition agent_turn ::
  "'s served_agent list \<Rightarrow> utext set \<Rightarrow> int \<Rightarrow> utext \<Rightarrow> 's turn_session
    \<Rightarrow> 's turn_session \<times> (utext \<times> utext list) option" where
  \<comment> \<open>\<open>allowed\<close>: the agents bound to the request's bot\<close>
  "agent_turn agents allowed limit t s =
     (case tn_state s of
        None \<Rightarrow> entry_turn agents allowed limit t s
      | Some (agent_id, a_state) \<Rightarrow>
          (case find (\<lambda>a. sg_id a = agent_id) agents of
             None \<Rightarrow> entry_turn agents allowed limit t (s\<lparr>tn_state := None\<rparr>)
           | Some a \<Rightarrow>
               if agent_id \<notin> allowed
               then entry_turn agents allowed limit t (s\<lparr>tn_state := None\<rparr>)
               else
                 let (s1, replies) = settle_turn limit agent_id t (sg_handle a t a_state) s
                 in (s1, Some (agent_id, replies))))"

subsection \<open>Who holds a session\<close>

definition session_inv :: "'s served_agent list \<Rightarrow> utext set \<Rightarrow> 's turn_session \<Rightarrow> bool" where
  \<comment> \<open>a session is held by nobody or by an agent that is registered and bound\<close>
  "session_inv agents allowed s \<longleftrightarrow>
     (case tn_state s of None \<Rightarrow> True | Some (aid, _) \<Rightarrow> aid \<in> allowed \<inter> set (map sg_id agents))"

lemma settle_state:
  "fst (settle_turn limit aid t outcome s) = s' \<Longrightarrow>
    tn_state s' = None \<or> (\<exists>a. tn_state s' = Some (aid, a) \<and> (\<exists>texts r. outcome = (texts, Some r)
      \<and> \<not> ar_finished r \<and> ar_state r = Some a))"
  by (cases outcome) (auto simp: settle_turn_def Let_def split: option.splits)

lemma entry_turn_holder:
  assumes "entry_turn agents allowed limit t s = (s', handled)" and "tn_state s = None"
  shows "session_inv agents allowed s'
    \<and> (case handled of None \<Rightarrow> s' = s | Some (aid, _) \<Rightarrow> aid \<in> allowed \<inter> set (map sg_id agents))"
proof (cases "find (\<lambda>a. sg_id a \<in> allowed \<and> sg_can_enter a t) agents")
  case None
  with assms show ?thesis by (simp add: entry_turn_def session_inv_def)
next
  case (Some a)
  then have a: "sg_id a \<in> allowed \<inter> set (map sg_id agents)" by (auto simp: find_Some_iff)
  from assms(1) Some have handled: "\<exists>replies. handled = Some (sg_id a, replies)"
    and s': "fst (settle_turn limit (sg_id a) t (sg_start a t) s) = s'"
    by (auto simp: entry_turn_def split: prod.splits)
  from settle_state [OF s'] a have "session_inv agents allowed s'" by (auto simp: session_inv_def)
  with handled a show ?thesis by auto
qed

text \<open>C11: Whatever state a session was left in, after a turn it is held by nobody or by an agent that
  is registered and bound to the bot of the request; only such an agent answers; and an agent
  that is bound and holds the session is the one that answers.\<close>

theorem only_bound_agents_take_turns:
  assumes "agent_turn agents allowed limit t s = (s', handled)"
  shows "session_inv agents allowed s'
    \<and> (case handled of None \<Rightarrow> tn_state s' = None \<and> tn_history s' = tn_history s
       | Some (aid, _) \<Rightarrow> aid \<in> allowed \<inter> set (map sg_id agents))
    \<and> (case tn_state s of None \<Rightarrow> True | Some (aid, _) \<Rightarrow>
         aid \<notin> allowed \<inter> set (map sg_id agents) \<or> (\<exists>replies. handled = Some (aid, replies)))"
proof (cases "tn_state s")
  case None
  then have "entry_turn agents allowed limit t s = (s', handled)"
    using assms by (simp add: agent_turn_def)
  from entry_turn_holder [OF this None] None show ?thesis by (auto split: option.splits)
next
  case (Some held)
  obtain aid a_state where held: "held = (aid, a_state)" by (cases held)
  show ?thesis
  proof (cases "aid \<in> allowed \<inter> set (map sg_id agents)")
    case True
    then obtain a where a: "find (\<lambda>a. sg_id a = aid) agents = Some a"
      by (cases "find (\<lambda>a. sg_id a = aid) agents") (auto simp: find_None_iff)
    from assms Some held a True have handled: "\<exists>replies. handled = Some (aid, replies)"
      and s': "fst (settle_turn limit aid t (sg_handle a t a_state) s) = s'"
      by (auto simp: agent_turn_def split: prod.splits)
    from settle_state [OF s'] True have "session_inv agents allowed s'"
      by (auto simp: session_inv_def)
    with handled True Some held show ?thesis by auto
  next
    case False
    have entry: "entry_turn agents allowed limit t (s\<lparr>tn_state := None\<rparr>) = (s', handled)"
    proof (cases "find (\<lambda>a. sg_id a = aid) agents")
      case None
      with assms Some held show ?thesis by (simp add: agent_turn_def)
    next
      case (Some a)
      then have "aid \<notin> allowed" using False by (auto simp: find_Some_iff)
      with assms \<open>tn_state s = Some held\<close> held Some show ?thesis by (simp add: agent_turn_def)
    qed
    from entry_turn_holder [OF this] False Some held show ?thesis
      by (auto split: option.splits)
  qed
qed

lemma only_bound_agents_take_turns_witness:
  "\<exists>s'. agent_turn [\<lparr>sg_id = u ''a'', sg_can_enter = (\<lambda>_. True),
        sg_start = (\<lambda>t. ([t], None)), sg_handle = (\<lambda>t n. ([t], None))\<rparr>] {u ''a''} 0 (u ''hi'')
      \<lparr>tn_state = Some (u ''gone'', 1 :: nat), tn_history = []\<rparr> = (s', Some (u ''a'', [u ''hi'']))
    \<and> session_inv [\<lparr>sg_id = u ''a'', sg_can_enter = (\<lambda>_. True),
        sg_start = (\<lambda>t. ([t], None)), sg_handle = (\<lambda>t n. ([t], None))\<rparr>] {u ''a''} s'"
proof -
  let ?agents = "[\<lparr>sg_id = u ''a'', sg_can_enter = (\<lambda>_. True), sg_start = (\<lambda>t. ([t], None)),
      sg_handle = (\<lambda>t (n :: nat). ([t], None))\<rparr>]"
  let ?s = "\<lparr>tn_state = Some (u ''gone'', 1 :: nat), tn_history = []\<rparr>"
  obtain s' handled where turn: "agent_turn ?agents {u ''a''} 0 (u ''hi'') ?s = (s', handled)"
    by fastforce
  then have "handled = Some (u ''a'', [u ''hi''])"
    by (auto simp: agent_turn_def entry_turn_def settle_turn_def apply_response_char_budget_def
        EXIT_MARK_def u_def u_starts_def)
  with turn only_bound_agents_take_turns [OF turn] show ?thesis by auto
qed

end
