(* ===== verification/Agent_Tools.thy ===== *)
theory Agent_Tools
  imports Agent_Runtime Song_Matcher_Facts
begin

text \<open>
  \<open>src/llm/agent_tools.py\<close>: the tools an agent can call, with the settings of the report publisher
  read from the environment.  The environment, the clock and the outcome of the transport
  (an exception by its text) are arguments; a call also tells what was handed to the transport.
\<close>

type_synonym environment = "string \<Rightarrow> utext option"

definition getenv :: "environment \<Rightarrow> string \<Rightarrow> utext \<Rightarrow> utext" where
  "getenv env name dflt = (case env name of None \<Rightarrow> dflt | Some v \<Rightarrow> v)"

definition report_env_bool :: "pylib \<Rightarrow> environment \<Rightarrow> string \<Rightarrow> bool \<Rightarrow> bool" where
  "report_env_bool L env name dflt =
     (case env name of
        None \<Rightarrow> dflt
      | Some v \<Rightarrow> u_lower L (u_strip v) \<notin> {u ''0'', u ''false'', u ''no'', u ''off'', []})"

definition report_env_int :: "environment \<Rightarrow> string \<Rightarrow> int \<Rightarrow> int" where
  "report_env_int env name dflt =
     (case env name of
        None \<Rightarrow> dflt
      | Some v \<Rightarrow>
          if u_strip v = [] then dflt
          else (case u_int (UText v) of Inl _ \<Rightarrow> dflt | Inr i \<Rightarrow> i))"

definition trim_slashes :: "utext \<Rightarrow> utext" where
  \<comment> \<open>\<open>text.strip("/")\<close>\<close>
  "trim_slashes t =
     rev (dropWhile (\<lambda>c. c = 47) (rev (dropWhile (\<lambda>c. c = 47) t)))"

definition normalize_topic_part :: "pylib \<Rightarrow> uvalue \<Rightarrow> utext \<Rightarrow> utext + utext" where
  \<comment> \<open>\<open>Inl\<close>: the text of the \<open>ValueError\<close>\<close>
  "normalize_topic_part L v field_name =
     (let t = trim_slashes (u_strip (str_or_empty L v)) in
      if t = [] then Inl (field_name @ [0x20, 0x4E0D, 0x80FD, 0x4E3A, 0x7A7A])
      else if list_ex (\<lambda>c. c = 47 \<or> c = 35 \<or> c = 43) t \<or> list_ex u_space t
      then Inl (field_name @ [0x20, 0x4E0D, 0x80FD, 0x5305, 0x542B, 0x7A7A, 0x767D, 0x5B57,
        0x7B26, 0x3001, 0x2F, 0x3001, 0x23, 0x20, 0x6216, 0x20, 0x2B])
      else Inr t)"

record publisher =
  pb_enabled :: bool
  pb_host :: utext
  pb_port :: int
  pb_username :: utext
  pb_password :: utext
  pb_client_id :: utext
  pb_keepalive :: int
  pb_qos :: int
  pb_topic_prefix :: utext
  pb_topic_suffix :: utext
  pb_method :: utext
  pb_msg_id :: int

definition nonempty_or :: "utext \<Rightarrow> utext \<Rightarrow> utext" where
  \<comment> \<open>\<open>text or dflt\<close>\<close>
  "nonempty_or t dflt = (if t = [] then dflt else t)"

definition publisher_from_env :: "pylib \<Rightarrow> environment \<Rightarrow> publisher" where
  "publisher_from_env L env =
     (let host = u_strip (getenv env ''COGNITIVE_REPORT_MQTT_HOST'' []) in
      \<lparr>pb_enabled = report_env_bool L env ''COGNITIVE_REPORT_MQTT_ENABLED'' (host \<noteq> []),
       pb_host = host,
       pb_port = report_env_int env ''COGNITIVE_REPORT_MQTT_PORT'' 1883,
       pb_username = u_strip (getenv env ''COGNITIVE_REPORT_MQTT_USERNAME'' []),
       pb_password = getenv env ''COGNITIVE_REPORT_MQTT_PASSWORD'' [],
       pb_client_id = u_strip (getenv env ''COGNITIVE_REPORT_MQTT_CLIENT_ID'' []),
       pb_keepalive = report_env_int env ''COGNITIVE_REPORT_MQTT_KEEPALIVE'' 60,
       pb_qos = report_env_int env ''COGNITIVE_REPORT_MQTT_QOS'' 0,
       pb_topic_prefix = nonempty_or
         (trim_slashes (u_strip (getenv env ''COGNITIVE_REPORT_MQTT_TOPIC_PREFIX'' (u ''windaka''))))
         (u ''windaka''),
       pb_topic_suffix = nonempty_or
         (trim_slashes (u_strip (getenv env ''COGNITIVE_REPORT_TOPIC_SUFFIX''
            (u ''device/cog_ass_report''))))
         (u ''device/cog_ass_report''),
       pb_method = nonempty_or
         (u_strip (getenv env ''COGNITIVE_REPORT_METHOD'' (u ''/device/cog_ass_report'')))
         (u ''/device/cog_ass_report''),
       pb_msg_id = report_env_int env ''COGNITIVE_REPORT_MSG_ID'' 7\<rparr>)"

definition report_topic :: "publisher \<Rightarrow> utext \<Rightarrow> utext" where
  "report_topic p safe_robot_id =
     pb_topic_prefix p @ u ''/'' @ safe_robot_id @ u ''/mcp/'' @ pb_topic_suffix p"

definition report_payload :: "publisher \<Rightarrow> int \<Rightarrow> udict \<Rightarrow> udict" where
  "report_payload p now_ms report =
     [(u ''msg_id'', UInt (pb_msg_id p)), (u ''msg_type'', UText (u ''request'')),
      (u ''method'', UText (pb_method p)), (u ''timestamp'', UInt now_ms), (u ''data'', UObj report)]"

definition publish_report ::
  "pylib \<Rightarrow> publisher \<Rightarrow> (utext \<Rightarrow> udict \<Rightarrow> utext option) \<Rightarrow> int \<Rightarrow> udict
    \<Rightarrow> tool_result \<times> (utext \<times> udict) option" where
  \<comment> \<open>\<open>transport\<close>: \<open>None\<close> when the message was sent, else type and text of the exception\<close>
  "publish_report L p transport now_ms report =
     (let report_id = str_or_empty L (uget report ''report_id'');
          robot_id = u_strip (str_or_empty L (uget report ''robot_id''));
          about = [(u ''report_id'', UText report_id)];
          failed = (\<lambda>message. \<lparr>tr_ok = False, tr_message = message,
            tr_data = about @ [(u ''robot_id'', UText robot_id)]\<rparr>) in
      if \<not> pb_enabled p
      then (\<lparr>tr_ok = True, tr_message = u ''disabled'', tr_data = about\<rparr>, None)
      else if robot_id = []
      then (\<lparr>tr_ok = False, tr_message = u ''missing robot_id'', tr_data = about\<rparr>, None)
      else if pb_host p = []
      then (\<lparr>tr_ok = False, tr_message = u ''missing mqtt host'', tr_data = about\<rparr>, None)
      else case normalize_topic_part L (UText robot_id) (u ''robot_id'') of
          Inl e \<Rightarrow> (failed (u ''ValueError: '' @ e), None)
        | Inr safe_robot_id \<Rightarrow>
            let topic = report_topic p safe_robot_id;
                payload = report_payload p now_ms report in
            (case transport topic payload of
               Some e \<Rightarrow> (failed e, Some (topic, payload))
             | None \<Rightarrow>
                 (\<lparr>tr_ok = True, tr_message = u ''published'',
                   tr_data = about @ [(u ''robot_id'', UText robot_id), (u ''topic'', UText topic)]\<rparr>,
                  Some (topic, payload))))"

definition submit_visitor :: "utext \<Rightarrow> int + utext \<Rightarrow> utext \<Rightarrow> tool_result" where
  \<comment> \<open>the HTTP status, or type and text of the exception\<close>
  "submit_visitor url answer tool_name =
     (let about = [(u ''tool_name'', UText tool_name), (u ''url'', UText url)] in
      case answer of
        Inl status \<Rightarrow>
          \<lparr>tr_ok = (200 \<le> status \<and> status < 300),
           tr_message = u ''http_status='' @ u (int_text status),
           tr_data = about @ [(u ''status_code'', UInt status)]\<rparr>
      | Inr e \<Rightarrow> \<lparr>tr_ok = False, tr_message = e, tr_data = about\<rparr>)"

definition invoke_tool ::
  "pylib \<Rightarrow> publisher \<Rightarrow> (utext \<Rightarrow> udict \<Rightarrow> utext option) \<Rightarrow> int \<Rightarrow> utext \<Rightarrow> int + utext
    \<Rightarrow> utext \<Rightarrow> udict \<Rightarrow> tool_result" where
  \<comment> \<open>\<open>DefaultAgentToolInvoker.call\<close>\<close>
  "invoke_tool L p transport now_ms url answer tool_name args =
     (if tool_name = u ''visitor.submit_registration'' then submit_visitor url answer tool_name
      else if tool_name = u ''cognitive_report.publish''
      then fst (publish_report L p transport now_ms args)
      else \<lparr>tr_ok = False, tr_message = u ''unknown tool: '' @ tool_name,
            tr_data = [(u ''tool_name'', UText tool_name)]\<rparr>)"

subsection \<open>Where reports go\<close>

definition topic_level :: "utext \<Rightarrow> bool" where
  \<comment> \<open>one level of an MQTT topic, without wildcards\<close>
  "topic_level t \<longleftrightarrow> t \<noteq> [] \<and> 47 \<notin> set t \<and> 35 \<notin> set t \<and> 43 \<notin> set t \<and> \<not> list_ex u_space t"

lemma topic_part_level: "normalize_topic_part L v f = Inr t \<Longrightarrow> topic_level t"
  by (auto simp: normalize_topic_part_def topic_level_def Let_def list_ex_iff split: if_splits)

lemma level_split:
  assumes "47 \<notin> set a" "47 \<notin> set b" "a @ 47 # x = b @ 47 # (y :: utext)" shows "a = b"
  using assms
proof (induction a arbitrary: b)
  case Nil
  then show ?case by (cases b) auto
next
  case (Cons c a)
  then show ?case by (cases b) auto
qed

lemma published_cases:
  assumes "publish_report L p transport now report = (result, Some (topic, payload))"
  obtains level where "pb_enabled p" "pb_host p \<noteq> []"
    and "normalize_topic_part L (UText (u_strip (str_or_empty L (uget report ''robot_id''))))
           (u ''robot_id'') = Inr level"
    and "topic = report_topic p level" "payload = report_payload p now report"
    and "tr_ok result = (transport topic payload = None)"
proof -
  define robot_id where "robot_id = u_strip (str_or_empty L (uget report ''robot_id''))"
  note eq = assms [unfolded publish_report_def robot_id_def [symmetric] Let_def]
  have on: "pb_enabled p" using eq by (cases "pb_enabled p") simp_all
  have id: "robot_id \<noteq> []" using eq on by (cases "robot_id = []") simp_all
  have host: "pb_host p \<noteq> []" using eq on id by (cases "pb_host p = []") simp_all
  obtain level where level: "normalize_topic_part L (UText robot_id) (u ''robot_id'') = Inr level"
    using eq on id host
    by (cases "normalize_topic_part L (UText robot_id) (u ''robot_id'')") simp_all
  have out: "topic = report_topic p level \<and> payload = report_payload p now report
      \<and> tr_ok result = (transport topic payload = None)"
  proof (cases "transport (report_topic p level) (report_payload p now report)")
    case None
    then show ?thesis using eq on id host level by (simp split: prod.splits) (elim conjE, hypsubst, simp)
  next
    case (Some e)
    then show ?thesis using eq on id host level by (simp split: prod.splits) (elim conjE, hypsubst, simp)
  qed
  show thesis
    by (rule that [of level])
      (use on host level out in \<open>simp_all add: robot_id_def\<close>)
qed

lemma topic_part_stripped:
  "normalize_topic_part L (UText t) f = Inr level \<Longrightarrow> level = trim_slashes (u_strip t)"
  by (cases "t = []")
    (auto simp: normalize_topic_part_def Let_def str_or_empty_def split: if_splits)

lemma report_topic_level:
  assumes "topic_level a" "topic_level b" "report_topic p a = report_topic p b" shows "a = b"
proof (rule level_split)
  show "a @ 47 # tl (u ''/mcp/'') @ pb_topic_suffix p = b @ 47 # tl (u ''/mcp/'') @ pb_topic_suffix p"
    using assms(3) by (simp add: report_topic_def u_def)
qed (use assms in \<open>simp_all add: topic_level_def\<close>)

text \<open>A report leaves the service only when publishing is enabled, to the topic made of the
  configured prefix, one level that is the robot's id without its outer blanks and slashes,
  and the configured suffix; no robot id can reach another topic level or a wildcard, and
  two reports that go to the same topic are of the same level.\<close>

theorem report_goes_to_own_topic:
  assumes "publish_report L p transport now report = (result, Some (topic, payload))"
  shows "pb_enabled p \<and> pb_host p \<noteq> [] \<and> uget payload ''data'' = UObj report
    \<and> (\<exists>level. topic = pb_topic_prefix p @ u ''/'' @ level @ u ''/mcp/'' @ pb_topic_suffix p
        \<and> level = trim_slashes (u_strip (u_strip (str_or_empty L (uget report ''robot_id''))))
        \<and> topic_level level
        \<and> (\<forall>other. topic_level other \<and> report_topic p other = topic \<longrightarrow> other = level))
    \<and> tr_ok result = (transport topic payload = None)"
proof -
  obtain level where on: "pb_enabled p" "pb_host p \<noteq> []"
    and level: "normalize_topic_part L (UText (u_strip (str_or_empty L (uget report ''robot_id''))))
           (u ''robot_id'') = Inr level"
    and eqs: "topic = report_topic p level" "payload = report_payload p now report"
    and ok: "tr_ok result = (transport topic payload = None)"
    using published_cases [OF assms] by metis
  note lv = topic_part_level [OF level]
  have "\<forall>other. topic_level other \<and> report_topic p other = topic \<longrightarrow> other = level"
    using report_topic_level [OF _ lv] eqs(1) by blast
  moreover have "uget payload ''data'' = UObj report"
    by (simp add: eqs(2) report_payload_def uget_Cons u_eq_iff)
  ultimately show ?thesis
    using on ok lv topic_part_stripped [OF level] eqs(1) unfolding report_topic_def by blast
qed

lemma report_goes_to_own_topic_witness:
  "\<exists>result topic payload. publish_report exact_lib
      (publisher_from_env exact_lib ((\<lambda>_. None)(''COGNITIVE_REPORT_MQTT_HOST'' := Some (u ''mq''))))
      (\<lambda>_ _. None) 0 [(u ''report_id'', UText (u ''cog-1'')), (u ''robot_id'', UText (u ''/r1/ ''))]
      = (result, Some (topic, payload))
    \<and> topic = u ''windaka/r1/mcp/device/cog_ass_report'' \<and> tr_ok result"
proof -
  let ?p = "publisher_from_env exact_lib ((\<lambda>_. None)(''COGNITIVE_REPORT_MQTT_HOST'' := Some (u ''mq'')))"
  let ?r = "[(u ''report_id'', UText (u ''cog-1'')), (u ''robot_id'', UText (u ''/r1/ ''))]"
  let ?out = "publish_report exact_lib ?p (\<lambda>_ _. None) 0 ?r"
  have out: "map_option fst (snd ?out) = Some (u ''windaka/r1/mcp/device/cog_ass_report'')"
    by code_simp
  obtain topic payload where "snd ?out = Some (topic, payload)"
    using out by (cases "snd ?out") auto
  then have r: "?out = (fst ?out, Some (topic, payload))" by (metis prod.collapse)
  have "topic = u ''windaka/r1/mcp/device/cog_ass_report''" using out r by (metis fst_conv option.map(2) option.sel snd_conv)
  moreover have "tr_ok (fst ?out)" using report_goes_to_own_topic [OF r] by blast
  ultimately show ?thesis using r by blast
qed

end
