(* ===== verification/Tool_Names.thy ===== *)
theory Tool_Names
  imports Unicode_Text Playback_Report
begin

text \<open>
  The names under which tools are shown to the language model (\<open>src/llm/mcp_manager.py\<close>): the
  interfaces of the models accept only short names of letters, digits, \<open>_\<close> and \<open>-\<close>, so every real name
  \<open>server.tool\<close> gets a safe name of its own, and a table leads back.
\<close>

definition safe_chars :: "utext \<Rightarrow> utext" where
  \<comment> \<open>\<open>_SAFE_TOOL_NAME_RE.sub("__", name)\<close>\<close>
  "safe_chars t = concat (map (\<lambda>c. if word_char c then [c] else u ''__'') t)"

definition strip_marks :: "utext \<Rightarrow> utext" where
  \<comment> \<open>\<open>text.strip("_-")\<close>\<close>
  "strip_marks t =
     rev (dropWhile (\<lambda>c. c = 95 \<or> c = 45) (rev (dropWhile (\<lambda>c. c = 95 \<or> c = 45) t)))"

definition safe_tool_name :: "utext \<Rightarrow> utext" where
  "safe_tool_name t =
     (let s = strip_marks (safe_chars t) in take 64 (if s = [] then u ''tool'' else s))"

definition number_suffix :: "nat \<Rightarrow> utext" where
  "number_suffix n = 95 # u (nat_text n)"

definition slice_upto :: "int \<Rightarrow> 'a list \<Rightarrow> 'a list" where
  \<comment> \<open>\<open>text[:k]\<close>\<close>
  "slice_upto k t = take (nat (if k < 0 then int (length t) + k else k)) t"

definition numbered_name :: "utext \<Rightarrow> nat \<Rightarrow> utext" where
  "numbered_name name n =
     slice_upto (64 - int (length (number_suffix n))) name @ number_suffix n"

lemma nat_text_inj: "nat_text m = nat_text n \<Longrightarrow> m = n"
  by (metis int_of_nat_text option.inject of_nat_eq_iff)

lemma u_nat_text_no_mark: "95 \<notin> set (u (nat_text n))"
  using nat_text_ascii [of _ n] by (fastforce simp: u_def)

lemma numbered_name_inj: "numbered_name name m = numbered_name name n \<Longrightarrow> m = n"
proof -
  assume eq: "numbered_name name m = numbered_name name n"
  have mark: "takeWhile (\<lambda>c. c \<noteq> 95) (rev (numbered_name name k)) = rev (u (nat_text k))" for k
  proof -
    have "takeWhile (\<lambda>c. c \<noteq> 95) (rev (u (nat_text k)) @ 95 # r) = rev (u (nat_text k))" for r
      using u_nat_text_no_mark [of k] by (subst takeWhile_append2) auto
    then show ?thesis by (simp add: numbered_name_def number_suffix_def)
  qed
  from mark [of m] mark [of n] eq have "u (nat_text m) = u (nat_text n)" by simp
  then show "m = n" using nat_text_inj by simp
qed

text \<open>The search for a free name ends: only finitely many of the numbered names are taken.\<close>

function free_name :: "utext \<Rightarrow> utext list \<Rightarrow> nat \<Rightarrow> utext" where
  "free_name name used suffix =
     (if numbered_name name suffix \<notin> set used then numbered_name name suffix
      else free_name name used (suffix + 1))"
  by pat_completeness auto

lemma taken_finite: "finite {m. numbered_name name m \<in> set used}"
  by (rule finite_imageD [of "numbered_name name"])
    (auto intro: finite_subset [of _ "set used"] inj_onI numbered_name_inj)

termination free_name
proof (relation "measure (\<lambda>(name, used, n). card {m. n \<le> m \<and> numbered_name name m \<in> set used})", simp)
  fix name used and suffix :: nat
  assume "\<not> numbered_name name suffix \<notin> set used"
  then have "suffix \<in> {m. suffix \<le> m \<and> numbered_name name m \<in> set used}" by simp
  then have "{m. suffix + 1 \<le> m \<and> numbered_name name m \<in> set used}
      \<subset> {m. suffix \<le> m \<and> numbered_name name m \<in> set used}"
    by (intro psubsetI) (auto dest: equalityD2 [THEN subsetD, of _ _ suffix])
  moreover have "finite {m. suffix \<le> m \<and> numbered_name name m \<in> set used}"
    by (rule finite_subset [OF _ taken_finite [of name used]]) auto
  ultimately have "card {m. suffix + 1 \<le> m \<and> numbered_name name m \<in> set used}
      < card {m. suffix \<le> m \<and> numbered_name name m \<in> set used}" by (rule psubset_card_mono [rotated])
  then show "((name, used, suffix + 1), name, used, suffix)
      \<in> measure (\<lambda>(name, used, n). card {m. n \<le> m \<and> numbered_name name m \<in> set used})" by simp
qed

declare free_name.simps [simp del]

definition make_llm_tool_name :: "utext \<Rightarrow> utext list \<Rightarrow> utext" where
  \<comment> \<open>the caller adds the name to the used ones\<close>
  "make_llm_tool_name name used =
     (let s = safe_tool_name name in if s \<notin> set used then s else free_name s used 2)"

type_synonym name_maps = "utext list \<times> (utext, utext) odict \<times> (utext, utext) odict"

definition add_tool_name :: "utext \<Rightarrow> name_maps \<Rightarrow> name_maps" where
  "add_tool_name name = (\<lambda>(used, to_tool, to_llm).
     let s = make_llm_tool_name name used in
     (s # used, AList.update s name to_tool, AList.update name s to_llm))"

lemma add_tool_name_apply:
  "add_tool_name name (used, to_tool, to_llm) =
     (make_llm_tool_name name used # used,
      AList.update (make_llm_tool_name name used) name to_tool,
      AList.update name (make_llm_tool_name name used) to_llm)"
  by (simp add: add_tool_name_def Let_def)

definition build_llm_tool_name_maps :: "utext list \<Rightarrow> (utext, utext) odict \<times> (utext, utext) odict" where
  \<comment> \<open>of the keys of the table of tools; safe names to real names, and back\<close>
  "build_llm_tool_name_maps names = snd (fold add_tool_name names ([], [], []))"

subsection \<open>The names\<close>

lemma free_name_numbered:
  "\<exists>m. free_name name used n = numbered_name name m \<and> n \<le> m
     \<and> numbered_name name m \<notin> set used \<and> (\<forall>k. n \<le> k \<and> k < m \<longrightarrow> numbered_name name k \<in> set used)"
proof (induction name used n rule: free_name.induct)
  case (1 name used n)
  show ?case
  proof (cases "numbered_name name n \<in> set used")
    case True
    with 1 obtain m where m: "free_name name used (n + 1) = numbered_name name m" "n + 1 \<le> m"
      "numbered_name name m \<notin> set used"
      and later: "\<forall>k. n + 1 \<le> k \<and> k < m \<longrightarrow> numbered_name name k \<in> set used" by auto
    have "numbered_name name k \<in> set used" if "n \<le> k" "k < m" for k
      using that later True by (cases "k = n") auto
    with True m show ?thesis
      by (intro exI [of _ m]) (simp add: free_name.simps [of name used n])
  next
    case False
    then show ?thesis by (intro exI [of _ n]) (auto simp: free_name.simps [of name used n])
  qed
qed

lemma free_name_bound:
  assumes "free_name name used n = numbered_name name m" "n \<le> m"
    "\<forall>k. n \<le> k \<and> k < m \<longrightarrow> numbered_name name k \<in> set used"
  shows "m \<le> n + length used"
proof -
  have "numbered_name name ` {n..<m} \<subseteq> set used" using assms(3) by auto
  moreover have "inj_on (numbered_name name) {n..<m}" by (intro inj_onI numbered_name_inj)
  ultimately have "card {n..<m} \<le> card (set used)" by (metis List.finite_set card_image card_mono)
  also have "\<dots> \<le> length used" by (rule card_length)
  finally show ?thesis by simp
qed

definition function_name :: "utext \<Rightarrow> bool" where
  \<comment> \<open>\<open>^[a-zA-Z0-9_-]{1,64}$\<close>, what the interfaces of the models accept\<close>
  "function_name t \<longleftrightarrow> dash_id t \<and> length t \<le> 64"

lemma strip_marks_set: "set (strip_marks t) \<subseteq> set t"
  by (auto simp: strip_marks_def) (metis set_dropWhileD set_rev)

lemma safe_tool_name_ok: "function_name (safe_tool_name t)"
proof -
  have "\<forall>c \<in> set (safe_chars t). word_char c" by (auto simp: safe_chars_def word_char_def u_def)
  then have "\<forall>c \<in> set (strip_marks (safe_chars t)). word_char c" using strip_marks_set by blast
  moreover have "\<forall>c \<in> set (u ''tool''). word_char c" "u ''tool'' \<noteq> []"
    by (simp_all add: u_def word_char_def)
  ultimately show ?thesis
    by (auto simp: function_name_def dash_id_def safe_tool_name_def Let_def list_all_iff
        dest: in_set_takeD)
qed

lemma length_nat_text: "0 < k \<Longrightarrow> n < 10 ^ k \<Longrightarrow> length (nat_text n) \<le> k"
proof (induction k arbitrary: n)
  case (Suc k)
  show ?case
  proof (cases "n < 10")
    case False
    then have "n div 10 < 10 ^ k" using Suc.prems(2) by (simp add: less_mult_imp_div_less mult.commute)
    moreover from this False have "0 < k" by (cases k) auto
    ultimately have "length (nat_text (n div 10)) \<le> k" by (intro Suc.IH)
    with False show ?thesis by (simp add: nat_text.simps [of n])
  qed (simp add: nat_text.simps [of n])
qed simp

lemma numbered_name_ok:
  assumes "function_name name" and "n < 10 ^ 60"
  shows "function_name (numbered_name name n)"
proof -
  have len: "length (u (nat_text n)) \<le> 60" using length_nat_text [of 60 n] assms(2) by simp
  have "\<forall>c \<in> set (number_suffix n). word_char c"
    using nat_text_ascii [of _ n] by (fastforce simp: number_suffix_def word_char_def u_def)
  moreover have "\<forall>c \<in> set (slice_upto k name). word_char c" for k
    using assms(1) by (auto simp: slice_upto_def function_name_def dash_id_def list_all_iff dest: in_set_takeD)
  moreover have "length (numbered_name name n) \<le> 64"
    using len by (simp add: numbered_name_def slice_upto_def number_suffix_def)
  ultimately show ?thesis
    by (auto simp: function_name_def dash_id_def numbered_name_def number_suffix_def list_all_iff)
qed

lemma make_llm_tool_name_new: "make_llm_tool_name name used \<notin> set used"
  using free_name_numbered [of "safe_tool_name name" used 2]
  by (auto simp: make_llm_tool_name_def Let_def)

lemma make_llm_tool_name_ok:
  assumes "length used + 2 < 10 ^ 60" shows "function_name (make_llm_tool_name name used)"
proof -
  obtain m where m: "free_name (safe_tool_name name) used 2 = numbered_name (safe_tool_name name) m"
    "2 \<le> m" "\<forall>k. 2 \<le> k \<and> k < m \<longrightarrow> numbered_name (safe_tool_name name) k \<in> set used"
    using free_name_numbered [of "safe_tool_name name" used 2] by blast
  from free_name_bound [OF m] assms have "m < 10 ^ 60" by linarith
  with numbered_name_ok [OF safe_tool_name_ok] show ?thesis
    by (simp add: make_llm_tool_name_def Let_def m(1) safe_tool_name_ok)
qed

subsection \<open>The table\<close>

definition maps_ok :: "utext list \<Rightarrow> name_maps \<Rightarrow> bool" where
  \<comment> \<open>after \<open>names\<close>: safe and real names correspond one to one\<close>
  "maps_ok names m \<longleftrightarrow> (case m of (used, to_tool, to_llm) \<Rightarrow>
     length used = length names \<and> set used = set (keys to_tool) \<and> distinct (keys to_tool)
     \<and> keys to_llm = names
     \<and> (\<forall>s t. map_of to_tool s = Some t \<longleftrightarrow> map_of to_llm t = Some s))"

lemma maps_ok_step:
  assumes ok: "maps_ok names m" and new: "name \<notin> set names"
  shows "maps_ok (names @ [name]) (add_tool_name name m)"
proof -
  obtain used to_tool to_llm where m: "m = (used, to_tool, to_llm)" by (cases m)
  define s where "s = make_llm_tool_name name used"
  have s: "s \<notin> set (keys to_tool)"
    using ok make_llm_tool_name_new [of name used] by (simp add: maps_ok_def m s_def)
  have name: "name \<notin> set (keys to_llm)" using ok new by (simp add: maps_ok_def m)
  have corr: "map_of to_tool a = Some b \<longleftrightarrow> map_of to_llm b = Some a" for a b
    using ok by (simp add: maps_ok_def m)
  have none: "map_of to_tool s = None" "map_of to_llm name = None"
    using s name by (simp_all add: map_of_eq_None_iff)
  have "map_of (AList.update s name to_tool) a = Some b
      \<longleftrightarrow> map_of (AList.update name s to_llm) b = Some a" for a b
    using corr [of a b] corr [of s b] corr [of a name] none by (auto simp: map_of_update)
  then show ?thesis
    using ok s name
    by (simp add: maps_ok_def m add_tool_name_apply s_def [symmetric] keys_update del: set_map)
qed

lemma maps_ok_fold:
  "distinct (names @ added) \<Longrightarrow> maps_ok names m \<Longrightarrow> maps_ok (names @ added) (fold add_tool_name added m)"
proof (induction added arbitrary: names m)
  case (Cons name added)
  then have "maps_ok ((names @ [name]) @ added) (fold add_tool_name added (add_tool_name name m))"
    by (intro Cons.IH maps_ok_step) auto
  then show ?case by simp
qed simp

lemma built_maps_ok:
  assumes "distinct names"
  obtains used where "maps_ok names (used, build_llm_tool_name_maps names)"
proof -
  have "maps_ok [] ([], [], [])" by (simp add: maps_ok_def)
  from maps_ok_fold [of "[]" names, OF _ this] assms
  have "maps_ok names (fold add_tool_name names ([], [], []))" by simp
  then show thesis using that unfolding build_llm_tool_name_maps_def by (metis prod.collapse)
qed

lemma maps_ok_leads_back:
  assumes "maps_ok names (used, to_tool, to_llm)" and "name \<in> set names"
  shows "map_of to_tool (the (map_of to_llm name)) = Some name"
proof -
  have "keys to_llm = names" using assms(1) by (simp add: maps_ok_def)
  with assms(2) have "map_of to_llm name \<noteq> None" by (auto simp: map_of_eq_None_iff)
  then obtain s where "map_of to_llm name = Some s" by blast
  with assms(1) show ?thesis by (simp add: maps_ok_def)
qed

lemma built_names_ok:
  assumes "length names + 2 < 10 ^ 60" and "s \<in> set (keys (fst (build_llm_tool_name_maps names)))"
  shows "function_name s"
proof -
  have step: "length names' \<le> length names \<Longrightarrow> \<forall>s \<in> set (keys to_tool). function_name s
      \<Longrightarrow> length used + length names' = length names
      \<Longrightarrow> \<forall>s \<in> set (keys (fst (snd (fold add_tool_name names' (used, to_tool, to_llm))))). function_name s"
    for names' used to_tool to_llm
  proof (induction names' arbitrary: used to_tool to_llm)
    case (Cons name names')
    define s where "s = make_llm_tool_name name used"
    have "function_name s"
      using Cons.prems assms(1) unfolding s_def by (intro make_llm_tool_name_ok) simp
    then have "\<forall>s' \<in> set (keys (AList.update s name to_tool)). function_name s'"
      using Cons.prems(2) by (auto simp: keys_update simp del: set_map)
    with Cons.prems have "\<forall>s' \<in> set (keys (fst (snd (fold add_tool_name names'
        (s # used, AList.update s name to_tool, AList.update name s to_llm))))). function_name s'"
      by (intro Cons.IH) simp_all
    then show ?case by (simp add: add_tool_name_apply s_def del: set_map)
  qed simp
  have "\<forall>s \<in> set (keys (fst (build_llm_tool_name_maps names))). function_name s"
    unfolding build_llm_tool_name_maps_def by (rule step) simp_all
  with assms(2) show ?thesis by blast
qed

end
