(* ===== verification/Mcp_Manager.thy ===== *)
theory Mcp_Manager
  imports Tool_Names Transition
begin

text \<open>
  The table of remote tools (\<open>src/llm/mcp_manager.py\<close>): which servers are configured, whose tools are
  loaded, and the attempts to connect that are in flight.  What runs under the lock, or
  between two \<open>await\<close>s, is one step; a run is any interleaving of such steps, and the answers of the
  servers (their list of tools, exceptions by their text) are part of the events.
\<close>

datatype status_text = Configured | Connecting | Loaded | Errored | Idle

record server_status =
  ss_type :: uvalue
  ss_loaded :: bool
  ss_connected :: bool
  ss_tool_count :: int
  ss_last_connected_at :: "seconds option"
  ss_last_error :: "utext option"
  ss_last_error_at :: "seconds option"
  ss_status :: status_text

record tool_info =
  ti_server :: utext
  ti_name :: utext
  ti_description :: uvalue
  ti_schema :: udict

datatype attempt_phase = Opening | Listed | Rejected | Settled | Over

record attempt =
  at_server :: utext
  at_event :: nat
  at_phase :: attempt_phase

record mcp_manager =
  mm_cooldown :: seconds
  mm_servers :: "(utext, udict) odict"
  mm_tools :: "(utext, tool_info) odict"
  mm_names :: "(utext, utext) odict"
  mm_status :: "(utext, server_status) odict"
  mm_connecting :: "(utext, nat) odict"
  mm_events :: "bool list"
  mm_attempts :: "attempt list"

definition new_mcp_manager :: "seconds \<Rightarrow> mcp_manager" where
  "new_mcp_manager cooldown =
     \<lparr>mm_cooldown = cooldown, mm_servers = [], mm_tools = [], mm_names = [], mm_status = [],
      mm_connecting = [], mm_events = [], mm_attempts = []\<rparr>"

subsection \<open>The status of servers\<close>

definition fresh_status :: "udict \<Rightarrow> server_status" where
  "fresh_status config =
     \<lparr>ss_type = uget config ''type'', ss_loaded = False, ss_connected = False, ss_tool_count = 0,
      ss_last_connected_at = None, ss_last_error = None, ss_last_error_at = None,
      ss_status = Configured\<rparr>"

definition ensure_runtime_status :: "utext \<Rightarrow> mcp_manager \<Rightarrow> server_status" where
  "ensure_runtime_status name m =
     (case map_of (mm_status m) name of
        Some s \<Rightarrow> s
      | None \<Rightarrow> fresh_status (case map_of (mm_servers m) name of Some c \<Rightarrow> c | None \<Rightarrow> []))"

definition update_runtime_status ::
  "utext \<Rightarrow> (server_status \<Rightarrow> server_status) \<Rightarrow> mcp_manager \<Rightarrow> mcp_manager" where
  "update_runtime_status name change m =
     m\<lparr>mm_status := AList.update name (change (ensure_runtime_status name m)) (mm_status m)\<rparr>"

definition failed_status :: "utext \<Rightarrow> seconds \<Rightarrow> server_status \<Rightarrow> server_status" where
  "failed_status e now s =
     s\<lparr>ss_connected := False, ss_loaded := False, ss_status := Errored,
       ss_last_error := Some e, ss_last_error_at := Some now\<rparr>"

definition mark_connection_error :: "utext \<Rightarrow> utext \<Rightarrow> seconds \<Rightarrow> mcp_manager \<Rightarrow> mcp_manager" where
  "mark_connection_error name e now m = update_runtime_status name (failed_status e now) m"

definition add_server :: "utext \<Rightarrow> udict \<Rightarrow> mcp_manager \<Rightarrow> mcp_manager" where
  "add_server name config m =
     m\<lparr>mm_servers := AList.update name config (mm_servers m),
       mm_status := AList.update name (fresh_status config) (mm_status m)\<rparr>"

definition has_loaded_tools :: "mcp_manager \<Rightarrow> utext \<Rightarrow> bool" where
  "has_loaded_tools m name =
     ((case map_of (mm_status m) name of Some s \<Rightarrow> ss_loaded s | None \<Rightarrow> False)
      \<and> list_ex (\<lambda>(_, info). ti_server info = name) (mm_tools m))"

definition cooldown_remaining :: "seconds \<Rightarrow> utext \<Rightarrow> mcp_manager \<Rightarrow> seconds" where
  "cooldown_remaining now name m =
     (if mm_cooldown m \<le> 0 then 0
      else case map_of (mm_status m) name of
          None \<Rightarrow> 0
        | Some s \<Rightarrow>
            if ss_status s \<noteq> Errored then 0
            else (case ss_last_error_at s of
                    None \<Rightarrow> 0
                  | Some error_at \<Rightarrow> max 0 (mm_cooldown m - (now - error_at))))"

subsection \<open>The table of tools\<close>

definition refresh_names :: "mcp_manager \<Rightarrow> mcp_manager" where
  "refresh_names m = m\<lparr>mm_names := fst (build_llm_tool_name_maps (keys (mm_tools m)))\<rparr>"

definition without_server :: "utext \<Rightarrow> (utext, tool_info) odict \<Rightarrow> (utext, tool_info) odict" where
  "without_server name tools = filter (\<lambda>(_, info). ti_server info \<noteq> name) tools"

definition tool_key :: "utext \<Rightarrow> utext \<Rightarrow> utext" where
  "tool_key server tool = server @ u ''.'' @ tool"

definition load_tools ::
  "utext \<Rightarrow> (utext \<times> uvalue \<times> udict) list \<Rightarrow> mcp_manager \<Rightarrow> mcp_manager" where
  \<comment> \<open>\<open>_load_tools\<close> with the server's answer: name, description and schema of each tool\<close>
  "load_tools server listed m =
     (let server_tools = fold (\<lambda>(name, description, schema). AList.update (tool_key server name)
            \<lparr>ti_server = server, ti_name = name, ti_description = description, ti_schema = schema\<rparr>)
            listed [];
          tools = fold (\<lambda>(k, info). AList.update k info) server_tools
            (without_server server (mm_tools m))
      in update_runtime_status server
           (\<lambda>s. s\<lparr>ss_loaded := True, ss_tool_count := int (length listed), ss_status := Loaded\<rparr>)
           (refresh_names (m\<lparr>mm_tools := tools\<rparr>)))"

definition get_tools_for_llm ::
  "utext list option \<Rightarrow> mcp_manager \<Rightarrow> mcp_manager \<times> (utext \<times> tool_info) list" where
  \<comment> \<open>each offered tool under its safe name\<close>
  "get_tools_for_llm server_filter m =
     (let (to_tool, to_llm) = build_llm_tool_name_maps (keys (mm_tools m)) in
      (m\<lparr>mm_names := to_tool\<rparr>,
       map (\<lambda>(name, info). (the (map_of to_llm name), info))
         (filter (\<lambda>(_, info). case server_filter of None \<Rightarrow> True | Some f \<Rightarrow> ti_server info \<in> set f)
           (mm_tools m))))"

definition resolve_tool_name :: "mcp_manager \<Rightarrow> utext \<Rightarrow> utext" where
  "resolve_tool_name m name = (case map_of (mm_names m) name of Some t \<Rightarrow> t | None \<Rightarrow> name)"

definition disconnect_server :: "utext \<Rightarrow> mcp_manager \<Rightarrow> (mcp_manager) option" where
  \<comment> \<open>\<open>None\<close>: \<open>ValueError\<close>, the server is not configured\<close>
  "disconnect_server name m =
     (if name \<notin> set (keys (mm_servers m)) then None
      else Some (update_runtime_status name
        (\<lambda>s. s\<lparr>ss_connected := False, ss_loaded := False, ss_tool_count := 0, ss_status := Configured\<rparr>)
        (refresh_names (m\<lparr>mm_tools := without_server name (mm_tools m)\<rparr>))))"

definition mark_disconnected :: "utext \<Rightarrow> mcp_manager \<Rightarrow> mcp_manager" where
  \<comment> \<open>\<open>_disconnect_server\<close>\<close>
  "mark_disconnected name m =
     update_runtime_status name
       (\<lambda>s. s\<lparr>ss_connected := False, ss_status := (if has_loaded_tools m name then Loaded else Idle)\<rparr>) m"

definition disconnect_all :: "mcp_manager \<Rightarrow> mcp_manager" where
  "disconnect_all m =
     fold (\<lambda>name. update_runtime_status name
         (\<lambda>s. s\<lparr>ss_connected := False, ss_loaded := False, ss_tool_count := 0, ss_status := Idle\<rparr>))
       (keys (mm_servers m)) (m\<lparr>mm_tools := [], mm_names := []\<rparr>)"

definition get_runtime_status :: "mcp_manager \<Rightarrow> mcp_manager \<times> server_status list" where
  \<comment> \<open>the missing entries are created on the way\<close>
  "get_runtime_status m =
     (let m1 = fold (\<lambda>name. update_runtime_status name id) (keys (mm_servers m)) m in
      (m1, map (\<lambda>(name, config).
         let s = ensure_runtime_status name m1;
             n = length (filter (\<lambda>(_, info). ti_server info = name) (mm_tools m1))
         in s\<lparr>ss_type := uget config ''type'',
              ss_tool_count := (if n > 0 then int n else ss_tool_count s)\<rparr>) (mm_servers m1)))"

subsection \<open>Connecting\<close>

datatype connect_reply = Cached | Unconfigured | Cooling_Down | Waiting nat | Attempting nat

definition start_attempt :: "utext \<Rightarrow> udict \<Rightarrow> seconds \<Rightarrow> mcp_manager \<Rightarrow> mcp_manager" where
  \<comment> \<open>an unknown type of server fails at once\<close>
  "start_attempt name config now m =
     (let known = (uget config ''type'' \<in> {UText (u ''sse''), UText (u ''streamable_http'')});
          m1 = update_runtime_status name (\<lambda>s. s\<lparr>ss_connected := False, ss_status := Connecting\<rparr>)
            (m\<lparr>mm_connecting := AList.update name (length (mm_events m)) (mm_connecting m),
               mm_events := mm_events m @ [False],
               mm_attempts := mm_attempts m @ [\<lparr>at_server = name, at_event = length (mm_events m),
                 at_phase = (if known then Opening else Settled)\<rparr>]\<rparr>)
      in if known then m1 else mark_connection_error name (u ''unsupported'') now m1)"

definition connect_server :: "utext \<Rightarrow> seconds \<Rightarrow> mcp_manager \<Rightarrow> mcp_manager \<times> connect_reply" where
  \<comment> \<open>until the first \<open>await\<close> of a connection or of the event of another attempt\<close>
  "connect_server name now m =
     (if has_loaded_tools m name then (m, Cached)
      else case map_of (mm_servers m) name of
          None \<Rightarrow> (m, Unconfigured)
        | Some config \<Rightarrow>
            if config = [] then (m, Unconfigured)
            else if cooldown_remaining now name m > 0
            then (update_runtime_status name
                    (\<lambda>s. s\<lparr>ss_connected := False, ss_loaded := False, ss_status := Errored\<rparr>) m,
                  Cooling_Down)
            else (case map_of (mm_connecting m) name of
                    Some ev \<Rightarrow> (m, Waiting ev)
                  | None \<Rightarrow> (start_attempt name config now m, Attempting (length (mm_attempts m)))))"

datatype attempt_outcome = Connected | Failed utext | Cancelled_Attempt

definition set_phase :: "nat \<Rightarrow> attempt_phase \<Rightarrow> mcp_manager \<Rightarrow> mcp_manager" where
  "set_phase i p m = m\<lparr>mm_attempts := (mm_attempts m)[i := (mm_attempts m ! i)\<lparr>at_phase := p\<rparr>]\<rparr>"

definition settle_attempt :: "nat \<Rightarrow> attempt_outcome \<Rightarrow> seconds \<Rightarrow> mcp_manager \<Rightarrow> mcp_manager" where
  "settle_attempt i outcome now m =
     (let name = at_server (mm_attempts m ! i) in
      set_phase i Settled
        (case outcome of
           Connected \<Rightarrow> update_runtime_status name
             (\<lambda>s. s\<lparr>ss_connected := False, ss_loaded := True, ss_last_connected_at := Some now,
               ss_last_error := None, ss_last_error_at := None, ss_status := Loaded\<rparr>) m
         | Failed e \<Rightarrow> mark_connection_error name e now m
         | Cancelled_Attempt \<Rightarrow> mark_connection_error name [0x8FDE, 0x63A5, 0x53D6,
           0x6D88, 0x6216, 0x8D85, 0x65F6] now m))"

definition release_attempt :: "nat \<Rightarrow> mcp_manager \<Rightarrow> mcp_manager" where
  \<comment> \<open>the \<open>finally\<close>: wake those who wait, and forget the attempt\<close>
  "release_attempt i m =
     (let name = at_server (mm_attempts m ! i) in
      set_phase i Over
        (case map_of (mm_connecting m) name of
           None \<Rightarrow> m
         | Some ev \<Rightarrow> m\<lparr>mm_events := (mm_events m)[ev := True],
                        mm_connecting := AList.delete name (mm_connecting m)\<rparr>))"

subsection \<open>Calling tools\<close>

definition tool_call_failed :: "utext \<Rightarrow> utext \<Rightarrow> seconds \<Rightarrow> mcp_manager \<Rightarrow> mcp_manager" where
  "tool_call_failed tool_name e now m =
     (case map_of (mm_tools m) (resolve_tool_name m tool_name) of
        None \<Rightarrow> m
      | Some info \<Rightarrow> update_runtime_status (ti_server info)
          (\<lambda>s. s\<lparr>ss_connected := False, ss_status := Loaded, ss_last_error := Some e,
            ss_last_error_at := Some now\<rparr>) m)"

definition tool_call_done :: "utext \<Rightarrow> mcp_manager \<Rightarrow> mcp_manager" where
  "tool_call_done server m =
     update_runtime_status server
       (\<lambda>s. s\<lparr>ss_connected := False, ss_loaded := True, ss_status := Loaded,
         ss_last_error := None, ss_last_error_at := None\<rparr>) m"

datatype 'v call_answer = Answered 'v | Raised utext

definition reachable_tool :: "mcp_manager \<Rightarrow> utext \<Rightarrow> tool_info option" where
  \<comment> \<open>the checks of \<open>_do_call_tool\<close>: the tool and the configuration of its server exist\<close>
  "reachable_tool m tool_name =
     (case map_of (mm_tools m) (resolve_tool_name m tool_name) of
        None \<Rightarrow> None
      | Some info \<Rightarrow>
          (case map_of (mm_servers m) (ti_server info) of
             None \<Rightarrow> None
           | Some config \<Rightarrow> if config = [] then None else Some info))"

fun mcp_call_tool ::
  "utext \<Rightarrow> (mcp_manager \<times> 'v call_answer \<times> mcp_manager) list
    \<Rightarrow> tool_info list \<times> ('v call_answer) option" where
  \<comment> \<open>one element for each attempt allowed: the manager when it is made, what the server would answer,
    and the manager then; the result: the calls that were sent, and the answer or the last
    error (\<open>None\<close> when no attempt is allowed)\<close>
  "mcp_call_tool tool_name [] = ([], None)"
| "mcp_call_tool tool_name ((m, answer, m1) # later) =
     (case reachable_tool m tool_name of
        Some info \<Rightarrow>
          (case answer of
             Answered v \<Rightarrow> ([info], Some (Answered v))
           | Raised e \<Rightarrow>
               if map_of (mm_tools m1) (resolve_tool_name m1 tool_name) = None \<or> later = []
               then ([info], Some (Raised e))
               else (let (sent, r) = mcp_call_tool tool_name later in (info # sent, r)))
      | None \<Rightarrow>
          if map_of (mm_tools m) (resolve_tool_name m tool_name) = None \<or> later = []
          then ([], Some (Raised (u ''ValueError'')))
          else mcp_call_tool tool_name later)"

subsection \<open>Runs\<close>

datatype mcp_event =
    Add_Server utext udict
  | Connect utext seconds
  | Tools_Listed nat "(utext \<times> uvalue \<times> udict) list"
  | Listing_Failed nat utext seconds
  | Attempt_Settled nat attempt_outcome seconds
  | Attempt_Released nat
  | Waiter_Resumes utext nat
  | Disconnect utext
  | Disconnect_All
  | Mark_Error utext utext seconds
  | Get_Tools "utext list option"
  | Get_Status
  | Call_Failed utext utext seconds
  | Call_Done utext

datatype mcp_reply = Done | Refused | Connect_Reply connect_reply | Offered "(utext \<times> tool_info) list"
  | Statuses "server_status list" | Wait_Over bool

definition in_phase :: "mcp_manager \<Rightarrow> nat \<Rightarrow> attempt_phase \<Rightarrow> bool" where
  "in_phase m i p = (i < length (mm_attempts m) \<and> at_phase (mm_attempts m ! i) = p)"

fun mcp_step :: "mcp_manager \<Rightarrow> mcp_event \<Rightarrow> mcp_manager \<times> mcp_reply" where
  "mcp_step m (Add_Server name config) = (add_server name config m, Done)"
| "mcp_step m (Connect name now) =
     (let (m1, r) = connect_server name now m in (m1, Connect_Reply r))"
| "mcp_step m (Tools_Listed i listed) =
     (if in_phase m i Opening
      then (set_phase i Listed (load_tools (at_server (mm_attempts m ! i)) listed m), Done)
      else (m, Refused))"
| "mcp_step m (Listing_Failed i e now) =
     (if in_phase m i Opening
      then (set_phase i Rejected (mark_connection_error (at_server (mm_attempts m ! i)) e now m), Done)
      else (m, Refused))"
| "mcp_step m (Attempt_Settled i outcome now) =
     (if in_phase m i Listed
        \<or> ((in_phase m i Opening \<or> in_phase m i Rejected) \<and> outcome \<noteq> Connected)
      then (settle_attempt i outcome now m, Done)
      else (m, Refused))"
| "mcp_step m (Attempt_Released i) =
     (if in_phase m i Settled then (release_attempt i m, Done) else (m, Refused))"
| "mcp_step m (Waiter_Resumes name ev) =
     (if ev < length (mm_events m) \<and> mm_events m ! ev then (m, Wait_Over (has_loaded_tools m name))
      else (m, Refused))"
| "mcp_step m (Disconnect name) =
     (case disconnect_server name m of None \<Rightarrow> (m, Refused) | Some m1 \<Rightarrow> (m1, Done))"
| "mcp_step m Disconnect_All = (disconnect_all m, Done)"
| "mcp_step m (Mark_Error name e now) = (mark_connection_error name e now m, Done)"
| "mcp_step m (Get_Tools f) = (let (m1, offered) = get_tools_for_llm f m in (m1, Offered offered))"
| "mcp_step m Get_Status = (let (m1, items) = get_runtime_status m in (m1, Statuses items))"
| "mcp_step m (Call_Failed name e now) = (tool_call_failed name e now m, Done)"
| "mcp_step m (Call_Done server) = (tool_call_done server m, Done)"

end
