(* ===== verification/Mcp_Manager_Facts.thy ===== *)
theory Mcp_Manager_Facts
  imports Mcp_Manager "HOL-Library.Multiset"
begin

text \<open>
  What holds of the table of tools in every run: the names shown to the models lead back to the
  tools they stand for, a server is never connected to twice at the same time, and nobody waits
  for an attempt that is over.
\<close>

subsection \<open>The invariant\<close>

definition live_attempts :: "mcp_manager \<Rightarrow> (utext \<times> nat) list" where
  \<comment> \<open>server and event of the attempts that have not been released\<close>
  "live_attempts m =
     map (\<lambda>a. (at_server a, at_event a)) (filter (\<lambda>a. at_phase a \<noteq> Over) (mm_attempts m))"

definition tools_ok :: "mcp_manager \<Rightarrow> bool" where
  "tools_ok m \<longleftrightarrow> distinct (keys (mm_tools m))
     \<and> mm_names m = fst (build_llm_tool_name_maps (keys (mm_tools m)))
     \<and> (\<forall>(k, info) \<in> set (mm_tools m). k = tool_key (ti_server info) (ti_name info))"

definition attempts_ok :: "mcp_manager \<Rightarrow> bool" where
  "attempts_ok m \<longleftrightarrow> distinct (keys (mm_connecting m)) \<and> distinct (map snd (mm_connecting m))
     \<and> mset (live_attempts m) = mset (mm_connecting m)
     \<and> (\<forall>a \<in> set (mm_attempts m). at_event a < length (mm_events m))
     \<and> (\<forall>ev < length (mm_events m). mm_events m ! ev \<longleftrightarrow> ev \<notin> snd ` set (mm_connecting m))"

definition mcp_inv :: "mcp_manager \<Rightarrow> bool" where
  "mcp_inv m \<longleftrightarrow> tools_ok m \<and> attempts_ok m"

lemma update_runtime_status_frame [simp]:
  "mm_tools (update_runtime_status name f m) = mm_tools m"
  "mm_names (update_runtime_status name f m) = mm_names m"
  "mm_servers (update_runtime_status name f m) = mm_servers m"
  "mm_connecting (update_runtime_status name f m) = mm_connecting m"
  "mm_events (update_runtime_status name f m) = mm_events m"
  "mm_attempts (update_runtime_status name f m) = mm_attempts m"
  by (simp_all add: update_runtime_status_def)

lemma fold_status_frame [simp]:
  "mm_tools (fold (\<lambda>name. update_runtime_status name f) ns m) = mm_tools m"
  "mm_names (fold (\<lambda>name. update_runtime_status name f) ns m) = mm_names m"
  "mm_connecting (fold (\<lambda>name. update_runtime_status name f) ns m) = mm_connecting m"
  "mm_events (fold (\<lambda>name. update_runtime_status name f) ns m) = mm_events m"
  "mm_attempts (fold (\<lambda>name. update_runtime_status name f) ns m) = mm_attempts m"
  by (induction ns arbitrary: m) simp_all

lemma mcp_inv_update [simp]: "mcp_inv (update_runtime_status name f m) = mcp_inv m"
  by (simp add: mcp_inv_def tools_ok_def attempts_ok_def live_attempts_def)

lemma mcp_inv_mark [simp]: "mcp_inv (mark_connection_error name e now m) = mcp_inv m"
  by (simp add: mark_connection_error_def)

lemma attempts_ok_cong:
  "mm_connecting m = mm_connecting m' \<Longrightarrow> mm_events m = mm_events m' \<Longrightarrow> mm_attempts m = mm_attempts m'
    \<Longrightarrow> attempts_ok m = attempts_ok m'"
  by (simp add: attempts_ok_def live_attempts_def)

lemma tools_ok_cong:
  "mm_tools m = mm_tools m' \<Longrightarrow> mm_names m = mm_names m' \<Longrightarrow> tools_ok m = tools_ok m'"
  by (simp add: tools_ok_def)

subsection \<open>The tools\<close>

lemma keys_fold_update:
  "distinct (keys d) \<Longrightarrow> distinct (keys (fold (\<lambda>(k, v). AList.update k v) es d))"
  by (induction es arbitrary: d) (auto simp: keys_update simp del: set_map)

lemma set_fold_update:
  "set (fold (\<lambda>(k, v). AList.update k v) es d) \<subseteq> set d \<union> set es"
proof (induction es arbitrary: d)
  case (Cons e es)
  obtain k v where e: "e = (k, v)" by (cases e)
  have "set (AList.update k v d) \<subseteq> set d \<union> {(k, v)}" by (induction d) auto
  with Cons [of "AList.update k v d"] show ?case by (auto simp: e)
qed simp

lemma tools_ok_tools:
  assumes "distinct (keys tools)" "\<forall>(k, info) \<in> set tools. k = tool_key (ti_server info) (ti_name info)"
  shows "tools_ok (refresh_names (m\<lparr>mm_tools := tools\<rparr>))"
  using assms by (simp add: tools_ok_def refresh_names_def)

lemma without_server_ok:
  "distinct (keys tools) \<Longrightarrow> distinct (keys (without_server name tools))"
  "set (without_server name tools) \<subseteq> set tools"
  by (auto simp: without_server_def distinct_map_filter)

lemma load_tools_ok:
  assumes "tools_ok m" shows "tools_ok (load_tools server listed m)"
proof -
  define server_tools where "server_tools = fold (\<lambda>(name, description, schema). AList.update (tool_key server name)
      \<lparr>ti_server = server, ti_name = name, ti_description = description, ti_schema = schema\<rparr>) listed []"
  have good: "\<forall>(k, info) \<in> set d. k = tool_key (ti_server info) (ti_name info) \<Longrightarrow>
      \<forall>(k, info) \<in> set (fold (\<lambda>(name, description, schema). AList.update (tool_key server name)
        \<lparr>ti_server = server, ti_name = name, ti_description = description, ti_schema = schema\<rparr>) listed d).
        k = tool_key (ti_server info) (ti_name info)" for d
  proof (induction listed arbitrary: d)
    case (Cons x listed)
    obtain name description schema where x: "x = (name, description, schema)" by (cases x)
    have "set (AList.update (tool_key server name) i d) \<subseteq> set d \<union> {(tool_key server name, i)}" for i
      by (induction d) auto
    with Cons.prems show ?case unfolding x by (simp, intro Cons.IH) fastforce
  qed simp
  have "\<forall>(k, info) \<in> set server_tools. k = tool_key (ti_server info) (ti_name info)"
    unfolding server_tools_def by (rule good) simp
  moreover have "\<forall>(k, info) \<in> set (without_server server (mm_tools m)). k = tool_key (ti_server info) (ti_name info)"
    using assms without_server_ok(2) by (fastforce simp: tools_ok_def)
  ultimately have "\<forall>(k, info) \<in> set (fold (\<lambda>(k, info). AList.update k info) server_tools
        (without_server server (mm_tools m))). k = tool_key (ti_server info) (ti_name info)"
    using set_fold_update [of server_tools "without_server server (mm_tools m)"] by blast
  moreover have "distinct (keys (fold (\<lambda>(k, info). AList.update k info) server_tools
        (without_server server (mm_tools m))))"
    using assms by (intro keys_fold_update without_server_ok(1)) (simp add: tools_ok_def)
  ultimately have "tools_ok (refresh_names (m\<lparr>mm_tools := fold (\<lambda>(k, info). AList.update k info) server_tools
        (without_server server (mm_tools m))\<rparr>))"
    by (intro tools_ok_tools)
  then show ?thesis
    by (subst tools_ok_cong) (auto simp: load_tools_def Let_def server_tools_def)
qed

lemma load_tools_frame [simp]:
  "mm_connecting (load_tools server listed m) = mm_connecting m"
  "mm_events (load_tools server listed m) = mm_events m"
  "mm_attempts (load_tools server listed m) = mm_attempts m"
  by (simp_all add: load_tools_def Let_def refresh_names_def)

lemma load_tools_inv: "mcp_inv m \<Longrightarrow> mcp_inv (load_tools server listed m)"
  using load_tools_ok attempts_ok_cong [of "load_tools server listed m" m] by (simp add: mcp_inv_def)

lemma disconnect_server_inv:
  assumes "mcp_inv m" and "disconnect_server name m = Some m1" shows "mcp_inv m1"
proof -
  have "tools_ok (refresh_names (m\<lparr>mm_tools := without_server name (mm_tools m)\<rparr>))"
    using assms(1) without_server_ok by (intro tools_ok_tools) (fastforce simp: mcp_inv_def tools_ok_def)+
  moreover have "attempts_ok (refresh_names (m\<lparr>mm_tools := without_server name (mm_tools m)\<rparr>)) = attempts_ok m"
    by (rule attempts_ok_cong) (simp_all add: refresh_names_def)
  ultimately have "mcp_inv (refresh_names (m\<lparr>mm_tools := without_server name (mm_tools m)\<rparr>))"
    using assms(1) by (simp add: mcp_inv_def)
  then show ?thesis using assms(2) by (auto simp: disconnect_server_def split: if_splits)
qed

lemma disconnect_all_inv:
  assumes "mcp_inv m" shows "mcp_inv (disconnect_all m)"
proof -
  have "tools_ok (disconnect_all m)" by (simp add: tools_ok_def disconnect_all_def build_llm_tool_name_maps_def)
  moreover have "attempts_ok (disconnect_all m) = attempts_ok m"
    by (rule attempts_ok_cong) (simp_all add: disconnect_all_def)
  ultimately show ?thesis using assms by (simp add: mcp_inv_def)
qed

lemma get_tools_inv: "mcp_inv m \<Longrightarrow> mcp_inv (fst (get_tools_for_llm f m))"
  by (simp add: mcp_inv_def tools_ok_def attempts_ok_def live_attempts_def get_tools_for_llm_def
      case_prod_beta Let_def)

subsection \<open>The attempts\<close>

lemma delete_split:
  "distinct (keys d) \<Longrightarrow> (k, v) \<in> set d \<Longrightarrow> mset d = add_mset (k, v) (mset (AList.delete k d))"
proof (induction d)
  case (Cons e d)
  show ?case
  proof (cases "e = (k, v)")
    case True
    with Cons.prems have "AList.delete k d = d" by (intro delete_absent) auto
    with True show ?thesis by simp
  next
    case False
    with Cons.prems have mem: "(k, v) \<in> set d" by simp
    with Cons.prems(1) have "fst e \<noteq> k" by (force simp: image_iff)
    with Cons.IH Cons.prems(1) mem show ?thesis by (cases e) simp
  qed
qed simp

lemma delete_values:
  assumes "distinct (keys d)" "distinct (map snd d)" "(k, v) \<in> set d"
  shows "snd ` set (AList.delete k d) = snd ` set d - {v}"
proof -
  have "mset (map snd d) = add_mset v (mset (map snd (AList.delete k d)))"
    using delete_split [OF assms(1,3)] by simp
  moreover from this assms(2) have "v \<notin> set (map snd (AList.delete k d))"
    by (metis distinct.simps(2) mset.simps(2) mset_eq_imp_distinct_iff)
  ultimately show ?thesis
    by (metis Diff_insert_absorb list.set_map set_mset_add_mset_insert set_mset_mset)
qed

lemma live_set_phase:
  assumes "i < length (mm_attempts m)" "p \<noteq> Over" "at_phase (mm_attempts m ! i) \<noteq> Over"
  shows "live_attempts (set_phase i p m) = live_attempts m"
proof -
  let ?xs = "mm_attempts m" and ?a = "(mm_attempts m ! i)\<lparr>at_phase := p\<rparr>"
  have "?xs = take i ?xs @ ?xs ! i # drop (Suc i) ?xs" using assms(1) by (rule id_take_nth_drop)
  then have 1: "live_attempts m = live_attempts (m\<lparr>mm_attempts := take i ?xs @ ?xs ! i # drop (Suc i) ?xs\<rparr>)"
    by simp
  have 2: "?xs[i := ?a] = take i ?xs @ ?a # drop (Suc i) ?xs"
    using assms(1) by (rule upd_conv_take_nth_drop)
  show ?thesis using assms(2,3) unfolding 1 by (simp add: live_attempts_def set_phase_def 2)
qed

lemma set_phase_frame [simp]:
  "mm_tools (set_phase i p m) = mm_tools m" "mm_names (set_phase i p m) = mm_names m"
  "mm_connecting (set_phase i p m) = mm_connecting m" "mm_events (set_phase i p m) = mm_events m"
  "length (mm_attempts (set_phase i p m)) = length (mm_attempts m)"
  by (simp_all add: set_phase_def)

lemma set_phase_events:
  "\<forall>a \<in> set (mm_attempts m). at_event a < n \<Longrightarrow> i < length (mm_attempts m)
    \<Longrightarrow> \<forall>a \<in> set (mm_attempts (set_phase i p m)). at_event a < n"
  by (auto simp: set_phase_def dest!: set_update_subset_insert [THEN subsetD])

lemma set_phase_inv:
  assumes "mcp_inv m" "i < length (mm_attempts m)" "p \<noteq> Over" "at_phase (mm_attempts m ! i) \<noteq> Over"
  shows "mcp_inv (set_phase i p m)"
  using assms live_set_phase [OF assms(2,3,4)] set_phase_events [OF _ assms(2)]
  by (simp add: mcp_inv_def attempts_ok_def tools_ok_def)

lemma start_attempt_inv:
  assumes "mcp_inv m" and "map_of (mm_connecting m) name = None"
  shows "mcp_inv (start_attempt name config now m)"
proof -
  define m1 where "m1 = m\<lparr>mm_connecting := AList.update name (length (mm_events m)) (mm_connecting m),
      mm_events := mm_events m @ [False],
      mm_attempts := mm_attempts m @ [\<lparr>at_server = name, at_event = length (mm_events m),
        at_phase = (if uget config ''type'' \<in> {UText (u ''sse''), UText (u ''streamable_http'')}
                    then Opening else Settled)\<rparr>]\<rparr>"
  have new: "name \<notin> set (keys (mm_connecting m))" using assms(2) by (simp add: map_of_eq_None_iff)
  have old: "snd ` set (mm_connecting m) \<subseteq> {..<length (mm_events m)}"
  proof
    fix ev assume "ev \<in> snd ` set (mm_connecting m)"
    then have "ev \<in> snd ` set (live_attempts m)"
      using assms(1) by (metis mcp_inv_def attempts_ok_def set_mset_mset)
    then show "ev \<in> {..<length (mm_events m)}"
      using assms(1) by (auto simp: live_attempts_def mcp_inv_def attempts_ok_def)
  qed
  have fresh: "length (mm_events m) \<notin> set (map snd (mm_connecting m))" using old by auto
  have upd: "mm_connecting m1 = mm_connecting m @ [(name, length (mm_events m))]"
    using new by (simp add: m1_def update_new)
  have live: "live_attempts m1 = live_attempts m @ [(name, length (mm_events m))]"
    by (simp add: m1_def live_attempts_def)
  have flags: "mm_events m1 ! ev \<longleftrightarrow> ev \<notin> snd ` set (mm_connecting m1)" if "ev < length (mm_events m1)" for ev
    using that old assms(1) unfolding upd
    by (auto simp: m1_def nth_append less_Suc_eq mcp_inv_def attempts_ok_def)
  have "attempts_ok m1"
    unfolding attempts_ok_def using assms(1) new fresh flags upd live
    by (intro conjI) (auto simp: attempts_ok_def mcp_inv_def m1_def simp del: set_map)
  moreover have "tools_ok m1 = tools_ok m" by (rule tools_ok_cong) (simp_all add: m1_def)
  ultimately have "mcp_inv m1" using assms(1) by (simp add: mcp_inv_def)
  then show ?thesis unfolding start_attempt_def Let_def m1_def [symmetric] by simp
qed

lemma connect_server_inv:
  assumes "mcp_inv m" shows "mcp_inv (fst (connect_server name now m))"
  using assms start_attempt_inv [OF assms, of name]
  by (auto simp: connect_server_def split: option.splits)

lemma settle_attempt_inv:
  assumes "mcp_inv m" "i < length (mm_attempts m)" "at_phase (mm_attempts m ! i) \<noteq> Over"
  shows "mcp_inv (settle_attempt i outcome now m)"
  using assms
  by (auto simp: settle_attempt_def Let_def mark_connection_error_def split: attempt_outcome.split
      intro!: set_phase_inv)

lemma live_over:
  assumes "i < length (mm_attempts m)" "at_phase (mm_attempts m ! i) \<noteq> Over"
  shows "mset (live_attempts m) =
    add_mset (at_server (mm_attempts m ! i), at_event (mm_attempts m ! i)) (mset (live_attempts (set_phase i Over m)))"
proof -
  let ?xs = "mm_attempts m" and ?a = "(mm_attempts m ! i)\<lparr>at_phase := Over\<rparr>"
  have "?xs = take i ?xs @ ?xs ! i # drop (Suc i) ?xs" using assms(1) by (rule id_take_nth_drop)
  then have 1: "mset (live_attempts m) = mset (live_attempts (m\<lparr>mm_attempts := take i ?xs @ ?xs ! i # drop (Suc i) ?xs\<rparr>))"
    by simp
  have 2: "?xs[i := ?a] = take i ?xs @ ?a # drop (Suc i) ?xs"
    using assms(1) by (rule upd_conv_take_nth_drop)
  show ?thesis using assms(2) unfolding 1 by (simp add: live_attempts_def set_phase_def 2)
qed

lemma release_attempt_inv:
  assumes inv: "mcp_inv m" and i: "i < length (mm_attempts m)" and p: "at_phase (mm_attempts m ! i) \<noteq> Over"
  shows "mcp_inv (release_attempt i m)"
proof -
  let ?name = "at_server (mm_attempts m ! i)" and ?ev = "at_event (mm_attempts m ! i)"
  have ok: "attempts_ok m" using inv by (simp add: mcp_inv_def)
  have "(?name, ?ev) \<in> set (live_attempts m)"
    using i p by (auto simp: live_attempts_def)
  then have mem: "(?name, ?ev) \<in> set (mm_connecting m)"
    using ok by (metis attempts_ok_def set_mset_mset)
  then have con: "map_of (mm_connecting m) ?name = Some ?ev"
    using ok by (simp add: attempts_ok_def)
  define m1 where "m1 = m\<lparr>mm_events := (mm_events m)[?ev := True], mm_connecting := AList.delete ?name (mm_connecting m)\<rparr>"
  have release: "release_attempt i m = set_phase i Over m1"
    by (simp add: release_attempt_def Let_def con m1_def)
  have "mset (mm_connecting m) = add_mset (?name, ?ev) (mset (AList.delete ?name (mm_connecting m)))"
    using ok by (intro delete_split [OF _ mem]) (simp add: attempts_ok_def)
  moreover have "live_attempts (set_phase i Over m1) = live_attempts (set_phase i Over m)"
    by (simp add: live_attempts_def set_phase_def m1_def)
  ultimately have live: "mset (live_attempts (set_phase i Over m1)) = mset (mm_connecting m1)"
    using live_over [OF i p] ok by (simp add: attempts_ok_def m1_def)
  have others: "snd ` set (AList.delete ?name (mm_connecting m)) = snd ` set (mm_connecting m) - {?ev}"
    using ok by (intro delete_values [OF _ _ mem]) (simp_all add: attempts_ok_def)
  have bound: "?ev < length (mm_events m)" using ok i by (simp add: attempts_ok_def)
  have "distinct (map snd (AList.delete ?name (mm_connecting m)))" "distinct (keys (AList.delete ?name (mm_connecting m)))"
    using ok by (simp_all add: attempts_ok_def AList.delete_eq distinct_map_filter)
  moreover have "\<forall>a \<in> set (mm_attempts (set_phase i Over m1)). at_event a < length (mm_events m1)"
    using ok i by (intro set_phase_events) (simp_all add: attempts_ok_def m1_def)
  moreover have "\<forall>ev < length (mm_events m1). mm_events m1 ! ev \<longleftrightarrow> ev \<notin> snd ` set (mm_connecting m1)"
    using ok bound by (auto simp: attempts_ok_def m1_def others nth_list_update)
  ultimately have "attempts_ok (set_phase i Over m1)"
    using live by (simp add: attempts_ok_def m1_def)
  moreover have "tools_ok (set_phase i Over m1) = tools_ok m"
    by (rule tools_ok_cong) (simp_all add: m1_def)
  ultimately show ?thesis using inv by (simp add: release mcp_inv_def)
qed

lemma mcp_step_inv: "mcp_inv m \<Longrightarrow> mcp_inv (fst (mcp_step m e))"
proof (cases e)
  case (Connect name now)
  assume "mcp_inv m"
  then show ?thesis using connect_server_inv [of m name now] by (simp add: Connect case_prod_beta)
next
  case (Tools_Listed i listed)
  assume inv: "mcp_inv m"
  then show ?thesis
    using load_tools_inv [OF inv, of "at_server (mm_attempts m ! i)" listed]
    by (auto simp: Tools_Listed in_phase_def intro!: set_phase_inv)
next
  case (Listing_Failed i e' now)
  assume inv: "mcp_inv m"
  then show ?thesis
    by (auto simp: Listing_Failed in_phase_def mark_connection_error_def intro!: set_phase_inv)
next
  case (Attempt_Settled i outcome now)
  assume inv: "mcp_inv m"
  then show ?thesis
    using settle_attempt_inv [OF inv, of i outcome now] by (auto simp: Attempt_Settled in_phase_def)
next
  case (Attempt_Released i)
  assume inv: "mcp_inv m"
  then show ?thesis
    using release_attempt_inv [OF inv, of i] by (auto simp: Attempt_Released in_phase_def)
next
  case (Disconnect name)
  assume inv: "mcp_inv m"
  then show ?thesis
    using disconnect_server_inv [OF inv] by (auto simp: Disconnect split: option.splits)
next
  case (Get_Tools f)
  assume "mcp_inv m"
  then show ?thesis using get_tools_inv [of m f] by (simp add: Get_Tools case_prod_beta)
next
  case Get_Status
  assume "mcp_inv m"
  then show ?thesis
    by (simp add: Get_Status get_runtime_status_def Let_def mcp_inv_def tools_ok_def attempts_ok_def
        live_attempts_def)
next
  case (Add_Server name config)
  assume "mcp_inv m"
  then show ?thesis
    by (simp add: Add_Server add_server_def mcp_inv_def tools_ok_def attempts_ok_def live_attempts_def)
next
  case (Call_Failed name e' now)
  assume "mcp_inv m"
  then show ?thesis by (simp add: Call_Failed tool_call_failed_def split: option.splits)
qed (simp_all add: disconnect_all_inv tool_call_done_def)

lemma new_manager_inv: "mcp_inv (new_mcp_manager cooldown)"
  by (simp add: mcp_inv_def tools_ok_def attempts_ok_def live_attempts_def new_mcp_manager_def
      build_llm_tool_name_maps_def)

interpretation mcp: transition_system mcp_step mcp_inv "\<lambda>_. True"
  by unfold_locales (simp add: mcp_step_inv)

subsection \<open>Properties\<close>

lemma offered_facts:
  assumes inv: "mcp_inv m" and tools: "get_tools_for_llm wanted m = (m', offered)"
  shows "mm_tools m' = mm_tools m" and "mm_names m' = mm_names m"
    and "distinct (map fst offered)"
    and "map snd offered = map snd (filter (\<lambda>(_, info). case wanted of None \<Rightarrow> True
        | Some f \<Rightarrow> ti_server info \<in> set f) (mm_tools m))"
    and "(name, info) \<in> set offered \<Longrightarrow>
      map_of (mm_names m') name = Some (tool_key (ti_server info) (ti_name info))
      \<and> map_of (mm_tools m') (tool_key (ti_server info) (ti_name info)) = Some info
      \<and> (case wanted of None \<Rightarrow> True | Some f \<Rightarrow> ti_server info \<in> set f)"
proof -
  let ?names = "keys (mm_tools m)"
  obtain to_tool to_llm where maps: "build_llm_tool_name_maps ?names = (to_tool, to_llm)" by fastforce
  define keep where "keep = (\<lambda>(_ :: utext, info :: tool_info). case wanted of None \<Rightarrow> True | Some f \<Rightarrow> ti_server info \<in> set f)"
  define safe where "safe k = the (map_of to_llm k)" for k
  have "get_tools_for_llm wanted m = (m\<lparr>mm_names := to_tool\<rparr>,
      map (\<lambda>(k, info). (safe k, info)) (filter keep (mm_tools m)))"
    unfolding get_tools_for_llm_def maps keep_def safe_def by simp
  with tools have out: "m' = m\<lparr>mm_names := to_tool\<rparr>"
      "offered = map (\<lambda>(k, info). (safe k, info)) (filter keep (mm_tools m))" by simp_all
  have names: "mm_names m = to_tool" using inv by (simp add: mcp_inv_def tools_ok_def maps)
  have table: "distinct ?names" "\<forall>(k, info) \<in> set (mm_tools m). k = tool_key (ti_server info) (ti_name info)"
    using inv by (simp_all add: mcp_inv_def tools_ok_def)
  obtain used where "maps_ok ?names (used, to_tool, to_llm)"
    using built_maps_ok [OF table(1)] unfolding maps by blast
  then have leads: "map_of to_tool (safe k) = Some k" if "k \<in> set ?names" for k
    using maps_ok_leads_back that unfolding safe_def by blast
  show "mm_tools m' = mm_tools m" "mm_names m' = mm_names m" by (simp_all add: out(1) names)
  show "map snd offered = map snd (filter (\<lambda>(_, info). case wanted of None \<Rightarrow> True
        | Some f \<Rightarrow> ti_server info \<in> set f) (mm_tools m))"
    by (simp add: out(2) comp_def case_prod_beta keep_def)
  show "distinct (map fst offered)"
  proof -
    have "inj_on safe (set ?names)" by (rule inj_onI) (metis leads option.inject)
    moreover have "distinct (keys (filter keep (mm_tools m)))"
      using table(1) by (simp add: distinct_map_filter)
    moreover have "set (keys (filter keep (mm_tools m))) \<subseteq> set ?names" by auto
    ultimately have "distinct (map safe (keys (filter keep (mm_tools m))))"
      by (simp add: distinct_map [of safe] inj_on_subset del: map_map set_map)
    then show ?thesis by (simp add: out(2) comp_def case_prod_beta)
  qed
  assume "(name, info) \<in> set offered"
  then obtain k where k: "(k, info) \<in> set (mm_tools m)" "keep (k, info)" "name = safe k"
    by (auto simp: out(2))
  with table(2) have "k = tool_key (ti_server info) (ti_name info)" by blast
  moreover have "k \<in> set ?names" using k(1) by force
  ultimately show "map_of (mm_names m') name = Some (tool_key (ti_server info) (ti_name info))
      \<and> map_of (mm_tools m') (tool_key (ti_server info) (ti_name info)) = Some info
      \<and> (case wanted of None \<Rightarrow> True | Some f \<Rightarrow> ti_server info \<in> set f)"
    using k table(1) leads by (simp add: out(1) keep_def)
qed

text \<open>C21: Whatever the requests, answers of servers, failures and reloads so far: the tools of the
  wanted servers are offered to the model under names of their own, which the interfaces accept,
  and each of these names leads back to the tool it was made for.\<close>

theorem offered_names_lead_back:
  assumes "m = run_state mcp_step (new_mcp_manager cooldown) es"
    and "get_tools_for_llm wanted m = (m', offered)"
    and "length (mm_tools m) < 10 ^ 59"
  shows "distinct (map fst offered)
    \<and> map snd offered = map snd (filter (\<lambda>(_, info). case wanted of None \<Rightarrow> True
        | Some f \<Rightarrow> ti_server info \<in> set f) (mm_tools m))
    \<and> (\<forall>(name, info) \<in> set offered. function_name name
        \<and> resolve_tool_name m name = resolve_tool_name m' name
        \<and> resolve_tool_name m' name = tool_key (ti_server info) (ti_name info)
        \<and> map_of (mm_tools m') (resolve_tool_name m' name) = Some info)"
proof -
  have inv: "mcp_inv m" using mcp.inv_run [OF new_manager_inv] assms(1) by simp
  note facts = offered_facts [OF inv assms(2)]
  have "function_name name \<and> resolve_tool_name m name = resolve_tool_name m' name
      \<and> resolve_tool_name m' name = tool_key (ti_server info) (ti_name info)
      \<and> map_of (mm_tools m') (resolve_tool_name m' name) = Some info"
    if mem: "(name, info) \<in> set offered" for name info
  proof -
    note lead = facts(5) [OF mem]
    have "name \<in> set (keys (fst (build_llm_tool_name_maps (keys (mm_tools m)))))"
      using map_of_SomeD [OF lead [THEN conjunct1]] inv facts(2)
      by (force simp: mcp_inv_def tools_ok_def)
    moreover have "length (keys (mm_tools m)) + 2 < 10 ^ 60" using assms(3) by simp
    ultimately have "function_name name" using built_names_ok by blast
    with lead facts(2) show ?thesis by (simp add: resolve_tool_name_def)
  qed
  with facts(3,4) show ?thesis by blast
qed

definition sample_mcp_events :: "mcp_event list" where
  "sample_mcp_events =
     [Add_Server (u ''robot'') [(u ''type'', UText (u ''sse''))], Connect (u ''robot'') 5,
      Tools_Listed 0 [(u ''move'', UNull, []), (u ''mo.ve'', UNull, [])],
      Connect (u ''robot'') 6]"

lemma offered_names_lead_back_witness:
  "\<exists>m' offered. get_tools_for_llm None (run_state mcp_step (new_mcp_manager 30) sample_mcp_events) = (m', offered)
    \<and> length offered = 2 \<and> distinct (map fst offered)"
proof -
  let ?m = "run_state mcp_step (new_mcp_manager 30) sample_mcp_events"
  obtain m' offered where out: "get_tools_for_llm None ?m = (m', offered)" by fastforce
  have two: "length (mm_tools ?m) = 2" by code_simp
  then have "length (mm_tools ?m) < 10 ^ 59" by simp
  from offered_names_lead_back [OF refl out this] have "distinct (map fst offered)"
      "map snd offered = map snd (mm_tools ?m)" by simp_all
  moreover from this(2) two have "length offered = 2" by (metis length_map)
  ultimately show ?thesis using out by blast
qed

text \<open>C20: In every run, a server has at most one attempt to connect in flight; a request that is told
  to wait waits for an attempt of its server that is still in flight, and whose end wakes it.\<close>

theorem nobody_waits_in_vain:
  assumes "m = run_state mcp_step (new_mcp_manager cooldown) es"
  shows "distinct (map fst (live_attempts m))
    \<and> (\<forall>name now ev. snd (connect_server name now m) = Waiting ev \<longrightarrow>
        \<not> mm_events m ! ev
        \<and> (\<exists>i < length (mm_attempts m). at_server (mm_attempts m ! i) = name
             \<and> at_phase (mm_attempts m ! i) \<noteq> Over \<and> mm_events (release_attempt i m) ! ev))"
proof -
  have ok: "attempts_ok m" using mcp.inv_run [OF new_manager_inv] assms by (simp add: mcp_inv_def)
  have "mset (map fst (live_attempts m)) = mset (keys (mm_connecting m))"
    using ok by (metis attempts_ok_def mset_map)
  then have "distinct (map fst (live_attempts m))"
    using ok mset_eq_imp_distinct_iff unfolding attempts_ok_def by blast
  moreover have "\<not> mm_events m ! ev
      \<and> (\<exists>i < length (mm_attempts m). at_server (mm_attempts m ! i) = name
           \<and> at_phase (mm_attempts m ! i) \<noteq> Over \<and> mm_events (release_attempt i m) ! ev)"
    if waits: "snd (connect_server name now m) = Waiting ev" for name now ev
  proof -
    from waits have con: "map_of (mm_connecting m) name = Some ev"
      by (auto simp: connect_server_def split: if_splits option.splits)
    then have mem: "(name, ev) \<in> set (mm_connecting m)" by (rule map_of_SomeD)
    then have "(name, ev) \<in> set (live_attempts m)" using ok by (metis attempts_ok_def set_mset_mset)
    then obtain i where i: "i < length (mm_attempts m)" "at_phase (mm_attempts m ! i) \<noteq> Over"
        "at_server (mm_attempts m ! i) = name" "at_event (mm_attempts m ! i) = ev"
      by (auto simp: live_attempts_def in_set_conv_nth)
    with ok have bound: "ev < length (mm_events m)" by (auto simp: attempts_ok_def)
    with ok mem have "\<not> mm_events m ! ev" by (force simp: attempts_ok_def)
    moreover have "mm_events (release_attempt i m) ! ev"
      using con bound by (simp add: release_attempt_def Let_def i(3))
    ultimately show ?thesis using i by blast
  qed
  ultimately show ?thesis by blast
qed

lemma nobody_waits_in_vain_witness:
  "\<exists>ev. snd (connect_server (u ''robot'') 6 (run_state mcp_step (new_mcp_manager 30) (take 2 sample_mcp_events)))
      = Waiting ev
    \<and> \<not> mm_events (run_state mcp_step (new_mcp_manager 30) (take 2 sample_mcp_events)) ! ev"
proof -
  have "snd (connect_server (u ''robot'') 6 (run_state mcp_step (new_mcp_manager 30) (take 2 sample_mcp_events)))
      = Waiting 0" by code_simp
  with nobody_waits_in_vain [OF refl, of 30 "take 2 sample_mcp_events"] show ?thesis by blast
qed

subsection \<open>Calls\<close>

text \<open>A call is sent at most as often as attempts are allowed, and only to the tool its name stands for.\<close>

lemma mcp_call_tool_bounded:
  "length (fst (mcp_call_tool name tries)) \<le> length tries
    \<and> set (fst (mcp_call_tool name tries)) \<subseteq> {info. \<exists>m \<in> fst ` set tries. reachable_tool m name = Some info}"
proof (induction name tries rule: mcp_call_tool.induct)
  case (2 name m answer m1 later)
  then show ?case
    by (cases "reachable_tool m name"; cases answer)
      (force simp: case_prod_beta split: if_splits)+
qed simp

end
