(* ===== verification/Tool_Guard.thy ===== *)
theory Tool_Guard
  imports Mcp_Manager_Facts Song_Matcher_Facts
begin

text \<open>
  What the language model server does with a tool call before it goes out
  (\<open>src/llm/llm_grpc_server.py\<close>): the parameters the model may not fill are hidden from it, and the
  arguments it produces are corrected, completed with the session's identity, or refused.
  Parsing and printing of dates (\<open>datetime\<close>) and \<open>repr\<close> are the fields of an argument.
\<close>

record llm_tool =
  lt_name :: utext
  lt_description :: uvalue
  lt_parameters :: udict

record clock_lib =
  from_iso :: "utext \<Rightarrow> int option"
  parse_time :: "string \<Rightarrow> utext \<Rightarrow> int option"
  print_time :: "int \<Rightarrow> utext"
  print_now :: "int \<Rightarrow> utext"
  py_repr :: "uvalue \<Rightarrow> utext"

definition offered_tools :: "(utext \<times> tool_info) list \<Rightarrow> llm_tool list" where
  \<comment> \<open>the entries \<open>get_tools_for_llm\<close> builds\<close>
  "offered_tools offered = map (\<lambda>(name, info).
     \<lparr>lt_name = name, lt_description = ti_description info, lt_parameters = ti_schema info\<rparr>) offered"

subsection \<open>Names\<close>

definition dots_to_marks :: "utext \<Rightarrow> utext" where
  \<comment> \<open>\<open>text.replace(".", "__")\<close>\<close>
  "dots_to_marks t = concat (map (\<lambda>c. if c = 46 then u ''__'' else [c]) t)"

fun marks_to_dots :: "utext \<Rightarrow> utext" where
  \<comment> \<open>\<open>text.replace("__", ".")\<close>\<close>
  "marks_to_dots (a # b # t) =
     (if a = 95 \<and> b = 95 then 46 # marks_to_dots t else a # marks_to_dots (b # t))"
| "marks_to_dots t = t"

fun before_marks :: "utext \<Rightarrow> utext" where
  \<comment> \<open>\<open>text.split("__", 1)[0]\<close>\<close>
  "before_marks (a # b # t) = (if a = 95 \<and> b = 95 then [] else a # before_marks (b # t))"
| "before_marks t = t"

definition tool_name_matches :: "utext \<Rightarrow> string \<Rightarrow> bool" where
  "tool_name_matches name suffix = (u_ends name (u suffix) \<or> u_ends name (dots_to_marks (u suffix)))"

definition is_websearch_tool_name :: "pylib \<Rightarrow> utext \<Rightarrow> bool" where
  "is_websearch_tool_name L name = u_in (u ''websearch'') (u_lower L name)"

definition tool_name_equal :: "utext \<Rightarrow> utext \<Rightarrow> bool" where
  "tool_name_equal name candidate = (name = candidate \<or> marks_to_dots name = marks_to_dots candidate)"

definition server_of_tool :: "utext \<Rightarrow> utext" where
  "server_of_tool name = before_marks (takeWhile (\<lambda>c. c \<noteq> 46) name)"

definition ROBOT_TOOL_SUFFIXES :: "string list" where
  "ROBOT_TOOL_SUFFIXES =
     [''.move_robot'', ''.create_map'', ''.patrol'', ''.follow'', ''.recharge_robot'', ''.return_to_charge'',
      ''.dance'', ''.call_video'', ''.detect_gesture'', ''.detect_pet'', ''.understand_environment'',
      ''.cancel_robot_task'']"

definition is_robot_tool :: "utext \<Rightarrow> bool" where
  "is_robot_tool name =
     (let server = server_of_tool name in
      (server = u ''robot'' \<or> u_starts server (u ''robot_'') \<or> u_starts server (u ''robot-''))
      \<and> list_ex (tool_name_matches name) ROBOT_TOOL_SUFFIXES)"

definition is_singing_tool :: "utext \<Rightarrow> bool" where
  "is_singing_tool name =
     (let server = server_of_tool name in
      server = u ''singing'' \<or> u_starts server (u ''singing_'') \<or> u_starts server (u ''singing-''))"

definition is_create_alarm_tool :: "utext \<Rightarrow> bool" where
  "is_create_alarm_tool name = tool_name_matches name ''.create_alarm''"

subsection \<open>The parameters the model sees\<close>

definition properties_of :: "udict \<Rightarrow> udict" where
  \<comment> \<open>\<open>parameters.get("properties") or {}\<close>, when it is a dictionary\<close>
  "properties_of parameters = (case uget parameters ''properties'' of UObj p \<Rightarrow> p | _ \<Rightarrow> [])"

definition tool_accepts_robot_id :: "llm_tool \<Rightarrow> bool" where
  "tool_accepts_robot_id t = (u ''robot_id'' \<in> set (keys (properties_of (lt_parameters t))))"

definition hide_required :: "udict \<Rightarrow> udict" where
  "hide_required parameters =
     (case uget parameters ''required'' of
        UArr xs \<Rightarrow>
          if UText (u ''robot_id'') \<in> set xs
          then AList.update (u ''required'') (UArr (filter (\<lambda>x. x \<noteq> UText (u ''robot_id'')) xs)) parameters
          else parameters
      | _ \<Rightarrow> parameters)"

definition hide_robot_id :: "llm_tool \<Rightarrow> llm_tool" where
  "hide_robot_id t =
     (if \<not> tool_accepts_robot_id t then t
      else t\<lparr>lt_parameters := hide_required
              (AList.update (u ''properties'')
                (UObj (AList.delete (u ''robot_id'') (properties_of (lt_parameters t)))) (lt_parameters t))\<rparr>)"

definition hide_session_robot_id_from_tools :: "llm_tool list \<Rightarrow> llm_tool list" where
  "hide_session_robot_id_from_tools tools = map hide_robot_id tools"

definition find_llm_tool_schema :: "llm_tool list \<Rightarrow> utext \<Rightarrow> llm_tool option" where
  "find_llm_tool_schema tools name = find (\<lambda>t. tool_name_equal (lt_name t) name) tools"

definition tool_parameter_names :: "llm_tool option \<Rightarrow> utext list" where
  "tool_parameter_names t = (case t of None \<Rightarrow> [] | Some x \<Rightarrow> keys (properties_of (lt_parameters x)))"

subsection \<open>The number of search results\<close>

definition WEBSEARCH_RESULT_LIMIT :: int where
  "WEBSEARCH_RESULT_LIMIT = 3"

definition WEBSEARCH_RESULT_LIMIT_ARG_NAMES :: "utext list" where
  "WEBSEARCH_RESULT_LIMIT_ARG_NAMES = map u
     [''count'', ''limit'', ''top_k'', ''topK'', ''page_size'', ''pageSize'', ''num_results'', ''numResults'',
      ''max_results'', ''maxResults'']"

definition limit_argument :: "utext \<Rightarrow> udict \<Rightarrow> udict" where
  "limit_argument name args =
     (case map_of args name of
        None \<Rightarrow> args
      | Some v \<Rightarrow>
          (case u_int v of
             Inl _ \<Rightarrow> AList.update name (UInt WEBSEARCH_RESULT_LIMIT) args
           | Inr i \<Rightarrow>
               if i \<le> 0 \<or> i > WEBSEARCH_RESULT_LIMIT
               then AList.update name (UInt WEBSEARCH_RESULT_LIMIT) args else args))"

definition limit_websearch_args :: "pylib \<Rightarrow> utext \<Rightarrow> llm_tool option \<Rightarrow> udict \<Rightarrow> udict" where
  "limit_websearch_args L tool_name schema args =
     (if \<not> is_websearch_tool_name L tool_name then args
      else
        let supported = filter (\<lambda>n. n \<in> set (tool_parameter_names schema) \<or> n \<in> set (keys args))
              WEBSEARCH_RESULT_LIMIT_ARG_NAMES in
        if supported = [] then args
        else if \<not> list_ex (\<lambda>n. n \<in> set (keys args)) supported
        then AList.update (hd supported) (UInt WEBSEARCH_RESULT_LIMIT) args
        else fold limit_argument supported args)"

subsection \<open>The time of an alarm\<close>

definition replace_char :: "int \<Rightarrow> utext \<Rightarrow> utext \<Rightarrow> utext" where
  "replace_char c r t = concat (map (\<lambda>x. if x = c then r else [x]) t)"

definition first_some :: "('a \<Rightarrow> 'b option) \<Rightarrow> 'a list \<Rightarrow> 'b option" where
  "first_some f xs = (case find (\<lambda>x. f x \<noteq> None) xs of None \<Rightarrow> None | Some x \<Rightarrow> f x)"

definition parse_alarm_datetime :: "pylib \<Rightarrow> clock_lib \<Rightarrow> uvalue \<Rightarrow> int option" where
  \<comment> \<open>an instant; a time without a zone is one of the runtime's zone\<close>
  "parse_alarm_datetime L K v =
     (if v = UNull then None
      else
        let t = u_strip (u_str L v) in
        if t = [] then None
        else
          let t1 = u_strip (replace_char 47 (u ''-'') (replace_char 0x65E5 (u '' '')
                 (replace_char 0x6708 (u ''-'') (replace_char 0x5E74 (u ''-'') t))));
              t2 = (if u_ends t1 (u ''Z'') then butlast t1 @ u ''+00:00'' else t1);
              candidates = t2 # (if 84 \<in> set t2 then [replace_char 84 (u '' '') t2] else []) in
          (case first_some (from_iso K) candidates of
             Some i \<Rightarrow> Some i
           | None \<Rightarrow> first_some (\<lambda>fmt. parse_time K fmt t2)
               [''%Y-%m-%d %H:%M:%S'', ''%Y-%m-%d %H:%M'', ''%Y-%m-%d'']))"

definition format_alarm_datetime_for_tool :: "pylib \<Rightarrow> clock_lib \<Rightarrow> uvalue \<Rightarrow> utext option" where
  "format_alarm_datetime_for_tool L K v = map_option (print_time K) (parse_alarm_datetime L K v)"

definition validate_alarm_time_for_tool ::
  "pylib \<Rightarrow> clock_lib \<Rightarrow> int \<Rightarrow> utext \<Rightarrow> udict \<Rightarrow> utext option" where
  \<comment> \<open>the text that refuses the call, if any\<close>
  "validate_alarm_time_for_tool L K now tool_name args =
     (if \<not> is_create_alarm_tool tool_name then None
      else
        let alarm_time = uget args ''alarm_time'' in
        case parse_alarm_datetime L K alarm_time of
          None \<Rightarrow> Some ([0x5DE5, 0x5177, 0x672A, 0x6267, 0x884C, 0xFF1A, 0x63, 0x72,
            0x65, 0x61, 0x74, 0x65, 0x5F, 0x61, 0x6C, 0x61, 0x72, 0x6D, 0x20, 0x7684, 0x63D0,
            0x9192, 0x65F6, 0x95F4, 0x683C, 0x5F0F, 0x4E0D, 0x6B63, 0x786E, 0x3002, 0x8BF7,
            0x4F7F, 0x7528, 0x20, 0x59, 0x59, 0x59, 0x59, 0x2D, 0x4D, 0x4D, 0x2D, 0x44, 0x44,
            0x20, 0x48, 0x48, 0x3A, 0x6D, 0x6D, 0x3A, 0x73, 0x73, 0x20, 0x683C, 0x5F0F, 0xFF0C,
            0x5F53, 0x524D, 0x8F93, 0x5165, 0xFF1A]
            @ py_repr K alarm_time @ [0x3002])
        | Some t \<Rightarrow>
            if t \<ge> now then None
            else Some ([0x5DE5, 0x5177, 0x672A, 0x6267, 0x884C, 0xFF1A, 0x6A21, 0x578B, 0x751F,
              0x6210, 0x7684, 0x63D0, 0x9192, 0x65F6, 0x95F4,
              0x20] @ py_repr K alarm_time @ [0x20, 0x65E9, 0x4E8E, 0x5F53, 0x524D, 0x7CFB,
              0x7EDF, 0x65F6, 0x95F4, 0x20] @ print_now K now
              @ [0x3002, 0x8BF7, 0x6839, 0x636E, 0x7528, 0x6237, 0x539F, 0x59CB, 0x9700, 0x6C42,
                0x91CD, 0x65B0, 0x6362, 0x7B97, 0x4E00, 0x4E2A, 0x672A, 0x6765, 0x65F6, 0x95F4,
                0x540E, 0x518D, 0x6B21, 0x8C03, 0x7528, 0x20, 0x63, 0x72, 0x65, 0x61, 0x74,
                0x65, 0x5F, 0x61, 0x6C, 0x61, 0x72, 0x6D, 0xFF1B, 0x5982, 0x679C, 0x65E0,
                0x6CD5, 0x786E, 0x5B9A, 0x6B63, 0x786E, 0x65F6, 0x95F4, 0xFF0C, 0x8BF7, 0x5411,
                0x7528, 0x6237, 0x786E, 0x8BA4, 0x3002]))"

subsection \<open>Failures\<close>

definition FAILURE_MESSAGES :: "(string list \<times> utext) list" where
  \<comment> \<open>for the time being I could not do this action, start a map, patrol, follow, go charging, dance,
    sing, make a video call, detect gestures, detect pets, look around, cancel the task; I did not
    find the weather, the time; I did not convert the time\<close>
  "FAILURE_MESSAGES =
    [([''.move_robot''], [0x6211, 0x8FD9, 0x8FB9, 0x6682, 0x65F6, 0x6CA1, 0x80FD, 0x5B8C,
      0x6210, 0x8FD9, 0x4E2A, 0x52A8, 0x4F5C, 0xFF0C, 0x4F60, 0x7A0D, 0x540E, 0x518D, 0x8BA9,
      0x6211, 0x8BD5, 0x4E00, 0x6B21, 0x5427, 0x3002]),
     ([''.create_map''], [0x6211, 0x8FD9, 0x8FB9, 0x6682, 0x65F6, 0x6CA1, 0x80FD, 0x5F00,
       0x59CB, 0x521B, 0x5EFA, 0x5730, 0x56FE, 0xFF0C, 0x4F60, 0x7A0D, 0x540E, 0x518D, 0x8BA9,
       0x6211, 0x8BD5, 0x4E00, 0x6B21, 0x5427, 0x3002]),
     ([''.patrol''], [0x6211, 0x8FD9, 0x8FB9, 0x6682, 0x65F6, 0x6CA1, 0x80FD, 0x5F00, 0x59CB,
       0x5DE1, 0x68C0, 0xFF0C, 0x4F60, 0x7A0D, 0x540E, 0x518D, 0x8BA9, 0x6211, 0x8BD5, 0x4E00,
       0x6B21, 0x5427, 0x3002]),
     ([''.follow''], [0x6211, 0x8FD9, 0x8FB9, 0x6682, 0x65F6, 0x6CA1, 0x80FD, 0x5F00, 0x59CB,
       0x8FFD, 0x968F, 0xFF0C, 0x4F60, 0x7A0D, 0x540E, 0x518D, 0x8BA9, 0x6211, 0x8BD5, 0x4E00,
       0x6B21, 0x5427, 0x3002]),
     ([''.recharge_robot'', ''.return_to_charge''], [0x6211, 0x8FD9, 0x8FB9, 0x6682, 0x65F6,
       0x6CA1, 0x80FD, 0x5F00, 0x59CB, 0x56DE, 0x6869, 0x5145, 0x7535, 0xFF0C, 0x4F60, 0x7A0D,
       0x540E, 0x518D, 0x8BA9, 0x6211, 0x8BD5, 0x4E00, 0x6B21, 0x5427, 0x3002]),
     ([''.dance''], [0x6211, 0x8FD9, 0x8FB9, 0x6682, 0x65F6, 0x6CA1, 0x80FD, 0x5F00, 0x59CB,
       0x8DF3, 0x821E, 0xFF0C, 0x4F60, 0x7A0D, 0x540E, 0x518D, 0x8BA9, 0x6211, 0x8BD5, 0x4E00,
       0x6B21, 0x5427, 0x3002]),
     ([''.play_song''], [0x6211, 0x8FD9, 0x8FB9, 0x6682, 0x65F6, 0x6CA1, 0x80FD, 0x5F00, 0x59CB,
       0x5531, 0x6B4C, 0xFF0C, 0x4F60, 0x7A0D, 0x540E, 0x518D, 0x8BA9, 0x6211, 0x8BD5, 0x4E00,
       0x6B21, 0x5427, 0x3002]),
     ([''.call_video''], [0x6211, 0x8FD9, 0x8FB9, 0x6682, 0x65F6, 0x6CA1, 0x80FD, 0x547C,
       0x53EB, 0x89C6, 0x9891, 0x7535, 0x8BDD, 0xFF0C, 0x4F60, 0x7A0D, 0x540E, 0x518D, 0x8BA9,
       0x6211, 0x8BD5, 0x4E00, 0x6B21, 0x5427, 0x3002]),
     ([''.detect_gesture''], [0x6211, 0x8FD9, 0x8FB9, 0x6682, 0x65F6, 0x6CA1, 0x80FD, 0x5F00,
       0x59CB, 0x624B, 0x52BF, 0x68C0, 0x6D4B, 0xFF0C, 0x4F60, 0x7A0D, 0x540E, 0x518D, 0x8BA9,
       0x6211, 0x8BD5, 0x4E00, 0x6B21, 0x5427, 0x3002]),
     ([''.detect_pet''], [0x6211, 0x8FD9, 0x8FB9, 0x6682, 0x65F6, 0x6CA1, 0x80FD, 0x5F00,
       0x59CB, 0x5BA0, 0x7269, 0x68C0, 0x6D4B, 0xFF0C, 0x4F60, 0x7A0D, 0x540E, 0x518D, 0x8BA9,
       0x6211, 0x8BD5, 0x4E00, 0x6B21, 0x5427, 0x3002]),
     ([''.understand_environment''], [0x6211, 0x8FD9, 0x8FB9, 0x6682, 0x65F6, 0x6CA1, 0x80FD,
       0x5F00, 0x59CB, 0x73AF, 0x5883, 0x7406, 0x89E3, 0xFF0C, 0x4F60, 0x7A0D, 0x540E, 0x518D,
       0x8BA9, 0x6211, 0x8BD5, 0x4E00, 0x6B21, 0x5427, 0x3002]),
     ([''.cancel_robot_task''], [0x6211, 0x8FD9, 0x8FB9, 0x6682, 0x65F6, 0x6CA1, 0x80FD, 0x53D6,
       0x6D88, 0x5F53, 0x524D, 0x4EFB, 0x52A1, 0xFF0C, 0x4F60, 0x7A0D, 0x540E, 0x518D, 0x8BA9,
       0x6211, 0x8BD5, 0x4E00, 0x6B21, 0x5427, 0x3002]),
     ([''.get_weather''], [0x6211, 0x8FD9, 0x8FB9, 0x6682, 0x65F6, 0x6CA1, 0x67E5, 0x5230,
       0x5929, 0x6C14, 0xFF0C, 0x4F60, 0x7A0D, 0x540E, 0x518D, 0x95EE, 0x6211, 0x4E00, 0x6B21,
       0x5427, 0x3002]),
     ([''.get_now_context''], [0x6211, 0x8FD9, 0x8FB9, 0x6682, 0x65F6, 0x6CA1, 0x62FF, 0x5230,
       0x5F53, 0x524D, 0x65F6, 0x95F4, 0x4FE1, 0x606F, 0xFF0C, 0x4F60, 0x7A0D, 0x540E, 0x518D,
       0x95EE, 0x6211, 0x4E00, 0x6B21, 0x5427, 0x3002]),
     ([''.format_timestamp''], [0x6211, 0x8FD9, 0x8FB9, 0x6682, 0x65F6, 0x6CA1, 0x6362, 0x7B97,
       0x6210, 0x529F, 0x8FD9, 0x4E2A, 0x65F6, 0x95F4, 0xFF0C, 0x4F60, 0x7A0D, 0x540E, 0x518D,
       0x8BD5, 0x4E00, 0x6B21, 0x5427, 0x3002])]"

definition build_tool_failure_message :: "pylib \<Rightarrow> utext \<Rightarrow> utext" where
  "build_tool_failure_message L name =
     (case find (\<lambda>(suffixes, _). list_ex (tool_name_matches name) suffixes) FAILURE_MESSAGES of
        Some (_, message) \<Rightarrow> message
      | None \<Rightarrow>
          if is_websearch_tool_name L name then [0x6211, 0x8FD9, 0x8FB9, 0x6682, 0x65F6, 0x6CA1,
            0x67E5, 0x5230, 0x4F60, 0x8981, 0x7684, 0x4FE1, 0x606F, 0xFF0C, 0x4F60, 0x7A0D,
            0x540E, 0x518D, 0x95EE, 0x6211, 0x4E00, 0x6B21, 0x5427, 0x3002]
          else [0x6211, 0x8FD9, 0x8FB9, 0x6682, 0x65F6, 0x6CA1, 0x5904, 0x7406, 0x6210, 0x529F,
            0xFF0C, 0x4F60, 0x7A0D, 0x540E, 0x518D, 0x8BD5, 0x4E00, 0x6B21, 0x5427, 0x3002])"

definition direct_robot_result_to_speech :: "pylib \<Rightarrow> utext \<Rightarrow> utext \<Rightarrow> utext" where
  "direct_robot_result_to_speech L tool_name result_text =
     (let failure = build_tool_failure_message L tool_name in
      if result_text = [] then []
      else if result_text = failure \<or> u_starts result_text [0x6211, 0x8FD9, 0x8FB9, 0x6682,
        0x65F6] \<or> u_starts result_text [0x5DE5, 0x5177, 0x672A, 0x6267, 0x884C]
      then result_text
      else if list_ex (\<lambda>w. u_in w result_text) [[0x5931, 0x8D25], [0x9519, 0x8BEF],
        [0x65E0, 0x6CD5], [0x672A, 0x80FD], [0x8D85, 0x65F6]] then failure
      else [])"

record call_error =
  ce_network :: bool
  ce_timeout :: bool
  ce_text :: utext

definition is_transient_websearch_error :: "pylib \<Rightarrow> call_error \<Rightarrow> bool" where
  \<comment> \<open>\<open>ce_network\<close>: the exception is a timeout, a connection, system or gRPC error\<close>
  "is_transient_websearch_error L e =
     (ce_network e
      \<or> list_ex (\<lambda>w. u_in w (u_lower L (ce_text e)))
          ([u ''timeout'', u ''timed out'', [0x8D85, 0x65F6], u ''connection'', [0x8FDE, 0x63A5]]
           @ map u [''temporarily unavailable'', ''temporary failure'', ''session closed'', ''channel closed'',
               ''broken pipe'', ''reset by peer'', ''429'', ''502'', ''503'', ''504'']))"

subsection \<open>The call\<close>

record tool_session =
  ts_session_id :: utext
  ts_trace_id :: utext
  ts_robot_id :: utext
  ts_tts_profile_id :: uvalue
  ts_tools :: "llm_tool list"
  ts_robot_tools :: "utext list"

definition prepare_tools :: "mcp_manager \<Rightarrow> utext list \<Rightarrow> mcp_manager \<times> llm_tool list \<times> utext list" where
  \<comment> \<open>the tools of a bot, and the real names of those that take a \<open>robot_id\<close>\<close>
  "prepare_tools m bot_servers =
     (let (m1, offered) = get_tools_for_llm (Some bot_servers) m;
          raw = offered_tools offered
      in (m1, hide_session_robot_id_from_tools raw,
          map (\<lambda>t. resolve_tool_name m1 (lt_name t))
            (filter (\<lambda>t. tool_accepts_robot_id t \<and> lt_name t \<noteq> []) raw)))"

definition NO_IDENTITY :: utext where
  \<comment> \<open>for now I cannot tell which robot this is, so I did not do it\<close>
  "NO_IDENTITY = [0x6211, 0x8FD9, 0x8FB9, 0x6682, 0x65F6, 0x65E0, 0x6CD5, 0x786E, 0x8BA4,
    0x5F53, 0x524D, 0x673A, 0x5668, 0x4EBA, 0x8EAB, 0x4EFD, 0xFF0C, 0x6240, 0x4EE5, 0x6CA1,
    0x6709, 0x6267, 0x884C, 0x8FD9, 0x4E2A, 0x64CD, 0x4F5C, 0x3002]"

definition call_meta :: "tool_session \<Rightarrow> udict" where
  "call_meta s =
     (if ts_session_id s \<noteq> [] then [(u ''session_id'', UText (ts_session_id s))] else [])
     @ (if ts_trace_id s \<noteq> [] then [(u ''trace_id'', UText (ts_trace_id s))] else [])"

definition clean_arguments ::
  "pylib \<Rightarrow> clock_lib \<Rightarrow> tool_session \<Rightarrow> utext \<Rightarrow> utext \<Rightarrow> udict \<Rightarrow> udict" where
  \<comment> \<open>without the model's \<open>_meta\<close>, with limits and the time of an alarm rewritten\<close>
  "clean_arguments L K s tool_name resolved args =
     (let schema = (case find_llm_tool_schema (ts_tools s) tool_name of
                      Some t \<Rightarrow> Some t
                    | None \<Rightarrow> find_llm_tool_schema (ts_tools s) resolved);
          limited = limit_websearch_args L resolved schema (AList.delete (u ''_meta'') args)
      in if is_create_alarm_tool resolved
         then (case format_alarm_datetime_for_tool L K (uget limited ''alarm_time'') of
                 Some t \<Rightarrow> if t = [] then limited else AList.update (u ''alarm_time'') (UText t) limited
               | None \<Rightarrow> limited)
         else limited)"

definition identify_call :: "tool_session \<Rightarrow> utext \<Rightarrow> udict \<Rightarrow> utext + udict" where
  \<comment> \<open>the identity of the session, where the tool takes it; \<open>Inl\<close>: the call is refused\<close>
  "identify_call s resolved args =
     (if resolved \<in> set (ts_robot_tools s) then
        if ts_robot_id s = [] then Inl NO_IDENTITY
        else
          let args1 = AList.update (u ''robot_id'') (UText (ts_robot_id s)) args in
          Inr (if is_robot_tool resolved \<and> call_meta s \<noteq> []
               then AList.update (u ''_meta'') (UObj (call_meta s)) args1 else args1)
      else if is_singing_tool resolved
      then Inr (AList.update (u ''_meta'')
                  (UObj ((u ''tts_profile_id'', ts_tts_profile_id s) # call_meta s)) args)
      else Inr args)"

definition guard_call ::
  "pylib \<Rightarrow> clock_lib \<Rightarrow> int \<Rightarrow> mcp_manager \<Rightarrow> tool_session \<Rightarrow> utext \<Rightarrow> udict \<Rightarrow> utext + udict" where
  \<comment> \<open>the first part of \<open>tool_executor\<close>: the arguments that are sent, or the text that refuses\<close>
  "guard_call L K now m s tool_name args =
     (let resolved = resolve_tool_name m tool_name in
      and_then (identify_call s resolved (clean_arguments L K s tool_name resolved args)) (\<lambda>final.
      case validate_alarm_time_for_tool L K now resolved final of
        Some refusal \<Rightarrow> Inl refusal
      | None \<Rightarrow> Inr final))"

fun attempt_call :: "pylib \<Rightarrow> ('v + call_error) list \<Rightarrow> nat \<times> ('v + call_error) option" where
  \<comment> \<open>one element for each attempt allowed; the attempts made and the last outcome\<close>
  "attempt_call L [] = (0, None)"
| "attempt_call L (Inl v # later) = (1, Some (Inl v))"
| "attempt_call L (Inr e # later) =
     (if later \<noteq> [] \<and> is_transient_websearch_error L e
      then (let (n, r) = attempt_call L later in (n + 1, r)) else (1, Some (Inr e)))"

datatype 'v tool_reply = Reply_Text utext | Reply_Result 'v

definition tool_executor ::
  "pylib \<Rightarrow> clock_lib \<Rightarrow> int \<Rightarrow> mcp_manager \<Rightarrow> tool_session \<Rightarrow> (udict \<Rightarrow> ('v + call_error) \<times> ('v + call_error))
    \<Rightarrow> utext \<Rightarrow> udict \<Rightarrow> 'v tool_reply \<times> udict option \<times> nat" where
  \<comment> \<open>\<open>server\<close> gives the outcomes of a first and a second attempt; the result: the reply, the
    arguments sent, and how often\<close>
  "tool_executor L K now m s server tool_name args =
     (let resolved = resolve_tool_name m tool_name in
      case guard_call L K now m s tool_name args of
        Inl refusal \<Rightarrow> (Reply_Text refusal, None, 0)
      | Inr final \<Rightarrow>
          let (first, second) = server final;
              (n, outcome) = attempt_call L
                (if is_websearch_tool_name L resolved then [first, second] else [first])
          in (case outcome of
                Some (Inl v) \<Rightarrow> Reply_Result v
              | _ \<Rightarrow> Reply_Text (build_tool_failure_message L resolved),
              Some final, n))"

subsection \<open>The calls of a workflow\<close>

datatype 'v step_call = Step_Failed string | Step_Called 'v

definition prepare_workflow_tools :: "mcp_manager \<Rightarrow> utext list \<Rightarrow> mcp_manager \<times> (utext \<times> llm_tool) list" where
  \<comment> \<open>the tools of a bot by the names the plan uses, with the hidden parameters\<close>
  "prepare_workflow_tools m bot_servers =
     (let (m1, offered) = get_tools_for_llm (Some bot_servers) m;
          raw = offered_tools offered
      in (m1, map (\<lambda>(safe, t). (lt_name safe, t))
                (filter (\<lambda>(safe, _). lt_name safe \<noteq> [])
                  (zip (hide_session_robot_id_from_tools raw) raw))))"

definition guard_workflow_call ::
  "pylib \<Rightarrow> clock_lib \<Rightarrow> int \<Rightarrow> mcp_manager \<Rightarrow> (utext \<times> llm_tool) list \<Rightarrow> utext \<Rightarrow> utext \<Rightarrow> udict
    \<Rightarrow> string + udict" where
  \<comment> \<open>the checks of \<open>_workflow_execute_step\<close>: an error code, or the arguments that are sent\<close>
  "guard_workflow_call L K now m raw_by_name robot_id tool_name args =
     (case map_of raw_by_name tool_name of
        None \<Rightarrow> Inl ''tool_unavailable''
      | Some raw \<Rightarrow>
          let resolved = resolve_tool_name m tool_name in
          if tool_accepts_robot_id raw \<and> robot_id = [] then Inl ''robot_id_required''
          else
            let args1 = (if tool_accepts_robot_id raw
                         then AList.update (u ''robot_id'') (UText robot_id) args else args) in
            if validate_alarm_time_for_tool L K now resolved args1 \<noteq> None then Inl ''invalid_alarm_time''
            else Inr (limit_websearch_args L resolved (Some raw) args1))"

definition workflow_execute_tool ::
  "pylib \<Rightarrow> clock_lib \<Rightarrow> int \<Rightarrow> mcp_manager \<Rightarrow> (utext \<times> llm_tool) list \<Rightarrow> utext
    \<Rightarrow> (udict \<Rightarrow> ('v + call_error) \<times> ('v + call_error)) \<Rightarrow> ('v \<Rightarrow> bool) \<Rightarrow> utext \<Rightarrow> udict
    \<Rightarrow> 'v step_call \<times> udict option \<times> nat" where
  \<comment> \<open>\<open>failed\<close> is \<open>_tool_result_looks_failed\<close>\<close>
  "workflow_execute_tool L K now m raw_by_name robot_id server failed tool_name args =
     (case guard_workflow_call L K now m raw_by_name robot_id tool_name args of
        Inl code \<Rightarrow> (Step_Failed code, None, 0)
      | Inr final \<Rightarrow>
          let (first, second) = server final;
              (n, outcome) = attempt_call L
                (if is_websearch_tool_name L (resolve_tool_name m tool_name) then [first, second] else [first])
          in (case outcome of
                Some (Inl v) \<Rightarrow> if failed v then Step_Failed ''tool_failed'' else Step_Called v
              | Some (Inr e) \<Rightarrow> Step_Failed (if ce_timeout e then ''tool_timeout'' else ''tool_error'')
              | None \<Rightarrow> Step_Failed ''tool_error'',
              Some final, n))"

end
