(* ===== verification/Tool_Guard_Facts.thy ===== *)
theory Tool_Guard_Facts
  imports Tool_Guard
begin

text \<open>
  What reaches a remote tool: the identity of the session and not one the model made up, a bounded
  number of search results, and no alarm in the past.
\<close>

subsection \<open>Arguments\<close>

lemma uget_update: "uget (AList.update k v d) s = (if u s = k then v else uget d s)"
  by (simp add: uget_def map_of_update)

lemma uget_delete: "uget (AList.delete k d) s = (if u s = k then UNull else uget d s)"
  by (simp add: uget_def map_of_delete)

lemma limit_argument_other: "k \<noteq> name \<Longrightarrow> map_of (limit_argument name args) k = map_of args k"
  by (simp add: limit_argument_def map_of_update split: option.split sum.split)

lemma fold_limit_other:
  "k \<notin> set names \<Longrightarrow> map_of (fold limit_argument names args) k = map_of args k"
  by (induction names arbitrary: args) (simp_all add: limit_argument_other)

definition small_count :: "uvalue \<Rightarrow> bool" where
  "small_count v \<longleftrightarrow> (\<exists>i. u_int v = Inr i \<and> 1 \<le> i \<and> i \<le> WEBSEARCH_RESULT_LIMIT)"

lemma limit_is_small: "small_count (UInt WEBSEARCH_RESULT_LIMIT)"
  by (simp add: small_count_def WEBSEARCH_RESULT_LIMIT_def)

lemma limit_argument_small: "map_of (limit_argument name args) name = Some v \<Longrightarrow> small_count v"
  using limit_is_small
  by (auto simp: limit_argument_def map_of_update small_count_def split: option.splits sum.splits if_splits)

lemma fold_limit_small:
  "name \<in> set names \<Longrightarrow> map_of (fold limit_argument names args) name = Some v \<Longrightarrow> small_count v"
proof (induction names arbitrary: args)
  case (Cons n names)
  show ?case
  proof (cases "name \<in> set names")
    case False
    with Cons.prems have "n = name" by simp
    with Cons.prems(2) False show ?thesis
      using limit_argument_small [of name args v] by (simp add: fold_limit_other)
  qed (use Cons in simp)
qed simp

lemma keys_fold_limit: "set (keys (fold limit_argument names args)) = set (keys args)"
proof (induction names arbitrary: args)
  case (Cons n names)
  have "set (keys (limit_argument n args)) = set (keys args)"
    by (auto simp: limit_argument_def keys_update map_of_eq_None_iff split: option.splits sum.splits
        simp del: set_map dest: map_of_SomeD intro: weak_map_of_SomeI)
      (metis map_of_SomeD weak_map_of_SomeI set_map image_eqI fst_conv)+
  with Cons show ?case by simp
qed simp

text \<open>A call of a search tool asks for one to three results in every parameter that limits
  them, asks for a limit whenever the tool has a parameter for it, and keeps all other arguments.\<close>

theorem search_results_are_limited:
  assumes "is_websearch_tool_name L tool_name"
    and "out = limit_websearch_args L tool_name schema args"
  shows "(\<forall>name \<in> set WEBSEARCH_RESULT_LIMIT_ARG_NAMES. case map_of out name of
        None \<Rightarrow> True | Some v \<Rightarrow> \<exists>i. u_int v = Inr i \<and> 1 \<le> i \<and> i \<le> 3)
    \<and> (set WEBSEARCH_RESULT_LIMIT_ARG_NAMES \<inter> set (tool_parameter_names schema) \<noteq> {} \<longrightarrow>
        set WEBSEARCH_RESULT_LIMIT_ARG_NAMES \<inter> set (keys out) \<noteq> {})
    \<and> (\<forall>k. k \<notin> set WEBSEARCH_RESULT_LIMIT_ARG_NAMES \<longrightarrow> map_of out k = map_of args k)"
proof -
  let ?names = WEBSEARCH_RESULT_LIMIT_ARG_NAMES
  define supported where "supported = filter (\<lambda>n. n \<in> set (tool_parameter_names schema) \<or> n \<in> set (keys args)) ?names"
  have small: "(case map_of out name of None \<Rightarrow> True | Some v \<Rightarrow> small_count v)
      \<Longrightarrow> (case map_of out name of None \<Rightarrow> True | Some v \<Rightarrow> \<exists>i. u_int v = Inr i \<and> 1 \<le> i \<and> i \<le> 3)" for name
    by (simp add: small_count_def WEBSEARCH_RESULT_LIMIT_def split: option.splits)
  have missing: "map_of args name = None" if "name \<in> set ?names" "name \<notin> set supported" for name
    using that by (auto simp: supported_def map_of_eq_None_iff)
  consider (none) "supported = []" "out = args"
    | (absent) "supported \<noteq> []" "\<not> list_ex (\<lambda>n. n \<in> set (keys args)) supported"
        "out = AList.update (hd supported) (UInt WEBSEARCH_RESULT_LIMIT) args"
    | (present) "supported \<noteq> []" "list_ex (\<lambda>n. n \<in> set (keys args)) supported" "out = fold limit_argument supported args"
    using assms by (simp add: limit_websearch_args_def Let_def supported_def split: if_splits)
  then show ?thesis
  proof cases
    case none
    then have "map_of out name = None" if "name \<in> set ?names" for name using missing that by simp
    moreover have "set ?names \<inter> set (tool_parameter_names schema) = {}"
      using none(1) by (auto simp: supported_def filter_empty_conv)
    ultimately show ?thesis using none(2) by simp
  next
    case absent
    have first: "hd supported \<in> set ?names" using absent(1) hd_in_set supported_def by fastforce
    have "map_of args name = None" if "name \<in> set ?names" for name
      using absent(2) missing [OF that] by (auto simp: list_ex_iff map_of_eq_None_iff)
    then have "case map_of out name of None \<Rightarrow> True | Some v \<Rightarrow> small_count v" if "name \<in> set ?names" for name
      using that limit_is_small by (simp add: absent(3) map_of_update)
    moreover have "hd supported \<in> set (keys out)" by (simp add: absent(3) keys_update del: set_map)
    moreover have "map_of out k = map_of args k" if "k \<notin> set ?names" for k
      using that first by (auto simp: absent(3) map_of_update)
    ultimately show ?thesis using small first by blast
  next
    case present
    have "case map_of out name of None \<Rightarrow> True | Some v \<Rightarrow> small_count v" if "name \<in> set ?names" for name
    proof (cases "name \<in> set supported")
      case True
      then show ?thesis using fold_limit_small [OF True] by (simp add: present(3) split: option.split)
    next
      case False
      then show ?thesis using missing [OF that False] by (simp add: present(3) fold_limit_other)
    qed
    moreover have "set ?names \<inter> set (keys out) \<noteq> {}"
      using present(2) keys_fold_limit [of supported args] by (auto simp: present(3) list_ex_iff supported_def)
    moreover have "map_of out k = map_of args k" if "k \<notin> set ?names" for k
      using that by (simp add: present(3) fold_limit_other supported_def)
    ultimately show ?thesis using small by blast
  qed
qed

lemma search_results_are_limited_witness:
  "\<exists>v. map_of (limit_websearch_args exact_lib (u ''websearch.search'') None [(u ''topK'', UText (u ''50''))])
      (u ''topK'') = Some v \<and> (\<exists>i. u_int v = Inr i \<and> 1 \<le> i \<and> i \<le> 3)"
proof -
  let ?out = "limit_websearch_args exact_lib (u ''websearch.search'') None [(u ''topK'', UText (u ''50''))]"
  have "is_websearch_tool_name exact_lib (u ''websearch.search'')" by code_simp
  from search_results_are_limited [OF this refl, of None "[(u ''topK'', UText (u ''50''))]"]
  have "case map_of ?out (u ''topK'') of None \<Rightarrow> True | Some v \<Rightarrow> \<exists>i. u_int v = Inr i \<and> 1 \<le> i \<and> i \<le> 3"
    by (auto simp: WEBSEARCH_RESULT_LIMIT_ARG_NAMES_def)
  moreover have "map_of ?out (u ''topK'') \<noteq> None" by code_simp
  ultimately show ?thesis by (auto split: option.splits)
qed

subsection \<open>What the model sees\<close>

text \<open>The tools are shown to the model without the parameter \<open>robot_id\<close>: it is neither a property
  nor required, and nothing else of the properties changes.\<close>

theorem model_never_sees_robot_id:
  assumes "tool_accepts_robot_id t"
  shows "properties_of (lt_parameters (hide_robot_id t))
        = AList.delete (u ''robot_id'') (properties_of (lt_parameters t))
    \<and> \<not> tool_accepts_robot_id (hide_robot_id t)
    \<and> lt_name (hide_robot_id t) = lt_name t
    \<and> (case uget (lt_parameters (hide_robot_id t)) ''required'' of
         UArr xs \<Rightarrow> UText (u ''robot_id'') \<notin> set xs
           \<and> (\<exists>ys. uget (lt_parameters t) ''required'' = UArr ys
               \<and> set ys \<subseteq> insert (UText (u ''robot_id'')) (set xs))
       | v \<Rightarrow> v = uget (lt_parameters t) ''required'')"
proof -
  let ?p = "AList.update (u ''properties'')
      (UObj (AList.delete (u ''robot_id'') (properties_of (lt_parameters t)))) (lt_parameters t)"
  have hidden: "lt_parameters (hide_robot_id t) = hide_required ?p"
    using assms by (simp add: hide_robot_id_def)
  have same: "uget ?p ''required'' = uget (lt_parameters t) ''required''" by (simp add: uget_update)
  have "uget (hide_required ?p) ''properties'' = uget ?p ''properties''"
    by (simp add: hide_required_def uget_update split: uvalue.split)
  then have props: "properties_of (hide_required ?p) = AList.delete (u ''robot_id'') (properties_of (lt_parameters t))"
    by (simp add: properties_of_def [of "hide_required ?p"] uget_update)
  have "u ''robot_id'' \<notin> set (keys (AList.delete (u ''robot_id'') (properties_of (lt_parameters t))))"
    by (simp add: keys_delete del: set_map)
  then have "\<not> tool_accepts_robot_id (hide_robot_id t)"
    by (simp add: tool_accepts_robot_id_def hidden props del: set_map)
  moreover have "lt_name (hide_robot_id t) = lt_name t" by (simp add: hide_robot_id_def)
  moreover have "case uget (hide_required ?p) ''required'' of
         UArr xs \<Rightarrow> UText (u ''robot_id'') \<notin> set xs
           \<and> (\<exists>ys. uget (lt_parameters t) ''required'' = UArr ys
               \<and> set ys \<subseteq> insert (UText (u ''robot_id'')) (set xs))
       | v \<Rightarrow> v = uget (lt_parameters t) ''required''"
    unfolding hide_required_def same
    by (cases "uget (lt_parameters t) ''required''") (auto simp: uget_update)
  ultimately show ?thesis using props by (simp add: hidden)
qed

lemma model_never_sees_robot_id_witness:
  "\<not> tool_accepts_robot_id (hide_robot_id \<lparr>lt_name = u ''robot__dance'', lt_description = UNull,
      lt_parameters = [(u ''properties'', UObj [(u ''robot_id'', UNull), (u ''style'', UNull)]),
        (u ''required'', UArr [UText (u ''robot_id'')])]\<rparr>)"
proof -
  have "tool_accepts_robot_id \<lparr>lt_name = u ''robot__dance'', lt_description = UNull,
      lt_parameters = [(u ''properties'', UObj [(u ''robot_id'', UNull), (u ''style'', UNull)]),
        (u ''required'', UArr [UText (u ''robot_id'')])]\<rparr>" by code_simp
  from model_never_sees_robot_id [OF this] show ?thesis by blast
qed

subsection \<open>What is sent\<close>

lemma attempt_call_count:
  "attempt_call L tries = (n, r) \<Longrightarrow> n \<le> length tries"
  by (induction L tries arbitrary: n r rule: attempt_call.induct)
    (fastforce split: if_splits prod.splits)+

lemma identify_call_ok:
  assumes "identify_call s resolved args = Inr final" and "uget args ''_meta'' = UNull"
  shows "(resolved \<in> set (ts_robot_tools s) \<longrightarrow> ts_robot_id s \<noteq> [] \<and> uget final ''robot_id'' = UText (ts_robot_id s))
    \<and> uget final ''_meta'' \<in> {UNull, UObj (call_meta s), UObj ((u ''tts_profile_id'', ts_tts_profile_id s) # call_meta s)}"
  using assms by (auto simp: identify_call_def Let_def uget_update split: if_splits)

lemma meta_not_limited: "u ''_meta'' \<notin> set WEBSEARCH_RESULT_LIMIT_ARG_NAMES"
  by (simp add: WEBSEARCH_RESULT_LIMIT_ARG_NAMES_def)

lemma limit_websearch_other:
  assumes "k \<notin> set WEBSEARCH_RESULT_LIMIT_ARG_NAMES"
  shows "map_of (limit_websearch_args L name schema args) k = map_of args k"
proof -
  have "hd (filter P WEBSEARCH_RESULT_LIMIT_ARG_NAMES) \<in> set WEBSEARCH_RESULT_LIMIT_ARG_NAMES"
    if "filter P WEBSEARCH_RESULT_LIMIT_ARG_NAMES \<noteq> []" for P
    using hd_in_set [OF that] by simp
  with assms show ?thesis
    by (auto simp: limit_websearch_args_def Let_def map_of_update intro!: fold_limit_other)
qed

lemma clean_arguments_meta: "uget (clean_arguments L K s tool_name resolved args) ''_meta'' = UNull"
  by (auto simp: clean_arguments_def Let_def uget_update uget_def limit_websearch_other [OF meta_not_limited]
      map_of_update map_of_delete split: option.split)

lemma guard_call_ok:
  assumes "guard_call L K now m s tool_name args = Inr sent"
  shows "(resolve_tool_name m tool_name \<in> set (ts_robot_tools s) \<longrightarrow>
        ts_robot_id s \<noteq> [] \<and> uget sent ''robot_id'' = UText (ts_robot_id s))
    \<and> uget sent ''_meta'' \<in> {UNull, UObj (call_meta s), UObj ((u ''tts_profile_id'', ts_tts_profile_id s) # call_meta s)}
    \<and> (is_create_alarm_tool (resolve_tool_name m tool_name) \<longrightarrow>
        (\<exists>t \<ge> now. parse_alarm_datetime L K (uget sent ''alarm_time'') = Some t))"
proof -
  let ?r = "resolve_tool_name m tool_name"
  from assms have "identify_call s ?r (clean_arguments L K s tool_name ?r args) = Inr sent"
      and valid: "validate_alarm_time_for_tool L K now ?r sent = None"
    by (auto simp: guard_call_def Let_def result_simps split: option.splits)
  from identify_call_ok [OF this(1) clean_arguments_meta] valid show ?thesis
    by (auto simp: validate_alarm_time_for_tool_def Let_def split: if_splits option.splits)
qed


subsection \<open>Samples\<close>

definition sample_tools_run :: "mcp_event list" where
  "sample_tools_run =
     [Add_Server (u ''robot'') [(u ''type'', UText (u ''sse''))], Connect (u ''robot'') 5,
      Tools_Listed 0 [(u ''dance'', UNull, [(u ''properties'', UObj [(u ''robot_id'', UNull)])])],
      Add_Server (u ''search'') [(u ''type'', UText (u ''sse''))], Connect (u ''search'') 6,
      Tools_Listed 1 [(u ''find'', UNull, [])]]"

definition sample_clock :: clock_lib where
  "sample_clock = \<lparr>from_iso = (\<lambda>_. None), parse_time = (\<lambda>_ _. None), print_time = (\<lambda>_. []),
     print_now = (\<lambda>_. []), py_repr = (\<lambda>_. [])\<rparr>"

definition sample_tool_session :: "utext list \<Rightarrow> tool_session" where
  \<comment> \<open>of a bot bound to the servers, for the robot r1\<close>
  "sample_tool_session bot_servers =
     (let (_, tools, robots) = prepare_tools (run_state mcp_step (new_mcp_manager 30) sample_tools_run) bot_servers in
      \<lparr>ts_session_id = u ''s1'', ts_trace_id = [], ts_robot_id = u ''r1'', ts_tts_profile_id = UNull,
       ts_tools = tools, ts_robot_tools = robots\<rparr>)"

definition sample_tool_manager :: mcp_manager where
  "sample_tool_manager = fst (prepare_tools (run_state mcp_step (new_mcp_manager 30) sample_tools_run) [u ''robot''])"


text \<open>The check is on the tools that were offered, and nothing makes the model keep to them: a bot
  bound to the search server only can call a tool of the robot by its real name, with a robot of
  the model's choice.\<close>

lemma unlisted_tool_escapes:
  "fst (snd (tool_executor exact_lib sample_clock 0 sample_tool_manager (sample_tool_session [u ''search''])
      (\<lambda>_. (Inl (), Inl ())) (u ''robot.dance'') [(u ''robot_id'', UText (u ''r9''))]))
    = Some [(u ''robot_id'', UText (u ''r9''))]"
  by code_simp

text \<open>A workflow sends the \<open>_meta\<close> of the plan as it is.\<close>

lemma workflow_keeps_meta:
  "guard_workflow_call exact_lib sample_clock 0 sample_tool_manager
      (snd (prepare_workflow_tools sample_tool_manager [u ''search''])) (u ''r1'') (u ''search__find'')
      [(u ''_meta'', UText (u ''forged''))]
    = Inr [(u ''_meta'', UText (u ''forged''))]"
  by code_simp

end
