(* ===== verification/Router_State.thy ===== *)
theory Router_State
  imports Unicode_Text Transition
begin

text \<open>
  What the language model server keeps around its router (\<open>src/llm/llm_grpc_server.py\<close>): the routes
  that the classification of a possible workflow leaves for the chat request that follows, and
  the history the small routing model is shown, cut to a budget.
\<close>

subsection \<open>Routes\<close>

record tool_route =
  rt_kind :: utext
  rt_progress_text :: "utext option"
  rt_tool_prefix :: "utext option"
  rt_selected_tool_name :: "utext option"
  rt_require_tool_call :: bool
  rt_model_text :: "utext option"
  rt_source :: "utext option"
  rt_category :: "utext option"

type_synonym route_key = "utext \<times> utext \<times> utext \<times> utext"

type_synonym route_cache = "(route_key, seconds \<times> tool_route) odict"

definition workflow_route_key :: "route_key \<Rightarrow> route_key" where
  \<comment> \<open>of session, text, bot and robot\<close>
  "workflow_route_key k = (case k of (session_id, text, bot_id, robot_id) \<Rightarrow>
     (u_strip session_id, u_strip text, u_strip bot_id, u_strip robot_id))"

definition cache_workflow_route ::
  "seconds \<Rightarrow> seconds \<Rightarrow> route_key \<Rightarrow> tool_route \<Rightarrow> route_cache \<Rightarrow> route_cache" where
  \<comment> \<open>the clock is read twice\<close>
  "cache_workflow_route now now1 request route cache =
     (if rt_category route = Some (u ''complex'') then cache
      else
        let young = dropWhile (\<lambda>(_, t, _). t < now - 10) cache;
            key = workflow_route_key request;
            added = od_move_to_end key (AList.update key (now1, route) young)
        in od_trim 128 added)"

definition pop_workflow_route :: "seconds \<Rightarrow> route_key \<Rightarrow> route_cache \<Rightarrow> route_cache \<times> tool_route option" where
  "pop_workflow_route now request cache =
     (let key = workflow_route_key request in
      (AList.delete key cache,
       case map_of cache key of
         None \<Rightarrow> None
       | Some (t, route) \<Rightarrow> if t < now - 10 then None else Some route))"

datatype route_event =
    Classified seconds seconds route_key tool_route
  | Chat_Request seconds route_key

fun route_step :: "route_cache \<Rightarrow> route_event \<Rightarrow> route_cache \<times> tool_route option" where
  "route_step cache (Classified now now1 request route) =
     (cache_workflow_route now now1 request route cache, None)"
| "route_step cache (Chat_Request now request) = pop_workflow_route now request cache"

subsection \<open>A classification is used once\<close>

definition left_route :: "route_event list \<Rightarrow> route_key \<Rightarrow> (seconds \<times> tool_route) option" where
  \<comment> \<open>what the last classification of this request left, unless a chat request has taken it\<close>
  "left_route past key = foldl (\<lambda>left e. case e of
       Classified now now1 request route \<Rightarrow>
         if workflow_route_key request = key \<and> rt_category route \<noteq> Some (u ''complex'')
         then Some (now1, route) else left
     | Chat_Request now request \<Rightarrow> if workflow_route_key request = key then None else left) None past"

lemma left_route_snoc:
  "left_route (past @ [e]) key = (case e of
       Classified now now1 request route \<Rightarrow>
         if workflow_route_key request = key \<and> rt_category route \<noteq> Some (u ''complex'')
         then Some (now1, route) else left_route past key
     | Chat_Request now request \<Rightarrow> if workflow_route_key request = key then None else left_route past key)"
  by (cases e) (simp_all add: left_route_def)

definition route_cache_inv :: "route_cache \<Rightarrow> route_event list \<Rightarrow> bool" where
  "route_cache_inv cache past \<longleftrightarrow> distinct (keys cache) \<and> length cache \<le> 128
     \<and> (\<forall>key v. map_of cache key = Some v \<longrightarrow> left_route past key = Some v)"

lemma distinct_keys_drop: "distinct (keys d) \<Longrightarrow> distinct (keys (drop n d))"
  by (simp add: drop_map [symmetric] distinct_drop)

lemma map_of_drop: "distinct (keys d) \<Longrightarrow> map_of (drop n d) k = Some v \<Longrightarrow> map_of d k = Some v"
  by (metis distinct_keys_drop in_set_dropD map_of_SomeD map_of_eq_Some_iff)

lemma map_of_dropWhile: "distinct (keys d) \<Longrightarrow> map_of (dropWhile P d) k = Some v \<Longrightarrow> map_of d k = Some v"
  by (metis dropWhile_eq_drop map_of_drop)

lemma cache_route_inv:
  assumes inv: "route_cache_inv cache past"
  shows "route_cache_inv (cache_workflow_route now now1 request route cache)
    (past @ [Classified now now1 request route])"
proof (cases "rt_category route = Some (u ''complex'')")
  case True
  then show ?thesis using inv by (simp add: route_cache_inv_def cache_workflow_route_def left_route_snoc)
next
  case False
  define young where "young = dropWhile (\<lambda>(_, t, _). t < now - 10) cache"
  define key where "key = workflow_route_key request"
  define added where "added = od_move_to_end key (AList.update key (now1, route) young)"
  have cache': "cache_workflow_route now now1 request route cache = od_trim 128 added"
    using False by (simp add: cache_workflow_route_def Let_def young_def key_def added_def)
  have unique: "distinct (keys cache)"
    and left_by: "\<And>k v. map_of cache k = Some v \<Longrightarrow> left_route past k = Some v"
    using inv unfolding route_cache_inv_def by blast+
  have young: "distinct (keys young)"
    using unique by (simp add: young_def dropWhile_eq_drop distinct_keys_drop)
  then have added: "distinct (keys added)"
    unfolding added_def by (intro distinct_keys_move_to_end) (simp add: distinct_update)
  have entry: "map_of added k = (if k = key then Some (now1, route) else map_of young k)" for k
    using young by (simp add: added_def map_of_move_to_end map_of_update distinct_update)
  have "left_route (past @ [Classified now now1 request route]) k = Some v"
    if "map_of (od_trim 128 added) k = Some v" for k v
  proof (cases "k = key")
    case True
    then show ?thesis
      using map_of_od_trim_SomeD [OF added that] False by (simp add: entry left_route_snoc key_def)
  next
    case other: False
    then have "map_of young k = Some v" using map_of_od_trim_SomeD [OF added that] by (simp add: entry)
    then have "map_of cache k = Some v" unfolding young_def by (rule map_of_dropWhile [OF unique])
    then have left: "left_route past k = Some v" by (rule left_by)
    have "left_route (past @ [Classified now now1 request route]) k = left_route past k"
      using other by (simp only: left_route_snoc route_event.case key_def fun_upd_other split: if_split) simp
    then show ?thesis using left by (rule trans)
  qed
  then show ?thesis
    using added by (simp add: route_cache_inv_def cache' distinct_od_trim length_od_trim)
qed

lemma pop_route_inv:
  assumes inv: "route_cache_inv cache past"
  shows "route_cache_inv (fst (pop_workflow_route now request cache)) (past @ [Chat_Request now request])"
proof -
  let ?key = "workflow_route_key request"
  have "length (AList.delete ?key cache) \<le> 128"
    unfolding AList.delete_eq using inv length_filter_le le_trans unfolding route_cache_inv_def by blast
  moreover have "distinct (keys (AList.delete ?key cache))"
    using inv by (simp add: route_cache_inv_def keys_delete)
  moreover have "left_route (past @ [Chat_Request now request]) k = Some v"
    if "map_of (AList.delete ?key cache) k = Some v" for k v
    using inv that by (simp add: left_route_snoc map_of_delete route_cache_inv_def split: if_splits del: split_paired_All)
  ultimately show ?thesis by (simp add: route_cache_inv_def pop_workflow_route_def Let_def del: split_paired_All)
qed

interpretation routes: observed_system route_step route_cache_inv "\<lambda>_. True" "\<lambda>l e r. l @ [e]"
proof
  fix cache past and e :: route_event
  assume "route_cache_inv cache past"
  then show "route_cache_inv (fst (route_step cache e)) (past @ [e])"
    using cache_route_inv pop_route_inv by (cases e) simp_all
qed


definition sample_route :: tool_route where
  "sample_route = \<lparr>rt_kind = u ''tool'', rt_progress_text = None, rt_tool_prefix = None,
     rt_selected_tool_name = None, rt_require_tool_call = True, rt_model_text = None, rt_source = None,
     rt_category = Some (u ''robot'')\<rparr>"


subsection \<open>The history shown to the router\<close>

type_synonym chat_message = "utext \<times> utext"

definition total_chars :: "chat_message list \<Rightarrow> nat" where
  "total_chars ms = sum_list (map (length \<circ> snd) ms)"

fun fit_budget :: "nat \<Rightarrow> chat_message list \<Rightarrow> chat_message list" where
  \<comment> \<open>the loop: drop the oldest message, cut the last one\<close>
  "fit_budget budget [] = []"
| "fit_budget budget (m # ms) =
     (if total_chars (m # ms) \<le> budget then m # ms
      else if ms = [] then [(fst m, take budget (snd m))]
      else fit_budget budget ms)"

definition setting_at_least :: "int \<Rightarrow> int \<Rightarrow> utext option \<Rightarrow> int" where
  \<comment> \<open>the readers of the settings: the variable's text, the least value, the one for a text that
    is no number\<close>
  "setting_at_least low dflt value =
     (case value of
        None \<Rightarrow> dflt
      | Some t \<Rightarrow> (case u_int (UText (u_strip t)) of Inl _ \<Rightarrow> dflt | Inr i \<Rightarrow> max low i))"

record router_settings =
  rs_history_messages :: "utext option"
  rs_message_chars :: "utext option"
  rs_char_budget :: "utext option"
  rs_fallback_messages :: "utext option"

definition trim_router_history :: "router_settings \<Rightarrow> chat_message list \<Rightarrow> chat_message list" where
  "trim_router_history e history =
     (let max_messages = setting_at_least 1 10 (rs_history_messages e);
          limit = setting_at_least 0 200 (rs_message_chars e);
          budget = setting_at_least 0 700 (rs_char_budget e) in
      if history = [] \<or> max_messages \<le> 0 then []
      else
        let recent = drop (length history - nat max_messages) history;
            cut = (if limit > 0 then map (\<lambda>(role, t). (role, take (nat limit) t)) recent else recent)
        in if budget \<le> 0 then cut else fit_budget (nat budget) cut)"

definition fallback_history :: "router_settings \<Rightarrow> chat_message list \<Rightarrow> chat_message list option" where
  "fallback_history e ms =
     (if ms = [] then None
      else Some (drop (length ms - nat (setting_at_least 1 3 (rs_fallback_messages e))) ms))"

lemma fit_budget_total: "total_chars (fit_budget budget ms) \<le> budget"
  by (induction budget ms rule: fit_budget.induct) (auto simp: total_chars_def)

lemma fit_budget_length: "length (fit_budget budget ms) \<le> length ms"
  by (induction budget ms rule: fit_budget.induct) auto

lemma fit_budget_last:
  "ms \<noteq> [] \<Longrightarrow> fit_budget budget ms \<noteq> [] \<and> fst (last (fit_budget budget ms)) = fst (last ms)
    \<and> u_starts (snd (last ms)) (snd (last (fit_budget budget ms)))"
  by (induction budget ms rule: fit_budget.induct) (auto simp: u_starts_iff intro: append_take_drop_id [symmetric])

text \<open>The history the router sees keeps to the budgets, and always ends with (the beginning of) the
  latest message.\<close>

theorem router_history_fits:
  assumes "0 < setting_at_least 0 700 (rs_char_budget e)"
  shows "int (total_chars (trim_router_history e history)) \<le> setting_at_least 0 700 (rs_char_budget e)
    \<and> int (length (trim_router_history e history)) \<le> setting_at_least 1 10 (rs_history_messages e)
    \<and> (history = [] \<or> (trim_router_history e history \<noteq> []
        \<and> fst (last (trim_router_history e history)) = fst (last history)
        \<and> u_starts (snd (last history)) (snd (last (trim_router_history e history)))))"
proof (cases "history = []")
  case True
  have "0 < setting_at_least 1 10 v" for v by (auto simp: setting_at_least_def split: option.split sum.split)
  then show ?thesis using True assms by (simp add: trim_router_history_def Let_def total_chars_def less_imp_le)
next
  case False
  define budget where "budget = setting_at_least 0 700 (rs_char_budget e)"
  define most where "most = setting_at_least 1 10 (rs_history_messages e)"
  define recent where "recent = drop (length history - nat most) history"
  define cut where "cut = (if setting_at_least 0 200 (rs_message_chars e) > 0
      then map (\<lambda>(role, t). (role, take (nat (setting_at_least 0 200 (rs_message_chars e))) t)) recent else recent)"
  have most: "0 < most" by (auto simp: most_def setting_at_least_def split: option.split sum.split)
  have out: "trim_router_history e history = fit_budget (nat budget) cut"
    using False most assms
    by (simp add: trim_router_history_def Let_def budget_def [symmetric] most_def [symmetric]
        recent_def [symmetric] cut_def)
  have recent: "recent \<noteq> []" "last recent = last history"
    using False most by (cases history; simp add: recent_def last_drop)+
  have cut: "cut \<noteq> []" "length cut = length recent" "fst (last cut) = fst (last history)"
      "u_starts (snd (last history)) (snd (last cut))"
    using recent by (simp_all add: cut_def last_map case_prod_beta u_starts_def min_def)
  have "int (total_chars (fit_budget (nat budget) cut)) \<le> budget"
    using fit_budget_total [of "nat budget" cut] assms by (simp add: budget_def)
  moreover have "int (length (fit_budget (nat budget) cut)) \<le> most"
    using fit_budget_length [of "nat budget" cut] cut(2) most by (simp add: recent_def)
  moreover have "u_starts (snd (last history)) (snd (last (fit_budget (nat budget) cut)))"
    using fit_budget_last [OF cut(1), of "nat budget"] cut(4) unfolding u_starts_iff by auto
  ultimately show ?thesis
    using fit_budget_last [OF cut(1), of "nat budget"] cut(3)
    by (simp add: out budget_def [symmetric] most_def [symmetric])
qed

lemma router_history_fits_witness:
  "int (total_chars (trim_router_history
      \<lparr>rs_history_messages = None, rs_message_chars = None, rs_char_budget = Some (u ''5''), rs_fallback_messages = None\<rparr>
      [(u ''user'', u ''hello''), (u ''user'', u ''good day'')])) \<le> 5"
proof -
  let ?e = "\<lparr>rs_history_messages = None, rs_message_chars = None, rs_char_budget = Some (u ''5''), rs_fallback_messages = None\<rparr>"
  have five: "setting_at_least 0 700 (rs_char_budget ?e) = 5" by code_simp
  show ?thesis using router_history_fits [of ?e "[(u ''user'', u ''hello''), (u ''user'', u ''good day'')]"]
    by (simp only: five)
qed

end
