(* ===== verification/Quick_Replies.thy ===== *)
theory Quick_Replies
  imports Unicode_Text Transition "HOL-Library.Multiset"
begin

text \<open>
  Short spoken replies (\<open>src/voice_quick_replies.py\<close>): the pools of phrases and the selector that
  hands them out, one bag for each session and pool, without repeating one before the bag is
  empty.  The shuffled list is an argument; that it has the phrases of the pool is what
  \<open>random.shuffle\<close> promises.
\<close>

subsection \<open>The pools\<close>

definition MIN_QUICK_REPLY_POOL_SIZE :: nat where
  "MIN_QUICK_REPLY_POOL_SIZE = 16"

definition SINGING_PROGRESS_TEXT :: utext where
  \<comment> \<open>fine, let me prepare\<close>
  "SINGING_PROGRESS_TEXT = [0x597D, 0xFF5E, 0x6211, 0x51C6, 0x5907, 0x4E00, 0x4E0B, 0x3002]"

fun from_keys :: "'a list \<Rightarrow> 'a list" where
  \<comment> \<open>\<open>tuple(dict.fromkeys(xs))\<close>\<close>
  "from_keys [] = []"
| "from_keys (x # xs) = x # filter (\<lambda>y. y \<noteq> x) (from_keys xs)"

definition combine :: "utext list \<Rightarrow> utext list \<Rightarrow> py_exn + utext list" where
  "combine stems tails =
     (let phrases = from_keys (concat (map (\<lambda>s. map (\<lambda>t. s @ t) tails) stems)) in
      if length phrases < MIN_QUICK_REPLY_POOL_SIZE then Inl ValueError else Inr phrases)"

definition without_exit_mark :: "utext \<Rightarrow> utext" where
  \<comment> \<open>\<open>phrase.replace("[EXIT]", "")\<close>, of a phrase with at most one mark, at its end\<close>
  "without_exit_mark t =
     (if u_ends t (u ''[EXIT]'') then take (length t - 6) t else t)"

definition short_pool :: "utext list \<Rightarrow> nat \<Rightarrow> py_exn + utext list" where
  "short_pool phrases max_visible_chars =
     (let unique = from_keys phrases in
      if length unique < MIN_QUICK_REPLY_POOL_SIZE then Inl ValueError
      else if list_ex (\<lambda>t. length (without_exit_mark t) > max_visible_chars) unique then Inl ValueError
      else Inr unique)"

definition POOL_PHRASES :: "(string \<times> utext list \<times> nat) list" where
  "POOL_PHRASES =
    [(''client.startup_ready'', [[0x6211, 0x51C6, 0x5907, 0x597D, 0x4E86, 0x3002], [0x51C6,
      0x5907, 0x597D, 0x4E86, 0x3002],
       [0x6211, 0x5728, 0x3002], [0x5DF2, 0x7ECF, 0x5C31, 0x7EEA, 0x3002],
       [0x53EF, 0x4EE5, 0x5F00, 0x59CB, 0x4E86, 0x3002], [0x968F, 0x65F6, 0x53EF, 0x4EE5, 0x3002],
       [0x6211, 0x4E0A, 0x7EBF, 0x5566, 0x3002], [0x542F, 0x52A8, 0x5B8C, 0x6210, 0x3002],
       [0x72B6, 0x6001, 0x5C31, 0x7EEA, 0x3002], [0x5DF2, 0x7ECF, 0x51C6, 0x5907, 0x597D, 0x3002],
       [0x6211, 0x6765, 0x5566, 0x3002], [0x53EF, 0x4EE5, 0x7528, 0x4E86, 0x3002],
       [0x6211, 0x5728, 0x8FD9, 0x513F, 0x3002], [0x51C6, 0x5907, 0x5B8C, 0x6210, 0x3002],
       [0x4E00, 0x5207, 0x5C31, 0x7EEA, 0x3002], [0x73B0, 0x5728, 0x53EF, 0x4EE5, 0x5566,
         0x3002]], 7),
     (''client.wake_idle'', [[0x6211, 0x5728, 0xFF0C, 0x4F60, 0x8BF4, 0x3002], [0x55EF, 0xFF0C,
       0x6211, 0x5728, 0x3002],
       [0x6211, 0x542C, 0x7740, 0x3002], [0x5728, 0x5462, 0x3002],
       [0x4F60, 0x8BF4, 0x5427, 0x3002], [0x55EF, 0xFF0C, 0x4F60, 0x8BF4, 0x3002],
       [0x6211, 0x6765, 0x4E86, 0x3002], [0x597D, 0xFF0C, 0x6211, 0x5728, 0x3002],
       [0x542C, 0x7740, 0x5462, 0x3002], [0x6211, 0x5728, 0x8FD9, 0x513F, 0x3002],
       [0x8BF4, 0x5427, 0x3002], [0x55EF, 0xFF0C, 0x542C, 0x7740, 0x5462, 0x3002],
       [0x597D, 0xFF0C, 0x4F60, 0x8BF4, 0x3002], [0x6211, 0x9192, 0x5566, 0x3002],
       [0x6765, 0x4E86, 0x3002], [0x6211, 0x6B63, 0x542C, 0x7740, 0x3002]], 7),
     (''client.wake_interrupt'', [[0x597D, 0xFF0C, 0x6211, 0x505C, 0x4E0B, 0x4E86, 0x3002],
       [0x55EF, 0xFF0C, 0x4F60, 0x8BF4, 0x3002],
       [0x6211, 0x5728, 0x542C, 0x3002], [0x597D, 0xFF0C, 0x6211, 0x542C, 0x7740, 0x3002],
       [0x5DF2, 0x7ECF, 0x505C, 0x4E0B, 0x4E86, 0x3002], [0x55EF, 0xFF0C, 0x6211, 0x4E0D,
         0x8BF4, 0x4E86, 0x3002],
       [0x597D, 0xFF0C, 0x5148, 0x542C, 0x4F60, 0x8BF4, 0x3002], [0x6211, 0x505C, 0x4E86,
         0xFF0C, 0x4F60, 0x8BF4, 0x3002],
       [0x6536, 0x5230, 0xFF0C, 0x6211, 0x542C, 0x7740, 0x3002], [0x597D, 0xFF0C, 0x73B0,
         0x5728, 0x542C, 0x4F60, 0x3002],
       [0x6211, 0x5148, 0x505C, 0x4E00, 0x4E0B, 0x3002], [0x505C, 0x4E0B, 0x4E86, 0x3002],
       [0x597D, 0xFF0C, 0x4F60, 0x8BF4, 0x5427, 0x3002], [0x55EF, 0xFF0C, 0x542C, 0x4F60,
         0x8BF4, 0x3002],
       [0x6211, 0x6682, 0x505C, 0x4E86, 0x3002], [0x6536, 0x5230, 0xFF0C, 0x4F60, 0x8BF4,
         0x3002]], 8),
     (''client.sleep_exit'', [[0x597D, 0xFF0C, 0x6211, 0x5F85, 0x673A, 0x3002], [0x6211, 0x5148,
       0x4F11, 0x606F, 0x5566, 0x3002],
       [0x597D, 0xFF0C, 0x5F85, 0x4F1A, 0x513F, 0x89C1, 0x3002], [0x6211, 0x5148, 0x5B89,
         0x9759, 0x5566, 0x3002],
       [0x55EF, 0xFF0C, 0x6211, 0x9000, 0x4E0B, 0x5566, 0x3002], [0x6211, 0x5148, 0x5F85,
         0x547D, 0x3002],
       [0x597D, 0xFF0C, 0x6211, 0x5148, 0x8D70, 0x5566, 0x3002], [0x6211, 0x5148, 0x4E0D,
         0x6253, 0x6270, 0x3002],
       [0x90A3, 0x6211, 0x4F11, 0x606F, 0x5566, 0x3002], [0x597D, 0xFF0C, 0x5148, 0x8FD9,
         0x6837, 0x3002],
       [0x6211, 0x5148, 0x79BB, 0x5F00, 0x5566, 0x3002], [0x55EF, 0xFF0C, 0x56DE, 0x5934,
         0x89C1, 0x3002],
       [0x597D, 0xFF0C, 0x7A0D, 0x540E, 0x89C1, 0x3002], [0x6211, 0x5148, 0x6B47, 0x4F1A,
         0x513F, 0x3002],
       [0x597D, 0x7684, 0xFF0C, 0x6211, 0x5F85, 0x673A, 0x3002], [0x90A3, 0x6211, 0x5148,
         0x8D70, 0x5566, 0x3002]], 8),
     (''session.exit'', map (\<lambda>t. t @ u ''[EXIT]'') [[0x597D, 0xFF0C, 0x6211, 0x5148,
       0x8D70, 0x5566, 0x3002], [0x90A3, 0x5C31, 0x5148, 0x8FD9, 0x6837, 0x3002],
       [0x597D, 0xFF0C, 0x5F85, 0x4F1A, 0x513F, 0x89C1, 0x3002], [0x6211, 0x5148, 0x4F11,
         0x606F, 0x5566, 0x3002],
       [0x55EF, 0xFF0C, 0x56DE, 0x5934, 0x89C1, 0x3002], [0x6211, 0x5148, 0x9000, 0x4E0B,
         0x5566, 0x3002],
       [0x597D, 0xFF0C, 0x6211, 0x5F85, 0x673A, 0x3002], [0x90A3, 0x6211, 0x5148, 0x8D70,
         0x5566, 0x3002],
       [0x597D, 0xFF0C, 0x7A0D, 0x540E, 0x89C1, 0x3002], [0x6211, 0x5148, 0x79BB, 0x5F00,
         0x5566, 0x3002],
       [0x55EF, 0xFF0C, 0x5148, 0x8FD9, 0x6837, 0x3002], [0x597D, 0xFF0C, 0x6211, 0x5148,
         0x5B89, 0x9759, 0x3002],
       [0x90A3, 0x5C31, 0x56DE, 0x5934, 0x89C1, 0x3002], [0x6211, 0x5148, 0x4E0D, 0x6253,
         0x6270, 0x3002],
       [0x597D, 0xFF0C, 0x6211, 0x53BB, 0x4F11, 0x606F, 0x3002], [0x55EF, 0xFF0C, 0x6211,
         0x5148, 0x8D70, 0x5566, 0x3002]], 8),
     (''tool.websearch'', [[0x6211, 0x67E5, 0x4E00, 0x4E0B, 0x3002], [0x6211, 0x53BB, 0x770B,
       0x770B, 0x3002],
       [0x6211, 0x6765, 0x641C, 0x7D22, 0x3002], [0x7A0D, 0x7B49, 0xFF0C, 0x6211, 0x67E5,
         0x67E5, 0x3002],
       [0x6211, 0x786E, 0x8BA4, 0x4E00, 0x4E0B, 0x3002], [0x6211, 0x627E, 0x4E00, 0x4E0B, 0x3002],
       [0x6211, 0x9A6C, 0x4E0A, 0x67E5, 0x3002], [0x597D, 0xFF0C, 0x6211, 0x6765, 0x67E5, 0x3002],
       [0x6211, 0x53BB, 0x6838, 0x5B9E, 0x3002], [0x6211, 0x770B, 0x770B, 0x8D44, 0x6599, 0x3002],
       [0x6211, 0x67E5, 0x67E5, 0x6700, 0x65B0, 0x7684, 0x3002], [0x6211, 0x53BB, 0x786E,
         0x8BA4, 0x3002],
       [0x597D, 0xFF0C, 0x7A0D, 0x7B49, 0x3002], [0x6211, 0x641C, 0x4E00, 0x4E0B, 0x3002],
       [0x6211, 0x6765, 0x627E, 0x627E, 0x3002], [0x6B63, 0x5728, 0x67E5, 0x8BE2, 0x3002]], 8),
     (''tool.weather'', [[0x6211, 0x770B, 0x770B, 0x5929, 0x6C14, 0x3002], [0x6211, 0x67E5,
       0x4E0B, 0x5929, 0x6C14, 0x3002],
       [0x7A0D, 0x7B49, 0xFF0C, 0x6211, 0x770B, 0x770B, 0x3002], [0x597D, 0xFF0C, 0x6211,
         0x6765, 0x67E5, 0x3002],
       [0x6211, 0x786E, 0x8BA4, 0x4E00, 0x4E0B, 0x3002], [0x6211, 0x770B, 0x770B, 0x9884,
         0x62A5, 0x3002],
       [0x6B63, 0x5728, 0x67E5, 0x5929, 0x6C14, 0x3002], [0x6211, 0x9A6C, 0x4E0A, 0x770B,
         0x770B, 0x3002],
       [0x597D, 0xFF0C, 0x67E5, 0x4E00, 0x4E0B, 0x3002], [0x6211, 0x53BB, 0x770B, 0x5929,
         0x6C14, 0x3002],
       [0x6211, 0x6765, 0x770B, 0x770B, 0x3002], [0x7A0D, 0x7B49, 0x4E00, 0x4E0B, 0x3002],
       [0x6211, 0x67E5, 0x67E5, 0x9884, 0x62A5, 0x3002], [0x6211, 0x53BB, 0x786E, 0x8BA4, 0x3002],
       [0x597D, 0xFF0C, 0x6211, 0x770B, 0x770B, 0x3002], [0x5929, 0x6C14, 0x6211, 0x6765,
         0x67E5, 0x3002]], 8),
     (''tool.task'', [[0x6211, 0x6765, 0x8BBE, 0x7F6E, 0x3002], [0x597D, 0xFF0C, 0x6211, 0x5B89,
       0x6392, 0x3002],
       [0x6211, 0x5904, 0x7406, 0x4E00, 0x4E0B, 0x3002], [0x6211, 0x6765, 0x786E, 0x8BA4, 0x3002],
       [0x7A0D, 0x7B49, 0xFF0C, 0x6211, 0x8BBE, 0x7F6E, 0x3002], [0x597D, 0xFF0C, 0x6211,
         0x6765, 0x529E, 0x3002],
       [0x6211, 0x9A6C, 0x4E0A, 0x5B89, 0x6392, 0x3002], [0x6211, 0x6765, 0x8BB0, 0x4E0B, 0x3002],
       [0x6B63, 0x5728, 0x8BBE, 0x7F6E, 0x3002], [0x6211, 0x5904, 0x7406, 0x63D0, 0x9192, 0x3002],
       [0x597D, 0xFF0C, 0x4EA4, 0x7ED9, 0x6211, 0x3002], [0x6211, 0x6765, 0x5B89, 0x6392, 0x3002],
       [0x7A0D, 0x7B49, 0x4E00, 0x4E0B, 0x3002], [0x6211, 0x786E, 0x8BA4, 0x63D0, 0x9192, 0x3002],
       [0x6211, 0x9A6C, 0x4E0A, 0x5904, 0x7406, 0x3002], [0x6211, 0x6765, 0x8BB0, 0x5F55,
         0x3002]], 8),
     (''tool.utils'', [[0x6211, 0x786E, 0x8BA4, 0x4E00, 0x4E0B, 0x3002], [0x6211, 0x770B,
       0x770B, 0x3002],
       [0x6211, 0x67E5, 0x4E00, 0x4E0B, 0x3002], [0x7A0D, 0x7B49, 0xFF0C, 0x6211, 0x770B,
         0x770B, 0x3002],
       [0x597D, 0xFF0C, 0x6211, 0x786E, 0x8BA4, 0x3002], [0x6211, 0x9A6C, 0x4E0A, 0x770B, 0x3002],
       [0x6211, 0x6765, 0x6838, 0x5B9E, 0x3002], [0x6B63, 0x5728, 0x786E, 0x8BA4, 0x3002],
       [0x6211, 0x53BB, 0x770B, 0x770B, 0x3002], [0x6211, 0x6765, 0x67E5, 0x770B, 0x3002],
       [0x597D, 0xFF0C, 0x7A0D, 0x7B49, 0x3002], [0x6211, 0x68C0, 0x67E5, 0x4E00, 0x4E0B, 0x3002],
       [0x6211, 0x627E, 0x4E00, 0x4E0B, 0x3002], [0x6211, 0x9A6C, 0x4E0A, 0x786E, 0x8BA4, 0x3002],
       [0x7A0D, 0x7B49, 0x4E00, 0x4E0B, 0x3002], [0x6211, 0x6765, 0x67E5, 0x67E5, 0x3002]], 8),
     (''tool.generic'', [[0x6211, 0x6765, 0x5904, 0x7406, 0x3002], [0x597D, 0xFF0C, 0x6211,
       0x6765, 0x529E, 0x3002],
       [0x6211, 0x786E, 0x8BA4, 0x4E00, 0x4E0B, 0x3002], [0x7A0D, 0x7B49, 0x4E00, 0x4E0B, 0x3002],
       [0x6211, 0x9A6C, 0x4E0A, 0x5904, 0x7406, 0x3002], [0x597D, 0xFF0C, 0x4EA4, 0x7ED9,
         0x6211, 0x3002],
       [0x6211, 0x6765, 0x770B, 0x770B, 0x3002], [0x6B63, 0x5728, 0x5904, 0x7406, 0x3002],
       [0x6211, 0x6765, 0x5B89, 0x6392, 0x3002], [0x597D, 0xFF0C, 0x6211, 0x5F00, 0x59CB, 0x3002],
       [0x6211, 0x5148, 0x786E, 0x8BA4, 0x3002], [0x6211, 0x9A6C, 0x4E0A, 0x770B, 0x3002],
       [0x6211, 0x6765, 0x89E3, 0x51B3, 0x3002], [0x7A0D, 0x7B49, 0xFF0C, 0x6211, 0x6765, 0x3002],
       [0x597D, 0xFF0C, 0x6211, 0x5904, 0x7406, 0x3002], [0x6211, 0x53BB, 0x770B, 0x770B,
         0x3002]], 8),
     (''tool.complex'', [[0x6211, 0x5148, 0x68B3, 0x7406, 0x4E00, 0x4E0B, 0x3002], [0x8FD9,
       0x8981, 0x591A, 0x8D70, 0x51E0, 0x6B65, 0x3002],
       [0x6211, 0x5206, 0x6B65, 0x5904, 0x7406, 0x3002], [0x7A0D, 0x7B49, 0xFF0C, 0x6211,
         0x6765, 0x5904, 0x7406, 0x3002],
       [0x6211, 0x5148, 0x7406, 0x6E05, 0x6B65, 0x9AA4, 0x3002], [0x6211, 0x6765, 0x9010,
         0x6B65, 0x5B8C, 0x6210, 0x3002],
       [0x8FD9, 0x9700, 0x8981, 0x4E00, 0x70B9, 0x65F6, 0x95F4, 0x3002], [0x6211, 0x5148,
         0x6574, 0x7406, 0x4E00, 0x4E0B, 0x3002],
       [0x597D, 0xFF0C, 0x6211, 0x5206, 0x6B65, 0x6765, 0x3002], [0x6211, 0x5F00, 0x59CB,
         0x5904, 0x7406, 0x3002],
       [0x6211, 0x6765, 0x534F, 0x8C03, 0x4E00, 0x4E0B, 0x3002], [0x6211, 0x5148, 0x5206,
         0x6790, 0x4E00, 0x4E0B, 0x3002],
       [0x7A0D, 0x7B49, 0xFF0C, 0x6211, 0x6765, 0x68B3, 0x7406, 0x3002], [0x6211, 0x4F1A,
         0x9010, 0x6B65, 0x5904, 0x7406, 0x3002],
       [0x6211, 0x5148, 0x786E, 0x8BA4, 0x6B65, 0x9AA4, 0x3002], [0x597D, 0xFF0C, 0x6211,
         0x8BA4, 0x771F, 0x5904, 0x7406, 0x3002]], 9)]"

definition ROBOT_ACTION_VARIANTS :: "(string \<times> utext list) list" where
  "ROBOT_ACTION_VARIANTS =
    [(''generic'', [[0x6211, 0x6765, 0x5904, 0x7406], [0x6211, 0x8FD9, 0x5C31, 0x5904, 0x7406],
       [0x4EA4, 0x7ED9, 0x6211, 0x5427], [0x6211, 0x6765, 0x64CD, 0x4F5C],
       [0x73B0, 0x5728, 0x5F00, 0x59CB, 0x5904, 0x7406], [0x6211, 0x9A6C, 0x4E0A, 0x5904, 0x7406],
       [0x6211, 0x6765, 0x6267, 0x884C], [0x8FD9, 0x5C31, 0x4E3A, 0x4F60, 0x5904, 0x7406],
       [0x6211, 0x73B0, 0x5728, 0x5F00, 0x59CB], [0x6211, 0x6765, 0x5B8C, 0x6210]]),
     (''move_forward'', [[0x6211, 0x5F80, 0x524D, 0x79FB, 0x52A8], [0x6211, 0x8FD9, 0x5C31,
       0x5F80, 0x524D, 0x8D70],
       [0x73B0, 0x5728, 0x5F80, 0x524D, 0x79FB, 0x52A8], [0x6211, 0x6765, 0x5411, 0x524D, 0x8D70],
       [0x6211, 0x9A6C, 0x4E0A, 0x5F80, 0x524D], [0x8FD9, 0x5C31, 0x5411, 0x524D, 0x79FB, 0x52A8],
       [0x6211, 0x5F00, 0x59CB, 0x5F80, 0x524D, 0x8D70], [0x6211, 0x6765, 0x5F80, 0x524D,
         0x79FB, 0x52A8],
       [0x73B0, 0x5728, 0x5411, 0x524D, 0x8D70], [0x6211, 0x8FD9, 0x5C31, 0x524D, 0x8FDB]]),
     (''move_backward'', [[0x6211, 0x5F80, 0x540E, 0x79FB, 0x52A8], [0x6211, 0x8FD9, 0x5C31,
       0x5F80, 0x540E, 0x8D70],
       [0x73B0, 0x5728, 0x5F80, 0x540E, 0x79FB, 0x52A8], [0x6211, 0x6765, 0x5411, 0x540E, 0x8D70],
       [0x6211, 0x9A6C, 0x4E0A, 0x5F80, 0x540E], [0x8FD9, 0x5C31, 0x5411, 0x540E, 0x79FB, 0x52A8],
       [0x6211, 0x5F00, 0x59CB, 0x5F80, 0x540E, 0x8D70], [0x6211, 0x6765, 0x5F80, 0x540E,
         0x79FB, 0x52A8],
       [0x73B0, 0x5728, 0x5411, 0x540E, 0x8D70], [0x6211, 0x8FD9, 0x5C31, 0x540E, 0x9000]]),
     (''turn_left'', [[0x6211, 0x5411, 0x5DE6, 0x8F6C], [0x6211, 0x8FD9, 0x5C31, 0x5DE6, 0x8F6C],
       [0x73B0, 0x5728, 0x5411, 0x5DE6, 0x8F6C], [0x6211, 0x6765, 0x5F80, 0x5DE6, 0x8F6C],
       [0x6211, 0x9A6C, 0x4E0A, 0x5DE6, 0x8F6C], [0x8FD9, 0x5C31, 0x8F6C, 0x5411, 0x5DE6, 0x8FB9],
       [0x6211, 0x5F00, 0x59CB, 0x5411, 0x5DE6, 0x8F6C], [0x6211, 0x6765, 0x5DE6, 0x8F6C],
       [0x73B0, 0x5728, 0x8F6C, 0x5411, 0x5DE6, 0x8FB9], [0x6211, 0x8FD9, 0x5C31, 0x5F80,
         0x5DE6, 0x8F6C]]),
     (''turn_right'', [[0x6211, 0x5411, 0x53F3, 0x8F6C], [0x6211, 0x8FD9, 0x5C31, 0x53F3, 0x8F6C],
       [0x73B0, 0x5728, 0x5411, 0x53F3, 0x8F6C], [0x6211, 0x6765, 0x5F80, 0x53F3, 0x8F6C],
       [0x6211, 0x9A6C, 0x4E0A, 0x53F3, 0x8F6C], [0x8FD9, 0x5C31, 0x8F6C, 0x5411, 0x53F3, 0x8FB9],
       [0x6211, 0x5F00, 0x59CB, 0x5411, 0x53F3, 0x8F6C], [0x6211, 0x6765, 0x53F3, 0x8F6C],
       [0x73B0, 0x5728, 0x8F6C, 0x5411, 0x53F3, 0x8FB9], [0x6211, 0x8FD9, 0x5C31, 0x5F80,
         0x53F3, 0x8F6C]]),
     (''stop'', [[0x6211, 0x505C, 0x4E0B, 0x6765], [0x6211, 0x8FD9, 0x5C31, 0x505C],
       [0x73B0, 0x5728, 0x505C, 0x6B62, 0x52A8, 0x4F5C], [0x6211, 0x6765, 0x6682, 0x505C],
       [0x6211, 0x9A6C, 0x4E0A, 0x505C, 0x4E0B], [0x8FD9, 0x5C31, 0x505C, 0x6B62],
       [0x6211, 0x4E0D, 0x518D, 0x7EE7, 0x7EED, 0x52A8, 0x4F5C], [0x6211, 0x73B0, 0x5728,
         0x505C, 0x4E0B, 0x6765],
       [0x6211, 0x6765, 0x7ED3, 0x675F, 0x5F53, 0x524D, 0x52A8, 0x4F5C], [0x6211, 0x8FD9,
         0x5C31, 0x6682, 0x505C]]),
     (''greet'', [[0x6211, 0x6765, 0x6253, 0x4E2A, 0x62DB, 0x547C], [0x6211, 0x8FD9, 0x5C31,
       0x95EE, 0x4E2A, 0x597D],
       [0x73B0, 0x5728, 0x548C, 0x4F60, 0x6253, 0x62DB, 0x547C], [0x6211, 0x6765, 0x5411,
         0x4F60, 0x95EE, 0x597D],
       [0x6211, 0x9A6C, 0x4E0A, 0x6253, 0x62DB, 0x547C], [0x8FD9, 0x5C31, 0x548C, 0x4F60,
         0x95EE, 0x597D],
       [0x6211, 0x5F00, 0x59CB, 0x6253, 0x62DB, 0x547C], [0x6211, 0x6765, 0x95EE, 0x4E2A, 0x597D],
       [0x73B0, 0x5728, 0x5411, 0x4F60, 0x95EE, 0x597D], [0x6211, 0x8FD9, 0x5C31, 0x6253,
         0x62DB, 0x547C]]),
     (''handshake'', [[0x6211, 0x6765, 0x548C, 0x4F60, 0x63E1, 0x624B], [0x6211, 0x8FD9, 0x5C31,
       0x63E1, 0x624B],
       [0x73B0, 0x5728, 0x548C, 0x4F60, 0x63E1, 0x624B], [0x6211, 0x6765, 0x63E1, 0x4E2A, 0x624B],
       [0x6211, 0x9A6C, 0x4E0A, 0x63E1, 0x624B], [0x8FD9, 0x5C31, 0x548C, 0x4F60, 0x63E1, 0x624B],
       [0x6211, 0x5F00, 0x59CB, 0x63E1, 0x624B], [0x6211, 0x6765, 0x4E0E, 0x4F60, 0x63E1, 0x624B],
       [0x73B0, 0x5728, 0x63E1, 0x4E2A, 0x624B], [0x6211, 0x8FD9, 0x5C31, 0x548C, 0x4F60,
         0x63E1, 0x624B]]),
     (''cheer'', [[0x6211, 0x6765, 0x4E3A, 0x4F60, 0x559D, 0x5F69], [0x6211, 0x8FD9, 0x5C31,
       0x6B22, 0x547C],
       [0x73B0, 0x5728, 0x4E3A, 0x4F60, 0x559D, 0x5F69], [0x6211, 0x6765, 0x6B22, 0x547C,
         0x4E00, 0x4E0B],
       [0x6211, 0x9A6C, 0x4E0A, 0x559D, 0x5F69], [0x8FD9, 0x5C31, 0x4E3A, 0x4F60, 0x6B22, 0x547C],
       [0x6211, 0x5F00, 0x59CB, 0x559D, 0x5F69], [0x6211, 0x6765, 0x4E3A, 0x4F60, 0x6B22, 0x547C],
       [0x73B0, 0x5728, 0x6B22, 0x547C, 0x4E00, 0x4E0B], [0x6211, 0x8FD9, 0x5C31, 0x559D,
         0x5F69]]),
     (''recharge'', [[0x6211, 0x53BB, 0x5145, 0x7535], [0x6211, 0x8FD9, 0x5C31, 0x53BB, 0x5145,
       0x7535],
       [0x73B0, 0x5728, 0x524D, 0x5F80, 0x5145, 0x7535], [0x6211, 0x6765, 0x8FD4, 0x56DE,
         0x5145, 0x7535],
       [0x6211, 0x9A6C, 0x4E0A, 0x53BB, 0x5145, 0x7535], [0x8FD9, 0x5C31, 0x524D, 0x5F80,
         0x5145, 0x7535],
       [0x6211, 0x5F00, 0x59CB, 0x8FD4, 0x56DE, 0x5145, 0x7535], [0x6211, 0x6765, 0x51C6,
         0x5907, 0x5145, 0x7535],
       [0x73B0, 0x5728, 0x53BB, 0x8865, 0x5145, 0x7535, 0x91CF], [0x6211, 0x8FD9, 0x5C31,
         0x56DE, 0x53BB, 0x5145, 0x7535]]),
     (''video_call'', [[0x6211, 0x6765, 0x547C, 0x53EB, 0x89C6, 0x9891, 0x7535, 0x8BDD],
       [0x6211, 0x8FD9, 0x5C31, 0x53D1, 0x8D77, 0x89C6, 0x9891, 0x901A, 0x8BDD],
       [0x73B0, 0x5728, 0x547C, 0x53EB, 0x89C6, 0x9891, 0x7535, 0x8BDD], [0x6211, 0x6765,
         0x53D1, 0x8D77, 0x89C6, 0x9891, 0x901A, 0x8BDD],
       [0x6211, 0x9A6C, 0x4E0A, 0x547C, 0x53EB, 0x89C6, 0x9891, 0x7535, 0x8BDD], [0x8FD9,
         0x5C31, 0x5F00, 0x59CB, 0x89C6, 0x9891, 0x901A, 0x8BDD],
       [0x6211, 0x5F00, 0x59CB, 0x547C, 0x53EB, 0x89C6, 0x9891, 0x7535, 0x8BDD], [0x6211,
         0x6765, 0x62E8, 0x6253, 0x89C6, 0x9891, 0x7535, 0x8BDD],
       [0x73B0, 0x5728, 0x53D1, 0x8D77, 0x89C6, 0x9891, 0x901A, 0x8BDD], [0x6211, 0x8FD9,
         0x5C31, 0x547C, 0x53EB, 0x89C6, 0x9891, 0x7535, 0x8BDD]])]"

definition ROBOT_PREFIXES :: "utext list" where
  "ROBOT_PREFIXES =
    [[0x597D, 0x7684, 0xFF0C], [0x6536, 0x5230, 0xFF0C],
     [0x6CA1, 0x95EE, 0x9898, 0xFF0C], [0x597D, 0xFF0C],
     [0x53EF, 0x4EE5, 0xFF0C], [0x660E, 0x767D, 0xFF0C],
     [0x884C, 0xFF0C], [0x597D, 0x5440, 0xFF0C],
     [0x77E5, 0x9053, 0x4E86, 0xFF0C], [0x55EF, 0xFF0C]]"

definition ROBOT_ENDINGS :: "utext list" where
  "ROBOT_ENDINGS = [[0x3002], [0xFF01]]"

definition robot_action_phrase_pool :: "string \<Rightarrow> py_exn + utext list" where
  "robot_action_phrase_pool action =
     (let variants = (case map_of ROBOT_ACTION_VARIANTS action of
                        Some v \<Rightarrow> v
                      | None \<Rightarrow> the (map_of ROBOT_ACTION_VARIANTS ''generic''))
      in combine (concat (map (\<lambda>p. map (\<lambda>v. p @ v) variants) ROBOT_PREFIXES)) ROBOT_ENDINGS)"

definition quick_reply_pool :: "string \<Rightarrow> py_exn + utext list" where
  "quick_reply_pool key =
     (case map_of POOL_PHRASES key of
        None \<Rightarrow> Inl ValueError
      | Some (phrases, max_visible_chars) \<Rightarrow> short_pool phrases max_visible_chars)"

datatype pool_name = Quick string | Robot_Action string

definition phrases_of :: "pool_name \<Rightarrow> py_exn + utext list" where
  "phrases_of p = (case p of Quick key \<Rightarrow> quick_reply_pool key | Robot_Action a \<Rightarrow> robot_action_phrase_pool a)"

subsection \<open>The selector\<close>

type_synonym bag_key = "utext \<times> pool_name"

record quick_selector =
  qs_max :: int
  qs_bags :: "(bag_key, utext list) odict"
  qs_last :: "(bag_key, utext) odict"

definition new_quick_selector :: "int \<Rightarrow> quick_selector" where
  "new_quick_selector max_states = \<lparr>qs_max = max 1 max_states, qs_bags = [], qs_last = []\<rparr>"

definition swap_last :: "utext list \<Rightarrow> utext option \<Rightarrow> utext list" where
  \<comment> \<open>a fresh bag must not begin with the phrase given last\<close>
  "swap_last bag previous =
     (case previous of
        None \<Rightarrow> bag
      | Some p \<Rightarrow>
          if p \<noteq> [] \<and> length bag > 1 \<and> last bag = p
          then butlast (butlast bag) @ [last bag, last (butlast bag)] else bag)"

definition pick :: "utext list \<Rightarrow> pool_name \<Rightarrow> utext list \<Rightarrow> utext option \<Rightarrow> quick_selector
    \<Rightarrow> quick_selector \<times> (py_exn + utext)" where
  \<comment> \<open>\<open>shuffled\<close> is the shuffled bag, if one is needed\<close>
  "pick shuffled pool phrases session_id sel =
     (if phrases = [] then (sel, Inl ValueError)
      else
        let key = (case session_id of Some s \<Rightarrow> if s = [] then u ''__global__'' else s
                                    | None \<Rightarrow> u ''__global__'', pool);
            kept = (case map_of (qs_bags sel) key of Some b \<Rightarrow> b | None \<Rightarrow> []);
            bag = (if kept = [] then swap_last shuffled (map_of (qs_last sel) key) else kept);
            bags = (if kept = [] then qs_bags sel else od_move_to_end key (qs_bags sel));
            phrase = last bag;
            bags1 = AList.update key (butlast bag) bags;
            given = AList.update key phrase (qs_last sel);
            over = length bags1 - nat (qs_max sel)
        in (sel\<lparr>qs_bags := drop over bags1,
                qs_last := fold AList.delete (take over (keys bags1)) given\<rparr>, Inr phrase))"

definition pick_reply :: "utext list \<Rightarrow> pool_name \<Rightarrow> utext option \<Rightarrow> quick_selector
    \<Rightarrow> quick_selector \<times> (py_exn + utext)" where
  \<comment> \<open>\<open>pick_quick_reply\<close> and \<open>pick_robot_action_reply\<close>\<close>
  "pick_reply shuffled pool session_id sel =
     (case phrases_of pool of
        Inl e \<Rightarrow> (sel, Inl e)
      | Inr phrases \<Rightarrow>
          if session_id = None then (sel, Inr (hd phrases))
          else pick shuffled pool phrases session_id sel)"

subsection \<open>All pools load\<close>

lemma set_from_keys [simp]: "set (from_keys xs) = set xs"
  by (induction xs) auto

lemma distinct_from_keys [simp]: "distinct (from_keys xs)"
  by (induction xs) auto

lemma from_keys_distinct: "distinct xs \<Longrightarrow> from_keys xs = xs"
  by (induction xs) (auto intro: filter_True)

lemma length_from_keys_mono:
  assumes "set xs \<subseteq> set ys" shows "length (from_keys xs) \<le> length (from_keys ys)"
proof -
  have "card (set (from_keys xs)) \<le> card (set (from_keys ys))" using assms by (simp add: card_mono)
  then show ?thesis by (simp only: distinct_card distinct_from_keys)
qed

lemma short_pools_load: "list_all (\<lambda>(key, _). \<exists>ps. quick_reply_pool key = Inr ps \<and> length ps = 16) POOL_PHRASES"
proof -
  have "list_all (\<lambda>(key, _). case quick_reply_pool key of Inr ps \<Rightarrow> length ps = 16 | _ \<Rightarrow> False) POOL_PHRASES"
    by code_simp
  then show ?thesis by (auto simp: list_all_iff split: sum.splits)
qed

text \<open>The phrases of a robot action: the first prefix with the ten variants and the two endings are enough.\<close>

lemma robot_pools_load: "\<exists>ps. robot_action_phrase_pool action = Inr ps \<and> 16 \<le> length ps"
proof -
  define variants where "variants = (case map_of ROBOT_ACTION_VARIANTS action of
      Some v \<Rightarrow> v | None \<Rightarrow> the (map_of ROBOT_ACTION_VARIANTS ''generic''))"
  let ?stems = "concat (map (\<lambda>p. map (\<lambda>v. p @ v) variants) ROBOT_PREFIXES)"
  let ?all = "concat (map (\<lambda>s. map (\<lambda>t. s @ t) ROBOT_ENDINGS) ?stems)"
  let ?some = "concat (map (\<lambda>v. map (\<lambda>t. (hd ROBOT_PREFIXES @ v) @ t) ROBOT_ENDINGS) variants)"
  have enough: "list_all (\<lambda>(_, vs). 16 \<le> length (from_keys
      (concat (map (\<lambda>v. map (\<lambda>t. (hd ROBOT_PREFIXES @ v) @ t) ROBOT_ENDINGS) vs)))) ROBOT_ACTION_VARIANTS"
    by code_simp
  have "variants \<in> snd ` set ROBOT_ACTION_VARIANTS"
  proof (cases "map_of ROBOT_ACTION_VARIANTS action")
    case (Some v)
    then show ?thesis using map_of_SomeD [OF Some] by (force simp: variants_def)
  next
    case None
    moreover have "map_of ROBOT_ACTION_VARIANTS ''generic'' \<noteq> None" by code_simp
    then obtain v where "map_of ROBOT_ACTION_VARIANTS ''generic'' = Some v" by blast
    ultimately show ?thesis using map_of_SomeD by (force simp: variants_def)
  qed
  then have "16 \<le> length (from_keys ?some)" using enough by (auto simp: list_all_iff)
  moreover have "set ?some \<subseteq> set ?all"
  proof -
    have "hd ROBOT_PREFIXES \<in> set ROBOT_PREFIXES" by (simp add: ROBOT_PREFIXES_def)
    then show ?thesis by auto
  qed
  ultimately have "16 \<le> length (from_keys ?all)" using length_from_keys_mono le_trans by blast
  then show ?thesis
    by (simp add: robot_action_phrase_pool_def combine_def MIN_QUICK_REPLY_POOL_SIZE_def Let_def
        variants_def [symmetric])
qed

lemma phrases_ok:
  assumes "phrases_of pool = Inr ps" shows "distinct ps" "16 \<le> length ps"
  using assms
  by (auto simp: phrases_of_def quick_reply_pool_def short_pool_def robot_action_phrase_pool_def combine_def
      Let_def MIN_QUICK_REPLY_POOL_SIZE_def split: pool_name.splits option.splits if_splits)

end
