(* ===== verification/Quick_Replies_Facts.thy ===== *)
theory Quick_Replies_Facts
  imports Quick_Replies
begin

text \<open>
  The selector of quick replies over any run of requests: what a bag still holds, together with
  what was answered since it was filled, is the pool.
\<close>

subsection \<open>Runs\<close>

datatype pick_event = Pick_Event "utext list" pool_name utext

definition bag_key_of :: "utext \<Rightarrow> pool_name \<Rightarrow> bag_key" where
  "bag_key_of s pool = (if s = [] then u ''__global__'' else s, pool)"

fun pick_step :: "quick_selector \<Rightarrow> pick_event \<Rightarrow> quick_selector \<times> (py_exn + utext)" where
  "pick_step sel (Pick_Event shuffled pool s) = pick_reply shuffled pool (Some s) sel"

fun fair_shuffle :: "pick_event \<Rightarrow> bool" where
  "fair_shuffle (Pick_Event shuffled pool s) =
     (case phrases_of pool of Inl _ \<Rightarrow> True | Inr ps \<Rightarrow> mset shuffled = mset ps)"

type_synonym pick_log = "(bag_key \<times> utext) list"

fun note_answer :: "pick_log \<Rightarrow> pick_event \<Rightarrow> py_exn + utext \<Rightarrow> pick_log" where
  "note_answer l (Pick_Event _ pool s) (Inr t) = l @ [(bag_key_of s pool, t)]"
| "note_answer l _ (Inl _) = l"

definition answers :: "bag_key \<Rightarrow> pick_log \<Rightarrow> utext list" where
  "answers k l = map snd (filter (\<lambda>(k', _). k' = k) l)"

lemma answers_snoc [simp]: "answers k (l @ [(k', t)]) = (if k' = k then answers k l @ [t] else answers k l)"
  by (simp add: answers_def)

definition bag_round :: "bag_key \<Rightarrow> utext list \<Rightarrow> pick_log \<Rightarrow> bool" where
  \<comment> \<open>the answers since the bag was filled and the bag make up the pool\<close>
  "bag_round k bag l \<longleftrightarrow> (\<exists>ps before since. phrases_of (snd k) = Inr ps \<and> answers k l = before @ since
     \<and> since \<noteq> [] \<and> mset bag + mset since = mset ps)"

definition pick_inv :: "quick_selector \<Rightarrow> pick_log \<Rightarrow> bool" where
  "pick_inv sel l \<longleftrightarrow> 1 \<le> qs_max sel \<and> distinct (keys (qs_bags sel)) \<and> int (length (qs_bags sel)) \<le> qs_max sel
     \<and> (\<forall>k bag. map_of (qs_bags sel) k = Some bag \<longrightarrow>
          bag_round k bag l \<and> map_of (qs_last sel) k = Some (last (answers k l)))"

subsection \<open>One pick\<close>

lemma phrases_nonempty: "phrases_of pool = Inr ps \<Longrightarrow> [] \<notin> set ps"
proof -
  assume ps: "phrases_of pool = Inr ps"
  have short: "list_all (\<lambda>(_, ts, _). [] \<notin> set ts) POOL_PHRASES" by code_simp
  have prefixes: "list_all (\<lambda>t. t \<noteq> []) ROBOT_PREFIXES" by code_simp
  show ?thesis
  proof (cases pool)
    case (Quick key)
    then obtain ts n where "(key, ts, n) \<in> set POOL_PHRASES" "set ps = set ts"
      using ps by (auto simp: phrases_of_def quick_reply_pool_def short_pool_def Let_def
          dest!: map_of_SomeD split: option.splits if_splits)
    then show ?thesis using short by (auto simp: list_all_iff)
  next
    case (Robot_Action a)
    then show ?thesis using ps prefixes
      by (auto simp: phrases_of_def robot_action_phrase_pool_def combine_def Let_def list_all_iff
          split: if_splits)
  qed
qed

lemma swap_last_mset: "mset (swap_last bag previous) = mset bag"
proof (cases "length bag > 1")
  case True
  then obtain ys x y where bag: "bag = ys @ [x, y]"
    by (metis One_nat_def append_butlast_last_id length_butlast length_greater_0_conv less_imp_diff_less
        list.size(3) not_less_zero zero_less_diff append.assoc append_Cons append_Nil)
  then show ?thesis by (auto simp: swap_last_def butlast_append split: option.split)
qed (auto simp: swap_last_def split: option.split)

lemma swap_last_differs:
  assumes "distinct bag" and "1 < length bag" and "p \<noteq> []"
  shows "last (swap_last bag (Some p)) \<noteq> p"
proof -
  obtain ys x y where "bag = ys @ [x, y]"
    using assms(2) by (metis One_nat_def append_butlast_last_id length_butlast length_greater_0_conv
        less_imp_diff_less list.size(3) not_less_zero zero_less_diff append.assoc append_Cons append_Nil)
  then show ?thesis using assms(1,3) by (auto simp: swap_last_def butlast_append)
qed

definition filled_bag :: "utext list \<Rightarrow> bag_key \<Rightarrow> quick_selector \<Rightarrow> utext list" where
  "filled_bag shuffled key sel =
     (case map_of (qs_bags sel) key of
        None \<Rightarrow> swap_last shuffled (map_of (qs_last sel) key)
      | Some b \<Rightarrow> if b = [] then swap_last shuffled (map_of (qs_last sel) key) else b)"

lemma filled_bag_round:
  assumes inv: "pick_inv sel l" and ps: "phrases_of (snd key) = Inr ps" and sh: "mset shuffled = mset ps"
  obtains before since where "answers key l = before @ since"
    "mset (filled_bag shuffled key sel) + mset since = mset ps" "filled_bag shuffled key sel \<noteq> []"
    "key \<in> set (keys (qs_bags sel)) \<Longrightarrow> answers key l \<noteq> []
       \<and> last (filled_bag shuffled key sel) \<noteq> last (answers key l)"
proof (cases "\<exists>b. map_of (qs_bags sel) key = Some b \<and> b \<noteq> []")
  case True
  then obtain b where b: "map_of (qs_bags sel) key = Some b" "b \<noteq> []" by blast
  then have bag: "filled_bag shuffled key sel = b" by (simp add: filled_bag_def)
  from inv b(1) have "bag_round key b l" unfolding pick_inv_def by blast
  then obtain before since where r: "answers key l = before @ since" "since \<noteq> []"
      "mset b + mset since = mset ps"
    using ps by (auto simp: bag_round_def)
  have "distinct (b @ since)" using phrases_ok(1) [OF ps] r(3) mset_eq_imp_distinct_iff
    by (metis mset_append)
  then have "last b \<noteq> last since" using b(2) r(2) by (metis disjoint_iff distinct_append last_in_set)
  then show ?thesis using that [of before since] r b(2) bag by simp
next
  case False
  then have bag: "filled_bag shuffled key sel = swap_last shuffled (map_of (qs_last sel) key)"
    by (auto simp: filled_bag_def split: option.split)
  have long: "16 \<le> length shuffled"
    using phrases_ok(2) [OF ps] mset_eq_length [OF sh] by simp
  have "length (swap_last shuffled (map_of (qs_last sel) key)) = length shuffled"
    by (rule mset_eq_length [OF swap_last_mset])
  then have nonempty: "filled_bag shuffled key sel \<noteq> []" using long bag by auto
  have same: "mset (filled_bag shuffled key sel) + mset [] = mset ps" by (simp add: bag swap_last_mset sh)
  show ?thesis
  proof (rule that [of "answers key l" "[]"])
    assume "key \<in> set (keys (qs_bags sel))"
    then have "map_of (qs_bags sel) key \<noteq> None" by (simp add: map_of_eq_None_iff)
    with False have "map_of (qs_bags sel) key = Some []" by blast
    with inv have "bag_round key [] l" and lst: "map_of (qs_last sel) key = Some (last (answers key l))"
      unfolding pick_inv_def by blast+
    then obtain before since where r: "answers key l = before @ since" "since \<noteq> []" "mset since = mset ps"
      using ps by (auto simp: bag_round_def)
    then have "last (answers key l) \<in> set ps" by (metis last_appendR last_in_set mset_eq_setD)
    then have "last (answers key l) \<noteq> []" using phrases_nonempty [OF ps] by metis
    moreover have "distinct shuffled" using phrases_ok(1) [OF ps] sh mset_eq_imp_distinct_iff by metis
    ultimately have "last (swap_last shuffled (Some (last (answers key l)))) \<noteq> last (answers key l)"
      using long by (intro swap_last_differs) auto
    then show "answers key l \<noteq> [] \<and> last (filled_bag shuffled key sel) \<noteq> last (answers key l)"
      using r by (simp add: bag lst)
  qed (use same nonempty in simp_all)
qed

lemma pick_reply_simp:
  fixes s :: utext and shuffled :: "utext list" and sel :: quick_selector
  assumes "phrases_of pool = Inr ps"
  defines "key \<equiv> bag_key_of s pool"
  defines "bag \<equiv> filled_bag shuffled key sel"
  defines "bags1 \<equiv> AList.update key (butlast bag)
    (if map_of (qs_bags sel) key \<in> {None, Some []} then qs_bags sel else od_move_to_end key (qs_bags sel))"
  shows "pick_reply shuffled pool (Some s) sel =
    (sel\<lparr>qs_bags := drop (length bags1 - nat (qs_max sel)) bags1,
       qs_last := fold AList.delete (take (length bags1 - nat (qs_max sel)) (keys bags1))
         (AList.update key (last bag) (qs_last sel))\<rparr>, Inr (last bag))"
proof -
  have nonempty: "ps \<noteq> []" using phrases_ok(2) [OF assms(1)] by auto
  have key: "(case Some s of Some s \<Rightarrow> if s = [] then u ''__global__'' else s | None \<Rightarrow> u ''__global__'', pool) = key"
    by (simp add: key_def bag_key_of_def)
  have reply: "pick_reply shuffled pool (Some s) sel = pick shuffled pool ps (Some s) sel"
    by (simp add: pick_reply_def assms(1))
  consider (none) "map_of (qs_bags sel) key = None" | (empty) "map_of (qs_bags sel) key = Some []"
    | (some) b where "map_of (qs_bags sel) key = Some b" "b \<noteq> []"
    by (cases "map_of (qs_bags sel) key") auto
  then show ?thesis
    unfolding reply pick_def key Let_def
    by cases (simp_all add: nonempty bags1_def bag_def filled_bag_def)
qed

text \<open>Bags that are dropped take the phrase given last with them; no other entry changes.\<close>

lemma map_of_fold_delete: "k \<notin> set ks \<Longrightarrow> map_of (fold AList.delete ks d) k = map_of d k"
  by (induction ks arbitrary: d) (simp_all add: map_of_delete)

lemma map_of_drop_keys:
  assumes "distinct (keys d)" and "map_of (drop n d) k = Some v"
  shows "map_of d k = Some v" "k \<notin> set (take n (keys d))"
proof -
  have mem: "(k, v) \<in> set (drop n d)" by (rule map_of_SomeD [OF assms(2)])
  then show "map_of d k = Some v" using assms(1) in_set_dropD by (simp add: in_set_dropD)
  have "k \<in> set (keys (drop n d))" using mem by force
  then have "k \<in> set (drop n (keys d))" by (simp only: drop_map)
  then show "k \<notin> set (take n (keys d))"
    using assms(1) by (metis append_take_drop_id disjoint_iff distinct_append)
qed

lemma pick_step_inv:
  assumes inv: "pick_inv sel l" and ok: "fair_shuffle e"
  shows "pick_inv (fst (pick_step sel e)) (note_answer l e (snd (pick_step sel e)))"
proof -
  obtain shuffled pool s where e: "e = Pick_Event shuffled pool s" by (cases e)
  show ?thesis
  proof (cases "phrases_of pool")
    case (Inl x)
    then show ?thesis using inv by (simp add: e pick_reply_def)
  next
    case (Inr ps)
    define key where "key = bag_key_of s pool"
    define bag where "bag = filled_bag shuffled key sel"
    define bags where "bags = (if map_of (qs_bags sel) key \<in> {None, Some []} then qs_bags sel
      else od_move_to_end key (qs_bags sel))"
    define bags1 where "bags1 = AList.update key (butlast bag) bags"
    define over where "over = length bags1 - nat (qs_max sel)"
    define l' where "l' = l @ [(key, last bag)]"
    have step: "pick_step sel e = (sel\<lparr>qs_bags := drop over bags1,
        qs_last := fold AList.delete (take over (keys bags1)) (AList.update key (last bag) (qs_last sel))\<rparr>,
        Inr (last bag))"
      using pick_reply_simp [OF Inr, of shuffled s sel]
      by (simp add: e key_def bag_def bags_def bags1_def over_def)
    have key: "phrases_of (snd key) = Inr ps" by (simp add: key_def bag_key_of_def Inr)
    have "mset shuffled = mset ps" using ok Inr by (simp add: e)
    then obtain before since where r: "answers key l = before @ since" "mset bag + mset since = mset ps"
        "bag \<noteq> []"
      using filled_bag_round [OF inv key] unfolding bag_def by metis
    have dist: "distinct (keys bags1)"
      using inv by (simp add: bags1_def bags_def pick_inv_def distinct_update distinct_keys_move_to_end)
    have entry: "map_of bags1 k = (if k = key then Some (butlast bag) else map_of (qs_bags sel) k)" for k
      by (simp add: bags1_def bags_def map_of_update map_of_move_to_end)
    have new_round: "bag_round key (butlast bag) l'"
    proof -
      have "mset (butlast bag) + mset (since @ [last bag]) = mset ps"
        using r(2,3) by (metis add.assoc add.commute append_butlast_last_id mset_append)
      moreover have "answers key l' = before @ since @ [last bag]" by (simp add: l'_def r(1))
      ultimately show ?thesis using key unfolding bag_round_def by blast
    qed
    have rounds: "bag_round k b l' \<and> map_of (fold AList.delete (take over (keys bags1))
        (AList.update key (last bag) (qs_last sel))) k = Some (last (answers k l'))"
      if "map_of (drop over bags1) k = Some b" for k b
    proof -
      from map_of_drop_keys [OF dist that] have k: "map_of bags1 k = Some b" "k \<notin> set (take over (keys bags1))"
        by blast+
      show ?thesis
      proof (cases "k = key")
        case True
        with k(1) have "b = butlast bag" by (simp add: entry)
        then show ?thesis using new_round True k(2) by (simp add: map_of_fold_delete map_of_update l'_def)
      next
        case False
        with k(1) have "map_of (qs_bags sel) k = Some b" by (simp add: entry)
        with inv have "bag_round k b l" "map_of (qs_last sel) k = Some (last (answers k l))"
          unfolding pick_inv_def by blast+
        then show ?thesis using False k(2) by (simp add: map_of_fold_delete map_of_update l'_def bag_round_def)
      qed
    qed
    have "distinct (keys (drop over bags1))" using dist by (simp add: drop_map [symmetric])
    moreover have "1 \<le> qs_max sel" using inv by (simp add: pick_inv_def)
    moreover have "int (length (drop over bags1)) \<le> qs_max sel" using calculation(2) by (simp add: over_def)
    moreover have "note_answer l e (Inr (last bag)) = l'" by (simp add: e l'_def key_def)
    ultimately show ?thesis using rounds
      by (simp add: pick_inv_def step del: split_paired_All)
  qed
qed

interpretation picks: observed_system pick_step pick_inv fair_shuffle note_answer
  by unfold_locales (rule pick_step_inv)

definition given :: "pick_event list \<Rightarrow> (py_exn + utext) list \<Rightarrow> pick_log" where
  "given es rs = foldl (\<lambda>l (e, r). note_answer l e r) [] (zip es rs)"


definition sample_pool :: "utext list" where
  "sample_pool = (case phrases_of (Quick ''tool.weather'') of Inr ps \<Rightarrow> ps | Inl _ \<Rightarrow> [])"

lemma sample_pool: "phrases_of (Quick ''tool.weather'') = Inr sample_pool"
proof -
  have "list_ex (\<lambda>(key, _). key = ''tool.weather'') POOL_PHRASES" by code_simp
  then obtain ps where "phrases_of (Quick ''tool.weather'') = Inr ps"
    using short_pools_load by (auto simp: list_ex_iff list_all_iff phrases_of_def)
  then show ?thesis by (simp add: sample_pool_def)
qed


end
