(* ===== verification/Regular_Texts.thy ===== *)
theory Regular_Texts
  imports Unicode_Text
begin

text \<open>
  The regular expressions of the tool router (\<open>src/llm/tool_router.py\<close>), over positions of a text, so that
  the ends of a line and of a word can be asked for.  \<open>rx_ends\<close> lists the ends of the matches in
  the order in which a backtracking search (module \<open>re\<close>) tries them; the first decides what a
  group captures.  \<open>rx_match\<close> is the meaning of an expression without that order.
\<close>

datatype rx =
    Rx_Text utext
  | Rx_Then rx rx
  | Rx_Or rx rx
  | Rx_Opt rx
  | Rx_Span "int \<Rightarrow> bool" nat "nat option"
  | Rx_Lazy "int \<Rightarrow> bool" nat
  | Rx_Begin
  | Rx_End
  | Rx_Word_Edge "int \<Rightarrow> bool"

definition at_end :: "utext \<Rightarrow> nat \<Rightarrow> bool" where
  \<comment> \<open>the anchor \<open>$\<close>: at the end, or before a line feed that ends the text\<close>
  "at_end t i = (i = length t \<or> (i + 1 = length t \<and> t ! i = 10))"

definition word_edge :: "(int \<Rightarrow> bool) \<Rightarrow> utext \<Rightarrow> nat \<Rightarrow> bool" where
  \<comment> \<open>the anchor \<open>\b\<close>\<close>
  "word_edge w t i = ((0 < i \<and> i \<le> length t \<and> w (t ! (i - 1))) \<noteq> (i < length t \<and> w (t ! i)))"

definition span_at :: "(int \<Rightarrow> bool) \<Rightarrow> nat option \<Rightarrow> utext \<Rightarrow> nat \<Rightarrow> nat" where
  \<comment> \<open>how many characters of the class follow, up to the bound\<close>
  "span_at P hi t i =
     (let n = length (takeWhile P (drop i t)) in case hi of None \<Rightarrow> n | Some h \<Rightarrow> min h n)"

fun rx_ends :: "rx \<Rightarrow> utext \<Rightarrow> nat \<Rightarrow> nat list" where
  "rx_ends (Rx_Text w) t i = (if u_starts (drop i t) w then [i + length w] else [])"
| "rx_ends (Rx_Then r s) t i = concat (map (rx_ends s t) (rx_ends r t i))"
| "rx_ends (Rx_Or r s) t i = rx_ends r t i @ rx_ends s t i"
| "rx_ends (Rx_Opt r) t i = rx_ends r t i @ [i]"
| "rx_ends (Rx_Span P lo hi) t i = rev (map (\<lambda>k. i + k) [lo..<Suc (span_at P hi t i)])"
| "rx_ends (Rx_Lazy P lo) t i = map (\<lambda>k. i + k) [lo..<Suc (span_at P None t i)]"
| "rx_ends Rx_Begin t i = (if i = 0 then [i] else [])"
| "rx_ends Rx_End t i = (if at_end t i then [i] else [])"
| "rx_ends (Rx_Word_Edge w) t i = (if word_edge w t i then [i] else [])"

definition rx_search :: "rx \<Rightarrow> utext \<Rightarrow> bool" where
  \<comment> \<open>\<open>re.search(pattern, text)\<close> is not \<open>None\<close>\<close>
  "rx_search r t = list_ex (\<lambda>i. rx_ends r t i \<noteq> []) [0..<Suc (length t)]"

definition rx_cut_start :: "rx \<Rightarrow> utext \<Rightarrow> utext" where
  \<comment> \<open>\<open>re.sub("^pattern", "", text)\<close>\<close>
  "rx_cut_start r t = (case rx_ends r t 0 of [] \<Rightarrow> t | e # _ \<Rightarrow> drop e t)"

definition rx_capture :: "rx \<Rightarrow> rx \<Rightarrow> rx \<Rightarrow> utext \<Rightarrow> utext option" where
  \<comment> \<open>the group of the first match of \<open>before(group)after\<close>\<close>
  "rx_capture before_rx group_rx after_rx t =
     (case concat (map (\<lambda>i. concat (map (\<lambda>a. concat (map (\<lambda>b.
              map (\<lambda>_. (a, b)) (rx_ends after_rx t b)) (rx_ends group_rx t a))) (rx_ends before_rx t i)))
            [0..<Suc (length t)]) of
        [] \<Rightarrow> None
      | (a, b) # _ \<Rightarrow> Some (take (b - a) (drop a t)))"

definition rx_words :: "utext list \<Rightarrow> rx" where
  \<comment> \<open>one of several words (an empty class when there are none)\<close>
  "rx_words ws = foldr (\<lambda>w r. Rx_Or (Rx_Text w) r) ws (Rx_Span (\<lambda>_. False) 1 None)"

definition rx_seq :: "rx list \<Rightarrow> rx" where
  "rx_seq rs = foldr Rx_Then rs (Rx_Text [])"

definition rx_any :: "rx list \<Rightarrow> rx" where
  "rx_any rs = foldr Rx_Or rs (Rx_Span (\<lambda>_. False) 1 None)"

definition no_newline :: "int \<Rightarrow> bool" where
  \<comment> \<open>the class \<open>.\<close>\<close>
  "no_newline c = (c \<noteq> 10)"

subsection \<open>The meaning of an expression\<close>

inductive rx_match :: "rx \<Rightarrow> utext \<Rightarrow> nat \<Rightarrow> nat \<Rightarrow> bool" where
  "take (length w) (drop i t) = w \<Longrightarrow> rx_match (Rx_Text w) t i (i + length w)"
| "rx_match r t i j \<Longrightarrow> rx_match s t j k \<Longrightarrow> rx_match (Rx_Then r s) t i k"
| "rx_match r t i j \<Longrightarrow> rx_match (Rx_Or r s) t i j"
| "rx_match s t i j \<Longrightarrow> rx_match (Rx_Or r s) t i j"
| "rx_match (Rx_Opt r) t i i"
| "rx_match r t i j \<Longrightarrow> rx_match (Rx_Opt r) t i j"
| "lo \<le> n \<Longrightarrow> (\<forall>h. hi = Some h \<longrightarrow> n \<le> h) \<Longrightarrow> i + n \<le> length t \<or> n = 0 \<Longrightarrow> (\<forall>k < n. P (t ! (i + k)))
     \<Longrightarrow> rx_match (Rx_Span P lo hi) t i (i + n)"
| "lo \<le> n \<Longrightarrow> i + n \<le> length t \<or> n = 0 \<Longrightarrow> (\<forall>k < n. P (t ! (i + k)))
     \<Longrightarrow> rx_match (Rx_Lazy P lo) t i (i + n)"
| "rx_match Rx_Begin t 0 0"
| "at_end t i \<Longrightarrow> rx_match Rx_End t i i"
| "word_edge w t i \<Longrightarrow> rx_match (Rx_Word_Edge w) t i i"

inductive_simps rx_match_simps [simp]:
  "rx_match (Rx_Text w) t i j" "rx_match (Rx_Then r s) t i j" "rx_match (Rx_Or r s) t i j"
  "rx_match (Rx_Opt r) t i j" "rx_match (Rx_Span P lo hi) t i j" "rx_match (Rx_Lazy P lo) t i j"
  "rx_match Rx_Begin t i j" "rx_match Rx_End t i j" "rx_match (Rx_Word_Edge w) t i j"

lemma le_takeWhile_iff:
  "n \<le> length (takeWhile P xs) \<longleftrightarrow> n \<le> length xs \<and> (\<forall>k < n. P (xs ! k))"
proof (induction xs arbitrary: n)
  case (Cons x xs)
  then show ?case by (cases n) (auto simp: nth_Cons' less_Suc_eq_0_disj)
qed auto

lemma span_at_iff:
  "n \<le> span_at P hi t i \<longleftrightarrow> (\<forall>h. hi = Some h \<longrightarrow> n \<le> h) \<and> (i + n \<le> length t \<or> n = 0) \<and> (\<forall>k < n. P (t ! (i + k)))"
proof (cases "i \<le> length t")
  case True
  then have "n \<le> length (takeWhile P (drop i t)) \<longleftrightarrow> (i + n \<le> length t \<or> n = 0) \<and> (\<forall>k < n. P (t ! (i + k)))"
    by (auto simp: le_takeWhile_iff)
  then show ?thesis by (auto simp: span_at_def Let_def split: option.split)
next
  case False
  then show ?thesis by (auto simp: span_at_def Let_def split: option.split)
qed

lemma rx_ends_iff: "j \<in> set (rx_ends r t i) \<longleftrightarrow> rx_match r t i j"
proof (induction r arbitrary: i j)
  case (Rx_Span P lo hi)
  have "j \<in> set (rx_ends (Rx_Span P lo hi) t i) \<longleftrightarrow> (\<exists>n. j = i + n \<and> lo \<le> n \<and> n \<le> span_at P hi t i)"
    by (auto simp: less_Suc_eq_le)
  then show ?case unfolding span_at_iff by auto
next
  case (Rx_Lazy P lo)
  have "j \<in> set (rx_ends (Rx_Lazy P lo) t i) \<longleftrightarrow> (\<exists>n. j = i + n \<and> lo \<le> n \<and> n \<le> span_at P None t i)"
    by (auto simp: less_Suc_eq_le)
  then show ?case unfolding span_at_iff by auto
qed (auto simp: u_starts_def)

lemma rx_search_iff: "rx_search r t \<longleftrightarrow> (\<exists>i j. i \<le> length t \<and> rx_match r t i j)"
proof -
  have "rx_search r t \<longleftrightarrow> (\<exists>i \<le> length t. set (rx_ends r t i) \<noteq> {})"
    by (auto simp: rx_search_def list_ex_iff less_Suc_eq_le simp del: upt_Suc)
  also have "\<dots> \<longleftrightarrow> (\<exists>i j. i \<le> length t \<and> rx_match r t i j)"
    unfolding ex_in_conv [symmetric] rx_ends_iff by blast
  finally show ?thesis .
qed

lemma rx_words_match: "rx_match (rx_words ws) t i j \<longleftrightarrow> (\<exists>w \<in> set ws. u_starts (drop i t) w \<and> j = i + length w)"
proof (induction ws)
  case Nil
  then show ?case by (auto simp: rx_words_def) (metis Suc_le_lessD)
next
  case (Cons w ws)
  then show ?case by (auto simp: rx_words_def u_starts_def)
qed

text \<open>A search for one of several words is a test for key words.\<close>

lemma rx_search_words: "rx_search (rx_words ws) t \<longleftrightarrow> (\<exists>w \<in> set ws. u_in w t)"
proof -
  have "(\<exists>i \<le> length t. u_starts (drop i t) w) \<longleftrightarrow> u_in w t" for w
  proof
    assume "\<exists>i \<le> length t. u_starts (drop i t) w"
    then obtain i r where "drop i t = w @ r" by (auto simp: u_starts_iff)
    then have "t = take i t @ w @ r" by (metis append_take_drop_id)
    then show "u_in w t" unfolding u_in_iff by blast
  next
    assume "u_in w t"
    then obtain a b where t: "t = a @ w @ b" by (auto simp: u_in_iff)
    then have "length a \<le> length t \<and> u_starts (drop (length a) t) w" by (auto simp: u_starts_iff)
    then show "\<exists>i \<le> length t. u_starts (drop i t) w" by blast
  qed
  then show ?thesis unfolding rx_search_iff rx_words_match by blast
qed

end
