(* ===== verification/Router_Tables.thy ===== *)
theory Router_Tables
  imports Tool_Guard Router_State Regular_Texts
begin

text \<open>
  The tables of the tool router (\<open>src/llm/tool_router.py\<close>): key words in Chinese, as lists of code
  points, in the order of the code, and the regular expressions.
\<close>

subsection \<open>Key words\<close>

definition WHOLE_SESSION_EXIT_COMMANDS :: "utext list" where
  "WHOLE_SESSION_EXIT_COMMANDS =
    [[0x9000, 0x51FA], [0x9000, 0x51FA, 0x5427], [0x518D, 0x89C1], [0x4E0D, 0x804A, 0x4E86],
      [0x7ED3, 0x675F, 0x5BF9, 0x8BDD], [0x9000, 0x4E0B, 0x5427],
     [0x4F60, 0x5148, 0x4F11, 0x606F, 0x5427], u ''cya'']"

definition NON_WHOLE_SESSION_EXIT_PHRASES :: "utext list" where
  "NON_WHOLE_SESSION_EXIT_PHRASES =
    [[0x9000, 0x51FA, 0x8FD9, 0x4E2A, 0x8BDD, 0x9898], [0x6362, 0x4E2A, 0x8BDD, 0x9898],
      [0x9000, 0x51FA, 0x5C0F, 0x6E38, 0x620F], [0x9000, 0x51FA, 0x6545, 0x4E8B], [0x9000,
      0x51FA, 0x767B, 0x8BB0], [0x9000, 0x51FA, 0x8FD9, 0x4E2A, 0x6545, 0x4E8B]]"

definition LOW_TOOL_RISK_CHAT_KEYWORDS :: "utext list" where
  "LOW_TOOL_RISK_CHAT_KEYWORDS =
    [[0x4F60, 0x597D], [0x60A8, 0x597D], [0x65E9, 0x4E0A, 0x597D], [0x4E2D, 0x5348, 0x597D],
      [0x4E0B, 0x5348, 0x597D], [0x665A, 0x4E0A, 0x597D],
     [0x4F60, 0x4ECA, 0x5929, 0x600E, 0x4E48, 0x6837], [0x4F60, 0x600E, 0x4E48, 0x6837],
       [0x4F60, 0x597D, 0x5417], [0x966A, 0x6211, 0x804A], [0x804A, 0x804A, 0x5929], [0x8BB2,
       0x4E2A, 0x7B11, 0x8BDD],
     [0x8BB2, 0x4E2A, 0x6545, 0x4E8B], [0x8BB2, 0x6545, 0x4E8B], [0x8BF4, 0x4E2A, 0x6545,
       0x4E8B], [0x8C22, 0x8C22], [0x8F9B, 0x82E6, 0x4E86]]"

definition NARRATIVE_CHAT_KEYWORDS :: "utext list" where
  "NARRATIVE_CHAT_KEYWORDS =
    [[0x8BB2, 0x4E2A, 0x7B11, 0x8BDD], [0x7B11, 0x8BDD], [0x8BB2, 0x4E2A, 0x6545, 0x4E8B],
      [0x8BB2, 0x6545, 0x4E8B], [0x8BF4, 0x4E2A, 0x6545, 0x4E8B], [0x6545, 0x4E8B]]"

definition EXPLANATION_CHAT_KEYWORDS :: "utext list" where
  "EXPLANATION_CHAT_KEYWORDS =
    [[0x89E3, 0x91CA], [0x4E3A, 0x4EC0, 0x4E48], [0x4EC0, 0x4E48, 0x662F], [0x54EA, 0x4E9B,
      0x56E0, 0x7D20], [0x600E, 0x4E48, 0x6765, 0x7684], [0x600E, 0x4E48, 0x7528],
     [0x4EC0, 0x4E48, 0x610F, 0x601D], [0x600E, 0x4E48, 0x770B], [0x4F60, 0x89C9, 0x5F97]]"

definition CAPABILITY_CHAT_PATTERNS :: "utext list" where
  "CAPABILITY_CHAT_PATTERNS =
    [[0x4F60, 0x4F1A], [0x4F60, 0x80FD], [0x4F60, 0x5177, 0x5907], [0x4F60, 0x53EF, 0x4EE5]]"

definition NEGATIVE_CHAT_PATTERNS :: "utext list" where
  "NEGATIVE_CHAT_PATTERNS =
    [[0x4E0D, 0x60F3, 0x804A], [0x4E0D, 0x60F3, 0x518D, 0x804A], [0x522B, 0x804A]]"

definition ROBOT_EVALUATION_QUESTION_PATTERNS :: "utext list" where
  "ROBOT_EVALUATION_QUESTION_PATTERNS =
    [[0x5389, 0x5BB3, 0x5417], [0x719F, 0x7EC3, 0x5417], [0x64C5, 0x957F, 0x5417]]"

definition WEBSEARCH_KEYWORDS :: "utext list" where
  "WEBSEARCH_KEYWORDS =
    [[0x5929, 0x6C14], [0x65B0, 0x95FB], [0x70ED, 0x641C], [0x6700, 0x65B0], [0x5B9E, 0x65F6],
      [0x8054, 0x7F51],
     [0x641C, 0x7D22], [0x80A1, 0x4EF7], [0x80A1, 0x7968], [0x6C47, 0x7387], [0x9EC4, 0x91D1],
       [0x91D1, 0x4EF7],
     [0x8D5B, 0x4E8B], [0x6BD4, 0x5206], u ''weather'', u ''rains'']"

definition WEATHER_KEYWORDS :: "utext list" where
  "WEATHER_KEYWORDS =
    [[0x5929, 0x6C14], [0x6C14, 0x6E29], [0x4E0B, 0x96E8], [0x4E0B, 0x96EA], [0x522E, 0x98CE],
      [0x7A7A, 0x6C14, 0x8D28, 0x91CF]]"

definition TIME_KEYWORDS :: "utext list" where
  "TIME_KEYWORDS =
    [[0x51E0, 0x70B9], [0x65F6, 0x95F4], [0x4ECA, 0x5929, 0x51E0, 0x53F7], [0x4ECA, 0x5929,
      0x661F, 0x671F], [0x661F, 0x671F, 0x51E0], [0x65E5, 0x671F],
     [0x519C, 0x5386], [0x9634, 0x5386], [0x8282, 0x5047, 0x65E5], [0x65F6, 0x95F4, 0x6233]]"

definition TASK_KEYWORDS :: "utext list" where
  "TASK_KEYWORDS =
    [[0x63D0, 0x9192], u ''remind'', [0x95F9, 0x949F], [0x5B9A, 0x65F6], [0x4E8B, 0x9879],
      [0x4EFB, 0x52A1, 0x5217, 0x8868],
     [0x5F85, 0x529E]]"

definition VISION_SEQUENCE_SIGNALS :: "utext list" where
  "VISION_SEQUENCE_SIGNALS =
    [[0x753B, 0x9762], [0x955C, 0x5934], [0x6444, 0x50CF, 0x5934], [0x684C, 0x4E0A], [0x684C,
      0x9762], [0x624B, 0x91CC],
     [0x5DE6, 0x624B], [0x53F3, 0x624B], [0x8EAB, 0x540E], [0x7A7F, 0x7740], [0x7A7F, 0x7684],
       [0x95E8, 0x5173],
     [0x706F, 0x4EAE], u ''look at'', u ''wearing'']"

definition UNSUPPORTED_ROBOT_CAPABILITY_KEYWORDS :: "utext list" where
  "UNSUPPORTED_ROBOT_CAPABILITY_KEYWORDS =
    [[0x7A7A, 0x8C03], [0x5F00, 0x706F], [0x5173, 0x706F], [0x706F, 0x5149], [0x7535, 0x89C6],
      [0x7A97, 0x5E18],
     [0x8C03, 0x4EAE], [0x8C03, 0x6697]]"

definition NEGATED_ROBOT_START_PREFIXES :: "utext list" where
  "NEGATED_ROBOT_START_PREFIXES =
    [[0x4E0D, 0x8981], [0x4E0D, 0x7528], [0x5148, 0x522B], [0x522B, 0x5F00, 0x59CB], [0x5148,
      0x4E0D]]"

definition ROBOT_START_ACTION_KEYWORDS :: "utext list" where
  "ROBOT_START_ACTION_KEYWORDS =
    [[0x8DF3, 0x821E], [0x8DF3], [0x5DE1, 0x903B], [0x5DE1, 0x68C0], [0x5EFA, 0x56FE], [0x521B,
      0x5EFA, 0x5730, 0x56FE],
     [0x56DE, 0x6869], [0x5145, 0x7535], [0x8DDF, 0x968F], [0x8FFD, 0x968F], [0x89C6, 0x9891,
       0x901A, 0x8BDD], [0x89C6, 0x9891, 0x7535, 0x8BDD],
     [0x524D, 0x8FDB], [0x540E, 0x9000], [0x5DE6, 0x8F6C], [0x53F3, 0x8F6C], [0x5F80, 0x524D],
       [0x5411, 0x524D],
     [0x5F80, 0x540E], [0x5411, 0x540E], [0x79FB, 0x52A8]]"

definition SINGING_PLAY_KEYWORDS :: "utext list" where
  "SINGING_PLAY_KEYWORDS =
    [[0x5531, 0x6B4C], [0x5531, 0x9996], [0x5531, 0x4E00, 0x9996], [0x5531, 0x4E00, 0x4E0B],
      [0x5531, 0x4E00, 0x4E2A], [0x5531, 0x4E00, 0x4E2A, 0x9996],
     [0x5531, 0x4E2A, 0x6B4C], [0x6765, 0x9996, 0x6B4C], [0x6765, 0x4E00, 0x9996, 0x6B4C],
       [0x6765, 0x4E2A, 0x6B4C]]"

definition SINGING_LIST_KEYWORDS :: "utext list" where
  "SINGING_LIST_KEYWORDS =
    [[0x4F1A, 0x5531, 0x4EC0, 0x4E48, 0x6B4C], [0x4F1A, 0x5531, 0x54EA, 0x4E9B, 0x6B4C],
      [0x4F1A, 0x5531, 0x54EA, 0x51E0, 0x9996], [0x6709, 0x4EC0, 0x4E48, 0x6B4C, 0x4F1A,
      0x5531], [0x90FD, 0x4F1A, 0x5531, 0x4EC0, 0x4E48]]"

definition UNSUPPORTED_DANCE_STYLE_KEYWORDS :: "utext list" where
  "UNSUPPORTED_DANCE_STYLE_KEYWORDS =
    [[0x8857, 0x821E], [0x7235, 0x58EB, 0x821E], [0x6C11, 0x65CF, 0x821E], [0x82AD, 0x857E],
      [0x673A, 0x68B0, 0x821E], [0x5E7F, 0x573A, 0x821E],
     [0x62C9, 0x4E01, 0x821E]]"

definition PENDING_ENVIRONMENT_CONFIRMATION_KEYWORDS :: "utext list" where
  "PENDING_ENVIRONMENT_CONFIRMATION_KEYWORDS =
    [[0x89C6, 0x89C9, 0x8BC6, 0x522B], [0x67E5, 0x770B, 0x73AF, 0x5883], [0x73AF, 0x5883,
      0x7406, 0x89E3], [0x770B, 0x4E00, 0x4E0B, 0x5468, 0x56F4], [0x770B, 0x770B, 0x5468,
      0x56F4], [0x5468, 0x56F4, 0x6709, 0x6CA1, 0x6709],
     [0x9644, 0x8FD1, 0x6709, 0x6CA1, 0x6709], [0x6709, 0x6CA1, 0x6709, 0x4EBA], [0x6709,
       0x6CA1, 0x6709, 0x957F, 0x53D1], [0x6709, 0x6CA1, 0x6709, 0x957F, 0x5934, 0x53D1],
       [0x957F, 0x53D1, 0x7684, 0x4EBA], [0x957F, 0x5934, 0x53D1, 0x7684, 0x4EBA]]"

definition AMBIGUOUS_SIDE_EFFECT_TEXTS :: "utext list" where
  "AMBIGUOUS_SIDE_EFFECT_TEXTS =
    [[0x8D70], [0x56DE], [0x5F04, 0x4E00, 0x4E0B], [0x53D6, 0x6D88, 0x6389], [0x4E0D, 0x8981,
      0x4E86], [0x7EE7, 0x7EED],
     [0x518D, 0x6765, 0x4E00, 0x6B21]]"

definition AFFIRMATIVE_CONFIRMATION_TEXTS :: "utext list" where
  "AFFIRMATIVE_CONFIRMATION_TEXTS =
    [[0x53EF, 0x4EE5], [0x53EF, 0x4EE5, 0x4E86], [0x53EF, 0x4EE5, 0x7684], [0x597D], [0x597D,
      0x7684], [0x597D, 0x554A],
     [0x597D, 0x5440], [0x884C], [0x884C, 0x5427], [0x6CA1, 0x95EE, 0x9898], [0x5BF9], [0x5BF9,
       0x7684],
     [0x662F], [0x662F, 0x7684], [0x55EF], [0x55EF, 0x55EF], [0x5F00, 0x59CB, 0x5427], [0x770B,
       0x4E00, 0x4E0B, 0x5427],
     [0x5E2E, 0x6211, 0x770B, 0x4E00, 0x4E0B], [0x5E2E, 0x6211, 0x770B, 0x770B], [0x90A3,
       0x4F60, 0x770B, 0x4E00, 0x4E0B]]"

definition ROBOT_TOOL_INTENT_RULES :: "(utext list \<times> string list) list" where
  "ROBOT_TOOL_INTENT_RULES =
    [([[0x505C, 0x4E0B], [0x505C, 0x4F4F], [0x505C, 0x6B62], [0x522B, 0x52A8], [0x53D6, 0x6D88,
      0x5F53, 0x524D, 0x4EFB, 0x52A1], [0x53D6, 0x6D88, 0x4EFB, 0x52A1],
      [0x628A, 0x97F3, 0x4E50, 0x5173, 0x6389], [0x5173, 0x95ED, 0x97F3, 0x4E50]],
      [''.cancel_robot_task'', ''.move_robot'']),
     ([[0x5DE1, 0x68C0], [0x5DE1, 0x903B], [0x5F00, 0x59CB, 0x5DE1, 0x903B], [0x53BB, 0x5DE1,
       0x903B]],
      [''.patrol'']),
     ([[0x8FFD, 0x968F], [0x8DDF, 0x968F], [0x8DDF, 0x7740, 0x6211]],
      [''.follow'']),
     ([[0x56DE, 0x6869], [0x56DE, 0x53BB, 0x5145, 0x7535], [0x5145, 0x7535], [0x56DE, 0x5145]],
      [''.recharge_robot'', ''.return_to_charge'']),
     ([[0x8DF3, 0x821E], [0x8DF3, 0x4E2A, 0x821E], [0x821E, 0x8E48], [0x6BB5, 0x821E], [0x5C31,
       0x662F, 0x73B0, 0x5728]],
      [''.dance'']),
     ([[0x62E8, 0x6253, 0x89C6, 0x9891, 0x7535, 0x8BDD], [0x547C, 0x53EB, 0x89C6, 0x9891,
       0x7535, 0x8BDD], [0x6253, 0x4E2A, 0x89C6, 0x9891, 0x7535, 0x8BDD], [0x6253, 0x89C6,
       0x9891, 0x7535, 0x8BDD], [0x53D1, 0x8D77, 0x89C6, 0x9891, 0x901A, 0x8BDD], [0x5F00,
       0x59CB, 0x89C6, 0x9891, 0x901A, 0x8BDD],
      [0x5F00, 0x542F, 0x89C6, 0x9891, 0x901A, 0x8BDD], [0x6211, 0x8981, 0x89C6, 0x9891, 0x901A,
        0x8BDD]],
      [''.call_video'']),
     ([[0x6253, 0x62DB, 0x547C], [0x6253, 0x4E2A, 0x62DB, 0x547C], [0x548C, 0x6211, 0x6253,
       0x4E2A, 0x62DB, 0x547C], [0x62DB, 0x624B], [0x62DB, 0x4E2A, 0x624B], [0x62DB, 0x62DB,
       0x624B],
      [0x6325, 0x6325, 0x624B], [0x6325, 0x624B], [0x95EE, 0x4E2A, 0x597D]],
      [''.move_robot'']),
     ([[0x63E1, 0x624B], [0x63E1, 0x4E2A, 0x624B], [0x548C, 0x6211, 0x63E1, 0x4E2A, 0x624B],
       [0x6765, 0x63E1, 0x4E2A, 0x624B]],
      [''.move_robot'']),
     ([[0x559D, 0x5F69], [0x559D, 0x4E2A, 0x5F69], [0x5E86, 0x795D, 0x4E00, 0x4E0B], [0x6B22,
       0x547C], [0x6B22, 0x547C, 0x4E00, 0x4E0B], [0x9F13, 0x638C]],
      [''.move_robot'']),
     ([[0x624B, 0x52BF, 0x68C0, 0x6D4B], [0x68C0, 0x6D4B, 0x624B, 0x52BF], [0x8BC6, 0x522B,
       0x624B, 0x52BF], [0x624B, 0x52BF]],
      [''.detect_gesture'']),
     ([[0x5BA0, 0x7269, 0x68C0, 0x6D4B], [0x68C0, 0x6D4B, 0x5BA0, 0x7269], [0x8BC6, 0x522B,
       0x5BA0, 0x7269], [0x770B, 0x770B, 0x5BA0, 0x7269], [0x6709, 0x6CA1, 0x6709, 0x5BA0,
       0x7269]],
      [''.detect_pet'']),
     ([[0x73AF, 0x5883, 0x68C0, 0x6D4B], [0x68C0, 0x6D4B, 0x73AF, 0x5883], [0x73AF, 0x5883,
       0x8BC6, 0x522B], [0x573A, 0x666F, 0x8BC6, 0x522B], [0x73AF, 0x5883, 0x7406, 0x89E3],
       [0x7406, 0x89E3, 0x73AF, 0x5883],
      [0x770B, 0x4E00, 0x4E0B, 0x5468, 0x56F4, 0x73AF, 0x5883], [0x770B, 0x770B, 0x5468, 0x56F4,
        0x6709, 0x4EC0, 0x4E48], [0x8BC6, 0x522B, 0x573A, 0x666F], [0x5F53, 0x524D, 0x573A,
        0x666F], [0x89C6, 0x89C9, 0x8BC6, 0x522B], [0x8BC6, 0x522B, 0x4E00, 0x4E0B],
      [0x770B, 0x4E00, 0x4E0B, 0x5468, 0x56F4], [0x770B, 0x770B, 0x5468, 0x56F4], [0x5468,
        0x56F4, 0x6709, 0x6CA1, 0x6709], [0x9644, 0x8FD1, 0x6709, 0x6CA1, 0x6709], [0x6709,
        0x6CA1, 0x6709, 0x4EBA], [0x6709, 0x6CA1, 0x6709, 0x957F, 0x53D1],
      [0x6709, 0x6CA1, 0x6709, 0x957F, 0x5934, 0x53D1], [0x957F, 0x53D1, 0x7684, 0x4EBA],
        [0x957F, 0x5934, 0x53D1, 0x7684, 0x4EBA], [0x5934, 0x53D1, 0x7684, 0x4EBA]],
      [''.understand_environment'']),
     ([[0x521B, 0x5EFA, 0x5730, 0x56FE], [0x5F00, 0x59CB, 0x5EFA, 0x56FE], [0x5EFA, 0x56FE],
       [0x5EFA, 0x4E2A, 0x5730, 0x56FE], [0x751F, 0x6210, 0x5730, 0x56FE], [0x5730, 0x56FE,
       0x5EFA, 0x4E00, 0x4E0B]],
      [''.create_map'']),
     ([[0x5F80, 0x524D], [0x5411, 0x524D], [0x524D, 0x8FDB], [0x5F80, 0x524D, 0x632A], [0x5F80,
       0x540E], [0x5411, 0x540E],
      [0x540E, 0x9000], [0x5DE6, 0x8F6C], [0x5F80, 0x5DE6, 0x62D0], [0x53F3, 0x8F6C], [0x5F80,
        0x53F3, 0x62D0], [0x52A8, 0x4E00, 0x4E0B]],
      [''.move_robot''])]"

definition ROBOT_MOVE_ACTION_RULES :: "(string \<times> utext list) list" where
  "ROBOT_MOVE_ACTION_RULES =
    [(''stop'', [[0x505C, 0x4E0B], [0x505C, 0x4F4F], [0x505C, 0x6B62], [0x522B, 0x52A8],
      [0x53D6, 0x6D88, 0x5F53, 0x524D, 0x4EFB, 0x52A1], [0x53D6, 0x6D88, 0x4EFB, 0x52A1]]),
     (''greet'', [[0x6253, 0x62DB, 0x547C], [0x6253, 0x4E2A, 0x62DB, 0x547C], [0x548C, 0x6211,
       0x6253, 0x4E2A, 0x62DB, 0x547C], [0x62DB, 0x624B], [0x62DB, 0x4E2A, 0x624B], [0x62DB,
       0x62DB, 0x624B],
      [0x6325, 0x6325, 0x624B], [0x6325, 0x624B], [0x95EE, 0x4E2A, 0x597D]]),
     (''handshake'', [[0x63E1, 0x624B], [0x63E1, 0x4E2A, 0x624B], [0x548C, 0x6211, 0x63E1,
       0x4E2A, 0x624B], [0x6765, 0x63E1, 0x4E2A, 0x624B]]),
     (''cheer'', [[0x559D, 0x5F69], [0x559D, 0x4E2A, 0x5F69], [0x5E86, 0x795D, 0x4E00, 0x4E0B],
       [0x6B22, 0x547C], [0x6B22, 0x547C, 0x4E00, 0x4E0B], [0x9F13, 0x638C]]),
     (''forward'', [[0x5F80, 0x524D], [0x5411, 0x524D], [0x524D, 0x8FDB], [0x5F80, 0x524D,
       0x632A], [0x52A8, 0x4E00, 0x4E0B]]),
     (''backward'', [[0x5F80, 0x540E], [0x5411, 0x540E], [0x540E, 0x9000]]),
     (''turn_left'', [[0x5DE6, 0x8F6C], [0x5F80, 0x5DE6, 0x62D0]]),
     (''turn_right'', [[0x53F3, 0x8F6C], [0x5F80, 0x53F3, 0x62D0]])]"

definition ROBOT_DIRECT_NO_ARG_TOOL_SUFFIXES :: "string list" where
  "ROBOT_DIRECT_NO_ARG_TOOL_SUFFIXES =
     [''.create_map'', ''.patrol'', ''.follow'', ''.recharge_robot'', ''.return_to_charge'', ''.dance'',
      ''.call_video'', ''.detect_gesture'', ''.detect_pet'', ''.understand_environment'', ''.cancel_robot_task'']"

definition ROUTER_TOOL_CATEGORIES :: "string list" where
  "ROUTER_TOOL_CATEGORIES = [''websearch'', ''robot'', ''singing'', ''task'', ''utils'', ''complex'']"

definition ROUTER_CATEGORY_TOOL_PREFIX :: "(string \<times> string) list" where
  "ROUTER_CATEGORY_TOOL_PREFIX =
     [(''websearch'', ''websearch.''), (''robot'', ''robot_remote.''), (''singing'', ''singing_remote.''),
      (''task'', ''robots_task_service.''), (''utils'', ''utils_remote.'')]"

definition ROUTER_CATEGORY_PROGRESS_POOL :: "(string \<times> string) list" where
  "ROUTER_CATEGORY_PROGRESS_POOL =
     [(''websearch'', ''tool.websearch''), (''robot'', ''robot.generic''), (''task'', ''tool.task''),
      (''utils'', ''tool.utils'')]"

definition ROUTER_DECISION_CODE_TO_DECISION :: "(string \<times> string \<times> string option) list" where
  "ROUTER_DECISION_CODE_TO_DECISION =
     [(''e'', ''exit'', None), (''c'', ''chat'', None), (''v'', ''chat'', Some ''vision''),
      (''w'', ''tool'', Some ''websearch''), (''r'', ''tool'', Some ''robot''), (''s'', ''tool'', Some ''singing''),
      (''t'', ''tool'', Some ''task''), (''u'', ''tool'', Some ''utils''), (''x'', ''tool'', Some ''complex'')]"

definition EXIT_TRAILING_PUNCTUATION :: utext where
  "EXIT_TRAILING_PUNCTUATION = [0x3002, 0xFF01, 0xFF1F, 0x21, 0x3F, 0x2E, 0x2C, 0xFF0C, 0xFF1B,
    0x3B, 0xFF1A, 0x3A, 0x7E, 0xFF5E, 0x2026]"

definition WEATHER_FILLERS :: "utext list" where
  "WEATHER_FILLERS =
    [[0x8BF7, 0x4F60], [0x8BF7], [0x5E2E, 0x6211], [0x7ED9, 0x6211], [0x5E2E, 0x5FD9], [0x6211,
      0x60F3, 0x77E5, 0x9053],
     [0x60F3, 0x77E5, 0x9053], [0x67E5, 0x4E00, 0x4E0B], [0x67E5, 0x67E5], [0x67E5, 0x8BE2],
       [0x770B, 0x4E00, 0x4E0B], [0x770B, 0x770B],
     [0x4ECA, 0x5929], [0x660E, 0x5929], [0x540E, 0x5929], [0x73B0, 0x5728], [0x5F53, 0x524D],
       [0x6700, 0x8FD1],
     [0x8FD9, 0x51E0, 0x5929], [0x8FD9, 0x4E24, 0x5929], [0x5468, 0x672B], [0x5929, 0x6C14,
       0x9884, 0x62A5], [0x5929, 0x6C14], [0x6C14, 0x6E29],
     [0x6E29, 0x5EA6], [0x4E0B, 0x96E8], [0x4E0B, 0x96EA], [0x522E, 0x98CE], [0x7A7A, 0x6C14,
       0x8D28, 0x91CF], [0x600E, 0x4E48, 0x6837],
     [0x5982, 0x4F55], [0x591A, 0x5C11], [0x6709, 0x6CA1, 0x6709], [0x4F1A, 0x4E0D, 0x4F1A],
       [0x662F, 0x4E0D, 0x662F], [0x4E00, 0x4E0B],
     [0x5417], [0x5462], [0x554A], [0x5440], [0x7684]]"

subsection \<open>Patterns\<close>

definition NUMERALS :: utext where
  \<comment> \<open>zero, one, two (twice), three to ten, hundred\<close>
  "NUMERALS = [0x96F6, 0x4E00, 0x4E8C, 0x4E24, 0x4E09, 0x56DB, 0x4E94, 0x516D, 0x4E03, 0x516B,
    0x4E5D, 0x5341, 0x767E]"

definition HOUR_NUMERALS :: utext where
  \<comment> \<open>one, two (twice), three to ten, half\<close>
  "HOUR_NUMERALS = [0x4E00, 0x4E8C, 0x4E24, 0x4E09, 0x56DB, 0x4E94, 0x516D, 0x4E03, 0x516B,
    0x4E5D, 0x5341, 0x534A]"

definition TIME_WORD :: "pylib \<Rightarrow> rx" where
  \<comment> \<open>\<open>\b(?:current\s+time|time)\b\<close>\<close>
  "TIME_WORD L = rx_seq
     [Rx_Word_Edge (u_word L),
      rx_any [rx_seq [Rx_Text (u ''current''), Rx_Span u_space 1 None, Rx_Text (u ''time'')], Rx_Text (u ''time'')],
      Rx_Word_Edge (u_word L)]"

definition CONDITION_RX :: rx where
  "CONDITION_RX = rx_seq
     [rx_words [[0x6CA1], [0x6709], [0x662F], [0x4E0D, 0x662F], [0x4F1A], [0x4E0D, 0x4F1A]],
       Rx_Span no_newline 1 (Some 12), Rx_Text [0x5C31]]"

definition ACTION_PREFIX :: rx where
  "ACTION_PREFIX = rx_words [[0x5F80, 0x524D], [0x5411, 0x524D], [0x524D, 0x8FDB], [0x5F80,
    0x540E], [0x5411, 0x540E], [0x540E, 0x9000], [0x5DE6, 0x8F6C], [0x53F3, 0x8F6C]]"

definition DECIMAL :: "pylib \<Rightarrow> rx" where
  \<comment> \<open>\<open>\d+(?:\.\d+)?\<close>\<close>
  "DECIMAL L = rx_seq [Rx_Span (u_digit L) 1 None,
     Rx_Opt (rx_seq [Rx_Text (u ''.''), Rx_Span (u_digit L) 1 None])]"

definition DISTANCE_RX :: "pylib \<Rightarrow> rx" where
  \<comment> \<open>a movement with a number of metres, centimetres, degrees or turns\<close>
  "DISTANCE_RX L = rx_seq
     [ACTION_PREFIX, Rx_Span no_newline 0 (Some 6),
      rx_any [DECIMAL L, Rx_Span (\<lambda>c. c \<in> set NUMERALS) 1 None], Rx_Span u_space 0 None,
      rx_words [[0x7C73], [0x5398, 0x7C73], [0x5EA6], [0x5708]]]"

definition STEPS_RX :: "pylib \<Rightarrow> rx" where
  \<comment> \<open>a movement with a number of steps other than one\<close>
  "STEPS_RX L = rx_seq
     [ACTION_PREFIX, Rx_Span no_newline 0 (Some 6),
      rx_any [DECIMAL L,
        Rx_Span (\<lambda>c. c \<in> set NUMERALS \<and> c \<noteq> hd [0x4E00]) 1 None],
        Rx_Span u_space 0 None,
      Rx_Text [0x6B65]]"

definition CALL_SOMEONE_RX :: rx where
  "CALL_SOMEONE_RX = rx_seq
     [rx_words [[0x7ED9], [0x5E2E]], Rx_Span no_newline 1 (Some 12), rx_words [[0x6253, 0x89C6,
       0x9891], [0x89C6, 0x9891, 0x901A, 0x8BDD], [0x89C6, 0x9891, 0x7535, 0x8BDD]]]"

definition CALL_ME_RX :: rx where
  "CALL_ME_RX = rx_seq
     [rx_words [[0x7ED9], [0x5E2E]], Rx_Text [0x6211], rx_words [[0x6253], [0x53D1, 0x8D77],
       [0x5F00, 0x542F], [0x5F00, 0x59CB], [0x547C, 0x53EB]]]"

definition DONT_START_RX :: rx where
  "DONT_START_RX = rx_seq
     [Rx_Begin, Rx_Text [0x522B], Rx_Opt (rx_words [[0x7ED9, 0x6211], [0x518D]]),
      rx_words [[0x8DF3], [0x5531], [0x5DE1, 0x903B], [0x5DE1, 0x68C0], [0x524D, 0x8FDB],
        [0x540E, 0x9000], [0x5DE6, 0x8F6C], [0x53F3, 0x8F6C], [0x79FB, 0x52A8], [0x6253, 0x89C6,
        0x9891]]]"

definition HAS_TIME_RX :: "pylib \<Rightarrow> rx" where
  "HAS_TIME_RX L =
     (let d = u_digit L; hours = (\<lambda>c. c \<in> set HOUR_NUMERALS); days = (\<lambda>c. c
       \<in> set [0x4E00, 0x4E8C, 0x4E09, 0x56DB, 0x4E94, 0x516D, 0x65E5, 0x5929]) in
      rx_any
      [rx_words [[0x4ECA, 0x5929], [0x660E, 0x5929], [0x540E, 0x5929], [0x4ECA, 0x665A],
        [0x660E, 0x65E9], [0x4ECA, 0x65E9], [0x4E0A, 0x5348], [0x4E0B, 0x5348], [0x665A,
        0x4E0A], [0x51CC, 0x6668], [0x4E0B, 0x5468]],
       rx_seq [Rx_Text [0x5468], Rx_Span days 1 (Some 1)],
       rx_seq [Rx_Text [0x661F, 0x671F], Rx_Span days 1 (Some 1)],
       rx_seq [Rx_Span d 1 (Some 2),
         Rx_Opt (rx_seq [rx_words [u '':'', [0xFF1A]], Rx_Span d 1 (Some 2)]),
           Rx_Opt (Rx_Text [0x70B9])],
       rx_seq [Rx_Span hours 1 None, rx_words [[0x70B9], [0x5206, 0x949F, 0x540E], [0x5C0F,
         0x65F6, 0x540E]]],
       rx_seq [Rx_Span d 1 None, rx_words [[0x5206, 0x949F], [0x5C0F, 0x65F6], [0x79D2]],
         Rx_Text [0x540E]],
       rx_seq [Rx_Text [0x8FC7], rx_any [Rx_Span d 1 None, Rx_Span hours 1 None],
         rx_words [[0x5206, 0x949F], [0x5C0F, 0x65F6]]],
       rx_words [[0x534A, 0x4E2A, 0x949F, 0x5934, 0x540E], [0x4E00, 0x4F1A, 0x513F], [0x7A0D,
         0x540E], [0x534A, 0x5C0F, 0x65F6, 0x540E]],
       rx_seq [Rx_Span d 1 (Some 2), Rx_Text [0x6708], Rx_Span d 1 (Some 2), rx_words [[0x65E5],
         [0x53F7]]]])"

definition REMIND_HEAD_RX :: rx where
  \<comment> \<open>\<open>^.*?\<close>, then \<open>remind (me)?\<close> or \<open>call me\<close>\<close>
  "REMIND_HEAD_RX = rx_seq
     [Rx_Begin, Rx_Lazy no_newline 0,
      rx_any [rx_seq [Rx_Text [0x63D0, 0x9192], Rx_Opt (Rx_Text [0x6211])], Rx_Text [0x53EB,
        0x6211]]]"

definition JUST_ONCE_RX :: rx where
  "JUST_ONCE_RX = rx_seq [Rx_Begin, rx_words [[0x4E00, 0x4E0B], [0x4E00, 0x4E0B, 0x5B50]]]"

definition CAN_SING_RX :: rx where
  \<comment> \<open>\<open>(?:you)?\<close>, \<open>can sing .+ ?$\<close>\<close>
  "CAN_SING_RX = rx_seq
     [Rx_Opt (Rx_Text [0x4F60]), Rx_Text [0x4F1A, 0x5531], Rx_Span no_newline 1 None,
       Rx_Text [0x5417], Rx_End]"

end
