(* ===== verification/Tool_Router.thy ===== *)
theory Tool_Router
  imports Router_Tables Quick_Replies
begin

text \<open>
  The deterministic part of the tool router (\<open>src/llm/tool_router.py\<close>): which route a text takes
  before any model is asked, the arguments of calls made without one, and how the answer of the
  routing model is read.  The replies spoken meanwhile are picked from a pool by the argument
  \<open>speak\<close> (\<open>Quick_Replies\<close> models the choice).
\<close>

subsection \<open>Tests of a text\<close>

definition contains_any :: "pylib \<Rightarrow> utext \<Rightarrow> utext list \<Rightarrow> bool" where
  "contains_any L text keywords =
     (let normalized = u_lower L (u_strip text) in list_ex (\<lambda>k. u_in (u_lower L k) normalized) keywords)"

definition mentions_any :: "pylib \<Rightarrow> utext list \<Rightarrow> utext \<Rightarrow> bool" where
  \<comment> \<open>\<open>any(keyword.lower() in normalized for keyword in keywords)\<close>\<close>
  "mentions_any L keywords normalized = list_ex (\<lambda>k. u_in (u_lower L k) normalized) keywords"

definition has_any :: "utext list \<Rightarrow> utext \<Rightarrow> bool" where
  \<comment> \<open>\<open>any(keyword in normalized for keyword in keywords)\<close>\<close>
  "has_any keywords normalized = list_ex (\<lambda>k. u_in k normalized) keywords"

definition drop_marks :: "utext \<Rightarrow> utext" where
  \<comment> \<open>without white space and punctuation\<close>
  "drop_marks t = filter (\<lambda>c. \<not> u_space c \<and> c \<notin> set EXIT_TRAILING_PUNCTUATION) t"

definition drop_blanks :: "utext \<Rightarrow> utext" where
  "drop_blanks t = filter (\<lambda>c. \<not> u_space c) t"

definition strip_chars :: "utext \<Rightarrow> utext \<Rightarrow> utext" where
  \<comment> \<open>\<open>text.strip(chars)\<close>\<close>
  "strip_chars cs t = rev (dropWhile (\<lambda>c. c \<in> set cs) (rev (dropWhile (\<lambda>c. c \<in> set cs) t)))"

definition is_capability_question :: "pylib \<Rightarrow> utext \<Rightarrow> bool" where
  "is_capability_question L text =
     (let normalized = u_lower L (u_strip text) in
      list_ex (u_ends normalized) [u ''?'', [0xFF1F], [0x5417], [0x5417, 0x3F], [0x5417, 0xFF1F]]
      \<and> \<not> contains_any L normalized [[0x5F53, 0x524D, 0x753B, 0x9762], [0x753B,
        0x9762, 0x91CC], [0x955C, 0x5934, 0x91CC], [0x6444, 0x50CF, 0x5934], [0x6211, 0x7A7F],
        [0x6211, 0x7684, 0x8868, 0x60C5]]
      \<and> mentions_any L CAPABILITY_CHAT_PATTERNS normalized)"

definition is_robot_evaluation_question :: "pylib \<Rightarrow> utext \<Rightarrow> bool" where
  "is_robot_evaluation_question L text =
     (let normalized = u_lower L (u_strip text) in
      has_any ROBOT_EVALUATION_QUESTION_PATTERNS normalized
      \<and> has_any [[0x8DF3], [0x5531], [0x8D70], [0x5DE1, 0x903B], [0x8868,
        0x6F14]] normalized)"

definition is_hypothetical_chat :: "pylib \<Rightarrow> utext \<Rightarrow> bool" where
  "is_hypothetical_chat L text =
     (let normalized = u_lower L (u_strip text) in
      (u_starts normalized [0x5047, 0x5982] \<or> u_starts normalized [0x5047, 0x8BBE])
      \<and> has_any [[0x4F1A, 0x600E, 0x6837], [0x4F1A, 0x600E, 0x4E48, 0x6837], [0x4F1A,
        0x53D1, 0x751F, 0x4EC0, 0x4E48], [0x600E, 0x4E48, 0x529E]] normalized)"

definition SINGING_QUESTIONS :: "utext list" where
  "SINGING_QUESTIONS = [[0x5531, 0x6B4C, 0x597D, 0x542C, 0x5417], [0x5531, 0x5F97, 0x597D,
    0x542C, 0x5417], [0x5531, 0x6B4C, 0x600E, 0x4E48, 0x6837]]"

definition is_chat_intent :: "pylib \<Rightarrow> utext \<Rightarrow> bool" where
  "is_chat_intent L text =
     (contains_any L text NARRATIVE_CHAT_KEYWORDS \<or> contains_any L text LOW_TOOL_RISK_CHAT_KEYWORDS
      \<or> contains_any L text EXPLANATION_CHAT_KEYWORDS \<or> is_capability_question L text
      \<or> contains_any L text NEGATIVE_CHAT_PATTERNS \<or> is_robot_evaluation_question L text
      \<or> is_hypothetical_chat L text \<or> has_any SINGING_QUESTIONS (u_lower L text))"

definition is_websearch_query :: "pylib \<Rightarrow> utext \<Rightarrow> bool" where
  "is_websearch_query L text = (contains_any L text WEBSEARCH_KEYWORDS \<or> contains_any L text WEATHER_KEYWORDS)"

definition detect_singing_intent :: "pylib \<Rightarrow> utext \<Rightarrow> string option" where
  "detect_singing_intent L text =
     (let normalized = drop_marks (u_lower L text) in
      if normalized = [] then None
      else if list_ex (u_starts normalized) [[0x4E0D, 0x8981], [0x4E0D, 0x7528], [0x5148,
        0x522B], [0x522B, 0x5531], [0x4E0D, 0x5531]] then None
      else if has_any SINGING_LIST_KEYWORDS normalized then Some ''list''
      else if rx_search CAN_SING_RX normalized \<or> normalized \<in> {[0x4F60, 0x4F1A, 0x5531,
        0x6B4C, 0x5417], [0x4F1A, 0x5531, 0x6B4C, 0x5417]}
      then Some ''list''
      else if has_any SINGING_QUESTIONS normalized then None
      else if has_any SINGING_PLAY_KEYWORDS normalized then Some ''play'' else None)"

definition robot_intents :: "pylib \<Rightarrow> utext \<Rightarrow> nat" where
  \<comment> \<open>how many robot rules a lower-case text meets\<close>
  "robot_intents L normalized =
     length (filter (\<lambda>(keywords, _). mentions_any L keywords normalized) ROBOT_TOOL_INTENT_RULES)"

function (sequential) split_at :: "utext list \<Rightarrow> utext \<Rightarrow> utext list" where
  \<comment> \<open>\<open>re.split("a|b|...", text)\<close> for words that are not empty\<close>
  "split_at ws [] = [[]]"
| "split_at ws (c # t) =
     (case find (\<lambda>w. w \<noteq> [] \<and> u_starts (c # t) w) ws of
        Some w \<Rightarrow> [] # split_at ws (drop (length w) (c # t))
      | None \<Rightarrow> (case split_at ws t of
          part # parts \<Rightarrow> (c # part) # parts
        | [] \<Rightarrow> [[c]]))"
  by pat_completeness auto

termination split_at
proof (relation "measure (length \<circ> snd)")
  fix ws :: "utext list" and c :: int and t w :: utext
  assume "find (\<lambda>w. w \<noteq> [] \<and> u_starts (c # t) w) ws = Some w"
  then have "w \<noteq> []" "u_starts (c # t) w" by (auto simp: find_Some_iff)
  then show "((ws, drop (length w) (c # t)), ws, c # t) \<in> measure (length \<circ> snd)"
    using u_starts_drop [of "c # t" w] by simp
qed auto

definition tool_segment :: "pylib \<Rightarrow> utext \<Rightarrow> bool" where
  "tool_segment L part =
     (contains_any L part TASK_KEYWORDS \<or> contains_any L part TIME_KEYWORDS \<or> rx_search (TIME_WORD L) part
      \<or> is_websearch_query L part \<or> contains_any L part VISION_SEQUENCE_SIGNALS \<or> robot_intents L part > 0
      \<or> detect_singing_intent L part \<noteq> None)"

definition is_explicit_complex_request :: "pylib \<Rightarrow> utext \<Rightarrow> bool" where
  "is_explicit_complex_request L text =
     (let normalized = u_lower L text in
      if normalized = [] \<or> is_chat_intent L normalized then False
      else
        let has_time_signal = (contains_any L normalized TIME_KEYWORDS \<or> rx_search (TIME_WORD L) normalized);
            singing = (if detect_singing_intent L normalized \<noteq> None then 1 else 0);
            other = length (filter id [contains_any L normalized TASK_KEYWORDS, has_time_signal,
                is_websearch_query L normalized, contains_any L normalized VISION_SEQUENCE_SIGNALS]);
            tool_signal_count = robot_intents L normalized + singing + other;
            conditional = (has_any [[0x5982, 0x679C], [0x8981, 0x662F], [0x6709, 0x7684,
              0x8BDD], [0x6CA1, 0x6709, 0x7684, 0x8BDD], [0x7684, 0x8BDD], [0x5426, 0x5219],
              [0x6EE1, 0x8DB3, 0x6761, 0x4EF6], u ''if ''] normalized
              \<or> rx_search CONDITION_RX normalized);
            sequenced = has_any [[0x5148], [0x7136, 0x540E], [0x63A5, 0x7740], [0x518D],
              [0x4E4B, 0x540E], u '' then ''] normalized;
            parts = filter (\<lambda>p. p \<noteq> []) (map (strip_chars [0xFF0C, 0x2C, 0x3002,
              0xFF1B, 0x3B, 0x20])
              (split_at [[0x5148], [0x7136, 0x540E], [0x63A5, 0x7740], [0x518D], [0x4E4B,
                0x540E]] normalized));
            segments = length (filter (tool_segment L) parts)
        in other \<ge> 2 \<or> (conditional \<and> tool_signal_count \<ge> 1)
           \<or> (sequenced \<and> (tool_signal_count \<ge> 2 \<or> segments \<ge> 2)))"

definition is_unsupported_robot_request :: "pylib \<Rightarrow> utext \<Rightarrow> bool" where
  "is_unsupported_robot_request L text =
     (let normalized = u_lower L text in
      has_any UNSUPPORTED_ROBOT_CAPABILITY_KEYWORDS normalized
      \<or> (u_in [0x97F3, 0x91CF] normalized \<and> has_any [[0x97F3, 0x4E50], [0x5531,
        0x6B4C], [0x58F0, 0x97F3]] normalized)
      \<or> (u_in [0x97F3, 0x4E50, 0x58F0] normalized \<and> has_any [[0x5927], [0x5C0F],
        [0x9AD8], [0x4F4E]] normalized)
      \<or> (u_in [0x8DF3] normalized \<and> has_any UNSUPPORTED_DANCE_STYLE_KEYWORDS normalized)
      \<or> rx_search (DISTANCE_RX L) normalized \<or> rx_search (STEPS_RX L) normalized
      \<or> (rx_search CALL_SOMEONE_RX normalized \<and> \<not> rx_search CALL_ME_RX normalized))"

definition is_negated_robot_start_request :: "pylib \<Rightarrow> utext \<Rightarrow> bool" where
  "is_negated_robot_start_request L text =
     (let normalized = drop_blanks (u_lower L text) in
      if normalized \<in> {[0x522B, 0x52A8], [0x522B, 0x8DF3, 0x4E86], [0x522B, 0x5531,
        0x4E86]} \<or> has_any [[0x505C, 0x4E0B], [0x505C, 0x4F4F], [0x505C,
        0x6B62]] normalized then False
      else (has_any NEGATED_ROBOT_START_PREFIXES normalized \<or> rx_search DONT_START_RX normalized)
           \<and> has_any ROBOT_START_ACTION_KEYWORDS normalized)"

definition is_negated_singing_request :: "pylib \<Rightarrow> utext \<Rightarrow> bool" where
  "is_negated_singing_request L text =
     list_ex (u_starts (drop_blanks (u_lower L text))) [[0x4E0D, 0x8981, 0x5531], [0x4E0D,
       0x7528, 0x5531], [0x5148, 0x522B, 0x5531], [0x522B, 0x5531], [0x4E0D, 0x5531]]"

definition is_ambiguous_side_effect_request :: "pylib \<Rightarrow> utext \<Rightarrow> bool" where
  "is_ambiguous_side_effect_request L text = (drop_marks (u_lower L text) \<in> set AMBIGUOUS_SIDE_EFFECT_TEXTS)"

definition drop_end :: "(int \<Rightarrow> bool) \<Rightarrow> utext \<Rightarrow> utext" where
  \<comment> \<open>\<open>re.sub("[...]+$", "", text)\<close> of a text without line feeds\<close>
  "drop_end P t = rev (dropWhile P (rev t))"

definition is_incomplete_task_creation_request :: "pylib \<Rightarrow> utext \<Rightarrow> bool" where
  "is_incomplete_task_creation_request L text =
     (let normalized = drop_blanks (u_lower L (u_strip text)) in
      if normalized = [] \<or> \<not> has_any [[0x63D0, 0x9192], [0x53EB,
        0x6211]] normalized then False
      else if has_any [[0x5220, 0x9664], [0x5220, 0x6389], [0x5220, 0x4E86], [0x53D6, 0x6D88],
        [0x5217, 0x51FA], [0x67E5, 0x770B], [0x67E5, 0x8BE2], [0x6709, 0x54EA,
        0x4E9B]] normalized then False
      else
        let has_time = rx_search (HAS_TIME_RX L) normalized;
            content = drop_end (\<lambda>c. c \<in> set EXIT_TRAILING_PUNCTUATION)
              (strip_chars [0x5457, 0x5427, 0x5440,
                0x554A] (rx_cut_start JUST_ONCE_RX (rx_cut_start REMIND_HEAD_RX normalized)))
        in \<not> has_time \<or> content = [])"

definition detect_required_tool_category :: "pylib \<Rightarrow> utext \<Rightarrow> string option" where
  "detect_required_tool_category L text =
     (if text = [] \<or> is_chat_intent L text \<or> is_ambiguous_side_effect_request L text
        \<or> is_negated_robot_start_request L text then None
      else if is_unsupported_robot_request L text then Some ''robot_capability''
      else if is_explicit_complex_request L text then Some ''complex''
      else if is_incomplete_task_creation_request L text then None
      else if detect_singing_intent L text \<noteq> None then Some ''singing''
      else if contains_any L text TASK_KEYWORDS then Some ''task''
      else if contains_any L text TIME_KEYWORDS then Some ''utils''
      else if is_websearch_query L text then Some ''websearch''
      else if robot_intents L (u_lower L text) > 0 then Some ''robot'' else None)"

subsection \<open>Tools\<close>

definition filter_tools_by_prefix :: "llm_tool list \<Rightarrow> string \<Rightarrow> llm_tool list" where
  "filter_tools_by_prefix tools prefix =
     filter (\<lambda>t. u_starts (lt_name t) (u prefix) \<or> u_starts (lt_name t) (dots_to_marks (u prefix))) tools"

definition first_tool_name :: "llm_tool list \<Rightarrow> utext option" where
  "first_tool_name tools = map_option lt_name (find (\<lambda>t. lt_name t \<noteq> []) tools)"

definition named_like :: "string \<Rightarrow> llm_tool list \<Rightarrow> utext option" where
  \<comment> \<open>the name of the first tool with this suffix\<close>
  "named_like suffix tools = map_option lt_name (find (\<lambda>t. tool_name_matches (lt_name t) suffix) tools)"

definition robot_suffixes :: "string list" where
  "robot_suffixes = concat (map snd ROBOT_TOOL_INTENT_RULES)"

definition robot_tools_of :: "llm_tool list \<Rightarrow> llm_tool list" where
  "robot_tools_of tools =
     (let remote = filter_tools_by_prefix tools ''robot_remote.'' in
      if remote \<noteq> [] then remote
      else filter (\<lambda>t. list_ex (tool_name_matches (lt_name t)) robot_suffixes) tools)"

definition first_robot_tool_matching_suffix :: "llm_tool list \<Rightarrow> string list \<Rightarrow> utext option" where
  "first_robot_tool_matching_suffix tools suffixes =
     first_some (\<lambda>s. named_like s (robot_tools_of tools)) suffixes"

definition CALL_REFUSALS :: "utext list" where
  "CALL_REFUSALS =
     [[0x4E0D, 0x8981], [0x4E0D, 0x7528], [0x522B, 0x6253], [0x522B, 0x62E8], [0x522B, 0x547C,
       0x53EB], [0x522B, 0x53D1, 0x8D77], [0x5148, 0x522B], [0x53D6, 0x6D88, 0x89C6, 0x9891],
       [0x505C, 0x6B62, 0x89C6, 0x9891], [0x600E, 0x4E48], [0x5982, 0x4F55], [0x600E, 0x6837]]"

definition select_robot_tool_name :: "pylib \<Rightarrow> utext \<Rightarrow> llm_tool list \<Rightarrow> utext option" where
  "select_robot_tool_name L text tools =
     (let normalized = u_lower L text in
      first_some (\<lambda>(keywords, suffixes).
          if \<not> mentions_any L keywords normalized then None
          else if ''.call_video'' \<in> set suffixes \<and> has_any CALL_REFUSALS normalized then None
          else first_robot_tool_matching_suffix tools suffixes)
        ROBOT_TOOL_INTENT_RULES)"

definition last_assistant_text :: "chat_message list \<Rightarrow> utext" where
  "last_assistant_text messages =
     (case find (\<lambda>(role, _). role = u ''assistant'') (rev messages) of Some (_, t) \<Rightarrow> t | None \<Rightarrow> [])"

definition is_short_affirmative_confirmation :: "pylib \<Rightarrow> utext \<Rightarrow> bool" where
  "is_short_affirmative_confirmation L text =
     (let normalized = u_lower L (drop_marks text) in
      normalized \<noteq> [] \<and> length normalized \<le> 8 \<and> normalized \<in> set AFFIRMATIVE_CONFIRMATION_TEXTS)"

definition select_confirmed_robot_tool_name ::
  "pylib \<Rightarrow> utext \<Rightarrow> llm_tool list \<Rightarrow> chat_message list \<Rightarrow> utext option" where
  "select_confirmed_robot_tool_name L text tools messages =
     (if \<not> is_short_affirmative_confirmation L text then None
      else
        let assistant_text = last_assistant_text messages in
        if assistant_text = [] \<or> \<not> contains_any L assistant_text PENDING_ENVIRONMENT_CONFIRMATION_KEYWORDS then None
        else first_robot_tool_matching_suffix tools [''.understand_environment''])"

definition select_singing_tool_name :: "string \<Rightarrow> llm_tool list \<Rightarrow> utext option" where
  "select_singing_tool_name intent tools =
     named_like (if intent = ''play'' then ''.play_song'' else ''.list_songs'')
       (filter_tools_by_prefix tools ''singing_remote.'')"

subsection \<open>Arguments without a model\<close>

definition infer_deterministic_robot_tool_args :: "pylib \<Rightarrow> utext \<Rightarrow> utext \<Rightarrow> udict option" where
  "infer_deterministic_robot_tool_args L text tool_name =
     (if tool_name_matches tool_name ''.move_robot'' then
        map_option (\<lambda>(action, _). [(u ''action'', UText (u action))])
          (find (\<lambda>(_, keywords). mentions_any L keywords (u_lower L text)) ROBOT_MOVE_ACTION_RULES)
      else if list_ex (tool_name_matches tool_name) ROBOT_DIRECT_NO_ARG_TOOL_SUFFIXES then Some []
      else None)"

definition singing_list_args :: "utext \<Rightarrow> udict" where
  "singing_list_args query = [(u ''query'', UText query), (u ''limit'', UInt 5)]"

definition infer_deterministic_singing_tool_args :: "pylib \<Rightarrow> utext \<Rightarrow> utext \<Rightarrow> udict option" where
  "infer_deterministic_singing_tool_args L text tool_name =
     (if tool_name_matches tool_name ''.play_song'' then Some [(u ''query'', UText (u_strip text))]
      else if \<not> tool_name_matches tool_name ''.list_songs'' then None
      else
        let normalized = drop_marks (u_lower L text);
            asked = (case rx_capture (Rx_Text [0x4F1A, 0x5531]) (Rx_Lazy no_newline 1)
                (rx_seq [Rx_Opt (Rx_Text [0x7684, 0x6B4C]), Rx_Text [0x5417],
                  Rx_End]) normalized of
                None \<Rightarrow> None
              | Some g \<Rightarrow>
                  let query = strip_chars [0x7684] g in
                  if query \<notin> {[0x4EC0, 0x4E48, 0x6B4C], [0x54EA, 0x4E9B, 0x6B4C],
                    [0x54EA, 0x51E0, 0x9996], [0x6B4C]} then Some query else None) in
        case asked of
          Some query \<Rightarrow> Some (singing_list_args query)
        | None \<Rightarrow>
            if has_any SINGING_LIST_KEYWORDS normalized \<or> normalized \<in> {[0x4F60, 0x4F1A,
              0x5531, 0x6B4C, 0x5417], [0x4F1A, 0x5531, 0x6B4C, 0x5417]}
            then Some (singing_list_args []) else Some (singing_list_args normalized))"

subsection \<open>The answer of the routing model\<close>

definition parse_llm_router_decision :: "pylib \<Rightarrow> utext \<Rightarrow> (string \<times> string option) option" where
  "parse_llm_router_decision L text =
     (let normalized = u_lower L (u_strip text) in
      case find (\<lambda>(code, _). normalized = u code) ROUTER_DECISION_CODE_TO_DECISION of
        Some (_, decision) \<Rightarrow> Some decision
      | None \<Rightarrow>
          if normalized = u ''exit'' then Some (''exit'', None)
          else if normalized = u ''1'' then Some (''chat'', None)
          else if \<not> u_starts normalized (u ''2:'') then None
          else
            let category = u_lower L (u_strip (drop 2 normalized)) in
            map_option (\<lambda>c. (''tool'', Some c)) (find (\<lambda>c. category = u c) ROUTER_TOOL_CATEGORIES))"

definition router_category_to_tool_prefix :: "string option \<Rightarrow> string option" where
  "router_category_to_tool_prefix category =
     (case category of None \<Rightarrow> None | Some c \<Rightarrow> map_of ROUTER_CATEGORY_TOOL_PREFIX c)"

definition router_progress_text :: "(string \<Rightarrow> utext) \<Rightarrow> string option \<Rightarrow> utext option" where
  "router_progress_text speak category =
     (case category of
        None \<Rightarrow> None
      | Some c \<Rightarrow>
          if c = ''singing'' then Some SINGING_PROGRESS_TEXT else map_option speak (map_of ROUTER_CATEGORY_PROGRESS_POOL c))"

definition build_whole_session_exit_response :: "pylib \<Rightarrow> (string \<Rightarrow> utext) \<Rightarrow> utext \<Rightarrow> utext option" where
  "build_whole_session_exit_response L speak text =
     (let normalized = strip_chars EXIT_TRAILING_PUNCTUATION (u_lower L (u_strip text)) in
      if normalized = [] \<or> has_any NON_WHOLE_SESSION_EXIT_PHRASES normalized then None
      else if normalized \<in> set WHOLE_SESSION_EXIT_COMMANDS then Some (speak ''session.exit'') else None)"

subsection \<open>The route\<close>

definition plain_route :: "string \<Rightarrow> string option \<Rightarrow> string option \<Rightarrow> tool_route" where
  \<comment> \<open>a route with a source and a category only\<close>
  "plain_route kind source category =
     \<lparr>rt_kind = u kind, rt_progress_text = None, rt_tool_prefix = None, rt_selected_tool_name = None,
      rt_require_tool_call = False, rt_model_text = None, rt_source = map_option u source,
      rt_category = map_option u category\<rparr>"

definition call_route :: "utext option \<Rightarrow> string \<Rightarrow> utext \<Rightarrow> utext option \<Rightarrow> string \<Rightarrow> tool_route" where
  \<comment> \<open>a route that must call the tool it names\<close>
  "call_route progress prefix tool_name model_text category =
     \<lparr>rt_kind = u ''tool'', rt_progress_text = progress, rt_tool_prefix = Some (u prefix),
      rt_selected_tool_name = Some tool_name, rt_require_tool_call = True, rt_model_text = model_text,
      rt_source = None, rt_category = Some (u category)\<rparr>"

definition tool_route_for ::
  "string \<Rightarrow> llm_tool list \<Rightarrow> utext \<Rightarrow> utext option \<Rightarrow> tool_route" where
  \<comment> \<open>\<open>_tool_route\<close>\<close>
  "tool_route_for prefix tools progress model_text =
     (case first_tool_name (filter_tools_by_prefix tools prefix) of
        None \<Rightarrow> plain_route ''legacy'' None None
      | Some tool_name \<Rightarrow>
          (call_route (Some progress) prefix tool_name model_text [])
            \<lparr>rt_category := map_option (\<lambda>(c, _). u c)
               (find (\<lambda>(_, p). p = prefix) ROUTER_CATEGORY_TOOL_PREFIX)\<rparr>)"

definition build_robot_progress_text :: "pylib \<Rightarrow> (string \<Rightarrow> utext) \<Rightarrow> utext \<Rightarrow> utext \<Rightarrow> utext" where
  "build_robot_progress_text L speak text tool_name =
     (let normalized = u_lower L (u_strip text) in
      if tool_name_matches tool_name ''.cancel_robot_task''
         \<or> has_any [[0x505C, 0x4E0B], [0x505C, 0x6B62], [0x522B, 0x52A8], [0x53D6, 0x6D88,
           0x5F53, 0x524D, 0x4EFB, 0x52A1], [0x53D6, 0x6D88, 0x4EFB, 0x52A1]] normalized
      then speak ''robot.stop''
      else if tool_name_matches tool_name ''.recharge_robot'' \<or> tool_name_matches tool_name ''.return_to_charge''
      then speak ''robot.recharge''
      else if tool_name_matches tool_name ''.call_video'' then speak ''robot.video_call''
      else if \<not> tool_name_matches tool_name ''.move_robot'' then speak ''robot.generic''
      else if has_any [[0x5F80, 0x524D], [0x5411, 0x524D], [0x524D,
        0x8FDB]] normalized then speak ''robot.move_forward''
      else if has_any [[0x5F80, 0x540E], [0x5411, 0x540E], [0x540E,
        0x9000]] normalized then speak ''robot.move_backward''
      else if u_in [0x5DE6, 0x8F6C] normalized then speak ''robot.turn_left''
      else if u_in [0x53F3, 0x8F6C] normalized then speak ''robot.turn_right''
      else if has_any [[0x6253, 0x62DB, 0x547C], [0x6253, 0x4E2A, 0x62DB, 0x547C], [0x62DB,
        0x624B], [0x62DB, 0x4E2A, 0x624B], [0x62DB, 0x62DB, 0x624B], [0x6325, 0x6325, 0x624B],
        [0x6325, 0x624B], [0x95EE, 0x4E2A, 0x597D]] normalized
      then speak ''robot.greet''
      else if has_any [[0x63E1, 0x624B], [0x63E1, 0x4E2A,
        0x624B]] normalized then speak ''robot.handshake''
      else if has_any [[0x559D, 0x5F69], [0x559D, 0x4E2A, 0x5F69], [0x5E86, 0x795D, 0x4E00,
        0x4E0B], [0x6B22, 0x547C], [0x9F13, 0x638C]] normalized then speak ''robot.cheer''
      else speak ''robot.generic'')"

definition erase :: "utext \<Rightarrow> utext \<Rightarrow> utext" where
  \<comment> \<open>\<open>text.replace(token, "")\<close>\<close>
  "erase token t = concat (split_at [token] t)"

definition weather_query_should_default_to_qingdao :: "pylib \<Rightarrow> utext \<Rightarrow> bool" where
  "weather_query_should_default_to_qingdao L text =
     (let normalized = u_lower L (u_strip text) in
      normalized \<noteq> []
      \<and> strip_chars (32 # EXIT_TRAILING_PUNCTUATION) (fold erase WEATHER_FILLERS normalized) = [])"

definition build_websearch_route :: "pylib \<Rightarrow> (string \<Rightarrow> utext) \<Rightarrow> utext \<Rightarrow> llm_tool list \<Rightarrow> tool_route" where
  "build_websearch_route L speak text tools =
     (let weather = contains_any L text WEATHER_KEYWORDS in
      tool_route_for ''websearch.'' tools (speak (if weather then ''tool.weather'' else ''tool.websearch''))
        (if weather \<and> weather_query_should_default_to_qingdao L text
         then Some [0x5E2E, 0x6211, 0x67E5, 0x4E00, 0x4E0B, 0x9752, 0x5C9B, 0x4ECA, 0x5929,
           0x7684, 0x5929, 0x6C14, 0x3002] else None))"

definition robot_route :: "pylib \<Rightarrow> (string \<Rightarrow> utext) \<Rightarrow> utext \<Rightarrow> utext \<Rightarrow> tool_route" where
  "robot_route L speak text name =
     call_route (Some (build_robot_progress_text L speak text name)) ''robot_remote.'' name None ''robot''"

definition build_tool_latency_route ::
  "pylib \<Rightarrow> (string \<Rightarrow> utext) \<Rightarrow> utext \<Rightarrow> llm_tool list \<Rightarrow> utext \<Rightarrow> chat_message list \<Rightarrow> tool_route" where
  "build_tool_latency_route L speak text tools bot_id messages =
     (if text = [] \<or> tools = [] then plain_route ''legacy'' None None
      else if u_lower L (u_strip bot_id) = [] then plain_route ''legacy'' None None
      else if messages = [] \<and> is_ambiguous_side_effect_request L text
      then plain_route ''chat'' (Some ''deterministic_safety'') None
      else if is_negated_robot_start_request L text then plain_route ''chat'' (Some ''deterministic_safety'') None
      else if is_negated_singing_request L text then plain_route ''chat'' (Some ''deterministic_safety'') None
      else if is_unsupported_robot_request L text
      then plain_route ''chat'' (Some ''deterministic_unavailable'') (Some ''unavailable_robot_capability'')
      else if is_explicit_complex_request L text then plain_route ''tool'' (Some ''deterministic'') (Some ''complex'')
      else if messages = [] \<and> is_incomplete_task_creation_request L text
      then plain_route ''chat'' (Some ''deterministic_safety'') None
      else case detect_singing_intent L text of
        Some intent \<Rightarrow>
          (case select_singing_tool_name intent tools of
             None \<Rightarrow> plain_route ''chat'' (Some ''deterministic_unavailable'') (Some ''unavailable_singing'')
           | Some name \<Rightarrow>
               call_route (if intent = ''play'' then Some SINGING_PROGRESS_TEXT else None) ''singing_remote.'' name None ''singing'')
      | None \<Rightarrow>
          (case select_confirmed_robot_tool_name L text tools messages of
             Some name \<Rightarrow> robot_route L speak text name
           | None \<Rightarrow>
               if is_chat_intent L text then plain_route ''chat'' None None
               else (case select_robot_tool_name L text tools of
                 Some name \<Rightarrow> robot_route L speak text name
               | None \<Rightarrow>
                   if contains_any L text TASK_KEYWORDS
                   then tool_route_for ''robots_task_service.'' tools (speak ''tool.task'') None
                   else if contains_any L text TIME_KEYWORDS
                   then tool_route_for ''utils_remote.'' tools (speak ''tool.utils'') None
                   else if is_websearch_query L text then build_websearch_route L speak text tools
                   else plain_route ''legacy'' None None)))"

end
