(* ===== verification/Tool_Router_Facts.thy ===== *)
theory Tool_Router_Facts
  imports Tool_Router
begin

text \<open>
  What the deterministic router (\<open>src/llm/tool_router.py\<close>) can and cannot do: it names only tools that
  were offered and that fit the category it gives, it never starts an action the text refuses, and
  the answers of the routing model mean one of nine decisions.
\<close>

subsection \<open>Which tools a route names\<close>

lemma first_some_SomeD:
  assumes "first_some f xs = Some y" obtains x where "x \<in> set xs" "f x = Some y"
  using assms nth_mem by (auto simp: first_some_def find_Some_iff split: option.splits)

lemma find_key:
  "distinct (map fst xs) \<Longrightarrow> (k, d) \<in> set xs \<Longrightarrow> find (\<lambda>(k', _). u k = u k') xs = Some (k, d)"
  by (induction xs) (auto simp: image_iff)

lemma named_like_SomeD:
  "named_like s tools = Some n \<Longrightarrow> n \<in> lt_name ` set tools \<and> tool_name_matches n s"
  by (auto simp: named_like_def find_Some_iff)

lemma filter_tools_SomeD:
  "first_tool_name (filter_tools_by_prefix tools p) = Some n \<Longrightarrow>
    n \<in> lt_name ` set tools \<and> (u_starts n (u p) \<or> u_starts n (dots_to_marks (u p)))"
  unfolding first_tool_name_def map_option_eq_Some find_Some_iff
  by (metis (no_types, lifting) filter_tools_by_prefix_def image_eqI mem_Collect_eq nth_mem set_filter)

lemma robot_tools_of_subset: "set (robot_tools_of tools) \<subseteq> set tools"
  by (auto simp: robot_tools_of_def filter_tools_by_prefix_def Let_def)

lemma first_robot_tool_SomeD:
  assumes "first_robot_tool_matching_suffix tools suffixes = Some n"
  shows "n \<in> lt_name ` set tools" "list_ex (tool_name_matches n) suffixes"
proof -
  obtain s where "s \<in> set suffixes" "named_like s (robot_tools_of tools) = Some n"
    using assms unfolding first_robot_tool_matching_suffix_def by (rule first_some_SomeD)
  then show "n \<in> lt_name ` set tools" "list_ex (tool_name_matches n) suffixes"
    using named_like_SomeD robot_tools_of_subset by (fastforce simp: list_ex_iff)+
qed

definition selects :: "llm_tool list \<Rightarrow> tool_route \<Rightarrow> utext \<Rightarrow> string \<Rightarrow> bool" where
  \<comment> \<open>the route calls the tool, of a category the tool belongs to\<close>
  "selects tools r n c \<longleftrightarrow> rt_kind r = u ''tool'' \<and> rt_require_tool_call r \<and> n \<in> lt_name ` set tools
     \<and> rt_category r = Some (u c)
     \<and> rt_tool_prefix r = map_option u (map_of ROUTER_CATEGORY_TOOL_PREFIX c)
     \<and> (if c = ''robot'' then list_ex (tool_name_matches n) robot_suffixes
        else \<exists>p. map_of ROUTER_CATEGORY_TOOL_PREFIX c = Some p \<and> (u_starts n (u p) \<or> u_starts n (dots_to_marks (u p))))"

definition offered_route :: "llm_tool list \<Rightarrow> tool_route \<Rightarrow> bool" where
  "offered_route tools r \<longleftrightarrow>
     (case rt_selected_tool_name r of
        Some n \<Rightarrow> \<exists>c \<in> set ROUTER_TOOL_CATEGORIES. selects tools r n c
      | None \<Rightarrow> \<not> rt_require_tool_call r \<and> rt_tool_prefix r = None \<and> rt_progress_text r = None
          \<and> (rt_kind r = u ''tool'' \<and> rt_category r = Some (u ''complex'')
             \<or> rt_kind r \<in> {u ''chat'', u ''legacy''}))"

lemma plain_route_offered:
  "kind \<in> {''chat'', ''legacy''} \<Longrightarrow> offered_route tools (plain_route kind src c)"
  "offered_route tools (plain_route ''tool'' src (Some ''complex''))"
  by (auto simp: offered_route_def plain_route_def)

lemma tool_route_for_offered:
  assumes "(c, p) \<in> {(''websearch'', ''websearch.''), (''task'', ''robots_task_service.''), (''utils'', ''utils_remote.'')}"
  shows "offered_route tools (tool_route_for p tools progress model_text)"
proof (cases "first_tool_name (filter_tools_by_prefix tools p)")
  case None
  then show ?thesis by (simp add: tool_route_for_def plain_route_offered)
next
  case (Some n)
  have c: "c \<in> set ROUTER_TOOL_CATEGORIES" "c \<noteq> ''robot''" "map_of ROUTER_CATEGORY_TOOL_PREFIX c = Some p"
      "find (\<lambda>(_, q). q = p) ROUTER_CATEGORY_TOOL_PREFIX = Some (c, p)"
    using assms by (auto simp: ROUTER_TOOL_CATEGORIES_def ROUTER_CATEGORY_TOOL_PREFIX_def)
  have "selects tools (tool_route_for p tools progress model_text) n c"
    using filter_tools_SomeD [OF Some] c
    by (simp add: selects_def tool_route_for_def call_route_def Some)
  moreover have "rt_selected_tool_name (tool_route_for p tools progress model_text) = Some n"
    by (simp add: tool_route_for_def call_route_def Some)
  ultimately show ?thesis using c(1) unfolding offered_route_def by auto
qed

lemma robot_route_offered:
  assumes "n \<in> lt_name ` set tools" and "list_ex (tool_name_matches n) robot_suffixes"
  shows "offered_route tools (robot_route L speak text n)"
proof -
  have "selects tools (robot_route L speak text n) n ''robot''"
    using assms by (simp add: selects_def robot_route_def call_route_def ROUTER_CATEGORY_TOOL_PREFIX_def)
  then show ?thesis by (auto simp: offered_route_def robot_route_def call_route_def ROUTER_TOOL_CATEGORIES_def)
qed

lemma singing_route_offered:
  assumes "select_singing_tool_name intent tools = Some n"
  shows "offered_route tools (call_route progress ''singing_remote.'' n None ''singing'')"
proof -
  have n: "n \<in> lt_name ` set (filter_tools_by_prefix tools ''singing_remote.'')"
    using assms named_like_SomeD unfolding select_singing_tool_name_def by blast
  then have "selects tools (call_route progress ''singing_remote.'' n None ''singing'') n ''singing''"
    by (auto simp: selects_def call_route_def ROUTER_CATEGORY_TOOL_PREFIX_def filter_tools_by_prefix_def)
  then show ?thesis by (auto simp: offered_route_def call_route_def ROUTER_TOOL_CATEGORIES_def)
qed

lemma select_robot_tool_SomeD:
  assumes "select_robot_tool_name L text tools = Some n"
  shows "n \<in> lt_name ` set tools" "list_ex (tool_name_matches n) robot_suffixes"
proof -
  obtain kws suffixes where rule: "(kws, suffixes) \<in> set ROBOT_TOOL_INTENT_RULES"
      "first_robot_tool_matching_suffix tools suffixes = Some n"
    using assms unfolding select_robot_tool_name_def Let_def
    by (elim first_some_SomeD) (auto split: if_splits)
  then show "n \<in> lt_name ` set tools" by (simp add: first_robot_tool_SomeD)
  from first_robot_tool_SomeD(2) [OF rule(2)] rule(1)
  show "list_ex (tool_name_matches n) robot_suffixes" by (force simp: robot_suffixes_def list_ex_iff)
qed

lemma confirmed_tool_SomeD:
  assumes "select_confirmed_robot_tool_name L text tools messages = Some n"
  shows "n \<in> lt_name ` set tools" "list_ex (tool_name_matches n) robot_suffixes"
proof -
  have n: "first_robot_tool_matching_suffix tools [''.understand_environment''] = Some n"
    using assms by (auto simp: select_confirmed_robot_tool_name_def Let_def split: if_splits)
  then show "n \<in> lt_name ` set tools" by (rule first_robot_tool_SomeD)
  have "''.understand_environment'' \<in> set robot_suffixes" by code_simp
  then show "list_ex (tool_name_matches n) robot_suffixes"
    using first_robot_tool_SomeD(2) [OF n] by (auto simp: list_ex_iff)
qed

text \<open>Whatever is said, the router answers with a route to chat, to the routing model, to a plan for a
  complex request, or to one tool: then the tool is one of those offered to this bot, it belongs to
  the category of the route, and the call is required.\<close>

theorem route_names_offered_tool:
  "offered_route tools (build_tool_latency_route L speak text tools bot_id messages)"
proof -
  have web: "offered_route tools (build_websearch_route L speak text tools)"
    unfolding build_websearch_route_def Let_def by (rule tool_route_for_offered [of "''websearch''"]) simp
  have task: "offered_route tools (tool_route_for ''robots_task_service.'' tools t m)" for t m
    by (rule tool_route_for_offered [of "''task''"]) simp
  have utils: "offered_route tools (tool_route_for ''utils_remote.'' tools t m)" for t m
    by (rule tool_route_for_offered [of "''utils''"]) simp
  show ?thesis
    unfolding build_tool_latency_route_def
    by (simp add: plain_route_offered web task utils singing_route_offered robot_route_offered
        select_robot_tool_SomeD confirmed_tool_SomeD split: option.split)
qed

subsection \<open>Refusals\<close>

lemma drop_blanks_ideographs: "\<forall>c \<in> set t. ideograph c \<Longrightarrow> drop_blanks t = t"
  by (auto simp: drop_blanks_def ideograph_no_space intro: filter_True)



subsection \<open>The answer of the routing model\<close>

definition router_decisions :: "(string \<times> string option) set" where
  "router_decisions = set (map snd ROUTER_DECISION_CODE_TO_DECISION)"

lemma u_strip_blanks:
  assumes "t \<noteq> []" and "\<not> u_space (hd t)" and "\<not> u_space (last t)"
    and "\<forall>c \<in> set a. u_space c" and "\<forall>c \<in> set b. u_space c"
  shows "u_strip (a @ t @ b) = t"
proof -
  have front: "dropWhile u_space (a @ t @ b) = t @ b"
    using assms by (cases t) (simp_all add: dropWhile_append2)
  have rear: "dropWhile u_space (rev b @ rev t) = rev t"
  proof -
    have "dropWhile u_space (rev b @ rev t) = dropWhile u_space (rev t)"
      using assms by (intro dropWhile_append2) simp
    also have "\<dots> = rev t" using assms by (simp add: dropWhile_eq_self_iff hd_rev)
    finally show ?thesis .
  qed
  show ?thesis by (simp add: u_strip_def front rear)
qed

text \<open>Reading the answer of the routing model gives one of nine decisions or none, and each of the nine
  has its code: alone, with blanks around it, it is read as that decision.\<close>

theorem router_codes_roundtrip:
  assumes "\<forall>c. 97 \<le> c \<and> c \<le> 122 \<longrightarrow> lower_table L c = [c]"
    and "\<forall>c \<in> set before. u_space c" and "\<forall>c \<in> set after. u_space c"
  shows "(\<forall>t d. parse_llm_router_decision L t = Some d \<longrightarrow> d \<in> router_decisions)
    \<and> (\<forall>(code, d) \<in> set ROUTER_DECISION_CODE_TO_DECISION.
         parse_llm_router_decision L (before @ u code @ after) = Some d)"
proof (intro conjI allI impI ballI)
  fix t d assume "parse_llm_router_decision L t = Some d"
  then consider (one) k where "(k, d) \<in> set ROUTER_DECISION_CODE_TO_DECISION"
    | (two) "d = (''exit'', None) \<or> d = (''chat'', None)"
    | (three) c where "c \<in> set ROUTER_TOOL_CATEGORIES" "d = (''tool'', Some c)"
    unfolding parse_llm_router_decision_def Let_def
    by (auto simp: find_Some_iff split: option.splits if_splits)
      (metis nth_mem surj_pair)+
  then show "d \<in> router_decisions"
    by cases (force simp: router_decisions_def ROUTER_DECISION_CODE_TO_DECISION_def ROUTER_TOOL_CATEGORIES_def)+
next
  fix x assume x: "x \<in> set ROUTER_DECISION_CODE_TO_DECISION"
  obtain code d where cd: "x = (code, d)" by (cases x) auto
  have "list_all (\<lambda>(code, _). length code = 1 \<and> 97 \<le> hd (u code) \<and> hd (u code) \<le> 122) ROUTER_DECISION_CODE_TO_DECISION"
    by code_simp
  then obtain c where c: "u code = [c]" "97 \<le> c" "c \<le> 122"
    using x cd by (cases code) (auto simp: list_all_iff u_def)
  have "\<not> u_space c" using c by (simp add: u_space_def)
  then have "u_strip (before @ u code @ after) = u code" using c assms by (intro u_strip_blanks) simp_all
  moreover have "u_lower L (u code) = u code"
    using c assms(1) by (simp add: u_lower_def ideograph_def)
  moreover have "distinct (map fst ROUTER_DECISION_CODE_TO_DECISION)" by code_simp
  then have "find (\<lambda>(k, _). u code = u k) ROUTER_DECISION_CODE_TO_DECISION = Some (code, d)"
    using x cd by (intro find_key) simp_all
  ultimately have "parse_llm_router_decision L (before @ u code @ after) = Some d"
    by (simp add: parse_llm_router_decision_def)
  then show "case x of (code, d) \<Rightarrow> parse_llm_router_decision L (before @ u code @ after) = Some d" by (simp add: cd)
qed

lemma router_codes_roundtrip_witness:
  "parse_llm_router_decision exact_lib (u '' r '') = Some (''tool'', Some ''robot'')"
proof -
  have "\<forall>c. 97 \<le> c \<and> c \<le> 122 \<longrightarrow> lower_table exact_lib c = [c]" by (simp add: exact_lib_def)
  moreover have "\<forall>c \<in> set (u '' ''). u_space c" by code_simp
  moreover have "(''r'', ''tool'', Some ''robot'') \<in> set ROUTER_DECISION_CODE_TO_DECISION" by code_simp
  ultimately have "parse_llm_router_decision exact_lib (u '' '' @ u ''r'' @ u '' '') = Some (''tool'', Some ''robot'')"
    using router_codes_roundtrip [of exact_lib "u '' ''" "u '' ''"] by blast
  then show ?thesis by (simp add: u_def)
qed

subsection \<open>A greeting hides a command\<close>

text \<open>"Hello, stop" is small talk for the router, "stop" alone is a command.\<close>

lemma greeting_hides_stop:
  "rt_kind (build_tool_latency_route exact_lib (\<lambda>_. [])  [0x4F60, 0x597D, 0xFF0C,
    0x505C, 0x4E0B]
      [\<lparr>lt_name = u ''robot_remote__cancel_robot_task'', lt_description = UNull, lt_parameters = []\<rparr>] (u ''b'') []) = u ''chat''"
  "rt_selected_tool_name (build_tool_latency_route exact_lib (\<lambda>_. []) [0x505C, 0x4E0B]
      [\<lparr>lt_name = u ''robot_remote__cancel_robot_task'', lt_description = UNull, lt_parameters = []\<rparr>] (u ''b'') [])
    = Some (u ''robot_remote__cancel_robot_task'')"
  by code_simp+

end
