(* ===== verification/Tool_Results.thy ===== *)
theory Tool_Results
  imports Tool_Router_Facts
begin

text \<open>
  What the client of the language model (\<open>src/llm/llm_client.py\<close>) reads from the result of a tool: its
  text, whether it failed, whether it ends the dialogue or is an answer by itself; and what is said
  while tools run.  A result is \<open>None\<close>, a text, a dictionary, or an object of the MCP library, of
  which the model keeps the attributes the code looks at.  \<open>json.loads\<close> is an argument.
\<close>

datatype result_item = Item_Dict udict | Item_Object uvalue

datatype call_result =
    No_Result
  | Text_Result utext
  | Dict_Result udict
  | Object_Result "bool option" "result_item list option" utext

definition VISUAL_DETECTION_TOOL_SUFFIXES :: "string list" where
  "VISUAL_DETECTION_TOOL_SUFFIXES = [''.detect_gesture'', ''.detect_pet'', ''.understand_environment'']"

definition EXIT_TEXT :: utext where
  "EXIT_TEXT = u ''[EXIT]''"

definition TERMINAL_TOOL_EXIT_RESPONSES :: "(string list \<times> utext) list" where
  \<comment> \<open>fine, I start to patrol, go charging, start a map, start to dance, call, have a look\<close>
  "TERMINAL_TOOL_EXIT_RESPONSES =
     [([''.patrol''], [0x597D, 0x7684, 0xFF0C, 0x6211, 0x5F00, 0x59CB, 0x5DE1, 0x903B,
       0x3002] @ EXIT_TEXT),
      ([''.recharge_robot'', ''.return_to_charge''], [0x597D, 0x7684, 0xFF0C, 0x6211, 0x53BB,
        0x5145, 0x7535, 0x4E86, 0x3002] @ EXIT_TEXT),
      ([''.create_map''], [0x597D, 0x7684, 0xFF0C, 0x6211, 0x5F00, 0x59CB, 0x521B, 0x5EFA,
        0x5730, 0x56FE, 0x3002] @ EXIT_TEXT),
      ([''.dance''], [0x597D, 0x5440, 0xFF0C, 0x6211, 0x5F00, 0x59CB, 0x8DF3, 0x821E,
        0x3002] @ EXIT_TEXT),
      ([''.call_video''], [0x597D, 0x7684, 0xFF0C, 0x6211, 0x5F00, 0x59CB, 0x547C, 0x53EB,
        0x89C6, 0x9891, 0x7535, 0x8BDD, 0x3002] @ EXIT_TEXT),
      (VISUAL_DETECTION_TOOL_SUFFIXES, [0x597D, 0x7684, 0xFF0C, 0x6211, 0x5F00, 0x59CB, 0x770B,
        0x4E00, 0x4E0B, 0x3002] @ EXIT_TEXT)]"

subsection \<open>Text and failure\<close>

definition bool_of :: "uvalue \<Rightarrow> bool option" where
  "bool_of v = (case v of UBool b \<Rightarrow> Some b | _ \<Rightarrow> None)"

definition tool_result_error_flag :: "call_result \<Rightarrow> bool option" where
  "tool_result_error_flag r =
     (case r of
        Object_Result flag _ _ \<Rightarrow> flag
      | Dict_Result d \<Rightarrow> first_some (\<lambda>k. bool_of (uget d k)) [''isError'', ''is_error'', ''error'']
      | _ \<Rightarrow> None)"

fun item_text :: "pylib \<Rightarrow> result_item \<Rightarrow> utext list" where
  \<comment> \<open>the text of an item, if it has one\<close>
  "item_text L (Item_Dict d) =
     (let v = (if utruthy (uget d ''text'') then uget d ''text'' else uget d ''content'') in
      if utruthy v then [u_str L v] else [])"
| "item_text L (Item_Object v) = (if utruthy v then [u_str L v] else [])"

definition item_of_value :: "uvalue \<Rightarrow> result_item" where
  \<comment> \<open>an item of a list in a dictionary; what is no dictionary has no attribute \<open>text\<close>\<close>
  "item_of_value v = (case v of UObj d \<Rightarrow> Item_Dict d | _ \<Rightarrow> Item_Object UNull)"

fun join_lines :: "utext list \<Rightarrow> utext" where
  \<comment> \<open>\<open>"\n".join(parts)\<close>\<close>
  "join_lines [] = []"
| "join_lines [t] = t"
| "join_lines (t # ts) = t @ 10 # join_lines ts"

definition result_items :: "call_result \<Rightarrow> result_item list" where
  "result_items r =
     (case r of
        Dict_Result d \<Rightarrow> (case uget d ''content'' of UArr xs \<Rightarrow> map item_of_value xs | _ \<Rightarrow> [])
      | Object_Result _ (Some items) _ \<Rightarrow> items
      | _ \<Rightarrow> [])"

fun str_of_result :: "pylib \<Rightarrow> call_result \<Rightarrow> utext" where
  \<comment> \<open>\<open>str(result)\<close>\<close>
  "str_of_result L No_Result = u ''None''"
| "str_of_result L (Text_Result t) = t"
| "str_of_result L (Dict_Result d) = text_of_value L (UObj d)"
| "str_of_result L (Object_Result _ _ t) = t"

definition extract_tool_result_text :: "pylib \<Rightarrow> call_result \<Rightarrow> utext" where
  "extract_tool_result_text L r =
     (case r of
        No_Result \<Rightarrow> []
      | Text_Result t \<Rightarrow> t
      | _ \<Rightarrow>
          let parts = concat (map (item_text L) (result_items r)) in
          if parts \<noteq> [] then join_lines parts else str_of_result L r)"

definition FAILURE_MARKERS :: "utext list" where
  \<comment> \<open>could not for now, failed, does not exist\<close>
  "FAILURE_MARKERS = [[0x6682, 0x65F6, 0x6CA1, 0x80FD], [0x5931, 0x8D25], [0x4E0D, 0x5B58,
    0x5728], u ''exception'', u ''traceback'']"

definition tool_result_looks_failed :: "pylib \<Rightarrow> call_result \<Rightarrow> bool" where
  "tool_result_looks_failed L r =
     (case tool_result_error_flag r of
        Some b \<Rightarrow> b
      | None \<Rightarrow> has_any FAILURE_MARKERS (u_lower L (extract_tool_result_text L r)))"

subsection \<open>Results that are answers\<close>

definition UNKNOWN_SONG :: utext where
  \<comment> \<open>I have not learned this song yet, take another one?\<close>
  "UNKNOWN_SONG = [0x8FD9, 0x9996, 0x6B4C, 0x6211, 0x8FD8, 0x6CA1, 0x5B66, 0x4F1A, 0xFF0C,
    0x6362, 0x4E00, 0x9996, 0x597D, 0x5417, 0xFF1F]"

definition titled :: "pylib \<Rightarrow> udict \<Rightarrow> utext" where
  "titled L d = [0x300A] @ str_or_empty L (uget d ''title'') @ [0x300B]"

definition or_message :: "pylib \<Rightarrow> uvalue \<Rightarrow> utext \<Rightarrow> utext" where
  "or_message L v dflt = (if utruthy v then u_str L v else dflt)"

fun dicts_of :: "uvalue list \<Rightarrow> udict list" where
  "dicts_of [] = []"
| "dicts_of (UObj d # vs) = d # dicts_of vs"
| "dicts_of (_ # vs) = dicts_of vs"

definition clarification_text :: "pylib \<Rightarrow> udict \<Rightarrow> py_exn + utext" where
  \<comment> \<open>would you like to hear this one or that one; or: I did not catch the title\<close>
  "clarification_text L payload =
     and_then (iter_or_empty (uget payload ''candidates'')) (\<lambda>items.
       let titles = filter (\<lambda>t. u_strip t \<noteq> []) (map (\<lambda>d. str_or_empty L (uget d ''title'')) (dicts_of items)) in
       Inr (case titles of
              a # b # _ \<Rightarrow> [0x4F60, 0x662F, 0x60F3, 0x542C, 0x300A] @ a @ [0x300B,
                0x8FD8, 0x662F, 0x300A] @ b @ [0x300B, 0xFF1F]
            | _ \<Rightarrow> [0x6211, 0x6CA1, 0x6709, 0x542C, 0x6E05, 0x6B4C, 0x540D, 0xFF0C,
              0x4F60, 0x53EF, 0x4EE5, 0x518D, 0x8BF4, 0x4E00, 0x6B21, 0x5417, 0xFF1F]))"

fun join_with :: "utext \<Rightarrow> utext list \<Rightarrow> utext" where
  "join_with sep [] = []"
| "join_with sep [t] = t"
| "join_with sep (t # ts) = t @ sep @ join_with sep ts"

definition catalog_text :: "pylib \<Rightarrow> udict \<Rightarrow> py_exn + utext" where
  "catalog_text L payload =
     and_then (iter_or_empty (uget payload ''songs'')) (\<lambda>items.
       let songs = dicts_of items in
       if songs = [] then Inr (or_message L (uget payload ''message'') UNKNOWN_SONG)
       else
         and_then (if utruthy (uget payload ''total_available'') then u_int (uget payload ''total_available'')
                   else Inr (int (length songs))) (\<lambda>total.
           let titles = map (titled L) songs;
               query = u_strip (str_or_empty L (uget payload ''query''));
               joined = join_with [0x3001] titles in
           Inr (if query \<noteq> [] \<and> total = 1 then [0x4F1A, 0x5440, 0xFF0C, 0x6211,
             0x4F1A, 0x5531] @ hd titles @ [0x3002]
                else if utruthy (uget payload ''has_more'') \<or> total > int (length songs)
                then [0x6211, 0x73B0, 0x5728, 0x4F1A, 0x5531,
                  0x20] @ u (int_text total) @ [0x20, 0x9996, 0x6B4C, 0xFF0C, 0x6BD4,
                  0x5982] @ joined @ [0x3002, 0x4F60, 0x60F3, 0x542C, 0x54EA, 0x4E00, 0x9996,
                  0xFF1F]
                else [0x6211, 0x73B0, 0x5728, 0x4F1A, 0x5531] @ joined @ [0x3002, 0x4F60,
                  0x60F3, 0x542C, 0x54EA, 0x4E00, 0x9996, 0xFF1F])))"

definition singing_tool_result_response ::
  "pylib \<Rightarrow> (utext \<Rightarrow> uvalue option) \<Rightarrow> utext \<Rightarrow> call_result \<Rightarrow> py_exn + utext option" where
  "singing_tool_result_response L loads name r =
     (if \<not> list_ex (tool_name_matches name) [''.play_song'', ''.list_songs''] then Inr None
      else case loads (u_strip (extract_tool_result_text L r)) of
        Some (UObj payload) \<Rightarrow>
          (let kind = uget payload ''kind'' in
           if kind = UText (u ''singing_playback'') then Inr None
           else if kind = UText (u ''singing_unavailable'')
           then Inr (Some (or_message L (uget payload ''message'') UNKNOWN_SONG))
           else if kind = UText (u ''singing_clarification'')
           then and_then (clarification_text L payload) (\<lambda>t. Inr (Some t))
           else if kind \<noteq> UText (u ''singing_catalog'') then Inr None
           else and_then (catalog_text L payload) (\<lambda>t. Inr (Some t)))
      | _ \<Rightarrow> Inr None)"

definition authoritative_tool_result_response ::
  "pylib \<Rightarrow> (utext \<Rightarrow> uvalue option) \<Rightarrow> utext \<Rightarrow> call_result \<Rightarrow> py_exn + utext option" where
  "authoritative_tool_result_response L loads name r =
     and_then (singing_tool_result_response L loads name r) (\<lambda>singing.
     case singing of
       Some t \<Rightarrow> Inr (Some t)
     | None \<Rightarrow>
         if \<not> list_ex (tool_name_matches name) [''.get_now_context'', ''.get_current_time'', ''.get_current_date'',
              ''.get_weekday'', ''.get_datetime_full'', ''.format_timestamp'']
            \<or> tool_result_looks_failed L r then Inr None
         else
           let t = u_strip (extract_tool_result_text L r) in
           Inr (if t = [] then None else Some t))"

definition singing_control ::
  "pylib \<Rightarrow> (utext \<Rightarrow> uvalue option) \<Rightarrow> utext \<Rightarrow> py_exn + utext option" where
  \<comment> \<open>\<open>playback_control_from_tool_result\<close> (see \<open>Text_Streaming\<close>) on these texts\<close>
  "singing_control L loads t =
     (case loads (u_strip t) of
        Some (UObj d) \<Rightarrow>
          (let song = str_or_empty L (uget d ''song_id''); voice = str_or_empty L (uget d ''voice_id'') in
           if uget d ''kind'' \<noteq> UText (u ''singing_playback'') \<or> \<not> dash_id song \<or> \<not> dash_id voice
              \<or> uget d ''asset_id'' \<noteq> UText (voice @ u '':'' @ song) then Inr None
           else case (uget d ''voice_id'', uget d ''song_id'') of
             (UText v, UText s) \<Rightarrow> Inr (Some (u ''[SINGING_PLAYBACK:'' @ v @ u '':'' @ s @ u '']''))
           | _ \<Rightarrow> Inl TypeError)
      | _ \<Rightarrow> Inr None)"

definition terminal_exit_response_for_tool ::
  "pylib \<Rightarrow> (utext \<Rightarrow> uvalue option) \<Rightarrow> utext \<Rightarrow> call_result \<Rightarrow> py_exn + utext option" where
  "terminal_exit_response_for_tool L loads name r =
     (if tool_name_matches name ''.play_song'' then
        if r = No_Result then Inr (Some (u ''[SINGING_TOOL_TERMINAL]''))
        else singing_control L loads (extract_tool_result_text L r)
      else Inr (map_option snd
        (find (\<lambda>(suffixes, _). list_ex (tool_name_matches name) suffixes) TERMINAL_TOOL_EXIT_RESPONSES)))"

subsection \<open>While tools run\<close>

record parsed_call =
  pc_name :: utext
  pc_args :: uvalue

definition parse_tool_call :: "(utext \<Rightarrow> uvalue option) \<Rightarrow> utext \<Rightarrow> uvalue \<Rightarrow> parsed_call" where
  \<comment> \<open>arguments that are no JSON count as none\<close>
  "parse_tool_call loads name arguments =
     (let v = (case arguments of UText t \<Rightarrow> (case loads t of Some v \<Rightarrow> v | None \<Rightarrow> UObj []) | v \<Rightarrow> v) in
      \<lparr>pc_name = name, pc_args = (if utruthy v then v else UObj [])\<rparr>)"

definition task_name :: "pylib \<Rightarrow> utext \<Rightarrow> bool" where
  "task_name L name = has_any [u ''task'', u ''alarm'', u ''remind''] (u_lower L name)"

definition MOVE_REPLIES :: "(string \<times> string) list" where
  "MOVE_REPLIES =
     [(''forward'', ''robot.move_forward''), (''backward'', ''robot.move_backward''),
      (''turn_left'', ''robot.turn_left''), (''turn_right'', ''robot.turn_right''), (''stop'', ''robot.stop'')]"

definition move_reply :: "uvalue \<Rightarrow> py_exn + string" where
  \<comment> \<open>\<open>mapping.get(action, "generic")\<close>: a list or a dictionary cannot be looked up\<close>
  "move_reply action =
     (case action of
        UArr _ \<Rightarrow> Inl TypeError
      | UObj _ \<Rightarrow> Inl TypeError
      | UText t \<Rightarrow> Inr (case find (\<lambda>(a, _). t = u a) MOVE_REPLIES of Some (_, r) \<Rightarrow> r | None \<Rightarrow> ''robot.generic'')
      | _ \<Rightarrow> Inr ''robot.generic'')"

definition build_tool_wait_message :: "pylib \<Rightarrow> (string \<Rightarrow> utext) \<Rightarrow> parsed_call \<Rightarrow> py_exn + utext" where
  "build_tool_wait_message L speak c =
     (let named = tool_name_matches (pc_name c) in
      if named ''.move_robot'' then
        and_then (as_dict (pc_args c)) (\<lambda>args.
        and_then (move_reply (uget_default args ''action'' (UText (u ''forward'')))) (\<lambda>r. Inr (speak r)))
      else Inr
        (if list_ex named [''.create_map'', ''.patrol'', ''.follow''] then speak ''robot.generic''
         else if named ''.recharge_robot'' \<or> named ''.return_to_charge'' then speak ''robot.recharge''
         else if named ''.dance'' then speak ''robot.generic''
         else if named ''.play_song'' then SINGING_PROGRESS_TEXT
         else if list_ex named VISUAL_DETECTION_TOOL_SUFFIXES then speak ''robot.generic''
         else if named ''.cancel_robot_task'' then speak ''robot.stop''
         else if task_name L (pc_name c) then speak ''tool.task''
         else if named ''.get_weather'' then speak ''tool.weather''
         else if named ''.get_now_context'' \<or> named ''.format_timestamp'' then speak ''tool.utils''
         else if u_in (u ''websearch'') (u_lower L (pc_name c)) then speak ''tool.websearch''
         else speak ''tool.generic''))"

definition tool_needs_wait_message :: "pylib \<Rightarrow> utext \<Rightarrow> bool" where
  "tool_needs_wait_message L name =
     (has_any [u ''websearch'', u ''weather''] (u_lower L name) \<or> task_name L name
      \<or> has_any [u ''robot'', u ''singing''] (u_lower L name))"

definition build_tool_batch_wait_message ::
  "pylib \<Rightarrow> (string \<Rightarrow> utext) \<Rightarrow> parsed_call list \<Rightarrow> py_exn + utext option" where
  "build_tool_batch_wait_message L speak calls =
     (let announced = filter (\<lambda>c. tool_needs_wait_message L (pc_name c)) calls;
          robot_calls = filter (\<lambda>c. u_in (u ''robot'') (u_lower L (pc_name c))) announced in
      if announced = [] then Inr None
      else if list_ex (\<lambda>c. u_in (u ''websearch'') (u_lower L (pc_name c))) announced
      then Inr (Some (speak ''tool.websearch''))
      else if list_ex (\<lambda>c. task_name L (pc_name c)) announced then Inr (Some (speak ''tool.task''))
      else if length robot_calls > 1 then Inr (Some (speak ''robot.generic''))
      else and_then (build_tool_wait_message L speak
             (if robot_calls \<noteq> [] then hd robot_calls else hd announced)) (\<lambda>t. Inr (Some t)))"

definition NO_TOOL_CALL_FALLBACK_BY_CATEGORY :: "(string \<times> utext) list" where
  "NO_TOOL_CALL_FALLBACK_BY_CATEGORY =
     [(''vision'', [0x6211, 0x8FD9, 0x8FB9, 0x6CA1, 0x62FF, 0x5230, 0x6700, 0x65B0, 0x753B,
       0x9762, 0xFF0C, 0x4F60, 0x518D, 0x8BF4, 0x4E00, 0x6B21, 0x597D, 0x5417, 0xFF1F]),
      (''robot'', [0x6211, 0x8FD9, 0x8FB9, 0x6682, 0x65F6, 0x6CA1, 0x80FD, 0x63A7, 0x5236,
        0x673A, 0x5668, 0x4EBA, 0xFF0C, 0x4F60, 0x518D, 0x8BD5, 0x4E00, 0x6B21, 0x597D, 0x5417,
        0xFF1F]),
      (''websearch'', [0x6211, 0x8FD9, 0x8FB9, 0x6682, 0x65F6, 0x6CA1, 0x80FD, 0x53D1, 0x8D77,
        0x67E5, 0x8BE2, 0xFF0C, 0x8BF7, 0x7A0D, 0x540E, 0x518D, 0x8BD5, 0x3002]),
      (''task'', [0x6211, 0x8FD9, 0x8FB9, 0x6682, 0x65F6, 0x6CA1, 0x80FD, 0x8BBE, 0x7F6E,
        0x63D0, 0x9192, 0xFF0C, 0x4F60, 0x518D, 0x8BD5, 0x4E00, 0x6B21, 0x597D, 0x5417, 0xFF1F]),
      (''utils'', [0x6211, 0x8FD9, 0x8FB9, 0x6682, 0x65F6, 0x6CA1, 0x62FF, 0x5230, 0x65F6,
        0x95F4, 0x4FE1, 0x606F, 0xFF0C, 0x4F60, 0x518D, 0x8BF4, 0x4E00, 0x6B21, 0x597D, 0x5417,
        0xFF1F]),
      (''complex'', [0x6211, 0x8FD9, 0x8FB9, 0x6CA1, 0x80FD, 0x5B8C, 0x6210, 0x8FD9, 0x4E2A,
        0x8BF7, 0x6C42, 0xFF0C, 0x4F60, 0x518D, 0x6362, 0x4E00, 0x79CD, 0x65B9, 0x5F0F, 0x95EE,
        0x95EE, 0x770B, 0xFF1F])]"

definition no_tool_call_fallback_message :: "utext option \<Rightarrow> bool \<Rightarrow> utext" where
  "no_tool_call_fallback_message category force_websearch_tool =
     (let entry = (\<lambda>c. find (\<lambda>(k, _). c = u k) NO_TOOL_CALL_FALLBACK_BY_CATEGORY);
          found = (if force_websearch_tool then entry (u ''websearch'')
                   else (case category of None \<Rightarrow> None | Some c \<Rightarrow> entry c)) in
      case found of Some (_, t) \<Rightarrow> t | None \<Rightarrow> [0x6211, 0x8FD9, 0x8FB9,
        0x6CA1, 0x80FD, 0x5B8C, 0x6210, 0x8FD9, 0x4E2A, 0x8BF7, 0x6C42, 0xFF0C, 0x4F60, 0x518D,
        0x8BD5, 0x4E00, 0x6B21, 0x597D, 0x5417, 0xFF1F])"

subsection \<open>Calls made for the model\<close>

definition USER_SAID :: utext where
  \<comment> \<open>a line feed and "the user says:"\<close>
  "USER_SAID = 10 # [0x7528, 0x6237, 0x8BF4, 0xFF1A]"

function (sequential) after_last :: "utext \<Rightarrow> utext \<Rightarrow> utext" where
  \<comment> \<open>\<open>text.rsplit(mark, 1)[-1]\<close>\<close>
  "after_last mark [] = []"
| "after_last mark (c # t) =
     (if u_in mark t then after_last mark t
      else if u_starts (c # t) mark then drop (length mark) (c # t) else c # t)"
  by pat_completeness auto

termination after_last by (relation "measure (length \<circ> snd)") auto

definition message_text :: "pylib \<Rightarrow> utext \<Rightarrow> utext" where
  "message_text L content =
     (let t = u_strip content in if u_in USER_SAID t then u_strip (after_last USER_SAID t) else t)"

definition latest_user_text :: "pylib \<Rightarrow> chat_message list \<Rightarrow> utext" where
  \<comment> \<open>for messages whose content is a text\<close>
  "latest_user_text L messages =
     (case find (\<lambda>(role, content). role = u ''user'' \<and> message_text L content \<noteq> []) (rev messages) of
        Some (_, content) \<Rightarrow> message_text L content
      | None \<Rightarrow> [])"

definition QUERY_ARGUMENTS :: "string list" where
  "QUERY_ARGUMENTS = [''query'', ''search_query'', ''q'', ''keyword'', ''keywords'']"

definition build_websearch_fallback_tool_call ::
  "pylib \<Rightarrow> llm_tool list \<Rightarrow> chat_message list \<Rightarrow> parsed_call option" where
  "build_websearch_fallback_tool_call L tools messages =
     (let candidates = concat (map (\<lambda>t.
            if \<not> u_in (u ''websearch'') (u_lower L (lt_name t)) then []
            else case find (\<lambda>k. u k \<in> set (keys (properties_of (lt_parameters t)))) QUERY_ARGUMENTS of
              None \<Rightarrow> [] | Some k \<Rightarrow> [(lt_name t, k)]) tools);
          query = latest_user_text L messages in
      case candidates of
        [(name, k)] \<Rightarrow>
          if query = [] then None else Some \<lparr>pc_name = name, pc_args = UObj [(u k, UText query)]\<rparr>
      | _ \<Rightarrow> None)"

definition inferred_robot_calls :: "pylib \<Rightarrow> utext \<Rightarrow> llm_tool list \<Rightarrow> (utext \<times> udict) list" where
  "inferred_robot_calls L text tools =
     concat (map (\<lambda>t.
       if \<not> u_in (u ''robot'') (u_lower L (lt_name t)) then []
       else case infer_deterministic_robot_tool_args L text (lt_name t) of
         None \<Rightarrow> [] | Some args \<Rightarrow> [(lt_name t, args)]) tools)"

definition build_robot_fallback_tool_call ::
  "pylib \<Rightarrow> llm_tool list \<Rightarrow> chat_message list \<Rightarrow> parsed_call option" where
  "build_robot_fallback_tool_call L tools messages =
     (let text = latest_user_text L messages;
          inferred = (if tools = [] \<or> text = [] then [] else inferred_robot_calls L text tools);
          specific = filter (\<lambda>(_, args). args \<noteq> []) inferred;
          moves = filter (\<lambda>(name, _). u_in (u ''.move_robot'') name) inferred;
          chosen = (if length inferred = 1 \<or> (inferred \<noteq> [] \<and> length tools = 1) then Some (hd inferred)
                    else if length specific = 1 then Some (hd specific)
                    else if moves \<noteq> [] then Some (hd moves) else None) in
      map_option (\<lambda>(name, args). \<lparr>pc_name = name, pc_args = UObj args\<rparr>) chosen)"

end
