(* ===== verification/Task_Fallback.thy ===== *)
theory Task_Fallback
  imports Tool_Results
begin

text \<open>
  When the routing asks for a reminder and the model calls no tool, the client builds the call from
  the words of the user (\<open>src/llm/llm_client.py\<close>): what to remind of, and when.  Instants are seconds;
  the calendar (\<open>datetime\<close>) is an argument.
\<close>

record task_clock =
  tc_now :: int
  tc_on_day :: "int \<Rightarrow> int \<Rightarrow> int \<Rightarrow> py_exn + int"
    \<comment> \<open>so many days from today, at an hour and a minute (\<open>replace\<close>)\<close>
  tc_iso :: "int \<Rightarrow> py_exn + utext"
    \<comment> \<open>\<open>isoformat\<close>; instants out of the range of the calendar raise\<close>
  tc_minute_start :: "int \<Rightarrow> int"

subsection \<open>Names and fields\<close>

definition TASK_QUERY_KEYWORDS :: "utext list" where
  "TASK_QUERY_KEYWORDS =
     [[0x6709, 0x54EA, 0x4E9B], [0x6709, 0x54EA, 0x4E9B, 0x63D0, 0x9192], [0x6709, 0x54EA],
       [0x5F85, 0x529E], [0x63D0, 0x9192, 0x4E8B, 0x9879], [0x5217, 0x51FA], [0x5217, 0x8868],
       [0x67E5, 0x4E0B], [0x67E5, 0x770B], [0x600E, 0x4E48, 0x56DE, 0x4E8B]]"

definition TASK_CREATE_KEYWORDS :: "utext list" where
  "TASK_CREATE_KEYWORDS =
     [[0x6DFB, 0x52A0], [0x521B, 0x5EFA], [0x8BBE, 0x7F6E], [0x65B0, 0x589E], [0x8BB0, 0x4E00,
       0x6761], [0x8BB0, 0x4E00, 0x4E0B], [0x63D0, 0x9192, 0x6211], [0x6211, 0x8981], [0x53BB],
       [0x4E0B, 0x5348], [0x4ECA, 0x5929], [0x660E, 0x5929], [0x540E, 0x5929]]"

definition TASK_TIME_FIELD_CANDIDATES :: "string list" where
  "TASK_TIME_FIELD_CANDIDATES = [''trigger_time'', ''alarm_time'', ''time'', ''alarm_at'', ''due_time'']"

definition TASK_CONTENT_FIELD_CANDIDATES :: "string list" where
  "TASK_CONTENT_FIELD_CANDIDATES = [''content'', ''title'', ''text'', ''name'', ''description'', ''detail'']"

definition CREATE_NAMES :: "utext list" where
  "CREATE_NAMES = map u
     [''.create_reminder'', ''.create_task'', ''.create_alarm'', ''.add_reminder'', ''.add_task'', ''.add_alarm'',
      ''.set_reminder'', ''.set_task'', ''.set_alarm'']"

definition LIST_NAMES :: "utext list" where
  "LIST_NAMES = map u
     [''.list_reminders'', ''.list_reminder'', ''.list_task'', ''.list_tasks'', ''.query_reminder'', ''.query_task'',
      ''.query_tasks'', ''.get_reminder'', ''.get_task'']"

definition tool_name_to_reminder_type :: "pylib \<Rightarrow> utext \<Rightarrow> string" where
  "tool_name_to_reminder_type L tool_name =
     (let name = marks_to_dots (u_lower L tool_name) in
      if has_any CREATE_NAMES name then ''create''
      else if has_any LIST_NAMES name then ''list''
      else if u_in (u ''.alarm'') name \<and> u_in (u ''.create'') name then ''create''
      else if u_in (u ''.alarm'') name \<and> u_in (u ''.get'') name then ''list''
      else [])"

definition contains_task_tools :: "pylib \<Rightarrow> llm_tool list \<Rightarrow> bool" where
  "contains_task_tools L tools = list_ex (\<lambda>t. tool_name_to_reminder_type L (lt_name t) \<noteq> []) tools"

definition task_tool_supported_field :: "llm_tool \<Rightarrow> string list \<Rightarrow> string option" where
  "task_tool_supported_field t candidates =
     find (\<lambda>c. u c \<in> set (keys (properties_of (lt_parameters t)))) candidates"

subsection \<open>When\<close>

definition CN_NUM_MAP :: "(int \<times> int) list" where
  \<comment> \<open>zero to ten, the other two, twenty\<close>
  "CN_NUM_MAP = zip [0x96F6, 0x4E00, 0x4E8C, 0x4E09, 0x56DB, 0x4E94, 0x516D, 0x4E03, 0x516B,
    0x4E5D, 0x5341, 0x4E24, 0x5EFF] [0, 1, 2, 3, 4, 5, 6, 7, 8, 9, 10, 2, 20]"

definition TEN :: int where
  "TEN = hd [0x5341]"

definition cn_num_to_int :: "utext \<Rightarrow> int option" where
  \<comment> \<open>of a text of ASCII digits or numerals\<close>
  "cn_num_to_int raw0 =
     (let raw = u_strip raw0; digit = map_of CN_NUM_MAP in
      if raw0 = [] then None
      else if raw \<noteq> [] \<and> list_all (\<lambda>c. 48 \<le> c \<and> c \<le> 57) raw
      then (case u_int (UText raw) of Inr i \<Rightarrow> Some i | Inl _ \<Rightarrow> None)
      else if raw = [0x534A] then Some 30
      else if raw = [TEN] then Some 10
      else case raw of
        [a] \<Rightarrow> digit a
      | [a, b] \<Rightarrow>
          (if a = TEN \<and> digit b \<noteq> None then map_option (\<lambda>y. 10 + y) (digit b)
           else if b = TEN \<and> digit a \<noteq> None then map_option (\<lambda>x. x * 10) (digit a) else None)
      | [a, b, c] \<Rightarrow>
          (if b = TEN then (case (digit a, digit c) of (Some x, Some z) \<Rightarrow> Some (x * 10 + z) | _ \<Rightarrow> None)
           else None)
      | _ \<Rightarrow> None)"

definition AMOUNT_RX :: rx where
  "AMOUNT_RX = rx_any [Rx_Text [0x534A],
    Rx_Span (\<lambda>c. 48 \<le> c \<and> c \<le> 57) 1 None,
     Rx_Span (\<lambda>c. c \<in> set [0x96F6, 0x4E00, 0x4E8C, 0x4E09, 0x56DB, 0x4E94, 0x516D,
       0x4E03, 0x516B, 0x4E5D, 0x5341, 0x5EFF, 0x4E24]) 1 None]"

definition amount_before :: "utext \<Rightarrow> utext \<Rightarrow> utext option" where
  \<comment> \<open>the amount before a unit: minutes later, hours later\<close>
  "amount_before unit_text t = rx_capture (Rx_Text []) AMOUNT_RX (rx_seq [Rx_Span u_space 0 None, Rx_Text unit_text]) t"

definition HOUR_RX :: rx where
  "HOUR_RX = Rx_Span (\<lambda>c. (48 \<le> c \<and> c \<le> 57) \<or> c \<in> set [0x4E00,
    0x4E8C, 0x4E09, 0x56DB, 0x4E94, 0x516D, 0x4E03, 0x516B, 0x4E5D, 0x5341, 0x5EFF,
    0x4E24]) 1 (Some 4)"

definition DAY_PART_RX :: rx where
  \<comment> \<open>morning, noon, afternoon, evening, dusk\<close>
  "DAY_PART_RX = Rx_Opt (rx_words [[0x4E0A, 0x5348], [0x4E2D, 0x5348], [0x4E0B, 0x5348],
    [0x665A, 0x4E0A], [0x508D, 0x665A]])"

definition minute_after :: "pylib \<Rightarrow> utext \<Rightarrow> utext option" where
  \<comment> \<open>what follows the hour: digits, or a colon and digits; the group for "half" is not read\<close>
  "minute_after L t =
     (let here = takeWhile (u_digit L) (take 2 t) in
      if here \<noteq> [] then Some here
      else if u_starts t (u '':'') then
        (let there = takeWhile (u_digit L) (take 2 (dropWhile (\<lambda>c. c = 32) (tl t))) in
         if there \<noteq> [] then Some there else None)
      else None)"

definition clock_time :: "pylib \<Rightarrow> utext \<Rightarrow> (utext \<times> utext \<times> utext option) option" where
  \<comment> \<open>part of the day, hour, minute of the first time of day in the text\<close>
  "clock_time L t =
     (case concat (map (\<lambda>i. concat (map (\<lambda>a. map (\<lambda>b. (i, a, b))
             (filter (\<lambda>b. u_starts (drop b t) [0x70B9]) (rx_ends HOUR_RX t a))) (rx_ends
               DAY_PART_RX t i)))
           [0..<Suc (length t)]) of
        [] \<Rightarrow> None
      | (i, a, b) # _ \<Rightarrow>
          Some (take (a - i) (drop i t), take (b - a) (drop a t), minute_after L (drop (b + 1) t)))"

definition hour_of_day :: "utext \<Rightarrow> int \<Rightarrow> int" where
  "hour_of_day part hour =
     (let h = (if (u_in [0x4E0B, 0x5348] part \<or> u_in [0x665A,
       0x4E0A] part \<or> u_in [0x508D, 0x665A] part) \<and> hour < 12 then hour + 12 else hour)
      in if h = 24 then 0 else h)"

definition parse_task_trigger_time :: "pylib \<Rightarrow> task_clock \<Rightarrow> utext \<Rightarrow> py_exn + utext option" where
  "parse_task_trigger_time L K text =
     (let normalized = drop_blanks text;
          amount = (\<lambda>half unit_text. case amount_before unit_text normalized of
              None \<Rightarrow> None
            | Some raw \<Rightarrow> if raw = [0x534A] then Some half else cn_num_to_int raw);
          later = (\<lambda>seconds. and_then (tc_iso K (tc_now K + seconds)) (\<lambda>t. Inr (Some t))) in
      if normalized = [] then Inr None
      else case amount 30 [0x5206, 0x949F, 0x540E] of
        Some m \<Rightarrow> later (60 * m)
      | None \<Rightarrow>
          (case map_option (\<lambda>h. 3600 * h) (case amount_before [0x5C0F, 0x65F6,
            0x540E] normalized of
                None \<Rightarrow> None | Some raw \<Rightarrow> if raw = [0x534A] then None else
                  cn_num_to_int raw) of
             Some s \<Rightarrow> later s
           | None \<Rightarrow>
               if amount_before [0x5C0F, 0x65F6,
                 0x540E] normalized = Some [0x534A] then later 1800
               else
                 let day_offset = (if u_in [0x540E,
                   0x5929] normalized then 2 else if u_in [0x660E,
                   0x5929] normalized then 1 else 0) in
                 case clock_time L normalized of
                   None \<Rightarrow> Inr None
                 | Some (part, hour_text, minute_text) \<Rightarrow>
                     (case cn_num_to_int hour_text of
                        None \<Rightarrow> Inr None
                      | Some hour \<Rightarrow>
                          and_then (case minute_text of None \<Rightarrow> Inr 0 | Some m \<Rightarrow> u_int (UText m)) (\<lambda>minute.
                          and_then (tc_on_day K day_offset (hour_of_day part hour) minute) (\<lambda>target.
                          and_then (tc_iso K (if target \<le> tc_now K then target + 86400 else target)) (\<lambda>t.
                          Inr (Some t)))))))"

definition build_task_default_trigger_time :: "task_clock \<Rightarrow> py_exn + utext" where
  "build_task_default_trigger_time K = tc_iso K (tc_minute_start K (tc_now K + 300))"

subsection \<open>What\<close>

function rx_remove :: "rx \<Rightarrow> utext \<Rightarrow> nat \<Rightarrow> utext" where
  \<comment> \<open>\<open>re.sub(pattern, "", text)\<close> from a position, for a pattern that matches no empty text\<close>
  "rx_remove r t i =
     (if i \<ge> length t then []
      else case rx_ends r t i of
        e # _ \<Rightarrow> if e > i then rx_remove r t e else t ! i # rx_remove r t (i + 1)
      | [] \<Rightarrow> t ! i # rx_remove r t (i + 1))"
  by pat_completeness auto

termination rx_remove by (relation "measure (\<lambda>(r, t, i). length t - i)") auto

declare rx_remove.simps [simp del]

definition TIME_PHRASE_RX :: "rx" where
  "TIME_PHRASE_RX =
     (let digits = (\<lambda>c. 48 \<le> c \<and> c \<le> 57) in
      rx_any
       [rx_seq [Rx_Span (\<lambda>c. digits c \<or> c \<in> set [0x4E00, 0x4E8C, 0x4E09, 0x56DB,
         0x4E94, 0x516D, 0x4E03, 0x516B, 0x4E5D, 0x5341, 0x5EFF, 0x4E24, 0x534A]) 1 (Some 4),
         Rx_Text [0x70B9],
          Rx_Opt (rx_any [Rx_Span digits 1 (Some 2), Rx_Text [0x534A],
            rx_seq [Rx_Text (u '':''), Rx_Span (\<lambda>c. c = 32) 0 None, Rx_Span digits 1 (Some 2)]]),
          Rx_Opt (Rx_Text [0x5206])],
        rx_seq [Rx_Span digits 1 None, rx_words [[0x5C0F, 0x65F6], [0x5C0F, 0x65F6, 0x540E],
          [0x5206, 0x949F], [0x5206, 0x949F, 0x540E]]]])"

definition REMINDER_FILLERS :: "utext list" where
  "REMINDER_FILLERS =
     [[0x8BF7, 0x4F60], [0x8BF7], [0x9EBB, 0x70E6], [0x5E2E, 0x6211], [0x7ED9, 0x6211], [0x5E2E,
       0x5FD9], [0x4F60, 0x5E2E, 0x6211], [0x8BBE, 0x7F6E], [0x8BBE, 0x5B9A], [0x521B, 0x5EFA],
       [0x6DFB, 0x52A0], [0x4E00, 0x4E2A], [0x4E2A],
      [0x4E00, 0x4E0B], [0x63D0, 0x9192, 0x6211], [0x63D0, 0x9192], [0x95F9, 0x949F], [0x5B9A,
        0x65F6], [0x4EFB, 0x52A1], [0x53BB]]"

definition CONTENT_EDGES :: utext where
  "CONTENT_EDGES = EXIT_TRAILING_PUNCTUATION @ [0x7684, 0x4E86, 0x5427, 0x554A, 0x5440]"

definition extract_reminder_content :: "utext \<Rightarrow> utext" where
  "extract_reminder_content text =
     (let normalized = drop_blanks text in
      if normalized = [] then []
      else strip_chars CONTENT_EDGES (rx_remove TIME_PHRASE_RX (fold erase REMINDER_FILLERS normalized) 0))"

definition build_task_default_content :: "pylib \<Rightarrow> utext \<Rightarrow> utext \<Rightarrow> utext" where
  "build_task_default_content L text extracted =
     (if extracted \<noteq> [] then extracted
      else
        let rest_text = strip_chars CONTENT_EDGES (fold erase TASK_CREATE_KEYWORDS (u_lower L (drop_blanks text)))
        in if rest_text \<noteq> [] then rest_text else [0x63D0, 0x9192])"

subsection \<open>The call\<close>

definition fill_field :: "utext \<Rightarrow> utext \<Rightarrow> uvalue \<Rightarrow> udict \<Rightarrow> py_exn + udict" where
  \<comment> \<open>a required name that is no text raises in one of the tests\<close>
  "fill_field content trigger_time field a =
     (case field of
        UText f \<Rightarrow>
          Inr (if f \<in> set (keys a) then a
               else AList.update f
                 (UText (if f \<in> set (map u TASK_CONTENT_FIELD_CANDIDATES) then [0x63D0,
                   0x9192]
                         else if f \<in> set (map u TASK_TIME_FIELD_CANDIDATES) then trigger_time
                         else if has_any [u ''time'', u ''date'', u ''alarm''] f then trigger_time
                         else content)) a)
      | _ \<Rightarrow> Inl TypeError)"

fun fill_required :: "utext \<Rightarrow> utext \<Rightarrow> uvalue list \<Rightarrow> udict \<Rightarrow> py_exn + udict" where
  "fill_required content trigger_time [] a = Inr a"
| "fill_required content trigger_time (f # fs) a =
     and_then (fill_field content trigger_time f a) (\<lambda>a1. fill_required content trigger_time fs a1)"

definition list_call :: "utext \<Rightarrow> parsed_call" where
  "list_call name = \<lparr>pc_name = name, pc_args = UObj []\<rparr>"

definition build_task_fallback_tool_call ::
  "pylib \<Rightarrow> task_clock \<Rightarrow> llm_tool list \<Rightarrow> chat_message list \<Rightarrow> py_exn + parsed_call option" where
  "build_task_fallback_tool_call L K tools messages =
     (let text = latest_user_text L messages;
          normalized = u_lower L text;
          of_type = (\<lambda>k. find (\<lambda>t. tool_name_to_reminder_type L (lt_name t) = k) tools);
          create_tool = of_type ''create'';
          list_tool = map_option lt_name (of_type ''list'');
          wants_list = has_any TASK_QUERY_KEYWORDS normalized;
          wants_new = has_any TASK_CREATE_KEYWORDS normalized in
      if tools = [] \<or> text = [] then Inr None
      else if wants_list \<and> list_tool \<noteq> None then Inr (map_option list_call list_tool)
      else case create_tool of
        None \<Rightarrow> Inr None
      | Some t \<Rightarrow>
          and_then (parse_task_trigger_time L K text) (\<lambda>found.
            let content = build_task_default_content L text (extract_reminder_content text) in
            if (found = None \<or> found = Some []) \<and> \<not> wants_new then Inr None
            else
              and_then (case found of
                  None \<Rightarrow> build_task_default_trigger_time K
                | Some w \<Rightarrow> if w = [] then build_task_default_trigger_time K else Inr w) (\<lambda>trigger_time.
              let content_field = (case task_tool_supported_field t TASK_CONTENT_FIELD_CANDIDATES of
                    Some f \<Rightarrow> f | None \<Rightarrow> ''content'');
                  time_field = (case task_tool_supported_field t TASK_TIME_FIELD_CANDIDATES of
                    Some f \<Rightarrow> f | None \<Rightarrow> ''trigger_time'');
                  args = [(u content_field, UText content), (u time_field, UText trigger_time)] in
              and_then (case uget (lt_parameters t) ''required'' of
                  UArr fs \<Rightarrow> fill_required content trigger_time fs args | _ \<Rightarrow> Inr args) (\<lambda>all_args.
              Inr (if wants_new then Some \<lparr>pc_name = lt_name t, pc_args = UObj all_args\<rparr>
                   else if list_tool \<noteq> None \<and> has_any [[0x67E5, 0x8BE2], [0x5217,
                     0x51FA], [0x6709, 0x54EA, 0x4E9B], [0x5F85, 0x529E]] normalized
                   then map_option list_call list_tool
                   else None)))))"

end
