(* ===== verification/Tool_Rounds.thy ===== *)
theory Tool_Rounds
  imports Task_Fallback
begin

text \<open>
  The dialogue with tools (\<open>chat_with_tools\<close> in \<open>src/llm/llm_client.py\<close>): the model is asked, its calls are
  run, their results are added to the conversation, and it is asked again, for a bounded number of
  rounds.  The model and the tools are arguments: what they answer to their n-th request.  The
  result lists what is passed on, the calls that were run, how often the model was asked, and
  the exception that ended the dialogue, if any.
\<close>

datatype llm_chunk = Llm_Text utext | Llm_Call utext uvalue | Llm_Error utext

datatype out_chunk =
    Out_Chunk llm_chunk
  | Out_Text utext
  | Out_Progress utext
  | Out_Result utext call_result
  | Out_Error utext

record tool_loop =
  tl_tools :: "llm_tool list"
  tl_followup :: "llm_tool list option"
  tl_category :: "utext option"
  tl_require :: bool
  tl_wait :: bool
  tl_rounds :: int
  tl_executor :: bool

record outside =
  ow_lib :: pylib
  ow_loads :: "utext \<Rightarrow> uvalue option"
  ow_speak :: "string \<Rightarrow> utext"
  ow_clock :: task_clock
  ow_ask :: "nat \<Rightarrow> chat_message list \<Rightarrow> llm_tool list \<Rightarrow> bool \<Rightarrow> llm_chunk list"
    \<comment> \<open>the answer to the n-th request; the flag lowers the temperature\<close>
  ow_exec :: "nat \<Rightarrow> parsed_call \<Rightarrow> call_result + utext"
    \<comment> \<open>the outcome of the n-th call; \<open>Inr\<close>: it raised\<close>

record dialogue_log =
  dl_out :: "out_chunk list"
  dl_calls :: "(parsed_call \<times> (call_result + utext)) list"
  dl_asked :: nat
  dl_raised :: "py_exn option"

definition calls_in :: "outside \<Rightarrow> llm_chunk list \<Rightarrow> parsed_call list" where
  \<comment> \<open>\<open>_collect_tool_calls\<close> and \<open>_parse_tool_call\<close>\<close>
  "calls_in W chunks = concat (map (\<lambda>c. case c of
       Llm_Call name arguments \<Rightarrow> [parse_tool_call (ow_loads W) name arguments] | _ \<Rightarrow> []) chunks)"

definition non_tool_chunks :: "llm_chunk list \<Rightarrow> llm_chunk list" where
  "non_tool_chunks chunks = filter (\<lambda>c. case c of Llm_Call _ _ \<Rightarrow> False | _ \<Rightarrow> True) chunks"

subsection \<open>Running the calls of a round\<close>

datatype verdict = Go_On | Stop_With utext

definition judge_result :: "outside \<Rightarrow> utext option \<Rightarrow> nat \<Rightarrow> utext \<Rightarrow> call_result \<Rightarrow> py_exn + verdict" where
  \<comment> \<open>an authoritative answer, or the end of the dialogue\<close>
  "judge_result W category n name r =
     (let L = ow_lib W in
      and_then (terminal_exit_response_for_tool L (ow_loads W) name r) (\<lambda>terminal.
      and_then (authoritative_tool_result_response L (ow_loads W) name r) (\<lambda>authoritative.
      Inr (case authoritative of
             Some t \<Rightarrow>
               if t \<noteq> [] \<and> category \<in> {Some (u ''utils''), Some (u ''singing'')} \<and> n = 1 then Stop_With t
               else (case terminal of
                 Some e \<Rightarrow> if e \<noteq> [] \<and> \<not> tool_result_looks_failed L r then Stop_With e else Go_On
               | None \<Rightarrow> Go_On)
           | None \<Rightarrow> (case terminal of
                 Some e \<Rightarrow> if e \<noteq> [] \<and> \<not> tool_result_looks_failed L r then Stop_With e else Go_On
               | None \<Rightarrow> Go_On)))))"

fun run_calls :: "outside \<Rightarrow> utext option \<Rightarrow> nat \<Rightarrow> nat \<Rightarrow> parsed_call list
    \<Rightarrow> out_chunk list \<times> (parsed_call \<times> (call_result + utext)) list \<times> bool" where
  \<comment> \<open>\<open>n\<close> calls in the round, \<open>k\<close> made in the dialogue so far; the flag: a terminal text was passed on\<close>
  "run_calls W category n k [] = ([], [], False)"
| "run_calls W category n k (c # cs) =
     (case ow_exec W k c of
        Inr e \<Rightarrow>
          (let (out, made, stop) = run_calls W category n (k + 1) cs in
           (Out_Error ([0x5DE5, 0x5177, 0x6267, 0x884C, 0x5931, 0x8D25, 0x3A, 0x20] @ e) # out,
             (c, Inr e) # made, stop))
      | Inl r \<Rightarrow>
          (case judge_result W category n (pc_name c) r of
             Inr (Stop_With t) \<Rightarrow> ([Out_Result (pc_name c) r, Out_Text t], [(c, Inl r)], True)
           | Inr Go_On \<Rightarrow>
               (let (out, made, stop) = run_calls W category n (k + 1) cs in
                (Out_Result (pc_name c) r # out, (c, Inl r) # made, stop))
           | Inl _ \<Rightarrow>
               (let (out, made, stop) = run_calls W category n (k + 1) cs in
                (Out_Result (pc_name c) r # Out_Error [0x5DE5, 0x5177, 0x6267, 0x884C, 0x5931,
                  0x8D25, 0x3A, 0x20] # out, (c, Inl r) # made, stop))))"

definition CONTINUE_TEXT :: utext where
  \<comment> \<open>go on with the request; call tools for what is left; do not claim what was not done\<close>
  "CONTINUE_TEXT =
     [10, 10] @ [0x8BF7, 0x6839, 0x636E, 0x8FD9, 0x4E9B, 0x5DE5, 0x5177, 0x7ED3, 0x679C, 0x7EE7,
       0x7EED, 0x5904, 0x7406, 0x7528, 0x6237, 0x8BF7, 0x6C42, 0x3002, 0x5982, 0x679C, 0x7528,
       0x6237, 0x8BF7, 0x6C42, 0x4E2D, 0x8FD8, 0x6709, 0x672A, 0x5B8C, 0x6210, 0x7684, 0x6761,
       0x4EF6, 0x52A8, 0x4F5C, 0x6216, 0x540E, 0x7EED, 0x4EFB, 0x52A1, 0xFF0C, 0x8BF7, 0x7EE7,
       0x7EED, 0x8C03, 0x7528, 0x5408, 0x9002, 0x7684, 0x5DE5, 0x5177, 0xFF1B, 0x5BF9, 0x4E8E,
       0x591A, 0x57CE, 0x5E02, 0x3001, 0x591A, 0x6761, 0x4EF6, 0x3001, 0x591A, 0x6B65, 0x9AA4,
       0x4EFB, 0x52A1, 0xFF0C, 0x8BF7, 0x5728, 0x5B8C, 0x6210, 0x6240, 0x6709, 0x5FC5, 0x8981,
       0x5DE5, 0x5177, 0x8C03, 0x7528, 0x540E, 0x518D, 0x7EDF, 0x4E00, 0x603B, 0x7ED3, 0xFF1B,
       0x4E0D, 0x8981, 0x5728, 0x63D0, 0x9192, 0x3001, 0x673A, 0x5668, 0x4EBA, 0x52A8, 0x4F5C,
       0x7B49, 0x6761, 0x4EF6, 0x4EFB, 0x52A1, 0x5C1A, 0x672A, 0x771F, 0x5B9E, 0x8C03, 0x7528,
       0x5DE5, 0x5177, 0x524D, 0x58F0, 0x79F0, 0x5DF2, 0x7ECF, 0x5B8C, 0x6210, 0x3002, 0x5982,
       0x679C, 0x5DF2, 0x7ECF, 0x5B8C, 0x6210, 0x5168, 0x90E8, 0x5FC5, 0x8981, 0x5DE5, 0x5177,
       0x8C03, 0x7528, 0xFF0C, 0x8BF7, 0x76F4, 0x63A5, 0x7ED9, 0x51FA, 0x6700, 0x7EC8, 0x53E3,
       0x8BED, 0x5316, 0x56DE, 0x7B54, 0x3002]"

definition results_message :: "outside \<Rightarrow> (parsed_call \<times> (call_result + utext)) list \<Rightarrow> chat_message list" where
  \<comment> \<open>the message with the results of a round, if there are any\<close>
  "results_message W made =
     (let blocks = concat (map (\<lambda>(c, outcome). case outcome of
            Inl r \<Rightarrow> [[0x5B, 0x7CFB, 0x7EDF, 0xFF1A, 0x5DE5, 0x5177,
              0x20] @ pc_name c @ [0x20, 0x8FD4, 0x56DE, 0x7ED3, 0x679C,
              0x5D] @ [10] @ str_of_result (ow_lib W) r]
          | Inr _ \<Rightarrow> []) made) in
      if blocks = [] then [] else [(u ''user'', join_with [10, 10] blocks @ CONTINUE_TEXT)])"

subsection \<open>The decision of a round\<close>

definition retry_decision ::
  "outside \<Rightarrow> (nat \<Rightarrow> llm_chunk list) \<Rightarrow> bool \<Rightarrow> (py_exn + parsed_call option) \<Rightarrow> nat \<times> llm_chunk list
    \<Rightarrow> py_exn + nat \<times> llm_chunk list" where
  \<comment> \<open>a decision without a call is asked for again; then the call is built from the words of the user\<close>
  "retry_decision W ask_again force fallback state =
     (let (asked, chunks) = state in
      if \<not> force \<or> calls_in W chunks \<noteq> [] then Inr (asked, chunks)
      else
        let again = ask_again asked in
        if calls_in W again \<noteq> [] then Inr (asked + 1, again)
        else and_then fallback (\<lambda>f.
          Inr (asked + 1, case f of Some c \<Rightarrow> [Llm_Call (pc_name c) (pc_args c)] | None \<Rightarrow> again)))"

definition router_category_of :: "outside \<Rightarrow> tool_loop \<Rightarrow> utext" where
  "router_category_of W p = u_lower (ow_lib W) (u_strip (case tl_category p of Some c \<Rightarrow> c | None \<Rightarrow> []))"

definition first_decision ::
  "outside \<Rightarrow> tool_loop \<Rightarrow> chat_message list \<Rightarrow> nat \<Rightarrow> py_exn + nat \<times> llm_chunk list" where
  \<comment> \<open>of the first round, where a call may be required\<close>
  "first_decision W p messages asked =
     (let L = ow_lib W; tools = tl_tools p; category = router_category_of W p;
          ask_again = (\<lambda>n. ow_ask W n messages tools True);
          may = tl_require p \<and> tools \<noteq> [] in
      and_then (retry_decision W ask_again (may \<and> category = u ''websearch'')
          (Inr (build_websearch_fallback_tool_call L tools messages))
          (asked + 1, ow_ask W asked messages tools False)) (\<lambda>s1.
      and_then (retry_decision W ask_again (may \<and> category = u ''robot'')
          (Inr (build_robot_fallback_tool_call L tools messages)) s1) (\<lambda>s2.
      retry_decision W ask_again (may \<and> (category = u ''task'' \<or> contains_task_tools L tools))
          (build_task_fallback_tool_call L (ow_clock W) tools messages) s2)))"

definition later_decision :: "outside \<Rightarrow> tool_loop \<Rightarrow> chat_message list \<Rightarrow> nat \<Rightarrow> nat \<times> llm_chunk list" where
  "later_decision W p messages asked =
     (asked + 1, ow_ask W asked messages (case tl_followup p of Some t \<Rightarrow> t | None \<Rightarrow> tl_tools p) False)"

subsection \<open>The rounds\<close>

definition FINAL_REQUEST :: utext where
  \<comment> \<open>answer from the results you have, call no more tools\<close>
  "FINAL_REQUEST = [0x8BF7, 0x57FA, 0x4E8E, 0x4EE5, 0x4E0A, 0x5DF2, 0x7ECF, 0x5B8C, 0x6210,
    0x7684, 0x5DE5, 0x5177, 0x7ED3, 0x679C, 0xFF0C, 0x76F4, 0x63A5, 0x7ED9, 0x51FA, 0x6700,
    0x7EC8, 0x53E3, 0x8BED, 0x5316, 0x56DE, 0x7B54, 0xFF0C, 0x4E0D, 0x8981, 0x518D, 0x8C03,
    0x7528, 0x5DE5, 0x5177, 0x3002]"

fun tool_rounds :: "outside \<Rightarrow> tool_loop \<Rightarrow> nat \<Rightarrow> bool \<Rightarrow> chat_message list \<Rightarrow> dialogue_log \<Rightarrow> dialogue_log" where
  "tool_rounds W p 0 start messages log0 =
     log0\<lparr>dl_out := dl_out log0 @ map Out_Chunk
            (ow_ask W (dl_asked log0) (messages @ [(u ''user'', FINAL_REQUEST)]) [] False),
         dl_asked := dl_asked log0 + 1\<rparr>"
| "tool_rounds W p (Suc left) start messages log0 =
     (case (if start then first_decision W p messages (dl_asked log0)
            else Inr (later_decision W p messages (dl_asked log0))) of
        Inl e \<Rightarrow> log0\<lparr>dl_raised := Some e\<rparr>
      | Inr (asked, chunks) \<Rightarrow>
          let log1 = log0\<lparr>dl_asked := asked\<rparr>; cs = calls_in W chunks in
          if cs \<noteq> [] \<and> tl_executor p then
            (case (if tl_wait p then build_tool_batch_wait_message (ow_lib W) (ow_speak W) cs else Inr None) of
               Inl e \<Rightarrow> log1\<lparr>dl_raised := Some e\<rparr>
             | Inr wait \<Rightarrow>
                 let (out, made, stop) = run_calls W (tl_category p) (length cs) (length (dl_calls log1)) cs;
                     progress = (case wait of Some t \<Rightarrow> if t = [] then [] else [Out_Progress t] | None \<Rightarrow> []);
                     log2 = log1\<lparr>dl_out := dl_out log1 @ progress @ out, dl_calls := dl_calls log1 @ made\<rparr> in
                 if stop then log2
                 else tool_rounds W p left False (messages @ results_message W made) log2)
          else if start \<and> tl_require p then
            log1\<lparr>dl_out := dl_out log1 @ [Out_Text (no_tool_call_fallback_message (tl_category p)
               (tl_require p \<and> router_category_of W p = u ''websearch'' \<and> tl_tools p \<noteq> []))]\<rparr>
          else log1\<lparr>dl_out := dl_out log1 @ map Out_Chunk (non_tool_chunks chunks)\<rparr>)"

definition chat_with_tools :: "outside \<Rightarrow> tool_loop \<Rightarrow> chat_message list \<Rightarrow> dialogue_log" where
  "chat_with_tools W p messages =
     tool_rounds W p (nat (max 1 (tl_rounds p))) True messages
       \<lparr>dl_out = [], dl_calls = [], dl_asked = 0, dl_raised = None\<rparr>"

end
