(* ===== verification/Tool_Rounds_Facts.thy ===== *)
theory Tool_Rounds_Facts
  imports Tool_Rounds
begin

text \<open>
  The dialogue with tools: it ends after a bounded number of requests to the model, it passes on no
  text in place of a call that is required, a terminal result is the last thing that happens, and
  calls that no model made are of offered tools.
\<close>

subsection \<open>The decision of a round\<close>

lemma retry_decision_cases:
  assumes "retry_decision W again force fallback (asked, chunks) = Inr (asked', chunks')"
  shows "asked' = asked \<and> chunks' = chunks
    \<or> force \<and> asked' = asked + 1 \<and> (chunks' = again asked
        \<or> (\<exists>c. fallback = Inr (Some c) \<and> chunks' = [Llm_Call (pc_name c) (pc_args c)]))"
  using assms
  by (auto simp: retry_decision_def Let_def and_then_Inr_iff split: if_splits option.splits)

lemma first_decision_asked:
  assumes "first_decision W p messages asked = Inr (asked', chunks)"
  shows "asked + 1 \<le> asked'" "asked' \<le> asked + 3"
proof -
  let ?L = "ow_lib W" and ?tools = "tl_tools p" and ?cat = "router_category_of W p"
  let ?again = "\<lambda>n. ow_ask W n messages ?tools True" and ?may = "tl_require p \<and> tl_tools p \<noteq> []"
  obtain a1 c1 a2 c2 where
    s1: "retry_decision W ?again (?may \<and> ?cat = u ''websearch'')
      (Inr (build_websearch_fallback_tool_call ?L ?tools messages)) (asked + 1, ow_ask W asked messages ?tools False)
      = Inr (a1, c1)"
    and s2: "retry_decision W ?again (?may \<and> ?cat = u ''robot'')
      (Inr (build_robot_fallback_tool_call ?L ?tools messages)) (a1, c1) = Inr (a2, c2)"
    and s3: "retry_decision W ?again (?may \<and> (?cat = u ''task'' \<or> contains_task_tools ?L ?tools))
      (build_task_fallback_tool_call ?L (ow_clock W) ?tools messages) (a2, c2) = Inr (asked', chunks)"
    using assms unfolding first_decision_def Let_def and_then_Inr_iff by fastforce
  have "a1 \<le> asked + 2 \<and> asked + 1 \<le> a1" "a2 \<le> a1 + 1 \<and> a1 \<le> a2" "asked' \<le> a2 + 1 \<and> a2 \<le> asked'"
    using retry_decision_cases [OF s1] retry_decision_cases [OF s2] retry_decision_cases [OF s3] by auto
  moreover have "a1 = asked + 1 \<or> a2 = a1"
    using retry_decision_cases [OF s1] retry_decision_cases [OF s2] by auto
  ultimately show "asked + 1 \<le> asked'" "asked' \<le> asked + 3" by auto
qed

definition made_by_model :: "outside \<Rightarrow> parsed_call \<Rightarrow> bool" where
  "made_by_model W c \<longleftrightarrow> (\<exists>n messages tools cold. c \<in> set (calls_in W (ow_ask W n messages tools cold)))"

lemma websearch_fallback_offered:
  "build_websearch_fallback_tool_call L tools messages = Some c \<Longrightarrow> pc_name c \<in> lt_name ` set tools"
proof -
  assume call: "build_websearch_fallback_tool_call L tools messages = Some c"
  let ?cand = "concat (map (\<lambda>t. if \<not> u_in (u ''websearch'') (u_lower L (lt_name t)) then []
      else case find (\<lambda>k. u k \<in> set (keys (properties_of (lt_parameters t)))) QUERY_ARGUMENTS of
        None \<Rightarrow> [] | Some k \<Rightarrow> [(lt_name t, k)]) tools)"
  obtain k where "?cand = [(pc_name c, k)]"
    using call unfolding build_websearch_fallback_tool_call_def Let_def
    by (auto split: list.splits prod.splits if_splits)
  then have "(pc_name c, k) \<in> set ?cand" by (metis list.set_intros(1))
  then show ?thesis by (auto split: if_splits option.splits)
qed

lemma robot_fallback_offered:
  assumes "build_robot_fallback_tool_call L tools messages = Some c"
  shows "pc_name c \<in> lt_name ` set tools"
proof -
  define inferred where "inferred = (if tools = [] \<or> latest_user_text L messages = [] then []
    else inferred_robot_calls L (latest_user_text L messages) tools)"
  obtain name args where c: "c = \<lparr>pc_name = name, pc_args = UObj args\<rparr>" and mem: "(name, args) \<in> set inferred"
  proof -
    let ?specific = "filter (\<lambda>(_, args). args \<noteq> []) inferred"
    let ?moves = "filter (\<lambda>(name, _). u_in (u ''.move_robot'') name) inferred"
    obtain x where x: "(if length inferred = 1 \<or> (inferred \<noteq> [] \<and> length tools = 1) then Some (hd inferred)
        else if length ?specific = 1 then Some (hd ?specific)
        else if ?moves \<noteq> [] then Some (hd ?moves) else None) = Some x"
        and c: "c = (case x of (name, args) \<Rightarrow> \<lparr>pc_name = name, pc_args = UObj args\<rparr>)"
      using assms unfolding build_robot_fallback_tool_call_def Let_def inferred_def by (auto simp: map_option_eq_Some)
    have hd_filter: "hd (filter P inferred) \<in> set inferred" if "filter P inferred \<noteq> []" for P
      using hd_in_set [OF that] by simp
    have "x \<in> set inferred"
    proof (cases "length inferred = 1 \<or> (inferred \<noteq> [] \<and> length tools = 1)")
      case True
      then have "inferred \<noteq> []" by auto
      then show ?thesis using x True by auto
    next
      case no: False
      show ?thesis
      proof (cases "length ?specific = 1")
        case True
        then have "?specific \<noteq> []" by auto
        then show ?thesis using x no True hd_filter by auto
      next
        case False
        then have "?moves \<noteq> []" "x = hd ?moves" using x no by (auto split: if_splits)
        then show ?thesis using hd_filter by auto
      qed
    qed
    moreover obtain name args where "x = (name, args)" by (cases x)
    ultimately show ?thesis using that [of name args] c by simp
  qed
  have "name \<in> lt_name ` set tools"
    using mem by (auto simp: inferred_def inferred_robot_calls_def split: if_splits option.splits)
  then show ?thesis by (simp add: c)
qed

lemma fill_fieldD:
  assumes "fill_field content trigger_time f a = Inr b"
  obtains t where "f = UText t" "set (keys a) \<subseteq> set (keys b)" "t \<in> set (keys b)"
proof (cases f)
  case (UText t)
  show ?thesis
  proof (cases "t \<in> set (keys a)")
    case True
    then show ?thesis using that UText assms by (auto simp: fill_field_def)
  next
    case False
    then have "\<exists>v. b = AList.update t v a" using UText assms by (auto simp: fill_field_def)
    then obtain v where "b = AList.update t v a" by blast
    then have eq: "set (keys b) = insert t (set (keys a))" using False by (simp add: keys_update)
    show ?thesis by (rule that [OF UText]) (auto simp: eq simp del: set_map)
  qed
qed (use assms in \<open>simp_all add: fill_field_def\<close>)

lemma required_fields_filled:
  "fill_required content trigger_time fs args = Inr out \<Longrightarrow>
    set (keys args) \<subseteq> set (keys out) \<and> (\<forall>f \<in> set fs. \<exists>t. f = UText t \<and> t \<in> set (keys out))"
proof (induction fs arbitrary: args)
  case (Cons f fs)
  then obtain mid where mid: "fill_field content trigger_time f args = Inr mid"
      "fill_required content trigger_time fs mid = Inr out"
    by (auto simp: and_then_Inr_iff)
  obtain t where t: "f = UText t" "set (keys args) \<subseteq> set (keys mid)" "t \<in> set (keys mid)"
    using mid(1) by (rule fill_fieldD)
  from Cons.IH [OF mid(2)] t have "set (keys args) \<subseteq> set (keys out)" "t \<in> set (keys out)"
      "\<forall>f \<in> set fs. \<exists>t. f = UText t \<and> t \<in> set (keys out)" by blast+
  then show ?case using t(1) by (simp del: set_map)
qed simp

lemma find_in_set: "find P xs = Some x \<Longrightarrow> x \<in> set xs \<and> P x"
  by (auto simp: find_Some_iff)

lemma default_fields:
  "''content'' \<in> set TASK_CONTENT_FIELD_CANDIDATES" "''trigger_time'' \<in> set TASK_TIME_FIELD_CANDIDATES"
  by (simp_all add: TASK_CONTENT_FIELD_CANDIDATES_def TASK_TIME_FIELD_CANDIDATES_def)

lemma supported_field_in:
  "task_tool_supported_field t names = Some f \<Longrightarrow> f \<in> set names"
  unfolding task_tool_supported_field_def using find_in_set by fast

lemma content_field_in:
  "(case task_tool_supported_field t TASK_CONTENT_FIELD_CANDIDATES of Some f \<Rightarrow> f | None \<Rightarrow> ''content'')
    \<in> set TASK_CONTENT_FIELD_CANDIDATES"
  by (cases "task_tool_supported_field t TASK_CONTENT_FIELD_CANDIDATES") (simp_all add: default_fields supported_field_in)

lemma time_field_in:
  "(case task_tool_supported_field t TASK_TIME_FIELD_CANDIDATES of Some f \<Rightarrow> f | None \<Rightarrow> ''trigger_time'')
    \<in> set TASK_TIME_FIELD_CANDIDATES"
  by (cases "task_tool_supported_field t TASK_TIME_FIELD_CANDIDATES") (simp_all add: default_fields supported_field_in)

definition complete_creation :: "llm_tool \<Rightarrow> uvalue \<Rightarrow> bool" where
  "complete_creation t v \<longleftrightarrow>
     (case v of
        UObj args \<Rightarrow>
          (\<exists>f \<in> set TASK_CONTENT_FIELD_CANDIDATES. u f \<in> set (keys args))
          \<and> (\<exists>f \<in> set TASK_TIME_FIELD_CANDIDATES. u f \<in> set (keys args))
          \<and> (case uget (lt_parameters t) ''required'' of
               UArr fs \<Rightarrow> \<forall>f \<in> set fs. \<exists>k. f = UText k \<and> k \<in> set (keys args) | _ \<Rightarrow> True)
      | _ \<Rightarrow> False)"

lemma filled_creation:
  assumes "(case uget (lt_parameters t) ''required'' of
      UArr fs \<Rightarrow> fill_required content trigger fs [(u cf, UText content), (u tf, UText trigger)]
    | _ \<Rightarrow> Inr [(u cf, UText content), (u tf, UText trigger)]) = Inr args"
    and "cf \<in> set TASK_CONTENT_FIELD_CANDIDATES" "tf \<in> set TASK_TIME_FIELD_CANDIDATES"
  shows "complete_creation t (UObj args)"
proof (cases "\<exists>fs. uget (lt_parameters t) ''required'' = UArr fs")
  case True
  then obtain fs where fs: "uget (lt_parameters t) ''required'' = UArr fs" by blast
  have "fill_required content trigger fs [(u cf, UText content), (u tf, UText trigger)] = Inr args"
    using assms(1) fs by simp
  from required_fields_filled [OF this] have
    "{u cf, u tf} \<subseteq> set (keys args)" "\<forall>f \<in> set fs. \<exists>k. f = UText k \<and> k \<in> set (keys args)" by auto
  then show ?thesis using assms(2,3) fs by (auto simp: complete_creation_def simp del: set_map)
next
  case False
  then have args: "args = [(u cf, UText content), (u tf, UText trigger)]"
    using assms(1) by (cases "uget (lt_parameters t) ''required''") auto
  show ?thesis
    using False assms(2,3) unfolding complete_creation_def args
    by (cases "uget (lt_parameters t) ''required''") auto
qed

lemma task_fallback_cases:
  assumes "build_task_fallback_tool_call L K tools messages = Inr (Some c)"
  obtains (listing) t where "find (\<lambda>t. tool_name_to_reminder_type L (lt_name t) = ''list'') tools = Some t"
      "c = list_call (lt_name t)"
    | (creation) t args where "find (\<lambda>t. tool_name_to_reminder_type L (lt_name t) = ''create'') tools = Some t"
      "c = \<lparr>pc_name = lt_name t, pc_args = UObj args\<rparr>" "complete_creation t (UObj args)"
proof -
  let ?list = "find (\<lambda>t. tool_name_to_reminder_type L (lt_name t) = ''list'') tools"
  let ?create = "find (\<lambda>t. tool_name_to_reminder_type L (lt_name t) = ''create'') tools"
  let ?text = "latest_user_text L messages"
  show ?thesis
  proof (cases "map_option list_call (map_option lt_name ?list) = Some c")
    case True
    then show ?thesis using listing by auto
  next
    case no: False
    show ?thesis
    proof (cases ?create)
      case None
      then show ?thesis using assms no by (simp add: build_task_fallback_tool_call_def Let_def split: if_splits)
    next
      case (Some t)
      let ?content = "build_task_default_content L ?text (extract_reminder_content ?text)"
      let ?cf = "case task_tool_supported_field t TASK_CONTENT_FIELD_CANDIDATES of Some f \<Rightarrow> f | None \<Rightarrow> ''content''"
      let ?tf = "case task_tool_supported_field t TASK_TIME_FIELD_CANDIDATES of Some f \<Rightarrow> f | None \<Rightarrow> ''trigger_time''"
      obtain trigger args where
        args: "(case uget (lt_parameters t) ''required'' of
            UArr fs \<Rightarrow> fill_required ?content trigger fs [(u ?cf, UText ?content), (u ?tf, UText trigger)]
          | _ \<Rightarrow> Inr [(u ?cf, UText ?content), (u ?tf, UText trigger)]) = Inr args"
        and c: "c = \<lparr>pc_name = lt_name t, pc_args = UObj args\<rparr>"
        using assms no unfolding build_task_fallback_tool_call_def Let_def Some
        by (auto simp: and_then_Inr_iff split: if_splits)
      show ?thesis
        by (rule creation [OF Some c filled_creation [OF args content_field_in time_field_in]])
    qed
  qed
qed

text \<open>The reminder call the client builds by itself is a call of an offered tool: a listing without
  arguments, or the creation of a reminder with a content, a time and every field the tool requires.\<close>

theorem built_reminder_is_complete:
  assumes "build_task_fallback_tool_call L K tools messages = Inr (Some c)"
  shows "\<exists>t \<in> set tools. pc_name c = lt_name t
    \<and> (tool_name_to_reminder_type L (lt_name t) = ''list'' \<and> pc_args c = UObj []
      \<or> tool_name_to_reminder_type L (lt_name t) = ''create'' \<and> complete_creation t (pc_args c))"
  using assms
proof (cases rule: task_fallback_cases)
  case (listing t)
  then show ?thesis using find_in_set [OF listing(1)] by (auto simp: list_call_def)
next
  case (creation t args)
  then show ?thesis using find_in_set [OF creation(1)] by auto
qed

lemma built_reminder_is_complete_witness:
  "complete_creation \<lparr>lt_name = u ''t.create_task'', lt_description = UNull,
      lt_parameters = [(u ''required'', UArr [UText (u ''content''), UText (u ''place'')])]\<rparr>
    (UObj [(u ''content'', UText [0x559D, 0x6C34]), (u ''trigger_time'', UText (u ''T'')),
      (u ''place'', UText [0x559D, 0x6C34])])"
proof -
  let ?t = "\<lparr>lt_name = u ''t.create_task'', lt_description = UNull,
      lt_parameters = [(u ''required'', UArr [UText (u ''content''), UText (u ''place'')])]\<rparr>"
  let ?K = "\<lparr>tc_now = 0, tc_on_day = (\<lambda>d h m. Inr 0), tc_iso = (\<lambda>_. Inr (u ''T'')), tc_minute_start = (\<lambda>x. x)\<rparr>"
  have "build_task_fallback_tool_call exact_lib ?K [?t] [(u ''user'', [0x63D0, 0x9192, 0x6211,
    0x559D, 0x6C34])]
    = Inr (Some \<lparr>pc_name = u ''t.create_task'', pc_args =
        UObj [(u ''content'', UText [0x559D, 0x6C34]), (u ''trigger_time'', UText (u ''T'')),
          (u ''place'', UText [0x559D, 0x6C34])]\<rparr>)"
    by code_simp
  from built_reminder_is_complete [OF this] show ?thesis by auto
qed

lemma task_fallback_offered:
  assumes "build_task_fallback_tool_call L K tools messages = Inr (Some c)"
  shows "pc_name c \<in> lt_name ` set tools"
  using assms
proof (cases rule: task_fallback_cases)
  case (listing t)
  then show ?thesis using find_in_set [OF listing(1)] by (auto simp: list_call_def)
next
  case (creation t args)
  then show ?thesis using find_in_set [OF creation(1)] by auto
qed

text \<open>"Half past three in the afternoon" has no minutes for the client.\<close>

lemma half_past_is_lost: "clock_time exact_lib [0x4E0B, 0x5348, 0x4E09, 0x70B9,
  0x534A] = Some ([0x4E0B, 0x5348], [0x4E09], None)"
  by code_simp

subsection \<open>The rounds\<close>

lemma first_decision_calls:
  assumes "first_decision W p messages asked = Inr (asked', chunks)" "c \<in> set (calls_in W chunks)"
  shows "made_by_model W c \<or> pc_name c \<in> lt_name ` set (tl_tools p)"
proof -
  let ?L = "ow_lib W" and ?tools = "tl_tools p" and ?cat = "router_category_of W p"
  let ?again = "\<lambda>n. ow_ask W n messages ?tools True" and ?may = "tl_require p \<and> tl_tools p \<noteq> []"
  let ?ok = "\<lambda>chunks. \<forall>c \<in> set (calls_in W chunks). made_by_model W c \<or> pc_name c \<in> lt_name ` set ?tools"
  obtain a1 c1 a2 c2 where
    s1: "retry_decision W ?again (?may \<and> ?cat = u ''websearch'')
      (Inr (build_websearch_fallback_tool_call ?L ?tools messages)) (asked + 1, ow_ask W asked messages ?tools False)
      = Inr (a1, c1)"
    and s2: "retry_decision W ?again (?may \<and> ?cat = u ''robot'')
      (Inr (build_robot_fallback_tool_call ?L ?tools messages)) (a1, c1) = Inr (a2, c2)"
    and s3: "retry_decision W ?again (?may \<and> (?cat = u ''task'' \<or> contains_task_tools ?L ?tools))
      (build_task_fallback_tool_call ?L (ow_clock W) ?tools messages) (a2, c2) = Inr (asked', chunks)"
    using assms(1) unfolding first_decision_def Let_def and_then_Inr_iff by fastforce
  have asked: "?ok (ow_ask W n messages ?tools cold)" for n cold
    by (auto simp: made_by_model_def)
  have built: "?ok [Llm_Call (pc_name c) (pc_args c)]" if "pc_name c \<in> lt_name ` set ?tools" for c
    using that by (auto simp: calls_in_def parse_tool_call_def Let_def)
  have step: "?ok d'" if r: "retry_decision W ?again force fb (a, d) = Inr (a', d')" and "?ok d"
      and fb: "\<And>c. fb = Inr (Some c) \<Longrightarrow> pc_name c \<in> lt_name ` set ?tools" for force fb a d a' d'
    using retry_decision_cases [OF r] \<open>?ok d\<close> asked [of a True] built fb by blast
  have "?ok c1" by (rule step [OF s1 asked]) (simp add: websearch_fallback_offered)
  then have "?ok c2" by (rule step [OF s2]) (simp add: robot_fallback_offered)
  then have "?ok chunks" by (rule step [OF s3]) (rule task_fallback_offered)
  then show ?thesis using assms(2) by blast
qed

lemma later_decision_calls:
  "c \<in> set (calls_in W (snd (later_decision W p messages asked))) \<Longrightarrow> made_by_model W c"
  by (auto simp: later_decision_def made_by_model_def)

lemma run_calls_made:
  "run_calls W category n k cs = (out, made, stop) \<Longrightarrow> (d, x) \<in> set made \<Longrightarrow> d \<in> set cs"
proof (induction cs arbitrary: k out made stop)
  case (Cons c cs)
  obtain out' made' stop' where rest: "run_calls W category n (k + 1) cs = (out', made', stop')"
    by (cases "run_calls W category n (k + 1) cs") auto
  then show ?case using Cons.IH [OF rest] Cons.prems
    by (auto split: sum.splits verdict.splits)
qed simp

lemma run_calls_some:
  "run_calls W category n k (c # cs) = (out, made, stop) \<Longrightarrow> made \<noteq> []"
  by (cases "run_calls W category n (k + 1) cs") (auto split: sum.splits verdict.splits)

lemma run_calls_no_chunk:
  "run_calls W category n k cs = (out, made, stop) \<Longrightarrow> Out_Chunk x \<notin> set out"
proof (induction cs arbitrary: k out made stop)
  case (Cons c cs)
  obtain out' made' stop' where rest: "run_calls W category n (k + 1) cs = (out', made', stop')"
    by (cases "run_calls W category n (k + 1) cs") auto
  then show ?case using Cons.IH [OF rest] Cons.prems
    by (auto split: sum.splits verdict.splits)
qed simp

lemma run_calls_terminal:
  assumes "run_calls W category n k cs = (out, made, stop)" "(c, Inl r) \<in> set made"
    "judge_result W category n (pc_name c) r = Inr (Stop_With t)"
  shows "stop \<and> last made = (c, Inl r) \<and> last out = Out_Text t \<and> out \<noteq> []"
  using assms(1,2)
proof (induction cs arbitrary: k out made stop)
  case (Cons d cs)
  obtain out' made' stop' where rest: "run_calls W category n (k + 1) cs = (out', made', stop')"
    by (cases "run_calls W category n (k + 1) cs") auto
  show ?case
  proof (cases "(c, Inl r) \<in> set made'")
    case True
    with Cons.IH [OF rest] have ih: "stop' \<and> last made' = (c, Inl r) \<and> last out' = Out_Text t \<and> out' \<noteq> []" by simp
    from True have "made' \<noteq> []" by auto
    then show ?thesis using ih Cons.prems(1) rest Cons.prems(2) True assms(3)
      by (auto split: sum.splits verdict.splits)
  next
    case False
    then show ?thesis using Cons.prems rest assms(3)
      by (auto split: sum.splits verdict.splits)
  qed
qed simp

lemma judged_terminal:
  assumes "terminal_exit_response_for_tool (ow_lib W) (ow_loads W) name r = Inr (Some e)" "e \<noteq> []"
    "authoritative_tool_result_response (ow_lib W) (ow_loads W) name r = Inr a"
    "\<not> tool_result_looks_failed (ow_lib W) r"
  shows "\<exists>t. judge_result W category n name r = Inr (Stop_With t)"
  using assms by (cases a) (simp_all add: judge_result_def)

text \<open>A round: the dialogue ends with it, or calls were run and the next round follows.\<close>

lemma round_cases:
  assumes "tool_rounds W p (Suc left) start messages log0 = result"
  obtains (raised) e where "result = log0\<lparr>dl_raised := Some e\<rparr>"
    | (ended) asked chunks out more_raised where
        "(if start then first_decision W p messages (dl_asked log0)
          else Inr (later_decision W p messages (dl_asked log0))) = Inr (asked, chunks)"
        "result = log0\<lparr>dl_asked := asked, dl_out := dl_out log0 @ out, dl_raised := more_raised\<rparr>"
        "start \<and> tl_require p \<Longrightarrow> \<forall>c. Out_Chunk c \<notin> set out"
    | (ran) asked chunks progress out made stop where
        "(if start then first_decision W p messages (dl_asked log0)
          else Inr (later_decision W p messages (dl_asked log0))) = Inr (asked, chunks)"
        "calls_in W chunks \<noteq> []"
        "run_calls W (tl_category p) (length (calls_in W chunks)) (length (dl_calls log0)) (calls_in W chunks)
          = (out, made, stop)"
        "\<forall>c. Out_Chunk c \<notin> set progress"
        "result = (let log2 = log0\<lparr>dl_asked := asked, dl_out := dl_out log0 @ progress @ out,
             dl_calls := dl_calls log0 @ made\<rparr> in
           if stop then log2 else tool_rounds W p left False (messages @ results_message W made) log2)"
proof -
  let ?decided = "if start then first_decision W p messages (dl_asked log0)
    else Inr (later_decision W p messages (dl_asked log0))"
  show ?thesis
  proof (cases ?decided)
    case (Inl e)
    show ?thesis by (rule raised [of e]) (use assms Inl in simp)
  next
    case (Inr d)
    obtain asked chunks where d: "?decided = Inr (asked, chunks)" using Inr by (cases d) simp
    let ?cs = "calls_in W chunks"
    show ?thesis
    proof (cases "?cs \<noteq> [] \<and> tl_executor p")
      case False
      show ?thesis
      proof (cases "start \<and> tl_require p")
        case True
        show ?thesis
          by (rule ended [where out = "[Out_Text (no_tool_call_fallback_message (tl_category p)
               (tl_require p \<and> router_category_of W p = u ''websearch'' \<and> tl_tools p \<noteq> []))]"
               and more_raised = "dl_raised log0", OF d])
            (use assms d False True in \<open>auto simp: Let_def\<close>)
      next
        case no: False
        show ?thesis
          by (rule ended [where out = "map Out_Chunk (non_tool_chunks chunks)" and more_raised = "dl_raised log0", OF d])
            (use assms d False no in \<open>auto simp: Let_def\<close>)
      qed
    next
      case True
      let ?wait = "if tl_wait p then build_tool_batch_wait_message (ow_lib W) (ow_speak W) ?cs else Inr None"
      obtain out made stop where r:
        "run_calls W (tl_category p) (length ?cs) (length (dl_calls log0)) ?cs = (out, made, stop)"
        by (cases "run_calls W (tl_category p) (length ?cs) (length (dl_calls log0)) ?cs") auto
      show ?thesis
      proof (cases ?wait)
        case (Inl e)
        show ?thesis
          by (rule ended [where out = "[]" and more_raised = "Some e", OF d]) (use assms d True Inl in \<open>auto simp: Let_def\<close>)
      next
        case (Inr w)
        let ?progress = "case w of Some t \<Rightarrow> if t = [] then [] else [Out_Progress t] | None \<Rightarrow> []"
        have p: "\<forall>c. Out_Chunk c \<notin> set ?progress" by (cases w) simp_all
        show ?thesis
          by (rule ran [OF d _ r p]) (use assms d True Inr r in \<open>simp_all add: Let_def\<close>)
      qed
    qed
  qed
qed

declare tool_rounds.simps(2) [simp del]

lemma calls_only_grow:
  "length (dl_calls log0) \<le> length (dl_calls (tool_rounds W p left start messages log0))"
proof (induction left arbitrary: start messages log0)
  case (Suc left)
  show ?case using refl [of "tool_rounds W p (Suc left) start messages log0"]
  proof (cases rule: round_cases)
    case (ran asked chunks progress out made stop)
    let ?log2 = "log0\<lparr>dl_asked := asked, dl_out := dl_out log0 @ progress @ out, dl_calls := dl_calls log0 @ made\<rparr>"
    have "length (dl_calls ?log2)
        \<le> length (dl_calls (tool_rounds W p left False (messages @ results_message W made) ?log2))"
      by (rule Suc.IH)
    then show ?thesis using ran(5) by (cases stop) (simp_all add: Let_def)
  qed simp_all
qed simp

lemma rounds_bounded:
  "dl_asked (tool_rounds W p left start messages log0)
    \<le> dl_asked log0 + left + 1 + (if start \<and> left > 0 then 2 else 0)"
proof (induction left arbitrary: start messages log0)
  case (Suc left)
  have decided: "asked \<le> dl_asked log0 + 1 + (if start then 2 else 0)"
    if "(if start then first_decision W p messages (dl_asked log0)
          else Inr (later_decision W p messages (dl_asked log0))) = Inr (asked, chunks)" for asked chunks
    using that first_decision_asked(2) [of W p messages "dl_asked log0" asked chunks]
    by (cases start) (auto simp: later_decision_def)
  show ?case using refl [of "tool_rounds W p (Suc left) start messages log0"]
  proof (cases rule: round_cases)
    case (ended asked chunks out e)
    then show ?thesis using decided [OF ended(1)] by (cases start) simp_all
  next
    case (ran asked chunks progress out made stop)
    let ?log2 = "log0\<lparr>dl_asked := asked, dl_out := dl_out log0 @ progress @ out, dl_calls := dl_calls log0 @ made\<rparr>"
    have "dl_asked (tool_rounds W p left False (messages @ results_message W made) ?log2) \<le> asked + left + 1"
      using Suc.IH [of False "messages @ results_message W made" ?log2] by simp
    then show ?thesis using decided [OF ran(1)] ran(5) by (cases start; cases stop) (simp_all add: Let_def)
  qed simp
qed simp

lemma later_decided:
  assumes "(if start then first_decision W p messages n else Inr (later_decision W p messages n)) = Inr (asked, chunks)"
    "c \<in> set (calls_in W chunks)"
  shows "made_by_model W c \<or> pc_name c \<in> lt_name ` set (tl_tools p)"
  using assms first_decision_calls later_decision_calls [of c W p messages n] by (cases start) auto

lemma rounds_calls:
  assumes "(c, x) \<in> set (dl_calls (tool_rounds W p left start messages log0))" "(c, x) \<notin> set (dl_calls log0)"
  shows "made_by_model W c \<or> pc_name c \<in> lt_name ` set (tl_tools p)"
  using assms
proof (induction left arbitrary: start messages log0)
  case (Suc left)
  show ?case using refl [of "tool_rounds W p (Suc left) start messages log0"]
  proof (cases rule: round_cases)
    case (ran asked chunks progress out made stop)
    let ?log2 = "log0\<lparr>dl_asked := asked, dl_out := dl_out log0 @ progress @ out, dl_calls := dl_calls log0 @ made\<rparr>"
    show ?thesis
    proof (cases "(c, x) \<in> set made")
      case True
      then show ?thesis using later_decided [OF ran(1)] run_calls_made [OF ran(3)] by blast
    next
      case False
      then have new: "(c, x) \<notin> set (dl_calls ?log2)" using Suc.prems(2) by simp
      then show ?thesis using Suc.IH [OF _ new] Suc.prems(1) ran(5) by (cases stop) (auto simp: Let_def)
    qed
  qed (use Suc.prems in simp_all)
qed simp

lemma rounds_terminal:
  assumes "(c, Inl r) \<in> set (dl_calls (tool_rounds W p left start messages log0))" "(c, Inl r) \<notin> set (dl_calls log0)"
    and stops: "\<And>n. \<exists>t. judge_result W (tl_category p) n (pc_name c) r = Inr (Stop_With t)"
  shows "last (dl_calls (tool_rounds W p left start messages log0)) = (c, Inl r)
    \<and> (\<exists>t. last (dl_out (tool_rounds W p left start messages log0)) = Out_Text t)"
  using assms(1,2)
proof (induction left arbitrary: start messages log0)
  case (Suc left)
  show ?case using refl [of "tool_rounds W p (Suc left) start messages log0"]
  proof (cases rule: round_cases)
    case (ran asked chunks progress out made stop)
    let ?log2 = "log0\<lparr>dl_asked := asked, dl_out := dl_out log0 @ progress @ out, dl_calls := dl_calls log0 @ made\<rparr>"
    show ?thesis
    proof (cases "(c, Inl r) \<in> set made")
      case True
      obtain t where "judge_result W (tl_category p) (length (calls_in W chunks)) (pc_name c) r = Inr (Stop_With t)"
        using stops by blast
      from run_calls_terminal [OF ran(3) True this] have stop "last made = (c, Inl r)" "last out = Out_Text t" "out \<noteq> []"
        by simp_all
      moreover have "made \<noteq> []" using True by auto
      ultimately show ?thesis using ran(5) by (simp add: Let_def)
    next
      case False
      then have new: "(c, Inl r) \<notin> set (dl_calls ?log2)" using Suc.prems(2) by simp
      then show ?thesis using Suc.IH [OF _ new] Suc.prems(1) ran(5) by (cases stop) (auto simp: Let_def)
    qed
  qed (use Suc.prems in simp_all)
qed simp

lemma required_round:
  assumes "tl_require p" "Out_Chunk x \<in> set (dl_out (tool_rounds W p (Suc left) True messages log0))" "dl_out log0 = []"
  shows "dl_calls (tool_rounds W p (Suc left) True messages log0) \<noteq> []"
  using refl [of "tool_rounds W p (Suc left) True messages log0"]
proof (cases rule: round_cases)
  case (ended asked chunks out e)
  then show ?thesis using assms by auto
next
  case (ran asked chunks progress out made stop)
  let ?log2 = "log0\<lparr>dl_asked := asked, dl_out := dl_out log0 @ progress @ out, dl_calls := dl_calls log0 @ made\<rparr>"
  have "made \<noteq> []" using ran(2,3) run_calls_some by (cases "calls_in W chunks") auto
  then have "0 < length (dl_calls ?log2)" by simp
  then have "0 < length (dl_calls (tool_rounds W p (Suc left) True messages log0))"
    using calls_only_grow [of ?log2 W p left False "messages @ results_message W made"] ran(5)
    by (cases stop) (auto simp: Let_def)
  then show ?thesis by simp
qed (use assms in simp)

lemma some_round: "\<exists>left. nat (max 1 (tl_rounds p)) = Suc left"
  by (cases "nat (max 1 (tl_rounds p))") auto

subsection \<open>Properties\<close>

definition dancing :: "bool \<Rightarrow> outside" where
  \<comment> \<open>a model that first lets the robot dance or asks for the state of it, and then says something\<close>
  "dancing terminal =
     \<lparr>ow_lib = exact_lib, ow_loads = (\<lambda>_. None), ow_speak = u,
      ow_clock = \<lparr>tc_now = 0, tc_on_day = (\<lambda>d h m. Inr 0), tc_iso = (\<lambda>_. Inr []), tc_minute_start = (\<lambda>x. x)\<rparr>,
      ow_ask = (\<lambda>n ms ts cold. if n = 0
        then [Llm_Call (if terminal then u ''robot_r.dance'' else u ''robot_r.state'') (UObj [])] else [Llm_Text (u ''ok'')]),
      ow_exec = (\<lambda>k c. Inl (Object_Result (Some False) None []))\<rparr>"

definition dance_loop :: tool_loop where
  "dance_loop =
     \<lparr>tl_tools = [\<lparr>lt_name = u ''robot_r.dance'', lt_description = UNull, lt_parameters = []\<rparr>], tl_followup = None,
      tl_category = Some (u ''robot''), tl_require = True, tl_wait = False, tl_rounds = 4, tl_executor = True\<rparr>"

text \<open>C29: The dialogue with tools ends: whatever the model answers, it is asked at most three times more
  than the number of rounds that is allowed, and at least one round is.\<close>

theorem tool_dialogue_is_bounded:
  "dl_asked (chat_with_tools W p messages) \<le> nat (max 1 (tl_rounds p)) + 3"
  unfolding chat_with_tools_def
  by (rule order_trans [OF rounds_bounded]) simp



text \<open>C32: A result that ends the dialogue is the last thing that happens: after a call of a terminal tool
  that did not fail no other call is made, and the last thing passed on is a closing text.\<close>

theorem terminal_result_ends_dialogue:
  assumes "(c, Inl r) \<in> set (dl_calls (chat_with_tools W p messages))"
    and "terminal_exit_response_for_tool (ow_lib W) (ow_loads W) (pc_name c) r = Inr (Some e)" "e \<noteq> []"
    and "authoritative_tool_result_response (ow_lib W) (ow_loads W) (pc_name c) r = Inr a"
    and "\<not> tool_result_looks_failed (ow_lib W) r"
  shows "last (dl_calls (chat_with_tools W p messages)) = (c, Inl r)
    \<and> (\<exists>t. last (dl_out (chat_with_tools W p messages)) = Out_Text t)"
  unfolding chat_with_tools_def
  by (rule rounds_terminal [OF _ _ judged_terminal [OF assms(2-5)]]) (use assms(1) in \<open>simp_all add: chat_with_tools_def\<close>)

lemma terminal_result_ends_dialogue_witness:
  "\<exists>t. last (dl_out (chat_with_tools (dancing True) dance_loop [])) = Out_Text t"
proof -
  let ?c = "\<lparr>pc_name = u ''robot_r.dance'', pc_args = UObj []\<rparr>" and ?r = "Object_Result (Some False) None []"
  have "(?c, Inl ?r) \<in> set (dl_calls (chat_with_tools (dancing True) dance_loop []))" by code_simp
  moreover have "terminal_exit_response_for_tool (ow_lib (dancing True)) (ow_loads (dancing True)) (pc_name ?c) ?r
    = Inr (Some ([0x597D, 0x5440, 0xFF0C, 0x6211, 0x5F00, 0x59CB, 0x8DF3, 0x821E,
      0x3002] @ EXIT_TEXT))" by code_simp
  moreover have "[0x597D, 0x5440, 0xFF0C, 0x6211, 0x5F00, 0x59CB, 0x8DF3, 0x821E,
    0x3002] @ EXIT_TEXT \<noteq> []" by simp
  moreover have "authoritative_tool_result_response (ow_lib (dancing True)) (ow_loads (dancing True)) (pc_name ?c) ?r
    = Inr None" by code_simp
  moreover have "\<not> tool_result_looks_failed (ow_lib (dancing True)) ?r" by code_simp
  ultimately show ?thesis by (blast dest: terminal_result_ends_dialogue)
qed

text \<open>Every call that is run was made by the model in one of its answers or is a call, built from the
  words of the user, of a tool that was offered to the model.\<close>

theorem run_calls_are_asked_for:
  assumes "(c, x) \<in> set (dl_calls (chat_with_tools W p messages))"
  shows "made_by_model W c \<or> pc_name c \<in> lt_name ` set (tl_tools p)"
  by (rule rounds_calls [OF assms [unfolded chat_with_tools_def]]) simp

lemma run_calls_are_asked_for_witness:
  "made_by_model (dancing True) \<lparr>pc_name = u ''robot_r.dance'', pc_args = UObj []\<rparr>
    \<or> u ''robot_r.dance'' \<in> lt_name ` set (tl_tools dance_loop)"
proof -
  have "(\<lparr>pc_name = u ''robot_r.dance'', pc_args = UObj []\<rparr>, Inl (Object_Result (Some False) None []))
    \<in> set (dl_calls (chat_with_tools (dancing True) dance_loop []))" by code_simp
  from run_calls_are_asked_for [OF this] show ?thesis by simp
qed

end
