(* ===== verification/Llm_Stream.thy ===== *)
theory Llm_Stream
  imports Tool_Rounds_Facts
begin

text \<open>
  The stream of a provider (\<open>src/llm/llm_client.py\<close>): the fragments of tool calls are put together by
  their index while text is passed on (\<open>_call_llm\<close>, \<open>_async_call_llm\<close>), the hint for a family of models is
  added to the messages (\<open>_chat_messages_for_model\<close>), and a thread hands the stream of a blocking provider
  to the event loop (\<open>stream_call_llm\<close>).
\<close>

subsection \<open>Messages for the model\<close>

definition QWEN3_NO_THINK_HINT :: utext where
  "QWEN3_NO_THINK_HINT = u ''/no_think''"

definition is_qwen3_model :: "pylib \<Rightarrow> utext \<Rightarrow> bool" where
  "is_qwen3_model L model_name = u_in (u ''qwen3'') (u_lower L model_name)"

fun patch_first :: "('a \<Rightarrow> bool) \<Rightarrow> ('a \<Rightarrow> 'a) \<Rightarrow> 'a list \<Rightarrow> 'a list option" where
  \<comment> \<open>a loop that changes the first element with a property and returns\<close>
  "patch_first P f [] = None"
| "patch_first P f (x # xs) = (if P x then Some (f x # xs) else map_option ((#) x) (patch_first P f xs))"

definition chat_messages_for_model :: "pylib \<Rightarrow> chat_message list \<Rightarrow> utext \<Rightarrow> chat_message list" where
  "chat_messages_for_model L messages model_name =
     (if \<not> is_qwen3_model L model_name then messages
      else if list_ex (\<lambda>(_, content). u_in QWEN3_NO_THINK_HINT content) messages then messages
      else case patch_first (\<lambda>(role, _). role = u ''system'')
          (\<lambda>(role, content). (role, u_strip (content @ [10] @ QWEN3_NO_THINK_HINT))) messages of
        Some patched \<Rightarrow> patched
      | None \<Rightarrow>
          (case patch_first (\<lambda>(role, _). role = u ''user'')
              (\<lambda>(role, content). (role, content @ QWEN3_NO_THINK_HINT)) (rev messages) of
             Some patched \<Rightarrow> rev patched
           | None \<Rightarrow> messages @ [(u ''system'', QWEN3_NO_THINK_HINT)]))"

subsection \<open>Fragments\<close>

record call_delta =
  cd_index :: "int option"
  cd_name :: utext
  cd_arguments :: utext

datatype raw_chunk =
    Delta utext "call_delta list"
  | Broken utext
    \<comment> \<open>reading on raises: the connection is lost, or there is no choice in the chunk\<close>

type_synonym call_table = "(int option \<times> (utext \<times> utext)) list"

definition add_delta :: "call_table \<Rightarrow> call_delta \<Rightarrow> call_table" where
  "add_delta acc d =
     (let (name, arguments) = (case map_of acc (cd_index d) of Some e \<Rightarrow> e | None \<Rightarrow> ([], [])) in
      AList.update (cd_index d)
        (if cd_name d \<noteq> [] then cd_name d else name, arguments @ cd_arguments d) acc)"

definition text_chunk :: "utext \<Rightarrow> llm_chunk list" where
  "text_chunk content = (if content = [] then [] else [Llm_Text content])"

definition call_chunks :: "call_table \<Rightarrow> llm_chunk list" where
  "call_chunks acc = map (\<lambda>(_, name, arguments). Llm_Call name (UText arguments)) acc"

fun async_chunks :: "call_table \<Rightarrow> raw_chunk list \<Rightarrow> llm_chunk list" where
  \<comment> \<open>\<open>_async_call_llm\<close>; what was put together before an exception is lost\<close>
  "async_chunks acc [] = call_chunks acc"
| "async_chunks acc (Delta content ds # rs) = text_chunk content @ async_chunks (foldl add_delta acc ds) rs"
| "async_chunks acc (Broken e # rs) = [Llm_Error e]"

fun sync_chunks :: "call_table \<Rightarrow> (bool \<times> raw_chunk) list \<Rightarrow> llm_chunk list" where
  \<comment> \<open>\<open>_call_llm\<close>; each chunk comes with the stop flag at its arrival\<close>
  "sync_chunks acc [] = call_chunks acc"
| "sync_chunks acc ((stopped, Delta content ds) # rs) =
     (if stopped then call_chunks acc
      else text_chunk content @ sync_chunks (foldl add_delta acc ds) rs)"
| "sync_chunks acc ((stopped, Broken e) # rs) = (if stopped then [] else [Llm_Error e])"

definition async_call_llm :: "raw_chunk list + utext \<Rightarrow> llm_chunk list" where
  \<comment> \<open>\<open>Inr\<close>: the request itself failed\<close>
  "async_call_llm response = (case response of Inl rs \<Rightarrow> async_chunks [] rs | Inr e \<Rightarrow> [Llm_Error e])"

definition call_llm :: "bool \<Rightarrow> (bool \<times> raw_chunk) list + bool \<times> utext \<Rightarrow> llm_chunk list" where
  "call_llm stopped response =
     (if stopped then []
      else case response of
        Inl rs \<Rightarrow> sync_chunks [] rs
      | Inr (stopped_now, e) \<Rightarrow> if stopped_now then [] else [Llm_Error e])"

subsection \<open>The thread and the event loop\<close>

datatype producer = Queued | Producing | Ended

datatype bridge_item = Chunk_Item llm_chunk | Raised_Item utext | End_Item

record bridge =
  br_producer :: producer
  br_input :: "bridge_item list" \<comment> \<open>what the thread has still to put\<close>
  br_queue :: "bridge_item list"
  br_stop :: bool
  br_reading :: bool \<comment> \<open>the consumer has not left its loop\<close>
  br_listed :: bool \<comment> \<open>in the table of active streams\<close>

datatype bridge_event =
    Start_Thread
  | Put_Item \<comment> \<open>the event loop runs the put and the thread sees it\<close>
  | Put_Unseen \<comment> \<open>the put is done between the timeout of the thread and its \<open>cancel\<close>\<close>
  | See_Stop
  | Get_Item
  | Leave \<comment> \<open>the consumer is closed\<close>

datatype bridge_reply = Nothing_Yet | Yielded llm_chunk | Finished | Raised utext

definition new_bridge :: "llm_chunk list \<Rightarrow> utext option \<Rightarrow> bridge" where
  "new_bridge chunks raised =
     \<lparr>br_producer = Queued,
      br_input = map Chunk_Item chunks @ (case raised of None \<Rightarrow> [] | Some e \<Rightarrow> [Raised_Item e]) @ [End_Item],
      br_queue = [], br_stop = False, br_reading = True, br_listed = True\<rparr>"

definition leave :: "bridge \<Rightarrow> bridge" where
  \<comment> \<open>the \<open>finally\<close> of the consumer; a thread that has not started is cancelled\<close>
  "leave b = b\<lparr>br_stop := True, br_reading := False,
     br_producer := (if br_producer b = Queued then Ended else br_producer b)\<rparr>"

definition bridge_step :: "nat \<Rightarrow> bridge \<Rightarrow> bridge_event \<Rightarrow> bridge \<times> bridge_reply" where
  "bridge_step maxsize b e =
     (case e of
        Start_Thread \<Rightarrow>
          (if br_producer b = Queued then b\<lparr>br_producer := Producing\<rparr> else b, Nothing_Yet)
      | Put_Item \<Rightarrow>
          (case (br_producer b, br_input b) of
             (Producing, i # rest) \<Rightarrow>
               if br_stop b \<or> length (br_queue b) \<ge> maxsize then (b, Nothing_Yet)
               else
                 (b\<lparr>br_queue := br_queue b @ [i], br_input := rest,
                    br_producer := (if rest = [] then Ended else Producing),
                    br_listed := (if rest = [] then False else br_listed b)\<rparr>, Nothing_Yet)
           | _ \<Rightarrow> (b, Nothing_Yet))
      | Put_Unseen \<Rightarrow>
          (case (br_producer b, br_input b) of
             (Producing, i # rest) \<Rightarrow>
               if br_stop b \<or> length (br_queue b) \<ge> maxsize then (b, Nothing_Yet)
               else (b\<lparr>br_queue := br_queue b @ [i]\<rparr>, Nothing_Yet)
           | _ \<Rightarrow> (b, Nothing_Yet))
      | See_Stop \<Rightarrow>
          (if br_producer b = Producing \<and> br_stop b
           then b\<lparr>br_producer := Ended, br_listed := False\<rparr> else b, Nothing_Yet)
      | Get_Item \<Rightarrow>
          (if \<not> br_reading b then (b, Nothing_Yet)
           else case br_queue b of
             [] \<Rightarrow> (b, Nothing_Yet)
           | i # rest \<Rightarrow>
               (let b1 = b\<lparr>br_queue := rest\<rparr> in
                case i of
                  Chunk_Item c \<Rightarrow> (b1, Yielded c)
                | Raised_Item m \<Rightarrow> (leave b1, Raised m)
                | End_Item \<Rightarrow> (leave b1, Finished)))
      | Leave \<Rightarrow> (if br_reading b then leave b else b, Nothing_Yet))"

end
