(* ===== verification/Llm_Stream_Facts.thy ===== *)
theory Llm_Stream_Facts
  imports Llm_Stream "HOL-Library.Sublist"
begin

text \<open>
  The stream of a provider: tool calls are put together the same way however their arguments are cut,
  the blocking and the asynchronous path agree, the hint reaches the model, and the thread hands the
  stream over in order.
\<close>

subsection \<open>The hint\<close>

lemma u_in_strip:
  assumes "h \<noteq> []" "\<not> u_space (hd h)" "\<not> u_space (last h)"
  shows "u_in h (u_strip (a @ [10] @ h))"
proof -
  have "\<exists>x y. dropWhile u_space (b @ h) = x @ h \<and> y = x" for b
  proof (induction b)
    case Nil
    then show ?case using assms by (cases h) auto
  next
    case (Cons c b)
    then show ?case by (cases "u_space c") auto
  qed
  then obtain x where x: "dropWhile u_space (a @ [10] @ h) = x @ h"
    by (metis append.assoc)
  have "hd (rev h @ rev x) = last h" using assms(1) by (simp add: hd_append hd_rev)
  then have "dropWhile u_space (rev h @ rev x) = rev h @ rev x"
    using assms(3) by (simp add: dropWhile_eq_self_iff)
  then have "u_strip (a @ [10] @ h) = x @ h" unfolding u_strip_def x rev_append by simp
  then show ?thesis by (simp add: u_in_iff) (metis append_Nil2)
qed

lemma patch_first_in:
  "patch_first P f xs = Some ys \<Longrightarrow> \<exists>x \<in> set xs. P x \<and> f x \<in> set ys"
proof (induction xs arbitrary: ys)
  case (Cons x xs)
  then show ?case by (cases "P x") auto
qed simp

lemma patch_first_length: "patch_first P f xs = Some ys \<Longrightarrow> length ys = length xs"
proof (induction xs arbitrary: ys)
  case (Cons x xs)
  then show ?case by (cases "P x") auto
qed simp

text \<open>A model of the family that would think aloud always receives the hint not to, exactly what it
  receives is left alone when the messages are prepared once more, and no message is lost.\<close>

theorem hint_reaches_model:
  assumes "is_qwen3_model L model_name"
  shows "(\<exists>(role, content) \<in> set (chat_messages_for_model L messages model_name). u_in QWEN3_NO_THINK_HINT content)
    \<and> chat_messages_for_model L (chat_messages_for_model L messages model_name) model_name
        = chat_messages_for_model L messages model_name
    \<and> length messages \<le> length (chat_messages_for_model L messages model_name)"
proof -
  let ?hinted = "\<lambda>ms. \<exists>(role, content) \<in> set ms. u_in QWEN3_NO_THINK_HINT content"
  let ?systems = "patch_first (\<lambda>(role, _). role = u ''system'')
    (\<lambda>(role, content). (role, u_strip (content @ [10] @ QWEN3_NO_THINK_HINT))) messages"
  let ?users = "patch_first (\<lambda>(role, _). role = u ''user'')
    (\<lambda>(role, content). (role, content @ QWEN3_NO_THINK_HINT)) (rev messages)"
  have appended: "u_in QWEN3_NO_THINK_HINT (c @ QWEN3_NO_THINK_HINT)" for c
    unfolding u_in_iff by (metis append_Nil2)
  have stripped: "u_in QWEN3_NO_THINK_HINT (u_strip (c @ [10] @ QWEN3_NO_THINK_HINT))" for c
    by (rule u_in_strip) (simp_all add: QWEN3_NO_THINK_HINT_def u_def u_space_def)
  have "?hinted (chat_messages_for_model L messages model_name)
      \<and> length messages \<le> length (chat_messages_for_model L messages model_name)"
  proof (cases "list_ex (\<lambda>(_, content). u_in QWEN3_NO_THINK_HINT content) messages")
    case True
    then show ?thesis using assms by (simp add: chat_messages_for_model_def list_ex_iff)
  next
    case fresh: False
    show ?thesis
    proof (cases ?systems)
      case (Some patched)
      then have eq: "chat_messages_for_model L messages model_name = patched"
        using assms fresh by (simp add: chat_messages_for_model_def)
      show ?thesis unfolding eq using patch_first_in [OF Some] patch_first_length [OF Some] stripped by fastforce
    next
      case None
      show ?thesis
      proof (cases ?users)
        case (Some patched)
        then have eq: "chat_messages_for_model L messages model_name = rev patched"
          using assms fresh None by (simp add: chat_messages_for_model_def)
        show ?thesis unfolding eq using patch_first_in [OF Some] patch_first_length [OF Some] appended by fastforce
      next
        case none: None
        then show ?thesis using assms fresh None by (simp add: chat_messages_for_model_def)
      qed
    qed
  qed
  moreover have "chat_messages_for_model L ms model_name = ms" if "?hinted ms" for ms
    using that by (auto simp: chat_messages_for_model_def list_ex_iff)
  ultimately show ?thesis by blast
qed

lemma hint_reaches_model_witness:
  "(\<exists>(role, content) \<in> set (chat_messages_for_model exact_lib [(u ''user'', u ''hi'')] (u ''qwen3-4b'')).
    u_in QWEN3_NO_THINK_HINT content)"
proof -
  have "is_qwen3_model exact_lib (u ''qwen3-4b'')" by code_simp
  from hint_reaches_model [OF this] show ?thesis by blast
qed

subsection \<open>Putting calls together\<close>

definition indices :: "call_delta list \<Rightarrow> int option list" where
  \<comment> \<open>in the order in which they appear first\<close>
  "indices ds = rev (remdups (rev (map cd_index ds)))"

definition fragments :: "call_delta list \<Rightarrow> int option \<Rightarrow> call_delta list" where
  "fragments ds i = filter (\<lambda>d. cd_index d = i) ds"

definition assembled :: "call_delta list \<Rightarrow> call_table" where
  \<comment> \<open>for every index the last name and all pieces of the arguments\<close>
  "assembled ds =
     map (\<lambda>i. (i, last ([] # filter (\<lambda>n. n \<noteq> []) (map cd_name (fragments ds i))),
                 concat (map cd_arguments (fragments ds i)))) (indices ds)"

lemma update_map:
  "distinct is \<Longrightarrow> AList.update k v (map (\<lambda>i. (i, f i)) is)
    = map (\<lambda>i. (i, if i = k then v else f i)) (if k \<in> set is then is else is @ [k])"
  by (induction "is") auto

lemma indices_snoc:
  "indices (ds @ [d]) = (if cd_index d \<in> set (indices ds) then indices ds else indices ds @ [cd_index d])"
  by (simp add: indices_def)

lemma indices_facts: "distinct (indices ds)" "set (indices ds) = cd_index ` set ds"
  by (simp_all add: indices_def)

lemma no_fragments: "i \<notin> set (indices ds) \<Longrightarrow> fragments ds i = []"
  by (auto simp: indices_facts fragments_def filter_empty_conv)

lemma assembled_lookup:
  "(case map_of (assembled ds) i of Some e \<Rightarrow> e | None \<Rightarrow> ([], []))
    = (last ([] # filter (\<lambda>n. n \<noteq> []) (map cd_name (fragments ds i))), concat (map cd_arguments (fragments ds i)))"
proof (cases "i \<in> set (indices ds)")
  case True
  then show ?thesis by (simp add: assembled_def map_of_map_restrict)
next
  case False
  then show ?thesis by (simp add: assembled_def map_of_map_restrict no_fragments)
qed

lemma assembled_snoc: "add_delta (assembled ds) d = assembled (ds @ [d])"
proof -
  let ?n = "\<lambda>i. last ([] # filter (\<lambda>n. n \<noteq> []) (map cd_name (fragments ds i)))"
  let ?a = "\<lambda>i. concat (map cd_arguments (fragments ds i))"
  have frag: "fragments (ds @ [d]) i = (if i = cd_index d then fragments ds i @ [d] else fragments ds i)" for i
    by (simp add: fragments_def)
  have "add_delta (assembled ds) d = AList.update (cd_index d)
      (if cd_name d \<noteq> [] then cd_name d else ?n (cd_index d), ?a (cd_index d) @ cd_arguments d)
      (map (\<lambda>i. (i, ?n i, ?a i)) (indices ds))"
    by (simp only: add_delta_def assembled_lookup Let_def prod.case) (simp only: assembled_def)
  also have "\<dots> = map (\<lambda>i. (i, if i = cd_index d
      then (if cd_name d \<noteq> [] then cd_name d else ?n (cd_index d), ?a (cd_index d) @ cd_arguments d)
      else (?n i, ?a i))) (indices (ds @ [d]))"
    by (simp only: update_map [OF indices_facts(1)] indices_snoc)
  also have "\<dots> = assembled (ds @ [d])"
    unfolding assembled_def by (rule map_cong [OF refl]) (simp add: frag)
  finally show ?thesis .
qed

lemma foldl_add_delta: "foldl add_delta [] ds = assembled ds"
proof (induction ds rule: rev_induct)
  case Nil
  show ?case by (simp add: assembled_def indices_def)
next
  case (snoc d ds)
  then show ?case by (simp add: assembled_snoc)
qed

lemma async_delta_chunks:
  "async_chunks acc (map (\<lambda>(c, ds). Delta c ds) parts)
    = concat (map (\<lambda>(c, _). text_chunk c) parts) @ call_chunks (foldl add_delta acc (concat (map snd parts)))"
proof (induction parts arbitrary: acc)
  case (Cons p parts)
  then show ?case by (cases p) simp
qed simp

text \<open>What is read from a stream that ends well is its text, piece by piece, and then for every index of
  a tool call, in the order in which they appear first, one call with the last name and all the pieces of
  its arguments.\<close>

theorem stream_is_assembled:
  "async_call_llm (Inl (map (\<lambda>(c, ds). Delta c ds) parts))
    = concat (map (\<lambda>(c, _). text_chunk c) parts) @ call_chunks (assembled (concat (map snd parts)))"
  by (simp add: async_call_llm_def async_delta_chunks foldl_add_delta)

lemma sync_async_chunks: "sync_chunks acc (map (Pair False) rs) = async_chunks acc rs"
proof (induction rs arbitrary: acc)
  case (Cons r rs)
  then show ?case by (cases r) simp_all
qed simp

lemma sync_is_async: "call_llm False (Inl (map (Pair False) rs)) = async_call_llm (Inl rs)"
  by (simp add: call_llm_def async_call_llm_def sync_async_chunks)

subsection \<open>The thread and the event loop\<close>

definition reply_of :: "bridge_item \<Rightarrow> bridge_reply" where
  "reply_of i = (case i of Chunk_Item c \<Rightarrow> Yielded c | Raised_Item m \<Rightarrow> Raised m | End_Item \<Rightarrow> Finished)"

definition heard :: "bridge_reply list \<Rightarrow> bridge_reply list" where
  "heard rs = filter (\<lambda>r. r \<noteq> Nothing_Yet) rs"

definition handed_over :: "nat \<Rightarrow> bridge_reply list \<Rightarrow> bridge \<Rightarrow> bridge_reply list \<Rightarrow> bool" where
  "handed_over maxsize whole b rs \<longleftrightarrow>
     heard rs @ map reply_of (br_queue b) @ map reply_of (br_input b) = whole
     \<and> length (br_queue b) \<le> maxsize"

lemma reply_of_not_nothing [simp]: "reply_of i \<noteq> Nothing_Yet"
  by (cases i) (simp_all add: reply_of_def)

lemma leave_frame [simp]: "br_queue (leave b) = br_queue b" "br_input (leave b) = br_input b"
  "br_listed (leave b) = br_listed b"
  by (simp_all add: leave_def)

lemma bridge_step_handed_over:
  assumes "handed_over maxsize whole b rs" "e \<noteq> Put_Unseen"
  shows "handed_over maxsize whole (fst (bridge_step maxsize b e)) (rs @ [snd (bridge_step maxsize b e)])"
proof (cases e)
  case Get_Item
  show ?thesis
  proof (cases "br_queue b")
    case (Cons i rest)
    then show ?thesis using assms(1) Get_Item
      by (cases i) (auto simp: bridge_step_def handed_over_def heard_def reply_of_def leave_def Let_def)
  qed (use assms(1) Get_Item in \<open>auto simp: bridge_step_def handed_over_def heard_def\<close>)
next
  case Put_Item
  show ?thesis
  proof (cases "br_input b")
    case (Cons i rest)
    then show ?thesis using assms(1) Put_Item
      by (cases "br_producer b") (auto simp: bridge_step_def handed_over_def heard_def)
  qed (use assms(1) Put_Item in \<open>auto simp: bridge_step_def handed_over_def heard_def split: producer.splits\<close>)
qed (use assms in \<open>auto simp: bridge_step_def handed_over_def heard_def leave_def\<close>)

interpretation bridges: observed_system "bridge_step maxsize" "handed_over maxsize whole" "\<lambda>e. e \<noteq> Put_Unseen"
  "\<lambda>rs _ r. rs @ [r]" for maxsize whole
  by unfold_locales (rule bridge_step_handed_over)

definition bridge_runs :: "nat \<Rightarrow> llm_chunk list \<Rightarrow> utext option \<Rightarrow> bridge_event list \<Rightarrow> bridge" where
  "bridge_runs maxsize chunks raised es = run_state (bridge_step maxsize) (new_bridge chunks raised) es"

definition bridge_says :: "nat \<Rightarrow> llm_chunk list \<Rightarrow> utext option \<Rightarrow> bridge_event list \<Rightarrow> bridge_reply list" where
  "bridge_says maxsize chunks raised es = heard (run_replies (bridge_step maxsize) (new_bridge chunks raised) es)"

definition whole_answer :: "llm_chunk list \<Rightarrow> utext option \<Rightarrow> bridge_reply list" where
  "whole_answer chunks raised =
     map Yielded chunks @ (case raised of None \<Rightarrow> [] | Some m \<Rightarrow> [Raised m]) @ [Finished]"

lemma bridge_inv:
  assumes "Put_Unseen \<notin> set es"
  shows "handed_over maxsize (whole_answer chunks raised) (bridge_runs maxsize chunks raised es)
    (run_replies (bridge_step maxsize) (new_bridge chunks raised) es)"
proof -
  have "handed_over maxsize (whole_answer chunks raised) (new_bridge chunks raised) []"
    by (cases raised) (simp_all add: handed_over_def heard_def new_bridge_def whole_answer_def reply_of_def)
  from bridges.inv_run_log [OF this, of es] show ?thesis
    using assms by (simp add: foldl_snoc_replies bridge_runs_def) (metis)
qed



text \<open>The gap in the premise is real: such a put is repeated by the thread.\<close>

lemma unseen_put_repeats:
  "bridge_says 2 [Llm_Text (u ''a'')] None [Start_Thread, Put_Unseen, Put_Item, Get_Item, Get_Item]
    = [Yielded (Llm_Text (u ''a'')), Yielded (Llm_Text (u ''a''))]"
  by (simp add: bridge_says_def heard_def run.simps new_bridge_def bridge_step_def)

text \<open>A reader that leaves before its thread has started leaves an entry in the table of active streams that
  nothing removes.\<close>

lemma stays_listed:
  assumes "br_producer b = Ended" "br_listed b"
  shows "br_producer (run_state (bridge_step maxsize) b es) = Ended \<and> br_listed (run_state (bridge_step maxsize) b es)"
  using assms
proof (induction es arbitrary: b)
  case (Cons e es)
  have "br_producer (fst (bridge_step maxsize b e)) = Ended \<and> br_listed (fst (bridge_step maxsize b e))"
    using Cons.prems by (cases e) (auto simp: bridge_step_def leave_def Let_def split: list.split bridge_item.split)
  then show ?case using Cons.IH by (simp add: run_simps)
qed simp

lemma abandoned_stream_stays_listed: "br_listed (bridge_runs maxsize chunks raised (Leave # es))"
proof -
  have "br_producer (leave (new_bridge chunks raised)) = Ended" "br_listed (leave (new_bridge chunks raised))"
    by (simp_all add: leave_def new_bridge_def)
  moreover have "fst (bridge_step maxsize (new_bridge chunks raised) Leave) = leave (new_bridge chunks raised)"
    by (simp add: bridge_step_def new_bridge_def)
  ultimately show ?thesis using stays_listed by (simp add: bridge_runs_def run_simps)
qed

end
