(* ===== verification/Opus_Stream.thy ===== *)
theory Opus_Stream
  imports Audio_Frame Playback_Report
begin

text \<open>
  Streams of Opus packets (\<open>src/gateway/opus_audio.py\<close>): the compact format in which packets travel, and
  the assembler that collects the chunks of an utterance into one request.  A message of the client is
  the dictionary of its fields and, if it came in a binary frame, its bytes.  \<open>flt\<close> is \<open>float()\<close> of a text.
\<close>

subsection \<open>The packet format\<close>

definition OPUS_PACKET_STREAM_MAGIC :: bytes where
  "OPUS_PACKET_STREAM_MAGIC = map (\<lambda>c. of_nat (of_char c)) ''OPUSRAW1''"

definition to_bytes2 :: "nat \<Rightarrow> bytes" where
  "to_bytes2 n = [of_nat (n div 256), of_nat n]"

abbreviation audio_refused :: "string \<Rightarrow> frame_error + 'a" where
  "audio_refused code \<equiv> Inl (AudioValidationError code)"

function parse_packets :: "bytes \<Rightarrow> frame_error + bytes list" where
  \<comment> \<open>the loop of \<open>parse_opus_packet_stream\<close> from an offset\<close>
  "parse_packets [] = Inr []"
| "parse_packets [x] = audio_refused ''INVALID_AUDIO_DATA''"
| "parse_packets (x # y # rest) =
     (let packet_len = from_bytes [x, y] in
      if packet_len = 0 then audio_refused ''INVALID_AUDIO_DATA''
      else if length rest < packet_len then audio_refused ''INVALID_AUDIO_DATA''
      else and_then (parse_packets (drop packet_len rest)) (\<lambda>packets. Inr (take packet_len rest # packets)))"
  by pat_completeness auto
termination by (relation "measure length") simp_all

definition parse_opus_packet_stream :: "bytes \<Rightarrow> frame_error + bytes list" where
  "parse_opus_packet_stream raw =
     (if take (length OPUS_PACKET_STREAM_MAGIC) raw \<noteq> OPUS_PACKET_STREAM_MAGIC
      then audio_refused ''INVALID_AUDIO_DATA''
      else and_then (parse_packets (drop (length OPUS_PACKET_STREAM_MAGIC) raw)) (\<lambda>packets.
        if packets = [] then audio_refused ''INVALID_AUDIO_DATA'' else Inr packets))"

fun packet_bytes :: "bytes list \<Rightarrow> frame_error + bytes" where
  "packet_bytes [] = Inr []"
| "packet_bytes (p # ps) =
     (if p = [] then audio_refused ''INVALID_AUDIO_DATA''
      else if length p > 65535 then audio_refused ''INVALID_AUDIO_DATA''
      else and_then (packet_bytes ps) (\<lambda>rest. Inr (to_bytes2 (length p) @ p @ rest)))"

definition build_opus_packet_stream :: "bytes list \<Rightarrow> frame_error + bytes" where
  "build_opus_packet_stream packets =
     (if packets = [] then audio_refused ''INVALID_AUDIO_DATA''
      else and_then (packet_bytes packets) (\<lambda>body. Inr (OPUS_PACKET_STREAM_MAGIC @ body)))"

subsection \<open>The assembler\<close>

record audio_limits =
  al_sample_rate :: int
  al_channels :: int
  al_max_bytes :: nat
  al_max_chunks :: nat

definition OPUS_DEFAULT_FRAME_MS :: int where "OPUS_DEFAULT_FRAME_MS = 20"

record ws_message =
  wm_fields :: jobj
  wm_bytes :: "bytes option"

record assembler =
  as_utterance_id :: string
  as_bot_id :: json
  as_sample_rate :: int
  as_channels :: int
  as_frame_ms :: int
  as_expected :: int
  as_chunks :: nat
  as_source_bytes :: nat
  as_duration :: rat
  as_packets :: "bytes list"

definition json_or :: "json \<Rightarrow> json \<Rightarrow> json" where
  \<comment> \<open>\<open>a or b\<close>\<close>
  "json_or a b = (if truthy a then a else b)"

definition stripped_text :: "(json \<Rightarrow> string) \<Rightarrow> jobj \<Rightarrow> string \<Rightarrow> string" where
  \<comment> \<open>\<open>str(data.get(k) or "").strip()\<close>\<close>
  "stripped_text repr data k = py_strip (py_str repr (json_or (jget data k) (JStr [])))"

definition audio_stream_utterance_id :: "(json \<Rightarrow> string) \<Rightarrow> jobj \<Rightarrow> string" where
  "audio_stream_utterance_id repr data = stripped_text repr data ''utterance_id''"

definition new_assembler :: "(json \<Rightarrow> string) \<Rightarrow> audio_limits \<Rightarrow> jobj \<Rightarrow> frame_error + assembler" where
  "new_assembler repr bounds start =
     (let utterance_id = stripped_text repr start ''utterance_id'';
          sample_rate = header_int (jget start ''sample_rate'') (al_sample_rate bounds);
          channels = header_int (jget start ''channels'') (al_channels bounds);
          frame_ms = header_int (jget start ''opus_frame_ms'') OPUS_DEFAULT_FRAME_MS in
      if utterance_id = [] then audio_refused ''INVALID_AUDIO_STREAM''
      else if sample_rate \<noteq> al_sample_rate bounds then audio_refused ''UNSUPPORTED_AUDIO_FORMAT''
      else if channels \<noteq> al_channels bounds then audio_refused ''UNSUPPORTED_AUDIO_FORMAT''
      else if frame_ms \<noteq> OPUS_DEFAULT_FRAME_MS then audio_refused ''UNSUPPORTED_AUDIO_FORMAT''
      else Inr \<lparr>as_utterance_id = utterance_id, as_bot_id = jget start ''bot_id'', as_sample_rate = sample_rate,
        as_channels = channels, as_frame_ms = frame_ms, as_expected = 1, as_chunks = 0, as_source_bytes = 0,
        as_duration = 0, as_packets = []\<rparr>)"

definition given_duration :: "(string \<Rightarrow> rat option) \<Rightarrow> jobj \<Rightarrow> rat option" where
  \<comment> \<open>\<open>float(data.get("duration_ms") or 0.0)\<close>; \<open>None\<close>: it raised\<close>
  "given_duration flt data = py_float flt (json_or (jget data ''duration_ms'') (JFloat 0))"

definition append_chunk ::
  "(string \<Rightarrow> rat option) \<Rightarrow> audio_limits \<Rightarrow> assembler \<Rightarrow> ws_message \<Rightarrow> frame_error + assembler" where
  \<comment> \<open>an assembler that refused a chunk is thrown away by its caller\<close>
  "append_chunk flt bounds a m =
     (let data = wm_fields m;
          chunk_seq = header_int (json_or (jget data ''chunk_seq'') (jget data ''seq'')) (as_expected a) in
      if jget data ''utterance_id'' \<noteq> JStr (as_utterance_id a) then audio_refused ''INVALID_AUDIO_STREAM''
      else if chunk_seq \<noteq> as_expected a then audio_refused ''INVALID_AUDIO_STREAM''
      else case wm_bytes m of
        None \<Rightarrow> audio_refused ''INVALID_AUDIO_STREAM''
      | Some payload \<Rightarrow>
          and_then (parse_opus_packet_stream payload) (\<lambda>packets.
            if as_chunks a + 1 > al_max_chunks bounds then audio_refused ''AUDIO_TOO_LARGE''
            else if as_source_bytes a + length payload > al_max_bytes bounds then audio_refused ''AUDIO_TOO_LARGE''
            else Inr (a\<lparr>as_packets := as_packets a @ packets, as_chunks := as_chunks a + 1,
              as_expected := as_expected a + 1, as_source_bytes := as_source_bytes a + length payload,
              as_duration := as_duration a +
                (case given_duration flt data of Some d \<Rightarrow> max 0 d | None \<Rightarrow> 0)\<rparr>)))"

definition finish_stream ::
  "(string \<Rightarrow> rat option) \<Rightarrow> assembler \<Rightarrow> seconds \<Rightarrow> jobj \<Rightarrow> frame_error + ws_message" where
  \<comment> \<open>\<open>elapsed_ms\<close>: the rounded time since the start\<close>
  "finish_stream flt a elapsed_ms data =
     (if jget data ''utterance_id'' \<noteq> JStr (as_utterance_id a) then audio_refused ''INVALID_AUDIO_STREAM''
      else if as_packets a = [] then audio_refused ''INVALID_AUDIO_STREAM''
      else
        let duration_ms = (case given_duration flt data of
              Some d \<Rightarrow> if d > 0 then d else as_duration a | None \<Rightarrow> as_duration a) in
        and_then (build_opus_packet_stream (as_packets a)) (\<lambda>payload.
          Inr \<lparr>wm_fields =
            [(''type'', JStr ''audio''), (''audio_encoding'', JStr ''opus''), (''audio_transport'', JStr ''binary_stream''),
             (''bot_id'', json_or (jget data ''bot_id'') (as_bot_id a)), (''utterance_id'', JStr (as_utterance_id a)),
             (''duration_ms'', JFloat duration_ms), (''sample_rate'', JInt (as_sample_rate a)),
             (''channels'', JInt (as_channels a)), (''opus_frame_ms'', JInt (as_frame_ms a)),
             (''packet_count'', JInt (int (length (as_packets a)))), (''stream_chunk_count'', JInt (int (as_chunks a))),
             (''stream_source_audio_bytes'', JInt (int (as_source_bytes a))), (''stream_elapsed_ms'', JFloat elapsed_ms)],
            wm_bytes = Some payload\<rparr>))"

subsection \<open>Packets come back\<close>

lemma from_to_bytes2:
  assumes "n \<le> 65535" shows "from_bytes (to_bytes2 n) = n"
proof -
  have "n div 256 < 256" using assms by (simp add: less_mult_imp_div_less)
  then show ?thesis by (simp add: from_bytes_def to_bytes2_def unat_of_nat)
qed

lemma parse_packet_bytes: "packet_bytes ps = Inr body \<Longrightarrow> parse_packets body = Inr ps"
proof (induction ps arbitrary: body)
  case (Cons p ps)
  then obtain rest where p: "p \<noteq> []" "length p \<le> 65535" and rest: "packet_bytes ps = Inr rest"
    and body: "body = to_bytes2 (length p) @ p @ rest"
    by (auto simp: and_then_Inr_iff split: if_splits)
  have "parse_packets rest = Inr ps" by (rule Cons.IH [OF rest])
  moreover have "from_bytes [of_nat (length p div 256), of_nat (length p)] = length p"
    using from_to_bytes2 [OF p(2)] by (simp add: to_bytes2_def)
  ultimately show ?case using p by (simp add: body to_bytes2_def Let_def)
qed simp

lemma build_then_parse:
  assumes "build_opus_packet_stream ps = Inr raw"
  shows "parse_opus_packet_stream raw = Inr ps"
proof -
  obtain body where "ps \<noteq> []" "packet_bytes ps = Inr body" "raw = OPUS_PACKET_STREAM_MAGIC @ body"
    using assms by (auto simp: build_opus_packet_stream_def and_then_Inr_iff split: if_splits)
  then show ?thesis using parse_packet_bytes [of ps body] by (simp add: parse_opus_packet_stream_def)
qed

lemma packet_bytes_ok:
  "\<forall>p \<in> set ps. p \<noteq> [] \<and> length p \<le> 65535 \<Longrightarrow> \<exists>body. packet_bytes ps = Inr body"
  by (induction ps) (auto simp: not_less)

text \<open>A list of packets that is not empty, each of 1 to 65535 bytes, can be written as a stream, and
  reading the stream gives the packets back.\<close>

theorem opus_packets_roundtrip:
  assumes "ps \<noteq> []" and "\<forall>p \<in> set ps. p \<noteq> [] \<and> length p \<le> 65535"
  shows "\<exists>raw. build_opus_packet_stream ps = Inr raw \<and> parse_opus_packet_stream raw = Inr ps"
proof -
  obtain body where body: "packet_bytes ps = Inr body" using packet_bytes_ok [OF assms(2)] by blast
  then have "build_opus_packet_stream ps = Inr (OPUS_PACKET_STREAM_MAGIC @ body)"
    using assms(1) by (simp add: build_opus_packet_stream_def)
  then show ?thesis using build_then_parse by blast
qed

lemma opus_packets_roundtrip_witness:
  "\<exists>raw. build_opus_packet_stream [[1], [2, 3]] = Inr raw \<and> parse_opus_packet_stream raw = Inr [[1], [2, 3]]"
  by (rule opus_packets_roundtrip) simp_all

lemma parsed_packets_sound:
  "parse_packets raw = Inr ps \<Longrightarrow> \<forall>p \<in> set ps. p \<noteq> [] \<and> length p \<le> 65535"
proof (induction raw arbitrary: ps rule: parse_packets.induct)
  case (3 x y rest)
  let ?n = "from_bytes [x, y]"
  have n: "?n \<le> 65535" using from_bytes_bound [of "[x, y]"] by simp
  obtain qs where "?n \<noteq> 0" "?n \<le> length rest" "parse_packets (drop ?n rest) = Inr qs" "ps = take ?n rest # qs"
    using "3.prems" by (auto simp: Let_def and_then_Inr_iff split: if_splits)
  then show ?case using "3.IH" [OF refl] n by auto
qed simp_all

subsection \<open>What is assembled\<close>

fun append_chunks ::
  "(string \<Rightarrow> rat option) \<Rightarrow> audio_limits \<Rightarrow> assembler \<Rightarrow> ws_message list \<Rightarrow> frame_error + assembler" where
  "append_chunks flt bounds a [] = Inr a"
| "append_chunks flt bounds a (m # ms) =
     and_then (append_chunk flt bounds a m) (\<lambda>a1. append_chunks flt bounds a1 ms)"

definition assembler_ok :: "audio_limits \<Rightarrow> assembler \<Rightarrow> bool" where
  "assembler_ok bounds a \<longleftrightarrow>
     as_expected a = int (as_chunks a) + 1 \<and> as_chunks a \<le> al_max_chunks bounds
     \<and> as_source_bytes a \<le> al_max_bytes bounds
     \<and> (\<forall>p \<in> set (as_packets a). p \<noteq> [] \<and> length p \<le> 65535)"

lemma parse_opus_sound:
  assumes "parse_opus_packet_stream raw = Inr ps"
  shows "ps \<noteq> [] \<and> (\<forall>p \<in> set ps. p \<noteq> [] \<and> length p \<le> 65535)"
  using assms parsed_packets_sound
  by (auto simp: parse_opus_packet_stream_def and_then_Inr_iff split: if_splits)

lemma new_assembler_ok:
  "new_assembler repr bounds start = Inr a \<Longrightarrow> assembler_ok bounds a \<and> as_packets a = []"
  by (auto simp: new_assembler_def assembler_ok_def Let_def split: if_splits)

lemma append_chunkD:
  assumes "append_chunk flt bounds a m = Inr b"
  obtains payload packets where "wm_bytes m = Some payload" "parse_opus_packet_stream payload = Inr packets"
    "as_packets b = as_packets a @ packets" "as_utterance_id b = as_utterance_id a"
    "assembler_ok bounds a \<Longrightarrow> assembler_ok bounds b"
proof -
  obtain payload where payload: "wm_bytes m = Some payload"
    using assms by (auto simp: append_chunk_def Let_def split: if_splits option.splits)
  then obtain packets where packets: "parse_opus_packet_stream payload = Inr packets"
    using assms by (auto simp: append_chunk_def Let_def and_then_Inr_iff split: if_splits)
  have b: "as_chunks a + 1 \<le> al_max_chunks bounds" "as_source_bytes a + length payload \<le> al_max_bytes bounds"
    "as_packets b = as_packets a @ packets" "as_utterance_id b = as_utterance_id a" "as_chunks b = as_chunks a + 1"
    "as_expected b = as_expected a + 1" "as_source_bytes b = as_source_bytes a + length payload"
    using assms payload packets by (auto simp: append_chunk_def Let_def split: if_splits)
  have "assembler_ok bounds b" if "assembler_ok bounds a"
    using that b parse_opus_sound [OF packets] by (auto simp: assembler_ok_def)
  with b show ?thesis using that payload packets by blast
qed

lemma append_chunksD:
  assumes "append_chunks flt bounds a ms = Inr b" "assembler_ok bounds a"
  shows "assembler_ok bounds b \<and> as_utterance_id b = as_utterance_id a
    \<and> (\<exists>pss. list_all2 (\<lambda>m ps. \<exists>raw. wm_bytes m = Some raw \<and> parse_opus_packet_stream raw = Inr ps) ms pss
        \<and> as_packets b = as_packets a @ concat pss)"
  using assms
proof (induction ms arbitrary: a)
  case (Cons m ms)
  then obtain c where c: "append_chunk flt bounds a m = Inr c" "append_chunks flt bounds c ms = Inr b"
    by (auto simp: and_then_Inr_iff)
  obtain payload packets where step: "wm_bytes m = Some payload" "parse_opus_packet_stream payload = Inr packets"
    "as_packets c = as_packets a @ packets" "as_utterance_id c = as_utterance_id a" "assembler_ok bounds c"
    using append_chunkD [OF c(1)] Cons.prems(2) by metis
  from Cons.IH [OF c(2) step(5)] obtain pss where
    "list_all2 (\<lambda>m ps. \<exists>raw. wm_bytes m = Some raw \<and> parse_opus_packet_stream raw = Inr ps) ms pss"
    "as_packets b = as_packets c @ concat pss" "assembler_ok bounds b" "as_utterance_id b = as_utterance_id c" by blast
  then show ?case using step by (intro conjI exI [of _ "packets # pss"]) auto
qed auto


definition sample_bounds :: audio_limits where
  "sample_bounds = \<lparr>al_sample_rate = 16000, al_channels = 1, al_max_bytes = 100, al_max_chunks = 4\<rparr>"

definition sample_chunk :: ws_message where
  "sample_chunk = \<lparr>wm_fields = [(''utterance_id'', JStr ''u'')], wm_bytes = Some (OPUS_PACKET_STREAM_MAGIC @ [0, 1, 7])\<rparr>"


end
