(* ===== verification/Turn_Probe.thy ===== *)
theory Turn_Probe
  imports Turn_Gate Opus_Stream Session_Manager_Facts Regular_Texts
begin

text \<open>
  Questions of the client about speech that it has not committed: is this a natural interruption
  (\<open>src/gateway/barge_in.py\<close> and \<open>_handle_barge_in_probe_message\<close> of \<open>src/gateway/gateway_server.py\<close>), and would
  the turn end here (\<open>_handle_turn_candidate_shadow_message\<close>).  Both await the recognition of speech and the
  models, whose answers are arguments.
\<close>

subsection \<open>Interruptions\<close>

definition BARGE_IN_MARKS :: utext where
  "BARGE_IN_MARKS = [0xFF0C, 0x3002, 0xFF01, 0xFF1F, 0x3001, 0x2C, 0x2E, 0x21, 0x3F, 0x7E,
    0xFF5E, 0x2026]"

definition normalize_barge_in_text :: "pylib \<Rightarrow> utext \<Rightarrow> utext" where
  "normalize_barge_in_text L t =
     filter (\<lambda>c. \<not> u_space c \<and> c \<notin> set BARGE_IN_MARKS) (u_lower L (u_strip t))"

definition IGNORE_PHRASES :: "utext list" where
  \<comment> \<open>yes, right, good, go on, I see, thank you\<close>
  "IGNORE_PHRASES =
     [[0x55EF], [0x55EF, 0x55EF], [0x5BF9], [0x5BF9, 0x7684], [0x597D, 0x7684], [0x597D],
       [0x884C], [0x53EF, 0x4EE5], [0x7EE7, 0x7EED], [0x4F60, 0x7EE7, 0x7EED], [0x6CA1, 0x4E8B],
       [0x77E5, 0x9053, 0x4E86], [0x660E, 0x767D, 0x4E86], [0x8C22, 0x8C22],
      [0x8C22, 0x8C22, 0x4F60]]"

definition STOP_WORDS :: "utext list" where
  \<comment> \<open>stop, do not say, be silent\<close>
  "STOP_WORDS =
     [[0x505C], [0x505C, 0x4E0B], [0x505C, 0x6B62], [0x505C, 0x4E00, 0x4E0B], [0x522B, 0x8BF4],
       [0x522B, 0x8BF4, 0x4E86], [0x4E0D, 0x8981, 0x8BF4], [0x4E0D, 0x8981, 0x8BF4, 0x4E86],
       [0x4E0D, 0x7528, 0x8BF4], [0x4E0D, 0x7528, 0x8BF4, 0x4E86], [0x522B, 0x8BB2], [0x522B,
       0x8BB2, 0x4E86],
      [0x4E0D, 0x8981, 0x8BB2], [0x4E0D, 0x8981, 0x8BB2, 0x4E86], [0x95ED, 0x5634], [0x5B89,
        0x9759]]"

definition PARTICLES :: utext where
  "PARTICLES = [0x5427, 0x554A, 0x5440, 0x5566, 0x4E86]"

definition INTERRUPT_RX :: rx where
  "INTERRUPT_RX = Rx_Then (rx_words STOP_WORDS) (Rx_Span (\<lambda>c. c \<in> set PARTICLES) 0 None)"

record barge_in_decision =
  bi_decision :: string
  bi_text :: utext
  bi_reason :: string

definition decide_barge_in :: "pylib \<Rightarrow> utext \<Rightarrow> bool \<Rightarrow> barge_in_decision" where
  "decide_barge_in L t asr_ok =
     (let normalized = normalize_barge_in_text L t in
      if \<not> asr_ok then \<lparr>bi_decision = ''ignore'', bi_text = normalized, bi_reason = ''asr_unavailable''\<rparr>
      else if normalized = [] then \<lparr>bi_decision = ''ignore'', bi_text = [], bi_reason = ''asr_empty''\<rparr>
      else if normalized \<in> set IGNORE_PHRASES
      then \<lparr>bi_decision = ''ignore'', bi_text = normalized, bi_reason = ''backchannel''\<rparr>
      else if length normalized \<in> set (rx_ends INTERRUPT_RX normalized 0)
      then \<lparr>bi_decision = ''interrupt'', bi_text = normalized, bi_reason = ''explicit_stop''\<rparr>
      else \<lparr>bi_decision = ''new_intent'', bi_text = normalized, bi_reason = ''meaningful_speech''\<rparr>)"

text \<open>Speech interrupts an answer without starting a request of its own exactly when, without marks and blanks,
  it is one of the words for stopping followed by particles and none of the words of agreement.\<close>

theorem interrupts_iff_stop_words:
  "bi_decision (decide_barge_in L t True) = ''interrupt'' \<longleftrightarrow>
    (\<exists>w \<in> set STOP_WORDS. \<exists>ps. set ps \<subseteq> set PARTICLES \<and> normalize_barge_in_text L t = w @ ps)"
proof -
  let ?n = "normalize_barge_in_text L t"
  have matches: "length ?n \<in> set (rx_ends INTERRUPT_RX ?n 0) \<longleftrightarrow>
      (\<exists>w \<in> set STOP_WORDS. \<exists>ps. set ps \<subseteq> set PARTICLES \<and> ?n = w @ ps)" (is "?l \<longleftrightarrow> ?r")
  proof
    assume ?l
    then obtain j where j: "rx_match (rx_words STOP_WORDS) ?n 0 j"
      and span: "rx_match (Rx_Span (\<lambda>c. c \<in> set PARTICLES) 0 None) ?n j (length ?n)"
      unfolding rx_ends_iff INTERRUPT_RX_def rx_match_simps(2) by blast
    from j obtain w where w: "w \<in> set STOP_WORDS" "u_starts ?n w" "j = length w"
      unfolding rx_words_match by auto
    obtain ps where ps: "?n = w @ ps" using w(2) by (auto simp: u_starts_iff)
    from span obtain n where n: "length ?n = length w + n" "\<forall>k < n. ?n ! (length w + k) \<in> set PARTICLES"
      unfolding rx_match_simps(5) w(3) by blast
    have "c \<in> set PARTICLES" if "c \<in> set ps" for c
    proof -
      obtain k where "k < length ps" "ps ! k = c" using \<open>c \<in> set ps\<close> by (metis in_set_conv_nth)
      then show ?thesis using n unfolding ps by (metis add_left_cancel length_append nth_append_length_plus)
    qed
    then show ?r using w(1) ps by blast
  next
    assume ?r
    then obtain w ps where w: "w \<in> set STOP_WORDS" "set ps \<subseteq> set PARTICLES" "?n = w @ ps" by blast
    have "\<forall>k < length ps. ?n ! (length w + k) \<in> set PARTICLES" using w(2) by (simp add: w(3) subset_iff)
    then have "rx_match (Rx_Span (\<lambda>c. c \<in> set PARTICLES) 0 None) ?n (length w) (length ?n)"
      unfolding rx_match_simps(5) by (intro exI [of _ "length ps"]) (simp add: w(3))
    moreover have "rx_match (rx_words STOP_WORDS) ?n 0 (length w)"
      using w(1) by (auto simp: rx_words_match u_starts_iff w(3))
    ultimately show ?l unfolding rx_ends_iff INTERRUPT_RX_def rx_match_simps(2) by blast
  qed
  have no_clash: "\<forall>w \<in> set STOP_WORDS. \<forall>g \<in> set IGNORE_PHRASES. \<not> u_starts g w" by code_simp
  have words: "\<forall>w \<in> set STOP_WORDS. w \<noteq> []" by code_simp
  then have other: "?n \<notin> set IGNORE_PHRASES \<and> ?n \<noteq> []" if "?r"
    using that no_clash by (auto simp: u_starts_iff)
  show ?thesis
  proof (cases ?r)
    case True
    then have "length ?n \<in> set (rx_ends INTERRUPT_RX ?n 0)" using matches by simp
    then show ?thesis using other [OF True] True by (simp add: decide_barge_in_def Let_def)
  next
    case False
    then have "length ?n \<notin> set (rx_ends INTERRUPT_RX ?n 0)" using matches by simp
    moreover have "?n = [] \<longrightarrow> [] \<notin> set STOP_WORDS" using words by auto
    ultimately show ?thesis using False by (simp add: decide_barge_in_def Let_def)
  qed
qed

subsection \<open>Probes\<close>

record gateway_flags =
  gf_required :: bool \<comment> \<open>\<open>ROBOT_SECRET_REQUIRED\<close>\<close>
  gf_barge_in :: bool
  gf_active :: bool
  gf_shadow :: bool
  gf_models :: bool
  gf_interrupts :: bool
  gf_rtc :: bool
  gf_workflows :: bool

datatype 'a outcome = Ok_Outcome 'a | Audio_Rejected string | Failed_Outcome
  \<comment> \<open>of decoding and recognition\<close>

definition int_or_zero_of :: "jobj \<Rightarrow> string \<Rightarrow> py_exn + int" where
  \<comment> \<open>\<open>int(data.get(k) or 0)\<close>\<close>
  "int_or_zero_of data k = py_int (json_or (jget data k) (JInt 0))"

definition barge_in_counters :: "jobj \<Rightarrow> int \<times> int \<times> int" where
  "barge_in_counters data =
     (case (int_or_zero_of data ''candidate_seq'', int_or_zero_of data ''speech_epoch'',
            int_or_zero_of data ''audio_watermark'') of
        (Inr a, Inr b, Inr c) \<Rightarrow> (a, b, c)
      | _ \<Rightarrow> (0, 0, 0))"

definition barge_in_refusal :: "(json \<Rightarrow> string) \<Rightarrow> gateway_flags \<Rightarrow> bool \<Rightarrow> jobj \<Rightarrow> string option" where
  \<comment> \<open>the code of the error, if the probe is refused before speech is recognised\<close>
  "barge_in_refusal repr G registered data =
     (let (candidate_seq, speech_epoch, audio_watermark) = barge_in_counters data in
      if \<not> gf_barge_in G then Some ''BARGE_IN_DISABLED''
      else if stripped_text repr data ''utterance_id'' = [] \<or> stripped_text repr data ''trace_id'' = []
          \<or> stripped_text repr data ''round_id'' = [] \<or> stripped_text repr data ''playback_id'' = []
          \<or> candidate_seq \<le> 0 \<or> speech_epoch \<le> 0 \<or> audio_watermark \<le> 0
      then Some ''INVALID_BARGE_IN_PROBE''
      else if gf_required G \<and> \<not> registered then Some ''REGISTER_REQUIRED''
      else None)"

definition barge_in_identity :: "(json \<Rightarrow> string) \<Rightarrow> jobj \<Rightarrow> jobj" where
  "barge_in_identity repr data =
     (let (candidate_seq, speech_epoch, audio_watermark) = barge_in_counters data in
      [(''trace_id'', JStr (stripped_text repr data ''trace_id'')),
       (''utterance_id'', JStr (stripped_text repr data ''utterance_id'')),
       (''round_id'', JStr (stripped_text repr data ''round_id'')),
       (''playback_id'', JStr (stripped_text repr data ''playback_id'')),
       (''candidate_seq'', JInt candidate_seq), (''speech_epoch'', JInt speech_epoch),
       (''audio_watermark'', JInt audio_watermark)])"

definition barge_in_probe_result :: "pylib \<Rightarrow> utext outcome \<Rightarrow> string \<times> barge_in_decision" where
  \<comment> \<open>status and decision\<close>
  "barge_in_probe_result L r =
     (case r of
        Ok_Outcome t \<Rightarrow> (if t \<noteq> [] then ''observed'' else ''asr_empty'', decide_barge_in L t True)
      | Audio_Rejected _ \<Rightarrow> (''audio_rejected'', decide_barge_in L [] False)
      | Failed_Outcome \<Rightarrow> (''failed'', decide_barge_in L [] False))"

subsection \<open>Candidates for the end of a turn\<close>

definition candidate_counters :: "jobj \<Rightarrow> int \<times> int" where
  \<comment> \<open>\<open>candidate_seq\<close> and \<open>audio_watermark\<close>; a counter that is no number makes the first one 0\<close>
  "candidate_counters data =
     (case (int_or_zero_of data ''candidate_seq'', int_or_zero_of data ''speech_epoch'',
            int_or_zero_of data ''audio_watermark'', int_or_zero_of data ''silence_ms'') of
        (Inr a, Inr b, Inr c, Inr d) \<Rightarrow> (a, c)
      | _ \<Rightarrow> (0, 0))"

definition candidate_refusal :: "(json \<Rightarrow> string) \<Rightarrow> gateway_flags \<Rightarrow> bool \<Rightarrow> jobj \<Rightarrow> string option" where
  "candidate_refusal repr G registered data =
     (let (candidate_seq, audio_watermark) = candidate_counters data; shadow = truthy (jget data ''shadow'') in
      if (\<not> shadow \<and> \<not> gf_active G) \<or> (shadow \<and> \<not> gf_shadow G)
         \<or> stripped_text repr data ''utterance_id'' = [] \<or> stripped_text repr data ''trace_id'' = []
         \<or> candidate_seq \<le> 0 \<or> audio_watermark \<le> 0
      then Some ''INVALID_TURN_CANDIDATE''
      else if gf_required G \<and> \<not> registered then Some ''REGISTER_REQUIRED''
      else None)"

record candidate_answers =
  ca_text :: "utext outcome"
  ca_smart :: "bool option option" \<comment> \<open>\<open>end\<close> of the first model, if its status is ok\<close>
  ca_eou :: "bool option option"

record candidate_result =
  cr_status :: string
  cr_text :: utext
  cr_agreement :: string
  cr_policy :: string
  cr_context :: "string \<times> nat"
  cr_committed :: bool

definition gate_value :: "gate_action \<Rightarrow> string" where
  "gate_value a = (case a of CONTINUE \<Rightarrow> ''continue'' | EARLY_COMMIT \<Rightarrow> ''early_commit''
     | FALLBACK_COMMIT \<Rightarrow> ''fallback_commit'')"

definition candidate_context :: "(json \<Rightarrow> string) \<Rightarrow> session_manager \<Rightarrow> string \<Rightarrow> jobj \<Rightarrow> string \<times> message list" where
  \<comment> \<open>only another gateway may look at the history of a session\<close>
  "candidate_context repr sm sid data =
     (let context_id = stripped_text repr data ''context_session_id'' in
      case find_session sid sm of
        Some s \<Rightarrow>
          if context_id \<noteq> [] \<and> s_client_type s = Some ''go_voice_gateway''
          then (let h = Session_Manager.get_history context_id sm in
                (if h \<noteq> [] then ''primary_python_session'' else ''primary_session_empty'', h))
          else (''empty'', [])
      | None \<Rightarrow> (''empty'', []))"

definition candidate_judgement :: "bool option option \<Rightarrow> bool option option \<Rightarrow> string \<times> string" where
  \<comment> \<open>agreement and preview of the policy\<close>
  "candidate_judgement smart eou =
     (case (smart, eou) of
        (Some (Some s), Some (Some e)) \<Rightarrow>
          (if s = e then (if s then ''both_end'' else ''both_continue'') else ''disagree'',
           gate_value (decide_turn_gate s e False))
      | _ \<Rightarrow> (''incomplete'', ''unavailable''))"

definition turn_candidate_result ::
  "(json \<Rightarrow> string) \<Rightarrow> gateway_flags \<Rightarrow> session_manager \<Rightarrow> string \<Rightarrow> jobj \<Rightarrow> candidate_answers \<Rightarrow> candidate_result" where
  "turn_candidate_result repr G sm sid data a =
     (case ca_text a of
        Ok_Outcome t \<Rightarrow>
          (let (source, h) = candidate_context repr sm sid data;
               (agreement, policy) = (if gf_models G then candidate_judgement (ca_smart a) (ca_eou a)
                 else candidate_judgement None None) in
           \<lparr>cr_status = (if t \<noteq> [] then ''observed'' else ''asr_empty''), cr_text = t, cr_agreement = agreement,
            cr_policy = policy, cr_context = (source, length h), cr_committed = False\<rparr>)
      | Audio_Rejected _ \<Rightarrow>
          \<lparr>cr_status = ''audio_rejected'', cr_text = [], cr_agreement = ''-'', cr_policy = ''-'',
           cr_context = ([], 0), cr_committed = False\<rparr>
      | Failed_Outcome \<Rightarrow>
          \<lparr>cr_status = ''failed'', cr_text = [], cr_agreement = ''-'', cr_policy = ''-'', cr_context = ([], 0),
           cr_committed = False\<rparr>)"

lemma early_commit_needs_both_models:
  "cr_policy (turn_candidate_result repr G sm sid data a) = ''early_commit''
    \<longleftrightarrow> gf_models G \<and> (\<exists>t. ca_text a = Ok_Outcome t) \<and> ca_smart a = Some (Some True) \<and> ca_eou a = Some (Some True)"
  by (cases "candidate_context repr sm sid data")
    (auto simp: turn_candidate_result_def candidate_judgement_def decide_turn_gate_def gate_value_def Let_def
      split: outcome.splits option.splits if_splits)

end
