(* ===== verification/Gateway_Connection.thy ===== *)
theory Gateway_Connection
  imports Turn_Probe Request_Queue Gateway_Runtime
begin

text \<open>
  A client's connection (\<open>websocket_endpoint\<close> in \<open>src/gateway/gateway_server.py\<close> and the handlers it calls, with
  \<open>gateway/rtc_signaling.py\<close>).  One task receives messages, another takes the latest request from the queue and
  works on it; both share the session.  A handler that awaits something before it changes the state again
  is cut there: the receiver then waits for the event that ends the await.  Everything else of a handler runs
  without other code of this connection in between, and the messages it sends are its reply.

  A \<open>bytes\<close> object in the data of a request stands as a text of its bytes; a member \<open>audio_bytes\<close> that is
  not \<open>bytes\<close> is left out, since the code only asks whether it is.
\<close>

subsection \<open>What is sent\<close>

datatype act =
    Send string jobj
  | Send_Error string
  | Send_Probe string "string \<times> barge_in_decision"
  | Send_Candidate candidate_result
  | Cancel_Workflows seconds
  | Report_Playback jobj bool
  | Began string bool \<comment> \<open>the worker starts a round; whether its request is accepted\<close>
  | Completed string

definition RTC_SESSION_MISMATCH_CODE :: string where
  "RTC_SESSION_MISMATCH_CODE = ''RTC_SESSION_MISMATCH''"

definition rtc_message_session_id :: "(json \<Rightarrow> string) \<Rightarrow> jobj \<Rightarrow> string" where
  "rtc_message_session_id repr data = stripped_text repr data ''session_id''"

definition rtc_session_matches :: "(json \<Rightarrow> string) \<Rightarrow> jobj \<Rightarrow> string \<Rightarrow> bool" where
  "rtc_session_matches repr data session_id =
     (let message_session_id = rtc_message_session_id repr data in
      message_session_id = [] \<or> message_session_id = session_id)"

definition rtc_offer_fallback_reason :: "bool \<Rightarrow> string" where
  "rtc_offer_fallback_reason signaling_enabled =
     (if signaling_enabled then ''rtc_media_not_available'' else ''rtc_signaling_disabled'')"

definition build_transport_fallback_ack :: "string \<Rightarrow> string \<Rightarrow> string \<Rightarrow> jobj" where
  "build_transport_fallback_ack session_id active_transport reason =
     [(''session_id'', JStr session_id), (''active_transport'', JStr active_transport), (''reason'', JStr reason)]"

definition build_transport_fallback_start_ack :: "(json \<Rightarrow> string) \<Rightarrow> string \<Rightarrow> jobj \<Rightarrow> jobj" where
  "build_transport_fallback_start_ack repr session_id data =
     (let named = py_strip (py_str repr (json_or (jget data ''to_transport'') (JStr ''websocket''))) in
      build_transport_fallback_ack session_id (if named \<noteq> [] then named else ''websocket'')
        (py_str repr (json_or (jget data ''reason'') (JStr ''client_requested_fallback''))))"

definition handle_rtc_signaling ::
  "(json \<Rightarrow> string) \<Rightarrow> bool \<Rightarrow> string \<Rightarrow> string \<Rightarrow> jobj \<Rightarrow> act list option" where
  \<comment> \<open>\<open>_handle_rtc_signaling_message\<close>; the session is touched by the caller\<close>
  "handle_rtc_signaling repr enabled sid msg_type data =
     (if msg_type \<notin> {''rtc_offer'', ''rtc_ice_candidate'', ''transport_ready'', ''transport_fallback_start''} then None
      else if \<not> rtc_session_matches repr data sid then Some [Send_Error RTC_SESSION_MISMATCH_CODE]
      else if msg_type = ''rtc_offer''
      then Some [Send ''transport_fallback_ack''
        (build_transport_fallback_ack sid ''websocket'' (rtc_offer_fallback_reason enabled))]
      else if msg_type = ''rtc_ice_candidate'' then Some []
      else if msg_type = ''transport_ready''
      then Some [Send ''transport_fallback_ack''
        (build_transport_fallback_ack sid ''websocket'' ''rtc_media_not_available'')]
      else Some [Send ''transport_fallback_ack'' (build_transport_fallback_start_ack repr sid data)])"

definition send_playback_cancel :: "(string \<times> string) option \<Rightarrow> string \<Rightarrow> act list" where
  "send_playback_cancel cancelled reason =
     (case build_playback_cancel_payload (map_option (\<lambda>(r, p). (r, Some p)) cancelled) reason of
        None \<Rightarrow> [] | Some payload \<Rightarrow> [Send ''playback_cancel'' payload])"

subsection \<open>The connection\<close>

record gateway_world =
  gw_repr :: "json \<Rightarrow> string"
  gw_flt :: "string \<Rightarrow> rat option"
  gw_sha :: "string \<Rightarrow> string"
  gw_lib :: pylib
  gw_bounds :: audio_limits
  gw_flags :: gateway_flags
  gw_chars :: "string \<Rightarrow> nat" \<comment> \<open>the number of characters of a text\<close>
  gw_max_chars :: nat
  gw_events :: "string list" \<comment> \<open>\<open>CLIENT_EVENT_TYPES\<close>\<close>
  gw_decode :: "jobj \<Rightarrow> string option" \<comment> \<open>the code with which Opus audio is refused by the decoder\<close>
  gw_rtc_config :: jobj

datatype receiver =
    Ready
  | Registering jobj
  | Probing jobj
  | Judging jobj
  | Sending_Cancel jobj

record connection =
  cn_sm :: session_manager
  cn_runtime :: "gateway_runtime option"
  cn_queue :: request_queue
  cn_streams :: "(string, assembler) odict"
  cn_last_interrupt :: seconds
  cn_round_seq :: int
  cn_receiver :: receiver
  cn_worker :: "string option"
  cn_open :: bool

definition request_of :: "ws_message \<Rightarrow> jobj" where
  "request_of m =
     (case wm_bytes m of
        Some b \<Rightarrow> AList.update ''audio_bytes'' (JStr (map (\<lambda>x. char_of (unat x)) b)) (wm_fields m)
      | None \<Rightarrow> AList.delete ''audio_bytes'' (wm_fields m))"

definition touch :: "seconds \<Rightarrow> string \<Rightarrow> connection \<Rightarrow> connection" where
  "touch now sid c = c\<lparr>cn_sm := fst (touch_session now sid (cn_sm c))\<rparr>"

definition enqueue_latest_user_request :: "seconds \<Rightarrow> jobj \<Rightarrow> connection \<Rightarrow> connection" where
  \<comment> \<open>\<open>_enqueue_latest_user_request\<close> with \<open>cancel_active_round=False\<close>, and the metrics of the request\<close>
  "enqueue_latest_user_request now data c =
     (let (q, dropped) = enqueue_latest_request data (cn_queue c);
          n = (case dropped of Some n \<Rightarrow> n | None \<Rightarrow> 0) in
      c\<lparr>cn_queue := q\<lparr>q_items := map (attach_request_queue_metrics now n q) (q_items q)\<rparr>\<rparr>)"

definition cancel_for_new_input :: "seconds \<Rightarrow> string \<Rightarrow> connection \<Rightarrow> connection \<times> (string \<times> string) option" where
  \<comment> \<open>\<open>_cancel_current_round_for_new_input\<close>\<close>
  "cancel_for_new_input now sid c =
     (let (sm, cancelled) = cancel_current_round now sid (cn_sm c) in (c\<lparr>cn_sm := sm\<rparr>, cancelled))"

subsection \<open>Messages\<close>

definition handle_audio_stream ::
  "gateway_world \<Rightarrow> string \<Rightarrow> seconds \<Rightarrow> string \<Rightarrow> ws_message \<Rightarrow> connection \<Rightarrow> (connection \<times> act list) option" where
  \<comment> \<open>\<open>_handle_audio_stream_message\<close>\<close>
  "handle_audio_stream W sid now msg_type m c =
     (let data = wm_fields m; t = touch now sid c; uid = audio_stream_utterance_id (gw_repr W) data;
          registered = is_registered sid (cn_sm t) in
      if msg_type = ''audio_start'' then
        Some (if gf_required (gw_flags W) \<and> \<not> registered then (t, [Send_Error ''REGISTER_REQUIRED''])
              else case new_assembler (gw_repr W) (gw_bounds W) data of
                Inl (AudioValidationError code) \<Rightarrow> (t, [Send_Error code])
              | Inl _ \<Rightarrow> (t, [])
              | Inr a \<Rightarrow>
                  (let (c1, cancelled) = cancel_for_new_input now sid t in
                   (c1\<lparr>cn_streams := AList.update (as_utterance_id a) a (cn_streams c1)\<rparr>,
                    send_playback_cancel cancelled ''audio_start'')))
      else if msg_type = ''audio_chunk'' then
        Some (case map_of (cn_streams t) uid of
                None \<Rightarrow> (t, [Send_Error ''INVALID_AUDIO_STREAM''])
              | Some a \<Rightarrow>
                  (case append_chunk (gw_flt W) (gw_bounds W) a m of
                     Inl (AudioValidationError code) \<Rightarrow>
                       (t\<lparr>cn_streams := AList.delete uid (cn_streams t)\<rparr>, [Send_Error code])
                   | Inl _ \<Rightarrow> (t, [])
                   | Inr b \<Rightarrow> (t\<lparr>cn_streams := AList.update uid b (cn_streams t)\<rparr>, [])))
      else if msg_type = ''audio_end'' then
        Some (let t1 = t\<lparr>cn_streams := AList.delete uid (cn_streams t)\<rparr> in
              case map_of (cn_streams t) uid of
                None \<Rightarrow> (t1, [Send_Error ''INVALID_AUDIO_STREAM''])
              | Some a \<Rightarrow>
                  (case finish_stream (gw_flt W) a 0 data of
                     Inl (AudioValidationError code) \<Rightarrow> (t1, [Send_Error code])
                   | Inl _ \<Rightarrow> (t1, [])
                   | Inr r \<Rightarrow> (enqueue_latest_user_request now (request_of r) t1, [])))
      else if msg_type = ''audio_cancel'' then
        Some (if uid \<noteq> [] then t\<lparr>cn_streams := AList.delete uid (cn_streams t)\<rparr> else t, [])
      else None)"

definition handle_queued_user_input ::
  "gateway_world \<Rightarrow> string \<Rightarrow> seconds \<Rightarrow> string \<Rightarrow> ws_message \<Rightarrow> connection \<Rightarrow> (connection \<times> act list) option" where
  \<comment> \<open>\<open>_handle_queued_user_input_message\<close> and \<open>_queue_new_user_input\<close>; a client event is queued only after
      the cancellation was sent\<close>
  "handle_queued_user_input W sid now msg_type m c =
     (if msg_type \<notin> {''audio'', ''text'', ''client_event''} then None
      else
        let t = (touch now sid c)\<lparr>cn_streams := []\<rparr>; (c1, cancelled) = cancel_for_new_input now sid t in
        Some (if msg_type = ''client_event'' then
                (c1\<lparr>cn_receiver := Sending_Cancel (request_of m)\<rparr>, send_playback_cancel cancelled ''new_client_event'')
              else (enqueue_latest_user_request now (request_of m) c1,
                send_playback_cancel cancelled (if msg_type = ''audio'' then ''new_audio'' else ''new_text''))))"

definition handle_playback_report ::
  "gateway_world \<Rightarrow> string \<Rightarrow> seconds \<Rightarrow> string \<Rightarrow> jobj \<Rightarrow> connection \<Rightarrow> (connection \<times> act list) option" where
  \<comment> \<open>\<open>_handle_playback_report_message\<close>\<close>
  "handle_playback_report W sid now msg_type data c =
     (if msg_type = ''playback_complete'' then Some (touch now sid c, [Report_Playback data False])
      else if msg_type = ''playback_interrupted'' then
        let t = touch now sid c;
            (sm, cancelled) = cancel_round_if_matches now sid (stripped_text (gw_repr W) data ''round_id'')
              (stripped_text (gw_repr W) data ''playback_id'') (cn_sm t) in
        Some (t\<lparr>cn_sm := sm\<rparr>, [Report_Playback data True])
      else None)"

definition handle_interrupt ::
  "gateway_world \<Rightarrow> string \<Rightarrow> seconds \<Rightarrow> string \<Rightarrow> connection \<Rightarrow> (connection \<times> act list) option" where
  \<comment> \<open>\<open>_handle_interrupt_message\<close>\<close>
  "handle_interrupt W sid now msg_type c =
     (if msg_type \<noteq> ''interrupt'' then None
      else
        let t = c\<lparr>cn_streams := []\<rparr> in
        Some (if \<not> gf_interrupts (gw_flags W) then (t, [])
              else if now - cn_last_interrupt t < 1 then (t, [])
              else
                let (c1, cancelled) = cancel_for_new_input now sid t in
                (c1\<lparr>cn_last_interrupt := now\<rparr>,
                 Cancel_Workflows now # send_playback_cancel cancelled ''client_interrupt'')))"

definition handle_keepalive :: "string \<Rightarrow> seconds \<Rightarrow> string \<Rightarrow> connection \<Rightarrow> (connection \<times> act list) option" where
  "handle_keepalive sid now msg_type c =
     (if msg_type = ''ping'' then Some (touch now sid c, [Send ''pong'' []])
      else if msg_type = ''heartbeat'' then Some (touch now sid c, [Send ''heartbeat_ack'' []])
      else None)"

definition handle_probe ::
  "gateway_world \<Rightarrow> string \<Rightarrow> seconds \<Rightarrow> string \<Rightarrow> jobj \<Rightarrow> connection \<Rightarrow> (connection \<times> act list) option" where
  \<comment> \<open>turn candidates and probes up to the recognition of speech\<close>
  "handle_probe W sid now msg_type data c =
     (let t = touch now sid c; registered = is_registered sid (cn_sm t) in
      if msg_type = ''turn_candidate'' then
        Some (case candidate_refusal (gw_repr W) (gw_flags W) registered data of
                Some code \<Rightarrow> (t, [Send_Error code]) | None \<Rightarrow> (t\<lparr>cn_receiver := Judging data\<rparr>, []))
      else if msg_type = ''barge_in_probe'' then
        Some (case barge_in_refusal (gw_repr W) (gw_flags W) registered data of
                Some code \<Rightarrow> (t, [Send_Error code]) | None \<Rightarrow> (t\<lparr>cn_receiver := Probing data\<rparr>, []))
      else None)"

definition receive :: "gateway_world \<Rightarrow> string \<Rightarrow> seconds \<Rightarrow> ws_message \<Rightarrow> connection \<Rightarrow> connection \<times> act list" where
  \<comment> \<open>one turn of \<open>_recv_loop\<close>\<close>
  "receive W sid now m c =
     (let data = wm_fields m; msg_type = (case jget data ''type'' of JStr t \<Rightarrow> t | _ \<Rightarrow> []) in
      if msg_type = ''register'' then ((touch now sid c)\<lparr>cn_receiver := Registering data\<rparr>, [])
      else case handle_rtc_signaling (gw_repr W) (gf_rtc (gw_flags W)) sid msg_type data of
        Some acts \<Rightarrow> (touch now sid c, acts)
      | None \<Rightarrow>
      (case handle_probe W sid now msg_type data c of Some r \<Rightarrow> r
      | None \<Rightarrow>
      (case handle_audio_stream W sid now msg_type m c of Some r \<Rightarrow> r
      | None \<Rightarrow>
      (case handle_queued_user_input W sid now msg_type m c of Some r \<Rightarrow> r
      | None \<Rightarrow>
      (case handle_keepalive sid now msg_type c of Some r \<Rightarrow> r
      | None \<Rightarrow>
      (case handle_playback_report W sid now msg_type data c of Some r \<Rightarrow> r
      | None \<Rightarrow>
      (case handle_interrupt W sid now msg_type c of Some r \<Rightarrow> r
      | None \<Rightarrow> (c, [Send_Error ''UNKNOWN_TYPE'']))))))))"

definition handle_registered ::
  "gateway_world \<Rightarrow> string \<Rightarrow> seconds \<Rightarrow> registration_answers \<Rightarrow> jobj \<Rightarrow> connection \<Rightarrow> connection \<times> act list" where
  \<comment> \<open>the rest of \<open>_handle_register_message\<close>; an exception that is neither \<open>ValueError\<close> nor \<open>RuntimeError\<close> ends
      the connection\<close>
  "handle_registered W sid now answers data c =
     (case register_robot_session (gw_repr W) (gw_sha W) now sid data (gf_required (gw_flags W)) answers
         (cn_runtime c) (cn_sm c) of
        (rt, sm, r) \<Rightarrow>
          (let c1 = c\<lparr>cn_runtime := rt, cn_sm := sm, cn_receiver := Ready\<rparr> in
           case r of
             Inr g \<Rightarrow>
               (c1, Send ''registered'' (build_registered_message_payload sid g)
                  # (if gf_rtc (gw_flags W) then [Send ''rtc_config'' (gw_rtc_config W)] else []))
           | Inl RuntimeError \<Rightarrow> (c1, [Send_Error ''REGISTER_FAILED''])
           | Inl (Refused ValueError) \<Rightarrow> (c1, [Send_Error ''REGISTER_FAILED''])
           | Inl (Refused _) \<Rightarrow> (c1\<lparr>cn_open := False\<rparr>, [])))"

subsection \<open>The worker\<close>

definition direct_text_refused :: "gateway_world \<Rightarrow> jobj \<Rightarrow> bool" where
  \<comment> \<open>\<open>_extract_direct_text_content\<close>\<close>
  "direct_text_refused W data =
     (let content = stripped_text (gw_repr W) data ''content'' in
      content = [] \<or> gw_chars W content > gw_max_chars W)"

definition audio_request_refusal :: "gateway_world \<Rightarrow> jobj \<Rightarrow> string option" where
  \<comment> \<open>\<open>_decode_audio_request_payload\<close>\<close>
  "audio_request_refusal W data =
     (case jget data ''audio_bytes'' of
        JStr b \<Rightarrow>
          (if length b > al_max_bytes (gw_bounds W) then Some ''AUDIO_TOO_LARGE''
           else if jget_default data ''audio_encoding'' (JStr ''opus'') \<noteq> JStr ''opus''
           then Some ''UNSUPPORTED_AUDIO_FORMAT''
           else gw_decode W data)
      | _ \<Rightarrow> Some ''INVALID_AUDIO_TRANSPORT'')"

definition turn_refusal :: "gateway_world \<Rightarrow> bool \<Rightarrow> jobj \<Rightarrow> string option" where
  \<comment> \<open>the checks with which \<open>handle_text\<close>, \<open>handle_client_event\<close> and \<open>handle_audio\<close> begin\<close>
  "turn_refusal W registered data =
     (if jget data ''type'' = JStr ''text'' then
        if \<not> registered then Some ''REGISTER_REQUIRED''
        else if direct_text_refused W data then Some ''INVALID_DATA'' else None
      else if jget data ''type'' = JStr ''client_event'' then
        if \<not> registered then Some ''REGISTER_REQUIRED''
        else if stripped_text (gw_repr W) data ''event'' \<notin> set (gw_events W) then Some ''INVALID_EVENT'' else None
      else if gf_required (gw_flags W) \<and> \<not> registered then Some ''REGISTER_REQUIRED''
      else audio_request_refusal W data)"

definition take_request :: "gateway_world \<Rightarrow> string \<Rightarrow> seconds \<Rightarrow> connection \<Rightarrow> connection \<times> act list" where
  \<comment> \<open>\<open>_process_loop\<close> from \<open>request_queue.get()\<close> to the first await of the handler\<close>
  "take_request W sid now c =
     (case get_nowait (cn_queue c) of
        None \<Rightarrow> (c, [])
      | Some (data, q) \<Rightarrow>
          (let seq = cn_round_seq c + 1;
               round_id = request_round_id data sid seq;
               playback_id = request_playback_id data round_id;
               sm1 = fst (start_round now sid round_id playback_id (cn_sm c));
               sm2 = fst (touch_session now sid sm1);
               refusal = turn_refusal W (is_registered sid sm2) data;
               sm3 = (if refusal = Some ''REGISTER_REQUIRED'' then sm2 else set_interrupted now sid False sm2) in
           (c\<lparr>cn_queue := q, cn_round_seq := seq, cn_sm := sm3, cn_worker := Some round_id\<rparr>,
            Began round_id (refusal = None)
              # (case refusal of None \<Rightarrow> [] | Some code \<Rightarrow> [Send_Error code]))))"

definition disconnect :: "string \<Rightarrow> connection \<Rightarrow> connection" where
  \<comment> \<open>the \<open>finally\<close> of the endpoint: both tasks end, the session is deleted\<close>
  "disconnect sid c =
     c\<lparr>cn_sm := delete_session sid (cn_sm c), cn_worker := None, cn_receiver := Ready, cn_open := False\<rparr>"

datatype connection_event =
    Received seconds ws_message
  | Register_Answered seconds registration_answers
  | Probe_Answered "utext outcome"
  | Candidate_Answered candidate_answers
  | Cancel_Sent seconds
  | Take seconds
  | Round_Done seconds
  | Disconnect
  | Elsewhere session_event \<comment> \<open>other connections and the clean-up use the same session manager\<close>

fun connection_step :: "gateway_world \<Rightarrow> string \<Rightarrow> connection \<Rightarrow> connection_event \<Rightarrow> connection \<times> act list" where
  "connection_step W sid c (Received now m) =
     (if cn_open c \<and> cn_receiver c = Ready then receive W sid now m c else (c, []))"
| "connection_step W sid c (Register_Answered now answers) =
     (case cn_receiver c of
        Registering data \<Rightarrow> if cn_open c then handle_registered W sid now answers data c else (c, [])
      | _ \<Rightarrow> (c, []))"
| "connection_step W sid c (Probe_Answered r) =
     (case cn_receiver c of
        Probing data \<Rightarrow>
          (let identity = barge_in_identity (gw_repr W) data in
           (c\<lparr>cn_receiver := Ready\<rparr>,
            [Send_Probe ''barge_in_probe_result'' (barge_in_probe_result (gw_lib W) r),
             Send ''done'' (identity @ [(''committed'', JBool False)])]))
      | _ \<Rightarrow> (c, []))"
| "connection_step W sid c (Candidate_Answered a) =
     (case cn_receiver c of
        Judging data \<Rightarrow>
          (c\<lparr>cn_receiver := Ready\<rparr>,
           [Send_Candidate (turn_candidate_result (gw_repr W) (gw_flags W) (cn_sm c) sid data a),
            Send ''done''
              [(''trace_id'', JStr (stripped_text (gw_repr W) data ''trace_id'')),
               (''utterance_id'', JStr (stripped_text (gw_repr W) data ''utterance_id'')),
               (''candidate_seq'', JInt (fst (candidate_counters data))),
               (''shadow'', JBool (truthy (jget data ''shadow''))), (''committed'', JBool False)]])
      | _ \<Rightarrow> (c, []))"
| "connection_step W sid c (Cancel_Sent now) =
     (case cn_receiver c of
        Sending_Cancel data \<Rightarrow> (enqueue_latest_user_request now data (c\<lparr>cn_receiver := Ready\<rparr>), [])
      | _ \<Rightarrow> (c, []))"
| "connection_step W sid c (Take now) =
     (if cn_open c \<and> cn_worker c = None then take_request W sid now c else (c, []))"
| "connection_step W sid c (Round_Done now) =
     (case cn_worker c of
        Some r \<Rightarrow> (c\<lparr>cn_sm := fst (complete_round now sid r (cn_sm c)), cn_worker := None\<rparr>, [Completed r])
      | None \<Rightarrow> (c, []))"
| "connection_step W sid c Disconnect = (if cn_open c then disconnect sid c else c, [])"
| "connection_step W sid c (Elsewhere e) = (c\<lparr>cn_sm := fst (manager_step (cn_sm c) e)\<rparr>, [])"

definition new_connection :: "seconds \<Rightarrow> string \<Rightarrow> int \<Rightarrow> gateway_runtime option \<Rightarrow> session_manager \<Rightarrow> connection" where
  "new_connection now sid maxsize rt sm =
     \<lparr>cn_sm = fst (create_session now sid sm), cn_runtime = rt, cn_queue = \<lparr>q_maxsize = maxsize, q_items = []\<rparr>,
      cn_streams = [], cn_last_interrupt = 0, cn_round_seq = 0, cn_receiver = Ready, cn_worker = None, cn_open = True\<rparr>"

end
