(* ===== verification/Gateway_Connection_Facts.thy ===== *)
theory Gateway_Connection_Facts
  imports Gateway_Connection Song_Matcher_Facts
begin

text \<open>
  What holds over all interleavings of a connection's receiver, its worker and the other users of the
  session manager: a round that was superseded stays interrupted until it is done, rounds do not overlap,
  nothing is processed before the registration, and interruptions keep their distance.
\<close>

subsection \<open>What a step leaves alone\<close>

definition kept :: "string \<Rightarrow> session_manager \<Rightarrow> session_manager \<Rightarrow> bool" where
  \<comment> \<open>an interruption is not taken back, and nobody is registered\<close>
  "kept sid sm sm' \<longleftrightarrow>
     (\<forall>s'. find_session sid sm' = Some s' \<longrightarrow>
        (\<exists>s. find_session sid sm = Some s \<and> (interrupted s \<longrightarrow> interrupted s')
           \<and> current_round_id s' = current_round_id s \<and> (session_registered s' \<longrightarrow> session_registered s)))"

lemma kept_refl [simp]: "kept sid sm sm"
  by (simp add: kept_def)

lemma kept_trans: "kept sid a b \<Longrightarrow> kept sid b c \<Longrightarrow> kept sid a c"
  unfolding kept_def by (metis (no_types, lifting))

lemma kept_interrupt: "kept sid sm sm' \<Longrightarrow> \<forall>s. find_session sid sm = Some s \<longrightarrow> interrupted s
    \<Longrightarrow> \<forall>s. find_session sid sm' = Some s \<longrightarrow> interrupted s"
  unfolding kept_def by blast

lemma kept_registered: "kept sid sm sm' \<Longrightarrow> is_registered sid sm' \<Longrightarrow> is_registered sid sm"
  by (auto simp: kept_def is_registered_def split: option.splits)

lemma kept_touch [simp]: "kept sid sm (fst (touch_session now sid sm))"
  by (auto simp: kept_def touch_session_def with_session_simps session_registered_def)

lemma kept_cancel [simp]: "kept sid sm (fst (cancel_current_round now sid sm))"
  by (auto simp: kept_def cancel_current_round_def with_session_simps session_registered_def)

lemma kept_cancel_if [simp]: "kept sid sm (fst (cancel_round_if_matches now sid r p sm))"
  by (auto simp: kept_def cancel_round_if_matches_def Let_def session_registered_def split: option.splits)

lemma cancelled_is_interrupted:
  "find_session sid (fst (cancel_current_round now sid sm)) = Some s \<Longrightarrow> interrupted s"
  by (auto simp: cancel_current_round_def with_session_simps)

fun quiet_act :: "act \<Rightarrow> bool" where
  "quiet_act (Send t d) = (t \<noteq> ''registered'')"
| "quiet_act (Began r b) = False"
| "quiet_act (Completed r) = False"
| "quiet_act (Cancel_Workflows t) = False"
| "quiet_act _ = True"

definition calm :: "string \<Rightarrow> connection \<Rightarrow> connection \<times> act list \<Rightarrow> bool" where
  "calm sid c r \<longleftrightarrow>
     kept sid (cn_sm c) (cn_sm (fst r)) \<and> cn_worker (fst r) = cn_worker c \<and> cn_open (fst r) = cn_open c
     \<and> cn_last_interrupt (fst r) = cn_last_interrupt c \<and> list_all quiet_act (snd r)"

lemma cancel_acts_quiet [simp]: "list_all quiet_act (send_playback_cancel r reason)"
  by (simp add: send_playback_cancel_def split: option.split)

lemma calm_touch: "list_all quiet_act acts \<Longrightarrow> calm sid c (touch now sid c, acts)"
  by (simp add: calm_def touch_def)

lemma enqueue_fields [simp]:
  "cn_sm (enqueue_latest_user_request now d c) = cn_sm c" "cn_worker (enqueue_latest_user_request now d c) = cn_worker c"
  "cn_open (enqueue_latest_user_request now d c) = cn_open c"
  "cn_last_interrupt (enqueue_latest_user_request now d c) = cn_last_interrupt c"
  "cn_receiver (enqueue_latest_user_request now d c) = cn_receiver c"
  by (simp_all add: enqueue_latest_user_request_def case_prod_beta Let_def)

lemma touch_fields [simp]:
  "cn_worker (touch now sid c) = cn_worker c" "cn_open (touch now sid c) = cn_open c"
  "cn_last_interrupt (touch now sid c) = cn_last_interrupt c"
  by (simp_all add: touch_def)

lemma kept_touched [simp]: "kept sid (cn_sm c) (cn_sm (touch now sid c))"
  by (simp add: touch_def)

lemma cancel_for_fields [simp]:
  "cn_worker (fst (cancel_for_new_input now sid c)) = cn_worker c"
  "cn_open (fst (cancel_for_new_input now sid c)) = cn_open c"
  "cn_last_interrupt (fst (cancel_for_new_input now sid c)) = cn_last_interrupt c"
  "cn_sm (fst (cancel_for_new_input now sid c)) = fst (cancel_current_round now sid (cn_sm c))"
  by (simp_all add: cancel_for_new_input_def case_prod_beta Let_def)

lemma calm_rtc:
  "handle_rtc_signaling repr enabled sid t data = Some acts \<Longrightarrow> list_all quiet_act acts"
  by (auto simp: handle_rtc_signaling_def split: if_splits)

lemma calm_probe: "handle_probe W sid now t data c = Some r \<Longrightarrow> calm sid c r"
  by (auto simp: handle_probe_def Let_def calm_def split: if_splits option.splits)

lemma calm_keepalive: "handle_keepalive sid now t c = Some r \<Longrightarrow> calm sid c r"
  by (auto simp: handle_keepalive_def intro!: calm_touch split: if_splits)

lemma calm_report: "handle_playback_report W sid now t data c = Some r \<Longrightarrow> calm sid c r"
  by (auto simp: handle_playback_report_def Let_def calm_def case_prod_beta split: if_splits
      intro: kept_trans [OF kept_touched kept_cancel_if])

lemma kept_touch_cancel: "kept sid (cn_sm c) (fst (cancel_current_round now sid (cn_sm (touch now sid c))))"
  by (rule kept_trans [OF kept_touched kept_cancel])

lemma calm_audio_stream: "handle_audio_stream W sid now t m c = Some r \<Longrightarrow> calm sid c r"
  unfolding handle_audio_stream_def Let_def case_prod_beta
  by (auto simp: calm_def kept_touch_cancel split: if_splits option.splits sum.splits frame_error.splits)

lemma calm_queued: "handle_queued_user_input W sid now t m c = Some r \<Longrightarrow> calm sid c r"
  unfolding handle_queued_user_input_def Let_def case_prod_beta
  by (auto simp: calm_def kept_touch_cancel split: if_splits)

lemma interrupt_cases:
  assumes "handle_interrupt W sid now t c = Some r"
  obtains "calm sid c r"
    | rest where "snd r = Cancel_Workflows now # rest" "list_all quiet_act rest" "1 \<le> now - cn_last_interrupt c"
      "cn_last_interrupt (fst r) = now" "kept sid (cn_sm c) (cn_sm (fst r))" "cn_worker (fst r) = cn_worker c"
      "cn_open (fst r) = cn_open c"
  using assms unfolding handle_interrupt_def Let_def case_prod_beta
  by (auto simp: calm_def split: if_splits)

lemma receive_cases:
  obtains "calm sid c (receive W sid now m c)"
    | rest where "snd (receive W sid now m c) = Cancel_Workflows now # rest" "list_all quiet_act rest"
      "1 \<le> now - cn_last_interrupt c" "cn_last_interrupt (fst (receive W sid now m c)) = now"
      "kept sid (cn_sm c) (cn_sm (fst (receive W sid now m c)))"
      "cn_worker (fst (receive W sid now m c)) = cn_worker c" "cn_open (fst (receive W sid now m c)) = cn_open c"
proof -
  let ?data = "wm_fields m"
  let ?t = "case jget ?data ''type'' of JStr t \<Rightarrow> t | _ \<Rightarrow> []"
  have "calm sid c (c, [Send_Error ''UNKNOWN_TYPE''])" by (simp add: calm_def)
  moreover have "calm sid c ((touch now sid c)\<lparr>cn_receiver := Registering ?data\<rparr>, [])" by (simp add: calm_def)
  ultimately have "calm sid c (receive W sid now m c) \<or> (\<exists>r. handle_interrupt W sid now ?t c = Some r \<and> receive W sid now m c = r)"
    using calm_rtc [of "gw_repr W" "gf_rtc (gw_flags W)" sid ?t ?data] calm_touch [of _ sid c now]
      calm_probe [of W sid now ?t ?data c] calm_audio_stream [of W sid now ?t m c]
      calm_queued [of W sid now ?t m c] calm_keepalive [of sid now ?t c] calm_report [of W sid now ?t ?data c]
    unfolding receive_def Let_def by (simp split: option.split)
  then show ?thesis
  proof
    assume "\<exists>r. handle_interrupt W sid now ?t c = Some r \<and> receive W sid now m c = r"
    then obtain r where r: "handle_interrupt W sid now ?t c = Some r" "receive W sid now m c = r" by blast
    show ?thesis by (rule interrupt_cases [OF r(1)]) (use r(2) that in auto)
  qed (rule that(1))
qed

subsection \<open>A step\<close>

fun foreign :: "string \<Rightarrow> connection_event \<Rightarrow> bool" where
  \<comment> \<open>what the other users of the manager do: to other sessions, or the clean-up of idle ones\<close>
  "foreign sid (Elsewhere e) = (\<not> affects e sid \<or> (\<exists>now idle. e = Cleanup now idle))"
| "foreign sid _ = True"

lemma kept_elsewhere:
  assumes "foreign sid (Elsewhere e)" shows "kept sid sm (fst (manager_step sm e))"
proof (cases "\<exists>now idle. e = Cleanup now idle")
  case False
  then have "find_session sid (fst (manager_step sm e)) = find_session sid sm"
    using assms by (intro manager_step_frame) simp
  then show ?thesis by (simp add: kept_def)
next
  case True
  then obtain now idle where e: "e = Cleanup now idle" by blast
  have "map_of (filter (\<lambda>(k, _). Q k) d) k = (if Q k then map_of d k else None)"
    for Q and d :: "(string \<times> session) list" and k by (induction d) auto
  then have "find_session sid (fst (cleanup_expired now idle sm)) = Some s \<Longrightarrow> find_session sid sm = Some s" for s
    by (auto simp: cleanup_expired_def Let_def find_session_def foldl_delete split: if_splits)
  then show ?thesis by (auto simp: e kept_def)
qed

lemma kept_register:
  assumes "register_robot_session repr sha now sid data req answers rt sm = (rt', sm', r)"
  shows "kept sid sm sm' \<or> (\<exists>g. r = Inr g)" "\<forall>s. find_session sid sm = Some s \<longrightarrow> interrupted s
    \<Longrightarrow> \<forall>s. find_session sid sm' = Some s \<longrightarrow> interrupted s"
  using assms
  by (auto simp: register_robot_session_def Let_def register_robot_def with_session_def case_prod_beta
      split: if_splits option.splits sum.splits prod.splits)

text \<open>What a step can be: it leaves rounds, registration and interruptions alone, or it is one of five others.\<close>

lemma step_cases:
  assumes "foreign sid e"
  obtains (calm) "calm sid c (connection_step W sid c e)"
    | (interrupts) now rest where "snd (connection_step W sid c e) = Cancel_Workflows now # rest" "list_all quiet_act rest"
      "1 \<le> now - cn_last_interrupt c" "cn_last_interrupt (fst (connection_step W sid c e)) = now"
      "kept sid (cn_sm c) (cn_sm (fst (connection_step W sid c e)))"
      "cn_worker (fst (connection_step W sid c e)) = cn_worker c"
      "cn_open (fst (connection_step W sid c e)) = cn_open c"
    | (registers) now answers data where "e = Register_Answered now answers" "cn_open c"
      "connection_step W sid c e = handle_registered W sid now answers data c"
    | (takes) now data q where "e = Take now" "cn_open c" "cn_worker c = None" "get_nowait (cn_queue c) = Some (data, q)"
      "connection_step W sid c e = take_request W sid now c"
    | (completes) now r where "e = Round_Done now" "cn_worker c = Some r"
    | (leaves) "e = Disconnect" "cn_open c"
proof (cases e)
  case (Received now m)
  show ?thesis
  proof (cases "cn_open c \<and> cn_receiver c = Ready")
    case True
    then have eq: "connection_step W sid c e = receive W sid now m c" by (simp add: Received)
    show ?thesis
      by (rule receive_cases [of sid c W now m]) (use calm interrupts eq in auto)
  next
    case False
    then show ?thesis by (intro calm) (auto simp: Received calm_def)
  qed
next
  case (Register_Answered now answers)
  show ?thesis
  proof (cases "cn_receiver c")
    case (Registering data)
    show ?thesis
    proof (cases "cn_open c")
      case True
      then show ?thesis using registers Register_Answered Registering by simp
    qed (use calm in \<open>simp add: Register_Answered Registering calm_def\<close>)
  qed (use calm in \<open>simp_all add: Register_Answered calm_def\<close>)
next
  case (Probe_Answered r)
  then show ?thesis by (intro calm) (auto simp: calm_def Let_def split: receiver.split)
next
  case (Candidate_Answered a)
  then show ?thesis by (intro calm) (auto simp: calm_def split: receiver.split)
next
  case (Cancel_Sent now)
  then show ?thesis by (intro calm) (auto simp: calm_def split: receiver.split)
next
  case (Take now)
  show ?thesis
  proof (cases "cn_open c \<and> cn_worker c = None")
    case True
    show ?thesis
    proof (cases "get_nowait (cn_queue c)")
      case None
      then show ?thesis using True by (intro calm) (simp add: Take calm_def take_request_def)
    next
      case (Some dq)
      then show ?thesis using takes [of now "fst dq" "snd dq"] Take True by simp
    qed
  qed (use calm in \<open>auto simp: Take calm_def\<close>)
next
  case (Round_Done now)
  then show ?thesis using calm completes by (cases "cn_worker c") (simp_all add: calm_def)
next
  case Disconnect
  then show ?thesis using calm leaves by (cases "cn_open c") (simp_all add: calm_def)
next
  case (Elsewhere x)
  then show ?thesis using assms kept_elsewhere [of sid x "cn_sm c"]
    by (intro calm) (simp add: calm_def del: foreign.simps)
qed

lemma handle_registered_frame:
  "cn_worker (fst (handle_registered W sid now answers data c)) = cn_worker c"
  "cn_last_interrupt (fst (handle_registered W sid now answers data c)) = cn_last_interrupt c"
  "\<forall>s. find_session sid (cn_sm c) = Some s \<longrightarrow> interrupted s \<Longrightarrow>
    \<forall>s. find_session sid (cn_sm (fst (handle_registered W sid now answers data c))) = Some s \<longrightarrow> interrupted s"
proof -
  obtain rt sm r where eq: "register_robot_session (gw_repr W) (gw_sha W) now sid data (gf_required (gw_flags W)) answers
         (cn_runtime c) (cn_sm c) = (rt, sm, r)" by (metis prod_cases3)
  show "cn_worker (fst (handle_registered W sid now answers data c)) = cn_worker c"
    "cn_last_interrupt (fst (handle_registered W sid now answers data c)) = cn_last_interrupt c"
    by (simp_all add: handle_registered_def eq Let_def split: sum.split register_error.split py_exn.split)
  have sm_eq: "cn_sm (fst (handle_registered W sid now answers data c)) = sm"
    by (simp add: handle_registered_def eq Let_def split: sum.split register_error.split py_exn.split)
  show "\<forall>s. find_session sid (cn_sm c) = Some s \<longrightarrow> interrupted s \<Longrightarrow>
    \<forall>s. find_session sid (cn_sm (fst (handle_registered W sid now answers data c))) = Some s \<longrightarrow> interrupted s"
    unfolding sm_eq by (rule kept_register(2) [OF eq])
qed

subsection \<open>A superseded round\<close>

definition superseded :: "string \<Rightarrow> connection \<Rightarrow> bool" where
  \<comment> \<open>the round that is worked on sees the interruption; or the connection is closed\<close>
  "superseded sid c \<longleftrightarrow>
     (cn_open c \<longrightarrow> cn_worker c \<noteq> None) \<and> (\<forall>s. find_session sid (cn_sm c) = Some s \<longrightarrow> interrupted s)"

fun before_done :: "string \<Rightarrow> connection_event \<Rightarrow> bool" where
  "before_done sid (Round_Done now) = False"
| "before_done sid e = foreign sid e"

lemma superseded_step:
  assumes "superseded sid c" "before_done sid e"
  shows "superseded sid (fst (connection_step W sid c e))"
proof -
  have "foreign sid e" using assms(2) by (cases e) auto
  then show ?thesis
  proof (cases rule: step_cases [of sid e c W])
    case calm
    then show ?thesis using assms(1) unfolding superseded_def calm_def by (metis kept_interrupt)
  next
    case (interrupts now rest)
    then show ?thesis using assms(1) unfolding superseded_def by (metis kept_interrupt)
  next
    case (registers now answers data)
    have "\<forall>s. find_session sid (cn_sm (fst (connection_step W sid c e))) = Some s \<longrightarrow> interrupted s"
      unfolding registers(3) by (rule handle_registered_frame(3)) (use assms(1) [unfolded superseded_def] in blast)
    moreover have "cn_worker (fst (connection_step W sid c e)) \<noteq> None"
      unfolding registers(3) handle_registered_frame(1) using assms(1) registers(2) unfolding superseded_def by blast
    ultimately show ?thesis unfolding superseded_def by blast
  next
    case (takes now data q)
    then show ?thesis using assms(1) by (simp add: superseded_def)
  next
    case (completes now r)
    then show ?thesis using assms(2) by simp
  next
    case leaves
    then show ?thesis by (auto simp: superseded_def disconnect_def delete_session_def find_session_def map_of_delete)
  qed
qed

interpretation superseded_rounds: transition_system "connection_step W sid" "superseded sid" "before_done sid" for W sid
  by unfold_locales (rule superseded_step)

lemma new_input_supersedes:
  assumes "cn_open c" "cn_receiver c = Ready" "cn_worker c \<noteq> None"
    and "jget (wm_fields m) ''type'' \<in> {JStr ''text'', JStr ''audio'', JStr ''client_event''}"
  shows "superseded sid (fst (connection_step W sid c (Received now m)))"
proof -
  let ?t = "case jget (wm_fields m) ''type'' of JStr t \<Rightarrow> t | _ \<Rightarrow> []"
  have t: "?t \<in> {''text'', ''audio'', ''client_event''}" using assms(4) by auto
  then have others: "?t \<noteq> ''register''" "handle_rtc_signaling (gw_repr W) (gf_rtc (gw_flags W)) sid ?t (wm_fields m) = None"
    "handle_probe W sid now ?t (wm_fields m) c = None" "handle_audio_stream W sid now ?t m c = None"
    by (auto simp: handle_rtc_signaling_def handle_probe_def handle_audio_stream_def Let_def)
  obtain r where r: "handle_queued_user_input W sid now ?t m c = Some r"
    and sm: "cn_sm (fst r) = fst (cancel_current_round now sid (cn_sm (touch now sid c)))"
    and rest: "cn_worker (fst r) = cn_worker c"
    using t by (auto simp: handle_queued_user_input_def Let_def case_prod_beta)
  have "connection_step W sid c (Received now m) = r"
    using assms(1,2) others r by (simp add: receive_def Let_def)
  then show ?thesis using assms(3) sm rest cancelled_is_interrupted by (simp add: superseded_def)
qed


subsection \<open>What a client can observe\<close>

fun rounds_alternate :: "string option \<Rightarrow> act list \<Rightarrow> bool" where
  \<comment> \<open>a round begins when none is worked on, and the one that began is completed\<close>
  "rounds_alternate cur [] = True"
| "rounds_alternate cur (Began r b # l) = (cur = None \<and> rounds_alternate (Some r) l)"
| "rounds_alternate cur (Completed r # l) = (cur = Some r \<and> rounds_alternate None l)"
| "rounds_alternate cur (_ # l) = rounds_alternate cur l"

fun round_after :: "string option \<Rightarrow> act list \<Rightarrow> string option" where
  "round_after cur [] = cur"
| "round_after cur (Began r b # l) = round_after (Some r) l"
| "round_after cur (Completed r # l) = round_after None l"
| "round_after cur (_ # l) = round_after cur l"

definition confirms :: "act \<Rightarrow> bool" where
  "confirms a = (case a of Send t _ \<Rightarrow> t = ''registered'' | _ \<Rightarrow> False)"

fun registered_first :: "bool \<Rightarrow> act list \<Rightarrow> bool" where
  \<comment> \<open>no request is accepted before a registration was confirmed\<close>
  "registered_first seen [] = True"
| "registered_first seen (a # l) =
     ((case a of Began r b \<Rightarrow> b \<longrightarrow> seen | _ \<Rightarrow> True) \<and> registered_first (seen \<or> confirms a) l)"

definition interrupt_times :: "act list \<Rightarrow> seconds list" where
  "interrupt_times l = concat (map (\<lambda>a. case a of Cancel_Workflows t \<Rightarrow> [t] | _ \<Rightarrow> []) l)"

lemma interrupt_times_simps:
  "interrupt_times [] = []"
  "interrupt_times (a # l) = (case a of Cancel_Workflows t \<Rightarrow> [t] | _ \<Rightarrow> []) @ interrupt_times l"
  by (simp_all add: interrupt_times_def)

lemma rounds_alternate_append:
  "rounds_alternate cur (k @ l) \<longleftrightarrow> rounds_alternate cur k \<and> rounds_alternate (round_after cur k) l"
  "round_after cur (k @ l) = round_after (round_after cur k) l"
  by (induction cur k rule: rounds_alternate.induct) auto

lemma registered_first_append:
  "registered_first seen (k @ l) \<longleftrightarrow> registered_first seen k \<and> registered_first (seen \<or> list_ex confirms k) l"
  by (induction seen k rule: registered_first.induct) (auto simp: disj_assoc)

lemma interrupt_times_append: "interrupt_times (k @ l) = interrupt_times k @ interrupt_times l"
  by (simp add: interrupt_times_def)

lemma quiet_log:
  assumes "list_all quiet_act l"
  shows "rounds_alternate cur l" "round_after cur l = cur" "registered_first seen l" "interrupt_times l = []"
proof -
  have "rounds_alternate cur l \<and> round_after cur l = cur" using assms
    by (induction l) (auto elim: quiet_act.elims(2))
  moreover have "registered_first seen l" using assms
    by (induction l arbitrary: seen) (auto split: act.split)
  moreover have "interrupt_times l = []" using assms
    by (induction l) (auto simp: interrupt_times_def split: act.split)
  ultimately show "rounds_alternate cur l" "round_after cur l = cur" "registered_first seen l" "interrupt_times l = []"
    by simp_all
qed

definition connection_log :: "gateway_world \<Rightarrow> string \<Rightarrow> connection \<Rightarrow> act list \<Rightarrow> bool" where
  "connection_log W sid c l \<longleftrightarrow>
     rounds_alternate None l \<and> (cn_open c \<or> cn_worker c \<noteq> None \<longrightarrow> round_after None l = cn_worker c)
     \<and> (gf_required (gw_flags W) \<longrightarrow>
          registered_first False l \<and> (is_registered sid (cn_sm c) \<longrightarrow> list_ex confirms l))
     \<and> sorted_wrt (\<lambda>s t. s + 1 \<le> t) (interrupt_times l) \<and> (\<forall>t \<in> set (interrupt_times l). t \<le> cn_last_interrupt c)"

lemma taken_request:
  assumes "get_nowait (cn_queue c) = Some (data, q)"
  obtains r ok rest where "snd (take_request W sid now c) = Began r ok # rest" "list_all quiet_act rest"
    "cn_worker (fst (take_request W sid now c)) = Some r" "cn_open (fst (take_request W sid now c)) = cn_open c"
    "cn_last_interrupt (fst (take_request W sid now c)) = cn_last_interrupt c"
    "is_registered sid (cn_sm (fst (take_request W sid now c))) = is_registered sid (cn_sm c)"
    "gf_required (gw_flags W) \<Longrightarrow> ok \<Longrightarrow> is_registered sid (cn_sm c)"
proof -
  let ?seq = "cn_round_seq c + 1"
  let ?r = "request_round_id data sid ?seq"
  let ?sm = "fst (touch_session now sid (fst (start_round now sid ?r (request_playback_id data ?r) (cn_sm c))))"
  have same: "is_registered sid ?sm = is_registered sid (cn_sm c)"
    "is_registered sid (set_interrupted now sid False ?sm) = is_registered sid (cn_sm c)"
    by (auto simp: is_registered_def touch_session_def start_round_def set_interrupted_def with_session_simps
        session_registered_def split: option.split)
  define refusal where "refusal = turn_refusal W (is_registered sid ?sm) data"
  define errors where "errors = (case refusal of None \<Rightarrow> [] | Some code \<Rightarrow> [Send_Error code])"
  define sm3 where "sm3 = (if refusal = Some ''REGISTER_REQUIRED'' then ?sm else set_interrupted now sid False ?sm)"
  have eq: "take_request W sid now c =
      (c\<lparr>cn_queue := q, cn_round_seq := ?seq, cn_sm := sm3, cn_worker := Some ?r\<rparr>, Began ?r (refusal = None) # errors)"
    using assms by (simp add: take_request_def Let_def refusal_def errors_def sm3_def)
  show ?thesis
  proof (rule that)
    show "snd (take_request W sid now c) = Began ?r (refusal = None) # errors" by (simp add: eq)
    show "list_all quiet_act errors" by (cases refusal) (simp_all add: errors_def)
    show "is_registered sid (cn_sm (fst (take_request W sid now c))) = is_registered sid (cn_sm c)"
      using same by (simp add: eq sm3_def)
    show "is_registered sid (cn_sm c)" if "gf_required (gw_flags W)" "refusal = None"
      using that same(1) by (auto simp: refusal_def turn_refusal_def split: if_splits)
  qed (simp_all add: eq)
qed

lemma registered_log:
  obtains "kept sid (cn_sm c) (cn_sm (fst (handle_registered W sid now answers data c)))"
      "list_all quiet_act (snd (handle_registered W sid now answers data c))"
    | d rest where "snd (handle_registered W sid now answers data c) = Send ''registered'' d # rest"
      "list_all quiet_act rest"
proof -
  obtain rt sm r where eq: "register_robot_session (gw_repr W) (gw_sha W) now sid data (gf_required (gw_flags W)) answers
         (cn_runtime c) (cn_sm c) = (rt, sm, r)" by (metis prod_cases3)
  show ?thesis
  proof (cases r)
    case (Inr g)
    then show ?thesis using that(2) by (simp add: handle_registered_def eq Let_def)
  next
    case (Inl x)
    then have "kept sid (cn_sm c) sm" using kept_register(1) [OF eq] by simp
    then show ?thesis using that(1) Inl
      by (auto simp: handle_registered_def eq Let_def split: register_error.split py_exn.split)
  qed
qed

lemma connection_log_step:
  assumes log: "connection_log W sid c l" and "foreign sid e"
  shows "connection_log W sid (fst (connection_step W sid c e)) (l @ snd (connection_step W sid c e))"
  using assms(2)
proof (cases rule: step_cases [of sid e c W])
  case calm
  then show ?thesis using log kept_registered [of sid "cn_sm c" "cn_sm (fst (connection_step W sid c e))"]
    by (auto simp: connection_log_def calm_def rounds_alternate_append registered_first_append interrupt_times_append quiet_log)
next
  case (interrupts now rest)
  have times: "interrupt_times (l @ snd (connection_step W sid c e)) = interrupt_times l @ [now]"
    using interrupts(1) quiet_log(4) [OF interrupts(2)] by (simp add: interrupt_times_append interrupt_times_simps)
  have before: "t + 1 \<le> now" if "t \<in> set (interrupt_times l)" for t
    using log that interrupts(3) by (force simp: connection_log_def)
  then have "\<forall>t \<in> set (interrupt_times l). t \<le> now" by force
  then show ?thesis unfolding connection_log_def times
    using log interrupts before kept_registered [OF interrupts(5)]
    by (auto simp: connection_log_def rounds_alternate_append registered_first_append quiet_log sorted_wrt_append confirms_def)
next
  case (registers now answers data)
  note frame = handle_registered_frame(1,2) [of W sid now answers data c]
  show ?thesis
  proof (rule registered_log [of sid c W now answers data])
    assume a: "kept sid (cn_sm c) (cn_sm (fst (handle_registered W sid now answers data c)))"
      "list_all quiet_act (snd (handle_registered W sid now answers data c))"
    then show ?thesis unfolding registers(3) using log registers(2) frame kept_registered [OF a(1)]
      by (auto simp: connection_log_def rounds_alternate_append registered_first_append interrupt_times_append quiet_log)
  next
    fix d rest assume a: "snd (handle_registered W sid now answers data c) = Send ''registered'' d # rest"
      "list_all quiet_act rest"
    then show ?thesis unfolding registers(3) using log registers(2) frame
      by (auto simp: connection_log_def rounds_alternate_append registered_first_append interrupt_times_append interrupt_times_simps quiet_log
          confirms_def)
  qed
next
  case (takes now data q)
  show ?thesis
  proof (rule taken_request [OF takes(4), of W sid now])
    fix r ok rest
    assume a: "snd (take_request W sid now c) = Began r ok # rest" "list_all quiet_act rest"
      "cn_worker (fst (take_request W sid now c)) = Some r" "cn_open (fst (take_request W sid now c)) = cn_open c"
      "cn_last_interrupt (fst (take_request W sid now c)) = cn_last_interrupt c"
      "is_registered sid (cn_sm (fst (take_request W sid now c))) = is_registered sid (cn_sm c)"
      and ok: "gf_required (gw_flags W) \<Longrightarrow> ok \<Longrightarrow> is_registered sid (cn_sm c)"
    have "round_after None l = None" using log takes(2,3) by (simp add: connection_log_def)
    then show ?thesis unfolding takes(5) using log a ok
      by (auto simp: connection_log_def rounds_alternate_append registered_first_append interrupt_times_append interrupt_times_simps quiet_log)
  qed
next
  case (completes now r)
  have "is_registered sid (fst (complete_round now sid r (cn_sm c))) \<Longrightarrow> is_registered sid (cn_sm c)"
    by (auto simp: is_registered_def complete_round_def session_registered_def split: option.splits if_splits)
  then show ?thesis using log completes
    by (auto simp: connection_log_def rounds_alternate_append registered_first_append interrupt_times_append interrupt_times_simps)
next
  case leaves
  have "\<not> is_registered sid (delete_session sid (cn_sm c))"
    by (simp add: is_registered_def delete_session_def find_session_def map_of_delete)
  then show ?thesis using log leaves by (simp add: connection_log_def disconnect_def)
qed

interpretation connections: observed_system "connection_step W sid" "connection_log W sid" "foreign sid"
  "\<lambda>l e acts. l @ acts" for W sid
  by unfold_locales (rule connection_log_step)

definition connection_acts ::
  "gateway_world \<Rightarrow> string \<Rightarrow> seconds \<Rightarrow> int \<Rightarrow> gateway_runtime option \<Rightarrow> session_manager \<Rightarrow> connection_event list
    \<Rightarrow> act list" where
  \<comment> \<open>all that a new connection does\<close>
  "connection_acts W sid now maxsize rt sm es =
     concat (run_replies (connection_step W sid) (new_connection now sid maxsize rt sm) es)"

lemma foldl_concat_replies:
  "length es = length rs \<Longrightarrow> foldl (\<lambda>l (e, r). l @ r) l (zip es rs) = l @ concat rs"
  by (induction es rs arbitrary: l rule: list_induct2) simp_all

lemma new_connection_log: "connection_log W sid (new_connection now sid maxsize rt sm) []"
  by (simp add: connection_log_def new_connection_def interrupt_times_simps is_registered_def create_session_def
      new_session_def session_registered_def nonempty_def)

lemma connection_acts_log:
  assumes "\<forall>e \<in> set es. foreign sid e"
  shows "\<exists>c. connection_log W sid c (connection_acts W sid now maxsize rt sm es)"
  using connections.inv_run_log [OF new_connection_log assms, of W now maxsize rt sm]
  unfolding connection_acts_def by (simp only: foldl_concat_replies length_run_replies) auto

definition sample_world :: gateway_world where
  "sample_world =
     \<lparr>gw_repr = (\<lambda>_. []), gw_flt = (\<lambda>_. None), gw_sha = (\<lambda>x. x), gw_lib = exact_lib, gw_bounds = sample_bounds,
      gw_flags = \<lparr>gf_required = True, gf_barge_in = True, gf_active = True, gf_shadow = True, gf_models = True,
        gf_interrupts = True, gf_rtc = False, gf_workflows = True\<rparr>,
      gw_chars = length, gw_max_chars = 2000, gw_events = [''wake_idle''], gw_decode = (\<lambda>_. None), gw_rtc_config = []\<rparr>"

definition sample_text :: ws_message where
  "sample_text = \<lparr>wm_fields = [(''type'', JStr ''text''), (''content'', JStr ''hi'')], wm_bytes = None\<rparr>"

definition busy_connection :: connection where
  "busy_connection = (new_connection 0 ''s'' 1 None (new_manager 5))\<lparr>cn_worker := Some ''r''\<rparr>"




text \<open>Where robots have to prove their identity, no request of a client is accepted before its registration was
  confirmed, in whatever order messages, answers and rounds follow each other.\<close>

theorem nothing_before_registration:
  assumes "\<forall>e \<in> set es. foreign sid e" and "gf_required (gw_flags W)"
  shows "registered_first False (connection_acts W sid now maxsize rt sm es)"
  using connection_acts_log [OF assms(1)] assms(2) unfolding connection_log_def by blast

lemma nothing_before_registration_witness:
  "registered_first False
    (connection_acts sample_world ''s'' 0 1 None (new_manager 5) [Received 1 sample_text, Take 2])"
  by (rule nothing_before_registration) (simp_all add: sample_world_def)

text \<open>Two interruptions of a client that take effect are at least a second apart.\<close>

theorem interruptions_keep_distance:
  assumes "\<forall>e \<in> set es. foreign sid e"
  shows "sorted_wrt (\<lambda>s t. s + 1 \<le> t) (interrupt_times (connection_acts W sid now maxsize rt sm es))"
  using connection_acts_log [OF assms] unfolding connection_log_def by blast

lemma interruptions_keep_distance_witness:
  "sorted_wrt (\<lambda>s t. s + 1 \<le> t)
    (interrupt_times (connection_acts sample_world ''s'' 0 1 None (new_manager 5) [Received 1 sample_text, Take 2]))"
  by (rule interruptions_keep_distance) simp

subsection \<open>Two gaps\<close>

lemma round_starts_fresh: "\<not> is_interrupted sid (cn_sm (fst (take_request W sid now c))) \<or> get_nowait (cn_queue c) = None"
  by (auto simp: take_request_def Let_def is_interrupted_def set_interrupted_def touch_session_def start_round_def
      with_session_simps split: option.split)

text \<open>An interruption does not drop the request that waits: its round starts as if nothing had been said.\<close>

lemma interrupt_spares_queued:
  assumes "jget (wm_fields m) ''type'' = JStr ''interrupt''"
  shows "cn_queue (fst (connection_step W sid c (Received now m))) = cn_queue c"
proof -
  have "receive W sid now m c = the (handle_interrupt W sid now ''interrupt'' c)"
    using assms by (simp add: receive_def Let_def handle_rtc_signaling_def handle_probe_def handle_audio_stream_def
        handle_queued_user_input_def handle_keepalive_def handle_playback_report_def handle_interrupt_def)
  then show ?thesis
    by (auto simp: handle_interrupt_def Let_def case_prod_beta cancel_for_new_input_def)
qed

text \<open>A client event cancels the round, and is queued only after the cancellation was sent; an older request
  that is taken in between runs on although it was superseded.\<close>

lemma client_event_gap:
  assumes "cn_receiver c = Sending_Cancel data" "cn_open c" "cn_worker c = None" "get_nowait (cn_queue c) = Some (old, q)"
  shows "cn_worker (run_state (connection_step W sid) c [Take t1, Cancel_Sent t2]) \<noteq> None
    \<and> \<not> is_interrupted sid (cn_sm (run_state (connection_step W sid) c [Take t1, Cancel_Sent t2]))"
proof -
  have "cn_receiver (fst (take_request W sid t1 c)) = Sending_Cancel data" "cn_worker (fst (take_request W sid t1 c)) \<noteq> None"
    using assms by (simp_all add: take_request_def Let_def)
  then show ?thesis using round_starts_fresh [of sid W t1 c] assms by (simp add: run_simps)
qed

end
