(* ===== verification/Spec2Isabelle.thy ===== *)
theory Spec2Isabelle
  imports Playback_Flow Workflow_Runtime_Theorems Turn_Gate Request_Queue Session_Manager_Facts
    Llm_Session_Facts Voice_Session Trace_Recorder_Facts Text_Streaming_Facts
    Service_Runtime Playback_Report Audio_Frame
    Singing_Pages Quiz_Facts Visitor_Agent Cognitive_Facts Story_Facts Agent_Turn Agent_Tools
    Tool_Guard_Facts Router_State Quick_Replies_Facts Regular_Texts
    Tool_Router_Facts Tool_Rounds_Facts
    Llm_Stream_Facts Gateway_Connection_Facts
begin

text \<open>
  A verification library for the Python services of a real-time voice assistant: a gateway that
  holds the clients' WebSocket sessions, a language model service that plans and executes tasks
  of several steps, and the configuration both run with.

  \<^bold>\<open>How the parts work together.\<close>  A client's words reach the gateway, which opens a round in its
  session.  For a complex request the coordinator of the gateway asks the workflow service for a
  plan; the service has the planner produce one, and the validator accept it.  The coordinator
  then requests the steps one by one and streams the answer to the client as speech.  A terminal
  step (one that ends the dialogue or sends the robot away) must wait until the client has
  reported that it played the answer: the report travels through the playback barrier.  Robots
  register their sessions against the configuration that was last applied.  Other turns may be
  taken over by an agent of the language model service (a game, a registration of visitors, a
  screening, a story), and songs are looked up in a catalog.

  \<^bold>\<open>The theories\<close> (paths are below \<^verbatim>\<open>src/\<close>):

  \<^item> \<open>Prelude\<close>, \<open>Transition\<close>, \<open>Json\<close>: results with errors, Python strings and dictionaries; the
    locales for components that react to events (an invariant, a forward order, an observed log,
    a simulation), interpreted by every stateful component; JSON values with Python's \<open>==\<close>,
    \<open>in\<close>, \<open>int()\<close> and \<open>str()\<close>, each with the exceptions it raises.
  \<^item> \<open>Workflow_Protocol\<close>, \<open>Workflow_Plan_Facts\<close> (\<^verbatim>\<open>llm/workflow_protocol.py\<close>): parsing and
    validation of plans.  An accepted plan is authorised step by step, acyclic, listed in an
    executable order, and ends with the answer and then the terminal step.
  \<^item> \<open>Workflow_Planner\<close>, \<open>Workflow_Planner_Facts\<close> (\<^verbatim>\<open>llm/workflow_planner.py\<close>): the retry loop
    around the model, and the conversation it shows the model.
  \<^item> \<open>Workflow_Runtime\<close>, \<open>Workflow_Runtime_Facts\<close>, \<open>Workflow_Runtime_Theorems\<close>
    (\<^verbatim>\<open>llm/workflow_runtime_service.py\<close>): the store of planned workflows and the requests on it.
    Requests await a callback in the middle; the state therefore holds the operations in flight
    and a run is any interleaving of begins, ends, hang-ups and cancellations.
  \<^item> \<open>Playback_Barrier\<close>, \<open>Playback_Barrier_Facts\<close> (\<^verbatim>\<open>gateway/workflow_playback_barrier.py\<close>):
    waiters, cached early reports and the futures that carry the results.
  \<^item> \<open>Workflow_Coordinator\<close>, \<open>Workflow_Coordinator_Facts\<close> (\<^verbatim>\<open>gateway/workflow_coordinator.py\<close>): a run
    as a state machine over the answers it awaits.  \<open>Playback_Flow\<close> composes it with the barrier
    and the clients' reports.
  \<^item> \<open>Turn_Gate\<close> (\<^verbatim>\<open>gateway/turn_gate_policy.py\<close>), \<open>Request_Queue\<close>
    (\<^verbatim>\<open>gateway/request_queue.py\<close>), \<open>Session_Manager\<close>, \<open>Session_Manager_Facts\<close>
    (\<^verbatim>\<open>gateway/session_manager.py\<close>): when an utterance is taken as finished, the mailbox of the
    latest request, the sessions with their rounds.
  \<^item> \<open>Llm_Session\<close>, \<open>Llm_Session_Facts\<close> (\<^verbatim>\<open>llm/session_manager.py\<close>): the history of the language
    model service, and what of it the planner sees.
  \<^item> \<open>Voice_Protocol\<close>, \<open>Voice_Session\<close> (\<^verbatim>\<open>gateway/internal_voice_protocol.py\<close>,
    \<^verbatim>\<open>gateway/internal_voice_session_state.py\<close>): envelopes between gateways and the state they imply.
  \<^item> \<open>Text_Streaming\<close>, \<open>Text_Streaming_Facts\<close> (\<^verbatim>\<open>gateway/text_streaming.py\<close>,
    \<^verbatim>\<open>singing/protocol.py\<close>): control marks in the streamed text of an answer.
  \<^item> \<open>Trace_Recorder\<close>, \<open>Trace_Recorder_Facts\<close> (\<^verbatim>\<open>gateway/trace_recorder.py\<close>) and
    \<open>Playback_Report\<close> (\<^verbatim>\<open>gateway/playback_report.py\<close>): the bounded trace of rounds and the
    clients' reports that enter it.
  \<^item> \<open>Config_Models\<close>, \<open>Config_Snapshot\<close> (\<^verbatim>\<open>server_config/models.py\<close>,
    \<^verbatim>\<open>server_config/snapshot.py\<close>), \<open>Gateway_Runtime\<close>, \<open>Gateway_Runtime_Facts\<close>
    (\<^verbatim>\<open>gateway/runtime_state.py\<close>, \<^verbatim>\<open>gateway/robot_session.py\<close>, \<^verbatim>\<open>server_config/secrets.py\<close>): the
    validated configuration, its reload, and the registration of robots on it.  \<open>Service_Runtime\<close>
    (\<^verbatim>\<open>llm/bot_manager.py\<close>, \<^verbatim>\<open>llm/runtime_state.py\<close>, \<^verbatim>\<open>tts/runtime_state.py\<close>): the same
    configuration in the other services, and that they agree on the bots.
  \<^item> \<open>Audio_Frame\<close> (\<^verbatim>\<open>gateway/audio_protocol.py\<close>): the binary frames of audio, over bytes.
  \<^item> \<open>Unicode_Text\<close>: texts as lists of code points and dynamic values over them, for the components
    whose data are Chinese; the case tables and digits of Unicode, \<open>float()\<close> of a text, the
    text of a value and the rounding of floats are the fields of one argument, \<open>pylib\<close>.
  \<^item> \<open>Song_Matcher\<close>, \<open>Edit_Distance\<close>, \<open>Song_Matcher_Facts\<close> (\<^verbatim>\<open>singing/matcher.py\<close>): which song a request
    names: the query it contains, the edit distance, the scores and the verdict.
    \<open>Singing_Library\<close>, \<open>Singing_Service\<close>, \<open>Singing_Facts\<close>, \<open>Singing_Pages\<close>
    (\<^verbatim>\<open>singing/library.py\<close>, \<^verbatim>\<open>singing/service.py\<close>): the catalog, its type, playing and listing.
  \<^item> \<open>Agent_Texts\<close>, \<open>Agent_Runtime\<close> (\<^verbatim>\<open>llm/agent_runtime.py\<close>): key words, patterns and the registry of
    agents; \<open>Quiz_Agents\<close>, \<open>Quiz_Facts\<close> (\<^verbatim>\<open>llm/agents/riddle.py\<close>, \<^verbatim>\<open>llm/agents/truth_quiz.py\<close>),
    \<open>Visitor_Agent\<close>, \<open>Cognitive_Agent\<close>, \<open>Cognitive_Facts\<close>, \<open>Story_Agent\<close>, \<open>Story_Facts\<close> (the modules of
    these names in \<^verbatim>\<open>llm/agents/\<close>): each dialogue as a function of its state and what is said, with
    the invariant of its states.  \<open>Agent_Tools\<close> (\<^verbatim>\<open>llm/agent_tools.py\<close>): where reports go.
    \<open>Agent_Turn\<close> (\<^verbatim>\<open>llm/llm_grpc_server.py\<close>): who takes a turn and how much of the reply is sent.
  \<^item> \<open>Tool_Names\<close>, \<open>Mcp_Manager\<close>, \<open>Mcp_Manager_Facts\<close> (\<^verbatim>\<open>llm/mcp_manager.py\<close>): the names tools have for the
    model, the table of tools, and the attempts to connect with the callers that wait for them.
    \<open>Tool_Guard\<close>, \<open>Tool_Guard_Facts\<close> (\<^verbatim>\<open>llm/llm_grpc_server.py\<close>): what is done to a call of a tool
    before it goes out, in a chat turn and in a step of a workflow.  \<open>Router_State\<close> (same file): the
    routes kept for a following request and the history of the router.
  \<^item> \<open>Quick_Replies\<close>, \<open>Quick_Replies_Facts\<close> (\<^verbatim>\<open>voice_quick_replies.py\<close>): the short phrases spoken while
    something is under way, drawn from bags without repeating one.
  \<^item> \<open>Regular_Texts\<close>: the regular expressions the router and the client use, as values with a matcher
    that tries alternatives in the order of Python's.  \<open>Router_Tables\<close>, \<open>Tool_Router\<close>, \<open>Tool_Router_Facts\<close>
    (\<^verbatim>\<open>llm/tool_router.py\<close>): what the words of a user ask for, and the tool that is called at once.
  \<^item> \<open>Tool_Results\<close>, \<open>Task_Fallback\<close>, \<open>Tool_Rounds\<close>, \<open>Tool_Rounds_Facts\<close> (\<^verbatim>\<open>llm/llm_client.py\<close>): the dialogue with
    tools.  What the results of tools mean, the calls that are built when the model makes none,
    and the rounds of asking the model and running its calls; the answers of the model and of
    the tools are arguments.  \<open>Llm_Stream\<close>, \<open>Llm_Stream_Facts\<close> (same file): how the chunks a provider
    streams become texts and calls of tools, and the thread that hands them to the event loop, as
    a machine whose steps interleave in any order.
  \<^item> \<open>Opus_Stream\<close> (\<^verbatim>\<open>gateway/opus_audio.py\<close>): the packet format and the assembly of an utterance.
    \<open>Turn_Probe\<close> (\<^verbatim>\<open>gateway/barge_in.py\<close>, \<^verbatim>\<open>gateway/gateway_server.py\<close>): the probes that ask whether
    speech interrupts the robot or ends a turn.  \<open>Gateway_Connection\<close>, \<open>Gateway_Connection_Facts\<close>
    (\<^verbatim>\<open>gateway/gateway_server.py\<close>, \<^verbatim>\<open>gateway/rtc_signaling.py\<close>): one WebSocket connection, as the
    interleaving of the task that receives messages and the worker that takes the latest request
    from the mailbox; interruptions, registration and disconnection included.

  \<^bold>\<open>How code becomes definitions.\<close>  A class is a record of its attributes and a method a function
  from the state to the next state and the result; an exception is an \<open>Inl\<close>.  The
  sections under one lock, and what runs between two \<open>await\<close>s, are single steps; a component
  is the function that maps its state and an event to the next state and a reply, and
  \<open>run\<close> feeds it any list of events.  Clock readings, generated ids, the answers of models,
  tools and the database, and functions of libraries (\<open>json.loads\<close>, \<open>float()\<close> of a text, a hash)
  are arguments.  Objects that several requests share (workflows, futures) live in explicit
  stores.

  \<^bold>\<open>Bounds.\<close>  There is no fuel: loops over data are structural or come with a measure (the
  topological sort, the ancestor search, the scanners of texts, the trimming of the recorder).
  The search for a cycle, which the code bounds by its recursion over the dependencies, terminates
  by the steps not yet visited.  The planner's loop counts the attempts left, the dialogue with tools the rounds
  left (the parameter \<open>max_tool_rounds\<close>, at least one).

  \<^bold>\<open>Not modelled.\<close>  Outside the singing library and the agents: the prose of prompts and messages
  (an error is its code) and code points above 255, so a literal that is not ASCII stands as its
  UTF-8 bytes; floats there are rationals without rounding.  Everywhere: infinities and NaN;
  logging; locks other than as atomic steps; the optional observers of the coordinator other
  than as exceptions they raise.  Of the services: in the gateway what a round does once its request was
  admitted (recognition, the answer and its speech as streams), its endpoint for other gateways
  and its traces; the requests to model providers (their streams are inputs), gRPC clients, audio codecs, the repository's SQL, the
  transports of the MCP manager, speech services, the discovery of agent modules, generated code,
  scripts, and the Go, Rust and C programs.

  \<^bold>\<open>Plan.\<close>  Next are the streaming of a round's answer and speech in \<^verbatim>\<open>gateway/gateway_server.py\<close>, the
  speech pipeline of a workflow (\<^verbatim>\<open>gateway/workflow_tts_pipeline.py\<close>) and the classification of
  requests by a model in \<^verbatim>\<open>llm/llm_grpc_server.py\<close>.
\<close>

end
